(* ===== verification/Prelude.thy ===== *)
theory Prelude
  imports Complex_Main "HOL-Library.Sublist" "HOL-Library.Multiset" "HOL-Library.Product_Lexorder"
begin

text \<open>
  The vocabulary the components share: Python exceptions and results, points in time,
  decimal renderings of integers and Python's \<open>int(str)\<close>, database tables as lists of
  rows, and the SQLAlchemy session as a pair of a working and a committed database.

  Conventions of the whole development:
  \<^item> a point in time (\<open>datetime.utcnow()\<close>, a TIMESTAMP column) is an \<open>int\<close> number of
    microseconds, the resolution of Python's \<open>datetime\<close>; an operation takes the clock
    reading \<open>now\<close> as an argument and uses it for each of its \<open>utcnow()\<close> calls;
  \<^item> a Python \<open>int\<close> is an \<open>int\<close>, a \<open>Decimal\<close> and a Numeric column is a \<open>rat\<close>, a \<open>str\<close>
    is a \<open>string\<close>, \<open>None\<close> is \<^const>\<open>None\<close>, a JSON object of strings is an association list;
  \<^item> a table is a list of rows; the order of the list is the order in which the engine
    returns the rows of a query without ORDER BY, and since every theorem is about every
    list it does not depend on that order;
  \<^item> a raised exception is an \<open>exn\<close>, carried in the left summand of a result.
\<close>

section \<open>Automation\<close>

named_theorems table_simps \<open>lookups after inserts, updates and deletes of table rows\<close>
named_theorems session_simps \<open>the working and the committed database after a session call\<close>

section \<open>Exceptions and results\<close>

text \<open>An exception is its class name and its message; \<open>str(e)\<close> is the message.\<close>

datatype exn = Exn (exn_class: string) (exn_msg: string)

abbreviation ValueError :: "string \<Rightarrow> exn" where
  "ValueError \<equiv> Exn ''ValueError''"

abbreviation ValidationError :: "string \<Rightarrow> exn" where
  "ValidationError \<equiv> Exn ''ValidationError''"

abbreviation BillingError :: "string \<Rightarrow> exn" where
  "BillingError \<equiv> Exn ''BillingError''"

abbreviation RuntimeError :: "string \<Rightarrow> exn" where
  "RuntimeError \<equiv> Exn ''RuntimeError''"

abbreviation IntegrityError :: "string \<Rightarrow> exn" where
  "IntegrityError \<equiv> Exn ''IntegrityError''"

abbreviation UnboundLocalError :: "string \<Rightarrow> exn" where
  "UnboundLocalError \<equiv> Exn ''UnboundLocalError''"

abbreviation MultipleResultsFound :: exn where
  "MultipleResultsFound \<equiv>
     Exn ''MultipleResultsFound'' ''Multiple rows were found when one or none was required''"

text \<open>
  A stateful operation that may raise returns its result or exception together with the state
  it leaves behind; \<open>andthen\<close> goes on with the next statement unless one was raised.
\<close>

definition andthen ::
    "(exn + 'a) \<times> 's \<Rightarrow> ('a \<Rightarrow> 's \<Rightarrow> (exn + 'b) \<times> 's) \<Rightarrow> (exn + 'b) \<times> 's" where
  "andthen m f = (case m of (Inl e, s) \<Rightarrow> (Inl e, s) | (Inr a, s) \<Rightarrow> f a s)"

lemma andthen_simps [simp]:
  "andthen (Inl e, s) f = (Inl e, s)"
  "andthen (Inr a, s) f = f a s"
  by (simp_all add: andthen_def)

lemma andthen_Inr:
  "andthen m f = (Inr b, s') \<longleftrightarrow> (\<exists>a s. m = (Inr a, s) \<and> f a s = (Inr b, s'))"
  by (auto simp: andthen_def split: prod.splits sum.splits)

text \<open>\<open>try: return m; except Exception: return d\<close>.\<close>

definition catching :: "'a \<Rightarrow> (exn + 'a) \<times> 's \<Rightarrow> 'a \<times> 's" where
  "catching d m = (case m of (Inl e, s) \<Rightarrow> (d, s) | (Inr a, s) \<Rightarrow> (a, s))"

lemma catching_simps [simp]:
  "catching d (Inl e, s) = (d, s)"
  "catching d (Inr a, s) = (a, s)"
  by (simp_all add: catching_def)

section \<open>Time\<close>

type_synonym datetime = int
type_synonym timedelta = int

definition seconds :: "int \<Rightarrow> timedelta" where
  "seconds n = n * 1000000"

definition minutes :: "int \<Rightarrow> timedelta" where
  "minutes n = seconds (n * 60)"

definition hours :: "int \<Rightarrow> timedelta" where
  "hours n = seconds (n * 3600)"

definition days :: "int \<Rightarrow> timedelta" where
  "days n = seconds (n * 86400)"

lemmas timedelta_defs = seconds_def minutes_def hours_def days_def

section \<open>Rounding\<close>

text \<open>Python's \<open>round\<close>: to the nearest integer, ties to the even one.\<close>

definition py_round :: "rat \<Rightarrow> int" where
  "py_round x =
     (let f = \<lfloor>x\<rfloor>; d = x - of_int f
      in if d < 1 / 2 then f else if d > 1 / 2 then f + 1 else if even f then f else f + 1)"

text \<open>Python's \<open>int\<close> on a float: truncation towards zero.\<close>

definition py_trunc :: "rat \<Rightarrow> int" where
  "py_trunc x = (if x < 0 then - \<lfloor>- x\<rfloor> else \<lfloor>x\<rfloor>)"

lemma py_round_of_int [simp]: "py_round (of_int n) = n"
  by (simp add: py_round_def)

lemma py_round_bounds: "of_int (py_round x) - 1 / 2 \<le> x \<and> x \<le> of_int (py_round x) + 1 / 2"
  unfolding py_round_def Let_def by (auto split: if_splits) linarith+

lemma py_round_mono_nonneg: "0 \<le> x \<Longrightarrow> 0 \<le> py_round x"
  unfolding py_round_def Let_def by (auto split: if_splits)

section \<open>Optional values\<close>

text \<open>Python's truth test of an optional string: neither \<open>None\<close> nor empty.\<close>

definition truthy :: "string option \<Rightarrow> bool" where
  "truthy v = (case v of None \<Rightarrow> False | Some s \<Rightarrow> s \<noteq> [])"

text \<open>Python's truth test of an optional integer: neither \<open>None\<close> nor zero.\<close>

definition truthy_int :: "int option \<Rightarrow> bool" where
  "truthy_int v = (case v of None \<Rightarrow> False | Some n \<Rightarrow> n \<noteq> 0)"

text \<open>\<open>a or b\<close> on an optional string.\<close>

definition or_str :: "string option \<Rightarrow> string \<Rightarrow> string" where
  "or_str v d = (case v of None \<Rightarrow> d | Some s \<Rightarrow> if s = [] then d else s)"

lemma truthy_simps [simp]: "\<not> truthy None" "truthy (Some s) \<longleftrightarrow> s \<noteq> []"
  by (simp_all add: truthy_def)

lemma truthy_int_simps [simp]: "\<not> truthy_int None" "truthy_int (Some n) \<longleftrightarrow> n \<noteq> 0"
  by (simp_all add: truthy_int_def)

section \<open>Decimal renderings\<close>

definition digit :: "nat \<Rightarrow> char" where
  "digit d = char_of (48 + d)"

definition isdigit :: "char \<Rightarrow> bool" where
  "isdigit c \<longleftrightarrow> 48 \<le> (of_char c :: nat) \<and> (of_char c :: nat) \<le> 57"

definition digit_val :: "char \<Rightarrow> nat" where
  "digit_val c = of_char c - 48"

fun str_nat :: "nat \<Rightarrow> string" where
  "str_nat n = (if n < 10 then [digit n] else str_nat (n div 10) @ [digit (n mod 10)])"

declare str_nat.simps [simp del]

definition str_int :: "int \<Rightarrow> string" where
  "str_int i = (if i < 0 then CHR ''-'' # str_nat (nat (- i)) else str_nat (nat i))"

text \<open>The format specification \<open>{n:0wd}\<close>, for a number that is not negative.\<close>

definition zfill :: "nat \<Rightarrow> string \<Rightarrow> string" where
  "zfill w s = replicate (w - length s) CHR ''0'' @ s"

lemma digit_isdigit [simp]: "d < 10 \<Longrightarrow> isdigit (digit d)"
  by (simp add: digit_def isdigit_def)

lemma digit_val_digit [simp]: "d < 10 \<Longrightarrow> digit_val (digit d) = d"
  by (simp add: digit_def digit_val_def)

lemma str_nat_nonempty [simp]: "str_nat n \<noteq> []"
  by (subst str_nat.simps) simp

lemma str_nat_digits: "\<forall>c \<in> set (str_nat n). isdigit c"
proof (induction n rule: str_nat.induct)
  case (1 n)
  then show ?case by (cases "n < 10") (auto simp: str_nat.simps [of n])
qed

text \<open>
  Reading a run of decimal digits as Python's \<open>int(str)\<close> does: a single underscore may
  stand between two digits. The flag says whether the last character was a digit.
\<close>

fun digits_val :: "bool \<Rightarrow> nat \<Rightarrow> string \<Rightarrow> nat option" where
  "digits_val prev acc [] = (if prev then Some acc else None)"
| "digits_val prev acc (c # cs) =
     (if isdigit c then digits_val True (acc * 10 + digit_val c) cs
      else if c = CHR ''_'' \<and> prev then digits_val False acc cs
      else None)"

definition is_space :: "char \<Rightarrow> bool" where
  "is_space c \<longleftrightarrow> (of_char c :: nat) \<in> {9, 10, 11, 12, 13, 28, 29, 30, 31, 32}"

definition lstrip :: "string \<Rightarrow> string" where
  "lstrip s = dropWhile is_space s"

definition strip :: "string \<Rightarrow> string" where
  "strip s = rev (lstrip (rev (lstrip s)))"

text \<open>Python's \<open>int(s)\<close> on an ASCII string; \<^const>\<open>None\<close> is the ValueError.\<close>

definition parse_int :: "string \<Rightarrow> int option" where
  "parse_int s =
     (case strip s of
        [] \<Rightarrow> None
      | c # cs \<Rightarrow>
          if c = CHR ''-'' then map_option (\<lambda>n. - int n) (digits_val False 0 cs)
          else if c = CHR ''+'' then map_option int (digits_val False 0 cs)
          else map_option int (digits_val False 0 (c # cs)))"

lemma digits_val_append_digit:
  assumes "digits_val p a xs = Some v" "isdigit c"
  shows "digits_val p a (xs @ [c]) = Some (v * 10 + digit_val c)"
  using assms by (induction p a xs rule: digits_val.induct) (auto split: if_splits)

lemma digits_val_str_nat: "digits_val False 0 (str_nat n) = Some n"
proof (induction n rule: str_nat.induct)
  case (1 n)
  show ?case
  proof (cases "n < 10")
    case True
    then show ?thesis by (simp add: str_nat.simps [of n])
  next
    case False
    with 1 have "digits_val False 0 (str_nat (n div 10)) = Some (n div 10)" by simp
    from digits_val_append_digit [OF this, of "digit (n mod 10)"] False
    show ?thesis by (simp add: str_nat.simps [of n])
  qed
qed

lemma isdigit_not_space: "isdigit c \<Longrightarrow> \<not> is_space c"
  by (auto simp: isdigit_def is_space_def)

lemma lstrip_no_space: "\<forall>c \<in> set s. \<not> is_space c \<Longrightarrow> lstrip s = s"
  by (cases s) (auto simp: lstrip_def)

lemma strip_no_space: "\<forall>c \<in> set s. \<not> is_space c \<Longrightarrow> strip s = s"
  by (simp add: strip_def lstrip_no_space)

lemma isdigit_neq: "isdigit c \<Longrightarrow> c \<noteq> CHR ''-'' \<and> c \<noteq> CHR ''+'' \<and> c \<noteq> CHR ''|''"
  by (auto simp: isdigit_def)

text \<open>\<open>int(str(i))\<close> is \<open>i\<close>.\<close>

lemma parse_int_str_int [simp]: "parse_int (str_int i) = Some i"
proof -
  have dig: "\<forall>c \<in> set (str_nat n). isdigit c \<and> \<not> is_space c" for n
    using str_nat_digits isdigit_not_space by blast
  show ?thesis
  proof (cases "i < 0")
    case True
    have "strip (CHR ''-'' # str_nat (nat (- i))) = CHR ''-'' # str_nat (nat (- i))"
      using dig by (intro strip_no_space) (auto simp: is_space_def)
    with True show ?thesis by (simp add: parse_int_def str_int_def digits_val_str_nat)
  next
    case False
    have st: "strip (str_nat (nat i)) = str_nat (nat i)"
      using dig by (intro strip_no_space) auto
    obtain c cs where c: "str_nat (nat i) = c # cs"
      by (cases "str_nat (nat i)") auto
    have "isdigit c" using dig [of "nat i"] c by simp
    then have "c \<noteq> CHR ''-''" "c \<noteq> CHR ''+''" using isdigit_neq by blast+
    then show ?thesis
      using False st c digits_val_str_nat [of "nat i"]
      by (simp add: parse_int_def str_int_def del: digits_val.simps)
  qed
qed

lemma str_int_inject [simp]: "str_int i = str_int j \<longleftrightarrow> i = j"
  by (metis option.inject parse_int_str_int)

lemma str_nat_inject [simp]: "str_nat m = str_nat n \<longleftrightarrow> m = n"
  by (metis digits_val_str_nat option.inject)

lemma str_int_chars: "c \<in> set (str_int i) \<Longrightarrow> isdigit c \<or> c = CHR ''-''"
  using str_nat_digits by (auto simp: str_int_def split: if_splits)

lemma str_int_nonempty [simp]: "str_int i \<noteq> []"
  by (simp add: str_int_def)

text \<open>Zero padding does not change the value a numeral denotes.\<close>

lemma zero_digit: "isdigit CHR ''0''" "digit_val CHR ''0'' = 0"
  by (simp_all add: isdigit_def digit_val_def)

lemma digits_val_zeros:
  "digits_val p 0 (replicate (Suc k) CHR ''0'' @ s) = digits_val True 0 s"
  by (induction k arbitrary: p) (simp_all add: zero_digit)

lemma digits_val_flag:
  "s \<noteq> [] \<Longrightarrow> isdigit (hd s) \<Longrightarrow> digits_val True a s = digits_val False a s"
  by (cases s) auto

lemma digits_val_zfill: "digits_val False 0 (zfill w (str_nat n)) = Some n"
proof (cases "w - length (str_nat n) > 0")
  case True
  have "isdigit (hd (str_nat n))"
    using str_nat_digits by (metis hd_in_set str_nat_nonempty)
  moreover obtain k where "w - length (str_nat n) = Suc k"
    using True by (cases "w - length (str_nat n)") auto
  ultimately show ?thesis
    using digits_val_zeros [of False k "str_nat n"]
    by (simp add: zfill_def digits_val_flag digits_val_str_nat)
next
  case False
  then show ?thesis by (simp add: zfill_def digits_val_str_nat)
qed

lemma zfill_inj: "zfill w (str_nat m) = zfill v (str_nat n) \<Longrightarrow> m = n"
  by (metis digits_val_zfill option.inject)

section \<open>Tables\<close>

text \<open>
  \<open>db.get(Model, k)\<close> is \<open>tbl_get\<close> on the primary key, \<open>select(...).where(P)\<close> is
  \<^const>\<open>filter\<close>, changing the attributes of a loaded row is \<open>tbl_upd\<close>, and
  \<open>scalar_one_or_none()\<close> raises when there is more than one row.
\<close>

definition tbl_get :: "('r \<Rightarrow> 'k) \<Rightarrow> 'k \<Rightarrow> 'r list \<Rightarrow> 'r option" where
  "tbl_get key k t = find (\<lambda>r. key r = k) t"

definition tbl_upd :: "('r \<Rightarrow> 'k) \<Rightarrow> 'k \<Rightarrow> ('r \<Rightarrow> 'r) \<Rightarrow> 'r list \<Rightarrow> 'r list" where
  "tbl_upd key k f t = map (\<lambda>r. if key r = k then f r else r) t"

definition upd_where :: "('r \<Rightarrow> bool) \<Rightarrow> ('r \<Rightarrow> 'r) \<Rightarrow> 'r list \<Rightarrow> 'r list" where
  "upd_where P f t = map (\<lambda>r. if P r then f r else r) t"

definition scalar_one_or_none :: "'r list \<Rightarrow> exn + 'r option" where
  "scalar_one_or_none rs =
     (case rs of [] \<Rightarrow> Inr None | [r] \<Rightarrow> Inr (Some r) | _ \<Rightarrow> Inl MultipleResultsFound)"

definition uniq :: "('r \<Rightarrow> 'k) \<Rightarrow> 'r list \<Rightarrow> bool" where
  "uniq key t = distinct (map key t)"

definition one_of :: "'r list \<Rightarrow> 'r option" where
  \<comment> \<open>\<open>.limit(1)\<close> followed by \<open>scalar_one_or_none()\<close>\<close>
  "one_of rs = (case rs of [] \<Rightarrow> None | r # _ \<Rightarrow> Some r)"

lemma tbl_get_Some [dest]: "tbl_get key k t = Some r \<Longrightarrow> r \<in> set t \<and> key r = k"
  by (auto simp: tbl_get_def find_Some_iff)

lemma tbl_get_None: "tbl_get key k t = None \<longleftrightarrow> k \<notin> key ` set t"
  by (auto simp: tbl_get_def find_None_iff)

lemma tbl_get_Nil [table_simps]: "tbl_get key k [] = None"
  by (simp add: tbl_get_def)

lemma tbl_get_Cons [table_simps]:
  "tbl_get key k (r # t) = (if key r = k then Some r else tbl_get key k t)"
  by (simp add: tbl_get_def)

lemma tbl_get_append [table_simps]:
  "tbl_get key k (t @ u) = (case tbl_get key k t of None \<Rightarrow> tbl_get key k u | Some r \<Rightarrow> Some r)"
  by (induction t) (simp_all add: table_simps)

text \<open>Updates that leave the key alone: what a lookup returns afterwards.\<close>

lemma tbl_get_tbl_upd [table_simps]:
  assumes "\<And>r. key (f r) = key r"
  shows "tbl_get key k (tbl_upd key j f t) =
    (if k = j then map_option f (tbl_get key k t) else tbl_get key k t)"
  using assms by (induction t) (auto simp: table_simps tbl_upd_def)

lemma tbl_get_upd_where [table_simps]:
  assumes "\<And>r. key (f r) = key r"
  shows "tbl_get key k (upd_where P f t) =
    map_option (\<lambda>r. if P r then f r else r) (tbl_get key k t)"
  using assms by (induction t) (auto simp: table_simps upd_where_def)

lemma map_key_tbl_upd [table_simps]:
  "(\<And>r. key (f r) = key r) \<Longrightarrow> map key (tbl_upd key' j f t) = map key t"
  by (simp add: tbl_upd_def)

lemma map_key_upd_where [table_simps]:
  "(\<And>r. key (f r) = key r) \<Longrightarrow> map key (upd_where P f t) = map key t"
  by (simp add: upd_where_def)

lemma length_tbl_upd [simp]: "length (tbl_upd key k f t) = length t"
  by (simp add: tbl_upd_def)

lemma length_upd_where [simp]: "length (upd_where P f t) = length t"
  by (simp add: upd_where_def)

lemma tbl_upd_absent: "tbl_get key k t = None \<Longrightarrow> tbl_upd key k f t = t"
  by (auto simp: tbl_get_None tbl_upd_def intro!: map_idI)

lemma in_tbl_upd: "r \<in> set (tbl_upd key k f t) \<longleftrightarrow>
    (\<exists>q \<in> set t. r = (if key q = k then f q else q))"
  unfolding tbl_upd_def set_map image_iff ..

lemma in_upd_where: "r \<in> set (upd_where P f t) \<longleftrightarrow>
    (\<exists>q \<in> set t. r = (if P q then f q else q))"
  unfolding upd_where_def set_map image_iff ..

lemma uniq_tbl_upd [table_simps]:
  "(\<And>r. key (f r) = key r) \<Longrightarrow> uniq key (tbl_upd key' j f t) = uniq key t"
  by (simp add: uniq_def map_key_tbl_upd)

lemma uniq_delete: "uniq key (as @ a # bs) \<Longrightarrow> uniq key (as @ bs)"
  by (auto simp: uniq_def)

lemma uniq_insert: "uniq key (as @ bs) \<Longrightarrow> key b \<notin> key ` set (as @ bs) \<Longrightarrow> uniq key (as @ b # bs)"
  by (auto simp: uniq_def)

lemma filter_single_mem: "filter P t = [x] \<Longrightarrow> x \<in> set t \<and> P x"
  by (metis Cons_eq_filter_iff in_set_conv_decomp)

lemma filter_tbl_upd_one:
  assumes "filter P t = [x]" "uniq key t" "P y"
  shows "filter P (tbl_upd key (key x) (\<lambda>_. y) t) = [y]"
proof -
  have x: "x \<in> set t" "P x" using filter_single_mem [OF assms(1)] by simp_all
  have same: "z = x" if "z \<in> set t" "key z = key x" for z using assms(2) that x(1) by (auto simp: uniq_def distinct_map inj_on_def)
  have "filter P (tbl_upd key (key x) (\<lambda>_. y) t) = map (\<lambda>z. if key z = key x then y else z) (filter P t)"
    unfolding tbl_upd_def filter_map comp_def using assms(3) x(2) same by (auto intro!: filter_cong arg_cong2 [where f = map])
  then show ?thesis by (simp add: assms(1))
qed

lemma uniq_upd_where [table_simps]:
  "(\<And>r. key (f r) = key r) \<Longrightarrow> uniq key (upd_where P f t) = uniq key t"
  by (simp add: uniq_def map_key_upd_where)

lemma uniq_snoc: "uniq key (t @ [r]) \<longleftrightarrow> uniq key t \<and> key r \<notin> key ` set t"
  by (auto simp: uniq_def)

text \<open>In a table whose key is unique, the lookup finds every row by its key.\<close>

lemma uniq_tbl_get: "uniq key t \<Longrightarrow> r \<in> set t \<Longrightarrow> tbl_get key (key r) t = Some r"
  by (induction t) (auto simp: uniq_def table_simps)

lemma uniq_filter_key:
  assumes "uniq key t"
  shows "filter (\<lambda>r. key r = k) t = (case tbl_get key k t of None \<Rightarrow> [] | Some r \<Rightarrow> [r])"
  using assms
proof (induction t)
  case (Cons a t)
  have "filter (\<lambda>r. key r = k) t = []" if "key a = k"
    using Cons.prems that by (simp add: uniq_def filter_empty_conv) (metis imageI)
  with Cons show ?case by (auto simp: table_simps uniq_def)
qed (simp add: table_simps)

lemma uniq_filter_one:
  assumes "uniq key rs" "r \<in> set rs" "key r = k"
  shows "filter (\<lambda>y. key y = k) rs = [r]"
  using uniq_filter_key [OF assms(1), of k] uniq_tbl_get [OF assms(1,2)] assms(3) by simp

lemma uniq_filter_replace:
  assumes "uniq f (filter P (as @ r # bs))" "P x \<Longrightarrow> f x \<notin> f ` set (filter P (as @ bs))"
  shows "uniq f (filter P (as @ x # bs))"
proof -
  have "uniq f (filter P as @ filter P bs)" using assms(1) uniq_delete [of f "filter P as" r "filter P bs"] by (cases "P r") simp_all
  then show ?thesis using uniq_insert [of f "filter P as" "filter P bs" x] assms(2) by (cases "P x") simp_all
qed

text \<open>Replacing the row with a given key, as a replacement at its position in the list.\<close>

lemma tbl_upd_split:
  assumes "uniq key t" "r \<in> set t"
  obtains as bs where "t = as @ r # bs" "tbl_upd key (key r) (\<lambda>_. x) t = as @ x # bs" "filter (\<lambda>y. key y \<noteq> key r) t = as @ bs"
proof -
  obtain as bs where t: "t = as @ r # bs" using split_list [OF assms(2)] by blast
  have "key r \<notin> key ` (set as \<union> set bs)" using assms(1) by (auto simp: t uniq_def)
  then have ne: "\<forall>y \<in> set as \<union> set bs. key y \<noteq> key r" by (metis imageI)
  have "tbl_upd key (key r) (\<lambda>_. x) t = as @ x # bs" using ne by (auto simp: t tbl_upd_def map_idI)
  moreover have "filter (\<lambda>y. key y \<noteq> key r) t = as @ bs" using ne by (auto simp: t filter_id_conv)
  ultimately show ?thesis using that t by blast
qed

lemma one_of_filter: "one_of (filter P t) = find P t"
  by (induction t) (simp_all add: one_of_def)

lemma scalar_one_or_none_simps [simp]:
  "scalar_one_or_none [] = Inr None"
  "scalar_one_or_none [r] = Inr (Some r)"
  "scalar_one_or_none (r # q # rs) = Inl MultipleResultsFound"
  by (simp_all add: scalar_one_or_none_def)

lemma scalar_one_or_none_Some: "scalar_one_or_none rs = Inr (Some r) \<longleftrightarrow> rs = [r]"
  by (auto simp: scalar_one_or_none_def split: list.splits)

lemma scalar_one_or_none_None: "scalar_one_or_none rs = Inr None \<longleftrightarrow> rs = []"
  by (auto simp: scalar_one_or_none_def split: list.splits)

text \<open>ORDER BY a key, ascending: a stable sort.\<close>

abbreviation order_by :: "('r \<Rightarrow> 'k::linorder) \<Rightarrow> 'r list \<Rightarrow> 'r list" where
  "order_by k t \<equiv> sort_key k t"

lemma sorted_take: "sorted xs \<Longrightarrow> sorted (take n xs)"
  by (simp add: sorted_wrt_take)

lemma take_order_by_sorted: "sorted (map k (take n (order_by k t)))"
  by (simp add: sorted_take flip: take_map)

section \<open>Sessions\<close>

text \<open>
  An SQLAlchemy session holds the rows as the transaction sees them and, behind it, the
  database as it was committed last. \<open>flush\<close> sends pending changes inside the transaction
  and so changes neither; \<open>commit\<close> makes the working database the committed one; \<open>rollback\<close>
  drops what was not committed. Sessions are created with \<open>expire_on_commit=False\<close>, so a
  loaded object keeps its values over a commit.
\<close>

record 'd session =
  cur :: 'd
  saved :: 'd

definition on_db :: "('d \<Rightarrow> 'd) \<Rightarrow> 'd session \<Rightarrow> 'd session" where
  "on_db f s = s\<lparr>cur := f (cur s)\<rparr>"

definition commit :: "'d session \<Rightarrow> 'd session" where
  "commit s = s\<lparr>saved := cur s\<rparr>"

definition rollback :: "'d session \<Rightarrow> 'd session" where
  "rollback s = s\<lparr>cur := saved s\<rparr>"

definition clean :: "'d session \<Rightarrow> bool" where
  \<comment> \<open>nothing is pending: the committed database is the one the session sees\<close>
  "clean s \<longleftrightarrow> saved s = cur s"

lemma session_ops [session_simps, simp]:
  "cur (on_db f s) = f (cur s)"
  "saved (on_db f s) = saved s"
  "cur (commit s) = cur s"
  "saved (commit s) = cur s"
  "cur (rollback s) = saved s"
  "saved (rollback s) = saved s"
  by (simp_all add: on_db_def commit_def rollback_def)

lemma clean_commit [simp]: "clean (commit s)"
  by (simp add: clean_def)

lemma clean_rollback [simp]: "clean (rollback s)"
  by (simp add: clean_def)

lemma rollback_commit [simp]: "rollback (commit s) = commit s"
  by (simp add: rollback_def commit_def)

lemma session_eqI: "cur s = cur t \<Longrightarrow> saved s = saved t \<Longrightarrow> s = (t :: 'd session)"
  by (cases s, cases t) simp

section \<open>Association lists as Python dictionaries\<close>

definition dict_get :: "('k \<times> 'v) list \<Rightarrow> 'k \<Rightarrow> 'v option" where
  "dict_get d k = map_of d k"

definition dict_get_or :: "('k \<times> 'v) list \<Rightarrow> 'k \<Rightarrow> 'v \<Rightarrow> 'v" where
  "dict_get_or d k v = (case map_of d k of None \<Rightarrow> v | Some w \<Rightarrow> w)"

fun dict_set :: "'k \<Rightarrow> 'v \<Rightarrow> ('k \<times> 'v) list \<Rightarrow> ('k \<times> 'v) list" where
  "dict_set k v [] = [(k, v)]"
| "dict_set k v ((j, w) # d) = (if j = k then (k, v) # d else (j, w) # dict_set k v d)"

lemma map_of_dict_set: "map_of (dict_set k v d) = (map_of d)(k \<mapsto> v)"
  by (induction k v d rule: dict_set.induct) auto

text \<open>\<open>sep.join(parts)\<close>.\<close>

fun join :: "string \<Rightarrow> string list \<Rightarrow> string" where
  "join sep [] = []"
| "join sep [p] = p"
| "join sep (p # q # ps) = p @ sep @ join sep (q # ps)"

text \<open>\<open>s.split(sep)\<close> for a single character: always at least one part.\<close>

fun split_on :: "char \<Rightarrow> string \<Rightarrow> string list" where
  "split_on x [] = [[]]"
| "split_on x (c # cs) =
     (if c = x then [] # split_on x cs
      else case split_on x cs of [] \<Rightarrow> [[c]] | p # ps \<Rightarrow> (c # p) # ps)"

lemma split_on_nonempty [simp]: "split_on x s \<noteq> []"
  by (induction x s rule: split_on.induct) (auto split: list.splits)

lemma split_on_no_sep: "x \<notin> set s \<Longrightarrow> split_on x s = [s]"
  by (induction x s rule: split_on.induct) auto

lemma split_on_append: "x \<notin> set p \<Longrightarrow> split_on x (p @ x # s) = p # split_on x s"
  by (induction p) auto

text \<open>Splitting undoes joining when no part contains the separator.\<close>

lemma split_on_join:
  "ps \<noteq> [] \<Longrightarrow> \<forall>p \<in> set ps. x \<notin> set p \<Longrightarrow> split_on x (join [x] ps) = ps"
  by (induction "[x]" ps rule: join.induct) (auto simp: split_on_no_sep split_on_append)

section \<open>A table of the database\<close>

text \<open>
  What every component relies on when it reads and writes one table by primary key: \<open>rows\<close> is
  the table as a part of the database, \<open>modify\<close> changes the attributes of the row with a
  given key and \<open>insert_row\<close> adds one. A service looks a row up by \<open>tbl_get key k (rows d)\<close>.
\<close>

locale keyed_table =
  fixes key :: "'r \<Rightarrow> 'k"
    and rows :: "'d \<Rightarrow> 'r list"
    and modify :: "'k \<Rightarrow> ('r \<Rightarrow> 'r) \<Rightarrow> 'd \<Rightarrow> 'd"
    and insert_row :: "'r \<Rightarrow> 'd \<Rightarrow> 'd"
  assumes rows_modify: "rows (modify k f d) = tbl_upd key k f (rows d)"
    and rows_insert_row: "rows (insert_row r d) = rows d @ [r]"
begin

lemma lookup_modify:
  "(\<And>r. key (f r) = key r) \<Longrightarrow> tbl_get key j (rows (modify k f d)) =
     (if j = k then map_option f (tbl_get key j (rows d)) else tbl_get key j (rows d))"
  by (simp add: rows_modify tbl_get_tbl_upd)

lemma lookup_insert_row:
  "key r \<notin> key ` set (rows d) \<Longrightarrow> tbl_get key j (rows (insert_row r d)) =
     (if j = key r then Some r else tbl_get key j (rows d))"
  by (auto simp: rows_insert_row table_simps tbl_get_None [symmetric] split: option.splits)

lemma keys_modify:
  "(\<And>r. key (f r) = key r) \<Longrightarrow> map key (rows (modify k f d)) = map key (rows d)"
  by (simp add: rows_modify map_key_tbl_upd)

lemma uniq_modify:
  "(\<And>r. key (f r) = key r) \<Longrightarrow> uniq key (rows (modify k f d)) \<longleftrightarrow> uniq key (rows d)"
  by (simp add: rows_modify uniq_tbl_upd)

lemma uniq_insert_row:
  "uniq key (rows (insert_row r d)) \<longleftrightarrow> uniq key (rows d) \<and> key r \<notin> key ` set (rows d)"
  by (simp add: rows_insert_row uniq_snoc)

lemma in_modify:
  "r \<in> set (rows (modify k f d)) \<longleftrightarrow> (\<exists>q \<in> set (rows d). r = (if key q = k then f q else q))"
  by (simp add: rows_modify in_tbl_upd)

end

section \<open>Batches\<close>

text \<open>
  \<open>for x in xs: r = step(x)\<close>, with the results collected: the shape of every sweep of the
  services (sync, expiry, churn, bulk updates).
\<close>

fun run_batch :: "('x \<Rightarrow> 's \<Rightarrow> 'r \<times> 's) \<Rightarrow> 'x list \<Rightarrow> 's \<Rightarrow> 'r list \<times> 's" where
  "run_batch step [] s = ([], s)"
| "run_batch step (x # xs) s =
     (let (r, s1) = step x s; (rs, s2) = run_batch step xs s1 in (r # rs, s2))"

lemma run_batch_Cons:
  "fst (run_batch step (x # xs) s) = fst (step x s) # fst (run_batch step xs (snd (step x s)))"
  "snd (run_batch step (x # xs) s) = snd (run_batch step xs (snd (step x s)))"
  by (simp_all add: Let_def split: prod.splits)

lemma length_run_batch [simp]: "length (fst (run_batch step xs s)) = length xs"
  by (induction xs arbitrary: s) (simp_all add: run_batch_Cons del: run_batch.simps(2))

text \<open>
  The contract of the step of a sweep: it keeps the invariant of the state, it settles its
  item, and it does not unsettle another. Then the sweep keeps the invariant and settles
  every item.
\<close>

locale sweep =
  fixes step :: "'x \<Rightarrow> 's \<Rightarrow> 'r \<times> 's"
    and inv :: "'s \<Rightarrow> bool"
    and settled :: "'x \<Rightarrow> 's \<Rightarrow> bool"
  assumes step_inv: "inv s \<Longrightarrow> inv (snd (step x s))"
    and step_settles: "inv s \<Longrightarrow> settled x (snd (step x s))"
    and step_keeps: "inv s \<Longrightarrow> settled y s \<Longrightarrow> settled y (snd (step x s))"
begin

lemma batch_inv: "inv s \<Longrightarrow> inv (snd (run_batch step xs s))"
  by (induction xs arbitrary: s) (simp_all add: run_batch_Cons step_inv del: run_batch.simps(2))

lemma batch_keeps: "inv s \<Longrightarrow> settled y s \<Longrightarrow> settled y (snd (run_batch step xs s))"
  by (induction xs arbitrary: s)
    (simp_all add: run_batch_Cons step_inv step_keeps del: run_batch.simps(2))

lemma batch_settles: "inv s \<Longrightarrow> x \<in> set xs \<Longrightarrow> settled x (snd (run_batch step xs s))"
proof (induction xs arbitrary: s)
  case (Cons a xs)
  show ?case
  proof (cases "x = a")
    case True
    then show ?thesis
      using Cons.prems step_inv step_settles
      by (simp add: run_batch_Cons batch_keeps del: run_batch.simps(2))
  next
    case False
    with Cons show ?thesis by (simp add: run_batch_Cons step_inv del: run_batch.simps(2))
  qed
qed simp

end

section \<open>Refinement\<close>

text \<open>
  A machine that serves requests and implements an abstract specification: every request keeps the
  invariant of the state and is matched by steps of the specification on its abstraction.
\<close>

locale refinement =
  fixes serve :: "'q \<Rightarrow> 's \<Rightarrow> 's"
    and ok :: "'s \<Rightarrow> bool"
    and abs :: "'s \<Rightarrow> 'a"
    and spec :: "'a \<Rightarrow> 'a \<Rightarrow> bool"
  assumes serve_ok: "ok s \<Longrightarrow> ok (serve q s)"
    and serve_refines: "ok s \<Longrightarrow> spec\<^sup>*\<^sup>* (abs s) (abs (serve q s))"
begin

lemma run_ok: "ok s \<Longrightarrow> ok (fold serve qs s)"
  by (induction qs arbitrary: s) (simp_all add: serve_ok)

lemma run_refines: "ok s \<Longrightarrow> spec\<^sup>*\<^sup>* (abs s) (abs (fold serve qs s))"
proof (induction qs arbitrary: s)
  case (Cons q qs)
  have "spec\<^sup>*\<^sup>* (abs (serve q s)) (abs (fold serve qs (serve q s)))" by (rule Cons.IH [OF serve_ok [OF Cons.prems]])
  with serve_refines [OF Cons.prems, of q] show ?case by simp
qed simp

text \<open>What the specification never takes back stays true of every run.\<close>

lemma run_stable:
  assumes "\<And>x y. spec x y \<Longrightarrow> P x \<Longrightarrow> P y" "ok s" "P (abs s)"
  shows "P (abs (fold serve qs s))"
  using run_refines [OF assms(2), of qs] assms(3) by (induction rule: rtranclp_induct) (auto intro: assms(1))

end

end
