(* ===== verification/Data_Model.thy ===== *)
theory Data_Model
  imports Prelude
begin

text \<open>
  The rows of the tables the modelled services work on (\<open>src/app/models/\<close>) and the database
  as one record of tables. A row is a record with the columns of its model class in the
  class's order; a nullable column is an \<open>option\<close>, an Enum column a datatype with the
  members of the enumeration. Left out of every row are \<open>updated_at\<close>, which the ORM
  stamps by itself on each UPDATE and which no modelled code reads, and the \<open>relationship\<close>
  attributes, which are views of the foreign keys. The rows of \<open>User\<close>, \<open>Organization\<close> and
  \<open>OrganizationSettings\<close> keep only the columns that the modelled operations read or write.

  A serial primary key comes from a sequence of the database, one counter per table: a
  value that was drawn is never drawn again, also not after the row was deleted.
\<close>

section \<open>Enumerations\<close>

datatype SubscriptionStatus =
  SubActive | SubInactive | SubSuspended | SubExpired | SubCancelled | SubPending

fun subscription_status_value :: "SubscriptionStatus \<Rightarrow> string" where
  "subscription_status_value SubActive = ''active''"
| "subscription_status_value SubInactive = ''inactive''"
| "subscription_status_value SubSuspended = ''suspended''"
| "subscription_status_value SubExpired = ''expired''"
| "subscription_status_value SubCancelled = ''cancelled''"
| "subscription_status_value SubPending = ''pending''"

datatype SubscriptionType = HOTSPOT | PPPOE

datatype PlanType = PlanInternet | PlanHotspot | PlanPppoe | PlanBoth

datatype BillingCycle = Daily | Weekly | Monthly | Quarterly | Yearly | OneTime

fun billing_cycle_value :: "BillingCycle \<Rightarrow> string" where
  "billing_cycle_value Daily = ''DAILY''"
| "billing_cycle_value Weekly = ''WEEKLY''"
| "billing_cycle_value Monthly = ''MONTHLY''"
| "billing_cycle_value Quarterly = ''QUARTERLY''"
| "billing_cycle_value Yearly = ''YEARLY''"
| "billing_cycle_value OneTime = ''ONE_TIME''"

datatype PlanStatus = PlanActive | PlanInactive | PlanDiscontinued

datatype CommandStatus = CmdPending | CmdSent | CmdSuccess | CmdFailed | CmdExpired

datatype RouterStatus = Online | Offline | Maintenance | RouterErr

datatype RouterType = Mikrotik | Cisco | Ubiquiti | OtherRouter

datatype InvoiceStatus = InvDraft | InvPending | InvPaid | InvOverdue | InvCancelled | InvRefunded

datatype PaymentStatus =
  PayPending | PayCompleted | PayFailed | PayCancelled | PayRefunded | PayChecked | PayUnchecked

datatype PaymentMethod = Mpesa | BankTransfer | Cash | Card | OtherMethod

datatype VoucherStatus = VchActive | VchUsed | VchExpired | VchCancelled

datatype SessionStatus = SesActive | SesExpired | SesDisconnected | SesSuspended

datatype UserRole = PlatformOwner | IspAdmin | IspTechnician | Customer

datatype UserStatus = UsrActive | UsrInactive | UsrSuspended | UsrPendingVerification

datatype OrganizationType = OrgHotspot | OrgPppoe | OrgHybrid

datatype OrganizationStatus = OrgActive | OrgSuspended | OrgTrial | OrgPendingPayment | OrgInactive

datatype PermissionModule =
    PlatformOrganizations | PlatformBilling | PlatformAnalytics | PlatformConfig | PlatformTiers
  | PlatformIntegrations | PlatformIntegrationsSecrets | PlatformIntegrationsUrls | PlatformPaymentGateways
  | PlatformSmsGateways | PlatformEmailGateways
  | ModDashboard | ModUsers | ModCustomers | ModPackages | ModRouters | ModProvisioning | ModPayments
  | ModPaymentGateways | ModSms | ModVouchers | ModSettings | ModReports | ModNotifications | ModSupport
  | ModBilling | ModSubscriptions | ModAnalytics | ModBranding | ModAuditLogs | ModBackupRestore
  | TenantPaymentConfig | TenantSmsConfig | TenantPayoutConfig
  | CustomerDashboard | CustomerPackages | CustomerPayments | CustomerUsage | CustomerProfile

datatype PermissionAction = ActCreate | ActRead | ActUpdate | ActDelete | ActManage

text \<open>The answer to a caller over the limit of attempts.\<close>

definition TooManyRequests :: exn where
  "TooManyRequests = Exn ''HTTPException'' ''429: Too many attempts. Please wait and try again.''"

section \<open>Rows\<close>

record service_plan =
  plan_id :: int
  plan_organization_id :: "int option"
  plan_name :: string
  plan_description :: "string option"
  plan_type :: PlanType
  plan_status :: PlanStatus
  plan_price :: rat
  plan_currency :: string
  plan_billing_cycle :: BillingCycle
  plan_download_speed :: int
  plan_upload_speed :: int
  plan_data_limit :: int
  plan_data_limit_type :: string
  plan_time_limit :: int
  plan_time_limit_type :: string
  plan_validity_days :: int
  plan_duration_minutes :: "int option"
  plan_fup_enabled :: bool
  plan_fup_threshold :: "int option"
  plan_fup_download_speed :: "int option"
  plan_fup_upload_speed :: "int option"
  plan_concurrent_sessions :: int
  plan_auto_renewal :: bool
  plan_is_popular :: bool
  plan_sort_order :: int
  plan_is_template :: bool
  plan_template_category :: "string option"
  plan_enable_burst :: bool
  plan_burst_download :: "int option"
  plan_burst_upload :: "int option"
  plan_burst_threshold :: "int option"
  plan_burst_time :: "int option"
  plan_enable_schedule :: bool
  plan_schedule_start_time :: "string option"
  plan_schedule_end_time :: "string option"
  plan_config :: "string option"
  plan_notes :: "string option"
  plan_created_at :: datetime

record subscription =
  sub_id :: int
  sub_organization_id :: "int option"
  sub_user_id :: int
  sub_plan_id :: int
  sub_router_id :: int
  sub_type :: SubscriptionType
  sub_status :: SubscriptionStatus
  sub_username :: string
  sub_password :: string
  sub_start_date :: datetime
  sub_end_date :: "datetime option" \<comment> \<open>NOT NULL in the table; the expiry pass reads it as optional\<close>
  sub_is_auto_renewal :: bool
  sub_created_at :: datetime
  sub_bytes_uploaded :: int
  sub_bytes_downloaded :: int
  sub_total_bytes_used :: int
  sub_session_count :: int
  sub_last_activity :: "datetime option"
  sub_router_config :: "string option"
  sub_is_router_synced :: bool
  sub_last_router_sync :: "datetime option"
  sub_notes :: "string option"
  sub_created_by :: "int option"

record usage_log =
  ul_subscription_id :: int
  ul_log_date :: datetime
  ul_bytes_uploaded :: int
  ul_bytes_downloaded :: int
  ul_session_duration :: int
  ul_ip_address :: "string option"
  ul_mac_address :: "string option"

record subscription_history =
  sh_subscription_id :: int
  sh_action :: string
  sh_old_status :: "string option"
  sh_new_status :: "string option"
  sh_details :: string
  sh_changed_by :: "int option"
  sh_ip_address :: "string option"

record active_user =
  au_username :: string
  au_type :: string
  au_address :: string
  au_mac :: string
  au_uptime :: string

record router =
  rt_id :: int
  rt_organization_id :: "int option"
  rt_name :: string
  rt_description :: "string option"
  rt_router_type :: RouterType
  rt_ip_address :: string
  rt_port :: int
  rt_username :: string
  rt_password :: string
  rt_winbox_port :: "int option"
  rt_vpn_address :: "string option"
  rt_vpn_public_key :: "string option"
  rt_vpn_enabled :: bool
  rt_status :: RouterStatus
  rt_is_active :: bool
  rt_last_seen :: "datetime option"
  rt_uptime :: int
  rt_routeros_version :: "string option"
  rt_board_name :: "string option"
  rt_architecture :: "string option"
  rt_cpu_count :: "int option"
  rt_cpu_frequency :: "int option"
  rt_cpu_load :: "int option"
  rt_total_memory :: "int option"
  rt_free_memory :: "int option"
  rt_total_hdd_space :: "int option"
  rt_free_hdd_space :: "int option"
  rt_location :: "string option"
  rt_latitude :: "string option"
  rt_longitude :: "string option"
  rt_config :: "string option"
  rt_notes :: "string option"
  rt_api_credentials_encrypted :: "string option"
  rt_last_provisioned_at :: "datetime option"
  rt_provisioning_status :: string
  rt_bootstrap_completed :: bool
  rt_agent_token :: "string option"
  rt_agent_token_plain :: "string option"
  rt_agent_installed :: bool
  rt_agent_poll_interval :: int
  rt_last_poll_at :: "datetime option"
  rt_agent_version :: "string option"
  rt_active_users :: "active_user list option" \<comment> \<open>\<open>active_users_json\<close>, before rendering\<close>
  rt_active_users_at :: "datetime option"
  rt_created_at :: datetime

record router_backup =
  bk_id :: int
  bk_router_id :: int
  bk_name :: string
  bk_status :: string
  bk_backup_type :: string
  bk_command_id :: "string option"
  bk_size_bytes :: "int option"
  bk_message :: "string option"
  bk_requested_by :: "int option"
  bk_file_data :: "string option" \<comment> \<open>the bytes of the uploaded backup\<close>
  bk_created_at :: datetime
  bk_completed_at :: "datetime option"

type_synonym params = "(string \<times> string) list"

record router_command =
  cmd_id :: string
  cmd_router_id :: int
  cmd_action :: string
  cmd_params :: params
  cmd_priority :: int
  cmd_status :: CommandStatus
  cmd_created_at :: datetime
  cmd_sent_at :: "datetime option"
  cmd_completed_at :: "datetime option"
  cmd_expires_at :: "datetime option"
  cmd_result_message :: "string option"
  cmd_retry_count :: int
  cmd_max_retries :: int
  cmd_source :: "string option"
  cmd_source_id :: "string option"

record user =
  usr_id :: int
  usr_organization_id :: "int option"
  usr_username :: string
  usr_email :: string
  usr_phone :: "string option"
  usr_first_name :: string
  usr_last_name :: string
  usr_hashed_password :: string
  usr_is_verified :: bool
  usr_is_active :: bool
  usr_auth_service_user_id :: "string option"
  usr_auth_synced_at :: "datetime option"
  usr_role :: UserRole
  usr_status :: UserStatus
  usr_role_id :: "int option"
  usr_last_login :: "datetime option"
  usr_bio :: "string option"
  usr_avatar_url :: "string option"

record rbac_role =
  role_id :: int
  role_name :: string
  role_description :: "string option"
  role_is_system_role :: bool
  role_permissions :: "int list" \<comment> \<open>the rows of \<open>role_permissions\<close>\<close>

record permission =
  perm_id :: int
  perm_module :: PermissionModule
  perm_action :: PermissionAction
  perm_resource :: "string option"
  perm_description :: "string option"

record user_permission =
  up_id :: int
  up_user_id :: int
  up_permission_id :: int
  up_is_granted :: bool
  up_reason :: "string option"
  up_expires_at :: "datetime option"

record system_licence =
  lic_id :: int
  lic_licence_key :: string
  lic_organization_name :: string
  lic_contact_email :: string
  lic_contact_phone :: "string option"
  lic_licence_type :: string
  lic_is_active :: bool
  lic_max_users :: int
  lic_max_routers :: int
  lic_trial_days :: int
  lic_trial_started_at :: "datetime option"
  lic_trial_expires_at :: "datetime option"

record plan_feature =
  pf_id :: int
  pf_plan_id :: int
  pf_feature_name :: string
  pf_feature_value :: "string option"
  pf_is_included :: bool
  pf_sort_order :: int

record plan_pricing =
  pp_id :: int
  pp_plan_id :: int
  pp_duration_months :: int
  pp_price :: rat
  pp_discount_percentage :: rat
  pp_is_active :: bool

record organization =
  org_id :: int
  org_uuid :: string
  org_auth_tenant_id :: "string option"
  org_name :: string
  org_slug :: string
  org_organization_type :: OrganizationType
  org_status :: OrganizationStatus
  org_email :: string
  org_phone :: "string option"
  org_trial_ends_at :: "datetime option"
  org_subscription_ends_at :: "datetime option"
  org_portal_domain :: "string option"

record organization_settings =
  os_organization_id :: int
  os_auto_suspend_days :: int
  os_hotspot_username_prefix :: string
  os_hotspot_username_counter :: int
  os_prune_inactive_users_days :: int
  os_vpn_domain :: string
  os_winbox_port_start :: int
  os_winbox_port_end :: int

record invoice =
  inv_id :: int
  inv_organization_id :: "int option"
  inv_user_id :: int
  inv_subscription_id :: "int option"
  inv_invoice_number :: string
  inv_status :: InvoiceStatus
  inv_subtotal :: rat
  inv_tax_amount :: rat
  inv_discount_amount :: rat
  inv_total_amount :: rat
  inv_paid_amount :: rat
  inv_balance :: rat
  inv_issue_date :: datetime
  inv_due_date :: datetime
  inv_paid_date :: "datetime option"
  inv_billing_period_start :: "datetime option"
  inv_billing_period_end :: "datetime option"
  inv_currency :: string
  inv_notes :: "string option"
  inv_terms :: "string option"
  inv_created_at :: datetime

record invoice_item =
  it_id :: int
  it_invoice_id :: int
  it_description :: string
  it_quantity :: rat
  it_unit_price :: rat
  it_total_price :: rat
  it_item_type :: "string option"

record payment =
  pay_id :: int
  pay_organization_id :: "int option"
  pay_user_id :: int
  pay_invoice_id :: "int option"
  pay_payment_number :: string
  pay_amount :: rat
  pay_currency :: string
  pay_payment_method :: PaymentMethod
  pay_status :: PaymentStatus
  pay_transaction_id :: "string option"
  pay_reference_number :: "string option"
  pay_gateway_response :: "string option"
  pay_mpesa_receipt_number :: "string option"
  pay_mpesa_phone_number :: "string option"
  pay_mpesa_transaction_date :: "datetime option"
  pay_payment_date :: "datetime option"
  pay_processed_date :: "datetime option"
  pay_notes :: "string option"
  pay_ip_address :: "string option"
  pay_verified_by :: "int option"
  pay_verified_at :: "datetime option"
  pay_verification_notes :: "string option"
  pay_disbursement_method :: "string option"
  pay_disbursement_reference :: "string option"
  pay_is_manual_payment :: bool
  pay_recorded_by :: "int option"
  pay_receipt_image_url :: "string option"
  pay_created_at :: datetime

record payment_transaction =
  tx_id :: int
  tx_organization_id :: int
  tx_gateway_id :: "int option"
  tx_transaction_reference :: string
  tx_external_reference :: "string option"
  tx_amount :: rat
  tx_currency :: string
  tx_transaction_type :: string
  tx_status :: string
  tx_status_message :: "string option"
  tx_phone_number :: "string option"
  tx_account_reference :: "string option"
  tx_invoice_id :: "int option"
  tx_subscription_id :: "int option"
  tx_user_id :: "int option"
  tx_callback_data :: "(string \<times> string list) option" \<comment> \<open>the event and the raw data\<close>
  tx_processed_at :: "datetime option"
  tx_gateway_fee :: rat
  tx_net_amount :: "rat option"
  tx_ip_address :: "string option"
  tx_user_agent :: "string option"
  tx_created_at :: datetime
  tx_completed_at :: "datetime option"

record voucher_code =
  vch_id :: int
  vch_organization_id :: int
  vch_code :: string
  vch_plan_id :: int
  vch_status :: VoucherStatus
  vch_is_used :: bool
  vch_used_by :: "int option"
  vch_used_at :: "datetime option"
  vch_used_mac_address :: "string option"
  vch_used_ip_address :: "string option"
  vch_expires_at :: "datetime option"
  vch_valid_from :: "datetime option"
  vch_value :: "rat option"
  vch_hotspot_username :: "string option"
  vch_hotspot_password :: "string option"
  vch_batch_id :: "string option"
  vch_batch_name :: "string option"
  vch_created_by :: "int option"
  vch_printed_at :: "datetime option"
  vch_sold_at :: "datetime option"
  vch_sold_by :: "int option"
  vch_created_at :: datetime

record customer_session =
  ses_id :: int
  ses_organization_id :: int
  ses_session_token :: string
  ses_user_id :: "int option"
  ses_subscription_id :: "int option"
  ses_mac_address :: string
  ses_ip_address :: "string option"
  ses_nas_ip_address :: "string option"
  ses_nas_port :: "string option"
  ses_user_agent :: "string option"
  ses_device_type :: "string option"
  ses_status :: SessionStatus
  ses_started_at :: datetime
  ses_expires_at :: datetime
  ses_ended_at :: "datetime option"
  ses_last_activity_at :: datetime
  ses_bytes_in :: int
  ses_bytes_out :: int
  ses_packets_in :: int
  ses_packets_out :: int
  ses_session_time :: int
  ses_plan_name :: "string option"
  ses_speed_limit_up :: "int option"
  ses_speed_limit_down :: "int option"
  ses_data_limit :: "int option"
  ses_terminate_cause :: "string option"
  ses_created_at :: datetime

record customer_purchase =
  pur_id :: int
  pur_organization_id :: int
  pur_user_id :: "int option"
  pur_phone_number :: string
  pur_email :: "string option"
  pur_mac_address :: "string option"
  pur_plan_id :: int
  pur_amount :: rat
  pur_currency :: string
  pur_payment_method :: string
  pur_payment_reference :: "string option"
  pur_payment_status :: string
  pur_transaction_id :: "int option"
  pur_treasury_payment_intent_id :: "string option"
  pur_voucher_code_id :: "int option"
  pur_subscription_id :: "int option"
  pur_session_id :: "int option"
  pur_ip_address :: "string option"
  pur_user_agent :: "string option"
  pur_extra_data :: "string option"
  pur_created_at :: datetime
  pur_completed_at :: "datetime option"

record outbox_event =
  ob_id :: int
  ob_aggregate_type :: string
  ob_aggregate_id :: "string option"
  ob_event_type :: string
  ob_payload :: "(string \<times> string option) list"
  ob_tenant_id :: "string option"
  ob_created_at :: datetime
  ob_published_at :: "datetime option"
  ob_attempts :: int

section \<open>The database\<close>

text \<open>The tables that only one component uses are grouped.\<close>

record access_tables =
  permissions :: "permission list"
  user_permissions :: "user_permission list"
  licences :: "system_licence list"
  role_seq :: int
  permission_seq :: int
  override_seq :: int
  licence_seq :: int

record plan_tables =
  plan_features :: "plan_feature list"
  plan_pricings :: "plan_pricing list"
  plan_seq :: int
  feature_seq :: int
  pricing_seq :: int

record db =
  plans :: "service_plan list"
  subscriptions :: "subscription list"
  usage_logs :: "usage_log list"
  histories :: "subscription_history list"
  routers :: "router list"
  backups :: "router_backup list"
  commands :: "router_command list"
  users :: "user list"
  roles :: "rbac_role list"
  organizations :: "organization list"
  org_settings :: "organization_settings list"
  invoices :: "invoice list"
  invoice_items :: "invoice_item list"
  payments :: "payment list"
  transactions :: "payment_transaction list"
  vouchers :: "voucher_code list"
  sessions :: "customer_session list"
  purchases :: "customer_purchase list"
  outbox :: "outbox_event list"
  subscription_seq :: int
  user_seq :: int
  invoice_seq :: int
  item_seq :: int
  payment_seq :: int
  outbox_seq :: int
  voucher_seq :: int
  session_seq :: int
  purchase_seq :: int
  organization_seq :: int
  router_seq :: int
  rbac :: access_tables
  catalogue :: plan_tables

definition empty_access :: access_tables where
  "empty_access = \<lparr>permissions = [], user_permissions = [], licences = [], role_seq = 1, permission_seq = 1, override_seq = 1, licence_seq = 1\<rparr>"

definition empty_catalogue :: plan_tables where
  "empty_catalogue = \<lparr>plan_features = [], plan_pricings = [], plan_seq = 1, feature_seq = 1, pricing_seq = 1\<rparr>"

definition empty_db :: db where
  "empty_db = \<lparr>plans = [], subscriptions = [], usage_logs = [], histories = [], routers = [],
     backups = [], commands = [], users = [], roles = [], organizations = [], org_settings = [],
     invoices = [], invoice_items = [], payments = [], transactions = [], vouchers = [],
     sessions = [], purchases = [], outbox = [], subscription_seq = 1, user_seq = 1,
     invoice_seq = 1, item_seq = 1, payment_seq = 1, outbox_seq = 1,
     voucher_seq = 1, session_seq = 1, purchase_seq = 1, organization_seq = 1,
     router_seq = 1, rbac = empty_access, catalogue = empty_catalogue\<rparr>"

type_synonym dbs = "db session"

text \<open>
  Changing the attributes of a loaded row and adding a new one, for the tables that are looked
  up by primary key.
\<close>

definition upd_subscription :: "int \<Rightarrow> (subscription \<Rightarrow> subscription) \<Rightarrow> db \<Rightarrow> db" where
  "upd_subscription k f = subscriptions_update (tbl_upd sub_id k f)"

definition add_subscription :: "subscription \<Rightarrow> db \<Rightarrow> db" where
  "add_subscription r = subscriptions_update (\<lambda>t. t @ [r])"

definition upd_command :: "string \<Rightarrow> (router_command \<Rightarrow> router_command) \<Rightarrow> db \<Rightarrow> db" where
  "upd_command k f = commands_update (tbl_upd cmd_id k f)"

definition add_command :: "router_command \<Rightarrow> db \<Rightarrow> db" where
  "add_command r = commands_update (\<lambda>t. t @ [r])"

definition upd_router :: "int \<Rightarrow> (router \<Rightarrow> router) \<Rightarrow> db \<Rightarrow> db" where
  "upd_router k f = routers_update (tbl_upd rt_id k f)"

definition add_router :: "router \<Rightarrow> db \<Rightarrow> db" where
  "add_router r = routers_update (\<lambda>t. t @ [r])"

definition upd_invoice :: "int \<Rightarrow> (invoice \<Rightarrow> invoice) \<Rightarrow> db \<Rightarrow> db" where
  "upd_invoice k f = invoices_update (tbl_upd inv_id k f)"

definition add_invoice :: "invoice \<Rightarrow> db \<Rightarrow> db" where
  "add_invoice r = invoices_update (\<lambda>t. t @ [r])"

definition upd_payment :: "int \<Rightarrow> (payment \<Rightarrow> payment) \<Rightarrow> db \<Rightarrow> db" where
  "upd_payment k f = payments_update (tbl_upd pay_id k f)"

definition add_payment :: "payment \<Rightarrow> db \<Rightarrow> db" where
  "add_payment r = payments_update (\<lambda>t. t @ [r])"

definition upd_voucher :: "int \<Rightarrow> (voucher_code \<Rightarrow> voucher_code) \<Rightarrow> db \<Rightarrow> db" where
  "upd_voucher k f = vouchers_update (tbl_upd vch_id k f)"

definition add_voucher :: "voucher_code \<Rightarrow> db \<Rightarrow> db" where
  "add_voucher r = vouchers_update (\<lambda>t. t @ [r])"

definition upd_purchase :: "int \<Rightarrow> (customer_purchase \<Rightarrow> customer_purchase) \<Rightarrow> db \<Rightarrow> db" where
  "upd_purchase k f = purchases_update (tbl_upd pur_id k f)"

definition add_purchase :: "customer_purchase \<Rightarrow> db \<Rightarrow> db" where
  "add_purchase r = purchases_update (\<lambda>t. t @ [r])"

lemmas row_defs =
  upd_subscription_def add_subscription_def
  upd_command_def add_command_def
  upd_router_def add_router_def
  upd_invoice_def add_invoice_def
  upd_payment_def add_payment_def
  upd_voucher_def add_voucher_def
  upd_purchase_def add_purchase_def

interpretation sub_tbl: keyed_table sub_id subscriptions upd_subscription add_subscription
  by unfold_locales (simp_all add: row_defs)

interpretation cmd_tbl: keyed_table cmd_id commands upd_command add_command
  by unfold_locales (simp_all add: row_defs)

interpretation rt_tbl: keyed_table rt_id routers upd_router add_router
  by unfold_locales (simp_all add: row_defs)

interpretation inv_tbl: keyed_table inv_id invoices upd_invoice add_invoice
  by unfold_locales (simp_all add: row_defs)

interpretation pay_tbl: keyed_table pay_id payments upd_payment add_payment
  by unfold_locales (simp_all add: row_defs)

interpretation vch_tbl: keyed_table vch_id vouchers upd_voucher add_voucher
  by unfold_locales (simp_all add: row_defs)

interpretation pur_tbl: keyed_table pur_id purchases upd_purchase add_purchase
  by unfold_locales (simp_all add: row_defs)

end
