(* ===== verification/Samples.thy ===== *)
theory Samples
  imports Data_Model
begin

text \<open>
  Concrete rows: one per table, with the column defaults of the models. The witnesses of the
  theorems build their databases from these.
\<close>

definition router0 :: router where
  "router0 = \<lparr>rt_id = 1, rt_organization_id = Some 1, rt_name = ''r1'', rt_description = None,
     rt_router_type = Mikrotik, rt_ip_address = ''10.0.0.1'', rt_port = 8728, rt_username = ''admin'',
     rt_password = ''pw'', rt_winbox_port = None, rt_vpn_address = None, rt_vpn_public_key = None,
     rt_vpn_enabled = False, rt_status = Offline, rt_is_active = True, rt_last_seen = None,
     rt_uptime = 0, rt_routeros_version = None, rt_board_name = None, rt_architecture = None,
     rt_cpu_count = None, rt_cpu_frequency = None, rt_cpu_load = None, rt_total_memory = None,
     rt_free_memory = None, rt_total_hdd_space = None, rt_free_hdd_space = None, rt_location = None,
     rt_latitude = None, rt_longitude = None, rt_config = None, rt_notes = None,
     rt_api_credentials_encrypted = None, rt_last_provisioned_at = None,
     rt_provisioning_status = ''pending'', rt_bootstrap_completed = False, rt_agent_token = Some ''hash'',
     rt_agent_token_plain = None, rt_agent_installed = True, rt_agent_poll_interval = 10,
     rt_last_poll_at = None, rt_agent_version = None, rt_active_users = None,
     rt_active_users_at = None, rt_created_at = 0\<rparr>"

definition command0 :: router_command where
  "command0 = \<lparr>cmd_id = ''c0'', cmd_router_id = 1, cmd_action = ''disconnect'',
     cmd_params = [(''username'', ''joe'')], cmd_priority = 5, cmd_status = CmdPending,
     cmd_created_at = 0, cmd_sent_at = None, cmd_completed_at = None, cmd_expires_at = None,
     cmd_result_message = None, cmd_retry_count = 0, cmd_max_retries = 3, cmd_source = None,
     cmd_source_id = None\<rparr>"

definition plan0 :: service_plan where
  "plan0 = \<lparr>plan_id = 1, plan_organization_id = Some 1, plan_name = ''Daily'', plan_description = None,
     plan_type = PlanHotspot, plan_status = PlanActive, plan_price = 50, plan_currency = ''KES'',
     plan_billing_cycle = Daily, plan_download_speed = 10, plan_upload_speed = 5, plan_data_limit = -1,
     plan_data_limit_type = ''total'', plan_time_limit = -1, plan_time_limit_type = ''total'',
     plan_validity_days = 30, plan_duration_minutes = None, plan_fup_enabled = False,
     plan_fup_threshold = None, plan_fup_download_speed = None, plan_fup_upload_speed = None,
     plan_concurrent_sessions = 1, plan_auto_renewal = False, plan_is_popular = False,
     plan_sort_order = 0, plan_is_template = False, plan_template_category = None,
     plan_enable_burst = False, plan_burst_download = None, plan_burst_upload = None,
     plan_burst_threshold = None, plan_burst_time = None, plan_enable_schedule = False,
     plan_schedule_start_time = None, plan_schedule_end_time = None, plan_config = None,
     plan_notes = None, plan_created_at = 0\<rparr>"

definition sub0 :: subscription where
  "sub0 = \<lparr>sub_id = 1, sub_organization_id = Some 1, sub_user_id = 1, sub_plan_id = 1, sub_router_id = 1,
     sub_type = HOTSPOT, sub_status = SubActive, sub_username = ''joe'', sub_password = ''pw'',
     sub_start_date = 0, sub_end_date = Some 1000000, sub_is_auto_renewal = False, sub_created_at = 0,
     sub_bytes_uploaded = 0, sub_bytes_downloaded = 0, sub_total_bytes_used = 0, sub_session_count = 0,
     sub_last_activity = None, sub_router_config = None, sub_is_router_synced = False,
     sub_last_router_sync = None, sub_notes = None, sub_created_by = None\<rparr>"

definition invoice0 :: invoice where
  "invoice0 = \<lparr>inv_id = 1, inv_organization_id = None, inv_user_id = 1, inv_subscription_id = None,
     inv_invoice_number = ''INV-1'', inv_status = InvPending, inv_subtotal = 100, inv_tax_amount = 0,
     inv_discount_amount = 0, inv_total_amount = 100, inv_paid_amount = 0, inv_balance = 100,
     inv_issue_date = 0, inv_due_date = 0, inv_paid_date = None, inv_billing_period_start = None,
     inv_billing_period_end = None, inv_currency = ''KES'', inv_notes = None, inv_terms = None,
     inv_created_at = 0\<rparr>"

definition payment0 :: payment where
  "payment0 = \<lparr>pay_id = 1, pay_organization_id = None, pay_user_id = 1, pay_invoice_id = Some 1,
     pay_payment_number = ''PAY-1'', pay_amount = 100, pay_currency = ''KES'',
     pay_payment_method = Mpesa, pay_status = PayPending, pay_transaction_id = None,
     pay_reference_number = None, pay_gateway_response = None, pay_mpesa_receipt_number = None,
     pay_mpesa_phone_number = None, pay_mpesa_transaction_date = None, pay_payment_date = None,
     pay_processed_date = None, pay_notes = None, pay_ip_address = None, pay_verified_by = None,
     pay_verified_at = None, pay_verification_notes = None, pay_disbursement_method = None,
     pay_disbursement_reference = None, pay_is_manual_payment = False, pay_recorded_by = None,
     pay_receipt_image_url = None, pay_created_at = 0\<rparr>"

definition user0 :: user where
  "user0 = \<lparr>usr_id = 1, usr_organization_id = Some 1, usr_username = ''joe'', usr_email = ''joe@x.org'',
     usr_phone = None, usr_first_name = ''Joe'', usr_last_name = ''Doe'', usr_hashed_password = ''h'',
     usr_is_verified = True, usr_is_active = True, usr_auth_service_user_id = None, usr_auth_synced_at = None,
     usr_role = Customer, usr_status = UsrActive, usr_role_id = None, usr_last_login = None, usr_bio = None, usr_avatar_url = None\<rparr>"

definition voucher0 :: voucher_code where
  "voucher0 = \<lparr>vch_id = 1, vch_organization_id = 1, vch_code = ''AB12CD34'', vch_plan_id = 1, vch_status = VchActive,
     vch_is_used = False, vch_used_by = None, vch_used_at = None, vch_used_mac_address = None,
     vch_used_ip_address = None, vch_expires_at = None, vch_valid_from = None, vch_value = None,
     vch_hotspot_username = None, vch_hotspot_password = None, vch_batch_id = None, vch_batch_name = None,
     vch_created_by = None, vch_printed_at = None, vch_sold_at = None, vch_sold_by = None, vch_created_at = 0\<rparr>"

definition org0 :: organization where
  "org0 = \<lparr>org_id = 1, org_uuid = ''u-1'', org_auth_tenant_id = None, org_name = ''Net'', org_slug = ''net'',
     org_organization_type = OrgHotspot, org_status = OrgTrial, org_email = ''net@x.org'', org_phone = None, org_trial_ends_at = None,
     org_subscription_ends_at = None, org_portal_domain = None\<rparr>"

definition settings0 :: organization_settings where
  "settings0 = \<lparr>os_organization_id = 1, os_auto_suspend_days = 14, os_hotspot_username_prefix = ''C'',
     os_hotspot_username_counter = 1, os_prune_inactive_users_days = 14,
      os_vpn_domain = ''vpn.codevertexafrica.com'', os_winbox_port_start = 51000, os_winbox_port_end = 59999\<rparr>"

definition purchase0 :: customer_purchase where
  "purchase0 = \<lparr>pur_id = 1, pur_organization_id = 1, pur_user_id = None, pur_phone_number = ''0700'', pur_email = None,
     pur_mac_address = None, pur_plan_id = 1, pur_amount = 50, pur_currency = ''KES'', pur_payment_method = ''treasury'',
     pur_payment_reference = Some ''HS-NET-1'', pur_payment_status = ''processing'', pur_transaction_id = None,
     pur_treasury_payment_intent_id = Some ''i-1'', pur_voucher_code_id = None, pur_subscription_id = None,
     pur_session_id = None, pur_ip_address = None, pur_user_agent = None, pur_extra_data = None, pur_created_at = 0,
     pur_completed_at = None\<rparr>"

lemmas sample_rows = org0_def settings0_def purchase0_def voucher0_def router0_def command0_def plan0_def sub0_def invoice0_def payment0_def user0_def

definition fresh :: "db \<Rightarrow> dbs" where
  \<comment> \<open>a session at the start of its first transaction\<close>
  "fresh d = \<lparr>cur = d, saved = d\<rparr>"

lemma fresh_simps [simp]: "cur (fresh d) = d" "saved (fresh d) = d"
  by (simp_all add: fresh_def)

end
