(* ===== verification/Plan.thy ===== *)
theory Plan
  imports Samples
begin

text \<open>
  Service plans: the access window of a package and what the router and the billing side
  derive from it (\<open>src/app/models/plan.py\<close>), the rate-limit strings built from a plan
  (\<open>_build_rate_limit\<close> of \<open>src/app/api/v1/portal/hotspot.py\<close> and \<open>format_rate_limit\<close> of
  \<open>src/app/modules/subscriptions/bandwidth_manager.py\<close>).

  Hours are Python floats in the source; here they are exact rationals. The only operations
  on them are a division by 60, a product with 3600 and a rounding to an integer, and both
  roundings are of values that are integers when computed exactly.
\<close>

section \<open>The access window\<close>

definition is_unlimited_data :: "service_plan \<Rightarrow> bool" where
  "is_unlimited_data p \<longleftrightarrow> plan_data_limit p = -1"

definition is_unlimited_time :: "service_plan \<Rightarrow> bool" where
  "is_unlimited_time p \<longleftrightarrow> plan_time_limit p = -1"

definition access_window_hours :: "service_plan \<Rightarrow> rat" where
  "access_window_hours p =
     (let legacy =
        (let hrs = plan_validity_days p * 24
         in if plan_time_limit p \<noteq> 0 \<and> plan_time_limit p > 0
            then (if hrs > 0 then min hrs (plan_time_limit p) else plan_time_limit p)
            else hrs)
      in case plan_duration_minutes p of
           None \<Rightarrow> of_int legacy
         | Some m \<Rightarrow> if m \<noteq> 0 \<and> m > 0 then of_int m / 60 else of_int legacy)"

definition limit_uptime_seconds :: "service_plan \<Rightarrow> int" where
  "limit_uptime_seconds p =
     (let h = access_window_hours p in if h = 0 \<or> h \<le> 0 then 0 else py_round (h * 3600))"

definition limit_uptime_str :: "service_plan \<Rightarrow> string" where
  "limit_uptime_str p =
     (let secs = limit_uptime_seconds p in if secs > 0 then str_int secs @ ''s'' else [])"

text \<open>\<open>timedelta(hours=h)\<close> for a fraction of hours: rounded to whole microseconds.\<close>

definition hours_delta :: "rat \<Rightarrow> timedelta" where
  "hours_delta h = py_round (h * 3600000000)"

definition access_expiry_from :: "service_plan \<Rightarrow> datetime \<Rightarrow> int option \<Rightarrow> datetime option" where
  "access_expiry_from p activated_at fallback_churn_days =
     (let h = access_window_hours p
      in if h > 0 then Some (activated_at + hours_delta h)
         else case fallback_churn_days of
                None \<Rightarrow> None
              | Some d \<Rightarrow> if d \<noteq> 0 \<and> d > 0 then Some (activated_at + days d) else None)"

text \<open>
  A window is a whole number of minutes, so that the seconds the router enforces and the
  microseconds the database stores are both exact.
\<close>

definition window_minutes :: "service_plan \<Rightarrow> int" where
  "window_minutes p =
     (case plan_duration_minutes p of
        Some m \<Rightarrow> if m > 0 then m else \<lfloor>access_window_hours p\<rfloor> * 60
      | None \<Rightarrow> \<lfloor>access_window_hours p\<rfloor> * 60)"

lemma access_window_minutes: "access_window_hours p = of_int (window_minutes p) / 60"
  by (auto simp: window_minutes_def access_window_hours_def Let_def split: option.splits)

lemma window_minutes_pos: "access_window_hours p > 0 \<longleftrightarrow> window_minutes p > 0"
  by (simp add: access_window_minutes)

lemma limit_uptime_minutes: "limit_uptime_seconds p = (if window_minutes p > 0 then window_minutes p * 60 else 0)"
proof -
  have "py_round (of_int (window_minutes p) / 60 * 3600) = window_minutes p * 60"
    using py_round_of_int [of "window_minutes p * 60"] by (simp add: mult.commute)
  then show ?thesis
    by (auto simp: limit_uptime_seconds_def access_window_minutes Let_def)
qed

lemma hours_delta_minutes: "hours_delta (of_int m / 60) = minutes m"
proof -
  have "py_round (of_int m / 60 * 3600000000) = m * 60000000"
    using py_round_of_int [of "m * 60000000"] by (simp add: mult.commute)
  then show ?thesis by (simp add: hours_delta_def timedelta_defs)
qed

lemma access_expiry_window:
  "window_minutes p > 0 \<Longrightarrow> access_expiry_from p t fb = Some (t + minutes (window_minutes p))"
  by (simp add: access_expiry_from_def access_window_minutes hours_delta_minutes)

lemma access_expiry_fallback:
  "window_minutes p \<le> 0 \<Longrightarrow> 0 < d \<Longrightarrow> access_expiry_from p t (Some d) = Some (t + days d)"
  by (simp add: access_expiry_from_def access_window_minutes)

lemma access_expiry_later:
  "access_expiry_from p t fb = Some e \<Longrightarrow> t < e"
  by (auto simp: access_expiry_from_def access_window_minutes hours_delta_minutes Let_def
      timedelta_defs split: if_splits option.splits)

text \<open>
  C9. The cap the router enforces and the expiry the billing side computes are the same
  window: for a plan with a finite window, the absolute expiry of a package is its
  activation plus the router's \<open>limit-uptime\<close> seconds, whatever the churn fallback is, and the
  cap is positive; for a plan without a window the router gets no cap and the expiry is the
  churn fallback when that is positive.
\<close>

theorem uptime_cap_is_expiry_window:
  "access_expiry_from p t fb =
     (if limit_uptime_seconds p > 0 then Some (t + seconds (limit_uptime_seconds p))
      else case fb of Some d \<Rightarrow> if d > 0 then Some (t + days d) else None | None \<Rightarrow> None)
   \<and> (limit_uptime_str p = [] \<longleftrightarrow> access_window_hours p \<le> 0)"
proof (cases "window_minutes p > 0")
  case True
  then have "access_window_hours p > 0" by (simp add: window_minutes_pos)
  with True show ?thesis
    by (simp add: access_expiry_window limit_uptime_minutes limit_uptime_str_def Let_def
        timedelta_defs)
next
  case False
  then have "access_window_hours p \<le> 0" using window_minutes_pos [of p] by linarith
  with False show ?thesis
    by (auto simp: access_expiry_from_def limit_uptime_minutes limit_uptime_str_def Let_def
        split: option.splits)
qed

text \<open>
   A package with a precise duration of \<open>m\<close> minutes, however short, gets exactly that
  window: the router cap is \<open>60 m\<close> seconds, rendered as a non-empty string, and the access
  ends \<open>m\<close> minutes after activation; the legacy columns and the fallback have no influence.
\<close>

theorem sub_hour_package_is_capped:
  assumes "plan_duration_minutes p = Some m" "m > 0"
  shows "limit_uptime_str p = str_int (60 * m) @ ''s''
    \<and> access_expiry_from p t fb = Some (t + minutes m)"
proof -
  have w: "window_minutes p = m" using assms by (simp add: window_minutes_def)
  with assms(2) show ?thesis
    using access_expiry_window [of p t fb]
    by (simp add: limit_uptime_str_def limit_uptime_minutes Let_def mult.commute)
qed

theorem sub_hour_package_is_capped_witness:
  "limit_uptime_str (plan0\<lparr>plan_duration_minutes := Some 5\<rparr>) = str_int 300 @ ''s''
   \<and> access_expiry_from (plan0\<lparr>plan_duration_minutes := Some 5\<rparr>) 0 None = Some (minutes 5)"
  using sub_hour_package_is_capped [of "plan0\<lparr>plan_duration_minutes := Some 5\<rparr>" 5 0 None] by simp

section \<open>Rate limits\<close>

definition M_pair :: "int \<Rightarrow> int \<Rightarrow> string" where
  "M_pair a b = str_int a @ ''M/'' @ str_int b @ ''M''"

definition or_zero :: "int option \<Rightarrow> int" where
  "or_zero v = (case v of None \<Rightarrow> 0 | Some n \<Rightarrow> n)"

definition build_rate_limit :: "service_plan \<Rightarrow> string" where
  "build_rate_limit p =
     (let download = plan_download_speed p; upload = plan_upload_speed p
      in if download = 0 \<and> upload = 0 then []
         else if \<not> plan_enable_burst p then M_pair download upload
         else
           let b_down = or_zero (plan_burst_download p); b_up = or_zero (plan_burst_upload p)
           in if b_down = 0 \<and> b_up = 0 then M_pair download upload
              else
                let pct = or_zero (plan_burst_threshold p);
                    thr_down = (if pct \<noteq> 0 \<and> pct > 0
                      then max 1 (py_round (of_int (download * pct) / 100)) else max 1 download);
                    thr_up = (if pct \<noteq> 0 \<and> pct > 0
                      then max 1 (py_round (of_int (upload * pct) / 100)) else max 1 upload);
                    btime = or_zero (plan_burst_time p)
                in M_pair download upload @ '' '' @ M_pair b_down b_up @ '' '' @
                   M_pair thr_down thr_up @ '' '' @ str_int btime @ ''/'' @ str_int btime)"

definition k_pair :: "int \<Rightarrow> int \<Rightarrow> string" where
  "k_pair a b = str_int a @ ''k/'' @ str_int b @ ''k''"

definition format_rate_limit ::
    "int \<Rightarrow> int \<Rightarrow> int option \<Rightarrow> int option \<Rightarrow> int \<Rightarrow> int \<Rightarrow> string" where
  "format_rate_limit download_kbps upload_kbps burst_download_kbps burst_upload_kbps
       burst_threshold_percent burst_time_seconds =
     (if truthy_int burst_download_kbps \<and> truthy_int burst_upload_kbps
      then k_pair upload_kbps download_kbps @ '' '' @
           k_pair (or_zero burst_upload_kbps) (or_zero burst_download_kbps) @ '' '' @
           k_pair (py_trunc (of_int (upload_kbps * burst_threshold_percent) / 100))
                  (py_trunc (of_int (download_kbps * burst_threshold_percent) / 100)) @ '' '' @
           str_int burst_time_seconds @ ''s/'' @ str_int burst_time_seconds @ ''s''
      else k_pair upload_kbps download_kbps)"

definition format_simple_queue_target :: "string \<Rightarrow> string" where
  "format_simple_queue_target ip = (if CHR ''/'' \<in> set ip then ip else ip @ ''/32'')"

text \<open>\<open>_calculate_data_limit\<close> of the router sync: gigabytes to bytes.\<close>

definition calculate_data_limit :: "service_plan \<Rightarrow> string option" where
  "calculate_data_limit p =
     (if plan_data_limit p \<noteq> 0 \<and> plan_data_limit p > 0
      then Some (str_int (plan_data_limit p * 1024 * 1024 * 1024)) else None)"

text \<open>\<open>_calculate_time_limit\<close> of the router sync.\<close>

definition calculate_time_limit :: "service_plan \<Rightarrow> string option" where
  "calculate_time_limit p = (let s = limit_uptime_str p in if s = [] then None else Some s)"

end
