(* ===== verification/Command_Text.thy ===== *)
theory Command_Text
  imports Data_Model
begin

text \<open>
  The text formats the polling agent speaks (\<open>src/app/services/router_agent.py\<close>): commands as
  pipe-delimited lines (\<open>format_commands_pipe_delimited\<close>) and uptimes as RouterOS renders
  them (\<open>_parse_uptime\<close>). Strings are ASCII, so that \<open>str.encode()\<close> is the identity.
\<close>

section \<open>Base 64\<close>

definition b64_char :: "nat \<Rightarrow> char" where
  "b64_char n = ''ABCDEFGHIJKLMNOPQRSTUVWXYZabcdefghijklmnopqrstuvwxyz0123456789+/'' ! n"

text \<open>\<open>base64.b64encode\<close>: three bytes to four characters, padded at the end.\<close>

fun b64encode :: "string \<Rightarrow> string" where
  "b64encode [] = []"
| "b64encode [a] =
     (let n = of_char a * 16 in [b64_char (n div 64), b64_char (n mod 64), CHR ''='', CHR ''=''])"
| "b64encode [a, b] =
     (let n = (of_char a * 256 + of_char b) * 4
      in [b64_char (n div 4096), b64_char (n div 64 mod 64), b64_char (n mod 64), CHR ''=''])"
| "b64encode (a # b # c # rest) =
     (let n = (of_char a * 256 + of_char b) * 256 + of_char c
      in [b64_char (n div 262144), b64_char (n div 4096 mod 64), b64_char (n div 64 mod 64),
          b64_char (n mod 64)] @ b64encode rest)"

section \<open>Command lines\<close>

type_synonym wire_command = "string \<times> string \<times> params"
  \<comment> \<open>the \<open>id\<close>, \<open>action\<close> and \<open>params\<close> of a command as a poll response carries them\<close>

definition param :: "params \<Rightarrow> string \<Rightarrow> string \<Rightarrow> string" where
  "param ps k d = dict_get_or ps k d"

text \<open>The fields of one command, which the line joins with pipes.\<close>

definition command_fields :: "wire_command \<Rightarrow> string list" where
  "command_fields cmd =
     (let (cid, action, ps) = cmd
      in if action = ''disconnect'' then [''disconnect'', param ps ''username'' [], cid]
         else if action = ''disable_user''
           then [''disable_user'', param ps ''username'' [], param ps ''type'' ''pppoe'', cid]
         else if action = ''enable_user''
           then [''enable_user'', param ps ''username'' [], param ps ''type'' ''pppoe'', cid]
         else if action = ''remove_user''
           then [''remove_user'', param ps ''username'' [], param ps ''type'' ''pppoe'', cid]
         else if action = ''create_user''
           then [''create_user'', param ps ''username'' [], param ps ''password'' [],
                 param ps ''type'' ''pppoe'', param ps ''profile'' ''default'',
                 param ps ''rate_limit'' [], cid]
         else if action = ''set_queue''
           then [''set_queue'', param ps ''target'' [], param ps ''max_limit'' [], cid]
         else if action = ''fetch_import'' then [''fetch_import'', param ps ''url'' [], cid]
         else if action = ''run_script''
           then [''run_script'', b64encode (param ps ''script'' []), cid]
         else [action, join '','' (map (\<lambda>(k, v). k @ ''='' @ v) ps), cid])"

definition format_commands_pipe_delimited :: "wire_command list \<Rightarrow> string" where
  "format_commands_pipe_delimited cmds =
     join [CHR 0x0A] (map (\<lambda>c. join ''|'' (command_fields c)) cmds)"

definition field_ok :: "string \<Rightarrow> bool" where
  "field_ok f \<longleftrightarrow> CHR ''|'' \<notin> set f \<and> CHR 0x0A \<notin> set f"

lemma set_join: "set (join sep ps) \<subseteq> set sep \<union> \<Union> (set ` set ps)"
  by (induction sep ps rule: join.induct) auto

lemma command_fields_nonempty [simp]: "command_fields c \<noteq> []"
  by (auto simp: command_fields_def Let_def split: prod.splits)

lemma command_fields_long: "\<exists>a b r. command_fields c = a # b # r"
  by (auto simp: command_fields_def Let_def split: prod.splits)

lemma b64_char_in: "n < 64 \<Longrightarrow> b64_char n \<in> set ''ABCDEFGHIJKLMNOPQRSTUVWXYZabcdefghijklmnopqrstuvwxyz0123456789+/''"
  unfolding b64_char_def by (rule nth_mem) simp

lemma b64_char_ok:
  assumes "n < 64"
  shows "b64_char n \<noteq> CHR ''|''" "b64_char n \<noteq> CHR 0x0A"
    "CHR ''|'' \<noteq> b64_char n" "CHR 0x0A \<noteq> b64_char n"
  using b64_char_in [OF assms] by fastforce+

lemma b64_bounds:
  fixes a b c :: nat
  assumes "a < 256" "b < 256" "c < 256"
  shows "(a * 16) div 64 < 64" "(a * 256 + b) * 4 div 4096 < 64"
    "((a * 256 + b) * 256 + c) div 262144 < 64"
  using assms by (simp_all add: less_mult_imp_div_less)

lemma b64_field_ok: "field_ok (b64encode s)"
proof (induction s rule: b64encode.induct)
  case (2 a)
  show ?case
    using b64_bounds(1) [of "of_char a" 0 0] by (simp add: field_ok_def Let_def b64_char_ok)
next
  case (3 a b)
  show ?case
    using b64_bounds(2) [of "of_char a" "of_char b" 0] by (simp add: field_ok_def Let_def b64_char_ok)
next
  case (4 a b c rest)
  then show ?case
    using b64_bounds(3) [of "of_char a" "of_char b" "of_char c"]
    by (simp add: field_ok_def Let_def b64_char_ok)
qed (simp add: field_ok_def)

section \<open>Uptimes\<close>

datatype uptime = UptimeNumber rat | UptimeText string

text \<open>\<open>s.find(x)\<close> for a character that occurs: what stands before it and after it.\<close>

definition before_char :: "char \<Rightarrow> string \<Rightarrow> string" where
  "before_char x s = takeWhile (\<lambda>c. c \<noteq> x) s"

definition after_char :: "char \<Rightarrow> string \<Rightarrow> string" where
  "after_char x s = drop 1 (dropWhile (\<lambda>c. c \<noteq> x) s)"

definition clock_seconds :: "int list \<Rightarrow> int" where
  "clock_seconds ns =
     (case ns of [h, m, s] \<Rightarrow> h * 3600 + m * 60 + s | [m, s] \<Rightarrow> m * 60 + s | [s] \<Rightarrow> s | _ \<Rightarrow> 0)"

definition parse_colon_uptime :: "string \<Rightarrow> int" where
  "parse_colon_uptime s =
     (let (tot, time_part) =
        (if CHR ''d'' \<in> set s
         then (case parse_int (strip (before_char CHR ''d'' s)) of None \<Rightarrow> 0 | Some n \<Rightarrow> n * 86400,
               strip (after_char CHR ''d'' s))
         else (0, s))
      in case those (map parse_int (split_on CHR '':'' time_part)) of
           None \<Rightarrow> tot
         | Some nums \<Rightarrow> tot + clock_seconds nums)"

definition unit_seconds :: "char \<Rightarrow> int option" where
  "unit_seconds c =
     (if c = CHR ''w'' then Some 604800 else if c = CHR ''d'' then Some 86400
      else if c = CHR ''h'' then Some 3600 else if c = CHR ''m'' then Some 60
      else if c = CHR ''s'' then Some 1 else None)"

text \<open>The loop over the characters, with the running total and the digits read so far.\<close>

fun letter_uptime :: "int \<Rightarrow> string \<Rightarrow> string \<Rightarrow> int" where
  "letter_uptime tot current [] = tot"
| "letter_uptime tot current (c # cs) =
     (if isdigit c then letter_uptime tot (current @ [c]) cs
      else case unit_seconds c of
             Some u \<Rightarrow>
               if current \<noteq> []
               then letter_uptime (tot + (case parse_int current of None \<Rightarrow> 0 | Some n \<Rightarrow> n) * u) [] cs
               else letter_uptime tot current cs
           | None \<Rightarrow> letter_uptime tot current cs)"

definition parse_uptime :: "uptime \<Rightarrow> int" where
  "parse_uptime u =
     (case u of
        UptimeNumber x \<Rightarrow> py_trunc x
      | UptimeText t \<Rightarrow>
          let s = strip t
          in if s = [] then 0
             else if CHR '':'' \<in> set s then parse_colon_uptime s
             else letter_uptime 0 [] t)"

text \<open>The two renderings RouterOS emits: \<open>1w2d3h4m5s\<close> and \<open>9d 03:04:05\<close>.\<close>

definition uptime_part :: "nat \<times> char \<Rightarrow> string" where
  "uptime_part = (\<lambda>(n, c). str_nat n @ [c])"

definition letter_format :: "(nat \<times> char) list \<Rightarrow> string" where
  "letter_format ps = concat (map uptime_part ps)"

definition letter_value :: "(nat \<times> char) list \<Rightarrow> int" where
  "letter_value ps = (\<Sum>(n, c) \<leftarrow> ps. int n * (case unit_seconds c of None \<Rightarrow> 0 | Some u \<Rightarrow> u))"

definition colon_format :: "nat \<Rightarrow> nat \<Rightarrow> nat \<Rightarrow> nat \<Rightarrow> string" where
  "colon_format d h m s =
     (if d = 0 then [] else str_nat d @ ''d '') @
     join '':'' [zfill 2 (str_nat h), zfill 2 (str_nat m), zfill 2 (str_nat s)]"

lemma parse_int_digits:
  assumes "s \<noteq> []" "\<forall>c \<in> set s. isdigit c"
  shows "parse_int s = map_option int (digits_val False 0 s)"
proof -
  obtain c cs where s: "s = c # cs" using assms(1) by (cases s) auto
  have "strip s = s" using assms(2) isdigit_not_space by (intro strip_no_space) blast
  moreover have "c \<noteq> CHR ''-'' \<and> c \<noteq> CHR ''+''" using isdigit_neq assms(2) s by auto
  ultimately show ?thesis by (simp add: parse_int_def s del: digits_val.simps)
qed

lemma zfill_digits: "\<forall>c \<in> set (zfill w (str_nat n)). isdigit c"
  using str_nat_digits zero_digit by (auto simp: zfill_def)

lemma parse_int_zfill [simp]: "parse_int (zfill w (str_nat n)) = Some (int n)"
  by (subst parse_int_digits) (use zfill_digits in \<open>auto simp: zfill_def digits_val_zfill [unfolded zfill_def]\<close>)

lemma parse_int_str_nat [simp]: "parse_int (str_nat n) = Some (int n)"
  by (subst parse_int_digits) (use str_nat_digits in \<open>auto simp: digits_val_str_nat\<close>)

lemma letter_uptime_digits:
  "\<forall>c \<in> set ds. isdigit c \<Longrightarrow> letter_uptime t buf (ds @ cs) = letter_uptime t (buf @ ds) cs"
  by (induction ds arbitrary: buf) auto

lemma unit_not_digit: "unit_seconds c = Some u \<Longrightarrow> \<not> isdigit c"
  by (auto simp: unit_seconds_def isdigit_def split: if_splits)

lemma letter_uptime_part:
  assumes "unit_seconds c = Some u"
  shows "letter_uptime t [] (str_nat n @ c # cs) = letter_uptime (t + int n * u) [] cs"
  using assms unit_not_digit [OF assms] by (simp add: letter_uptime_digits str_nat_digits)

lemma letter_uptime_format:
  "\<forall>(n, c) \<in> set ps. unit_seconds c \<noteq> None \<Longrightarrow>
     letter_uptime t [] (letter_format ps) = t + letter_value ps"
  by (induction ps arbitrary: t)
    (auto simp: letter_format_def uptime_part_def letter_value_def letter_uptime_part)

lemma lstrip_hd: "s \<noteq> [] \<Longrightarrow> \<not> is_space (hd s) \<Longrightarrow> lstrip s = s"
  by (cases s) (auto simp: lstrip_def)

lemma strip_ends: "s \<noteq> [] \<Longrightarrow> \<not> is_space (hd s) \<Longrightarrow> \<not> is_space (last s) \<Longrightarrow> strip s = s"
  by (simp add: strip_def lstrip_hd hd_rev)

lemma strip_blank: "strip (CHR '' '' # s) = strip s"
  by (simp add: strip_def lstrip_def is_space_def)

lemma before_after_char:
  assumes "x \<notin> set p"
  shows "before_char x (p @ x # s) = p" "after_char x (p @ x # s) = s"
  using assms by (induction p) (auto simp: before_char_def after_char_def)

lemma zfill_nonempty [simp]: "zfill w (str_nat n) \<noteq> []"
  by (simp add: zfill_def)

lemma isdigit_hd_last: "\<forall>c \<in> set s. isdigit c \<Longrightarrow> s \<noteq> [] \<Longrightarrow> isdigit (hd s) \<and> isdigit (last s)"
  by simp

lemma not_digits:
  assumes "\<forall>c \<in> set s. isdigit c"
  shows "CHR '':'' \<notin> set s" "CHR ''d'' \<notin> set s" "CHR '' '' \<notin> set s"
  using assms by (auto simp: isdigit_def)

definition clock_format :: "nat \<Rightarrow> nat \<Rightarrow> nat \<Rightarrow> string" where
  "clock_format h m s = join '':'' [zfill 2 (str_nat h), zfill 2 (str_nat m), zfill 2 (str_nat s)]"

lemma clock_format_strip: "strip (clock_format h m s) = clock_format h m s"
proof (rule strip_ends)
  have "isdigit (hd (zfill 2 (str_nat h)))" "isdigit (last (zfill 2 (str_nat s)))"
    using isdigit_hd_last [OF zfill_digits] by auto
  then show "\<not> is_space (hd (clock_format h m s))" "\<not> is_space (last (clock_format h m s))"
    using isdigit_not_space by (auto simp: clock_format_def)
qed (simp add: clock_format_def)

lemma clock_format_split:
  "those (map parse_int (split_on CHR '':'' (clock_format h m s))) = Some [int h, int m, int s]"
proof -
  have "split_on CHR '':'' (clock_format h m s) = [zfill 2 (str_nat h), zfill 2 (str_nat m), zfill 2 (str_nat s)]"
    unfolding clock_format_def using not_digits [OF zfill_digits] by (intro split_on_join) auto
  then show ?thesis by simp
qed

lemma clock_format_no_d: "CHR ''d'' \<notin> set (clock_format h m s)"
  using not_digits [OF zfill_digits] by (auto simp: clock_format_def)

lemma parse_colon_uptime_clock:
  "parse_colon_uptime (clock_format h m s) = int h * 3600 + int m * 60 + int s"
  by (simp add: parse_colon_uptime_def clock_format_no_d clock_format_split clock_seconds_def)

lemma parse_colon_uptime_days:
  "parse_colon_uptime (str_nat d @ ''d '' @ clock_format h m s) =
     int d * 86400 + int h * 3600 + int m * 60 + int s"
proof -
  have "CHR ''d'' \<notin> set (str_nat d)" using not_digits [OF str_nat_digits] by blast
  note ba = before_after_char [OF this, of "CHR '' '' # clock_format h m s"]
  have "strip (str_nat d) = str_nat d"
    using str_nat_digits isdigit_not_space by (intro strip_no_space) blast
  then show ?thesis
    using ba by (simp add: parse_colon_uptime_def strip_blank clock_format_strip clock_format_split
        clock_seconds_def)
qed

lemma colon_format_strip: "strip (colon_format d h m s) = colon_format d h m s"
proof (cases "d = 0")
  case True
  then show ?thesis
    using clock_format_strip by (simp add: colon_format_def clock_format_def)
next
  case False
  have "isdigit (hd (str_nat d))" "isdigit (last (zfill 2 (str_nat s)))"
    using isdigit_hd_last [OF zfill_digits] isdigit_hd_last [OF str_nat_digits] by auto
  then show ?thesis
    using False isdigit_not_space by (intro strip_ends) (auto simp: colon_format_def)
qed

lemma letter_format_no_colon:
  assumes "\<forall>(n, c) \<in> set ps. unit_seconds c \<noteq> None"
  shows "CHR '':'' \<notin> set (letter_format ps)" "\<forall>c \<in> set (letter_format ps). \<not> is_space c"
proof -
  have "c \<noteq> CHR '':'' \<and> \<not> is_space c" if "unit_seconds c \<noteq> None" for c
    using that by (auto simp: unit_seconds_def is_space_def split: if_splits)
  moreover have "c \<noteq> CHR '':'' \<and> \<not> is_space c" if "c \<in> set (str_nat n)" for c n
    using that str_nat_digits [of n] isdigit_not_space not_digits(1) [OF str_nat_digits] by blast
  ultimately show "CHR '':'' \<notin> set (letter_format ps)"
    "\<forall>c \<in> set (letter_format ps). \<not> is_space c"
    using assms by (fastforce simp: letter_format_def uptime_part_def)+
qed

text \<open>
   \<open>_parse_uptime\<close> reads both renderings RouterOS emits: a sequence of numbers with unit
  letters denotes the sum of its parts, whatever units it has and in whatever order, and
  \<open>[<days>d ]HH:MM:SS\<close> denotes its days, hours, minutes and seconds, whatever padding they need.
\<close>

theorem parse_uptime_roundtrip:
  assumes "\<forall>(n, c) \<in> set ps. c \<in> set ''wdhms''"
  shows "parse_uptime (UptimeText (letter_format ps)) = letter_value ps
    \<and> parse_uptime (UptimeText (colon_format d h m s)) =
      int d * 86400 + int h * 3600 + int m * 60 + int s"
proof
  have u: "\<forall>(n, c) \<in> set ps. unit_seconds c \<noteq> None"
    using assms by (auto simp: unit_seconds_def)
  show "parse_uptime (UptimeText (letter_format ps)) = letter_value ps"
    using letter_format_no_colon [OF u] letter_uptime_format [OF u, of 0]
    by (cases "letter_format ps = []") (auto simp: parse_uptime_def strip_no_space Let_def)
  show "parse_uptime (UptimeText (colon_format d h m s)) =
      int d * 86400 + int h * 3600 + int m * 60 + int s"
    using parse_colon_uptime_clock parse_colon_uptime_days
    by (auto simp: parse_uptime_def colon_format_strip Let_def)
      (auto simp: colon_format_def clock_format_def)
qed

theorem parse_uptime_roundtrip_witness:
  "parse_uptime (UptimeText ''1w2d3h4m5s'') = 788645
   \<and> parse_uptime (UptimeText ''9d 03:04:05'') = 788645"
proof -
  have "letter_format [(1, CHR ''w''), (2, CHR ''d''), (3, CHR ''h''), (4, CHR ''m''), (5, CHR ''s'')]
      = ''1w2d3h4m5s''" "colon_format 9 3 4 5 = ''9d 03:04:05''"
    by code_simp+
  then show ?thesis
    using parse_uptime_roundtrip
      [of "[(1, CHR ''w''), (2, CHR ''d''), (3, CHR ''h''), (4, CHR ''m''), (5, CHR ''s'')]" 9 3 4 5]
    by (simp add: letter_value_def unit_seconds_def)
qed

section \<open>Reading a response back\<close>

text \<open>
  What may travel in a line: no pipe and no newline in the id, the action and the parameters;
  a script is exempt, since it is sent in base 64.
\<close>

definition wire_ok :: "wire_command \<Rightarrow> bool" where
  "wire_ok cmd =
     (let (cid, action, ps) = cmd
      in field_ok cid \<and> field_ok action \<and>
         (action = ''run_script'' \<or> (\<forall>(k, v) \<in> set ps. field_ok k \<and> field_ok v)))"

lemma field_ok_param:
  "\<forall>(k, v) \<in> set ps. field_ok k \<and> field_ok v \<Longrightarrow> field_ok d \<Longrightarrow> field_ok (param ps k d)"
  by (fastforce simp: param_def dict_get_or_def split: option.splits dest: map_of_SomeD)

lemma field_ok_join:
  assumes "field_ok sep" "\<forall>p \<in> set ps. field_ok p"
  shows "field_ok (join sep ps)"
  using assms set_join [of sep ps] by (fastforce simp: field_ok_def)

lemma field_ok_literals [simp]:
  "field_ok []" "field_ok ''pppoe''" "field_ok ''default''" "field_ok '',''" "field_ok ''=''"
  by (simp_all add: field_ok_def)

lemma field_ok_append: "field_ok (s @ t) \<longleftrightarrow> field_ok s \<and> field_ok t"
  by (auto simp: field_ok_def)

lemma command_fields_ok:
  assumes "wire_ok cmd"
  shows "\<forall>f \<in> set (command_fields cmd). field_ok f"
proof -
  obtain cid action ps where c: "cmd = (cid, action, ps)" by (cases cmd) auto
  have generic: "field_ok (join '','' (map (\<lambda>(k, v). k @ ''='' @ v) ps))"
    if "\<forall>(k, v) \<in> set ps. field_ok k \<and> field_ok v"
    using that by (intro field_ok_join) (auto simp: field_ok_append field_ok_def)
  show ?thesis
  proof (cases "action = ''run_script''")
    case True
    with assms show ?thesis
      by (simp add: c wire_ok_def command_fields_def b64_field_ok)
  next
    case False
    with assms have ok: "field_ok cid" "field_ok action" "\<forall>(k, v) \<in> set ps. field_ok k \<and> field_ok v"
      by (simp_all add: c wire_ok_def)
    note prm = field_ok_param [OF ok(3)]
    from False ok(1,2) generic [OF ok(3)] show ?thesis
      by (auto simp: c command_fields_def prm)
  qed
qed

lemma command_fields_ends: "hd (command_fields (cid, action, ps)) = action
    \<and> last (command_fields (cid, action, ps)) = cid"
  by (simp add: command_fields_def)

end
