(* ===== verification/Router_Agent.thy ===== *)
theory Router_Agent
  imports Command_Text
begin

text \<open>
  The command queue of the polling agents: \<open>RouterAgentService\<close> of
  \<open>src/app/services/router_agent.py\<close>, the endpoints that the agents call
  (\<open>src/app/api/v1/router_agent.py\<close>) and the periodic clean-up. Routers behind NAT poll the
  service; a poll carries telemetry and returns the commands that are due, a report carries
  their results.

  Outside the database an operation talks to Redis and to the provisioning WebSocket: these
  messages are returned as a list of effects. Both calls are wrapped in handlers that
  swallow every exception, so that their failure has no effect on the database. The em dash
  that separates the two halves of a log line is not an ASCII character: a log line is kept
  as its two halves.
\<close>

section \<open>Settings and messages\<close>

definition agent_default_poll_interval :: int where
  "agent_default_poll_interval = 10"

definition agent_offline_threshold_multiplier :: int where
  "agent_offline_threshold_multiplier = 3"

definition agent_command_expiry_hours :: int where
  "agent_command_expiry_hours = 1"

definition agent_max_commands_per_poll :: nat where
  "agent_max_commands_per_poll = 10"

definition agent_script_version :: string where
  "agent_script_version = ''1.0''"

datatype effect =
  Hset string string string \<comment> \<open>Redis key, field, value\<close>
| HsetTime string string datetime \<comment> \<open>a point in time, rendered by \<open>isoformat()\<close>\<close>
| Expire string int \<comment> \<open>time to live in seconds\<close>
| BroadcastLog string datetime string "string option" string
    \<comment> \<open>session, time, first half of the line, message after the dash, level\<close>
| ProvisioningComplete string datetime
| BroadcastStatus string bool string string datetime
    \<comment> \<open>session, success, status, message, time\<close>

section \<open>The queue\<close>

text \<open>
  \<open>uuid i\<close> is the value that \<open>uuid4()\<close> yields for the \<open>i\<close>-th row of the table.
\<close>

definition queue_command ::
    "(nat \<Rightarrow> string) \<Rightarrow> datetime \<Rightarrow> int \<Rightarrow> string \<Rightarrow> params \<Rightarrow> int \<Rightarrow> string option \<Rightarrow> string option
     \<Rightarrow> int option \<Rightarrow> dbs \<Rightarrow> router_command \<times> dbs" where
  "queue_command uuid now router_id action prms priority source source_id expires_in_seconds s =
     (let secs = (case expires_in_seconds of None \<Rightarrow> agent_command_expiry_hours * 3600 | Some n \<Rightarrow> n);
          command = \<lparr>cmd_id = uuid (length (commands (cur s))), cmd_router_id = router_id,
            cmd_action = action, cmd_params = prms, cmd_priority = priority,
            cmd_status = CmdPending, cmd_created_at = now, cmd_sent_at = None,
            cmd_completed_at = None, cmd_expires_at = Some (now + seconds secs),
            cmd_result_message = None, cmd_retry_count = 0, cmd_max_retries = 3,
            cmd_source = source, cmd_source_id = source_id\<rparr>
      in (command, on_db (add_command command) s))"

definition is_due :: "datetime \<Rightarrow> int \<Rightarrow> router_command \<Rightarrow> bool" where
  "is_due now router_id c \<longleftrightarrow>
     cmd_router_id c = router_id \<and> cmd_status c = CmdPending \<and>
     (case cmd_expires_at c of None \<Rightarrow> True | Some e \<Rightarrow> e > now)"

definition urgency :: "router_command \<Rightarrow> int \<times> datetime" where
  "urgency c = (cmd_priority c, cmd_created_at c)"

definition get_pending_commands :: "datetime \<Rightarrow> int \<Rightarrow> nat option \<Rightarrow> db \<Rightarrow> router_command list" where
  "get_pending_commands now router_id limit d =
     take (case limit of None \<Rightarrow> agent_max_commands_per_poll | Some n \<Rightarrow> n)
       (order_by urgency (filter (is_due now router_id) (commands d)))"

definition mark_commands_sent :: "datetime \<Rightarrow> string list \<Rightarrow> dbs \<Rightarrow> dbs" where
  "mark_commands_sent now ids s =
     (if ids = [] then s
      else on_db (commands_update (upd_where (\<lambda>c. cmd_id c \<in> set ids)
             (\<lambda>c. c\<lparr>cmd_status := CmdSent, cmd_sent_at := Some now\<rparr>))) s)"

section \<open>Polls\<close>

text \<open>
  The telemetry of a poll; \<^const>\<open>None\<close> is a key that the dictionary does not have. An entry
  of the active user list is an object of strings.
\<close>

record telemetry =
  tm_version :: "string option"
  tm_uptime :: "uptime option"
  tm_cpu_load :: "int option"
  tm_free_memory :: "int option"
  tm_total_memory :: "int option"
  tm_free_hdd_space :: "int option"
  tm_total_hdd_space :: "int option"
  tm_active_pppoe :: "int option"
  tm_active_hotspot :: "int option"
  tm_active_users :: "params list option"

text \<open>\<open>u.get(k1) or u.get(k2) or ... or ""\<close>.\<close>

fun first_truthy :: "params \<Rightarrow> string list \<Rightarrow> string" where
  "first_truthy u [] = []"
| "first_truthy u (k # ks) = or_str (dict_get u k) (first_truthy u ks)"

definition normalise_user :: "params \<Rightarrow> active_user" where
  "normalise_user u =
     \<lparr>au_username = first_truthy u [''username'', ''user'', ''name''],
      au_type = first_truthy u [''type''],
      au_address = first_truthy u [''address'', ''ip''],
      au_mac = first_truthy u [''mac'', ''mac-address''],
      au_uptime = first_truthy u [''uptime'']\<rparr>"

definition or_keep :: "'a option \<Rightarrow> 'a option \<Rightarrow> 'a option" where
  "or_keep new old = (case new of None \<Rightarrow> old | Some v \<Rightarrow> Some v)"

definition apply_telemetry :: "datetime \<Rightarrow> telemetry \<Rightarrow> router \<Rightarrow> router" where
  "apply_telemetry now t r =
     r\<lparr>rt_last_seen := Some now,
       rt_last_poll_at := Some now,
       rt_status := Online,
       rt_cpu_load := or_keep (tm_cpu_load t) (rt_cpu_load r),
       rt_free_memory := or_keep (tm_free_memory t) (rt_free_memory r),
       rt_total_memory := or_keep (tm_total_memory t) (rt_total_memory r),
       rt_free_hdd_space := or_keep (tm_free_hdd_space t) (rt_free_hdd_space r),
       rt_total_hdd_space := or_keep (tm_total_hdd_space t) (rt_total_hdd_space r),
       rt_uptime := (case tm_uptime t of None \<Rightarrow> rt_uptime r | Some u \<Rightarrow> parse_uptime u),
       rt_routeros_version :=
         (if truthy (tm_version t) then tm_version t else rt_routeros_version r),
       rt_active_users :=
         (case tm_active_users t of
            None \<Rightarrow> rt_active_users r | Some us \<Rightarrow> Some (map normalise_user us)),
       rt_active_users_at :=
         (case tm_active_users t of None \<Rightarrow> rt_active_users_at r | Some us \<Rightarrow> Some now)\<rparr>"

definition redis_telemetry :: "datetime \<Rightarrow> int \<Rightarrow> telemetry \<Rightarrow> effect list" where
  "redis_telemetry now router_id t =
     (let key = ''router:status:'' @ str_int router_id;
          num = (\<lambda>v. str_int (case v of None \<Rightarrow> 0 | Some n \<Rightarrow> n))
      in [Hset key ''cpu_load'' (num (tm_cpu_load t)),
          Hset key ''free_memory'' (num (tm_free_memory t)),
          Hset key ''total_memory'' (num (tm_total_memory t)),
          Hset key ''active_pppoe'' (num (tm_active_pppoe t)),
          Hset key ''active_hotspot'' (num (tm_active_hotspot t)),
          HsetTime key ''last_poll'' now,
          Hset key ''status'' ''online'',
          Expire key 300])"

record poll_response =
  pr_commands :: "wire_command list"
  pr_poll_interval :: int
  pr_agent_version :: "string option"

definition wire :: "router_command \<Rightarrow> wire_command" where
  "wire c = (cmd_id c, cmd_action c, cmd_params c)"

definition handle_poll ::
    "datetime \<Rightarrow> int \<Rightarrow> telemetry \<Rightarrow> dbs \<Rightarrow> poll_response \<times> effect list \<times> dbs" where
  "handle_poll now router_id t s =
     (case tbl_get rt_id router_id (routers (cur s)) of
        None \<Rightarrow>
          (\<lparr>pr_commands = [], pr_poll_interval = agent_default_poll_interval, pr_agent_version = None\<rparr>,
           [], s)
      | Some router \<Rightarrow>
          let s1 = on_db (upd_router router_id (apply_telemetry now t)) s;
              cmds = get_pending_commands now router_id None (cur s1);
              s2 = mark_commands_sent now (map cmd_id cmds) s1;
              s3 = commit s2
          in (\<lparr>pr_commands = map wire cmds, pr_poll_interval = rt_agent_poll_interval router,
               pr_agent_version = Some agent_script_version\<rparr>,
              redis_telemetry now router_id t, s3))"

section \<open>Reports\<close>

definition update_subscription_sync_status ::
    "datetime \<Rightarrow> string \<Rightarrow> bool \<Rightarrow> dbs \<Rightarrow> dbs" where
  "update_subscription_sync_status now subscription_id synced s =
     (case parse_int subscription_id of
        None \<Rightarrow> s
      | Some i \<Rightarrow>
          on_db (upd_subscription i
            (\<lambda>r. r\<lparr>sub_is_router_synced := synced, sub_last_router_sync := Some now\<rparr>)) s)"

definition update_backup_status ::
    "datetime \<Rightarrow> string \<Rightarrow> string \<Rightarrow> string \<Rightarrow> dbs \<Rightarrow> (exn + unit) \<times> dbs" where
  "update_backup_status now command_id status message s =
     (case scalar_one_or_none (filter (\<lambda>b. bk_command_id b = Some command_id) (backups (cur s))) of
        Inl e \<Rightarrow> (Inl e, s)
      | Inr None \<Rightarrow> (Inr (), s)
      | Inr (Some b) \<Rightarrow>
          if bk_status b \<noteq> ''pending'' then (Inr (), s)
          else (Inr (), on_db (backups_update (upd_where (\<lambda>r. bk_command_id r = Some command_id)
                 (\<lambda>r. r\<lparr>bk_status := status, bk_message := Some message,
                        bk_completed_at := Some now\<rparr>))) s))"

definition broadcast_provisioning_progress ::
    "datetime \<Rightarrow> router_command \<Rightarrow> string \<Rightarrow> string \<Rightarrow> effect list" where
  "broadcast_provisioning_progress now command status message =
     (if cmd_source command \<noteq> Some ''provisioning'' then []
      else case cmd_source_id command of
             None \<Rightarrow> []
           | Some session_id \<Rightarrow>
               if session_id = [] then []
               else
                 let action = cmd_action command;
                     level = (if status = ''success'' then ''success''
                              else if status = ''failed'' then ''error''
                              else if status = ''retry'' then ''warning'' else ''info'');
                     line = ''Router agent: '' @ action @ '' '' @ status;
                     rest = (if message = [] then None else Some message)
                 in BroadcastLog session_id now line rest level #
                    (if action = ''fetch_import'' \<and> status = ''success''
                     then [ProvisioningComplete session_id now]
                     else if action = ''fetch_import'' \<and> status = ''failed''
                     then [BroadcastStatus session_id False ''failed''
                             (''Router agent failed to apply the configuration: '' @
                              (if message = [] then ''unknown error'' else message)) now]
                     else []))"

definition process_command_result ::
    "datetime \<Rightarrow> string \<Rightarrow> string \<Rightarrow> string \<Rightarrow> dbs \<Rightarrow> (exn + effect list) \<times> dbs" where
  "process_command_result now command_id status message s =
     (case tbl_get cmd_id command_id (commands (cur s)) of
        None \<Rightarrow> (Inr [], s)
      | Some command \<Rightarrow>
          let ok_message = (if message = [] then ''OK'' else message);
              change = (\<lambda>f. on_db (upd_command command_id f))
          in if status = ''success'' then
               let s1 = change (\<lambda>c. c\<lparr>cmd_status := CmdSuccess, cmd_completed_at := Some now,
                          cmd_result_message := Some ok_message\<rparr>) s;
                   s2 = (if cmd_source command = Some ''subscription_sync'' \<and> truthy (cmd_source_id command)
                         then update_subscription_sync_status now (the (cmd_source_id command)) True s1
                         else s1)
               in andthen (update_backup_status now command_id ''completed'' ok_message s2)
                    (\<lambda>_ s3. (Inr (broadcast_provisioning_progress now command ''success'' message), s3))
             else if status = ''failed'' then
               let n = cmd_retry_count command + 1;
                   s1 = change (\<lambda>c. c\<lparr>cmd_retry_count := n, cmd_result_message := Some message\<rparr>) s
               in if n \<ge> cmd_max_retries command then
                    let s2 = change (\<lambda>c. c\<lparr>cmd_status := CmdFailed, cmd_completed_at := Some now\<rparr>) s1
                    in andthen (update_backup_status now command_id ''failed'' message s2)
                         (\<lambda>_ s3. (Inr (broadcast_provisioning_progress now command ''failed'' message), s3))
                  else
                    (Inr (broadcast_provisioning_progress now command ''retry''
                       (message @ '' (retry '' @ str_int n @ ''/'' @ str_int (cmd_max_retries command) @ '')'')),
                     change (\<lambda>c. c\<lparr>cmd_status := CmdPending, cmd_sent_at := None\<rparr>) s1)
             else (Inr [], s))"

text \<open>A result of the report is its id, status and message.\<close>

fun report_results ::
    "datetime \<Rightarrow> (string \<times> string \<times> string) list \<Rightarrow> dbs \<Rightarrow> (exn + effect list) \<times> dbs" where
  "report_results now [] s = (Inr [], s)"
| "report_results now ((cid, status, message) # rs) s =
     andthen (process_command_result now cid status message s)
       (\<lambda>es s'. andthen (report_results now rs s') (\<lambda>es' s''. (Inr (es @ es'), s'')))"

definition handle_report ::
    "datetime \<Rightarrow> int \<Rightarrow> (string \<times> string \<times> string) list \<Rightarrow> dbs \<Rightarrow> (exn + effect list) \<times> dbs" where
  "handle_report now router_id results s =
     andthen (report_results now results s) (\<lambda>es s'. (Inr es, commit s'))"

section \<open>Clean-up\<close>

definition cleanup_expired_commands :: "datetime \<Rightarrow> dbs \<Rightarrow> nat \<times> dbs" where
  "cleanup_expired_commands now s =
     (let stale = (\<lambda>c. (cmd_status c = CmdPending \<or> cmd_status c = CmdSent) \<and>
                       (case cmd_expires_at c of None \<Rightarrow> False | Some e \<Rightarrow> e < now))
      in (length (filter stale (commands (cur s))),
          commit (on_db (commands_update (upd_where stale
            (\<lambda>c. c\<lparr>cmd_status := CmdExpired, cmd_completed_at := Some now\<rparr>))) s)))"

definition reset_stale_sent_commands :: "datetime \<Rightarrow> int \<Rightarrow> dbs \<Rightarrow> nat \<times> dbs" where
  "reset_stale_sent_commands now stale_threshold_minutes s =
     (let threshold = now - minutes stale_threshold_minutes;
          stale = (\<lambda>c. cmd_status c = CmdSent \<and>
                       (case cmd_sent_at c of None \<Rightarrow> False | Some t \<Rightarrow> t < threshold) \<and>
                       cmd_retry_count c < cmd_max_retries c)
      in (length (filter stale (commands (cur s))),
          commit (on_db (commands_update (upd_where stale
            (\<lambda>c. c\<lparr>cmd_status := CmdPending, cmd_sent_at := None\<rparr>))) s)))"

text \<open>The periodic task: \<open>cleanup_expired_commands\<close> of \<open>src/app/tasks/router_tasks.py\<close>.\<close>

definition cleanup_task :: "datetime \<Rightarrow> dbs \<Rightarrow> (nat \<times> nat) \<times> dbs" where
  "cleanup_task now s =
     (let (expired, s1) = cleanup_expired_commands now s;
          (stale, s2) = reset_stale_sent_commands now 5 s1
      in ((expired, stale), s2))"

section \<open>Tokens and endpoints\<close>

text \<open>
  bcrypt is a parameter: \<open>hash_pw\<close> is \<open>hashpw\<close> with the salt drawn for the call, \<open>check_pw\<close> is
  \<open>checkpw\<close> with its exceptions read as \<open>False\<close>. \<open>token\<close> is what \<open>secrets.token_hex(32)\<close> drew.
\<close>

abbreviation HTTPException :: "string \<Rightarrow> string \<Rightarrow> exn" where
  "HTTPException code detail \<equiv> Exn ''HTTPException'' (code @ '': '' @ detail)"

definition generate_agent_token ::
    "(string \<Rightarrow> string) \<Rightarrow> string \<Rightarrow> int \<Rightarrow> dbs \<Rightarrow> (exn + string) \<times> dbs" where
  "generate_agent_token hash_pw token router_id s =
     (case tbl_get rt_id router_id (routers (cur s)) of
        None \<Rightarrow> (Inl (ValueError (''Router '' @ str_int router_id @ '' not found'')), s)
      | Some r \<Rightarrow>
          (Inr token, on_db (upd_router router_id
             (\<lambda>r. r\<lparr>rt_agent_token := Some (hash_pw token), rt_agent_token_plain := Some token\<rparr>)) s))"

definition verify_agent_token ::
    "(string \<Rightarrow> string \<Rightarrow> bool) \<Rightarrow> int \<Rightarrow> string \<Rightarrow> db \<Rightarrow> bool" where
  "verify_agent_token check_pw router_id token d =
     (case tbl_get rt_id router_id (routers d) of
        None \<Rightarrow> False
      | Some r \<Rightarrow> truthy (rt_agent_token r) \<and> check_pw token (the (rt_agent_token r)))"

definition verify_router_token ::
    "(string \<Rightarrow> string \<Rightarrow> bool) \<Rightarrow> int \<Rightarrow> string \<Rightarrow> db \<Rightarrow> exn + router" where
  "verify_router_token check_pw router_id token d =
     (if \<not> verify_agent_token check_pw router_id token d
      then Inl (HTTPException ''401'' ''Invalid router agent token'')
      else case tbl_get rt_id router_id (routers d) of
             None \<Rightarrow> Inl (HTTPException ''404'' ''Router not found'')
           | Some r \<Rightarrow> Inr r)"

definition agent_poll ::
    "(string \<Rightarrow> string \<Rightarrow> bool) \<Rightarrow> datetime \<Rightarrow> int \<Rightarrow> string \<Rightarrow> telemetry \<Rightarrow> dbs
     \<Rightarrow> (exn + poll_response \<times> effect list) \<times> dbs" where
  "agent_poll check_pw now router_id token t s =
     (case verify_router_token check_pw router_id token (cur s) of
        Inl e \<Rightarrow> (Inl e, s)
      | Inr r \<Rightarrow> let (resp, es, s') = handle_poll now router_id t s in (Inr (resp, es), s'))"

definition agent_poll_text ::
    "(string \<Rightarrow> string \<Rightarrow> bool) \<Rightarrow> datetime \<Rightarrow> int \<Rightarrow> string \<Rightarrow> telemetry \<Rightarrow> dbs
     \<Rightarrow> (exn + string \<times> effect list) \<times> dbs" where
  "agent_poll_text check_pw now router_id token t s =
     (case verify_router_token check_pw router_id token (cur s) of
        Inl e \<Rightarrow> (Inl e, s)
      | Inr r \<Rightarrow>
          let (resp, es, s') = handle_poll now router_id t s
          in (Inr (format_commands_pipe_delimited (pr_commands resp), es), s'))"

text \<open>The acknowledgement is the number of results processed.\<close>

definition agent_report ::
    "(string \<Rightarrow> string \<Rightarrow> bool) \<Rightarrow> datetime \<Rightarrow> int \<Rightarrow> string \<Rightarrow> (string \<times> string \<times> string) list \<Rightarrow> dbs
     \<Rightarrow> (exn + nat \<times> effect list) \<times> dbs" where
  "agent_report check_pw now router_id token results s =
     (case verify_router_token check_pw router_id token (cur s) of
        Inl e \<Rightarrow> (Inl e, s)
      | Inr r \<Rightarrow> andthen (handle_report now router_id results s) (\<lambda>es s'. (Inr (length results, es), s')))"

datatype upload_result = UploadDiagnostic | UploadStored int int

text \<open>\<open>status\<close> is the query parameter of that name, \<open>body\<close> the bytes of the request.\<close>

definition agent_backup_upload ::
    "(string \<Rightarrow> string \<Rightarrow> bool) \<Rightarrow> datetime \<Rightarrow> int \<Rightarrow> string \<Rightarrow> int option \<Rightarrow> string option
     \<Rightarrow> string option \<Rightarrow> string \<Rightarrow> dbs \<Rightarrow> (exn + upload_result) \<times> dbs" where
  "agent_backup_upload check_pw now router_id token backup_id name status body s =
     (if \<not> verify_agent_token check_pw router_id token (cur s)
      then (Inl (HTTPException ''401'' ''Invalid router agent token''), s)
      else if body = [] then
        (if status = Some ''failed'' then (Inr UploadDiagnostic, s)
         else (Inl (HTTPException ''400'' ''Empty backup body''), s))
      else
        let named = (if truthy_int backup_id
                     then scalar_one_or_none (filter (\<lambda>b. bk_id b = the backup_id \<and> bk_router_id b = router_id)
                            (backups (cur s)))
                     else Inr None);
            newest = one_of (order_by (\<lambda>b. - bk_created_at b)
                       (filter (\<lambda>b. bk_router_id b = router_id) (backups (cur s))))
        in case named of
             Inl e \<Rightarrow> (Inl e, s)
           | Inr found \<Rightarrow>
               case (case found of None \<Rightarrow> newest | Some b \<Rightarrow> Some b) of
                 None \<Rightarrow> (Inl (HTTPException ''404'' ''No backup row to attach the file to''), s)
               | Some b \<Rightarrow>
                   (Inr (UploadStored (bk_id b) (int (length body))),
                    commit (on_db (backups_update (tbl_upd bk_id (bk_id b)
                      (\<lambda>r. r\<lparr>bk_file_data := Some body, bk_size_bytes := Some (int (length body)),
                             bk_status := ''completed'', bk_completed_at := Some now,
                             bk_name := or_str name (bk_name r)\<rparr>))) s)))"

record agent_status =
  as_agent_installed :: bool
  as_agent_version :: "string option"
  as_last_poll_at :: "datetime option"
  as_poll_interval :: int
  as_is_online :: bool
  as_pending_commands :: nat
  as_seconds_since_last_poll :: "int option"
  as_recent_commands :: "(string \<times> string \<times> CommandStatus \<times> datetime) list"

definition get_agent_status :: "datetime \<Rightarrow> int \<Rightarrow> db \<Rightarrow> exn + agent_status" where
  "get_agent_status now router_id d =
     (case tbl_get rt_id router_id (routers d) of
        None \<Rightarrow> Inl (HTTPException ''404'' ''Router not found'')
      | Some r \<Rightarrow>
          let mine = filter (\<lambda>c. cmd_router_id c = router_id) (commands d);
              threshold = rt_agent_poll_interval r * agent_offline_threshold_multiplier
          in Inr
            \<lparr>as_agent_installed = rt_agent_installed r, as_agent_version = rt_agent_version r,
             as_last_poll_at = rt_last_poll_at r, as_poll_interval = rt_agent_poll_interval r,
             as_is_online = (case rt_last_poll_at r of None \<Rightarrow> False | Some p \<Rightarrow> now - p < seconds threshold),
             as_pending_commands = length (filter (\<lambda>c. cmd_status c = CmdPending) mine),
             as_seconds_since_last_poll =
               map_option (\<lambda>p. py_trunc (of_int (now - p) / 1000000)) (rt_last_poll_at r),
             as_recent_commands =
               map (\<lambda>c. (cmd_id c, cmd_action c, cmd_status c, cmd_created_at c))
                 (take 10 (order_by (\<lambda>c. - cmd_created_at c) mine))\<rparr>)"

definition get_router_commands :: "int \<Rightarrow> CommandStatus option \<Rightarrow> nat \<Rightarrow> db \<Rightarrow> router_command list" where
  "get_router_commands router_id status_filter limit d =
     take limit (order_by (\<lambda>c. - cmd_created_at c)
       (filter (\<lambda>c. cmd_router_id c = router_id \<and>
          (case status_filter of None \<Rightarrow> True | Some st \<Rightarrow> cmd_status c = st)) (commands d)))"

end
