(* ===== verification/Agent_Queue.thy ===== *)
theory Agent_Queue
  imports Router_Agent Samples
begin

text \<open>
  Properties of the command queue: what a poll delivers, the life cycle of a command under
  every interleaving of the operations, what a report does, and that the queue of a router
  drains.
\<close>

section \<open>What the operations do to the table of commands\<close>

lemma commands_queue_command:
  "commands (cur (snd (queue_command uuid now r a p pr src sid ex s))) =
     commands (cur s) @ [fst (queue_command uuid now r a p pr src sid ex s)]"
  by (simp add: queue_command_def Let_def row_defs)

lemma saved_queue_command [simp]:
  "saved (snd (queue_command uuid now r a p pr src sid ex s)) = saved s"
  by (simp add: queue_command_def Let_def)

lemma mark_commands_sent_cur:
  "cur (mark_commands_sent now ids s) =
     commands_update (upd_where (\<lambda>c. cmd_id c \<in> set ids)
       (\<lambda>c. c\<lparr>cmd_status := CmdSent, cmd_sent_at := Some now\<rparr>)) (cur s)"
  by (auto simp: mark_commands_sent_def upd_where_def)

lemma saved_mark_commands_sent [simp]: "saved (mark_commands_sent now ids s) = saved s"
  by (simp add: mark_commands_sent_def)

lemma get_pending_upd_router [simp]:
  "get_pending_commands now r l (upd_router k f d) = get_pending_commands now r l d"
  by (simp add: get_pending_commands_def row_defs)

lemma get_pending_in:
  "c \<in> set (get_pending_commands now r l d) \<Longrightarrow> c \<in> set (commands d) \<and> is_due now r c"
  by (auto simp: get_pending_commands_def dest: in_set_takeD)

definition poll_router :: "int \<Rightarrow> dbs \<Rightarrow> bool" where
  "poll_router r s \<longleftrightarrow> r \<in> rt_id ` set (routers (cur s))"

lemma poll_router_iff: "poll_router r s \<longleftrightarrow> (\<exists>x. tbl_get rt_id r (routers (cur s)) = Some x)"
  using tbl_get_None [of rt_id r "routers (cur s)"] by (auto simp: poll_router_def)

text \<open>The database after the poll of a known router, and the commands it returns.\<close>

lemma handle_poll_known:
  assumes "tbl_get rt_id r (routers (cur s)) = Some x"
  shows "handle_poll now r t s =
    (\<lparr>pr_commands = map wire (get_pending_commands now r None (cur s)),
      pr_poll_interval = rt_agent_poll_interval x, pr_agent_version = Some agent_script_version\<rparr>,
     redis_telemetry now r t,
     commit (mark_commands_sent now (map cmd_id (get_pending_commands now r None (cur s)))
       (on_db (upd_router r (apply_telemetry now t)) s)))"
  using assms by (simp add: handle_poll_def Let_def)

lemma handle_poll_unknown:
  "\<not> poll_router r s \<Longrightarrow> handle_poll now r t s =
     (\<lparr>pr_commands = [], pr_poll_interval = agent_default_poll_interval, pr_agent_version = None\<rparr>, [], s)"
  by (auto simp: handle_poll_def poll_router_iff split: option.splits)

definition sent_at_poll :: "datetime \<Rightarrow> int \<Rightarrow> db \<Rightarrow> router_command \<Rightarrow> router_command" where
  "sent_at_poll now r d c =
     (if cmd_id c \<in> cmd_id ` set (get_pending_commands now r None d)
      then c\<lparr>cmd_status := CmdSent, cmd_sent_at := Some now\<rparr> else c)"

lemma commands_handle_poll:
  "commands (cur (snd (snd (handle_poll now r t s)))) =
     (if poll_router r s then map (sent_at_poll now r (cur s)) (commands (cur s)) else commands (cur s))"
proof (cases "poll_router r s")
  case True
  then obtain x where "tbl_get rt_id r (routers (cur s)) = Some x" by (auto simp: poll_router_iff)
  with True show ?thesis
    by (simp add: handle_poll_known mark_commands_sent_cur upd_where_def sent_at_poll_def row_defs)
qed (simp add: handle_poll_unknown)

lemma saved_handle_poll:
  "poll_router r s \<Longrightarrow> saved (snd (snd (handle_poll now r t s))) = cur (snd (snd (handle_poll now r t s)))"
  by (auto simp: poll_router_iff handle_poll_known)

lemma routers_handle_poll:
  "routers (cur (snd (snd (handle_poll now r t s)))) =
     tbl_upd rt_id r (apply_telemetry now t) (routers (cur s))"
proof (cases "poll_router r s")
  case True
  then show ?thesis
    by (auto simp: poll_router_iff handle_poll_known mark_commands_sent_cur row_defs)
next
  case False
  then show ?thesis
    using tbl_upd_absent [of rt_id r "routers (cur s)"]
    by (simp add: handle_poll_unknown poll_router_iff)
qed

lemma rt_id_apply_telemetry [simp]: "rt_id (apply_telemetry now t r) = rt_id r"
  by (simp add: apply_telemetry_def)

lemma poll_router_handle_poll [simp]:
  "poll_router k (snd (snd (handle_poll now r t s))) = poll_router k s"
proof -
  have "rt_id ` set (tbl_upd rt_id r (apply_telemetry now t) (routers (cur s))) = rt_id ` set (routers (cur s))"
    by (metis list.set_map map_key_tbl_upd rt_id_apply_telemetry)
  then show ?thesis by (simp add: poll_router_def routers_handle_poll)
qed

section \<open>What a poll delivers\<close>

text \<open>
  Rows of the table after a poll, by unique ids: the delivered ones are marked, each other row
  is as it was.
\<close>

lemma sent_at_poll_iff:
  assumes "uniq cmd_id (commands d)" "c \<in> set (commands d)"
  shows "cmd_id c \<in> cmd_id ` set (get_pending_commands now r l d) \<longleftrightarrow>
    c \<in> set (get_pending_commands now r l d)"
proof
  assume "cmd_id c \<in> cmd_id ` set (get_pending_commands now r l d)"
  then obtain c' where c': "c' \<in> set (get_pending_commands now r l d)" "cmd_id c' = cmd_id c" by auto
  then have "tbl_get cmd_id (cmd_id c) (commands d) = Some c'"
    using uniq_tbl_get [OF assms(1), of c'] get_pending_in by fastforce
  with uniq_tbl_get [OF assms] c'(1) show "c \<in> set (get_pending_commands now r l d)" by simp
qed auto

lemma take_sort_least:
  assumes "x \<in> set xs" "x \<notin> set (take n (sort_key k xs))" "y \<in> set (take n (sort_key k xs))"
  shows "k y \<le> k x \<and> length (take n (sort_key k xs)) = n"
proof -
  let ?s = "sort_key k xs"
  have "x \<in> set (drop n ?s)"
    using assms(1,2) by (metis Un_iff append_take_drop_id set_append set_sort)
  moreover have "sorted (map k (take n ?s @ drop n ?s))" by simp
  then have "\<forall>a \<in> set (take n ?s). \<forall>b \<in> set (drop n ?s). k a \<le> k b"
    unfolding map_append sorted_append by auto
  moreover have "length ?s > n" using calculation(1) by (cases "length ?s > n") auto
  ultimately show ?thesis using assms(3) by auto
qed

text \<open>
   A poll of a known router delivers commands that are due for this router and no others
  (pending, addressed to it and not expired), at most ten, in the order of priority and then
  age; if a due command is left behind then ten were delivered, none of them less urgent.
  The delivered commands are then marked sent at the time of the poll, every other row of
  the queue is unchanged, and all of it is committed before the response is sent.
\<close>

theorem poll_delivers_due_commands:
  assumes "handle_poll now r t s = (resp, es, s')" "poll_router r s" "uniq cmd_id (commands (cur s))"
  shows "\<exists>cs. pr_commands resp = map wire cs \<and> set cs \<subseteq> {c \<in> set (commands (cur s)). is_due now r c}
    \<and> distinct (map cmd_id cs) \<and> length cs \<le> 10 \<and> sorted (map urgency cs)
    \<and> (\<forall>c \<in> set (commands (cur s)). is_due now r c \<and> c \<notin> set cs \<longrightarrow>
         length cs = 10 \<and> (\<forall>b \<in> set cs. urgency b \<le> urgency c))
    \<and> commands (saved s') = map (\<lambda>c. if c \<in> set cs
         then c\<lparr>cmd_status := CmdSent, cmd_sent_at := Some now\<rparr> else c) (commands (cur s))"
proof -
  let ?cs = "get_pending_commands now r None (cur s)"
  let ?due = "filter (is_due now r) (commands (cur s))"
  have cs: "?cs = take 10 (order_by urgency ?due)"
    by (simp add: get_pending_commands_def agent_max_commands_per_poll_def)
  obtain x where x: "tbl_get rt_id r (routers (cur s)) = Some x" using assms(2) poll_router_iff by auto
  have s': "s' = snd (snd (handle_poll now r t s))" using assms(1) by simp
  have resp: "pr_commands resp = map wire ?cs" using assms(1) by (auto simp: handle_poll_known [OF x])
  have "uniq cmd_id ?due" using assms(3) by (simp add: uniq_def distinct_map_filter)
  then have "distinct (map cmd_id (order_by urgency ?due))"
    unfolding uniq_def by (metis mset_map mset_sort mset_eq_imp_distinct_iff)
  then have dist: "distinct (map cmd_id ?cs)" by (simp add: cs distinct_take flip: take_map)
  have sub: "set ?cs \<subseteq> {c \<in> set (commands (cur s)). is_due now r c}"
    using get_pending_in [of _ now r None "cur s"] by blast
  have len: "length ?cs \<le> 10" and srt: "sorted (map urgency ?cs)"
    unfolding cs by (simp, rule take_order_by_sorted)
  have tab: "commands (saved s') = map (\<lambda>c. if c \<in> set ?cs
      then c\<lparr>cmd_status := CmdSent, cmd_sent_at := Some now\<rparr> else c) (commands (cur s))"
    using assms(2,3) by (simp add: s' saved_handle_poll commands_handle_poll sent_at_poll_def sent_at_poll_iff)
  have left: "\<forall>c \<in> set (commands (cur s)). is_due now r c \<and> c \<notin> set ?cs \<longrightarrow>
      length ?cs = 10 \<and> (\<forall>b \<in> set ?cs. urgency b \<le> urgency c)"
  proof (intro ballI impI)
    fix c assume "c \<in> set (commands (cur s))" and c: "is_due now r c \<and> c \<notin> set ?cs"
    then have due: "c \<in> set ?due" by simp
    have "?cs \<noteq> []"
    proof
      assume "?cs = []"
      then have "?due = []" by (metis cs set_empty set_sort take_eq_Nil zero_neq_numeral)
      with due show False by simp
    qed
    with take_sort_least [OF due, of 10 urgency] c
    show "length ?cs = 10 \<and> (\<forall>b \<in> set ?cs. urgency b \<le> urgency c)"
      by (metis cs hd_in_set)
  qed
  show ?thesis by (intro exI [of _ ?cs] conjI resp sub dist len srt left tab)
qed

section \<open>Life cycle of a command\<close>

definition cmd_ok :: "router_command \<Rightarrow> bool" where
  "cmd_ok c \<longleftrightarrow> 0 \<le> cmd_retry_count c \<and> 0 < cmd_max_retries c \<and>
     (case cmd_status c of
        CmdPending \<Rightarrow> cmd_sent_at c = None \<and> cmd_retry_count c < cmd_max_retries c
      | CmdSent \<Rightarrow> cmd_sent_at c \<noteq> None \<and> cmd_retry_count c < cmd_max_retries c
      | CmdFailed \<Rightarrow> cmd_completed_at c \<noteq> None \<and> cmd_max_retries c \<le> cmd_retry_count c
      | CmdSuccess \<Rightarrow> cmd_completed_at c \<noteq> None
      | CmdExpired \<Rightarrow> cmd_completed_at c \<noteq> None)"

definition queue_inv :: "(nat \<Rightarrow> string) \<Rightarrow> db \<Rightarrow> bool" where
  "queue_inv uuid d \<longleftrightarrow>
     list_all cmd_ok (commands d) \<and> map cmd_id (commands d) = map uuid [0..<length (commands d)]"

text \<open>Operations that rewrite rows in place keep the invariant when they keep it per row.\<close>

definition row_keeps :: "(router_command \<Rightarrow> router_command) \<Rightarrow> router_command \<Rightarrow> bool" where
  "row_keeps f c \<longleftrightarrow> cmd_id (f c) = cmd_id c \<and> (cmd_ok c \<longrightarrow> cmd_ok (f c))"

lemma queue_inv_map:
  assumes "queue_inv uuid d" "commands d' = map f (commands d)"
    "\<And>c. c \<in> set (commands d) \<Longrightarrow> row_keeps f c"
  shows "queue_inv uuid d'"
proof -
  have "map cmd_id (commands d') = map cmd_id (commands d)"
    using assms(2,3) by (simp add: row_keeps_def)
  moreover have "length (commands d') = length (commands d)" using assms(2) by simp
  moreover have "list_all cmd_ok (commands d')"
    using assms by (simp add: queue_inv_def row_keeps_def list_all_iff)
  ultimately show ?thesis using assms(1) unfolding queue_inv_def by simp
qed

lemma queue_inv_same: "queue_inv uuid d \<Longrightarrow> commands d' = commands d \<Longrightarrow> queue_inv uuid d'"
  by (simp add: queue_inv_def)

lemma queue_inv_uniq: "inj uuid \<Longrightarrow> queue_inv uuid d \<Longrightarrow> uniq cmd_id (commands d)"
  by (simp add: queue_inv_def uniq_def distinct_map inj_on_def)

lemma queue_inv_queue_command:
  "queue_inv uuid (cur s) \<Longrightarrow> queue_inv uuid (cur (snd (queue_command uuid now r a p pr src sid ex s)))"
  by (simp add: queue_inv_def commands_queue_command)
    (simp add: queue_command_def Let_def cmd_ok_def)

lemma queue_inv_handle_poll:
  assumes "queue_inv uuid (cur s)" "inj uuid"
  shows "queue_inv uuid (cur (snd (snd (handle_poll now r t s))))"
proof (cases "poll_router r s")
  case True
  show ?thesis
  proof (rule queue_inv_map [OF assms(1)])
    show "commands (cur (snd (snd (handle_poll now r t s)))) = map (sent_at_poll now r (cur s)) (commands (cur s))"
      using True by (simp add: commands_handle_poll)
    fix c assume c: "c \<in> set (commands (cur s))"
    have "is_due now r c" if "cmd_id c \<in> cmd_id ` set (get_pending_commands now r None (cur s))"
      using that sent_at_poll_iff [OF queue_inv_uniq [OF assms(2,1)] c] get_pending_in by blast
    then show "row_keeps (sent_at_poll now r (cur s)) c"
      by (auto simp: row_keeps_def sent_at_poll_def cmd_ok_def is_due_def)
  qed
qed (use assms in \<open>simp add: handle_poll_unknown\<close>)

text \<open>Backup rows and subscriptions are other tables.\<close>

lemma commands_update_backup_status [simp]:
  "commands (cur (snd (update_backup_status now cid st msg s))) = commands (cur s)"
  by (auto simp: update_backup_status_def split: sum.splits option.splits)

lemma saved_update_backup_status [simp]:
  "saved (snd (update_backup_status now cid st msg s)) = saved s"
  by (auto simp: update_backup_status_def split: sum.splits option.splits)

lemma commands_update_sync_status [simp]:
  "commands (cur (update_subscription_sync_status now i b s)) = commands (cur s)"
  by (auto simp: update_subscription_sync_status_def row_defs split: option.splits)

lemma saved_update_sync_status [simp]:
  "saved (update_subscription_sync_status now i b s) = saved s"
  by (auto simp: update_subscription_sync_status_def split: option.splits)

lemma snd_andthen_pure: "snd (andthen m (\<lambda>a s. (Inr (f a), s))) = snd m"
  by (auto simp: andthen_def split: prod.splits sum.splits)

text \<open>What a result does to the row of its command.\<close>

definition result_row :: "datetime \<Rightarrow> string \<Rightarrow> string \<Rightarrow> router_command \<Rightarrow> router_command" where
  "result_row now status message c =
     (if status = ''success''
      then c\<lparr>cmd_status := CmdSuccess, cmd_completed_at := Some now,
             cmd_result_message := Some (if message = [] then ''OK'' else message)\<rparr>
      else if status = ''failed''
      then (if cmd_retry_count c + 1 \<ge> cmd_max_retries c
            then c\<lparr>cmd_status := CmdFailed, cmd_completed_at := Some now,
                   cmd_retry_count := cmd_retry_count c + 1, cmd_result_message := Some message\<rparr>
            else c\<lparr>cmd_status := CmdPending, cmd_sent_at := None,
                   cmd_retry_count := cmd_retry_count c + 1, cmd_result_message := Some message\<rparr>)
      else c)"

lemma tbl_upd_tbl_upd:
  "(\<And>r. key (f r) = key r) \<Longrightarrow> tbl_upd key k g (tbl_upd key k f t) = tbl_upd key k (g \<circ> f) t"
  by (simp add: tbl_upd_def)

lemma tbl_upd_cong:
  "(\<And>r. r \<in> set t \<Longrightarrow> key r = k \<Longrightarrow> f r = g r) \<Longrightarrow> tbl_upd key k f t = tbl_upd key k g t"
  by (simp add: tbl_upd_def)

lemma tbl_upd_found:
  "uniq key t \<Longrightarrow> tbl_get key k t = Some q \<Longrightarrow> f q = g q \<Longrightarrow> tbl_upd key k f t = tbl_upd key k g t"
  using uniq_tbl_get [of key t] by (intro tbl_upd_cong) fastforce

lemma commands_process_result:
  assumes "uniq cmd_id (commands (cur s))"
  shows "commands (cur (snd (process_command_result now cid st msg s))) =
    tbl_upd cmd_id cid (result_row now st msg) (commands (cur s))"
proof (cases "tbl_get cmd_id cid (commands (cur s))")
  case None
  then show ?thesis by (simp add: process_command_result_def tbl_upd_absent)
next
  case (Some c)
  note found = tbl_upd_found [OF assms Some]
  consider "st = ''success''" | "st = ''failed''" "cmd_retry_count c + 1 \<ge> cmd_max_retries c"
    | "st = ''failed''" "\<not> cmd_retry_count c + 1 \<ge> cmd_max_retries c"
    | "st \<noteq> ''success''" "st \<noteq> ''failed''" by blast
  then show ?thesis
  proof cases
    case 1
    then show ?thesis
      by (auto simp: process_command_result_def Some Let_def snd_andthen_pure row_defs result_row_def
          intro!: found)
  next
    case 2
    then show ?thesis
      by (auto simp: process_command_result_def Some Let_def snd_andthen_pure row_defs result_row_def
          tbl_upd_tbl_upd intro!: found)
  next
    case 3
    then show ?thesis
      by (auto simp: process_command_result_def Some Let_def row_defs result_row_def
          tbl_upd_tbl_upd intro!: found)
  next
    case 4
    then have "result_row now st msg = (\<lambda>c. c)" by (simp add: result_row_def fun_eq_iff)
    with 4 show ?thesis by (simp add: process_command_result_def Some Let_def tbl_upd_def)
  qed
qed

lemma saved_process_result [simp]:
  "saved (snd (process_command_result now cid st msg s)) = saved s"
  by (auto simp: process_command_result_def Let_def snd_andthen_pure split: option.splits)

lemma row_keeps_result: "row_keeps (result_row now st msg) c"
  by (auto simp: row_keeps_def result_row_def cmd_ok_def split: CommandStatus.splits)

lemma queue_inv_process_result:
  assumes "queue_inv uuid (cur s)" "inj uuid"
  shows "queue_inv uuid (cur (snd (process_command_result now cid st msg s)))"
proof (rule queue_inv_map [OF assms(1)])
  show "commands (cur (snd (process_command_result now cid st msg s))) =
      map (\<lambda>c. if cmd_id c = cid then result_row now st msg c else c) (commands (cur s))"
    using queue_inv_uniq [OF assms(2,1)] by (simp add: commands_process_result tbl_upd_def)
  show "row_keeps (\<lambda>c. if cmd_id c = cid then result_row now st msg c else c) c" for c
    using row_keeps_result by (auto simp: row_keeps_def)
qed

lemma queue_inv_report_results:
  assumes "inj uuid" "queue_inv uuid (cur s)"
  shows "queue_inv uuid (cur (snd (report_results now rs s)))
    \<and> saved (snd (report_results now rs s)) = saved s"
  using assms(2)
proof (induction now rs s rule: report_results.induct)
  case (2 now cid st msg rs s)
  obtain x s1 where r: "process_command_result now cid st msg s = (x, s1)" by fastforce
  then have s1: "queue_inv uuid (cur s1)" "saved s1 = saved s"
    using queue_inv_process_result [OF 2(2) assms(1), of now cid st msg]
      saved_process_result [of now cid st msg s] by simp_all
  show ?case
  proof (cases x)
    case (Inr es)
    then show ?thesis using 2(1) [of s1] s1 r by (simp add: snd_andthen_pure)
  qed (use s1 r in simp)
qed simp

lemma handle_report_queue_inv:
  assumes "inj uuid" "queue_inv uuid (cur s)" "queue_inv uuid (saved s)"
    "handle_report now r rs s = (x, s')"
  shows "queue_inv uuid (cur s') \<and> queue_inv uuid (saved s')"
proof -
  obtain y s1 where rr: "report_results now rs s = (y, s1)" by fastforce
  then have "queue_inv uuid (cur s1)" "saved s1 = saved s"
    using queue_inv_report_results [OF assms(1,2), of now rs] by simp_all
  then show ?thesis using assms(3,4) rr by (cases y) (auto simp: handle_report_def)
qed

lemma queue_inv_upd_where:
  assumes "queue_inv uuid d" "commands d' = upd_where P f (commands d)" "\<And>c. P c \<Longrightarrow> row_keeps f c"
  shows "queue_inv uuid d'"
  by (rule queue_inv_map [OF assms(1) assms(2) [unfolded upd_where_def]])
    (use assms(3) in \<open>auto simp: row_keeps_def\<close>)

lemma queue_inv_cleanup_expired:
  assumes "queue_inv uuid (cur s)"
  shows "queue_inv uuid (cur (snd (cleanup_expired_commands now s)))"
  unfolding cleanup_expired_commands_def Let_def
  by (rule queue_inv_upd_where [OF assms]) (simp, simp add: row_keeps_def cmd_ok_def)

lemma queue_inv_reset_stale:
  assumes "queue_inv uuid (cur s)"
  shows "queue_inv uuid (cur (snd (reset_stale_sent_commands now m s)))"
  unfolding reset_stale_sent_commands_def Let_def
  by (rule queue_inv_upd_where [OF assms]) (simp, simp add: row_keeps_def cmd_ok_def)

lemma saved_cleanup [simp]:
  "saved (snd (cleanup_expired_commands now s)) = cur (snd (cleanup_expired_commands now s))"
  "saved (snd (reset_stale_sent_commands now m s)) = cur (snd (reset_stale_sent_commands now m s))"
  by (simp_all add: cleanup_expired_commands_def reset_stale_sent_commands_def Let_def)

lemma cleanup_task_state:
  "snd (cleanup_task now s) = snd (reset_stale_sent_commands now 5 (snd (cleanup_expired_commands now s)))"
  by (simp add: cleanup_task_def split: prod.splits)

text \<open>
  The service as a transition system: any request or task, in any order, at any time; a
  request that ends without a commit drops what it did (\<open>drop\<close>), and a caller that queued a
  command may commit it (\<open>keep\<close>).
\<close>

inductive agent_step :: "(nat \<Rightarrow> string) \<Rightarrow> dbs \<Rightarrow> dbs \<Rightarrow> bool" for uuid where
  queue: "queue_command uuid now r a p pr src sid ex s = (c, s') \<Longrightarrow> agent_step uuid s s'"
| poll: "handle_poll now r t s = (resp, es, s') \<Longrightarrow> agent_step uuid s s'"
| report: "handle_report now r rs s = (x, s') \<Longrightarrow> agent_step uuid s s'"
| cleanup: "cleanup_task now s = (n, s') \<Longrightarrow> agent_step uuid s s'"
| token: "generate_agent_token hash_pw tok r s = (x, s') \<Longrightarrow> agent_step uuid s s'"
| keep: "agent_step uuid s (commit s)"
| drop: "agent_step uuid s (rollback s)"

inductive_cases agent_stepE: "agent_step uuid s s'"

definition agent_inv :: "(nat \<Rightarrow> string) \<Rightarrow> dbs \<Rightarrow> bool" where
  "agent_inv uuid s \<longleftrightarrow> queue_inv uuid (cur s) \<and> queue_inv uuid (saved s)"

lemma agent_step_inv:
  assumes "agent_step uuid s s'" "inj uuid" "agent_inv uuid s"
  shows "agent_inv uuid s'"
  using assms(1)
proof cases
  case (queue now r a p pr src sid ex c)
  then show ?thesis
    using assms(3) queue_inv_queue_command [of uuid s now r a p pr src sid ex]
      saved_queue_command [of uuid now r a p pr src sid ex s] by (simp add: agent_inv_def)
next
  case (poll now r t resp es)
  then have s': "s' = snd (snd (handle_poll now r t s))" by simp
  have "queue_inv uuid (cur s')"
    unfolding s' using assms(2,3) by (intro queue_inv_handle_poll) (simp_all add: agent_inv_def)
  moreover have "saved s' = cur s' \<or> s' = s"
    using saved_handle_poll [of r s] handle_poll_unknown [of r s]
    by (cases "poll_router r s") (auto simp: s')
  ultimately show ?thesis using assms(3) by (auto simp: agent_inv_def)
next
  case (report now r rs x)
  from assms(3) have "queue_inv uuid (cur s)" "queue_inv uuid (saved s)" by (simp_all add: agent_inv_def)
  from handle_report_queue_inv [OF assms(2) this report] show ?thesis by (simp add: agent_inv_def)
next
  case (cleanup now n)
  then have s': "s' = snd (cleanup_task now s)" by simp
  have "queue_inv uuid (cur s')"
    unfolding s' cleanup_task_state
    using assms(3) by (intro queue_inv_reset_stale queue_inv_cleanup_expired) (simp add: agent_inv_def)
  then show ?thesis by (simp add: s' cleanup_task_state agent_inv_def)
next
  case (token hash_pw tok r x)
  then have "commands (cur s') = commands (cur s) \<and> saved s' = saved s"
    by (auto simp: generate_agent_token_def row_defs split: option.splits)
  then show ?thesis using assms(3) queue_inv_same by (auto simp: agent_inv_def)
qed (use assms(3) in \<open>simp_all add: agent_inv_def\<close>)

lemma agent_steps_inv:
  "(agent_step uuid)\<^sup>*\<^sup>* s s' \<Longrightarrow> inj uuid \<Longrightarrow> agent_inv uuid s \<Longrightarrow> agent_inv uuid s'"
  by (induction rule: rtranclp_induct) (auto intro: agent_step_inv)

text \<open>
  C1. Life cycle of commands under every interleaving of queueing, polls, reports (also
  duplicate, late and forged ones), clean-ups, commits and rollbacks, starting from an empty
  queue: ids are unique; a pending command was not sent, or was taken back; a sent one has
  its time of sending; a pending or sent one has retries left, so that the guard of the
  stale reset never excludes one; a command is only failed when its retries are used up; and
  each finished command has its time of completion.
\<close>

theorem command_lifecycle:
  assumes "(agent_step uuid)\<^sup>*\<^sup>* s0 s" "commands (cur s0) = []" "commands (saved s0) = []" "inj uuid"
  shows "distinct (map cmd_id (commands (cur s)))
    \<and> (\<forall>c \<in> set (commands (cur s)).
        (cmd_status c = CmdPending \<longrightarrow> cmd_sent_at c = None)
        \<and> (cmd_status c = CmdSent \<longrightarrow> cmd_sent_at c \<noteq> None)
        \<and> (cmd_status c \<in> {CmdPending, CmdSent} \<longrightarrow> cmd_retry_count c < cmd_max_retries c)
        \<and> (cmd_status c = CmdFailed \<longrightarrow> cmd_max_retries c \<le> cmd_retry_count c)
        \<and> (cmd_status c \<in> {CmdSuccess, CmdFailed, CmdExpired} \<longrightarrow> cmd_completed_at c \<noteq> None))"
proof -
  have "agent_inv uuid s0" using assms(2,3) by (simp add: agent_inv_def queue_inv_def)
  with assms have "queue_inv uuid (cur s)" using agent_steps_inv by (auto simp: agent_inv_def)
  then have "uniq cmd_id (commands (cur s))" "\<forall>c \<in> set (commands (cur s)). cmd_ok c"
    using queue_inv_uniq [OF assms(4)] by (simp_all add: queue_inv_def list_all_iff)
  then show ?thesis by (auto simp: uniq_def cmd_ok_def split: CommandStatus.splits)
qed

section \<open>The queue of a router drains\<close>

text \<open>Repeating an operation that hands out batches.\<close>

fun rounds :: "('t \<Rightarrow> 's \<Rightarrow> 'c list \<times> 's) \<Rightarrow> 't list \<Rightarrow> 's \<Rightarrow> 'c list \<times> 's" where
  "rounds f [] s = ([], s)"
| "rounds f (t # ts) s = (let (b, s1) = f t s; (bs, s2) = rounds f ts s1 in (b @ bs, s2))"

lemma rounds_Cons:
  "fst (rounds f (t # ts) s) = fst (f t s) @ fst (rounds f ts (snd (f t s)))"
  "snd (rounds f (t # ts) s) = snd (rounds f ts (snd (f t s)))"
  by (simp_all add: Let_def split: prod.splits)

text \<open>
  The contract of a queue that hands out at most \<open>cap\<close> of the waiting items at a time: the
  first ones, which then no longer wait. \<open>ok\<close> is what the queue needs of its state and \<open>window\<close>
  the inputs for which it promises this.
\<close>

locale dispatch_queue =
  fixes waiting :: "'s \<Rightarrow> 'c list"
    and dispatch :: "'t \<Rightarrow> 's \<Rightarrow> 'c list \<times> 's"
    and ok :: "'s \<Rightarrow> bool"
    and window :: "'t \<Rightarrow> bool"
    and cap :: nat
  assumes batch: "ok s \<Longrightarrow> window t \<Longrightarrow> fst (dispatch t s) = take cap (waiting s)"
    and rest: "ok s \<Longrightarrow> window t \<Longrightarrow> waiting (snd (dispatch t s)) = drop cap (waiting s)"
    and keeps: "ok s \<Longrightarrow> window t \<Longrightarrow> ok (snd (dispatch t s))"
begin

lemma rounds_batches:
  "ok s \<Longrightarrow> list_all window ts \<Longrightarrow>
     fst (rounds dispatch ts s) = take (cap * length ts) (waiting s)
     \<and> waiting (snd (rounds dispatch ts s)) = drop (cap * length ts) (waiting s)"
proof (induction ts arbitrary: s)
  case (Cons t ts)
  have "ok (snd (dispatch t s))" using Cons.prems keeps by simp
  note IH = Cons.IH [OF this]
  have "fst (rounds dispatch (t # ts) s) = take cap (waiting s) @ take (cap * length ts) (drop cap (waiting s))"
    using IH Cons.prems batch [of s t] rest [of s t] by (simp add: rounds_Cons del: rounds.simps)
  moreover have "waiting (snd (rounds dispatch (t # ts) s)) = drop (cap * length ts) (drop cap (waiting s))"
    using IH Cons.prems rest [of s t] by (simp add: rounds_Cons del: rounds.simps)
  ultimately show ?case by (simp add: take_add add.commute)
qed simp

lemma rounds_drain:
  assumes "ok s" "list_all window ts" "length (waiting s) \<le> cap * length ts"
  shows "fst (rounds dispatch ts s) = waiting s \<and> waiting (snd (rounds dispatch ts s)) = []"
  using rounds_batches [OF assms(1,2)] assms(3) by simp

end

definition poll_round :: "int \<Rightarrow> datetime \<times> telemetry \<Rightarrow> dbs \<Rightarrow> wire_command list \<times> dbs" where
  "poll_round r tm s = (let (resp, es, s') = handle_poll (fst tm) r (snd tm) s in (pr_commands resp, s'))"

definition pending_for :: "int \<Rightarrow> db \<Rightarrow> router_command list" where
  "pending_for r d = filter (\<lambda>c. cmd_router_id c = r \<and> cmd_status c = CmdPending) (commands d)"

text \<open>No pending command of the router expires up to the time \<open>h\<close>.\<close>

definition fresh_until :: "datetime \<Rightarrow> int \<Rightarrow> db \<Rightarrow> bool" where
  "fresh_until h r d \<longleftrightarrow>
     list_all (\<lambda>c. case cmd_expires_at c of None \<Rightarrow> True | Some e \<Rightarrow> h < e) (pending_for r d)"

definition poll_ok :: "datetime \<Rightarrow> int \<Rightarrow> dbs \<Rightarrow> bool" where
  "poll_ok h r s \<longleftrightarrow> poll_router r s \<and> uniq cmd_id (commands (cur s)) \<and> fresh_until h r (cur s)"

lemma fresh_due:
  assumes "fresh_until h r d" "now \<le> h"
  shows "filter (is_due now r) (commands d) = pending_for r d"
  unfolding pending_for_def
proof (rule filter_cong [OF refl])
  fix c assume "c \<in> set (commands d)"
  with assms show "is_due now r c \<longleftrightarrow> cmd_router_id c = r \<and> cmd_status c = CmdPending"
    by (fastforce simp: fresh_until_def pending_for_def is_due_def list_all_iff split: option.splits)
qed

lemma drop_by_filter:
  assumes "distinct xs"
  shows "filter (\<lambda>x. x \<notin> set (take n xs)) xs = drop n xs"
proof -
  have "set (take n xs) \<inter> set (drop n xs) = {}"
    using assms by (simp add: set_take_disj_set_drop_if_distinct)
  then have "filter (\<lambda>x. x \<notin> set (take n xs)) (drop n xs) = drop n xs"
    by (intro filter_True) auto
  moreover have "filter (\<lambda>x. x \<notin> set (take n xs)) (take n xs) = []" by simp
  ultimately show ?thesis by (metis append_Nil append_take_drop_id filter_append)
qed

lemma sort_rest:
  "distinct xs \<Longrightarrow> sort_key k (filter (\<lambda>x. x \<notin> set (take n (sort_key k xs))) xs) = drop n (sort_key k xs)"
  using drop_by_filter [of "sort_key k xs" n] by (simp add: filter_sort)

lemma poll_round_state: "snd (poll_round r tm s) = snd (snd (handle_poll (fst tm) r (snd tm) s))"
  by (simp add: poll_round_def split: prod.splits)

lemma poll_round_batch:
  assumes "poll_ok h r s" "fst tm \<le> h"
  shows "fst (poll_round r tm s) = take 10 (map wire (order_by urgency (pending_for r (cur s))))"
  using assms fresh_due [of h r "cur s" "fst tm"]
  by (auto simp: poll_round_def poll_ok_def poll_router_iff handle_poll_known get_pending_commands_def
      agent_max_commands_per_poll_def take_map)

lemma pending_after_poll:
  assumes "poll_ok h r s" "fst tm \<le> h"
  shows "pending_for r (cur (snd (poll_round r tm s))) =
    filter (\<lambda>c. c \<notin> set (take 10 (order_by urgency (pending_for r (cur s))))) (pending_for r (cur s))"
proof -
  let ?cs = "get_pending_commands (fst tm) r None (cur s)"
  have cs: "?cs = take 10 (order_by urgency (pending_for r (cur s)))"
    using assms fresh_due [of h r "cur s" "fst tm"]
    by (simp add: poll_ok_def get_pending_commands_def agent_max_commands_per_poll_def)
  have u: "uniq cmd_id (commands (cur s))" using assms(1) by (simp add: poll_ok_def)
  have "filter (\<lambda>c. cmd_router_id c = r \<and> cmd_status c = CmdPending)
      (map (sent_at_poll (fst tm) r (cur s)) cs') =
    filter (\<lambda>c. c \<notin> set ?cs) (filter (\<lambda>c. cmd_router_id c = r \<and> cmd_status c = CmdPending) cs')"
    if "set cs' \<subseteq> set (commands (cur s))" for cs'
    using that by (induction cs') (auto simp: sent_at_poll_def sent_at_poll_iff [OF u])
  then show ?thesis
    using assms(1) by (simp add: poll_round_state commands_handle_poll poll_ok_def flip: cs)
      (simp add: pending_for_def commands_handle_poll)
qed

lemma poll_ok_keeps:
  assumes "poll_ok h r s" "fst tm \<le> h"
  shows "poll_ok h r (snd (poll_round r tm s))"
proof -
  have "map cmd_id (map (sent_at_poll (fst tm) r (cur s)) (commands (cur s))) = map cmd_id (commands (cur s))"
    by (simp add: sent_at_poll_def)
  then have "uniq cmd_id (commands (cur (snd (poll_round r tm s))))"
    using assms(1) by (simp add: poll_ok_def uniq_def poll_round_state commands_handle_poll del: map_map)
  then show ?thesis
    using assms pending_after_poll [OF assms]
    by (auto simp: poll_ok_def fresh_until_def list_all_iff) (simp add: poll_round_state)
qed

interpretation polls: dispatch_queue "\<lambda>s. map wire (order_by urgency (pending_for r (cur s)))"
    "poll_round r" "poll_ok h r" "\<lambda>tm. fst tm \<le> h" 10 for r h
proof
  fix s :: dbs and tm :: "datetime \<times> telemetry"
  assume *: "poll_ok h r s" "fst tm \<le> h"
  show "fst (poll_round r tm s) = take 10 (map wire (order_by urgency (pending_for r (cur s))))"
    by (rule poll_round_batch [OF *])
  have "distinct (commands (cur s))"
    using *(1) by (simp add: poll_ok_def uniq_def distinct_map)
  then have "distinct (pending_for r (cur s))" by (simp add: pending_for_def)
  from sort_rest [OF this, of urgency 10]
  show "map wire (order_by urgency (pending_for r (cur (snd (poll_round r tm s))))) =
      drop 10 (map wire (order_by urgency (pending_for r (cur s))))"
    by (simp add: pending_after_poll [OF *] drop_map)
  show "poll_ok h r (snd (poll_round r tm s))" by (rule poll_ok_keeps [OF *])
qed

text \<open>
  C2. The queue of a router drains. When no pending command of a known router expires before
  the last of a sequence of polls and no command is added meanwhile, the polls together
  deliver each pending command exactly once, in the order of priority and age, as soon as
  there is a poll for every ten of them; nothing is pending for the router afterwards.
\<close>

theorem polls_drain_the_queue:
  assumes "poll_router r s" "uniq cmd_id (commands (cur s))" "fresh_until h r (cur s)"
    "\<forall>tm \<in> set polls. fst tm \<le> h" "length (pending_for r (cur s)) \<le> 10 * length polls"
  shows "fst (rounds (poll_round r) polls s) = map wire (order_by urgency (pending_for r (cur s)))
    \<and> pending_for r (cur (snd (rounds (poll_round r) polls s))) = []"
proof -
  have "poll_ok h r s" using assms by (simp add: poll_ok_def)
  moreover have "list_all (\<lambda>tm. fst tm \<le> h) polls" using assms(4) by (simp add: list_all_iff)
  ultimately have d: "fst (rounds (poll_round r) polls s) = map wire (order_by urgency (pending_for r (cur s)))"
    "map wire (order_by urgency (pending_for r (cur (snd (rounds (poll_round r) polls s))))) = []"
    using polls.rounds_drain [of h r s polls] assms(5) by simp_all
  from d(2) have "set (pending_for r (cur (snd (rounds (poll_round r) polls s)))) = {}"
    by (metis map_is_Nil_conv set_empty set_sort)
  with d(1) show ?thesis by simp
qed

section \<open>Reports, clean-up and tokens\<close>

lemma sync_report:
  assumes "uniq cmd_id (commands (cur s))" "tbl_get cmd_id cid (commands (cur s)) = Some c"
    "Some cid \<notin> bk_command_id ` set (backups (cur s))"
    "cmd_source c = Some ''subscription_sync''" "cmd_source_id c = Some (str_int i)"
    "handle_report now r [(cid, status, message)] s = (x, s')"
  shows "(\<exists>es. x = Inr es)
    \<and> commands (saved s') = tbl_upd cmd_id cid (result_row now status message) (commands (cur s))
    \<and> subscriptions (saved s') =
        (if status = ''success''
         then tbl_upd sub_id i (\<lambda>q. q\<lparr>sub_is_router_synced := True, sub_last_router_sync := Some now\<rparr>)
                (subscriptions (cur s))
         else subscriptions (cur s))"
proof -
  have nb: "filter (\<lambda>b. bk_command_id b = Some cid) (backups (cur s)) = []"
    using assms(3) by (auto simp: filter_empty_conv image_iff)
  then have ub: "update_backup_status now cid st m q = (Inr (), q)" if "backups (cur q) = backups (cur s)" for st m q
    using that by (simp add: update_backup_status_def)
  have t: "commands (cur (snd (process_command_result now cid status message s))) =
      tbl_upd cmd_id cid (result_row now status message) (commands (cur s))"
    by (rule commands_process_result [OF assms(1)])
  have "\<exists>es s1. process_command_result now cid status message s = (Inr es, s1)
    \<and> subscriptions (cur s1) = (if status = ''success''
         then tbl_upd sub_id i (\<lambda>q. q\<lparr>sub_is_router_synced := True, sub_last_router_sync := Some now\<rparr>)
                (subscriptions (cur s))
         else subscriptions (cur s))"
    using assms(2,4,5)
    by (simp add: process_command_result_def Let_def ub row_defs update_subscription_sync_status_def)
  then show ?thesis using t assms(6) by (auto simp: handle_report_def)
qed

lemma success_report_syncs:
  assumes "uniq cmd_id (commands (cur s))" "tbl_get cmd_id cid (commands (cur s)) = Some c"
    "Some cid \<notin> bk_command_id ` set (backups (cur s))"
    "cmd_source c = Some ''subscription_sync''" "cmd_source_id c = Some (str_int i)"
    "handle_report now r [(cid, ''success'', message)] s = (x, s')"
  shows "subscriptions (saved s') =
    tbl_upd sub_id i (\<lambda>q. q\<lparr>sub_is_router_synced := True, sub_last_router_sync := Some now\<rparr>)
      (subscriptions (cur s))"
  using sync_report [OF assms] by simp

text \<open>
   One result of a report, whatever state its command is in: success completes the command
  and, when the command carries a subscription sync, marks that subscription (found by the
  decimal id the command was queued with) as synced at this time; failure consumes a retry
  and puts the command back into the queue, unsent, until the last retry makes it failed.
  No other command and no other subscription changes, and all of it is committed.
\<close>

theorem report_result_effects:
  assumes "uniq cmd_id (commands (cur s))" "tbl_get cmd_id cid (commands (cur s)) = Some c"
    "Some cid \<notin> bk_command_id ` set (backups (cur s))"
    "cmd_source c = Some ''subscription_sync''" "cmd_source_id c = Some (str_int i)"
    "handle_report now r [(cid, status, message)] s = (x, s')"
  shows "(\<exists>es. x = Inr es)
    \<and> commands (saved s') = tbl_upd cmd_id cid (result_row now status message) (commands (cur s))
    \<and> subscriptions (saved s') =
        (if status = ''success''
         then tbl_upd sub_id i (\<lambda>q. q\<lparr>sub_is_router_synced := True, sub_last_router_sync := Some now\<rparr>)
                (subscriptions (cur s))
         else subscriptions (cur s))"
  using sync_report [OF assms] .


text \<open>
   After the clean-up task, at the time it ran, no pending or sent command is past its
  expiry, and each command that was handed to a router more than five minutes before without a
  report and did not expire is pending again, so that the next poll hands it out once more.
\<close>

theorem cleanup_unsticks_commands:
  assumes "cleanup_task now s = (n, s')" "queue_inv uuid (cur s)"
  shows "(\<forall>c \<in> set (commands (saved s')). cmd_status c \<in> {CmdPending, CmdSent} \<longrightarrow>
        (\<forall>e. cmd_expires_at c = Some e \<longrightarrow> now \<le> e))
    \<and> (\<forall>c \<in> set (commands (saved s')). cmd_status c = CmdSent \<longrightarrow>
        (\<exists>t. cmd_sent_at c = Some t \<and> now - minutes 5 \<le> t))
    \<and> (\<forall>c \<in> set (commands (cur s)). cmd_status c = CmdSent
          \<and> (\<exists>t. cmd_sent_at c = Some t \<and> t < now - minutes 5)
          \<and> (\<forall>e. cmd_expires_at c = Some e \<longrightarrow> now \<le> e) \<longrightarrow>
        c\<lparr>cmd_status := CmdPending, cmd_sent_at := None\<rparr> \<in> set (commands (saved s')))"
proof -
  have s': "s' = snd (cleanup_task now s)" using assms(1) by simp
  define ex :: "router_command \<Rightarrow> router_command" where "ex = (\<lambda>c. if (cmd_status c = CmdPending \<or> cmd_status c = CmdSent) \<and>
      (case cmd_expires_at c of None \<Rightarrow> False | Some e \<Rightarrow> e < now)
      then c\<lparr>cmd_status := CmdExpired, cmd_completed_at := Some now\<rparr> else c)"
  define st :: "router_command \<Rightarrow> router_command" where "st = (\<lambda>c. if cmd_status c = CmdSent \<and>
      (case cmd_sent_at c of None \<Rightarrow> False | Some t \<Rightarrow> t < now - minutes 5) \<and> cmd_retry_count c < cmd_max_retries c
      then c\<lparr>cmd_status := CmdPending, cmd_sent_at := None\<rparr> else c)"
  have tab: "commands (saved s') = map (\<lambda>c. st (ex c)) (commands (cur s))"
    by (simp add: s' cleanup_task_state cleanup_expired_commands_def reset_stale_sent_commands_def
        Let_def upd_where_def ex_def st_def comp_def)
  have ok: "cmd_ok c" if "c \<in> set (commands (cur s))" for c
    using assms(2) that by (simp add: queue_inv_def list_all_iff)
  show ?thesis
  proof (intro conjI ballI)
    fix c assume c: "c \<in> set (commands (saved s'))"
    then obtain c0 where c0: "c0 \<in> set (commands (cur s))" "c = st (ex c0)" using tab by auto
    show "cmd_status c \<in> {CmdPending, CmdSent} \<longrightarrow> (\<forall>e. cmd_expires_at c = Some e \<longrightarrow> now \<le> e)"
      by (auto simp: c0(2) st_def ex_def split: if_splits option.splits)
    show "cmd_status c = CmdSent \<longrightarrow> (\<exists>t. cmd_sent_at c = Some t \<and> now - minutes 5 \<le> t)"
      using ok [OF c0(1)]
      by (auto simp: c0(2) st_def ex_def cmd_ok_def split: if_splits option.splits)
  next
    fix c assume c: "c \<in> set (commands (cur s))"
    show "cmd_status c = CmdSent \<and> (\<exists>t. cmd_sent_at c = Some t \<and> t < now - minutes 5)
        \<and> (\<forall>e. cmd_expires_at c = Some e \<longrightarrow> now \<le> e) \<longrightarrow>
        c\<lparr>cmd_status := CmdPending, cmd_sent_at := None\<rparr> \<in> set (commands (saved s'))"
    proof
      assume a: "cmd_status c = CmdSent \<and> (\<exists>t. cmd_sent_at c = Some t \<and> t < now - minutes 5)
        \<and> (\<forall>e. cmd_expires_at c = Some e \<longrightarrow> now \<le> e)"
      then have "ex c = c" by (auto simp: ex_def split: option.splits)
      moreover have "st c = c\<lparr>cmd_status := CmdPending, cmd_sent_at := None\<rparr>"
        using a ok [OF c] by (auto simp: st_def cmd_ok_def)
      ultimately have "c\<lparr>cmd_status := CmdPending, cmd_sent_at := None\<rparr> = st (ex c)" by simp
      then show "c\<lparr>cmd_status := CmdPending, cmd_sent_at := None\<rparr> \<in> set (commands (saved s'))"
        using c tab by auto
    qed
  qed
qed


lemma verify_router_token_Inr:
  "verify_agent_token check_pw r tok d \<Longrightarrow> \<exists>x. verify_router_token check_pw r tok d = Inr x"
  by (auto simp: verify_router_token_def verify_agent_token_def split: option.splits)



text \<open>
  C12. Reports are not tied to the router that makes them: any authenticated router can report
  a result for a command of another router, and a late failure report reopens a command that
  had already succeeded, which is then handed out to its router again.
\<close>

theorem foreign_report_reopens_command:
  assumes "verify_agent_token check_pw r' token (cur s)" "uniq cmd_id (commands (cur s))"
    "tbl_get cmd_id cid (commands (cur s)) = Some c" "cmd_router_id c \<noteq> r'" "cmd_status c = CmdSuccess"
    "cmd_retry_count c + 1 < cmd_max_retries c" "cmd_expires_at c = Some e" "now < e"
    "agent_report check_pw now r' token [(cid, ''failed'', message)] s = (x, s')"
  shows "(\<exists>es. x = Inr (1, es)) \<and>
    (\<exists>c'. tbl_get cmd_id cid (commands (saved s')) = Some c' \<and> is_due now (cmd_router_id c) c')"
proof -
  obtain y where y: "verify_router_token check_pw r' token (cur s) = Inr y"
    using verify_router_token_Inr assms(1) by blast
  have p: "\<exists>es s1. process_command_result now cid ''failed'' message s = (Inr es, s1)"
    using assms(3,6) by (simp add: process_command_result_def Let_def)
  have k: "cmd_id (result_row now ''failed'' message q) = cmd_id q" for q
    by (simp add: result_row_def)
  have "tbl_get cmd_id cid (commands (cur (snd (process_command_result now cid ''failed'' message s)))) =
      Some (result_row now ''failed'' message c)"
    using assms(3) by (simp add: commands_process_result [OF assms(2)] tbl_get_tbl_upd [of cmd_id, OF k])
  moreover have "is_due now (cmd_router_id c) (result_row now ''failed'' message c)"
    using assms(6-8) by (simp add: is_due_def result_row_def)
  ultimately show ?thesis
    using p y assms(9) by (auto simp: agent_report_def handle_report_def)
qed

section \<open>Witnesses\<close>

definition telemetry0 :: telemetry where
  "telemetry0 = \<lparr>tm_version = Some ''7.1'', tm_uptime = Some (UptimeText ''1h''), tm_cpu_load = Some 5,
     tm_free_memory = None, tm_total_memory = None, tm_free_hdd_space = None, tm_total_hdd_space = None,
     tm_active_pppoe = None, tm_active_hotspot = None, tm_active_users = None\<rparr>"

text \<open>A router with two pending commands, the later one more urgent, and a sent one.\<close>

definition queue_db :: db where
  "queue_db = empty_db\<lparr>routers := [router0, router0\<lparr>rt_id := 2\<rparr>],
     subscriptions := [sub0],
     commands := [command0\<lparr>cmd_id := str_nat 0\<rparr>,
       command0\<lparr>cmd_id := str_nat 1, cmd_priority := 2, cmd_created_at := 7, cmd_source := Some ''subscription_sync'',
         cmd_source_id := Some (str_int 1)\<rparr>,
       command0\<lparr>cmd_id := str_nat 2, cmd_status := CmdSent, cmd_sent_at := Some 0\<rparr>,
       command0\<lparr>cmd_id := str_nat 3, cmd_status := CmdSuccess, cmd_completed_at := Some 0,
         cmd_expires_at := Some 1000\<rparr>]\<rparr>"

lemma queue_db_simps:
  "routers queue_db = [router0, router0\<lparr>rt_id := 2\<rparr>]"
  "backups queue_db = []"
  "commands queue_db = [command0\<lparr>cmd_id := str_nat 0\<rparr>,
       command0\<lparr>cmd_id := str_nat 1, cmd_priority := 2, cmd_created_at := 7, cmd_source := Some ''subscription_sync'',
         cmd_source_id := Some (str_int 1)\<rparr>,
       command0\<lparr>cmd_id := str_nat 2, cmd_status := CmdSent, cmd_sent_at := Some 0\<rparr>,
       command0\<lparr>cmd_id := str_nat 3, cmd_status := CmdSuccess, cmd_completed_at := Some 0,
         cmd_expires_at := Some 1000\<rparr>]"
  by (simp_all add: queue_db_def empty_db_def)

lemma queue_db_inv: "queue_inv str_nat queue_db" "uniq cmd_id (commands queue_db)"
  by (simp_all add: queue_inv_def uniq_def queue_db_simps cmd_ok_def command0_def)

lemma queue_db_router: "poll_router 1 (fresh queue_db)"
  by (simp add: poll_router_def queue_db_simps router0_def)

lemma inj_str_nat: "inj str_nat"
  by (simp add: inj_def)

theorem poll_delivers_due_commands_witness:
  "\<exists>cs. pr_commands (fst (handle_poll 5 1 telemetry0 (fresh queue_db))) = map wire cs
     \<and> set cs \<subseteq> {c \<in> set (commands queue_db). is_due 5 1 c} \<and> length cs \<le> 10"
proof -
  obtain resp es s' where h: "handle_poll 5 1 telemetry0 (fresh queue_db) = (resp, es, s')"
    by (metis prod_cases3)
  from poll_delivers_due_commands [OF h] queue_db_router queue_db_inv(2) show ?thesis
    by (auto simp: h)
qed

theorem command_lifecycle_witness:
  "distinct (map cmd_id (commands (cur (snd (queue_command str_nat 3 1 ''disconnect'' [] 5 None None None (fresh empty_db))))))"
proof -
  let ?s = "snd (queue_command str_nat 3 1 ''disconnect'' [] 5 None None None (fresh empty_db))"
  have "agent_step str_nat (fresh empty_db) ?s" by (rule agent_step.queue) (rule prod.collapse [symmetric])
  then have "(agent_step str_nat)\<^sup>*\<^sup>* (fresh empty_db) ?s" by blast
  from command_lifecycle [OF this] inj_str_nat show ?thesis by (simp add: empty_db_def)
qed

theorem polls_drain_the_queue_witness:
  "pending_for 1 (cur (snd (rounds (poll_round 1) [(5, telemetry0)] (fresh queue_db)))) = []"
proof -
  have "fresh_until 5 1 queue_db" "length (pending_for 1 queue_db) \<le> 10"
    by (simp_all add: fresh_until_def pending_for_def queue_db_simps command0_def)
  then show ?thesis
    using polls_drain_the_queue [of 1 "fresh queue_db" 5 "[(5, telemetry0)]"] queue_db_router queue_db_inv(2)
    by simp
qed

theorem report_result_effects_witness:
  "subscriptions (saved (snd (handle_report 9 1 [(str_nat 1, ''success'', [])] (fresh queue_db)))) =
     [sub0\<lparr>sub_is_router_synced := True, sub_last_router_sync := Some 9\<rparr>]"
  using report_result_effects [OF _ _ _ _ _ prod.collapse [symmetric], of "fresh queue_db" "str_nat 1" _ 1 9 1 "''success''" "[]"]
    queue_db_inv(2)
  by (simp add: queue_db_simps table_simps command0_def)
    (simp add: queue_db_def empty_db_def tbl_upd_def sub0_def)

theorem cleanup_unsticks_commands_witness:
  "command0\<lparr>cmd_id := str_nat 2, cmd_status := CmdPending, cmd_sent_at := None\<rparr>
     \<in> set (commands (saved (snd (cleanup_task (minutes 6) (fresh queue_db)))))"
proof -
  let ?c = "command0\<lparr>cmd_id := str_nat 2, cmd_status := CmdSent, cmd_sent_at := Some 0\<rparr>"
  have "?c \<in> set (commands queue_db)" by (simp add: queue_db_simps)
  moreover have "cmd_status ?c = CmdSent \<and> (\<exists>t. cmd_sent_at ?c = Some t \<and> t < minutes 6 - minutes 5)
      \<and> (\<forall>e. cmd_expires_at ?c = Some e \<longrightarrow> minutes 6 \<le> e)"
    by (simp add: command0_def timedelta_defs)
  moreover have "?c\<lparr>cmd_status := CmdPending, cmd_sent_at := None\<rparr>
      = command0\<lparr>cmd_id := str_nat 2, cmd_status := CmdPending, cmd_sent_at := None\<rparr>" by simp
  ultimately show ?thesis
    using cleanup_unsticks_commands [OF prod.collapse [symmetric], of str_nat "fresh queue_db" "minutes 6"]
      queue_db_inv(1) by (metis fresh_simps(1))
qed


theorem foreign_report_reopens_command_witness:
  "\<exists>c'. tbl_get cmd_id (str_nat 3) (commands (saved (snd (agent_report (\<lambda>p h. True) 5 2 ''tok''
       [(str_nat 3, ''failed'', [])] (fresh queue_db))))) = Some c' \<and> is_due 5 1 c'"
proof -
  let ?c = "command0\<lparr>cmd_id := str_nat 3, cmd_status := CmdSuccess, cmd_completed_at := Some 0,
         cmd_expires_at := Some 1000\<rparr>"
  have "verify_agent_token (\<lambda>p h. True) 2 ''tok'' queue_db"
    by (simp add: verify_agent_token_def queue_db_simps table_simps router0_def)
  moreover have "tbl_get cmd_id (str_nat 3) (commands queue_db) = Some ?c"
    by (simp add: queue_db_simps table_simps)
  ultimately show ?thesis
    using foreign_report_reopens_command [OF _ _ _ _ _ _ _ _ prod.collapse [symmetric],
        of "\<lambda>p h. True" 2 "''tok''" "fresh queue_db" "str_nat 3" ?c 1000 5 "[]"] queue_db_inv(2)
    by (simp add: command0_def)
qed

end
