(* ===== verification/Router_Sync.thy ===== *)
theory Router_Sync
  imports Agent_Queue Plan
begin

text \<open>
  Synchronising subscriptions to routers: \<open>SubscriptionRouterSyncService\<close> of
  \<open>src/app/modules/subscriptions/router_sync.py\<close>. A router with the polling agent is served
  through the command queue; any other router is called directly over its API.

  The device behind \<open>client.execute_command(connection, path, method, ...)\<close> is a parameter
  \<open>exec\<close>: from the resource path, the method and the keyword arguments it yields the rows of
  the reply (or none) or an exception, and a new device state. A row is an object of strings.
  \<open>connect\<close> yields the exception that opening the connection raises, if any; closing a
  connection swallows every exception.
\<close>

type_synonym row = params
type_synonym 'dev exec =
  "string \<Rightarrow> string \<Rightarrow> (string \<times> string option) list \<Rightarrow> 'dev \<Rightarrow> (exn + row list option) \<times> 'dev"

definition rows_or_empty :: "row list option \<Rightarrow> row list" where
  "rows_or_empty v = (case v of None \<Rightarrow> [] | Some rs \<Rightarrow> rs)"

text \<open>\<open>next((u for u in rows if u.get(k) == v), None)\<close>.\<close>

definition find_row :: "string \<Rightarrow> string \<Rightarrow> row list \<Rightarrow> row option" where
  "find_row k v rs = find (\<lambda>u. dict_get u k = Some v) rs"

text \<open>Iterating over a reply that is \<open>None\<close> raises.\<close>

definition iterate :: "row list option \<Rightarrow> exn + row list" where
  "iterate v = (case v of None \<Rightarrow> Inl (Exn ''TypeError'' ''NoneType object is not iterable'') | Some rs \<Rightarrow> Inr rs)"

definition user_type :: "subscription \<Rightarrow> string" where
  "user_type q = (if sub_type q = HOTSPOT then ''hotspot'' else ''pppoe'')"

definition user_path :: "string \<Rightarrow> string" where
  "user_path ut = (if ut = ''hotspot'' then ''/ip/hotspot/user'' else ''/ppp/secret'')"

definition profile_name :: "service_plan \<Rightarrow> string" where
  "profile_name p = ''plan_'' @ str_int (plan_id p)"

section \<open>The direct path\<close>

definition ensure_hotspot_profile_exists ::
    "'dev exec \<Rightarrow> string \<Rightarrow> string \<Rightarrow> service_plan \<Rightarrow> 'dev \<Rightarrow> bool \<times> 'dev" where
  "ensure_hotspot_profile_exists exec name rate_limit p v =
     catching False
       (andthen (exec ''/ip/hotspot/user/profile'' ''get'' [] v) (\<lambda>profiles v1.
          case find_row ''name'' name (rows_or_empty profiles) of
            Some existing \<Rightarrow>
              andthen (exec ''/ip/hotspot/user/profile'' ''set''
                [(''id'', dict_get existing ''.id''), (''rate-limit'', Some rate_limit)] v1)
                (\<lambda>_ v2. (Inr True, v2))
          | None \<Rightarrow>
              andthen (exec ''/ip/hotspot/user/profile'' ''add''
                ([(''name'', Some name), (''rate-limit'', Some rate_limit),
                  (''shared-users'', Some (if plan_concurrent_sessions p \<noteq> 0
                                           then str_int (plan_concurrent_sessions p) else ''1''))] @
                 (if plan_validity_days p \<noteq> 0
                  then [(''session-timeout'', Some (str_int (plan_validity_days p) @ ''d''))] else [])) v1)
                (\<lambda>_ v2. (Inr True, v2))))"

definition ensure_ppp_profile_exists ::
    "'dev exec \<Rightarrow> string \<Rightarrow> string \<Rightarrow> service_plan \<Rightarrow> 'dev \<Rightarrow> bool \<times> 'dev" where
  "ensure_ppp_profile_exists exec name rate_limit p v =
     catching False
       (andthen (exec ''/ppp/profile'' ''get'' [] v) (\<lambda>profiles v1.
          case find_row ''name'' name (rows_or_empty profiles) of
            Some existing \<Rightarrow>
              andthen (exec ''/ppp/profile'' ''set''
                [(''id'', dict_get existing ''.id''), (''rate-limit'', Some rate_limit)] v1)
                (\<lambda>_ v2. (Inr True, v2))
          | None \<Rightarrow>
              andthen (exec ''/ppp/profile'' ''add''
                [(''name'', Some name), (''rate-limit'', Some rate_limit),
                 (''only-one'', Some (if plan_concurrent_sessions p = 1 then ''yes'' else ''no''))] v1)
                (\<lambda>_ v2. (Inr True, v2))))"

definition create_hotspot_user_with_limits ::
    "'dev exec \<Rightarrow> subscription \<Rightarrow> service_plan \<Rightarrow> string \<Rightarrow> 'dev \<Rightarrow> bool \<times> 'dev" where
  "create_hotspot_user_with_limits exec q p rate_limit v =
     (let limit = (\<lambda>k l. if truthy l \<and> l \<noteq> Some ''0'' then [(k, l)] else []);
          (_, v1) = ensure_hotspot_profile_exists exec (profile_name p) rate_limit p v
      in catching False
           (andthen (exec ''/ip/hotspot/user'' ''add''
              ([(''name'', Some (sub_username q)), (''password'', Some (sub_password q)),
                (''profile'', Some (profile_name p))] @
               limit ''limit-uptime'' (calculate_time_limit p) @
               limit ''limit-bytes-total'' (calculate_data_limit p)) v1)
              (\<lambda>_ v2. (Inr True, v2))))"

definition create_pppoe_user_with_limits ::
    "'dev exec \<Rightarrow> subscription \<Rightarrow> service_plan \<Rightarrow> string \<Rightarrow> 'dev \<Rightarrow> bool \<times> 'dev" where
  "create_pppoe_user_with_limits exec q p rate_limit v =
     (let (_, v1) = ensure_ppp_profile_exists exec (profile_name p) rate_limit p v
      in catching False
           (andthen (exec ''/ppp/secret'' ''add''
              [(''name'', Some (sub_username q)), (''password'', Some (sub_password q)),
               (''service'', Some ''pppoe''), (''profile'', Some (profile_name p))] v1)
              (\<lambda>_ v2. (Inr True, v2))))"

definition get_user_from_router :: "'dev exec \<Rightarrow> string \<Rightarrow> string \<Rightarrow> 'dev \<Rightarrow> row option \<times> 'dev" where
  "get_user_from_router exec username ut v =
     catching None
       (andthen (exec (user_path ut) ''get'' [] v)
          (\<lambda>users v1. (Inr (find_row ''name'' username (rows_or_empty users)), v1)))"

definition update_user_profile ::
    "'dev exec \<Rightarrow> string \<Rightarrow> string \<Rightarrow> service_plan \<Rightarrow> string \<Rightarrow> 'dev \<Rightarrow> bool \<times> 'dev" where
  "update_user_profile exec username ut p rate_limit v =
     (let (_, v1) = (if ut = ''hotspot''
                     then ensure_hotspot_profile_exists exec (profile_name p) rate_limit p v
                     else ensure_ppp_profile_exists exec (profile_name p) rate_limit p v)
      in catching False
           (andthen (exec (user_path ut) ''get'' [] v1) (\<lambda>users v2.
              case iterate users of
                Inl e \<Rightarrow> (Inl e, v2)
              | Inr us \<Rightarrow>
                  case find_row ''name'' username us of
                    None \<Rightarrow> (Inr False, v2)
                  | Some u \<Rightarrow>
                      andthen (exec (user_path ut) ''set''
                        [(''id'', dict_get u ''.id''), (''profile'', Some (profile_name p)),
                         (''disabled'', Some ''no'')] v2)
                        (\<lambda>_ v3. (Inr True, v3)))))"

fun remove_sessions :: "'dev exec \<Rightarrow> string \<Rightarrow> string \<Rightarrow> string \<Rightarrow> row list \<Rightarrow> 'dev \<Rightarrow> (exn + bool) \<times> 'dev" where
  "remove_sessions exec path key username [] v = (Inr True, v)"
| "remove_sessions exec path key username (r # rs) v =
     (if dict_get r key = Some username
      then andthen (exec path ''remove'' [(''id'', dict_get r ''.id'')] v)
             (\<lambda>_ v1. remove_sessions exec path key username rs v1)
      else remove_sessions exec path key username rs v)"

definition disconnect_active_session :: "'dev exec \<Rightarrow> string \<Rightarrow> string \<Rightarrow> 'dev \<Rightarrow> bool \<times> 'dev" where
  "disconnect_active_session exec username ut v =
     (let (path, key) = (if ut = ''hotspot'' then (''/ip/hotspot/active'', ''user'') else (''/ppp/active'', ''name''))
      in catching False
           (andthen (exec path ''get'' [] v)
              (\<lambda>active v1. remove_sessions exec path key username (rows_or_empty active) v1)))"

record action_result =
  ar_success :: bool
  ar_error :: "string option"

definition ensure_user_on_router ::
    "'dev exec \<Rightarrow> subscription \<Rightarrow> service_plan \<Rightarrow> bool \<Rightarrow> 'dev \<Rightarrow> action_result \<times> 'dev" where
  "ensure_user_on_router exec q p force_create v =
     (let ut = user_type q;
          (existing, v1) = get_user_from_router exec (sub_username q) ut v;
          rate_limit = build_rate_limit p
      in if existing \<noteq> None \<and> \<not> force_create
         then (let (_, v2) = update_user_profile exec (sub_username q) ut p rate_limit v1
               in (\<lparr>ar_success = True, ar_error = None\<rparr>, v2))
         else
           let (removed, v2) =
             (case existing of
                None \<Rightarrow> (Inr (), v1)
              | Some u \<Rightarrow> andthen (exec (user_path ut) ''remove'' [(''id'', dict_get u ''.id'')] v1)
                            (\<lambda>_ w. (Inr (), w)))
           in case removed of
                Inl e \<Rightarrow> (\<lparr>ar_success = False, ar_error = Some (exn_msg e)\<rparr>, v2)
              | Inr _ \<Rightarrow>
                  let (success, v3) =
                    (if ut = ''hotspot'' then create_hotspot_user_with_limits exec q p rate_limit v2
                     else create_pppoe_user_with_limits exec q p rate_limit v2)
                  in (\<lparr>ar_success = success,
                       ar_error = (if success then None else Some (''Failed to create '' @ ut @ '' user''))\<rparr>, v3))"

definition disable_user_on_router :: "'dev exec \<Rightarrow> subscription \<Rightarrow> 'dev \<Rightarrow> action_result \<times> 'dev" where
  "disable_user_on_router exec q v =
     (let ut = user_type q;
          (_, v1) = disconnect_active_session exec (sub_username q) ut v;
          (r, v2) = andthen (exec (user_path ut) ''get'' [] v1) (\<lambda>users w.
             case iterate users of
               Inl e \<Rightarrow> (Inl e, w)
             | Inr us \<Rightarrow>
                 case find_row ''name'' (sub_username q) us of
                   None \<Rightarrow> (Inr (), w)
                 | Some u \<Rightarrow>
                     andthen (exec (user_path ut) ''set''
                       [(''id'', dict_get u ''.id''), (''disabled'', Some ''yes'')] w) (\<lambda>_ w'. (Inr (), w')))
      in (case r of
            Inl e \<Rightarrow> \<lparr>ar_success = False, ar_error = Some (exn_msg e)\<rparr>
          | Inr _ \<Rightarrow> \<lparr>ar_success = True, ar_error = None\<rparr>, v2))"

section \<open>Synchronising one subscription\<close>

record sync_result =
  sr_success :: bool
  sr_subscription_id :: int
  sr_action :: "string option"
  sr_error :: "string option"
  sr_timestamp :: datetime
  sr_queued :: bool \<comment> \<open>whether the key \<open>queued\<close> is present\<close>

definition disabling :: "SubscriptionStatus \<Rightarrow> bool" where
  "disabling st \<longleftrightarrow> st = SubExpired \<or> st = SubSuspended \<or> st = SubCancelled"

definition sync_via_agent_queue ::
    "(nat \<Rightarrow> string) \<Rightarrow> datetime \<Rightarrow> subscription \<Rightarrow> router \<Rightarrow> service_plan \<Rightarrow> bool \<Rightarrow> dbs \<Rightarrow> sync_result \<times> dbs" where
  "sync_via_agent_queue uuid now q r p force_create s =
     (let base = \<lparr>sr_success = True, sr_subscription_id = sub_id q, sr_action = None, sr_error = None,
                  sr_timestamp = now, sr_queued = True\<rparr>;
          ut = user_type q
      in if sub_status q = SubActive then
           let (_, s1) = queue_command uuid now (rt_id r) ''create_user''
                 [(''username'', sub_username q), (''password'', sub_password q), (''type'', ut),
                  (''profile'', profile_name p), (''rate_limit'', build_rate_limit p)]
                 3 (Some ''subscription_sync'') (Some (str_int (sub_id q))) None s
           in (base\<lparr>sr_action := Some ''create_user_queued''\<rparr>, commit s1)
         else if disabling (sub_status q) then
           let (_, s1) = queue_command uuid now (rt_id r) ''disable_user''
                 [(''username'', sub_username q), (''type'', ut)]
                 2 (Some ''subscription_sync'') (Some (str_int (sub_id q))) None s
           in (base\<lparr>sr_action := Some ''disable_user_queued''\<rparr>, commit s1)
         else (base, commit s))"

definition sync_subscription_to_router ::
    "(nat \<Rightarrow> string) \<Rightarrow> 'dev exec \<Rightarrow> (router \<Rightarrow> 'dev \<Rightarrow> exn option) \<Rightarrow> datetime \<Rightarrow> subscription \<Rightarrow> bool
     \<Rightarrow> 'dev \<times> dbs \<Rightarrow> sync_result \<times> 'dev \<times> dbs" where
  "sync_subscription_to_router uuid exec connect now q force_create vs =
     (let (v, s) = vs;
          base = \<lparr>sr_success = False, sr_subscription_id = sub_id q, sr_action = None, sr_error = None,
                  sr_timestamp = now, sr_queued = False\<rparr>
      in case tbl_get rt_id (sub_router_id q) (routers (cur s)) of
           None \<Rightarrow> (base\<lparr>sr_error := Some (''Router '' @ str_int (sub_router_id q) @ '' not found'')\<rparr>, v, s)
         | Some r \<Rightarrow>
             case tbl_get plan_id (sub_plan_id q) (plans (cur s)) of
               None \<Rightarrow> (base\<lparr>sr_error := Some (''Plan '' @ str_int (sub_plan_id q) @ '' not found'')\<rparr>, v, s)
             | Some p \<Rightarrow>
                 if rt_agent_installed r \<and> truthy (rt_agent_token r)
                 then (let (res, s1) = sync_via_agent_queue uuid now q r p force_create s in (res, v, s1))
                 else
                   case connect r v of
                     Some e \<Rightarrow>
                       (base\<lparr>sr_error := Some (''Failed to connect to router '' @ rt_ip_address r @ '': '' @ exn_msg e)\<rparr>,
                        v, s)
                   | None \<Rightarrow>
                       let (res, v1) =
                         (if sub_status q = SubActive then
                            (let (a, w) = ensure_user_on_router exec q p force_create v
                             in (base\<lparr>sr_action := Some ''create_or_update'', sr_success := ar_success a,
                                      sr_error := (if ar_success a then None else ar_error a)\<rparr>, w))
                          else if disabling (sub_status q) then
                            (let (a, w) = disable_user_on_router exec q v
                             in (base\<lparr>sr_action := Some ''disable'', sr_success := ar_success a,
                                      sr_error := (if ar_success a then None else ar_error a)\<rparr>, w))
                          else (base, v));
                         s1 = commit (on_db (upd_subscription (sub_id q)
                           (\<lambda>x. x\<lparr>sub_is_router_synced := sr_success res, sub_last_router_sync := Some now\<rparr>)) s)
                       in (res, v1, s1))"

section \<open>Batches\<close>

record batch_result =
  br_total :: nat
  br_success :: nat
  br_failed :: nat
  br_errors :: "(int \<times> string option) list"

definition batch_of :: "sync_result list \<Rightarrow> batch_result" where
  "batch_of rs =
     \<lparr>br_total = length rs, br_success = length (filter sr_success rs),
      br_failed = length (filter (\<lambda>r. \<not> sr_success r) rs),
      br_errors = map (\<lambda>r. (sr_subscription_id r, sr_error r)) (filter (\<lambda>r. \<not> sr_success r) rs)\<rparr>"

definition sync_all_unsynced_subscriptions ::
    "(nat \<Rightarrow> string) \<Rightarrow> 'dev exec \<Rightarrow> (router \<Rightarrow> 'dev \<Rightarrow> exn option) \<Rightarrow> datetime \<Rightarrow> nat
     \<Rightarrow> 'dev \<times> dbs \<Rightarrow> batch_result \<times> 'dev \<times> dbs" where
  "sync_all_unsynced_subscriptions uuid exec connect now limit vs =
     (let unsynced = take limit (filter (\<lambda>q. \<not> sub_is_router_synced q \<and> sub_status q = SubActive)
            (subscriptions (cur (snd vs))));
          (rs, vs1) = run_batch (\<lambda>q. sync_subscription_to_router uuid exec connect now q False) unsynced vs
      in (batch_of rs, vs1))"

definition sync_router_subscriptions ::
    "(nat \<Rightarrow> string) \<Rightarrow> 'dev exec \<Rightarrow> (router \<Rightarrow> 'dev \<Rightarrow> exn option) \<Rightarrow> datetime \<Rightarrow> int
     \<Rightarrow> 'dev \<times> dbs \<Rightarrow> batch_result \<times> 'dev \<times> dbs" where
  "sync_router_subscriptions uuid exec connect now router_id vs =
     (let mine = filter (\<lambda>q. sub_router_id q = router_id \<and> sub_status q = SubActive)
            (subscriptions (cur (snd vs)));
          (rs, vs1) = run_batch (\<lambda>q. sync_subscription_to_router uuid exec connect now q True) mine vs
      in (batch_of rs, vs1))"

section \<open>What a synchronisation through the agent does\<close>

text \<open>A subscription whose router has the agent and whose plan exists.\<close>

definition agent_served :: "db \<Rightarrow> subscription \<Rightarrow> bool" where
  "agent_served d q =
     (case tbl_get rt_id (sub_router_id q) (routers d) of
        None \<Rightarrow> False
      | Some r \<Rightarrow> rt_agent_installed r \<and> truthy (rt_agent_token r) \<and>
                  tbl_get plan_id (sub_plan_id q) (plans d) \<noteq> None)"

definition sync_command_of :: "subscription \<Rightarrow> router_command \<Rightarrow> bool" where
  "sync_command_of q c \<longleftrightarrow>
     cmd_router_id c = sub_router_id q \<and> cmd_status c = CmdPending \<and>
     cmd_source c = Some ''subscription_sync'' \<and> cmd_source_id c = Some (str_int (sub_id q)) \<and>
     (if sub_status q = SubActive
      then cmd_action c = ''create_user'' \<and> cmd_priority c = 3 \<and>
           param (cmd_params c) ''username'' [] = sub_username q \<and>
           param (cmd_params c) ''password'' [] = sub_password q \<and>
           param (cmd_params c) ''type'' [] = user_type q
      else cmd_action c = ''disable_user'' \<and> cmd_priority c = 2 \<and>
           param (cmd_params c) ''username'' [] = sub_username q \<and>
           param (cmd_params c) ''type'' [] = user_type q)"

lemma sync_agent_served:
  assumes "agent_served (cur s) q"
  shows "\<exists>r p. tbl_get rt_id (sub_router_id q) (routers (cur s)) = Some r \<and> rt_id r = sub_router_id q
    \<and> sync_subscription_to_router uuid exec connect now q fc (v, s) =
       (let (res, s1) = sync_via_agent_queue uuid now q r p fc s in (res, v, s1))"
  using assms by (auto simp: agent_served_def sync_subscription_to_router_def split: option.splits)

lemma sync_via_agent_queue_effects:
  fixes now :: datetime
  assumes "sync_via_agent_queue uuid now q r p fc s = (res, s1)"
  shows "sr_success res" "saved s1 = cur s1" "subscriptions (cur s1) = subscriptions (cur s)"
    "routers (cur s1) = routers (cur s)" "plans (cur s1) = plans (cur s)" "backups (cur s1) = backups (cur s)"
    "sub_status q = SubActive \<or> disabling (sub_status q) \<Longrightarrow> rt_id r = sub_router_id q \<Longrightarrow>
       \<exists>c. commands (cur s1) = commands (cur s) @ [c] \<and> sync_command_of q c
         \<and> cmd_id c = uuid (length (commands (cur s))) \<and> cmd_created_at c = now
         \<and> cmd_expires_at c = Some (now + hours 1)"
    "\<not> (sub_status q = SubActive \<or> disabling (sub_status q)) \<Longrightarrow> commands (cur s1) = commands (cur s)"
  using assms
  by (auto simp: sync_via_agent_queue_def queue_command_def Let_def row_defs sync_command_of_def param_def
      dict_get_or_def disabling_def timedelta_defs agent_command_expiry_hours_def split: if_splits)

text \<open>
   Through the agent a synchronisation queues exactly one command and nothing else: for an
  active subscription a pending \<open>create_user\<close> with its credentials, for an expired, suspended
  or cancelled one a more urgent \<open>disable_user\<close>, both addressed to its router, valid for an
  hour and tagged with its id; for a pending or inactive one none. The device is not called,
  the subscription keeps its sync flag, and the result is committed.
\<close>

theorem agent_sync_queues_one_command:
  assumes "agent_served (cur s) q"
    "sync_subscription_to_router uuid exec connect now q fc (v, s) = (res, v', s')"
  shows "v' = v \<and> sr_success res \<and> saved s' = cur s' \<and> subscriptions (cur s') = subscriptions (cur s)
    \<and> (if sub_status q = SubActive \<or> disabling (sub_status q)
       then \<exists>c. commands (cur s') = commands (cur s) @ [c] \<and> sync_command_of q c
              \<and> cmd_expires_at c = Some (now + hours 1)
       else commands (cur s') = commands (cur s))"
proof -
  from assms(1) obtain r p where r: "rt_id r = sub_router_id q"
    and eq: "sync_subscription_to_router uuid exec connect now q fc (v, s) =
       (let (res, s1) = sync_via_agent_queue uuid now q r p fc s in (res, v, s1))"
    using sync_agent_served [of s q uuid exec connect now fc v] by blast
  then have "sync_via_agent_queue uuid now q r p fc s = (res, s')" "v' = v"
    using assms(2) by (auto split: prod.splits)
  from sync_via_agent_queue_effects [OF this(1)] this(2) r show ?thesis by auto
qed

section \<open>From the billing side to the router and back\<close>

lemma tbl_get_snoc_new: "key r \<notin> key ` set t \<Longrightarrow> tbl_get key (key r) (t @ [r]) = Some r"
  by (auto simp: table_simps tbl_get_None [symmetric])

text \<open>
  C3. The round trip of a synchronisation. When the router is served by its agent, nothing else is
  pending for it and the backups refer to commands of the queue only, the
  router's next poll within the hour delivers exactly the queued command, and the success
  report for it marks the subscription, and only it, as synced at the time of the report,
  in the committed database.
\<close>

theorem sync_poll_report_round_trip:
  assumes "agent_served (cur s) q" "sub_status q = SubActive \<or> disabling (sub_status q)"
    "inj uuid" "queue_inv uuid (cur s)" "pending_for (sub_router_id q) (cur s) = []"
    "bk_command_id ` set (backups (cur s)) \<subseteq> insert None (Some ` cmd_id ` set (commands (cur s)))"
    "sync_subscription_to_router uuid exec connect now q fc (v, s) = (res, v1, s1)"
    "now1 < now + hours 1" "handle_poll now1 (sub_router_id q) t s1 = (resp, es, s2)"
    "handle_report now2 (sub_router_id q) (map (\<lambda>(cid, _). (cid, ''success'', message)) (pr_commands resp)) s2 = (x, s3)"
  shows "(\<exists>cid action ps. pr_commands resp = [(cid, action, ps)]
      \<and> action = (if sub_status q = SubActive then ''create_user'' else ''disable_user''))
    \<and> subscriptions (saved s3) = tbl_upd sub_id (sub_id q)
        (\<lambda>y. y\<lparr>sub_is_router_synced := True, sub_last_router_sync := Some now2\<rparr>) (subscriptions (cur s))"
proof -
  from assms(1) obtain r p where r: "tbl_get rt_id (sub_router_id q) (routers (cur s)) = Some r"
      "rt_id r = sub_router_id q"
    and eq: "sync_subscription_to_router uuid exec connect now q fc (v, s) =
       (let (res, s1) = sync_via_agent_queue uuid now q r p fc s in (res, v, s1))"
    using sync_agent_served [of s q uuid exec connect now fc v] by blast
  then have a: "sync_via_agent_queue uuid now q r p fc s = (res, s1)"
    using assms(7) by (auto split: prod.splits)
  note eff = sync_via_agent_queue_effects [OF a]
  obtain c where c: "commands (cur s1) = commands (cur s) @ [c]" "sync_command_of q c"
      "cmd_id c = uuid (length (commands (cur s)))" "cmd_expires_at c = Some (now + hours 1)"
    using eff(7) [OF assms(2) r(2)] by auto
  have ids: "map cmd_id (commands (cur s1)) = map uuid [0..<length (commands (cur s1))]"
    using assms(4) c by (simp add: queue_inv_def)
  have u1: "uniq cmd_id (commands (cur s1))"
    using assms(3) unfolding uniq_def ids by (simp add: distinct_map inj_on_def)
  then have new: "tbl_get cmd_id (cmd_id c) (commands (cur s1)) = Some c"
    using uniq_tbl_get [of cmd_id "commands (cur s1)" c] c(1) by simp
  have due_c: "is_due now1 (sub_router_id q) c"
    using c(2,4) assms(8) by (simp add: is_due_def sync_command_of_def)
  have "filter (is_due now1 (sub_router_id q)) (commands (cur s)) = []"
    using assms(5) by (auto simp: pending_for_def filter_empty_conv is_due_def)
  with c(1) due_c have get: "get_pending_commands now1 (sub_router_id q) None (cur s1) = [c]"
    by (simp add: get_pending_commands_def agent_max_commands_per_poll_def)
  have r1: "tbl_get rt_id (sub_router_id q) (routers (cur s1)) = Some r" using r(1) eff(4) by simp
  have resp: "pr_commands resp = [wire c]"
    and s2: "s2 = commit (mark_commands_sent now1 [cmd_id c] (on_db (upd_router (sub_router_id q) (apply_telemetry now1 t)) s1))"
    using assms(9) get by (auto simp: handle_poll_known [OF r1])
  have cmds2: "commands (cur s2) = upd_where (\<lambda>x. cmd_id x = cmd_id c)
      (\<lambda>x. x\<lparr>cmd_status := CmdSent, cmd_sent_at := Some now1\<rparr>) (commands (cur s1))"
    and subs2: "subscriptions (cur s2) = subscriptions (cur s)" and bk2: "backups (cur s2) = backups (cur s)"
    using eff(3,6) by (simp_all add: s2 mark_commands_sent_cur row_defs)
  have u2: "uniq cmd_id (commands (cur s2))" using u1 by (simp add: cmds2 uniq_upd_where)
  have c2: "tbl_get cmd_id (cmd_id c) (commands (cur s2)) = Some (c\<lparr>cmd_status := CmdSent, cmd_sent_at := Some now1\<rparr>)"
    using new by (simp add: cmds2 tbl_get_upd_where)
  have rep: "handle_report now2 (sub_router_id q) [(cmd_id c, ''success'', message)] s2 = (x, s3)"
    using assms(10) resp by (simp add: wire_def)
  have "cmd_id c \<notin> cmd_id ` set (commands (cur s))" using u1 c(1) by (simp add: uniq_def)
  then have nb: "Some (cmd_id c) \<notin> bk_command_id ` set (backups (cur s))" using assms(6) by blast
  have "subscriptions (saved s3) = tbl_upd sub_id (sub_id q)
      (\<lambda>y. y\<lparr>sub_is_router_synced := True, sub_last_router_sync := Some now2\<rparr>) (subscriptions (cur s))"
    using success_report_syncs [OF u2 c2 _ _ _ rep, of "sub_id q"] c(2) bk2 subs2 nb
    by (simp add: sync_command_of_def)
  moreover have "cmd_action c = (if sub_status q = SubActive then ''create_user'' else ''disable_user'')"
    using c(2) by (simp add: sync_command_of_def split: if_splits)
  ultimately show ?thesis using resp by (auto simp: wire_def)
qed

section \<open>Batches\<close>

text \<open>Whatever the outcome, a synchronisation only appends to the queue and leaves routers and plans alone.\<close>

lemma sync_frame:
  assumes "sync_subscription_to_router uuid exec connect now q fc vs = (res, vs')"
  shows "routers (cur (snd vs')) = routers (cur (snd vs))" "plans (cur (snd vs')) = plans (cur (snd vs))"
    "set (commands (cur (snd vs))) \<subseteq> set (commands (cur (snd vs')))"
proof -
  obtain v s where vs: "vs = (v, s)" by fastforce
  have a: "routers (cur s1) = routers (cur s) \<and> plans (cur s1) = plans (cur s)
      \<and> set (commands (cur s)) \<subseteq> set (commands (cur s1))"
    if "sync_via_agent_queue uuid now q r p fc s = (x, s1)" for r p x s1
    using sync_via_agent_queue_effects(4,5) [OF that] that
    by (auto simp: sync_via_agent_queue_def queue_command_def Let_def row_defs split: if_splits)
  from assms a show "routers (cur (snd vs')) = routers (cur (snd vs))" "plans (cur (snd vs')) = plans (cur (snd vs))"
    "set (commands (cur (snd vs))) \<subseteq> set (commands (cur (snd vs')))"
    by (fastforce simp: vs sync_subscription_to_router_def Let_def row_defs
        split: option.splits if_splits prod.splits)+
qed

lemma agent_served_cong:
  "routers d' = routers d \<Longrightarrow> plans d' = plans d \<Longrightarrow> agent_served d' q = agent_served d q"
  by (simp add: agent_served_def cong: option.case_cong)

definition user_queued :: "db \<Rightarrow> subscription \<Rightarrow> 'dev \<times> dbs \<Rightarrow> bool" where
  "user_queued d q vs \<longleftrightarrow>
     (agent_served d q \<and> sub_status q = SubActive \<longrightarrow> list_ex (sync_command_of q) (commands (cur (snd vs))))"

interpretation sync_pass: sweep "\<lambda>q. sync_subscription_to_router uuid exec connect now q fc"
    "\<lambda>vs. routers (cur (snd vs)) = routers d \<and> plans (cur (snd vs)) = plans d" "user_queued d"
    for uuid :: "nat \<Rightarrow> string" and exec :: "'dev exec" and connect now fc d
proof
  fix vs :: "'dev \<times> dbs" and q y
  assume i: "routers (cur (snd vs)) = routers d \<and> plans (cur (snd vs)) = plans d"
  obtain res vs' where st: "sync_subscription_to_router uuid exec connect now q fc vs = (res, vs')"
    by (metis surj_pair)
  note fr = sync_frame [OF st]
  show "routers (cur (snd (snd (sync_subscription_to_router uuid exec connect now q fc vs)))) = routers d
      \<and> plans (cur (snd (snd (sync_subscription_to_router uuid exec connect now q fc vs)))) = plans d"
    using i fr st by simp
  show "user_queued d y (snd (sync_subscription_to_router uuid exec connect now q fc vs))"
    if "user_queued d y vs"
    using that fr(3) st by (auto simp: user_queued_def list_ex_iff)
  show "user_queued d q (snd (sync_subscription_to_router uuid exec connect now q fc vs))"
    unfolding user_queued_def
  proof
    assume q: "agent_served d q \<and> sub_status q = SubActive"
    obtain v s where vs: "vs = (v, s)" by fastforce
    then have "agent_served (cur s) q" using q i agent_served_cong [of "cur s" d] by simp
    then obtain r p where r: "rt_id r = sub_router_id q"
      and eq: "sync_subscription_to_router uuid exec connect now q fc (v, s) =
         (let (res, s1) = sync_via_agent_queue uuid now q r p fc s in (res, v, s1))"
      using sync_agent_served [of s q uuid exec connect now fc v] by blast
    obtain x s1 where a: "sync_via_agent_queue uuid now q r p fc s = (x, s1)" by fastforce
    from sync_via_agent_queue_effects(7) [OF a] q r
    show "list_ex (sync_command_of q) (commands (cur (snd (snd (sync_subscription_to_router uuid exec connect now q fc vs)))))"
      by (auto simp: vs eq a list_ex_iff)
  qed
qed

lemma batch_of_counts: "br_success (batch_of rs) + br_failed (batch_of rs) = br_total (batch_of rs)"
  by (simp add: batch_of_def sum_length_filter_compl)

text \<open>
   The pass over the unsynced subscriptions reaches each of them: every active, unsynced
  subscription among the first \<open>limit\<close> whose router has the agent has a pending \<open>create_user\<close>
  command in the queue afterwards, whatever happened to the others; the counts of the result
  add up and each failure is listed.
\<close>

theorem unsynced_pass_reaches_every_user:
  assumes "sync_all_unsynced_subscriptions uuid exec connect now limit vs = (res, vs')"
    "q \<in> set (take limit (filter (\<lambda>q. \<not> sub_is_router_synced q \<and> sub_status q = SubActive)
        (subscriptions (cur (snd vs)))))"
    "agent_served (cur (snd vs)) q"
  shows "list_ex (sync_command_of q) (commands (cur (snd vs')))
    \<and> br_success res + br_failed res = br_total res \<and> length (br_errors res) = br_failed res"
proof -
  let ?qs = "take limit (filter (\<lambda>q. \<not> sub_is_router_synced q \<and> sub_status q = SubActive)
        (subscriptions (cur (snd vs))))"
  have "sub_status q = SubActive" using assms(2) by (auto dest: in_set_takeD)
  moreover have "user_queued (cur (snd vs)) q
      (snd (run_batch (\<lambda>q. sync_subscription_to_router uuid exec connect now q False) ?qs vs))"
    using sync_pass.batch_settles [of vs "cur (snd vs)" q ?qs] assms(2) by blast
  ultimately have "list_ex (sync_command_of q) (commands (cur (snd vs')))"
    using assms(1,3) by (auto simp: sync_all_unsynced_subscriptions_def Let_def user_queued_def split: prod.splits)
  moreover have "\<exists>rs. res = batch_of rs"
    using assms(1) by (auto simp: sync_all_unsynced_subscriptions_def Let_def split: prod.splits)
  ultimately show ?thesis using batch_of_counts by (auto simp: batch_of_def)
qed

lemma agent_batch:
  assumes "\<forall>q \<in> set qs. agent_served (cur s) q \<and> sub_status q = SubActive"
  shows "\<exists>rs s'. run_batch (\<lambda>q. sync_subscription_to_router uuid exec connect now q fc) qs (v, s) = (rs, v, s')
    \<and> subscriptions (cur s') = subscriptions (cur s) \<and> routers (cur s') = routers (cur s)
    \<and> plans (cur s') = plans (cur s) \<and> length (commands (cur s')) = length (commands (cur s)) + length qs"
  using assms
proof (induction qs arbitrary: s)
  case (Cons q qs)
  obtain r p where r: "rt_id r = sub_router_id q"
    and eq: "sync_subscription_to_router uuid exec connect now q fc (v, s) =
       (let (res, s1) = sync_via_agent_queue uuid now q r p fc s in (res, v, s1))"
    using sync_agent_served [of s q uuid exec connect now fc v] Cons.prems by auto
  obtain x s1 where a: "sync_via_agent_queue uuid now q r p fc s = (x, s1)" by fastforce
  note e = sync_via_agent_queue_effects [OF a]
  have "\<forall>q \<in> set qs. agent_served (cur s1) q \<and> sub_status q = SubActive"
    using Cons.prems agent_served_cong [OF e(4,5)] by simp
  from Cons.IH [OF this] e(3,4,5) e(7) [OF _ r] Cons.prems show ?case by (auto simp: eq a)
qed simp

text \<open>
   Passing again before the routers have reported queues every user again: the flag stays
  unset until a report arrives, so that after \<open>n\<close> passes each unsynced subscription of an agent
  router stands \<open>n\<close> times in the queue (the commands are not deduplicated).
\<close>

theorem unsynced_passes_accumulate:
  assumes "\<forall>q \<in> set (subscriptions (cur s)). agent_served (cur s) q"
  shows "length (commands (cur (snd (((\<lambda>vs. snd (sync_all_unsynced_subscriptions uuid exec connect now limit vs)) ^^ n) (v, s))))) =
      length (commands (cur s)) + n * min limit (length (filter (\<lambda>q. \<not> sub_is_router_synced q \<and> sub_status q = SubActive)
        (subscriptions (cur s))))
    \<and> subscriptions (cur (snd (((\<lambda>vs. snd (sync_all_unsynced_subscriptions uuid exec connect now limit vs)) ^^ n) (v, s))))
      = subscriptions (cur s)"
proof -
  let ?pass = "\<lambda>vs. snd (sync_all_unsynced_subscriptions uuid exec connect now limit vs)"
  have "\<exists>s'. (?pass ^^ n) (v, s) = (v, s') \<and> subscriptions (cur s') = subscriptions (cur s)
     \<and> routers (cur s') = routers (cur s) \<and> plans (cur s') = plans (cur s)
     \<and> length (commands (cur s')) = length (commands (cur s)) + n * min limit
       (length (filter (\<lambda>q. \<not> sub_is_router_synced q \<and> sub_status q = SubActive) (subscriptions (cur s))))"
  proof (induction n)
    case (Suc n)
    then obtain s1 where s1: "(?pass ^^ n) (v, s) = (v, s1)" "subscriptions (cur s1) = subscriptions (cur s)"
      "routers (cur s1) = routers (cur s)" "plans (cur s1) = plans (cur s)"
      "length (commands (cur s1)) = length (commands (cur s)) + n * min limit
       (length (filter (\<lambda>q. \<not> sub_is_router_synced q \<and> sub_status q = SubActive) (subscriptions (cur s))))"
      by blast
    let ?qs = "take limit (filter (\<lambda>q. \<not> sub_is_router_synced q \<and> sub_status q = SubActive) (subscriptions (cur s)))"
    have "\<forall>q \<in> set ?qs. agent_served (cur s1) q \<and> sub_status q = SubActive"
      using assms agent_served_cong [OF s1(3,4)] by (auto dest: in_set_takeD)
    from agent_batch [OF this, of uuid exec connect now False v] s1 show ?case
      by (auto simp: sync_all_unsynced_subscriptions_def Let_def min.commute)
  qed simp
  then show ?thesis by auto
qed

section \<open>The direct path records its outcome\<close>

definition direct_served :: "db \<Rightarrow> subscription \<Rightarrow> router \<Rightarrow> service_plan \<Rightarrow> bool" where
  "direct_served d q r p \<longleftrightarrow>
     tbl_get rt_id (sub_router_id q) (routers d) = Some r \<and> tbl_get plan_id (sub_plan_id q) (plans d) = Some p \<and>
     \<not> (rt_agent_installed r \<and> truthy (rt_agent_token r))"

text \<open>
   Over a direct connection the database records what the synchronisation returned: the
  subscription, and only it, gets the outcome as its sync flag together with the time, in
  the committed database; no command is queued. For a subscription that is neither active
  nor ended the device is not called and the flag is cleared. If the connection cannot be
  opened the call fails with the reason and nothing changes.
\<close>

theorem direct_sync_records_outcome:
  assumes "direct_served (cur s) q r p"
    "sync_subscription_to_router uuid exec connect now q fc (v, s) = (res, v', s')"
  shows "(case connect r v of
       Some e \<Rightarrow> \<not> sr_success res \<and> v' = v \<and> s' = s
         \<and> sr_error res = Some (''Failed to connect to router '' @ rt_ip_address r @ '': '' @ exn_msg e)
     | None \<Rightarrow> subscriptions (saved s') = tbl_upd sub_id (sub_id q)
           (\<lambda>x. x\<lparr>sub_is_router_synced := sr_success res, sub_last_router_sync := Some now\<rparr>) (subscriptions (cur s))
         \<and> commands (saved s') = commands (cur s)
         \<and> (sr_error res = None \<or> \<not> sr_success res)
         \<and> (sub_status q \<noteq> SubActive \<and> \<not> disabling (sub_status q) \<longrightarrow> v' = v \<and> \<not> sr_success res))"
  using assms
  by (auto simp: direct_served_def sync_subscription_to_router_def Let_def row_defs
      split: option.splits if_splits prod.splits)

lemma ensure_existing_user:
  assumes "exec (user_path (user_type q)) ''get'' [] v = (Inr (Some us), v)"
    "find_row ''name'' (sub_username q) us \<noteq> None"
  shows "\<exists>w. ensure_user_on_router exec q p False v = (\<lparr>ar_success = True, ar_error = None\<rparr>, w)"
  using assms
  by (auto simp: ensure_user_on_router_def get_user_from_router_def rows_or_empty_def Let_def split: prod.splits)

text \<open>
   A user that exists on the router counts as synced whatever the device does with the
  update: even when the device rejects every \<open>set\<close> and \<open>add\<close>, so that the new profile, the new
  rate limit and the re-enabling are all lost, the synchronisation of an active subscription
  reports success and the subscription is marked as synced.
\<close>

theorem rejected_update_counts_as_synced:
  assumes "direct_served (cur s) q r p" "connect r v = None" "sub_status q = SubActive"
    "\<forall>path ps w. exec path ''set'' ps w = (Inl e, w)" "\<forall>path ps w. exec path ''add'' ps w = (Inl e, w)"
    "exec (user_path (user_type q)) ''get'' [] v = (Inr (Some us), v)"
    "find_row ''name'' (sub_username q) us \<noteq> None"
    "sync_subscription_to_router uuid exec connect now q False (v, s) = (res, v', s')"
  shows "sr_success res \<and> sr_error res = None
    \<and> subscriptions (saved s') = tbl_upd sub_id (sub_id q)
        (\<lambda>x. x\<lparr>sub_is_router_synced := True, sub_last_router_sync := Some now\<rparr>) (subscriptions (cur s))"
proof -
  obtain w where w: "ensure_user_on_router exec q p False v = (\<lparr>ar_success = True, ar_error = None\<rparr>, w)"
    using ensure_existing_user [of exec q v us p, OF assms(6,7)] by blast
  with assms(1,2,3,8) show ?thesis
    by (auto simp: direct_served_def sync_subscription_to_router_def Let_def row_defs
        split: option.splits if_splits prod.splits)
qed

section \<open>Witnesses\<close>

definition sync_db :: db where
  "sync_db = empty_db\<lparr>routers := [router0], plans := [plan0], subscriptions := [sub0]\<rparr>"

lemma sync_db_simps:
  "routers sync_db = [router0]" "plans sync_db = [plan0]" "subscriptions sync_db = [sub0]"
  "commands sync_db = []" "backups sync_db = []"
  by (simp_all add: sync_db_def empty_db_def)

lemma sync_db_served: "agent_served sync_db sub0"
  by (simp add: agent_served_def sync_db_simps table_simps sample_rows)

definition no_device :: "unit exec" where
  "no_device path method ps v = (Inl (Exn ''ExternalServiceError'' ''unreachable''), v)"

theorem agent_sync_queues_one_command_witness:
  "length (commands (cur (snd (snd (sync_subscription_to_router str_nat no_device (\<lambda>_ _. None) 5 sub0 False ((), fresh sync_db)))))) = 1"
proof -
  obtain res v' s' where st: "sync_subscription_to_router str_nat no_device (\<lambda>_ _. None) 5 sub0 False ((), fresh sync_db) = (res, v', s')"
    by (metis surj_pair)
  have "sub_status sub0 = SubActive" by (simp add: sub0_def)
  with agent_sync_queues_one_command [OF _ st] sync_db_served show ?thesis
    by (auto simp: st sync_db_simps)
qed

theorem sync_poll_report_round_trip_witness:
  "let (res, v1, s1) = sync_subscription_to_router str_nat no_device (\<lambda>_ _. None) 5 sub0 False ((), fresh sync_db);
       (resp, es, s2) = handle_poll 9 1 telemetry0 s1;
       (x, s3) = handle_report 11 1 (map (\<lambda>(cid, _). (cid, ''success'', [])) (pr_commands resp)) s2
   in subscriptions (saved s3) = [sub0\<lparr>sub_is_router_synced := True, sub_last_router_sync := Some 11\<rparr>]"
proof -
  obtain res v1 s1 where a: "sync_subscription_to_router str_nat no_device (\<lambda>_ _. None) 5 sub0 False ((), fresh sync_db) = (res, v1, s1)"
    by (metis surj_pair)
  obtain resp es s2 where b: "handle_poll 9 1 telemetry0 s1 = (resp, es, s2)" by (metis surj_pair)
  obtain x s3 where c: "handle_report 11 1 (map (\<lambda>(cid, _). (cid, ''success'', [])) (pr_commands resp)) s2 = (x, s3)"
    by (metis surj_pair)
  have h: "sub_status sub0 = SubActive" "sub_router_id sub0 = 1" "sub_id sub0 = 1" by (simp_all add: sub0_def)
  have "queue_inv str_nat sync_db" by (simp add: queue_inv_def sync_db_simps)
  with sync_poll_report_round_trip [OF _ _ inj_str_nat _ _ _ a, of 9 telemetry0 resp es s2 11 "[]" x s3]
    sync_db_served h b c
  have "subscriptions (saved s3) = tbl_upd sub_id 1
        (\<lambda>y. y\<lparr>sub_is_router_synced := True, sub_last_router_sync := Some 11\<rparr>) [sub0]"
    by (simp add: pending_for_def sync_db_simps timedelta_defs)
  then show ?thesis by (simp add: a b c tbl_upd_def h)
qed

theorem unsynced_pass_reaches_every_user_witness:
  "list_ex (sync_command_of sub0) (commands (cur (snd (snd
     (sync_all_unsynced_subscriptions str_nat no_device (\<lambda>_ _. None) 5 100 ((), fresh sync_db))))))"
proof -
  obtain res vs' where a: "sync_all_unsynced_subscriptions str_nat no_device (\<lambda>_ _. None) 5 100 ((), fresh sync_db) = (res, vs')"
    by (metis surj_pair)
  have "\<not> sub_is_router_synced sub0 \<and> sub_status sub0 = SubActive" by (simp add: sub0_def)
  with unsynced_pass_reaches_every_user [OF a, of sub0] sync_db_served show ?thesis
    by (simp add: a sync_db_simps)
qed

theorem unsynced_passes_accumulate_witness:
  "length (commands (cur (snd (((\<lambda>vs. snd (sync_all_unsynced_subscriptions str_nat no_device (\<lambda>_ _. None) 5 100 vs)) ^^ 3)
     ((), fresh sync_db))))) = 3"
proof -
  have "\<not> sub_is_router_synced sub0 \<and> sub_status sub0 = SubActive" by (simp add: sub0_def)
  with unsynced_passes_accumulate [where s = "fresh sync_db" and uuid = str_nat and exec = no_device
      and connect = "\<lambda>_ _. None" and now = 5 and limit = 100 and n = 3 and v = "()"] sync_db_served
  show ?thesis by (simp add: sync_db_simps)
qed

definition direct_db :: db where
  "direct_db = sync_db\<lparr>routers := [router0\<lparr>rt_agent_installed := False\<rparr>]\<rparr>"

lemma direct_db_served: "direct_served direct_db sub0 (router0\<lparr>rt_agent_installed := False\<rparr>) plan0"
  by (simp add: direct_served_def direct_db_def sync_db_simps table_simps sample_rows)

theorem direct_sync_records_outcome_witness:
  "subscriptions (saved (snd (snd (sync_subscription_to_router str_nat no_device (\<lambda>_ _. None) 5 sub0 False ((), fresh direct_db))))) =
     [sub0\<lparr>sub_is_router_synced := sr_success (fst (sync_subscription_to_router str_nat no_device (\<lambda>_ _. None) 5 sub0 False
        ((), fresh direct_db))), sub_last_router_sync := Some 5\<rparr>]"
proof -
  obtain res v' s' where a: "sync_subscription_to_router str_nat no_device (\<lambda>_ _. None) 5 sub0 False ((), fresh direct_db) = (res, v', s')"
    by (metis surj_pair)
  have "subscriptions direct_db = [sub0]" by (simp add: direct_db_def sync_db_simps)
  with direct_sync_records_outcome [OF _ a, of "router0\<lparr>rt_agent_installed := False\<rparr>" plan0] direct_db_served
  show ?thesis by (simp add: a tbl_upd_def)
qed

text \<open>A device that answers every read with the user and rejects every write.\<close>

definition read_only_device :: "unit exec" where
  "read_only_device path method ps v =
     (if method = ''get'' then (Inr (Some [[(''name'', ''joe''), (''.id'', ''*1'')]]), v)
      else (Inl (Exn ''ExternalServiceError'' ''rejected''), v))"

theorem rejected_update_counts_as_synced_witness:
  "sr_success (fst (sync_subscription_to_router str_nat read_only_device (\<lambda>_ _. None) 5 sub0 False ((), fresh direct_db)))"
proof -
  obtain res v' s' where a: "sync_subscription_to_router str_nat read_only_device (\<lambda>_ _. None) 5 sub0 False ((), fresh direct_db) = (res, v', s')"
    by (metis surj_pair)
  have "find_row ''name'' (sub_username sub0) [[(''name'', ''joe''), (''.id'', ''*1'')]] \<noteq> None"
    "sub_status sub0 = SubActive"
    by (simp_all add: find_row_def dict_get_def sub0_def)
  with rejected_update_counts_as_synced [OF _ _ _ _ _ _ _ a, of _ _ "Exn ''ExternalServiceError'' ''rejected''"
      "[[(''name'', ''joe''), (''.id'', ''*1'')]]"] direct_db_served
  show ?thesis by (simp add: a read_only_device_def)
qed

end
