(* ===== verification/Subscription_Service.thy ===== *)
theory Subscription_Service
  imports Router_Sync
begin

text \<open>
  \<open>SubscriptionService\<close> of \<open>src/app/modules/subscriptions/service.py\<close>: creating, changing, ending
  and renewing subscriptions, usage accounting and the queries. A change of status is
  committed, logged, and then synchronised to the router.

  The table of subscriptions has the constraints of its model: unique id, at most one
  subscription per user, router and type, existing user, plan and router, and usage counters
  that are 32-bit INTEGER columns. An operation that may break one is checked when it
  commits: the failed flush rolls the transaction undo and the exception goes to the caller.
\<close>

section \<open>Points in time with and without a time zone\<close>

text \<open>A timezone-aware value is kept as its UTC instant; normalising it drops the microseconds.\<close>

datatype py_datetime = Naive datetime | Aware datetime

definition normalize_datetime :: "py_datetime option \<Rightarrow> datetime option" where
  "normalize_datetime dt =
     (case dt of
        None \<Rightarrow> None
      | Some (Naive t) \<Rightarrow> Some t
      | Some (Aware t) \<Rightarrow> Some (t div 1000000 * 1000000))"

section \<open>The environment of the service\<close>

record 'dev sub_env =
  env_uuid :: "nat \<Rightarrow> string"
  env_exec :: "'dev exec"
  env_connect :: "router \<Rightarrow> 'dev \<Rightarrow> exn option"
  env_auto_sync_router :: bool

definition sync_to_router :: "'dev sub_env \<Rightarrow> datetime \<Rightarrow> subscription \<Rightarrow> 'dev \<times> dbs \<Rightarrow> 'dev \<times> dbs" where
  "sync_to_router env now q vs =
     (if \<not> env_auto_sync_router env then vs
      else snd (sync_subscription_to_router (env_uuid env) (env_exec env) (env_connect env) now q False vs))"

definition get_by_id :: "int \<Rightarrow> db \<Rightarrow> subscription option" where
  "get_by_id i d = tbl_get sub_id i (subscriptions d)"

definition log_subscription_action :: "int \<Rightarrow> string \<Rightarrow> string \<Rightarrow> int option \<Rightarrow> dbs \<Rightarrow> dbs" where
  "log_subscription_action i action details user_id s =
     commit (on_db (histories_update (\<lambda>t. t @ [\<lparr>sh_subscription_id = i, sh_action = action,
       sh_old_status = None, sh_new_status = None, sh_details = details, sh_changed_by = user_id,
       sh_ip_address = None\<rparr>])) s)"

section \<open>Constraints\<close>

definition sub_slot :: "subscription \<Rightarrow> int \<times> int \<times> SubscriptionType" where
  "sub_slot q = (sub_user_id q, sub_router_id q, sub_type q)"

definition int4 :: "int \<Rightarrow> bool" where
  "int4 n \<longleftrightarrow> - (2 ^ 31) \<le> n \<and> n < 2 ^ 31"

definition counters_fit :: "subscription \<Rightarrow> bool" where
  "counters_fit q \<longleftrightarrow> int4 (sub_bytes_uploaded q) \<and> int4 (sub_bytes_downloaded q) \<and>
     int4 (sub_total_bytes_used q) \<and> int4 (sub_session_count q)"

definition references_exist :: "db \<Rightarrow> subscription \<Rightarrow> bool" where
  "references_exist d q \<longleftrightarrow> sub_user_id q \<in> usr_id ` set (users d) \<and>
     sub_plan_id q \<in> plan_id ` set (plans d) \<and> sub_router_id q \<in> rt_id ` set (routers d)"

definition commit_subscriptions :: "dbs \<Rightarrow> (exn + unit) \<times> dbs" where
  "commit_subscriptions s =
     (let qs = subscriptions (cur s)
      in if \<not> list_all counters_fit qs
         then (Inl (Exn ''DBAPIError'' ''value out of int32 range''), rollback s)
         else if \<not> distinct (map sub_slot qs)
         then (Inl (IntegrityError ''duplicate key value violates unique constraint uq_user_router_type''), rollback s)
         else if \<not> list_all (references_exist (cur s)) qs
         then (Inl (IntegrityError ''insert or update on table subscriptions violates foreign key constraint''), rollback s)
         else (Inr (), commit s))"

section \<open>Operations\<close>

definition new_subscription ::
    "datetime \<Rightarrow> int \<Rightarrow> int \<Rightarrow> int \<Rightarrow> int \<Rightarrow> SubscriptionType \<Rightarrow> string \<Rightarrow> string \<Rightarrow> datetime \<Rightarrow> datetime
     \<Rightarrow> bool \<Rightarrow> int option \<Rightarrow> string option \<Rightarrow> subscription" where
  "new_subscription now i uid pid rid subscription_type username password start_date end_date
       is_auto_renewal created_by notes =
     \<lparr>sub_id = i, sub_organization_id = None, sub_user_id = uid, sub_plan_id = pid,
      sub_router_id = rid, sub_type = subscription_type, sub_status = SubPending,
      sub_username = username, sub_password = password, sub_start_date = start_date,
      sub_end_date = Some end_date, sub_is_auto_renewal = is_auto_renewal, sub_created_at = now,
      sub_bytes_uploaded = 0, sub_bytes_downloaded = 0, sub_total_bytes_used = 0, sub_session_count = 0,
      sub_last_activity = None, sub_router_config = None, sub_is_router_synced = False,
      sub_last_router_sync = None, sub_notes = notes, sub_created_by = created_by\<rparr>"

definition create_subscription ::
    "datetime \<Rightarrow> int \<Rightarrow> int \<Rightarrow> int \<Rightarrow> SubscriptionType \<Rightarrow> string \<Rightarrow> string \<Rightarrow> py_datetime \<Rightarrow> py_datetime
     \<Rightarrow> bool \<Rightarrow> int option \<Rightarrow> string option \<Rightarrow> dbs \<Rightarrow> (exn + subscription) \<times> dbs" where
  "create_subscription now uid pid rid subscription_type username password start_date end_date
       is_auto_renewal created_by notes s =
     (case tbl_get usr_id uid (users (cur s)) of
        None \<Rightarrow> (Inl (ValueError ''User not found''), s)
      | Some usr \<Rightarrow>
          if tbl_get plan_id pid (plans (cur s)) = None then (Inl (ValueError ''Service plan not found''), s)
          else if tbl_get rt_id rid (routers (cur s)) = None then (Inl (ValueError ''Router not found''), s)
          else
            case scalar_one_or_none (filter (\<lambda>q. sub_user_id q = uid \<and> sub_router_id q = rid \<and>
                   sub_type q = subscription_type) (subscriptions (cur s))) of
              Inl e \<Rightarrow> (Inl e, s)
            | Inr (Some _) \<Rightarrow> (Inl (ValueError ''User already has a subscription on this router''), s)
            | Inr None \<Rightarrow>
                let i = subscription_seq (cur s);
                    q = new_subscription now i uid pid rid subscription_type username password
                          (the (normalize_datetime (Some start_date))) (the (normalize_datetime (Some end_date)))
                          is_auto_renewal created_by notes;
                    s1 = commit (on_db (\<lambda>d. (add_subscription q d)\<lparr>subscription_seq := i + 1\<rparr>) s)
                in (Inr q, log_subscription_action i ''created''
                      (''Subscription created for user '' @ usr_username usr) created_by s1))"

text \<open>
  The items of \<open>update_data\<close>: a key that the model has, with its value or \<open>None\<close>, or a key
  that it does not have.
\<close>

datatype sub_field =
  SetPlan "int option" | SetRouter "int option" | SetType "SubscriptionType option"
| SetUsername "string option" | SetPassword "string option" | SetStartDate "datetime option"
| SetEndDate "datetime option" | SetAutoRenewal "bool option" | SetNotes "string option"
| SetStatus "SubscriptionStatus option" | SetSynced "bool option" | SetUnknown string

fun set_field :: "sub_field \<Rightarrow> subscription \<Rightarrow> subscription" where
  "set_field (SetPlan (Some v)) q = q\<lparr>sub_plan_id := v\<rparr>"
| "set_field (SetRouter (Some v)) q = q\<lparr>sub_router_id := v\<rparr>"
| "set_field (SetType (Some v)) q = q\<lparr>sub_type := v\<rparr>"
| "set_field (SetUsername (Some v)) q = q\<lparr>sub_username := v\<rparr>"
| "set_field (SetPassword (Some v)) q = q\<lparr>sub_password := v\<rparr>"
| "set_field (SetStartDate (Some v)) q = q\<lparr>sub_start_date := v\<rparr>"
| "set_field (SetEndDate (Some v)) q = q\<lparr>sub_end_date := Some v\<rparr>"
| "set_field (SetAutoRenewal (Some v)) q = q\<lparr>sub_is_auto_renewal := v\<rparr>"
| "set_field (SetNotes (Some v)) q = q\<lparr>sub_notes := Some v\<rparr>"
| "set_field (SetStatus (Some v)) q = q\<lparr>sub_status := v\<rparr>"
| "set_field (SetSynced (Some v)) q = q\<lparr>sub_is_router_synced := v\<rparr>"
| "set_field _ q = q"

fun is_set_synced :: "sub_field \<Rightarrow> bool" where
  "is_set_synced (SetSynced _) = True"
| "is_set_synced _ = False"

fun changes_status :: "SubscriptionStatus \<Rightarrow> sub_field \<Rightarrow> bool" where
  "changes_status old (SetStatus v) \<longleftrightarrow> v \<noteq> Some old"
| "changes_status old _ \<longleftrightarrow> False"

definition update_subscription ::
    "'dev sub_env \<Rightarrow> datetime \<Rightarrow> int \<Rightarrow> sub_field list \<Rightarrow> int option \<Rightarrow> 'dev \<times> dbs
     \<Rightarrow> (exn + subscription option) \<times> 'dev \<times> dbs" where
  "update_subscription env now i update_data updated_by vs =
     (let (v, s) = vs
      in case get_by_id i (cur s) of
           None \<Rightarrow> (Inr None, v, s)
         | Some q \<Rightarrow>
             let old = sub_status q;
                 fields = (if list_ex (changes_status old) update_data
                           then filter (\<lambda>f. \<not> is_set_synced f) update_data @ [SetSynced (Some False)]
                           else update_data);
                 q1 = fold set_field fields q
             in case commit_subscriptions (on_db (upd_subscription i (\<lambda>_. q1)) s) of
                  (Inl e, s1) \<Rightarrow> (Inl e, v, s1)
                | (Inr _, s1) \<Rightarrow>
                    if sub_status q1 \<noteq> old then
                      let s2 = log_subscription_action i ''status_changed''
                            (''Status changed from '' @ subscription_status_value old @ '' to '' @
                             subscription_status_value (sub_status q1)) updated_by s1;
                          (v3, s3) = sync_to_router env now q1 (v, s2)
                      in (Inr (get_by_id i (cur s3)), v3, s3)
                    else (Inr (Some q1), v, s1))"

text \<open>The body that activating, suspending and cancelling share.\<close>

definition set_status ::
    "'dev sub_env \<Rightarrow> datetime \<Rightarrow> int \<Rightarrow> SubscriptionStatus \<Rightarrow> string \<Rightarrow> string \<Rightarrow> int option \<Rightarrow> 'dev \<times> dbs
     \<Rightarrow> subscription option \<times> 'dev \<times> dbs" where
  "set_status env now i st action details by_user vs =
     (let (v, s) = vs
      in case get_by_id i (cur s) of
           None \<Rightarrow> (None, v, s)
         | Some q \<Rightarrow>
             let f = (\<lambda>x. x\<lparr>sub_status := st, sub_is_router_synced := False\<rparr>);
                 s1 = commit (on_db (upd_subscription i f) s);
                 s2 = log_subscription_action i action details by_user s1;
                 (v3, s3) = sync_to_router env now (f q) (v, s2)
             in (get_by_id i (cur s3), v3, s3))"

definition activate_subscription ::
    "'dev sub_env \<Rightarrow> datetime \<Rightarrow> int \<Rightarrow> int option \<Rightarrow> 'dev \<times> dbs \<Rightarrow> subscription option \<times> 'dev \<times> dbs" where
  "activate_subscription env now i activated_by =
     set_status env now i SubActive ''activated'' ''Subscription activated'' activated_by"

definition suspend_subscription ::
    "'dev sub_env \<Rightarrow> datetime \<Rightarrow> int \<Rightarrow> int option \<Rightarrow> string option \<Rightarrow> 'dev \<times> dbs
     \<Rightarrow> subscription option \<times> 'dev \<times> dbs" where
  "suspend_subscription env now i suspended_by reason =
     set_status env now i SubSuspended ''suspended''
       (''Subscription suspended. Reason: '' @ or_str reason ''No reason provided'') suspended_by"

definition cancel_subscription ::
    "'dev sub_env \<Rightarrow> datetime \<Rightarrow> int \<Rightarrow> int option \<Rightarrow> string option \<Rightarrow> 'dev \<times> dbs
     \<Rightarrow> subscription option \<times> 'dev \<times> dbs" where
  "cancel_subscription env now i cancelled_by reason =
     set_status env now i SubCancelled ''cancelled''
       (''Subscription cancelled. Reason: '' @ or_str reason ''No reason provided'') cancelled_by"

definition delete_subscription :: "int \<Rightarrow> int option \<Rightarrow> dbs \<Rightarrow> bool \<times> dbs" where
  "delete_subscription i deleted_by s =
     (case get_by_id i (cur s) of
        None \<Rightarrow> (False, s)
      | Some q \<Rightarrow>
          let s1 = commit (on_db (upd_subscription i (\<lambda>x. x\<lparr>sub_status := SubCancelled\<rparr>)) s)
          in (True, log_subscription_action i ''deleted'' ''Subscription deleted'' deleted_by s1))"

text \<open>
  The rendering of the two dates in the log line is the parameter \<open>show_date\<close> (\<open>str\<close> of a
  \<open>datetime\<close>).
\<close>

definition renew_subscription ::
    "'dev sub_env \<Rightarrow> (datetime option \<Rightarrow> string) \<Rightarrow> datetime \<Rightarrow> int \<Rightarrow> datetime \<Rightarrow> int option \<Rightarrow> 'dev \<times> dbs
     \<Rightarrow> subscription option \<times> 'dev \<times> dbs" where
  "renew_subscription env show_date now i new_end_date renewed_by vs =
     (let (v, s) = vs
      in case get_by_id i (cur s) of
           None \<Rightarrow> (None, v, s)
         | Some q \<Rightarrow>
             let f = (\<lambda>x. x\<lparr>sub_end_date := Some new_end_date, sub_status := SubActive, sub_is_router_synced := False\<rparr>);
                 s1 = commit (on_db (upd_subscription i f) s);
                 s2 = log_subscription_action i ''renewed''
                   (''Subscription renewed from '' @ show_date (sub_end_date q) @ '' to '' @ show_date (Some new_end_date))
                   renewed_by s1;
                 (v3, s3) = (if sub_status q \<noteq> SubActive then sync_to_router env now (f q) (v, s2) else (v, s2))
             in (get_by_id i (cur s3), v3, s3))"

definition update_usage ::
    "datetime \<Rightarrow> int \<Rightarrow> int \<Rightarrow> int \<Rightarrow> int \<Rightarrow> string option \<Rightarrow> string option \<Rightarrow> dbs \<Rightarrow> (exn + bool) \<times> dbs" where
  "update_usage now i bytes_uploaded bytes_downloaded session_duration ip_address mac_address s =
     (case get_by_id i (cur s) of
        None \<Rightarrow> (Inr False, s)
      | Some q \<Rightarrow>
          let log = \<lparr>ul_subscription_id = i, ul_log_date = now, ul_bytes_uploaded = bytes_uploaded,
                ul_bytes_downloaded = bytes_downloaded, ul_session_duration = session_duration,
                ul_ip_address = ip_address, ul_mac_address = mac_address\<rparr>;
              f = (\<lambda>x. x\<lparr>sub_bytes_uploaded := sub_bytes_uploaded x + bytes_uploaded,
                sub_bytes_downloaded := sub_bytes_downloaded x + bytes_downloaded,
                sub_total_bytes_used := sub_total_bytes_used x + (bytes_uploaded + bytes_downloaded),
                sub_session_count := sub_session_count x + 1, sub_last_activity := Some now\<rparr>);
              s1 = on_db (\<lambda>d. usage_logs_update (\<lambda>t. t @ [log]) (upd_subscription i f d)) s
          in if \<not> (int4 bytes_uploaded \<and> int4 bytes_downloaded \<and> int4 session_duration)
             then (Inl (Exn ''DBAPIError'' ''value out of int32 range''), rollback s1)
             else andthen (commit_subscriptions s1) (\<lambda>_ s2. (Inr True, s2)))"

section \<open>Queries\<close>

definition get_user_subscriptions :: "int \<Rightarrow> bool \<Rightarrow> db \<Rightarrow> subscription list" where
  "get_user_subscriptions uid active_only d =
     order_by (\<lambda>q. - sub_created_at q)
       (filter (\<lambda>q. sub_user_id q = uid \<and> (active_only \<longrightarrow> sub_status q = SubActive)) (subscriptions d))"

definition get_expired_subscriptions :: "datetime \<Rightarrow> db \<Rightarrow> subscription list" where
  "get_expired_subscriptions now d =
     filter (\<lambda>q. (case sub_end_date q of None \<Rightarrow> False | Some e \<Rightarrow> e < now) \<and>
        (sub_status q = SubActive \<or> sub_status q = SubPending)) (subscriptions d)"

definition get_expiring_subscriptions :: "datetime \<Rightarrow> int \<Rightarrow> db \<Rightarrow> subscription list" where
  "get_expiring_subscriptions now n d =
     filter (\<lambda>q. (case sub_end_date q of None \<Rightarrow> False | Some e \<Rightarrow> e \<le> now + days n \<and> e > now) \<and>
        sub_status q = SubActive) (subscriptions d)"

definition get_usage_logs :: "int \<Rightarrow> nat \<Rightarrow> db \<Rightarrow> usage_log list" where
  "get_usage_logs i limit d =
     take limit (order_by (\<lambda>l. - ul_log_date l) (filter (\<lambda>l. ul_subscription_id l = i) (usage_logs d)))"

text \<open>The model has no column \<open>created_at\<close>: building the ORDER BY raises before any query is sent.\<close>

definition get_subscription_history :: "int \<Rightarrow> db \<Rightarrow> exn + subscription_history list" where
  "get_subscription_history i d =
     Inl (Exn ''AttributeError'' ''type object SubscriptionHistory has no attribute created_at'')"

definition sub_is_active :: "datetime \<Rightarrow> subscription \<Rightarrow> bool" where
  "sub_is_active now q \<longleftrightarrow> sub_status q = SubActive \<and> (case sub_end_date q of None \<Rightarrow> False | Some e \<Rightarrow> e > now)"

definition sub_is_expired :: "datetime \<Rightarrow> subscription \<Rightarrow> bool" where
  "sub_is_expired now q \<longleftrightarrow> (case sub_end_date q of None \<Rightarrow> False | Some e \<Rightarrow> e \<le> now)"

record subscription_stats =
  st_subscription_id :: int
  st_username :: string
  st_status :: string
  st_total_bytes_used :: int
  st_total_data_used_gb :: rat
  st_session_count :: int
  st_monthly_uploaded :: int
  st_monthly_downloaded :: int
  st_last_activity :: "datetime option"
  st_start_date :: datetime
  st_end_date :: "datetime option"
  st_is_active :: bool
  st_is_expired :: bool

definition get_subscription_stats :: "datetime \<Rightarrow> int \<Rightarrow> db \<Rightarrow> subscription_stats option" where
  "get_subscription_stats now i d =
     (case get_by_id i d of
        None \<Rightarrow> None
      | Some q \<Rightarrow>
          let logs = filter (\<lambda>l. ul_subscription_id l = i \<and> ul_log_date l \<ge> now - days 30) (usage_logs d)
          in Some \<lparr>st_subscription_id = i, st_username = sub_username q,
               st_status = subscription_status_value (sub_status q),
               st_total_bytes_used = sub_total_bytes_used q,
               st_total_data_used_gb = of_int (sub_total_bytes_used q) / of_int (1024 ^ 3),
               st_session_count = sub_session_count q,
               st_monthly_uploaded = sum_list (map ul_bytes_uploaded logs),
               st_monthly_downloaded = sum_list (map ul_bytes_downloaded logs),
               st_last_activity = sub_last_activity q, st_start_date = sub_start_date q,
               st_end_date = sub_end_date q, st_is_active = sub_is_active now q,
               st_is_expired = sub_is_expired now q\<rparr>)"

section \<open>The invariant of the table\<close>

text \<open>
  The invariant speaks about the columns that no synchronisation touches; \<open>sub_key\<close> collects
  them. The usage counters of a subscription are the sums over its usage log.
\<close>

type_synonym sub_cols = "int \<times> (int \<times> int \<times> SubscriptionType) \<times> int \<times> int \<times> int \<times> int \<times> int"

definition sub_key :: "subscription \<Rightarrow> sub_cols" where
  "sub_key q = (sub_id q, sub_slot q, sub_plan_id q, sub_bytes_uploaded q, sub_bytes_downloaded q,
     sub_total_bytes_used q, sub_session_count q)"

definition logs_of :: "int \<Rightarrow> db \<Rightarrow> usage_log list" where
  "logs_of i d = filter (\<lambda>l. ul_subscription_id l = i) (usage_logs d)"

fun key_ok :: "db \<Rightarrow> sub_cols \<Rightarrow> bool" where
  "key_ok d (i, (uid, rid, ty), pid, up, down, tot, cnt) \<longleftrightarrow>
     i < subscription_seq d \<and> uid \<in> usr_id ` set (users d) \<and> pid \<in> plan_id ` set (plans d) \<and>
     rid \<in> rt_id ` set (routers d) \<and> int4 up \<and> int4 down \<and> int4 tot \<and> int4 cnt \<and>
     up = sum_list (map ul_bytes_uploaded (logs_of i d)) \<and>
     down = sum_list (map ul_bytes_downloaded (logs_of i d)) \<and>
     tot = up + down \<and> cnt = int (length (logs_of i d))"

definition subs_inv :: "db \<Rightarrow> bool" where
  "subs_inv d \<longleftrightarrow>
     (let ks = map sub_key (subscriptions d)
      in distinct (map fst ks) \<and> distinct (map (fst \<circ> snd) ks) \<and> list_all (key_ok d) ks \<and>
         list_all (\<lambda>l. ul_subscription_id l < subscription_seq d) (usage_logs d))"

definition same_tables :: "db \<Rightarrow> db \<Rightarrow> bool" where
  "same_tables d d' \<longleftrightarrow> users d' = users d \<and> plans d' = plans d \<and> routers d' = routers d \<and>
     usage_logs d' = usage_logs d \<and> subscription_seq d' = subscription_seq d"

lemma key_ok_cong: "same_tables d d' \<Longrightarrow> key_ok d' k = key_ok d k"
  by (cases "(d, k)" rule: key_ok.cases) (simp add: same_tables_def logs_of_def)

lemma subs_inv_cong:
  assumes "subs_inv d" "same_tables d d'" "map sub_key (subscriptions d') = map sub_key (subscriptions d)"
  shows "subs_inv d'"
proof -
  have "key_ok d' = key_ok d" using key_ok_cong [OF assms(2)] by blast
  moreover have "usage_logs d' = usage_logs d" "subscription_seq d' = subscription_seq d"
    using assms(2) by (simp_all add: same_tables_def)
  ultimately show ?thesis using assms(1,3) by (simp add: subs_inv_def Let_def del: map_map)
qed

lemma subs_inv_facts:
  assumes "subs_inv d"
  shows "uniq sub_id (subscriptions d)" "distinct (map sub_slot (subscriptions d))"
    "\<And>q. q \<in> set (subscriptions d) \<Longrightarrow> key_ok d (sub_key q)"
    "\<And>l. l \<in> set (usage_logs d) \<Longrightarrow> ul_subscription_id l < subscription_seq d"
  using assms by (auto simp: subs_inv_def uniq_def list_all_iff Let_def sub_key_def comp_def)

lemma subs_inv_upd:
  assumes "subs_inv d" "\<And>q. sub_key (f q) = sub_key q"
  shows "subs_inv (upd_subscription i f d)"
  using assms
  by (intro subs_inv_cong [OF assms(1)])
    (simp_all add: same_tables_def row_defs tbl_upd_def comp_def if_distrib cong: if_cong)

lemma subs_inv_histories: "subs_inv d \<Longrightarrow> subs_inv (histories_update f d)"
  by (rule subs_inv_cong) (simp_all add: same_tables_def)

text \<open>A synchronisation keeps every column of \<^const>\<open>sub_key\<close> and ends with nothing pending.\<close>

lemma sync_keeps_accounts:
  assumes "sync_subscription_to_router uuid exec connect now q fc (v, s) = (res, v', s')"
  shows "same_tables (cur s) (cur s')" "map sub_key (subscriptions (cur s')) = map sub_key (subscriptions (cur s))"
    "clean s \<Longrightarrow> clean s'"
proof -
  have a: "same_tables (cur s) (cur s1) \<and> subscriptions (cur s1) = subscriptions (cur s) \<and> saved s1 = cur s1"
    if "sync_via_agent_queue uuid now q r p fc s = (x, s1)" for r p x s1
    using that by (auto simp: sync_via_agent_queue_def queue_command_def Let_def row_defs same_tables_def
        split: if_splits)
  have k: "map sub_key (tbl_upd sub_id i (\<lambda>x. x\<lparr>sub_is_router_synced := b, sub_last_router_sync := t\<rparr>) qs) = map sub_key qs"
    for i b t qs by (simp add: tbl_upd_def sub_key_def sub_slot_def)
  from assms a show "same_tables (cur s) (cur s')"
    by (fastforce simp: sync_subscription_to_router_def Let_def row_defs same_tables_def
        split: option.splits if_splits prod.splits)
  from assms a show "map sub_key (subscriptions (cur s')) = map sub_key (subscriptions (cur s))"
    by (fastforce simp: sync_subscription_to_router_def Let_def row_defs k
        split: option.splits if_splits prod.splits)
  from assms a show "clean s'" if "clean s"
    using that by (fastforce simp: sync_subscription_to_router_def Let_def clean_def
        split: option.splits if_splits prod.splits)
qed

text \<open>A session between two requests: nothing pending, and the invariant holds.\<close>

definition subs_ok :: "dbs \<Rightarrow> bool" where
  "subs_ok s \<longleftrightarrow> clean s \<and> subs_inv (cur s)"

lemma subs_ok_commit: "subs_inv (cur s) \<Longrightarrow> subs_ok (commit s)"
  by (simp add: subs_ok_def)

lemma subs_ok_log: "subs_inv (cur s) \<Longrightarrow> subs_ok (log_subscription_action i a d u s)"
  by (simp add: log_subscription_action_def subs_ok_commit subs_inv_histories)

lemma subs_ok_sync: "subs_ok s \<Longrightarrow> subs_ok (snd (sync_to_router env now q (v, s)))"
proof (cases "env_auto_sync_router env")
  case True
  assume s: "subs_ok s"
  obtain res v' s' where st: "sync_subscription_to_router (env_uuid env) (env_exec env) (env_connect env) now q False (v, s) = (res, v', s')"
    by (metis surj_pair)
  from sync_keeps_accounts [OF st] s show ?thesis
    using subs_inv_cong by (auto simp: sync_to_router_def True st subs_ok_def)
qed (simp add: sync_to_router_def)

lemma set_status_ok:
  assumes "subs_ok s"
  shows "subs_ok (snd (snd (set_status env now i st a dt u (v, s))))"
proof (cases "get_by_id i (cur s)")
  case (Some q)
  let ?f = "\<lambda>x. x\<lparr>sub_status := st, sub_is_router_synced := False\<rparr>"
  have "subs_inv (upd_subscription i ?f (cur s))"
    using assms by (intro subs_inv_upd) (simp_all add: subs_ok_def sub_key_def sub_slot_def)
  then have "subs_ok (log_subscription_action i a dt u (commit (on_db (upd_subscription i ?f) s)))"
    by (intro subs_ok_log) simp
  from subs_ok_sync [OF this] Some show ?thesis
    by (simp add: set_status_def Let_def split_beta)
qed (use assms in \<open>simp add: set_status_def\<close>)

lemma renew_ok:
  assumes "subs_ok s"
  shows "subs_ok (snd (snd (renew_subscription env sh now i e u (v, s))))"
proof (cases "get_by_id i (cur s)")
  case (Some q)
  let ?f = "\<lambda>x. x\<lparr>sub_end_date := Some e, sub_status := SubActive, sub_is_router_synced := False\<rparr>"
  have "subs_inv (upd_subscription i ?f (cur s))"
    using assms by (intro subs_inv_upd) (simp_all add: subs_ok_def sub_key_def sub_slot_def)
  then have l: "subs_ok (log_subscription_action i a dt u (commit (on_db (upd_subscription i ?f) s)))" for a dt
    by (intro subs_ok_log) simp
  show ?thesis
  proof (cases "sub_status q = SubActive")
    case True
    with l Some show ?thesis by (simp add: renew_subscription_def Let_def)
  next
    case False
    with Some show ?thesis by (simp add: renew_subscription_def Let_def split_beta subs_ok_sync l)
  qed
qed (use assms in \<open>simp add: renew_subscription_def\<close>)

lemma delete_ok: "subs_ok s \<Longrightarrow> subs_ok (snd (delete_subscription i u s))"
  by (auto simp: delete_subscription_def subs_ok_def sub_key_def sub_slot_def Let_def
      intro!: subs_ok_log [unfolded subs_ok_def] subs_inv_upd split: option.splits)

lemma create_ok:
  assumes "subs_ok s"
  shows "subs_ok (snd (create_subscription now uid pid rid ty un pw sd ed ar cb nt s))"
proof -
  obtain x s' where c: "create_subscription now uid pid rid ty un pw sd ed ar cb nt s = (x, s')" by fastforce
  show ?thesis
  proof (cases x)
    case (Inl e)
    then have "s' = s" using c by (auto simp: create_subscription_def Let_def split: option.splits sum.splits if_splits)
    with assms c show ?thesis by simp
  next
    case (Inr q)
    let ?i = "subscription_seq (cur s)"
    have q: "q = new_subscription now ?i uid pid rid ty un pw (the (normalize_datetime (Some sd)))
        (the (normalize_datetime (Some ed))) ar cb nt"
      and none: "filter (\<lambda>q. sub_user_id q = uid \<and> sub_router_id q = rid \<and> sub_type q = ty) (subscriptions (cur s)) = []"
      and ex: "uid \<in> usr_id ` set (users (cur s))" "pid \<in> plan_id ` set (plans (cur s))" "rid \<in> rt_id ` set (routers (cur s))"
      and s': "\<exists>a d. s' = log_subscription_action ?i a d cb
        (commit (on_db (\<lambda>d. (add_subscription q d)\<lparr>subscription_seq := ?i + 1\<rparr>) s))"
      using c Inr
      by (auto simp: create_subscription_def Let_def scalar_one_or_none_None tbl_get_None image_iff
          split: option.splits sum.splits if_splits)
    let ?d = "(add_subscription q (cur s))\<lparr>subscription_seq := ?i + 1\<rparr>"
    have inv: "subs_inv (cur s)" using assms by (simp add: subs_ok_def)
    note f = subs_inv_facts [OF inv]
    have ids: "sub_id r < ?i" if "r \<in> set (subscriptions (cur s))" for r
      using f(3) [OF that] by (cases "sub_slot r") (simp add: sub_key_def)
    have logs: "logs_of j ?d = logs_of j (cur s)" for j by (simp add: logs_of_def row_defs)
    have old: "key_ok ?d (sub_key r)" if "r \<in> set (subscriptions (cur s))" for r
      using f(3) [OF that] logs by (cases "sub_slot r") (auto simp: sub_key_def row_defs)
    have "logs_of ?i (cur s) = []" using f(4) by (force simp: logs_of_def filter_empty_conv)
    then have new: "key_ok ?d (sub_key q)"
      using ex by (simp add: q new_subscription_def sub_key_def sub_slot_def logs_of_def row_defs int4_def)
    have "subs_inv ?d"
      unfolding subs_inv_def Let_def
    proof (intro conjI)
      show "distinct (map fst (map sub_key (subscriptions ?d)))"
        using f(1) ids by (force simp: row_defs q new_subscription_def sub_key_def uniq_def comp_def)
      have "sub_slot r \<noteq> (uid, rid, ty)" if "r \<in> set (subscriptions (cur s))" for r
        using none that by (auto simp: filter_empty_conv sub_slot_def)
      moreover have "sub_slot q = (uid, rid, ty)" by (simp add: q new_subscription_def sub_slot_def)
      ultimately show "distinct (map (fst \<circ> snd) (map sub_key (subscriptions ?d)))"
        using f(2) by (fastforce simp: row_defs sub_key_def comp_def)
      show "list_all (key_ok ?d) (map sub_key (subscriptions ?d))"
        using old new by (simp add: list_all_iff row_defs)
      show "list_all (\<lambda>l. ul_subscription_id l < subscription_seq ?d) (usage_logs ?d)"
        using f(4) by (force simp: list_all_iff row_defs)
    qed
    then show ?thesis using s' c subs_ok_log by auto
  qed
qed

lemma set_field_keeps:
  "sub_id (set_field f q) = sub_id q" "sub_bytes_uploaded (set_field f q) = sub_bytes_uploaded q"
  "sub_bytes_downloaded (set_field f q) = sub_bytes_downloaded q"
  "sub_total_bytes_used (set_field f q) = sub_total_bytes_used q"
  "sub_session_count (set_field f q) = sub_session_count q"
  "sub_user_id (set_field f q) = sub_user_id q"
  by (cases "(f, q)" rule: set_field.cases; simp)+

lemma fold_set_field_keeps:
  "sub_id (fold set_field fs q) = sub_id q" "sub_bytes_uploaded (fold set_field fs q) = sub_bytes_uploaded q"
  "sub_bytes_downloaded (fold set_field fs q) = sub_bytes_downloaded q"
  "sub_total_bytes_used (fold set_field fs q) = sub_total_bytes_used q"
  "sub_session_count (fold set_field fs q) = sub_session_count q"
  by (induction fs arbitrary: q) (simp_all add: set_field_keeps)

lemma commit_subscriptions_cases:
  assumes "commit_subscriptions s = (x, s')"
  obtains e where "x = Inl e" "s' = rollback s"
  | "x = Inr ()" "s' = commit s" "distinct (map sub_slot (subscriptions (cur s)))"
    "list_all counters_fit (subscriptions (cur s))" "list_all (references_exist (cur s)) (subscriptions (cur s))"
  using assms by (auto simp: commit_subscriptions_def Let_def split: if_splits)

text \<open>What the check at commit adds to what the operation itself keeps.\<close>

lemma subs_inv_checked:
  assumes "uniq sub_id (subscriptions d)" "distinct (map sub_slot (subscriptions d))"
    "list_all counters_fit (subscriptions d)" "list_all (references_exist d) (subscriptions d)"
    "\<And>q. q \<in> set (subscriptions d) \<Longrightarrow> sub_id q < subscription_seq d
       \<and> sub_bytes_uploaded q = sum_list (map ul_bytes_uploaded (logs_of (sub_id q) d))
       \<and> sub_bytes_downloaded q = sum_list (map ul_bytes_downloaded (logs_of (sub_id q) d))
       \<and> sub_total_bytes_used q = sub_bytes_uploaded q + sub_bytes_downloaded q
       \<and> sub_session_count q = int (length (logs_of (sub_id q) d))"
    "list_all (\<lambda>l. ul_subscription_id l < subscription_seq d) (usage_logs d)"
  shows "subs_inv d"
proof -
  have "key_ok d (sub_key q)" if "q \<in> set (subscriptions d)" for q
    using assms(3,4) assms(5) [OF that] that
    by (auto simp: sub_key_def sub_slot_def counters_fit_def references_exist_def list_all_iff)
  then show ?thesis
    using assms(1,2,6) by (auto simp: subs_inv_def Let_def list_all_iff uniq_def sub_key_def comp_def)
qed

lemma subs_inv_usage:
  assumes "subs_inv d" "q \<in> set (subscriptions d)"
  shows "sub_id q < subscription_seq d
       \<and> sub_bytes_uploaded q = sum_list (map ul_bytes_uploaded (logs_of (sub_id q) d))
       \<and> sub_bytes_downloaded q = sum_list (map ul_bytes_downloaded (logs_of (sub_id q) d))
       \<and> sub_total_bytes_used q = sub_bytes_uploaded q + sub_bytes_downloaded q
       \<and> sub_session_count q = int (length (logs_of (sub_id q) d))"
  using subs_inv_facts(3) [OF assms] by (cases "sub_slot q") (simp add: sub_key_def)

lemma update_checked:
  assumes "subs_ok s" "get_by_id i (cur s) = Some q"
    "commit_subscriptions (on_db (upd_subscription i (\<lambda>_. fold set_field fs q)) s) = (x, s')"
  shows "subs_ok s'"
  using assms(3)
proof (cases rule: commit_subscriptions_cases)
  case (1 e)
  then show ?thesis using assms(1) by (simp add: subs_ok_def clean_def)
next
  case 2
  let ?q1 = "fold set_field fs q"
  let ?d = "upd_subscription i (\<lambda>_. ?q1) (cur s)"
  have inv: "subs_inv (cur s)" using assms(1) by (simp add: subs_ok_def)
  have q: "q \<in> set (subscriptions (cur s))" "sub_id q = i"
    using assms(2) by (auto simp: get_by_id_def)
  have row: "r = ?q1 \<or> r \<in> set (subscriptions (cur s))" if "r \<in> set (subscriptions ?d)" for r
    using that by (auto simp: row_defs in_tbl_upd split: if_splits)
  have ids: "map sub_id (subscriptions ?d) = map sub_id (subscriptions (cur s))"
    using q(2) by (auto simp: row_defs tbl_upd_def fold_set_field_keeps)
  have "subs_inv ?d"
  proof (rule subs_inv_checked)
    show "uniq sub_id (subscriptions ?d)" using subs_inv_facts(1) [OF inv] unfolding uniq_def ids .
    show "list_all (\<lambda>l. ul_subscription_id l < subscription_seq ?d) (usage_logs ?d)"
      using subs_inv_facts(4) [OF inv] by (simp add: row_defs list_all_iff)
    fix r assume "r \<in> set (subscriptions ?d)"
    from row [OF this] subs_inv_usage [OF inv] q(1)
    show "sub_id r < subscription_seq ?d
       \<and> sub_bytes_uploaded r = sum_list (map ul_bytes_uploaded (logs_of (sub_id r) ?d))
       \<and> sub_bytes_downloaded r = sum_list (map ul_bytes_downloaded (logs_of (sub_id r) ?d))
       \<and> sub_total_bytes_used r = sub_bytes_uploaded r + sub_bytes_downloaded r
       \<and> sub_session_count r = int (length (logs_of (sub_id r) ?d))"
      by (auto simp: row_defs logs_of_def fold_set_field_keeps)
  qed (use 2 in \<open>simp_all add: list_all_iff\<close>)
  with 2 show ?thesis by (simp add: subs_ok_commit)
qed

lemma update_ok:
  assumes "subs_ok s"
  shows "subs_ok (snd (snd (update_subscription env now i fs u (v, s))))"
proof (cases "get_by_id i (cur s)")
  case (Some q)
  define gs where "gs = (if list_ex (changes_status (sub_status q)) fs
     then filter (\<lambda>f. \<not> is_set_synced f) fs @ [SetSynced (Some False)] else fs)"
  obtain x s1 where c: "commit_subscriptions (on_db (upd_subscription i (\<lambda>_. fold set_field gs q)) s) = (x, s1)"
    by fastforce
  have s1: "subs_ok s1" by (rule update_checked [OF assms Some c])
  then have l: "subs_ok (log_subscription_action i a dt u s1)" for a dt
    by (intro subs_ok_log) (simp add: subs_ok_def)
  have "snd (snd (update_subscription env now i fs u (v, s))) =
    (if isl x \<or> sub_status (fold set_field gs q) = sub_status q then s1
     else snd (sync_to_router env now (fold set_field gs q) (v, log_subscription_action i ''status_changed''
       (''Status changed from '' @ subscription_status_value (sub_status q) @ '' to '' @
        subscription_status_value (sub_status (fold set_field gs q))) u s1)))"
    using Some c by (cases x) (auto simp: update_subscription_def Let_def split_beta simp flip: gs_def)
  then show ?thesis using s1 by (simp add: subs_ok_sync l)
qed (use assms in \<open>simp add: update_subscription_def\<close>)

lemma usage_ok:
  assumes "subs_ok s"
  shows "subs_ok (snd (update_usage now i up down dur ip mac s))"
proof (cases "get_by_id i (cur s)")
  case (Some q)
  let ?log = "\<lparr>ul_subscription_id = i, ul_log_date = now, ul_bytes_uploaded = up,
      ul_bytes_downloaded = down, ul_session_duration = dur, ul_ip_address = ip, ul_mac_address = mac\<rparr>"
  let ?f = "\<lambda>x. x\<lparr>sub_bytes_uploaded := sub_bytes_uploaded x + up,
      sub_bytes_downloaded := sub_bytes_downloaded x + down,
      sub_total_bytes_used := sub_total_bytes_used x + (up + down),
      sub_session_count := sub_session_count x + 1, sub_last_activity := Some now\<rparr>"
  let ?s1 = "on_db (\<lambda>d. usage_logs_update (\<lambda>t. t @ [?log]) (upd_subscription i ?f d)) s"
  have inv: "subs_inv (cur s)" using assms by (simp add: subs_ok_def)
  have i: "i < subscription_seq (cur s)"
    using subs_inv_usage [OF inv, of q] Some by (auto simp: get_by_id_def)
  obtain x s' where c: "commit_subscriptions ?s1 = (x, s')" by fastforce
  have "subs_ok s'"
    using c
  proof (cases rule: commit_subscriptions_cases)
    case (1 e)
    then show ?thesis using assms by (simp add: subs_ok_def clean_def)
  next
    case 2
    have "subs_inv (cur ?s1)"
    proof (rule subs_inv_checked)
      show "uniq sub_id (subscriptions (cur ?s1))"
        using subs_inv_facts(1) [OF inv] by (simp add: row_defs uniq_tbl_upd)
      show "list_all (\<lambda>l. ul_subscription_id l < subscription_seq (cur ?s1)) (usage_logs (cur ?s1))"
        using subs_inv_facts(4) [OF inv] i by (simp add: row_defs list_all_iff)
      fix r assume "r \<in> set (subscriptions (cur ?s1))"
      then obtain r0 where r0: "r0 \<in> set (subscriptions (cur s))" "r = (if sub_id r0 = i then ?f r0 else r0)"
        by (auto simp: row_defs in_tbl_upd)
      have "logs_of j (cur ?s1) = logs_of j (cur s) @ (if j = i then [?log] else [])" for j
        by (simp add: logs_of_def row_defs)
      with subs_inv_usage [OF inv r0(1)] show "sub_id r < subscription_seq (cur ?s1)
       \<and> sub_bytes_uploaded r = sum_list (map ul_bytes_uploaded (logs_of (sub_id r) (cur ?s1)))
       \<and> sub_bytes_downloaded r = sum_list (map ul_bytes_downloaded (logs_of (sub_id r) (cur ?s1)))
       \<and> sub_total_bytes_used r = sub_bytes_uploaded r + sub_bytes_downloaded r
       \<and> sub_session_count r = int (length (logs_of (sub_id r) (cur ?s1)))"
        by (simp add: r0(2)) (simp add: row_defs)
    qed (use 2 in simp_all)
    with 2 show ?thesis by (simp add: subs_ok_commit)
  qed
  moreover have "subs_ok (rollback ?s1)" using assms by (simp add: subs_ok_def clean_def)
  ultimately show ?thesis
    using Some c by (auto simp: update_usage_def Let_def andthen_def split: sum.splits)
qed (use assms in \<open>simp add: update_usage_def\<close>)

text \<open>The service as a transition system: each request is one step, with any arguments.\<close>

inductive sub_step :: "'dev sub_env \<Rightarrow> 'dev \<times> dbs \<Rightarrow> 'dev \<times> dbs \<Rightarrow> bool" for env where
  create: "create_subscription now uid pid rid ty un pw sd ed ar cb nt s = (x, s') \<Longrightarrow> sub_step env (v, s) (v, s')"
| update: "update_subscription env now i fs u (v, s) = (x, v', s') \<Longrightarrow> sub_step env (v, s) (v', s')"
| activate: "activate_subscription env now i u (v, s) = (q, v', s') \<Longrightarrow> sub_step env (v, s) (v', s')"
| suspend: "suspend_subscription env now i u rs (v, s) = (q, v', s') \<Longrightarrow> sub_step env (v, s) (v', s')"
| cancel: "cancel_subscription env now i u rs (v, s) = (q, v', s') \<Longrightarrow> sub_step env (v, s) (v', s')"
| delete: "delete_subscription i u s = (b, s') \<Longrightarrow> sub_step env (v, s) (v, s')"
| renew: "renew_subscription env sh now i e u (v, s) = (q, v', s') \<Longrightarrow> sub_step env (v, s) (v', s')"
| usage: "update_usage now i up down dur ip mac s = (x, s') \<Longrightarrow> sub_step env (v, s) (v, s')"

lemma sub_step_ok:
  assumes "sub_step env vs vs'" "subs_ok (snd vs)"
  shows "subs_ok (snd vs')"
  using assms
proof (induction rule: sub_step.induct)
  case (create now uid pid rid ty un pw sd ed ar cb nt s x s' v)
  then show ?case using create_ok [of s now uid pid rid ty un pw sd ed ar cb nt] by simp
next
  case (update now i fs u v s x v' s')
  then show ?case using update_ok [of s env now i fs u v] by simp
next
  case (activate now i u v s q v' s')
  then show ?case using set_status_ok by (metis activate_subscription_def snd_conv)
next
  case (suspend now i u rs v s q v' s')
  then show ?case using set_status_ok by (metis suspend_subscription_def snd_conv)
next
  case (cancel now i u rs v s q v' s')
  then show ?case using set_status_ok by (metis cancel_subscription_def snd_conv)
next
  case (delete i u s b s' v)
  then show ?case using delete_ok [of s i u] by simp
next
  case (renew sh now i e u v s q v' s')
  then show ?case using renew_ok [of s env sh now i e u v] by simp
next
  case (usage now i up down dur ip mac s x s' v)
  then show ?case using usage_ok [of s now i up down dur ip mac] by simp
qed

lemma sub_steps_ok:
  "(sub_step env)\<^sup>*\<^sup>* vs vs' \<Longrightarrow> subs_ok (snd vs) \<Longrightarrow> subs_ok (snd vs')"
  by (induction rule: rtranclp_induct) (auto intro: sub_step_ok)

text \<open>
  C6. Accounting and integrity of subscriptions over every sequence of the eight operations of \<open>SubscriptionService\<close>
  that change them (create, update, activate, suspend, cancel, delete, renew and the report of usage), with any
  router behaviour, starting without subscriptions: ids and the triples of user, router and
  type are unique; user, plan and router of each subscription exist; its upload and download
  counters are the sums over its usage log, the total is their sum, the session count is the
  number of log entries, and all of them fit the 32-bit columns; and every operation leaves
  nothing pending in its session. The login through the captive portal, which adds to the session count and
  writes no usage log, is not among these operations.
\<close>

theorem subscription_accounts_invariant:
  assumes "(sub_step env)\<^sup>*\<^sup>* (v0, s0) (v, s)" "subscriptions (cur s0) = []" "usage_logs (cur s0) = []" "clean s0"
  shows "saved s = cur s \<and> distinct (map sub_id (subscriptions (cur s)))
    \<and> distinct (map (\<lambda>q. (sub_user_id q, sub_router_id q, sub_type q)) (subscriptions (cur s)))
    \<and> (\<forall>q \<in> set (subscriptions (cur s)). references_exist (cur s) q \<and> counters_fit q
       \<and> sub_bytes_uploaded q = sum_list (map ul_bytes_uploaded (logs_of (sub_id q) (cur s)))
       \<and> sub_bytes_downloaded q = sum_list (map ul_bytes_downloaded (logs_of (sub_id q) (cur s)))
       \<and> sub_total_bytes_used q = sub_bytes_uploaded q + sub_bytes_downloaded q
       \<and> sub_session_count q = int (length (logs_of (sub_id q) (cur s))))"
proof -
  have "subs_ok (snd (v0, s0))" using assms(2-4) by (simp add: subs_ok_def subs_inv_def)
  from sub_steps_ok [OF assms(1) this] have ok: "clean s" "subs_inv (cur s)" by (simp_all add: subs_ok_def)
  have "references_exist (cur s) q \<and> counters_fit q" if "q \<in> set (subscriptions (cur s))" for q
    using subs_inv_facts(3) [OF ok(2) that]
    unfolding sub_key_def sub_slot_def references_exist_def counters_fit_def key_ok.simps by blast
  then show ?thesis
    using ok(1) subs_inv_facts(1,2) [OF ok(2)] subs_inv_usage [OF ok(2)]
    by (simp add: clean_def uniq_def sub_slot_def [abs_def])
qed

section \<open>Behaviour of the requests\<close>

text \<open>
   Creating a subscription succeeds exactly when its user, plan and router exist and the
  user has no subscription of this type on the router yet; it then adds one pending,
  unsynced row under the next id, with both dates in naive UTC, and queues nothing for the
  router. In every other case it raises and leaves the session as it was.
\<close>

theorem create_subscription_spec:
  assumes "create_subscription now uid pid rid ty un pw sd ed ar cb nt s = (x, s')"
    "distinct (map sub_slot (subscriptions (cur s)))"
  shows "((\<exists>q. x = Inr q) \<longleftrightarrow> uid \<in> usr_id ` set (users (cur s)) \<and> pid \<in> plan_id ` set (plans (cur s))
        \<and> rid \<in> rt_id ` set (routers (cur s)) \<and> (uid, rid, ty) \<notin> sub_slot ` set (subscriptions (cur s)))
    \<and> (\<forall>q. x = Inr q \<longrightarrow> subscriptions (saved s') = subscriptions (cur s) @ [q] \<and> sub_status q = SubPending
        \<and> \<not> sub_is_router_synced q \<and> sub_id q = subscription_seq (cur s) \<and> sub_slot q = (uid, rid, ty)
        \<and> sub_end_date q = normalize_datetime (Some ed) \<and> commands (saved s') = commands (cur s))
    \<and> (\<forall>e. x = Inl e \<longrightarrow> s' = s \<and> exn_class e = ''ValueError'')"
proof -
  let ?same = "filter (\<lambda>q. sub_user_id q = uid \<and> sub_router_id q = rid \<and> sub_type q = ty) (subscriptions (cur s))"
  have "uniq sub_slot (subscriptions (cur s))" using assms(2) by (simp add: uniq_def)
  from uniq_filter_key [OF this, of "(uid, rid, ty)"]
  have f: "?same = (case tbl_get sub_slot (uid, rid, ty) (subscriptions (cur s)) of None \<Rightarrow> [] | Some r \<Rightarrow> [r])"
    by (simp add: sub_slot_def)
  have dt: "\<exists>t. normalize_datetime (Some d) = Some t" for d
    by (cases d) (simp_all add: normalize_datetime_def)
  show ?thesis
  proof (cases "tbl_get sub_slot (uid, rid, ty) (subscriptions (cur s))")
    case None
    then have "(uid, rid, ty) \<notin> sub_slot ` set (subscriptions (cur s))" by (simp add: tbl_get_None)
    then show ?thesis
      using assms(1) f None dt [of ed]
      by (auto simp: create_subscription_def Let_def tbl_get_None row_defs log_subscription_action_def
          new_subscription_def sub_slot_def split: option.splits if_splits dest!: tbl_get_Some)
  next
    case (Some r)
    then have "(uid, rid, ty) \<in> sub_slot ` set (subscriptions (cur s))"
      using tbl_get_None [of sub_slot "(uid, rid, ty)" "subscriptions (cur s)"] by simp
    then show ?thesis
      using assms(1) f Some
      by (auto simp: create_subscription_def Let_def split: option.splits if_splits)
  qed
qed

lemma set_status_effects:
  assumes "get_by_id i (cur s) = Some q" "agent_served (cur s) q" "env_auto_sync_router env"
    "st = SubActive \<or> disabling st" "set_status env now i st a dt u (v, s) = (q', v', s')"
    "q1 = q\<lparr>sub_status := st, sub_is_router_synced := False\<rparr>"
  shows "q' = Some q1 \<and> v' = v \<and> saved s' = cur s'
    \<and> subscriptions (saved s') = tbl_upd sub_id i (\<lambda>x. x\<lparr>sub_status := st, sub_is_router_synced := False\<rparr>) (subscriptions (cur s))
    \<and> (\<exists>c. commands (saved s') = commands (cur s) @ [c] \<and> sync_command_of q1 c)
    \<and> (\<exists>h. histories (saved s') = histories (cur s) @ [h] \<and> sh_subscription_id h = i \<and> sh_action h = a \<and> sh_changed_by h = u)"
proof -
  let ?f = "\<lambda>x. x\<lparr>sub_status := st, sub_is_router_synced := False\<rparr>"
  let ?s2 = "log_subscription_action i a dt u (commit (on_db (upd_subscription i ?f) s))"
  have s2: "routers (cur ?s2) = routers (cur s)" "plans (cur ?s2) = plans (cur s)" "commands (cur ?s2) = commands (cur s)"
    "subscriptions (cur ?s2) = tbl_upd sub_id i ?f (subscriptions (cur s))"
    "histories (cur ?s2) = histories (cur s) @ [\<lparr>sh_subscription_id = i, sh_action = a, sh_old_status = None,
       sh_new_status = None, sh_details = dt, sh_changed_by = u, sh_ip_address = None\<rparr>]"
    by (simp_all add: log_subscription_action_def row_defs)
  have "agent_served (cur ?s2) q" using assms(2) agent_served_cong [OF s2(1,2)] by blast
  then have served: "agent_served (cur ?s2) q1" by (simp add: agent_served_def assms(6) cong: option.case_cong)
  from sync_agent_served [OF this, of "env_uuid env" "env_exec env" "env_connect env" now False v]
  obtain r p where r: "rt_id r = sub_router_id q1"
    and eq: "sync_subscription_to_router (env_uuid env) (env_exec env) (env_connect env) now q1 False (v, ?s2) =
       (let (res, s1) = sync_via_agent_queue (env_uuid env) now q1 r p False ?s2 in (res, v, s1))" by blast
  obtain res s3 where g: "sync_via_agent_queue (env_uuid env) now q1 r p False ?s2 = (res, s3)" by fastforce
  have h: "histories (cur s3) = histories (cur ?s2)"
    using g by (auto simp: sync_via_agent_queue_def queue_command_def Let_def row_defs split: if_splits)
  have st: "sync_to_router env now q1 (v, ?s2) = (v, s3)"
    using assms(3) by (simp add: sync_to_router_def eq g)
  have out: "v' = v" "s' = s3" "q' = get_by_id i (cur s3)"
    using assms(1,5) st by (auto simp: set_status_def Let_def simp flip: assms(6))
  have g2: "get_by_id i (cur s3) = Some q1"
    using assms(1) sync_via_agent_queue_effects(3) [OF g] s2(4)
    by (simp add: get_by_id_def tbl_get_tbl_upd assms(6))
  note e = sync_via_agent_queue_effects [OF g]
  have "\<exists>c. commands (cur s3) = commands (cur s) @ [c] \<and> sync_command_of q1 c"
    using e(7) [OF _ r] assms(4,6) s2(3) by auto
  with out g2 e(2,3) s2(4,5) h show ?thesis by simp
qed

text \<open>
  C7. Activating, suspending and cancelling on a router with the agent: the new status is
  committed with the sync flag cleared, one history entry names the action and who did it,
  and exactly one command is queued that makes the router follow, \<open>create_user\<close> for an
  activation and the more urgent \<open>disable_user\<close> for the other two.
\<close>

theorem status_change_reaches_router:
  assumes "get_by_id i (cur s) = Some q" "agent_served (cur s) q" "env_auto_sync_router env"
    "(st, a, out) \<in> {(SubActive, ''activated'', activate_subscription env now i u (v, s)),
       (SubSuspended, ''suspended'', suspend_subscription env now i u reason (v, s)),
       (SubCancelled, ''cancelled'', cancel_subscription env now i u reason (v, s))}"
    "out = (q', v', s')"
  shows "q' = Some (q\<lparr>sub_status := st, sub_is_router_synced := False\<rparr>) \<and> v' = v
    \<and> subscriptions (saved s') = tbl_upd sub_id i (\<lambda>x. x\<lparr>sub_status := st, sub_is_router_synced := False\<rparr>) (subscriptions (cur s))
    \<and> (\<exists>c. commands (saved s') = commands (cur s) @ [c]
         \<and> sync_command_of (q\<lparr>sub_status := st, sub_is_router_synced := False\<rparr>) c)
    \<and> (\<exists>h. histories (saved s') = histories (cur s) @ [h] \<and> sh_subscription_id h = i \<and> sh_action h = a \<and> sh_changed_by h = u)"
proof -
  have "\<exists>dt. set_status env now i st a dt u (v, s) = (q', v', s') \<and> (st = SubActive \<or> disabling st)"
    using assms(4,5)
    by (auto simp: activate_subscription_def suspend_subscription_def cancel_subscription_def disabling_def)
  then obtain dt where dt: "set_status env now i st a dt u (v, s) = (q', v', s')" "st = SubActive \<or> disabling st" by blast
  from set_status_effects [OF assms(1-3) dt(2,1) refl] show ?thesis by auto
qed

text \<open>
   Deleting a subscription does not reach the router: the row becomes cancelled with its
  sync flag as it was, nothing is queued and the device is not called, so that the user of an
  active, synced subscription keeps access; and no later pass over the unsynced subscriptions
  picks the row up.
\<close>

theorem delete_leaves_user_on_router:
  assumes "get_by_id i (cur s) = Some q" "delete_subscription i u s = (b, s')"
  shows "b \<and> get_by_id i (saved s') = Some (q\<lparr>sub_status := SubCancelled\<rparr>)
    \<and> commands (saved s') = commands (cur s)
    \<and> (\<forall>r \<in> set (subscriptions (saved s')). sub_id r = i \<longrightarrow> \<not> (\<not> sub_is_router_synced r \<and> sub_status r = SubActive))"
proof -
  have b: "b" and s': "cur s' = saved s'" "commands (saved s') = commands (cur s)"
    "subscriptions (saved s') = tbl_upd sub_id i (\<lambda>x. x\<lparr>sub_status := SubCancelled\<rparr>) (subscriptions (cur s))"
    using assms by (auto simp: delete_subscription_def log_subscription_action_def row_defs Let_def)
  have "sub_status r = SubCancelled" if "r \<in> set (subscriptions (saved s'))" "sub_id r = i" for r
  proof -
    from that(1) obtain r0 where "r = (if sub_id r0 = i then r0\<lparr>sub_status := SubCancelled\<rparr> else r0)"
      unfolding s'(3) in_tbl_upd by blast
    with that(2) show ?thesis by (cases "sub_id r0 = i") simp_all
  qed
  with b s' show ?thesis
    using assms(1) by (simp add: get_by_id_def tbl_get_tbl_upd)
qed

text \<open>
   The usage counters are 32-bit columns: once the total of a subscription would reach two
  gigabytes, recording usage raises and neither the counters nor the log change; below that
  the counters and the log grow by the same amounts.
\<close>

theorem usage_stops_at_two_gigabytes:
  assumes "subs_inv (cur s)" "clean s" "get_by_id i (cur s) = Some q" "0 \<le> up" "0 \<le> down" "int4 dur"
    "0 \<le> sub_bytes_uploaded q" "0 \<le> sub_bytes_downloaded q" "int4 (sub_session_count q + 1)"
    "update_usage now i up down dur ip mac s = (x, s')"
  shows "if sub_total_bytes_used q + up + down < 2 ^ 31
    then x = Inr True \<and> get_by_id i (saved s') = Some (q\<lparr>sub_bytes_uploaded := sub_bytes_uploaded q + up,
        sub_bytes_downloaded := sub_bytes_downloaded q + down, sub_total_bytes_used := sub_total_bytes_used q + (up + down),
        sub_session_count := sub_session_count q + 1, sub_last_activity := Some now\<rparr>)
      \<and> length (logs_of i (saved s')) = length (logs_of i (cur s)) + 1
    else (\<exists>e. x = Inl e \<and> exn_class e = ''DBAPIError'') \<and> s' = s"
proof -
  let ?f = "\<lambda>x. x\<lparr>sub_bytes_uploaded := sub_bytes_uploaded x + up,
      sub_bytes_downloaded := sub_bytes_downloaded x + down,
      sub_total_bytes_used := sub_total_bytes_used x + (up + down),
      sub_session_count := sub_session_count x + 1, sub_last_activity := Some now\<rparr>"
  let ?d = "upd_subscription i ?f (cur s)"
  note fs = subs_inv_facts [OF assms(1)]
  have q: "q \<in> set (subscriptions (cur s))" "sub_id q = i" using assms(3) by (auto simp: get_by_id_def)
  have "sub_total_bytes_used q = sub_bytes_uploaded q + sub_bytes_downloaded q"
    using subs_inv_usage [OF assms(1) q(1)] by blast
  note tot = this
  have fit: "counters_fit r" if "r \<in> set (subscriptions (cur s))" for r
    using fs(3) [OF that] unfolding sub_key_def sub_slot_def counters_fit_def key_ok.simps by blast
  have rows: "set (subscriptions ?d) = (\<lambda>r. if sub_id r = i then ?f r else r) ` set (subscriptions (cur s))"
    by (simp add: row_defs tbl_upd_def)
  have one: "r = q" if "r \<in> set (subscriptions (cur s))" "sub_id r = i" for r
    using uniq_tbl_get [OF fs(1) that(1)] assms(3) that(2) by (simp add: get_by_id_def)
  have each: "counters_fit (if sub_id r = i then ?f r else r) \<longleftrightarrow> (r = q \<longrightarrow> counters_fit (?f q))"
    if "r \<in> set (subscriptions (cur s))" for r
  proof (cases "sub_id r = i")
    case True
    then show ?thesis using one [OF that] by simp
  next
    case False
    then show ?thesis using fit [OF that] q(2) by auto
  qed
  have "list_all counters_fit (subscriptions ?d) \<longleftrightarrow>
      (\<forall>r \<in> set (subscriptions (cur s)). counters_fit (if sub_id r = i then ?f r else r))"
    unfolding list_all_iff rows by blast
  also have "\<dots> \<longleftrightarrow> counters_fit (?f q)" using each q(1) by blast
  finally have "list_all counters_fit (subscriptions ?d) \<longleftrightarrow> counters_fit (?f q)" .
  moreover have "counters_fit (?f q) \<longleftrightarrow> sub_total_bytes_used q + up + down < 2 ^ 31"
    using assms(4-9) tot fit [OF q(1)] by (auto simp: counters_fit_def int4_def)
  ultimately have fits: "list_all counters_fit (subscriptions ?d) \<longleftrightarrow> sub_total_bytes_used q + up + down < 2 ^ 31" by simp
  have slots: "map sub_slot (subscriptions ?d) = map sub_slot (subscriptions (cur s))"
    by (simp add: row_defs tbl_upd_def sub_slot_def)
  have refs: "list_all (references_exist ?d) (subscriptions ?d)"
  proof -
    have "references_exist (cur s) r" if "r \<in> set (subscriptions (cur s))" for r
      using fs(3) [OF that] unfolding sub_key_def sub_slot_def references_exist_def key_ok.simps by blast
    moreover have "references_exist ?d (if sub_id r = i then ?f r else r) = references_exist (cur s) r" for r
      by (simp add: references_exist_def row_defs)
    ultimately show ?thesis unfolding list_all_iff rows by blast
  qed
  have small: "int4 up \<and> int4 down" if "sub_total_bytes_used q + up + down < 2 ^ 31"
    using that assms(4,5,7,8) tot by (simp add: int4_def)
  have undo: "rollback (on_db g s) = s" for g
    using assms(2) by (simp add: clean_def rollback_def on_db_def)
  let ?log = "\<lparr>ul_subscription_id = i, ul_log_date = now, ul_bytes_uploaded = up,
      ul_bytes_downloaded = down, ul_session_duration = dur, ul_ip_address = ip, ul_mac_address = mac\<rparr>"
  let ?g = "\<lambda>d. usage_logs_update (\<lambda>t. t @ [?log]) (upd_subscription i ?f d)"
  have c: "commit_subscriptions (on_db ?g s) =
      (if sub_total_bytes_used q + up + down < 2 ^ 31 then (Inr (), commit (on_db ?g s))
       else (Inl (Exn ''DBAPIError'' ''value out of int32 range''), s))"
    using fits slots refs fs(2)
    by (simp add: commit_subscriptions_def Let_def undo references_exist_def [abs_def])
  have u: "update_usage now i up down dur ip mac s =
      (if int4 up \<and> int4 down \<and> int4 dur then andthen (commit_subscriptions (on_db ?g s)) (\<lambda>_ s2. (Inr True, s2))
       else (Inl (Exn ''DBAPIError'' ''value out of int32 range''), s))"
    using assms(3) by (simp add: update_usage_def Let_def undo)
  show ?thesis
  proof (cases "sub_total_bytes_used q + up + down < 2 ^ 31")
    case True
    then have "x = Inr True" "s' = commit (on_db ?g s)"
      using assms(6,10) small u c by auto
    with True assms(3) show ?thesis
      by (simp add: get_by_id_def logs_of_def row_defs tbl_get_tbl_upd)
  next
    case False
    with assms(10) u c show ?thesis by (auto split: if_splits)
  qed
qed

section \<open>Witnesses\<close>

definition accounts_db :: db where
  "accounts_db = empty_db\<lparr>users := [user0], plans := [plan0], routers := [router0]\<rparr>"

lemma accounts_db_simps:
  "subscriptions accounts_db = []" "usage_logs accounts_db = []" "usr_id ` set (users accounts_db) = {1}"
  "plan_id ` set (plans accounts_db) = {1}" "rt_id ` set (routers accounts_db) = {1}"
  by (simp_all add: accounts_db_def empty_db_def sample_rows)

definition env0 :: "unit sub_env" where
  "env0 = \<lparr>env_uuid = str_nat, env_exec = no_device, env_connect = (\<lambda>_ _. None), env_auto_sync_router = True\<rparr>"

definition held_db :: db where
  \<comment> \<open>one active subscription without usage\<close>
  "held_db = accounts_db\<lparr>subscriptions := [sub0], subscription_seq := 2\<rparr>"

lemma held_db_simps:
  "subscriptions held_db = [sub0]" "usage_logs held_db = []" "commands held_db = []" "histories held_db = []"
  "users held_db = [user0]" "plans held_db = [plan0]" "routers held_db = [router0]" "subscription_seq held_db = 2"
  by (simp_all add: held_db_def accounts_db_def empty_db_def)

lemma held_db_inv: "subs_inv held_db"
  by (simp add: subs_inv_def held_db_simps sub_key_def sub_slot_def logs_of_def int4_def sample_rows)

lemma held_sub: "get_by_id 1 held_db = Some sub0"
  by (simp add: get_by_id_def held_db_simps table_simps sub0_def)

lemma held_served: "agent_served held_db sub0"
  by (simp add: agent_served_def held_db_simps table_simps sample_rows)

theorem subscription_accounts_invariant_witness:
  "distinct (map sub_id (subscriptions (cur (snd (create_subscription 5 1 1 1 HOTSPOT ''joe'' ''pw'' (Naive 0) (Aware 1000001)
      False None None (fresh accounts_db))))))"
proof -
  obtain x s' where c: "create_subscription 5 1 1 1 HOTSPOT ''joe'' ''pw'' (Naive 0) (Aware 1000001) False None None
      (fresh accounts_db) = (x, s')" by fastforce
  have "sub_step env0 ((), fresh accounts_db) ((), s')" by (rule sub_step.create [OF c])
  then have "(sub_step env0)\<^sup>*\<^sup>* ((), fresh accounts_db) ((), s')" by blast
  from subscription_accounts_invariant [OF this] show ?thesis
    by (simp add: c accounts_db_simps clean_def)
qed

theorem create_subscription_spec_witness:
  "\<exists>q. fst (create_subscription 5 1 1 1 HOTSPOT ''joe'' ''pw'' (Naive 0) (Aware 1000001) False None None (fresh accounts_db)) = Inr q"
proof -
  obtain x s' where c: "create_subscription 5 1 1 1 HOTSPOT ''joe'' ''pw'' (Naive 0) (Aware 1000001) False None None
      (fresh accounts_db) = (x, s')" by fastforce
  from create_subscription_spec [OF c] show ?thesis
    by (simp add: c accounts_db_simps)
qed

theorem status_change_reaches_router_witness:
  "length (commands (saved (snd (snd (suspend_subscription env0 5 1 None None ((), fresh held_db)))))) = 1"
proof -
  obtain q' v' s' where out: "suspend_subscription env0 5 1 None None ((), fresh held_db) = (q', v', s')"
    by (metis surj_pair)
  have "\<exists>c. commands (saved s') = commands (cur (fresh held_db)) @ [c] \<and>
      sync_command_of (sub0\<lparr>sub_status := SubSuspended, sub_is_router_synced := False\<rparr>) c"
    using status_change_reaches_router [of 1 "fresh held_db" sub0 env0 SubSuspended "''suspended''" _ 5 None "()" None, OF _ _ _ _ out]
      held_sub held_served by (simp add: env0_def out)
  then show ?thesis by (auto simp: out held_db_simps)
qed

theorem delete_leaves_user_on_router_witness:
  "commands (saved (snd (delete_subscription 1 None (fresh held_db)))) = []"
proof -
  obtain b s' where d: "delete_subscription 1 None (fresh held_db) = (b, s')" by fastforce
  from delete_leaves_user_on_router [OF _ d] held_sub show ?thesis by (simp add: d held_db_simps)
qed

theorem usage_stops_at_two_gigabytes_witness:
  "\<exists>e. fst (update_usage 5 1 2000000000 2000000000 60 None None (fresh held_db)) = Inl e"
proof -
  obtain x s' where c: "update_usage 5 1 2000000000 2000000000 60 None None (fresh held_db) = (x, s')" by fastforce
  from usage_stops_at_two_gigabytes [OF _ _ _ _ _ _ _ _ _ c, of sub0] held_db_inv held_sub show ?thesis
    by (auto simp: c clean_def int4_def sub0_def)
qed

end
