(* ===== verification/Billing.thy ===== *)
theory Billing
  imports Subscription_Service
begin

text \<open>
  \<open>BillingService\<close> of \<open>src/app/modules/billing/service.py\<close>: invoices and their items, payments
  and how they settle invoices, the gateway callbacks, numbering and statistics.

  Money is exact; amounts that the callers pass have two decimals, as the NUMERIC(10,2)
  columns do, and the rounding of the columns is written out (\<open>numeric2\<close>) where the code
  multiplies. The uniqueness of numbers and the foreign keys that an argument of a request
  can break are checked when the row is committed; the failed flush rolls back.
\<close>

section \<open>Money, dates and numbers\<close>

text \<open>What a NUMERIC(10,2) column keeps of a decimal: two places, halves away from zero.\<close>

definition numeric2 :: "rat \<Rightarrow> rat" where
  "numeric2 x = (if x < 0 then - of_int \<lfloor>- x * 100 + 1 / 2\<rfloor> else of_int \<lfloor>x * 100 + 1 / 2\<rfloor>) / 100"

text \<open>Year and month of a number of days since 1970-01-01, in the proleptic Gregorian calendar.\<close>

definition civil_month :: "int \<Rightarrow> int \<times> int" where
  "civil_month n =
     (let z = n + 719468; era = z div 146097; doe = z mod 146097;
          yoe = (doe - doe div 1460 + doe div 36524 - doe div 146096) div 365;
          doy = doe - (365 * yoe + yoe div 4 - yoe div 100);
          mp = (5 * doy + 2) div 153;
          m = (if mp < 10 then mp + 3 else mp - 9)
      in (yoe + era * 400 + (if m \<le> 2 then 1 else 0), m))"

text \<open>\<open>strftime("%Y%m")\<close>.\<close>

definition year_month :: "datetime \<Rightarrow> string" where
  "year_month now =
     (let (y, m) = civil_month (now div 86400000000)
      in zfill 4 (str_nat (nat y)) @ zfill 2 (str_nat (nat m)))"

definition numbered :: "string \<Rightarrow> datetime \<Rightarrow> nat \<Rightarrow> string" where
  "numbered pre now n = pre @ year_month now @ ''-'' @ zfill 4 (str_nat n)"

definition generate_invoice_number :: "datetime \<Rightarrow> db \<Rightarrow> string" where
  "generate_invoice_number now d =
     numbered ''INV-'' now
       (length (filter (\<lambda>i. prefix (''INV-'' @ year_month now) (inv_invoice_number i)) (invoices d)) + 1)"

definition generate_payment_number :: "datetime \<Rightarrow> db \<Rightarrow> string" where
  "generate_payment_number now d =
     numbered ''PAY-'' now
       (length (filter (\<lambda>p. prefix (''PAY-'' @ year_month now) (pay_payment_number p)) (payments d)) + 1)"

section \<open>Validation\<close>

definition validate_amount :: "rat \<Rightarrow> bool" where
  "validate_amount a \<longleftrightarrow> a \<noteq> 0 \<and> a > 0 \<and> a \<le> 99999999 / 100"

definition validate_phone_number :: "string option \<Rightarrow> bool" where
  "validate_phone_number p \<longleftrightarrow>
     truthy p \<and> (let n = length (filter isdigit (the p)) in n \<ge> 10 \<and> n \<le> 13)"

text \<open>The keys of the payment data; \<^const>\<open>None\<close> is an absent key, an amount may be no number.\<close>

record payment_data =
  pd_amount :: "(unit + rat) option"
  pd_phone_number :: "string option option"
  pd_payment_method :: "string option"

definition payment_method_values :: "string list" where
  "payment_method_values = [''mpesa'', ''bank_transfer'', ''cash'', ''card'', ''other'']"

definition validate_payment_data :: "payment_data \<Rightarrow> exn + unit" where
  "validate_payment_data pd =
     (case pd_amount pd of
        Some (Inl _) \<Rightarrow> Inl (ValidationError ''Amount must be a number'')
      | _ \<Rightarrow>
          if (case pd_amount pd of Some (Inr a) \<Rightarrow> \<not> validate_amount a | _ \<Rightarrow> False)
          then Inl (ValidationError ''Invalid amount'')
          else if (case pd_phone_number pd of Some p \<Rightarrow> \<not> validate_phone_number p | None \<Rightarrow> False)
          then Inl (ValidationError ''Invalid phone number format'')
          else if (case pd_payment_method pd of Some m \<Rightarrow> m \<notin> set payment_method_values | None \<Rightarrow> False)
          then Inl (ValidationError ''Invalid payment method'')
          else Inr ())"

text \<open>
  \<open>_retry_operation\<close>: the operation is tried at most \<open>n\<close> times; an exception is passed on only
  from the last attempt. The pauses between the attempts take no part in the result.
\<close>

fun retry_operation :: "nat \<Rightarrow> ('s \<Rightarrow> (exn + 'a) \<times> 's) \<Rightarrow> 's \<Rightarrow> (exn + 'a option) \<times> 's" where
  "retry_operation 0 operation s = (Inr None, s)"
| "retry_operation (Suc n) operation s =
     (case operation s of
        (Inr a, s1) \<Rightarrow> (Inr (Some a), s1)
      | (Inl e, s1) \<Rightarrow> if n = 0 then (Inl e, s1) else retry_operation n operation s1)"

definition max_retries :: nat where
  "max_retries = 3"

section \<open>Invoices\<close>

definition get_invoice_by_id :: "int \<Rightarrow> db \<Rightarrow> exn + invoice option" where
  "get_invoice_by_id i d =
     (if i \<le> 0 then Inl (BillingError ''Unexpected error: Invalid invoice ID'')
      else Inr (tbl_get inv_id i (invoices d)))"

definition update_invoice_totals :: "int \<Rightarrow> dbs \<Rightarrow> (exn + unit) \<times> dbs" where
  "update_invoice_totals i s =
     (let subtotal = sum_list (map it_total_price (filter (\<lambda>it. it_invoice_id it = i) (invoice_items (cur s))))
      in case get_invoice_by_id i (cur s) of
           Inl e \<Rightarrow> (Inl e, s)
         | Inr None \<Rightarrow> (Inr (), s)
         | Inr (Some iv) \<Rightarrow>
             (Inr (), commit (on_db (upd_invoice i (\<lambda>x. x\<lparr>inv_subtotal := subtotal,
                inv_total_amount := subtotal + inv_tax_amount x - inv_discount_amount x,
                inv_balance := subtotal + inv_tax_amount x - inv_discount_amount x - inv_paid_amount x\<rparr>)) s)))"

definition add_invoice_item ::
    "int \<Rightarrow> string \<Rightarrow> rat \<Rightarrow> rat \<Rightarrow> string option \<Rightarrow> dbs \<Rightarrow> (exn + invoice_item) \<times> dbs" where
  "add_invoice_item i description quantity unit_price item_type s =
     (let item = \<lparr>it_id = item_seq (cur s), it_invoice_id = i, it_description = description,
            it_quantity = quantity, it_unit_price = unit_price,
            it_total_price = numeric2 (quantity * unit_price), it_item_type = item_type\<rparr>
      in if tbl_get inv_id i (invoices (cur s)) = None
         then (Inl (IntegrityError ''insert or update on table invoice_items violates foreign key constraint''), rollback s)
         else
           andthen (update_invoice_totals i
             (commit (on_db (\<lambda>d. d\<lparr>invoice_items := invoice_items d @ [item], item_seq := item_seq d + 1\<rparr>) s)))
             (\<lambda>_ s1. (Inr item, s1)))"

text \<open>The items of a new invoice, with the defaults of \<open>item.get\<close> already taken.\<close>

type_synonym new_item = "string \<times> rat \<times> rat \<times> string"

fun add_items :: "int \<Rightarrow> new_item list \<Rightarrow> dbs \<Rightarrow> (exn + unit) \<times> dbs" where
  "add_items i [] s = (Inr (), s)"
| "add_items i ((d, q, u, t) # its) s =
     andthen (add_invoice_item i d q u (Some t) s) (\<lambda>_ s1. add_items i its s1)"

definition create_invoice ::
    "datetime \<Rightarrow> int \<Rightarrow> rat \<Rightarrow> int option \<Rightarrow> rat \<Rightarrow> rat \<Rightarrow> py_datetime option \<Rightarrow> py_datetime option
     \<Rightarrow> string option \<Rightarrow> new_item list \<Rightarrow> dbs \<Rightarrow> (exn + invoice option) \<times> dbs" where
  "create_invoice now uid subtotal subscription_id tax_amount discount_amount period_start period_end notes items s =
     (if tbl_get usr_id uid (users (cur s)) = None
      then (Inl (ValidationError (''User with ID '' @ str_int uid @ '' does not exist'')), s)
      else
        let checked =
          (if truthy_int subscription_id then
             let sid = the subscription_id
             in case tbl_get sub_id sid (subscriptions (cur s)) of
                  None \<Rightarrow> Inl (ValidationError (''Subscription with ID '' @ str_int sid @ '' does not exist''))
                | Some q \<Rightarrow>
                    if sub_user_id q \<noteq> uid
                    then Inl (ValidationError (''Subscription '' @ str_int sid @ '' does not belong to user '' @ str_int uid))
                    else Inr ()
           else Inr ())
        in case checked of
             Inl e \<Rightarrow> (Inl e, s)
           | Inr _ \<Rightarrow>
               let number = generate_invoice_number now (cur s);
                   total_amount = subtotal + tax_amount - discount_amount;
                   i = invoice_seq (cur s);
                   iv = \<lparr>inv_id = i, inv_organization_id = None, inv_user_id = uid,
                     inv_subscription_id = subscription_id, inv_invoice_number = number, inv_status = InvDraft,
                     inv_subtotal = subtotal, inv_tax_amount = tax_amount, inv_discount_amount = discount_amount,
                     inv_total_amount = total_amount, inv_paid_amount = 0, inv_balance = total_amount,
                     inv_issue_date = now, inv_due_date = now + days 30, inv_paid_date = None,
                     inv_billing_period_start = normalize_datetime period_start,
                     inv_billing_period_end = normalize_datetime period_end, inv_currency = ''KES'',
                     inv_notes = notes, inv_terms = None, inv_created_at = now\<rparr>
               in if number \<in> inv_invoice_number ` set (invoices (cur s))
                  then (Inl (IntegrityError ''duplicate key value violates unique constraint''), rollback s)
                  else
                    andthen (add_items i items
                      (commit (on_db (\<lambda>d. (add_invoice iv d)\<lparr>invoice_seq := i + 1\<rparr>) s)))
                      (\<lambda>_ s1. (Inr (tbl_get inv_id i (invoices (cur s1))), s1)))"

definition update_invoice_status ::
    "datetime \<Rightarrow> int \<Rightarrow> InvoiceStatus \<Rightarrow> dbs \<Rightarrow> (exn + invoice option) \<times> dbs" where
  "update_invoice_status now i status s =
     (case get_invoice_by_id i (cur s) of
        Inl e \<Rightarrow> (Inl e, s)
      | Inr None \<Rightarrow> (Inr None, s)
      | Inr (Some iv) \<Rightarrow>
          let f = (\<lambda>x. if status = InvPaid
                then x\<lparr>inv_status := status, inv_paid_date := Some now, inv_balance := 0\<rparr>
                else x\<lparr>inv_status := status\<rparr>);
              s1 = commit (on_db (upd_invoice i f) s)
          in (Inr (tbl_get inv_id i (invoices (cur s1))), s1))"

text \<open>
  The plan is looked up with \<open>db.get(subscription.plan_id, subscription.plan_id)\<close>: the first
  argument is not a mapped class, which raises before a query is sent.
\<close>

definition generate_subscription_invoice :: "int \<Rightarrow> dbs \<Rightarrow> (exn + invoice option) \<times> dbs" where
  "generate_subscription_invoice sid s =
     (case tbl_get sub_id sid (subscriptions (cur s)) of
        None \<Rightarrow> (Inr None, s)
      | Some q \<Rightarrow>
          if tbl_get usr_id (sub_user_id q) (users (cur s)) = None then (Inr None, s)
          else (Inl (Exn ''ArgumentError'' (''Expected mapped class or mapper, got: '' @ str_int (sub_plan_id q))), s))"

definition billing_cycle_step :: "subscription \<Rightarrow> dbs \<Rightarrow> (bool \<times> string option) \<times> dbs" where
  "billing_cycle_step q s =
     (let err = (\<lambda>e. Some (''Subscription '' @ str_int (sub_id q) @ '': '' @ exn_msg e))
      in case scalar_one_or_none (filter (\<lambda>i. inv_subscription_id i = Some (sub_id q) \<and>
                (inv_status i = InvDraft \<or> inv_status i = InvPending \<or> inv_status i = InvPaid)) (invoices (cur s))) of
           Inl e \<Rightarrow> ((False, err e), s)
         | Inr (Some _) \<Rightarrow> ((False, None), s)
         | Inr None \<Rightarrow>
             case generate_subscription_invoice (sub_id q) s of
               (Inl e, s1) \<Rightarrow> ((False, err e), s1)
             | (Inr _, s1) \<Rightarrow> ((True, None), s1))"

record cycle_result =
  cy_invoices_created :: nat
  cy_total_subscriptions :: nat
  cy_errors :: "string list"

definition generate_billing_cycle_invoices :: "int option \<Rightarrow> dbs \<Rightarrow> cycle_result \<times> dbs" where
  "generate_billing_cycle_invoices org s =
     (let qs = filter (\<lambda>q. sub_status q = SubActive \<and> sub_is_auto_renewal q \<and>
            (truthy_int org \<longrightarrow> sub_organization_id q = org)) (subscriptions (cur s));
          (rs, s1) = run_batch billing_cycle_step qs s
      in (\<lparr>cy_invoices_created = length (filter fst rs), cy_total_subscriptions = length qs,
           cy_errors = List.map_filter snd rs\<rparr>, s1))"

datatype item_field =
  ItDescription "string option" | ItQuantity "rat option" | ItUnitPrice "rat option"
| ItTotalPrice "rat option" | ItType "string option" | ItUnknown string

fun set_item_field :: "item_field \<Rightarrow> invoice_item \<Rightarrow> invoice_item" where
  "set_item_field (ItDescription (Some v)) it = it\<lparr>it_description := v\<rparr>"
| "set_item_field (ItQuantity (Some v)) it = it\<lparr>it_quantity := v\<rparr>"
| "set_item_field (ItUnitPrice (Some v)) it = it\<lparr>it_unit_price := v\<rparr>"
| "set_item_field (ItTotalPrice (Some v)) it = it\<lparr>it_total_price := v\<rparr>"
| "set_item_field (ItType (Some v)) it = it\<lparr>it_item_type := Some v\<rparr>"
| "set_item_field _ it = it"

definition update_invoice_item ::
    "int \<Rightarrow> item_field list \<Rightarrow> dbs \<Rightarrow> (exn + invoice_item option) \<times> dbs" where
  "update_invoice_item i update_data s =
     (if i \<le> 0 then (Inl (ValidationError ''Invalid item ID''), rollback s)
      else case tbl_get it_id i (invoice_items (cur s)) of
             None \<Rightarrow> (Inr None, s)
           | Some it \<Rightarrow>
               (Inr (Some (fold set_item_field update_data it)),
                commit (on_db (invoice_items_update (tbl_upd it_id i (fold set_item_field update_data))) s)))"

definition delete_invoice_item :: "int \<Rightarrow> dbs \<Rightarrow> (exn + bool) \<times> dbs" where
  "delete_invoice_item i s =
     (if i \<le> 0 then (Inl (ValidationError ''Invalid item ID''), rollback s)
      else if tbl_get it_id i (invoice_items (cur s)) = None then (Inr False, s)
      else (Inr True, commit (on_db (invoice_items_update (filter (\<lambda>it. it_id it \<noteq> i))) s)))"

section \<open>Payments\<close>

definition activate_subscription_on_payment ::
    "'dev sub_env \<Rightarrow> datetime \<Rightarrow> int \<Rightarrow> 'dev \<times> dbs \<Rightarrow> 'dev \<times> dbs" where
  "activate_subscription_on_payment env now sid vs =
     (let (v, s) = vs
      in case tbl_get sub_id sid (subscriptions (cur s)) of
           None \<Rightarrow> (v, s)
         | Some q \<Rightarrow>
             if sub_status q = SubActive then (v, s)
             else
               let f = (\<lambda>x. x\<lparr>sub_status := SubActive, sub_is_router_synced := False\<rparr>)
               in snd (sync_subscription_to_router (env_uuid env) (env_exec env) (env_connect env) now (f q) False
                         (v, commit (on_db (upd_subscription sid f) s))))"

definition credit :: "datetime \<Rightarrow> rat \<Rightarrow> invoice \<Rightarrow> invoice" where
  "credit now amount x =
     (let paid = inv_paid_amount x + amount; balance = inv_total_amount x - paid;
          y = x\<lparr>inv_paid_amount := paid, inv_balance := balance\<rparr>
      in if balance \<le> 0 then y\<lparr>inv_status := InvPaid, inv_paid_date := Some now\<rparr> else y)"

definition apply_payment_to_invoice ::
    "'dev sub_env \<Rightarrow> datetime \<Rightarrow> int \<Rightarrow> rat \<Rightarrow> 'dev \<times> dbs \<Rightarrow> (exn + unit) \<times> 'dev \<times> dbs" where
  "apply_payment_to_invoice env now i amount vs =
     (let (v, s) = vs
      in case get_invoice_by_id i (cur s) of
           Inl e \<Rightarrow> (Inl e, v, s)
         | Inr None \<Rightarrow> (Inr (), v, s)
         | Inr (Some iv) \<Rightarrow>
             let iv1 = credit now amount iv;
                 s1 = commit (on_db (upd_invoice i (\<lambda>_. iv1)) s)
             in (Inr (), if inv_balance iv1 \<le> 0 \<and> truthy_int (inv_subscription_id iv1)
                         then activate_subscription_on_payment env now (the (inv_subscription_id iv1)) (v, s1)
                         else (v, s1)))"

definition new_payment ::
    "datetime \<Rightarrow> int \<Rightarrow> string \<Rightarrow> int \<Rightarrow> rat \<Rightarrow> PaymentMethod \<Rightarrow> int option \<Rightarrow> PaymentStatus \<Rightarrow> payment" where
  "new_payment now i number uid amount method invoice_id status =
     \<lparr>pay_id = i, pay_organization_id = None, pay_user_id = uid, pay_invoice_id = invoice_id,
      pay_payment_number = number, pay_amount = amount, pay_currency = ''KES'', pay_payment_method = method,
      pay_status = status, pay_transaction_id = None, pay_reference_number = None, pay_gateway_response = None,
      pay_mpesa_receipt_number = None, pay_mpesa_phone_number = None, pay_mpesa_transaction_date = None,
      pay_payment_date = Some now, pay_processed_date = None, pay_notes = None, pay_ip_address = None,
      pay_verified_by = None, pay_verified_at = None, pay_verification_notes = None,
      pay_disbursement_method = None, pay_disbursement_reference = None, pay_is_manual_payment = False,
      pay_recorded_by = None, pay_receipt_image_url = None, pay_created_at = now\<rparr>"

text \<open>The constraints of a new payment row that its arguments can break.\<close>

definition payment_row_ok :: "payment \<Rightarrow> db \<Rightarrow> bool" where
  "payment_row_ok p d \<longleftrightarrow>
     pay_user_id p \<in> usr_id ` set (users d) \<and>
     (case pay_invoice_id p of None \<Rightarrow> True | Some i \<Rightarrow> i \<in> inv_id ` set (invoices d)) \<and>
     pay_payment_number p \<notin> pay_payment_number ` set (payments d)"

definition insert_payment :: "payment \<Rightarrow> db \<Rightarrow> db" where
  "insert_payment p d = (add_payment p d)\<lparr>payment_seq := payment_seq d + 1\<rparr>"

definition create_payment ::
    "'dev sub_env \<Rightarrow> datetime \<Rightarrow> int \<Rightarrow> rat \<Rightarrow> PaymentMethod \<Rightarrow> int option \<Rightarrow> string option \<Rightarrow> string option
     \<Rightarrow> string option \<Rightarrow> bool \<Rightarrow> 'dev \<times> dbs \<Rightarrow> (exn + payment) \<times> 'dev \<times> dbs" where
  "create_payment env now uid amount method invoice_id transaction_id reference_number notes is_manual vs =
     (let (v, s) = vs;
          is_offline = (is_manual \<or> method = Cash \<or> method = BankTransfer);
          p = (new_payment now (payment_seq (cur s)) (generate_payment_number now (cur s)) uid amount method invoice_id
                 (if is_offline then PayCompleted else PayPending))
              \<lparr>pay_transaction_id := transaction_id, pay_reference_number := reference_number, pay_notes := notes,
               pay_is_manual_payment := is_offline, pay_processed_date := (if is_offline then Some now else None)\<rparr>
      in if \<not> payment_row_ok p (cur s)
         then (Inl (IntegrityError ''insert or update on table payments violates a constraint''), v, rollback s)
         else
           let s1 = commit (on_db (insert_payment p) s)
           in if is_offline \<and> truthy_int invoice_id
              then andthen (apply_payment_to_invoice env now (the invoice_id) amount (v, s1)) (\<lambda>_ vs1. (Inr p, vs1))
              else (Inr p, v, s1))"

text \<open>
  What the M-PESA service reports of a callback. The service has no method
  \<open>handle_payment_callback\<close>, so that looking it up raises; \<open>handle_mpesa_result\<close> is the rest of
  the handler, for any outcome of that call.
\<close>

record mpesa_result =
  mr_success :: bool
  mr_payment_successful :: bool
  mr_checkout_request_id :: "string option"
  mr_receipt_number :: "string option"
  mr_phone_number :: "string option"

definition handle_mpesa_result ::
    "'dev sub_env \<Rightarrow> datetime \<Rightarrow> exn + mpesa_result \<Rightarrow> 'dev \<times> dbs \<Rightarrow> (string + int) \<times> 'dev \<times> dbs" where
  "handle_mpesa_result env now outcome vs =
     (case outcome of
        Inl e \<Rightarrow> (Inl (exn_msg e), vs)
      | Inr r \<Rightarrow>
          if mr_success r \<and> mr_payment_successful r \<and> truthy (mr_checkout_request_id r) then
            (let (v, s) = vs
             in case scalar_one_or_none (filter (\<lambda>p. pay_reference_number p = mr_checkout_request_id r) (payments (cur s))) of
                  Inl e \<Rightarrow> (Inl (exn_msg e), v, s)
                | Inr None \<Rightarrow> (Inl ''Payment processing failed'', v, s)
                | Inr (Some p) \<Rightarrow>
                    let s1 = commit (on_db (upd_payment (pay_id p) (\<lambda>x. x\<lparr>pay_status := PayCompleted,
                          pay_mpesa_receipt_number := mr_receipt_number r, pay_mpesa_phone_number := mr_phone_number r,
                          pay_mpesa_transaction_date := Some now, pay_payment_date := Some now,
                          pay_processed_date := Some now\<rparr>)) s)
                    in if truthy_int (pay_invoice_id p)
                       then (case apply_payment_to_invoice env now (the (pay_invoice_id p)) (pay_amount p) (v, s1) of
                               (Inl e, vs1) \<Rightarrow> (Inl (exn_msg e), vs1)
                             | (Inr _, vs1) \<Rightarrow> (Inr (pay_id p), vs1))
                       else (Inr (pay_id p), v, s1))
          else (Inl ''Payment processing failed'', vs))"

definition handle_mpesa_callback ::
    "'dev sub_env \<Rightarrow> datetime \<Rightarrow> 'dev \<times> dbs \<Rightarrow> (string + int) \<times> 'dev \<times> dbs" where
  "handle_mpesa_callback env now vs =
     handle_mpesa_result env now
       (Inl (Exn ''AttributeError'' ''MpesaService object has no attribute handle_payment_callback'')) vs"

text \<open>
  Likewise \<open>initiate_payment\<close> is called with keyword arguments it does not have, which raises.
\<close>

definition process_mpesa_payment :: "dbs \<Rightarrow> (string + int) \<times> dbs" where
  "process_mpesa_payment s =
     (Inl ''MpesaService.initiate_payment() got an unexpected keyword argument phone_number'', s)"

section \<open>Card payments\<close>

definition gateway_fee :: "rat \<Rightarrow> rat" where
  "gateway_fee amount = min (amount * (15 / 1000) + 100) 2000"

definition process_paystack_success ::
    "'dev sub_env \<Rightarrow> datetime \<Rightarrow> payment_transaction \<Rightarrow> rat \<Rightarrow> datetime option \<Rightarrow> 'dev \<times> dbs
     \<Rightarrow> (exn + unit) \<times> 'dev \<times> dbs" where
  "process_paystack_success env now t amount paid_at vs =
     (let (v, s) = vs;
          fee = gateway_fee amount;
          done = (case paid_at of None \<Rightarrow> now | Some p \<Rightarrow> p);
          s1 = on_db (transactions_update (tbl_upd tx_id (tx_id t) (\<lambda>x. x\<lparr>tx_status := ''completed'',
                 tx_completed_at := Some done, tx_processed_at := Some now, tx_gateway_fee := numeric2 fee,
                 tx_net_amount := Some (numeric2 (amount - fee))\<rparr>))) s
      in case tx_user_id t of
           None \<Rightarrow> (Inl (IntegrityError ''null value in column user_id of relation payments''), v, rollback s1)
         | Some uid \<Rightarrow>
             let p = (new_payment now (payment_seq (cur s1)) (generate_payment_number now (cur s1)) uid amount Card
                        (tx_invoice_id t) PayCompleted)
                     \<lparr>pay_currency := tx_currency t, pay_reference_number := Some (tx_transaction_reference t),
                      pay_payment_date := Some done\<rparr>
             in if \<not> payment_row_ok p (cur s1)
                then (Inl (IntegrityError ''insert or update on table payments violates a constraint''), v, rollback s1)
                else
                  let s2 = on_db (insert_payment p) s1;
                      (r, v3, s3) = (if truthy_int (tx_invoice_id t)
                                     then apply_payment_to_invoice env now (the (tx_invoice_id t)) amount (v, s2)
                                     else (Inr (), v, s2))
                  in case r of
                       Inl e \<Rightarrow> (Inl e, v3, rollback s3)
                     | Inr _ \<Rightarrow>
                         let (v4, s4) = (if truthy_int (tx_subscription_id t)
                                         then activate_subscription_on_payment env now (the (tx_subscription_id t)) (v3, s3)
                                         else (v3, s3))
                         in (Inr (), v4, commit s4))"

text \<open>
  The payload of a webhook: amounts in hundredths; \<open>wd_paid_at\<close> is the outcome of parsing the
  time, when the key is there; \<open>wd_raw\<close> is the payload as stored.
\<close>

record webhook_data =
  wd_reference :: string
  wd_amount :: rat
  wd_paid_at :: "(exn + datetime) option"
  wd_gateway_response :: "string option"
  wd_reason :: "string option"
  wd_raw :: "string list"

definition handle_paystack_webhook ::
    "'dev sub_env \<Rightarrow> datetime \<Rightarrow> string \<Rightarrow> webhook_data \<Rightarrow> 'dev \<times> dbs \<Rightarrow> (bool \<times> string) \<times> 'dev \<times> dbs" where
  "handle_paystack_webhook env now event wd vs =
     (let (v, s) = vs
      in if wd_reference wd = [] then ((False, ''No reference in webhook data''), v, s)
         else case scalar_one_or_none (filter (\<lambda>t. tx_transaction_reference t = wd_reference wd) (transactions (cur s))) of
                Inl e \<Rightarrow> ((False, exn_msg e), v, s)
              | Inr None \<Rightarrow> ((False, ''Transaction not found''), v, s)
              | Inr (Some t) \<Rightarrow>
                  let upd = (\<lambda>f. on_db (transactions_update (tbl_upd tx_id (tx_id t) f)));
                      s1 = upd (\<lambda>x. x\<lparr>tx_callback_data := Some (event, wd_raw wd)\<rparr>) s
                  in if event = ''charge.success'' then
                       (case wd_paid_at wd of
                          Some (Inl e) \<Rightarrow> ((False, exn_msg e), v, s1)
                        | _ \<Rightarrow>
                            (case process_paystack_success env now t (wd_amount wd / 100)
                                (case wd_paid_at wd of Some (Inr p) \<Rightarrow> Some p | _ \<Rightarrow> None) (v, s1) of
                               (Inl e, vs2) \<Rightarrow> ((False, exn_msg e), vs2)
                             | (Inr _, vs2) \<Rightarrow> ((True, ''Payment processed successfully''), vs2)))
                     else if event = ''charge.failed'' then
                       ((True, ''Payment failure recorded''), v,
                        commit (upd (\<lambda>x. x\<lparr>tx_status := ''failed'',
                          tx_status_message := Some (case wd_gateway_response wd of None \<Rightarrow> ''Payment failed'' | Some m \<Rightarrow> m)\<rparr>) s1))
                     else if event = ''transfer.success'' then
                       ((True, ''Transfer success recorded''), v,
                        commit (upd (\<lambda>x. x\<lparr>tx_status := ''completed'', tx_completed_at := Some now,
                          tx_status_message := None\<rparr>) s1))
                     else if event = ''transfer.failed'' then
                       ((True, ''Transfer failed recorded''), v,
                        commit (upd (\<lambda>x. x\<lparr>tx_status := ''failed'', tx_completed_at := None,
                          tx_status_message := Some (case wd_reason wd of None \<Rightarrow> [] | Some m \<Rightarrow> m)\<rparr>) s1))
                     else ((True, ''Event '' @ event @ '' acknowledged''), v, s1))"

section \<open>Queries and statistics\<close>

definition get_user_payment_history :: "int \<Rightarrow> nat \<Rightarrow> db \<Rightarrow> payment list" where
  "get_user_payment_history uid limit d =
     take limit (order_by (\<lambda>p. - pay_created_at p) (filter (\<lambda>p. pay_user_id p = uid) (payments d)))"

definition get_overdue_invoices :: "datetime \<Rightarrow> int option \<Rightarrow> db \<Rightarrow> invoice list" where
  "get_overdue_invoices now org d =
     filter (\<lambda>i. inv_status i = InvPending \<and> inv_due_date i < now \<and>
       (truthy_int org \<longrightarrow> inv_organization_id i = org)) (invoices d)"

record billing_stats =
  bs_total_invoices :: nat
  bs_paid_invoices :: nat
  bs_pending_invoices :: nat
  bs_overdue_invoices :: nat
  bs_total_revenue :: rat
  bs_pending_revenue :: rat
  bs_collection_rate :: rat

definition get_billing_stats :: "int option \<Rightarrow> db \<Rightarrow> billing_stats" where
  "get_billing_stats org d =
     (let mine = filter (\<lambda>i. truthy_int org \<longrightarrow> inv_organization_id i = org) (invoices d);
          of_status = (\<lambda>P. filter (\<lambda>i. P (inv_status i)) mine);
          total_invoices = length mine;
          paid_invoices = length (of_status (\<lambda>st. st = InvPaid))
      in \<lparr>bs_total_invoices = total_invoices, bs_paid_invoices = paid_invoices,
          bs_pending_invoices = length (of_status (\<lambda>st. st = InvPending)),
          bs_overdue_invoices = length (of_status (\<lambda>st. st = InvOverdue)),
          bs_total_revenue = sum_list (map inv_paid_amount (of_status (\<lambda>st. st = InvPaid))),
          bs_pending_revenue = sum_list (map inv_total_amount (of_status (\<lambda>st. st = InvPending \<or> st = InvOverdue))),
          bs_collection_rate =
            (if total_invoices > 0 then of_nat paid_invoices / of_nat total_invoices * 100 else 0)\<rparr>)"

record payment_statistics =
  ps_total_payments :: nat
  ps_successful_payments :: nat
  ps_failed_payments :: nat
  ps_pending_payments :: nat
  ps_total_amount :: rat
  ps_mpesa_payments :: nat
  ps_cash_payments :: nat
  ps_bank_transfer_payments :: nat
  ps_daily_earnings :: rat
  ps_weekly_earnings :: rat
  ps_monthly_earnings :: rat

definition get_payment_statistics :: "datetime \<Rightarrow> int option \<Rightarrow> db \<Rightarrow> payment_statistics" where
  "get_payment_statistics now org d =
     (let today_start = now div 86400000000 * 86400000000;
          mine = filter (\<lambda>p. truthy_int org \<longrightarrow> pay_organization_id p = org) (payments d);
          count = (\<lambda>P. length (filter P mine));
          completed = filter (\<lambda>p. pay_status p = PayCompleted) mine;
          earned = (\<lambda>t0. sum_list (map pay_amount (filter (\<lambda>p. pay_created_at p \<ge> t0) completed)))
      in \<lparr>ps_total_payments = length mine,
          ps_successful_payments = count (\<lambda>p. pay_status p = PayCompleted),
          ps_failed_payments = count (\<lambda>p. pay_status p = PayFailed),
          ps_pending_payments = count (\<lambda>p. pay_status p = PayPending),
          ps_total_amount = sum_list (map pay_amount completed),
          ps_mpesa_payments = count (\<lambda>p. pay_payment_method p = Mpesa \<and> pay_status p = PayCompleted),
          ps_cash_payments = count (\<lambda>p. pay_payment_method p = Cash \<and> pay_status p = PayCompleted),
          ps_bank_transfer_payments = count (\<lambda>p. pay_payment_method p = BankTransfer \<and> pay_status p = PayCompleted),
          ps_daily_earnings = earned today_start,
          ps_weekly_earnings = earned (today_start - days 7),
          ps_monthly_earnings = earned (today_start - days 30)\<rparr>)"

definition is_overdue :: "datetime \<Rightarrow> invoice \<Rightarrow> bool" where
  "is_overdue now i \<longleftrightarrow> inv_status i = InvPending \<and> inv_due_date i < now"

definition is_fully_paid :: "invoice \<Rightarrow> bool" where
  "is_fully_paid i \<longleftrightarrow> inv_paid_amount i \<ge> inv_total_amount i"

section \<open>Payments settle invoices\<close>

lemma credit_simps [simp]:
  "inv_id (credit t a x) = inv_id x" "inv_total_amount (credit t a x) = inv_total_amount x"
  "inv_paid_amount (credit t a x) = inv_paid_amount x + a"
  "inv_balance (credit t a x) = inv_total_amount x - (inv_paid_amount x + a)"
  "inv_subscription_id (credit t a x) = inv_subscription_id x"
  "inv_status (credit t a x) =
     (if inv_total_amount x \<le> inv_paid_amount x + a then InvPaid else inv_status x)"
  by (auto simp: credit_def Let_def)

text \<open>
  The contract of the operations that settle an invoice: each valid one credits the amount it
  stands for. Whatever their order, the invoice then has received the sum, and it is paid
  exactly when the sum covers its total.
\<close>

locale invoice_ledger =
  fixes pay_op :: "'op \<Rightarrow> 's \<Rightarrow> 's"
    and amount_of :: "'op \<Rightarrow> rat"
    and row :: "'s \<Rightarrow> invoice option"
    and ok :: "'s \<Rightarrow> bool"
    and valid :: "'op \<Rightarrow> bool"
  assumes op_keeps: "ok s \<Longrightarrow> valid x \<Longrightarrow> ok (pay_op x s)"
    and op_credits: "ok s \<Longrightarrow> valid x \<Longrightarrow> row s = Some r \<Longrightarrow> \<exists>t. row (pay_op x s) = Some (credit t (amount_of x) r)"
begin

lemma ledger:
  assumes "ok s" "row s = Some r" "\<forall>x \<in> set xs. valid x"
  shows "ok (fold pay_op xs s) \<and> (\<exists>y. row (fold pay_op xs s) = Some y
    \<and> inv_total_amount y = inv_total_amount r
    \<and> inv_paid_amount y = inv_paid_amount r + sum_list (map amount_of xs)
    \<and> inv_subscription_id y = inv_subscription_id r
    \<and> (xs \<noteq> [] \<longrightarrow> inv_balance y = inv_total_amount r - inv_paid_amount y)
    \<and> ((\<forall>x \<in> set xs. amount_of x > 0) \<and> xs \<noteq> [] \<longrightarrow>
         inv_status y = (if inv_total_amount r \<le> inv_paid_amount y then InvPaid else inv_status r)))"
  using assms(3)
proof (induction xs rule: rev_induct)
  case Nil
  then show ?case using assms(1,2) by simp
next
  case (snoc x xs)
  then obtain y where y: "ok (fold pay_op xs s)" "row (fold pay_op xs s) = Some y"
      "inv_total_amount y = inv_total_amount r" "inv_paid_amount y = inv_paid_amount r + sum_list (map amount_of xs)"
      "inv_subscription_id y = inv_subscription_id r"
      "(\<forall>x \<in> set xs. amount_of x > 0) \<and> xs \<noteq> [] \<longrightarrow>
         inv_status y = (if inv_total_amount r \<le> inv_paid_amount y then InvPaid else inv_status r)"
    by auto
  obtain t where t: "row (pay_op x (fold pay_op xs s)) = Some (credit t (amount_of x) y)"
    using op_credits [OF y(1) _ y(2)] snoc.prems by auto
  have "inv_status (credit t (amount_of x) y) =
      (if inv_total_amount r \<le> inv_paid_amount y + amount_of x then InvPaid else inv_status r)"
    if "\<forall>z \<in> set (xs @ [x]). amount_of z > 0"
  proof (cases "xs = []")
    case True
    then have "row s = Some y" using y(2) by simp
    then have "inv_status y = inv_status r" using assms(2) by simp
    with y(3) show ?thesis by simp
  next
    case False
    with y(6) that have "inv_status y = (if inv_total_amount r \<le> inv_paid_amount y then InvPaid else inv_status r)" by simp
    moreover have "amount_of x > 0" using that by simp
    ultimately show ?thesis using y(3) by simp
  qed
  then show ?case using t y op_keeps [OF y(1)] snoc.prems by (auto simp: add.assoc)
qed

end

lemma tbl_get_upd_const:
  "key y = k \<Longrightarrow> tbl_get key k (tbl_upd key k (\<lambda>_. y) t) = map_option (\<lambda>_. y) (tbl_get key k t)"
  by (induction t) (auto simp: tbl_upd_def table_simps)

lemma sync_invoices:
  assumes "sync_subscription_to_router uuid exec connect now q fc (v, s) = (res, v', s')"
  shows "invoices (cur s') = invoices (cur s)" "payments (cur s') = payments (cur s)"
proof -
  have "invoices (cur s1) = invoices (cur s) \<and> payments (cur s1) = payments (cur s)"
    if "sync_via_agent_queue uuid now q r p fc s = (x, s1)" for r p x s1
    using that by (auto simp: sync_via_agent_queue_def queue_command_def Let_def row_defs split: if_splits)
  with assms show "invoices (cur s') = invoices (cur s)" "payments (cur s') = payments (cur s)"
    by (fastforce simp: sync_subscription_to_router_def Let_def row_defs split: option.splits if_splits prod.splits)+
qed

lemma activate_on_payment_invoices:
  "invoices (cur (snd (activate_subscription_on_payment env now sid (v, s)))) = invoices (cur s)"
  "payments (cur (snd (activate_subscription_on_payment env now sid (v, s)))) = payments (cur s)"
proof -
  let ?f = "\<lambda>x. x\<lparr>sub_status := SubActive, sub_is_router_synced := False\<rparr>"
  let ?s1 = "commit (on_db (upd_subscription sid ?f) s)"
  have "invoices (cur (snd (snd (sync_subscription_to_router (env_uuid env) (env_exec env) (env_connect env) now q False (v, ?s1))))) = invoices (cur s)
      \<and> payments (cur (snd (snd (sync_subscription_to_router (env_uuid env) (env_exec env) (env_connect env) now q False (v, ?s1))))) = payments (cur s)" for q
  proof -
    obtain res v' s' where st: "sync_subscription_to_router (env_uuid env) (env_exec env) (env_connect env) now q False (v, ?s1) = (res, v', s')"
      by (metis surj_pair)
    show ?thesis unfolding st using sync_invoices [OF st] by (simp add: row_defs)
  qed
  then show "invoices (cur (snd (activate_subscription_on_payment env now sid (v, s)))) = invoices (cur s)"
    "payments (cur (snd (activate_subscription_on_payment env now sid (v, s)))) = payments (cur s)"
    by (simp_all add: activate_subscription_on_payment_def Let_def split: option.splits)
qed

definition invoice_row :: "int \<Rightarrow> 'dev \<times> dbs \<Rightarrow> invoice option" where
  "invoice_row i vs = tbl_get inv_id i (invoices (cur (snd vs)))"

definition apply_amount :: "'dev sub_env \<Rightarrow> datetime \<Rightarrow> int \<Rightarrow> rat \<Rightarrow> 'dev \<times> dbs \<Rightarrow> 'dev \<times> dbs" where
  "apply_amount env now i a vs = snd (apply_payment_to_invoice env now i a vs)"

lemma apply_amount_row:
  assumes "0 < i" "invoice_row i vs = Some r"
  shows "invoice_row i (apply_amount env now i a vs) = Some (credit now a r)"
proof -
  obtain v s where vs: "vs = (v, s)" by fastforce
  have id: "inv_id (credit now a r) = i" using assms(2) by (auto simp: invoice_row_def)
  have "tbl_get inv_id i (tbl_upd inv_id i (\<lambda>_. credit now a r) (invoices (cur s))) = Some (credit now a r)"
    using tbl_get_upd_const [of inv_id "credit now a r" i "invoices (cur s)", OF id] assms(2) by (simp add: invoice_row_def vs)
  then show ?thesis
    using assms
    by (simp add: activate_on_payment_invoices vs apply_amount_def apply_payment_to_invoice_def get_invoice_by_id_def invoice_row_def
        Let_def row_defs)
qed

interpretation billing_ledger: invoice_ledger "apply_amount env now i" "\<lambda>a. a" "invoice_row i" "\<lambda>_. 0 < i" "\<lambda>_. True"
    for env :: "'dev sub_env" and now i
  by unfold_locales (auto intro: apply_amount_row)

text \<open>
  C4. Positive payments applied to an invoice one after the other, in any number and order,
  with any subscriptions and routers behind it: its paid amount grows by exactly their sum,
  its balance is the total less the paid amount (negative after an overpayment), and an
  invoice that was not paid before is paid afterwards exactly when the payments cover the
  total.
\<close>

theorem payments_settle_invoice:
  assumes "0 < i" "tbl_get inv_id i (invoices (cur s)) = Some r" "\<forall>a \<in> set amounts. 0 < a" "amounts \<noteq> []"
    "fold (\<lambda>a vs. snd (apply_payment_to_invoice env now i a vs)) amounts (v, s) = (v', s')"
  shows "\<exists>y. tbl_get inv_id i (invoices (cur s')) = Some y
    \<and> inv_paid_amount y = inv_paid_amount r + sum_list amounts
    \<and> inv_balance y = inv_total_amount y - inv_paid_amount y \<and> inv_total_amount y = inv_total_amount r
    \<and> (inv_status r \<noteq> InvPaid \<longrightarrow> (inv_status y = InvPaid \<longleftrightarrow> inv_total_amount r \<le> inv_paid_amount y))"
proof -
  have op: "apply_amount env now i = (\<lambda>a vs. snd (apply_payment_to_invoice env now i a vs))"
    by (simp add: apply_amount_def fun_eq_iff)
  have "invoice_row i (v, s) = Some r" using assms(2) by (simp add: invoice_row_def)
  from billing_ledger.ledger [of i "(v, s)" r amounts env now, OF assms(1) this] assms(3-5)
  show ?thesis by (auto simp: op invoice_row_def)
qed

section \<open>A settled invoice activates its subscription\<close>

lemma activate_on_payment_served:
  assumes "tbl_get sub_id sid (subscriptions (cur s)) = Some q" "sub_status q \<noteq> SubActive" "agent_served (cur s) q"
    "activate_subscription_on_payment env now sid (v, s) = (v', s')"
  shows "v' = v \<and> saved s' = cur s'
    \<and> subscriptions (cur s') = tbl_upd sub_id sid (\<lambda>x. x\<lparr>sub_status := SubActive, sub_is_router_synced := False\<rparr>) (subscriptions (cur s))
    \<and> (\<exists>c. commands (cur s') = commands (cur s) @ [c]
          \<and> sync_command_of (q\<lparr>sub_status := SubActive, sub_is_router_synced := False\<rparr>) c)"
proof -
  let ?f = "\<lambda>x. x\<lparr>sub_status := SubActive, sub_is_router_synced := False\<rparr>"
  let ?s1 = "commit (on_db (upd_subscription sid ?f) s)"
  have "agent_served (cur ?s1) (?f q)"
    using assms(3) by (simp add: agent_served_def row_defs cong: option.case_cong)
  from sync_agent_served [OF this, of "env_uuid env" "env_exec env" "env_connect env" now False v]
  obtain r p where r: "rt_id r = sub_router_id (?f q)"
    and eq: "sync_subscription_to_router (env_uuid env) (env_exec env) (env_connect env) now (?f q) False (v, ?s1) =
       (let (res, s1) = sync_via_agent_queue (env_uuid env) now (?f q) r p False ?s1 in (res, v, s1))" by blast
  obtain res s2 where g: "sync_via_agent_queue (env_uuid env) now (?f q) r p False ?s1 = (res, s2)" by fastforce
  have out: "v' = v" "s' = s2"
    using assms(1,2,4) by (simp_all add: activate_subscription_on_payment_def Let_def eq g)
  note e = sync_via_agent_queue_effects [OF g]
  show ?thesis
    using out e(2,3) e(7) [OF _ r] by (auto simp: row_defs)
qed

text \<open>
  C5. The payment that settles an invoice provisions the customer: the invoice is paid, the
  subscription behind it becomes active and a \<open>create_user\<close> command for its router is queued,
  all committed; a subscription that is active already is left alone and nothing is queued,
  and neither happens while a balance is left.
\<close>

theorem settling_payment_activates_subscription:
  assumes "0 < i" "tbl_get inv_id i (invoices (cur s)) = Some r" "inv_subscription_id r = Some sid" "sid \<noteq> 0"
    "tbl_get sub_id sid (subscriptions (cur s)) = Some q" "agent_served (cur s) q"
    "apply_payment_to_invoice env now i a (v, s) = (x, v', s')"
  shows "x = Inr () \<and> v' = v \<and> tbl_get inv_id i (invoices (saved s')) = Some (credit now a r)
    \<and> (if inv_paid_amount r + a \<ge> inv_total_amount r \<and> sub_status q \<noteq> SubActive
       then tbl_get sub_id sid (subscriptions (saved s')) = Some (q\<lparr>sub_status := SubActive, sub_is_router_synced := False\<rparr>)
         \<and> (\<exists>c. commands (saved s') = commands (cur s) @ [c]
              \<and> sync_command_of (q\<lparr>sub_status := SubActive, sub_is_router_synced := False\<rparr>) c)
       else subscriptions (saved s') = subscriptions (cur s) \<and> commands (saved s') = commands (cur s))"
proof -
  let ?s1 = "commit (on_db (upd_invoice i (\<lambda>_. credit now a r)) s)"
  have ap: "(x, v', s') = (Inr (), if inv_total_amount r \<le> inv_paid_amount r + a
      then activate_subscription_on_payment env now sid (v, ?s1) else (v, ?s1))"
    using assms(1-4,7)
    by (auto simp: apply_payment_to_invoice_def get_invoice_by_id_def Let_def split: if_splits)
  have id: "inv_id (credit now a r) = i" using assms(2) by auto
  have row1: "tbl_get inv_id i (invoices (cur ?s1)) = Some (credit now a r)"
    using tbl_get_upd_const [of inv_id "credit now a r" i "invoices (cur s)", OF id] assms(2) by (simp add: row_defs)
  have sub1: "tbl_get sub_id sid (subscriptions (cur ?s1)) = Some q" using assms(5) by (simp add: row_defs)
  have same1: "subscriptions (cur ?s1) = subscriptions (cur s)" "commands (cur ?s1) = commands (cur s)"
    by (simp_all add: row_defs)
  have served1: "agent_served (cur ?s1) q"
    using assms(6) by (simp add: agent_served_def row_defs cong: option.case_cong)
  consider (due) "\<not> inv_total_amount r \<le> inv_paid_amount r + a"
    | (active) "inv_total_amount r \<le> inv_paid_amount r + a" "sub_status q = SubActive"
    | (new) "inv_total_amount r \<le> inv_paid_amount r + a" "sub_status q \<noteq> SubActive" by blast
  then show ?thesis
  proof cases
    case due
    with ap row1 same1 show ?thesis by simp
  next
    case active
    then have "activate_subscription_on_payment env now sid (v, ?s1) = (v, ?s1)"
      using sub1 by (simp add: activate_subscription_on_payment_def)
    with active ap row1 same1 show ?thesis by simp
  next
    case new
    then have act: "activate_subscription_on_payment env now sid (v, ?s1) = (v', s')" using ap by simp
    note a = activate_on_payment_served [OF sub1 new(2) served1 act]
    have "invoices (cur s') = invoices (cur ?s1)"
      using activate_on_payment_invoices(1) [of env now sid v ?s1] unfolding act by simp
    with a new ap row1 same1 assms(5) show ?thesis by (auto simp: tbl_get_tbl_upd)
  qed
qed

section \<open>Numbering\<close>

text \<open>
  Numbers of one kind: each is \<open>pre\<close>, a month and a counter, and within a month the counters are
  at most the number of rows of that month. The months have six digits, that is, the years
  have four.
\<close>

definition four_digit_year :: "datetime \<Rightarrow> bool" where
  "four_digit_year t \<longleftrightarrow> length (year_month t) = 6"

definition month_count :: "string \<Rightarrow> datetime \<Rightarrow> string list \<Rightarrow> nat" where
  "month_count pre t ns = length (filter (prefix (pre @ year_month t)) ns)"

definition numbers_ok :: "string \<Rightarrow> string list \<Rightarrow> bool" where
  "numbers_ok pre ns \<longleftrightarrow>
     distinct ns \<and>
     (\<forall>n \<in> set ns. \<exists>t k. four_digit_year t \<and> n = numbered pre t k \<and> k \<le> month_count pre t ns)"

lemma numbered_prefix: "prefix (pre @ year_month t) (numbered pre t k)"
  by (simp add: numbered_def)

lemma numbered_same:
  assumes "numbered pre t k = numbered pre t' k'" "four_digit_year t" "four_digit_year t'"
  shows "year_month t = year_month t' \<and> k = k'"
proof -
  have "year_month t = year_month t' \<and> zfill 4 (str_nat k) = zfill 4 (str_nat k')"
    using assms by (simp add: numbered_def four_digit_year_def append_eq_append_conv)
  then show ?thesis using zfill_inj by blast
qed

text \<open>The next number is new, and the numbers stay in order.\<close>

lemma next_number:
  assumes "numbers_ok pre ns" "four_digit_year now" "n = numbered pre now (month_count pre now ns + 1)"
  shows "n \<notin> set ns \<and> numbers_ok pre (ns @ [n])"
proof -
  have new: "n \<notin> set ns"
  proof
    assume "n \<in> set ns"
    then obtain t k where "four_digit_year t" "n = numbered pre t k" "k \<le> month_count pre t ns"
      using assms(1) unfolding numbers_ok_def by blast
    with numbered_same [of pre t k now "month_count pre now ns + 1"] assms(2,3)
    show False by (simp add: month_count_def)
  qed
  have grow: "month_count pre t ns \<le> month_count pre t (ns @ [n])" for t by (simp add: month_count_def)
  have last: "month_count pre now (ns @ [n]) = month_count pre now ns + 1"
    using numbered_prefix [of pre now] by (simp add: month_count_def assms(3))
  have "\<exists>t k. four_digit_year t \<and> m = numbered pre t k \<and> k \<le> month_count pre t (ns @ [n])"
    if "m \<in> set (ns @ [n])" for m
  proof (cases "m \<in> set ns")
    case True
    then obtain t k where "four_digit_year t" "m = numbered pre t k" "k \<le> month_count pre t ns"
      using assms(1) unfolding numbers_ok_def by blast
    with grow [of t] show ?thesis by (intro exI [of _ t] exI [of _ k]) simp
  next
    case False
    with that have "m = n" by simp
    with assms(2,3) last show ?thesis by (metis order_refl)
  qed
  moreover have "distinct (ns @ [n])" using assms(1) new by (simp add: numbers_ok_def)
  ultimately show ?thesis using new unfolding numbers_ok_def by blast
qed

lemma update_totals_frame:
  "map inv_invoice_number (invoices (cur (snd (update_invoice_totals i s)))) = map inv_invoice_number (invoices (cur s))"
  "map inv_id (invoices (cur (snd (update_invoice_totals i s)))) = map inv_id (invoices (cur s))"
  by (auto simp: update_invoice_totals_def Let_def row_defs tbl_upd_def split: sum.splits option.splits)

lemma andthen_const: "snd (andthen m (\<lambda>_ s. (Inr c, s))) = snd m"
  by (rule snd_andthen_pure)

lemma add_item_frame:
  assumes "i \<in> inv_id ` set (invoices (cur s))"
  shows "map inv_invoice_number (invoices (cur (snd (add_invoice_item i d q u t s)))) = map inv_invoice_number (invoices (cur s))
    \<and> map inv_id (invoices (cur (snd (add_invoice_item i d q u t s)))) = map inv_id (invoices (cur s))
    \<and> (\<forall>e. fst (add_invoice_item i d q u t s) = Inl e \<longrightarrow> exn_class e = ''BillingError'')"
proof -
  have "tbl_get inv_id i (invoices (cur s)) \<noteq> None" using assms by (simp add: tbl_get_None)
  then show ?thesis
    by (auto simp: add_invoice_item_def Let_def andthen_const update_totals_frame)
      (auto simp: andthen_def update_invoice_totals_def get_invoice_by_id_def Let_def
        split: sum.splits option.splits prod.splits if_splits)
qed

lemma add_items_frame:
  "i \<in> inv_id ` set (invoices (cur s)) \<Longrightarrow>
    map inv_invoice_number (invoices (cur (snd (add_items i its s)))) = map inv_invoice_number (invoices (cur s))
    \<and> (\<forall>e. fst (add_items i its s) = Inl e \<longrightarrow> exn_class e = ''BillingError'')"
proof (induction i its s rule: add_items.induct)
  case (2 i d q u t its s)
  obtain x s1 where a: "add_invoice_item i d q u (Some t) s = (x, s1)" by fastforce
  note f = add_item_frame [OF 2(2), of d q u "Some t"]
  have "i \<in> inv_id ` set (invoices (cur s1))"
    using f a 2(2) by (metis list.set_map snd_conv)
  with 2(1) [of s1] f a show ?case by (cases x) auto
qed simp

text \<open>
  C8. Invoice numbers are consecutive within a month and never collide: when the numbers in the
  table are in order (as they are in an empty table), creating an invoice never fails on the
  unique constraint, and the numbers are in order again; a new invoice gets a number that no
  other invoice has.
\<close>

theorem invoice_numbers_never_collide:
  assumes "numbers_ok ''INV-'' (map inv_invoice_number (invoices (cur s)))" "four_digit_year now"
    "create_invoice now uid st sub tax disc ps pe notes items s = (x, s')"
  shows "(\<forall>e. x = Inl e \<longrightarrow> exn_class e \<noteq> ''IntegrityError'')
    \<and> numbers_ok ''INV-'' (map inv_invoice_number (invoices (cur s')))
    \<and> (map inv_invoice_number (invoices (cur s')) = map inv_invoice_number (invoices (cur s))
       \<or> map inv_invoice_number (invoices (cur s')) =
           map inv_invoice_number (invoices (cur s)) @ [generate_invoice_number now (cur s)])"
proof -
  let ?ns = "map inv_invoice_number (invoices (cur s))"
  let ?n = "generate_invoice_number now (cur s)"
  have "?n = numbered ''INV-'' now (month_count ''INV-'' now ?ns + 1)"
    by (simp add: generate_invoice_number_def month_count_def filter_map comp_def)
  from next_number [OF assms(1,2) this] have n: "?n \<notin> inv_invoice_number ` set (invoices (cur s))"
    "numbers_ok ''INV-'' (?ns @ [?n])" by simp_all
  consider (early) e where "x = Inl e" "s' = s" "exn_class e = ''ValidationError''"
    | (late) y s1 r where "add_items (invoice_seq (cur s)) items s1 = (y, s')"
        "invoices (cur s1) = invoices (cur s) @ [r]" "inv_id r = invoice_seq (cur s)" "inv_invoice_number r = ?n"
        "\<forall>e. x = Inl e \<longrightarrow> y = Inl e"
    using assms(3) n(1)
    by (auto simp: create_invoice_def Let_def row_defs andthen_def
        split: if_splits option.splits sum.splits prod.splits)
  then show ?thesis
  proof cases
    case early
    with assms(1) show ?thesis by simp
  next
    case late
    have "invoice_seq (cur s) \<in> inv_id ` set (invoices (cur s1))" using late(2,3) by force
    from add_items_frame [OF this, of items] late n(2) show ?thesis by auto
  qed
qed

section \<open>The billing cycle\<close>

lemma generate_subscription_invoice_state: "snd (generate_subscription_invoice sid s) = s"
  by (simp add: generate_subscription_invoice_def split: option.splits)

lemma billing_cycle_step_state: "snd (billing_cycle_step q s) = s"
  using generate_subscription_invoice_state [of "sub_id q" s]
  by (auto simp: billing_cycle_step_def Let_def split: sum.splits option.splits prod.splits)

lemma billing_cycle_batch:
  "run_batch billing_cycle_step qs s = (map (\<lambda>q. fst (billing_cycle_step q s)) qs, s)"
  by (induction qs)
    (simp_all add: prod_eq_iff run_batch_Cons billing_cycle_step_state del: run_batch.simps(2))

text \<open>
   The billing cycle never bills anyone: for every tenant and every database in which the
  users of the subscriptions exist, generating the invoices of the cycle creates none and
  leaves the session as it is; each active, auto-renewing subscription without an open invoice
  ends up in the list of errors instead.
\<close>

theorem billing_cycle_creates_no_invoice:
  assumes "\<forall>q \<in> set (subscriptions (cur s)). sub_user_id q \<in> usr_id ` set (users (cur s))"
    "uniq sub_id (subscriptions (cur s))" "generate_billing_cycle_invoices org s = (res, s')"
  shows "s' = s \<and> cy_invoices_created res = 0
    \<and> (\<forall>q \<in> set (subscriptions (cur s)). sub_status q = SubActive \<and> sub_is_auto_renewal q
          \<and> (truthy_int org \<longrightarrow> sub_organization_id q = org)
          \<and> Some (sub_id q) \<notin> inv_subscription_id ` set (invoices (cur s)) \<longrightarrow>
        (\<exists>m \<in> set (cy_errors res). prefix (''Subscription '' @ str_int (sub_id q) @ '': '') m))"
proof -
  let ?qs = "filter (\<lambda>q. sub_status q = SubActive \<and> sub_is_auto_renewal q \<and>
            (truthy_int org \<longrightarrow> sub_organization_id q = org)) (subscriptions (cur s))"
  have gen: "\<exists>e. generate_subscription_invoice (sub_id q) s = (Inl e, s)" if "q \<in> set (subscriptions (cur s))" for q
  proof -
    have "tbl_get usr_id (sub_user_id q) (users (cur s)) \<noteq> None" using assms(1) that by (simp add: tbl_get_None)
    then show ?thesis
      using uniq_tbl_get [OF assms(2) that] by (auto simp: generate_subscription_invoice_def)
  qed
  have none: "\<not> fst (fst (billing_cycle_step q s))" if "q \<in> set (subscriptions (cur s))" for q
    using gen [OF that] by (auto simp: billing_cycle_step_def Let_def split: sum.splits option.splits)
  have err: "\<exists>m. snd (fst (billing_cycle_step q s)) = Some m \<and> prefix (''Subscription '' @ str_int (sub_id q) @ '': '') m"
    if "q \<in> set (subscriptions (cur s))" "Some (sub_id q) \<notin> inv_subscription_id ` set (invoices (cur s))" for q
  proof -
    have "filter (\<lambda>i. inv_subscription_id i = Some (sub_id q) \<and>
        (inv_status i = InvDraft \<or> inv_status i = InvPending \<or> inv_status i = InvPaid)) (invoices (cur s)) = []"
      using that(2) by (force simp: filter_empty_conv)
    then show ?thesis using gen [OF that(1)] by (auto simp: billing_cycle_step_def Let_def)
  qed
  have res: "s' = s" "cy_invoices_created res = length (filter fst (map (\<lambda>q. fst (billing_cycle_step q s)) ?qs))"
    "cy_errors res = List.map_filter snd (map (\<lambda>q. fst (billing_cycle_step q s)) ?qs)"
    using assms(3) by (auto simp: generate_billing_cycle_invoices_def Let_def billing_cycle_batch)
  have "cy_invoices_created res = 0" using none by (simp add: res(2) filter_empty_conv)
  moreover have "\<exists>m \<in> set (cy_errors res). prefix (''Subscription '' @ str_int (sub_id q) @ '': '') m"
    if "q \<in> set ?qs" "Some (sub_id q) \<notin> inv_subscription_id ` set (invoices (cur s))" for q
  proof -
    have "q \<in> set (subscriptions (cur s))" using that(1) by simp
    from err [OF this that(2)]
    obtain m where "snd (fst (billing_cycle_step q s)) = Some m" "prefix (''Subscription '' @ str_int (sub_id q) @ '': '') m"
      by blast
    with that(1) show ?thesis by (force simp: res(3) List.map_filter_def)
  qed
  ultimately show ?thesis using res(1) by auto
qed

section \<open>Fees and items\<close>

lemma numeric2_close: "\<bar>numeric2 x - x\<bar> \<le> 1 / 200"
proof (cases "x < 0")
  case True
  define k where "k = (of_int \<lfloor>- x * 100 + 1 / 2\<rfloor> :: rat)"
  have "k \<le> - x * 100 + 1 / 2" "- x * 100 + 1 / 2 < k + 1" unfolding k_def by linarith+
  moreover have "numeric2 x = - k / 100" using True by (simp add: numeric2_def k_def)
  ultimately show ?thesis unfolding abs_le_iff by linarith
next
  case False
  define k where "k = (of_int \<lfloor>x * 100 + 1 / 2\<rfloor> :: rat)"
  have "k \<le> x * 100 + 1 / 2" "x * 100 + 1 / 2 < k + 1" unfolding k_def by linarith+
  moreover have "numeric2 x = k / 100" using False by (simp add: numeric2_def k_def)
  ultimately show ?thesis unfolding abs_le_iff by linarith
qed

lemma numeric2_mono_bounds: "0 \<le> a \<Longrightarrow> of_int a \<le> x \<Longrightarrow> x \<le> of_int b \<Longrightarrow> of_int a \<le> numeric2 x \<and> numeric2 x \<le> of_int b"
proof -
  assume a: "0 \<le> a" "of_int a \<le> x" "x \<le> of_int b"
  then have x: "\<not> x < 0" by (meson le_less_trans not_less of_int_0_le_iff)
  have "of_int (a * 100) \<le> x * 100 + 1 / 2" using a(2) by simp
  then have l: "a * 100 \<le> \<lfloor>x * 100 + 1 / 2\<rfloor>" by (simp only: le_floor_iff)
  have "x * 100 + 1 / 2 < of_int (b * 100) + 1" using a(3) by simp
  then have u: "\<lfloor>x * 100 + 1 / 2\<rfloor> \<le> b * 100" by linarith
  from l u have "(of_int (a * 100) :: rat) \<le> of_int \<lfloor>x * 100 + 1 / 2\<rfloor>" "(of_int \<lfloor>x * 100 + 1 / 2\<rfloor> :: rat) \<le> of_int (b * 100)"
    by (simp_all only: of_int_le_iff)
  with x show ?thesis by (simp add: numeric2_def)
qed

text \<open>
   The fee recorded for a card payment lies between 100 and 2000 for every amount that is
  not negative, and fee and net amount, which are rounded separately, add up to the payment
  only to within a cent; the net amount is negative for payments below about 101.52.
\<close>

theorem fee_and_net_within_a_cent:
  assumes "0 \<le> amount"
  shows "100 \<le> numeric2 (gateway_fee amount) \<and> numeric2 (gateway_fee amount) \<le> 2000
    \<and> \<bar>numeric2 (gateway_fee amount) + numeric2 (amount - gateway_fee amount) - amount\<bar> \<le> 1 / 100
    \<and> (amount < 101 \<longrightarrow> numeric2 (amount - gateway_fee amount) < 0)"
proof -
  let ?f = "gateway_fee amount"
  have f: "of_int 100 \<le> ?f" "?f \<le> of_int 2000" using assms by (simp_all add: gateway_fee_def)
  note b = numeric2_mono_bounds [OF _ f]
  have c: "\<bar>numeric2 ?f - ?f\<bar> \<le> 1 / 200" "\<bar>numeric2 (amount - ?f) - (amount - ?f)\<bar> \<le> 1 / 200"
    by (rule numeric2_close)+
  then have "\<bar>numeric2 ?f + numeric2 (amount - ?f) - amount\<bar> \<le> 1 / 100"
    unfolding abs_le_iff by linarith
  moreover have "numeric2 (amount - ?f) < 0" if "amount < 101"
  proof -
    have "amount - ?f \<le> - (485 / 1000)" using that by (simp add: gateway_fee_def min_def)
    with c(2) show ?thesis unfolding abs_le_iff by linarith
  qed
  ultimately show ?thesis using b by simp
qed

text \<open>
   Adding an item brings the totals of its invoice up to date: the subtotal is the sum of the
  rounded item prices, the total adds the tax and takes off the discount, and the balance is
  the total less what was paid. Changing or deleting an item later does not: the invoice keeps
  its totals, whatever the item is changed to.
\<close>

theorem item_changes_and_totals:
  assumes "0 < i" "tbl_get inv_id i (invoices (cur s)) = Some r"
    "add_invoice_item i d q u t s = (x, s')"
  shows "(\<exists>it y. x = Inr it \<and> it_total_price it = numeric2 (q * u) \<and> tbl_get inv_id i (invoices (saved s')) = Some y
      \<and> inv_subtotal y = sum_list (map it_total_price (filter (\<lambda>it. it_invoice_id it = i) (invoice_items (saved s'))))
      \<and> inv_subtotal y = sum_list (map it_total_price (filter (\<lambda>it. it_invoice_id it = i) (invoice_items (cur s)))) + numeric2 (q * u)
      \<and> inv_total_amount y = inv_subtotal y + inv_tax_amount r - inv_discount_amount r
      \<and> inv_balance y = inv_total_amount y - inv_paid_amount r)
    \<and> invoices (cur (snd (update_invoice_item j fs s'))) = invoices (cur s')
    \<and> invoices (cur (snd (delete_invoice_item j s'))) = invoices (cur s')"
proof -
  have sv: "saved s' = cur s'"
    using assms
    by (auto simp: add_invoice_item_def update_invoice_totals_def get_invoice_by_id_def Let_def andthen_def row_defs)
  have "\<exists>it y. x = Inr it \<and> it_total_price it = numeric2 (q * u) \<and> tbl_get inv_id i (invoices (saved s')) = Some y
      \<and> inv_subtotal y = sum_list (map it_total_price (filter (\<lambda>it. it_invoice_id it = i) (invoice_items (saved s'))))
      \<and> inv_subtotal y = sum_list (map it_total_price (filter (\<lambda>it. it_invoice_id it = i) (invoice_items (cur s)))) + numeric2 (q * u)
      \<and> inv_total_amount y = inv_subtotal y + inv_tax_amount r - inv_discount_amount r
      \<and> inv_balance y = inv_total_amount y - inv_paid_amount r"
    using assms
    by (auto simp: add_invoice_item_def update_invoice_totals_def get_invoice_by_id_def Let_def andthen_def row_defs
        tbl_get_tbl_upd)
  then show ?thesis
    by (auto simp: update_invoice_item_def delete_invoice_item_def sv split: option.splits)
qed

section \<open>Concrete runs\<close>

definition pending_sub :: subscription where
  "pending_sub = sub0\<lparr>sub_status := SubPending\<rparr>"

definition billed_db :: db where
  \<comment> \<open>a pending subscription and the invoice over 100 for it\<close>
  "billed_db = accounts_db\<lparr>subscriptions := [pending_sub], invoices := [invoice0\<lparr>inv_subscription_id := Some 1\<rparr>],
     subscription_seq := 2, invoice_seq := 2\<rparr>"

lemma billed_db_simps:
  "subscriptions billed_db = [pending_sub]" "invoices billed_db = [invoice0\<lparr>inv_subscription_id := Some 1\<rparr>]"
  "users billed_db = [user0]" "plans billed_db = [plan0]" "routers billed_db = [router0]" "commands billed_db = []"
  "invoice_items billed_db = []" "payments billed_db = []" "transactions billed_db = []"
  by (simp_all add: billed_db_def accounts_db_def empty_db_def)

lemma billed_invoice: "tbl_get inv_id 1 (invoices billed_db) = Some (invoice0\<lparr>inv_subscription_id := Some 1\<rparr>)"
  by (simp add: billed_db_simps table_simps sample_rows)

lemma billed_sub: "tbl_get sub_id 1 (subscriptions billed_db) = Some pending_sub"
  by (simp add: billed_db_simps table_simps sample_rows pending_sub_def)

lemma billed_served: "agent_served billed_db pending_sub"
  by (simp add: agent_served_def billed_db_simps table_simps sample_rows pending_sub_def)

theorem payments_settle_invoice_witness:
  "map_option inv_status (tbl_get inv_id 1 (invoices (cur (snd
     (fold (\<lambda>a vs. snd (apply_payment_to_invoice env0 5 1 a vs)) [40, 70] ((), fresh billed_db)))))) = Some InvPaid"
proof -
  obtain v' s' where f: "fold (\<lambda>a vs. snd (apply_payment_to_invoice env0 5 1 a vs)) [40, 70] ((), fresh billed_db) = (v', s')"
    by (metis surj_pair)
  have "\<exists>y. tbl_get inv_id 1 (invoices (cur s')) = Some y \<and> inv_status y = InvPaid"
    using payments_settle_invoice [OF _ _ _ _ f] billed_invoice by (auto simp: invoice0_def)
  then show ?thesis unfolding f by auto
qed

theorem settling_payment_activates_subscription_witness:
  "length (commands (saved (snd (snd (apply_payment_to_invoice env0 5 1 100 ((), fresh billed_db)))))) = 1"
proof -
  obtain x v' s' where a: "apply_payment_to_invoice env0 5 1 100 ((), fresh billed_db) = (x, v', s')" by (metis surj_pair)
  from settling_payment_activates_subscription [OF _ _ _ _ _ _ a, of _ 1 pending_sub] billed_invoice billed_sub billed_served
  show ?thesis by (auto simp: a sample_rows pending_sub_def billed_db_simps)
qed

theorem invoice_numbers_never_collide_witness:
  "map inv_invoice_number (invoices (cur (snd (create_invoice 0 1 100 None 0 0 None None None [] (fresh accounts_db)))))
     = [''INV-197001-0001'']"
proof -
  let ?c = "create_invoice 0 1 100 None 0 0 None None None [] (fresh accounts_db)"
  obtain x s' where c: "?c = (x, s')" by fastforce
  have inv0: "invoices accounts_db = []" by (simp add: accounts_db_def empty_db_def)
  have ym: "year_month 0 = ''197001''" by code_simp
  have g: "generate_invoice_number 0 accounts_db = ''INV-197001-0001''"
    unfolding generate_invoice_number_def numbered_def ym inv0 by code_simp
  have n: "invoices (cur s') \<noteq> []"
    using c by (auto simp: create_invoice_def Let_def row_defs inv0 accounts_db_def table_simps user0_def empty_db_def)
  from invoice_numbers_never_collide [OF _ _ c] n show ?thesis
    by (auto simp: c inv0 g ym four_digit_year_def numbers_ok_def)
qed

definition renewing_db :: db where
  "renewing_db = accounts_db\<lparr>subscriptions := [sub0\<lparr>sub_is_auto_renewal := True\<rparr>]\<rparr>"

theorem billing_cycle_creates_no_invoice_witness:
  "cy_invoices_created (fst (generate_billing_cycle_invoices None (fresh renewing_db))) = 0
     \<and> cy_errors (fst (generate_billing_cycle_invoices None (fresh renewing_db))) \<noteq> []"
proof -
  obtain res s' where g: "generate_billing_cycle_invoices None (fresh renewing_db) = (res, s')" by fastforce
  have "subscriptions renewing_db = [sub0\<lparr>sub_is_auto_renewal := True\<rparr>]" "users renewing_db = [user0]" "invoices renewing_db = []"
    by (simp_all add: renewing_db_def accounts_db_def empty_db_def)
  with billing_cycle_creates_no_invoice [OF _ _ g] show ?thesis
    by (auto simp: g sample_rows uniq_def)
qed

theorem fee_and_net_within_a_cent_witness:
  "\<bar>numeric2 (gateway_fee 201) + numeric2 (201 - gateway_fee 201) - 201\<bar> \<le> 1 / 100"
  using fee_and_net_within_a_cent [of 201] by simp

theorem item_changes_and_totals_witness:
  "map_option inv_total_amount (tbl_get inv_id 1 (invoices (saved (snd
     (add_invoice_item 1 ''setup'' 3 20 None (fresh billed_db)))))) = Some 60"
proof -
  obtain x s' where a: "add_invoice_item 1 ''setup'' 3 20 None (fresh billed_db) = (x, s')" by fastforce
  have n: "numeric2 60 = 60" by code_simp
  have "\<exists>y. tbl_get inv_id 1 (invoices (saved s')) = Some y \<and> inv_total_amount y = 60"
    using item_changes_and_totals [OF _ _ a, of "invoice0\<lparr>inv_subscription_id := Some 1\<rparr>" 1 "[]"] billed_invoice
    by (auto simp: n billed_db_simps invoice0_def)
  then show ?thesis unfolding a by auto
qed

end
