(* ===== verification/Listing.thy ===== *)
theory Listing
  imports Billing
begin

text \<open>
  The paginated listings: the pagination parameters (\<open>src/app/api/deps.py\<close>), SQL's ILIKE as the
  searches use it, and the listings of invoices, payments and subscriptions. A listing orders
  by creation time; rows with equal times keep the order in which the engine produced them,
  which may differ from one request to the next.
\<close>

section \<open>Pagination parameters\<close>

record PaginationParams =
  pg_page :: int
  pg_size :: int
  pg_offset :: int

definition pagination_params :: "int \<Rightarrow> int \<Rightarrow> int \<Rightarrow> PaginationParams" where
  "pagination_params page sz max_size =
     (let p = (if page < 1 then 1 else page);
          n = (if sz < 1 then 20 else sz);
          n = (if n > max_size then max_size else n)
      in \<lparr>pg_page = p, pg_size = n, pg_offset = (p - 1) * n\<rparr>)"

definition get_pagination_params :: "int \<Rightarrow> int \<Rightarrow> PaginationParams" where
  "get_pagination_params page sz = pagination_params page sz 100"

record 'r listing =
  li_items :: "'r list"
  li_total :: int
  li_page :: int
  li_size :: int
  li_pages :: int

text \<open>
  \<open>order_by(created_at.desc()).offset(...).limit(...)\<close> on the rows of a query, with the count of
  the query and the number of pages.
\<close>

definition paginate :: "('r \<Rightarrow> datetime) \<Rightarrow> PaginationParams \<Rightarrow> 'r list \<Rightarrow> 'r listing" where
  "paginate created pg rs =
     (let total = int (length rs)
      in \<lparr>li_items = take (nat (pg_size pg)) (drop (nat (pg_offset pg)) (order_by (\<lambda>r. - created r) rs)),
          li_total = total, li_page = pg_page pg, li_size = pg_size pg,
          li_pages = (total + pg_size pg - 1) div pg_size pg\<rparr>)"

section \<open>Searching\<close>

definition lower :: "char \<Rightarrow> char" where
  "lower c = (let n = of_char c :: nat in if 65 \<le> n \<and> n \<le> 90 then char_of (n + 32) else c)"

text \<open>SQL's LIKE: a percent sign stands for any string, an underscore for any character.\<close>

function like :: "string \<Rightarrow> string \<Rightarrow> bool" where
  "like [] s = (s = [])"
| "like (c # p) s =
     (if c = CHR ''%'' then like p s \<or> (case s of [] \<Rightarrow> False | _ # t \<Rightarrow> like (c # p) t)
      else case s of
             [] \<Rightarrow> False
           | x # t \<Rightarrow>
               if c = CHR ''_'' then like p t
               else if c = CHR 0x5C then (case p of [] \<Rightarrow> False | e # q \<Rightarrow> x = e \<and> like q t)
               else x = c \<and> like p t)"
  by pat_completeness auto
termination
  by (relation "measure (\<lambda>(p, s). length p + length s)") auto

declare like.simps(2) [simp del]

definition ilike :: "string \<Rightarrow> string \<Rightarrow> bool" where
  "ilike pat s = like (map lower pat) (map lower s)"

text \<open>\<open>column.ilike(f"%{search}%")\<close>, applied only when the search string is not empty.\<close>

definition search_matches :: "string option \<Rightarrow> string \<Rightarrow> bool" where
  "search_matches search s \<longleftrightarrow> (truthy search \<longrightarrow> ilike (''%'' @ the search @ ''%'') s)"

section \<open>Listings\<close>

definition opt_filter :: "int option \<Rightarrow> int option \<Rightarrow> bool" where
  \<comment> \<open>\<open>if x: query = query.where(column == x)\<close>\<close>
  "opt_filter x column \<longleftrightarrow> (truthy_int x \<longrightarrow> column = x)"

definition get_invoices ::
    "int option \<Rightarrow> PaginationParams \<Rightarrow> int option \<Rightarrow> InvoiceStatus option \<Rightarrow> string option \<Rightarrow> db \<Rightarrow> invoice listing" where
  "get_invoices organization_id pg user_id status search d =
     paginate inv_created_at pg (filter (\<lambda>i. opt_filter organization_id (inv_organization_id i) \<and>
       opt_filter user_id (Some (inv_user_id i)) \<and> (status \<noteq> None \<longrightarrow> Some (inv_status i) = status) \<and>
       search_matches search (inv_invoice_number i)) (invoices d))"

definition get_payments ::
    "int option \<Rightarrow> PaginationParams \<Rightarrow> int option \<Rightarrow> int option \<Rightarrow> PaymentStatus option \<Rightarrow> db \<Rightarrow> payment listing" where
  "get_payments organization_id pg user_id invoice_id status d =
     paginate pay_created_at pg (filter (\<lambda>p. opt_filter organization_id (pay_organization_id p) \<and>
       opt_filter user_id (Some (pay_user_id p)) \<and> opt_filter invoice_id (pay_invoice_id p) \<and>
       (status \<noteq> None \<longrightarrow> Some (pay_status p) = status)) (payments d))"

definition get_all ::
    "PaginationParams \<Rightarrow> int option \<Rightarrow> int option \<Rightarrow> int option \<Rightarrow> SubscriptionStatus option \<Rightarrow> SubscriptionType option
     \<Rightarrow> string option \<Rightarrow> int option \<Rightarrow> db \<Rightarrow> subscription listing" where
  "get_all pg user_id pln router_id status stype search organization_id d =
     paginate sub_created_at pg (filter (\<lambda>q.
       (truthy_int organization_id \<longrightarrow>
          (\<exists>u \<in> set (users d). usr_id u = sub_user_id q \<and> usr_organization_id u = organization_id)) \<and>
       opt_filter user_id (Some (sub_user_id q)) \<and> opt_filter pln (Some (sub_plan_id q)) \<and>
       opt_filter router_id (Some (sub_router_id q)) \<and> (status \<noteq> None \<longrightarrow> Some (sub_status q) = status) \<and>
       (stype \<noteq> None \<longrightarrow> Some (sub_type q) = stype) \<and> search_matches search (sub_username q)) (subscriptions d))"

section \<open>Paging through a listing\<close>

lemma concat_chunks:
  "n \<noteq> 0 \<Longrightarrow> concat (map (\<lambda>k. take n (drop (k * n) xs)) [0..<m]) = take (m * n) xs"
proof (induction m)
  case (Suc m)
  have "take (m * n) xs @ take n (drop (m * n) xs) = take (m * n + n) xs" by (simp add: take_add)
  with Suc show ?case by (simp add: add.commute)
qed simp



text \<open>Ordering by a key that no two rows share does not depend on the order of the rows.\<close>

lemma order_by_unique:
  assumes "mset xs = mset ys" "distinct (map f ys)"
  shows "order_by f xs = order_by f ys"
proof (rule sort_key_inj_key_eq)
  show "inj_on f (set xs)" using assms by (metis distinct_map mset_eq_setD)
qed (use assms in simp_all)

lemma mset_filter_eq: "mset xs = mset ys \<Longrightarrow> mset (filter P xs) = mset (filter P ys)"
  by simp

lemma pages_cover:
  assumes "1 \<le> (n :: int)" "0 \<le> t"
  shows "t \<le> (t + n - 1) div n * n"
proof -
  have "(t + n - 1) div n * n = t + n - 1 - (t + n - 1) mod n" by (simp add: minus_mod_eq_div_mult)
  moreover have "(t + n - 1) mod n < n" using assms by simp
  ultimately show ?thesis by linarith
qed

text \<open>Going through all pages of a query, whose rows the engine may produce in another order each time.\<close>

lemma pages_of_query:
  assumes "1 \<le> sz" "sz \<le> 100" "distinct (map created rs)" "\<And>k. mset (qs k) = mset rs"
  shows "concat (map (\<lambda>k. li_items (paginate created (get_pagination_params (int k) sz) (qs k)))
      [1..<nat (li_pages (paginate created (get_pagination_params p sz) rs)) + 1]) = order_by (\<lambda>r. - created r) rs"
proof -
  let ?s = "order_by (\<lambda>r. - created r) rs"
  define m where "m = nat (li_pages (paginate created (get_pagination_params p sz) rs))"
  have d: "distinct (map (\<lambda>r. - created r) rs)" using assms(3) by (auto simp: distinct_map inj_on_def)
  have "map (\<lambda>k. li_items (paginate created (get_pagination_params (int k) sz) (qs k))) [1..<m + 1]
      = map (\<lambda>k. take (nat sz) (drop ((k - 1) * nat sz) ?s)) [1..<m + 1]"
    using assms(1,2) order_by_unique [OF assms(4) d]
    by (intro map_cong)
      (auto simp: paginate_def Let_def get_pagination_params_def pagination_params_def nat_mult_distrib nat_diff_distrib)
  also have "\<dots> = map (\<lambda>k. take (nat sz) (drop (k * nat sz) ?s)) [0..<m]"
    by (simp add: map_Suc_upt [symmetric] comp_def del: upt_Suc)
  finally have "concat (map (\<lambda>k. li_items (paginate created (get_pagination_params (int k) sz) (qs k))) [1..<m + 1])
      = take (m * nat sz) ?s"
    using concat_chunks [of "nat sz" ?s m] assms(1) by simp
  moreover have "length rs \<le> m * nat sz"
  proof -
    have "int (length rs) \<le> (int (length rs) + sz - 1) div sz * sz" using pages_cover [of sz] assms(1) by simp
    moreover have "0 \<le> (int (length rs) + sz - 1) div sz" using assms(1) by (simp add: pos_imp_zdiv_nonneg_iff)
    ultimately have "int (length rs) \<le> int (m * nat sz)"
      using assms(1,2) by (simp add: m_def paginate_def Let_def get_pagination_params_def pagination_params_def)
    then show ?thesis by (simp only: of_nat_le_iff)
  qed
  ultimately show ?thesis by (simp add: m_def)
qed

text \<open>
   Going through the pages of the payments of a tenant shows every payment that matches the
  filters exactly once, newest first, for every page size that is allowed, even when the
  engine produces the rows in another order at each request, provided that no two payments
  were created in the same microsecond.
\<close>

theorem pages_show_every_payment_once:
  assumes "1 \<le> sz" "sz \<le> 100" "distinct (map pay_created_at (payments d))"
    "\<forall>k. mset (payments (at_request k)) = mset (payments d)"
    "pages = nat (li_pages (get_payments org (get_pagination_params 1 sz) uid iid st d))"
    "shown = concat (map (\<lambda>k. li_items (get_payments org (get_pagination_params (int k) sz) uid iid st (at_request k))) [1..<pages + 1])"
  shows "mset shown = mset (filter (\<lambda>p. (truthy_int org \<longrightarrow> pay_organization_id p = org)
      \<and> (truthy_int uid \<longrightarrow> Some (pay_user_id p) = uid) \<and> (truthy_int iid \<longrightarrow> pay_invoice_id p = iid)
      \<and> (st \<noteq> None \<longrightarrow> Some (pay_status p) = st)) (payments d))
    \<and> sorted (map (\<lambda>p. - pay_created_at p) shown)"
proof -
  let ?P = "\<lambda>p. opt_filter org (pay_organization_id p) \<and> opt_filter uid (Some (pay_user_id p)) \<and>
    opt_filter iid (pay_invoice_id p) \<and> (st \<noteq> None \<longrightarrow> Some (pay_status p) = st)"
  have "distinct (map pay_created_at (filter ?P (payments d)))" using assms(3) by (rule distinct_map_filter)
  from pages_of_query [OF assms(1,2) this, of "\<lambda>k. filter ?P (payments (at_request k))" 1] assms(4-6)
  have "shown = order_by (\<lambda>p. - pay_created_at p) (filter ?P (payments d))"
    by (simp add: get_payments_def)
  then show ?thesis by (simp add: opt_filter_def)
qed

section \<open>Searching for a substring\<close>

definition wildcard :: "char \<Rightarrow> bool" where
  "wildcard c \<longleftrightarrow> c = CHR ''%'' \<or> c = CHR ''_'' \<or> c = CHR 0x5C"

lemma like_literal:
  "\<forall>c \<in> set p. \<not> wildcard c \<Longrightarrow>
     like (p @ q) s \<longleftrightarrow> (\<exists>t. s = p @ t \<and> like q t)"
proof (induction p arbitrary: s)
  case (Cons c p)
  then show ?case by (cases s) (auto simp: like.simps(2) wildcard_def)
qed simp

lemma like_percent: "like (CHR ''%'' # p) s \<longleftrightarrow> (\<exists>a t. s = a @ t \<and> like p t)"
proof (induction s)
  case (Cons c s)
  have "like (CHR ''%'' # p) (c # s) \<longleftrightarrow> like p (c # s) \<or> like (CHR ''%'' # p) s"
    by (subst like.simps(2)) simp
  then show ?case using Cons by (auto simp: Cons_eq_append_conv)
qed (simp add: like.simps(2))

lemma lower_wildcard: "wildcard (lower c) = wildcard c"
proof (cases "65 \<le> (of_char c :: nat) \<and> (of_char c :: nat) \<le> 90")
  case True
  then have "of_char (lower c) = (of_char c + 32 :: nat)" by (simp add: lower_def)
  then have "lower c \<noteq> CHR ''%''" "lower c \<noteq> CHR ''_''" "lower c \<noteq> CHR 0x5C"
    "c \<noteq> CHR ''%''" "c \<noteq> CHR ''_''" "c \<noteq> CHR 0x5C"
    using True by auto
  then show ?thesis by (simp add: wildcard_def)
next
  case False
  then have "lower c = c" unfolding lower_def Let_def by (simp only: if_False)
  then show ?thesis by simp
qed

text \<open>
   Searching the invoices for a string without a wildcard finds exactly the invoices whose
  number contains it, upper or lower case: the rows counted are those of the tenant with the
  search string as a substring of their number. (A percent sign or an underscore typed by
  the user is not escaped and matches anything.)
\<close>

theorem search_is_substring:
  assumes "w \<noteq> []" "\<forall>c \<in> set w. \<not> wildcard c"
  shows "li_total (get_invoices org pg uid None (Some w) d) = int (length (filter (\<lambda>i.
      (truthy_int org \<longrightarrow> inv_organization_id i = org) \<and> (truthy_int uid \<longrightarrow> Some (inv_user_id i) = uid)
      \<and> sublist (map lower w) (map lower (inv_invoice_number i))) (invoices d)))
    \<and> search_matches (Some ''_'') (CHR ''x'' # s)"
proof -
  have "search_matches (Some w) n \<longleftrightarrow> sublist (map lower w) (map lower n)" for n
  proof -
    have lits: "\<forall>c \<in> set (map lower w). \<not> wildcard c" using assms(2) by (simp add: lower_wildcard)
    have l: "lower CHR ''%'' = CHR ''%''" by (simp add: lower_def)
    have "like [CHR ''%''] t" for t using like_percent [of "[]" t] by simp
    then show ?thesis
      using assms(1) like_literal [OF lits, of "[CHR ''%'']"]
      by (simp add: search_matches_def ilike_def l like_percent sublist_def) blast
  qed
  moreover have "search_matches (Some ''_'') (CHR ''x'' # s)"
  proof -
    have "like ''%'' t" for t using like_percent [of "[]" t] by simp
    then have "like ''_%'' (lower CHR ''x'' # map lower s)" by (subst like.simps(2)) simp
    then have "like (CHR ''%'' # ''_%'') (lower CHR ''x'' # map lower s)"
      unfolding like_percent by (metis append_Nil)
    moreover have "map lower (''%'' @ ''_'' @ ''%'') = CHR ''%'' # ''_%''" by (simp add: lower_def)
    ultimately show ?thesis by (simp only: search_matches_def ilike_def option.sel list.map simp_thms)
  qed
  ultimately show ?thesis by (simp add: get_invoices_def paginate_def Let_def opt_filter_def)
qed

section \<open>Concrete runs\<close>

definition ledger_db :: db where
  "ledger_db = billed_db\<lparr>payments := [payment0, payment0\<lparr>pay_id := 2, pay_created_at := 7\<rparr>]\<rparr>"

lemma ledger_payments: "payments ledger_db = [payment0, payment0\<lparr>pay_id := 2, pay_created_at := 7\<rparr>]"
  by (simp add: ledger_db_def)

theorem pages_show_every_payment_once_witness:
  "mset (concat (map (\<lambda>k. li_items (get_payments None (get_pagination_params (int k) 1) None None None ledger_db))
     [1..<nat (li_pages (get_payments None (get_pagination_params 1 1) None None None ledger_db)) + 1]))
   = mset (payments ledger_db)"
  using pages_show_every_payment_once [of 1 ledger_db "\<lambda>_. ledger_db" _ None None None None, OF _ _ _ _ refl refl]
  by (simp add: ledger_payments payment0_def)

theorem search_is_substring_witness:
  "li_total (get_invoices None (get_pagination_params 1 20) None None (Some ''inv'') billed_db) = 1"
proof -
  have "map lower ''inv'' = ''inv''" "map lower ''INV-1'' = [] @ ''inv'' @ ''-1''" by code_simp+
  then have "sublist (map lower ''inv'') (map lower ''INV-1'')" by (metis sublist_appendI)
  with search_is_substring [of "''inv''" None "get_pagination_params 1 20" None billed_db]
  show ?thesis by (simp add: wildcard_def billed_db_simps invoice0_def)
qed

end
