(* ===== verification/Payment_Management.thy ===== *)
theory Payment_Management
  imports Listing
begin

text \<open>
  \<open>PaymentManagementService\<close> of \<open>src/app/modules/billing/payments.py\<close>: manual payments, their
  verification one by one and in bulk, bulk changes of status, disbursement, statistics.

  A payment that is verified (\<open>CHECKED\<close>) is credited to its invoice. The random digits of a
  payment number are an argument; the foreign keys to the verifying or recording user are
  checked when the row is written.
\<close>

section \<open>Values\<close>

fun payment_status_value :: "PaymentStatus \<Rightarrow> string" where
  "payment_status_value PayPending = ''pending''"
| "payment_status_value PayCompleted = ''completed''"
| "payment_status_value PayFailed = ''failed''"
| "payment_status_value PayCancelled = ''cancelled''"
| "payment_status_value PayRefunded = ''refunded''"
| "payment_status_value PayChecked = ''checked''"
| "payment_status_value PayUnchecked = ''unchecked''"

fun payment_method_value :: "PaymentMethod \<Rightarrow> string" where
  "payment_method_value Mpesa = ''mpesa''"
| "payment_method_value BankTransfer = ''bank_transfer''"
| "payment_method_value Cash = ''cash''"
| "payment_method_value Card = ''card''"
| "payment_method_value OtherMethod = ''other''"

text \<open>Day of the month of a number of days since 1970-01-01; with \<open>year_month\<close>, \<open>strftime("%Y%m%d%H%M%S")\<close>.\<close>

definition civil_day :: "int \<Rightarrow> int" where
  "civil_day n =
     (let z = n + 719468; doe = z mod 146097;
          yoe = (doe - doe div 1460 + doe div 36524 - doe div 146096) div 365;
          doy = doe - (365 * yoe + yoe div 4 - yoe div 100);
          mp = (5 * doy + 2) div 153
      in doy - (153 * mp + 2) div 5 + 1)"

definition timestamp :: "datetime \<Rightarrow> string" where
  "timestamp now =
     (let sec = now div 1000000; two = (\<lambda>n. zfill 2 (str_nat (nat n)))
      in year_month now @ two (civil_day (sec div 86400)) @ two (sec mod 86400 div 3600) @
         two (sec mod 3600 div 60) @ two (sec mod 60))"

definition random_payment_number :: "string \<Rightarrow> datetime \<Rightarrow> string \<Rightarrow> string" where
  "random_payment_number pre now random_part = pre @ ''-'' @ timestamp now @ ''-'' @ random_part"

section \<open>Manual payments\<close>

text \<open>
  The dictionary of a manual payment: \<^const>\<open>None\<close> is an absent key; the payment date may also be
  there and be \<open>None\<close>.
\<close>

record manual_data =
  md_user_id :: "int option"
  md_invoice_id :: "int option"
  md_amount :: "rat option"
  md_currency :: "string option"
  md_payment_method :: "string option"
  md_reference_number :: "string option"
  md_notes :: "string option"
  md_payment_date :: "datetime option option"

definition record_manual_payment ::
    "datetime \<Rightarrow> string \<Rightarrow> manual_data \<Rightarrow> int \<Rightarrow> string option \<Rightarrow> dbs \<Rightarrow> (exn + payment) \<times> dbs" where
  "record_manual_payment now random_part md recorded_by receipt_image_url s =
     (case (md_user_id md, md_amount md) of
        (None, _) \<Rightarrow> (Inl (Exn ''KeyError'' ''user_id''), rollback s)
      | (_, None) \<Rightarrow> (Inl (Exn ''KeyError'' ''amount''), rollback s)
      | (Some uid, Some amount) \<Rightarrow>
          let p = (new_payment now (payment_seq (cur s)) (random_payment_number ''MANUAL'' now random_part) uid amount
                     (if md_payment_method md = Some ''cash'' then Cash else BankTransfer) (md_invoice_id md) PayUnchecked)
                  \<lparr>pay_currency := (case md_currency md of None \<Rightarrow> ''KES'' | Some c \<Rightarrow> c), pay_is_manual_payment := True,
                   pay_recorded_by := Some recorded_by, pay_receipt_image_url := receipt_image_url,
                   pay_reference_number := md_reference_number md, pay_notes := md_notes md,
                   pay_payment_date := (case md_payment_date md of None \<Rightarrow> Some now | Some t \<Rightarrow> t)\<rparr>
          in if payment_row_ok p (cur s) \<and> recorded_by \<in> usr_id ` set (users (cur s))
             then (Inr p, commit (on_db (insert_payment p) s))
             else (Inl (IntegrityError ''insert or update on table payments violates a constraint''), rollback s))"

section \<open>Verification\<close>

definition invoice_of :: "payment \<Rightarrow> db \<Rightarrow> invoice option" where
  \<comment> \<open>\<open>db.get(Invoice, payment.invoice_id)\<close> when the payment has an invoice\<close>
  "invoice_of p d = (if truthy_int (pay_invoice_id p) then tbl_get inv_id (the (pay_invoice_id p)) (invoices d) else None)"

definition credit_payment :: "datetime \<Rightarrow> payment \<Rightarrow> db \<Rightarrow> db" where
  "credit_payment now p d =
     (case invoice_of p d of
        None \<Rightarrow> d
      | Some iv \<Rightarrow> upd_invoice (inv_id iv) (credit now (pay_amount p)) d)"

definition verified_row :: "datetime \<Rightarrow> int \<Rightarrow> PaymentStatus \<Rightarrow> string option \<Rightarrow> payment \<Rightarrow> payment" where
  "verified_row now verified_by status notes p =
     p\<lparr>pay_status := status, pay_verified_by := Some verified_by, pay_verified_at := Some now,
       pay_verification_notes := notes\<rparr>"

definition verify_payment ::
    "'dev sub_env \<Rightarrow> datetime \<Rightarrow> int \<Rightarrow> PaymentStatus \<Rightarrow> string option \<Rightarrow> int \<Rightarrow> 'dev \<times> dbs \<Rightarrow> bool \<times> 'dev \<times> dbs" where
  "verify_payment env now verified_by status notes pid vs =
     (let (v, s) = vs
      in case tbl_get pay_id pid (payments (cur s)) of
           None \<Rightarrow> (False, v, s)
         | Some p \<Rightarrow>
             let target = (if status = PayChecked then invoice_of p (cur s) else None);
                 s1 = on_db (upd_payment pid (verified_row now verified_by status notes)) s;
                 s2 = (if status = PayChecked then on_db (credit_payment now p) s1 else s1)
             in if verified_by \<notin> usr_id ` set (users (cur s2)) then (False, v, rollback s2)
                else
                  let s3 = commit s2
                  in (True,
                      case target of
                        None \<Rightarrow> (v, s3)
                      | Some iv \<Rightarrow>
                          if inv_balance (credit now (pay_amount p) iv) \<le> 0 \<and> truthy_int (inv_subscription_id iv)
                          then activate_subscription_on_payment env now (the (inv_subscription_id iv)) (v, s3)
                          else (v, s3)))"

record bulk_result =
  bv_total_processed :: nat
  bv_successful :: nat
  bv_failed :: nat
  bv_results :: "(int \<times> bool) list" \<comment> \<open>an unsuccessful one is reported as not found\<close>

definition bulk_verify_payments ::
    "'dev sub_env \<Rightarrow> datetime \<Rightarrow> int list \<Rightarrow> PaymentStatus \<Rightarrow> int \<Rightarrow> string option \<Rightarrow> 'dev \<times> dbs
     \<Rightarrow> bulk_result \<times> 'dev \<times> dbs" where
  "bulk_verify_payments env now payment_ids status verified_by notes vs =
     (let (rs, vs1) = run_batch (verify_payment env now verified_by status notes) payment_ids vs
      in (\<lparr>bv_total_processed = length payment_ids, bv_successful = length (filter id rs),
           bv_failed = length (filter Not rs), bv_results = zip payment_ids rs\<rparr>, vs1))"

definition str_ints :: "int list \<Rightarrow> string" where
  "str_ints ns = ''['' @ join '', '' (map str_int ns) @ '']''"

definition bulk_update_payment_status ::
    "datetime \<Rightarrow> int list \<Rightarrow> PaymentStatus \<Rightarrow> int \<Rightarrow> string option \<Rightarrow> dbs \<Rightarrow> (exn + nat \<times> string \<times> int) \<times> dbs" where
  "bulk_update_payment_status now payment_ids new_status updated_by notes s =
     (let ps = filter (\<lambda>p. pay_id p \<in> set payment_ids) (payments (cur s));
          verifies = (new_status = PayChecked \<or> new_status = PayUnchecked)
      in if length ps \<noteq> length payment_ids
         then (Inl (ValidationError (''Payments not found: '' @
                str_ints (filter (\<lambda>i. i \<notin> pay_id ` set ps) payment_ids))), rollback s)
         else if verifies \<and> ps \<noteq> [] \<and> updated_by \<notin> usr_id ` set (users (cur s))
         then (Inl (IntegrityError ''insert or update on table payments violates foreign key constraint''), rollback s)
         else
           let f = (if verifies then verified_row now updated_by new_status notes else pay_status_update (\<lambda>_. new_status));
               s1 = on_db (payments_update (upd_where (\<lambda>p. pay_id p \<in> set payment_ids) f)) s;
               s2 = (if new_status = PayChecked then on_db (fold (credit_payment now) ps) s1 else s1)
           in (Inr (length payment_ids, payment_status_value new_status, updated_by), commit s2))"

definition update_payment_disbursement :: "int \<Rightarrow> string \<Rightarrow> string \<Rightarrow> dbs \<Rightarrow> bool \<times> dbs" where
  "update_payment_disbursement pid method reference s =
     (if tbl_get pay_id pid (payments (cur s)) = None then (False, s)
      else (True, commit (on_db (upd_payment pid (\<lambda>x. x\<lparr>pay_disbursement_method := Some method,
              pay_disbursement_reference := Some reference\<rparr>)) s)))"

definition update_invoice_payment_status :: "datetime \<Rightarrow> int \<Rightarrow> dbs \<Rightarrow> dbs" where
  "update_invoice_payment_status now i s =
     (if tbl_get inv_id i (invoices (cur s)) = None then s
      else
        let total_paid = sum_list (map pay_amount (filter (\<lambda>p. pay_invoice_id p = Some i \<and>
              (pay_status p = PayCompleted \<or> pay_status p = PayChecked)) (payments (cur s))));
            f = (\<lambda>x. let y = x\<lparr>inv_paid_amount := total_paid, inv_balance := inv_total_amount x - total_paid\<rparr>
                 in if inv_balance y \<le> 0 then y\<lparr>inv_status := InvPaid, inv_paid_date := Some now\<rparr>
                    else if total_paid > 0 then y\<lparr>inv_status := InvPending\<rparr>
                    else y)
        in commit (on_db (upd_invoice i f) s))"

section \<open>Listings and statistics\<close>

definition in_period :: "datetime option \<Rightarrow> datetime option \<Rightarrow> datetime \<Rightarrow> bool" where
  "in_period lo hi t \<longleftrightarrow>
     (case lo of None \<Rightarrow> True | Some a \<Rightarrow> a \<le> t) \<and> (case hi of None \<Rightarrow> True | Some b \<Rightarrow> t \<le> b)"

definition get_payments_by_status ::
    "PaginationParams \<Rightarrow> PaymentStatus \<Rightarrow> datetime option \<Rightarrow> datetime option \<Rightarrow> int option \<Rightarrow> PaymentMethod option
     \<Rightarrow> db \<Rightarrow> payment listing" where
  "get_payments_by_status pg status start_date end_date user_id method d =
     paginate pay_created_at pg (filter (\<lambda>p. pay_status p = status \<and> in_period start_date end_date (pay_created_at p) \<and>
       opt_filter user_id (Some (pay_user_id p)) \<and>
       (method \<noteq> None \<longrightarrow> Some (pay_payment_method p) = method)) (payments d))"

datatype search_field = FPaymentNumber | FReferenceNumber | FMpesaReceiptNumber | FNotes

fun search_value :: "search_field \<Rightarrow> payment \<Rightarrow> string option" where
  "search_value FPaymentNumber p = Some (pay_payment_number p)"
| "search_value FReferenceNumber p = pay_reference_number p"
| "search_value FMpesaReceiptNumber p = pay_mpesa_receipt_number p"
| "search_value FNotes p = pay_notes p"

text \<open>The search over the text columns the code names as default; NULL matches nothing.\<close>

definition search_payments :: "PaginationParams \<Rightarrow> string \<Rightarrow> search_field list \<Rightarrow> db \<Rightarrow> payment listing" where
  "search_payments pg search_term search_fields d =
     (let fields = (if search_fields = [] then [FPaymentNumber, FReferenceNumber, FMpesaReceiptNumber, FNotes]
                    else search_fields)
      in paginate pay_created_at pg (filter (\<lambda>p. \<exists>f \<in> set fields. case search_value f p of
           None \<Rightarrow> False | Some w \<Rightarrow> ilike (''%'' @ search_term @ ''%'') w) (payments d)))"

definition get_payment_disbursement_tracking ::
    "PaginationParams \<Rightarrow> string option \<Rightarrow> datetime option \<Rightarrow> datetime option \<Rightarrow> db \<Rightarrow> payment listing" where
  "get_payment_disbursement_tracking pg method start_date end_date d =
     paginate pay_created_at pg (filter (\<lambda>p. pay_disbursement_method p \<noteq> None \<and>
       (truthy method \<longrightarrow> pay_disbursement_method p = method) \<and>
       in_period start_date end_date (pay_created_at p)) (payments d))"

text \<open>GROUP BY a column: its values in the order of their first row, with count and sum of the amounts.\<close>

definition group_amounts :: "(payment \<Rightarrow> string) \<Rightarrow> payment list \<Rightarrow> (string \<times> nat \<times> rat) list" where
  "group_amounts key ps =
     map (\<lambda>k. let g = filter (\<lambda>p. key p = k) ps in (k, length g, sum_list (map pay_amount g))) (remdups (map key ps))"

record grouped_statistics =
  gs_total_payments :: nat
  gs_total_amount :: rat
  gs_verified_payments :: nat
  gs_unverified_payments :: nat
  gs_verification_rate :: rat \<comment> \<open>before rounding to two places\<close>
  gs_breakdown :: "(string \<times> nat \<times> rat) list"

definition grouped_payment_statistics ::
    "datetime \<Rightarrow> int \<Rightarrow> string \<Rightarrow> db \<Rightarrow> exn + grouped_statistics" where
  "grouped_payment_statistics now n group_by d =
     (let ps = filter (\<lambda>p. now - days n \<le> pay_created_at p) (payments d);
          stats = (\<lambda>key. let b = group_amounts key ps; t = sum_list (map (\<lambda>(_, c, _). c) b);
                       verified = length (filter (\<lambda>p. pay_status p = PayChecked) ps)
                    in \<lparr>gs_total_payments = t, gs_total_amount = sum_list (map (\<lambda>(_, _, a). a) b),
                        gs_verified_payments = verified,
                        gs_unverified_payments = length (filter (\<lambda>p. pay_status p = PayUnchecked) ps),
                        gs_verification_rate = (if t > 0 then of_nat verified / of_nat t * 100 else 0),
                        gs_breakdown = b\<rparr>)
      in if group_by = ''status'' then Inr (stats (\<lambda>p. payment_status_value (pay_status p)))
         else if group_by = ''method'' then Inr (stats (\<lambda>p. payment_method_value (pay_payment_method p)))
         else Inl (ValidationError (''Invalid group_by parameter: '' @ group_by)))"

section \<open>Verified payments settle their invoice\<close>

lemma snd_run_batch: "snd (run_batch step xs s) = fold (\<lambda>x s. snd (step x s)) xs s"
  by (induction xs arbitrary: s) (simp_all add: run_batch_Cons del: run_batch.simps(2))

lemma credit_payment_frame:
  "users (credit_payment now p d) = users d" "payments (credit_payment now p d) = payments d"
  "subscriptions (credit_payment now p d) = subscriptions d" "commands (credit_payment now p d) = commands d"
  by (simp_all add: credit_payment_def row_defs split: option.splits)

lemma credit_payment_row:
  assumes "i \<noteq> 0"
  shows "tbl_get inv_id i (invoices (credit_payment now p d)) =
    map_option (\<lambda>r. if pay_invoice_id p = Some i then credit now (pay_amount p) r else r) (tbl_get inv_id i (invoices d))"
proof (cases "invoice_of p d")
  case None
  then show ?thesis using assms
    by (cases "tbl_get inv_id i (invoices d)") (auto simp: credit_payment_def invoice_of_def split: if_splits)
next
  case (Some iv)
  then have "pay_invoice_id p = Some (inv_id iv)"
    by (cases "pay_invoice_id p") (auto simp: invoice_of_def split: if_splits)
  with Some show ?thesis
    by (cases "tbl_get inv_id i (invoices d)") (auto simp: credit_payment_def row_defs tbl_get_tbl_upd)
qed

lemma sync_users:
  assumes "sync_subscription_to_router uuid exec connect now q fc (v, s) = (res, v', s')"
  shows "users (cur s') = users (cur s)"
proof -
  have "users (cur s1) = users (cur s)" if "sync_via_agent_queue uuid now q r p fc s = (x, s1)" for r p x s1
    using that by (auto simp: sync_via_agent_queue_def queue_command_def Let_def row_defs split: if_splits)
  with assms show ?thesis
    by (fastforce simp: sync_subscription_to_router_def Let_def row_defs split: option.splits if_splits prod.splits)
qed

lemma activate_on_payment_users:
  "users (cur (snd (activate_subscription_on_payment env now sid (v, s)))) = users (cur s)"
proof -
  let ?s1 = "commit (on_db (upd_subscription sid (\<lambda>x. x\<lparr>sub_status := SubActive, sub_is_router_synced := False\<rparr>)) s)"
  have "users (cur (snd (snd (sync_subscription_to_router (env_uuid env) (env_exec env) (env_connect env) now q False (v, ?s1))))) = users (cur s)" for q
  proof -
    obtain res v' s' where st: "sync_subscription_to_router (env_uuid env) (env_exec env) (env_connect env) now q False (v, ?s1) = (res, v', s')"
      by (metis surj_pair)
    show ?thesis unfolding st using sync_users [OF st] by (simp add: row_defs)
  qed
  then show ?thesis by (simp add: activate_subscription_on_payment_def Let_def split: option.splits)
qed

text \<open>What a verification by an existing user leaves behind, whatever the subscription and its router do.\<close>

lemma verify_payment_effects:
  assumes "tbl_get pay_id pid (payments (cur s)) = Some p" "u \<in> usr_id ` set (users (cur s))"
    "verify_payment env now u PayChecked nt pid (v, s) = (b, v', s')"
  shows "b" "users (cur s') = users (cur s)"
    "payments (cur s') = tbl_upd pay_id pid (verified_row now u PayChecked nt) (payments (cur s))"
    "invoices (cur s') = invoices (credit_payment now p (cur s))"
proof -
  let ?s2 = "on_db (credit_payment now p) (on_db (upd_payment pid (verified_row now u PayChecked nt)) s)"
  have s2: "users (cur ?s2) = users (cur s)" "invoices (cur ?s2) = invoices (credit_payment now p (cur s))"
    "payments (cur ?s2) = tbl_upd pay_id pid (verified_row now u PayChecked nt) (payments (cur s))"
    by (simp_all add: credit_payment_def invoice_of_def row_defs split: option.splits)
  have "b \<and> ((v', s') = (v, commit ?s2) \<or> (\<exists>sid. activate_subscription_on_payment env now sid (v, commit ?s2) = (v', s')))"
    using assms s2(1) by (auto simp: verify_payment_def Let_def split: option.splits if_splits)
  then show "b" "users (cur s') = users (cur s)"
    "payments (cur s') = tbl_upd pay_id pid (verified_row now u PayChecked nt) (payments (cur s))"
    "invoices (cur s') = invoices (credit_payment now p (cur s))"
    using s2 activate_on_payment_users [of env now _ v "commit ?s2"] activate_on_payment_invoices [of env now _ v "commit ?s2"]
    by (auto, (metis snd_conv session_ops(3))+)
qed

definition verifiable :: "int \<Rightarrow> int \<Rightarrow> int set \<Rightarrow> (int \<Rightarrow> rat) \<Rightarrow> 'dev \<times> dbs \<Rightarrow> bool" where
  "verifiable i u P amount vs \<longleftrightarrow>
     i \<noteq> 0 \<and> u \<in> usr_id ` set (users (cur (snd vs))) \<and>
     (\<forall>pid \<in> P. \<exists>p. tbl_get pay_id pid (payments (cur (snd vs))) = Some p \<and> pay_invoice_id p = Some i \<and> pay_amount p = amount pid)"

definition check_payment :: "'dev sub_env \<Rightarrow> datetime \<Rightarrow> int \<Rightarrow> string option \<Rightarrow> int \<Rightarrow> 'dev \<times> dbs \<Rightarrow> 'dev \<times> dbs" where
  "check_payment env now u nt pid vs = snd (verify_payment env now u PayChecked nt pid vs)"

lemma check_payment_step:
  assumes "verifiable i u P amount vs" "pid \<in> P"
  shows "fst (verify_payment env now u PayChecked nt pid vs) \<and> verifiable i u P amount (check_payment env now u nt pid vs)
    \<and> (\<forall>r. invoice_row i vs = Some r \<longrightarrow> invoice_row i (check_payment env now u nt pid vs) = Some (credit now (amount pid) r))"
proof -
  obtain v s where vs: "vs = (v, s)" by fastforce
  obtain p where p: "tbl_get pay_id pid (payments (cur s)) = Some p" "pay_invoice_id p = Some i" "pay_amount p = amount pid"
    and u: "u \<in> usr_id ` set (users (cur s))" and i: "i \<noteq> 0"
    using assms by (auto simp: verifiable_def vs)
  obtain b v' s' where out: "verify_payment env now u PayChecked nt pid (v, s) = (b, v', s')" by (metis surj_pair)
  note e = verify_payment_effects [OF p(1) u out]
  have "verifiable i u P amount (v', s')"
    using assms(1) by (auto simp: verifiable_def vs e(2,3) tbl_get_tbl_upd verified_row_def)
  moreover have "invoice_row i (v', s') = Some (credit now (amount pid) r)" if "invoice_row i (v, s) = Some r" for r
    using that p i by (simp add: invoice_row_def e(4) credit_payment_row)
  ultimately show ?thesis using e(1) by (simp add: check_payment_def vs out)
qed

interpretation verify_ledger: invoice_ledger "check_payment env now u nt" amount "invoice_row i" "verifiable i u P amount" "\<lambda>pid. pid \<in> P"
    for env :: "'dev sub_env" and now u nt amount i P
  using check_payment_step by unfold_locales blast+

lemma bulk_verify_all_succeed:
  "verifiable i u P amount vs \<Longrightarrow> set pids \<subseteq> P \<Longrightarrow>
     fst (run_batch (verify_payment env now u PayChecked nt) pids vs) = replicate (length pids) True"
proof (induction pids arbitrary: vs)
  case (Cons pid pids)
  with check_payment_step [OF Cons.prems(1), of pid env now nt] show ?case
    by (simp add: run_batch_Cons check_payment_def del: run_batch.simps(2))
qed simp

text \<open>
   Verifying a list of payments of one invoice, in bulk, by an existing user: every one
  succeeds, and the invoice is credited the amount of each entry of the list, so that a
  payment that occurs twice, or is verified again later, is credited twice; the invoice is
  paid afterwards exactly when these amounts cover it (for positive amounts and an invoice
  that was not paid before).
\<close>

theorem bulk_verification_credits_invoice:
  assumes "i \<noteq> 0" "tbl_get inv_id i (invoices (cur s)) = Some r" "u \<in> usr_id ` set (users (cur s))" "pids \<noteq> []"
    "\<forall>pid \<in> set pids. \<exists>p. tbl_get pay_id pid (payments (cur s)) = Some p \<and> pay_invoice_id p = Some i \<and> 0 < pay_amount p"
    "bulk_verify_payments env now pids PayChecked u nt (v, s) = (res, v', s')"
  shows "bv_successful res = length pids \<and> bv_failed res = 0
    \<and> (\<exists>y. tbl_get inv_id i (invoices (cur s')) = Some y
        \<and> inv_paid_amount y = inv_paid_amount r + sum_list (map (\<lambda>pid. pay_amount (the (tbl_get pay_id pid (payments (cur s))))) pids)
        \<and> inv_balance y = inv_total_amount r - inv_paid_amount y
        \<and> (inv_status r \<noteq> InvPaid \<longrightarrow> (inv_status y = InvPaid \<longleftrightarrow> inv_total_amount r \<le> inv_paid_amount y)))"
proof -
  let ?a = "\<lambda>pid. pay_amount (the (tbl_get pay_id pid (payments (cur s))))"
  have ver: "verifiable i u (set pids) ?a (v, s)"
    using assms(1,3,5) by (fastforce simp: verifiable_def)
  have row: "invoice_row i (v, s) = Some r" using assms(2) by (simp add: invoice_row_def)
  have step: "(\<lambda>x s. snd (verify_payment env now u PayChecked nt x s)) = check_payment env now u nt"
    by (simp add: check_payment_def fun_eq_iff)
  have res: "bv_successful res = length pids \<and> bv_failed res = 0"
    "(v', s') = fold (check_payment env now u nt) pids (v, s)"
    using assms(6) bulk_verify_all_succeed [OF ver, of pids env now nt] snd_run_batch [of "verify_payment env now u PayChecked nt" pids "(v, s)"]
    by (auto simp: bulk_verify_payments_def split_beta Let_def step)
  have "\<forall>pid \<in> set pids. ?a pid > 0" using assms(5) by force
  moreover have "\<forall>pid \<in> set pids. pid \<in> set pids" by blast
  note l = verify_ledger.ledger [OF ver row this, where env = env and now = now and nt = nt, unfolded res(2) [symmetric]]
  ultimately obtain y where "invoice_row i (v', s') = Some y" "inv_total_amount y = inv_total_amount r"
      "inv_paid_amount y = inv_paid_amount r + sum_list (map ?a pids)" "inv_balance y = inv_total_amount r - inv_paid_amount y"
      "inv_status y = (if inv_total_amount r \<le> inv_paid_amount y then InvPaid else inv_status r)"
    using assms(4) by blast
  with res(1) show ?thesis by (auto simp: invoice_row_def)
qed

section \<open>Bulk changes of status\<close>

lemma fold_credit_frame:
  "subscriptions (fold (credit_payment now) ps d) = subscriptions d" "commands (fold (credit_payment now) ps d) = commands d"
  "payments (fold (credit_payment now) ps d) = payments d"
  by (induction ps arbitrary: d) (simp_all add: credit_payment_frame)

lemma fold_credit_row:
  "i \<noteq> 0 \<Longrightarrow> tbl_get inv_id i (invoices (fold (credit_payment now) ps d)) =
     map_option (fold (\<lambda>p. credit now (pay_amount p)) (filter (\<lambda>p. pay_invoice_id p = Some i) ps))
       (tbl_get inv_id i (invoices d))"
proof (induction ps arbitrary: d)
  case Nil
  then show ?case by (simp add: option.map_id0 [unfolded id_def] option.map_ident)
next
  case (Cons p ps)
  then show ?case by (cases "tbl_get inv_id i (invoices d)") (simp_all add: credit_payment_row)
qed

text \<open>The check of the code that all payments exist is passed exactly by lists without repetition.\<close>

lemma all_found_iff:
  assumes "uniq key t"
  shows "length (filter (\<lambda>r. key r \<in> set ks) t) = length ks \<longleftrightarrow> distinct ks \<and> set ks \<subseteq> key ` set t"
proof -
  let ?ks = "map key (filter (\<lambda>r. key r \<in> set ks) t)"
  have d: "distinct ?ks" using assms by (simp add: uniq_def distinct_map_filter)
  have s: "set ?ks = set ks \<inter> key ` set t" by auto
  have l: "length (filter (\<lambda>r. key r \<in> set ks) t) = card (set ks \<inter> key ` set t)"
    using distinct_card [OF d] s by simp
  have "card (set ks \<inter> key ` set t) \<le> card (set ks)" "card (set ks) \<le> length ks"
    by (simp_all add: card_mono card_length)
  moreover have "card (set ks \<inter> key ` set t) = card (set ks) \<longleftrightarrow> set ks \<subseteq> key ` set t"
    by (metis List.finite_set card_subset_eq inf.absorb_iff1 inf_le1)
  ultimately show ?thesis using l by (metis card_distinct distinct_card le_antisym)
qed

text \<open>
   A bulk change of payments to CHECKED is all or nothing. When the identifiers are distinct,
  all exist and the user exists, every payment is verified, every invoice is credited the
  amounts of its payments among them, and this is committed; but, other than after a
  verification one by one, no subscription is activated and no command is queued, even when
  an invoice is settled by it. In every other case an error is raised and nothing remains; a
  repeated identifier is such a case.
\<close>

theorem bulk_update_is_all_or_nothing:
  assumes "uniq pay_id (payments (cur s))" "pids \<noteq> []"
    "bulk_update_payment_status now pids PayChecked u nt s = (x, s')"
  shows "if distinct pids \<and> set pids \<subseteq> pay_id ` set (payments (cur s)) \<and> u \<in> usr_id ` set (users (cur s))
    then x = Inr (length pids, ''checked'', u) \<and> saved s' = cur s'
      \<and> payments (cur s') = upd_where (\<lambda>p. pay_id p \<in> set pids) (verified_row now u PayChecked nt) (payments (cur s))
      \<and> (\<forall>i. i \<noteq> 0 \<longrightarrow> tbl_get inv_id i (invoices (cur s')) =
           map_option (fold (\<lambda>p. credit now (pay_amount p))
             (filter (\<lambda>p. pay_id p \<in> set pids \<and> pay_invoice_id p = Some i) (payments (cur s))))
             (tbl_get inv_id i (invoices (cur s))))
      \<and> subscriptions (cur s') = subscriptions (cur s) \<and> commands (cur s') = commands (cur s)
    else (\<exists>e. x = Inl e) \<and> s' = rollback s"
proof -
  let ?ps = "filter (\<lambda>p. pay_id p \<in> set pids) (payments (cur s))"
  let ?ok = "distinct pids \<and> set pids \<subseteq> pay_id ` set (payments (cur s))"
  note found = all_found_iff [OF assms(1), of pids]
  have ne: "?ps \<noteq> []" if ?ok using that assms(2) found by (metis length_0_conv)
  show ?thesis
  proof (cases "?ok \<and> u \<in> usr_id ` set (users (cur s))")
    case True
    then have l: "length ?ps = length pids" using found by blast
    have fl: "filter (\<lambda>p. pay_invoice_id p = Some i) ?ps =
        filter (\<lambda>p. pay_id p \<in> set pids \<and> pay_invoice_id p = Some i) (payments (cur s))" for i
      by (simp add: conj_commute)
    from True assms(3) l have "x = Inr (length pids, ''checked'', u)"
      "s' = commit (on_db (fold (credit_payment now) ?ps)
         (on_db (payments_update (upd_where (\<lambda>p. pay_id p \<in> set pids) (verified_row now u PayChecked nt))) s))"
      by (simp_all add: bulk_update_payment_status_def Let_def)
    with True show ?thesis by (simp add: fold_credit_frame fold_credit_row fl)
  next
    case False
    with assms(3) found ne show ?thesis
      by (auto simp: bulk_update_payment_status_def Let_def split: if_splits)
  qed
qed

section \<open>Concrete runs\<close>

lemma ledger_db_simps:
  "users ledger_db = [user0]" "invoices ledger_db = invoices billed_db"
  "subscriptions ledger_db = [pending_sub]" "commands ledger_db = []"
  by (simp_all add: ledger_db_def billed_db_simps)

text \<open>The same payment of 100 verified twice leaves the invoice over 100 overpaid by 100.\<close>

theorem bulk_verification_credits_invoice_witness:
  "map_option inv_balance (tbl_get inv_id 1 (invoices (cur (snd (snd
     (bulk_verify_payments env0 5 [1, 1] PayChecked 1 None ((), fresh ledger_db))))))) = Some (- 100)"
proof -
  obtain res v' s' where b: "bulk_verify_payments env0 5 [1, 1] PayChecked 1 None ((), fresh ledger_db) = (res, v', s')"
    by (metis surj_pair)
  have "\<exists>y. tbl_get inv_id 1 (invoices (cur s')) = Some y \<and> inv_balance y = - 100"
    using bulk_verification_credits_invoice [OF _ _ _ _ _ b, of 1 "invoice0\<lparr>inv_subscription_id := Some 1\<rparr>"] billed_invoice
    by (auto simp: ledger_db_simps ledger_payments table_simps sample_rows)
  then show ?thesis unfolding b by auto
qed

theorem bulk_update_is_all_or_nothing_witness:
  "(\<exists>e. fst (bulk_update_payment_status 5 [1, 1] PayChecked 1 None (fresh ledger_db)) = Inl e)
   \<and> commands (cur (snd (bulk_update_payment_status 5 [1, 2] PayChecked 1 None (fresh ledger_db)))) = []"
proof -
  obtain x s' where a: "bulk_update_payment_status 5 [1, 1] PayChecked 1 None (fresh ledger_db) = (x, s')" by fastforce
  obtain y t' where b: "bulk_update_payment_status 5 [1, 2] PayChecked 1 None (fresh ledger_db) = (y, t')" by fastforce
  from bulk_update_is_all_or_nothing [OF _ _ a] bulk_update_is_all_or_nothing [OF _ _ b] show ?thesis
    by (simp add: a b uniq_def ledger_db_simps ledger_payments sample_rows)
qed

end
