(* ===== verification/Outbox.thy ===== *)
theory Outbox
  imports Agent_Queue
begin

text \<open>
  The transactional outbox: \<open>src/app/events/outbox.py\<close> and the connection helpers of
  \<open>src/app/events/nats.py\<close>. A service adds an event in its own transaction; a periodic task
  publishes the events that wait, oldest first, and counts failed attempts.

  The message broker is a parameter, a record of the client calls the code makes on an
  arbitrary state: opening a connection, asking for and adding a stream, publishing. Each may
  raise. Identifiers of envelopes come from \<open>uuid\<close>, a function of the time and the row.
\<close>

record envelope =
  en_id :: string
  en_event_type :: string
  en_aggregate_type :: string
  en_aggregate_id :: "string option"
  en_tenant_id :: "string option"
  en_payload :: "(string \<times> string option) list"
  en_timestamp :: datetime \<comment> \<open>rendered in ISO format\<close>
  en_version :: string

record 'b nats =
  nats_url :: "string option"
  nats_stream_name :: string
  nats_installed :: bool
  nats_connect :: "'b \<Rightarrow> (exn + unit) \<times> 'b"
  nats_stream_info :: "string \<Rightarrow> 'b \<Rightarrow> (exn + unit) \<times> 'b"
  nats_add_stream :: "string \<Rightarrow> string \<Rightarrow> 'b \<Rightarrow> (exn + unit) \<times> 'b"
  nats_publish :: "string \<Rightarrow> envelope \<Rightarrow> 'b \<Rightarrow> (exn + unit) \<times> 'b"

section \<open>Connection\<close>

definition nats_enabled :: "'b nats \<Rightarrow> bool" where
  "nats_enabled br = truthy (nats_url br)"

definition connect_nats :: "'b nats \<Rightarrow> 'b \<Rightarrow> bool \<times> 'b" where
  \<comment> \<open>\<open>connect()\<close>: whether there is a connection\<close>
  "connect_nats br b =
     (if \<not> nats_enabled br \<or> \<not> nats_installed br then (False, b)
      else catching False (andthen (nats_connect br b) (\<lambda>_ b1. (Inr True, b1))))"

definition ensure_stream :: "'b nats \<Rightarrow> 'b \<Rightarrow> 'b" where
  "ensure_stream br b =
     (case nats_stream_info br (nats_stream_name br) b of
        (Inr _, b1) \<Rightarrow> b1
      | (Inl _, b1) \<Rightarrow> snd (nats_add_stream br (nats_stream_name br) (nats_stream_name br @ ''.>'') b1))"

section \<open>Writing and publishing\<close>

definition MAX_PUBLISH_ATTEMPTS :: int where
  "MAX_PUBLISH_ATTEMPTS = 10"

definition PUBLISH_BATCH :: nat where
  "PUBLISH_BATCH = 100"

definition record_event ::
    "datetime \<Rightarrow> string \<Rightarrow> (string \<times> string option) list \<Rightarrow> string option \<Rightarrow> string option \<Rightarrow> dbs \<Rightarrow> outbox_event \<times> dbs" where
  "record_event now event_type payload tenant_id aggregate_id s =
     (let evt = \<lparr>ob_id = outbox_seq (cur s), ob_aggregate_type = ''isp'', ob_aggregate_id = aggregate_id,
            ob_event_type = event_type, ob_payload = payload, ob_tenant_id = tenant_id, ob_created_at = now,
            ob_published_at = None, ob_attempts = 0\<rparr>
      in (evt, on_db (\<lambda>d. d\<lparr>outbox := outbox d @ [evt], outbox_seq := outbox_seq d + 1\<rparr>) s))"

definition envelope_of :: "string \<Rightarrow> outbox_event \<Rightarrow> envelope" where
  "envelope_of i evt =
     \<lparr>en_id = i, en_event_type = ob_event_type evt, en_aggregate_type = ob_aggregate_type evt,
      en_aggregate_id = ob_aggregate_id evt, en_tenant_id = ob_tenant_id evt, en_payload = ob_payload evt,
      en_timestamp = ob_created_at evt, en_version = ''1.0''\<rparr>"

definition subject_of :: "outbox_event \<Rightarrow> string" where
  "subject_of evt = ob_aggregate_type evt @ ''.'' @ ob_event_type evt"

definition is_unpublished :: "outbox_event \<Rightarrow> bool" where
  "is_unpublished evt \<longleftrightarrow> ob_published_at evt = None \<and> ob_attempts evt < MAX_PUBLISH_ATTEMPTS"

definition upd_outbox :: "int \<Rightarrow> (outbox_event \<Rightarrow> outbox_event) \<Rightarrow> db \<Rightarrow> db" where
  "upd_outbox k f = outbox_update (tbl_upd ob_id k f)"

definition publish_row ::
    "'b nats \<Rightarrow> (datetime \<Rightarrow> int \<Rightarrow> string) \<Rightarrow> datetime \<Rightarrow> outbox_event \<Rightarrow> 'b \<times> dbs \<Rightarrow> bool \<times> 'b \<times> dbs" where
  "publish_row br uuid now evt bs =
     (let (b, s) = bs
      in case nats_publish br (subject_of evt) (envelope_of (uuid now (ob_id evt)) evt) b of
           (Inr _, b1) \<Rightarrow> (True, b1, on_db (upd_outbox (ob_id evt) (\<lambda>x. x\<lparr>ob_published_at := Some now\<rparr>)) s)
         | (Inl _, b1) \<Rightarrow> (False, b1, on_db (upd_outbox (ob_id evt) (\<lambda>x. x\<lparr>ob_attempts := ob_attempts x + 1\<rparr>)) s))"

definition publish_pending ::
    "'b nats \<Rightarrow> (datetime \<Rightarrow> int \<Rightarrow> string) \<Rightarrow> datetime \<Rightarrow> nat \<Rightarrow> 'b \<times> dbs \<Rightarrow> nat \<times> 'b \<times> dbs" where
  "publish_pending br uuid now limit bs =
     (let (b, s) = bs;
          rows = take limit (order_by ob_created_at (filter is_unpublished (outbox (cur s))))
      in if \<not> nats_enabled br \<or> rows = [] then (0, b, s)
         else
           let (connected, b1) = connect_nats br b
           in if \<not> connected then (0, b1, s)
              else
                let (rs, b2, s2) = run_batch (publish_row br uuid now) rows (ensure_stream br b1, s)
                in (length (filter id rs), b2, commit s2))"

section \<open>One round\<close>

definition waiting_events :: "db \<Rightarrow> outbox_event list" where
  "waiting_events d = order_by ob_created_at (filter is_unpublished (outbox d))"

text \<open>The rows of a batch, each rewritten by the outcome of its own publication.\<close>

lemma publish_batch:
  assumes "\<And>evt b. isl (fst (nats_publish br (subject_of evt) (envelope_of (uuid now (ob_id evt)) evt) b)) = failing"
    "f = (\<lambda>x. if failing then x\<lparr>ob_attempts := ob_attempts x + 1\<rparr> else x\<lparr>ob_published_at := Some now\<rparr>)"
    "distinct (map ob_id rows)"
  shows "fst (run_batch (publish_row br uuid now) rows (b, s)) = replicate (length rows) (\<not> failing)
    \<and> outbox (cur (snd (snd (run_batch (publish_row br uuid now) rows (b, s))))) =
        upd_where (\<lambda>x. ob_id x \<in> ob_id ` set rows) f (outbox (cur s))"
  using assms(3)
proof (induction rows arbitrary: b s)
  case Nil
  then show ?case by (simp add: upd_where_def)
next
  case (Cons e rows)
  obtain r b1 where p: "nats_publish br (subject_of e) (envelope_of (uuid now (ob_id e)) e) b = (r, b1)" by fastforce
  then have r: "isl r = failing" using assms(1) [of e b] by simp
  let ?s1 = "on_db (upd_outbox (ob_id e) f) s"
  have st: "publish_row br uuid now e (b, s) = (\<not> failing, b1, ?s1)"
    using r by (cases r) (auto simp: publish_row_def p assms(2))
  have "upd_where (\<lambda>x. ob_id x \<in> ob_id ` set rows) f (tbl_upd ob_id (ob_id e) f (outbox (cur s))) =
      upd_where (\<lambda>x. ob_id x \<in> ob_id ` set (e # rows)) f (outbox (cur s))"
    using Cons.prems assms(2) by (auto simp: upd_where_def tbl_upd_def)
  with Cons.IH [of b1 ?s1] Cons.prems st show ?case
    by (simp add: run_batch_Cons upd_outbox_def del: run_batch.simps(2))
qed

definition usable :: "'b nats \<Rightarrow> bool" where
  \<comment> \<open>configured and installed, and connecting succeeds\<close>
  "usable br \<longleftrightarrow> nats_enabled br \<and> nats_installed br \<and> (\<forall>b. \<not> isl (fst (nats_connect br b)))"

lemma usable_connects: "usable br \<Longrightarrow> fst (connect_nats br b)"
  by (auto simp: usable_def connect_nats_def andthen_def split: sum.splits prod.splits) (metis fst_conv sum.disc(1))

text \<open>A round with a usable broker that treats every publication alike.\<close>

lemma publish_round_rows:
  assumes "usable br" "\<And>evt b. isl (fst (nats_publish br (subject_of evt) (envelope_of (uuid now (ob_id evt)) evt) b)) = failing"
    "uniq ob_id (outbox (cur s))"
    "f = (\<lambda>x. if failing then x\<lparr>ob_attempts := ob_attempts x + 1\<rparr> else x\<lparr>ob_published_at := Some now\<rparr>)"
    "publish_pending br uuid now limit (b, s) = (n, b', s')"
  shows "outbox (cur s') = map (\<lambda>x. if x \<in> set (take limit (waiting_events (cur s))) then f x else x) (outbox (cur s))
    \<and> n = (if failing then 0 else length (take limit (waiting_events (cur s))))"
proof -
  let ?rows = "take limit (waiting_events (cur s))"
  have sub: "set ?rows \<subseteq> set (outbox (cur s))" by (auto simp: waiting_events_def dest: in_set_takeD)
  have "distinct (map ob_id (waiting_events (cur s)))"
    using assms(3) by (simp add: waiting_events_def uniq_def distinct_map inj_on_def)
  then have d: "distinct (map ob_id ?rows)" by (simp add: take_map [symmetric])
  have key: "ob_id x \<in> ob_id ` set ?rows \<longleftrightarrow> x \<in> set ?rows" if "x \<in> set (outbox (cur s))" for x
    using sub that assms(3) by (auto simp: uniq_def distinct_map inj_on_def)
  show ?thesis
  proof (cases "?rows = []")
    case True
    then have "n = 0" "s' = s" using assms(5) by (auto simp: publish_pending_def waiting_events_def)
    then show ?thesis unfolding True by simp
  next
    case False
    obtain b1 where c: "connect_nats br b = (True, b1)" using usable_connects [OF assms(1)] by (metis surj_pair fst_conv)
    note e = publish_batch [of br uuid now failing f, OF assms(2,4) d, of "ensure_stream br b1" s]
    have "n = length (filter id (replicate (length ?rows) (\<not> failing)))"
      "outbox (cur s') = upd_where (\<lambda>x. ob_id x \<in> ob_id ` set ?rows) f (outbox (cur s))"
      using assms(1,5) False c e
      by (auto simp: publish_pending_def waiting_events_def usable_def split_beta)
    then show ?thesis using key by (auto simp: upd_where_def)
  qed
qed

section \<open>A broker that accepts messages\<close>

type_synonym message = "string \<times> (string \<times> string option) list \<times> datetime"

definition message_of :: "outbox_event \<Rightarrow> message" where
  "message_of evt = (subject_of evt, ob_payload evt, ob_created_at evt)"

text \<open>
  What the code relies on when the broker is up: connecting succeeds, and publishing succeeds and
  appends the message to those the broker has received, which nothing else changes.
\<close>

definition reliable :: "'b nats \<Rightarrow> ('b \<Rightarrow> message list) \<Rightarrow> bool" where
  "reliable br received \<longleftrightarrow> usable br \<and>
     (\<forall>b. received (snd (nats_connect br b)) = received b) \<and>
     (\<forall>n b. received (snd (nats_stream_info br n b)) = received b) \<and>
     (\<forall>n t b. received (snd (nats_add_stream br n t b)) = received b) \<and>
     (\<forall>subject en b. fst (nats_publish br subject en b) = Inr () \<and>
        received (snd (nats_publish br subject en b)) = received b @ [(subject, en_payload en, en_timestamp en)])"

lemma reliable_batch:
  assumes "reliable br received"
  shows "received (fst (snd (run_batch (publish_row br uuid now) rows (b, s)))) = received b @ map message_of rows"
proof (induction rows arbitrary: b s)
  case (Cons e rows)
  obtain b1 where p: "nats_publish br (subject_of e) (envelope_of (uuid now (ob_id e)) e) b = (Inr (), b1)"
    and l: "received b1 = received b @ [message_of e]"
    using assms unfolding reliable_def message_of_def envelope_of_def
    by (metis (no_types, lifting) envelope.select_convs(6,7) prod.collapse)
  from Cons.IH [of b1] l show ?case
    by (simp add: run_batch_Cons publish_row_def p del: run_batch.simps(2))
qed simp

definition publish_round ::
    "'b nats \<Rightarrow> (datetime \<Rightarrow> int \<Rightarrow> string) \<Rightarrow> ('b \<Rightarrow> message list) \<Rightarrow> datetime \<Rightarrow> 'b \<times> dbs \<Rightarrow> message list \<times> 'b \<times> dbs" where
  \<comment> \<open>the messages that the broker receives in a run of the task, and the state after it\<close>
  "publish_round br uuid received now bs =
     (let (_, bs') = publish_pending br uuid now PUBLISH_BATCH bs
      in (drop (length (received (fst bs))) (received (fst bs')), bs'))"

lemma reliable_prepare:
  assumes "reliable br received"
  shows "fst (connect_nats br b)" "received (snd (connect_nats br b)) = received b"
    "received (ensure_stream br b) = received b"
proof -
  show "fst (connect_nats br b)" using assms usable_connects by (auto simp: reliable_def)
  have "received (snd (nats_connect br b)) = received b" using assms by (simp add: reliable_def)
  then show "received (snd (connect_nats br b)) = received b"
    by (auto simp: connect_nats_def andthen_def split: prod.splits sum.splits)
  obtain x b1 where i: "nats_stream_info br (nats_stream_name br) b = (x, b1)" by fastforce
  then have "received b1 = received b" using assms unfolding reliable_def by (metis snd_conv)
  then show "received (ensure_stream br b) = received b"
    using assms by (auto simp: ensure_stream_def i reliable_def split: sum.splits)
qed

lemma publish_round_effects:
  assumes "reliable br received" "uniq ob_id (outbox (cur s))" "publish_round br uuid received now (b, s) = (ms, b', s')"
  shows "ms = map message_of (take PUBLISH_BATCH (waiting_events (cur s)))"
    "outbox (cur s') = map (\<lambda>x. if x \<in> set (take PUBLISH_BATCH (waiting_events (cur s)))
       then x\<lparr>ob_published_at := Some now\<rparr> else x) (outbox (cur s))"
proof -
  obtain n where p: "publish_pending br uuid now PUBLISH_BATCH (b, s) = (n, b', s')"
    and ms: "ms = drop (length (received b)) (received b')"
    using assms(3) by (auto simp: publish_round_def split: prod.splits)
  have u: "usable br" "nats_enabled br" using assms(1) by (simp_all add: reliable_def usable_def)
  have "isl (fst (nats_publish br (subject_of evt) (envelope_of (uuid now (ob_id evt)) evt) b)) = False" for evt b
    using assms(1) by (simp add: reliable_def)
  from publish_round_rows [OF u(1) this assms(2) refl p]
  show "outbox (cur s') = map (\<lambda>x. if x \<in> set (take PUBLISH_BATCH (waiting_events (cur s)))
       then x\<lparr>ob_published_at := Some now\<rparr> else x) (outbox (cur s))" by simp
  have "received b' = received b @ map message_of (take PUBLISH_BATCH (waiting_events (cur s)))"
  proof (cases "take PUBLISH_BATCH (waiting_events (cur s)) = []")
    case True
    then have "b' = b" using p by (auto simp: publish_pending_def waiting_events_def)
    then show ?thesis unfolding True by simp
  next
    case False
    obtain b1 where c: "connect_nats br b = (True, b1)" "received b1 = received b"
      using reliable_prepare(1,2) [OF assms(1), of b] by (metis prod.collapse)
    have "b' = fst (snd (run_batch (publish_row br uuid now) (take PUBLISH_BATCH (waiting_events (cur s))) (ensure_stream br b1, s)))"
      using p False c(1) u(2) by (auto simp: publish_pending_def waiting_events_def split_beta)
    then show ?thesis using reliable_batch [OF assms(1)] reliable_prepare(3) [OF assms(1)] c(2) by simp
  qed
  with ms show "ms = map message_of (take PUBLISH_BATCH (waiting_events (cur s)))" by simp
qed

lemma waiting_after_publish:
  assumes "uniq ob_id (outbox d)"
    "outbox d' = map (\<lambda>x. if x \<in> set (take n (waiting_events d)) then x\<lparr>ob_published_at := Some now\<rparr> else x) (outbox d)"
  shows "waiting_events d' = drop n (waiting_events d)" "uniq ob_id (outbox d')"
proof -
  let ?b = "set (take n (waiting_events d))"
  have "filter is_unpublished (map (\<lambda>x. if x \<in> ?b then x\<lparr>ob_published_at := Some now\<rparr> else x) xs) =
      filter (\<lambda>x. x \<notin> ?b) (filter is_unpublished xs)" for xs
    by (induction xs) (auto simp: is_unpublished_def)
  moreover have "distinct (filter is_unpublished (outbox d))" using assms(1) by (simp add: uniq_def distinct_map)
  ultimately show "waiting_events d' = drop n (waiting_events d)"
    using sort_rest [of "filter is_unpublished (outbox d)" ob_created_at n] by (simp add: waiting_events_def assms(2))
  have "map ob_id (outbox d') = map ob_id (outbox d)" by (simp add: assms(2))
  then show "uniq ob_id (outbox d')" using assms(1) by (simp add: uniq_def)
qed

interpretation publications: dispatch_queue "\<lambda>bs. map message_of (waiting_events (cur (snd bs)))"
    "publish_round br uuid received" "\<lambda>bs. reliable br received \<and> uniq ob_id (outbox (cur (snd bs)))" "\<lambda>_. True" PUBLISH_BATCH
    for br :: "'b nats" and uuid received
proof
  fix bs :: "'b \<times> dbs" and now :: datetime
  assume *: "reliable br received \<and> uniq ob_id (outbox (cur (snd bs)))"
  obtain b s where bs: "bs = (b, s)" by fastforce
  obtain ms b' s' where p: "publish_round br uuid received now (b, s) = (ms, b', s')" by (metis surj_pair)
  note e = publish_round_effects [OF _ _ p] waiting_after_publish [of "cur s" "cur s'" PUBLISH_BATCH now]
  show "fst (publish_round br uuid received now bs) = take PUBLISH_BATCH (map message_of (waiting_events (cur (snd bs))))"
    "map message_of (waiting_events (cur (snd (snd (publish_round br uuid received now bs))))) =
      drop PUBLISH_BATCH (map message_of (waiting_events (cur (snd bs))))"
    "reliable br received \<and> uniq ob_id (outbox (cur (snd (snd (publish_round br uuid received now bs)))))"
    using * e by (simp_all add: bs p take_map drop_map)
qed

text \<open>
  C14. While the broker is up, the outbox drains in order: the runs of the publishing task
  together send each waiting event exactly once, oldest first, as soon as there is a run for
  every hundred of them, and nothing waits afterwards.
\<close>

theorem outbox_drains_in_order:
  assumes "reliable br received" "uniq ob_id (outbox (cur s))" "length (waiting_events (cur s)) \<le> 100 * length runs"
  shows "fst (rounds (publish_round br uuid received) runs (b, s)) = map message_of (waiting_events (cur s))
    \<and> waiting_events (cur (snd (snd (rounds (publish_round br uuid received) runs (b, s))))) = []"
  using publications.rounds_drain [of br received "(b, s)" runs uuid] assms
  by (simp add: PUBLISH_BATCH_def list_all_iff)

section \<open>An outage\<close>

definition attempted :: "outbox_event \<Rightarrow> outbox_event" where
  "attempted x = (if is_unpublished x then x\<lparr>ob_attempts := ob_attempts x + 1\<rparr> else x)"

lemma attempted_keeps [simp]: "ob_id (attempted x) = ob_id x" "ob_published_at (attempted x) = ob_published_at x"
  by (simp_all add: attempted_def)

lemma outage_round:
  assumes "usable br" "\<And>subject en b. isl (fst (nats_publish br subject en b))"
    "uniq ob_id (outbox (cur s))" "length (waiting_events (cur s)) \<le> PUBLISH_BATCH"
    "publish_pending br uuid now PUBLISH_BATCH (b, s) = (n, b', s')"
  shows "n = 0 \<and> outbox (cur s') =
    map attempted (outbox (cur s))"
proof -
  have "x \<in> set (take PUBLISH_BATCH (waiting_events (cur s))) \<longleftrightarrow> is_unpublished x" if "x \<in> set (outbox (cur s))" for x
    using assms(4) that by (simp add: waiting_events_def)
  with publish_round_rows [OF assms(1) _ assms(3) refl assms(5), of True] assms(2) show ?thesis by (simp add: attempted_def cong: map_cong)
qed

definition failed_run :: "'b nats \<Rightarrow> (datetime \<Rightarrow> int \<Rightarrow> string) \<Rightarrow> datetime \<Rightarrow> 'b \<times> dbs \<Rightarrow> 'b \<times> dbs" where
  "failed_run br uuid now bs = snd (publish_pending br uuid now PUBLISH_BATCH bs)"

lemma outage_rounds:
  assumes "usable br" "\<And>subject en b. isl (fst (nats_publish br subject en b))"
  shows "uniq ob_id (outbox (cur (snd bs))) \<Longrightarrow> length (waiting_events (cur (snd bs))) \<le> PUBLISH_BATCH \<Longrightarrow>
    outbox (cur (snd (fold (failed_run br uuid) runs bs))) =
      map (attempted ^^ length runs) (outbox (cur (snd bs)))"
proof (induction runs arbitrary: bs)
  case (Cons now runs)
  obtain b s where bs: "bs = (b, s)" by fastforce
  obtain n b' s' where p: "publish_pending br uuid now PUBLISH_BATCH (b, s) = (n, b', s')" by (metis surj_pair)
  have o: "outbox (cur s') = map attempted (outbox (cur s))"
    using outage_round [OF assms _ _ p] Cons.prems by (simp add: bs)
  have ids: "map ob_id (map attempted xs) = map ob_id xs" for xs by simp
  have "length (filter is_unpublished (map attempted xs)) \<le> length (filter is_unpublished xs)" for xs
    by (induction xs) (auto simp: is_unpublished_def attempted_def)
  then have "length (waiting_events (cur s')) \<le> PUBLISH_BATCH"
    using Cons.prems(2) by (simp add: waiting_events_def o bs) (metis (no_types, lifting) le_trans)
  moreover have "uniq ob_id (outbox (cur s'))" using Cons.prems(1) unfolding uniq_def o ids by (simp add: bs)
  ultimately have "outbox (cur (snd (fold (failed_run br uuid) runs (b', s')))) = map (attempted ^^ length runs) (map attempted (outbox (cur s)))"
    using Cons.IH [of "(b', s')"] o by simp
  then show ?case by (simp add: failed_run_def [of br uuid now] bs p funpow_swap1)
qed simp

lemma attempts_run_out:
  "0 \<le> ob_attempts x \<Longrightarrow> ob_published_at x = None \<Longrightarrow>
    (let y = (attempted ^^ n) x
     in ob_published_at y = None \<and> min 10 (int n) \<le> ob_attempts y)"
proof (induction n)
  case (Suc n)
  then show ?case by (auto simp: Let_def attempted_def is_unpublished_def MAX_PUBLISH_ATTEMPTS_def)
qed simp

text \<open>
   An outage loses events for good: when the broker accepts connections but fails every
  publication during ten runs of the task (which runs every five seconds), each of the up to
  one hundred events that waited ends with ten attempts, unpublished, and is never selected
  again.
\<close>

theorem outage_loses_events:
  assumes "usable br" "\<forall>subject en b. isl (fst (nats_publish br subject en b))" "uniq ob_id (outbox (cur s))"
    "length (waiting_events (cur s)) \<le> 100" "\<forall>e \<in> set (outbox (cur s)). 0 \<le> ob_attempts e" "10 \<le> length runs"
    "fold (\<lambda>now bs. snd (publish_pending br uuid now PUBLISH_BATCH bs)) runs (b, s) = (b', s')"
  shows "waiting_events (cur s') = []
    \<and> length (filter (\<lambda>e. ob_published_at e = None) (outbox (cur s'))) =
        length (filter (\<lambda>e. ob_published_at e = None) (outbox (cur s)))"
proof -
  have run: "failed_run br uuid = (\<lambda>now bs. snd (publish_pending br uuid now PUBLISH_BATCH bs))"
    by (simp add: failed_run_def fun_eq_iff)
  have o: "outbox (cur s') = map (attempted ^^ length runs) (outbox (cur s))"
    using outage_rounds [of br "(b, s)" uuid runs] assms by (simp add: run PUBLISH_BATCH_def)
  have pub: "ob_published_at ((attempted ^^ n) x) = ob_published_at x" for n x
    by (induction n) simp_all
  have "\<not> is_unpublished ((attempted ^^ length runs) x)" if "x \<in> set (outbox (cur s))" for x
  proof (cases "ob_published_at x = None")
    case True
    with attempts_run_out [of x "length runs"] assms(5,6) that show ?thesis
      by (simp add: Let_def is_unpublished_def MAX_PUBLISH_ATTEMPTS_def)
  next
    case False
    then show ?thesis by (simp add: is_unpublished_def pub)
  qed
  then have "filter is_unpublished (outbox (cur s')) = []" by (simp add: o filter_empty_conv)
  then show ?thesis by (simp add: waiting_events_def o filter_map comp_def pub)
qed

section \<open>Concrete runs\<close>

definition event0 :: outbox_event where
  "event0 = \<lparr>ob_id = 1, ob_aggregate_type = ''isp'', ob_aggregate_id = Some ''7'', ob_event_type = ''payment.received'',
     ob_payload = [(''amount'', Some ''50'')], ob_tenant_id = None, ob_created_at = 3, ob_published_at = None, ob_attempts = 0\<rparr>"

definition events_db :: db where
  "events_db = empty_db\<lparr>outbox := [event0]\<rparr>"

definition broker0 :: "bool \<Rightarrow> message list nats" where
  "broker0 up = \<lparr>nats_url = Some ''nats://x'', nats_stream_name = ''isp'', nats_installed = True,
     nats_connect = (\<lambda>b. (Inr (), b)), nats_stream_info = (\<lambda>_ b. (Inr (), b)), nats_add_stream = (\<lambda>_ _ b. (Inr (), b)),
     nats_publish = (\<lambda>subject en b. if up then (Inr (), b @ [(subject, en_payload en, en_timestamp en)])
                               else (Inl (RuntimeError ''timeout''), b))\<rparr>"

lemma broker0_usable: "usable (broker0 up)" "reliable (broker0 True) (\<lambda>b. b)"
  by (simp_all add: usable_def reliable_def broker0_def nats_enabled_def)

lemma waiting_event0: "waiting_events events_db = [event0]"
  by (simp add: waiting_events_def events_db_def empty_db_def is_unpublished_def event0_def MAX_PUBLISH_ATTEMPTS_def)

theorem outbox_drains_in_order_witness:
  "fst (rounds (publish_round (broker0 True) (\<lambda>_. str_int) (\<lambda>b. b)) [5] ([], fresh events_db))
     = [(''isp.payment.received'', [(''amount'', Some ''50'')], 3)]"
  using outbox_drains_in_order [OF broker0_usable(2), of "fresh events_db" "[5]" "\<lambda>_. str_int" "[]"]
  by (simp add: waiting_event0 del: rounds.simps)
    (simp add: events_db_def empty_db_def uniq_def event0_def message_of_def subject_of_def)

theorem outage_loses_events_witness:
  "waiting_events (cur (snd (fold (\<lambda>now bs. snd (publish_pending (broker0 False) (\<lambda>_. str_int) now PUBLISH_BATCH bs))
     [1, 2, 3, 4, 5, 6, 7, 8, 9, 10] ([], fresh events_db)))) = []"
proof -
  obtain b' s' where f: "fold (\<lambda>now bs. snd (publish_pending (broker0 False) (\<lambda>_. str_int) now PUBLISH_BATCH bs))
      [1, 2, 3, 4, 5, 6, 7, 8, 9, 10] ([], fresh events_db) = (b', s')" by (metis surj_pair)
  have "waiting_events (cur s') = []"
    using outage_loses_events [OF broker0_usable(1) _ _ _ _ _ f] waiting_event0
    by (simp add: broker0_def events_db_def empty_db_def uniq_def event0_def)
  then show ?thesis unfolding f by simp
qed

end
