(* ===== verification/Expiry.thy ===== *)
theory Expiry
  imports Subscription_Service Outbox
begin

text \<open>
  \<open>SubscriptionExpiryManager\<close> of \<open>src/app/modules/subscriptions/expiry_manager.py\<close>: the periodic pass
  over subscriptions past their end date, its counterpart for hotspot vouchers, the reminders
  before the end, renewal and statistics.

  The two renderings of a date (\<open>str\<close> and \<open>isoformat\<close>) are the parameters \<open>show_date\<close> and \<open>isoformat\<close>; the
  device behind a direct connection is the one of \<open>Router_Sync\<close>. The per-call cache of churn windows
  holds what the query returns and is left out.
\<close>

section \<open>Churn windows\<close>

definition DEFAULT_CHURN_DAYS :: int where
  "DEFAULT_CHURN_DAYS = 14"

definition churn_days_for_org :: "int option \<Rightarrow> db \<Rightarrow> int" where
  "churn_days_for_org org d =
     (case org of
        None \<Rightarrow> DEFAULT_CHURN_DAYS
      | Some o' \<Rightarrow>
          (case scalar_one_or_none (filter (\<lambda>st. os_organization_id st = o') (org_settings d)) of
             Inr (Some st) \<Rightarrow> if os_auto_suspend_days st > 0 then os_auto_suspend_days st else DEFAULT_CHURN_DAYS
           | _ \<Rightarrow> DEFAULT_CHURN_DAYS))"

section \<open>Expired subscriptions\<close>

text \<open>An active subscription without an end date gets one: its start and the churn window of its tenant.\<close>

definition backfill_end_dates :: "nat \<Rightarrow> db \<Rightarrow> db" where
  "backfill_end_dates batch_size d =
     fold (\<lambda>q. upd_subscription (sub_id q)
         (\<lambda>x. x\<lparr>sub_end_date := Some (sub_start_date q + days (churn_days_for_org (sub_organization_id q) d))\<rparr>))
       (take batch_size (filter (\<lambda>q. sub_status q = SubActive \<and> sub_end_date q = None) (subscriptions d))) d"

definition due_subscriptions :: "datetime \<Rightarrow> nat \<Rightarrow> db \<Rightarrow> subscription list" where
  "due_subscriptions grace_cutoff batch_size d =
     take batch_size (filter (\<lambda>q. sub_status q = SubActive \<and>
       (case sub_end_date q of None \<Rightarrow> False | Some e \<Rightarrow> e \<le> grace_cutoff)) (subscriptions d))"

text \<open>
  The name \<open>User\<close> is used before the import inside the function binds it, so that the query raises
  and the handler returns False.
\<close>

definition send_expiry_notification :: "subscription \<Rightarrow> exn + bool" where
  "send_expiry_notification q =
     Inl (UnboundLocalError ''cannot access local variable User where it is not associated with a value'')"

definition notified :: "exn + bool \<Rightarrow> bool" where
  "notified r = (case r of Inl _ \<Rightarrow> False | Inr b \<Rightarrow> b)"

record expiry_step =
  es_disabled :: bool
  es_error :: "string option"
  es_notified :: bool

definition expired_history :: "(datetime option \<Rightarrow> string) \<Rightarrow> subscription \<Rightarrow> subscription_history" where
  "expired_history show_date q =
     \<lparr>sh_subscription_id = sub_id q, sh_action = ''expired'',
      sh_old_status = Some (subscription_status_value SubActive),
      sh_new_status = Some (subscription_status_value SubExpired),
      sh_details = ''Subscription expired at '' @ show_date (sub_end_date q), sh_changed_by = None,
      sh_ip_address = Some ''system''\<rparr>"

definition expire_subscription ::
    "'dev sub_env \<Rightarrow> (datetime option \<Rightarrow> string) \<Rightarrow> datetime \<Rightarrow> bool \<Rightarrow> subscription \<Rightarrow> 'dev \<times> dbs
     \<Rightarrow> expiry_step \<times> 'dev \<times> dbs" where
  "expire_subscription env show_date now send_notifications q vs =
     (let (v, s) = vs;
          f = (\<lambda>x. x\<lparr>sub_status := SubExpired\<rparr>);
          s1 = on_db (\<lambda>d. histories_update (\<lambda>t. t @ [expired_history show_date q]) (upd_subscription (sub_id q) f d)) s;
          (res, v2, s2) = sync_subscription_to_router (env_uuid env) (env_exec env) (env_connect env) now (f q) False (v, s1)
      in (\<lparr>es_disabled = sr_success res, es_error = sr_error res,
           es_notified = (send_notifications \<and> notified (send_expiry_notification (f q)))\<rparr>, v2, commit s2))"

record expiry_result =
  ex_processed :: nat
  ex_expired :: nat
  ex_disabled_on_router :: nat
  ex_notifications_sent :: nat
  ex_errors :: "(int \<times> string option \<times> string) list"

definition process_expired_subscriptions ::
    "'dev sub_env \<Rightarrow> (datetime option \<Rightarrow> string) \<Rightarrow> datetime \<Rightarrow> int \<Rightarrow> nat \<Rightarrow> bool \<Rightarrow> 'dev \<times> dbs
     \<Rightarrow> expiry_result \<times> 'dev \<times> dbs" where
  "process_expired_subscriptions env show_date now grace_period_minutes batch_size send_notifications vs =
     (let (v, s) = vs;
          s1 = on_db (backfill_end_dates batch_size) s;
          qs = due_subscriptions (now - minutes grace_period_minutes) batch_size (cur s1);
          (rs, vs2) = run_batch (expire_subscription env show_date now send_notifications) qs (v, s1)
      in (\<lparr>ex_processed = length qs, ex_expired = length qs, ex_disabled_on_router = length (filter es_disabled rs),
           ex_notifications_sent = length (filter es_notified rs),
           ex_errors = map (\<lambda>(q, r). (sub_id q, es_error r, ''router_sync''))
             (filter (\<lambda>(q, r). \<not> es_disabled r) (zip qs rs))\<rparr>, vs2))"

section \<open>Expired hotspot users\<close>

text \<open>
  \<open>for u in rows: if u.get(key) == username and u.get(".id"): execute_command(path, method, id=..., ...)\<close>.
\<close>

fun act_on_rows ::
    "'dev exec \<Rightarrow> string \<Rightarrow> string \<Rightarrow> string \<Rightarrow> string \<Rightarrow> (string \<times> string option) list \<Rightarrow> row list \<Rightarrow> 'dev
     \<Rightarrow> (exn + unit) \<times> 'dev" where
  "act_on_rows exec path method' key username extra [] v = (Inr (), v)"
| "act_on_rows exec path method' key username extra (u # us) v =
     (if dict_get u key = Some username \<and> truthy (dict_get u ''.id'')
      then andthen (exec path method' ((''id'', dict_get u ''.id'') # extra) v)
             (\<lambda>_ v1. act_on_rows exec path method' key username extra us v1)
      else act_on_rows exec path method' key username extra us v)"

definition expire_hotspot_user_on_router ::
    "'dev sub_env \<Rightarrow> datetime \<Rightarrow> int \<Rightarrow> string \<Rightarrow> 'dev \<times> dbs \<Rightarrow> bool \<times> 'dev \<times> dbs" where
  "expire_hotspot_user_on_router env now organization_id username vs =
     (let (v, s) = vs
      in case one_of (filter (\<lambda>r. rt_organization_id r = Some organization_id \<and> rt_is_active r) (routers (cur s))) of
           None \<Rightarrow> (False, v, s)
         | Some r \<Rightarrow>
             if rt_agent_installed r \<and> truthy (rt_agent_token r) then
               let (_, s1) = queue_command (env_uuid env) now (rt_id r) ''disable_user''
                     [(''username'', username), (''type'', ''hotspot'')] 2 (Some ''hotspot_expiry'') (Some username) None s;
                   (_, s2) = queue_command (env_uuid env) now (rt_id r) ''disconnect''
                     [(''username'', username)] 2 (Some ''hotspot_expiry'') (Some username) None s1
               in (True, v, s2)
             else
               case env_connect env r v of
                 Some e \<Rightarrow> (False, v, s)
               | None \<Rightarrow>
                   let (b, v1) = catching False
                     (andthen (env_exec env ''/ip/hotspot/user'' ''get'' [] v) (\<lambda>us v1.
                      andthen (act_on_rows (env_exec env) ''/ip/hotspot/user'' ''set'' ''name'' username
                        [(''disabled'', Some ''yes'')] (rows_or_empty us) v1) (\<lambda>_ v2.
                      andthen (env_exec env ''/ip/hotspot/active'' ''get'' [] v2) (\<lambda>acts v3.
                      andthen (act_on_rows (env_exec env) ''/ip/hotspot/active'' ''remove'' ''user'' username []
                        (rows_or_empty acts) v3) (\<lambda>_ v4. (Inr True, v4))))))
                   in (b, v1, s))"

text \<open>The vouchers to look at, each with the time of its activation.\<close>

definition used_candidates :: "nat \<Rightarrow> db \<Rightarrow> (voucher_code \<times> datetime) list" where
  "used_candidates batch_size d =
     map (\<lambda>w. (w, the (vch_used_at w)))
       (take batch_size (order_by (\<lambda>w. the (vch_used_at w)) (filter (\<lambda>w. vch_hotspot_username w \<noteq> None \<and>
          vch_status w = VchUsed \<and> vch_used_at w \<noteq> None) (vouchers d))))"

definition purchased_candidates :: "nat \<Rightarrow> db \<Rightarrow> (voucher_code \<times> datetime) list" where
  "purchased_candidates batch_size d =
     take batch_size (concat (map (\<lambda>w.
        map (\<lambda>p. (w, case pur_completed_at p of None \<Rightarrow> vch_created_at w | Some t \<Rightarrow> t))
          (filter (\<lambda>p. pur_voucher_code_id p = Some (vch_id w) \<and> pur_payment_status p = ''completed'') (purchases d)))
        (filter (\<lambda>w. vch_hotspot_username w \<noteq> None \<and> vch_status w = VchActive) (vouchers d))))"

definition window_over :: "datetime \<Rightarrow> int \<Rightarrow> db \<Rightarrow> voucher_code \<times> datetime \<Rightarrow> bool" where
  \<comment> \<open>the plan exists, its window or the churn window is over, and so is the grace period\<close>
  "window_over now grace d c \<longleftrightarrow>
     (case tbl_get plan_id (vch_plan_id (fst c)) (plans d) of
        None \<Rightarrow> False
      | Some p \<Rightarrow>
          (case access_expiry_from p (snd c) (Some (churn_days_for_org (Some (vch_organization_id (fst c))) d)) of
             None \<Rightarrow> False
           | Some expiry \<Rightarrow> \<not> now \<le> expiry + minutes grace))"

definition expire_voucher ::
    "'dev sub_env \<Rightarrow> datetime \<Rightarrow> int \<Rightarrow> voucher_code \<times> datetime \<Rightarrow> 'dev \<times> dbs \<Rightarrow> (bool \<times> bool) \<times> 'dev \<times> dbs" where
  "expire_voucher env now grace c vs =
     (if \<not> window_over now grace (cur (snd vs)) c then ((False, False), vs)
      else
        let (b, v1, s1) = expire_hotspot_user_on_router env now (vch_organization_id (fst c))
              (the (vch_hotspot_username (fst c))) vs
        in ((True, b), v1, on_db (upd_voucher (vch_id (fst c)) (\<lambda>x. x\<lparr>vch_status := VchExpired\<rparr>)) s1))"

definition session_over :: "datetime \<Rightarrow> customer_session \<Rightarrow> bool" where
  "session_over now x \<longleftrightarrow> ses_status x = SesActive \<and> ses_expires_at x \<le> now"

record hotspot_result =
  hx_checked :: nat
  hx_expired :: nat
  hx_disabled_on_router :: nat
  hx_sessions_expired :: nat

definition process_expired_hotspot_users ::
    "'dev sub_env \<Rightarrow> datetime \<Rightarrow> int \<Rightarrow> nat \<Rightarrow> 'dev \<times> dbs \<Rightarrow> hotspot_result \<times> 'dev \<times> dbs" where
  "process_expired_hotspot_users env now grace_period_minutes batch_size vs =
     (let candidates = used_candidates batch_size (cur (snd vs)) @ purchased_candidates batch_size (cur (snd vs));
          (rs, v1, s1) = run_batch (expire_voucher env now grace_period_minutes) candidates vs;
          stale = length (filter (session_over now) (sessions (cur s1)));
          s2 = on_db (sessions_update (upd_where (session_over now) (\<lambda>x. x\<lparr>ses_status := SesExpired,
                 ses_ended_at := Some now, ses_terminate_cause := Some ''Session-Timeout''\<rparr>))) s1
      in (\<lparr>hx_checked = length candidates, hx_expired = length (filter fst rs),
           hx_disabled_on_router = length (filter snd rs), hx_sessions_expired = stale\<rparr>, v1, commit s2))"

section \<open>Reminders\<close>

definition customer_name :: "user \<Rightarrow> string" where
  "customer_name u =
     (let n = strip (join '' '' (filter (\<lambda>x. x \<noteq> []) [usr_first_name u, usr_last_name u]))
      in if n \<noteq> [] then n else if usr_email u \<noteq> [] then usr_email u else usr_username u)"

definition send_expiring_soon_notification ::
    "(datetime \<Rightarrow> string) \<Rightarrow> datetime \<Rightarrow> int \<Rightarrow> subscription \<Rightarrow> dbs \<Rightarrow> bool \<times> dbs" where
  "send_expiring_soon_notification isoformat now hours_remaining q s =
     (case tbl_get usr_id (sub_user_id q) (users (cur s)) of
        None \<Rightarrow> (False, s)
      | Some u \<Rightarrow>
          let pname = (case tbl_get plan_id (sub_plan_id q) (plans (cur s)) of None \<Rightarrow> ''Unknown'' | Some p \<Rightarrow> plan_name p);
              org = (if truthy_int (sub_organization_id q)
                     then tbl_get org_id (the (sub_organization_id q)) (organizations (cur s)) else None);
              tenant_id = map_option org_uuid org;
              (_, s1) = record_event now ''subscription.expiring''
                [(''tenant_id'', tenant_id), (''subscription_id'', Some (str_int (sub_id q))),
                 (''customer_name'', Some (customer_name u)), (''phone'', usr_phone u), (''email'', Some (usr_email u)),
                 (''package_name'', Some pname), (''expiry_at'', map_option isoformat (sub_end_date q)),
                 (''days_remaining'', Some (str_int (if hours_remaining \<ge> 24 then max 1 (hours_remaining div 24) else 0))),
                 (''hours_remaining'', Some (str_int hours_remaining))]
                tenant_id (Some (str_int (sub_id q))) s
          in (True, commit s1))"

definition expiring_around :: "datetime \<Rightarrow> int \<Rightarrow> nat \<Rightarrow> db \<Rightarrow> subscription list" where
  "expiring_around now h batch_size d =
     take batch_size (filter (\<lambda>q. sub_status q = SubActive \<and>
       (case sub_end_date q of None \<Rightarrow> False
        | Some e \<Rightarrow> now + hours h - minutes 30 \<le> e \<and> e \<le> now + hours h + minutes 30)) (subscriptions d))"

record reminder_result =
  rr_checked :: nat
  rr_notifications_sent :: nat
  rr_by_hours :: "(int \<times> nat) list"

definition remind_window ::
    "(datetime \<Rightarrow> string) \<Rightarrow> datetime \<Rightarrow> nat \<Rightarrow> int \<Rightarrow> dbs \<Rightarrow> (int \<times> bool list) \<times> dbs" where
  "remind_window isoformat now batch_size h s =
     (let (rs, s1) = run_batch (send_expiring_soon_notification isoformat now h) (expiring_around now h batch_size (cur s)) s
      in ((h, rs), s1))"

definition process_expiring_soon_notifications ::
    "(datetime \<Rightarrow> string) \<Rightarrow> datetime \<Rightarrow> int list option \<Rightarrow> nat \<Rightarrow> dbs \<Rightarrow> reminder_result \<times> dbs" where
  "process_expiring_soon_notifications isoformat now hours_before batch_size s =
     (let hs = (case hours_before of None \<Rightarrow> [24, 6, 1] | Some l \<Rightarrow> l);
          (rs, s1) = run_batch (remind_window isoformat now batch_size) hs s
      in (\<lparr>rr_checked = sum_list (map (\<lambda>(_, l). length l) rs),
           rr_notifications_sent = sum_list (map (\<lambda>(_, l). length (filter id l)) rs),
           rr_by_hours = fold (\<lambda>(h, l). dict_set h (length l)) rs []\<rparr>, s1))"

section \<open>Renewal and statistics\<close>

record renewal_result =
  rn_success :: bool
  rn_error :: "string option"
  rn_router_error :: "string option"

definition renew_expired_subscription ::
    "'dev sub_env \<Rightarrow> (datetime option \<Rightarrow> string) \<Rightarrow> datetime \<Rightarrow> int \<Rightarrow> datetime \<Rightarrow> int option \<Rightarrow> 'dev \<times> dbs
     \<Rightarrow> renewal_result \<times> 'dev \<times> dbs" where
  "renew_expired_subscription env show_date now i new_end_date changed_by vs =
     (let (v, s) = vs
      in case tbl_get sub_id i (subscriptions (cur s)) of
           None \<Rightarrow> (\<lparr>rn_success = False, rn_error = Some ''Subscription not found'', rn_router_error = None\<rparr>, v, s)
         | Some q \<Rightarrow>
             let f = (\<lambda>x. x\<lparr>sub_status := SubActive, sub_end_date := Some new_end_date, sub_is_router_synced := False\<rparr>);
                 history = \<lparr>sh_subscription_id = i, sh_action = ''renewed'',
                   sh_old_status = Some (subscription_status_value (sub_status q)),
                   sh_new_status = Some (subscription_status_value SubActive),
                   sh_details = ''Renewed until '' @ show_date (Some new_end_date), sh_changed_by = changed_by,
                   sh_ip_address = None\<rparr>;
                 s1 = commit (on_db (\<lambda>d. histories_update (\<lambda>t. t @ [history]) (upd_subscription i f d)) s);
                 (res, v2, s2) = sync_subscription_to_router (env_uuid env) (env_exec env) (env_connect env) now (f q) False (v, s1)
             in (\<lparr>rn_success = sr_success res, rn_error = None,
                  rn_router_error = (if sr_success res then None else sr_error res)\<rparr>, v2, s2))"

record expiry_statistics =
  st_counts :: "(string \<times> nat) list"
  st_expiring_soon :: "(string \<times> nat) list"
  st_recently_expired :: nat

definition get_expiry_statistics :: "datetime \<Rightarrow> int option \<Rightarrow> db \<Rightarrow> expiry_statistics" where
  "get_expiry_statistics now organization_id d =
     (let mine = filter (\<lambda>q. truthy_int organization_id \<longrightarrow> sub_organization_id q = organization_id) (subscriptions d);
          ends = (\<lambda>P q. case sub_end_date q of None \<Rightarrow> False | Some e \<Rightarrow> P e)
      in \<lparr>st_counts = map (\<lambda>st. (subscription_status_value st, length (filter (\<lambda>q. sub_status q = st) mine)))
            [SubActive, SubInactive, SubSuspended, SubExpired, SubCancelled, SubPending],
          st_expiring_soon = map (\<lambda>(h, label). (label, length (filter (\<lambda>q. sub_status q = SubActive \<and>
              ends (\<lambda>e. e \<le> now + hours h \<and> e > now) q) mine))) [(24, ''24h''), (168, ''7d''), (720, ''30d'')],
          st_recently_expired = length (filter (\<lambda>q. sub_status q = SubExpired \<and> ends (\<lambda>e. e \<ge> now - hours 24) q) mine)\<rparr>)"

section \<open>The pass ends access\<close>

lemma sync_subscription_rows:
  assumes "sync_subscription_to_router uuid exec connect now q fc (v, s) = (res, v', s')"
  shows "subscriptions (cur s') = subscriptions (cur s)
    \<or> subscriptions (cur s') = tbl_upd sub_id (sub_id q)
        (\<lambda>x. x\<lparr>sub_is_router_synced := sr_success res, sub_last_router_sync := Some now\<rparr>) (subscriptions (cur s))"
proof -
  have "subscriptions (cur s1) = subscriptions (cur s)" if "sync_via_agent_queue uuid now q r p fc s = (x, s1)" for r p x s1
    using sync_via_agent_queue_effects(3) [OF that] .
  with assms show ?thesis
    by (auto simp: sync_subscription_to_router_def Let_def row_defs split: option.splits if_splits prod.splits)
qed

lemma expire_subscription_effects:
  assumes "expire_subscription env show_date now send q vs = (r, vs')"
  shows "saved (snd vs') = cur (snd vs')" "routers (cur (snd vs')) = routers (cur (snd vs))"
    "plans (cur (snd vs')) = plans (cur (snd vs))" "set (commands (cur (snd vs))) \<subseteq> set (commands (cur (snd vs')))"
    "\<not> es_notified r"
    "\<exists>g. subscriptions (cur (snd vs')) = tbl_upd sub_id (sub_id q) g (subscriptions (cur (snd vs)))
       \<and> (\<forall>x. sub_id (g x) = sub_id x \<and> sub_status (g x) = SubExpired)"
    "agent_served (cur (snd vs)) q \<Longrightarrow>
       list_ex (sync_command_of (q\<lparr>sub_status := SubExpired\<rparr>)) (commands (cur (snd vs')))"
proof -
  let ?f = "\<lambda>x. x\<lparr>sub_status := SubExpired\<rparr>"
  obtain v s where vs: "vs = (v, s)" by fastforce
  define h where "h = expired_history show_date q"
  have h: "expire_subscription env show_date now send q (v, s) =
      (let (res, v2, s2) = sync_subscription_to_router (env_uuid env) (env_exec env) (env_connect env) now (?f q) False
          (v, on_db (\<lambda>d. histories_update (\<lambda>t. t @ [h]) (upd_subscription (sub_id q) ?f d)) s)
       in (\<lparr>es_disabled = sr_success res, es_error = sr_error res,
            es_notified = (send \<and> notified (send_expiry_notification (?f q)))\<rparr>, v2, commit s2))"
    by (simp add: expire_subscription_def Let_def h_def)
  let ?s1 = "on_db (\<lambda>d. histories_update (\<lambda>t. t @ [h]) (upd_subscription (sub_id q) ?f d)) s"
  have s1: "subscriptions (cur ?s1) = tbl_upd sub_id (sub_id q) ?f (subscriptions (cur s))" "routers (cur ?s1) = routers (cur s)"
    "plans (cur ?s1) = plans (cur s)" "commands (cur ?s1) = commands (cur s)"
    by (simp_all add: row_defs)
  obtain res v2 s2 where st: "sync_subscription_to_router (env_uuid env) (env_exec env) (env_connect env) now (?f q) False (v, ?s1) = (res, v2, s2)"
    by (metis surj_pair)
  have out: "vs' = (v2, commit s2)" "\<not> es_notified r"
    using assms by (auto simp: vs h st notified_def send_expiry_notification_def)
  note fr = sync_frame [OF st]
  show "saved (snd vs') = cur (snd vs')" "\<not> es_notified r" using out by simp_all
  show "routers (cur (snd vs')) = routers (cur (snd vs))" "plans (cur (snd vs')) = plans (cur (snd vs))"
    "set (commands (cur (snd vs))) \<subseteq> set (commands (cur (snd vs')))"
    using fr s1 by (simp_all add: out vs)
  show "\<exists>g. subscriptions (cur (snd vs')) = tbl_upd sub_id (sub_id q) g (subscriptions (cur (snd vs)))
       \<and> (\<forall>x. sub_id (g x) = sub_id x \<and> sub_status (g x) = SubExpired)"
    using sync_subscription_rows [OF st]
  proof
    assume "subscriptions (cur s2) = subscriptions (cur ?s1)"
    then show ?thesis by (intro exI [of _ ?f]) (simp add: out vs row_defs)
  next
    let ?g = "\<lambda>x. x\<lparr>sub_is_router_synced := sr_success res, sub_last_router_sync := Some now\<rparr>"
    assume "subscriptions (cur s2) = tbl_upd sub_id (sub_id (?f q)) ?g (subscriptions (cur ?s1))"
    then have "subscriptions (cur s2) = tbl_upd sub_id (sub_id q) (\<lambda>x. ?g (?f x)) (subscriptions (cur s))"
      by (simp only: s1) (simp add: tbl_upd_tbl_upd comp_def)
    then show ?thesis by (intro exI [of _ "\<lambda>x. ?g (?f x)"]) (simp add: out vs)
  qed
  show "list_ex (sync_command_of (?f q)) (commands (cur (snd vs')))" if "agent_served (cur (snd vs)) q"
  proof -
    have "agent_served (cur ?s1) (?f q)" using that by (simp add: vs agent_served_def row_defs cong: option.case_cong)
    from sync_agent_served [OF this, of "env_uuid env" "env_exec env" "env_connect env" now False v]
    obtain r' p where r: "rt_id r' = sub_router_id (?f q)"
      and eq: "sync_subscription_to_router (env_uuid env) (env_exec env) (env_connect env) now (?f q) False (v, ?s1) =
         (let (res, s1) = sync_via_agent_queue (env_uuid env) now (?f q) r' p False ?s1 in (res, v, s1))" by blast
    obtain y s3 where a: "sync_via_agent_queue (env_uuid env) now (?f q) r' p False ?s1 = (y, s3)" by fastforce
    have "s3 = s2" using eq a st by simp
    with sync_via_agent_queue_effects(7) [OF a _ r] show ?thesis by (auto simp: out list_ex_iff disabling_def)
  qed
qed

definition ended :: "db \<Rightarrow> subscription \<Rightarrow> 'dev \<times> dbs \<Rightarrow> bool" where
  "ended d q vs \<longleftrightarrow>
     (\<forall>y. tbl_get sub_id (sub_id q) (subscriptions (cur (snd vs))) = Some y \<longrightarrow> sub_status y = SubExpired) \<and>
     (agent_served d q \<longrightarrow> list_ex (sync_command_of (q\<lparr>sub_status := SubExpired\<rparr>)) (commands (cur (snd vs))))"

interpretation expiry_pass: sweep "expire_subscription env show_date now send"
    "\<lambda>vs. routers (cur (snd vs)) = routers d \<and> plans (cur (snd vs)) = plans d" "ended d"
    for env :: "'dev sub_env" and show_date now send d
proof
  fix vs :: "'dev \<times> dbs" and q y
  assume i: "routers (cur (snd vs)) = routers d \<and> plans (cur (snd vs)) = plans d"
  obtain r vs' where st: "expire_subscription env show_date now send q vs = (r, vs')" by (metis surj_pair)
  note e = expire_subscription_effects [OF st]
  obtain g where g: "subscriptions (cur (snd vs')) = tbl_upd sub_id (sub_id q) g (subscriptions (cur (snd vs)))"
    "\<And>x. sub_id (g x) = sub_id x" "\<And>x. sub_status (g x) = SubExpired"
    using e(6) by blast
  show "routers (cur (snd (snd (expire_subscription env show_date now send q vs)))) = routers d
      \<and> plans (cur (snd (snd (expire_subscription env show_date now send q vs)))) = plans d"
    using i e(2,3) st by simp
  show "ended d q (snd (expire_subscription env show_date now send q vs))"
    using i e(7) agent_served_cong [of "cur (snd vs)" d q]
    by (auto simp: st ended_def g tbl_get_tbl_upd)
  show "ended d y (snd (expire_subscription env show_date now send q vs))" if "ended d y vs"
    using that e(4) by (auto simp: st ended_def g tbl_get_tbl_upd list_ex_iff split: if_splits)
qed

lemma expire_step:
  "map sub_id (subscriptions (cur (snd (snd (expire_subscription env show_date now send q vs))))) = map sub_id (subscriptions (cur (snd vs)))"
  "i \<noteq> sub_id q \<Longrightarrow> tbl_get sub_id i (subscriptions (cur (snd (snd (expire_subscription env show_date now send q vs))))) =
     tbl_get sub_id i (subscriptions (cur (snd vs)))"
  "saved (snd (snd (expire_subscription env show_date now send q vs))) = cur (snd (snd (expire_subscription env show_date now send q vs)))"
  "\<not> es_notified (fst (expire_subscription env show_date now send q vs))"
proof -
  obtain r vs' where st: "expire_subscription env show_date now send q vs = (r, vs')" by (metis surj_pair)
  note e = expire_subscription_effects [OF st]
  obtain g where g: "subscriptions (cur (snd vs')) = tbl_upd sub_id (sub_id q) g (subscriptions (cur (snd vs)))"
    "\<And>x. sub_id (g x) = sub_id x" using e(6) by blast
  show "map sub_id (subscriptions (cur (snd (snd (expire_subscription env show_date now send q vs))))) = map sub_id (subscriptions (cur (snd vs)))"
    by (simp add: st g map_key_tbl_upd)
  show "saved (snd (snd (expire_subscription env show_date now send q vs))) = cur (snd (snd (expire_subscription env show_date now send q vs)))"
    "\<not> es_notified (fst (expire_subscription env show_date now send q vs))" using e(1,5) by (simp_all add: st)
  show "tbl_get sub_id i (subscriptions (cur (snd (snd (expire_subscription env show_date now send q vs))))) =
     tbl_get sub_id i (subscriptions (cur (snd vs)))" if "i \<noteq> sub_id q"
    using that by (simp add: st g tbl_get_tbl_upd)
qed

lemma expiry_batch:
  fixes env :: "'dev sub_env" and vs :: "'dev \<times> dbs" and show_date now send
  defines "batch \<equiv> run_batch (expire_subscription env show_date now send)"
  shows "i \<notin> sub_id ` set qs \<Longrightarrow>
      tbl_get sub_id i (subscriptions (cur (snd (snd (batch qs vs))))) = tbl_get sub_id i (subscriptions (cur (snd vs)))"
    "qs \<noteq> [] \<Longrightarrow> saved (snd (snd (batch qs vs))) = cur (snd (snd (batch qs vs)))"
    "filter es_notified (fst (batch qs vs)) = []"
    "map sub_id (subscriptions (cur (snd (snd (batch qs vs))))) = map sub_id (subscriptions (cur (snd vs)))"
proof -
  have c: "fst (batch (q # qs) vs) = fst (expire_subscription env show_date now send q vs) # fst (batch qs (snd (expire_subscription env show_date now send q vs)))"
    "snd (batch (q # qs) vs) = snd (batch qs (snd (expire_subscription env show_date now send q vs)))" for q qs vs
    unfolding batch_def by (rule run_batch_Cons)+
  have n: "batch [] vs = ([], vs)" for vs by (simp add: batch_def)
  show "i \<notin> sub_id ` set qs \<Longrightarrow>
      tbl_get sub_id i (subscriptions (cur (snd (snd (batch qs vs))))) = tbl_get sub_id i (subscriptions (cur (snd vs)))"
    by (induction qs arbitrary: vs) (simp_all add: c n expire_step)
  show "qs \<noteq> [] \<Longrightarrow> saved (snd (snd (batch qs vs))) = cur (snd (snd (batch qs vs)))"
  proof (induction qs arbitrary: vs)
    case (Cons q qs)
    then show ?case by (cases "qs = []") (simp_all add: c n expire_step)
  qed simp
  show "filter es_notified (fst (batch qs vs)) = []"
    by (induction qs arbitrary: vs) (simp_all add: c n expire_step)
  show "map sub_id (subscriptions (cur (snd (snd (batch qs vs))))) = map sub_id (subscriptions (cur (snd vs)))"
    by (induction qs arbitrary: vs) (simp_all add: c n expire_step)
qed

lemma backfill_frame:
  "routers (backfill_end_dates n d) = routers d" "plans (backfill_end_dates n d) = plans d"
proof -
  have "routers (fold (\<lambda>q. upd_subscription (k q) (h q)) qs d') = routers d'
    \<and> plans (fold (\<lambda>q. upd_subscription (k q) (h q)) qs d') = plans d'"
    for k :: "subscription \<Rightarrow> int" and h qs d'
    by (induction qs arbitrary: d') (simp_all add: row_defs)
  then show "routers (backfill_end_dates n d) = routers d" "plans (backfill_end_dates n d) = plans d"
    by (simp_all add: backfill_end_dates_def)
qed

lemma expiry_pass_due:
  assumes "process_expired_subscriptions env show_date now grace batch_size send (v, s) = (res, v', s')"
    "q \<in> set (due_subscriptions (now - minutes grace) batch_size (backfill_end_dates batch_size (cur s)))"
  shows "saved s' = cur s'" "\<exists>y. tbl_get sub_id (sub_id q) (subscriptions (saved s')) = Some y \<and> sub_status y = SubExpired"
    "agent_served (cur s) q \<Longrightarrow> list_ex (sync_command_of (q\<lparr>sub_status := SubExpired\<rparr>)) (commands (saved s'))"
proof -
  let ?vs = "(v, on_db (backfill_end_dates batch_size) s)"
  let ?d1 = "backfill_end_dates batch_size (cur s)"
  let ?due = "due_subscriptions (now - minutes grace) batch_size ?d1"
  let ?run = "run_batch (expire_subscription env show_date now send) ?due ?vs"
  have out: "(v', s') = snd ?run" using assms(1) by (auto simp: process_expired_subscriptions_def split_beta Let_def)
  have s': "s' = snd (snd ?run)" using out by (metis snd_conv)
  have fr: "routers (cur (snd ?vs)) = routers (cur s) \<and> plans (cur (snd ?vs)) = plans (cur s)" by (simp add: backfill_frame)
  have "?due \<noteq> []" using assms(2) by auto
  then show sv: "saved s' = cur s'" unfolding s' by (rule expiry_batch(2))
  have e: "ended (cur s) q (v', s')" unfolding out using expiry_pass.batch_settles [OF fr assms(2)] .
  have "q \<in> set (subscriptions ?d1)" using assms(2) by (auto simp: due_subscriptions_def dest: in_set_takeD)
  then have "sub_id q \<in> set (map sub_id (subscriptions ?d1))" by simp
  then have "sub_id q \<in> set (map sub_id (subscriptions (cur s')))"
    using expiry_batch(4) [of env show_date now send ?due ?vs] by (simp add: s')
  then have "tbl_get sub_id (sub_id q) (subscriptions (cur s')) \<noteq> None" by (simp add: tbl_get_None)
  with e show "\<exists>y. tbl_get sub_id (sub_id q) (subscriptions (saved s')) = Some y \<and> sub_status y = SubExpired"
    unfolding sv by (auto simp: ended_def)
  show "list_ex (sync_command_of (q\<lparr>sub_status := SubExpired\<rparr>)) (commands (saved s'))" if "agent_served (cur s) q"
    using e that unfolding sv by (auto simp: ended_def)
qed

text \<open>
  C13. The pass ends the access of every subscription that is due: each active subscription among
  the first \<open>batch_size\<close> whose end date (given, or backfilled from the churn window) is past the
  grace period is expired afterwards, in the committed database, and where its router has
  the agent the \<open>disable_user\<close> command for it is queued, whatever happened to the others. No
  other subscription changes beyond the backfilled end date, and no customer is notified.
\<close>

theorem expiry_pass_ends_access:
  assumes "process_expired_subscriptions env show_date now grace batch_size send (v, s) = (res, v', s')"
    "d1 = backfill_end_dates batch_size (cur s)"
    "due = due_subscriptions (now - minutes grace) batch_size d1"
  shows "(\<forall>q \<in> set due. (\<exists>y. tbl_get sub_id (sub_id q) (subscriptions (saved s')) = Some y \<and> sub_status y = SubExpired)
        \<and> (agent_served (cur s) q \<longrightarrow> list_ex (sync_command_of (q\<lparr>sub_status := SubExpired\<rparr>)) (commands (saved s'))))
    \<and> (\<forall>i. i \<notin> sub_id ` set due \<longrightarrow> tbl_get sub_id i (subscriptions (cur s')) = tbl_get sub_id i (subscriptions d1))
    \<and> ex_expired res = length due \<and> ex_notifications_sent res = 0"
proof -
  let ?vs = "(v, on_db (backfill_end_dates batch_size) s)"
  let ?run = "run_batch (expire_subscription env show_date now send) due ?vs"
  have out: "(v', s') = snd ?run" "ex_expired res = length due" "ex_notifications_sent res = length (filter es_notified (fst ?run))"
    using assms by (auto simp: process_expired_subscriptions_def split_beta Let_def)
  have s': "s' = snd (snd ?run)" using out(1) by (metis snd_conv)
  have "tbl_get sub_id i (subscriptions (cur s')) = tbl_get sub_id i (subscriptions d1)" if "i \<notin> sub_id ` set due" for i
    using expiry_batch(1) [OF that, of env show_date now send ?vs] by (simp add: s' assms(2))
  moreover have "ex_notifications_sent res = 0" using out(3) expiry_batch(3) [of env show_date now send due ?vs] by simp
  ultimately show ?thesis using out(2) expiry_pass_due(2,3) [OF assms(1)] unfolding assms(2,3) by blast
qed

section \<open>Routers that cannot be reached\<close>

lemma expire_unreachable:
  assumes "\<And>r v. env_connect env r v \<noteq> None" "expire_subscription env show_date now send q (v, s) = (r, v', s')"
  shows "v' = v \<and> subscriptions (cur s') = tbl_upd sub_id (sub_id q) (\<lambda>x. x\<lparr>sub_status := SubExpired\<rparr>) (subscriptions (cur s))"
proof -
  let ?f = "\<lambda>x. x\<lparr>sub_status := SubExpired\<rparr>"
  let ?s1 = "on_db (\<lambda>d. histories_update (\<lambda>t. t @ [expired_history show_date q]) (upd_subscription (sub_id q) ?f d)) s"
  obtain res v2 s2 where st: "sync_subscription_to_router (env_uuid env) (env_exec env) (env_connect env) now (?f q) False (v, ?s1) = (res, v2, s2)"
    by (metis surj_pair)
  define ce where "ce r v = the (env_connect env r v)" for r v
  have c: "env_connect env r v = Some (ce r v)" for r v unfolding ce_def using assms(1) by (rule option.collapse [symmetric])
  have a: "subscriptions (cur s3) = subscriptions (cur ?s1)"
    if "sync_via_agent_queue (env_uuid env) now (?f q) r p False ?s1 = (x, s3)" for r p x s3
    using sync_via_agent_queue_effects(3) [OF that] .
  have "v2 = v \<and> subscriptions (cur s2) = subscriptions (cur ?s1)"
    using st a unfolding sync_subscription_to_router_def Let_def
    by (auto simp: c split: option.splits if_splits prod.splits)
  with assms(2) st show ?thesis by (auto simp: expire_subscription_def Let_def row_defs)
qed

lemma expiry_batch_unreachable:
  assumes "\<And>r v. env_connect env r v \<noteq> None"
  shows "fst (snd (run_batch (expire_subscription env show_date now send) qs (v, s))) = v
    \<and> subscriptions (cur (snd (snd (run_batch (expire_subscription env show_date now send) qs (v, s))))) =
        upd_where (\<lambda>x. sub_id x \<in> sub_id ` set qs) (\<lambda>x. x\<lparr>sub_status := SubExpired\<rparr>) (subscriptions (cur s))"
proof (induction qs arbitrary: s)
  case Nil
  then show ?case by (simp add: upd_where_def)
next
  case (Cons q qs)
  obtain r v' s' where st: "expire_subscription env show_date now send q (v, s) = (r, v', s')" by (metis surj_pair)
  note e = expire_unreachable [OF assms st]
  have "upd_where (\<lambda>x. sub_id x \<in> sub_id ` set qs) (\<lambda>x. x\<lparr>sub_status := SubExpired\<rparr>)
        (tbl_upd sub_id (sub_id q) (\<lambda>x. x\<lparr>sub_status := SubExpired\<rparr>) t) =
      upd_where (\<lambda>x. sub_id x = sub_id q \<or> sub_id x \<in> sub_id ` set qs) (\<lambda>x. x\<lparr>sub_status := SubExpired\<rparr>) t" for t
    by (auto simp: upd_where_def tbl_upd_def)
  with Cons.IH [of s'] e show ?case by (simp add: run_batch_Cons st del: run_batch.simps(2))
qed

text \<open>
   A router that cannot be reached keeps its users: when no direct connection can be opened
  during the pass, a subscription that is due on a router without the agent is stored as
  expired with its sync flag as it was, no device has changed, and neither a later expiry
  pass nor the pass over unsynced subscriptions will select it again, so that its user stays
  enabled on the router.
\<close>

theorem unreachable_router_keeps_access:
  assumes "\<forall>r v. env_connect env r v \<noteq> None"
    "process_expired_subscriptions env show_date now grace batch_size send (v, s) = (res, v', s')"
    "d1 = backfill_end_dates batch_size (cur s)" "uniq sub_id (subscriptions d1)"
    "q \<in> set (due_subscriptions (now - minutes grace) batch_size d1)"
  shows "v' = v \<and> tbl_get sub_id (sub_id q) (subscriptions (saved s')) = Some (q\<lparr>sub_status := SubExpired\<rparr>)
    \<and> (\<forall>x \<in> set (subscriptions (saved s')). sub_id x = sub_id q \<longrightarrow> sub_status x \<noteq> SubActive)
    \<and> sub_id q \<notin> sub_id ` set (due_subscriptions t n (saved s'))"
proof -
  let ?f = "\<lambda>x. x\<lparr>sub_status := SubExpired\<rparr>"
  let ?due = "due_subscriptions (now - minutes grace) batch_size d1"
  have ne: "?due \<noteq> []" using assms(5) by auto
  have out: "(v', s') = snd (run_batch (expire_subscription env show_date now send) ?due (v, on_db (backfill_end_dates batch_size) s))"
    using assms(2,3) by (auto simp: process_expired_subscriptions_def split_beta Let_def)
  note v's' = arg_cong [OF out, of fst, unfolded fst_conv] arg_cong [OF out, of snd, unfolded snd_conv]
  have e: "v' = v" "subscriptions (cur s') = upd_where (\<lambda>x. sub_id x \<in> sub_id ` set ?due) ?f (subscriptions d1)"
    using expiry_batch_unreachable [of env show_date now send ?due v "on_db (backfill_end_dates batch_size) s"] assms(1,3)
    by (simp_all add: v's')
  have sv: "saved s' = cur s'" unfolding v's' using ne by (rule expiry_batch(2))
  have "q \<in> set (subscriptions d1)" using assms(5) by (auto simp: due_subscriptions_def dest: in_set_takeD)
  then have "tbl_get sub_id (sub_id q) (subscriptions d1) = Some q" by (rule uniq_tbl_get [OF assms(4)])
  moreover have "sub_id q \<in> sub_id ` set ?due" using assms(5) by blast
  ultimately have row: "tbl_get sub_id (sub_id q) (subscriptions (saved s')) = Some (?f q)"
    by (simp add: sv e(2) tbl_get_upd_where)
  have off: "sub_status x \<noteq> SubActive" if "x \<in> set (subscriptions (saved s'))" "sub_id x = sub_id q" for x
  proof -
    have "uniq sub_id (subscriptions (saved s'))" using assms(4) by (simp add: sv e(2) uniq_upd_where)
    from uniq_tbl_get [OF this that(1)] row that(2) have "x = ?f q" by simp
    then show ?thesis by simp
  qed
  then have "sub_id q \<notin> sub_id ` set (due_subscriptions t n (saved s'))"
    by (auto simp: due_subscriptions_def dest!: in_set_takeD)
  with e(1) row off show ?thesis by blast
qed

section \<open>Hotspot vouchers\<close>

lemma expire_hotspot_user_frame:
  assumes "expire_hotspot_user_on_router env now org un (v, s) = (b, v', s')"
  shows "plans (cur s') = plans (cur s)" "org_settings (cur s') = org_settings (cur s)"
    "vouchers (cur s') = vouchers (cur s)" "sessions (cur s') = sessions (cur s)"
  using assms
  by (auto simp: expire_hotspot_user_on_router_def queue_command_def row_defs Let_def
      split: option.splits if_splits prod.splits)

lemma window_over_cong:
  "plans d' = plans d \<Longrightarrow> org_settings d' = org_settings d \<Longrightarrow> window_over now grace d' c = window_over now grace d c"
proof -
  assume a: "plans d' = plans d" "org_settings d' = org_settings d"
  have "churn_days_for_org x d' = churn_days_for_org x d" for x by (simp only: churn_days_for_org_def a)
  with a show ?thesis by (simp only: window_over_def)
qed

lemma voucher_batch:
  assumes "plans (cur (snd vs)) = plans d" "org_settings (cur (snd vs)) = org_settings d"
    "run_batch (expire_voucher env now grace) cs vs = (rs, v', s')"
  shows "vouchers (cur s') = upd_where (\<lambda>w. \<exists>c \<in> set cs. vch_id (fst c) = vch_id w \<and> window_over now grace d c)
      (\<lambda>w. w\<lparr>vch_status := VchExpired\<rparr>) (vouchers (cur (snd vs)))
    \<and> sessions (cur s') = sessions (cur (snd vs)) \<and> length (filter fst rs) = length (filter (window_over now grace d) cs)"
  using assms
proof (induction cs arbitrary: vs rs)
  case Nil
  then show ?case by (auto simp: upd_where_def)
next
  case (Cons c cs)
  let ?f = "\<lambda>w. w\<lparr>vch_status := VchExpired\<rparr>"
  obtain v s where vs: "vs = (v, s)" by fastforce
  obtain r v1 s1 where st: "expire_voucher env now grace c (v, s) = (r, v1, s1)" by (metis surj_pair)
  have over: "window_over now grace (cur s) c = window_over now grace d c"
    using Cons.prems(1,2) by (intro window_over_cong) (simp_all add: vs)
  obtain b v2 s2 where ex: "expire_hotspot_user_on_router env now (vch_organization_id (fst c)) (the (vch_hotspot_username (fst c))) (v, s) = (b, v2, s2)"
    by (metis surj_pair)
  note fr = expire_hotspot_user_frame [OF ex]
  have s1: "plans (cur s1) = plans (cur s)" "org_settings (cur s1) = org_settings (cur s)" "sessions (cur s1) = sessions (cur s)"
    "fst r = window_over now grace d c"
    "vouchers (cur s1) = (if window_over now grace d c then tbl_upd vch_id (vch_id (fst c)) ?f (vouchers (cur s)) else vouchers (cur s))"
    using st fr by (auto simp: expire_voucher_def ex over row_defs split: if_splits)
  obtain rs1 where rest: "run_batch (expire_voucher env now grace) cs (v1, s1) = (rs1, v', s')" and rs: "rs = r # rs1"
    using Cons.prems(3) by (auto simp: vs st split: prod.splits)
  let ?P = "\<lambda>w. \<exists>c \<in> set cs. vch_id (fst c) = vch_id w \<and> window_over now grace d c"
  have "upd_where ?P ?f (tbl_upd vch_id (vch_id (fst c)) ?f t) = upd_where (\<lambda>w. vch_id (fst c) = vch_id w \<or> ?P w) ?f t" for t
    by (auto simp: upd_where_def tbl_upd_def)
  then have "upd_where (\<lambda>w. \<exists>c \<in> set cs. vch_id (fst c) = vch_id w \<and> window_over now grace d c) ?f (vouchers (cur s1)) =
      upd_where (\<lambda>w. \<exists>c' \<in> set (c # cs). vch_id (fst c') = vch_id w \<and> window_over now grace d c') ?f (vouchers (cur s))"
    by (cases "window_over now grace d c") (simp_all add: s1(5))
  moreover have "plans (cur (snd (v1, s1))) = plans d" "org_settings (cur (snd (v1, s1))) = org_settings d"
    using Cons.prems(1,2) s1(1,2) by (simp_all add: vs)
  note IH = Cons.IH [OF this rest]
  ultimately show ?case using IH s1(3,4) by (simp add: vs rs)
qed

lemma candidate_rows:
  "(w, t) \<in> set (used_candidates n d) \<Longrightarrow> w \<in> set (vouchers d) \<and> vch_status w = VchUsed \<and> vch_used_at w = Some t"
  "(w, t) \<in> set (purchased_candidates n d) \<Longrightarrow> w \<in> set (vouchers d) \<and> vch_status w = VchActive
     \<and> (\<exists>p \<in> set (purchases d). pur_voucher_code_id p = Some (vch_id w) \<and> pur_payment_status p = ''completed'')"
  by (auto simp: used_candidates_def purchased_candidates_def dest!: in_set_takeD)

text \<open>
   The pass over hotspot vouchers expires exactly the vouchers among its candidates whose
  window, counted from their activation and extended by the grace period, is over: a voucher
  inside its window keeps its status, and so does every voucher that is neither redeemed nor
  bought with a completed payment. Every session past its expiry ends, and all of this is
  committed.
\<close>

theorem hotspot_pass_expires_exactly_the_due:
  assumes "process_expired_hotspot_users env now grace batch_size (v, s) = (res, v', s')" "uniq vch_id (vouchers (cur s))"
    "cs = used_candidates batch_size (cur s) @ purchased_candidates batch_size (cur s)"
  shows "vouchers (saved s') = map (\<lambda>w. if \<exists>t. (w, t) \<in> set cs \<and> window_over now grace (cur s) (w, t)
        then w\<lparr>vch_status := VchExpired\<rparr> else w) (vouchers (cur s))
    \<and> sessions (saved s') = map (\<lambda>x. if ses_status x = SesActive \<and> ses_expires_at x \<le> now
        then x\<lparr>ses_status := SesExpired, ses_ended_at := Some now, ses_terminate_cause := Some ''Session-Timeout''\<rparr> else x)
        (sessions (cur s))
    \<and> hx_expired res = length (filter (window_over now grace (cur s)) cs)
    \<and> (\<forall>w \<in> set (vouchers (cur s)). vch_status w = VchActive
        \<and> (\<forall>p \<in> set (purchases (cur s)). pur_voucher_code_id p = Some (vch_id w) \<longrightarrow> pur_payment_status p \<noteq> ''completed'')
        \<longrightarrow> w \<in> set (vouchers (saved s')))"
proof -
  obtain rs v1 s1 where b: "run_batch (expire_voucher env now grace) cs (v, s) = (rs, v1, s1)" by (metis surj_pair)
  note vb = voucher_batch [OF _ _ b, of "cur s"]
  have s': "saved s' = sessions_update (upd_where (session_over now) (\<lambda>x. x\<lparr>ses_status := SesExpired,
                 ses_ended_at := Some now, ses_terminate_cause := Some ''Session-Timeout''\<rparr>)) (cur s1)"
    and h: "hx_expired res = length (filter fst rs)"
    using assms(1) b by (auto simp: process_expired_hotspot_users_def Let_def simp flip: assms(3))
  have in_cs: "w \<in> set (vouchers (cur s))" if "(w, t) \<in> set cs" for w t
    using that candidate_rows by (auto simp: assms(3))
  have key: "(\<exists>c \<in> set cs. vch_id (fst c) = vch_id w \<and> window_over now grace (cur s) c) \<longleftrightarrow>
      (\<exists>t. (w, t) \<in> set cs \<and> window_over now grace (cur s) (w, t))" if "w \<in> set (vouchers (cur s))" for w
  proof -
    have "fst c = w" if "c \<in> set cs" "vch_id (fst c) = vch_id w" for c
      using in_cs [of "fst c" "snd c"] that \<open>w \<in> set (vouchers (cur s))\<close> assms(2)
      by (simp add: uniq_def distinct_map inj_on_def)
    then show ?thesis by (metis fst_conv prod.collapse)
  qed
  have vs: "vouchers (saved s') = map (\<lambda>w. if \<exists>t. (w, t) \<in> set cs \<and> window_over now grace (cur s) (w, t)
        then w\<lparr>vch_status := VchExpired\<rparr> else w) (vouchers (cur s))"
    using vb key by (simp add: s' upd_where_def)
  moreover have "w \<in> set (vouchers (saved s'))"
    if "w \<in> set (vouchers (cur s))" "vch_status w = VchActive"
      "\<forall>p \<in> set (purchases (cur s)). pur_voucher_code_id p = Some (vch_id w) \<longrightarrow> pur_payment_status p \<noteq> ''completed''" for w
  proof -
    have "(w, t) \<notin> set cs" for t using that candidate_rows by (fastforce simp: assms(3))
    with that(1) show ?thesis unfolding vs by force
  qed
  ultimately show ?thesis using vb h by (auto simp: s' upd_where_def session_over_def)
qed

text \<open>
   Long packages starve short ones: when the oldest redeemed vouchers fill the batch of the
  pass and are all inside their window, and nothing was bought online, the pass changes no
  voucher at all, however many of the later ones are over.
\<close>

theorem hotspot_batch_starves:
  assumes "process_expired_hotspot_users env now grace batch_size (v, s) = (res, v', s')"
    "\<forall>c \<in> set (used_candidates batch_size (cur s)). \<not> window_over now grace (cur s) c" "purchases (cur s) = []"
  shows "vouchers (saved s') = vouchers (cur s) \<and> hx_expired res = 0"
proof -
  have p: "purchased_candidates batch_size (cur s) = []" by (simp add: purchased_candidates_def assms(3))
  obtain rs v1 s1 where b: "run_batch (expire_voucher env now grace) (used_candidates batch_size (cur s)) (v, s) = (rs, v1, s1)"
    by (metis surj_pair)
  note vb = voucher_batch [OF _ _ b, of "cur s"]
  have "vouchers (saved s') = vouchers (cur s1)" "hx_expired res = length (filter fst rs)"
    using assms(1) b p by (auto simp: process_expired_hotspot_users_def Let_def)
  with vb assms(2) show ?thesis by (auto simp: upd_where_def filter_empty_conv intro!: map_idI)
qed

section \<open>Concrete runs\<close>

definition late :: datetime where
  \<comment> \<open>an hour after the epoch, far beyond the end of \<^const>\<open>sub0\<close> and the grace period\<close>
  "late = 3600000000"

lemma held_due:
  "backfill_end_dates 10 held_db = held_db" "due_subscriptions (late - minutes 5) 10 held_db = [sub0]"
  by (simp_all add: backfill_end_dates_def due_subscriptions_def held_db_simps sample_rows late_def timedelta_defs)

theorem expiry_pass_ends_access_witness:
  "list_ex (sync_command_of (sub0\<lparr>sub_status := SubExpired\<rparr>))
     (commands (saved (snd (snd (process_expired_subscriptions env0 (\<lambda>_. []) late 5 10 True ((), fresh held_db))))))"
proof -
  obtain res v' s' where p: "process_expired_subscriptions env0 (\<lambda>_. []) late 5 10 True ((), fresh held_db) = (res, v', s')"
    by (metis surj_pair)
  from expiry_pass_ends_access [OF p refl refl] held_served show ?thesis by (simp add: p held_due)
qed

definition unreached_db :: db where
  \<comment> \<open>a synced subscription on a router without the agent\<close>
  "unreached_db = held_db\<lparr>routers := [router0\<lparr>rt_agent_installed := False\<rparr>],
     subscriptions := [sub0\<lparr>sub_is_router_synced := True\<rparr>]\<rparr>"

definition unreachable_env :: "unit sub_env" where
  "unreachable_env = env0\<lparr>env_connect := (\<lambda>_ _. Some (RuntimeError ''timeout''))\<rparr>"

theorem unreachable_router_keeps_access_witness:
  "map_option sub_is_router_synced (tbl_get sub_id 1 (subscriptions (saved (snd (snd
     (process_expired_subscriptions unreachable_env (\<lambda>_. []) late 5 10 True ((), fresh unreached_db)))))))
   = Some True"
proof -
  obtain res v' s' where p: "process_expired_subscriptions unreachable_env (\<lambda>_. []) late 5 10 True ((), fresh unreached_db) = (res, v', s')"
    by (metis surj_pair)
  have d: "backfill_end_dates 10 unreached_db = unreached_db" "subscriptions unreached_db = [sub0\<lparr>sub_is_router_synced := True\<rparr>]"
    "due_subscriptions (late - minutes 5) 10 unreached_db = [sub0\<lparr>sub_is_router_synced := True\<rparr>]"
    by (simp_all add: backfill_end_dates_def due_subscriptions_def unreached_db_def sample_rows late_def timedelta_defs)
  have "tbl_get sub_id 1 (subscriptions (saved s')) = Some (sub0\<lparr>sub_is_router_synced := True, sub_status := SubExpired\<rparr>)"
    using unreachable_router_keeps_access [OF _ p refl, of "sub0\<lparr>sub_is_router_synced := True\<rparr>"]
    by (simp add: d unreachable_env_def uniq_def) (simp add: sub0_def)
  then show ?thesis unfolding p by simp
qed

definition used_voucher :: "int \<Rightarrow> datetime \<Rightarrow> voucher_code" where
  "used_voucher i t = voucher0\<lparr>vch_id := i, vch_plan_id := i, vch_status := VchUsed, vch_used_at := Some t,
     vch_hotspot_username := Some ''C001''\<rparr>"

definition hotspot_db :: db where
  \<comment> \<open>a package of thirty days and one of five minutes, redeemed one after the other\<close>
  "hotspot_db = held_db\<lparr>plans := [plan0, plan0\<lparr>plan_id := 2, plan_duration_minutes := Some 5\<rparr>],
     vouchers := [used_voucher 1 0, used_voucher 2 1]\<rparr>"

lemma hotspot_windows:
  "\<not> window_over late 2 hotspot_db (used_voucher 1 0, 0)" "window_over late 2 hotspot_db (used_voucher 2 1, 1)"
  by (code_simp, code_simp)

lemma hotspot_candidates:
  "used_candidates 300 hotspot_db = [(used_voucher 1 0, 0), (used_voucher 2 1, 1)]"
  "used_candidates 1 hotspot_db = [(used_voucher 1 0, 0)]" "purchases hotspot_db = []"
  "purchased_candidates n hotspot_db = []" "vouchers hotspot_db = [used_voucher 1 0, used_voucher 2 1]"
  by (simp_all add: used_candidates_def purchased_candidates_def hotspot_db_def held_db_def accounts_db_def empty_db_def
      used_voucher_def voucher0_def)

theorem hotspot_pass_expires_exactly_the_due_witness:
  "vouchers (saved (snd (snd (process_expired_hotspot_users env0 late 2 300 ((), fresh hotspot_db))))) =
     [used_voucher 1 0, (used_voucher 2 1)\<lparr>vch_status := VchExpired\<rparr>]"
proof -
  obtain res v' s' where p: "process_expired_hotspot_users env0 late 2 300 ((), fresh hotspot_db) = (res, v', s')"
    by (metis surj_pair)
  have ne: "used_voucher 1 0 \<noteq> used_voucher 2 1" by (simp add: used_voucher_def voucher0_def)
  from hotspot_pass_expires_exactly_the_due [OF p _ refl] hotspot_windows ne show ?thesis
    by (simp add: p hotspot_candidates uniq_def) (simp add: used_voucher_def)
qed

theorem hotspot_batch_starves_witness:
  "vouchers (saved (snd (snd (process_expired_hotspot_users env0 late 2 1 ((), fresh hotspot_db))))) = vouchers hotspot_db
   \<and> window_over late 2 hotspot_db (used_voucher 2 1, 1)"
proof -
  obtain res v' s' where p: "process_expired_hotspot_users env0 late 2 1 ((), fresh hotspot_db) = (res, v', s')"
    by (metis surj_pair)
  have "vouchers (saved s') = vouchers hotspot_db"
    using hotspot_batch_starves [OF p] hotspot_windows(1) hotspot_candidates(2,3) by simp
  then show ?thesis unfolding p using hotspot_windows(2) by simp
qed

end
