(* ===== verification/Churn.thy ===== *)
theory Churn
  imports Expiry
begin

text \<open>
  \<open>ChurnManager\<close> of \<open>src/app/modules/subscriptions/churn_manager.py\<close>: marking long-expired hotspot
  customers as churned, and purging them after a longer time.

  Deleting a subscription sets the nullable references to it to NULL; the history and the usage log
  refer to it in columns that are not nullable, so that a row there makes the deletion fail. A
  rollback expires every object of the session: reading an attribute of one of the
  subscriptions that are still to come raises, in the handler too, and ends the pass.
\<close>

definition DEFAULT_HARD_PURGE_DAYS :: int where
  "DEFAULT_HARD_PURGE_DAYS = 90"

definition DEFAULT_PRUNE_DAYS :: int where
  "DEFAULT_PRUNE_DAYS = 14"

definition prune_days_by_org :: "db \<Rightarrow> int option \<Rightarrow> int" where
  \<comment> \<open>the dictionary, read with the default; the last row of an organisation counts\<close>
  "prune_days_by_org d org =
     (case org of
        None \<Rightarrow> DEFAULT_PRUNE_DAYS
      | Some o' \<Rightarrow>
          (case map_of (rev (map (\<lambda>st. (os_organization_id st,
                  if os_prune_inactive_users_days st \<noteq> 0 then os_prune_inactive_users_days st else DEFAULT_PRUNE_DAYS))
                (org_settings d))) o' of
             None \<Rightarrow> DEFAULT_PRUNE_DAYS
           | Some n \<Rightarrow> n))"

definition router_for_org :: "int option \<Rightarrow> db \<Rightarrow> router option" where
  "router_for_org org d = one_of (filter (\<lambda>r. rt_organization_id r = org \<and> rt_is_active r) (routers d))"

definition queue_remove_user ::
    "(nat \<Rightarrow> string) \<Rightarrow> datetime \<Rightarrow> int option \<Rightarrow> string \<Rightarrow> string \<Rightarrow> string \<Rightarrow> dbs \<Rightarrow> bool \<times> dbs" where
  "queue_remove_user uuid now org username source source_id s =
     (case router_for_org org (cur s) of
        None \<Rightarrow> (False, s)
      | Some r \<Rightarrow>
          if username = [] \<or> \<not> (rt_agent_installed r \<and> truthy (rt_agent_token r)) then (False, s)
          else (True, snd (queue_command uuid now (rt_id r) ''remove_user''
                 [(''username'', username), (''type'', ''hotspot'')] 3 (Some source) (Some source_id) None s)))"

section \<open>Churn marks\<close>

definition churn_due :: "datetime \<Rightarrow> db \<Rightarrow> subscription \<Rightarrow> bool" where
  "churn_due now d q \<longleftrightarrow>
     (case sub_end_date q of None \<Rightarrow> False | Some e \<Rightarrow> e < now - days (prune_days_by_org d (sub_organization_id q)))"

definition churn_mark_step :: "(nat \<Rightarrow> string) \<Rightarrow> datetime \<Rightarrow> subscription \<Rightarrow> dbs \<Rightarrow> (bool \<times> bool) \<times> dbs" where
  "churn_mark_step uuid now q s =
     (if \<not> churn_due now (cur s) q then ((False, False), s)
      else
        let (removed, s1) = queue_remove_user uuid now (sub_organization_id q) (sub_username q) ''churn_mark'' (str_int (sub_id q)) s
        in ((True, removed), on_db (upd_subscription (sub_id q) (\<lambda>x. x\<lparr>sub_status := SubInactive\<rparr>)) s1))"

record churn_result =
  ch_scanned :: nat
  ch_churned :: nat
  ch_router_removed :: nat

definition process_churn_mark :: "(nat \<Rightarrow> string) \<Rightarrow> datetime \<Rightarrow> dbs \<Rightarrow> churn_result \<times> dbs" where
  "process_churn_mark uuid now s =
     (let subs = filter (\<lambda>q. sub_type q = HOTSPOT \<and> sub_status q = SubExpired) (subscriptions (cur s));
          (rs, s1) = run_batch (churn_mark_step uuid now) subs s
      in (\<lparr>ch_scanned = length subs, ch_churned = length (filter fst rs), ch_router_removed = length (filter snd rs)\<rparr>, commit s1))"

section \<open>Hard purge\<close>

definition purge_due :: "datetime \<Rightarrow> subscription \<Rightarrow> bool" where
  "purge_due cutoff q \<longleftrightarrow> sub_type q = HOTSPOT \<and> sub_status q \<in> {SubInactive, SubExpired, SubCancelled} \<and>
     (case sub_end_date q of None \<Rightarrow> False | Some e \<Rightarrow> e < cutoff)"

definition delete_purchases :: "int \<Rightarrow> db \<Rightarrow> db" where
  \<comment> \<open>the purchases of a subscription and the sessions they refer to\<close>
  "delete_purchases i d =
     (let session_ids = List.map_filter pur_session_id (filter (\<lambda>p. pur_subscription_id p = Some i) (purchases d))
      in d\<lparr>purchases := map (\<lambda>p. if \<exists>j \<in> set session_ids. pur_session_id p = Some j then p\<lparr>pur_session_id := None\<rparr> else p)
             (filter (\<lambda>p. pur_subscription_id p \<noteq> Some i) (purchases d)),
           sessions := filter (\<lambda>x. ses_id x \<notin> set session_ids) (sessions d)\<rparr>)"

definition held_by_log :: "int \<Rightarrow> db \<Rightarrow> bool" where
  "held_by_log i d \<longleftrightarrow> (\<exists>h \<in> set (histories d). sh_subscription_id h = i) \<or> (\<exists>l \<in> set (usage_logs d). ul_subscription_id l = i)"

definition delete_row :: "int \<Rightarrow> db \<Rightarrow> db" where
  "delete_row i d =
     d\<lparr>subscriptions := filter (\<lambda>q. sub_id q \<noteq> i) (subscriptions d),
       invoices := map (\<lambda>x. if inv_subscription_id x = Some i then x\<lparr>inv_subscription_id := None\<rparr> else x) (invoices d),
       transactions := map (\<lambda>x. if tx_subscription_id x = Some i then x\<lparr>tx_subscription_id := None\<rparr> else x) (transactions d),
       sessions := map (\<lambda>x. if ses_subscription_id x = Some i then x\<lparr>ses_subscription_id := None\<rparr> else x) (sessions d)\<rparr>"

definition hard_purge_step :: "(nat \<Rightarrow> string) \<Rightarrow> datetime \<Rightarrow> subscription \<Rightarrow> dbs \<Rightarrow> (bool \<times> bool) \<times> dbs" where
  "hard_purge_step uuid now q s =
     (let (removed, s1) = queue_remove_user uuid now (sub_organization_id q) (sub_username q) ''hard_purge'' (str_int (sub_id q)) s;
          s2 = on_db (delete_purchases (sub_id q)) s1
      in if held_by_log (sub_id q) (cur s2) then ((False, removed), rollback s2)
         else ((True, removed), commit (on_db (delete_row (sub_id q)) s2)))"

record purge_result =
  pu_scanned :: nat
  pu_purged :: nat
  pu_router_removed :: nat
  pu_errors :: nat

fun purge_all :: "(nat \<Rightarrow> string) \<Rightarrow> datetime \<Rightarrow> subscription list \<Rightarrow> purge_result \<Rightarrow> dbs \<Rightarrow> (exn + purge_result) \<times> dbs" where
  "purge_all uuid now [] res s = (Inr res, s)"
| "purge_all uuid now (q # qs) res s =
     (let ((purged, removed), s1) = hard_purge_step uuid now q s;
          res1 = res\<lparr>pu_scanned := pu_scanned res + 1,
            pu_router_removed := pu_router_removed res + (if removed then 1 else 0),
            pu_purged := pu_purged res + (if purged then 1 else 0),
            pu_errors := pu_errors res + (if purged then 0 else 1)\<rparr>
      in if \<not> purged \<and> qs \<noteq> [] then (Inl (Exn ''MissingGreenlet'' ''greenlet_spawn has not been called''), s1)
         else purge_all uuid now qs res1 s1)"

definition process_hard_purge :: "(nat \<Rightarrow> string) \<Rightarrow> datetime \<Rightarrow> int \<Rightarrow> dbs \<Rightarrow> (exn + purge_result) \<times> dbs" where
  "process_hard_purge uuid now hard_purge_days s =
     purge_all uuid now (filter (purge_due (now - days hard_purge_days)) (subscriptions (cur s)))
       \<lparr>pu_scanned = 0, pu_purged = 0, pu_router_removed = 0, pu_errors = 0\<rparr> s"

section \<open>Who is marked\<close>

lemma queue_remove_user_frame:
  assumes "queue_remove_user uuid now org un src sid s = (b, s')"
  shows "subscriptions (cur s') = subscriptions (cur s)" "org_settings (cur s') = org_settings (cur s)"
    "routers (cur s') = routers (cur s)" "histories (cur s') = histories (cur s)" "usage_logs (cur s') = usage_logs (cur s)"
    "purchases (cur s') = purchases (cur s)" "sessions (cur s') = sessions (cur s)" "saved s' = saved s"
    "\<exists>cs. commands (cur s') = commands (cur s) @ cs"
  using assms by (auto simp: queue_remove_user_def queue_command_def Let_def row_defs split: option.splits if_splits)

lemma churn_due_cong: "org_settings d' = org_settings d \<Longrightarrow> churn_due now d' q = churn_due now d q"
  by (cases "sub_end_date q"; cases "sub_organization_id q") (simp_all add: churn_due_def prune_days_by_org_def)

lemma churn_batch:
  assumes "org_settings (cur s) = org_settings d" "run_batch (churn_mark_step uuid now) qs s = (rs, s')"
  shows "subscriptions (cur s') = upd_where (\<lambda>x. \<exists>q \<in> set qs. sub_id q = sub_id x \<and> churn_due now d q)
      (\<lambda>x. x\<lparr>sub_status := SubInactive\<rparr>) (subscriptions (cur s))
    \<and> length (filter fst rs) = length (filter (churn_due now d) qs)"
  using assms
proof (induction qs arbitrary: s rs)
  case Nil
  then show ?case by (auto simp: upd_where_def)
next
  case (Cons q qs)
  let ?f = "\<lambda>x. x\<lparr>sub_status := SubInactive\<rparr>"
  let ?P = "\<lambda>x. \<exists>q \<in> set qs. sub_id q = sub_id x \<and> churn_due now d q"
  obtain r s1 where st: "churn_mark_step uuid now q s = (r, s1)" by fastforce
  obtain rs1 where rest: "run_batch (churn_mark_step uuid now) qs s1 = (rs1, s')" and rs: "rs = r # rs1"
    using Cons.prems(2) by (auto simp: st split: prod.splits)
  obtain b s2 where rm: "queue_remove_user uuid now (sub_organization_id q) (sub_username q) ''churn_mark'' (str_int (sub_id q)) s = (b, s2)"
    by fastforce
  note fr = queue_remove_user_frame [OF rm]
  note due = churn_due_cong [OF Cons.prems(1), of now q]
  have s1: "org_settings (cur s1) = org_settings d" "fst r = churn_due now d q"
    "subscriptions (cur s1) = (if churn_due now d q then tbl_upd sub_id (sub_id q) ?f (subscriptions (cur s)) else subscriptions (cur s))"
    using st fr(1,2) Cons.prems(1) by (auto simp: churn_mark_step_def due rm row_defs split: if_splits)
  have "upd_where ?P ?f (tbl_upd sub_id (sub_id q) ?f t) = upd_where (\<lambda>x. sub_id q = sub_id x \<or> ?P x) ?f t" for t
    by (auto simp: upd_where_def tbl_upd_def)
  with Cons.IH [OF s1(1) rest] s1(2,3) show ?case
    by (cases "churn_due now d q") (simp_all add: rs)
qed

text \<open>
   The churn pass marks exactly the expired hotspot subscriptions that ended longer ago than the
  window of their tenant: these become inactive, every other subscription stays as it is, and
  the result is committed.
\<close>

theorem churn_marks_exactly_the_stale:
  assumes "process_churn_mark uuid now s = (res, s')" "uniq sub_id (subscriptions (cur s))"
  shows "subscriptions (saved s') = map (\<lambda>q. if sub_type q = HOTSPOT \<and> sub_status q = SubExpired \<and> churn_due now (cur s) q
        then q\<lparr>sub_status := SubInactive\<rparr> else q) (subscriptions (cur s))
    \<and> saved s' = cur s'
    \<and> ch_churned res = length (filter (\<lambda>q. sub_type q = HOTSPOT \<and> sub_status q = SubExpired \<and> churn_due now (cur s) q) (subscriptions (cur s)))"
proof -
  let ?qs = "filter (\<lambda>q. sub_type q = HOTSPOT \<and> sub_status q = SubExpired) (subscriptions (cur s))"
  obtain rs s1 where b: "run_batch (churn_mark_step uuid now) ?qs s = (rs, s1)" by fastforce
  note cb = churn_batch [OF refl b]
  have out: "s' = commit s1" "ch_churned res = length (filter fst rs)"
    using assms(1) b by (auto simp: process_churn_mark_def Let_def)
  have key: "(\<exists>q \<in> set ?qs. sub_id q = sub_id x \<and> churn_due now (cur s) q) \<longleftrightarrow>
      sub_type x = HOTSPOT \<and> sub_status x = SubExpired \<and> churn_due now (cur s) x" if "x \<in> set (subscriptions (cur s))" for x
    using that assms(2) by (auto simp: uniq_def distinct_map inj_on_def)
  have fl: "filter (churn_due now (cur s)) ?qs =
      filter (\<lambda>q. sub_type q = HOTSPOT \<and> sub_status q = SubExpired \<and> churn_due now (cur s) q) (subscriptions (cur s))"
    by (auto intro: filter_cong)
  show ?thesis using cb key fl by (simp add: out upd_where_def)
qed

section \<open>Who is purged\<close>

lemma hard_purge_step_keeps:
  assumes "hard_purge_step uuid now q s = (r, s')" "clean s"
  shows "clean s' \<and> histories (cur s') = histories (cur s) \<and> usage_logs (cur s') = usage_logs (cur s)
    \<and> (\<forall>x \<in> set (subscriptions (cur s)). held_by_log (sub_id x) (cur s) \<longrightarrow> x \<in> set (subscriptions (cur s')))"
proof -
  obtain b s1 where rm: "queue_remove_user uuid now (sub_organization_id q) (sub_username q) ''hard_purge'' (str_int (sub_id q)) s = (b, s1)"
    by fastforce
  note fr = queue_remove_user_frame [OF rm]
  show ?thesis
    using assms fr
    by (auto simp: hard_purge_step_def rm Let_def held_by_log_def delete_purchases_def delete_row_def clean_def split: if_splits)
qed

lemma purge_all_keeps:
  "clean s \<Longrightarrow> x \<in> set (subscriptions (cur s)) \<Longrightarrow> held_by_log (sub_id x) (cur s) \<Longrightarrow>
     x \<in> set (subscriptions (saved (snd (purge_all uuid now qs res s))))"
proof (induction qs arbitrary: res s)
  case Nil
  then show ?case by (simp add: clean_def)
next
  case (Cons q qs)
  obtain p r s1 where st: "hard_purge_step uuid now q s = ((p, r), s1)" by (metis surj_pair)
  note k = hard_purge_step_keeps [OF st Cons.prems(1)]
  have "clean s1" "x \<in> set (subscriptions (cur s1))" "held_by_log (sub_id x) (cur s1)"
    using k Cons.prems by (auto simp: held_by_log_def)
  with Cons.IH show ?case by (auto simp: st Let_def clean_def)
qed

text \<open>The expiry pass leaves a row of the history behind for every subscription it ends.\<close>

lemma sync_keeps_histories:
  assumes "sync_subscription_to_router uuid exec connect now q fc (v, s) = (res, v', s')"
  shows "histories (cur s') = histories (cur s)"
proof -
  have "histories (cur s1) = histories (cur s)" if "sync_via_agent_queue uuid now q r p fc s = (x, s1)" for r p x s1
    using that by (auto simp: sync_via_agent_queue_def queue_command_def Let_def row_defs split: if_splits)
  with assms show ?thesis
    by (auto simp: sync_subscription_to_router_def Let_def row_defs split: option.splits if_splits prod.splits)
qed

lemma expire_subscription_histories:
  "histories (cur (snd (snd (expire_subscription env show_date now send q (v, s))))) =
     histories (cur s) @ [expired_history show_date q]"
proof -
  let ?f = "\<lambda>x. x\<lparr>sub_status := SubExpired\<rparr>"
  let ?s1 = "on_db (\<lambda>d. histories_update (\<lambda>t. t @ [expired_history show_date q]) (upd_subscription (sub_id q) ?f d)) s"
  obtain res v2 s2 where st: "sync_subscription_to_router (env_uuid env) (env_exec env) (env_connect env) now (?f q) False (v, ?s1) = (res, v2, s2)"
    by (metis surj_pair)
  have "histories (cur s2) = histories (cur s) @ [expired_history show_date q]"
    using sync_keeps_histories [OF st] by (simp add: row_defs)
  then show ?thesis unfolding expire_subscription_def Let_def by (simp add: st)
qed

interpretation expiry_trace: sweep "expire_subscription env show_date now send" "\<lambda>_. True"
    "\<lambda>q vs. \<exists>h \<in> set (histories (cur (snd vs))). sh_subscription_id h = sub_id q"
    for env :: "'dev sub_env" and show_date now send
proof
  fix vs :: "'dev \<times> dbs" and q y
  obtain v s where vs: "vs = (v, s)" by fastforce
  note h = expire_subscription_histories [of env show_date now send q v s]
  show "\<exists>h \<in> set (histories (cur (snd (snd (expire_subscription env show_date now send q vs))))). sh_subscription_id h = sub_id q"
    unfolding vs h by (simp add: expired_history_def)
  show "\<exists>h \<in> set (histories (cur (snd (snd (expire_subscription env show_date now send q vs))))). sh_subscription_id h = sub_id y"
    if "\<exists>h \<in> set (histories (cur (snd vs))). sh_subscription_id h = sub_id y"
    using that unfolding vs h by auto
qed simp

text \<open>
   A subscription that the expiry pass has ended is never purged: the pass records it in the
  history, which refers to the subscription, so that the deletion fails. In every database
  that the pass leaves behind, the hard purge, at any time and with any window, keeps each
  subscription that was expired.
\<close>

theorem expired_subscription_is_never_purged:
  assumes "process_expired_subscriptions env show_date now grace batch_size send (v, s) = (res, v', s')"
    "q \<in> set (due_subscriptions (now - minutes grace) batch_size (backfill_end_dates batch_size (cur s)))"
  shows "\<exists>y. y \<in> set (subscriptions (saved (snd (process_hard_purge uuid later window s')))) \<and> sub_id y = sub_id q"
proof -
  let ?vs = "(v, on_db (backfill_end_dates batch_size) s)"
  let ?due = "due_subscriptions (now - minutes grace) batch_size (backfill_end_dates batch_size (cur s))"
  let ?run = "run_batch (expire_subscription env show_date now send) ?due ?vs"
  have "(v', s') = snd ?run"
    using assms(1) by (auto simp: process_expired_subscriptions_def split_beta Let_def)
  then have s': "s' = snd (snd ?run)" by (metis snd_conv)
  have "?due \<noteq> []" using assms(2) by auto
  then have "clean s'" unfolding s' clean_def by (rule expiry_batch(2))
  moreover have "held_by_log (sub_id q) (cur s')"
    unfolding s' held_by_log_def using expiry_trace.batch_settles [OF TrueI assms(2)] by blast
  moreover have "q \<in> set (subscriptions (backfill_end_dates batch_size (cur s)))"
    using assms(2) by (auto simp: due_subscriptions_def dest: in_set_takeD)
  then have "sub_id q \<in> set (map sub_id (subscriptions (cur s')))"
    using expiry_batch(4) [of env show_date now send ?due ?vs] by (simp add: s')
  then obtain y where "y \<in> set (subscriptions (cur s'))" "sub_id y = sub_id q" by auto
  ultimately show ?thesis unfolding process_hard_purge_def by (metis purge_all_keeps)
qed

section \<open>Concrete runs\<close>

definition stale_db :: db where
  \<comment> \<open>one subscription expired long ago, one only just\<close>
  "stale_db = held_db\<lparr>subscriptions := [sub0\<lparr>sub_status := SubExpired\<rparr>,
     sub0\<lparr>sub_id := 2, sub_status := SubExpired, sub_end_date := Some (days 30)\<rparr>]\<rparr>"

theorem churn_marks_exactly_the_stale_witness:
  "map sub_status (subscriptions (saved (snd (process_churn_mark str_nat (days 31) (fresh stale_db))))) = [SubInactive, SubExpired]"
proof -
  obtain res s' where p: "process_churn_mark str_nat (days 31) (fresh stale_db) = (res, s')" by fastforce
  have d: "subscriptions stale_db = [sub0\<lparr>sub_status := SubExpired\<rparr>,
      sub0\<lparr>sub_id := 2, sub_status := SubExpired, sub_end_date := Some (days 30)\<rparr>]" "org_settings stale_db = []"
    by (simp_all add: stale_db_def held_db_def accounts_db_def empty_db_def)
  from churn_marks_exactly_the_stale [OF p, THEN conjunct1] have "map sub_status (subscriptions (saved s')) = [SubInactive, SubExpired]"
    by (simp add: d uniq_def churn_due_def prune_days_by_org_def DEFAULT_PRUNE_DAYS_def timedelta_defs sub0_def)
  then show ?thesis unfolding p by simp
qed

theorem expired_subscription_is_never_purged_witness:
  "\<exists>y. y \<in> set (subscriptions (saved (snd (process_hard_purge str_nat (days 400) 90
       (snd (snd (process_expired_subscriptions env0 (\<lambda>_. []) late 5 10 True ((), fresh held_db)))))))) \<and> sub_id y = 1"
proof -
  obtain res v' s' where p: "process_expired_subscriptions env0 (\<lambda>_. []) late 5 10 True ((), fresh held_db) = (res, v', s')"
    by (metis surj_pair)
  have "sub_id sub0 = 1" by (simp add: sub0_def)
  with expired_subscription_is_never_purged [OF p, of sub0] show ?thesis by (simp add: p held_due)
qed

end
