(* ===== verification/Rate_Limit.thy ===== *)
theory Rate_Limit
  imports Listing
begin

text \<open>
  The limit on attempts at the public credential endpoints (\<open>src/app/core/rate_limit.py\<close>): a counter
  per client address and a strict one per account, kept in Redis by one atomic script.

  Redis is a parameter: the three commands that the script calls, at a time in milliseconds, and the
  error that connecting or evaluating may raise. What the limiter relies on is that the commands
  behave as documented (\<open>redis_documented\<close>), over a view of the stored keys.
\<close>

section \<open>The script\<close>

record 'r redis =
  rd_error :: "'r \<Rightarrow> exn option"
  rd_incr :: "int \<Rightarrow> string \<Rightarrow> 'r \<Rightarrow> int \<times> 'r"
  rd_pexpire :: "int \<Rightarrow> string \<Rightarrow> int \<Rightarrow> 'r \<Rightarrow> 'r"
  rd_pttl :: "int \<Rightarrow> string \<Rightarrow> 'r \<Rightarrow> int"

definition hit_script :: "'r redis \<Rightarrow> int \<Rightarrow> string \<Rightarrow> int \<Rightarrow> int \<Rightarrow> 'r \<Rightarrow> int \<times> 'r" where
  "hit_script ops now key limit window r =
     (let (n, r1) = rd_incr ops now key r;
          r2 = (if n = 1 then rd_pexpire ops now key window r1 else r1)
      in if n > limit
         then let ttl = rd_pttl ops now key r2
              in if ttl < 0 then (window, rd_pexpire ops now key window r2) else (ttl, r2)
         else (-1, r2))"

record limit_settings =
  rate_limit_enabled :: bool
  rate_limit_requests :: int
  rate_limit_window :: int

definition IDENTIFIER_LIMIT :: int where
  "IDENTIFIER_LIMIT = 10"

definition IDENTIFIER_WINDOW_SECONDS :: int where
  "IDENTIFIER_WINDOW_SECONDS = 300"

record http_request =
  hr_real_ip :: "string option"
  hr_client_host :: "string option"

definition client_ip :: "http_request \<Rightarrow> string" where
  "client_ip request =
     (let real = strip (case hr_real_ip request of None \<Rightarrow> [] | Some t \<Rightarrow> t)
      in if real \<noteq> [] then real
         else case hr_client_host request of None \<Rightarrow> ''unknown'' | Some h \<Rightarrow> h)"

definition redis_key :: "string \<Rightarrow> string" where
  "redis_key key = ''isp:rl:'' @ key"

lemma redis_key_inj [simp]: "redis_key k = redis_key k' \<longleftrightarrow> k = k'"
  by (simp add: redis_key_def)

text \<open>The answer \<open>Some n\<close> is the refusal with \<open>Retry-After: n\<close>.\<close>

definition enforce :: "limit_settings \<Rightarrow> 'r redis \<Rightarrow> int \<Rightarrow> string \<Rightarrow> int \<Rightarrow> int \<Rightarrow> 'r \<Rightarrow> int option \<times> 'r" where
  "enforce cfg ops now key limit window_seconds r =
     (if \<not> rate_limit_enabled cfg then (None, r)
      else if rd_error ops r \<noteq> None then (None, r)
      else
        let (ttl_ms, r1) = hit_script ops now (redis_key key) limit (window_seconds * 1000) r
        in if ttl_ms \<ge> 0 then (Some (max 1 (- ((- ttl_ms) div 1000))), r1) else (None, r1))"

definition ip_key :: "string \<Rightarrow> http_request \<Rightarrow> string" where
  "ip_key scope request = scope @ '':ip:'' @ client_ip request"

definition id_key :: "string \<Rightarrow> string \<Rightarrow> string" where
  "id_key scope identifier = scope @ '':id:'' @ map lower (strip identifier)"

definition limit_credential_attempt ::
    "limit_settings \<Rightarrow> 'r redis \<Rightarrow> int \<Rightarrow> http_request \<Rightarrow> string \<Rightarrow> string option \<Rightarrow> 'r \<Rightarrow> int option \<times> 'r" where
  "limit_credential_attempt cfg ops now request scope identifier r =
     (case enforce cfg ops now (ip_key scope request) (rate_limit_requests cfg) (rate_limit_window cfg) r of
        (Some retry, r1) \<Rightarrow> (Some retry, r1)
      | (None, r1) \<Rightarrow>
          if truthy identifier
          then enforce cfg ops now (id_key scope (the identifier)) IDENTIFIER_LIMIT IDENTIFIER_WINDOW_SECONDS r1
          else (None, r1))"

section \<open>Redis as documented\<close>

type_synonym counter = "int \<times> int option"

definition live :: "int \<Rightarrow> counter option \<Rightarrow> counter option" where
  \<comment> \<open>a key past its deadline is gone\<close>
  "live now x = (case x of Some (n, Some e) \<Rightarrow> if now > e then None else x | _ \<Rightarrow> x)"

definition redis_documented :: "'r redis \<Rightarrow> ('r \<Rightarrow> string \<Rightarrow> counter option) \<Rightarrow> bool" where
  "redis_documented ops view \<longleftrightarrow>
     (\<forall>now k r. let c = (case live now (view r k) of None \<Rightarrow> (1, None) | Some (n, dl) \<Rightarrow> (n + 1, dl))
        in fst (rd_incr ops now k r) = fst c \<and> view (snd (rd_incr ops now k r)) = (view r)(k := Some c)) \<and>
     (\<forall>now k ms r. ms > 0 \<longrightarrow> view (rd_pexpire ops now k ms r) =
        (case live now (view r k) of None \<Rightarrow> view r | Some (n, _) \<Rightarrow> (view r)(k := Some (n, Some (now + ms))))) \<and>
     (\<forall>now k r. rd_pttl ops now k r =
        (case live now (view r k) of None \<Rightarrow> -2 | Some (_, None) \<Rightarrow> -1 | Some (_, Some e) \<Rightarrow> e - now))"

text \<open>The keys of the limiter all have a deadline.\<close>

definition guarded :: "(string \<Rightarrow> counter option) \<Rightarrow> bool" where
  "guarded m \<longleftrightarrow> (\<forall>k c. m k = Some c \<longrightarrow> fst c \<ge> 1 \<and> snd c \<noteq> None)"

definition bump :: "int \<Rightarrow> int \<Rightarrow> counter option \<Rightarrow> counter" where
  "bump window now x = (case live now x of Some (n, Some e) \<Rightarrow> (n + 1, Some e) | _ \<Rightarrow> (1, Some (now + window)))"

lemma live_guarded: "guarded m \<Longrightarrow> live now (m k) = None \<or> (\<exists>n e. live now (m k) = Some (n, Some e) \<and> m k = Some (n, Some e) \<and> n \<ge> 1 \<and> now \<le> e)"
  by (fastforce simp: guarded_def live_def split: option.splits)

lemma hit_script_view:
  assumes "redis_documented ops view" "guarded (view r)" "window > 0" "hit_script ops now k limit window r = (t, r')"
  shows "view r' = (view r)(k := Some (bump window now (view r k)))"
    "t = (if fst (bump window now (view r k)) > limit then the (snd (bump window now (view r k))) - now else -1)"
    "the (snd (bump window now (view r k))) \<ge> now"
proof -
  obtain n r1 where i: "rd_incr ops now k r = (n, r1)" by fastforce
  have incr: "let c = (case live now (view r k) of None \<Rightarrow> (1, None) | Some (n, dl) \<Rightarrow> (n + 1, dl)) in n = fst c \<and> view r1 = (view r)(k := Some c)"
    using assms(1) unfolding redis_documented_def by (metis (no_types, lifting) i fst_conv snd_conv)
  have pex: "view (rd_pexpire ops now j ms s) =
      (case live now (view s j) of None \<Rightarrow> view s | Some (n, _) \<Rightarrow> (view s)(j := Some (n, Some (now + ms))))" if "ms > 0" for j ms s
    using assms(1) that unfolding redis_documented_def by blast
  have ttl: "rd_pttl ops now j s = (case live now (view s j) of None \<Rightarrow> -2 | Some (_, None) \<Rightarrow> -1 | Some (_, Some e) \<Rightarrow> e - now)" for j s
    using assms(1) unfolding redis_documented_def by blast
  have "view r' = (view r)(k := Some (bump window now (view r k)))
    \<and> t = (if fst (bump window now (view r k)) > limit then the (snd (bump window now (view r k))) - now else -1)
    \<and> the (snd (bump window now (view r k))) \<ge> now"
  proof (cases "live now (view r k)")
    case None
    then have "n = 1" "view r1 = (view r)(k := Some (1, None))" using incr by simp_all
    moreover have "view (rd_pexpire ops now k window r1) = (view r)(k := Some (1, Some (now + window)))"
      using pex [OF assms(3), of k r1] calculation(2) by (simp add: live_def)
    moreover have "rd_pttl ops now k (rd_pexpire ops now k window r1) = window"
      using ttl [of k "rd_pexpire ops now k window r1"] calculation(3) assms(3) by (simp add: live_def)
    ultimately show ?thesis using assms(3,4) None by (auto simp: hit_script_def i bump_def Let_def split: if_splits)
  next
    case (Some c)
    then obtain m e where c: "live now (view r k) = Some (m, Some e)" "m \<ge> 1" "now \<le> e" using live_guarded [OF assms(2), of now k] by auto
    then have "n = m + 1" "view r1 = (view r)(k := Some (m + 1, Some e))" using incr by simp_all
    moreover have "rd_pttl ops now k r1 = e - now" using ttl [of k r1] calculation(2) c(3) by (simp add: live_def)
    ultimately show ?thesis using assms(4) c by (auto simp: hit_script_def i bump_def Let_def split: if_splits)
  qed
  then show "view r' = (view r)(k := Some (bump window now (view r k)))"
    "t = (if fst (bump window now (view r k)) > limit then the (snd (bump window now (view r k))) - now else -1)"
    "the (snd (bump window now (view r k))) \<ge> now" by blast+
qed

lemma guarded_bump:
  assumes "guarded m"
  shows "guarded (m(k := Some (bump window now (m k))))"
  using live_guarded [OF assms, of now k] assms by (auto simp: guarded_def bump_def)

lemma enforce_view:
  assumes "enforce cfg ops now key limit secs r = (ans, r')" "rate_limit_enabled cfg" "rd_error ops r = None"
    "redis_documented ops view" "guarded (view r)" "secs > 0"
    "c = bump (secs * 1000) now (view r (redis_key key))"
  shows "view r' = (view r)(redis_key key := Some c)" "guarded (view r')"
    "ans = (if fst c > limit then Some (max 1 (- ((now - the (snd c)) div 1000))) else None)" "the (snd c) \<ge> now"
proof -
  obtain t r1 where h: "hit_script ops now (redis_key key) limit (secs * 1000) r = (t, r1)" by fastforce
  note v = hit_script_view [OF assms(4,5) _ h, folded assms(7)]
  have r': "r' = r1" using assms(1-3) h by (auto simp: enforce_def split: if_splits)
  show "view r' = (view r)(redis_key key := Some c)" "the (snd c) \<ge> now" using v assms(6) by (simp_all add: r')
  then show "guarded (view r')" using guarded_bump [OF assms(5)] by (simp add: assms(7))
  show "ans = (if fst c > limit then Some (max 1 (- ((now - the (snd c)) div 1000))) else None)"
    using assms(1-3,6) h v(2,3) by (auto simp: enforce_def split: if_splits)
qed

section \<open>Attempts on one account\<close>

record attempt =
  at_now :: int
  at_request :: http_request
  at_scope :: string
  at_identifier :: "string option"

fun admitted :: "limit_settings \<Rightarrow> 'r redis \<Rightarrow> attempt list \<Rightarrow> 'r \<Rightarrow> attempt list" where
  \<comment> \<open>the attempts that were let through\<close>
  "admitted cfg ops [] r = []"
| "admitted cfg ops (x # xs) r =
     (case limit_credential_attempt cfg ops (at_now x) (at_request x) (at_scope x) (at_identifier x) r of
        (ans, r1) \<Rightarrow> (if ans = None then [x] else []) @ admitted cfg ops xs r1)"

definition targets :: "string \<Rightarrow> attempt \<Rightarrow> bool" where
  "targets key x \<longleftrightarrow> truthy (at_identifier x) \<and> id_key (at_scope x) (the (at_identifier x)) = key"

definition limiter_ok :: "limit_settings \<Rightarrow> 'r redis \<Rightarrow> ('r \<Rightarrow> string \<Rightarrow> counter option) \<Rightarrow> bool" where
  "limiter_ok cfg ops view \<longleftrightarrow> rate_limit_enabled cfg \<and> rate_limit_window cfg > 0 \<and> (\<forall>r. rd_error ops r = None) \<and> redis_documented ops view"

abbreviation id_window :: int where
  "id_window \<equiv> IDENTIFIER_WINDOW_SECONDS * 1000"

abbreviation stored :: "('r \<Rightarrow> string \<Rightarrow> counter option) \<Rightarrow> string \<Rightarrow> 'r \<Rightarrow> counter option" where
  "stored view key r \<equiv> view r (redis_key key)"

lemma attempt_step:
  assumes "limiter_ok cfg ops view" "guarded (view r)" "ip_key (at_scope x) (at_request x) \<noteq> key"
    "limit_credential_attempt cfg ops (at_now x) (at_request x) (at_scope x) (at_identifier x) r = (ans, r')"
    "c = bump id_window (at_now x) (stored view key r)"
  shows "guarded (view r')" "\<not> targets key x \<Longrightarrow> stored view key r' = stored view key r"
    "targets key x \<Longrightarrow> stored view key r' = stored view key r \<and> ans \<noteq> None
       \<or> stored view key r' = Some c \<and> (ans = None \<longleftrightarrow> fst c \<le> IDENTIFIER_LIMIT)"
proof -
  have ok: "rate_limit_enabled cfg" "rate_limit_window cfg > 0" "rd_error ops q = None" "redis_documented ops view" for q
    using assms(1) by (simp_all add: limiter_ok_def)
  obtain a1 r1 where e1: "enforce cfg ops (at_now x) (ip_key (at_scope x) (at_request x)) (rate_limit_requests cfg) (rate_limit_window cfg) r = (a1, r1)"
    by fastforce
  note v1 = enforce_view [OF e1 ok(1,3,4) assms(2) ok(2) refl]
  have k1: "stored view key r1 = stored view key r" using v1(1) assms(3) by simp
  show "guarded (view r')" "\<not> targets key x \<Longrightarrow> stored view key r' = stored view key r"
    "targets key x \<Longrightarrow> stored view key r' = stored view key r \<and> ans \<noteq> None
       \<or> stored view key r' = Some c \<and> (ans = None \<longleftrightarrow> fst c \<le> IDENTIFIER_LIMIT)"
  proof -
    have "guarded (view r') \<and> (\<not> targets key x \<longrightarrow> stored view key r' = stored view key r)
      \<and> (targets key x \<longrightarrow> stored view key r' = stored view key r \<and> ans \<noteq> None
         \<or> stored view key r' = Some c \<and> (ans = None \<longleftrightarrow> fst c \<le> IDENTIFIER_LIMIT))"
    proof (cases "a1 = None \<and> truthy (at_identifier x)")
      case True
      let ?id = "id_key (at_scope x) (the (at_identifier x))"
      obtain a2 r2 where e2: "enforce cfg ops (at_now x) ?id IDENTIFIER_LIMIT IDENTIFIER_WINDOW_SECONDS r1 = (a2, r2)" by fastforce
      have w: "IDENTIFIER_WINDOW_SECONDS > 0" by (simp add: IDENTIFIER_WINDOW_SECONDS_def)
      note v2 = enforce_view [OF e2 ok(1,3,4) v1(2) w refl]
      have out: "ans = a2" "r' = r2" using assms(4) e1 e2 True by (simp_all add: limit_credential_attempt_def)
      have "guarded (view r')" using v2(2) unfolding out .
      then show ?thesis using v2(1,3) True by (auto simp: out targets_def k1 [symmetric] assms(5) simp del: fun_upd_apply) (simp_all add: out)
    next
      case False
      then have "r' = r1" "targets key x \<Longrightarrow> ans \<noteq> None"
        using assms(4) e1 by (auto simp: limit_credential_attempt_def targets_def split: option.splits)
      then show ?thesis using v1(2) k1 by auto
    qed
    then show "guarded (view r')" "\<not> targets key x \<Longrightarrow> stored view key r' = stored view key r"
      "targets key x \<Longrightarrow> stored view key r' = stored view key r \<and> ans \<noteq> None
         \<or> stored view key r' = Some c \<and> (ans = None \<longleftrightarrow> fst c \<le> IDENTIFIER_LIMIT)" by blast+
  qed
qed

definition let_in :: "string \<Rightarrow> int \<Rightarrow> int \<Rightarrow> attempt list \<Rightarrow> nat" where
  "let_in key a b xs = length (filter (\<lambda>x. targets key x \<and> a \<le> at_now x \<and> at_now x \<le> b) xs)"

lemma admitted_subset: "set (admitted cfg ops xs r) \<subseteq> set xs"
  by (induction xs arbitrary: r) (auto split: prod.splits if_splits)

lemma let_in_late: "\<forall>x \<in> set xs. b < at_now x \<Longrightarrow> let_in key a b (admitted cfg ops xs r) = 0"
  using admitted_subset [of cfg ops xs r] by (force simp: let_in_def filter_empty_conv)

text \<open>In a period that the running window covers, the rest of the limit is all that is let in.\<close>

lemma let_in_window:
  assumes "limiter_ok cfg ops view" "guarded (view r)" "\<forall>x \<in> set xs. ip_key (at_scope x) (at_request x) \<noteq> key"
    "sorted (map at_now xs)" "stored view key r = Some (n, Some e)" "b \<le> e"
  shows "int (let_in key a b (admitted cfg ops xs r)) \<le> max 0 (IDENTIFIER_LIMIT - n)"
  using assms(2-5)
proof (induction xs arbitrary: r n)
  case (Cons x xs)
  obtain ans r1 where st: "limit_credential_attempt cfg ops (at_now x) (at_request x) (at_scope x) (at_identifier x) r = (ans, r1)" by fastforce
  have ipx: "ip_key (at_scope x) (at_request x) \<noteq> key" using Cons.prems(2) by simp
  note s = attempt_step [OF assms(1) Cons.prems(1) ipx st refl]
  have IH: "int (let_in key a b (admitted cfg ops xs r1)) \<le> max 0 (IDENTIFIER_LIMIT - m)" if "stored view key r1 = Some (m, Some e)" for m
    using Cons.IH [OF s(1) _ _ that] Cons.prems(2,3) by simp
  show ?case
  proof (cases "at_now x \<le> b")
    case False
    then have "\<forall>y \<in> set (x # xs). b < at_now y" using Cons.prems(3) by auto
    from let_in_late [OF this, of key a cfg ops r] show ?thesis by linarith
  next
    case True
    then have "live (at_now x) (stored view key r) = Some (n, Some e)" using Cons.prems(4) assms(6) by (simp add: live_def)
    then have c: "bump id_window (at_now x) (stored view key r) = (n + 1, Some e)" by (simp add: bump_def)
    show ?thesis
    proof (cases "targets key x \<and> ans = None")
      case True
      then have "stored view key r1 = Some (n + 1, Some e)" "n + 1 \<le> IDENTIFIER_LIMIT" using s(3) c by auto
      with IH [of "n + 1"] True st show ?thesis by (simp add: let_in_def)
    next
      case False
      then have "stored view key r1 = Some (n, Some e) \<or> stored view key r1 = Some (n + 1, Some e)"
        using s(2,3) c Cons.prems(4) by auto
      moreover have "let_in key a b (admitted cfg ops (x # xs) r) = let_in key a b (admitted cfg ops xs r1)"
        using False st by (auto simp: let_in_def)
      ultimately show ?thesis using IH [of n] IH [of "n + 1"] by auto
    qed
  qed
qed (simp add: let_in_def)

text \<open>A period of one window meets at most two windows of the counter.\<close>

lemma let_in_period:
  assumes "limiter_ok cfg ops view" "guarded (view r)" "\<forall>x \<in> set xs. ip_key (at_scope x) (at_request x) \<noteq> key"
    "sorted (map at_now xs)" "\<forall>x \<in> set xs. a \<le> at_now x"
  shows "int (let_in key a (a + id_window) (admitted cfg ops xs r))
    \<le> (case stored view key r of None \<Rightarrow> IDENTIFIER_LIMIT | Some (n, _) \<Rightarrow> max 0 (IDENTIFIER_LIMIT - n) + IDENTIFIER_LIMIT)"
  using assms(2-)
proof (induction xs arbitrary: r)
  case Nil
  then show ?case by (auto simp: let_in_def IDENTIFIER_LIMIT_def split: option.splits)
next
  case (Cons x xs)
  let ?b = "a + id_window"
  obtain ans r1 where st: "limit_credential_attempt cfg ops (at_now x) (at_request x) (at_scope x) (at_identifier x) r = (ans, r1)" by fastforce
  have ipx: "ip_key (at_scope x) (at_request x) \<noteq> key" using Cons.prems(2) by simp
  note s = attempt_step [OF assms(1) Cons.prems(1) ipx st refl]
  have rest: "\<forall>y \<in> set xs. ip_key (at_scope y) (at_request y) \<noteq> key" "sorted (map at_now xs)" "\<forall>y \<in> set xs. a \<le> at_now y"
    using Cons.prems(2-4) by simp_all
  note IH = Cons.IH [OF s(1) rest]
  define l where "l = let_in key a ?b (admitted cfg ops xs r1)"
  have here: "let_in key a ?b (admitted cfg ops (x # xs) r) = (if targets key x \<and> ans = None \<and> at_now x \<le> ?b then 1 else 0) + l"
    using st Cons.prems(4) by (auto simp: let_in_def l_def)
  show ?case
  proof (cases "stored view key r1 = stored view key r \<and> (targets key x \<longrightarrow> ans \<noteq> None)")
    case True
    then show ?thesis using IH here by (auto simp: l_def)
  next
    case False
    let ?c = "bump id_window (at_now x) (stored view key r)"
    from False have t: "stored view key r1 = Some ?c" "ans = None \<longleftrightarrow> fst ?c \<le> IDENTIFIER_LIMIT" using s(2,3) by blast+
    consider n e where "live (at_now x) (stored view key r) = Some (n, Some e)" "stored view key r = Some (n, Some e)"
      | "live (at_now x) (stored view key r) = None"
      using live_guarded [OF Cons.prems(1), of "at_now x" "redis_key key"] by auto
    then show ?thesis
    proof cases
      case 1
      then have c: "?c = (n + 1, Some e)" by (simp add: bump_def)
      then have "int l \<le> max 0 (IDENTIFIER_LIMIT - (n + 1)) + IDENTIFIER_LIMIT" using IH t(1) by (simp add: l_def)
      then show ?thesis using t(2) [unfolded c fst_conv] unfolding here by (auto simp: 1(2) split: if_splits)
    next
      case 2
      then have c: "?c = (1, Some (at_now x + id_window))" by (simp add: bump_def)
      have "int l \<le> max 0 (IDENTIFIER_LIMIT - 1)"
        unfolding l_def using let_in_window [OF assms(1) s(1) rest(1,2)] t(1) c Cons.prems(4) by simp
      then show ?thesis unfolding here by (auto simp: IDENTIFIER_LIMIT_def split: option.splits)
    qed
  qed
qed

text \<open>
  C18. The limit per account holds. While Redis works as documented, in any period of five minutes
  at most twenty attempts on one account are let through, from however many addresses and
  in whatever order they arrive among other attempts: ten in each of the two windows of its
  counter that such a period can meet.
\<close>

theorem account_attempts_are_bounded:
  assumes "limiter_ok cfg ops view" "guarded (view r)" "\<forall>x \<in> set xs. ip_key (at_scope x) (at_request x) \<noteq> key" "sorted (map at_now xs)"
  shows "length (filter (\<lambda>x. targets key x \<and> a \<le> at_now x \<and> at_now x \<le> a + 300000) (admitted cfg ops xs r)) \<le> 20"
proof -
  have "int (let_in key a (a + id_window) (admitted cfg ops xs r)) \<le> 20"
    using assms(2-)
  proof (induction xs arbitrary: r)
    case (Cons x xs)
    obtain ans r1 where st: "limit_credential_attempt cfg ops (at_now x) (at_request x) (at_scope x) (at_identifier x) r = (ans, r1)" by fastforce
    have ipx: "ip_key (at_scope x) (at_request x) \<noteq> key" using Cons.prems(2) by simp
    note s = attempt_step(1) [OF assms(1) Cons.prems(1) ipx st refl]
    show ?case
    proof (cases "a \<le> at_now x")
      case True
      then have "\<forall>y \<in> set (x # xs). a \<le> at_now y" using Cons.prems(3) by auto
      from let_in_period [OF assms(1) Cons.prems this] show ?thesis
        using live_guarded [OF Cons.prems(1), of "at_now x" "redis_key key"] Cons.prems(1)
        by (auto simp: guarded_def IDENTIFIER_LIMIT_def simp del: admitted.simps split: option.splits dest!: spec)
    next
      case False
      then have "let_in key a (a + id_window) (admitted cfg ops (x # xs) r) = let_in key a (a + id_window) (admitted cfg ops xs r1)"
        using st by (simp add: let_in_def)
      then show ?thesis using Cons.IH [OF s] Cons.prems(2,3) by simp
    qed
  qed (simp add: let_in_def)
  then show ?thesis by (simp add: let_in_def IDENTIFIER_WINDOW_SECONDS_def)
qed

section \<open>Refusals end\<close>

definition hit :: "limit_settings \<Rightarrow> 'r redis \<Rightarrow> string \<Rightarrow> int \<Rightarrow> int \<Rightarrow> int \<Rightarrow> 'r \<Rightarrow> 'r" where
  "hit cfg ops key limit secs now r = snd (enforce cfg ops now key limit secs r)"

lemma over_limit_stays:
  assumes "limiter_ok cfg ops view" "secs > 0" "guarded (view r)" "stored view key r = Some (n, Some e)" "n > limit" "\<forall>t \<in> set ts. t \<le> e"
  shows "\<exists>m > limit. stored view key (fold (hit cfg ops key limit secs) ts r) = Some (m, Some e) \<and> guarded (view (fold (hit cfg ops key limit secs) ts r))"
  using assms(3-)
proof (induction ts arbitrary: r n)
  case (Cons t ts)
  obtain a r1 where h: "enforce cfg ops t key limit secs r = (a, r1)" by fastforce
  have ok: "rate_limit_enabled cfg" "rd_error ops r = None" "redis_documented ops view" using assms(1) by (simp_all add: limiter_ok_def)
  have "bump (secs * 1000) t (stored view key r) = (n + 1, Some e)" using Cons.prems(2,4) by (simp add: bump_def live_def)
  note v = enforce_view [OF h ok Cons.prems(1) assms(2) this [symmetric]]
  have "stored view key r1 = Some (n + 1, Some e)" using v(1) by simp
  from Cons.IH [OF v(2) this] Cons.prems(3,4) h show ?case by (simp add: hit_def)
qed auto

text \<open>
   A refusal ends when it says. A refused caller learns a number of seconds that is at least
  the time left in the window of the counter. Until the window ends every attempt is
  refused, but none of them prolongs it: the first attempt after its end is let through.
\<close>

theorem refusal_ends_with_its_window:
  assumes "limiter_ok cfg ops view" "guarded (view r)" "secs > 0" "limit \<ge> 1"
    "enforce cfg ops now key limit secs r = (Some retry, r')"
  shows "\<exists>e. now \<le> e \<and> e \<le> now + 1000 * retry \<and> retry \<ge> 1
    \<and> (\<forall>ts t. (\<forall>u \<in> set ts. u \<le> e) \<longrightarrow>
         (fst (enforce cfg ops t key limit secs (fold (hit cfg ops key limit secs) ts r')) = None \<longleftrightarrow> t > e))"
proof -
  have ok: "rate_limit_enabled cfg" "rd_error ops q = None" "redis_documented ops view" for q using assms(1) by (simp_all add: limiter_ok_def)
  define c where "c = bump (secs * 1000) now (stored view key r)"
  note v = enforce_view [OF assms(5) ok assms(2,3) c_def]
  obtain n e where c: "c = (n, Some e)"
    using live_guarded [OF assms(2), of now "redis_key key"] by (auto simp: c_def bump_def)
  have n: "n > limit" "retry = max 1 (- ((now - e) div 1000))" and e: "now \<le> e" using v(3,4) by (auto simp: c split: if_splits)
  have "1000 * ((now - e) div 1000) \<le> now - e"
    using mult_div_mod_eq [of 1000 "now - e"] pos_mod_sign [of 1000 "now - e"] by linarith
  then have "e \<le> now + 1000 * retry" unfolding n(2) by linarith
  moreover have "fst (enforce cfg ops t key limit secs (fold (hit cfg ops key limit secs) ts r')) = None \<longleftrightarrow> t > e" if "\<forall>u \<in> set ts. u \<le> e" for ts t
  proof -
    let ?q = "fold (hit cfg ops key limit secs) ts r'"
    have "stored view key r' = Some (n, Some e)" using v(1) by (simp add: c)
    from over_limit_stays [OF assms(1,3) v(2) this n(1) that] obtain m
      where m: "m > limit" "stored view key ?q = Some (m, Some e)" "guarded (view ?q)" by blast
    obtain a q' where h: "enforce cfg ops t key limit secs ?q = (a, q')" by fastforce
    note w = enforce_view(3) [OF h ok m(3) assms(3) refl]
    show ?thesis using w m(1) assms(4) by (auto simp: h m(2) bump_def live_def)
  qed
  ultimately show ?thesis using e n(2) by (intro exI [of _ e]) auto
qed

section \<open>A concrete store\<close>

type_synonym map_store = "string \<Rightarrow> counter option"

definition map_redis :: "map_store redis" where
  "map_redis = \<lparr>rd_error = (\<lambda>_. None),
     rd_incr = (\<lambda>now k m. case live now (m k) of None \<Rightarrow> (1, m(k := Some (1, None))) | Some (n, dl) \<Rightarrow> (n + 1, m(k := Some (n + 1, dl)))),
     rd_pexpire = (\<lambda>now k ms m. case live now (m k) of None \<Rightarrow> m | Some (n, _) \<Rightarrow> m(k := Some (n, Some (now + ms)))),
     rd_pttl = (\<lambda>now k m. case live now (m k) of None \<Rightarrow> -2 | Some (_, None) \<Rightarrow> -1 | Some (_, Some e) \<Rightarrow> e - now)\<rparr>"

definition limits0 :: limit_settings where
  "limits0 = \<lparr>rate_limit_enabled = True, rate_limit_requests = 100, rate_limit_window = 60\<rparr>"

lemma map_redis_ok: "limiter_ok limits0 map_redis (\<lambda>m. m)"
  by (auto simp: limiter_ok_def limits0_def redis_documented_def map_redis_def split: option.splits)

lemma guarded_empty: "guarded (\<lambda>_. None)"
  by (simp add: guarded_def)

definition guess :: attempt where
  "guess = \<lparr>at_now = 5, at_request = \<lparr>hr_real_ip = None, hr_client_host = Some ''10.0.0.9''\<rparr>, at_scope = ''hotspot-login:net'',
     at_identifier = Some ''joe''\<rparr>"

definition joe_key :: string where
  "joe_key = id_key ''hotspot-login:net'' ''joe''"

theorem account_attempts_are_bounded_witness:
  "length (filter (\<lambda>x. targets joe_key x \<and> 0 \<le> at_now x \<and> at_now x \<le> 0 + 300000) (admitted limits0 map_redis (replicate 30 guess) (\<lambda>_. None))) \<le> 20"
proof -
  have "ip_key (at_scope guess) (at_request guess) \<noteq> joe_key" by code_simp
  then show ?thesis using account_attempts_are_bounded [OF map_redis_ok, of "\<lambda>_. None" "replicate 30 guess" joe_key 0] guarded_empty by simp
qed

definition full_store :: map_store where
  "full_store = (\<lambda>_. None)(redis_key joe_key := Some (10, Some 2000))"

theorem refusal_ends_with_its_window_witness:
  "fst (enforce limits0 map_redis 9000 joe_key 10 300 (snd (enforce limits0 map_redis 5 joe_key 10 300 full_store))) = None"
proof -
  obtain a r' where h: "enforce limits0 map_redis 5 joe_key 10 300 full_store = (a, r')" by fastforce
  have "fst (enforce limits0 map_redis 5 joe_key 10 300 full_store) = Some 2"
    by (simp add: enforce_def limits0_def map_redis_def hit_script_def full_store_def live_def)
  then have a: "a = Some 2" by (simp add: h)
  have g: "guarded full_store" by (simp add: guarded_def full_store_def)
  from refusal_ends_with_its_window [OF map_redis_ok _ _ _ h [unfolded a]] g obtain e
    where e: "e \<le> 5 + 1000 * 2" and all: "\<And>ts t. (\<forall>u \<in> set ts. u \<le> e) \<Longrightarrow>
      fst (enforce limits0 map_redis t joe_key 10 300 (fold (hit limits0 map_redis joe_key 10 300) ts r')) = None \<longleftrightarrow> t > e" by auto
  from all [of "[]" 9000] e show ?thesis by (simp add: h)
qed

end
