(* ===== verification/Network_Config.thy ===== *)
theory Network_Config
  imports Listing
begin

text \<open>
  Addresses of a hotspot network and the ports of its bridge: \<open>calculate_network_config\<close> and
  \<open>filter_wan_from_bridge_ports\<close> of \<open>src/app/modules/provisioning/commands.py\<close>.
\<close>

section \<open>Addresses\<close>

record network_config =
  nc_gateway :: string
  nc_pool_start :: string
  nc_pool_end :: string
  nc_network :: string

text \<open>\<open>parts[i]\<close>, and \<open>int(parts[2])\<close>, raise when there is no such part or it is not a number.\<close>

definition part :: "nat \<Rightarrow> string list \<Rightarrow> exn + string" where
  "part i parts = (if i < length parts then Inr (parts ! i) else Inl (Exn ''IndexError'' ''list index out of range''))"

definition int_of :: "string \<Rightarrow> exn + int" where
  "int_of s = (case parse_int s of None \<Rightarrow> Inl (ValueError ''invalid literal for int()'') | Some i \<Rightarrow> Inr i)"

definition bind_exn :: "exn + 'a \<Rightarrow> ('a \<Rightarrow> exn + 'b) \<Rightarrow> exn + 'b" where
  "bind_exn r f = (case r of Inl e \<Rightarrow> Inl e | Inr x \<Rightarrow> f x)"

lemma bind_exn_simps [simp]: "bind_exn (Inl e) f = Inl e" "bind_exn (Inr x) f = f x"
  by (simp_all add: bind_exn_def)

definition dots :: "string list \<Rightarrow> string" where
  "dots ps = join ''.'' ps"

definition calculate_network_config :: "string \<Rightarrow> int \<Rightarrow> exn + network_config" where
  "calculate_network_config subnet_address cidr =
     (let parts = split_on (CHR ''.'') subnet_address;
          net = subnet_address @ ''/'' @ str_int cidr
      in bind_exn (part 0 parts) (\<lambda>a. bind_exn (part 1 parts) (\<lambda>b.
         if cidr = 16 then
           Inr \<lparr>nc_gateway = dots [a, b, ''0'', ''1''], nc_pool_start = dots [a, b, ''0'', ''2''],
                nc_pool_end = dots [a, b, ''255'', ''254''], nc_network = net\<rparr>
         else bind_exn (part 2 parts) (\<lambda>c.
           let lo = \<lparr>nc_gateway = dots [a, b, c, ''1''], nc_pool_start = dots [a, b, c, ''2''],
                     nc_pool_end = dots [a, b, c, ''254''], nc_network = net\<rparr>
           in if cidr = 22 then
                bind_exn (int_of c) (\<lambda>n. Inr (lo\<lparr>nc_pool_end := dots [a, b, str_int (n + 3), ''254'']\<rparr>))
              else if cidr = 23 then
                bind_exn (int_of c) (\<lambda>n. Inr (lo\<lparr>nc_pool_end := dots [a, b, str_int (n + 1), ''254'']\<rparr>))
              else Inr lo))))"

text \<open>
  The reference: an address as a number of 32 bits, and for a network of prefix length n its
  first address N, the gateway N + 1 and the pool from N + 2 up to the last but one address.
\<close>

definition dotted :: "nat \<Rightarrow> string" where
  "dotted v = dots (map str_nat [v div 256 div 256 div 256, v div 256 div 256 mod 256, v div 256 mod 256, v mod 256])"

definition cidr_plan :: "nat \<Rightarrow> nat \<Rightarrow> network_config" where
  "cidr_plan N n =
     \<lparr>nc_gateway = dotted (N + 1), nc_pool_start = dotted (N + 2), nc_pool_end = dotted (N + 2 ^ (32 - n) - 2),
      nc_network = dotted N @ ''/'' @ str_int (int n)\<rparr>"

lemma isdigit_dot: "CHR ''.'' \<notin> set (str_nat n)"
  using str_nat_digits [of n] by (auto simp: isdigit_def)

lemma split_dotted:
  "split_on (CHR ''.'') (dots (map str_nat [a, b, c, d])) = map str_nat [a, b, c, d]"
  unfolding dots_def by (rule split_on_join) (use isdigit_dot in auto)

lemma int_of_str_nat [simp]: "int_of (str_nat c) = Inr (int c)"
  by (simp add: int_of_def parse_int_str_nat)

lemma str_int_plus [simp]: "str_int (int c + 3) = str_nat (c + 3)" "str_int (int c + 1) = str_nat (Suc c)"
  by (simp_all add: str_int_def nat_add_distrib)

lemma str_nat_literals: "str_nat 0 = ''0''" "str_nat (Suc 0) = ''1''" "str_nat 2 = ''2''" "str_nat 254 = ''254''" "str_nat 255 = ''255''"
  by (code_simp, code_simp, code_simp, code_simp, code_simp)

lemma dotted_bytes:
  assumes "b < 256" "c < 256" "d < 256"
  shows "dotted (((a * 256 + b) * 256 + c) * 256 + d) = dots (map str_nat [a, b, c, d])"
proof -
  have h: "(x * 256 + y) div 256 = x" "(x * 256 + y) mod 256 = y" if "y < 256" for x y :: nat
    using that by simp_all
  show ?thesis by (simp only: dotted_def h [OF assms(1)] h [OF assms(2)] h [OF assms(3)])
qed

text \<open>
   The addresses computed for a hotspot network are those of its prefix: for the first
  address N of a network of one of the four prefix lengths the setup offers, the gateway is
  N + 1 and the pool runs from N + 2 to the address before the broadcast address, so that
  every address of the pool belongs to the network and none is the gateway. The string
  arithmetic of the code agrees with the arithmetic on 32-bit numbers.
\<close>

theorem network_plan_matches_prefix:
  assumes "n \<in> {16, 22, 23, 24}" "N < 2 ^ 32" "2 ^ (32 - n) dvd N"
  shows "calculate_network_config (dotted N) (int n) = Inr (cidr_plan N n)"
proof -
  have "256 dvd N" using assms(1,3) by (auto elim: dvd_trans [rotated])
  then obtain M where M: "N = M * 256" by (metis dvd_def mult.commute)
  define a b c where abc: "a = M div 256 div 256" "b = M div 256 mod 256" "c = M mod 256"
  have lt: "b < 256" "c < 256" by (simp_all add: abc)
  have N: "N = ((a * 256 + b) * 256 + c) * 256 + 0" unfolding M abc by simp
  have "n = 16 \<Longrightarrow> 256 dvd M" "n = 22 \<Longrightarrow> 4 dvd M" "n = 23 \<Longrightarrow> 2 dvd M"
    using assms(3) by (auto simp: M intro: dvd_mult_cancel1 [of 256, THEN iffD1])
  then have al: "n = 16 \<Longrightarrow> c = 0" "n = 22 \<Longrightarrow> c mod 4 = 0" "n = 23 \<Longrightarrow> c mod 2 = 0"
    by (simp_all add: abc mod_mod_cancel)
  then have le: "n = 22 \<Longrightarrow> c + 3 < 256" "n = 23 \<Longrightarrow> c + 1 < 256" using lt(2) by presburger+
  note db = dotted_bytes [of b _ _ a]
  have d: "dotted N = dots (map str_nat [a, b, c, 0])"
    "dotted (N + 1) = dots (map str_nat [a, b, c, 1])" "dotted (N + 2) = dots (map str_nat [a, b, c, 2])"
    using db [OF lt, of 0] db [OF lt, of 1] db [OF lt, of 2] by (simp_all only: N) simp_all
  have s: "N + 65536 - 2 = ((a * 256 + b) * 256 + (c + 255)) * 256 + 254" "N + 1024 - 2 = ((a * 256 + b) * 256 + (c + 3)) * 256 + 254"
    "N + 512 - 2 = ((a * 256 + b) * 256 + (c + 1)) * 256 + 254" "N + 256 - 2 = ((a * 256 + b) * 256 + c) * 256 + 254"
    by (simp_all add: N)
  have e: "dotted (N + 2 ^ (32 - n) - 2) = dots (map str_nat [a, b, if n = 16 then 255 else if n = 22 then c + 3 else if n = 23 then c + 1 else c, 254])"
    using assms(1) db [of "c + 255" 254] db [of "c + 3" 254] db [of "c + 1" 254] db [of c 254] lt le al(1)
    by (elim insertE emptyE) (simp_all add: s)
  show ?thesis using assms(1) al(1)
    unfolding calculate_network_config_def cidr_plan_def d e split_dotted Let_def
    by (auto simp: part_def str_nat_literals)
qed

section \<open>Bridge ports\<close>

definition same_port :: "string \<Rightarrow> string \<Rightarrow> bool" where
  "same_port wan port \<longleftrightarrow> strip (map lower port) = strip (map lower wan)"

fun filter_wan_from_bridge_ports :: "string list \<Rightarrow> string \<Rightarrow> string list \<times> bool" where
  "filter_wan_from_bridge_ports [] wan = ([], False)"
| "filter_wan_from_bridge_ports (p # ps) wan =
     (let (filtered, hit) = filter_wan_from_bridge_ports ps wan
      in if same_port wan p then (filtered, True) else (p # filtered, hit))"

text \<open>
  The interface to the internet never ends up in the bridge, however it is written, and no other
  port is lost.
\<close>

lemma wan_never_bridged:
  "filter_wan_from_bridge_ports ps wan = (filter (\<lambda>p. \<not> same_port wan p) ps, \<exists>p \<in> set ps. same_port wan p)"
  by (induction ps) (auto simp: Let_def)

theorem network_plan_matches_prefix_witness:
  "calculate_network_config (dotted (172 * 2 ^ 24 + 31 * 2 ^ 16)) 16 = Inr (cidr_plan (172 * 2 ^ 24 + 31 * 2 ^ 16) 16)"
proof -
  have "2 ^ (32 - 16) dvd (172 * 2 ^ 24 + 31 * 2 ^ 16 :: nat)" by simp
  from network_plan_matches_prefix [OF _ _ this] show ?thesis by simp
qed

end
