(* ===== verification/Credentials.thy ===== *)
theory Credentials
  imports Listing
begin

text \<open>
  The credentials of hotspot customers: user names that count up per tenant and numeric
  passwords (\<open>src/app/utils/hotspot_username.py\<close>), and voucher codes drawn from a pattern
  (\<open>VoucherCode.generate_code\<close> of \<open>src/app/models/customer_portal.py\<close>).

  Randomness is a parameter: \<open>randbelow i\<close> is the i-th draw of \<open>secrets.randbelow(10)\<close> and
  \<open>choice i alphabet\<close> the i-th draw of \<open>secrets.choice(alphabet)\<close>.
\<close>

section \<open>User names\<close>

text \<open>\<open>f"{n:03d}"\<close> and its wider forms: the sign counts towards the width.\<close>

definition fmt_d :: "nat \<Rightarrow> int \<Rightarrow> string" where
  "fmt_d w n = (if n < 0 then CHR ''-'' # zfill (w - 1) (str_nat (nat (- n))) else zfill w (str_nat (nat n)))"

definition username_of :: "string \<Rightarrow> int \<Rightarrow> string" where
  "username_of pfx counter =
     (if counter < 1000 then pfx @ fmt_d 3 counter
      else if counter < 10000 then pfx @ fmt_d 4 counter
      else pfx @ fmt_d 5 counter)"

definition settings_of :: "int \<Rightarrow> db \<Rightarrow> exn + organization_settings option" where
  "settings_of organization_id d = scalar_one_or_none (filter (\<lambda>st. os_organization_id st = organization_id) (org_settings d))"

definition default_settings :: "int \<Rightarrow> organization_settings" where
  \<comment> \<open>the arguments of the constructor and the column defaults\<close>
  "default_settings organization_id =
     \<lparr>os_organization_id = organization_id, os_auto_suspend_days = 14, os_hotspot_username_prefix = ''C'',
      os_hotspot_username_counter = 1, os_prune_inactive_users_days = 14,
      os_vpn_domain = ''vpn.codevertexafrica.com'', os_winbox_port_start = 51000, os_winbox_port_end = 59999\<rparr>"

definition upd_settings :: "int \<Rightarrow> (organization_settings \<Rightarrow> organization_settings) \<Rightarrow> db \<Rightarrow> db" where
  "upd_settings k f = org_settings_update (tbl_upd os_organization_id k f)"

definition generate_hotspot_credentials ::
    "(nat \<Rightarrow> nat) \<Rightarrow> int \<Rightarrow> nat \<Rightarrow> dbs \<Rightarrow> (exn + string \<times> string) \<times> dbs" where
  "generate_hotspot_credentials randbelow organization_id password_length s =
     (case settings_of organization_id (cur s) of
        Inl e \<Rightarrow> (Inl e, s)
      | Inr found \<Rightarrow>
          let (settings, s1) =
                (case found of
                   Some st \<Rightarrow> (st, s)
                 | None \<Rightarrow> (default_settings organization_id,
                     on_db (org_settings_update (\<lambda>t. t @ [default_settings organization_id])) s));
              counter = os_hotspot_username_counter settings;
              username = username_of (os_hotspot_username_prefix settings) counter;
              password = concat (map (\<lambda>i. str_nat (randbelow i)) [0..<password_length])
          in (Inr (username, password),
              commit (on_db (upd_settings organization_id (\<lambda>x. x\<lparr>os_hotspot_username_counter := counter + 1\<rparr>)) s1)))"

definition get_next_username_preview :: "int \<Rightarrow> db \<Rightarrow> exn + string" where
  "get_next_username_preview organization_id d =
     (case settings_of organization_id d of
        Inl e \<Rightarrow> Inl e
      | Inr None \<Rightarrow> Inr ''C001''
      | Inr (Some st) \<Rightarrow> Inr (username_of (os_hotspot_username_prefix st) (os_hotspot_username_counter st)))"

definition reset_username_counter :: "int \<Rightarrow> int \<Rightarrow> dbs \<Rightarrow> (exn + bool) \<times> dbs" where
  "reset_username_counter organization_id new_counter s =
     (case settings_of organization_id (cur s) of
        Inl e \<Rightarrow> (Inl e, s)
      | Inr None \<Rightarrow> (Inr False, s)
      | Inr (Some st) \<Rightarrow>
          (Inr True, commit (on_db (upd_settings organization_id (\<lambda>x. x\<lparr>os_hotspot_username_counter := new_counter\<rparr>)) s)))"

definition update_username_prefix :: "int \<Rightarrow> string \<Rightarrow> dbs \<Rightarrow> (exn + bool) \<times> dbs" where
  "update_username_prefix organization_id new_prefix s =
     (case settings_of organization_id (cur s) of
        Inl e \<Rightarrow> (Inl e, s)
      | Inr None \<Rightarrow> (Inr False, s)
      | Inr (Some st) \<Rightarrow>
          (Inr True, commit (on_db (upd_settings organization_id (\<lambda>x. x\<lparr>os_hotspot_username_prefix := new_prefix\<rparr>)) s)))"

section \<open>Voucher codes\<close>

definition ascii_uppercase :: string where
  "ascii_uppercase = ''ABCDEFGHIJKLMNOPQRSTUVWXYZ''"

definition ascii_digits :: string where
  "ascii_digits = ''0123456789''"

definition code_char :: "(nat \<Rightarrow> string \<Rightarrow> char) \<Rightarrow> nat \<Rightarrow> char \<Rightarrow> char" where
  "code_char choice i c =
     (if c = CHR ''X'' then choice i (ascii_uppercase @ ascii_digits)
      else if c = CHR ''N'' then choice i ascii_digits
      else if c = CHR ''A'' then choice i ascii_uppercase
      else c)"

definition generate_code :: "(nat \<Rightarrow> string \<Rightarrow> char) \<Rightarrow> string \<Rightarrow> nat \<Rightarrow> string" where
  "generate_code choice format_pattern length' =
     (if format_pattern = [] then map (\<lambda>i. choice i (ascii_uppercase @ ascii_digits)) [0..<length']
      else map (\<lambda>i. code_char choice i (format_pattern ! i)) [0..<length format_pattern])"

definition upper :: "char \<Rightarrow> char" where
  "upper c = (let n = of_char c :: nat in if 97 \<le> n \<and> n \<le> 122 then char_of (n - 32) else c)"

definition redeem_key :: "string \<Rightarrow> string" where
  \<comment> \<open>\<open>data.code.upper().strip()\<close>, by which a code typed in by a customer is looked up\<close>
  "redeem_key code = strip (map upper code)"

section \<open>User names do not repeat\<close>

lemma fmt_d_inj: "fmt_d w m = fmt_d v n \<Longrightarrow> m = n"
proof -
  have d: "CHR ''-'' # t \<noteq> zfill u (str_nat k)" for t u k
  proof
    assume e: "CHR ''-'' # t = zfill u (str_nat k)"
    then have "CHR ''-'' \<in> set (zfill u (str_nat k))" by (metis list.set_intros(1))
    then show False using str_nat_digits [of k] by (auto simp: zfill_def isdigit_def)
  qed
  assume "fmt_d w m = fmt_d v n"
  then show ?thesis
    using zfill_inj [of w "nat m" v "nat n"] zfill_inj [of "w - 1" "nat (- m)" "v - 1" "nat (- n)"] d d [symmetric]
    by (auto simp: fmt_d_def split: if_splits)
qed

lemma username_of_inj: "username_of p m = username_of p n \<longleftrightarrow> m = n"
  by (auto simp: username_of_def dest: fmt_d_inj split: if_splits)

definition seat :: "int \<Rightarrow> db \<Rightarrow> string \<times> int" where
  \<comment> \<open>the prefix and the counter from which the next name of a tenant is made\<close>
  "seat i d =
     (case tbl_get os_organization_id i (org_settings d) of
        None \<Rightarrow> (''C'', 1)
      | Some st \<Rightarrow> (os_hotspot_username_prefix st, os_hotspot_username_counter st))"

lemma settings_of_uniq:
  "uniq os_organization_id (org_settings d) \<Longrightarrow> settings_of i d = Inr (tbl_get os_organization_id i (org_settings d))"
  by (simp add: settings_of_def uniq_filter_key split: option.splits)

lemma generate_hotspot_credentials_effects:
  assumes "uniq os_organization_id (org_settings (cur s))" "generate_hotspot_credentials randbelow i n s = (r, s')"
  shows "r = Inr (username_of (fst (seat i (cur s))) (snd (seat i (cur s))), concat (map (\<lambda>k. str_nat (randbelow k)) [0..<n]))"
    "seat i (cur s') = (fst (seat i (cur s)), snd (seat i (cur s)) + 1)"
    "j \<noteq> i \<Longrightarrow> seat j (cur s') = seat j (cur s)"
    "uniq os_organization_id (org_settings (cur s'))" "tbl_get os_organization_id i (org_settings (cur s')) \<noteq> None"
proof -
  note f = settings_of_uniq [OF assms(1), of i]
  show "r = Inr (username_of (fst (seat i (cur s))) (snd (seat i (cur s))), concat (map (\<lambda>k. str_nat (randbelow k)) [0..<n]))"
    using assms(2) by (auto simp: generate_hotspot_credentials_def f seat_def default_settings_def Let_def split: option.splits)
  show "seat i (cur s') = (fst (seat i (cur s)), snd (seat i (cur s)) + 1)"
    "j \<noteq> i \<Longrightarrow> seat j (cur s') = seat j (cur s)"
    using assms(2) by (auto simp: generate_hotspot_credentials_def f seat_def default_settings_def Let_def upd_settings_def
        table_simps split: option.splits)
  show "tbl_get os_organization_id i (org_settings (cur s')) \<noteq> None"
    using assms(2) by (auto simp: generate_hotspot_credentials_def f default_settings_def Let_def upd_settings_def
        table_simps split: option.splits)
  show "uniq os_organization_id (org_settings (cur s'))"
    using assms by (auto simp: generate_hotspot_credentials_def f default_settings_def Let_def upd_settings_def
        table_simps uniq_snoc tbl_get_None split: option.splits)
qed

lemma generate_hotspot_credentials_frame:
  assumes "generate_hotspot_credentials randbelow i n s = (r, s')"
  shows "\<exists>t. cur s' = (cur s)\<lparr>org_settings := t\<rparr>" "\<forall>e. r \<noteq> Inl e \<Longrightarrow> saved s' = cur s'" "r = Inl e \<Longrightarrow> s' = s"
proof -
  show "\<exists>t. cur s' = (cur s)\<lparr>org_settings := t\<rparr>"
    using assms
    by (auto simp: generate_hotspot_credentials_def Let_def upd_settings_def split: sum.splits option.splits
        intro!: exI [of _ "org_settings (cur s')"])
  show "\<forall>e. r \<noteq> Inl e \<Longrightarrow> saved s' = cur s'" "r = Inl e \<Longrightarrow> s' = s"
    using assms by (auto simp: generate_hotspot_credentials_def Let_def split: sum.splits option.splits)
qed

lemma preview_is_next_username:
  assumes "uniq os_organization_id (org_settings (cur s))" "generate_hotspot_credentials randbelow i n s = (Inr (u, p), s')"
  shows "get_next_username_preview i (cur s) = Inr u"
proof -
  have "username_of ''C'' 1 = ''C001''" by code_simp
  with generate_hotspot_credentials_effects(1) [OF assms] show ?thesis
    by (auto simp: get_next_username_preview_def settings_of_uniq [OF assms(1)] seat_def split: option.splits)
qed

lemma credentials_batch:
  assumes "uniq os_organization_id (org_settings (cur s))"
    "run_batch (\<lambda>(i, randbelow). generate_hotspot_credentials randbelow i n) calls s = (rs, s')"
  shows "list_all2 (\<lambda>c r. \<exists>k p. r = Inr (username_of (fst (seat (fst c) (cur s))) k, p) \<and> snd (seat (fst c) (cur s)) \<le> k) calls rs
    \<and> distinct (zip (map fst calls) (map (fst \<circ> projr) rs))"
  using assms
proof (induction calls arbitrary: s rs)
  case (Cons c calls)
  obtain i rb where c: "c = (i, rb)" by fastforce
  obtain r s1 where st: "generate_hotspot_credentials rb i n s = (r, s1)" by fastforce
  obtain rs1 where rest: "run_batch (\<lambda>(i, randbelow). generate_hotspot_credentials randbelow i n) calls s1 = (rs1, s')"
    and rs: "rs = r # rs1"
    using Cons.prems(2) by (auto simp: c st split: prod.splits)
  note e = generate_hotspot_credentials_effects [OF Cons.prems(1) st]
  note IH = Cons.IH [OF e(4) rest]
  have sh: "fst (seat j (cur s1)) = fst (seat j (cur s))" "snd (seat j (cur s)) \<le> snd (seat j (cur s1))" for j
    using e(2) e(3) [of j] by (cases "j = i"; simp)+
  have "list_all2 (\<lambda>c r. \<exists>k p. r = Inr (username_of (fst (seat (fst c) (cur s))) k, p) \<and> snd (seat (fst c) (cur s)) \<le> k) calls rs1"
    using IH [THEN conjunct1] by (rule list_all2_mono) (use sh in \<open>metis order_trans\<close>)
  moreover have "(i, username_of (fst (seat i (cur s))) (snd (seat i (cur s)))) \<notin> set (zip (map fst calls) (map (fst \<circ> projr) rs1))"
  proof
    assume "(i, username_of (fst (seat i (cur s))) (snd (seat i (cur s)))) \<in> set (zip (map fst calls) (map (fst \<circ> projr) rs1))"
    then obtain m where m: "m < length calls" "m < length rs1" "fst (calls ! m) = i"
      "fst (projr (rs1 ! m)) = username_of (fst (seat i (cur s))) (snd (seat i (cur s)))"
      by (auto simp: in_set_zip)
    have "\<exists>k p. rs1 ! m = Inr (username_of (fst (seat i (cur s1))) k, p) \<and> snd (seat i (cur s1)) \<le> k"
      using IH [THEN conjunct1] m(1,2) unfolding list_all2_conv_all_nth m(3) [symmetric] by blast
    then obtain k p where "rs1 ! m = Inr (username_of (fst (seat i (cur s1))) k, p)" "snd (seat i (cur s1)) \<le> k" by blast
    with m(4) e(2) show False by (simp add: username_of_inj)
  qed
  ultimately show ?case using IH [THEN conjunct2] by (auto simp: rs c e(1) comp_def)
qed auto

text \<open>
  C19. The user names that the tenants' customers get do not repeat: whatever the order in which
  the tenants ask for credentials, every request succeeds, and no tenant is given the same
  name twice, whether its settings existed before or are created by the first request.
\<close>

theorem hotspot_usernames_never_repeat:
  assumes "uniq os_organization_id (org_settings (cur s))"
    "run_batch (\<lambda>(i, randbelow). generate_hotspot_credentials randbelow i n) calls s = (rs, s')"
  shows "(\<forall>r \<in> set rs. \<exists>u p. r = Inr (u, p)) \<and> distinct (zip (map fst calls) (map (fst \<circ> projr) rs))"
  using credentials_batch [OF assms] by (fastforce simp: list_all2_conv_all_nth in_set_conv_nth)

text \<open>Resetting the counter gives names out again.\<close>

lemma reset_counter_repeats_usernames:
  assumes "tbl_get os_organization_id i (org_settings (cur s)) = Some st" "uniq os_organization_id (org_settings (cur s))"
    "generate_hotspot_credentials r1 i n s = (Inr (u, p), s1)"
    "reset_username_counter i (os_hotspot_username_counter st) s1 = (b, s2)"
    "generate_hotspot_credentials r2 i n s2 = (Inr (u', p'), s3)"
  shows "u' = u"
proof -
  note e = generate_hotspot_credentials_effects [OF assms(2,3)]
  have "seat i (cur s2) = seat i (cur s) \<and> uniq os_organization_id (org_settings (cur s2))"
    using assms(1,4) e(2,4,5)
    by (auto simp: reset_username_counter_def settings_of_uniq [OF e(4)] seat_def upd_settings_def table_simps split: option.splits)
  with generate_hotspot_credentials_effects(1) [OF _ assms(5)] e(1) show ?thesis by simp
qed

section \<open>Codes and how they are looked up\<close>

definition code_class :: "char \<Rightarrow> char \<Rightarrow> bool" where
  "code_class p c \<longleftrightarrow>
     (if p = CHR ''X'' then c \<in> set ascii_uppercase \<or> c \<in> set ascii_digits
      else if p = CHR ''N'' then c \<in> set ascii_digits
      else if p = CHR ''A'' then c \<in> set ascii_uppercase
      else c = p)"

lemma alphabet_chars: "\<forall>c \<in> set (ascii_uppercase @ ascii_digits). upper c = c \<and> \<not> is_space c"
  by code_simp

lemma placeholder_chars: "c \<in> {CHR ''X'', CHR ''N'', CHR ''A''} \<Longrightarrow> upper c = c \<and> \<not> is_space c"
  using alphabet_chars by (auto simp: ascii_uppercase_def)

lemma code_class_same: "code_class p c \<Longrightarrow> (upper c = c \<longleftrightarrow> upper p = p) \<and> (is_space c \<longleftrightarrow> is_space p)"
  using alphabet_chars placeholder_chars by (auto simp: code_class_def split: if_splits)

lemma lstrip_same_length: "length (lstrip t) = length t \<Longrightarrow> lstrip t = t"
  by (metis append_eq_conv_conj length_0_conv append_Nil lstrip_def add_cancel_left_left length_append takeWhile_dropWhile_id)

lemma length_lstrip: "length (lstrip t) \<le> length t"
  by (simp add: lstrip_def length_dropWhile_le)

lemma strip_same_length: "length (strip t) = length t \<Longrightarrow> strip t = t"
proof -
  assume a: "length (strip t) = length t"
  then have "length (lstrip t) = length t"
    using length_lstrip [of "rev (lstrip t)"] length_lstrip [of t] by (simp add: strip_def)
  then have l: "lstrip t = t" by (rule lstrip_same_length)
  with a have "length (lstrip (rev t)) = length (rev t)" by (simp add: strip_def)
  then have "lstrip (rev t) = rev t" by (rule lstrip_same_length)
  with l show ?thesis by (simp add: strip_def)
qed

lemma redeem_key_fixed: "redeem_key s = s \<longleftrightarrow> map upper s = s \<and> strip s = s"
proof
  assume a: "redeem_key s = s"
  have "length (strip (map upper s)) = length (map upper s)" using a by (simp add: redeem_key_def)
  then have "strip (map upper s) = map upper s" by (rule strip_same_length)
  with a show "map upper s = s \<and> strip s = s" by (simp add: redeem_key_def)
qed (simp add: redeem_key_def)

lemma lstrip_fixed: "lstrip s = s \<longleftrightarrow> s = [] \<or> \<not> is_space (hd s)"
proof (cases s)
  case (Cons a t)
  have "dropWhile is_space t \<noteq> a # t" using length_dropWhile_le [of is_space t] by (metis impossible_Cons)
  then show ?thesis by (auto simp: Cons lstrip_def)
qed (simp add: lstrip_def)

lemma strip_fixed: "strip s = s \<longleftrightarrow> s = [] \<or> \<not> is_space (hd s) \<and> \<not> is_space (last s)"
proof -
  have "strip s = s \<longleftrightarrow> lstrip s = s \<and> lstrip (rev s) = rev s"
  proof
    assume a: "strip s = s"
    have "length s = length (lstrip (rev (lstrip s)))" by (subst a [symmetric]) (simp add: strip_def)
    then have "length (lstrip s) = length s"
      using length_lstrip [of "rev (lstrip s)"] length_lstrip [of s] by simp
    then have "lstrip s = s" by (rule lstrip_same_length)
    with a show "lstrip s = s \<and> lstrip (rev s) = rev s" by (simp add: strip_def) (metis rev_rev_ident)
  qed (simp add: strip_def)
  then show ?thesis by (auto simp: lstrip_fixed hd_rev)
qed

lemma codes_same_shape:
  assumes "list_all2 code_class pat code"
  shows "redeem_key code = code \<longleftrightarrow> redeem_key pat = pat"
proof -
  have "map upper code = code \<longleftrightarrow> map upper pat = pat"
    using assms by (induction rule: list_all2_induct) (auto dest: code_class_same)
  moreover have "strip code = code \<longleftrightarrow> strip pat = pat"
  proof (cases "pat = []")
    case False
    then have ne: "code \<noteq> []" using assms by auto
    then have "code_class (hd pat) (hd code)" "code_class (last pat) (last code)"
      using False assms by (simp_all add: list_all2_conv_all_nth hd_conv_nth last_conv_nth)
    with False ne show ?thesis by (auto simp: strip_fixed dest: code_class_same)
  qed (use assms in simp)
  ultimately show ?thesis by (simp add: redeem_key_fixed)
qed

text \<open>
  A generated code has the shape of its pattern: as long as the pattern, with a capital letter
  or digit for X, a digit for N, a capital letter for A and every other character as it is;
  without a pattern it is a run of capital letters and digits of the given length.
\<close>

theorem generated_code_shape:
  assumes "\<forall>i alphabet. alphabet \<noteq> [] \<longrightarrow> choice i alphabet \<in> set alphabet"
  shows "(pat \<noteq> [] \<longrightarrow> list_all2 code_class pat (generate_code choice pat n))
    \<and> length (generate_code choice [] n) = n \<and> set (generate_code choice [] n) \<subseteq> set ascii_uppercase \<union> set ascii_digits"
proof -
  have "ascii_uppercase \<noteq> []" "ascii_digits \<noteq> []" by (simp_all add: ascii_uppercase_def ascii_digits_def)
  then have a: "choice i (ascii_uppercase @ ascii_digits) \<in> set (ascii_uppercase @ ascii_digits)"
    "choice i ascii_digits \<in> set ascii_digits" "choice i ascii_uppercase \<in> set ascii_uppercase" for i
    using assms by blast+
  have "list_all2 code_class pat (generate_code choice pat n)" if "pat \<noteq> []"
    using that a by (auto simp: generate_code_def list_all2_conv_all_nth code_class_def code_char_def)
  moreover have "length (generate_code choice [] n) = n \<and> set (generate_code choice [] n) \<subseteq> set ascii_uppercase \<union> set ascii_digits"
    using a by (auto simp: generate_code_def)
  ultimately show ?thesis by blast
qed

section \<open>Concrete runs\<close>

theorem hotspot_usernames_never_repeat_witness:
  "distinct (zip [1 :: int, 2, 1] (map (fst \<circ> projr) (fst (run_batch (\<lambda>(i, randbelow). generate_hotspot_credentials randbelow i 3)
     [(1::int, \<lambda>_. 7), (2, \<lambda>_. 7), (1, \<lambda>_. 7)] (fresh (empty_db\<lparr>org_settings := [settings0]\<rparr>))))))"
proof -
  obtain rs s' where p: "run_batch (\<lambda>(i, randbelow). generate_hotspot_credentials randbelow i 3)
     [(1::int, \<lambda>_. 7), (2, \<lambda>_. 7), (1, \<lambda>_. 7)] (fresh (empty_db\<lparr>org_settings := [settings0]\<rparr>)) = (rs, s')" by fastforce
  have u: "uniq os_organization_id (org_settings (cur (fresh (empty_db\<lparr>org_settings := [settings0]\<rparr>))))" by (simp add: uniq_def)
  from hotspot_usernames_never_repeat [OF u p] show ?thesis unfolding p by simp
qed

definition first_choice :: "nat \<Rightarrow> string \<Rightarrow> char" where
  "first_choice i alphabet = (if alphabet = [] then CHR ''?'' else hd alphabet)"

end
