(* ===== verification/Vouchers.thy ===== *)
theory Vouchers
  imports Credentials
begin

text \<open>
  The administration of vouchers (\<open>src/app/api/v1/business/vouchers.py\<close>): batches, listings,
  changes and deletion. The tenant of a request is the argument \<open>org\<close>; the random draws of the
  k-th voucher of a batch are \<open>choice k\<close> and \<open>randbelow k\<close>.

  The credentials of each voucher are committed before the voucher is added, and with them the
  vouchers that were added before; a code that exists already, or is longer than its column,
  makes the next flush fail.
\<close>

section \<open>Listings\<close>

datatype VoucherStatusFilter = FilterActive | FilterUsed | FilterExpired | FilterDisabled

fun status_value :: "VoucherStatusFilter \<Rightarrow> VoucherStatus option" where
  \<comment> \<open>\<open>VoucherStatus(data.status.value)\<close>: there is no member with the value "disabled"\<close>
  "status_value FilterActive = Some VchActive"
| "status_value FilterUsed = Some VchUsed"
| "status_value FilterExpired = Some VchExpired"
| "status_value FilterDisabled = None"

record voucher_item =
  vi_voucher :: voucher_code
  vi_plan_name :: "string option"
  vi_data_limit_bytes :: "int option"
  vi_time_limit_seconds :: "int option"
  vi_bandwidth_limit :: "string option"

definition to_list_item :: "voucher_code \<Rightarrow> service_plan option \<Rightarrow> voucher_item" where
  "to_list_item w p =
     (case p of
        None \<Rightarrow> \<lparr>vi_voucher = w, vi_plan_name = None, vi_data_limit_bytes = None, vi_time_limit_seconds = None,
          vi_bandwidth_limit = None\<rparr>
      | Some p \<Rightarrow>
          \<lparr>vi_voucher = w, vi_plan_name = Some (plan_name p),
           vi_data_limit_bytes = (if plan_data_limit p > 0 then Some (plan_data_limit p * 1024 * 1024) else None),
           vi_time_limit_seconds = (if plan_time_limit p > 0 then Some (plan_time_limit p) else None),
           vi_bandwidth_limit = (if plan_download_speed p \<noteq> 0
             then Some (str_int (plan_download_speed p) @ ''/'' @ str_int (plan_upload_speed p)) else None)\<rparr>)"

definition voucher_matches :: "int \<Rightarrow> VoucherStatus option \<Rightarrow> string option \<Rightarrow> int option \<Rightarrow> voucher_code \<Rightarrow> bool" where
  "voucher_matches org status search pln w \<longleftrightarrow>
     vch_organization_id w = org \<and> (status \<noteq> None \<longrightarrow> Some (vch_status w) = status) \<and>
     opt_filter pln (Some (vch_plan_id w)) \<and>
     (truthy search \<longrightarrow> search_matches search (vch_code w) \<or>
        (case vch_hotspot_username w of None \<Rightarrow> False | Some u \<Rightarrow> search_matches search u))"

definition list_vouchers ::
    "int \<Rightarrow> int \<Rightarrow> VoucherStatusFilter option \<Rightarrow> string option \<Rightarrow> int option \<Rightarrow> int \<Rightarrow> db \<Rightarrow> exn + voucher_item listing" where
  "list_vouchers page sz status search pln org d =
     (if status = Some FilterDisabled then Inl (Exn ''DBAPIError'' ''invalid input value for enum voucherstatus'')
      else
        let l = paginate vch_created_at \<lparr>pg_page = page, pg_size = sz, pg_offset = (page - 1) * sz\<rparr>
              (filter (voucher_matches org (Option.bind status status_value) search pln) (vouchers d))
        in Inr \<lparr>li_items = map (\<lambda>w. to_list_item w (tbl_get plan_id (vch_plan_id w) (plans d))) (li_items l),
             li_total = li_total l, li_page = page, li_size = sz,
             li_pages = (if li_total l > 0 then (li_total l + sz - 1) div sz else 0)\<rparr>)"

record voucher_stats =
  vs_total :: nat
  vs_active :: nat
  vs_used :: nat
  vs_expired :: nat

definition get_voucher_stats :: "int \<Rightarrow> db \<Rightarrow> voucher_stats" where
  "get_voucher_stats org d =
     (let mine = filter (\<lambda>w. vch_organization_id w = org) (vouchers d);
          count = (\<lambda>st. length (filter (\<lambda>w. vch_status w = st) mine))
      in \<lparr>vs_total = length mine, vs_active = count VchActive, vs_used = count VchUsed, vs_expired = count VchExpired\<rparr>)"

definition find_voucher :: "int \<Rightarrow> int \<Rightarrow> db \<Rightarrow> exn + voucher_code option" where
  "find_voucher voucher_id org d =
     scalar_one_or_none (filter (\<lambda>w. vch_id w = voucher_id \<and> vch_organization_id w = org) (vouchers d))"

definition not_found :: exn where
  "not_found = Exn ''HTTPException'' ''404: Voucher not found''"

definition get_voucher :: "int \<Rightarrow> int \<Rightarrow> db \<Rightarrow> exn + voucher_item" where
  "get_voucher voucher_id org d =
     (case find_voucher voucher_id org d of
        Inl e \<Rightarrow> Inl e
      | Inr None \<Rightarrow> Inl not_found
      | Inr (Some w) \<Rightarrow> Inr (to_list_item w (if vch_plan_id w \<noteq> 0 then tbl_get plan_id (vch_plan_id w) (plans d) else None)))"

section \<open>Batches\<close>

definition new_voucher :: "datetime \<Rightarrow> int \<Rightarrow> int \<Rightarrow> string \<Rightarrow> int \<Rightarrow> voucher_code" where
  \<comment> \<open>the column defaults\<close>
  "new_voucher now i org code pid =
     \<lparr>vch_id = i, vch_organization_id = org, vch_code = code, vch_plan_id = pid, vch_status = VchActive,
      vch_is_used = False, vch_used_by = None, vch_used_at = None, vch_used_mac_address = None,
      vch_used_ip_address = None, vch_expires_at = None, vch_valid_from = None, vch_value = None,
      vch_hotspot_username = None, vch_hotspot_password = None, vch_batch_id = None, vch_batch_name = None,
      vch_created_by = None, vch_printed_at = None, vch_sold_at = None, vch_sold_by = None, vch_created_at = now\<rparr>"

definition insert_voucher :: "voucher_code \<Rightarrow> db \<Rightarrow> db" where
  "insert_voucher w d = (add_voucher w d)\<lparr>voucher_seq := voucher_seq d + 1\<rparr>"

definition voucher_row_ok :: "string \<Rightarrow> db \<Rightarrow> bool" where
  \<comment> \<open>the code is new and fits its column\<close>
  "voucher_row_ok code d \<longleftrightarrow> code \<notin> vch_code ` set (vouchers d) \<and> length code \<le> 50"

record voucher_rng =
  rng_choice :: "nat \<Rightarrow> nat \<Rightarrow> string \<Rightarrow> char"
  rng_randbelow :: "nat \<Rightarrow> nat \<Rightarrow> nat"
  rng_token :: string

record batch_request =
  bq_plan_id :: int
  bq_count :: nat
  bq_code_format :: string
  bq_expires_in_days :: "int option"

definition batch_code :: "voucher_rng \<Rightarrow> batch_request \<Rightarrow> nat \<Rightarrow> string" where
  "batch_code rng data k = generate_code (rng_choice rng k) (bq_code_format data) 8"

definition batch_voucher ::
    "voucher_rng \<Rightarrow> datetime \<Rightarrow> batch_request \<Rightarrow> int \<Rightarrow> int \<Rightarrow> nat \<Rightarrow> string \<Rightarrow> string \<Rightarrow> int \<Rightarrow> voucher_code" where
  "batch_voucher rng now data org uid k username password i =
     (new_voucher now i org (batch_code rng data k) (bq_plan_id data))
       \<lparr>vch_hotspot_username := Some username, vch_hotspot_password := Some password,
        vch_expires_at := (if truthy_int (bq_expires_in_days data) then Some (now + days (the (bq_expires_in_days data))) else None),
        vch_batch_id := Some (rng_token rng), vch_created_by := Some uid\<rparr>"

fun issue_vouchers ::
    "voucher_rng \<Rightarrow> datetime \<Rightarrow> batch_request \<Rightarrow> int \<Rightarrow> int \<Rightarrow> nat list \<Rightarrow> dbs \<Rightarrow> (exn + (string \<times> string \<times> string) list) \<times> dbs" where
  "issue_vouchers rng now data org uid [] s = (Inr [], s)"
| "issue_vouchers rng now data org uid (k # ks) s =
     andthen (generate_hotspot_credentials (rng_randbelow rng k) org 3 s) (\<lambda>(username, password) s1.
       let code = batch_code rng data k
       in if \<not> voucher_row_ok code (cur s1)
          then (Inl (Exn ''DBAPIError'' ''duplicate key value or value too long''), rollback s1)
          else andthen (issue_vouchers rng now data org uid ks
                 (on_db (\<lambda>d. insert_voucher (batch_voucher rng now data org uid k username password (voucher_seq d)) d) s1))
               (\<lambda>rest s2. (Inr ((code, username, password) # rest), s2)))"

definition generate_vouchers ::
    "voucher_rng \<Rightarrow> datetime \<Rightarrow> batch_request \<Rightarrow> int \<Rightarrow> int \<Rightarrow> dbs \<Rightarrow> (exn + (string \<times> string \<times> string) list) \<times> dbs" where
  "generate_vouchers rng now data org uid s =
     (if tbl_get plan_id (bq_plan_id data) (plans (cur s)) = None
      then (Inl (Exn ''HTTPException'' ''404: Plan not found''), s)
      else andthen (issue_vouchers rng now data org uid [0..<bq_count data] s) (\<lambda>issued s1. (Inr issued, commit s1)))"

section \<open>Changes\<close>

definition update_voucher ::
    "int \<Rightarrow> VoucherStatusFilter option \<Rightarrow> datetime option \<Rightarrow> int \<Rightarrow> dbs \<Rightarrow> (exn + unit) \<times> dbs" where
  "update_voucher voucher_id status expires_at org s =
     (case find_voucher voucher_id org (cur s) of
        Inl e \<Rightarrow> (Inl e, s)
      | Inr None \<Rightarrow> (Inl not_found, s)
      | Inr (Some w) \<Rightarrow>
          if status \<noteq> None \<and> status_value (the status) = None
          then (Inl (ValueError ''disabled is not a valid VoucherStatus''), s)
          else
            let f = (\<lambda>x. x\<lparr>vch_status := (case status of None \<Rightarrow> vch_status x | Some st \<Rightarrow> the (status_value st)),
                       vch_expires_at := (if expires_at \<noteq> None then expires_at else vch_expires_at x)\<rparr>)
            in (Inr (), commit (on_db (upd_voucher voucher_id f) s)))"

definition delete_voucher :: "int \<Rightarrow> int \<Rightarrow> dbs \<Rightarrow> (exn + unit) \<times> dbs" where
  \<comment> \<open>purchases that refer to the voucher keep no reference\<close>
  "delete_voucher voucher_id org s =
     (case find_voucher voucher_id org (cur s) of
        Inl e \<Rightarrow> (Inl e, s)
      | Inr None \<Rightarrow> (Inl not_found, s)
      | Inr (Some w) \<Rightarrow>
          (Inr (), commit (on_db (\<lambda>d. d\<lparr>vouchers := filter (\<lambda>x. vch_id x \<noteq> voucher_id) (vouchers d),
             purchases := map (\<lambda>p. if pur_voucher_code_id p = Some voucher_id then p\<lparr>pur_voucher_code_id := None\<rparr> else p)
               (purchases d)\<rparr>) s)))"

section \<open>A batch, complete or cut short\<close>

fun fresh_codes :: "string list \<Rightarrow> string list \<Rightarrow> nat" where
  \<comment> \<open>how many of the drawn codes fit their column and are new among those in use and those drawn before\<close>
  "fresh_codes used [] = 0"
| "fresh_codes used (c # cs) = (if c \<notin> set used \<and> length c \<le> 50 then Suc (fresh_codes (used @ [c]) cs) else 0)"

lemma fresh_codes_le: "fresh_codes used cs \<le> length cs"
  by (induction used cs rule: fresh_codes.induct) auto

lemma fresh_codes_all:
  "distinct (used @ cs) \<Longrightarrow> \<forall>c \<in> set cs. length c \<le> 50 \<Longrightarrow> fresh_codes used cs = length cs"
  by (induction used cs rule: fresh_codes.induct) auto

definition from_batch :: "voucher_rng \<Rightarrow> datetime \<Rightarrow> batch_request \<Rightarrow> int \<Rightarrow> int \<Rightarrow> nat \<Rightarrow> voucher_code \<Rightarrow> bool" where
  "from_batch rng now data org uid k w \<longleftrightarrow> (\<exists>u p i. w = batch_voucher rng now data org uid k u p i)"

lemma vch_code_batch_voucher [simp]: "vch_code (batch_voucher rng now data org uid k u p i) = batch_code rng data k"
  by (simp add: batch_voucher_def new_voucher_def)

lemma seat_insert_voucher: "seat j (insert_voucher w d) = seat j d"
  by (simp add: seat_def insert_voucher_def row_defs)

lemma issue_vouchers_batch:
  assumes "issue_vouchers rng now data org uid ks s = (r, s')" "uniq os_organization_id (org_settings (cur s))"
    "n = fresh_codes (map vch_code (vouchers (cur s))) (map (batch_code rng data) ks)"
  shows "\<exists>new. vouchers (if n = length ks then cur s' else saved s') = vouchers (cur s) @ new
    \<and> list_all2 (from_batch rng now data org uid) (take n ks) new
    \<and> map vch_hotspot_username new = map (\<lambda>j. Some (username_of (fst (seat org (cur s))) (snd (seat org (cur s)) + int j))) [0..<n]
    \<and> (n = length ks \<longrightarrow> r = Inr (map (\<lambda>w. (vch_code w, the (vch_hotspot_username w), the (vch_hotspot_password w))) new))
    \<and> (n < length ks \<longrightarrow> (\<exists>e. r = Inl e) \<and> clean s')"
  using assms
proof (induction ks arbitrary: s r n)
  case (Cons k ks)
  obtain x s1 where g: "generate_hotspot_credentials (rng_randbelow rng k) org 3 s = (x, s1)" by fastforce
  note e = generate_hotspot_credentials_effects [OF Cons.prems(2) g]
  let ?c = "snd (seat org (cur s))" let ?pfx = "fst (seat org (cur s))"
  define u where "u = username_of ?pfx ?c"
  obtain p where x: "x = Inr (u, p)" using e(1) by (auto simp: u_def)
  have fr: "vouchers (cur s1) = vouchers (cur s)" "saved s1 = cur s1"
    using generate_hotspot_credentials_frame(1,2) [OF g] x by auto
  let ?code = "batch_code rng data k"
  show ?case
  proof (cases "voucher_row_ok ?code (cur s1)")
    case False
    then have "n = 0" "r \<in> range Inl" "s' = rollback s1"
      using Cons.prems(1,3) fr by (auto simp: g x voucher_row_ok_def split: if_splits)
    with fr show ?thesis by auto
  next
    case True
    define w where "w = batch_voucher rng now data org uid k u p (voucher_seq (cur s1))"
    define s2 where "s2 = on_db (\<lambda>d. insert_voucher (batch_voucher rng now data org uid k u p (voucher_seq d)) d) s1"
    have s2: "vouchers (cur s2) = vouchers (cur s) @ [w]" "seat org (cur s2) = (?pfx, ?c + 1)"
      "uniq os_organization_id (org_settings (cur s2))" "vch_code w = ?code"
      using e(2,4) fr(1) by (simp_all add: s2_def w_def seat_insert_voucher) (simp_all add: insert_voucher_def row_defs)
    obtain r2 where rest: "issue_vouchers rng now data org uid ks s2 = (r2, s')"
      and r: "r = (case r2 of Inl e \<Rightarrow> Inl e | Inr l \<Rightarrow> Inr ((?code, u, p) # l))"
      using Cons.prems(1) True by (auto simp: g x s2_def andthen_def split: prod.splits sum.splits)
    define m where "m = fresh_codes (map vch_code (vouchers (cur s2))) (map (batch_code rng data) ks)"
    have n: "n = Suc m" using True Cons.prems(3) fr s2 by (auto simp: m_def voucher_row_ok_def)
    obtain new where new: "vouchers (if m = length ks then cur s' else saved s') = vouchers (cur s2) @ new"
      "list_all2 (from_batch rng now data org uid) (take m ks) new"
      "map vch_hotspot_username new = map (\<lambda>j. Some (username_of ?pfx (?c + 1 + int j))) [0..<m]"
      "m = length ks \<longrightarrow> r2 = Inr (map (\<lambda>w. (vch_code w, the (vch_hotspot_username w), the (vch_hotspot_password w))) new)"
      "m < length ks \<longrightarrow> (\<exists>e. r2 = Inl e) \<and> clean s'"
      using Cons.IH [OF rest s2(3) m_def] s2(2) by auto
    have w: "from_batch rng now data org uid k w" "vch_hotspot_username w = Some (username_of ?pfx ?c)"
      "the (vch_hotspot_username w) = u" "the (vch_hotspot_password w) = p"
      by (auto simp: from_batch_def w_def u_def batch_voucher_def)
    have "[0..<Suc m] = 0 # map Suc [0..<m]" by (simp add: upt_conv_Cons map_Suc_upt del: upt_Suc)
    then have u': "map vch_hotspot_username (w # new) = map (\<lambda>j. Some (username_of ?pfx (?c + int j))) [0..<n]"
      using new(3) w(2) by (simp add: n comp_def add.assoc)
    have v: "vouchers (if n = length (k # ks) then cur s' else saved s') = vouchers (cur s) @ w # new"
      using new(1) by (simp add: n s2(1))
    have l: "list_all2 (from_batch rng now data org uid) (take n (k # ks)) (w # new)"
      using new(2) w(1) by (simp add: n)
    have res: "r = Inr (map (\<lambda>w. (vch_code w, the (vch_hotspot_username w), the (vch_hotspot_password w))) (w # new))"
      if "n = length (k # ks)" using new(4) that by (simp add: r n w(3,4) s2(4))
    have "(\<exists>e. r = Inl e) \<and> clean s'" if "n < length (k # ks)" using new(5) that by (auto simp: r n)
    with v l u' res show ?thesis by blast
  qed
qed auto

text \<open>
   What a batch of vouchers leaves behind. Let n be the number of codes drawn before the first
  one that is in use already or does not fit its column. The batch succeeds exactly when n
  is the size asked for; in any case exactly the first n vouchers are in the committed
  database, each active, unused, of the plan and the tenant and with the next user names of
  the tenant, all different. A batch that fails midway is not undone.
\<close>

theorem voucher_batch_issues_fresh_codes:
  assumes "generate_vouchers rng now data org uid s = (r, s')" "tbl_get plan_id (bq_plan_id data) (plans (cur s)) \<noteq> None"
    "uniq os_organization_id (org_settings (cur s))"
    "n = fresh_codes (map vch_code (vouchers (cur s))) (map (batch_code rng data) [0..<bq_count data])"
  shows "\<exists>new. vouchers (saved s') = vouchers (cur s) @ new
    \<and> list_all2 (from_batch rng now data org uid) [0..<n] new \<and> distinct (map vch_hotspot_username new)
    \<and> (if n = bq_count data
        then r = Inr (map (\<lambda>w. (vch_code w, the (vch_hotspot_username w), the (vch_hotspot_password w))) new)
        else \<exists>e. r = Inl e)"
proof -
  let ?ks = "[0..<bq_count data]"
  obtain r1 s1 where iss: "issue_vouchers rng now data org uid ?ks s = (r1, s1)" by fastforce
  have n: "n \<le> bq_count data" using fresh_codes_le [of _ "map (batch_code rng data) ?ks"] by (simp add: assms(4))
  then have t: "take n ?ks = [0..<n]" by (simp add: take_upt)
  obtain new where new: "vouchers (if n = bq_count data then cur s1 else saved s1) = vouchers (cur s) @ new"
    "list_all2 (from_batch rng now data org uid) [0..<n] new"
    "map vch_hotspot_username new = map (\<lambda>j. Some (username_of (fst (seat org (cur s))) (snd (seat org (cur s)) + int j))) [0..<n]"
    "n = bq_count data \<longrightarrow> r1 = Inr (map (\<lambda>w. (vch_code w, the (vch_hotspot_username w), the (vch_hotspot_password w))) new)"
    "n < bq_count data \<longrightarrow> (\<exists>e. r1 = Inl e) \<and> clean s1"
    using issue_vouchers_batch [OF iss assms(3,4)] unfolding t by auto
  have "distinct (map vch_hotspot_username new)"
    unfolding new(3) by (simp add: distinct_map inj_on_def username_of_inj)
  moreover have "(r, s') = (case r1 of Inl e \<Rightarrow> (Inl e, s1) | Inr l \<Rightarrow> (Inr l, commit s1))"
    using assms(1,2) iss by (auto simp: generate_vouchers_def andthen_def split: sum.splits)
  ultimately show ?thesis
    using new n by (intro exI [of _ new]) (cases "n = bq_count data"; force)
qed

text \<open>No change by an administrator makes a used voucher unused again.\<close>

lemma update_voucher_keeps_used:
  assumes "update_voucher i status expires_at org s = (r, s')"
  shows "map (\<lambda>w. (vch_id w, vch_is_used w)) (vouchers (cur s')) = map (\<lambda>w. (vch_id w, vch_is_used w)) (vouchers (cur s))"
    "voucher_seq (cur s') = voucher_seq (cur s)"
  using assms by (auto simp: update_voucher_def Let_def row_defs table_simps split: sum.splits option.splits if_splits)

section \<open>Concrete runs\<close>

definition shop_db :: db where
  "shop_db = empty_db\<lparr>plans := [plan0], vouchers := [voucher0\<lparr>vch_code := ''0A''\<rparr>], voucher_seq := 2\<rparr>"

definition rng0 :: voucher_rng where
  \<comment> \<open>draws different codes for the first two vouchers\<close>
  "rng0 = \<lparr>rng_choice = (\<lambda>k i alphabet. alphabet ! (k mod 2)), rng_randbelow = (\<lambda>_ _. 7), rng_token = ''t''\<rparr>"

definition batch0 :: batch_request where
  "batch0 = \<lparr>bq_plan_id = 1, bq_count = 3, bq_code_format = ''NN'', bq_expires_in_days = None\<rparr>"

theorem voucher_batch_issues_fresh_codes_witness:
  "\<exists>new. vouchers (saved (snd (generate_vouchers rng0 0 batch0 1 9 (fresh shop_db)))) = vouchers shop_db @ new
     \<and> list_all2 (from_batch rng0 0 batch0 1 9) [0, 1] new"
proof -
  obtain r s' where p: "generate_vouchers rng0 0 batch0 1 9 (fresh shop_db) = (r, s')" by fastforce
  have a: "tbl_get plan_id (bq_plan_id batch0) (plans (cur (fresh shop_db))) \<noteq> None" "uniq os_organization_id (org_settings (cur (fresh shop_db)))"
    by (simp_all add: batch0_def shop_db_def empty_db_def table_simps plan0_def uniq_def)
  have "fresh_codes (map vch_code (vouchers (cur (fresh shop_db)))) (map (batch_code rng0 batch0) [0..<bq_count batch0]) = 2"
    by code_simp
  moreover have "[0..<2] = [0, 1::nat]" by (simp add: upt_rec)
  ultimately show ?thesis using voucher_batch_issues_fresh_codes [OF p a refl] unfolding p by auto
qed

end
