(* ===== verification/Dashboard_Bridge.thy ===== *)
theory Dashboard_Bridge
  imports Credentials
begin

text \<open>
  The bridge from hotspot purchases to the rows of the dashboard
  (\<open>src/app/services/hotspot_dashboard_bridge.py\<close>): a customer account, a hotspot subscription and,
  for a direct purchase, a completed payment. It runs in a session that the caller has
  committed; when it fails it rolls the session back, which expires the objects that the
  caller holds.

  User names and e-mail addresses are unique over all tenants (\<open>src/app/models/user.py\<close>). When the
  insertion of an account fails, the handler rolls back and reads \<open>organization.id\<close> again, which
  is expired by then and cannot be loaded outside of an awaited call, so that it raises.
\<close>

abbreviation MissingGreenlet :: exn where
  "MissingGreenlet \<equiv> Exn ''MissingGreenlet'' ''greenlet_spawn has not been called''"

definition resolve_router_id :: "organization \<Rightarrow> db \<Rightarrow> int option" where
  "resolve_router_id org d =
     map_option rt_id (one_of (filter (\<lambda>r. rt_organization_id r = Some (org_id org) \<and> rt_is_active r) (routers d)))"

definition synthetic_email :: "organization \<Rightarrow> string \<Rightarrow> string" where
  "synthetic_email org username = map lower username @ ''@hotspot.'' @ org_slug org @ ''.local''"

definition customer_of :: "organization \<Rightarrow> string \<Rightarrow> string \<Rightarrow> int \<Rightarrow> user" where
  "customer_of org username password_hash i =
     \<lparr>usr_id = i, usr_organization_id = Some (org_id org), usr_username = username,
      usr_email = synthetic_email org username, usr_phone = None, usr_first_name = ''Hotspot'', usr_last_name = username,
      usr_hashed_password = password_hash, usr_is_verified = True, usr_is_active = True, usr_auth_service_user_id = None,
      usr_auth_synced_at = None, usr_role = Customer, usr_status = UsrActive, usr_role_id = None, usr_last_login = None, usr_bio = None, usr_avatar_url = None\<rparr>"

definition account_row_ok :: "user \<Rightarrow> db \<Rightarrow> bool" where
  "account_row_ok u d \<longleftrightarrow> usr_username u \<notin> usr_username ` set (users d) \<and> usr_email u \<notin> usr_email ` set (users d) \<and>
     length (usr_username u) \<le> 50 \<and> length (usr_email u) \<le> 100"

definition upsert_customer_user :: "organization \<Rightarrow> string \<Rightarrow> string \<Rightarrow> dbs \<Rightarrow> (exn + user) \<times> dbs" where
  "upsert_customer_user org username password_hash s =
     (case scalar_one_or_none (filter (\<lambda>u. usr_organization_id u = Some (org_id org) \<and> usr_username u = username) (users (cur s))) of
        Inl e \<Rightarrow> (Inl e, s)
      | Inr (Some u) \<Rightarrow> (Inr u, s)
      | Inr None \<Rightarrow>
          let u = customer_of org username password_hash (user_seq (cur s))
          in if \<not> account_row_ok u (cur s) then (Inl MissingGreenlet, rollback s)
             else (Inr u, on_db (\<lambda>d. d\<lparr>users := users d @ [u], user_seq := user_seq d + 1\<rparr>) s))"

definition hotspot_subscription :: "int \<Rightarrow> int \<Rightarrow> subscription \<Rightarrow> bool" where
  "hotspot_subscription uid rid q \<longleftrightarrow> sub_user_id q = uid \<and> sub_router_id q = rid \<and> sub_type q = HOTSPOT"

definition renewed :: "datetime \<Rightarrow> organization \<Rightarrow> int \<Rightarrow> string \<Rightarrow> string \<Rightarrow> datetime \<Rightarrow> subscription \<Rightarrow> subscription" where
  "renewed now org pid username password_hash expires_at q =
     q\<lparr>sub_plan_id := pid, sub_organization_id := Some (org_id org), sub_status := SubActive, sub_start_date := now,
       sub_end_date := Some expires_at, sub_username := username, sub_password := password_hash,
       sub_last_activity := Some now\<rparr>"

definition upsert_subscription ::
    "datetime \<Rightarrow> organization \<Rightarrow> user \<Rightarrow> service_plan \<Rightarrow> int \<Rightarrow> string \<Rightarrow> string \<Rightarrow> datetime \<Rightarrow> dbs \<Rightarrow> dbs" where
  "upsert_subscription now org usr pln rid username password_hash expires_at s =
     (case one_of (filter (hotspot_subscription (usr_id usr) rid) (subscriptions (cur s))) of
        Some q \<Rightarrow> on_db (upd_subscription (sub_id q) (renewed now org (plan_id pln) username password_hash expires_at)) s
      | None \<Rightarrow>
          on_db (\<lambda>d. (add_subscription
              ((new_subscription now (subscription_seq d) (usr_id usr) (plan_id pln) rid HOTSPOT username password_hash
                  now expires_at False None None)\<lparr>sub_organization_id := Some (org_id org), sub_status := SubActive\<rparr>) d)
            \<lparr>subscription_seq := subscription_seq d + 1\<rparr>) s)"

definition maybe_create_payment ::
    "datetime \<Rightarrow> organization \<Rightarrow> user \<Rightarrow> rat \<Rightarrow> string \<Rightarrow> string option \<Rightarrow> string \<Rightarrow> dbs \<Rightarrow> (exn + payment option) \<times> dbs" where
  \<comment> \<open>the host runs on UTC, so that the time stamp of \<open>utcnow()\<close> counts from the epoch\<close>
  "maybe_create_payment now org usr amount currency reference method s =
     (if truthy reference \<and> (\<exists>p \<in> set (payments (cur s)). pay_reference_number p = reference \<and>
           pay_organization_id p = Some (org_id org))
      then (Inr None, s)
      else
        let number = or_str reference (''HSP-'' @ str_int (org_id org) @ ''-'' @ str_int (now div 1000000));
            p = (new_payment now (payment_seq (cur s)) number (usr_id usr) amount
                   (if map lower method = ''mpesa'' then Mpesa else OtherMethod) None PayCompleted)
                \<lparr>pay_organization_id := Some (org_id org), pay_currency := or_str (Some currency) ''KES'',
                 pay_reference_number := reference, pay_payment_date := Some now,
                 pay_notes := Some ''Hotspot package purchase''\<rparr>
        in if \<not> payment_row_ok p (cur s)
           then (Inl (IntegrityError ''duplicate key value violates unique constraint''), s)
           else (Inr (Some p), on_db (insert_payment p) s))"

record bridge_call =
  br_username :: string
  br_password_hash :: string
  br_expires_at :: datetime
  br_amount :: "rat option"
  br_currency :: string
  br_reference :: "string option"
  br_method :: string
  br_is_voucher_redeem :: bool

text \<open>The flag says whether the session was rolled back.\<close>

definition bridge_hotspot_purchase_to_dashboard ::
    "datetime \<Rightarrow> organization \<Rightarrow> service_plan \<Rightarrow> bridge_call \<Rightarrow> dbs \<Rightarrow> bool \<times> dbs" where
  "bridge_hotspot_purchase_to_dashboard now org pln b s =
     (case resolve_router_id org (cur s) of
        None \<Rightarrow> (False, s)
      | Some rid \<Rightarrow>
          let (r, s') =
            andthen (upsert_customer_user org (br_username b) (br_password_hash b) s) (\<lambda>usr s1.
              let s2 = upsert_subscription now org usr pln rid (br_username b) (br_password_hash b) (br_expires_at b) s1
              in if \<not> br_is_voucher_redeem b \<and> br_amount b \<noteq> None
                 then andthen (maybe_create_payment now org usr (the (br_amount b)) (br_currency b) (br_reference b) (br_method b) s2)
                        (\<lambda>_ s3. (Inr (), s3))
                 else (Inr (), s2))
          in case r of Inl e \<Rightarrow> (True, rollback s') | Inr _ \<Rightarrow> (False, commit s'))"

section \<open>What is mirrored\<close>

definition customer_rows :: "organization \<Rightarrow> string \<Rightarrow> db \<Rightarrow> user list" where
  "customer_rows org username d = filter (\<lambda>u. usr_organization_id u = Some (org_id org) \<and> usr_username u = username) (users d)"

lemma upsert_customer_user_Inr:
  assumes "upsert_customer_user org n h s = (Inr u, s1)"
  shows "customer_rows org n (cur s1) = [u]" "subscriptions (cur s1) = subscriptions (cur s)"
    "payments (cur s1) = payments (cur s)" "routers (cur s1) = routers (cur s)"
    "usr_id u \<in> usr_id ` set (users (cur s1))"
proof -
  show c: "customer_rows org n (cur s1) = [u]"
    using assms by (auto simp: upsert_customer_user_def customer_rows_def customer_of_def scalar_one_or_none_Some
        scalar_one_or_none_None Let_def split: sum.splits option.splits if_splits)
  show "subscriptions (cur s1) = subscriptions (cur s)" "payments (cur s1) = payments (cur s)" "routers (cur s1) = routers (cur s)"
    using assms by (auto simp: upsert_customer_user_def Let_def split: sum.splits option.splits if_splits)
  have "u \<in> set (customer_rows org n (cur s1))" by (simp add: c)
  then show "usr_id u \<in> usr_id ` set (users (cur s1))" by (auto simp: customer_rows_def)
qed

lemma upsert_customer_user_again:
  "customer_rows org n (cur s) = [u] \<Longrightarrow> upsert_customer_user org n h s = (Inr u, s)"
  by (simp add: upsert_customer_user_def customer_rows_def)

lemma renewed_keeps [simp]:
  "sub_id (renewed now org pid un h e q) = sub_id q"
  "hotspot_subscription i r (renewed now org pid un h e q) = hotspot_subscription i r q"
  by (simp_all add: renewed_def hotspot_subscription_def)

lemma one_of_Some: "one_of rs = Some r \<Longrightarrow> r \<in> set rs"
  by (cases rs) (simp_all add: one_of_def)

lemma one_of_None: "one_of rs = None \<longleftrightarrow> rs = []"
  by (cases rs) (simp_all add: one_of_def)

definition mirrored :: "datetime \<Rightarrow> organization \<Rightarrow> int \<Rightarrow> int \<Rightarrow> int \<Rightarrow> bridge_call \<Rightarrow> subscription \<Rightarrow> bool" where
  "mirrored now org uid rid pid b q \<longleftrightarrow>
     hotspot_subscription uid rid q \<and> sub_organization_id q = Some (org_id org) \<and> sub_plan_id q = pid \<and> sub_status q = SubActive \<and>
     sub_start_date q = now \<and> sub_end_date q = Some (br_expires_at b) \<and> sub_username q = br_username b"

lemma upsert_subscription_effects:
  assumes "upsert_subscription now org usr pln rid (br_username b) (br_password_hash b) (br_expires_at b) s = s1"
  shows "\<exists>q \<in> set (subscriptions (cur s1)). mirrored now org (usr_id usr) rid (plan_id pln) b q"
    "(\<exists>q \<in> set (subscriptions (cur s)). hotspot_subscription (usr_id usr) rid q) \<Longrightarrow>
       map sub_id (subscriptions (cur s1)) = map sub_id (subscriptions (cur s))"
    "users (cur s1) = users (cur s)" "payments (cur s1) = payments (cur s)" "routers (cur s1) = routers (cur s)"
    "saved s1 = saved s"
proof -
  let ?one = "one_of (filter (hotspot_subscription (usr_id usr) rid) (subscriptions (cur s)))"
  show "\<exists>q \<in> set (subscriptions (cur s1)). mirrored now org (usr_id usr) rid (plan_id pln) b q"
  proof (cases ?one)
    case None
    then show ?thesis using assms
      by (auto simp: upsert_subscription_def mirrored_def hotspot_subscription_def new_subscription_def row_defs)
  next
    case (Some q)
    let ?q = "renewed now org (plan_id pln) (br_username b) (br_password_hash b) (br_expires_at b) q"
    have q: "q \<in> set (subscriptions (cur s))" "hotspot_subscription (usr_id usr) rid q" using Some by (auto dest: one_of_Some)
    then have "?q \<in> set (subscriptions (cur s1))" using assms Some by (auto simp: upsert_subscription_def row_defs in_tbl_upd)
    moreover have "mirrored now org (usr_id usr) rid (plan_id pln) b ?q"
      using q(2) by (simp add: mirrored_def) (simp add: renewed_def)
    ultimately show ?thesis by blast
  qed
  show "users (cur s1) = users (cur s)" "payments (cur s1) = payments (cur s)" "routers (cur s1) = routers (cur s)" "saved s1 = saved s"
    using assms by (auto simp: upsert_subscription_def row_defs split: option.splits)
  show "map sub_id (subscriptions (cur s1)) = map sub_id (subscriptions (cur s))"
    if "\<exists>q \<in> set (subscriptions (cur s)). hotspot_subscription (usr_id usr) rid q"
  proof -
    have "?one \<noteq> None" using that by (auto simp: one_of_None filter_empty_conv)
    then show ?thesis using assms by (auto simp: upsert_subscription_def row_defs map_key_tbl_upd)
  qed
qed

definition paid_by :: "organization \<Rightarrow> string option \<Rightarrow> payment \<Rightarrow> bool" where
  "paid_by org reference p \<longleftrightarrow> pay_reference_number p = reference \<and> pay_organization_id p = Some (org_id org)"

lemma maybe_create_payment_effects:
  assumes "maybe_create_payment now org usr amount currency reference method s = (Inr x, s1)"
  shows "truthy reference \<Longrightarrow> \<exists>p \<in> set (payments (cur s1)). paid_by org reference p"
    "truthy reference \<Longrightarrow> \<exists>p \<in> set (payments (cur s)). paid_by org reference p \<Longrightarrow> s1 = s"
    "\<exists>ps. payments (cur s1) = payments (cur s) @ ps \<and> length ps \<le> 1 \<and> (\<forall>p \<in> set ps. pay_amount p = amount \<and> pay_status p = PayCompleted)"
    "users (cur s1) = users (cur s)" "subscriptions (cur s1) = subscriptions (cur s)" "routers (cur s1) = routers (cur s)"
  using assms
  by (auto simp: maybe_create_payment_def paid_by_def insert_payment_def row_defs new_payment_def Let_def split: if_splits)

text \<open>The body of the bridge once the router is known.\<close>

definition mirror :: "datetime \<Rightarrow> organization \<Rightarrow> service_plan \<Rightarrow> bridge_call \<Rightarrow> int \<Rightarrow> dbs \<Rightarrow> (exn + unit) \<times> dbs" where
  "mirror now org pln b rid s =
     andthen (upsert_customer_user org (br_username b) (br_password_hash b) s) (\<lambda>usr s1.
       let s2 = upsert_subscription now org usr pln rid (br_username b) (br_password_hash b) (br_expires_at b) s1
       in if \<not> br_is_voucher_redeem b \<and> br_amount b \<noteq> None
          then andthen (maybe_create_payment now org usr (the (br_amount b)) (br_currency b) (br_reference b) (br_method b) s2)
                 (\<lambda>_ s3. (Inr (), s3))
          else (Inr (), s2))"

lemma bridge_mirror:
  "resolve_router_id org (cur s) = Some rid \<Longrightarrow> bridge_hotspot_purchase_to_dashboard now org pln b s =
     (case mirror now org pln b rid s of (Inl e, s') \<Rightarrow> (True, rollback s') | (Inr _, s') \<Rightarrow> (False, commit s'))"
  by (simp add: bridge_hotspot_purchase_to_dashboard_def mirror_def split: prod.splits sum.splits)

definition direct :: "bridge_call \<Rightarrow> bool" where
  "direct b \<longleftrightarrow> \<not> br_is_voucher_redeem b \<and> br_amount b \<noteq> None"

lemma mirror_Inr:
  assumes "mirror now org pln b rid s = (Inr x, s')"
  obtains u s1 where "upsert_customer_user org (br_username b) (br_password_hash b) s = (Inr u, s1)"
    "customer_rows org (br_username b) (cur s') = [u]" "usr_id u \<in> usr_id ` set (users (cur s'))"
    "\<exists>q \<in> set (subscriptions (cur s')). mirrored now org (usr_id u) rid (plan_id pln) b q"
    "direct b \<and> truthy (br_reference b) \<Longrightarrow> \<exists>p \<in> set (payments (cur s')). paid_by org (br_reference b) p"
    "\<not> direct b \<Longrightarrow> payments (cur s') = payments (cur s)" "routers (cur s') = routers (cur s)"
proof -
  obtain u s1 where u: "upsert_customer_user org (br_username b) (br_password_hash b) s = (Inr u, s1)"
    using assms by (auto simp: mirror_def andthen_def split: prod.splits sum.splits)
  define s2 where "s2 = upsert_subscription now org u pln rid (br_username b) (br_password_hash b) (br_expires_at b) s1"
  note e1 = upsert_customer_user_Inr [OF u] and e2 = upsert_subscription_effects [OF s2_def [symmetric]]
  show ?thesis
  proof (cases "direct b")
    case True
    then obtain y where p: "maybe_create_payment now org u (the (br_amount b)) (br_currency b) (br_reference b) (br_method b) s2 = (Inr y, s')"
      using assms u by (auto simp: mirror_def s2_def direct_def Let_def andthen_def split: prod.splits sum.splits)
    note e3 = maybe_create_payment_effects [OF p]
    show ?thesis using that [OF u] e1 e2 e3 True by (simp add: customer_rows_def)
  next
    case False
    then have "s' = s2" using assms u by (auto simp: mirror_def s2_def direct_def Let_def)
    with that [OF u] e1 e2 False show ?thesis by (simp add: customer_rows_def)
  qed
qed

lemma mirror_again:
  assumes "customer_rows org (br_username b) (cur s) = [u]" "\<exists>q \<in> set (subscriptions (cur s)). hotspot_subscription (usr_id u) rid q"
    "direct b \<Longrightarrow> truthy (br_reference b) \<and> (\<exists>p \<in> set (payments (cur s)). paid_by org (br_reference b) p)"
  shows "\<exists>s'. mirror now org pln b rid s = (Inr (), s') \<and> users (cur s') = users (cur s) \<and> payments (cur s') = payments (cur s)
    \<and> map sub_id (subscriptions (cur s')) = map sub_id (subscriptions (cur s))
    \<and> (\<exists>q \<in> set (subscriptions (cur s')). mirrored now org (usr_id u) rid (plan_id pln) b q)"
proof -
  define s2 where "s2 = upsert_subscription now org u pln rid (br_username b) (br_password_hash b) (br_expires_at b) s"
  note e = upsert_subscription_effects [OF s2_def [symmetric]]
  have "maybe_create_payment now org u (the (br_amount b)) (br_currency b) (br_reference b) (br_method b) s2 = (Inr None, s2)" if "direct b"
    using assms(3) [OF that] e(4) by (auto simp: maybe_create_payment_def paid_by_def)
  then have "mirror now org pln b rid s = (Inr (), s2)"
    by (auto simp: mirror_def upsert_customer_user_again [OF assms(1)] direct_def simp flip: s2_def)
  with e assms(2) show ?thesis by blast
qed

lemma bridge_mirrored:
  assumes "bridge_hotspot_purchase_to_dashboard now org pln b s = (False, s')" "resolve_router_id org (cur s) = Some rid"
  shows "\<exists>u \<in> set (users (saved s')). \<exists>q \<in> set (subscriptions (saved s')). mirrored now org (usr_id u) rid (plan_id pln) b q"
proof -
  obtain x s1 where m: "mirror now org pln b rid s = (Inr x, s1)" and s': "s' = commit s1"
    using assms(1) bridge_mirror [OF assms(2)] by (auto split: prod.splits sum.splits)
  obtain u where u: "customer_rows org (br_username b) (cur s1) = [u]" "\<exists>q \<in> set (subscriptions (cur s1)). mirrored now org (usr_id u) rid (plan_id pln) b q"
    using mirror_Inr [OF m] by metis
  have "u \<in> set (customer_rows org (br_username b) (cur s1))" using u(1) by simp
  then have "u \<in> set (users (cur s1))" by (simp add: customer_rows_def)
  with u(2) show ?thesis by (auto simp: s')
qed

text \<open>
   The bridge mirrors a purchase, and repeating it duplicates nothing. When it succeeds, the
  tenant has one customer account of that name with an active hotspot subscription for the
  plan until the end of the window, committed; a direct purchase with a reference has a
  payment with that reference, and the redemption of a voucher has none. Any further call for
  the same customer, with any other time, plan or window and, for a direct purchase, the
  same reference, succeeds too: it adds no account, no subscription and no payment, but
  renews the subscription.
\<close>

theorem bridge_mirrors_without_duplicates:
  assumes "bridge_hotspot_purchase_to_dashboard now org pln b s = (False, s')" "resolve_router_id org (cur s) = Some rid"
    "br_username b2 = br_username b" "direct b2 \<longrightarrow> direct b \<and> truthy (br_reference b) \<and> br_reference b2 = br_reference b"
    "bridge_hotspot_purchase_to_dashboard now2 org pln2 b2 s' = (failed, s2)"
  shows "\<exists>u. customer_rows org (br_username b) (saved s') = [u]
    \<and> (\<exists>q \<in> set (subscriptions (saved s')). mirrored now org (usr_id u) rid (plan_id pln) b q)
    \<and> (direct b \<and> truthy (br_reference b) \<longrightarrow> (\<exists>p \<in> set (payments (saved s')). paid_by org (br_reference b) p))
    \<and> (\<not> direct b \<longrightarrow> payments (saved s') = payments (cur s))
    \<and> \<not> failed \<and> users (saved s2) = users (saved s') \<and> payments (saved s2) = payments (saved s')
    \<and> map sub_id (subscriptions (saved s2)) = map sub_id (subscriptions (saved s'))
    \<and> (\<exists>q \<in> set (subscriptions (saved s2)). mirrored now2 org (usr_id u) rid (plan_id pln2) b2 q)"
proof -
  obtain x s1 where m: "mirror now org pln b rid s = (Inr x, s1)" and s': "s' = commit s1"
    using assms(1) bridge_mirror [OF assms(2)] by (auto split: prod.splits sum.splits)
  obtain u where u: "customer_rows org (br_username b) (cur s1) = [u]"
    "\<exists>q \<in> set (subscriptions (cur s1)). mirrored now org (usr_id u) rid (plan_id pln) b q"
    "direct b \<and> truthy (br_reference b) \<Longrightarrow> \<exists>p \<in> set (payments (cur s1)). paid_by org (br_reference b) p"
    "\<not> direct b \<Longrightarrow> payments (cur s1) = payments (cur s)" "routers (cur s1) = routers (cur s)"
    using mirror_Inr [OF m] by metis
  have rid: "resolve_router_id org (cur s') = Some rid" using assms(2) u(5) by (simp add: resolve_router_id_def s')
  have "\<exists>q \<in> set (subscriptions (cur s')). hotspot_subscription (usr_id u) rid q" using u(2) by (auto simp: s' mirrored_def)
  moreover have "customer_rows org (br_username b2) (cur s') = [u]" using u(1) by (simp add: s' assms(3))
  moreover have "direct b2 \<Longrightarrow> truthy (br_reference b2) \<and> (\<exists>p \<in> set (payments (cur s')). paid_by org (br_reference b2) p)"
    using assms(4) u(3) by (simp add: s')
  ultimately obtain s3 where "mirror now2 org pln2 b2 rid s' = (Inr (), s3)" "users (cur s3) = users (cur s')"
    "payments (cur s3) = payments (cur s')" "map sub_id (subscriptions (cur s3)) = map sub_id (subscriptions (cur s'))"
    "\<exists>q \<in> set (subscriptions (cur s3)). mirrored now2 org (usr_id u) rid (plan_id pln2) b2 q"
    using mirror_again [of org b2 s' u rid now2 pln2] by blast
  moreover from this(1) have "\<not> failed" "s2 = commit s3" using assms(5) bridge_mirror [OF rid, of now2 pln2 b2] by auto
  ultimately show ?thesis using u by (intro exI [of _ u]) (auto simp: s')
qed

text \<open>Whatever happens, the bridge leaves the rows of the portal and the queue alone.\<close>

definition portal_rows ::
    "db \<Rightarrow> voucher_code list \<times> customer_session list \<times> customer_purchase list \<times> router_command list \<times> service_plan list
      \<times> router list \<times> organization_settings list \<times> int \<times> int \<times> outbox_event list" where
  "portal_rows d = (vouchers d, sessions d, purchases d, commands d, plans d, routers d, org_settings d, voucher_seq d,
     session_seq d, outbox d)"

lemma portal_rows_eq:
  "portal_rows d = portal_rows d' \<Longrightarrow> vouchers d = vouchers d' \<and> sessions d = sessions d' \<and> purchases d = purchases d'
     \<and> commands d = commands d' \<and> plans d = plans d' \<and> routers d = routers d' \<and> org_settings d = org_settings d'
     \<and> voucher_seq d = voucher_seq d' \<and> session_seq d = session_seq d' \<and> outbox d = outbox d'"
  by (simp add: portal_rows_def)

lemma mirror_frame:
  assumes "mirror now org pln b rid s = (r, s')" "clean s"
  shows "portal_rows (cur s') = portal_rows (cur s) \<and> saved s' = saved s"
proof -
  have u: "portal_rows (cur s1) = portal_rows (cur s) \<and> saved s1 = saved s" if "upsert_customer_user org un h s = (x, s1)" for un h x s1
    using that assms(2)
    by (auto simp: upsert_customer_user_def portal_rows_def clean_def Let_def split: sum.splits option.splits if_splits)
  have q: "portal_rows (cur (upsert_subscription now org usr pln rid un h e s1)) = portal_rows (cur s1)
    \<and> saved (upsert_subscription now org usr pln rid un h e s1) = saved s1" for usr un h e s1
    by (auto simp: upsert_subscription_def portal_rows_def row_defs split: option.splits)
  have m: "portal_rows (cur s2) = portal_rows (cur s1) \<and> saved s2 = saved s1"
    if "maybe_create_payment now org usr a c rf me s1 = (x, s2)" for usr a c rf me s1 x s2
    using that by (auto simp: maybe_create_payment_def insert_payment_def portal_rows_def row_defs Let_def split: if_splits)
  obtain x s1 where us: "upsert_customer_user org (br_username b) (br_password_hash b) s = (x, s1)" by fastforce
  note u1 = u [OF us]
  show ?thesis
  proof (cases x)
    case (Inl e)
    then show ?thesis using assms(1) us u1 by (auto simp: mirror_def andthen_def)
  next
    case (Inr usr)
    let ?s2 = "upsert_subscription now org usr pln rid (br_username b) (br_password_hash b) (br_expires_at b) s1"
    obtain y s3 where pay: "maybe_create_payment now org usr (the (br_amount b)) (br_currency b) (br_reference b) (br_method b) ?s2 = (y, s3)"
      by fastforce
    have "s' = ?s2 \<or> s' = s3"
      using assms(1) us pay Inr by (auto simp: mirror_def andthen_def Let_def split: if_splits sum.splits)
    then show ?thesis using q [of usr] m [OF pay] u1 by auto
  qed
qed

lemma bridge_frame:
  assumes "bridge_hotspot_purchase_to_dashboard now org pln b s = (failed, s')" "clean s"
  shows "clean s'" "portal_rows (cur s') = portal_rows (cur s)"
proof -
  have "clean s' \<and> portal_rows (cur s') = portal_rows (cur s)"
  proof (cases "resolve_router_id org (cur s)")
    case None
    then show ?thesis using assms by (simp add: bridge_hotspot_purchase_to_dashboard_def)
  next
    case (Some rid)
    obtain r s1 where m: "mirror now org pln b rid s = (r, s1)" by fastforce
    show ?thesis
      using assms mirror_frame [OF m assms(2)] bridge_mirror [OF Some, of now pln b]
      by (cases r) (auto simp: m clean_def)
  qed
  then show "clean s'" "portal_rows (cur s') = portal_rows (cur s)" by simp_all
qed

text \<open>A name that another tenant's customer has, or a member of staff, cannot be mirrored.\<close>

lemma bridge_fails_for_taken_name:
  assumes "resolve_router_id org (cur s) = Some rid" "customer_rows org (br_username b) (cur s) = []"
    "br_username b \<in> usr_username ` set (users (cur s))"
  shows "bridge_hotspot_purchase_to_dashboard now org pln b s = (True, rollback s)"
proof -
  have "upsert_customer_user org (br_username b) (br_password_hash b) s = (Inl MissingGreenlet, rollback s)"
    using assms(2,3) by (auto simp: upsert_customer_user_def customer_rows_def account_row_ok_def customer_of_def)
  then show ?thesis by (simp add: bridge_mirror [OF assms(1)] mirror_def session_eqI)
qed

section \<open>A concrete run\<close>

definition bridge0 :: bridge_call where
  "bridge0 = \<lparr>br_username = ''C001'', br_password_hash = ''777'', br_expires_at = 60, br_amount = Some 50, br_currency = ''KES'',
     br_reference = Some ''HS-NET-1'', br_method = ''treasury'', br_is_voucher_redeem = False\<rparr>"

theorem bridge_mirrors_without_duplicates_witness:
  "map usr_username (users (saved (snd (bridge_hotspot_purchase_to_dashboard 9 org0 plan0 bridge0
     (snd (bridge_hotspot_purchase_to_dashboard 5 org0 plan0 bridge0 (fresh accounts_db))))))) = [''joe'', ''C001'']"
proof -
  obtain f s' where p: "bridge_hotspot_purchase_to_dashboard 5 org0 plan0 bridge0 (fresh accounts_db) = (f, s')" by fastforce
  obtain g s2 where p2: "bridge_hotspot_purchase_to_dashboard 9 org0 plan0 bridge0 s' = (g, s2)" by fastforce
  have r: "fst (bridge_hotspot_purchase_to_dashboard 5 org0 plan0 bridge0 (fresh accounts_db)) = False"
    "map usr_username (users (saved (snd (bridge_hotspot_purchase_to_dashboard 5 org0 plan0 bridge0 (fresh accounts_db))))) = [''joe'', ''C001'']"
    "resolve_router_id org0 (cur (fresh accounts_db)) = Some 1" "truthy (br_reference bridge0)"
    by (code_simp, code_simp, code_simp, code_simp)
  have f: "f = False" using r(1) by (simp add: p)
  have "users (saved s2) = users (saved s')"
    using bridge_mirrors_without_duplicates [OF p [unfolded f] r(3) refl _ p2] r(4) by auto
  then show ?thesis using r(2) unfolding p snd_conv p2 by simp
qed

end
