(* ===== verification/Portal_Access.thy ===== *)
theory Portal_Access
  imports Network_Config Vouchers Dashboard_Bridge Expiry
begin

text \<open>
  The captive portal (\<open>src/app/api/v1/portal/hotspot.py\<close>): packages, login, redemption of vouchers,
  provisioning of the hotspot user on the router, and the status queries of the captive page.

  The environment \<open>'dev portal_env\<close> holds what a request takes from outside: the device and the
  UUIDs of \<open>Router_Sync\<close>, the JSON decoder on the configuration of a router, the access token
  put into an action URL, the random draws, and the renderings of dates and amounts. A call of the device client with its retries
  is one execution. Whether the rate limit lets a request through is the argument \<open>limited\<close>
  (see \<open>Rate_Limit\<close>).

  A request that raises leaves its open transaction behind, which is rolled back when the session
  closes.
\<close>

section \<open>The environment\<close>

datatype json_scalar = JNum int | JStr string

record hotspot_config =
  hc_gateway :: "string option"
  hc_subnet_address :: "string option"
  hc_cidr :: "json_scalar option"

record 'dev portal_env =
  pe_sub :: "'dev sub_env"
  pe_loads :: "string \<Rightarrow> hotspot_config option"
  pe_backend_url :: "string option"
  pe_access_token :: string
  pe_choice :: "nat \<Rightarrow> string \<Rightarrow> char"
  pe_randbelow :: "nat \<Rightarrow> nat"
  pe_token_urlsafe :: string
  pe_uuid_hex :: string
  pe_isoformat :: "datetime \<Rightarrow> string"
  pe_str_decimal :: "rat \<Rightarrow> string"

section \<open>The hotspot gateway\<close>

definition no_config :: hotspot_config where
  "no_config = \<lparr>hc_gateway = None, hc_subnet_address = None, hc_cidr = None\<rparr>"

definition cidr_value :: "json_scalar option \<Rightarrow> exn + int" where
  \<comment> \<open>\<open>int(cfg.get("cidr", 16) or 16)\<close>\<close>
  "cidr_value c =
     (case c of
        None \<Rightarrow> Inr 16
      | Some (JNum n) \<Rightarrow> Inr (if n = 0 then 16 else n)
      | Some (JStr t) \<Rightarrow> if t = [] then Inr 16 else int_of t)"

definition resolve_hotspot_gateway :: "(string \<Rightarrow> hotspot_config option) \<Rightarrow> router \<Rightarrow> string" where
  "resolve_hotspot_gateway loads r =
     (let cfg = (if truthy (rt_config r) then (case loads (the (rt_config r)) of None \<Rightarrow> no_config | Some c \<Rightarrow> c) else no_config)
      in if truthy (hc_gateway cfg) then the (hc_gateway cfg)
         else
           let subnet = (case hc_subnet_address cfg of None \<Rightarrow> ''172.31.0.0'' | Some t \<Rightarrow> t)
           in case bind_exn (cidr_value (hc_cidr cfg)) (calculate_network_config subnet) of
                Inl _ \<Rightarrow> ''172.31.0.1''
              | Inr nc \<Rightarrow> nc_gateway nc)"

section \<open>Actions of the agent\<close>

text \<open>\<open>urllib.parse.urlencode\<close>: letters, digits and \<open>_.-~\<close> stay, a blank becomes a plus sign.\<close>

definition hex_digit :: "nat \<Rightarrow> char" where
  "hex_digit n = (if n < 10 then digit n else char_of (55 + n))"

definition quote_char :: "char \<Rightarrow> string" where
  "quote_char c =
     (let n = of_char c :: nat
      in if isdigit c \<or> 65 \<le> n \<and> n \<le> 90 \<or> 97 \<le> n \<and> n \<le> 122 \<or> c \<in> set ''_.-~'' then [c]
         else if c = CHR '' '' then ''+''
         else [CHR ''%'', hex_digit (n div 16), hex_digit (n mod 16)])"

definition quote_plus :: "string \<Rightarrow> string" where
  "quote_plus t = concat (map quote_char t)"

definition urlencode :: "(string \<times> string) list \<Rightarrow> string" where
  "urlencode kvs = join ''&'' (map (\<lambda>(k, v). quote_plus k @ ''='' @ quote_plus v) kvs)"

definition rstrip_slash :: "string \<Rightarrow> string" where
  "rstrip_slash t = rev (dropWhile (\<lambda>c. c = CHR ''/'') (rev t))"

definition action_url :: "'dev portal_env \<Rightarrow> int \<Rightarrow> string \<Rightarrow> (string \<times> string) list \<Rightarrow> string" where
  "action_url env rid action extra_query =
     rstrip_slash (or_str (pe_backend_url env) []) @ ''/api/v1/routers/'' @ str_int rid @ ''/action-script/'' @ action @
     ''?token='' @ pe_access_token env @
     (if extra_query \<noteq> [] then ''&'' @ urlencode (filter (\<lambda>(k, v). v \<noteq> []) extra_query) else [])"

definition queue_agent_action ::
    "'dev portal_env \<Rightarrow> datetime \<Rightarrow> router \<Rightarrow> string \<Rightarrow> (string \<times> string) list \<Rightarrow> dbs \<Rightarrow> string \<times> dbs" where
  "queue_agent_action env now r action extra_query s =
     (let (cmd, s1) = queue_command (env_uuid (pe_sub env)) now (rt_id r) ''fetch_import''
            [(''url'', action_url env (rt_id r) action extra_query)] 2 (Some ''router_action'') (Some action) None s
      in (cmd_id cmd, commit s1))"

section \<open>Provisioning the hotspot user\<close>

definition limit_bytes :: "service_plan \<Rightarrow> string" where
  "limit_bytes p = (if plan_data_limit p > 0 \<and> \<not> is_unlimited_data p then str_int (plan_data_limit p * 1024 * 1024 * 1024) else [])"

definition login_url :: "string \<Rightarrow> string \<Rightarrow> string \<Rightarrow> string option \<Rightarrow> string" where
  "login_url gateway username password mac =
     ''http://'' @ gateway @ ''/login?username='' @ username @ ''&password='' @ password @
     (if truthy mac then ''&mac='' @ the mac else [])"

definition create_user_params :: "string \<Rightarrow> string \<Rightarrow> service_plan \<Rightarrow> params" where
  "create_user_params username password p =
     [(''username'', username), (''password'', password), (''type'', ''hotspot''),
      (''profile'', ''plan_'' @ str_int (plan_id p)), (''rate_limit'', build_rate_limit p)]"

definition active_router :: "organization \<Rightarrow> db \<Rightarrow> router option" where
  "active_router org d = one_of (filter (\<lambda>r. rt_organization_id r = Some (org_id org) \<and> rt_is_active r) (routers d))"

definition has_agent :: "router \<Rightarrow> bool" where
  "has_agent r \<longleftrightarrow> rt_agent_installed r \<and> truthy (rt_agent_token r)"

definition sync_hotspot_user_to_router ::
    "'dev portal_env \<Rightarrow> datetime \<Rightarrow> organization \<Rightarrow> string \<Rightarrow> string \<Rightarrow> service_plan \<Rightarrow> string option \<Rightarrow> string option
     \<Rightarrow> string \<Rightarrow> string option \<Rightarrow> 'dev \<times> dbs \<Rightarrow> string option \<times> 'dev \<times> dbs" where
  "sync_hotspot_user_to_router env now org username password p mac comment source source_id vs =
     (let (v, s) = vs
      in case active_router org (cur s) of
           None \<Rightarrow> (None, v, s)
         | Some r \<Rightarrow>
             if has_agent r then
               let (_, s1) = queue_command (env_uuid (pe_sub env)) now (rt_id r) ''create_user''
                     (create_user_params username password p) 2 (Some source) source_id None s;
                   s2 = (if limit_uptime_str p \<noteq> [] \<or> limit_bytes p \<noteq> []
                         then snd (queue_agent_action env now r ''set_limits''
                                [(''u'', username), (''lu'', limit_uptime_str p), (''lb'', limit_bytes p)] s1)
                         else s1)
               in (Some (login_url (resolve_hotspot_gateway (pe_loads env) r) username password mac), v, s2)
             else
               case env_connect (pe_sub env) r v of
                 Some e \<Rightarrow> (None, v, s)
               | None \<Rightarrow>
                   let kwargs = filter (\<lambda>(k, x). x \<noteq> None)
                         [(''limit-uptime'', if limit_uptime_str p = [] then None else Some (limit_uptime_str p)),
                          (''limit-bytes-total'', if limit_bytes p = [] then None else Some (limit_bytes p)),
                          (''comment'', comment)];
                       (res, v1) = env_exec (pe_sub env) ''/ip/hotspot/user'' ''add''
                         ([(''name'', Some username), (''password'', Some password), (''profile'', Some ''default'')] @ kwargs) v
                   in case res of
                        Inl _ \<Rightarrow> (None, v1, s)
                      | Inr _ \<Rightarrow> (Some (login_url (resolve_hotspot_gateway (pe_loads env) r) username password mac), v1, s))"

section \<open>Sessions\<close>

definition new_session ::
    "datetime \<Rightarrow> int \<Rightarrow> organization \<Rightarrow> string \<Rightarrow> string option \<Rightarrow> string option \<Rightarrow> datetime \<Rightarrow> service_plan \<Rightarrow> customer_session" where
  "new_session now i org token mac ip expires_at p =
     \<lparr>ses_id = i, ses_organization_id = org_id org, ses_session_token = token, ses_user_id = None, ses_subscription_id = None,
      ses_mac_address = or_str mac ''00:00:00:00:00:00'', ses_ip_address = ip, ses_nas_ip_address = None, ses_nas_port = None,
      ses_user_agent = None, ses_device_type = None, ses_status = SesActive, ses_started_at = now, ses_expires_at = expires_at,
      ses_ended_at = None, ses_last_activity_at = now, ses_bytes_in = 0, ses_bytes_out = 0, ses_packets_in = 0,
      ses_packets_out = 0, ses_session_time = 0, ses_plan_name = Some (plan_name p),
      ses_speed_limit_up = Some (plan_upload_speed p * 1000), ses_speed_limit_down = Some (plan_download_speed p * 1000),
      ses_data_limit = (if plan_data_limit p > 0 then Some (plan_data_limit p * 1024 * 1024 * 1024) else None),
      ses_terminate_cause = None, ses_created_at = now\<rparr>"

definition session_row_ok :: "customer_session \<Rightarrow> db \<Rightarrow> bool" where
  \<comment> \<open>the limits are 32-bit columns, the token is unique\<close>
  "session_row_ok x d \<longleftrightarrow>
     (case ses_data_limit x of None \<Rightarrow> True | Some n \<Rightarrow> int4 n) \<and>
     (case ses_speed_limit_up x of None \<Rightarrow> True | Some n \<Rightarrow> int4 n) \<and>
     (case ses_speed_limit_down x of None \<Rightarrow> True | Some n \<Rightarrow> int4 n) \<and>
     length (ses_mac_address x) \<le> 17 \<and> ses_session_token x \<notin> ses_session_token ` set (sessions d)"

definition insert_session :: "customer_session \<Rightarrow> db \<Rightarrow> db" where
  "insert_session x d = d\<lparr>sessions := sessions d @ [x], session_seq := session_seq d + 1\<rparr>"

abbreviation DataError :: exn where
  "DataError \<equiv> Exn ''DBAPIError'' ''value out of range or constraint violated''"

section \<open>Redeeming a voucher\<close>

record redeem_request =
  rq_code :: string
  rq_mac_address :: "string option"
  rq_client_ip :: "string option"

record redeem_response =
  rv_success :: bool
  rv_message :: string
  rv_plan_name :: "string option"
  rv_validity_hours :: "rat option"
  rv_expires_at :: "datetime option"
  rv_username :: "string option"
  rv_password :: "string option"
  rv_login_url :: "string option"

definition refused :: "string \<Rightarrow> redeem_response" where
  "refused msg = \<lparr>rv_success = False, rv_message = msg, rv_plan_name = None, rv_validity_hours = None, rv_expires_at = None,
     rv_username = None, rv_password = None, rv_login_url = None\<rparr>"

definition mark_used :: "datetime \<Rightarrow> redeem_request \<Rightarrow> voucher_code \<Rightarrow> voucher_code" where
  "mark_used now req w = w\<lparr>vch_is_used := True, vch_status := VchUsed, vch_used_at := Some now,
     vch_used_mac_address := rq_mac_address req, vch_used_ip_address := rq_client_ip req\<rparr>"

definition with_credentials :: "string \<Rightarrow> string \<Rightarrow> voucher_code \<Rightarrow> voucher_code" where
  "with_credentials u p w = w\<lparr>vch_hotspot_username := Some (or_str (vch_hotspot_username w) u),
     vch_hotspot_password := Some (or_str (vch_hotspot_password w) p)\<rparr>"

definition has_credentials :: "voucher_code \<Rightarrow> bool" where
  "has_credentials w \<longleftrightarrow> truthy (vch_hotspot_username w) \<and> truthy (vch_hotspot_password w)"

definition ensure_credentials ::
    "'dev portal_env \<Rightarrow> organization \<Rightarrow> voucher_code \<Rightarrow> dbs \<Rightarrow> (exn + voucher_code) \<times> dbs" where
  "ensure_credentials env org w s =
     (if has_credentials w then (Inr w, s)
      else andthen (generate_hotspot_credentials (pe_randbelow env) (org_id org) 3 s)
        (\<lambda>(u, p) s1. (Inr (with_credentials u p w), on_db (upd_voucher (vch_id w) (with_credentials u p)) s1)))"

definition redeem_bridge :: "voucher_code \<Rightarrow> datetime \<Rightarrow> bridge_call" where
  "redeem_bridge w expires_at = \<lparr>br_username = the (vch_hotspot_username w), br_password_hash = the (vch_hotspot_password w),
     br_expires_at = expires_at, br_amount = None, br_currency = ''KES'', br_reference = None, br_method = ''treasury'',
     br_is_voucher_redeem = True\<rparr>"

definition past :: "datetime option \<Rightarrow> datetime \<Rightarrow> bool" where
  "past t now \<longleftrightarrow> (case t of None \<Rightarrow> False | Some e \<Rightarrow> now > e)"

definition redeem_comment :: "voucher_code \<Rightarrow> service_plan \<Rightarrow> string" where
  "redeem_comment w p = ''Redeemed voucher '' @ vch_code w @ '' - '' @ plan_name p"

text \<open>From the mark on the voucher to the response.\<close>

definition complete_redeem ::
    "'dev portal_env \<Rightarrow> datetime \<Rightarrow> organization \<Rightarrow> redeem_request \<Rightarrow> voucher_code \<Rightarrow> service_plan \<Rightarrow> 'dev \<times> dbs
     \<Rightarrow> (exn + redeem_response) \<times> 'dev \<times> dbs" where
  "complete_redeem env now org req w p vs =
     (let (v, s) = vs;
          s1 = on_db (upd_voucher (vch_id w) (mark_used now req)) s
      in if truthy (rq_mac_address req) \<and> length (the (rq_mac_address req)) > 17 then (Inl DataError, v, rollback s1)
         else case ensure_credentials env org (mark_used now req w) s1 of
           (Inl e, s2) \<Rightarrow> (Inl e, v, rollback s2)
         | (Inr w2, s2) \<Rightarrow>
             let validity_hours = access_window_hours p;
                 expires_at = now + hours_delta validity_hours;
                 x = new_session now (session_seq (cur s2)) org (pe_token_urlsafe env) (rq_mac_address req) (rq_client_ip req) expires_at p
             in if \<not> session_row_ok x (cur s2) then (Inl DataError, v, rollback s2)
                else
                  let s3 = on_db (insert_session x) s2;
                      (url, v4, s4) =
                        (if has_credentials w2
                         then sync_hotspot_user_to_router env now org (the (vch_hotspot_username w2)) (the (vch_hotspot_password w2)) p
                                (rq_mac_address req) (Some (redeem_comment w2 p))
                                ''voucher_redeem'' (Some (str_int (vch_id w2))) (v, s3)
                         else (None, v, s3));
                      s5 = commit s4;
                      (failed, s6) =
                        (if has_credentials w2
                         then bridge_hotspot_purchase_to_dashboard now org p (redeem_bridge w2 expires_at) s5
                         else (False, s5))
                  in if failed then (Inl MissingGreenlet, v4, s6)
                     else (Inr \<lparr>rv_success = True,
                             rv_message = ''Voucher redeemed successfully. You can now connect to the internet.'',
                             rv_plan_name = Some (plan_name p), rv_validity_hours = Some validity_hours,
                             rv_expires_at = Some expires_at, rv_username = vch_hotspot_username w2,
                             rv_password = vch_hotspot_password w2, rv_login_url = url\<rparr>, v4, s6))"

definition redeem_voucher ::
    "'dev portal_env \<Rightarrow> datetime \<Rightarrow> bool \<Rightarrow> organization \<Rightarrow> redeem_request \<Rightarrow> 'dev \<times> dbs
     \<Rightarrow> (exn + redeem_response) \<times> 'dev \<times> dbs" where
  "redeem_voucher env now limited org req vs =
     (let (v, s) = vs
      in if limited then (Inl TooManyRequests, v, s)
         else case scalar_one_or_none (filter (\<lambda>w. vch_organization_id w = org_id org \<and> vch_code w = redeem_key (rq_code req))
                (vouchers (cur s))) of
           Inl e \<Rightarrow> (Inl e, v, s)
         | Inr None \<Rightarrow> (Inr (refused ''Invalid voucher code''), v, s)
         | Inr (Some w) \<Rightarrow>
             if vch_status w \<noteq> VchActive then (Inr (refused ''Voucher has already been used or expired''), v, s)
             else if vch_is_used w then (Inr (refused ''Voucher has already been used''), v, s)
             else if past (vch_expires_at w) now
             then (Inr (refused ''Voucher has expired''), v,
                   commit (on_db (upd_voucher (vch_id w) (\<lambda>x. x\<lparr>vch_status := VchExpired\<rparr>)) s))
             else case tbl_get plan_id (vch_plan_id w) (plans (cur s)) of
               None \<Rightarrow> (Inr (refused ''Associated package not found''), v, s)
             | Some p \<Rightarrow> complete_redeem env now org req w p (v, s))"

section \<open>Logging in\<close>

record login_request =
  lq_username :: string
  lq_password :: string
  lq_mac_address :: "string option"
  lq_client_ip :: "string option"

record login_response =
  lr_success :: bool
  lr_message :: string
  lr_session_token :: "string option"
  lr_login_url :: "string option"
  lr_plan_name :: "string option"
  lr_expires_at :: "datetime option"

definition login_refused :: "string \<Rightarrow> login_response" where
  "login_refused msg = \<lparr>lr_success = False, lr_message = msg, lr_session_token = None, lr_login_url = None, lr_plan_name = None,
     lr_expires_at = None\<rparr>"

definition login_by_voucher ::
    "'dev portal_env \<Rightarrow> datetime \<Rightarrow> organization \<Rightarrow> login_request \<Rightarrow> voucher_code \<Rightarrow> 'dev \<times> dbs
     \<Rightarrow> (exn + login_response) \<times> 'dev \<times> dbs" where
  "login_by_voucher env now org req w vs =
     (let (v, s) = vs
      in if vch_status w = VchExpired \<or> past (vch_expires_at w) now
         then (Inr (login_refused ''Your package has expired. Please purchase a new package.''), v,
               commit (on_db (upd_voucher (vch_id w) (\<lambda>x. x\<lparr>vch_status := VchExpired\<rparr>)) s))
         else case tbl_get plan_id (vch_plan_id w) (plans (cur s)) of
           None \<Rightarrow> (Inr (login_refused ''Associated package not found.''), v, s)
         | Some p \<Rightarrow>
             let (url, v1, s1) = sync_hotspot_user_to_router env now org (lq_username req) (lq_password req) p (lq_mac_address req)
                   (Some (''Login - voucher '' @ vch_code w @ '' - '' @ plan_name p)) ''hotspot_login'' None (v, s);
                 validity_hours = (let h = plan_validity_days p * 24 in if plan_time_limit p > 0 then min h (plan_time_limit p) else h);
                 expires_at = (case vch_expires_at w of Some e \<Rightarrow> e | None \<Rightarrow> now + hours validity_hours);
                 x = new_session now (session_seq (cur s1)) org (pe_token_urlsafe env) (lq_mac_address req) (lq_client_ip req) expires_at p
             in if \<not> session_row_ok x (cur s1) then (Inl DataError, v1, rollback s1)
                else (Inr \<lparr>lr_success = True, lr_message = ''Connected successfully.'', lr_session_token = Some (pe_token_urlsafe env),
                        lr_login_url = url, lr_plan_name = Some (plan_name p), lr_expires_at = Some expires_at\<rparr>, v1,
                      commit (on_db (insert_session x) s1)))"

definition login_by_subscription ::
    "'dev portal_env \<Rightarrow> datetime \<Rightarrow> organization \<Rightarrow> login_request \<Rightarrow> subscription \<Rightarrow> 'dev \<times> dbs
     \<Rightarrow> (exn + login_response) \<times> 'dev \<times> dbs" where
  "login_by_subscription env now org req q vs =
     (let (v, s) = vs
      in if \<not> sub_is_active now q
         then (Inr (login_refused ''Your subscription has expired. Please renew your package.''), v, s)
         else case tbl_get plan_id (sub_plan_id q) (plans (cur s)) of
           None \<Rightarrow> (Inr (login_refused ''Associated package not found.''), v, s)
         | Some p \<Rightarrow>
             let (url, v1, s1) = sync_hotspot_user_to_router env now org (lq_username req) (lq_password req) p (lq_mac_address req)
                   (Some (''Login - subscription #'' @ str_int (sub_id q) @ '' - '' @ plan_name p)) ''hotspot_login'' None (v, s);
                 s2 = on_db (upd_subscription (sub_id q)
                   (\<lambda>x. x\<lparr>sub_last_activity := Some now, sub_session_count := sub_session_count x + 1\<rparr>)) s1
             in if \<not> int4 (sub_session_count q + 1) then (Inl DataError, v1, rollback s2)
                else (Inr \<lparr>lr_success = True, lr_message = ''Connected successfully.'', lr_session_token = None, lr_login_url = url,
                        lr_plan_name = Some (plan_name p), lr_expires_at = sub_end_date q\<rparr>, v1, commit s2))"

definition hotspot_login ::
    "'dev portal_env \<Rightarrow> datetime \<Rightarrow> bool \<Rightarrow> organization \<Rightarrow> login_request \<Rightarrow> 'dev \<times> dbs
     \<Rightarrow> (exn + login_response) \<times> 'dev \<times> dbs" where
  "hotspot_login env now limited org req vs =
     (let (v, s) = vs
      in if limited then (Inl TooManyRequests, v, s)
         else case scalar_one_or_none (filter (\<lambda>w. vch_organization_id w = org_id org \<and>
                vch_hotspot_username w = Some (lq_username req) \<and> vch_hotspot_password w = Some (lq_password req)) (vouchers (cur s))) of
           Inl e \<Rightarrow> (Inl e, v, s)
         | Inr (Some w) \<Rightarrow> login_by_voucher env now org req w (v, s)
         | Inr None \<Rightarrow>
             (case one_of (order_by (\<lambda>q. - sub_created_at q) (filter (\<lambda>q. sub_organization_id q = Some (org_id org) \<and>
                     sub_username q = lq_username req \<and> sub_password q = lq_password req \<and> sub_type q = HOTSPOT)
                     (subscriptions (cur s)))) of
                Some q \<Rightarrow> login_by_subscription env now org req q (v, s)
              | None \<Rightarrow> (Inr (login_refused ''Invalid username or password.''), v, s)))"

section \<open>Queries of the captive page\<close>

record package_response =
  pk_plan :: service_plan
  pk_features :: "string list"
  pk_concurrent_sessions :: int
  pk_access_window_hours :: rat

definition package_of :: "service_plan \<Rightarrow> package_response" where
  "package_of p =
     \<lparr>pk_plan = p,
      pk_features =
        (if is_unlimited_data p then [''Unlimited data'']
         else if plan_data_limit p > 0 then [str_int (plan_data_limit p) @ '' GB data''] else []) @
        (if is_unlimited_time p then [''Unlimited time'']
         else if plan_time_limit p > 0 then [str_int (plan_time_limit p) @ '' hours''] else []) @
        [''Up to '' @ str_int (plan_download_speed p) @ '' Mbps download'',
         ''Up to '' @ str_int (plan_upload_speed p) @ '' Mbps upload''] @
        (if plan_concurrent_sessions p > 1 then [str_int (plan_concurrent_sessions p) @ '' devices''] else []),
      pk_concurrent_sessions = (if plan_concurrent_sessions p \<noteq> 0 then plan_concurrent_sessions p else 1),
      pk_access_window_hours = access_window_hours p\<rparr>"

definition get_packages :: "organization \<Rightarrow> db \<Rightarrow> package_response list" where
  \<comment> \<open>every plan type is one of the four that are listed\<close>
  "get_packages org d =
     map package_of (order_by (\<lambda>p. (plan_sort_order p, plan_price p))
       (filter (\<lambda>p. plan_organization_id p = Some (org_id org) \<and>
          plan_type p \<in> {PlanHotspot, PlanPppoe, PlanInternet, PlanBoth} \<and> plan_status p = PlanActive) (plans d)))"

datatype connection_status = NoRouter | Ready | Failed "string option" | Pending

definition get_connection_status :: "organization \<Rightarrow> string \<Rightarrow> db \<Rightarrow> connection_status" where
  "get_connection_status org username d =
     (case active_router org d of
        None \<Rightarrow> NoRouter
      | Some r \<Rightarrow>
          let recent = take 50 (order_by (\<lambda>c. - cmd_created_at c)
                (filter (\<lambda>c. cmd_router_id c = rt_id r \<and> cmd_action c = ''create_user'') (commands d)))
          in case find (\<lambda>c. dict_get (cmd_params c) ''username'' = Some username) recent of
               None \<Rightarrow> Ready
             | Some c \<Rightarrow>
                 if cmd_status c = CmdSuccess then Ready
                 else if cmd_status c = CmdFailed then Failed (cmd_result_message c)
                 else Pending)"

record session_status =
  sx_plan_name :: "string option"
  sx_started_at :: datetime
  sx_expires_at :: datetime
  sx_time_remaining_seconds :: int
  sx_data_used_mb :: rat
  sx_data_limit_mb :: "rat option"

definition get_session_status ::
    "datetime \<Rightarrow> organization \<Rightarrow> string option \<Rightarrow> string option \<Rightarrow> dbs \<Rightarrow> session_status option \<times> dbs" where
  \<comment> \<open>\<^const>\<open>None\<close> is the answer that no session is active\<close>
  "get_session_status now org mac client_ip s =
     (if \<not> truthy mac \<and> \<not> truthy client_ip then (None, s)
      else case one_of (order_by (\<lambda>x. - ses_created_at x) (filter (\<lambda>x. ses_organization_id x = org_id org \<and> ses_status x = SesActive \<and>
             (if truthy mac then ses_mac_address x = the mac else ses_ip_address x = client_ip)) (sessions (cur s)))) of
        None \<Rightarrow> (None, s)
      | Some x \<Rightarrow>
          if now > ses_expires_at x
          then (None, commit (on_db (sessions_update (tbl_upd ses_id (ses_id x)
                 (\<lambda>y. y\<lparr>ses_status := SesExpired, ses_ended_at := Some (ses_expires_at y)\<rparr>))) s))
          else (Some \<lparr>sx_plan_name = ses_plan_name x, sx_started_at = ses_started_at x, sx_expires_at = ses_expires_at x,
                  sx_time_remaining_seconds = (let n = py_trunc (of_int (ses_expires_at x - now) / 1000000) in if n < 0 then 0 else n),
                  sx_data_used_mb = of_int (ses_bytes_in x + ses_bytes_out x) / (1024 * 1024),
                  sx_data_limit_mb = (if truthy_int (ses_data_limit x) then Some (of_int (the (ses_data_limit x)) / (1024 * 1024)) else None)\<rparr>, s))"

section \<open>What provisioning changes\<close>

text \<open>Provisioning a user touches the queue of commands only.\<close>

lemma sync_hotspot_frame:
  assumes "sync_hotspot_user_to_router env now org un pw p mac comment source sid (v, s) = (url, v', s')"
  shows "vouchers (cur s') = vouchers (cur s)" "sessions (cur s') = sessions (cur s)" "users (cur s') = users (cur s)"
    "subscriptions (cur s') = subscriptions (cur s)" "payments (cur s') = payments (cur s)" "routers (cur s') = routers (cur s)"
    "plans (cur s') = plans (cur s)" "purchases (cur s') = purchases (cur s)" "org_settings (cur s') = org_settings (cur s)"
    "voucher_seq (cur s') = voucher_seq (cur s)" "session_seq (cur s') = session_seq (cur s)"
    "set (commands (cur s)) \<subseteq> set (commands (cur s'))"
    "saved s' = saved s \<or> vouchers (saved s') = vouchers (cur s)"
  using assms
  by (auto simp: sync_hotspot_user_to_router_def queue_agent_action_def queue_command_def row_defs Let_def
      split: option.splits if_splits sum.splits prod.splits)

definition creates_user :: "string \<Rightarrow> string \<Rightarrow> service_plan \<Rightarrow> router_command \<Rightarrow> bool" where
  "creates_user un pw p c \<longleftrightarrow> cmd_action c = ''create_user'' \<and> cmd_params c = create_user_params un pw p \<and> cmd_status c = CmdPending"

lemma sync_hotspot_queues_user:
  assumes "sync_hotspot_user_to_router env now org un pw p mac comment source sid (v, s) = (url, v', s')"
    "active_router org (cur s) = Some r" "has_agent r"
  shows "\<exists>c \<in> set (commands (cur s')). cmd_router_id c = rt_id r \<and> creates_user un pw p c"
    "url = Some (login_url (resolve_hotspot_gateway (pe_loads env) r) un pw mac)" "v' = v"
  using assms
  by (auto simp: sync_hotspot_user_to_router_def queue_agent_action_def queue_command_def row_defs creates_user_def Let_def split: if_splits)

lemma or_str_nonempty [simp]: "d \<noteq> [] \<Longrightarrow> or_str t d \<noteq> []"
  by (auto simp: or_str_def truthy_def split: option.splits if_splits)

lemma generated_nonempty:
  assumes "generate_hotspot_credentials randbelow i 3 s = (Inr (u, p), s')"
  shows "u \<noteq> [] \<and> p \<noteq> []"
proof -
  have "zfill w (str_nat n) \<noteq> []" for w n by (simp add: zfill_def)
  moreover have "p = concat (map (\<lambda>i. str_nat (randbelow i)) [0..<3])"
    using assms by (auto simp: generate_hotspot_credentials_def Let_def split: sum.splits option.splits)
  moreover have "[0..<3] = [0, 1, 2::nat]" by (simp add: upt_rec)
  ultimately show ?thesis
    using assms by (auto simp: generate_hotspot_credentials_def username_of_def fmt_d_def Let_def split: sum.splits option.splits if_splits)
qed

text \<open>What the credentials add to a voucher: they leave its state alone.\<close>

definition only_credentials :: "(voucher_code \<Rightarrow> voucher_code) \<Rightarrow> bool" where
  "only_credentials g \<longleftrightarrow> (\<forall>x. vch_id (g x) = vch_id x \<and> vch_code (g x) = vch_code x \<and> vch_is_used (g x) = vch_is_used x
     \<and> vch_status (g x) = vch_status x \<and> vch_used_at (g x) = vch_used_at x \<and> vch_plan_id (g x) = vch_plan_id x
     \<and> vch_organization_id (g x) = vch_organization_id x)"

lemma ensure_credentials_effects:
  assumes "ensure_credentials env org w s = (r, s')"
  shows "r = Inr w2 \<Longrightarrow> has_credentials w2 \<and> (\<exists>g. only_credentials g \<and> w2 = g w
      \<and> vouchers (cur s') = tbl_upd vch_id (vch_id w) g (vouchers (cur s)))"
    "r = Inl e \<Longrightarrow> s' = s"
    "sessions (cur s') = sessions (cur s)" "routers (cur s') = routers (cur s)" "plans (cur s') = plans (cur s)"
    "voucher_seq (cur s') = voucher_seq (cur s)" "saved s' = saved s \<or> vouchers (saved s') = vouchers (cur s) \<and> voucher_seq (saved s') = voucher_seq (cur s)"
proof -
  consider "has_credentials w" "r = Inr w" "s' = s" | e s1 where "\<not> has_credentials w" "r = Inl e" "s' = s"
    | u p s1 where "\<not> has_credentials w" "generate_hotspot_credentials (pe_randbelow env) (org_id org) 3 s = (Inr (u, p), s1)"
      "r = Inr (with_credentials u p w)" "s' = on_db (upd_voucher (vch_id w) (with_credentials u p)) s1"
    using assms generate_hotspot_credentials_frame(3) [of "pe_randbelow env" "org_id org" 3 s]
    by (auto simp: ensure_credentials_def andthen_def split: if_splits sum.splits prod.splits)
  note cs = this
  have g: "only_credentials (with_credentials u p)" "only_credentials (\<lambda>x. x)" for u p
    by (simp_all add: only_credentials_def with_credentials_def)
  have fr: "\<exists>t. cur s1 = (cur s)\<lparr>org_settings := t\<rparr>" "saved s1 = cur s1"
    if "generate_hotspot_credentials (pe_randbelow env) (org_id org) 3 s = (Inr (u, p), s1)" for u p s1
    using generate_hotspot_credentials_frame(1,2) [OF that] by auto
  have fr0: "sessions (cur s') = sessions (cur s) \<and> routers (cur s') = routers (cur s) \<and> plans (cur s') = plans (cur s)
    \<and> voucher_seq (cur s') = voucher_seq (cur s)
    \<and> (saved s' = saved s \<or> vouchers (saved s') = vouchers (cur s) \<and> voucher_seq (saved s') = voucher_seq (cur s))"
    using cs
  proof cases
    case 3
    obtain t where "cur s1 = (cur s)\<lparr>org_settings := t\<rparr>" using fr(1) [OF 3(2)] by blast
    then show ?thesis using fr(2) [OF 3(2)] 3(4) by (simp add: row_defs)
  qed auto
  show "r = Inl e \<Longrightarrow> s' = s" using cs by cases auto
  show "sessions (cur s') = sessions (cur s)" "routers (cur s') = routers (cur s)" "plans (cur s') = plans (cur s)"
    "voucher_seq (cur s') = voucher_seq (cur s)"
    "saved s' = saved s \<or> vouchers (saved s') = vouchers (cur s) \<and> voucher_seq (saved s') = voucher_seq (cur s)"
    using fr0 by blast+
  show "has_credentials w2 \<and> (\<exists>g. only_credentials g \<and> w2 = g w
      \<and> vouchers (cur s') = tbl_upd vch_id (vch_id w) g (vouchers (cur s)))" if "r = Inr w2"
    using cs
  proof cases
    case 1
    have "tbl_upd vch_id (vch_id w) (\<lambda>x. x) (vouchers (cur s)) = vouchers (cur s)" by (simp add: tbl_upd_def)
    with 1 that g(2) show ?thesis by (intro conjI exI [of _ "\<lambda>x. x"]) auto
  next
    case 3
    have "has_credentials w2" using generated_nonempty [OF 3(2)] 3(3) that by (auto simp: has_credentials_def with_credentials_def)
    moreover have "vouchers (cur s') = tbl_upd vch_id (vch_id w) (with_credentials u p) (vouchers (cur s))"
      using fr [OF 3(2)] 3(4) by (auto simp: row_defs)
    ultimately show ?thesis using 3(3) that g(1) by blast
  qed (use that in auto)
qed

section \<open>Redemption opens access\<close>

definition redeem_answer :: "datetime \<Rightarrow> voucher_code \<Rightarrow> service_plan \<Rightarrow> string option \<Rightarrow> redeem_response" where
  "redeem_answer now w p url =
     \<lparr>rv_success = True, rv_message = ''Voucher redeemed successfully. You can now connect to the internet.'',
      rv_plan_name = Some (plan_name p), rv_validity_hours = Some (access_window_hours p),
      rv_expires_at = Some (now + hours_delta (access_window_hours p)), rv_username = vch_hotspot_username w,
      rv_password = vch_hotspot_password w, rv_login_url = url\<rparr>"

definition redeem_session :: "'dev portal_env \<Rightarrow> datetime \<Rightarrow> organization \<Rightarrow> redeem_request \<Rightarrow> service_plan \<Rightarrow> db \<Rightarrow> customer_session" where
  "redeem_session env now org req p d = new_session now (session_seq d) org (pe_token_urlsafe env) (rq_mac_address req)
     (rq_client_ip req) (now + hours_delta (access_window_hours p)) p"

definition redeem_sync ::
    "'dev portal_env \<Rightarrow> datetime \<Rightarrow> organization \<Rightarrow> redeem_request \<Rightarrow> voucher_code \<Rightarrow> service_plan \<Rightarrow> 'dev \<times> dbs \<Rightarrow> string option \<times> 'dev \<times> dbs" where
  "redeem_sync env now org req w p = sync_hotspot_user_to_router env now org (the (vch_hotspot_username w)) (the (vch_hotspot_password w)) p
     (rq_mac_address req) (Some (redeem_comment w p)) ''voucher_redeem'' (Some (str_int (vch_id w)))"

text \<open>The way through \<^const>\<open>complete_redeem\<close> once the voucher has credentials.\<close>

lemma complete_redeem_eq:
  assumes "ensure_credentials env org (mark_used now req w) (on_db (upd_voucher (vch_id w) (mark_used now req)) s) = (Inr w2, s2)"
    "redeem_sync env now org req w2 p (v, on_db (insert_session (redeem_session env now org req p (cur s2))) s2) = (url, v4, s4)"
    "bridge_hotspot_purchase_to_dashboard now org p (redeem_bridge w2 (now + hours_delta (access_window_hours p))) (commit s4) = (failed, s6)"
  shows "complete_redeem env now org req w p (v, s) =
    (if truthy (rq_mac_address req) \<and> length (the (rq_mac_address req)) > 17
     then (Inl DataError, v, rollback (on_db (upd_voucher (vch_id w) (mark_used now req)) s))
     else if \<not> session_row_ok (redeem_session env now org req p (cur s2)) (cur s2) then (Inl DataError, v, rollback s2)
     else if failed then (Inl MissingGreenlet, v4, s6)
     else (Inr (redeem_answer now w2 p url), v4, s6))"
proof -
  have hc: "has_credentials w2" using ensure_credentials_effects(1) [OF assms(1) refl] by blast
  show ?thesis
    unfolding complete_redeem_def Let_def prod.case assms(1) sum.case redeem_session_def [symmetric] redeem_sync_def [symmetric]
    by (simp add: hc assms(2,3) redeem_answer_def)
qed

lemma complete_redeem_Inr:
  assumes "complete_redeem env now org req w p (v, s) = (Inr resp, v', s')"
  obtains w2 s2 url s4 where
    "ensure_credentials env org (mark_used now req w) (on_db (upd_voucher (vch_id w) (mark_used now req)) s) = (Inr w2, s2)"
    "redeem_sync env now org req w2 p (v, on_db (insert_session (redeem_session env now org req p (cur s2))) s2) = (url, v', s4)"
    "bridge_hotspot_purchase_to_dashboard now org p (redeem_bridge w2 (now + hours_delta (access_window_hours p))) (commit s4) = (False, s')"
    "resp = redeem_answer now w2 p url"
proof -
  let ?s1 = "on_db (upd_voucher (vch_id w) (mark_used now req)) s"
  obtain r2 s2 where e: "ensure_credentials env org (mark_used now req w) ?s1 = (r2, s2)" by fastforce
  obtain w2 where w2: "r2 = Inr w2"
    using assms by (cases r2) (auto simp: complete_redeem_def e Let_def split: if_splits)
  obtain url v4 s4 where sy: "redeem_sync env now org req w2 p (v, on_db (insert_session (redeem_session env now org req p (cur s2))) s2) = (url, v4, s4)"
    by (metis surj_pair)
  obtain f s6 where br: "bridge_hotspot_purchase_to_dashboard now org p (redeem_bridge w2 (now + hours_delta (access_window_hours p))) (commit s4) = (f, s6)"
    by fastforce
  have "\<not> f" "v4 = v'" "s6 = s'" "resp = redeem_answer now w2 p url"
    using assms unfolding complete_redeem_eq [OF e [unfolded w2] sy br] by (auto split: if_splits)
  with that [OF e [unfolded w2]] sy br show ?thesis by auto
qed

text \<open>What is committed by then, whatever becomes of the bridge.\<close>

lemma redeem_rows:
  assumes "ensure_credentials env org (mark_used now req w) (on_db (upd_voucher (vch_id w) (mark_used now req)) s) = (Inr w2, s2)"
    "redeem_sync env now org req w2 p (v, on_db (insert_session (redeem_session env now org req p (cur s2))) s2) = (url, v4, s4)"
    "bridge_hotspot_purchase_to_dashboard now org p b (commit s4) = (failed, s6)"
    "tbl_get vch_id (vch_id w) (vouchers (cur s)) = Some w"
  shows "tbl_get vch_id (vch_id w) (vouchers (saved s6)) = Some w2" "has_credentials w2"
    "vch_is_used w2 \<and> vch_status w2 = VchUsed \<and> vch_used_at w2 = Some now"
    "sessions (saved s6) = sessions (cur s) @ [redeem_session env now org req p (cur s2)]"
    "commands (saved s6) = commands (cur s4)"
    "active_router org (cur (on_db (insert_session (redeem_session env now org req p (cur s2))) s2)) = active_router org (cur s)"
    "resolve_router_id org (cur (commit s4)) = map_option rt_id (active_router org (cur s))"
    "routers (saved s6) = routers (cur s)" "plans (saved s6) = plans (cur s)"
proof -
  obtain g where g: "only_credentials g" "w2 = g (mark_used now req w)"
    "vouchers (cur s2) = tbl_upd vch_id (vch_id w) g (tbl_upd vch_id (vch_id w) (mark_used now req) (vouchers (cur s)))"
    using ensure_credentials_effects(1) [OF assms(1) refl] by (auto simp: row_defs mark_used_def)
  note ef = ensure_credentials_effects(3-5) [OF assms(1)] and sf = sync_hotspot_frame [OF assms(2) [unfolded redeem_sync_def]]
    and bf = bridge_frame [OF assms(3) clean_commit]
  have v: "vouchers (saved s6) = vouchers (cur s2)"
    using portal_rows_eq [OF bf(2)] bf(1) sf(1) by (simp add: clean_def insert_session_def row_defs)
  show "sessions (saved s6) = sessions (cur s) @ [redeem_session env now org req p (cur s2)]" "commands (saved s6) = commands (cur s4)"
    "routers (saved s6) = routers (cur s)" "plans (saved s6) = plans (cur s)"
    using portal_rows_eq [OF bf(2)] bf(1) sf ef by (simp_all add: clean_def insert_session_def row_defs)
  show "tbl_get vch_id (vch_id w) (vouchers (saved s6)) = Some w2"
    using g(1) assms(4) by (simp add: v g(2,3) tbl_get_tbl_upd only_credentials_def mark_used_def)
  show "has_credentials w2" using ensure_credentials_effects(1) [OF assms(1) refl] by blast
  show "vch_is_used w2 \<and> vch_status w2 = VchUsed \<and> vch_used_at w2 = Some now"
    using g(1) by (simp add: g(2) only_credentials_def mark_used_def)
  show "active_router org (cur (on_db (insert_session (redeem_session env now org req p (cur s2))) s2)) = active_router org (cur s)"
    "resolve_router_id org (cur (commit s4)) = map_option rt_id (active_router org (cur s))"
    using ef(2) sf(6) by (simp_all add: active_router_def resolve_router_id_def insert_session_def row_defs)
qed

definition redeemable :: "datetime \<Rightarrow> organization \<Rightarrow> string \<Rightarrow> db \<Rightarrow> voucher_code \<Rightarrow> bool" where
  "redeemable now org code d w \<longleftrightarrow> w \<in> set (vouchers d) \<and> vch_organization_id w = org_id org \<and> vch_code w = redeem_key code \<and>
     vch_status w = VchActive \<and> \<not> vch_is_used w \<and> \<not> past (vch_expires_at w) now"

lemma redeem_voucher_success:
  assumes "redeem_voucher env now limited org req (v, s) = (Inr resp, v', s')" "rv_success resp"
  obtains w p where "redeemable now org (rq_code req) (cur s) w" "tbl_get plan_id (vch_plan_id w) (plans (cur s)) = Some p"
    "complete_redeem env now org req w p (v, s) = (Inr resp, v', s')"
proof -
  obtain w where "filter (\<lambda>w. vch_organization_id w = org_id org \<and> vch_code w = redeem_key (rq_code req)) (vouchers (cur s)) = [w]"
    "vch_status w = VchActive" "\<not> vch_is_used w" "\<not> past (vch_expires_at w) now"
    and p: "\<exists>p. tbl_get plan_id (vch_plan_id w) (plans (cur s)) = Some p \<and> complete_redeem env now org req w p (v, s) = (Inr resp, v', s')"
    using assms
    by (auto simp: redeem_voucher_def refused_def scalar_one_or_none_Some split: if_splits sum.splits option.splits)
  moreover from this(1) have "w \<in> set (vouchers (cur s))" "vch_organization_id w = org_id org" "vch_code w = redeem_key (rq_code req)"
    by (metis (mono_tags, lifting) filter_eq_ConsD list.set_intros(1) set_append Un_iff)+
  ultimately have "redeemable now org (rq_code req) (cur s) w" by (simp add: redeemable_def)
  with p that show ?thesis by blast
qed

text \<open>
  C16. Redeeming a voucher opens access. When the redemption answers with success, the code was
  that of an active, unused voucher of the tenant within its shelf life; afterwards, in the
  committed database, the voucher is used as of now, a session is active for exactly the
  access window of its plan, and where the router of the tenant has the agent the command
  that creates the hotspot user with the credentials of the answer is waiting for it. Where
  the tenant has a router, the customer's hotspot subscription is active until the end of
  the same window.
\<close>

theorem redeeming_opens_access:
  assumes "redeem_voucher env now limited org req (v, s) = (Inr resp, v', s')" "rv_success resp" "uniq vch_id (vouchers (cur s))"
  shows "\<exists>w p w'. redeemable now org (rq_code req) (cur s) w \<and> tbl_get plan_id (vch_plan_id w) (plans (cur s)) = Some p
    \<and> tbl_get vch_id (vch_id w) (vouchers (saved s')) = Some w' \<and> vch_is_used w' \<and> vch_status w' = VchUsed \<and> vch_used_at w' = Some now
    \<and> vch_hotspot_username w' = rv_username resp \<and> vch_hotspot_password w' = rv_password resp \<and> has_credentials w'
    \<and> (\<exists>x \<in> set (sessions (saved s')). ses_status x = SesActive \<and> ses_started_at x = now \<and> ses_organization_id x = org_id org
        \<and> ses_expires_at x = now + hours_delta (access_window_hours p))
    \<and> (\<forall>r. active_router org (cur s) = Some r \<longrightarrow>
        (has_agent r \<longrightarrow> (\<exists>c \<in> set (commands (saved s')). cmd_router_id c = rt_id r
           \<and> creates_user (the (rv_username resp)) (the (rv_password resp)) p c))
        \<and> (\<exists>u \<in> set (users (saved s')). \<exists>q \<in> set (subscriptions (saved s')).
             mirrored now org (usr_id u) (rt_id r) (plan_id p) (redeem_bridge w' (now + hours_delta (access_window_hours p))) q))"
proof -
  obtain w p where w: "redeemable now org (rq_code req) (cur s) w" and p: "tbl_get plan_id (vch_plan_id w) (plans (cur s)) = Some p"
    and cr: "complete_redeem env now org req w p (v, s) = (Inr resp, v', s')"
    using redeem_voucher_success [OF assms(1,2)] .
  let ?exp = "now + hours_delta (access_window_hours p)"
  let ?s1 = "on_db (upd_voucher (vch_id w) (mark_used now req)) s"
  obtain w2 s2 url s4 where e: "ensure_credentials env org (mark_used now req w) ?s1 = (Inr w2, s2)"
    and sy: "redeem_sync env now org req w2 p (v, on_db (insert_session (redeem_session env now org req p (cur s2))) s2) = (url, v', s4)"
    and br: "bridge_hotspot_purchase_to_dashboard now org p (redeem_bridge w2 ?exp) (commit s4) = (False, s')"
    and resp: "resp = redeem_answer now w2 p url"
    by (rule complete_redeem_Inr [OF cr])
  have tw: "tbl_get vch_id (vch_id w) (vouchers (cur s)) = Some w" using w assms(3) by (auto simp: redeemable_def intro: uniq_tbl_get)
  note rr = redeem_rows [OF e sy br tw]
  define x where "x = redeem_session env now org req p (cur s2)"
  have rv: "rv_username resp = vch_hotspot_username w2" "rv_password resp = vch_hotspot_password w2" by (simp_all add: resp redeem_answer_def)
  have ses: "ses_status x = SesActive \<and> ses_started_at x = now \<and> ses_organization_id x = org_id org \<and> ses_expires_at x = ?exp"
    by (simp add: x_def redeem_session_def new_session_def)
  have "(has_agent r \<longrightarrow> (\<exists>c \<in> set (commands (saved s')). cmd_router_id c = rt_id r \<and> creates_user (the (rv_username resp)) (the (rv_password resp)) p c))
    \<and> (\<exists>u \<in> set (users (saved s')). \<exists>q \<in> set (subscriptions (saved s')). mirrored now org (usr_id u) (rt_id r) (plan_id p) (redeem_bridge w2 ?exp) q)"
    if r: "active_router org (cur s) = Some r" for r
    using bridge_mirrored [OF br, of "rt_id r"] sync_hotspot_queues_user(1) [OF sy [unfolded redeem_sync_def], of r] rr(5-7) r by (simp add: rv)
  with w p rr(1-4) rv ses show ?thesis by (intro exI [of _ w] exI [of _ p] exI [of _ w2]) (auto simp: x_def)
qed

section \<open>Redemptions that fail\<close>

lemma redeem_voucher_eq:
  assumes "redeemable now org (rq_code req) (cur s) w" "uniq vch_code (vouchers (cur s))"
    "tbl_get plan_id (vch_plan_id w) (plans (cur s)) = Some p"
  shows "redeem_voucher env now False org req (v, s) = complete_redeem env now org req w p (v, s)"
proof -
  have w: "w \<in> set (vouchers (cur s))" "vch_organization_id w = org_id org" "vch_code w = redeem_key (rq_code req)"
    using assms(1) by (simp_all add: redeemable_def)
  have "filter (\<lambda>w. vch_code w = redeem_key (rq_code req)) (vouchers (cur s)) = [w]"
    using uniq_filter_key [OF assms(2), of "redeem_key (rq_code req)"] uniq_tbl_get [OF assms(2) w(1)] w(3) by simp
  moreover have "filter (\<lambda>w. vch_organization_id w = org_id org \<and> vch_code w = redeem_key (rq_code req)) (vouchers (cur s)) =
      filter (\<lambda>w. vch_organization_id w = org_id org) (filter (\<lambda>w. vch_code w = redeem_key (rq_code req)) (vouchers (cur s)))"
    by (auto intro: filter_cong)
  ultimately have "filter (\<lambda>w. vch_organization_id w = org_id org \<and> vch_code w = redeem_key (rq_code req)) (vouchers (cur s)) = [w]"
    using w(2) by simp
  then show ?thesis using assms(1,3) by (simp add: redeem_voucher_def redeemable_def)
qed

text \<open>
   A voucher for a plan of two gigabytes or more cannot be redeemed: its limit in bytes does
  not fit the 32-bit column of the session, so that the request raises and no session is
  created. A voucher with credentials stays as it is, and fails again the next time; one
  without is used up all the same, since generating its credentials commits the mark.
\<close>

theorem large_plan_cannot_be_redeemed:
  assumes "redeemable now org (rq_code req) (cur s) w" "uniq vch_code (vouchers (cur s))" "uniq vch_id (vouchers (cur s))"
    "tbl_get plan_id (vch_plan_id w) (plans (cur s)) = Some p" "plan_data_limit p \<ge> 2" "clean s"
    "uniq os_organization_id (org_settings (cur s))" "length (or_str (rq_mac_address req) []) \<le> 17"
    "redeem_voucher env now False org req (v, s) = (res, v', s')"
  shows "res = Inl DataError \<and> v' = v \<and> sessions (saved s') = sessions (saved s)
    \<and> (if has_credentials w then saved s' = saved s
       else \<exists>w'. tbl_get vch_id (vch_id w) (vouchers (saved s')) = Some w' \<and> vch_is_used w' \<and> vch_status w' = VchUsed)"
proof -
  let ?s1 = "on_db (upd_voucher (vch_id w) (mark_used now req)) s"
  have mac: "\<not> (truthy (rq_mac_address req) \<and> length (the (rq_mac_address req)) > 17)"
    using assms(8) by (auto simp: or_str_def truthy_def split: option.splits if_splits)
  have big: "\<not> session_row_ok (redeem_session env now org req p d) d'" for d d'
    using assms(5) by (auto simp: session_row_ok_def redeem_session_def new_session_def int4_def)
  obtain r2 s2 where e: "ensure_credentials env org (mark_used now req w) ?s1 = (r2, s2)" by fastforce
  have un: "uniq os_organization_id (org_settings (cur ?s1))" using assms(7) by (simp add: row_defs)
  have "\<exists>w2. r2 = Inr w2"
    using e generate_hotspot_credentials_effects(1) [OF un, of "pe_randbelow env" "org_id org" 3]
    by (auto simp: ensure_credentials_def andthen_def split: if_splits sum.splits prod.splits)
  then obtain w2 where w2: "r2 = Inr w2" by blast
  have cr: "complete_redeem env now org req w p (v, s) = (Inl DataError, v, rollback s2)"
    using mac big e w2 by (auto simp: complete_redeem_def Let_def redeem_session_def [symmetric])
  have out: "res = Inl DataError" "v' = v" "s' = rollback s2"
    using assms(9) cr redeem_voucher_eq [OF assms(1,2,4), of env v] by auto
  have hcw: "has_credentials (mark_used now req w) = has_credentials w" by (simp add: has_credentials_def mark_used_def)
  show ?thesis
  proof (cases "has_credentials w")
    case True
    then have "s2 = ?s1" using e hcw by (simp add: ensure_credentials_def)
    with True out show ?thesis by simp
  next
    case False
    obtain g s1' where g: "generate_hotspot_credentials (pe_randbelow env) (org_id org) 3 ?s1 = (Inr g, s1')"
      using e w2 False hcw by (auto simp: ensure_credentials_def andthen_def split: sum.splits prod.splits)
    then have "saved s2 = cur s1'" using e False hcw generate_hotspot_credentials_frame(2) [OF g]
      by (cases g) (auto simp: ensure_credentials_def)
    moreover obtain t where "cur s1' = (cur ?s1)\<lparr>org_settings := t\<rparr>" using generate_hotspot_credentials_frame(1) [OF g] by blast
    ultimately have "vouchers (saved s') = tbl_upd vch_id (vch_id w) (mark_used now req) (vouchers (cur s))" "sessions (saved s') = sessions (cur s)"
      by (simp_all add: out(3) row_defs)
    moreover have "tbl_get vch_id (vch_id w) (vouchers (cur s)) = Some w" using assms(1,3) by (auto simp: redeemable_def intro: uniq_tbl_get)
    ultimately show ?thesis using False out assms(6) by (simp add: tbl_get_tbl_upd mark_used_def clean_def)
  qed
qed

text \<open>
   User names are given out per tenant but have to be unique over all tenants. When another
  tenant's customer (or a member of staff) already has the user name of the voucher, the
  customer who redeems it is answered with an error, although the voucher is used up, the
  session is open and the hotspot user is on its way to the router; no subscription is
  recorded for this customer.
\<close>

theorem redeem_fails_for_name_of_other_tenant:
  assumes "redeemable now org (rq_code req) (cur s) w" "uniq vch_code (vouchers (cur s))" "uniq vch_id (vouchers (cur s))"
    "tbl_get plan_id (vch_plan_id w) (plans (cur s)) = Some p" "has_credentials w" "active_router org (cur s) = Some r" "has_agent r"
    "customer_rows org (the (vch_hotspot_username w)) (cur s) = []" "the (vch_hotspot_username w) \<in> usr_username ` set (users (cur s))"
    "session_row_ok (redeem_session env now org req p (cur s)) (cur s)"
    "redeem_voucher env now False org req (v, s) = (res, v', s')"
  shows "res = Inl MissingGreenlet
    \<and> (\<exists>w'. tbl_get vch_id (vch_id w) (vouchers (saved s')) = Some w' \<and> vch_is_used w' \<and> vch_status w' = VchUsed)
    \<and> sessions (saved s') = sessions (cur s) @ [redeem_session env now org req p (cur s)]
    \<and> (\<exists>c \<in> set (commands (saved s')). creates_user (the (vch_hotspot_username w)) (the (vch_hotspot_password w)) p c)
    \<and> subscriptions (saved s') = subscriptions (cur s)"
proof -
  let ?s2 = "on_db (upd_voucher (vch_id w) (mark_used now req)) s" and ?w2 = "mark_used now req w"
  have cred: "vch_hotspot_username ?w2 = vch_hotspot_username w" "vch_hotspot_password ?w2 = vch_hotspot_password w"
    by (simp_all add: mark_used_def)
  have e: "ensure_credentials env org ?w2 ?s2 = (Inr ?w2, ?s2)"
    using assms(5) by (simp add: ensure_credentials_def has_credentials_def cred)
  have ses: "redeem_session env now org req p (upd_voucher k f (cur s)) = redeem_session env now org req p (cur s)"
    "session_row_ok x (upd_voucher k f (cur s)) = session_row_ok x (cur s)" for x k f
    by (simp_all add: redeem_session_def session_row_ok_def row_defs)
  obtain url v4 s4 where sy: "redeem_sync env now org req ?w2 p (v, on_db (insert_session (redeem_session env now org req p (cur ?s2))) ?s2) = (url, v4, s4)"
    by (metis surj_pair)
  let ?b = "redeem_bridge ?w2 (now + hours_delta (access_window_hours p))"
  obtain failed s6 where br: "bridge_hotspot_purchase_to_dashboard now org p ?b (commit s4) = (failed, s6)" by fastforce
  have tw: "tbl_get vch_id (vch_id w) (vouchers (cur s)) = Some w" using assms(1,3) by (auto simp: redeemable_def intro: uniq_tbl_get)
  note rr = redeem_rows [OF e sy br tw] and sf = sync_hotspot_frame [OF sy [unfolded redeem_sync_def]]
  have us: "users (cur s4) = users (cur s)" "subscriptions (cur s4) = subscriptions (cur s)"
    using sf(3,4) by (simp_all add: insert_session_def row_defs)
  have "bridge_hotspot_purchase_to_dashboard now org p ?b (commit s4) = (True, rollback (commit s4))"
    by (rule bridge_fails_for_taken_name [of _ _ "rt_id r"])
      (use assms(6,8,9) rr(7) us cred in \<open>simp_all add: redeem_bridge_def customer_rows_def\<close>)
  then have f: "failed" "s6 = commit s4" using br by auto
  have mac: "\<not> (truthy (rq_mac_address req) \<and> length (the (rq_mac_address req)) > 17)"
    using assms(10) by (auto simp: session_row_ok_def redeem_session_def new_session_def or_str_def truthy_def split: option.splits)
  have "complete_redeem env now org req w p (v, s) = (Inl MissingGreenlet, v4, s6)"
    using mac assms(10) f(1) by (auto simp: complete_redeem_eq [OF e sy br] ses)
  then have out: "res = Inl MissingGreenlet" "s' = s6" using assms(11) redeem_voucher_eq [OF assms(1,2,4), of env v] by auto
  have "\<exists>c \<in> set (commands (saved s6)). creates_user (the (vch_hotspot_username w)) (the (vch_hotspot_password w)) p c"
    using sync_hotspot_queues_user(1) [OF sy [unfolded redeem_sync_def], of r] rr(5,6) assms(6,7) by (auto simp: cred)
  with out rr(1,3,4) ses(1) f(2) us(2) show ?thesis by simp
qed

lemma py_round_nonpos: "x \<le> 0 \<Longrightarrow> py_round x \<le> 0"
proof -
  assume "x \<le> 0"
  with py_round_bounds [of x] have "(of_int (py_round x) :: rat) < 1" by linarith
  then show ?thesis by simp
qed

text \<open>
   A package without a time limit is cut off after minutes. A plan whose access window is empty
  counts as unlimited for the expiry of vouchers, which falls back to the churn window of
  days; but the subscription that mirrors its redemption ends at the moment it starts. The
  first expiry pass after the grace period expires this subscription and queues the command
  that disables the customer's hotspot user on the router.
\<close>

theorem unlimited_package_is_cut_off:
  assumes "redeem_voucher env now limited org req (v, s) = (Inr resp, v', s')" "rv_success resp" "uniq vch_id (vouchers (cur s))"
    "\<forall>p \<in> set (plans (cur s)). access_window_hours p \<le> 0" "active_router org (cur s) = Some r" "has_agent r" "uniq rt_id (routers (cur s))"
    "\<forall>q \<in> set (subscriptions (saved s')). sub_end_date q \<noteq> None" "length (subscriptions (saved s')) \<le> batch_size"
    "later \<ge> now + minutes grace"
    "process_expired_subscriptions env2 show_date later grace batch_size send (v2, \<lparr>cur = saved s', saved = saved s'\<rparr>) = (res, v3, s3)"
  shows "\<exists>q. sub_username q = the (rv_username resp) \<and> sub_router_id q = rt_id r
    \<and> tbl_get sub_id (sub_id q) (subscriptions (saved s')) \<noteq> None
    \<and> (\<exists>y. tbl_get sub_id (sub_id q) (subscriptions (saved s3)) = Some y \<and> sub_status y = SubExpired)
    \<and> list_ex (sync_command_of (q\<lparr>sub_status := SubExpired\<rparr>)) (commands (saved s3))"
proof -
  obtain w p where w: "redeemable now org (rq_code req) (cur s) w" and p: "tbl_get plan_id (vch_plan_id w) (plans (cur s)) = Some p"
    and cr: "complete_redeem env now org req w p (v, s) = (Inr resp, v', s')"
    using redeem_voucher_success [OF assms(1,2)] .
  let ?exp = "now + hours_delta (access_window_hours p)"
  obtain w2 s2 url s4 where e: "ensure_credentials env org (mark_used now req w) (on_db (upd_voucher (vch_id w) (mark_used now req)) s) = (Inr w2, s2)"
    and sy: "redeem_sync env now org req w2 p (v, on_db (insert_session (redeem_session env now org req p (cur s2))) s2) = (url, v', s4)"
    and br: "bridge_hotspot_purchase_to_dashboard now org p (redeem_bridge w2 ?exp) (commit s4) = (False, s')"
    and resp: "resp = redeem_answer now w2 p url"
    by (rule complete_redeem_Inr [OF cr])
  have tw: "tbl_get vch_id (vch_id w) (vouchers (cur s)) = Some w" using w assms(3) by (auto simp: redeemable_def intro: uniq_tbl_get)
  note rr = redeem_rows [OF e sy br tw]
  obtain u :: user and q where q: "q \<in> set (subscriptions (saved s'))" "mirrored now org (usr_id u) (rt_id r) (plan_id p) (redeem_bridge w2 ?exp) q"
    using bridge_mirrored [OF br, of "rt_id r"] rr(7) assms(5) by auto
  have "?exp \<le> now" using assms(4) p by (auto simp: hours_delta_def intro!: py_round_nonpos dest!: tbl_get_Some)
  moreover have "take batch_size (filter P (subscriptions (saved s'))) = filter P (subscriptions (saved s'))" for P
    using assms(9) order_trans [OF length_filter_le] by simp
  ultimately have "q \<in> set (due_subscriptions (later - minutes grace) batch_size (saved s'))"
    using q assms(10) by (auto simp: due_subscriptions_def mirrored_def redeem_bridge_def)
  moreover have "backfill_end_dates batch_size (saved s') = saved s'"
    using assms(8) by (auto simp: backfill_end_dates_def filter_empty_conv)
  ultimately have due: "q \<in> set (due_subscriptions (later - minutes grace) batch_size
      (backfill_end_dates batch_size (cur \<lparr>cur = saved s', saved = saved s'\<rparr>)))" by simp
  have p': "tbl_get plan_id (plan_id p) (plans (cur s)) = Some p" using p tbl_get_Some [OF p] by simp
  have "r \<in> set (routers (cur s))" using assms(5) by (auto simp: active_router_def dest!: one_of_Some)
  then have "agent_served (cur \<lparr>cur = saved s', saved = saved s'\<rparr>) q"
    using q(2) assms(6) p' uniq_tbl_get [OF assms(7)] rr(8,9)
    by (auto simp: agent_served_def mirrored_def hotspot_subscription_def has_agent_def)
  with expiry_pass_due(2,3) [OF assms(11) due] q resp show ?thesis
    by (intro exI [of _ q]) (auto simp: mirrored_def hotspot_subscription_def redeem_bridge_def redeem_answer_def tbl_get_None)
qed

section \<open>A concrete run\<close>

definition portal_env0 :: "unit portal_env" where
  "portal_env0 = \<lparr>pe_sub = env0, pe_loads = (\<lambda>_. None), pe_backend_url = None, pe_access_token = ''t'',
     pe_choice = (\<lambda>n xs. xs ! (n mod length xs)), pe_randbelow = (\<lambda>_. 0), pe_token_urlsafe = ''tok'', pe_uuid_hex = ''abcdef0123'',
     pe_isoformat = (\<lambda>_. []), pe_str_decimal = (\<lambda>_. [])\<rparr>"

definition redeem0 :: redeem_request where
  "redeem0 = \<lparr>rq_code = ''ab12cd34 '', rq_mac_address = None, rq_client_ip = None\<rparr>"

definition minute_plan :: service_plan where
  "minute_plan = plan0\<lparr>plan_duration_minutes := Some 1\<rparr>"

definition portal_db :: db where
  \<comment> \<open>an active voucher without credentials\<close>
  "portal_db = accounts_db\<lparr>plans := [minute_plan], organizations := [org0], org_settings := [settings0], vouchers := [voucher0], voucher_seq := 2\<rparr>"

lemma portal_db_simps:
  "vouchers portal_db = [voucher0]" "plans portal_db = [minute_plan]" "routers portal_db = [router0]" "users portal_db = [user0]"
  "org_settings portal_db = [settings0]" "subscriptions portal_db = []" "sessions portal_db = []" "organizations portal_db = [org0]"
  by (simp_all add: portal_db_def accounts_db_def empty_db_def)

definition answered :: "(exn + redeem_response) \<Rightarrow> bool" where
  "answered res = (case res of Inl _ \<Rightarrow> False | Inr resp \<Rightarrow> rv_success resp)"

lemma answered_Inr: "answered res \<Longrightarrow> \<exists>resp. res = Inr resp \<and> rv_success resp"
  by (auto simp: answered_def split: sum.splits)

theorem redeeming_opens_access_witness:
  "\<exists>w'. tbl_get vch_id 1 (vouchers (saved (snd (snd (redeem_voucher portal_env0 5 False org0 redeem0 ((), fresh portal_db)))))) = Some w'
     \<and> vch_is_used w' \<and> vch_used_at w' = Some 5"
proof -
  obtain res v' s' where p: "redeem_voucher portal_env0 5 False org0 redeem0 ((), fresh portal_db) = (res, v', s')" by (metis surj_pair)
  have "answered (fst (redeem_voucher portal_env0 5 False org0 redeem0 ((), fresh portal_db)))" by code_simp
  then obtain resp where r: "res = Inr resp" "rv_success resp" using answered_Inr unfolding p by auto
  have "uniq vch_id (vouchers (cur (fresh portal_db)))" by (simp add: portal_db_simps uniq_def)
  from redeeming_opens_access [OF p [unfolded r(1)] r(2) this] show ?thesis
    unfolding p by (auto simp: redeemable_def portal_db_simps voucher0_def)
qed

definition capped_db :: db where
  "capped_db = portal_db\<lparr>plans := [plan0\<lparr>plan_data_limit := 2\<rparr>]\<rparr>"

lemma redeemable0: "redeemable 5 org0 (rq_code redeem0) portal_db voucher0"
  unfolding redeemable_def portal_db_simps by (intro conjI) (simp, (code_simp)+)

theorem large_plan_cannot_be_redeemed_witness:
  "fst (redeem_voucher portal_env0 5 False org0 redeem0 ((), fresh capped_db)) = Inl DataError"
proof -
  obtain res v' s' where p: "redeem_voucher portal_env0 5 False org0 redeem0 ((), fresh capped_db) = (res, v', s')" by (metis surj_pair)
  have "redeemable 5 org0 (rq_code redeem0) (cur (fresh capped_db)) voucher0"
    using redeemable0 by (simp add: redeemable_def capped_db_def)
  moreover have "tbl_get plan_id (vch_plan_id voucher0) (plans (cur (fresh capped_db))) = Some (plan0\<lparr>plan_data_limit := 2\<rparr>)"
    by (simp add: capped_db_def table_simps sample_rows)
  moreover have "uniq vch_code (vouchers (cur (fresh capped_db)))" "uniq vch_id (vouchers (cur (fresh capped_db)))"
    "uniq os_organization_id (org_settings (cur (fresh capped_db)))" "clean (fresh capped_db)" "length (or_str (rq_mac_address redeem0) []) \<le> 17"
    by (simp_all add: capped_db_def portal_db_simps uniq_def clean_def redeem0_def or_str_def)
  ultimately have "res = Inl DataError" using large_plan_cannot_be_redeemed [OF _ _ _ _ _ _ _ _ p] by simp
  then show ?thesis by (simp add: p)
qed

definition taken_db :: db where
  \<comment> \<open>the voucher has the user name of a customer of another tenant\<close>
  "taken_db = portal_db\<lparr>users := [user0\<lparr>usr_organization_id := Some 2\<rparr>],
     vouchers := [voucher0\<lparr>vch_hotspot_username := Some ''joe'', vch_hotspot_password := Some ''777''\<rparr>]\<rparr>"

theorem redeem_fails_for_name_of_other_tenant_witness:
  "fst (redeem_voucher portal_env0 5 False org0 redeem0 ((), fresh taken_db)) = Inl MissingGreenlet"
proof -
  let ?w = "voucher0\<lparr>vch_hotspot_username := Some ''joe'', vch_hotspot_password := Some ''777''\<rparr>"
  obtain res v' s' where p: "redeem_voucher portal_env0 5 False org0 redeem0 ((), fresh taken_db) = (res, v', s')" by (metis surj_pair)
  have rows: "vouchers taken_db = [?w]" "plans taken_db = [minute_plan]" by (simp_all add: taken_db_def portal_db_simps)
  have "redeemable 5 org0 (rq_code redeem0) (cur (fresh taken_db)) ?w"
    using redeemable0 by (simp add: redeemable_def rows portal_db_simps)
  moreover have "tbl_get plan_id (vch_plan_id ?w) (plans (cur (fresh taken_db))) = Some minute_plan"
    by (simp add: rows table_simps sample_rows minute_plan_def)
  moreover have "uniq vch_code (vouchers (cur (fresh taken_db)))" "uniq vch_id (vouchers (cur (fresh taken_db)))" "has_credentials ?w"
    by (simp_all add: rows uniq_def has_credentials_def truthy_def)
  moreover have "active_router org0 (cur (fresh taken_db)) = Some router0" "has_agent router0"
    "customer_rows org0 (the (vch_hotspot_username ?w)) (cur (fresh taken_db)) = []"
    "the (vch_hotspot_username ?w) \<in> usr_username ` set (users (cur (fresh taken_db)))"
    by (simp_all add: active_router_def customer_rows_def has_agent_def truthy_def taken_db_def portal_db_simps sample_rows one_of_def)
  moreover have "session_row_ok (redeem_session portal_env0 5 org0 redeem0 minute_plan (cur (fresh taken_db))) (cur (fresh taken_db))"
    by code_simp
  ultimately have "res = Inl MissingGreenlet" using redeem_fails_for_name_of_other_tenant [OF _ _ _ _ _ _ _ _ _ _ p] by blast
  then show ?thesis by (simp add: p)
qed

definition unlimited_db :: db where
  "unlimited_db = portal_db\<lparr>plans := [plan0\<lparr>plan_validity_days := 0\<rparr>]\<rparr>"

theorem unlimited_package_is_cut_off_witness:
  "\<exists>y \<in> set (subscriptions (saved (snd (snd (process_expired_subscriptions env0 (\<lambda>_. []) late 5 10 True
      ((), fresh (saved (snd (snd (redeem_voucher portal_env0 5 False org0 redeem0 ((), fresh unlimited_db))))))))))). sub_status y = SubExpired"
proof -
  let ?p = "redeem_voucher portal_env0 5 False org0 redeem0 ((), fresh unlimited_db)"
  obtain res v' s' where p: "?p = (res, v', s')" by (metis surj_pair)
  obtain x v3 s3 where q: "process_expired_subscriptions env0 (\<lambda>_. []) late 5 10 True ((), fresh (saved s')) = (x, v3, s3)"
    by (metis surj_pair)
  have e: "answered (fst ?p)" "list_all (\<lambda>q. sub_end_date q \<noteq> None) (subscriptions (saved (snd (snd ?p))))"
    "length (subscriptions (saved (snd (snd ?p)))) \<le> 10"
    "list_all (\<lambda>p. access_window_hours p \<le> 0) (plans (cur (fresh unlimited_db)))" "(late \<ge> 5 + minutes 5)"
    "active_router org0 (cur (fresh unlimited_db)) = Some router0" "has_agent router0"
    by (code_simp, code_simp, code_simp, code_simp, code_simp, code_simp, code_simp)
  obtain resp where r: "res = Inr resp" "rv_success resp" using answered_Inr e(1) unfolding p by auto
  have u: "uniq vch_id (vouchers (cur (fresh unlimited_db)))" "uniq rt_id (routers (cur (fresh unlimited_db)))"
    by (simp_all add: unlimited_db_def portal_db_simps uniq_def)
  have "\<exists>y \<in> set (subscriptions (saved s3)). sub_status y = SubExpired"
    using unlimited_package_is_cut_off [OF p [unfolded r(1)] r(2) u(1) _ e(6,7) u(2) _ _ e(5) q [unfolded fresh_def]] e(2-4) [unfolded p snd_conv]
    by (auto simp: list_all_iff dest: tbl_get_Some)
  then show ?thesis unfolding p snd_conv q .
qed

end
