(* ===== verification/Portal_Purchase.thy ===== *)
theory Portal_Purchase
  imports Portal_Access
begin

text \<open>
  Buying a package on the captive portal (\<open>src/app/api/v1/portal/hotspot.py\<close>): the purchase through
  the treasury service, the three ways a payment is confirmed (the deprecated webhook, the
  poll of the captive page and the consumer of treasury events, \<open>src/app/events/consumer.py\<close>),
  and the provisioning that all of them run.

  The treasury service is a parameter; its client raises \<open>TreasuryError\<close> when a call fails. After a
  rollback the objects of a request are expired, so that reading one of them raises.
\<close>

section \<open>The provider gate\<close>

text \<open>
  \<open>resolve_provider_access\<close> of \<open>src/app/services/provider_gate.py\<close>: the argument \<open>get_subscription\<close> is
  the client of the subscription service, whose answer carries an access status.
\<close>

definition resolve_provider_access ::
    "bool \<Rightarrow> (string \<Rightarrow> exn + string option option) \<Rightarrow> organization \<Rightarrow> bool" where
  "resolve_provider_access suspended get_subscription org =
     (if suspended then False
      else if \<not> truthy (org_auth_tenant_id org) then True
      else case get_subscription (the (org_auth_tenant_id org)) of
             Inl _ \<Rightarrow> True
           | Inr None \<Rightarrow> True
           | Inr (Some access) \<Rightarrow> map lower (strip (or_str access [])) \<noteq> ''blocked'')"

section \<open>Buying\<close>

record treasury =
  tr_configured :: bool
  tr_create_payment_intent :: "string \<Rightarrow> exn + (string \<times> string) list"
  tr_get_status :: "string \<Rightarrow> exn + (string \<times> string) list"
  tr_pay_page_url :: string

definition is_treasury_error :: "exn \<Rightarrow> bool" where
  "is_treasury_error e \<longleftrightarrow> exn_class e = ''TreasuryError''"

definition ends_with :: "string \<Rightarrow> string \<Rightarrow> bool" where
  "ends_with t suf \<longleftrightarrow> drop (length t - length suf) t = suf \<and> length suf \<le> length t"

definition build_pay_page_url :: "treasury \<Rightarrow> (string \<times> string) list \<Rightarrow> (string \<times> string option) list \<Rightarrow> string" where
  \<comment> \<open>the required parameters and the optional ones\<close>
  "build_pay_page_url tr required optional =
     (let base = rstrip_slash (tr_pay_page_url tr);
          base = (if ends_with (map lower base) ''/pay'' then take (length base - 4) base else base)
      in base @ ''/pay?'' @ urlencode (required @ map (\<lambda>(k, x). (k, the x)) (filter (\<lambda>(k, x). truthy x) optional)))"

record purchase_request =
  pq_plan_id :: int
  pq_phone_number :: string
  pq_email :: "string option"
  pq_client_ip :: "string option"
  pq_user_agent :: string
  pq_origin :: string

record purchase_response =
  pp_reference :: string
  pp_checkout_url :: string
  pp_intent_id :: string

definition purchase_reference :: "'dev portal_env \<Rightarrow> organization \<Rightarrow> string" where
  "purchase_reference env org = ''HS-'' @ map upper (take 6 (org_slug org)) @ ''-'' @ map upper (take 8 (pe_uuid_hex env))"

definition new_purchase ::
    "datetime \<Rightarrow> int \<Rightarrow> organization \<Rightarrow> service_plan \<Rightarrow> purchase_request \<Rightarrow> string \<Rightarrow> customer_purchase" where
  "new_purchase now i org p data reference =
     \<lparr>pur_id = i, pur_organization_id = org_id org, pur_user_id = None, pur_phone_number = pq_phone_number data,
      pur_email = pq_email data, pur_mac_address = None, pur_plan_id = plan_id p, pur_amount = plan_price p,
      pur_currency = plan_currency p, pur_payment_method = ''treasury'', pur_payment_reference = Some reference,
      pur_payment_status = ''pending'', pur_transaction_id = None, pur_treasury_payment_intent_id = None,
      pur_voucher_code_id = None, pur_subscription_id = None, pur_session_id = None, pur_ip_address = pq_client_ip data,
      pur_user_agent = Some (pq_user_agent data), pur_extra_data = None, pur_created_at = now, pur_completed_at = None\<rparr>"

definition redirect_url :: "string option \<Rightarrow> string \<Rightarrow> string \<Rightarrow> string \<Rightarrow> string" where
  "redirect_url frontend_url origin slug reference =
     (if origin \<noteq> [] then origin else or_str frontend_url []) @
     ''/payment/callback?payment_type=hotspot_purchase&org='' @ slug @ ''&reference='' @ reference"

definition set_purchase_status :: "int \<Rightarrow> string \<Rightarrow> dbs \<Rightarrow> dbs" where
  "set_purchase_status i st s = commit (on_db (upd_purchase i (\<lambda>x. x\<lparr>pur_payment_status := st\<rparr>)) s)"

definition purchase_via_treasury ::
    "'dev portal_env \<Rightarrow> treasury \<Rightarrow> string option \<Rightarrow> datetime \<Rightarrow> organization \<Rightarrow> service_plan \<Rightarrow> purchase_request \<Rightarrow> dbs
     \<Rightarrow> (exn + purchase_response option) \<times> dbs" where
  "purchase_via_treasury env tr frontend_url now org p data s =
     (if \<not> tr_configured tr then (Inr None, s)
      else
        let reference = purchase_reference env org;
            i = purchase_seq (cur s);
            s1 = commit (on_db (\<lambda>d. (add_purchase (new_purchase now i org p data reference) d)\<lparr>purchase_seq := i + 1\<rparr>) s)
        in case tr_create_payment_intent tr reference of
             Inl e \<Rightarrow> if is_treasury_error e then (Inr None, set_purchase_status i ''failed'' s1) else (Inl e, s1)
           | Inr intent \<Rightarrow>
               let intent_id = (if truthy (dict_get intent ''intent_id'') then dict_get intent ''intent_id'' else dict_get intent ''id'')
               in if \<not> truthy intent_id then (Inr None, set_purchase_status i ''failed'' s1)
                  else
                    (Inr (Some \<lparr>pp_reference = reference,
                       pp_checkout_url = build_pay_page_url tr
                         [(''tenant'', org_uuid org), (''intent_id'', the intent_id), (''amount'', pe_str_decimal env (plan_price p)),
                          (''currency'', plan_currency p), (''reference_id'', reference), (''reference_type'', ''hotspot_purchase''),
                          (''redirect_url'', redirect_url frontend_url (pq_origin data) (org_slug org) reference)]
                         [(''description'', Some (plan_name p @ '' - '' @ org_name org)), (''initiate_url'', dict_get intent ''initiate_url''),
                          (''button_text'', Some ''Start Browsing'')],
                       pp_intent_id = the intent_id\<rparr>),
                     commit (on_db (upd_purchase i (\<lambda>x. x\<lparr>pur_treasury_payment_intent_id := intent_id,
                       pur_payment_status := ''processing''\<rparr>)) s1)))"

definition purchase_package ::
    "'dev portal_env \<Rightarrow> treasury \<Rightarrow> string option \<Rightarrow> bool \<Rightarrow> (string \<Rightarrow> exn + string option option) \<Rightarrow> datetime \<Rightarrow> organization
     \<Rightarrow> purchase_request \<Rightarrow> dbs \<Rightarrow> (exn + purchase_response) \<times> dbs" where
  "purchase_package env tr frontend_url suspended get_subscription now org data s =
     (if \<not> resolve_provider_access suspended get_subscription org
      then (Inl (Exn ''HTTPException'' ''403: provider_subscription_inactive''), s)
      else case scalar_one_or_none (filter (\<lambda>p. plan_id p = pq_plan_id data \<and> plan_organization_id p = Some (org_id org) \<and>
             plan_status p = PlanActive) (plans (cur s))) of
        Inl e \<Rightarrow> (Inl e, s)
      | Inr None \<Rightarrow> (Inl (Exn ''HTTPException'' ''404: Package not found''), s)
      | Inr (Some p) \<Rightarrow>
          andthen (purchase_via_treasury env tr frontend_url now org p data s) (\<lambda>res s1.
            case res of
              Some r \<Rightarrow> (Inr r, s1)
            | None \<Rightarrow> (Inl (Exn ''HTTPException'' ''502: Payment service is temporarily unavailable. Please try again.''), s1)))"

section \<open>Provisioning a paid purchase\<close>

definition purchased_voucher ::
    "datetime \<Rightarrow> int \<Rightarrow> organization \<Rightarrow> service_plan \<Rightarrow> customer_purchase \<Rightarrow> string \<Rightarrow> string \<Rightarrow> string \<Rightarrow> voucher_code" where
  "purchased_voucher now i org p pu code u pw =
     (new_voucher now i (org_id org) code (plan_id p))
       \<lparr>vch_status := VchUsed, vch_is_used := True, vch_used_at := Some now, vch_value := Some (pur_amount pu),
        vch_expires_at := Some (now + days 30), vch_hotspot_username := Some u, vch_hotspot_password := Some pw\<rparr>"

definition payment_events ::
    "'dev portal_env \<Rightarrow> datetime \<Rightarrow> organization \<Rightarrow> service_plan \<Rightarrow> customer_purchase \<Rightarrow> voucher_code \<Rightarrow> dbs \<Rightarrow> dbs" where
  "payment_events env now org p pu w s =
     (let tenant = (if org_uuid org \<noteq> [] then Some (org_uuid org) else None);
          u = the (vch_hotspot_username w); pw = the (vch_hotspot_password w);
          customer = (if truthy (pur_email pu) then the (pur_email pu)
                      else if pur_phone_number pu \<noteq> [] then pur_phone_number pu else u);
          expiry_at = pe_isoformat env (now + hours_delta (access_window_hours p));
          (_, s1) = record_event now ''payment.received''
            [(''purchase_id'', Some (str_int (pur_id pu))), (''organization_id'', Some (str_int (org_id org))),
             (''organization_slug'', Some (org_slug org)), (''plan_id'', Some (str_int (plan_id p))), (''plan_name'', Some (plan_name p)),
             (''amount'', Some (pe_str_decimal env (pur_amount pu))), (''currency'', Some (pur_currency pu)),
             (''payment_method'', Some (pur_payment_method pu)), (''payment_reference'', pur_payment_reference pu),
             (''treasury_payment_intent_id'', pur_treasury_payment_intent_id pu), (''phone_number'', Some (pur_phone_number pu)),
             (''email'', pur_email pu), (''voucher_code'', Some (vch_code w))]
            tenant (Some (str_int (pur_id pu))) s
      in snd (record_event now ''subscriber.created''
           [(''tenant_id'', tenant), (''organization_id'', Some (str_int (org_id org))), (''organization_slug'', Some (org_slug org)),
            (''voucher_id'', Some (str_int (vch_id w))), (''voucher_code'', Some (vch_code w)),
            (''purchase_id'', Some (str_int (pur_id pu))), (''customer_name'', Some customer), (''phone'', Some (pur_phone_number pu)),
            (''email'', pur_email pu), (''username'', Some u), (''password'', Some pw), (''plan_id'', Some (str_int (plan_id p))),
            (''package_name'', Some (plan_name p)), (''package_type'', Some ''hotspot''), (''subscriber_type'', Some ''hotspot''),
            (''expiry_at'', Some expiry_at), (''amount'', Some (pe_str_decimal env (pur_amount pu))), (''currency'', Some (pur_currency pu))]
           tenant (Some (str_int (vch_id w))) s1))"

definition purchase_bridge :: "datetime \<Rightarrow> service_plan \<Rightarrow> customer_purchase \<Rightarrow> string \<Rightarrow> string \<Rightarrow> bridge_call" where
  "purchase_bridge now p pu u pw =
     \<lparr>br_username = u, br_password_hash = pw, br_expires_at = now + hours_delta (access_window_hours p),
      br_amount = Some (pur_amount pu), br_currency = pur_currency pu, br_reference = pur_payment_reference pu,
      br_method = or_str (Some (pur_payment_method pu)) ''treasury'', br_is_voucher_redeem = False\<rparr>"

definition purchase_comment :: "service_plan \<Rightarrow> string \<Rightarrow> string" where
  "purchase_comment p code = ''Purchased '' @ plan_name p @ '' - Voucher '' @ code"

text \<open>From the voucher to the dashboard; the flag says whether the session was rolled back at the end.\<close>

definition provision_purchase ::
    "'dev portal_env \<Rightarrow> datetime \<Rightarrow> organization \<Rightarrow> customer_purchase \<Rightarrow> service_plan \<Rightarrow> string \<Rightarrow> string \<Rightarrow> string \<Rightarrow> 'dev \<times> dbs
     \<Rightarrow> bool \<times> 'dev \<times> dbs" where
  "provision_purchase env now org pu p code u pw vs =
     (let (v, s) = vs;
          w = purchased_voucher now (voucher_seq (cur s)) org p pu code u pw;
          s1 = on_db (\<lambda>d. upd_purchase (pur_id pu) (\<lambda>x. x\<lparr>pur_voucher_code_id := Some (vch_id w)\<rparr>) (insert_voucher w d)) s;
          s2 = commit (payment_events env now org p pu w s1);
          (_, v3, s3) = sync_hotspot_user_to_router env now org u pw p None (Some (purchase_comment p code))
            ''voucher_purchase'' (Some (str_int (pur_id pu))) (v, s2);
          (failed, s4) = bridge_hotspot_purchase_to_dashboard now org p (purchase_bridge now p pu u pw) (commit s3)
      in (failed, v3, s4))"

text \<open>A failing insertion of the voucher rolls back before the handler reads the purchase, which raises.\<close>

definition process_successful_payment ::
    "'dev portal_env \<Rightarrow> datetime \<Rightarrow> organization \<Rightarrow> customer_purchase \<Rightarrow> 'dev \<times> dbs \<Rightarrow> (exn + bool) \<times> 'dev \<times> dbs" where
  "process_successful_payment env now org pu vs =
     (let (v, s) = vs;
          s1 = on_db (upd_purchase (pur_id pu) (\<lambda>x. x\<lparr>pur_payment_status := ''completed'', pur_completed_at := Some now\<rparr>)) s
      in case tbl_get plan_id (pur_plan_id pu) (plans (cur s1)) of
           None \<Rightarrow> (Inr False, v, commit s1)
         | Some p \<Rightarrow>
             let code = generate_code (pe_choice env) ''XXXX-XXXX-XXXX'' 8
             in case generate_hotspot_credentials (pe_randbelow env) (org_id org) 3 s1 of
                  (Inl e, s2) \<Rightarrow> (Inr False, v, commit s2)
                | (Inr (u, pw), s2) \<Rightarrow>
                    if \<not> voucher_row_ok code (cur s2) then (Inl MissingGreenlet, v, rollback s2)
                    else let (failed, vs3) = provision_purchase env now org pu p code u pw (v, s2) in (Inr failed, vs3))"

section \<open>Three confirmations\<close>

datatype webhook_payload =
  BadJson
| StkCallback "string option" "int option"      \<comment> \<open>CheckoutRequestID, ResultCode\<close>
| GatewayEvent string "string option"           \<comment> \<open>event, data.reference\<close>
| Generic "string option" "string option"       \<comment> \<open>reference, status\<close>
| NoReference

fun webhook_fields :: "webhook_payload \<Rightarrow> string option \<times> string option" where
  "webhook_fields (StkCallback reference code) = (reference, Some (if code = Some 0 then ''completed'' else ''failed''))"
| "webhook_fields (GatewayEvent event reference) =
     (reference, if event = ''charge.success'' then Some ''completed''
        else if event \<in> {''charge.failed'', ''transfer.failed''} then Some ''failed'' else None)"
| "webhook_fields (Generic reference st) = (reference, Some (case st of None \<Rightarrow> ''completed'' | Some t \<Rightarrow> t))"
| "webhook_fields _ = (None, None)"

definition find_purchase :: "organization \<Rightarrow> string \<Rightarrow> db \<Rightarrow> exn + customer_purchase option" where
  "find_purchase org reference d =
     scalar_one_or_none (filter (\<lambda>x. pur_payment_reference x = Some reference \<and> pur_organization_id x = org_id org) (purchases d))"

definition payment_webhook ::
    "'dev portal_env \<Rightarrow> datetime \<Rightarrow> organization \<Rightarrow> webhook_payload \<Rightarrow> 'dev \<times> dbs \<Rightarrow> (exn + string option) \<times> 'dev \<times> dbs" where
  \<comment> \<open>the answer is the status that was read, or nothing when there is no such purchase\<close>
  "payment_webhook env now org payload vs =
     (let (v, s) = vs; (reference, st) = webhook_fields payload
      in if payload = BadJson then (Inl (Exn ''HTTPException'' ''400: Invalid JSON payload''), v, s)
         else if \<not> truthy reference then (Inr None, v, s)
         else case find_purchase org (the reference) (cur s) of
           Inl e \<Rightarrow> (Inl e, v, s)
         | Inr None \<Rightarrow> (Inr None, v, s)
         | Inr (Some pu) \<Rightarrow>
             if st = Some ''completed'' then
               (case process_successful_payment env now org pu (v, s) of
                  (Inl e, vs1) \<Rightarrow> (Inl e, vs1) | (Inr _, vs1) \<Rightarrow> (Inr st, vs1))
             else if st = Some ''failed'' then (Inr st, v, set_purchase_status (pur_id pu) ''failed'' s)
             else (Inr st, v, s))"

record payment_status_response =
  pa_status :: string
  pa_is_completed :: bool
  pa_is_success :: bool
  pa_voucher_code :: "string option"
  pa_username :: "string option"
  pa_password :: "string option"
  pa_login_url :: "string option"

definition payment_answer :: "'dev portal_env \<Rightarrow> organization \<Rightarrow> customer_purchase \<Rightarrow> db \<Rightarrow> payment_status_response" where
  "payment_answer env org pu d =
     (let is_success = pur_payment_status pu = ''completed'';
          w = (if is_success \<and> truthy_int (pur_voucher_code_id pu) then tbl_get vch_id (the (pur_voucher_code_id pu)) (vouchers d) else None);
          gw = (case active_router org d of None \<Rightarrow> ''172.31.0.1'' | Some r \<Rightarrow> resolve_hotspot_gateway (pe_loads env) r)
      in \<lparr>pa_status = pur_payment_status pu, pa_is_completed = pur_payment_status pu \<in> {''completed'', ''failed''},
          pa_is_success = is_success, pa_voucher_code = map_option vch_code w,
          pa_username = Option.bind w vch_hotspot_username, pa_password = Option.bind w vch_hotspot_password,
          pa_login_url = (case w of None \<Rightarrow> None
            | Some x \<Rightarrow> if truthy (vch_hotspot_username x)
                then Some (login_url gw (the (vch_hotspot_username x)) (the (vch_hotspot_password x)) None) else None)\<rparr>)"

definition treasury_status :: "(string \<times> string) list \<Rightarrow> string" where
  "treasury_status intent =
     map lower (or_str (if truthy (dict_get intent ''status'') then dict_get intent ''status'' else dict_get intent ''Status'') [])"

definition confirm_by_poll ::
    "'dev portal_env \<Rightarrow> treasury \<Rightarrow> datetime \<Rightarrow> organization \<Rightarrow> customer_purchase \<Rightarrow> 'dev \<times> dbs \<Rightarrow> (exn + bool) \<times> 'dev \<times> dbs" where
  "confirm_by_poll env tr now org pu vs =
     (let (v, s) = vs
      in if \<not> (pur_payment_status pu = ''processing'' \<and> truthy (pur_treasury_payment_intent_id pu) \<and> tr_configured tr) then (Inr False, v, s)
         else case tr_get_status tr (the (pur_treasury_payment_intent_id pu)) of
           Inl e \<Rightarrow> (if is_treasury_error e then Inr False else Inl e, v, s)
         | Inr intent \<Rightarrow>
             if treasury_status intent \<in> {''succeeded'', ''success'', ''completed'', ''paid''}
             then process_successful_payment env now org pu (v, s)
             else if treasury_status intent \<in> {''failed'', ''cancelled'', ''canceled'', ''expired''}
             then (Inr False, v, set_purchase_status (pur_id pu) ''failed'' s)
             else (Inr False, v, s))"

definition get_payment_status ::
    "'dev portal_env \<Rightarrow> treasury \<Rightarrow> datetime \<Rightarrow> organization \<Rightarrow> string \<Rightarrow> 'dev \<times> dbs
     \<Rightarrow> (exn + payment_status_response option) \<times> 'dev \<times> dbs" where
  "get_payment_status env tr now org reference vs =
     (let (v, s) = vs
      in case find_purchase org reference (cur s) of
           Inl e \<Rightarrow> (Inl e, v, s)
         | Inr None \<Rightarrow> (Inr None, v, s)
         | Inr (Some pu) \<Rightarrow>
             (case confirm_by_poll env tr now org pu (v, s) of
                (Inl e, vs1) \<Rightarrow> (Inl e, vs1)
              | (Inr True, vs1) \<Rightarrow> (Inl MissingGreenlet, vs1)
              | (Inr False, v1, s1) \<Rightarrow>
                  (case tbl_get pur_id (pur_id pu) (purchases (cur s1)) of
                     None \<Rightarrow> (Inr None, v1, s1)
                   | Some pu1 \<Rightarrow> (Inr (Some (payment_answer env org pu1 (cur s1))), v1, s1))))"

definition handle_treasury_payment_succeeded ::
    "'dev portal_env \<Rightarrow> datetime \<Rightarrow> string option \<Rightarrow> string option \<Rightarrow> 'dev \<times> dbs \<Rightarrow> (exn + unit) \<times> 'dev \<times> dbs" where
  \<comment> \<open>with the intent id and the reference taken from the envelope\<close>
  "handle_treasury_payment_succeeded env now intent_id reference vs =
     (let (v, s) = vs;
          by_intent = (if truthy intent_id
            then scalar_one_or_none (filter (\<lambda>x. pur_treasury_payment_intent_id x = intent_id) (purchases (cur s))) else Inr None);
          found = bind_exn by_intent (\<lambda>o'. if o' = None \<and> truthy reference
            then scalar_one_or_none (filter (\<lambda>x. pur_payment_reference x = reference) (purchases (cur s))) else Inr o')
      in case found of
           Inl e \<Rightarrow> (Inl e, v, s)
         | Inr None \<Rightarrow> (Inr (), v, s)
         | Inr (Some pu) \<Rightarrow>
             if pur_payment_status pu = ''completed'' then (Inr (), v, s)
             else case tbl_get org_id (pur_organization_id pu) (organizations (cur s)) of
               None \<Rightarrow> (Inr (), v, s)
             | Some org \<Rightarrow>
                 (case process_successful_payment env now org pu (v, s) of
                    (Inl e, vs1) \<Rightarrow> (Inl e, vs1) | (Inr _, vs1) \<Rightarrow> (Inr (), vs1)))"

section \<open>What a confirmed payment leaves behind\<close>

lemma sync_hotspot_outbox:
  assumes "sync_hotspot_user_to_router env now org un pw p mac comment source sid (v, s) = (url, v', s')"
  shows "outbox (cur s') = outbox (cur s)"
  using assms
  by (auto simp: sync_hotspot_user_to_router_def queue_agent_action_def queue_command_def row_defs Let_def
      split: option.splits if_splits sum.splits prod.splits)

lemma payment_events_effects:
  "vouchers (cur (payment_events env now org p pu w s)) = vouchers (cur s)"
  "purchases (cur (payment_events env now org p pu w s)) = purchases (cur s)"
  "routers (cur (payment_events env now org p pu w s)) = routers (cur s)"
  "plans (cur (payment_events env now org p pu w s)) = plans (cur s)"
  "org_settings (cur (payment_events env now org p pu w s)) = org_settings (cur s)"
  "\<exists>e1 e2. outbox (cur (payment_events env now org p pu w s)) = outbox (cur s) @ [e1, e2]
     \<and> ob_event_type e1 = ''payment.received'' \<and> ob_event_type e2 = ''subscriber.created''
     \<and> dict_get (ob_payload e2) ''username'' = Some (vch_hotspot_username w) \<and> ob_published_at e1 = None \<and> ob_published_at e2 = None"
  if "vch_hotspot_username w \<noteq> None"
  using that by (auto simp: payment_events_def record_event_def Let_def dict_get_def)

definition paid :: "datetime \<Rightarrow> int \<Rightarrow> customer_purchase \<Rightarrow> customer_purchase" where
  "paid now i x = x\<lparr>pur_payment_status := ''completed'', pur_completed_at := Some now, pur_voucher_code_id := Some i\<rparr>"

lemma provision_purchase_effects:
  assumes "provision_purchase env now org pu p code u pw (v, s) = (failed, v', s')"
    "w = purchased_voucher now (voucher_seq (cur s)) org p pu code u pw"
  shows "clean s'" "vouchers (cur s') = vouchers (cur s) @ [w]"
    "purchases (cur s') = tbl_upd pur_id (pur_id pu) (\<lambda>x. x\<lparr>pur_voucher_code_id := Some (vch_id w)\<rparr>) (purchases (cur s))"
    "\<exists>e1 e2. outbox (cur s') = outbox (cur s) @ [e1, e2] \<and> ob_event_type e1 = ''payment.received'' \<and> ob_event_type e2 = ''subscriber.created''
      \<and> dict_get (ob_payload e2) ''username'' = Some (Some u) \<and> ob_published_at e1 = None \<and> ob_published_at e2 = None"
    "active_router org (cur s) = Some rt \<Longrightarrow> has_agent rt \<Longrightarrow> \<exists>c \<in> set (commands (cur s')). cmd_router_id c = rt_id rt \<and> creates_user u pw p c"
    "plans (cur s') = plans (cur s)" "org_settings (cur s') = org_settings (cur s)"
proof -
  define s1 where "s1 = on_db (\<lambda>d. upd_purchase (pur_id pu) (\<lambda>x. x\<lparr>pur_voucher_code_id := Some (vch_id w)\<rparr>) (insert_voucher w d)) s"
  define s2 where "s2 = commit (payment_events env now org p pu w s1)"
  have wu: "vch_hotspot_username w = Some u" by (simp add: assms(2) purchased_voucher_def)
  note ev = payment_events_effects [of w env now org p pu s1]
  obtain url v3 s3 where sy: "sync_hotspot_user_to_router env now org u pw p None (Some (purchase_comment p code))
      ''voucher_purchase'' (Some (str_int (pur_id pu))) (v, s2) = (url, v3, s3)" by (metis surj_pair)
  obtain f s4 where br: "bridge_hotspot_purchase_to_dashboard now org p (purchase_bridge now p pu u pw) (commit s3) = (f, s4)" by fastforce
  have "provision_purchase env now org pu p code u pw (v, s) = (f, v3, s4)"
    unfolding provision_purchase_def Let_def prod.case assms(2) [symmetric] s1_def [symmetric] s2_def [symmetric] sy br ..
  then have s': "s' = s4" using assms(1) by simp
  note sf = sync_hotspot_frame [OF sy] and bf = bridge_frame [OF br clean_commit]
  have s1': "plans (cur s1) = plans (cur s)" "org_settings (cur s1) = org_settings (cur s)"
    by (simp_all add: s1_def insert_voucher_def row_defs)
  show "plans (cur s') = plans (cur s)" "org_settings (cur s') = org_settings (cur s)"
    using portal_rows_eq [OF bf(2)] sf(7,9) ev(4,5) s1' wu by (simp_all add: s' s2_def)
  have s1: "vouchers (cur s1) = vouchers (cur s) @ [w]" "outbox (cur s1) = outbox (cur s)" "routers (cur s1) = routers (cur s)"
    "purchases (cur s1) = tbl_upd pur_id (pur_id pu) (\<lambda>x. x\<lparr>pur_voucher_code_id := Some (vch_id w)\<rparr>) (purchases (cur s))"
    by (simp_all add: s1_def insert_voucher_def row_defs)
  have rows: "vouchers (cur s') = vouchers (cur s1)" "outbox (cur s') = outbox (cur s2)" "commands (cur s') = commands (cur s3)"
    "purchases (cur s') = purchases (cur s1)"
    using portal_rows_eq [OF bf(2)] sf(1,8) sync_hotspot_outbox [OF sy] ev(1,2) wu by (simp_all add: s' s2_def)
  show "clean s'" using bf(1) by (simp add: s')
  show "vouchers (cur s') = vouchers (cur s) @ [w]"
    "purchases (cur s') = tbl_upd pur_id (pur_id pu) (\<lambda>x. x\<lparr>pur_voucher_code_id := Some (vch_id w)\<rparr>) (purchases (cur s))"
    by (simp_all only: rows s1)
  show "\<exists>e1 e2. outbox (cur s') = outbox (cur s) @ [e1, e2] \<and> ob_event_type e1 = ''payment.received'' \<and> ob_event_type e2 = ''subscriber.created''
      \<and> dict_get (ob_payload e2) ''username'' = Some (Some u) \<and> ob_published_at e1 = None \<and> ob_published_at e2 = None"
    using ev(6) wu by (simp add: rows(2) s2_def s1(2))
  have "active_router org (cur s2) = active_router org (cur s)" using ev(3) s1(3) wu by (simp add: s2_def active_router_def)
  then show "active_router org (cur s) = Some rt \<Longrightarrow> has_agent rt \<Longrightarrow>
      \<exists>c \<in> set (commands (cur s')). cmd_router_id c = rt_id rt \<and> creates_user u pw p c"
    using sync_hotspot_queues_user(1) [OF sy, of rt] by (simp add: rows(3))
qed

lemma process_successful_payment_effects:
  assumes "process_successful_payment env now org pu (v, s) = (r, v', s')"
    "tbl_get plan_id (pur_plan_id pu) (plans (cur s)) = Some p" "uniq os_organization_id (org_settings (cur s))"
    "code = generate_code (pe_choice env) ''XXXX-XXXX-XXXX'' 8" "voucher_row_ok code (cur s)"
  obtains failed u pw w e1 e2 where "r = Inr failed" "clean s'" "w = purchased_voucher now (voucher_seq (cur s)) org p pu code u pw"
    "vouchers (cur s') = vouchers (cur s) @ [w]"
    "purchases (cur s') = tbl_upd pur_id (pur_id pu) (paid now (vch_id w)) (purchases (cur s))"
    "outbox (cur s') = outbox (cur s) @ [e1, e2]" "ob_event_type e1 = ''payment.received''" "ob_event_type e2 = ''subscriber.created''"
    "dict_get (ob_payload e2) ''username'' = Some (Some u)" "ob_published_at e1 = None" "ob_published_at e2 = None"
    "\<And>rt. active_router org (cur s) = Some rt \<Longrightarrow> has_agent rt \<Longrightarrow> \<exists>c \<in> set (commands (cur s')). cmd_router_id c = rt_id rt \<and> creates_user u pw p c"
    "plans (cur s') = plans (cur s)" "uniq os_organization_id (org_settings (cur s'))"
proof -
  define s1 where "s1 = on_db (upd_purchase (pur_id pu) (\<lambda>x. x\<lparr>pur_payment_status := ''completed'', pur_completed_at := Some now\<rparr>)) s"
  have s1: "org_settings (cur s1) = org_settings (cur s)" "plans (cur s1) = plans (cur s)" "vouchers (cur s1) = vouchers (cur s)"
    "voucher_seq (cur s1) = voucher_seq (cur s)" "routers (cur s1) = routers (cur s)" "outbox (cur s1) = outbox (cur s)"
    "purchases (cur s1) = tbl_upd pur_id (pur_id pu) (\<lambda>x. x\<lparr>pur_payment_status := ''completed'', pur_completed_at := Some now\<rparr>) (purchases (cur s))"
    by (simp_all add: s1_def row_defs)
  obtain g s2 where g: "generate_hotspot_credentials (pe_randbelow env) (org_id org) 3 s1 = (g, s2)" by fastforce
  obtain u pw where gi: "g = Inr (u, pw)"
    using generate_hotspot_credentials_effects(1) [OF _ g] assms(3) by (auto simp: s1)
  obtain t where t: "cur s2 = (cur s1)\<lparr>org_settings := t\<rparr>" using generate_hotspot_credentials_frame(1) [OF g] by blast
  obtain failed v3 s3 where pv: "provision_purchase env now org pu p code u pw (v, s2) = (failed, v3, s3)" by (metis surj_pair)
  have ok: "voucher_row_ok code (cur s2)" using assms(5) by (simp add: t s1 voucher_row_ok_def)
  have "process_successful_payment env now org pu (v, s) = (Inr failed, v3, s3)"
    unfolding process_successful_payment_def prod.case Let_def s1_def [symmetric] assms(4) [symmetric]
    by (simp add: s1(2) assms(2) g gi ok pv)
  then have out: "r = Inr failed" "s' = s3" using assms(1) by simp_all
  define w where "w = purchased_voucher now (voucher_seq (cur s2)) org p pu code u pw"
  note e = provision_purchase_effects [OF pv w_def]
  have w: "w = purchased_voucher now (voucher_seq (cur s)) org p pu code u pw" by (simp add: w_def t s1)
  have v: "vouchers (cur s') = vouchers (cur s) @ [w]" using e(2) by (simp add: out(2) t s1)
  have pu: "purchases (cur s') = tbl_upd pur_id (pur_id pu) (paid now (vch_id w)) (purchases (cur s))"
    unfolding out(2) e(3) by (simp add: t s1) (simp add: tbl_upd_def paid_def)
  have "active_router org (cur s2) = active_router org (cur s)" by (simp add: t s1 active_router_def)
  then have c: "\<exists>c \<in> set (commands (cur s')). cmd_router_id c = rt_id rt \<and> creates_user u pw p c"
    if "active_router org (cur s) = Some rt" "has_agent rt" for rt
    using e(5) that by (simp add: out(2))
  obtain e1 e2 where ev: "outbox (cur s') = outbox (cur s) @ [e1, e2]" "ob_event_type e1 = ''payment.received''" "ob_event_type e2 = ''subscriber.created''"
    "dict_get (ob_payload e2) ''username'' = Some (Some u)" "ob_published_at e1 = None" "ob_published_at e2 = None"
    using e(4) by (auto simp: out(2) t s1)
  have "plans (cur s') = plans (cur s)" "uniq os_organization_id (org_settings (cur s'))"
    using e(6,7) generate_hotspot_credentials_effects(4) [OF _ g] assms(3) by (simp_all add: out(2) t s1)
  with that [OF out(1) _ w v pu ev c] e(1) show ?thesis by (simp add: out(2))
qed

lemma filter_tbl_upd: "(\<And>x. P (f x) = P x) \<Longrightarrow> filter P (tbl_upd key k f t) = tbl_upd key k f (filter P t)"
  by (induction t) (auto simp: tbl_upd_def)

text \<open>
  C17. A confirmed payment is provisioned, and only once. The event of a payment whose purchase is
  found by its intent and not yet completed completes the purchase with a voucher of its own,
  already in use and with new credentials, records the two events of the sale for
  publication, and queues the command that creates the hotspot user on a router with the
  agent; all of this is committed even when mirroring it to the dashboard fails. Delivering
  the event again, at any later time, changes nothing.
\<close>

theorem payment_event_provisions_once:
  assumes "handle_treasury_payment_succeeded env now (Some intent) ref (v, s) = (r, v', s')"
    "filter (\<lambda>x. pur_treasury_payment_intent_id x = Some intent) (purchases (cur s)) = [pu]" "intent \<noteq> []"
    "pur_payment_status pu \<noteq> ''completed''" "tbl_get org_id (pur_organization_id pu) (organizations (cur s)) = Some org"
    "tbl_get plan_id (pur_plan_id pu) (plans (cur s)) = Some p" "uniq os_organization_id (org_settings (cur s))" "uniq pur_id (purchases (cur s))"
    "code = generate_code (pe_choice env) ''XXXX-XXXX-XXXX'' 8" "voucher_row_ok code (cur s)"
    "handle_treasury_payment_succeeded env2 now2 (Some intent) ref (v2, \<lparr>cur = saved s', saved = saved s'\<rparr>) = (r2, v3, s3)"
  shows "\<exists>u pw w e1 e2. r = Inr () \<and> vouchers (saved s') = vouchers (cur s) @ [w] \<and> vch_is_used w \<and> vch_used_at w = Some now
    \<and> vch_hotspot_username w = Some u \<and> vch_hotspot_password w = Some pw \<and> vch_plan_id w = plan_id p
    \<and> tbl_get pur_id (pur_id pu) (purchases (saved s')) = Some (paid now (vch_id w) pu)
    \<and> outbox (saved s') = outbox (cur s) @ [e1, e2] \<and> ob_event_type e1 = ''payment.received'' \<and> ob_event_type e2 = ''subscriber.created''
    \<and> (\<forall>rt. active_router org (cur s) = Some rt \<and> has_agent rt \<longrightarrow>
         (\<exists>c \<in> set (commands (saved s')). cmd_router_id c = rt_id rt \<and> creates_user u pw p c))
    \<and> r2 = Inr () \<and> v3 = v2 \<and> saved s3 = saved s'"
proof -
  obtain r1 v1 s1 where pr: "process_successful_payment env now org pu (v, s) = (r1, v1, s1)" by (metis surj_pair)
  obtain failed u pw w e1 e2 where e: "r1 = Inr failed" "clean s1" "w = purchased_voucher now (voucher_seq (cur s)) org p pu code u pw"
    "vouchers (cur s1) = vouchers (cur s) @ [w]"
    "purchases (cur s1) = tbl_upd pur_id (pur_id pu) (paid now (vch_id w)) (purchases (cur s))"
    "outbox (cur s1) = outbox (cur s) @ [e1, e2]" "ob_event_type e1 = ''payment.received''" "ob_event_type e2 = ''subscriber.created''"
    "\<And>rt. active_router org (cur s) = Some rt \<Longrightarrow> has_agent rt \<Longrightarrow> \<exists>c \<in> set (commands (cur s1)). cmd_router_id c = rt_id rt \<and> creates_user u pw p c"
    using process_successful_payment_effects [OF pr assms(6,7,9,10)] by metis
  have out: "r = Inr ()" "s' = s1"
    using assms(1-5) pr e(1) by (simp_all add: handle_treasury_payment_succeeded_def)
  have sv: "saved s' = cur s1" using e(2) by (simp add: out(2) clean_def)
  have "filter (\<lambda>x. pur_treasury_payment_intent_id x = Some intent) (purchases (saved s')) = [paid now (vch_id w) pu]"
    unfolding sv e(5) by (subst filter_tbl_upd) (simp_all add: assms(2) paid_def tbl_upd_def)
  then have again: "r2 = Inr () \<and> v3 = v2 \<and> saved s3 = saved s'"
    using assms(3,11) by (auto simp: handle_treasury_payment_succeeded_def paid_def)
  have "pu \<in> set (filter (\<lambda>x. pur_treasury_payment_intent_id x = Some intent) (purchases (cur s)))" unfolding assms(2) by simp
  then have "tbl_get pur_id (pur_id pu) (purchases (cur s)) = Some pu" using uniq_tbl_get [OF assms(8)] by simp
  then have "tbl_get pur_id (pur_id pu) (purchases (saved s')) = Some (paid now (vch_id w) pu)"
    unfolding sv e(5) by (simp add: tbl_get_tbl_upd paid_def)
  moreover have "vch_is_used w" "vch_used_at w = Some now" "vch_hotspot_username w = Some u" "vch_hotspot_password w = Some pw" "vch_plan_id w = plan_id p"
    by (simp_all add: e(3) purchased_voucher_def new_voucher_def)
  ultimately show ?thesis using out(1) e(4,6-9) again unfolding sv by blast
qed

text \<open>
  C21. The webhook is not idempotent. Sending the same success callback of a purchase again issues
  a second voucher for the one payment, in use and with credentials of its own, and queues a
  second hotspot user, in spite of the documentation; the purchase points to the second
  voucher only.
\<close>

theorem webhook_replay_issues_second_voucher:
  assumes "webhook_fields payload = (Some ref, Some ''completed'')" "ref \<noteq> []"
    "payment_webhook env now org payload (v, s) = (r, v', s')"
    "find_purchase org ref (cur s) = Inr (Some pu)" "tbl_get plan_id (pur_plan_id pu) (plans (cur s)) = Some p"
    "uniq os_organization_id (org_settings (cur s))"
    "code = generate_code (pe_choice env) ''XXXX-XXXX-XXXX'' 8" "voucher_row_ok code (cur s)"
    "code2 = generate_code (pe_choice env2) ''XXXX-XXXX-XXXX'' 8" "voucher_row_ok code2 (saved s')"
    "payment_webhook env2 now2 org payload (v2, \<lparr>cur = saved s', saved = saved s'\<rparr>) = (r2, v3, s3)"
  shows "\<exists>w1 w2. vouchers (saved s3) = vouchers (cur s) @ [w1, w2] \<and> vch_code w1 = code \<and> vch_code w2 = code2
    \<and> vch_is_used w1 \<and> vch_is_used w2 \<and> vch_value w1 = Some (pur_amount pu) \<and> vch_value w2 = Some (pur_amount pu)
    \<and> find_purchase org ref (saved s3) = Inr (Some (paid now2 (vch_id w2) (paid now (vch_id w1) pu)))
    \<and> length (outbox (saved s3)) = length (outbox (cur s)) + 4"
proof -
  have nb: "payload \<noteq> BadJson" using assms(1) by auto
  obtain r1 v1 s1 where pr: "process_successful_payment env now org pu (v, s) = (r1, v1, s1)" by (metis surj_pair)
  obtain failed u pw w1 e1 e2 where e: "r1 = Inr failed" "clean s1" "w1 = purchased_voucher now (voucher_seq (cur s)) org p pu code u pw"
    "vouchers (cur s1) = vouchers (cur s) @ [w1]" "purchases (cur s1) = tbl_upd pur_id (pur_id pu) (paid now (vch_id w1)) (purchases (cur s))"
    "outbox (cur s1) = outbox (cur s) @ [e1, e2]" "plans (cur s1) = plans (cur s)" "uniq os_organization_id (org_settings (cur s1))"
    using process_successful_payment_effects [OF pr assms(5,6,7,8)] by metis
  have sv: "saved s' = cur s1"
    using assms(1-4) nb pr e(1,2) by (simp add: payment_webhook_def clean_def)
  have keep: "find_purchase org ref d' = Inr (Some (paid t i y))"
    if "purchases d' = tbl_upd pur_id (pur_id y) (paid t i) (purchases d)" "find_purchase org ref d = Inr (Some y)" for d d' t i y
    using that filter_tbl_upd [of "\<lambda>x. pur_payment_reference x = Some ref \<and> pur_organization_id x = org_id org" "paid t i" pur_id "pur_id y" "purchases d"]
    by (simp add: find_purchase_def scalar_one_or_none_Some paid_def tbl_upd_def)
  note f1 = keep [OF e(5) assms(4)]
  let ?pu1 = "paid now (vch_id w1) pu" and ?s = "\<lparr>cur = saved s', saved = saved s'\<rparr>"
  obtain r3 v4 s4 where pr2: "process_successful_payment env2 now2 org ?pu1 (v2, ?s) = (r3, v4, s4)" by (metis surj_pair)
  have pl: "tbl_get plan_id (pur_plan_id ?pu1) (plans (cur ?s)) = Some p" using assms(5) e(7) by (simp add: sv paid_def)
  obtain failed2 u2 pw2 w2 e3 e4 where g: "r3 = Inr failed2" "clean s4" "w2 = purchased_voucher now2 (voucher_seq (cur ?s)) org p ?pu1 code2 u2 pw2"
    "vouchers (cur s4) = vouchers (cur ?s) @ [w2]" "purchases (cur s4) = tbl_upd pur_id (pur_id ?pu1) (paid now2 (vch_id w2)) (purchases (cur ?s))"
    "outbox (cur s4) = outbox (cur ?s) @ [e3, e4]"
    using process_successful_payment_effects [OF pr2 pl _ assms(9)] e(8) assms(10) by (metis sv session.select_convs(1))
  have sv3: "saved s3 = cur s4"
    using assms(1,2,11) nb f1 pr2 g(1,2) by (simp add: payment_webhook_def clean_def sv)
  have "find_purchase org ref (cur ?s) = Inr (Some ?pu1)" using f1 by (simp add: sv)
  note f2 = keep [OF g(5) this]
  show ?thesis
    by (intro exI [of _ w1] exI [of _ w2])
      (use f2 in \<open>simp add: sv3 g(4,6) sv e(4,6) e(3) g(3) purchased_voucher_def new_voucher_def paid_def\<close>)
qed

section \<open>A concrete run\<close>

definition purchase_db :: db where
  "purchase_db = portal_db\<lparr>purchases := [purchase0], purchase_seq := 2\<rparr>"

abbreviation sold_code :: string where
  "sold_code \<equiv> generate_code (pe_choice portal_env0) ''XXXX-XXXX-XXXX'' 8"

lemma purchase_db_simps:
  "purchases purchase_db = [purchase0]" "organizations purchase_db = [org0]" "plans purchase_db = [minute_plan]"
  "org_settings purchase_db = [settings0]" "vouchers purchase_db = [voucher0]"
  by (simp_all add: purchase_db_def portal_db_simps)

lemma purchase_db_rows:
  "tbl_get org_id (pur_organization_id purchase0) (organizations purchase_db) = Some org0"
  "tbl_get plan_id (pur_plan_id purchase0) (plans purchase_db) = Some minute_plan"
  "uniq os_organization_id (org_settings purchase_db)" "uniq pur_id (purchases purchase_db)"
  by (simp_all add: purchase_db_simps table_simps sample_rows minute_plan_def uniq_def)

lemma sold_code_fresh: "voucher_row_ok sold_code purchase_db"
  by code_simp

theorem payment_event_provisions_once_witness:
  "length (vouchers (saved (snd (snd (handle_treasury_payment_succeeded portal_env0 5 (Some ''i-1'') None ((), fresh purchase_db)))))) = 2"
proof -
  obtain r v' s' where p: "handle_treasury_payment_succeeded portal_env0 5 (Some ''i-1'') None ((), fresh purchase_db) = (r, v', s')"
    by (metis surj_pair)
  obtain r2 v3 s3 where q: "handle_treasury_payment_succeeded portal_env0 9 (Some ''i-1'') None ((), \<lparr>cur = saved s', saved = saved s'\<rparr>) = (r2, v3, s3)"
    by (metis surj_pair)
  have "filter (\<lambda>x. pur_treasury_payment_intent_id x = Some ''i-1'') (purchases (cur (fresh purchase_db))) = [purchase0]"
    "pur_payment_status purchase0 \<noteq> ''completed''"
    by (simp_all add: purchase_db_simps purchase0_def)
  note h = payment_event_provisions_once [OF p this(1) _ this(2) _ _ _ _ refl _ q]
  have "\<exists>w. vouchers (saved s') = vouchers purchase_db @ [w]"
    using h [simplified, OF purchase_db_rows sold_code_fresh] by blast
  then show ?thesis unfolding p by (auto simp: purchase_db_simps)
qed

definition paystack0 :: webhook_payload where
  "paystack0 = GatewayEvent ''charge.success'' (Some ''HS-NET-1'')"

definition other_env :: "unit portal_env" where
  \<comment> \<open>the draws of the second delivery\<close>
  "other_env = portal_env0\<lparr>pe_choice := (\<lambda>n xs. xs ! ((n + 1) mod length xs)), pe_token_urlsafe := ''tok2''\<rparr>"

theorem webhook_replay_issues_second_voucher_witness:
  "length (vouchers (saved (snd (snd (payment_webhook other_env 9 org0 paystack0
     ((), fresh (saved (snd (snd (payment_webhook portal_env0 5 org0 paystack0 ((), fresh purchase_db))))))))))) = 3"
proof -
  let ?p = "payment_webhook portal_env0 5 org0 paystack0 ((), fresh purchase_db)"
  obtain r v' s' where p: "?p = (r, v', s')" by (metis surj_pair)
  obtain r2 v3 s3 where q: "payment_webhook other_env 9 org0 paystack0 ((), fresh (saved s')) = (r2, v3, s3)" by (metis surj_pair)
  have "voucher_row_ok (generate_code (pe_choice other_env) ''XXXX-XXXX-XXXX'' 8) (saved (snd (snd ?p)))" by code_simp
  then have ok: "voucher_row_ok (generate_code (pe_choice other_env) ''XXXX-XXXX-XXXX'' 8) (saved s')" unfolding p by simp
  have w: "webhook_fields paystack0 = (Some ''HS-NET-1'', Some ''completed'')" by code_simp
  have f: "find_purchase org0 ''HS-NET-1'' (cur (fresh purchase_db)) = Inr (Some purchase0)"
    by (simp add: find_purchase_def purchase_db_simps sample_rows scalar_one_or_none_def)
  have pl: "tbl_get plan_id (pur_plan_id purchase0) (plans (cur (fresh purchase_db))) = Some minute_plan"
    "uniq os_organization_id (org_settings (cur (fresh purchase_db)))"
    "voucher_row_ok sold_code (cur (fresh purchase_db))"
    using purchase_db_rows sold_code_fresh by simp_all
  have "\<exists>w1 w2. vouchers (saved s3) = vouchers purchase_db @ [w1, w2]"
    using webhook_replay_issues_second_voucher [OF w _ p f pl(1,2) refl pl(3) refl ok q [unfolded fresh_def]] by auto
  then have "length (vouchers (saved s3)) = 3" by (auto simp: purchase_db_simps)
  then show ?thesis unfolding p snd_conv q by simp
qed

end
