(* ===== verification/Voucher_Ledger.thy ===== *)
theory Voucher_Ledger
  imports Portal_Purchase
begin

text \<open>
  What the vouchers promise: an abstract ledger in which a voucher is issued once, spent at most
  once and withdrawn for good, and the refinement of this ledger by every request that
  touches vouchers, from the portal (\<open>src/app/api/v1/portal/hotspot.py\<close>), the administration
  (\<open>src/app/api/v1/business/vouchers.py\<close>), the consumer of payment events
  (\<open>src/app/events/consumer.py\<close>) and the expiry pass
  (\<open>src/app/modules/subscriptions/expiry_manager.py\<close>).

  A request runs in a session of its own on the committed database, and what it has not committed
  at its end is lost.
\<close>

section \<open>The ledger\<close>

datatype entry = Unissued | Unspent | Spent | Withdrawn

type_synonym ledger = "int \<Rightarrow> entry"

inductive ledger_step :: "ledger \<Rightarrow> ledger \<Rightarrow> bool" where
  issue: "l i = Unissued \<Longrightarrow> ledger_step l (l(i := Unspent))"
| spend: "l i = Unspent \<Longrightarrow> ledger_step l (l(i := Spent))"
| withdraw: "l i \<noteq> Unissued \<Longrightarrow> ledger_step l (l(i := Withdrawn))"

text \<open>The order in which a voucher goes through its entries.\<close>

fun stage :: "entry \<Rightarrow> nat" where
  "stage Unissued = 0"
| "stage Unspent = 1"
| "stage Spent = 2"
| "stage Withdrawn = 3"

lemma stage_step: "ledger_step l l' \<Longrightarrow> stage (l i) \<le> stage (l' i)"
proof (induction rule: ledger_step.induct)
  case (withdraw l j)
  then show ?case by (cases "l i") auto
qed auto

section \<open>The ledger of a database\<close>

definition marks :: "db \<Rightarrow> (int \<times> bool) list \<times> int" where
  "marks d = (map (\<lambda>w. (vch_id w, vch_is_used w)) (vouchers d), voucher_seq d)"

definition ledger_of :: "(int \<times> bool) list \<times> int \<Rightarrow> ledger" where
  "ledger_of m i =
     (if i \<ge> snd m then Unissued
      else case map_of (fst m) i of None \<Rightarrow> Withdrawn | Some used \<Rightarrow> if used then Spent else Unspent)"

definition ledger :: "db \<Rightarrow> ledger" where
  "ledger d = ledger_of (marks d)"

definition marks_ok :: "(int \<times> bool) list \<times> int \<Rightarrow> bool" where
  "marks_ok m \<longleftrightarrow> distinct (map fst (fst m)) \<and> (\<forall>(i, b) \<in> set (fst m). i < snd m)"

definition vouchers_ok :: "db \<Rightarrow> bool" where
  "vouchers_ok d \<longleftrightarrow> marks_ok (marks d)"

definition evolves :: "db \<Rightarrow> db \<Rightarrow> bool" where
  "evolves d d' \<longleftrightarrow> (vouchers_ok d \<longrightarrow> vouchers_ok d' \<and> ledger_step\<^sup>*\<^sup>* (ledger d) (ledger d'))"

lemma evolves_same: "marks d' = marks d \<Longrightarrow> evolves d d'"
  by (simp add: evolves_def vouchers_ok_def ledger_def)

lemma evolves_refl [simp]: "evolves d d"
  by (rule evolves_same) simp

lemma evolves_trans [trans]: "evolves d d1 \<Longrightarrow> evolves d1 d2 \<Longrightarrow> evolves d d2"
  by (auto simp: evolves_def)

lemma ledger_of_issue: "marks_ok (m, n) \<Longrightarrow> ledger_of (m @ [(n, b)], n + 1) = (ledger_of (m, n))(n := if b then Spent else Unspent)"
  by (auto simp: ledger_of_def marks_ok_def map_add_def fun_eq_iff dest!: map_of_SomeD split: option.splits)

lemma marks_ok_issue: "marks_ok (m, n) \<Longrightarrow> marks_ok (m @ [(n, b)], n + 1)"
  by (fastforce simp: marks_ok_def)

lemma evolves_issue:
  assumes "fst (marks d') = fst (marks d) @ [(voucher_seq d, b)]" "voucher_seq d' = voucher_seq d + 1"
  shows "evolves d d'"
  unfolding evolves_def
proof (intro impI conjI)
  assume ok: "vouchers_ok d"
  let ?m = "fst (marks d)" and ?n = "voucher_seq d"
  have d: "marks d = (?m, ?n)" and d': "marks d' = (?m @ [(?n, b)], ?n + 1)"
    using assms by (simp_all add: marks_def)
  have mo: "marks_ok (?m, ?n)" using ok d by (simp add: vouchers_ok_def)
  show "vouchers_ok d'" using marks_ok_issue [OF mo] by (simp add: vouchers_ok_def d')
  have l: "ledger d' = (ledger d)(?n := if b then Spent else Unspent)"
    unfolding ledger_def d' ledger_of_issue [OF mo] d [symmetric] ..
  have "ledger d ?n = Unissued" by (simp add: ledger_def ledger_of_def marks_def)
  then have i: "ledger_step (ledger d) ((ledger d)(?n := Unspent))" by (rule issue)
  have s: "ledger_step ((ledger d)(?n := Unspent)) ((ledger d)(?n := Unspent, ?n := Spent))" by (rule spend) simp
  show "ledger_step\<^sup>*\<^sup>* (ledger d) (ledger d')"
    using i s unfolding l by (cases b) (auto intro: rtranclp.intros)
qed

lemma map_of_mark: "distinct (map fst m) \<Longrightarrow> map_of (map (\<lambda>(j, b). (j, b \<or> j = i)) m) k = map_option (\<lambda>b. b \<or> k = i) (map_of m k)"
  by (induction m) auto

lemma evolves_spend:
  assumes "marks d' = (map (\<lambda>(j, b). (j, b \<or> j = i)) (fst (marks d)), voucher_seq d)" "(i, False) \<in> set (fst (marks d))"
  shows "evolves d d'"
  unfolding evolves_def
proof (intro impI conjI)
  assume ok: "vouchers_ok d"
  let ?m = "fst (marks d)"
  have d: "ledger d = ledger_of (?m, voucher_seq d)" by (simp add: ledger_def marks_def)
  have dm: "distinct (map fst ?m)" and lt: "\<forall>(j, b) \<in> set ?m. j < voucher_seq d"
    using ok unfolding vouchers_ok_def marks_ok_def by (simp_all add: marks_def)
  have "map fst (map (\<lambda>(j, b). (j, b \<or> j = i)) ?m) = map fst ?m" by auto
  then have "distinct (map fst (fst (marks d')))" using dm by (simp only: assms(1) fst_conv)
  then show "vouchers_ok d'" using lt by (auto simp: vouchers_ok_def marks_ok_def assms(1))
  have mi: "map_of ?m i = Some False" using dm assms(2) by simp
  have "i < voucher_seq d" using lt assms(2) by auto
  then have "ledger d' = (ledger d)(i := Spent)" "ledger d i = Unspent"
    using mi unfolding d by (auto simp: ledger_def assms(1) ledger_of_def map_of_mark [OF dm] fun_eq_iff split: option.splits)
  then show "ledger_step\<^sup>*\<^sup>* (ledger d) (ledger d')" using spend [of "ledger d" i] by auto
qed

lemma evolves_withdraw:
  assumes "vouchers d' = filter (\<lambda>w. vch_id w \<noteq> i) (vouchers d)" "voucher_seq d' = voucher_seq d" "i \<in> vch_id ` set (vouchers d)"
  shows "evolves d d'"
  unfolding evolves_def
proof (intro impI conjI)
  assume ok: "vouchers_ok d"
  have fst_marks: "fst (marks d') = filter (\<lambda>x. fst x \<noteq> i) (fst (marks d))"
    by (simp add: marks_def assms(1) filter_map comp_def)
  then show "vouchers_ok d'"
    using ok assms(2) by (auto simp: vouchers_ok_def marks_ok_def marks_def distinct_map_filter comp_def)
  have "map_of (filter (\<lambda>x. fst x \<noteq> i) m) k = (if k = i then None else map_of m k)" for m :: "(int \<times> bool) list" and k
    by (induction m) auto
  moreover have "i < voucher_seq d" using ok assms(3) by (auto simp: vouchers_ok_def marks_ok_def marks_def)
  ultimately have "ledger d' = (ledger d)(i := Withdrawn)" "ledger d i \<noteq> Unissued"
    using fst_marks assms(2)
    by (auto simp: ledger_def ledger_of_def marks_def fun_eq_iff split: option.splits)
  then show "ledger_step\<^sup>*\<^sup>* (ledger d) (ledger d')" using withdraw [of "ledger d" i] by auto
qed

section \<open>Sessions\<close>

definition leads :: "dbs \<Rightarrow> dbs \<Rightarrow> bool" where
  \<comment> \<open>in the middle of a request\<close>
  "leads s s' \<longleftrightarrow> evolves (cur s) (cur s') \<and> (saved s' = saved s \<or> evolves (cur s) (saved s'))"

definition ends :: "dbs \<Rightarrow> dbs \<Rightarrow> bool" where
  \<comment> \<open>at the end of a request\<close>
  "ends s s' \<longleftrightarrow> saved s' = saved s \<or> evolves (cur s) (saved s')"

lemma leads_trans [trans]: "leads s s1 \<Longrightarrow> leads s1 s2 \<Longrightarrow> leads s s2"
  by (auto simp: leads_def intro: evolves_trans)

lemma leads_ends [trans]: "leads s s1 \<Longrightarrow> ends s1 s2 \<Longrightarrow> ends s s2"
  by (auto simp: leads_def ends_def intro: evolves_trans)

lemma ends_basic [simp]: "ends s s" "ends s (rollback s)" "ends s (commit s)" "leads s s" "leads s (commit s)"
  by (simp_all add: ends_def leads_def)

lemma ends_fresh: "ends (fresh d) s' \<Longrightarrow> evolves d (saved s')"
  by (auto simp: ends_def)

lemma leads_imp_ends: "leads s s' \<Longrightarrow> ends s s'"
  by (simp add: leads_def ends_def)

lemma leads_commit: "leads s s1 \<Longrightarrow> ends s (commit s1)"
  by (auto simp: leads_def ends_def)

lemma leads_same: "marks (cur s') = marks (cur s) \<Longrightarrow> saved s' = saved s \<or> marks (saved s') = marks (cur s) \<Longrightarrow> leads s s'"
  by (auto simp: leads_def intro: evolves_same)

section \<open>The requests\<close>

lemma credentials_lead:
  assumes "generate_hotspot_credentials randbelow i n s = (r, s')"
  shows "leads s s'"
proof -
  obtain t where "cur s' = (cur s)\<lparr>org_settings := t\<rparr>" using generate_hotspot_credentials_frame(1) [OF assms] by blast
  then have "marks (cur s') = marks (cur s)" by (simp add: marks_def)
  moreover have "saved s' = saved s \<or> saved s' = cur s'"
    using generate_hotspot_credentials_frame(2,3) [OF assms] by (cases r) auto
  ultimately show ?thesis by (auto intro: leads_same)
qed

lemma sync_hotspot_leads:
  assumes "sync_hotspot_user_to_router env now org un pw p mac comment source sid (v, s) = (url, v', s')"
  shows "leads s s'"
  using assms
  by (auto simp: sync_hotspot_user_to_router_def queue_agent_action_def queue_command_def row_defs Let_def marks_def
      intro!: leads_same split: option.splits if_splits sum.splits prod.splits)

lemma bridge_leads:
  assumes "bridge_hotspot_purchase_to_dashboard now org p b (commit s) = (failed, s')"
  shows "leads s s'"
proof -
  note bf = bridge_frame [OF assms clean_commit]
  have "marks (cur s') = marks (cur s)" using portal_rows_eq [OF bf(2)] by (simp add: marks_def)
  then show ?thesis using bf(1) by (auto simp: clean_def intro: leads_same)
qed

lemma marks_upd_voucher:
  assumes "\<And>x. vch_id (f x) = vch_id x" "\<And>x. vch_is_used (f x) = vch_is_used x"
  shows "marks (upd_voucher i f d) = marks d"
  using assms by (auto simp: marks_def row_defs tbl_upd_def)

lemma upd_voucher_leads:
  assumes "\<And>x. vch_id (f x) = vch_id x" "\<And>x. vch_is_used (f x) = vch_is_used x"
  shows "leads s (on_db (upd_voucher i f) s)"
  using marks_upd_voucher [of f, OF assms] by (auto intro: leads_same)

lemma marks_insert_session [simp]: "marks (insert_session x d) = marks d"
  by (simp add: marks_def insert_session_def)

lemma marks_upd_purchase [simp]: "marks (upd_purchase i f d) = marks d"
  by (simp add: marks_def row_defs)

lemma mark_used_leads:
  assumes "w \<in> set (vouchers (cur s))" "\<not> vch_is_used w"
  shows "leads s (on_db (upd_voucher (vch_id w) (mark_used now req)) s)"
proof -
  have "marks (upd_voucher (vch_id w) (mark_used now req) (cur s)) =
      (map (\<lambda>(j, b). (j, b \<or> j = vch_id w)) (fst (marks (cur s))), voucher_seq (cur s))"
    by (auto simp: marks_def row_defs tbl_upd_def mark_used_def)
  moreover have "(vch_id w, False) \<in> set (fst (marks (cur s)))" using assms by (force simp: marks_def)
  ultimately show ?thesis by (auto simp: leads_def intro: evolves_spend)
qed

lemma ensure_credentials_leads:
  assumes "ensure_credentials env org w s = (r, s')"
  shows "leads s s'"
proof (cases "has_credentials w")
  case False
  obtain x s1 where g: "generate_hotspot_credentials (pe_randbelow env) (org_id org) 3 s = (x, s1)" by fastforce
  have "leads s1 (on_db (upd_voucher (vch_id w) (with_credentials u p)) s1)" for u p
    by (rule upd_voucher_leads) (simp_all add: with_credentials_def)
  with credentials_lead [OF g] show ?thesis
    using assms False by (auto simp: ensure_credentials_def g andthen_def split: sum.splits intro: leads_trans)
qed (use assms in \<open>simp add: ensure_credentials_def\<close>)

lemma complete_redeem_ends:
  assumes "complete_redeem env now org req w p (v, s) = (r, v', s')" "w \<in> set (vouchers (cur s))" "\<not> vch_is_used w"
  shows "ends s s'"
proof -
  let ?s1 = "on_db (upd_voucher (vch_id w) (mark_used now req)) s"
  note m = mark_used_leads [OF assms(2,3), of now req]
  obtain r2 s2 where e: "ensure_credentials env org (mark_used now req w) ?s1 = (r2, s2)" by fastforce
  have l2: "leads s s2" using m ensure_credentials_leads [OF e] by (rule leads_trans)
  show ?thesis
  proof (cases r2)
    case (Inl x)
    then have "s' = rollback ?s1 \<or> s' = rollback s2"
      using assms(1) e by (auto simp: complete_redeem_def Let_def split: if_splits)
    then show ?thesis using leads_ends [OF m] leads_ends [OF l2] ends_basic(2) by blast
  next
    case (Inr w2)
    obtain url v4 s4 where sy: "redeem_sync env now org req w2 p (v, on_db (insert_session (redeem_session env now org req p (cur s2))) s2) = (url, v4, s4)"
      by (metis surj_pair)
    obtain f s6 where br: "bridge_hotspot_purchase_to_dashboard now org p (redeem_bridge w2 (now + hours_delta (access_window_hours p))) (commit s4) = (f, s6)"
      by fastforce
    have "leads s2 (on_db (insert_session (redeem_session env now org req p (cur s2))) s2)" by (rule leads_same) simp_all
    with l2 have "leads s (on_db (insert_session (redeem_session env now org req p (cur s2))) s2)" by (rule leads_trans)
    also note sync_hotspot_leads [OF sy [unfolded redeem_sync_def]]
    also note bridge_leads [OF br]
    finally have "ends s s6" by (rule leads_imp_ends)
    then show ?thesis
      using assms(1) leads_ends [OF m ends_basic(2)] leads_ends [OF l2 ends_basic(2)]
      unfolding complete_redeem_eq [OF e [unfolded Inr] sy br] by (auto split: if_splits)
  qed
qed

lemma filter_single: "filter P xs = [x] \<Longrightarrow> x \<in> set xs"
  by (metis filter_is_subset list.set_intros(1) subsetD)

lemma redeem_ends:
  assumes "redeem_voucher env now limited org req (v, s) = (r, v', s')"
  shows "ends s s'"
proof -
  have ex: "ends s (commit (on_db (upd_voucher i (\<lambda>x. x\<lparr>vch_status := VchExpired\<rparr>)) s))" for i
    by (rule leads_commit [OF upd_voucher_leads]) simp_all
  consider "s' = s" | i where "s' = commit (on_db (upd_voucher i (\<lambda>x. x\<lparr>vch_status := VchExpired\<rparr>)) s)"
    | w p where "w \<in> set (vouchers (cur s))" "\<not> vch_is_used w" "complete_redeem env now org req w p (v, s) = (r, v', s')"
    using assms
    by (auto simp: redeem_voucher_def scalar_one_or_none_Some dest!: filter_single split: if_splits sum.splits option.splits)
  then show ?thesis using ex complete_redeem_ends by cases auto
qed

lemma login_ends:
  assumes "hotspot_login env now limited org req (v, s) = (r, v', s')"
  shows "ends s s'"
proof -
  have ex: "ends s (commit (on_db (upd_voucher i (\<lambda>x. x\<lparr>vch_status := VchExpired\<rparr>)) s))" for i
    by (rule leads_commit [OF upd_voucher_leads]) simp_all
  have ins: "ends s1 (commit (on_db (insert_session x) s1))" "ends s1 (commit (on_db (upd_subscription k f) s1))" for x s1 k f
    by (auto intro!: leads_commit leads_same simp: marks_def row_defs insert_session_def)
  have l: "ends s (rollback s1)" "ends s (rollback (on_db g s1))" "ends s (commit (on_db (insert_session x) s1))" "ends s (commit (on_db (upd_subscription k f) s1))"
    if "sync_hotspot_user_to_router env now org un pw p mac c so i (v, s) = (url, v1, s1)" for un pw p mac c so i url v1 s1 x k f g
    using leads_ends [OF sync_hotspot_leads [OF that]] ins by (auto simp: ends_def [of s1 "rollback (on_db g s1)"])
  show ?thesis
    using assms ex l
    by (auto simp: hotspot_login_def login_by_voucher_def login_by_subscription_def Let_def
        split: if_splits sum.splits option.splits prod.splits)
qed

lemma insert_voucher_leads: "vch_id w = voucher_seq (cur s) \<Longrightarrow> leads s (on_db (insert_voucher w) s)"
  by (auto simp: leads_def marks_def insert_voucher_def row_defs intro!: evolves_issue)

lemma issue_vouchers_leads: "issue_vouchers rng now data org uid ks s = (r, s') \<Longrightarrow> leads s s'"
proof (induction ks arbitrary: s r)
  case (Cons k ks)
  obtain x s1 where g: "generate_hotspot_credentials (rng_randbelow rng k) org 3 s = (x, s1)" by fastforce
  note l1 = credentials_lead [OF g]
  show ?case
  proof (cases x)
    case (Inl e)
    then show ?thesis using Cons.prems l1 by (simp add: g)
  next
    case (Inr up)
    obtain u p where up: "up = (u, p)" by fastforce
    let ?s2 = "on_db (\<lambda>d. insert_voucher (batch_voucher rng now data org uid k u p (voucher_seq d)) d) s1"
    have "leads s1 (on_db (insert_voucher (batch_voucher rng now data org uid k u p (voucher_seq (cur s1)))) s1)"
      by (rule insert_voucher_leads) (simp add: batch_voucher_def new_voucher_def)
    moreover have "on_db (insert_voucher (batch_voucher rng now data org uid k u p (voucher_seq (cur s1)))) s1 = ?s2" by (simp add: session_eqI)
    ultimately have l2: "leads s ?s2" using leads_trans [OF l1] by simp
    have "rollback s1 = s1" using generate_hotspot_credentials_frame(2) [OF g] Inr by (simp add: session_eqI)
    then show ?thesis
      using Cons.prems l1 leads_trans [OF l2 Cons.IH]
      by (auto simp: g Inr up Let_def andthen_def split: if_splits sum.splits prod.splits)
  qed
qed simp

lemma administration_ends:
  "generate_vouchers rng now data org uid s = (r1, s1) \<Longrightarrow> ends s s1"
  "update_voucher i status expires_at org s = (r2, s2) \<Longrightarrow> ends s s2"
  "delete_voucher i org s = (r3, s3) \<Longrightarrow> ends s s3"
proof -
  show "ends s s1" if "generate_vouchers rng now data org uid s = (r1, s1)"
    using that issue_vouchers_leads [of rng now data org uid "[0..<bq_count data]" s]
    by (auto simp: generate_vouchers_def andthen_def intro: leads_imp_ends leads_commit split: if_splits sum.splits prod.splits)
  show "ends s s2" if "update_voucher i status expires_at org s = (r2, s2)"
    using that by (auto simp: update_voucher_def Let_def intro!: leads_commit upd_voucher_leads split: sum.splits option.splits if_splits)
  show "ends s s3" if d: "delete_voucher i org s = (r3, s3)"
  proof (cases "find_voucher i org (cur s)")
    case (Inr o')
    show ?thesis
    proof (cases o')
      case (Some w)
      then have "w \<in> set (vouchers (cur s)) \<and> vch_id w = i"
        using Inr by (force simp: find_voucher_def scalar_one_or_none_Some dest: filter_eq_ConsD)
      then show ?thesis
        using d Inr Some by (auto simp: delete_voucher_def ends_def intro!: evolves_withdraw [of _ i])
    qed (use d Inr in \<open>auto simp: delete_voucher_def\<close>)
  qed (use d in \<open>auto simp: delete_voucher_def\<close>)
qed

lemma expire_voucher_leads:
  assumes "expire_voucher env now grace c (v, s) = (r, v', s')"
  shows "leads s s'"
proof -
  have "leads s s1" if "expire_hotspot_user_on_router env now org un (v, s) = (b, v1, s1)" for org un b v1 s1
    using that
    by (auto simp: expire_hotspot_user_on_router_def queue_command_def row_defs Let_def marks_def intro!: leads_same
        split: option.splits if_splits prod.splits)
  moreover have "leads s1 (on_db (upd_voucher i (\<lambda>x. x\<lparr>vch_status := VchExpired\<rparr>)) s1)" for s1 i
    by (rule upd_voucher_leads) simp_all
  ultimately have "leads s (on_db (upd_voucher i (\<lambda>x. x\<lparr>vch_status := VchExpired\<rparr>)) s1)"
    if "expire_hotspot_user_on_router env now org un (v, s) = (b, v1, s1)" for org un b v1 s1 i
    using that leads_trans by blast
  then show ?thesis
    using assms by (auto simp: expire_voucher_def split: if_splits prod.splits)
qed

lemma expiry_batch_leads: "run_batch (expire_voucher env now grace) cs (v, s) = (rs, v', s') \<Longrightarrow> leads s s'"
proof (induction cs arbitrary: v s rs)
  case (Cons c cs)
  obtain r v1 s1 where st: "expire_voucher env now grace c (v, s) = (r, v1, s1)" by (metis surj_pair)
  then show ?case using Cons expire_voucher_leads [OF st] by (auto split: prod.splits intro: leads_trans)
qed simp

lemma hotspot_pass_ends:
  assumes "process_expired_hotspot_users env now grace n (v, s) = (r, v', s')"
  shows "ends s s'"
proof -
  obtain rs v1 s1 where b: "run_batch (expire_voucher env now grace) (used_candidates n (cur s) @ purchased_candidates n (cur s)) (v, s) = (rs, v1, s1)"
    by (metis surj_pair)
  have "ends s1 (commit (on_db (sessions_update f) s1))" for f by (auto intro!: leads_commit leads_same simp: marks_def)
  then show ?thesis
    using assms b leads_ends [OF expiry_batch_leads [OF b]] by (auto simp: process_expired_hotspot_users_def)
qed

lemma marks_payment_events [simp]: "marks (cur (payment_events env now org p pu w s)) = marks (cur s)"
  by (simp add: payment_events_def record_event_def marks_def row_defs Let_def)

lemma saved_payment_events [simp]: "saved (payment_events env now org p pu w s) = saved s"
  by (simp add: payment_events_def record_event_def Let_def)

lemma provision_leads:
  assumes "provision_purchase env now org pu p code u pw (v, s) = (failed, v', s')"
  shows "leads s s'"
proof -
  define w where "w = purchased_voucher now (voucher_seq (cur s)) org p pu code u pw"
  define s1 where "s1 = on_db (\<lambda>d. upd_purchase (pur_id pu) (\<lambda>x. x\<lparr>pur_voucher_code_id := Some (vch_id w)\<rparr>) (insert_voucher w d)) s"
  define s2 where "s2 = commit (payment_events env now org p pu w s1)"
  obtain url v3 s3 where sy: "sync_hotspot_user_to_router env now org u pw p None (Some (purchase_comment p code))
      ''voucher_purchase'' (Some (str_int (pur_id pu))) (v, s2) = (url, v3, s3)" by (metis surj_pair)
  obtain f s4 where br: "bridge_hotspot_purchase_to_dashboard now org p (purchase_bridge now p pu u pw) (commit s3) = (f, s4)" by fastforce
  have "provision_purchase env now org pu p code u pw (v, s) = (f, v3, s4)"
    unfolding provision_purchase_def Let_def prod.case w_def [symmetric] s1_def [symmetric] s2_def [symmetric] sy br ..
  then have s': "s' = s4" using assms by simp
  have "leads s (on_db (insert_voucher w) s)"
    by (rule insert_voucher_leads) (simp add: w_def purchased_voucher_def new_voucher_def)
  also have "leads (on_db (insert_voucher w) s) s1" by (rule leads_same) (simp_all add: s1_def)
  also have "leads s1 s2" by (rule leads_same) (simp_all add: s2_def)
  also note sync_hotspot_leads [OF sy]
  also note bridge_leads [OF br]
  finally show ?thesis by (simp add: s')
qed

lemma payment_ends:
  assumes "process_successful_payment env now org pu (v, s) = (r, v', s')"
  shows "ends s s'"
proof -
  let ?f = "\<lambda>x. x\<lparr>pur_payment_status := ''completed'', pur_completed_at := Some now\<rparr>"
  define s1 where "s1 = on_db (upd_purchase (pur_id pu) ?f) s"
  have l1: "leads s s1" by (rule leads_same) (simp_all add: s1_def)
  obtain g s2 where g: "generate_hotspot_credentials (pe_randbelow env) (org_id org) 3 s1 = (g, s2)" by fastforce
  have l2: "leads s s2" using l1 credentials_lead [OF g] by (rule leads_trans)
  have pv: "ends s s3" if "provision_purchase env now org pu p code u pw (v, s2) = (failed, v3, s3)" for p code u pw failed v3 s3
    using leads_trans [OF l2 provision_leads [OF that]] by (rule leads_imp_ends)
  have fin: "ends s (commit s1)" "ends s (commit s2)" "ends s (rollback s2)"
    using leads_commit [OF l1] leads_commit [OF l2] leads_ends [OF l2 ends_basic(2)] by simp_all
  consider "s' = commit s1" | "s' = commit s2" | "s' = rollback s2"
    | p code u pw failed v3 where "provision_purchase env now org pu p code u pw (v, s2) = (failed, v3, s')"
    using assms unfolding process_successful_payment_def prod.case Let_def s1_def [symmetric] g
    by (auto split: option.splits sum.splits prod.splits if_splits)
  then show ?thesis using pv fin by cases auto
qed

lemma set_purchase_status_ends: "ends s (set_purchase_status i st s)"
  unfolding set_purchase_status_def by (rule leads_commit [OF leads_same]) simp_all

lemma confirmations_end:
  "payment_webhook env now org payload (v, s) = (r1, v1, s1) \<Longrightarrow> ends s s1"
  "get_payment_status env tr now org reference (v, s) = (r2, v2, s2) \<Longrightarrow> ends s s2"
  "handle_treasury_payment_succeeded env now intent ref (v, s) = (r3, v3, s3) \<Longrightarrow> ends s s3"
proof -
  show "ends s s1" if "payment_webhook env now org payload (v, s) = (r1, v1, s1)"
    using that payment_ends [of env now org _ v s] set_purchase_status_ends
    by (auto simp: payment_webhook_def split: prod.splits sum.splits option.splits if_splits)
  have "ends s s'" if "confirm_by_poll env tr now org pu (v, s) = (r, v', s')" for pu r v' s'
    using that payment_ends [of env now org _ v s] set_purchase_status_ends
    by (auto simp: confirm_by_poll_def split: sum.splits if_splits)
  then show "ends s s2" if "get_payment_status env tr now org reference (v, s) = (r2, v2, s2)"
    using that by (auto simp: get_payment_status_def split: prod.splits sum.splits option.splits bool.splits)
  show "ends s s3" if "handle_treasury_payment_succeeded env now intent ref (v, s) = (r3, v3, s3)"
    using that payment_ends [of env now _ _ v s]
    by (auto simp: handle_treasury_payment_succeeded_def Let_def split: prod.splits sum.splits option.splits if_splits)
qed

section \<open>The machine\<close>

datatype 'dev voucher_request =
  Redeem "'dev portal_env" datetime bool organization redeem_request
| Login "'dev portal_env" datetime bool organization login_request
| Generate voucher_rng datetime batch_request int int
| Change int "VoucherStatusFilter option" "datetime option" int
| Remove int int
| HotspotPass "'dev sub_env" datetime int nat
| Webhook "'dev portal_env" datetime organization webhook_payload
| Poll "'dev portal_env" treasury datetime organization string
| PaymentEvent "'dev portal_env" datetime "string option" "string option"

definition end_request :: "'r \<times> 'dev \<times> dbs \<Rightarrow> 'dev \<times> db" where
  \<comment> \<open>the session is closed: only what was committed is left\<close>
  "end_request res = (fst (snd res), saved (snd (snd res)))"

fun serve :: "'dev voucher_request \<Rightarrow> 'dev \<times> db \<Rightarrow> 'dev \<times> db" where
  "serve (Redeem env now limited org req) (v, d) = end_request (redeem_voucher env now limited org req (v, fresh d))"
| "serve (Login env now limited org req) (v, d) = end_request (hotspot_login env now limited org req (v, fresh d))"
| "serve (Generate rng now data org uid) (v, d) = (v, saved (snd (generate_vouchers rng now data org uid (fresh d))))"
| "serve (Change i st expires_at org) (v, d) = (v, saved (snd (update_voucher i st expires_at org (fresh d))))"
| "serve (Remove i org) (v, d) = (v, saved (snd (delete_voucher i org (fresh d))))"
| "serve (HotspotPass env now grace n) (v, d) = end_request (process_expired_hotspot_users env now grace n (v, fresh d))"
| "serve (Webhook env now org payload) (v, d) = end_request (payment_webhook env now org payload (v, fresh d))"
| "serve (Poll env tr now org ref) (v, d) = end_request (get_payment_status env tr now org ref (v, fresh d))"
| "serve (PaymentEvent env now intent ref) (v, d) = end_request (handle_treasury_payment_succeeded env now intent ref (v, fresh d))"

lemma end_request_evolves:
  assumes "\<And>r v' s'. res = (r, v', s') \<Longrightarrow> ends (fresh d) s'"
  shows "evolves d (snd (end_request res))"
  using assms by (cases res) (auto simp: end_request_def intro: ends_fresh)

lemma session_evolves: "(\<And>r s'. res = (r, s') \<Longrightarrow> ends (fresh d) s') \<Longrightarrow> evolves d (saved (snd res))"
  by (cases res) (auto intro: ends_fresh)

lemma serve_evolves: "evolves d (snd (serve q (v, d)))"
  by (cases q)
    (auto intro!: end_request_evolves session_evolves
      dest: redeem_ends login_ends administration_ends hotspot_pass_ends confirmations_end)

interpretation voucher_ledger: refinement serve "\<lambda>vd. vouchers_ok (snd vd)" "\<lambda>vd. ledger (snd vd)" ledger_step
proof unfold_locales
  fix q :: "'a voucher_request" and vd :: "'a \<times> db"
  assume "vouchers_ok (snd vd)"
  then show "vouchers_ok (snd (serve q vd))" "ledger_step\<^sup>*\<^sup>* (ledger (snd vd)) (ledger (snd (serve q vd)))"
    using serve_evolves [of "snd vd" q "fst vd"] by (simp_all add: evolves_def)
qed

text \<open>The vouchers that a run of requests redeemed, in order: those of the redemptions that were answered with success.\<close>

fun redeemed :: "'dev voucher_request \<Rightarrow> 'dev \<times> db \<Rightarrow> int list" where
  "redeemed (Redeem env now limited org req) (v, d) =
     (if answered (fst (redeem_voucher env now limited org req (v, fresh d)))
      then map vch_id (filter (\<lambda>w. vch_organization_id w = org_id org \<and> vch_code w = redeem_key (rq_code req)) (vouchers d))
      else [])"
| "redeemed _ _ = []"

fun redemptions :: "'dev voucher_request list \<Rightarrow> 'dev \<times> db \<Rightarrow> int list" where
  "redemptions [] vd = []"
| "redemptions (q # qs) vd = redeemed q vd @ redemptions qs (serve q vd)"

lemma ledger_lookup:
  assumes "vouchers_ok d" "tbl_get vch_id i (vouchers d) = Some w"
  shows "ledger d i = (if vch_is_used w then Spent else Unspent)"
proof -
  have w: "w \<in> set (vouchers d)" "vch_id w = i" using tbl_get_Some [OF assms(2)] by auto
  then have "(i, vch_is_used w) \<in> set (fst (marks d))" by (force simp: marks_def)
  then have "map_of (fst (marks d)) i = Some (vch_is_used w)" "i < snd (marks d)"
    using assms(1) by (auto simp: vouchers_ok_def marks_ok_def)
  then show ?thesis by (simp add: ledger_def ledger_of_def)
qed

lemma redeem_voucher_spends:
  assumes "redeem_voucher env now limited org req (v, s) = (Inr resp, v', s')" "rv_success resp" "uniq vch_id (vouchers (cur s))"
  shows "\<exists>w w'. redeemable now org (rq_code req) (cur s) w \<and> tbl_get vch_id (vch_id w) (vouchers (saved s')) = Some w' \<and> vch_is_used w'"
proof -
  obtain w p where w: "redeemable now org (rq_code req) (cur s) w" and cr: "complete_redeem env now org req w p (v, s) = (Inr resp, v', s')"
    using redeem_voucher_success [OF assms(1,2)] by metis
  obtain w2 s2 url s4 where e: "ensure_credentials env org (mark_used now req w) (on_db (upd_voucher (vch_id w) (mark_used now req)) s) = (Inr w2, s2)"
    and sy: "redeem_sync env now org req w2 p (v, on_db (insert_session (redeem_session env now org req p (cur s2))) s2) = (url, v', s4)"
    and br: "bridge_hotspot_purchase_to_dashboard now org p (redeem_bridge w2 (now + hours_delta (access_window_hours p))) (commit s4) = (False, s')"
    by (rule complete_redeem_Inr [OF cr])
  have "tbl_get vch_id (vch_id w) (vouchers (cur s)) = Some w" using w assms(3) by (auto simp: redeemable_def intro: uniq_tbl_get)
  from redeem_rows(1,3) [OF e sy br this] w show ?thesis by blast
qed

lemma redeemed_spends:
  assumes "vouchers_ok d" "redeemed q (v, d) \<noteq> []"
  shows "\<exists>i. redeemed q (v, d) = [i] \<and> ledger d i = Unspent \<and> stage (ledger (snd (serve q (v, d))) i) \<ge> 2"
proof (cases q)
  case (Redeem env now limited org req)
  obtain r v' s' where p: "redeem_voucher env now limited org req (v, fresh d) = (r, v', s')" by (metis surj_pair)
  obtain resp where r: "r = Inr resp" "rv_success resp"
    using assms(2) answered_Inr [of r] by (auto simp: Redeem p split: if_splits)
  have u: "uniq vch_id (vouchers (cur (fresh d)))"
    using assms(1) by (simp add: vouchers_ok_def marks_ok_def marks_def uniq_def comp_def)
  let ?f = "filter (\<lambda>w. vch_organization_id w = org_id org \<and> vch_code w = redeem_key (rq_code req)) (vouchers d)"
  obtain w w' where w: "redeemable now org (rq_code req) d w" "tbl_get vch_id (vch_id w) (vouchers (saved s')) = Some w'" "vch_is_used w'"
    using redeem_voucher_spends [OF p [unfolded r(1)] r(2) u] by auto
  obtain x where x: "?f = [x]"
    using p r by (auto simp: redeem_voucher_def refused_def scalar_one_or_none_Some split: if_splits sum.splits option.splits)
  have "w \<in> set ?f" using w(1) by (simp add: redeemable_def)
  then have f: "?f = [w]" unfolding x by simp
  have sv: "snd (serve q (v, d)) = saved s'" by (simp add: Redeem p end_request_def)
  have ok': "vouchers_ok (saved s')" using serve_evolves [of d q v] assms(1) by (simp add: sv evolves_def)
  have "tbl_get vch_id (vch_id w) (vouchers d) = Some w" using w(1) u by (auto simp: redeemable_def intro: uniq_tbl_get)
  then have "ledger d (vch_id w) = Unspent" using ledger_lookup [OF assms(1)] w(1) by (simp add: redeemable_def)
  moreover have "ledger (saved s') (vch_id w) = Spent" using ledger_lookup [OF ok' w(2)] w(3) by simp
  ultimately show ?thesis using f r by (simp add: sv) (simp add: Redeem p answered_def)
qed (use assms in auto)

lemma stage_run: "vouchers_ok d \<Longrightarrow> stage (ledger d i) \<le> stage (ledger (snd (fold serve qs (v, d))) i)"
  using voucher_ledger.run_stable [of "\<lambda>l. stage (ledger d i) \<le> stage (l i)" "(v, d)" qs] stage_step order_trans by fastforce

lemma redemptions_unspent:
  assumes "vouchers_ok (snd vd)" "i \<in> set (redemptions qs vd)"
  shows "stage (ledger (snd vd) i) \<le> 1 \<and> 2 \<le> stage (ledger (snd (fold serve qs vd)) i)"
  using assms
proof (induction qs arbitrary: vd)
  case (Cons q qs)
  obtain v d where vd: "vd = (v, d)" by fastforce
  obtain v' d' where sv: "serve q (v, d) = (v', d')" by fastforce
  have ok: "vouchers_ok d" "vouchers_ok d'" using Cons.prems(1) voucher_ledger.serve_ok [of "(v, d)" q] by (simp_all add: vd sv)
  have up: "stage (ledger d i) \<le> stage (ledger d' i)"
    using stage_run [OF ok(1), of i "[q]" v] by (simp add: sv)
  show ?case
  proof (cases "i \<in> set (redeemed q (v, d))")
    case True
    then have "redeemed q (v, d) \<noteq> []" by auto
    from redeemed_spends [OF ok(1) this] True have "ledger d i = Unspent" "2 \<le> stage (ledger d' i)" by (auto simp: sv)
    moreover have "stage (ledger d' i) \<le> stage (ledger (snd (fold serve qs (v', d'))) i)" by (rule stage_run [OF ok(2)])
    ultimately show ?thesis by (simp add: vd sv)
  next
    case False
    then have "i \<in> set (redemptions qs (v', d'))" using Cons.prems(2) by (simp add: vd sv)
    then have "stage (ledger d' i) \<le> 1 \<and> 2 \<le> stage (ledger (snd (fold serve qs (v', d'))) i)"
      using Cons.IH [of "(v', d')"] ok(2) by simp
    with up show ?thesis by (simp add: vd sv)
  qed
qed simp

lemma redemptions_distinct: "vouchers_ok (snd vd) \<Longrightarrow> distinct (redemptions qs vd)"
proof (induction qs arbitrary: vd)
  case (Cons q qs)
  obtain v d where vd: "vd = (v, d)" by fastforce
  have ok: "vouchers_ok d" "vouchers_ok (snd (serve q (v, d)))"
    using Cons.prems voucher_ledger.serve_ok [of "(v, d)" q] by (simp_all add: vd)
  show ?case
  proof (cases "redeemed q (v, d) = []")
    case False
    obtain i where i: "redeemed q (v, d) = [i]" "2 \<le> stage (ledger (snd (serve q (v, d))) i)"
      using redeemed_spends [OF ok(1) False] by auto
    have "i \<notin> set (redemptions qs (serve q (v, d)))" using redemptions_unspent [OF ok(2)] i(2) by force
    with i Cons.IH [OF ok(2)] show ?thesis by (simp add: vd)
  qed (use Cons.IH [OF ok(2)] in \<open>simp add: vd\<close>)
qed simp

lemma stage_bounds: "stage e \<le> Suc 0 \<longleftrightarrow> e = Unissued \<or> e = Unspent" "2 \<le> stage e \<longleftrightarrow> e = Spent \<or> e = Withdrawn"
  by (cases e; simp)+

text \<open>
  C15. The vouchers implement the ledger. Every run of requests, in any order and at any times,
  keeps the ids of the vouchers unique and below the sequence, and changes the ledger of the
  committed database by issues, redemptions and withdrawals of the specification only. So no
  voucher is redeemed with success twice: each one redeemed in the run was not spent before
  it, and is spent or withdrawn for good after it.
\<close>

theorem vouchers_refine_ledger:
  assumes "vouchers_ok d" "fold serve qs (v, d) = (v', d')"
  shows "vouchers_ok d' \<and> ledger_step\<^sup>*\<^sup>* (ledger d) (ledger d') \<and> distinct (redemptions qs (v, d))
    \<and> (\<forall>i \<in> set (redemptions qs (v, d)). (ledger d i = Unissued \<or> ledger d i = Unspent) \<and> (ledger d' i = Spent \<or> ledger d' i = Withdrawn))"
  using voucher_ledger.run_ok [of "(v, d)" qs] voucher_ledger.run_refines [of "(v, d)" qs] redemptions_distinct [of "(v, d)" qs]
    redemptions_unspent [of "(v, d)" _ qs] assms
  by (simp add: stage_bounds)

section \<open>A concrete run\<close>

definition twice :: "unit voucher_request list" where
  \<comment> \<open>the same code redeemed twice\<close>
  "twice = [Redeem portal_env0 5 False org0 redeem0, Redeem portal_env0 9 False org0 redeem0]"

theorem vouchers_refine_ledger_witness:
  "redemptions twice ((), portal_db) = [1] \<and> (ledger (snd (fold serve twice ((), portal_db))) 1 = Spent
     \<or> ledger (snd (fold serve twice ((), portal_db))) 1 = Withdrawn)"
proof -
  obtain v' d' where f: "fold serve twice ((), portal_db) = (v', d')" by (metis surj_pair)
  have ok: "vouchers_ok portal_db" by (simp add: vouchers_ok_def marks_ok_def marks_def portal_db_def voucher0_def)
  have r: "redemptions twice ((), portal_db) = [1]" by code_simp
  from vouchers_refine_ledger [OF ok f] show ?thesis unfolding r f by simp
qed

end
