(* ===== verification/Identity.thy ===== *)
theory Identity
  imports Listing Samples
begin

text \<open>
  Tenants and users mirrored from the central identity service: the handlers of its events
  (\<open>src/app/events/consumer.py\<close>), the provisioning of a local user from the claims of a token
  (\<open>src/app/core/sso.py\<close>), and the search for a free name that both share with the registration of a
  provider (\<open>src/app/api/v1/onboarding.py\<close>).

  The search is a loop without a bound, so it is a partial function: the value \<^const>\<open>None\<close> is a loop
  that does not end. How the database driver reads a UUID given as text, and the random token of an
  unusable password, are arguments. The call that subscribes a new tenant to its trial plan goes to
  another service and has no effect here.
\<close>

section \<open>The search for a free name\<close>

partial_function (option) first_free :: "(string \<Rightarrow> bool) \<Rightarrow> (nat \<Rightarrow> string) \<Rightarrow> string \<Rightarrow> nat \<Rightarrow> string option" where
  "first_free taken candidate name k =
     (if \<not> taken name then Some name else first_free taken candidate (candidate k) (k + 1))"

declare first_free.simps [code]

definition isalnum :: "char \<Rightarrow> bool" where
  "isalnum c \<longleftrightarrow> isdigit c \<or> (let n = of_char c :: nat in 65 \<le> n \<and> n \<le> 90 \<or> 97 \<le> n \<and> n \<le> 122)"

definition base_slug_of :: "string \<Rightarrow> string" where
  "base_slug_of business_name =
     filter (\<lambda>c. isalnum c \<or> c = CHR ''-'') (map (\<lambda>c. if c = CHR '' '' then CHR ''-'' else c) (map lower business_name))"

definition slug_candidate :: "string \<Rightarrow> nat \<Rightarrow> string" where
  "slug_candidate base k = base @ ''-'' @ str_nat k"

definition slug_taken :: "db \<Rightarrow> string \<Rightarrow> bool" where
  "slug_taken d t \<longleftrightarrow> t \<in> org_slug ` set (organizations d)"

definition onboarding_slug :: "string \<Rightarrow> db \<Rightarrow> string option" where
  "onboarding_slug business_name d =
     first_free (slug_taken d) (slug_candidate (base_slug_of business_name)) (base_slug_of business_name) 1"

definition default_slug :: "string \<Rightarrow> string" where
  "default_slug tid = ''isp-'' @ take 8 tid"

definition tenant_candidate :: "string \<Rightarrow> nat \<Rightarrow> string" where
  "tenant_candidate base k = take 100 (base @ ''-'' @ str_nat k)"

definition username_taken :: "db \<Rightarrow> string \<Rightarrow> bool" where
  "username_taken d t \<longleftrightarrow> t \<in> usr_username ` set (users d)"

definition username_candidate :: "string \<Rightarrow> nat \<Rightarrow> string" where
  "username_candidate base k = take 50 (base @ ''_'' @ str_nat k)"

lemma first_free_result:
  assumes "first_free taken candidate name k = Some y"
  shows "\<not> taken y \<and> (y = name \<or> (\<exists>j \<ge> k. y = candidate j))"
proof (rule first_free.raw_induct [where P = "\<lambda>taken candidate name k y. \<not> taken y \<and> (y = name \<or> (\<exists>j \<ge> k. y = candidate j))", OF _ assms])
  fix ff :: "(string \<Rightarrow> bool) \<Rightarrow> (nat \<Rightarrow> string) \<Rightarrow> string \<Rightarrow> nat \<Rightarrow> string option"
    and taken :: "string \<Rightarrow> bool" and candidate :: "nat \<Rightarrow> string" and name k y
  assume IH: "\<And>taken candidate name k y. ff taken candidate name k = Some y \<Longrightarrow> \<not> taken y \<and> (y = name \<or> (\<exists>j \<ge> k. y = candidate j))"
    and r: "(if \<not> taken name then Some name else ff taken candidate (candidate k) (k + 1)) = Some y"
  show "\<not> taken y \<and> (y = name \<or> (\<exists>j \<ge> k. y = candidate j))"
  proof (cases "taken name")
    case True
    then have "ff taken candidate (candidate k) (k + 1) = Some y" using r by simp
    from IH [OF this] have "\<not> taken y \<and> (y = candidate k \<or> (\<exists>j \<ge> k + 1. y = candidate j))" .
    then show ?thesis by (metis add_leD1 order_refl)
  qed (use r in simp)
qed

lemma first_free_returns:
  assumes "\<not> taken (candidate j)" "j \<ge> k"
  shows "\<exists>y. first_free taken candidate name k = Some y"
  using assms(2)
proof (induction "j - k" arbitrary: k name)
  case 0
  then show ?case using assms(1) by (simp add: first_free.simps [of taken candidate name] first_free.simps [of taken candidate "candidate k"])
next
  case (Suc n)
  show ?case
  proof (cases "taken name")
    case True
    have "\<exists>y. first_free taken candidate (candidate k) (k + 1) = Some y" using Suc.hyps(1) [of "k + 1"] Suc.hyps(2) Suc.prems by simp
    with True show ?thesis by (simp add: first_free.simps [of taken candidate name])
  qed (simp add: first_free.simps [of taken candidate name])
qed

text \<open>Candidates that differ up to a bound: among them one is free when fewer names are taken.\<close>

locale name_search =
  fixes candidate :: "nat \<Rightarrow> string" and bound :: nat
  assumes candidates_differ: "inj_on candidate {1..<bound}"
begin

lemma some_candidate_free:
  assumes "finite names" "card names < bound - 1"
  shows "\<exists>j \<ge> 1. candidate j \<notin> names"
proof (rule ccontr)
  assume "\<not> ?thesis"
  then have "candidate ` {1..<bound} \<subseteq> names" by auto
  then have "card (candidate ` {1..<bound}) \<le> card names" by (rule card_mono [OF assms(1)])
  moreover have "card (candidate ` {1..<bound}) = bound - 1" by (simp only: card_image [OF candidates_differ] card_atLeastLessThan)
  ultimately show False using assms(2) by simp
qed

lemma search_ends:
  assumes "\<And>t. taken t \<longleftrightarrow> t \<in> names" "finite names" "card names < bound - 1"
  shows "\<exists>y. first_free taken candidate name 1 = Some y \<and> y \<notin> names"
proof -
  obtain j where "j \<ge> 1" "candidate j \<notin> names" using some_candidate_free [OF assms(2,3)] by blast
  then obtain y where "first_free taken candidate name 1 = Some y" using first_free_returns [of taken candidate j 1] assms(1) by blast
  then show ?thesis using first_free_result [of taken candidate name 1 y] assms(1) by auto
qed

end

lemma length_str_nat: "n < 10 ^ Suc d \<Longrightarrow> length (str_nat n) \<le> Suc d"
proof (induction d arbitrary: n)
  case 0
  then show ?case by (simp add: str_nat.simps [of n])
next
  case (Suc d)
  have "n div 10 < 10 ^ Suc d" using Suc.prems by (simp add: div_less_iff_less_mult)
  with Suc.IH [of "n div 10"] show ?case by (simp add: str_nat.simps [of n])
qed

lemma clipped_inj:
  assumes "length base + 2 + d \<le> n"
  shows "inj_on (\<lambda>k. take n (base @ [c] @ str_nat k)) {1..<10 ^ Suc d}"
proof (rule inj_onI)
  have t: "take n (base @ [c] @ str_nat k) = base @ [c] @ str_nat k" if "k < 10 ^ Suc d" for k
    using length_str_nat [OF that] assms by simp
  fix j k assume "j \<in> {1..<10 ^ Suc d}" "k \<in> {1..<10 ^ Suc d}" "take n (base @ [c] @ str_nat j) = take n (base @ [c] @ str_nat k)"
  then show "j = k" using t [of j] t [of k] by simp
qed

interpretation onboarding_names: name_search "slug_candidate base" bound for base bound
  by unfold_locales (auto simp: inj_on_def slug_candidate_def)

interpretation tenant_names: name_search "tenant_candidate (default_slug t)" "10 ^ Suc 80" for t
  by unfold_locales (use clipped_inj [of "default_slug t" 80 100 "CHR ''-''"] in \<open>simp add: tenant_candidate_def [abs_def] default_slug_def\<close>)

interpretation sso_names: name_search "username_candidate (take 40 t)" "10 ^ Suc 8" for t
  by unfold_locales (use clipped_inj [of "take 40 t" 8 50 "CHR ''_''"] in \<open>simp add: username_candidate_def [abs_def]\<close>)

section \<open>UUIDs\<close>

text \<open>
  \<open>uuid.UUID(text)\<close>: the prefixes \<open>urn:\<close> and \<open>uuid:\<close>, outer braces and all hyphens are dropped, the rest
  has to have 32 characters that \<open>int(_, 16)\<close> accepts. The value is the canonical text.
\<close>

definition hex_value :: "char \<Rightarrow> nat option" where
  "hex_value c =
     (let n = of_char c :: nat
      in if isdigit c then Some (n - 48) else if 97 \<le> n \<and> n \<le> 102 then Some (n - 87)
         else if 65 \<le> n \<and> n \<le> 70 then Some (n - 55) else None)"

fun hex_digits :: "bool \<Rightarrow> nat \<Rightarrow> string \<Rightarrow> nat option" where
  \<comment> \<open>digits with single underscores between them; the flag says that a digit came last\<close>
  "hex_digits d acc [] = (if d then Some acc else None)"
| "hex_digits d acc (c # cs) =
     (if c = CHR ''_'' then if d then hex_digits False acc cs else None
      else case hex_value c of None \<Rightarrow> None | Some h \<Rightarrow> hex_digits True (16 * acc + h) cs)"

definition int16 :: "string \<Rightarrow> nat option" where
  "int16 s =
     (let t = strip s;
          t = (if t \<noteq> [] \<and> hd t = CHR ''+'' then tl t else t)
      in if take 2 t = ''0x'' \<or> take 2 t = ''0X''
         then (if take 1 (drop 2 t) = ''_'' then hex_digits False 0 (drop 3 t) else hex_digits False 0 (drop 2 t))
         else hex_digits False 0 t)"

fun hex_text :: "nat \<Rightarrow> nat \<Rightarrow> string" where
  "hex_text 0 n = []"
| "hex_text (Suc k) n = hex_text k (n div 16) @ [let h = n mod 16 in if h < 10 then digit h else char_of (87 + h)]"

fun remove_all :: "string \<Rightarrow> string \<Rightarrow> string" where
  \<comment> \<open>\<open>str.replace(_, "")\<close>\<close>
  "remove_all w [] = []"
| "remove_all w (c # cs) =
     (if w \<noteq> [] \<and> take (length w) (c # cs) = w then remove_all w (drop (length w - 1) cs) else c # remove_all w cs)"

definition strip_braces :: "string \<Rightarrow> string" where
  "strip_braces t = (let p = (\<lambda>c. c = CHR ''{'' \<or> c = CHR ''}'') in rev (dropWhile p (rev (dropWhile p t))))"

definition uuid_text :: "nat \<Rightarrow> string" where
  "uuid_text n =
     (let h = hex_text 32 n
      in take 8 h @ ''-'' @ take 4 (drop 8 h) @ ''-'' @ take 4 (drop 12 h) @ ''-'' @ take 4 (drop 16 h) @ ''-'' @ drop 20 h)"

definition uuid_of :: "string \<Rightarrow> string option" where
  "uuid_of t =
     (let h = filter (\<lambda>c. c \<noteq> CHR ''-'') (strip_braces (remove_all ''uuid:'' (remove_all ''urn:'' t)))
      in if length h \<noteq> 32 then None else map_option uuid_text (int16 h))"

section \<open>Events of the identity service\<close>

type_synonym fields = "(string \<times> string) list"

record auth_event =
  ev_fields :: fields
  ev_payload :: "fields option"
  ev_data :: "fields option"
  ev_roles :: "string list"
  ev_is_platform_owner :: bool

definition payload_of :: "auth_event \<Rightarrow> fields" where
  "payload_of ev = (case ev_payload ev of Some p \<Rightarrow> p | None \<Rightarrow> (case ev_data ev of Some p \<Rightarrow> p | None \<Rightarrow> []))"

fun first_of :: "string option list \<Rightarrow> string option" where
  \<comment> \<open>\<open>a or b or ...\<close>, with \<^const>\<open>None\<close> for a last value that is not truthy\<close>
  "first_of [] = None"
| "first_of (x # xs) = (if truthy x then x else first_of xs)"

definition cleaned :: "string option \<Rightarrow> string" where
  "cleaned x = map lower (strip (or_str x []))"

definition tenant_id_of :: "auth_event \<Rightarrow> string option" where
  "tenant_id_of ev =
     (let p = payload_of ev
      in first_of [dict_get p ''tenant_id'', dict_get p ''id'', dict_get (ev_fields ev) ''tenant_id'', dict_get (ev_fields ev) ''aggregate_id''])"

definition isp_use_case :: "string \<Rightarrow> bool" where
  "isp_use_case u \<longleftrightarrow> u = [] \<or> u \<in> {''isp'', ''isp_billing'', ''ispbilling'', ''internet'', ''hotspot'', ''hotspot_business'', ''pppoe''}"

definition org_row_ok :: "organization \<Rightarrow> organization list \<Rightarrow> bool" where
  \<comment> \<open>unique columns, against the other rows, and the lengths of the columns\<close>
  "org_row_ok x others \<longleftrightarrow> org_uuid x \<notin> org_uuid ` set others \<and> org_slug x \<notin> org_slug ` set others \<and>
     (org_auth_tenant_id x = None \<or> org_auth_tenant_id x \<notin> org_auth_tenant_id ` set others) \<and>
     length (org_slug x) \<le> 100 \<and> length (org_name x) \<le> 200 \<and> length (or_str (org_auth_tenant_id x) []) \<le> 36 \<and>
     length (org_email x) \<le> 100 \<and> length (or_str (org_phone x) []) \<le> 20"

abbreviation RowError :: exn where
  "RowError \<equiv> Exn ''DBAPIError'' ''duplicate key value or value too long''"

definition find_tenant :: "string \<Rightarrow> string \<Rightarrow> string option \<Rightarrow> db \<Rightarrow> exn + organization option" where
  "find_tenant tid u slug d =
     (let by = (\<lambda>P. scalar_one_or_none (filter P (organizations d)))
      in case by (\<lambda>x. org_auth_tenant_id x = Some tid) of
           Inr None \<Rightarrow>
             (case by (\<lambda>x. org_uuid x = u) of
                Inr None \<Rightarrow> (case slug of None \<Rightarrow> Inr None | Some t \<Rightarrow> by (\<lambda>x. org_slug x = t))
              | r \<Rightarrow> r)
         | r \<Rightarrow> r)"

definition synced_tenant :: "string \<Rightarrow> string \<Rightarrow> string \<Rightarrow> string option \<Rightarrow> organization list \<Rightarrow> organization \<Rightarrow> organization" where
  \<comment> \<open>the slug is adopted unless another organisation has it\<close>
  "synced_tenant tid u name slug others org =
     (let org1 = org\<lparr>org_auth_tenant_id := Some tid, org_uuid := u, org_name := (if name \<noteq> [] then name else org_name org)\<rparr>
      in case slug of
           None \<Rightarrow> org1
         | Some t \<Rightarrow> if t \<in> org_slug ` set others then org1 else org1\<lparr>org_slug := t\<rparr>)"

definition sync_tenant :: "string \<Rightarrow> string \<Rightarrow> string \<Rightarrow> string option \<Rightarrow> organization \<Rightarrow> dbs \<Rightarrow> (exn + unit) \<times> dbs" where
  \<comment> \<open>a flush or the commit checks the row\<close>
  "sync_tenant tid u name slug org s =
     (let others = filter (\<lambda>x. org_id x \<noteq> org_id org) (organizations (cur s));
          org2 = synced_tenant tid u name slug others org
      in if org2 = org then (Inr (), s)
         else if \<not> org_row_ok org2 others then (Inl RowError, rollback s)
         else (Inr (), commit (on_db (organizations_update (tbl_upd org_id (org_id org) (\<lambda>_. org2))) s)))"

definition tenant_slug :: "string \<Rightarrow> string option \<Rightarrow> db \<Rightarrow> string option" where
  "tenant_slug tid slug d =
     (let base = (case slug of None \<Rightarrow> default_slug tid | Some t \<Rightarrow> t)
      in first_free (slug_taken d) (tenant_candidate base) base 1)"

definition new_tenant :: "datetime \<Rightarrow> int \<Rightarrow> string \<Rightarrow> string \<Rightarrow> string \<Rightarrow> string \<Rightarrow> fields \<Rightarrow> organization" where
  "new_tenant now i tid u name slug p =
     \<lparr>org_id = i, org_uuid = u, org_auth_tenant_id = Some tid, org_name = name, org_slug = slug,
      org_organization_type = OrgHotspot, org_status = OrgTrial,
      org_email = or_str (dict_get p ''contact_email'') (slug @ ''@sso.local''), org_phone = dict_get p ''contact_phone'',
      org_trial_ends_at = Some (now + days 14), org_subscription_ends_at = None, org_portal_domain = None\<rparr>"

definition create_tenant :: "datetime \<Rightarrow> string \<Rightarrow> string \<Rightarrow> string \<Rightarrow> string \<Rightarrow> fields \<Rightarrow> dbs \<Rightarrow> (exn + unit) \<times> dbs" where
  "create_tenant now tid u name slug p s =
     (let x = new_tenant now (organization_seq (cur s)) tid u name slug p
      in if \<not> org_row_ok x (organizations (cur s)) then (Inl RowError, rollback s)
         else (Inr (), commit (on_db (\<lambda>d. d\<lparr>organizations := organizations d @ [x], organization_seq := organization_seq d + 1\<rparr>) s)))"

definition tenant_name_of :: "fields \<Rightarrow> string" where
  "tenant_name_of p = or_str (first_of [dict_get p ''name'', dict_get p ''tenant_name'']) ''ISP Provider''"

definition tenant_slug_of :: "fields \<Rightarrow> string option" where
  "tenant_slug_of p = (let t = cleaned (first_of [dict_get p ''slug'', dict_get p ''tenant_slug'']) in if t = [] then None else Some t)"

definition use_case_of :: "fields \<Rightarrow> string" where
  "use_case_of p = cleaned (dict_get p ''use_case'')"

definition upsert_tenant :: "datetime \<Rightarrow> string \<Rightarrow> string \<Rightarrow> fields \<Rightarrow> dbs \<Rightarrow> ((exn + unit) \<times> dbs) option" where
  "upsert_tenant now tid u p s =
     (case find_tenant tid u (tenant_slug_of p) (cur s) of
        Inl e \<Rightarrow> Some (Inl e, s)
      | Inr (Some org) \<Rightarrow> Some (sync_tenant tid u (tenant_name_of p) (tenant_slug_of p) org s)
      | Inr None \<Rightarrow> map_option (\<lambda>t. create_tenant now tid u (tenant_name_of p) t p s) (tenant_slug tid (tenant_slug_of p) (cur s)))"

definition handle_auth_tenant :: "datetime \<Rightarrow> auth_event \<Rightarrow> dbs \<Rightarrow> ((exn + unit) \<times> dbs) option" where
  "handle_auth_tenant now ev s =
     (case tenant_id_of ev of
        None \<Rightarrow> Some (Inr (), s)
      | Some tid \<Rightarrow>
          if \<not> isp_use_case (use_case_of (payload_of ev)) then Some (Inr (), s)
          else case uuid_of tid of
            None \<Rightarrow> Some (Inr (), s)
          | Some u \<Rightarrow> upsert_tenant now tid u (payload_of ev) s)"

section \<open>Users\<close>

record sso_claims =
  cl_sub :: "string option"
  cl_email :: "string option"
  cl_full_name :: "string option"
  cl_roles :: "string list"
  cl_tenant_id :: "string option"
  cl_tenant_slug :: "string option"
  cl_is_platform_owner :: bool

definition map_global_roles_to_isp_role :: "string list \<Rightarrow> bool \<Rightarrow> UserRole" where
  "map_global_roles_to_isp_role role_names is_platform_owner =
     (let normalized = map (\<lambda>r. map lower (strip r)) role_names;
          any = (\<lambda>ts. list_ex (\<lambda>r. r \<in> set ts) normalized)
      in if is_platform_owner \<or> any [''platform_owner''] then PlatformOwner
         else if any [''superuser'', ''admin'', ''isp_admin'', ''owner''] then IspAdmin
         else if any [''technician'', ''isp_technician'', ''staff'', ''support''] then IspTechnician
         else Customer)"

fun isp_role_to_rbac_role_name :: "UserRole \<Rightarrow> string" where
  "isp_role_to_rbac_role_name PlatformOwner = ''superuser''"
| "isp_role_to_rbac_role_name IspAdmin = ''admin''"
| "isp_role_to_rbac_role_name IspTechnician = ''technician''"
| "isp_role_to_rbac_role_name Customer = ''customer''"

definition sync_role_obj :: "db \<Rightarrow> user \<Rightarrow> exn + user" where
  "sync_role_obj d u =
     (case scalar_one_or_none (filter (\<lambda>r. role_name r = isp_role_to_rbac_role_name (usr_role u)) (roles d)) of
        Inl e \<Rightarrow> Inl e
      | Inr None \<Rightarrow> Inr u
      | Inr (Some r) \<Rightarrow> Inr (u\<lparr>usr_role_id := Some (role_id r)\<rparr>))"

definition resolve_organization_id :: "(string \<Rightarrow> string option) \<Rightarrow> sso_claims \<Rightarrow> db \<Rightarrow> exn + int option" where
  \<comment> \<open>an error of the second query is caught\<close>
  "resolve_organization_id driver_uuid claims d =
     (let by_slug = (if truthy (cl_tenant_slug claims)
            then scalar_one_or_none (filter (\<lambda>x. org_slug x = the (cl_tenant_slug claims)) (organizations d)) else Inr None)
      in case by_slug of
           Inl e \<Rightarrow> Inl e
         | Inr (Some org) \<Rightarrow> Inr (Some (org_id org))
         | Inr None \<Rightarrow>
             if \<not> truthy (cl_tenant_id claims) then Inr None
             else case driver_uuid (the (cl_tenant_id claims)) of
               None \<Rightarrow> Inr None
             | Some u \<Rightarrow> (case scalar_one_or_none (filter (\<lambda>x. org_uuid x = u) (organizations d)) of
                            Inr (Some org) \<Rightarrow> Inr (Some (org_id org)) | _ \<Rightarrow> Inr None))"

definition local_part :: "string \<Rightarrow> string" where
  "local_part t = takeWhile (\<lambda>c. c \<noteq> CHR ''@'') t"

definition split_name :: "string option \<Rightarrow> string \<Rightarrow> string \<times> string" where
  "split_name full_name email =
     (let n = strip (or_str full_name [])
      in if n \<noteq> []
         then let first = takeWhile (\<lambda>c. c \<noteq> CHR '' '') n; last = drop (length first + 1) n
              in (first, if last \<noteq> [] then last else first)
         else let t = local_part (if email \<noteq> [] then email else ''user'') in (t, t))"

fun rank :: "UserRole \<Rightarrow> nat" where
  "rank Customer = 0"
| "rank IspTechnician = 1"
| "rank IspAdmin = 2"
| "rank PlatformOwner = 3"

definition synced_role :: "sso_claims \<Rightarrow> UserRole \<Rightarrow> UserRole" where
  "synced_role claims role =
     (let isp_role = map_global_roles_to_isp_role (cl_roles claims) (cl_is_platform_owner claims);
          incoming_has_roles = (cl_roles claims \<noteq> [] \<or> cl_is_platform_owner claims)
      in if incoming_has_roles \<and> role \<noteq> isp_role \<and> (rank isp_role \<ge> rank role \<or> isp_role \<noteq> Customer) then isp_role else role)"

definition linked :: "datetime \<Rightarrow> sso_claims \<Rightarrow> int option \<Rightarrow> user \<Rightarrow> user" where
  "linked now claims org u =
     u\<lparr>usr_auth_service_user_id := (if truthy (cl_sub claims) then cl_sub claims else usr_auth_service_user_id u),
       usr_auth_synced_at := Some now, usr_role := synced_role claims (usr_role u),
       usr_organization_id := (if org \<noteq> None \<and> usr_organization_id u = None \<and> \<not> cl_is_platform_owner claims
                               then org else usr_organization_id u)\<rparr>"

definition find_sso_user :: "sso_claims \<Rightarrow> string \<Rightarrow> db \<Rightarrow> exn + user option" where
  "find_sso_user claims email d =
     (let by_sub = (if truthy (cl_sub claims)
            then scalar_one_or_none (filter (\<lambda>u. usr_auth_service_user_id u = cl_sub claims) (users d)) else Inr None)
      in case by_sub of
           Inr None \<Rightarrow> (if email \<noteq> [] then scalar_one_or_none (filter (\<lambda>u. usr_email u = email) (users d)) else Inr None)
         | r \<Rightarrow> r)"

definition link_sso_user :: "datetime \<Rightarrow> sso_claims \<Rightarrow> int option \<Rightarrow> user \<Rightarrow> dbs \<Rightarrow> (exn + user) \<times> dbs" where
  "link_sso_user now claims org u s =
     (if length (or_str (cl_sub claims) []) > 255 then (Inl RowError, rollback s)
      else case sync_role_obj (cur s) (linked now claims org u) of
        Inl e \<Rightarrow> (Inl e, rollback s)
      | Inr u2 \<Rightarrow> (Inr u2, commit (on_db (users_update (tbl_upd usr_id (usr_id u) (\<lambda>_. u2))) s)))"

definition base_username :: "sso_claims \<Rightarrow> string \<Rightarrow> string" where
  "base_username claims email =
     (let sso = ''sso_'' @ (case cl_sub claims of None \<Rightarrow> ''None'' | Some t \<Rightarrow> t);
          t = take 40 (if email \<noteq> [] then local_part email else sso)
      in if t \<noteq> [] then t else sso)"

definition sso_username :: "sso_claims \<Rightarrow> string \<Rightarrow> db \<Rightarrow> string option" where
  "sso_username claims email d =
     first_free (username_taken d) (username_candidate (base_username claims email)) (base_username claims email) 1"

definition sso_user_row :: "string \<Rightarrow> datetime \<Rightarrow> sso_claims \<Rightarrow> string \<Rightarrow> int option \<Rightarrow> string \<Rightarrow> int \<Rightarrow> user" where
  "sso_user_row token now claims email org username i =
     \<lparr>usr_id = i, usr_organization_id = (if cl_is_platform_owner claims then None else org), usr_username = username,
      usr_email = (if email \<noteq> [] then email else username @ ''@sso.local''), usr_phone = None,
      usr_first_name = fst (split_name (cl_full_name claims) email), usr_last_name = snd (split_name (cl_full_name claims) email),
      usr_hashed_password = ''!sso!'' @ token, usr_is_verified = True, usr_is_active = True,
      usr_auth_service_user_id = (if truthy (cl_sub claims) then cl_sub claims else None), usr_auth_synced_at = Some now,
      usr_role = map_global_roles_to_isp_role (cl_roles claims) (cl_is_platform_owner claims), usr_status = UsrActive, usr_role_id = None, usr_last_login = None, usr_bio = None, usr_avatar_url = None\<rparr>"

definition user_row_ok :: "user \<Rightarrow> db \<Rightarrow> bool" where
  "user_row_ok u d \<longleftrightarrow> usr_username u \<notin> usr_username ` set (users d) \<and> usr_email u \<notin> usr_email ` set (users d) \<and>
     (usr_auth_service_user_id u = None \<or> usr_auth_service_user_id u \<notin> usr_auth_service_user_id ` set (users d)) \<and>
     length (usr_username u) \<le> 50 \<and> length (usr_email u) \<le> 100 \<and> length (usr_first_name u) \<le> 50 \<and> length (usr_last_name u) \<le> 50 \<and>
     length (or_str (usr_auth_service_user_id u) []) \<le> 255"

definition create_sso_user :: "string \<Rightarrow> datetime \<Rightarrow> sso_claims \<Rightarrow> string \<Rightarrow> int option \<Rightarrow> string \<Rightarrow> dbs \<Rightarrow> (exn + user) \<times> dbs" where
  "create_sso_user token now claims email org username s =
     (let u = sso_user_row token now claims email org username (user_seq (cur s))
      in if \<not> user_row_ok u (cur s) then (Inl RowError, rollback s)
         else
           let s1 = commit (on_db (\<lambda>d. d\<lparr>users := users d @ [u], user_seq := user_seq d + 1\<rparr>) s)
           in case sync_role_obj (cur s1) u of
                Inl e \<Rightarrow> (Inl e, s1)
              | Inr u2 \<Rightarrow> (Inr u2, commit (on_db (users_update (tbl_upd usr_id (usr_id u) (\<lambda>_. u2))) s1)))"

definition provision_sso_user ::
    "(string \<Rightarrow> string option) \<Rightarrow> string \<Rightarrow> datetime \<Rightarrow> sso_claims \<Rightarrow> dbs \<Rightarrow> ((exn + user) \<times> dbs) option" where
  "provision_sso_user driver_uuid token now claims s =
     (let email = cleaned (cl_email claims)
      in if \<not> truthy (cl_sub claims) \<and> email = [] then Some (Inl (Exn ''HTTPException'' ''401: SSO token missing subject/email''), s)
         else case find_sso_user claims email (cur s) of
           Inl e \<Rightarrow> Some (Inl e, s)
         | Inr found \<Rightarrow>
             (case resolve_organization_id driver_uuid claims (cur s) of
                Inl e \<Rightarrow> Some (Inl e, s)
              | Inr org \<Rightarrow>
                  (case found of
                     Some u \<Rightarrow> Some (link_sso_user now claims org u s)
                   | None \<Rightarrow> map_option (\<lambda>t. create_sso_user token now claims email org t s) (sso_username claims email (cur s)))))"

definition claims_of_event :: "auth_event \<Rightarrow> sso_claims" where
  "claims_of_event ev =
     (let p = payload_of ev
      in \<lparr>cl_sub = first_of [dict_get p ''user_id'', dict_get p ''id'', dict_get (ev_fields ev) ''aggregate_id''],
          cl_email = (let e = cleaned (dict_get p ''email'') in if e = [] then None else Some e),
          cl_full_name = (if truthy (dict_get p ''full_name'') then dict_get p ''full_name'' else dict_get p ''name''),
          cl_roles = ev_roles ev,
          cl_tenant_id = (if truthy (dict_get p ''tenant_id'') then dict_get p ''tenant_id'' else dict_get (ev_fields ev) ''tenant_id''),
          cl_tenant_slug = dict_get p ''tenant_slug'', cl_is_platform_owner = ev_is_platform_owner ev\<rparr>)"

definition handle_auth_user ::
    "(string \<Rightarrow> string option) \<Rightarrow> string \<Rightarrow> datetime \<Rightarrow> auth_event \<Rightarrow> dbs \<Rightarrow> ((exn + unit) \<times> dbs) option" where
  "handle_auth_user driver_uuid token now ev s =
     (let claims = claims_of_event ev
      in if \<not> truthy (cl_sub claims) \<and> \<not> truthy (cl_email claims) then Some (Inr (), s)
         else map_option (\<lambda>(r, s1). (case r of Inl e \<Rightarrow> Inl e | Inr _ \<Rightarrow> Inr (), s1)) (provision_sso_user driver_uuid token now claims s))"

section \<open>The searches end\<close>

lemma slug_names: "finite (org_slug ` set (organizations d))" "card (org_slug ` set (organizations d)) \<le> length (organizations d)"
  by (simp_all add: card_length order_trans [OF card_image_le])

lemma user_names: "finite (usr_username ` set (users d))" "card (usr_username ` set (users d)) \<le> length (users d)"
  by (simp_all add: card_length order_trans [OF card_image_le])

lemma first_free_now: "\<not> taken name \<Longrightarrow> first_free taken candidate name k = Some name"
  by (simp add: first_free.simps [of taken candidate name])

lemma find_tenant_None: "find_tenant tid u (Some t) d = Inr None \<Longrightarrow> \<not> slug_taken d t"
  by (auto simp: find_tenant_def slug_taken_def scalar_one_or_none_None filter_empty_conv split: sum.splits option.splits)

lemma tenant_slug_ends:
  assumes "find_tenant tid u slug d = Inr None" "length (organizations d) < 10 ^ 80"
  shows "\<exists>t. tenant_slug tid slug d = Some t \<and> \<not> slug_taken d t \<and> (\<forall>x. slug = Some x \<longrightarrow> t = x)"
proof (cases slug)
  case None
  have "card (org_slug ` set (organizations d)) < 10 ^ Suc 80 - 1" using slug_names(2) [of d] assms(2) by (simp add: less_le_trans)
  from tenant_names.search_ends [where taken = "slug_taken d" and name = "default_slug tid", OF slug_taken_def slug_names(1) this, of tid] None show ?thesis
    by (simp add: tenant_slug_def slug_taken_def Let_def)
next
  case (Some t)
  then show ?thesis using find_tenant_None [of tid u t d] assms(1) by (simp add: tenant_slug_def first_free_now)
qed

lemma base_username_take:
  assumes "take 1 email \<noteq> ''@''" "email \<noteq> [] \<or> truthy (cl_sub claims)"
  shows "\<exists>b. base_username claims email = take 40 b"
proof -
  have "local_part email \<noteq> []" if "email \<noteq> []" using that assms(1) by (cases email) (auto simp: local_part_def)
  then show ?thesis unfolding base_username_def Let_def
    by (cases "email = []") (auto intro: exI [of _ "''sso_'' @ t" for t])
qed

lemma sso_username_ends:
  assumes "take 1 email \<noteq> ''@''" "email \<noteq> [] \<or> truthy (cl_sub claims)" "length (users d) < 10 ^ 8"
  shows "\<exists>t. sso_username claims email d = Some t \<and> \<not> username_taken d t"
proof -
  obtain b where b: "base_username claims email = take 40 b" using base_username_take [OF assms(1,2)] by blast
  have "card (usr_username ` set (users d)) < 10 ^ Suc 8 - 1" using user_names(2) [of d] assms(3) by (simp add: less_le_trans)
  from sso_names.search_ends [where taken = "username_taken d" and name = "take 40 b", OF username_taken_def user_names(1) this] show ?thesis
    by (simp add: sso_username_def b username_taken_def)
qed

text \<open>
  C29. The unbounded searches for a free name end, each with a free name. Whatever the names that exist, as long as there
  are fewer than ten to the eighty tenants and a hundred million users, the registration of
  a provider, the handler of an event of an unknown tenant and the provisioning of a user find a slug or user name
  that nobody has, so that handler and provisioning return; for users, unless the address of the claims starts with the
  at sign.
\<close>

theorem name_searches_end:
  assumes "length (organizations (cur s)) < 10 ^ 80" "length (users (cur s)) < 10 ^ 8" "take 1 (cleaned (cl_email claims)) \<noteq> ''@''"
  shows "(\<exists>t. onboarding_slug business_name (cur s) = Some t \<and> \<not> slug_taken (cur s) t)
    \<and> (\<forall>tid u slug. find_tenant tid u slug (cur s) = Inr None \<longrightarrow> (\<exists>t. tenant_slug tid slug (cur s) = Some t \<and> \<not> slug_taken (cur s) t))
    \<and> (cleaned (cl_email claims) \<noteq> [] \<or> truthy (cl_sub claims) \<longrightarrow>
         (\<exists>t. sso_username claims (cleaned (cl_email claims)) (cur s) = Some t \<and> \<not> username_taken (cur s) t))
    \<and> (\<exists>r. handle_auth_tenant now ev s = Some r) \<and> (\<exists>r. provision_sso_user driver_uuid token now claims s = Some r)"
proof (intro conjI)
  have "card (org_slug ` set (organizations (cur s))) < 10 ^ Suc 80 - 1" using slug_names(2) [of "cur s"] assms(1) by (simp add: less_le_trans)
  from onboarding_names.search_ends [where taken = "slug_taken (cur s)" and name = "base_slug_of business_name", OF slug_taken_def slug_names(1) this]
  show "\<exists>t. onboarding_slug business_name (cur s) = Some t \<and> \<not> slug_taken (cur s) t"
    by (simp add: onboarding_slug_def slug_taken_def)
  show "\<forall>tid u slug. find_tenant tid u slug (cur s) = Inr None \<longrightarrow> (\<exists>t. tenant_slug tid slug (cur s) = Some t \<and> \<not> slug_taken (cur s) t)"
    using tenant_slug_ends [OF _ assms(1)] by blast
  show "cleaned (cl_email claims) \<noteq> [] \<or> truthy (cl_sub claims) \<longrightarrow>
      (\<exists>t. sso_username claims (cleaned (cl_email claims)) (cur s) = Some t \<and> \<not> username_taken (cur s) t)"
    using sso_username_ends [OF assms(3) _ assms(2)] by blast
  have t: "tenant_slug tid slug (cur s) \<noteq> None" if "find_tenant tid u slug (cur s) = Inr None" for tid u slug
    using tenant_slug_ends [OF that assms(1)] by auto
  have "handle_auth_tenant now ev s \<noteq> None"
    unfolding handle_auth_tenant_def upsert_tenant_def by (auto dest: t split: option.split sum.split)
  then show "\<exists>r. handle_auth_tenant now ev s = Some r" by blast
  have u: "sso_username claims (cleaned (cl_email claims)) (cur s) \<noteq> None"
    if "cleaned (cl_email claims) \<noteq> [] \<or> truthy (cl_sub claims)"
    using sso_username_ends [OF assms(3) that assms(2)] by auto
  have "provision_sso_user driver_uuid token now claims s \<noteq> None"
    unfolding provision_sso_user_def Let_def using u by (auto split: option.split sum.split simp del: not_None_eq)
  then show "\<exists>r. provision_sso_user driver_uuid token now claims s = Some r" by blast
qed

text \<open>The clipped candidates of a base of fifty characters are all the same: if it is taken, the search never ends.\<close>

lemma clipped_search_spins:
  assumes "length base = 50" "username_taken d base"
  shows "first_free (username_taken d) (username_candidate base) base 1 = None"
proof (rule ccontr)
  assume "\<not> ?thesis"
  then obtain y where "first_free (username_taken d) (username_candidate base) base 1 = Some y" by auto
  from first_free_result [OF this] assms show False by (auto simp: username_candidate_def)
qed

section \<open>Tenants\<close>

definition orgs_ok :: "db \<Rightarrow> bool" where
  "orgs_ok d \<longleftrightarrow> uniq org_id (organizations d) \<and> uniq org_uuid (organizations d) \<and> uniq org_slug (organizations d) \<and>
     uniq org_auth_tenant_id (filter (\<lambda>x. org_auth_tenant_id x \<noteq> None) (organizations d)) \<and>
     (\<forall>x \<in> set (organizations d). org_id x < organization_seq d)"

lemma tenant_unique:
  assumes "orgs_ok d" "x \<in> set (organizations d)" "org_auth_tenant_id x = Some tid"
  shows "filter (\<lambda>y. org_auth_tenant_id y = Some tid) (organizations d) = [x]"
proof -
  let ?f = "filter (\<lambda>x. org_auth_tenant_id x \<noteq> None) (organizations d)"
  have u: "uniq org_auth_tenant_id ?f" and x: "x \<in> set ?f" using assms by (simp_all add: orgs_ok_def)
  have "filter (\<lambda>y. org_auth_tenant_id y = Some tid) ?f = [x]"
    using uniq_filter_key [OF u, of "Some tid"] uniq_tbl_get [OF u x] assms(3) by simp
  moreover have "filter (\<lambda>y. org_auth_tenant_id y = Some tid) ?f = filter (\<lambda>y. org_auth_tenant_id y = Some tid) (organizations d)"
    by (auto intro: filter_cong)
  ultimately show ?thesis by simp
qed

lemma orgs_ok_replace:
  assumes "orgs_ok d" "organizations d = as @ org # bs" "org_row_ok x (as @ bs)" "org_id x = org_id org"
    "organizations d' = as @ x # bs" "organization_seq d' = organization_seq d"
  shows "orgs_ok d'"
proof -
  let ?P = "\<lambda>x. org_auth_tenant_id x \<noteq> None"
  have u: "uniq org_id (as @ org # bs)" "uniq org_uuid (as @ org # bs)" "uniq org_slug (as @ org # bs)"
      "uniq org_auth_tenant_id (filter ?P (as @ org # bs))" and lt: "\<forall>y \<in> set (as @ org # bs). org_id y < organization_seq d"
    using assms(1) unfolding orgs_ok_def assms(2) by blast+
  have r: "org_uuid x \<notin> org_uuid ` set (as @ bs)" "org_slug x \<notin> org_slug ` set (as @ bs)"
      "org_auth_tenant_id x = None \<or> org_auth_tenant_id x \<notin> org_auth_tenant_id ` set (as @ bs)"
    using assms(3) unfolding org_row_ok_def by blast+
  have "uniq org_id (as @ x # bs)" using u(1) assms(4) by (simp add: uniq_def)
  moreover have "uniq org_uuid (as @ x # bs)" by (rule uniq_insert [OF uniq_delete [OF u(2)] r(1)])
  moreover have "uniq org_slug (as @ x # bs)" by (rule uniq_insert [OF uniq_delete [OF u(3)] r(2)])
  moreover have "uniq org_auth_tenant_id (filter ?P (as @ x # bs))" using r(3) by (intro uniq_filter_replace [OF u(4)]) auto
  moreover have "\<forall>y \<in> set (as @ x # bs). org_id y < organization_seq d" using lt assms(4) by simp
  ultimately show ?thesis by (simp only: orgs_ok_def assms(5,6))
qed

lemma org_row_unique:
  assumes "orgs_ok d" "org_row_ok x (filter (\<lambda>y. org_id y \<noteq> org_id org) (organizations d))" "org_id x = org_id org" "org \<in> set (organizations d)"
    "d' = d\<lparr>organizations := tbl_upd org_id (org_id org) (\<lambda>_. x) (organizations d)\<rparr>"
  shows "orgs_ok d'" "x \<in> set (organizations d')"
proof -
  have u: "uniq org_id (organizations d)" using assms(1) by (simp add: orgs_ok_def)
  obtain as bs where o: "organizations d = as @ org # bs" and t: "tbl_upd org_id (org_id org) (\<lambda>_. x) (organizations d) = as @ x # bs"
      and f: "filter (\<lambda>y. org_id y \<noteq> org_id org) (organizations d) = as @ bs" using tbl_upd_split [OF u assms(4)] by blast
  have upd: "organizations d' = as @ x # bs" by (simp add: assms(5) t)
  have r: "org_row_ok x (as @ bs)" using assms(2) unfolding f .
  show "x \<in> set (organizations d')" by (simp add: upd)
  have "organization_seq d' = organization_seq d" by (simp add: assms(5))
  then show "orgs_ok d'" by (rule orgs_ok_replace [OF assms(1) o r assms(3) upd])
qed

lemma synced_tenant_simps:
  "org_id (synced_tenant tid u name slug others org) = org_id org" "org_uuid (synced_tenant tid u name slug others org) = u"
  "org_auth_tenant_id (synced_tenant tid u name slug others org) = Some tid"
  "name \<noteq> [] \<Longrightarrow> org_name (synced_tenant tid u name slug others org) = name"
  by (simp_all add: synced_tenant_def Let_def split: option.split)

lemma synced_tenant_again:
  "synced_tenant tid u name slug others (synced_tenant tid u name slug others org) = synced_tenant tid u name slug others org"
  by (simp add: synced_tenant_def Let_def split: option.split)

lemma sync_tenant_again:
  assumes "sync_tenant tid u name slug org s = (Inr (), s')" "org \<in> set (organizations (cur s))" "orgs_ok (cur s)" "clean s" "name \<noteq> []"
  shows "orgs_ok (saved s') \<and> clean s' \<and> (\<exists>x \<in> set (organizations (cur s')). org_auth_tenant_id x = Some tid \<and> org_uuid x = u \<and> org_name x = name
      \<and> sync_tenant tid u name slug x s' = (Inr (), s')
      \<and> filter (\<lambda>y. org_id y \<noteq> org_id x) (organizations (cur s')) = filter (\<lambda>y. org_id y \<noteq> org_id x) (organizations (cur s)))"
proof -
  let ?others = "filter (\<lambda>x. org_id x \<noteq> org_id org) (organizations (cur s))"
  define x where "x = synced_tenant tid u name slug ?others org"
  have x: "org_id x = org_id org" "org_auth_tenant_id x = Some tid" "org_uuid x = u" "org_name x = name"
    using assms(5) by (simp_all add: x_def synced_tenant_simps)
  have same: "sync_tenant tid u name slug x s2 = (Inr (), s2)"
    if "filter (\<lambda>y. org_id y \<noteq> org_id org) (organizations (cur s2)) = ?others" for s2
    unfolding sync_tenant_def Let_def x(1) that unfolding x_def by (simp add: synced_tenant_again)
  have run: "sync_tenant tid u name slug org s = (if x = org then (Inr (), s) else if \<not> org_row_ok x ?others then (Inl RowError, rollback s)
      else (Inr (), commit (on_db (organizations_update (tbl_upd org_id (org_id org) (\<lambda>_. x))) s)))"
    unfolding sync_tenant_def Let_def x_def ..
  show ?thesis
  proof (cases "x = org")
    case True
    then have "s' = s" using assms(1) run by simp
    with same [OF refl] True x assms(2-4) show ?thesis by (auto simp: clean_def)
  next
    case False
    then have ok: "org_row_ok x ?others" and s': "s' = commit (on_db (organizations_update (tbl_upd org_id (org_id org) (\<lambda>_. x))) s)"
      using assms(1) run by (auto split: if_splits)
    let ?d = "(cur s)\<lparr>organizations := tbl_upd org_id (org_id org) (\<lambda>_. x) (organizations (cur s))\<rparr>"
    have cs: "cur s' = ?d" "saved s' = ?d" "clean s'" by (simp_all add: s' clean_def)
    have fo: "filter (\<lambda>y. org_id y \<noteq> org_id org) (organizations (cur s')) = ?others"
      unfolding cs by (induction "organizations (cur s)") (auto simp: tbl_upd_def filter_map comp_def x(1) intro!: map_idI filter_cong)
    from org_row_unique [OF assms(3) ok x(1) assms(2) refl] same [OF fo] x cs fo show ?thesis by (intro conjI bexI [of _ x]) simp_all
  qed
qed

lemma find_tenant_mem: "find_tenant tid u slug d = Inr (Some x) \<Longrightarrow> x \<in> set (organizations d)"
  by (auto simp: find_tenant_def Let_def scalar_one_or_none_Some split: sum.splits option.splits dest!: filter_single_mem)

lemma find_tenant_known:
  assumes "orgs_ok d" "x \<in> set (organizations d)" "org_auth_tenant_id x = Some tid"
  shows "find_tenant tid u slug d = Inr (Some x)"
  by (simp add: find_tenant_def tenant_unique [OF assms] scalar_one_or_none_def)

lemma tenant_name_of_ne: "tenant_name_of p \<noteq> []"
  by (auto simp: tenant_name_of_def or_str_def truthy_def split: option.splits)

lemma create_tenant_again:
  assumes "create_tenant now tid u name t p s = (Inr (), s')" "orgs_ok (cur s)" "name \<noteq> []" "\<forall>z. slug = Some z \<longrightarrow> t = z"
  shows "orgs_ok (saved s') \<and> clean s' \<and> (\<exists>x \<in> set (organizations (cur s')). org_auth_tenant_id x = Some tid \<and> org_uuid x = u \<and> org_name x = name
      \<and> sync_tenant tid u name slug x s' = (Inr (), s')
      \<and> filter (\<lambda>y. org_id y \<noteq> org_id x) (organizations (cur s')) = filter (\<lambda>y. org_id y \<noteq> org_id x) (organizations (cur s)))"
proof -
  let ?x = "new_tenant now (organization_seq (cur s)) tid u name t p"
  have ok: "org_row_ok ?x (organizations (cur s))"
    and s': "s' = commit (on_db (\<lambda>d. d\<lparr>organizations := organizations d @ [?x], organization_seq := organization_seq d + 1\<rparr>) s)"
    using assms(1) by (auto simp: create_tenant_def Let_def split: if_splits)
  have x: "org_id ?x = organization_seq (cur s)" "org_auth_tenant_id ?x = Some tid" "org_uuid ?x = u" "org_name ?x = name" "org_slug ?x = t"
    by (simp_all add: new_tenant_def)
  have lt: "\<forall>y \<in> set (organizations (cur s)). org_id y < organization_seq (cur s)" using assms(2) by (simp add: orgs_ok_def)
  have cs: "organizations (cur s') = organizations (cur s) @ [?x]" "clean s'" "saved s' = cur s'" "organization_seq (cur s') = organization_seq (cur s) + 1"
    by (simp_all add: s' clean_def)
  have others: "filter (\<lambda>y. org_id y \<noteq> org_id ?x) (organizations (cur s')) = filter (\<lambda>y. org_id y \<noteq> org_id ?x) (organizations (cur s))"
    by (simp add: cs)
  have "orgs_ok (cur s')" using assms(2) ok lt unfolding orgs_ok_def cs by (auto simp: uniq_def org_row_ok_def x)
  moreover have "synced_tenant tid u name slug os ?x = ?x" for os
    using assms(3,4) by (simp add: synced_tenant_def new_tenant_def Let_def split: option.split)
  then have "sync_tenant tid u name slug ?x s' = (Inr (), s')" unfolding sync_tenant_def Let_def by simp
  ultimately show ?thesis using cs others x by (intro conjI bexI [of _ ?x]) simp_all
qed

text \<open>
  C30. A tenant event mirrors the tenant, and delivering it again changes nothing. When the handler
  of a valid event for an internet provider succeeds, exactly one organisation carries the
  tenant's id, with the canonical UUID and the name of the event; unique columns stay
  unique and every other organisation is as it was. A second delivery of the same event,
  at any later time, succeeds and leaves the session as it is.
\<close>

theorem tenant_event_is_idempotent:
  assumes "handle_auth_tenant now ev s = Some (Inr (), s')" "tenant_id_of ev = Some tid" "uuid_of tid = Some u"
    "isp_use_case (use_case_of (payload_of ev))" "orgs_ok (cur s)" "clean s"
  shows "\<exists>x. filter (\<lambda>y. org_auth_tenant_id y = Some tid) (organizations (saved s')) = [x]
    \<and> org_uuid x = u \<and> org_name x = tenant_name_of (payload_of ev) \<and> orgs_ok (saved s')
    \<and> filter (\<lambda>y. org_id y \<noteq> org_id x) (organizations (saved s')) = filter (\<lambda>y. org_id y \<noteq> org_id x) (organizations (saved s))
    \<and> handle_auth_tenant later ev s' = Some (Inr (), s')"
proof -
  let ?p = "payload_of ev"
  have run: "handle_auth_tenant n ev s0 = upsert_tenant n tid u ?p s0" for n s0
    using assms(2-4) by (simp add: handle_auth_tenant_def)
  have sv: "saved s = cur s" using assms(6) by (simp add: clean_def)
  obtain x where ok: "orgs_ok (saved s')" "clean s'" and x: "x \<in> set (organizations (cur s'))" "org_auth_tenant_id x = Some tid" "org_uuid x = u"
      "org_name x = tenant_name_of ?p" and again: "sync_tenant tid u (tenant_name_of ?p) (tenant_slug_of ?p) x s' = (Inr (), s')"
      and others: "filter (\<lambda>y. org_id y \<noteq> org_id x) (organizations (cur s')) = filter (\<lambda>y. org_id y \<noteq> org_id x) (organizations (cur s))"
  proof (cases "find_tenant tid u (tenant_slug_of ?p) (cur s)")
    case (Inr r)
    show ?thesis
    proof (cases r)
      case None
      then obtain t where "tenant_slug tid (tenant_slug_of ?p) (cur s) = Some t"
          and c: "create_tenant now tid u (tenant_name_of ?p) t ?p s = (Inr (), s')"
        using assms(1) Inr unfolding run upsert_tenant_def by auto
      then have "\<forall>z. tenant_slug_of ?p = Some z \<longrightarrow> t = z"
        using find_tenant_None Inr None by (auto simp: tenant_slug_def first_free_now)
      from create_tenant_again [OF c assms(5) tenant_name_of_ne this] that show ?thesis by auto
    next
      case (Some org)
      then have "sync_tenant tid u (tenant_name_of ?p) (tenant_slug_of ?p) org s = (Inr (), s')"
        using assms(1) Inr unfolding run upsert_tenant_def by simp
      from sync_tenant_again [OF this find_tenant_mem [OF Inr [unfolded Some]] assms(5,6) tenant_name_of_ne] that show ?thesis by auto
    qed
  qed (use assms(1) run upsert_tenant_def in auto)
  have sv': "saved s' = cur s'" using ok(2) by (simp add: clean_def)
  have "handle_auth_tenant later ev s' = Some (Inr (), s')"
    unfolding run upsert_tenant_def find_tenant_known [OF ok(1) [unfolded sv'] x(1,2)] by (simp add: again)
  with tenant_unique [OF ok(1) [unfolded sv'] x(1,2)] ok x others show ?thesis unfolding sv sv' by blast
qed

section \<open>Accounts and the claims of a token\<close>

lemma sync_role_obj_keeps:
  assumes "sync_role_obj d u = Inr u2"
  shows "\<exists>i. u2 = u\<lparr>usr_role_id := i\<rparr>"
  using assms by (auto simp: sync_role_obj_def intro: exI [of _ "usr_role_id u"] split: sum.splits option.splits)

lemma sync_role_obj_total: "uniq role_name (roles d) \<Longrightarrow> \<exists>u2. sync_role_obj d u = Inr u2"
  by (auto simp: sync_role_obj_def uniq_filter_key split: sum.splits option.splits)

text \<open>
  C31. The claims of one tenant change an account of another. An account is matched by its e-mail
  address, whatever tenant the claims are for: an administrator of organisation \<open>b\<close> whose token
  carries the address of an account of organisation \<open>a\<close> is linked to that account, and the
  role of the claims is written to it, so the token now acts as an administrator of \<open>a\<close>.
\<close>

theorem foreign_claims_raise_role:
  assumes "u \<in> set (users (cur s))" "usr_email u = cleaned (cl_email claims)" "cleaned (cl_email claims) \<noteq> []"
    "usr_organization_id u = Some a" "usr_role u = Customer" "cl_sub claims = Some sub" "sub \<noteq> []" "length sub \<le> 255"
    "\<forall>v \<in> set (users (cur s)). usr_auth_service_user_id v \<noteq> Some sub"
    "map_global_roles_to_isp_role (cl_roles claims) (cl_is_platform_owner claims) = IspAdmin"
    "resolve_organization_id driver_uuid claims (cur s) = Inr (Some b)" "b \<noteq> a"
    "uniq usr_email (users (cur s))" "uniq role_name (roles (cur s))"
  shows "\<exists>u2 s'. provision_sso_user driver_uuid token now claims s = Some (Inr u2, s') \<and> u2 \<in> set (users (saved s'))
    \<and> usr_id u2 = usr_id u \<and> usr_auth_service_user_id u2 = Some sub \<and> usr_role u2 = IspAdmin \<and> usr_organization_id u2 = Some a"
proof -
  let ?l = "linked now claims (Some b) u"
  have e: "filter (\<lambda>v. usr_email v = cleaned (cl_email claims)) (users (cur s)) = [u]"
    by (rule uniq_filter_one [OF assms(13,1,2)])
  have "find_sso_user claims (cleaned (cl_email claims)) (cur s) = Inr (Some u)"
    using assms(3,6,7,9) by (simp add: find_sso_user_def truthy_def e filter_empty_conv [THEN iffD2])
  moreover obtain u2 where u2: "sync_role_obj (cur s) ?l = Inr u2" using sync_role_obj_total [OF assms(14)] by blast
  moreover obtain i where "u2 = ?l\<lparr>usr_role_id := i\<rparr>" using sync_role_obj_keeps [OF u2] by blast
  moreover have "cl_roles claims \<noteq> []" using assms(10) by (auto simp: map_global_roles_to_isp_role_def Let_def split: if_splits)
  ultimately show ?thesis using assms
    by (auto simp: provision_sso_user_def Let_def link_sso_user_def or_str_def truthy_def linked_def synced_role_def tbl_upd_def)
qed

section \<open>The theorems at a concrete input\<close>

definition far_org :: organization where
  "far_org = org0\<lparr>org_id := 2, org_uuid := ''u-2'', org_slug := ''far''\<rparr>"

definition identity_db :: db where
  "identity_db = empty_db\<lparr>users := [user0], organizations := [org0, far_org], roles := [\<lparr>role_id = 1, role_name = ''admin'', role_description = None, role_is_system_role = True, role_permissions = []\<rparr>],
     organization_seq := 3, user_seq := 2\<rparr>"

definition nine_event :: auth_event where
  "nine_event = \<lparr>ev_fields = [], ev_payload = Some [(''tenant_id'', ''00000000-0000-0000-0000-000000000009''), (''name'', ''Nine''),
      (''slug'', ''nine''), (''use_case'', ''ISP'')], ev_data = None, ev_roles = [], ev_is_platform_owner = False\<rparr>"

definition far_claims :: sso_claims where
  "far_claims = \<lparr>cl_sub = Some ''s-7'', cl_email = Some ''joe@x.org'', cl_full_name = None, cl_roles = [''admin''],
      cl_tenant_id = None, cl_tenant_slug = Some ''far'', cl_is_platform_owner = False\<rparr>"

theorem name_searches_end_witness:
  "(\<exists>t. onboarding_slug ''Net'' identity_db = Some t \<and> \<not> slug_taken identity_db t)
   \<and> (\<exists>r. provision_sso_user uuid_of ''tok'' 0 far_claims (fresh identity_db) = Some r)"
proof -
  have "length (organizations identity_db) < 10 ^ 80" "length (users identity_db) < 10 ^ 8" by (simp_all add: identity_db_def)
  moreover have "take 1 (cleaned (cl_email far_claims)) \<noteq> ''@''" by code_simp
  ultimately show ?thesis using name_searches_end [of "fresh identity_db" far_claims "''Net''" 0 nine_event uuid_of "''tok''"] by simp
qed

theorem tenant_event_is_idempotent_witness:
  "\<exists>s'. handle_auth_tenant 0 nine_event (fresh identity_db) = Some (Inr (), s') \<and> handle_auth_tenant 60 nine_event s' = Some (Inr (), s')"
proof -
  have "map_option (\<lambda>(r, _). r = Inr ()) (handle_auth_tenant 0 nine_event (fresh identity_db)) = Some True" by code_simp
  then obtain s' where s': "handle_auth_tenant 0 nine_event (fresh identity_db) = Some (Inr (), s')" by auto
  have i: "tenant_id_of nine_event = Some ''00000000-0000-0000-0000-000000000009''"
      "uuid_of ''00000000-0000-0000-0000-000000000009'' = Some ''00000000-0000-0000-0000-000000000009''"
      "isp_use_case (use_case_of (payload_of nine_event))" by code_simp+
  have "orgs_ok identity_db" by code_simp
  then show ?thesis using tenant_event_is_idempotent [OF s' i, of 60] s' by (auto simp: clean_def)
qed

theorem foreign_claims_raise_role_witness:
  "\<exists>u2 s'. provision_sso_user uuid_of ''tok'' 0 far_claims (fresh identity_db) = Some (Inr u2, s') \<and> usr_role u2 = IspAdmin
     \<and> usr_organization_id u2 = Some 1"
proof -
  have "user0 \<in> set (users identity_db)" by (simp add: identity_db_def)
  moreover have "usr_email user0 = cleaned (cl_email far_claims)" "cleaned (cl_email far_claims) \<noteq> []" by code_simp+
  moreover have "map_global_roles_to_isp_role (cl_roles far_claims) (cl_is_platform_owner far_claims) = IspAdmin" by code_simp
  moreover have "resolve_organization_id uuid_of far_claims identity_db = Inr (Some 2)" by code_simp
  ultimately show ?thesis
    using foreign_claims_raise_role [of user0 "fresh identity_db" far_claims 1 "''s-7''" uuid_of 2 "''tok''" 0]
    by (auto simp: identity_db_def user0_def far_claims_def uniq_def)
qed

end
