(* ===== verification/Tokens.thy ===== *)
theory Tokens
  imports Samples
begin

text \<open>
  The local tokens (\<open>src/app/core/security.py\<close>). The JWT library is a record of two functions, signing a
  payload and reading a token at a time; reading gives nothing when the signature is wrong or the
  token has expired. Of a payload the keys that \<open>verify_token\<close> reads are kept.
\<close>

record jwt_payload =
  jp_sub :: "string option"
  jp_username :: "string option"
  jp_role :: "string option"
  jp_organization_id :: "int option"
  jp_type :: "string option"
  jp_exp :: datetime

record jwt =
  jwt_encode :: "jwt_payload \<Rightarrow> string"
  jwt_decode :: "datetime \<Rightarrow> string \<Rightarrow> jwt_payload option"

record token_data =
  td_user_id :: int
  td_username :: string
  td_role :: "string option"
  td_organization_id :: "int option"

record token_settings =
  access_token_expire_minutes :: int
  refresh_token_expire_days :: int

definition no_payload :: jwt_payload where
  "no_payload = \<lparr>jp_sub = None, jp_username = None, jp_role = None, jp_organization_id = None, jp_type = None, jp_exp = 0\<rparr>"

definition create_access_token :: "jwt \<Rightarrow> token_settings \<Rightarrow> datetime \<Rightarrow> jwt_payload \<Rightarrow> timedelta option \<Rightarrow> string" where
  "create_access_token j c now data expires_delta =
     jwt_encode j (data\<lparr>jp_exp := now + (if truthy_int expires_delta then the expires_delta else minutes (access_token_expire_minutes c)),
       jp_type := Some ''access''\<rparr>)"

definition create_refresh_token :: "jwt \<Rightarrow> token_settings \<Rightarrow> datetime \<Rightarrow> jwt_payload \<Rightarrow> timedelta option \<Rightarrow> string" where
  "create_refresh_token j c now data expires_delta =
     jwt_encode j (data\<lparr>jp_exp := now + (if truthy_int expires_delta then the expires_delta else days (refresh_token_expire_days c)),
       jp_type := Some ''refresh''\<rparr>)"

definition verify_token :: "jwt \<Rightarrow> datetime \<Rightarrow> string \<Rightarrow> string \<Rightarrow> exn + token_data option" where
  \<comment> \<open>only an error of the library is caught\<close>
  "verify_token j now token token_type =
     (case jwt_decode j now token of
        None \<Rightarrow> Inr None
      | Some p \<Rightarrow>
          if jp_type p \<noteq> Some token_type \<or> jp_sub p = None \<or> jp_username p = None then Inr None
          else case parse_int (the (jp_sub p)) of
            None \<Rightarrow> Inl (ValueError ''invalid literal for int()'')
          | Some i \<Rightarrow> Inr (Some \<lparr>td_user_id = i, td_username = the (jp_username p), td_role = jp_role p,
                              td_organization_id = jp_organization_id p\<rparr>))"

definition create_token_pair :: "jwt \<Rightarrow> token_settings \<Rightarrow> datetime \<Rightarrow> int \<Rightarrow> string \<Rightarrow> string \<Rightarrow> int option \<Rightarrow> string \<times> string" where
  "create_token_pair j c now user_id username role organization_id =
     (let data = no_payload\<lparr>jp_sub := Some (str_int user_id), jp_username := Some username, jp_role := Some role,
            jp_organization_id := organization_id\<rparr>
      in (create_access_token j c now data None, create_refresh_token j c now data None))"

text \<open>
  What the library documents: reading a token that it signed gives the payload back, as long as the
  token has not expired, and nothing afterwards. The time of expiry is kept in whole seconds.
\<close>

definition jwt_documented :: "jwt \<Rightarrow> bool" where
  "jwt_documented j \<longleftrightarrow>
     (\<forall>now p q. jwt_decode j now (jwt_encode j p) = Some q \<longrightarrow> q = p\<lparr>jp_exp := jp_exp q\<rparr>) \<and>
     (\<forall>now p. jp_sub p \<noteq> None \<longrightarrow> now + seconds 1 \<le> jp_exp p \<longrightarrow> jwt_decode j now (jwt_encode j p) \<noteq> None) \<and>
     (\<forall>now p. jp_exp p \<le> now \<longrightarrow> jwt_decode j now (jwt_encode j p) = None)"

lemma signed_read:
  assumes "jwt_documented j" "jp_sub p \<noteq> None" "now + seconds 1 \<le> jp_exp p"
  shows "\<exists>e. jwt_decode j now (jwt_encode j p) = Some (p\<lparr>jp_exp := e\<rparr>)"
proof -
  obtain q where "jwt_decode j now (jwt_encode j p) = Some q" using assms unfolding jwt_documented_def by blast
  moreover from this have "q = p\<lparr>jp_exp := jp_exp q\<rparr>" using assms(1) unfolding jwt_documented_def by blast
  ultimately show ?thesis by metis
qed

lemmas token_defs = create_token_pair_def create_access_token_def create_refresh_token_def no_payload_def truthy_int_def verify_token_def

lemma access_token_read:
  assumes "jwt_documented j" "later + seconds 1 \<le> now + minutes (access_token_expire_minutes c)"
  shows "verify_token j later (fst (create_token_pair j c now uid username role org)) ty
    = Inr (if ty = ''access'' then Some \<lparr>td_user_id = uid, td_username = username, td_role = Some role, td_organization_id = org\<rparr> else None)"
  using signed_read [OF assms(1), of "\<lparr>jp_sub = Some (str_int uid), jp_username = Some username, jp_role = Some role,
      jp_organization_id = org, jp_type = Some ''access'', jp_exp = now + minutes (access_token_expire_minutes c)\<rparr>" later] assms(2)
  by (auto simp: token_defs)

lemma refresh_token_read:
  assumes "jwt_documented j" "later + seconds 1 \<le> now + days (refresh_token_expire_days c)"
  shows "verify_token j later (snd (create_token_pair j c now uid username role org)) ty
    = Inr (if ty = ''refresh'' then Some \<lparr>td_user_id = uid, td_username = username, td_role = Some role, td_organization_id = org\<rparr> else None)"
  using signed_read [OF assms(1), of "\<lparr>jp_sub = Some (str_int uid), jp_username = Some username, jp_role = Some role,
      jp_organization_id = org, jp_type = Some ''refresh'', jp_exp = now + days (refresh_token_expire_days c)\<rparr>" later] assms(2)
  by (auto simp: token_defs)

lemma expired_token_refused:
  assumes "jwt_documented j" "now + minutes (access_token_expire_minutes c) \<le> later"
  shows "verify_token j later (fst (create_token_pair j c now uid username role org)) ty = Inr None"
  using assms by (simp add: jwt_documented_def token_defs)

text \<open>
  A token without a user name is never accepted, whatever its type. The portal of PPPoE customers and
  the scripts for routers issue such tokens.
\<close>

lemma token_without_name_refused:
  assumes "jwt_documented j" "jp_username data = None"
  shows "verify_token j later (create_access_token j c now data delta) ty = Inr None"
proof (cases "jwt_decode j later (create_access_token j c now data delta)")
  case (Some q)
  then have "jp_username q = None"
    using assms unfolding jwt_documented_def create_access_token_def by (metis (lifting) jwt_payload.select_convs(2) jwt_payload.surjective
      jwt_payload.update_convs(5,6))
  with Some show ?thesis by (simp add: verify_token_def)
qed (simp add: verify_token_def)

section \<open>A concrete library\<close>

definition put :: "string \<Rightarrow> string" where
  "put t = concat (map (\<lambda>c. [CHR ''_'', c]) t) @ ''.''"

fun get :: "string \<Rightarrow> string \<times> string" where
  "get (m # c # cs) = (if m = CHR ''_'' then (let (t, r) = get cs in (c # t, r)) else ([], c # cs))"
| "get _ = ([], [])"

definition put_opt :: "string option \<Rightarrow> string" where
  "put_opt t = (case t of None \<Rightarrow> ''n'' | Some v \<Rightarrow> CHR ''s'' # put v)"

definition get_opt :: "string \<Rightarrow> string option \<times> string" where
  "get_opt t = (if take 1 t = ''n'' then (None, drop 1 t) else apfst Some (get (drop 1 t)))"

lemma get_put [simp]: "get (put t @ r) = (t, r)"
proof (induction t)
  case Nil
  show ?case by (cases r) (simp_all add: put_def)
qed (simp add: put_def)

lemma get_put_opt [simp]: "get_opt (put_opt t @ r) = (t, r)"
  by (cases t) (simp_all add: get_opt_def put_opt_def)

definition sign0 :: "jwt_payload \<Rightarrow> string" where
  "sign0 p = put_opt (jp_sub p) @ put_opt (jp_username p) @ put_opt (jp_role p) @ put_opt (map_option str_int (jp_organization_id p)) @
     put_opt (jp_type p) @ put (str_int (jp_exp p))"

definition read0 :: "datetime \<Rightarrow> string \<Rightarrow> jwt_payload option" where
  "read0 now t =
     (let (a, t1) = get_opt t; (b, t2) = get_opt t1; (c, t3) = get_opt t2; (d, t4) = get_opt t3; (e, t5) = get_opt t4; (f, _) = get t5
      in case parse_int f of
           None \<Rightarrow> None
         | Some x \<Rightarrow> if x \<le> now then None
                     else Some \<lparr>jp_sub = a, jp_username = b, jp_role = c, jp_organization_id = Option.bind d parse_int, jp_type = e, jp_exp = x\<rparr>)"

definition jwt0 :: jwt where
  "jwt0 = \<lparr>jwt_encode = sign0, jwt_decode = read0\<rparr>"

lemma read_sign: "read0 now (sign0 p) = (if jp_exp p \<le> now then None else Some p)"
proof -
  have "get (put x) = (x, [])" for x using get_put [of x "[]"] by simp
  moreover have "Option.bind (map_option str_int v) parse_int = v" for v by (cases v) simp_all
  ultimately show ?thesis by (simp add: read0_def sign0_def)
qed

lemma jwt0_documented: "jwt_documented jwt0"
  by (simp add: jwt_documented_def jwt0_def read_sign seconds_def)

end
