(* ===== verification/Access_Control.thy ===== *)
theory Access_Control
  imports Subscription_Service Samples
begin

text \<open>
  Roles, permissions and overrides: \<open>src/app/modules/auth/rbac.py\<close>, its tables (\<open>src/app/models/rbac.py\<close>)
  and the checks in front of an endpoint (\<open>src/app/core/rbac_decorators.py\<close>).

  A role carries the ids of its permissions. An override grants or denies one permission to one
  user and may have an end.
\<close>

section \<open>Names\<close>

fun module_value :: "PermissionModule \<Rightarrow> string" where
  "module_value PlatformOrganizations = ''platform_organizations''"
| "module_value PlatformBilling = ''platform_billing''"
| "module_value PlatformAnalytics = ''platform_analytics''"
| "module_value PlatformConfig = ''platform_config''"
| "module_value PlatformTiers = ''platform_tiers''"
| "module_value PlatformIntegrations = ''platform_integrations''"
| "module_value PlatformIntegrationsSecrets = ''platform_integrations_secrets''"
| "module_value PlatformIntegrationsUrls = ''platform_integrations_urls''"
| "module_value PlatformPaymentGateways = ''platform_payment_gateways''"
| "module_value PlatformSmsGateways = ''platform_sms_gateways''"
| "module_value PlatformEmailGateways = ''platform_email_gateways''"
| "module_value ModDashboard = ''dashboard''"
| "module_value ModUsers = ''users''"
| "module_value ModCustomers = ''customers''"
| "module_value ModPackages = ''packages''"
| "module_value ModRouters = ''routers''"
| "module_value ModProvisioning = ''provisioning''"
| "module_value ModPayments = ''payments''"
| "module_value ModPaymentGateways = ''payment_gateways''"
| "module_value ModSms = ''sms''"
| "module_value ModVouchers = ''vouchers''"
| "module_value ModSettings = ''settings''"
| "module_value ModReports = ''reports''"
| "module_value ModNotifications = ''notifications''"
| "module_value ModSupport = ''support''"
| "module_value ModBilling = ''billing''"
| "module_value ModSubscriptions = ''subscriptions''"
| "module_value ModAnalytics = ''analytics''"
| "module_value ModBranding = ''branding''"
| "module_value ModAuditLogs = ''audit_logs''"
| "module_value ModBackupRestore = ''backup_restore''"
| "module_value TenantPaymentConfig = ''tenant_payment_config''"
| "module_value TenantSmsConfig = ''tenant_sms_config''"
| "module_value TenantPayoutConfig = ''tenant_payout_config''"
| "module_value CustomerDashboard = ''customer_dashboard''"
| "module_value CustomerPackages = ''customer_packages''"
| "module_value CustomerPayments = ''customer_payments''"
| "module_value CustomerUsage = ''customer_usage''"
| "module_value CustomerProfile = ''customer_profile''"

fun action_value :: "PermissionAction \<Rightarrow> string" where
  "action_value ActCreate = ''create''"
| "action_value ActRead = ''read''"
| "action_value ActUpdate = ''update''"
| "action_value ActDelete = ''delete''"
| "action_value ActManage = ''manage''"

fun user_role_value :: "UserRole \<Rightarrow> string" where
  "user_role_value PlatformOwner = ''platform_owner''"
| "user_role_value IspAdmin = ''isp_admin''"
| "user_role_value IspTechnician = ''isp_technician''"
| "user_role_value Customer = ''customer''"

section \<open>Roles\<close>

abbreviation on_rbac :: "(access_tables \<Rightarrow> access_tables) \<Rightarrow> dbs \<Rightarrow> dbs" where
  "on_rbac f \<equiv> on_db (\<lambda>d. d\<lparr>rbac := f (rbac d)\<rparr>)"

definition role_row_ok :: "string option \<Rightarrow> rbac_role list \<Rightarrow> bool" where
  "role_row_ok n rest \<longleftrightarrow> n \<noteq> None \<and> length (the n) \<le> 50 \<and> the n \<notin> role_name ` set rest"

definition get_role :: "int \<Rightarrow> db \<Rightarrow> rbac_role option" where
  "get_role i d = tbl_get role_id i (roles d)"

definition get_role_by_name :: "string \<Rightarrow> db \<Rightarrow> rbac_role option" where
  "get_role_by_name n d = find (\<lambda>r. role_name r = n) (roles d)"

definition create_role :: "string \<Rightarrow> string option \<Rightarrow> bool \<Rightarrow> dbs \<Rightarrow> (exn + rbac_role) \<times> dbs" where
  "create_role n description is_system_role s =
     (let r = \<lparr>role_id = role_seq (rbac (cur s)), role_name = n, role_description = description,
            role_is_system_role = is_system_role, role_permissions = []\<rparr>
      in if \<not> role_row_ok (Some n) (roles (cur s)) then (Inl (IntegrityError ''roles''), rollback s)
         else (Inr r, commit (on_rbac (role_seq_update (\<lambda>i. i + 1)) (on_db (roles_update (\<lambda>t. t @ [r])) s))))"

record role_update =
  ru_name :: "string option option"
  ru_description :: "string option option"
  ru_is_system_role :: "bool option option"

definition update_role :: "int \<Rightarrow> role_update \<Rightarrow> dbs \<Rightarrow> (exn + rbac_role option) \<times> dbs" where
  \<comment> \<open>a field may be unset, set to nothing, or set to a value\<close>
  "update_role i u s =
     (case get_role i (cur s) of
        None \<Rightarrow> (Inr None, s)
      | Some r \<Rightarrow>
          let n = (case ru_name u of None \<Rightarrow> Some (role_name r) | Some v \<Rightarrow> v);
              sys = (case ru_is_system_role u of None \<Rightarrow> Some (role_is_system_role r) | Some v \<Rightarrow> v);
              r1 = r\<lparr>role_name := the n, role_description := (case ru_description u of None \<Rightarrow> role_description r | Some v \<Rightarrow> v),
                     role_is_system_role := the sys\<rparr>
          in if sys = None \<or> \<not> role_row_ok n (filter (\<lambda>y. role_id y \<noteq> i) (roles (cur s))) then (Inl (IntegrityError ''roles''), rollback s)
             else (Inr (Some r1), commit (on_db (roles_update (tbl_upd role_id i (\<lambda>_. r1))) s)))"

definition delete_role :: "int \<Rightarrow> dbs \<Rightarrow> bool \<times> dbs" where
  \<comment> \<open>the users of a deleted role are left without one\<close>
  "delete_role i s =
     (case get_role i (cur s) of
        None \<Rightarrow> (False, s)
      | Some r \<Rightarrow>
          if role_is_system_role r then (False, s)
          else (True, commit (on_db (\<lambda>d. d\<lparr>roles := filter (\<lambda>y. role_id y \<noteq> i) (roles d),
                 users := map (\<lambda>u. if usr_role_id u = Some i then u\<lparr>usr_role_id := None\<rparr> else u) (users d)\<rparr>) s)))"

section \<open>Permissions\<close>

definition create_permission :: "PermissionModule \<Rightarrow> PermissionAction \<Rightarrow> string option \<Rightarrow> string option \<Rightarrow> dbs \<Rightarrow> (exn + permission) \<times> dbs" where
  \<comment> \<open>the unique constraint does not see rows without a resource\<close>
  "create_permission m a resource description s =
     (let p = \<lparr>perm_id = permission_seq (rbac (cur s)), perm_module = m, perm_action = a, perm_resource = resource, perm_description = description\<rparr>
      in if resource \<noteq> None \<and> ((\<exists>y \<in> set (permissions (rbac (cur s))). perm_module y = m \<and> perm_action y = a \<and> perm_resource y = resource)
             \<or> length (the resource) > 100)
         then (Inl (IntegrityError ''permissions''), rollback s)
         else (Inr p, commit (on_rbac (\<lambda>b. b\<lparr>permissions := permissions b @ [p], permission_seq := permission_seq b + 1\<rparr>) s)))"

definition get_permission :: "int \<Rightarrow> db \<Rightarrow> permission option" where
  "get_permission i d = tbl_get perm_id i (permissions (rbac d))"

definition get_permission_by_module_action :: "PermissionModule \<Rightarrow> PermissionAction \<Rightarrow> string option \<Rightarrow> db \<Rightarrow> permission option" where
  "get_permission_by_module_action m a resource d =
     find (\<lambda>p. perm_module p = m \<and> perm_action p = a \<and> perm_resource p = (if truthy resource then resource else None)) (permissions (rbac d))"

definition list_permissions_by_module :: "PermissionModule \<Rightarrow> db \<Rightarrow> permission list" where
  "list_permissions_by_module m d = filter (\<lambda>p. perm_module p = m) (permissions (rbac d))"

definition upd_role :: "int \<Rightarrow> (int list \<Rightarrow> int list) \<Rightarrow> dbs \<Rightarrow> dbs" where
  "upd_role i f = on_db (roles_update (tbl_upd role_id i (role_permissions_update f)))"

definition assign_permission_to_role :: "int \<Rightarrow> int \<Rightarrow> dbs \<Rightarrow> bool \<times> dbs" where
  "assign_permission_to_role i p s =
     (case get_role i (cur s) of
        None \<Rightarrow> (False, s)
      | Some r \<Rightarrow>
          if get_permission p (cur s) = None then (False, s)
          else if p \<in> set (role_permissions r) then (True, s)
          else (True, commit (upd_role i (\<lambda>ps. ps @ [p]) s)))"

definition remove_permission_from_role :: "int \<Rightarrow> int \<Rightarrow> dbs \<Rightarrow> bool \<times> dbs" where
  "remove_permission_from_role i p s =
     (case get_role i (cur s) of
        None \<Rightarrow> (False, s)
      | Some r \<Rightarrow>
          if get_permission p (cur s) = None then (False, s)
          else if p \<notin> set (role_permissions r) then (True, s)
          else (True, commit (upd_role i (remove1 p) s)))"

definition permission_rows :: "int list \<Rightarrow> db \<Rightarrow> permission list" where
  "permission_rows is d = List.map_filter (\<lambda>i. get_permission i d) is"

definition get_role_permissions :: "int \<Rightarrow> db \<Rightarrow> permission list" where
  "get_role_permissions i d = (case get_role i d of None \<Rightarrow> [] | Some r \<Rightarrow> permission_rows (role_permissions r) d)"

section \<open>Users\<close>

definition get_user :: "int \<Rightarrow> db \<Rightarrow> user option" where
  "get_user i d = tbl_get usr_id i (users d)"

definition assign_role_to_user :: "int \<Rightarrow> int \<Rightarrow> dbs \<Rightarrow> bool \<times> dbs" where
  "assign_role_to_user uid i s =
     (if get_user uid (cur s) = None \<or> get_role i (cur s) = None then (False, s)
      else (True, commit (on_db (users_update (tbl_upd usr_id uid (usr_role_id_update (\<lambda>_. Some i)))) s)))"

definition get_user_role :: "int \<Rightarrow> db \<Rightarrow> rbac_role option" where
  "get_user_role uid d = Option.bind (get_user uid d) (\<lambda>u. Option.bind (usr_role_id u) (\<lambda>i. get_role i d))"

definition role_of :: "user \<Rightarrow> db \<Rightarrow> permission list" where
  \<comment> \<open>\<open>user.role_obj.permissions\<close>, nothing without a role\<close>
  "role_of u d = (case Option.bind (usr_role_id u) (\<lambda>i. get_role i d) of None \<Rightarrow> [] | Some r \<Rightarrow> permission_rows (role_permissions r) d)"

definition get_users_by_role :: "int \<Rightarrow> db \<Rightarrow> user list" where
  "get_users_by_role i d = filter (\<lambda>u. usr_role_id u = Some i \<and> get_role i d \<noteq> None) (users d)"

section \<open>Overrides\<close>

definition override_of :: "int \<Rightarrow> int \<Rightarrow> db \<Rightarrow> user_permission option" where
  "override_of uid p d = find (\<lambda>x. up_user_id x = uid \<and> up_permission_id x = p) (user_permissions (rbac d))"

definition set_override :: "bool \<Rightarrow> int \<Rightarrow> int \<Rightarrow> string option \<Rightarrow> datetime option \<Rightarrow> dbs \<Rightarrow> bool \<times> dbs" where
  "set_override granted uid p reason expires_at s =
     (if get_user uid (cur s) = None \<or> get_permission p (cur s) = None then (False, s)
      else (True, commit (case override_of uid p (cur s) of
        Some x \<Rightarrow> on_rbac (user_permissions_update (tbl_upd up_id (up_id x)
          (\<lambda>y. y\<lparr>up_is_granted := granted, up_reason := reason, up_expires_at := expires_at\<rparr>))) s
      | None \<Rightarrow> on_rbac (\<lambda>b. b\<lparr>user_permissions := user_permissions b @ [\<lparr>up_id = override_seq b, up_user_id = uid, up_permission_id = p,
          up_is_granted = granted, up_reason = reason, up_expires_at = expires_at\<rparr>], override_seq := override_seq b + 1\<rparr>) s)))"

definition grant_user_permission :: "int \<Rightarrow> int \<Rightarrow> string option \<Rightarrow> datetime option \<Rightarrow> dbs \<Rightarrow> bool \<times> dbs" where
  "grant_user_permission = set_override True"

definition deny_user_permission :: "int \<Rightarrow> int \<Rightarrow> string option \<Rightarrow> datetime option \<Rightarrow> dbs \<Rightarrow> bool \<times> dbs" where
  "deny_user_permission = set_override False"

definition delete_override :: "user_permission \<Rightarrow> dbs \<Rightarrow> dbs" where
  "delete_override x = on_rbac (user_permissions_update (filter (\<lambda>y. up_id y \<noteq> up_id x)))"

definition remove_user_permission_override :: "int \<Rightarrow> int \<Rightarrow> dbs \<Rightarrow> bool \<times> dbs" where
  "remove_user_permission_override uid p s =
     (case override_of uid p (cur s) of None \<Rightarrow> (False, s) | Some x \<Rightarrow> (True, commit (delete_override x s)))"

definition get_user_permission_overrides :: "int \<Rightarrow> db \<Rightarrow> user_permission list" where
  "get_user_permission_overrides uid d = filter (\<lambda>x. up_user_id x = uid) (user_permissions (rbac d))"

definition expired :: "datetime \<Rightarrow> user_permission \<Rightarrow> bool" where
  "expired now x \<longleftrightarrow> (case up_expires_at x of None \<Rightarrow> False | Some e \<Rightarrow> e < now)"

section \<open>Checking\<close>

text \<open>
  Without a resource the query for an override gets \<open>None\<close> as a criterion, which SQLAlchemy renders as
  \<open>NULL\<close>: no row satisfies it.
\<close>

definition matches :: "PermissionModule \<Rightarrow> PermissionAction \<Rightarrow> string option \<Rightarrow> permission \<Rightarrow> bool" where
  "matches m a resource p \<longleftrightarrow> perm_module p = m \<and> perm_action p = a \<and> perm_resource p = (if truthy resource then resource else None)"

definition find_override :: "int \<Rightarrow> PermissionModule \<Rightarrow> PermissionAction \<Rightarrow> string option \<Rightarrow> db \<Rightarrow> user_permission option" where
  "find_override uid m a resource d =
     find (\<lambda>x. up_user_id x = uid \<and> truthy resource \<and>
       (case get_permission (up_permission_id x) d of None \<Rightarrow> False | Some p \<Rightarrow> matches m a resource p)) (user_permissions (rbac d))"

definition has_permission :: "datetime \<Rightarrow> int \<Rightarrow> PermissionModule \<Rightarrow> PermissionAction \<Rightarrow> string option \<Rightarrow> dbs \<Rightarrow> bool \<times> dbs" where
  "has_permission now uid m a resource s =
     (case get_user uid (cur s) of
        None \<Rightarrow> (False, s)
      | Some u \<Rightarrow>
          let by_role = list_ex (matches m a resource) (role_of u (cur s))
          in case find_override uid m a resource (cur s) of
               None \<Rightarrow> (by_role, s)
             | Some x \<Rightarrow> if expired now x then (by_role, commit (delete_override x s)) else (up_is_granted x, s))"

definition apply_override :: "datetime \<Rightarrow> db \<Rightarrow> user_permission \<Rightarrow> permission list \<Rightarrow> permission list" where
  "apply_override now d x ps =
     (case get_permission (up_permission_id x) d of
        None \<Rightarrow> ps
      | Some p \<Rightarrow> if expired now x then ps else if up_is_granted x then List.insert p ps else removeAll p ps)"

definition get_user_permissions :: "datetime \<Rightarrow> int \<Rightarrow> db \<Rightarrow> permission list" where
  \<comment> \<open>the code collects a set; the order of the list is not meant\<close>
  "get_user_permissions now uid d =
     (case get_user uid d of
        None \<Rightarrow> []
      | Some u \<Rightarrow> fold (apply_override now d) (get_user_permission_overrides uid d) (remdups (role_of u d)))"

section \<open>In front of an endpoint\<close>

definition require_permission :: "datetime \<Rightarrow> PermissionModule \<Rightarrow> PermissionAction \<Rightarrow> string option \<Rightarrow> user option \<Rightarrow> dbs \<Rightarrow> exn option \<times> dbs" where
  "require_permission now m a resource u s =
     (case u of
        None \<Rightarrow> (Some (Exn ''HTTPException'' ''401: Authentication required''), s)
      | Some x \<Rightarrow>
          (case has_permission now (usr_id x) m a resource s of
             (True, s1) \<Rightarrow> (None, s1)
           | (False, s1) \<Rightarrow> (Some (Exn ''HTTPException'' (''403: Insufficient permissions. Required: '' @ module_value m @ ''.'' @ action_value a)), s1)))"

definition require_role :: "string list \<Rightarrow> user option \<Rightarrow> exn option" where
  "require_role required_roles u =
     (case u of
        None \<Rightarrow> Some (Exn ''HTTPException'' ''401: Authentication required'')
      | Some x \<Rightarrow> if user_role_value (usr_role x) \<in> set required_roles then None else Some (Exn ''HTTPException'' ''403: Insufficient role''))"

definition require_superuser :: "user option \<Rightarrow> exn option" where
  "require_superuser = require_role [''superuser'']"

definition require_admin_or_superuser :: "user option \<Rightarrow> exn option" where
  "require_admin_or_superuser = require_role [''admin'', ''superuser'']"

section \<open>Seeding\<close>

definition create_or_get_role :: "string \<Rightarrow> string \<Rightarrow> dbs \<Rightarrow> (exn + rbac_role) \<times> dbs" where
  "create_or_get_role n description s =
     (case get_role_by_name n (cur s) of Some r \<Rightarrow> (Inr r, s) | None \<Rightarrow> create_role n (Some description) True s)"

definition module_actions :: "(PermissionModule \<times> PermissionAction) list" where
  "module_actions =
     [(ModDashboard, ActRead),
      (ModUsers, ActCreate), (ModUsers, ActRead), (ModUsers, ActUpdate), (ModUsers, ActDelete), (ModUsers, ActManage),
      (ModPackages, ActCreate), (ModPackages, ActRead), (ModPackages, ActUpdate), (ModPackages, ActDelete), (ModPackages, ActManage),
      (ModRouters, ActCreate), (ModRouters, ActRead), (ModRouters, ActUpdate), (ModRouters, ActDelete), (ModRouters, ActManage),
      (ModProvisioning, ActManage), (ModPayments, ActRead), (ModPayments, ActManage), (ModSms, ActRead), (ModSms, ActManage),
      (ModSettings, ActRead), (ModSettings, ActUpdate), (ModReports, ActRead), (ModReports, ActManage),
      (ModNotifications, ActRead), (ModNotifications, ActManage), (PlatformConfig, ActManage), (PlatformTiers, ActManage),
      (ModAuditLogs, ActRead), (ModBackupRestore, ActManage)]"

definition perm_key :: "PermissionModule \<times> PermissionAction \<Rightarrow> string" where
  "perm_key ma = module_value (fst ma) @ ''_'' @ action_value (snd ma)"

fun create_permissions :: "(PermissionModule \<times> PermissionAction) list \<Rightarrow> dbs \<Rightarrow> (exn + (string \<times> permission) list) \<times> dbs" where
  "create_permissions [] s = (Inr [], s)"
| "create_permissions (ma # mas) s =
     (let (r, s1) = (case get_permission_by_module_action (fst ma) (snd ma) None (cur s) of
                       Some p \<Rightarrow> (Inr p, s)
                     | None \<Rightarrow> create_permission (fst ma) (snd ma) None None s)
      in case r of
           Inl e \<Rightarrow> (Inl e, s1)
         | Inr p \<Rightarrow>
             (case create_permissions mas s1 of
                (Inl e, s2) \<Rightarrow> (Inl e, s2)
              | (Inr ps, s2) \<Rightarrow> (Inr ((perm_key ma, p) # ps), s2)))"

definition create_system_permissions :: "dbs \<Rightarrow> (exn + (string \<times> permission) list) \<times> dbs" where
  "create_system_permissions = create_permissions module_actions"

definition admin_permissions :: "string list" where
  "admin_permissions =
     [''dashboard_read'', ''users_manage'', ''packages_manage'', ''routers_manage'', ''provisioning_manage'', ''payments_manage'',
      ''sms_manage'', ''settings_update'', ''reports_manage'', ''notifications_manage'']"

definition technician_permissions :: "string list" where
  "technician_permissions =
     [''dashboard_read'', ''users_read'', ''packages_read'', ''routers_read'', ''provisioning_manage'', ''payments_read'', ''sms_read'',
      ''notifications_read'']"

definition customer_permissions :: "string list" where
  "customer_permissions = [''dashboard_read'', ''payments_read'', ''notifications_read'']"

definition add_missing :: "int list \<Rightarrow> int list \<Rightarrow> int list" where
  "add_missing new ps = fold (\<lambda>p acc. if p \<in> set acc then acc else acc @ [p]) new ps"

definition ids_for :: "string list \<Rightarrow> (string \<times> permission) list \<Rightarrow> int list" where
  "ids_for keys perms = List.map_filter (\<lambda>k. map_option perm_id (map_of perms k)) keys"

definition assign_permissions_to_roles :: "rbac_role \<Rightarrow> rbac_role \<Rightarrow> rbac_role \<Rightarrow> rbac_role \<Rightarrow> (string \<times> permission) list \<Rightarrow> dbs \<Rightarrow> dbs" where
  "assign_permissions_to_roles superuser admin technician customer perms s =
     (let s1 = upd_role (role_id superuser) (add_missing (map (perm_id \<circ> snd) perms)) s;
          s2 = upd_role (role_id admin) (add_missing (ids_for admin_permissions perms)) s1;
          s3 = upd_role (role_id technician) (add_missing (ids_for technician_permissions perms)) s2
      in commit (upd_role (role_id customer) (add_missing (ids_for customer_permissions perms)) s3))"

definition initialize_system_roles_and_permissions :: "dbs \<Rightarrow> (exn + unit) \<times> dbs" where
  "initialize_system_roles_and_permissions s =
     andthen (create_or_get_role ''superuser'' ''ISP Software Provider/Developer'' s) (\<lambda>superuser s1.
     andthen (create_or_get_role ''admin'' ''ISP Provider Admin'' s1) (\<lambda>admin s2.
     andthen (create_or_get_role ''technician'' ''Technical Staff'' s2) (\<lambda>technician s3.
     andthen (create_or_get_role ''customer'' ''End Customer'' s3) (\<lambda>customer s4.
     andthen (create_system_permissions s4) (\<lambda>perms s5.
       (Inr (), assign_permissions_to_roles superuser admin technician customer perms s5))))))"

section \<open>Licences\<close>

definition create_system_licence ::
    "datetime \<Rightarrow> string \<Rightarrow> string \<Rightarrow> string \<Rightarrow> string option \<Rightarrow> string \<Rightarrow> int \<Rightarrow> int \<Rightarrow> int \<Rightarrow> dbs \<Rightarrow> (exn + system_licence) \<times> dbs" where
  "create_system_licence now key organization email phone licence_type trial_days max_users max_routers s =
     (let x = \<lparr>lic_id = licence_seq (rbac (cur s)), lic_licence_key = key, lic_organization_name = organization, lic_contact_email = email,
            lic_contact_phone = phone, lic_licence_type = licence_type, lic_is_active = True, lic_max_users = max_users,
            lic_max_routers = max_routers, lic_trial_days = trial_days,
            lic_trial_started_at = (if licence_type = ''trial'' then Some now else None),
            lic_trial_expires_at = (if licence_type = ''trial'' then Some (now + days trial_days) else None)\<rparr>
      in if key \<in> lic_licence_key ` set (licences (rbac (cur s))) \<or> length key > 255 \<or> length organization > 200 \<or> length email > 100
            \<or> length (or_str phone []) > 20 \<or> length licence_type > 50 \<or> \<not> int4 trial_days \<or> \<not> int4 max_users \<or> \<not> int4 max_routers
         then (Inl (IntegrityError ''system_licences''), rollback s)
         else (Inr x, commit (on_rbac (\<lambda>b. b\<lparr>licences := licences b @ [x], licence_seq := licence_seq b + 1\<rparr>) s)))"

definition activate_licence_trial :: "datetime \<Rightarrow> int \<Rightarrow> dbs \<Rightarrow> bool \<times> dbs" where
  "activate_licence_trial now i s =
     (case tbl_get lic_id i (licences (rbac (cur s))) of
        None \<Rightarrow> (False, s)
      | Some x \<Rightarrow>
          if lic_licence_type x \<noteq> ''trial'' then (False, s)
          else (True, commit (on_rbac (licences_update (tbl_upd lic_id i (\<lambda>y. y\<lparr>lic_trial_started_at := Some now,
                 lic_trial_expires_at := Some (now + days (lic_trial_days y)), lic_is_active := True\<rparr>))) s)))"

definition update_trial_days :: "int \<Rightarrow> int \<Rightarrow> dbs \<Rightarrow> (exn + bool) \<times> dbs" where
  "update_trial_days i n s =
     (case tbl_get lic_id i (licences (rbac (cur s))) of
        None \<Rightarrow> (Inr False, s)
      | Some x \<Rightarrow>
          if \<not> int4 n then (Inl (Exn ''DataError'' ''integer out of range''), rollback s)
          else (Inr True, commit (on_rbac (licences_update (tbl_upd lic_id i (\<lambda>y. y\<lparr>lic_trial_days := n,
                 lic_trial_expires_at := (if lic_licence_type y = ''trial'' then
                   (case lic_trial_started_at y of Some t \<Rightarrow> Some (t + days n) | None \<Rightarrow> lic_trial_expires_at y)
                   else lic_trial_expires_at y)\<rparr>))) s)))"

definition is_trial_active :: "datetime \<Rightarrow> system_licence \<Rightarrow> bool" where
  "is_trial_active now x \<longleftrightarrow> lic_licence_type x = ''trial'' \<and> lic_trial_started_at x \<noteq> None \<and>
     (case lic_trial_expires_at x of None \<Rightarrow> False | Some e \<Rightarrow> now < e)"

definition days_remaining :: "datetime \<Rightarrow> system_licence \<Rightarrow> int" where
  "days_remaining now x = (if is_trial_active now x then max 0 ((the (lic_trial_expires_at x) - now) div days 1) else 0)"

section \<open>Two answers to one question\<close>

definition access_ok :: "db \<Rightarrow> bool" where
  \<comment> \<open>the primary keys and the unique constraints; rows without a resource are exempt\<close>
  "access_ok d \<longleftrightarrow> uniq perm_id (permissions (rbac d)) \<and>
     uniq (\<lambda>p. (perm_module p, perm_action p, perm_resource p)) (filter (\<lambda>p. perm_resource p \<noteq> None) (permissions (rbac d))) \<and>
     uniq up_id (user_permissions (rbac d)) \<and> uniq (\<lambda>x. (up_user_id x, up_permission_id x)) (user_permissions (rbac d))"

lemma get_permission_Some: "get_permission i d = Some p \<Longrightarrow> p \<in> set (permissions (rbac d)) \<and> perm_id p = i"
  by (auto simp: get_permission_def)

lemma role_of_rows: "set (role_of u d) \<subseteq> set (permissions (rbac d))"
  by (auto simp: role_of_def permission_rows_def List.map_filter_def dest: get_permission_Some split: option.splits)

lemma apply_override_rows: "set (apply_override now d x ps) \<subseteq> set ps \<union> set (permissions (rbac d))"
  by (auto simp: apply_override_def dest: get_permission_Some split: option.splits)

lemma fold_override_rows: "set (fold (apply_override now d) os ps) \<subseteq> set ps \<union> set (permissions (rbac d))"
  using apply_override_rows by (induction os arbitrary: ps) (simp, fastforce)

lemma user_permissions_rows: "set (get_user_permissions now uid d) \<subseteq> set (permissions (rbac d))"
  using fold_override_rows role_of_rows by (fastforce simp: get_user_permissions_def split: option.splits)

lemma apply_override_iff:
  assumes "get_permission i d = Some p"
  shows "p \<in> set (apply_override now d x ps) \<longleftrightarrow> (if up_permission_id x = i \<and> \<not> expired now x then up_is_granted x else p \<in> set ps)"
proof (cases "up_permission_id x = i")
  case False
  then have "get_permission (up_permission_id x) d \<noteq> Some p" using assms get_permission_Some by metis
  with False show ?thesis by (auto simp: apply_override_def split: option.splits)
qed (simp add: apply_override_def assms)

lemma fold_override_iff:
  assumes "get_permission i d = Some p" "distinct (map up_permission_id os)"
  shows "p \<in> set (fold (apply_override now d) os ps) \<longleftrightarrow>
    (case find (\<lambda>x. up_permission_id x = i) os of None \<Rightarrow> p \<in> set ps | Some x \<Rightarrow> if expired now x then p \<in> set ps else up_is_granted x)"
  using assms(2)
proof (induction os arbitrary: ps)
  case (Cons x os)
  show ?case
  proof (cases "up_permission_id x = i")
    case True
    then have "find (\<lambda>x. up_permission_id x = i) os = None" using Cons.prems unfolding find_None_iff by (metis (mono_tags, lifting) distinct.simps(2) image_eqI list.set_map list.simps(9))
    with Cons True show ?thesis by (simp add: apply_override_iff [OF assms(1)])
  next
    case False
    with Cons show ?thesis by (simp add: apply_override_iff [OF assms(1)] split: option.split)
  qed
qed simp

lemma find_filter: "find P (filter Q xs) = find (\<lambda>x. Q x \<and> P x) xs"
  by (induction xs) auto

lemma overrides_distinct: "access_ok d \<Longrightarrow> distinct (map up_permission_id (get_user_permission_overrides uid d))"
  by (auto simp: access_ok_def uniq_def get_user_permission_overrides_def distinct_map inj_on_def)

lemma matching_unique:
  assumes "access_ok d" "truthy resource" "p \<in> set (permissions (rbac d))" "q \<in> set (permissions (rbac d))" "matches m a resource p" "matches m a resource q"
  shows "q = p"
proof -
  have "inj_on (\<lambda>p. (perm_module p, perm_action p, perm_resource p)) (set (filter (\<lambda>p. perm_resource p \<noteq> None) (permissions (rbac d))))"
    using assms(1) unfolding access_ok_def uniq_def distinct_map by blast
  moreover have "p \<in> set (filter (\<lambda>p. perm_resource p \<noteq> None) (permissions (rbac d)))" "q \<in> set (filter (\<lambda>p. perm_resource p \<noteq> None) (permissions (rbac d)))"
    using assms(2-6) by (auto simp: matches_def truthy_def split: option.splits)
  moreover have "(perm_module q, perm_action q, perm_resource q) = (perm_module p, perm_action p, perm_resource p)"
    using assms(5,6) by (simp add: matches_def)
  ultimately show ?thesis unfolding inj_on_def by blast
qed

text \<open>
  C27. For a permission on a resource the check and the listing agree. In a database that satisfies
  its constraints, and for a resource that is given, checking whether a user has the
  permission answers yes exactly when the permission is among those listed for the user:
  an override in force decides, otherwise the role.
\<close>

theorem check_agrees_with_listing:
  assumes "access_ok (cur s)" "truthy resource"
  shows "fst (has_permission now uid m a resource s) \<longleftrightarrow> (\<exists>p \<in> set (get_user_permissions now uid (cur s)). matches m a resource p)"
proof (cases "\<exists>p \<in> set (permissions (rbac (cur s))). matches m a resource p")
  case False
  then have "find_override uid m a resource (cur s) = None"
    by (auto simp: find_override_def find_None_iff dest: get_permission_Some split: option.splits)
  moreover have "\<not> list_ex (matches m a resource) (role_of u (cur s))" for u
    using False role_of_rows by (fastforce simp: list_ex_iff)
  ultimately show ?thesis using False user_permissions_rows by (fastforce simp: has_permission_def split: option.splits)
next
  case True
  then obtain p where p: "p \<in> set (permissions (rbac (cur s)))" "matches m a resource p" by blast
  have only: "q = p" if "q \<in> set (permissions (rbac (cur s)))" "matches m a resource q" for q
    by (rule matching_unique [OF assms p(1) that(1) p(2) that(2)])
  have g: "get_permission (perm_id p) (cur s) = Some p" using assms(1) p(1) by (simp add: get_permission_def access_ok_def uniq_tbl_get)
  have m: "(case get_permission i (cur s) of None \<Rightarrow> False | Some q \<Rightarrow> matches m a resource q) \<longleftrightarrow> i = perm_id p" for i
    using only g p(2) by (auto dest: get_permission_Some split: option.splits)
  have f: "find_override uid m a resource (cur s) = find (\<lambda>x. up_permission_id x = perm_id p) (get_user_permission_overrides uid (cur s))"
    by (simp add: find_override_def get_user_permission_overrides_def find_filter m assms(2))
  have r: "list_ex (matches m a resource) (role_of u (cur s)) \<longleftrightarrow> p \<in> set (role_of u (cur s))" for u
    using only p(2) role_of_rows [of u "cur s"] unfolding list_ex_iff by blast
  have l: "(\<exists>q \<in> set (get_user_permissions now uid (cur s)). matches m a resource q) \<longleftrightarrow> p \<in> set (get_user_permissions now uid (cur s))"
    using only p(2) user_permissions_rows [of now uid "cur s"] by blast
  show ?thesis unfolding l
  proof (cases "get_user uid (cur s)")
    case (Some u)
    then show "fst (has_permission now uid m a resource s) \<longleftrightarrow> p \<in> set (get_user_permissions now uid (cur s))"
      by (simp add: has_permission_def get_user_permissions_def f r fold_override_iff [OF g overrides_distinct [OF assms(1)]] split: option.split)
  qed (simp add: has_permission_def get_user_permissions_def)
qed

text \<open>Without a resource no override is looked at.\<close>

lemma find_False: "find (\<lambda>x. False) xs = None"
  by (induction xs) simp_all

lemma find_snoc: "find P xs = None \<Longrightarrow> find P (xs @ [y]) = (if P y then Some y else None)"
  by (induction xs) (auto split: if_splits)

lemma check_without_resource:
  "has_permission now uid m a None s =
    (case get_user uid (cur s) of None \<Rightarrow> False | Some u \<Rightarrow> list_ex (matches m a None) (role_of u (cur s)), s)"
  by (auto simp: has_permission_def find_override_def truthy_def find_False Let_def split: option.splits)

lemma deny_effects:
  assumes "deny_user_permission uid i reason expires_at s = (True, s')"
  shows "users (cur s') = users (cur s)" "roles (cur s') = roles (cur s)" "permissions (rbac (cur s')) = permissions (rbac (cur s))"
    "\<exists>x. override_of uid i (cur s') = Some x \<and> \<not> up_is_granted x \<and> up_expires_at x = expires_at"
proof -
  show "users (cur s') = users (cur s)" "roles (cur s') = roles (cur s)" "permissions (rbac (cur s')) = permissions (rbac (cur s))"
    using assms by (auto simp: deny_user_permission_def set_override_def split: if_splits option.splits)
  show "\<exists>x. override_of uid i (cur s') = Some x \<and> \<not> up_is_granted x \<and> up_expires_at x = expires_at"
  proof (cases "override_of uid i (cur s)")
    case None
    then show ?thesis using assms
      by (auto simp: deny_user_permission_def set_override_def override_of_def find_snoc split: if_splits)
  next
    case (Some x)
    let ?f = "\<lambda>y. y\<lparr>up_is_granted := False, up_reason := reason, up_expires_at := expires_at\<rparr>"
    have "find (\<lambda>x. up_user_id x = uid \<and> up_permission_id x = i) (tbl_upd up_id (up_id x) ?f os) = Some (?f x)"
      if "find (\<lambda>x. up_user_id x = uid \<and> up_permission_id x = i) os = Some x" for os
      using that by (induction os) (auto simp: tbl_upd_def split: if_splits)
    then show ?thesis using assms Some
      by (auto simp: deny_user_permission_def set_override_def override_of_def split: if_splits)
  qed
qed

text \<open>
  C28. A denied permission stays in force. Denying a user a permission that the role gives, for good,
  is recorded, and the listing no longer shows the permission; but when the permission has no
  resource, as all the seeded ones, the check that guards the endpoints still answers yes.
\<close>

theorem denied_permission_still_granted:
  assumes "get_user uid (cur s) = Some u" "p \<in> set (role_of u (cur s))" "perm_resource p = None"
    "deny_user_permission uid (perm_id p) reason None s = (True, s')" "access_ok (cur s')"
  shows "fst (has_permission now uid (perm_module p) (perm_action p) None s') \<and> p \<notin> set (get_user_permissions now uid (cur s'))"
proof -
  note eff = deny_effects [OF assms(4)]
  have u: "get_user uid (cur s') = Some u" and r: "role_of u (cur s') = role_of u (cur s)"
    using assms(1) eff(1-3) by (simp_all add: get_user_def role_of_def get_role_def permission_rows_def get_permission_def split: option.split)
  have "matches (perm_module p) (perm_action p) None p" using assms(3) by (simp add: matches_def truthy_def)
  then have yes: "fst (has_permission now uid (perm_module p) (perm_action p) None s')"
    using assms(2) by (auto simp: check_without_resource u r list_ex_iff)
  have "p \<in> set (permissions (rbac (cur s')))" using assms(2) role_of_rows [of u "cur s'"] unfolding r by blast
  then have g: "get_permission (perm_id p) (cur s') = Some p" using assms(5) by (simp add: get_permission_def access_ok_def uniq_tbl_get)
  obtain x where x: "override_of uid (perm_id p) (cur s') = Some x" "\<not> up_is_granted x" "up_expires_at x = None" using eff(4) by blast
  have "find (\<lambda>x. up_permission_id x = perm_id p) (get_user_permission_overrides uid (cur s')) = Some x"
    using x(1) by (simp add: get_user_permission_overrides_def find_filter override_of_def)
  then have "p \<notin> set (get_user_permissions now uid (cur s'))"
    using x(2,3) by (simp add: get_user_permissions_def u fold_override_iff [OF g overrides_distinct [OF assms(5)]] expired_def)
  with yes show ?thesis by blast
qed

text \<open>The decorators of the administration endpoints name roles that no user has.\<close>

lemma administration_endpoints_refuse_everyone: "require_superuser u \<noteq> None"
  by (cases u; cases "usr_role (the u)") (simp_all add: require_superuser_def require_role_def)

section \<open>A fresh installation\<close>

definition installed :: db where
  "installed = cur (snd (initialize_system_roles_and_permissions (fresh (empty_db\<lparr>users := [user0\<lparr>usr_role_id := Some 2\<rparr>]\<rparr>))))"

lemma installed_roles:
  "map (\<lambda>r. (role_name r, length (role_permissions r))) (roles installed) = [(''superuser'', 31), (''admin'', 10), (''technician'', 8), (''customer'', 3)]"
  by code_simp

text \<open>Managing does not include reading: an administrator may manage users but not read them.\<close>

lemma admin_may_manage_but_not_read:
  "fst (has_permission 0 1 ModUsers ActManage None (fresh installed))" "\<not> fst (has_permission 0 1 ModUsers ActRead None (fresh installed))"
  by code_simp+

section \<open>The theorems at a concrete input\<close>

definition perm0 :: permission where
  "perm0 = \<lparr>perm_id = 1, perm_module = ModUsers, perm_action = ActRead, perm_resource = None, perm_description = None\<rparr>"

definition access_db :: "string option \<Rightarrow> db" where
  "access_db resource = empty_db\<lparr>users := [user0\<lparr>usr_role_id := Some 1\<rparr>],
     roles := [\<lparr>role_id = 1, role_name = ''admin'', role_description = None, role_is_system_role = True, role_permissions = [1]\<rparr>],
     rbac := empty_access\<lparr>permissions := [perm0\<lparr>perm_resource := resource\<rparr>]\<rparr>\<rparr>"

theorem check_agrees_with_listing_witness:
  "fst (has_permission 0 1 ModUsers ActRead (Some ''x'') (fresh (access_db (Some ''x''))))
   \<and> (\<exists>p \<in> set (get_user_permissions 0 1 (access_db (Some ''x''))). matches ModUsers ActRead (Some ''x'') p)"
proof -
  have "access_ok (cur (fresh (access_db (Some ''x''))))" by (simp add: access_ok_def access_db_def empty_access_def uniq_def)
  moreover have "fst (has_permission 0 1 ModUsers ActRead (Some ''x'') (fresh (access_db (Some ''x''))))" by code_simp
  ultimately show ?thesis using check_agrees_with_listing [of "fresh (access_db (Some ''x''))" "Some ''x''" 0 1 ModUsers ActRead] by (simp add: truthy_def)
qed

theorem denied_permission_still_granted_witness:
  "fst (has_permission 0 1 ModUsers ActRead None (snd (deny_user_permission 1 1 None None (fresh (access_db None)))))"
proof -
  let ?s' = "snd (deny_user_permission 1 1 None None (fresh (access_db None)))"
  have d: "deny_user_permission 1 (perm_id perm0) None None (fresh (access_db None)) = (True, ?s')"
    by (simp add: deny_user_permission_def set_override_def get_user_def get_permission_def access_db_def user0_def perm0_def empty_access_def table_simps)
  have "access_ok (cur ?s')"
    by (simp add: access_ok_def deny_user_permission_def set_override_def override_of_def get_user_def get_permission_def access_db_def user0_def
        perm0_def empty_access_def table_simps uniq_def)
  moreover have "get_user 1 (cur (fresh (access_db None))) = Some (user0\<lparr>usr_role_id := Some 1\<rparr>)"
    by (simp add: get_user_def access_db_def user0_def table_simps)
  moreover have "perm0 \<in> set (role_of (user0\<lparr>usr_role_id := Some 1\<rparr>) (cur (fresh (access_db None))))"
    by (simp add: role_of_def get_role_def permission_rows_def get_permission_def access_db_def perm0_def empty_access_def table_simps List.map_filter_def)
  ultimately show ?thesis
    using denied_permission_still_granted [OF _ _ _ d, of "user0\<lparr>usr_role_id := Some 1\<rparr>" 0] by (simp add: perm0_def)
qed

end
