(* ===== verification/Accounts.thy ===== *)
theory Accounts
  imports Identity Tokens Access_Control
begin

text \<open>
  Accounts: the user service (\<open>src/app/modules/auth/users.py\<close>), the local login
  (\<open>src/app/modules/auth/service.py\<close>, \<open>src/app/api/v1/auth/auth.py\<close>) and its tokens.

  Checking and hashing a password are arguments, as is the column \<open>created_at\<close>, which orders the listings.
\<close>

section \<open>The user service\<close>

definition user_by_id :: "int \<Rightarrow> db \<Rightarrow> exn + user option" where
  "user_by_id i d = (if i \<le> 0 then Inl (ValidationError ''Unexpected error: Invalid user ID'') else Inr (tbl_get usr_id i (users d)))"

definition get_by_username :: "string \<Rightarrow> db \<Rightarrow> exn + user option" where
  "get_by_username n d = scalar_one_or_none (filter (\<lambda>u. usr_username u = n) (users d))"

definition get_by_email :: "string \<Rightarrow> db \<Rightarrow> exn + user option" where
  "get_by_email e d = scalar_one_or_none (filter (\<lambda>u. usr_email u = e) (users d))"

definition apply_search :: "string option \<Rightarrow> user \<Rightarrow> bool" where
  "apply_search search u \<longleftrightarrow> (truthy search \<longrightarrow> search_matches search (usr_username u) \<or> search_matches search (usr_email u) \<or>
     search_matches search (usr_first_name u) \<or> search_matches search (usr_last_name u))"

definition paginated_query :: "(user \<Rightarrow> datetime) \<Rightarrow> int \<Rightarrow> int \<Rightarrow> user list \<Rightarrow> user listing" where
  "paginated_query created page sz rs = paginate created \<lparr>pg_page = page, pg_size = sz, pg_offset = (page - 1) * sz\<rparr> rs"

definition in_tenant :: "int option \<Rightarrow> user \<Rightarrow> bool" where
  "in_tenant organization_id u \<longleftrightarrow> (organization_id \<noteq> None \<longrightarrow> usr_organization_id u = organization_id)"

definition with_status :: "UserStatus option \<Rightarrow> user \<Rightarrow> bool" where
  "with_status status u \<longleftrightarrow> (status \<noteq> None \<longrightarrow> Some (usr_status u) = status)"

definition get_all_users ::
    "(user \<Rightarrow> datetime) \<Rightarrow> int \<Rightarrow> int \<Rightarrow> UserRole option \<Rightarrow> UserStatus option \<Rightarrow> string option \<Rightarrow> int option \<Rightarrow> db \<Rightarrow> user listing" where
  "get_all_users created page sz role status search organization_id d =
     paginated_query created page sz (filter (\<lambda>u. in_tenant organization_id u \<and> (role \<noteq> None \<longrightarrow> Some (usr_role u) = role) \<and>
       with_status status u \<and> apply_search search u) (users d))"

definition get_platform_users :: "(user \<Rightarrow> datetime) \<Rightarrow> int \<Rightarrow> int \<Rightarrow> UserStatus option \<Rightarrow> string option \<Rightarrow> db \<Rightarrow> user listing" where
  "get_platform_users created page sz status search d =
     paginated_query created page sz (filter (\<lambda>u. usr_role u = PlatformOwner \<and> usr_organization_id u = None \<and>
       with_status status u \<and> apply_search search u) (users d))"

definition get_staff_users ::
    "(user \<Rightarrow> datetime) \<Rightarrow> int option \<Rightarrow> int \<Rightarrow> int \<Rightarrow> UserRole option \<Rightarrow> UserStatus option \<Rightarrow> string option \<Rightarrow> db \<Rightarrow> user listing" where
  "get_staff_users created organization_id page sz role status search d =
     paginated_query created page sz (filter (\<lambda>u. usr_role u \<in> {IspAdmin, IspTechnician} \<and> in_tenant organization_id u \<and>
       (role \<in> {Some IspAdmin, Some IspTechnician} \<longrightarrow> Some (usr_role u) = role) \<and> with_status status u \<and> apply_search search u) (users d))"

definition get_customer_users ::
    "(user \<Rightarrow> datetime) \<Rightarrow> int option \<Rightarrow> int \<Rightarrow> int \<Rightarrow> UserStatus option \<Rightarrow> string option \<Rightarrow> db \<Rightarrow> user listing" where
  "get_customer_users created organization_id page sz status search d =
     paginated_query created page sz (filter (\<lambda>u. usr_role u = Customer \<and> in_tenant organization_id u \<and>
       with_status status u \<and> apply_search search u) (users d))"

text \<open>A change of one user, committed.\<close>

definition change_user :: "int \<Rightarrow> (user \<Rightarrow> user) \<Rightarrow> dbs \<Rightarrow> (exn + user option) \<times> dbs" where
  "change_user i f s =
     (case user_by_id i (cur s) of
        Inl e \<Rightarrow> (Inl e, s)
      | Inr None \<Rightarrow> (Inr None, s)
      | Inr (Some u) \<Rightarrow> (Inr (Some (f u)), commit (on_db (users_update (tbl_upd usr_id i f)) s)))"

definition update_user_status :: "int \<Rightarrow> UserStatus \<Rightarrow> dbs \<Rightarrow> (exn + user option) \<times> dbs" where
  "update_user_status i status = change_user i (usr_status_update (\<lambda>_. status))"

definition update_user_role :: "int \<Rightarrow> UserRole \<Rightarrow> dbs \<Rightarrow> (exn + user option) \<times> dbs" where
  "update_user_role i role = change_user i (usr_role_update (\<lambda>_. role))"

definition deactivate_user :: "int \<Rightarrow> dbs \<Rightarrow> (exn + user option) \<times> dbs" where
  "deactivate_user i = change_user i (\<lambda>u. u\<lparr>usr_is_active := False, usr_status := UsrInactive\<rparr>)"

definition activate_user :: "int \<Rightarrow> dbs \<Rightarrow> (exn + user option) \<times> dbs" where
  "activate_user i = change_user i (\<lambda>u. u\<lparr>usr_is_active := True, usr_status := UsrActive\<rparr>)"

definition delete_user :: "int \<Rightarrow> dbs \<Rightarrow> (exn + bool) \<times> dbs" where
  "delete_user i s =
     (case deactivate_user i s of (Inl e, s1) \<Rightarrow> (Inl e, s1) | (Inr u, s1) \<Rightarrow> (Inr (u \<noteq> None), s1))"

text \<open>
  A profile update. A field may be unset, set to nothing, or set to a value; a phone number without a
  country code gets that of Kenya, after its length was checked.
\<close>

record user_update =
  uu_first_name :: "string option option"
  uu_last_name :: "string option option"
  uu_phone :: "string option option"
  uu_bio :: "string option option"
  uu_avatar_url :: "string option option"

definition validate_phone :: "string option \<Rightarrow> string option" where
  "validate_phone v = (if truthy v \<and> take 1 (the v) \<noteq> ''+'' then Some (''+254'' @ dropWhile (\<lambda>c. c = CHR ''0'') (the v)) else v)"

definition user_update_ok :: "user_update \<Rightarrow> bool" where
  \<comment> \<open>the constraints of the schema\<close>
  "user_update_ok q \<longleftrightarrow>
     (\<forall>n \<in> {uu_first_name q, uu_last_name q}. case n of Some (Some t) \<Rightarrow> 1 \<le> length t \<and> length t \<le> 50 | _ \<Rightarrow> True) \<and>
     (case uu_phone q of Some (Some t) \<Rightarrow> length t \<le> 20 | _ \<Rightarrow> True)"

definition set_to :: "'a option \<Rightarrow> 'a \<Rightarrow> 'a" where
  "set_to v old = (case v of None \<Rightarrow> old | Some x \<Rightarrow> x)"

definition profile_row_ok :: "user \<Rightarrow> db \<Rightarrow> bool" where
  "profile_row_ok u d \<longleftrightarrow> length (or_str (usr_phone u) []) \<le> 20 \<and> length (or_str (usr_avatar_url u) []) \<le> 500 \<and>
     (usr_phone u = None \<or> usr_phone u \<notin> usr_phone ` {y \<in> set (users d). usr_id y \<noteq> usr_id u})"

definition update_user :: "int \<Rightarrow> user_update \<Rightarrow> dbs \<Rightarrow> (exn + user option) \<times> dbs" where
  "update_user i q s =
     (case user_by_id i (cur s) of
        Inl e \<Rightarrow> (Inl e, s)
      | Inr None \<Rightarrow> (Inr None, s)
      | Inr (Some u) \<Rightarrow>
          let first = set_to (uu_first_name q) (Some (usr_first_name u)); last = set_to (uu_last_name q) (Some (usr_last_name u));
              u1 = u\<lparr>usr_first_name := the first, usr_last_name := the last,
                     usr_phone := set_to (map_option validate_phone (uu_phone q)) (usr_phone u),
                     usr_bio := set_to (uu_bio q) (usr_bio u), usr_avatar_url := set_to (uu_avatar_url q) (usr_avatar_url u)\<rparr>
          in if first = None \<or> last = None then (Inl (IntegrityError ''null value in column of users violates not-null constraint''), rollback s)
             else if \<not> profile_row_ok u1 (cur s) then (Inl (Exn ''DBAPIError'' ''value too long or duplicate key value''), rollback s)
             else (Inr (Some u1), commit (on_db (users_update (tbl_upd usr_id i (\<lambda>_. u1))) s)))"

record user_statistics =
  ust_subscription_count :: nat
  ust_active_subscription_count :: nat
  ust_total_invoices :: nat
  ust_pending_invoices :: nat
  ust_total_payments :: nat

definition get_user_stats :: "int \<Rightarrow> db \<Rightarrow> exn + user_statistics option" where
  "get_user_stats i d =
     (case user_by_id i d of
        Inl e \<Rightarrow> Inl e
      | Inr None \<Rightarrow> Inr None
      | Inr (Some u) \<Rightarrow> Inr (Some
          \<lparr>ust_subscription_count = length (filter (\<lambda>q. sub_user_id q = i) (subscriptions d)),
           ust_active_subscription_count = length (filter (\<lambda>q. sub_user_id q = i \<and> sub_status q = SubActive) (subscriptions d)),
           ust_total_invoices = length (filter (\<lambda>q. inv_user_id q = i) (invoices d)),
           ust_pending_invoices = length (filter (\<lambda>q. inv_user_id q = i \<and> inv_status q = InvPending) (invoices d)),
           ust_total_payments = length (filter (\<lambda>q. pay_user_id q = i) (payments d))\<rparr>))"

section \<open>Local login\<close>

definition authenticate_user :: "(string \<Rightarrow> string \<Rightarrow> bool) \<Rightarrow> datetime \<Rightarrow> string \<Rightarrow> string \<Rightarrow> dbs \<Rightarrow> user option \<times> dbs" where
  \<comment> \<open>every error is caught\<close>
  "authenticate_user verify_password now username_or_email password s =
     (case scalar_one_or_none (filter (\<lambda>u. (usr_email u = username_or_email \<or> usr_username u = username_or_email) \<and> usr_is_active u) (users (cur s))) of
        Inl e \<Rightarrow> (None, s)
      | Inr None \<Rightarrow> (None, s)
      | Inr (Some u) \<Rightarrow>
          if \<not> verify_password password (usr_hashed_password u) then (None, s)
          else (Some (u\<lparr>usr_last_login := Some now\<rparr>),
                commit (on_db (users_update (tbl_upd usr_id (usr_id u) (usr_last_login_update (\<lambda>_. Some now)))) s)))"

definition update_last_login :: "datetime \<Rightarrow> int \<Rightarrow> dbs \<Rightarrow> dbs" where
  "update_last_login now i s =
     (if tbl_get usr_id i (users (cur s)) = None then s
      else commit (on_db (users_update (tbl_upd usr_id i (usr_last_login_update (\<lambda>_. Some now)))) s))"

record registration =
  rg_username :: string
  rg_email :: string
  rg_password :: string
  rg_first_name :: string
  rg_last_name :: string
  rg_phone :: "string option"
  rg_role :: UserRole

definition registered :: "string \<Rightarrow> registration \<Rightarrow> int \<Rightarrow> user" where
  "registered password_hash q i =
     \<lparr>usr_id = i, usr_organization_id = None, usr_username = rg_username q, usr_email = rg_email q, usr_phone = rg_phone q,
      usr_first_name = rg_first_name q, usr_last_name = rg_last_name q, usr_hashed_password = password_hash, usr_is_verified = False,
      usr_is_active = True, usr_auth_service_user_id = None, usr_auth_synced_at = None, usr_role = rg_role q,
      usr_status = UsrPendingVerification, usr_role_id = None, usr_last_login = None, usr_bio = None, usr_avatar_url = None\<rparr>"

definition register_user :: "(string \<Rightarrow> string) \<Rightarrow> registration \<Rightarrow> dbs \<Rightarrow> (exn + user) \<times> dbs" where
  "register_user get_password_hash q s =
     (case get_by_username (rg_username q) (cur s) of
        Inl e \<Rightarrow> (Inl e, s)
      | Inr (Some _) \<Rightarrow> (Inl (Exn ''HTTPException'' ''400: Username already registered''), s)
      | Inr None \<Rightarrow>
          (case get_by_email (rg_email q) (cur s) of
             Inl e \<Rightarrow> (Inl e, s)
           | Inr (Some _) \<Rightarrow> (Inl (Exn ''HTTPException'' ''400: Email already registered''), s)
           | Inr None \<Rightarrow>
               let u = registered (get_password_hash (rg_password q)) q (user_seq (cur s))
               in if rg_phone q \<noteq> None \<and> rg_phone q \<in> usr_phone ` set (users (cur s))
                  then (Inl (Exn ''HTTPException'' ''400: Failed to register user. Username or email may already exist.''), rollback s)
                  else if \<not> user_row_ok u (cur s) \<or> length (or_str (rg_phone q) []) > 20
                  then (Inl (Exn ''DBAPIError'' ''value too long''), rollback s)
                  else (Inr u, commit (on_db (\<lambda>d. d\<lparr>users := users d @ [u], user_seq := user_seq d + 1\<rparr>) s))))"

fun role_permission_table :: "UserRole \<Rightarrow> string list" where
  \<comment> \<open>\<open>ADMIN\<close> and \<open>TECHNICIAN\<close> are aliases of the roles of a provider\<close>
  "role_permission_table IspAdmin =
     [''users.create'', ''users.read'', ''users.update'', ''users.delete'', ''routers.create'', ''routers.read'', ''routers.update'',
      ''routers.delete'', ''provisioning.create'', ''provisioning.read'', ''provisioning.update'', ''billing.create'', ''billing.read'',
      ''billing.update'', ''billing.delete'', ''settings.read'', ''settings.update'']"
| "role_permission_table IspTechnician =
     [''routers.read'', ''routers.update'', ''provisioning.create'', ''provisioning.read'', ''provisioning.update'', ''billing.read'']"
| "role_permission_table Customer = [''routers.read'', ''billing.read'']"
| "role_permission_table PlatformOwner = []"

definition check_permission :: "user \<Rightarrow> string \<Rightarrow> bool" where
  "check_permission u required_permission \<longleftrightarrow> required_permission \<in> set (role_permission_table (usr_role u))"

section \<open>The login endpoints\<close>

definition collect_step :: "datetime \<Rightarrow> db \<Rightarrow> user_permission \<Rightarrow> permission list \<Rightarrow> permission list" where
  "collect_step now d x ps =
     (if expired now x then ps
      else case get_permission (up_permission_id x) d of
        None \<Rightarrow> ps
      | Some p \<Rightarrow> if up_is_granted x then (if perm_id p \<in> perm_id ` set ps then ps else ps @ [p])
                  else filter (\<lambda>q. perm_id q \<noteq> perm_id p) ps)"

definition collect_effective_permissions :: "datetime \<Rightarrow> user \<Rightarrow> db \<Rightarrow> permission list" where
  "collect_effective_permissions now u d = fold (collect_step now d) (get_user_permission_overrides (usr_id u) d) (role_of u d)"

record login_answer =
  la_access_token :: string
  la_refresh_token :: string
  la_user :: user
  la_permissions :: "permission list"
  la_organization :: "organization option"
  la_portal_url :: "string option"

definition organization_of :: "user \<Rightarrow> db \<Rightarrow> organization option" where
  "organization_of u d = (if truthy_int (usr_organization_id u) then tbl_get org_id (the (usr_organization_id u)) (organizations d) else None)"

definition portal_url :: "user \<Rightarrow> organization \<Rightarrow> db \<Rightarrow> string" where
  "portal_url u org d =
     ''/'' @ org_slug org @ ''/portal/'' @
     (case one_of (order_by (\<lambda>q. - sub_created_at q) (filter (\<lambda>q. sub_user_id q = usr_id u \<and> sub_status q \<in> {SubActive, SubSuspended}) (subscriptions d))) of
        Some q \<Rightarrow> if sub_type q = PPPOE then ''pppoe'' else ''hotspot''
      | None \<Rightarrow> ''hotspot'')"

definition login ::
    "jwt \<Rightarrow> token_settings \<Rightarrow> (string \<Rightarrow> string \<Rightarrow> bool) \<Rightarrow> datetime \<Rightarrow> bool \<Rightarrow> string \<Rightarrow> string \<Rightarrow> dbs \<Rightarrow> (exn + login_answer) \<times> dbs" where
  "login j c verify_password now limited username password s =
     (if limited then (Inl TooManyRequests, s)
      else case authenticate_user verify_password now username password s of
        (None, s1) \<Rightarrow> (Inl (Exn ''HTTPException'' ''401: Incorrect username or password''), s1)
      | (Some u, s1) \<Rightarrow>
          if \<not> usr_is_active u then (Inl (Exn ''HTTPException'' ''400: Inactive user''), s1)
          else
            let (access, refresh) = create_token_pair j c now (usr_id u) (usr_username u) (user_role_value (usr_role u)) None;
                s2 = update_last_login now (usr_id u) s1;
                org = organization_of u (cur s2)
            in (Inr \<lparr>la_access_token = access, la_refresh_token = refresh, la_user = u,
                    la_permissions = collect_effective_permissions now u (cur s2),
                    la_organization = (if usr_role u \<in> {IspAdmin, IspTechnician} then org else None),
                    la_portal_url = (if usr_role u = Customer then map_option (\<lambda>g. portal_url u g (cur s2)) org else None)\<rparr>, s2))"

definition refresh_token :: "jwt \<Rightarrow> token_settings \<Rightarrow> datetime \<Rightarrow> string \<Rightarrow> db \<Rightarrow> exn + string \<times> string" where
  "refresh_token j c now token d =
     (case verify_token j now token ''refresh'' of
        Inl e \<Rightarrow> Inl e
      | Inr None \<Rightarrow> Inl (Exn ''HTTPException'' ''401: Invalid refresh token'')
      | Inr (Some t) \<Rightarrow>
          (case user_by_id (td_user_id t) d of
             Inl e \<Rightarrow> Inl e
           | Inr None \<Rightarrow> Inl (Exn ''HTTPException'' ''401: User not found or inactive'')
           | Inr (Some u) \<Rightarrow>
               if \<not> usr_is_active u then Inl (Exn ''HTTPException'' ''401: User not found or inactive'')
               else Inr (create_token_pair j c now (usr_id u) (usr_username u) (user_role_value (usr_role u)) None)))"

section \<open>What a login does\<close>

lemma authenticate_Some:
  assumes "authenticate_user verify_password now name password s = (Some u, s1)"
  shows "\<exists>v. v \<in> set (users (cur s)) \<and> usr_is_active v \<and> verify_password password (usr_hashed_password v) \<and>
    (usr_email v = name \<or> usr_username v = name) \<and> u = v\<lparr>usr_last_login := Some now\<rparr> \<and>
    s1 = commit (on_db (users_update (tbl_upd usr_id (usr_id v) (usr_last_login_update (\<lambda>_. Some now)))) s)"
proof -
  let ?P = "\<lambda>u. (usr_email u = name \<or> usr_username u = name) \<and> usr_is_active u"
  obtain v where v: "filter ?P (users (cur s)) = [v]"
    using assms by (auto simp: authenticate_user_def scalar_one_or_none_Some split: sum.splits option.splits)
  from filter_single_mem [OF v] assms show ?thesis by (auto simp: authenticate_user_def v split: if_splits)
qed

lemma login_success:
  assumes "login j c verify_password now limited name password s = (Inr a, s')"
  obtains v where "v \<in> set (users (cur s))" "usr_is_active v" "la_user a = v\<lparr>usr_last_login := Some now\<rparr>"
    "la_access_token a = fst (create_token_pair j c now (usr_id v) (usr_username v) (user_role_value (usr_role v)) None)"
    "la_refresh_token a = snd (create_token_pair j c now (usr_id v) (usr_username v) (user_role_value (usr_role v)) None)"
    "users (cur s') = tbl_upd usr_id (usr_id v) (usr_last_login_update (\<lambda>_. Some now)) (users (cur s))"
proof -
  obtain u s1 where u: "authenticate_user verify_password now name password s = (Some u, s1)"
    using assms by (auto simp: login_def split: if_splits prod.splits option.splits)
  obtain v where v: "v \<in> set (users (cur s))" "usr_is_active v" "u = v\<lparr>usr_last_login := Some now\<rparr>"
      "s1 = commit (on_db (users_update (tbl_upd usr_id (usr_id v) (usr_last_login_update (\<lambda>_. Some now)))) s)"
    using authenticate_Some [OF u] by blast
  have "tbl_upd usr_id i (usr_last_login_update (\<lambda>_. Some now)) (tbl_upd usr_id i (usr_last_login_update (\<lambda>_. Some now)) t)
      = tbl_upd usr_id i (usr_last_login_update (\<lambda>_. Some now)) t" for i and t :: "user list"
    by (simp add: tbl_upd_def)
  then have "users (cur s') = tbl_upd usr_id (usr_id v) (usr_last_login_update (\<lambda>_. Some now)) (users (cur s))"
    using assms by (auto simp: login_def u v(3,4) update_last_login_def Let_def split: if_splits prod.splits)
  with v(1,2) show ?thesis using assms
    by (intro that [of v]) (auto simp: login_def u v(3) Let_def split: if_splits prod.splits)
qed

end
