(* ===== verification/Tunnel.thy ===== *)
theory Tunnel
  imports Network_Config Tokens
begin

text \<open>
  The tunnel through which the backend reaches routers behind NAT (\<open>src/app/services/wireguard.py\<close>,
  \<open>src/app/api/v1/vpn.py\<close>, the registration callback of \<open>src/app/api/v1/provisioning/bootstrap.py\<close>)
  and the administration of routers that goes with it: creating one and giving it a port for remote
  access (\<open>src/app/modules/routers/service.py\<close>).

  The subnet of the settings is given as the network that \<open>ipaddress.ip_network\<close> reads: its first address
  as a number, and the prefix length. Whether \<open>ipaddress.ip_address\<close> accepts a text is an argument.
\<close>

section \<open>Addresses\<close>

record wg_settings =
  wg_network :: nat
  wg_prefix :: nat
  wg_server_public_key :: string
  wg_peer_sync_token :: "string option"
  wg_vpn_domain :: string

definition server_address :: "wg_settings \<Rightarrow> string" where
  "server_address c = dotted (wg_network c + 1)"

definition hosts :: "wg_settings \<Rightarrow> nat list" where
  "hosts c =
     (if wg_prefix c = 32 then [wg_network c]
      else if wg_prefix c = 31 then [wg_network c, wg_network c + 1]
      else [wg_network c + 1 ..< wg_network c + 2 ^ (32 - wg_prefix c) - 1])"

definition used_addresses :: "wg_settings \<Rightarrow> db \<Rightarrow> string list" where
  "used_addresses c d = server_address c # map the (filter truthy (map rt_vpn_address (routers d)))"

definition allocate_ip :: "wg_settings \<Rightarrow> router option \<Rightarrow> db \<Rightarrow> exn + string" where
  "allocate_ip c r d =
     (if r \<noteq> None \<and> truthy (rt_vpn_address (the r)) then Inr (the (rt_vpn_address (the r)))
      else case find (\<lambda>h. dotted h \<noteq> server_address c \<and> dotted h \<notin> set (used_addresses c d)) (hosts c) of
        None \<Rightarrow> Inl (Exn ''RuntimeError'' ''No free WireGuard tunnel IP available'')
      | Some h \<Rightarrow> Inr (dotted h))"

definition wg_enabled :: "wg_settings \<Rightarrow> bool" where
  "wg_enabled c \<longleftrightarrow> strip (wg_server_public_key c) \<noteq> []"

section \<open>Peers\<close>

abbreviation VpnRowError :: exn where
  "VpnRowError \<equiv> Exn ''DBAPIError'' ''value too long or duplicate key value''"

definition router_row_ok :: "router \<Rightarrow> router list \<Rightarrow> bool" where
  \<comment> \<open>the unique columns against the other rows, and the lengths\<close>
  "router_row_ok r others \<longleftrightarrow>
     (rt_vpn_address r = None \<or> rt_vpn_address r \<notin> rt_vpn_address ` set others) \<and>
     (rt_winbox_port r = None \<or> rt_winbox_port r \<notin> rt_winbox_port ` set others) \<and>
     length (or_str (rt_vpn_public_key r) []) \<le> 64 \<and> length (rt_name r) \<le> 100 \<and> length (rt_ip_address r) \<le> 45 \<and>
     length (rt_username r) \<le> 50 \<and> length (rt_password r) \<le> 255 \<and> length (or_str (rt_location r) []) \<le> 200"

definition others :: "router \<Rightarrow> db \<Rightarrow> router list" where
  "others r d = filter (\<lambda>y. rt_id y \<noteq> rt_id r) (routers d)"

definition register_peer :: "wg_settings \<Rightarrow> router \<Rightarrow> string \<Rightarrow> dbs \<Rightarrow> (exn + router) \<times> dbs" where
  "register_peer c r public_key s =
     (let key = strip public_key
      in if key = [] then (Inl (ValueError ''Empty WireGuard public key''), s)
         else case (if truthy (rt_vpn_address r) then Inr (the (rt_vpn_address r)) else allocate_ip c (Some r) (cur s)) of
           Inl e \<Rightarrow> (Inl e, s)
         | Inr a \<Rightarrow>
             let r1 = r\<lparr>rt_vpn_address := Some a, rt_vpn_public_key := Some key, rt_vpn_enabled := True\<rparr>
             in if \<not> router_row_ok r1 (others r (cur s)) then (Inl VpnRowError, s)
                else (Inr r1, on_db (upd_router (rt_id r) (\<lambda>_. r1)) s))"

record wg_request =
  wq_token :: string
  wq_form_key :: "string option"
  wq_query_key :: "string option"
  wq_identity :: "string option"
  wq_client_host :: "string option"

definition request_key :: "wg_request \<Rightarrow> string" where
  "request_key q = (let k = strip (or_str (wq_form_key q) []) in if k \<noteq> [] then k else strip (or_str (wq_query_key q) []))"

definition correlate :: "wg_request \<Rightarrow> db \<Rightarrow> exn + router option" where
  "correlate q d =
     bind_exn (if truthy (wq_identity q) then scalar_one_or_none (filter (\<lambda>r. rt_name r = the (wq_identity q)) (routers d)) else Inr None)
       (\<lambda>found. case found of
          Some r \<Rightarrow> Inr (Some r)
        | None \<Rightarrow> (case wq_client_host q of
                     None \<Rightarrow> Inr None
                   | Some h \<Rightarrow> scalar_one_or_none (filter (\<lambda>r. rt_ip_address r = h) (routers d))))"

definition is_Inr :: "'a + 'b \<Rightarrow> bool" where
  "is_Inr x = (case x of Inl _ \<Rightarrow> False | Inr _ \<Rightarrow> True)"

lemma is_Inr_simps [simp]: "is_Inr (Inl e) = False" "is_Inr (Inr v) = True"
  by (simp_all add: is_Inr_def)

text \<open>
  The callback verifies the token inside a \<open>try\<close> block and does not look at the answer, which is nothing
  for a token that is not accepted: only an exception is refused.
\<close>

definition wg_register :: "jwt \<Rightarrow> datetime \<Rightarrow> wg_settings \<Rightarrow> wg_request \<Rightarrow> dbs \<Rightarrow> (exn + router) \<times> dbs" where
  "wg_register j now c q s =
     (if \<not> is_Inr (verify_token j now (wq_token q) ''access'') then (Inl (Exn ''HTTPException'' ''401: Invalid token''), s)
      else if request_key q = [] then (Inl (Exn ''HTTPException'' ''400: Missing public_key''), s)
      else case correlate q (cur s) of
        Inl e \<Rightarrow> (Inl e, s)
      | Inr None \<Rightarrow> (Inl (Exn ''HTTPException'' ''404: Router not found''), s)
      | Inr (Some r) \<Rightarrow>
          (case register_peer c r (request_key q) s of
             (Inl e, s1) \<Rightarrow> (Inl (Exn ''HTTPException'' ''500: Failed to register WireGuard peer''), rollback s1)
           | (Inr r1, s1) \<Rightarrow> (Inr r1, commit s1)))"

text \<open>The script of the action \<open>vpn\<close> reserves the address before the router fetches its configuration.\<close>

definition reserve_tunnel_ip :: "wg_settings \<Rightarrow> router \<Rightarrow> dbs \<Rightarrow> (exn + string) \<times> dbs" where
  "reserve_tunnel_ip c r s =
     (if \<not> wg_enabled c then (Inl (Exn ''HTTPException'' ''400: WireGuard is not configured on the platform''), s)
      else case allocate_ip c (Some r) (cur s) of
        Inl e \<Rightarrow> (Inl e, s)
      | Inr a \<Rightarrow>
          let r1 = r\<lparr>rt_vpn_address := Some a\<rparr>
          in if \<not> router_row_ok r1 (others r (cur s)) then (Inl VpnRowError, rollback s)
             else (Inr a, commit (on_db (upd_router (rt_id r) (\<lambda>_. r1)) s)))"

record peer =
  pr_router_id :: int
  pr_public_key :: string
  pr_tunnel_ip :: string
  pr_winbox_port :: "int option"

definition allowed_ips :: "peer \<Rightarrow> string" where
  "allowed_ips p = pr_tunnel_ip p @ ''/32''"

definition list_peers :: "db \<Rightarrow> peer list" where
  "list_peers d =
     map (\<lambda>r. \<lparr>pr_router_id = rt_id r, pr_public_key = the (rt_vpn_public_key r), pr_tunnel_ip = the (rt_vpn_address r),
               pr_winbox_port = rt_winbox_port r\<rparr>)
       (filter (\<lambda>r. rt_vpn_enabled r \<and> rt_vpn_public_key r \<noteq> None \<and> rt_vpn_address r \<noteq> None) (routers d))"

definition require_sync_token :: "wg_settings \<Rightarrow> string option \<Rightarrow> exn option" where
  "require_sync_token c authorization =
     (let expected = strip (or_str (wg_peer_sync_token c) []);
          header = or_str authorization [];
          provided = (if map lower (take 7 header) = ''bearer '' then strip (drop 7 header) else [])
      in if expected = [] then Some (Exn ''HTTPException'' ''503: VPN peer sync is not configured (WG_PEER_SYNC_TOKEN unset)'')
         else if provided = [] \<or> provided \<noteq> expected then Some (Exn ''HTTPException'' ''401: Invalid VPN peer sync token'')
         else None)"

definition list_vpn_peers :: "wg_settings \<Rightarrow> string option \<Rightarrow> db \<Rightarrow> exn + string \<times> peer list" where
  "list_vpn_peers c authorization d =
     (case require_sync_token c authorization of
        Some e \<Rightarrow> Inl e
      | None \<Rightarrow> Inr (server_address c, list_peers d))"

section \<open>Ports for remote access\<close>

definition port_range :: "int option \<Rightarrow> db \<Rightarrow> exn + int \<times> int" where
  "port_range org d =
     (if \<not> truthy_int org then Inr (51000, 59999)
      else case scalar_one_or_none (filter (\<lambda>x. os_organization_id x = the org) (org_settings d)) of
        Inl e \<Rightarrow> Inl e
      | Inr None \<Rightarrow> Inr (51000, 59999)
      | Inr (Some x) \<Rightarrow> Inr (if os_winbox_port_start x \<noteq> 0 then os_winbox_port_start x else 51000,
                              if os_winbox_port_end x \<noteq> 0 then os_winbox_port_end x else 59999))"

definition assign_winbox_port :: "int option \<Rightarrow> db \<Rightarrow> exn + int" where
  "assign_winbox_port org d =
     bind_exn (port_range org d) (\<lambda>(lo, hi).
       case find (\<lambda>p. Some p \<notin> set (map rt_winbox_port (routers d))) [lo..hi] of
         None \<Rightarrow> Inl (Exn ''RouterOperationError'' ''No available Winbox ports in range'')
       | Some p \<Rightarrow> Inr p)"

definition is_vpn_winbox_port :: "int option \<Rightarrow> bool" where
  "is_vpn_winbox_port p \<longleftrightarrow> truthy_int p \<and> 51000 \<le> the p \<and> the p \<le> 59999"

definition resolve_vpn_domain :: "wg_settings \<Rightarrow> router \<Rightarrow> db \<Rightarrow> exn + string" where
  "resolve_vpn_domain c r d =
     (let platform = strip (wg_vpn_domain c)
      in if \<not> truthy_int (rt_organization_id r) then Inr platform
         else case scalar_one_or_none (filter (\<lambda>x. os_organization_id x = the (rt_organization_id r)) (org_settings d)) of
           Inl e \<Rightarrow> Inl e
         | Inr None \<Rightarrow> Inr platform
         | Inr (Some x) \<Rightarrow>
             let override = strip (os_vpn_domain x)
             in Inr (if override \<noteq> [] \<and> override \<noteq> ''vpn.codevertex.com'' then override else platform))"

definition winbox_url :: "wg_settings \<Rightarrow> router \<Rightarrow> db \<Rightarrow> exn + string option" where
  "winbox_url c r d =
     (if \<not> is_vpn_winbox_port (rt_winbox_port r) then Inr None
      else case resolve_vpn_domain c r d of
        Inl e \<Rightarrow> Inl e
      | Inr host \<Rightarrow> Inr (if host = [] then None else Some (host @ '':'' @ str_int (the (rt_winbox_port r)))))"

section \<open>Creating a router\<close>

definition validate_router_credentials :: "string \<Rightarrow> string \<Rightarrow> bool" where
  "validate_router_credentials username password \<longleftrightarrow> username \<noteq> [] \<and> length username \<le> 50 \<and> length password \<le> 255"

record router_request =
  rq_name :: string
  rq_ip_address :: string
  rq_username :: string
  rq_password :: string
  rq_router_type :: RouterType
  rq_port :: int
  rq_location :: "string option"
  rq_description :: "string option"

definition stripped :: "string option \<Rightarrow> string option" where
  "stripped t = (if truthy t then Some (strip (the t)) else None)"

definition new_router :: "datetime \<Rightarrow> int \<Rightarrow> int option \<Rightarrow> router_request \<Rightarrow> int \<Rightarrow> router" where
  "new_router now i org q winbox =
     \<lparr>rt_id = i, rt_organization_id = org, rt_name = strip (rq_name q), rt_description = stripped (rq_description q),
      rt_router_type = rq_router_type q, rt_ip_address = rq_ip_address q, rt_port = rq_port q, rt_username = rq_username q,
      rt_password = rq_password q, rt_winbox_port = Some winbox, rt_vpn_address = None, rt_vpn_public_key = None,
      rt_vpn_enabled = False, rt_status = Offline, rt_is_active = True, rt_last_seen = None, rt_uptime = 0,
      rt_routeros_version = None, rt_board_name = None, rt_architecture = None, rt_cpu_count = None, rt_cpu_frequency = None,
      rt_cpu_load = None, rt_total_memory = None, rt_free_memory = None, rt_total_hdd_space = None, rt_free_hdd_space = None,
      rt_location = stripped (rq_location q), rt_latitude = None, rt_longitude = None, rt_config = None, rt_notes = None,
      rt_api_credentials_encrypted = None, rt_last_provisioned_at = None, rt_provisioning_status = ''pending'',
      rt_bootstrap_completed = False, rt_agent_token = None, rt_agent_token_plain = None, rt_agent_installed = False,
      rt_agent_poll_interval = 10, rt_last_poll_at = None, rt_agent_version = None, rt_active_users = None,
      rt_active_users_at = None, rt_created_at = now\<rparr>"

definition in_organization :: "int option \<Rightarrow> router \<Rightarrow> bool" where
  "in_organization org r \<longleftrightarrow> (truthy_int org \<longrightarrow> rt_organization_id r = org)"

definition router_request_error :: "(string \<Rightarrow> bool) \<Rightarrow> router_request \<Rightarrow> string option" where
  "router_request_error is_ip q =
     (if rq_name q = [] \<or> length (strip (rq_name q)) < 3 then Some ''Router name must be at least 3 characters long''
      else if \<not> is_ip (rq_ip_address q) then Some ''Invalid IP address format''
      else if \<not> validate_router_credentials (rq_username q) (rq_password q) then Some ''Invalid router credentials''
      else if rq_port q < 1 \<or> rq_port q > 65535 then Some ''Port must be between 1 and 65535''
      else None)"

text \<open>An error that is not a failed validation becomes a \<open>RouterOperationError\<close>.\<close>

definition operation_error :: "exn \<Rightarrow> exn" where
  "operation_error e = Exn ''RouterOperationError'' (if exn_class e = ''MultipleResultsFound'' then ''Failed to create router'' else ''Unexpected error'')"

definition duplicate_error :: "int option \<Rightarrow> router_request \<Rightarrow> db \<Rightarrow> exn option" where
  "duplicate_error org q d =
     (case scalar_one_or_none (filter (\<lambda>r. rt_ip_address r = rq_ip_address q \<and> in_organization org r) (routers d)) of
        Inl e \<Rightarrow> Some (operation_error e)
      | Inr (Some r) \<Rightarrow> Some (ValidationError ''Router with this IP address already exists'')
      | Inr None \<Rightarrow>
          (case scalar_one_or_none (filter (\<lambda>r. rt_name r = strip (rq_name q) \<and> in_organization org r) (routers d)) of
             Inl e \<Rightarrow> Some (operation_error e)
           | Inr (Some r) \<Rightarrow> Some (ValidationError ''Router with this name already exists'')
           | Inr None \<Rightarrow> None))"

definition create_router :: "(string \<Rightarrow> bool) \<Rightarrow> datetime \<Rightarrow> int option \<Rightarrow> router_request \<Rightarrow> dbs \<Rightarrow> (exn + router) \<times> dbs" where
  "create_router is_ip now org q s =
     (case router_request_error is_ip q of
        Some t \<Rightarrow> (Inl (ValidationError t), rollback s)
      | None \<Rightarrow>
          (case duplicate_error org q (cur s) of
             Some e \<Rightarrow> (Inl e, rollback s)
           | None \<Rightarrow>
               (case assign_winbox_port org (cur s) of
                  Inl e \<Rightarrow> (Inl (operation_error e), rollback s)
                | Inr p \<Rightarrow>
                    let r = new_router now (router_seq (cur s)) org q p
                    in if \<not> router_row_ok r (routers (cur s)) then (Inl (Exn ''RouterOperationError'' ''Failed to create router''), rollback s)
                       else (Inr r, commit (on_db (\<lambda>d. (add_router r d)\<lparr>router_seq := router_seq d + 1\<rparr>) s)))))"

definition ensure_winbox_port :: "int option \<Rightarrow> router \<Rightarrow> dbs \<Rightarrow> dbs" where
  \<comment> \<open>the first step of \<open>regenerate_winbox_credentials\<close>; a failure is swallowed\<close>
  "ensure_winbox_port org r s =
     (if is_vpn_winbox_port (rt_winbox_port r) then s
      else case assign_winbox_port org (cur s) of
        Inl e \<Rightarrow> rollback s
      | Inr p \<Rightarrow>
          let r1 = r\<lparr>rt_winbox_port := Some p\<rparr>
          in if \<not> router_row_ok r1 (others r (cur s)) then rollback s
             else commit (on_db (upd_router (rt_id r) (\<lambda>_. r1)) s))"

section \<open>Allocation\<close>

lemma dotted_inj [simp]: "dotted v = dotted w \<longleftrightarrow> v = w"
proof
  assume "dotted v = dotted w"
  then have "split_on (CHR ''.'') (dotted v) = split_on (CHR ''.'') (dotted w)" by simp
  then have e: "v div 256 div 256 div 256 = w div 256 div 256 div 256" "v div 256 div 256 mod 256 = w div 256 div 256 mod 256"
      "v div 256 mod 256 = w div 256 mod 256" "v mod 256 = w mod 256"
    unfolding dotted_def split_dotted by simp_all
  have "v div 256 div 256 = w div 256 div 256" using e(1,2) by (metis div_mod_decomp)
  then have "v div 256 = w div 256" using e(3) by (metis div_mod_decomp)
  then show "v = w" using e(4) by (metis div_mod_decomp)
qed simp

lemma dotted_ne [simp]: "dotted v \<noteq> []"
  by (simp add: dotted_def dots_def)

lemma allocate_fresh:
  assumes "allocate_ip c (Some r) d = Inr a" "\<not> truthy (rt_vpn_address r)"
  shows "a \<notin> set (used_addresses c d) \<and> a \<in> dotted ` set (hosts c)"
proof -
  obtain h where "find (\<lambda>h. dotted h \<noteq> server_address c \<and> dotted h \<notin> set (used_addresses c d)) (hosts c) = Some h" "a = dotted h"
    using assms by (auto simp: allocate_ip_def split: option.splits)
  then show ?thesis by (auto simp: find_Some_iff)
qed

lemma used_addresses_iff: "a \<in> set (used_addresses c d) \<longleftrightarrow> a = server_address c \<or> a \<noteq> [] \<and> (\<exists>r \<in> set (routers d). rt_vpn_address r = Some a)"
  by (force simp: used_addresses_def truthy_def split: option.splits)

lemma hosts_large:
  assumes "wg_prefix c \<le> 30"
  shows "set (hosts c) = {wg_network c + 1 ..< wg_network c + 2 ^ (32 - wg_prefix c) - 1}"
  using assms by (auto simp: hosts_def)

lemma allocate_total:
  assumes "wg_prefix c \<le> 30" "r \<in> set (routers d)" "length (routers d) \<le> 2 ^ (32 - wg_prefix c) - 3"
  shows "\<exists>a. allocate_ip c (Some r) d = Inr a"
proof (cases "truthy (rt_vpn_address r)")
  case False
  let ?K = "2 ^ (32 - wg_prefix c) :: nat"
  define cand where "cand = {wg_network c + 2 ..< wg_network c + ?K - 1}"
  define used where "used = {h \<in> cand. \<exists>y \<in> set (routers d). rt_vpn_address y = Some (dotted h)}"
  have K: "?K \<ge> 4" using power_increasing [of 2 "32 - wg_prefix c" "2 :: nat"] assms(1) by simp
  have "dotted ` used \<subseteq> the ` rt_vpn_address ` (set (routers d) - {r})"
  proof
    fix a assume "a \<in> dotted ` used"
    then obtain h y where h: "a = dotted h" "y \<in> set (routers d)" "rt_vpn_address y = Some (dotted h)" by (auto simp: used_def)
    then have "y \<noteq> r" using False by (auto simp: truthy_def)
    then have "y \<in> set (routers d) - {r}" "a = the (rt_vpn_address y)" using h by simp_all
    then show "a \<in> the ` rt_vpn_address ` (set (routers d) - {r})" by blast
  qed
  then have "card (dotted ` used) \<le> card (the ` rt_vpn_address ` (set (routers d) - {r}))" by (intro card_mono) simp_all
  also have "\<dots> \<le> card (set (routers d) - {r})" unfolding image_image by (intro card_image_le) simp
  also have "\<dots> < length (routers d)" using assms(2) by (metis card_Diff1_less card_length finite_set less_le_trans)
  finally have "card used < ?K - 3" using assms(3) by (simp add: card_image inj_on_def)
  also have "\<dots> = card cand" using K by (simp add: cand_def)
  finally have "used \<noteq> cand" by (metis less_irrefl)
  then obtain h where h: "h \<in> cand" "\<forall>y \<in> set (routers d). rt_vpn_address y \<noteq> Some (dotted h)" unfolding used_def by blast
  then have "dotted h \<notin> set (used_addresses c d)" "dotted h \<noteq> server_address c" by (auto simp: used_addresses_iff server_address_def cand_def)
  moreover have "h \<in> set (hosts c)" using h(1) by (simp add: hosts_large [OF assms(1)] cand_def)
  ultimately have "find (\<lambda>h. dotted h \<noteq> server_address c \<and> dotted h \<notin> set (used_addresses c d)) (hosts c) \<noteq> None" by (auto simp: find_None_iff)
  then show ?thesis by (auto simp: allocate_ip_def)
qed (simp add: allocate_ip_def)

section \<open>The address plan stays in order\<close>

definition address_ok :: "wg_settings \<Rightarrow> router \<Rightarrow> bool" where
  "address_ok c r \<longleftrightarrow> (\<forall>a. rt_vpn_address r = Some a \<longrightarrow> a \<noteq> server_address c \<and> a \<in> dotted ` set (hosts c))"

definition tunnel_ok :: "wg_settings \<Rightarrow> db \<Rightarrow> bool" where
  "tunnel_ok c d \<longleftrightarrow> uniq rt_id (routers d) \<and> uniq rt_vpn_address (filter (\<lambda>r. rt_vpn_address r \<noteq> None) (routers d)) \<and>
     uniq rt_winbox_port (filter (\<lambda>r. rt_winbox_port r \<noteq> None) (routers d)) \<and>
     (\<forall>r \<in> set (routers d). rt_id r < router_seq d \<and> address_ok c r)"

lemma tunnel_ok_replace:
  assumes "tunnel_ok c d" "r \<in> set (routers d)" "rt_id r1 = rt_id r" "router_row_ok r1 (others r d)" "address_ok c r1"
  shows "tunnel_ok c (upd_router (rt_id r) (\<lambda>_. r1) d)"
proof -
  have u: "uniq rt_id (routers d)" using assms(1) by (simp add: tunnel_ok_def)
  obtain as bs where o: "routers d = as @ r # bs" and t: "tbl_upd rt_id (rt_id r) (\<lambda>_. r1) (routers d) = as @ r1 # bs"
      and f: "others r d = as @ bs" unfolding others_def using tbl_upd_split [OF u assms(2)] by blast
  have inv: "uniq rt_id (as @ r # bs)" "uniq rt_vpn_address (filter (\<lambda>r. rt_vpn_address r \<noteq> None) (as @ r # bs))"
      "uniq rt_winbox_port (filter (\<lambda>r. rt_winbox_port r \<noteq> None) (as @ r # bs))" "\<forall>y \<in> set (as @ r # bs). rt_id y < router_seq d \<and> address_ok c y"
    using assms(1) unfolding tunnel_ok_def o by blast+
  have ok: "rt_vpn_address r1 = None \<or> rt_vpn_address r1 \<notin> rt_vpn_address ` set (as @ bs)"
      "rt_winbox_port r1 = None \<or> rt_winbox_port r1 \<notin> rt_winbox_port ` set (as @ bs)"
    using assms(4) unfolding router_row_ok_def f by blast+
  have "uniq rt_id (as @ r1 # bs)" using inv(1) assms(3) by (simp add: uniq_def)
  moreover have "uniq rt_vpn_address (filter (\<lambda>r. rt_vpn_address r \<noteq> None) (as @ r1 # bs))" using ok(1) by (intro uniq_filter_replace [OF inv(2)]) auto
  moreover have "uniq rt_winbox_port (filter (\<lambda>r. rt_winbox_port r \<noteq> None) (as @ r1 # bs))" using ok(2) by (intro uniq_filter_replace [OF inv(3)]) auto
  moreover have "\<forall>y \<in> set (as @ r1 # bs). rt_id y < router_seq d \<and> address_ok c y" using inv(4) assms(3,5) by simp
  moreover have "routers (upd_router (rt_id r) (\<lambda>_. r1) d) = as @ r1 # bs" "router_seq (upd_router (rt_id r) (\<lambda>_. r1) d) = router_seq d"
    by (simp_all add: upd_router_def t)
  ultimately show ?thesis by (simp only: tunnel_ok_def)
qed

lemma allocated_ok:
  assumes "allocate_ip c (Some r) d = Inr a" "tunnel_ok c d" "r \<in> set (routers d)"
  shows "address_ok c (r\<lparr>rt_vpn_address := Some a\<rparr>)" "Some a \<notin> rt_vpn_address ` set (others r d)"
proof -
  have inv: "uniq rt_id (routers d)" "uniq rt_vpn_address (filter (\<lambda>r. rt_vpn_address r \<noteq> None) (routers d))" "address_ok c r"
    using assms(2,3) by (simp_all add: tunnel_ok_def)
  have "address_ok c (r\<lparr>rt_vpn_address := Some a\<rparr>) \<and> Some a \<notin> rt_vpn_address ` set (others r d)"
  proof (cases "truthy (rt_vpn_address r)")
    case True
    then have a: "rt_vpn_address r = Some a" using assms(1) by (auto simp: allocate_ip_def truthy_def split: option.splits)
    then have "y = r" if "y \<in> set (routers d)" "rt_vpn_address y = Some a" for y
      using inv(2) that assms(3) by (auto simp: uniq_def distinct_map inj_on_def)
    with inv(3) a show ?thesis by (auto simp: address_ok_def others_def)
  next
    case False
    from allocate_fresh [OF assms(1) this] have "a \<noteq> server_address c" "a \<in> dotted ` set (hosts c)"
        "a \<noteq> [] \<Longrightarrow> \<forall>y \<in> set (routers d). rt_vpn_address y \<noteq> Some a" by (auto simp: used_addresses_iff)
    then show ?thesis by (auto simp: address_ok_def others_def)
  qed
  then show "address_ok c (r\<lparr>rt_vpn_address := Some a\<rparr>)" "Some a \<notin> rt_vpn_address ` set (others r d)" by blast+
qed

inductive tunnel_step :: "wg_settings \<Rightarrow> dbs \<Rightarrow> dbs \<Rightarrow> bool" for c where
  reserve: "r \<in> set (routers (cur s)) \<Longrightarrow> tunnel_step c s (snd (reserve_tunnel_ip c r s))"
| register: "tunnel_step c s (snd (wg_register j now c q s))"
| create: "tunnel_step c s (snd (create_router is_ip now org rq s))"
| port: "r \<in> set (routers (cur s)) \<Longrightarrow> tunnel_step c s (ensure_winbox_port org r s)"

inductive_cases tunnel_stepE: "tunnel_step c s s'"

lemma allocate_known: "truthy (rt_vpn_address r) \<Longrightarrow> allocate_ip c (Some r) d = Inr (the (rt_vpn_address r))"
  by (simp add: allocate_ip_def)

lemma register_peer_eq:
  "register_peer c r public_key s =
     (let key = strip public_key
      in if key = [] then (Inl (ValueError ''Empty WireGuard public key''), s)
         else case allocate_ip c (Some r) (cur s) of
           Inl e \<Rightarrow> (Inl e, s)
         | Inr a \<Rightarrow>
             let r1 = r\<lparr>rt_vpn_address := Some a, rt_vpn_public_key := Some key, rt_vpn_enabled := True\<rparr>
             in if \<not> router_row_ok r1 (others r (cur s)) then (Inl VpnRowError, s)
                else (Inr r1, on_db (upd_router (rt_id r) (\<lambda>_. r1)) s))"
  by (cases "truthy (rt_vpn_address r)") (simp_all add: register_peer_def allocate_known Let_def)

lemma correlate_mem: "correlate q d = Inr (Some r) \<Longrightarrow> r \<in> set (routers d)"
  by (auto simp: correlate_def bind_exn_def scalar_one_or_none_Some dest!: filter_single_mem split: sum.splits option.splits if_splits)

lemma tunnel_ok_register:
  assumes "tunnel_ok c (cur s)" "clean s" "wg_register j now c q s = (res, s')"
  shows "clean s' \<and> tunnel_ok c (cur s')"
proof (cases "\<exists>r1. res = Inr r1")
  case True
  then obtain r r1 a where r: "r \<in> set (routers (cur s))" "allocate_ip c (Some r) (cur s) = Inr a"
      "r1 = r\<lparr>rt_vpn_address := Some a, rt_vpn_public_key := Some (strip (request_key q)), rt_vpn_enabled := True\<rparr>"
      "router_row_ok r1 (others r (cur s))" "s' = commit (on_db (upd_router (rt_id r) (\<lambda>_. r1)) s)"
    using assms(3) by (auto simp: wg_register_def register_peer_eq Let_def dest: correlate_mem split: if_splits sum.splits option.splits prod.splits)
  have "address_ok c r1" using allocated_ok(1) [OF r(2) assms(1) r(1)] by (simp add: r(3) address_ok_def)
  from tunnel_ok_replace [OF assms(1) r(1) _ r(4) this] show ?thesis by (simp add: r(3,5) clean_def)
next
  case False
  then have "s' = s \<or> s' = rollback s" using assms(3)
    by (auto simp: wg_register_def register_peer_eq Let_def split: if_splits sum.splits option.splits prod.splits)
  then show ?thesis using assms(1,2) by (auto simp: clean_def)
qed

lemma tunnel_ok_reserve:
  assumes "tunnel_ok c (cur s)" "clean s" "r \<in> set (routers (cur s))"
  shows "clean (snd (reserve_tunnel_ip c r s)) \<and> tunnel_ok c (cur (snd (reserve_tunnel_ip c r s)))"
proof (cases "wg_enabled c \<and> (\<exists>a. allocate_ip c (Some r) (cur s) = Inr a \<and> router_row_ok (r\<lparr>rt_vpn_address := Some a\<rparr>) (others r (cur s)))")
  case True
  then obtain a where a: "allocate_ip c (Some r) (cur s) = Inr a" "router_row_ok (r\<lparr>rt_vpn_address := Some a\<rparr>) (others r (cur s))" by blast
  from tunnel_ok_replace [OF assms(1,3) _ a(2) allocated_ok(1) [OF a(1) assms(1,3)]] show ?thesis
    using True by (simp add: reserve_tunnel_ip_def a clean_def)
next
  case False
  then have "snd (reserve_tunnel_ip c r s) = s \<or> snd (reserve_tunnel_ip c r s) = rollback s"
    by (auto simp: reserve_tunnel_ip_def Let_def split: sum.splits)
  then show ?thesis using assms(1,2) by (auto simp: clean_def)
qed

lemma tunnel_ok_port:
  assumes "tunnel_ok c (cur s)" "clean s" "r \<in> set (routers (cur s))"
  shows "clean (ensure_winbox_port org r s) \<and> tunnel_ok c (cur (ensure_winbox_port org r s))"
proof (cases "ensure_winbox_port org r s = s \<or> ensure_winbox_port org r s = rollback s")
  case True
  then show ?thesis using assms(1,2) by (auto simp: clean_def)
next
  case False
  then obtain p where p: "router_row_ok (r\<lparr>rt_winbox_port := Some p\<rparr>) (others r (cur s))"
      "ensure_winbox_port org r s = commit (on_db (upd_router (rt_id r) (\<lambda>_. r\<lparr>rt_winbox_port := Some p\<rparr>)) s)"
    by (auto simp: ensure_winbox_port_def Let_def split: if_splits sum.splits)
  have "address_ok c (r\<lparr>rt_winbox_port := Some p\<rparr>)" using assms(1,3) by (auto simp: tunnel_ok_def address_ok_def)
  from tunnel_ok_replace [OF assms(1,3) _ p(1) this] show ?thesis by (simp add: p(2) clean_def)
qed

lemma tunnel_ok_create:
  assumes "tunnel_ok c (cur s)" "clean s"
  shows "clean (snd (create_router is_ip now org q s)) \<and> tunnel_ok c (cur (snd (create_router is_ip now org q s)))"
proof (cases "snd (create_router is_ip now org q s) = rollback s")
  case True
  then show ?thesis using assms by (simp add: clean_def)
next
  case False
  then obtain p where ok: "router_row_ok (new_router now (router_seq (cur s)) org q p) (routers (cur s))"
      and s': "snd (create_router is_ip now org q s) =
        commit (on_db (\<lambda>d. (add_router (new_router now (router_seq (cur s)) org q p) d)\<lparr>router_seq := router_seq d + 1\<rparr>) s)"
    by (auto simp: create_router_def Let_def split: if_splits sum.splits option.splits)
  let ?r = "new_router now (router_seq (cur s)) org q p"
  have r: "rt_id ?r = router_seq (cur s)" "rt_vpn_address ?r = None" "rt_winbox_port ?r = Some p" by (simp_all add: new_router_def)
  have inv: "uniq rt_id (routers (cur s))" "uniq rt_vpn_address (filter (\<lambda>r. rt_vpn_address r \<noteq> None) (routers (cur s)))"
      "uniq rt_winbox_port (filter (\<lambda>r. rt_winbox_port r \<noteq> None) (routers (cur s)))" "\<forall>y \<in> set (routers (cur s)). rt_id y < router_seq (cur s) \<and> address_ok c y"
    using assms(1) unfolding tunnel_ok_def by blast+
  have "Some p \<notin> rt_winbox_port ` set (routers (cur s))" using ok r(3) by (simp add: router_row_ok_def)
  then have "uniq rt_winbox_port (filter (\<lambda>r. rt_winbox_port r \<noteq> None) (routers (cur s)) @ ?r # [])" using inv(3) r(3) by (intro uniq_insert) auto
  moreover have "uniq rt_id (routers (cur s) @ ?r # [])" using inv(1,4) r(1) by (intro uniq_insert) auto
  moreover have "address_ok c ?r" by (simp add: address_ok_def r(2))
  ultimately have "tunnel_ok c (cur (commit (on_db (\<lambda>d. (add_router ?r d)\<lparr>router_seq := router_seq d + 1\<rparr>) s)))"
    using inv(2,4) r by (auto simp: tunnel_ok_def row_defs)
  then show ?thesis unfolding s' by (simp add: clean_def)
qed

lemma tunnel_step_ok:
  assumes "tunnel_step c s s'" "tunnel_ok c (cur s)" "clean s"
  shows "clean s' \<and> tunnel_ok c (cur s')"
  using assms(1)
proof (cases rule: tunnel_step.cases)
  case (register q)
  then show ?thesis using tunnel_ok_register [OF assms(2,3), of q] by (metis surj_pair snd_conv)
qed (use assms tunnel_ok_reserve tunnel_ok_create tunnel_ok_port in simp_all)

lemma tunnel_reachable_ok: "(tunnel_step c)\<^sup>*\<^sup>* s s' \<Longrightarrow> tunnel_ok c (cur s) \<Longrightarrow> clean s \<Longrightarrow> clean s' \<and> tunnel_ok c (cur s')"
  by (induction rule: rtranclp_induct) (auto dest: tunnel_step_ok)

text \<open>
  C22. Every router keeps a tunnel address of its own. However reservations, registrations of keys,
  new routers and new ports are interleaved, the list of peers that the server applies never
  gives two routers the same address or the same port, every address lies among the hosts of
  the subnet, and none is the address of the server.
\<close>

theorem tunnel_addresses_stay_unique:
  assumes "(tunnel_step c)\<^sup>*\<^sup>* s s'" "tunnel_ok c (cur s)" "clean s"
  shows "distinct (map allowed_ips (list_peers (saved s'))) \<and> distinct (filter (\<lambda>p. p \<noteq> None) (map pr_winbox_port (list_peers (saved s'))))
    \<and> (\<forall>p \<in> set (list_peers (saved s')). pr_tunnel_ip p \<in> dotted ` set (hosts c) \<and> pr_tunnel_ip p \<noteq> server_address c)"
proof -
  have ok: "tunnel_ok c (saved s')" using tunnel_reachable_ok [OF assms] by (simp add: clean_def)
  let ?rs = "routers (saved s')"
  let ?P = "\<lambda>r. rt_vpn_enabled r \<and> rt_vpn_public_key r \<noteq> None \<and> rt_vpn_address r \<noteq> None"
  have inv: "uniq rt_vpn_address (filter (\<lambda>r. rt_vpn_address r \<noteq> None) ?rs)" "uniq rt_winbox_port (filter (\<lambda>r. rt_winbox_port r \<noteq> None) ?rs)"
      "\<forall>r \<in> set ?rs. address_ok c r" using ok unfolding tunnel_ok_def by blast+
  have "distinct (map rt_vpn_address (filter ?P ?rs))"
    using distinct_map_filter [OF inv(1) [unfolded uniq_def], of ?P] by (simp add: conj_commute conj_left_commute filter_filter)
  then have "distinct (map (the \<circ> rt_vpn_address) (filter ?P ?rs))" by (fastforce simp: distinct_map inj_on_def)
  then have a: "distinct (map allowed_ips (list_peers (saved s')))"
    by (simp add: list_peers_def allowed_ips_def comp_def distinct_map inj_on_def)
  have "distinct (map rt_winbox_port (filter ?P (filter (\<lambda>r. rt_winbox_port r \<noteq> None) ?rs)))"
    using distinct_map_filter [OF inv(2) [unfolded uniq_def]] .
  then have b: "distinct (filter (\<lambda>p. p \<noteq> None) (map pr_winbox_port (list_peers (saved s'))))"
    by (simp add: list_peers_def comp_def filter_map conj_commute conj_left_commute)
  have "\<forall>p \<in> set (list_peers (saved s')). pr_tunnel_ip p \<in> dotted ` set (hosts c) \<and> pr_tunnel_ip p \<noteq> server_address c"
    using inv(3) by (fastforce simp: list_peers_def address_ok_def)
  with a b show ?thesis by blast
qed

lemma peer_listed:
  assumes "r \<in> set (routers d)" "rt_vpn_enabled r" "rt_vpn_public_key r = Some k" "rt_vpn_address r = Some a" "i = rt_id r" "w = rt_winbox_port r"
  shows "\<lparr>pr_router_id = i, pr_public_key = k, pr_tunnel_ip = a, pr_winbox_port = w\<rparr> \<in> set (list_peers d)"
  unfolding list_peers_def set_map using assms by (intro image_eqI [of _ _ r]) simp_all

lemma register_runs:
  assumes "tunnel_ok c (cur s)" "wg_prefix c \<le> 30" "length (routers (cur s)) \<le> 2 ^ (32 - wg_prefix c) - 3"
    "verify_token j now (wq_token q) ''access'' = Inr t" "correlate q (cur s) = Inr (Some r)" "strip (request_key q) \<noteq> []"
    "length (strip (request_key q)) \<le> 64" "router_row_ok r (others r (cur s))"
  shows "\<exists>a. allocate_ip c (Some r) (cur s) = Inr a \<and> a \<noteq> [] \<and> r \<in> set (routers (cur s)) \<and>
    (\<exists>r1. r1 = r\<lparr>rt_vpn_address := Some a, rt_vpn_public_key := Some (strip (request_key q)), rt_vpn_enabled := True\<rparr> \<and>
      wg_register j now c q s = (Inr r1, commit (on_db (upd_router (rt_id r) (\<lambda>_. r1)) s)))"
proof -
  have r: "r \<in> set (routers (cur s))" by (rule correlate_mem [OF assms(5)])
  obtain a where a: "allocate_ip c (Some r) (cur s) = Inr a" using allocate_total [OF assms(2) r assms(3)] by blast
  let ?r1 = "r\<lparr>rt_vpn_address := Some a, rt_vpn_public_key := Some (strip (request_key q)), rt_vpn_enabled := True\<rparr>"
  have ne: "request_key q \<noteq> []" using assms(6) by (auto simp: strip_def lstrip_def)
  have "router_row_ok ?r1 (others r (cur s))"
    using assms(6-8) allocated_ok(2) [OF a assms(1) r] by (simp add: router_row_ok_def or_str_def truthy_def)
  then have "wg_register j now c q s = (Inr ?r1, commit (on_db (upd_router (rt_id r) (\<lambda>_. ?r1)) s))"
    using assms(4-6) ne by (auto simp: wg_register_def register_peer_eq a Let_def)
  moreover have "a \<noteq> []" using allocated_ok(1) [OF a assms(1) r] by (auto simp: address_ok_def)
  ultimately show ?thesis using a r by blast
qed

text \<open>
  C23. As long as the subnet has room, registering a key succeeds, and the address never changes
  again. With at most \<open>2 ^ (32 - n) - 3\<close> routers in a subnet of prefix length \<open>n\<close>, the callback of
  a router that the request identifies, with a key of at most 64 characters, enrols it under
  an address; a second call, with whatever key, leaves it that address.
\<close>

theorem registration_succeeds_while_room:
  assumes "tunnel_ok c (cur s)" "clean s" "wg_prefix c \<le> 30" "length (routers (cur s)) \<le> 2 ^ (32 - wg_prefix c) - 3"
    "verify_token j now (wq_token q) ''access'' = Inr t" "correlate q (cur s) = Inr (Some r)" "strip (request_key q) \<noteq> []"
    "length (strip (request_key q)) \<le> 64" "router_row_ok r (others r (cur s))"
  shows "\<exists>r1 s'. wg_register j now c q s = (Inr r1, s') \<and> rt_id r1 = rt_id r \<and> rt_vpn_enabled r1 \<and> r1 \<in> set (routers (saved s'))
    \<and> (\<exists>a. rt_vpn_address r1 = Some a \<and> (\<forall>t. allocate_ip c (Some r1) t = Inr a))"
  using register_runs [OF assms(1,3-9)] by (auto simp: allocate_ip_def truthy_def row_defs in_tbl_upd)

text \<open>
  C36. Anyone can take over the tunnel of a router. A callback whose token was never signed is not
  refused: for a router that the request names, it stores the key of the caller, with the
  address that the router has, and the list that the server applies hands the tunnel to that
  key.
\<close>

theorem forged_token_takes_tunnel:
  assumes "jwt_decode j now (wq_token q) = None" "tunnel_ok c (cur s)" "wg_prefix c \<le> 30"
    "length (routers (cur s)) \<le> 2 ^ (32 - wg_prefix c) - 3" "correlate q (cur s) = Inr (Some r)" "rt_vpn_address r = Some a" "a \<noteq> []"
    "strip (request_key q) \<noteq> []" "length (strip (request_key q)) \<le> 64" "router_row_ok r (others r (cur s))"
  shows "\<exists>r1 s'. wg_register j now c q s = (Inr r1, s') \<and>
    \<lparr>pr_router_id = rt_id r, pr_public_key = strip (request_key q), pr_tunnel_ip = a, pr_winbox_port = rt_winbox_port r\<rparr> \<in> set (list_peers (saved s'))"
proof -
  have t: "verify_token j now (wq_token q) ''access'' = Inr None" using assms(1) by (simp add: verify_token_def)
  obtain b where b: "allocate_ip c (Some r) (cur s) = Inr b" "r \<in> set (routers (cur s))" and
    w: "wg_register j now c q s = (Inr (r\<lparr>rt_vpn_address := Some b, rt_vpn_public_key := Some (strip (request_key q)), rt_vpn_enabled := True\<rparr>),
      commit (on_db (upd_router (rt_id r) (\<lambda>_. r\<lparr>rt_vpn_address := Some b, rt_vpn_public_key := Some (strip (request_key q)), rt_vpn_enabled := True\<rparr>)) s))"
    using register_runs [OF assms(2-4) t assms(5,8-10)] by blast
  have "b = a" using b(1) assms(6,7) by (simp add: allocate_ip_def truthy_def)
  let ?r1 = "r\<lparr>rt_vpn_address := Some a, rt_vpn_public_key := Some (strip (request_key q)), rt_vpn_enabled := True\<rparr>"
  let ?s1 = "commit (on_db (upd_router (rt_id r) (\<lambda>_. ?r1)) s)"
  have "?r1 \<in> set (routers (saved ?s1))" using b(2) by (auto simp: row_defs in_tbl_upd)
  then have "\<lparr>pr_router_id = rt_id r, pr_public_key = strip (request_key q), pr_tunnel_ip = a, pr_winbox_port = rt_winbox_port r\<rparr>
      \<in> set (list_peers (saved ?s1))" by (rule peer_listed) simp_all
  with w show ?thesis unfolding \<open>b = a\<close> by blast
qed

text \<open>Names are unique within a tenant only: with the name in use twice, every registration under it fails.\<close>

lemma shared_name_blocks_registration:
  assumes "verify_token j now (wq_token q) ''access'' = Inr t" "request_key q \<noteq> []" "wq_identity q = Some n" "n \<noteq> []" "length (filter (\<lambda>r. rt_name r = n) (routers (cur s))) \<ge> 2"
  shows "wg_register j now c q s = (Inl MultipleResultsFound, s)"
proof -
  obtain a b rs where "filter (\<lambda>r. rt_name r = n) (routers (cur s)) = a # b # rs"
    using assms(5) by (cases "filter (\<lambda>r. rt_name r = n) (routers (cur s))" rule: remdups_adj.cases) auto
  then show ?thesis using assms(1-4) by (simp add: wg_register_def correlate_def truthy_def scalar_one_or_none_def)
qed

section \<open>The theorems at a concrete input\<close>

definition wg0 :: wg_settings where
  "wg0 = \<lparr>wg_network = 8, wg_prefix = 29, wg_server_public_key = ''k'', wg_peer_sync_token = Some ''t'', wg_vpn_domain = ''vpn.x.org''\<rparr>"

definition tunnel_db :: db where
  "tunnel_db = empty_db\<lparr>routers := [router0], router_seq := 2\<rparr>"

definition wq0 :: wg_request where
  "wq0 = \<lparr>wq_token = ''x'', wq_form_key = Some ''key'', wq_query_key = None, wq_identity = Some ''r1'', wq_client_host = None\<rparr>"

lemma tunnel_db_ok: "tunnel_ok wg0 (cur (fresh tunnel_db))" "clean (fresh tunnel_db)"
  by (simp_all add: tunnel_ok_def tunnel_db_def router0_def uniq_def address_ok_def clean_def)

theorem tunnel_addresses_stay_unique_witness:
  "map pr_tunnel_ip (list_peers (saved (snd (wg_register jwt0 0 wg0 wq0 (fresh tunnel_db))))) = [dotted 10]
   \<and> distinct (map allowed_ips (list_peers (saved (snd (wg_register jwt0 0 wg0 wq0 (fresh tunnel_db))))))"
proof -
  have "tunnel_step wg0 (fresh tunnel_db) (snd (wg_register jwt0 0 wg0 wq0 (fresh tunnel_db)))" by (rule tunnel_step.register)
  from tunnel_addresses_stay_unique [OF r_into_rtranclp [of "tunnel_step wg0", OF this] tunnel_db_ok]
  have "distinct (map allowed_ips (list_peers (saved (snd (wg_register jwt0 0 wg0 wq0 (fresh tunnel_db))))))" by blast
  moreover have "map pr_tunnel_ip (list_peers (saved (snd (wg_register jwt0 0 wg0 wq0 (fresh tunnel_db))))) = [dotted 10]" by code_simp
  ultimately show ?thesis by blast
qed

theorem registration_succeeds_while_room_witness:
  "\<exists>r1 s'. wg_register jwt0 0 wg0 wq0 (fresh tunnel_db) = (Inr r1, s') \<and> rt_vpn_enabled r1"
proof -
  have k: "strip (request_key wq0) = ''key''" by code_simp
  have "correlate wq0 (cur (fresh tunnel_db)) = Inr (Some router0)"
    by (simp add: correlate_def wq0_def tunnel_db_def router0_def truthy_def)
  moreover have "router_row_ok router0 (others router0 (cur (fresh tunnel_db)))"
    by (simp add: router_row_ok_def others_def tunnel_db_def router0_def or_str_def truthy_def)
  moreover have "wg_prefix wg0 \<le> 30" "length (routers (cur (fresh tunnel_db))) \<le> 2 ^ (32 - wg_prefix wg0) - 3"
    by (simp_all add: wg0_def tunnel_db_def)
  moreover have "verify_token jwt0 0 (wq_token wq0) ''access'' = Inr None" by code_simp
  ultimately show ?thesis
    using registration_succeeds_while_room [OF tunnel_db_ok, of jwt0 0 wq0 None router0] k by auto
qed

theorem forged_token_takes_tunnel_witness:
  "\<exists>r1 s'. wg_register jwt0 0 wg0 wq0 (fresh (tunnel_db\<lparr>routers := [router0\<lparr>rt_vpn_address := Some (dotted 10)\<rparr>]\<rparr>)) = (Inr r1, s') \<and>
    \<lparr>pr_router_id = 1, pr_public_key = ''key'', pr_tunnel_ip = dotted 10, pr_winbox_port = None\<rparr> \<in> set (list_peers (saved s'))"
proof -
  let ?r = "router0\<lparr>rt_vpn_address := Some (dotted 10)\<rparr>"
  let ?s = "fresh (tunnel_db\<lparr>routers := [?r]\<rparr>)"
  have k: "strip (request_key wq0) = ''key''" by code_simp
  have "jwt_decode jwt0 0 (wq_token wq0) = None" by code_simp
  moreover have "tunnel_ok wg0 (cur ?s)"
    by (simp add: tunnel_ok_def uniq_def address_ok_def router0_def wg0_def hosts_def server_address_def tunnel_db_def)
  moreover have "correlate wq0 (cur ?s) = Inr (Some ?r)" by (simp add: correlate_def wq0_def router0_def truthy_def)
  moreover have "router_row_ok ?r (others ?r (cur ?s))"
    by (simp add: router_row_ok_def others_def router0_def or_str_def truthy_def)
  moreover have "wg_prefix wg0 \<le> 30" "length (routers (cur ?s)) \<le> 2 ^ (32 - wg_prefix wg0) - 3" by (simp_all add: wg0_def)
  moreover have "rt_id ?r = 1" "rt_winbox_port ?r = None" "rt_vpn_address ?r = Some (dotted 10)" by (simp_all add: router0_def)
  ultimately show ?thesis
    using forged_token_takes_tunnel [of jwt0 0 wq0 wg0 ?s ?r "dotted 10"] k by auto
qed

end
