(* ===== verification/Gateway_Filter.thy ===== *)
theory Gateway_Filter
  imports Listing
begin

text \<open>
  Which payment gateways a customer is offered (\<open>src/app/modules/payments/gateway_filter.py\<close>): cash-like
  ones never, the others only when they are enabled and every setting they need is present.
\<close>

section \<open>Values and types\<close>

datatype config_value = VNone | VStr string | VBool bool | VInt int | VColl nat \<comment> \<open>a collection, by its length\<close>

type_synonym config_bag = "(string \<times> config_value) list"

record gateway =
  gw_gateway_type :: "string option"
  gw_type :: "string option"
  gw_is_active :: config_value
  gw_rest :: config_bag

definition CASH_LIKE_GATEWAY_TYPES :: "string list" where
  "CASH_LIKE_GATEWAY_TYPES =
     [''cash'', ''cash_on_delivery'', ''cod'', ''manual'', ''offline'', ''on_delivery'', ''pay_on_delivery'', ''pay_later'',
      ''bank_transfer'', ''cheque'', ''check'']"

definition normalize_gateway_type :: "string option \<Rightarrow> string" where
  "normalize_gateway_type t = map lower (strip (or_str t []))"

fun contains :: "string \<Rightarrow> string \<Rightarrow> bool" where
  \<comment> \<open>\<open>w in t\<close>\<close>
  "contains w [] \<longleftrightarrow> w = []"
| "contains w (c # cs) \<longleftrightarrow> take (length w) (c # cs) = w \<or> contains w cs"

definition endswith :: "string \<Rightarrow> string \<Rightarrow> bool" where
  "endswith t w \<longleftrightarrow> length w \<le> length t \<and> drop (length t - length w) t = w"

definition is_cash_like_gateway :: "string option \<Rightarrow> bool" where
  "is_cash_like_gateway t =
     (let gt = normalize_gateway_type t
      in gt \<noteq> [] \<and> (gt \<in> set CASH_LIKE_GATEWAY_TYPES \<or> contains ''cash'' gt \<or> gt = ''cod'' \<or> endswith gt ''_cod'' \<or> contains ''_cod_'' gt))"

section \<open>Settings\<close>

definition daraja :: "string list list" where
  "daraja = [[''consumer_key''], [''consumer_secret''], [''passkey'', ''pass_key'']]"

definition GATEWAY_REQUIRED_CONFIGS :: "(string \<times> string list list) list" where
  "GATEWAY_REQUIRED_CONFIGS =
     [(''mpesa'', [''shortcode'', ''short_code'', ''paybill'', ''paybill_number'', ''till'', ''till_number'', ''public_shortcode''] # daraja),
      (''mpesa_paybill'', [''shortcode'', ''short_code'', ''paybill'', ''paybill_number'', ''public_shortcode''] # daraja),
      (''mpesa_till'', [''shortcode'', ''short_code'', ''till'', ''till_number'', ''public_shortcode''] # daraja),
      (''paystack'', [[''secret_key'', ''paystack_secret_key'', ''secret'']]),
      (''card'', [[''secret_key'', ''paystack_secret_key'', ''secret'']])]"

fun has_value :: "config_value \<Rightarrow> bool" where
  "has_value VNone = False"
| "has_value (VStr t) = (strip t \<noteq> [])"
| "has_value (VColl n) = (n > 0)"
| "has_value _ = True"

fun truth :: "config_value \<Rightarrow> bool" where
  "truth VNone = False"
| "truth (VStr t) = (t \<noteq> [])"
| "truth (VBool b) = b"
| "truth (VInt i) = (i \<noteq> 0)"
| "truth (VColl n) = (n > 0)"

definition lookup_lower :: "config_bag \<Rightarrow> string \<Rightarrow> config_value" where
  \<comment> \<open>the keys in lower case; of several the last one counts\<close>
  "lookup_lower cfg k = (case map_of (rev (map (\<lambda>(j, v). (map lower j, v)) cfg)) k of None \<Rightarrow> VNone | Some v \<Rightarrow> v)"

definition lookup_config :: "config_bag \<Rightarrow> string list \<Rightarrow> bool" where
  "lookup_config cfg aliases = list_ex (\<lambda>a. has_value (lookup_lower cfg (map lower a))) aliases"

definition gateway_code :: "gateway \<Rightarrow> string" where
  "gateway_code gw = normalize_gateway_type (if truthy (gw_gateway_type gw) then gw_gateway_type gw else gw_type gw)"

definition gateway_essential_configs_complete :: "gateway \<Rightarrow> config_bag option \<Rightarrow> bool" where
  "gateway_essential_configs_complete gw cfg =
     (case map_of GATEWAY_REQUIRED_CONFIGS (gateway_code gw) of
        None \<Rightarrow> True
      | Some groups \<Rightarrow> list_all (lookup_config (case cfg of None \<Rightarrow> [] | Some c \<Rightarrow> c)) groups)"

section \<open>The filter\<close>

fun filter_captive_payment_gateways :: "gateway list \<Rightarrow> (string \<times> config_bag) list \<Rightarrow> gateway list" where
  "filter_captive_payment_gateways [] tenant_configs = []"
| "filter_captive_payment_gateways (gw # gws) tenant_configs =
     (let rest = filter_captive_payment_gateways gws tenant_configs
      in if is_cash_like_gateway (Some (gateway_code gw)) then rest
         else if \<not> has_value (gw_is_active gw) \<or> \<not> truth (gw_is_active gw) then rest
         else if \<not> gateway_essential_configs_complete gw (map_of tenant_configs (gateway_code gw)) then rest
         else gw # rest)"

section \<open>What is offered can be used\<close>

definition needs :: "string \<Rightarrow> string list list" where
  "needs t = (case map_of GATEWAY_REQUIRED_CONFIGS t of None \<Rightarrow> [] | Some gs \<Rightarrow> gs)"

lemma is_space_lower: "is_space (lower c) \<longleftrightarrow> is_space c"
  by (auto simp: is_space_def lower_def Let_def)

lemma lower_lower: "lower (lower c) = lower c"
proof (cases "65 \<le> (of_char c :: nat) \<and> (of_char c :: nat) \<le> 90")
  case True
  then have "of_char (lower c) = (of_char c + 32 :: nat)" by (simp add: lower_def)
  with True show ?thesis by (simp add: lower_def [of "lower c"])
qed (auto simp: lower_def)

lemma lstrip_lower: "lstrip (map lower t) = map lower (lstrip t)"
  by (simp add: lstrip_def dropWhile_map comp_def is_space_lower)

lemma strip_lower: "strip (map lower t) = map lower (strip t)"
  by (simp add: strip_def lstrip_lower rev_map)

lemma lstrip_lstrip: "lstrip (lstrip t) = lstrip t"
  unfolding lstrip_def by (induction t) auto

lemma lstrip_rev_lstrip:
  assumes "lstrip t = t"
  shows "lstrip (rev (lstrip (rev t))) = rev (lstrip (rev t))"
proof (cases "rev (lstrip (rev t))")
  case (Cons c cs)
  have "t \<noteq> [] \<Longrightarrow> \<not> is_space (hd t)" using assms unfolding lstrip_def by (metis hd_dropWhile)
  moreover have "\<exists>us. t = rev (lstrip (rev t)) @ us"
    unfolding lstrip_def by (metis rev_append rev_rev_ident takeWhile_dropWhile_id)
  ultimately have "\<not> is_space c" using Cons by (metis append_Cons hd_append2 list.sel(1) list.simps(3))
  then show ?thesis unfolding Cons by (simp add: lstrip_def)
next
  case Nil
  show ?thesis unfolding Nil by (simp add: lstrip_def)
qed

lemma strip_strip: "strip (strip t) = strip t"
  unfolding strip_def by (simp add: lstrip_rev_lstrip lstrip_lstrip)

lemma normalize_again: "normalize_gateway_type (Some (normalize_gateway_type t)) = normalize_gateway_type t"
proof -
  have "or_str (Some z) [] = z" for z by (simp add: or_str_def truthy_def)
  then show ?thesis by (simp add: normalize_gateway_type_def strip_lower strip_strip lower_lower comp_def)
qed

lemma aliases_lower: "map_of GATEWAY_REQUIRED_CONFIGS t = Some gs \<Longrightarrow> g \<in> set gs \<Longrightarrow> a \<in> set g \<Longrightarrow> map lower a = a"
proof -
  assume a: "map_of GATEWAY_REQUIRED_CONFIGS t = Some gs" "g \<in> set gs" "a \<in> set g"
  have "list_all (\<lambda>(t, gs). list_all (list_all (\<lambda>a. map lower a = a)) gs) GATEWAY_REQUIRED_CONFIGS" by code_simp
  with map_of_SomeD [OF a(1)] a(2,3) show ?thesis by (auto simp: list_all_iff)
qed

lemma lookup_lower_value: "has_value (lookup_lower cfg k) \<Longrightarrow> \<exists>(j, v) \<in> set cfg. map lower j = k \<and> has_value v"
  by (force simp: lookup_lower_def dest!: map_of_SomeD split: option.splits)

lemma offered_iff:
  "gw \<in> set (filter_captive_payment_gateways gws tcs) \<longleftrightarrow> gw \<in> set gws \<and> \<not> is_cash_like_gateway (Some (gateway_code gw)) \<and>
     has_value (gw_is_active gw) \<and> truth (gw_is_active gw) \<and> gateway_essential_configs_complete gw (map_of tcs (gateway_code gw))"
  by (induction gws) (auto simp: Let_def)

text \<open>
   Every gateway that a customer is offered can be used. It is one of the gateways of the list and
  enabled; its type, however it is written, is no cash-like one and does not contain the word
  cash; and for each setting the type requires, the settings of the tenant hold a value that
  is not blank under one of its names, in any spelling of upper and lower case.
\<close>

theorem offered_gateways_are_usable:
  assumes "gw \<in> set (filter_captive_payment_gateways gws tcs)"
  shows "gw \<in> set gws \<and> truth (gw_is_active gw) \<and> gateway_code gw \<notin> set CASH_LIKE_GATEWAY_TYPES \<and> \<not> contains ''cash'' (gateway_code gw)
    \<and> (\<forall>group \<in> set (needs (gateway_code gw)). \<exists>cfg. map_of tcs (gateway_code gw) = Some cfg
        \<and> (\<exists>(k, v) \<in> set cfg. map lower k \<in> set group \<and> has_value v))"
proof -
  from assms have gw: "gw \<in> set gws" "truth (gw_is_active gw)" and cash: "\<not> is_cash_like_gateway (Some (gateway_code gw))"
      and conf: "gateway_essential_configs_complete gw (map_of tcs (gateway_code gw))" unfolding offered_iff by blast+
  have code: "normalize_gateway_type (Some (gateway_code gw)) = gateway_code gw" by (simp add: gateway_code_def normalize_again)
  have "[] \<notin> set CASH_LIKE_GATEWAY_TYPES" "\<not> contains ''cash'' []" by (simp_all add: CASH_LIKE_GATEWAY_TYPES_def)
  then have no: "gateway_code gw \<notin> set CASH_LIKE_GATEWAY_TYPES" "\<not> contains ''cash'' (gateway_code gw)"
    using cash unfolding is_cash_like_gateway_def code Let_def by metis+
  have "\<exists>cfg. map_of tcs (gateway_code gw) = Some cfg \<and> (\<exists>(k, v) \<in> set cfg. map lower k \<in> set g \<and> has_value v)" if g: "g \<in> set (needs (gateway_code gw))" for g
  proof -
    obtain gs where gs: "map_of GATEWAY_REQUIRED_CONFIGS (gateway_code gw) = Some gs" "g \<in> set gs"
      using g by (cases "map_of GATEWAY_REQUIRED_CONFIGS (gateway_code gw)") (simp_all add: needs_def)
    define cfg where "cfg = (case map_of tcs (gateway_code gw) of None \<Rightarrow> [] | Some c \<Rightarrow> c)"
    have "lookup_config cfg g" using conf gs by (simp add: gateway_essential_configs_complete_def list_all_iff cfg_def)
    then obtain a where a: "a \<in> set g" "has_value (lookup_lower cfg (map lower a))" by (auto simp: lookup_config_def list_ex_iff)
    then obtain k v where "(k, v) \<in> set cfg" "map lower k = a" "has_value v" using lookup_lower_value aliases_lower [OF gs a(1)] by fastforce
    then show ?thesis using a(1) by (cases "map_of tcs (gateway_code gw)") (auto simp: cfg_def)
  qed
  with gw no show ?thesis by blast
qed

section \<open>The theorem at a concrete input\<close>

definition paystack_gateway :: gateway where
  "paystack_gateway = \<lparr>gw_gateway_type = Some '' Paystack'', gw_type = None, gw_is_active = VBool True, gw_rest = []\<rparr>"

theorem offered_gateways_are_usable_witness:
  "paystack_gateway \<in> set (filter_captive_payment_gateways
       [paystack_gateway, paystack_gateway\<lparr>gw_gateway_type := Some ''CASH_pickup''\<rparr>] [(''paystack'', [(''Secret_Key'', VStr ''sk'')])])
   \<and> \<not> contains ''cash'' (gateway_code paystack_gateway)"
proof -
  have "paystack_gateway \<in> set (filter_captive_payment_gateways
       [paystack_gateway, paystack_gateway\<lparr>gw_gateway_type := Some ''CASH_pickup''\<rparr>] [(''paystack'', [(''Secret_Key'', VStr ''sk'')])])"
    by code_simp
  then show ?thesis using offered_gateways_are_usable by blast
qed

end
