(* ===== verification/Request_Guards.thy ===== *)
theory Request_Guards
  imports Accounts Tunnel Gateway_Filter
begin

text \<open>
  What stands between a request and a handler: the tenant of the request
  (\<open>src/app/core/tenant_middleware.py\<close>), the current user (\<open>src/app/api/deps.py\<close>), the checks of roles and
  tenants (\<open>src/app/api/deps_tenant.py\<close>, \<open>src/app/api/deps_org.py\<close>), and the gates on the subscription and
  the limits of a provider; then the endpoints that administer users
  (\<open>src/app/api/v1/users/users.py\<close>) and the two creations that a limit guards.

  Arguments: the JWT library; reading the claims of a sign-on token and its unverified header; how
  the driver and Python read a UUID; the answer of the subscription service. The bearer token that
  FastAPI reads from the request is a field of it.
\<close>

section \<open>Requests\<close>

record http_request =
  hr_method :: string
  hr_path :: string
  hr_bearer :: "string option"
  hr_authorization :: "string option"
  hr_tenant_id :: "string option"
  hr_org_slug :: "string option"
  hr_query_slug :: "string option"
  hr_organization_slug :: "string option"
  hr_api_key :: "string option"
  hr_host :: string

text \<open>A limit as the subscription service reports it; \<open>LOther\<close> is a value that \<open>int\<close> rejects.\<close>

datatype limit_value = LNone | LInt int | LStr string | LOther

record request_claims = sso_claims +
  cl_is_demo :: bool
  cl_billing_mode :: "string option"
  cl_sub_status :: "string option"
  cl_sub_limits :: "(string \<times> limit_value) list"

record auth_env =
  ae_jwt :: jwt
  ae_sso_header :: "string \<Rightarrow> bool"
  ae_sso_decode :: "datetime \<Rightarrow> string \<Rightarrow> request_claims option"
  ae_driver_uuid :: "string \<Rightarrow> string option"
  ae_uuid :: "string \<Rightarrow> string option"
  ae_random_token :: string
  ae_internal_service_key :: "string option"
  ae_subscription_limits :: "string \<Rightarrow> exn + (string \<times> limit_value) list option"

section \<open>The current user\<close>

definition NotAuthenticated :: exn where
  "NotAuthenticated = Exn ''HTTPException'' ''401: Not authenticated''"

definition extract_bearer :: "string option \<Rightarrow> string option" where
  "extract_bearer auth =
     (if truthy auth \<and> CHR '' '' \<in> set (the auth) \<and> map lower (takeWhile (\<lambda>c. c \<noteq> CHR '' '') (the auth)) = ''bearer''
      then Some (strip (tl (dropWhile (\<lambda>c. c \<noteq> CHR '' '') (the auth)))) else None)"

definition get_optional_sso_claims :: "auth_env \<Rightarrow> datetime \<Rightarrow> http_request \<Rightarrow> request_claims option" where
  "get_optional_sso_claims env now r =
     (let t = extract_bearer (hr_authorization r)
      in if \<not> truthy t \<or> \<not> ae_sso_header env (the t) then None else ae_sso_decode env now (the t))"

definition local_user :: "auth_env \<Rightarrow> datetime \<Rightarrow> string \<Rightarrow> db \<Rightarrow> (exn + user) option" where
  \<comment> \<open>nothing when the token is not a local one\<close>
  "local_user env now t d =
     (case verify_token (ae_jwt env) now t ''access'' of
        Inl e \<Rightarrow> Some (Inl e)
      | Inr None \<Rightarrow> None
      | Inr (Some td) \<Rightarrow>
          Some (case user_by_id (td_user_id td) d of Inl e \<Rightarrow> Inl e | Inr None \<Rightarrow> Inl NotAuthenticated | Inr (Some u) \<Rightarrow> Inr u))"

definition user_of_token :: "auth_env \<Rightarrow> datetime \<Rightarrow> http_request \<Rightarrow> string \<Rightarrow> dbs \<Rightarrow> ((exn + user) \<times> dbs) option" where
  "user_of_token env now r t s =
     (case local_user env now t (cur s) of
        Some res \<Rightarrow> Some (res, s)
      | None \<Rightarrow>
          (case get_optional_sso_claims env now r of
             None \<Rightarrow> Some (Inl NotAuthenticated, s)
           | Some claims \<Rightarrow> provision_sso_user (ae_driver_uuid env) (ae_random_token env) now (sso_claims.truncate claims) s))"

definition get_current_user :: "auth_env \<Rightarrow> datetime \<Rightarrow> http_request \<Rightarrow> dbs \<Rightarrow> ((exn + user) \<times> dbs) option" where
  "get_current_user env now r s =
     (if \<not> truthy (hr_bearer r) then Some (Inl NotAuthenticated, s) else user_of_token env now r (the (hr_bearer r)) s)"

definition get_current_user_unified :: "auth_env \<Rightarrow> datetime \<Rightarrow> http_request \<Rightarrow> dbs \<Rightarrow> ((exn + user) \<times> dbs) option" where
  "get_current_user_unified env now r s =
     (let t = extract_bearer (hr_authorization r)
      in if \<not> truthy t then Some (Inl NotAuthenticated, s) else user_of_token env now r (the t) s)"

definition get_current_user_bearer :: "auth_env \<Rightarrow> datetime \<Rightarrow> string \<Rightarrow> db \<Rightarrow> exn + user" where
  "get_current_user_bearer env now t d = (case local_user env now t d of None \<Rightarrow> Inl NotAuthenticated | Some res \<Rightarrow> res)"

section \<open>Checks of the role\<close>

definition get_current_active_user :: "user \<Rightarrow> exn option" where
  "get_current_active_user u = (if usr_is_active u then None else Some (Exn ''HTTPException'' ''400: Inactive user''))"

definition get_current_verified_user :: "user \<Rightarrow> exn option" where
  "get_current_verified_user u =
     (case get_current_active_user u of
        Some e \<Rightarrow> Some e
      | None \<Rightarrow> if usr_is_verified u then None else Some (Exn ''HTTPException'' ''400: User not verified''))"

definition active_with_role :: "UserRole list \<Rightarrow> user \<Rightarrow> exn option" where
  "active_with_role allowed_roles u =
     (case get_current_active_user u of
        Some e \<Rightarrow> Some e
      | None \<Rightarrow> if usr_role u \<in> set allowed_roles then None else Some (Exn ''HTTPException'' ''403: Insufficient permissions''))"

definition require_user_role :: "UserRole \<Rightarrow> user \<Rightarrow> exn option" where
  "require_user_role required_role = active_with_role [PlatformOwner, required_role]"

definition require_admin :: "user \<Rightarrow> exn option" where
  "require_admin = active_with_role [PlatformOwner, IspAdmin]"

definition require_technician_or_admin :: "user \<Rightarrow> exn option" where
  "require_technician_or_admin = active_with_role [PlatformOwner, IspAdmin, IspTechnician]"

definition require_customer_or_admin :: "user \<Rightarrow> exn option" where
  "require_customer_or_admin = active_with_role [PlatformOwner, IspAdmin, Customer]"

section \<open>The tenant of a request\<close>

definition lookup_one :: "organization list \<Rightarrow> int option" where
  \<comment> \<open>errors are caught\<close>
  "lookup_one rs = (case scalar_one_or_none rs of Inr (Some g) \<Rightarrow> Some (org_id g) | _ \<Rightarrow> None)"

definition lookup_by_slug :: "string \<Rightarrow> db \<Rightarrow> int option" where
  "lookup_by_slug slug d = lookup_one (filter (\<lambda>g. org_slug g = slug) (organizations d))"

definition lookup_by_domain :: "string \<Rightarrow> db \<Rightarrow> int option" where
  "lookup_by_domain domain d = lookup_one (filter (\<lambda>g. org_portal_domain g = Some domain) (organizations d))"

definition resolve_from_uuid :: "auth_env \<Rightarrow> string \<Rightarrow> db \<Rightarrow> int option" where
  "resolve_from_uuid env t d =
     (case ae_uuid env t of None \<Rightarrow> None | Some u \<Rightarrow> lookup_one (filter (\<lambda>g. org_uuid g = u) (organizations d)))"

definition before_colon :: "string \<Rightarrow> string" where
  "before_colon t = takeWhile (\<lambda>c. c \<noteq> CHR '':'') t"

definition resolve_from_jwt :: "auth_env \<Rightarrow> datetime \<Rightarrow> http_request \<Rightarrow> int option" where
  "resolve_from_jwt env now r =
     (if \<not> truthy (hr_authorization r) \<or> take 7 (the (hr_authorization r)) \<noteq> ''Bearer '' then None
      else case verify_token (ae_jwt env) now (takeWhile (\<lambda>c. c \<noteq> CHR '' '') (drop 7 (the (hr_authorization r)))) ''access'' of
        Inr (Some td) \<Rightarrow> td_organization_id td
      | _ \<Rightarrow> None)"

function erase :: "string \<Rightarrow> string \<Rightarrow> string" where
  \<comment> \<open>\<open>t.replace(w, "")\<close>\<close>
  "erase w [] = []"
| "erase w (c # cs) = (if w \<noteq> [] \<and> take (length w) (c # cs) = w then erase w (drop (length w) (c # cs)) else c # erase w cs)"
  by pat_completeness auto
termination by (relation "measure (length \<circ> snd)") (auto simp: Suc_le_eq less_Suc_eq_le neq_Nil_conv)

definition resolve_from_subdomain :: "http_request \<Rightarrow> db \<Rightarrow> int option" where
  \<comment> \<open>the settings do not define \<open>portal_base_domain\<close>, so that the default counts\<close>
  "resolve_from_subdomain r d =
     (if hr_host r = [] \<or> \<not> contains ''ispbilling.com'' (hr_host r) then None
      else let subdomain = before_colon (erase ''.ispbilling.com'' (hr_host r))
           in if subdomain = [] \<or> subdomain \<in> {''www'', ''api'', ''app''} then None else lookup_by_slug subdomain d)"

definition resolve_from_custom_domain :: "http_request \<Rightarrow> db \<Rightarrow> int option" where
  "resolve_from_custom_domain r d = (let host = before_colon (hr_host r) in if host = [] then None else lookup_by_domain host d)"

definition or_then :: "int option \<Rightarrow> int option \<Rightarrow> int option" where
  "or_then x y = (if truthy_int x then x else y)"

definition resolve_by_slugs :: "http_request \<Rightarrow> db \<Rightarrow> int option" where
  "resolve_by_slugs r d =
     or_then (if truthy (hr_org_slug r) then lookup_by_slug (the (hr_org_slug r)) d else None)
       (or_then (if truthy (hr_query_slug r) then lookup_by_slug (the (hr_query_slug r)) d else None)
         (or_then (resolve_from_subdomain r d) (or_then (resolve_from_custom_domain r d) None)))"

definition resolve_tenant :: "auth_env \<Rightarrow> datetime \<Rightarrow> http_request \<Rightarrow> db \<Rightarrow> int option" where
  "resolve_tenant env now r d =
     or_then (resolve_from_jwt env now r)
       (if truthy (hr_tenant_id r) then
          (case parse_int (the (hr_tenant_id r)) of
             Some i \<Rightarrow> Some i
           | None \<Rightarrow> or_then (resolve_from_uuid env (the (hr_tenant_id r)) d) (resolve_by_slugs r d))
        else resolve_by_slugs r d)"

definition EXEMPT_PATHS :: "string list" where
  "EXEMPT_PATHS =
     [''/api/v1/auth/login'', ''/api/v1/auth/register'', ''/api/v1/onboarding'', ''/api/v1/platform'', ''/api/v1/provisioning'', ''/health'',
      ''/docs'', ''/redoc'', ''/openapi.json'']"

definition PORTAL_PATHS :: "string list" where
  "PORTAL_PATHS = [''/api/v1/portal/hotspot'', ''/api/v1/portal/pppoe'']"

definition under :: "string list \<Rightarrow> string \<Rightarrow> bool" where
  "under ps path = list_ex (\<lambda>p. take (length p) path = p) ps"

text \<open>The context of a request: the id of the organisation, and its row on the portal paths.\<close>

definition tenant_context :: "auth_env \<Rightarrow> datetime \<Rightarrow> http_request \<Rightarrow> db \<Rightarrow> exn + int option \<times> organization option" where
  "tenant_context env now r d =
     (if hr_method r = ''OPTIONS'' \<or> under EXEMPT_PATHS (hr_path r) then Inr (None, None)
      else let i = resolve_tenant env now r d
           in if \<not> truthy_int i then Inr (None, None)
              else if \<not> under PORTAL_PATHS (hr_path r) then Inr (i, None)
              else case tbl_get org_id (the i) (organizations d) of
                None \<Rightarrow> Inl (Exn ''HTTPException'' ''404: Organization not found'')
              | Some g \<Rightarrow> if org_status g \<in> {OrgActive, OrgTrial} then Inr (i, Some g)
                          else Inl (Exn ''HTTPException'' ''404: Organization not found''))"

section \<open>Checks of the tenant\<close>

definition TenantNotFound :: exn where
  "TenantNotFound = Exn ''HTTPException'' ''404: Organization not found''"

definition TenantSuspended :: exn where
  "TenantSuspended = Exn ''HTTPException'' ''403: Organization is suspended. Please contact support.''"

definition organization_row :: "int option \<Rightarrow> db \<Rightarrow> exn + organization" where
  "organization_row i d =
     (if \<not> truthy_int i then Inl TenantNotFound
      else case tbl_get org_id (the i) (organizations d) of None \<Rightarrow> Inl TenantNotFound | Some g \<Rightarrow> Inr g)"

definition not_suspended :: "organization \<Rightarrow> exn + organization" where
  "not_suspended g = (if org_status g = OrgSuspended then Inl TenantSuspended else Inr g)"

definition get_current_organization :: "int option \<Rightarrow> user \<Rightarrow> db \<Rightarrow> exn + organization" where
  "get_current_organization ctx u d =
     (if usr_role u = PlatformOwner \<and> \<not> truthy_int ctx
      then Inl (Exn ''HTTPException'' ''400: Platform owners must specify an organization via X-Tenant-ID header'')
      else bind_exn (organization_row (if usr_role u = PlatformOwner then ctx else usr_organization_id u) d) not_suspended)"

definition get_optional_organization :: "user \<Rightarrow> db \<Rightarrow> organization option" where
  "get_optional_organization u d =
     (if usr_role u = PlatformOwner then None else organization_of u d)"

definition get_organization_from_context :: "int option \<Rightarrow> organization option \<Rightarrow> db \<Rightarrow> organization option" where
  "get_organization_from_context ctx tenant d =
     (if \<not> truthy_int ctx then None else if tenant \<noteq> None then tenant else tbl_get org_id (the ctx) (organizations d))"

definition require_organization_from_context :: "int option \<Rightarrow> organization option \<Rightarrow> db \<Rightarrow> exn + organization" where
  "require_organization_from_context ctx tenant d =
     (case get_organization_from_context ctx tenant d of None \<Rightarrow> Inl TenantNotFound | Some g \<Rightarrow> not_suspended g)"

definition require_platform_owner :: "user \<Rightarrow> exn option" where
  "require_platform_owner u = (if usr_role u = PlatformOwner then None else Some (Exn ''HTTPException'' ''403: Platform owner access required''))"

definition require_platform_integration_access :: "user \<Rightarrow> exn option" where
  "require_platform_integration_access u =
     (if usr_role u = PlatformOwner then None else Some (Exn ''HTTPException'' ''403: Platform integration access required''))"

definition require_in_tenant :: "UserRole list \<Rightarrow> string \<Rightarrow> int option \<Rightarrow> user \<Rightarrow> db \<Rightarrow> exn option" where
  "require_in_tenant allowed_roles detail ctx u d =
     (case get_current_organization ctx u d of
        Inl e \<Rightarrow> Some e
      | Inr g \<Rightarrow> if usr_role u \<in> set allowed_roles then None else Some (Exn ''HTTPException'' detail))"

definition require_isp_admin :: "int option \<Rightarrow> user \<Rightarrow> db \<Rightarrow> exn option" where
  "require_isp_admin = require_in_tenant [IspAdmin, PlatformOwner] ''403: ISP administrator access required''"

definition require_tenant_integration_access :: "int option \<Rightarrow> user \<Rightarrow> db \<Rightarrow> exn option" where
  "require_tenant_integration_access = require_in_tenant [IspAdmin, PlatformOwner] ''403: ISP administrator access required for integration configuration''"

definition require_isp_staff :: "int option \<Rightarrow> user \<Rightarrow> db \<Rightarrow> exn option" where
  "require_isp_staff = require_in_tenant [IspAdmin, IspTechnician, PlatformOwner] ''403: ISP staff access required''"

definition is_trial :: "datetime \<Rightarrow> organization \<Rightarrow> bool" where
  "is_trial now g \<longleftrightarrow> org_status g = OrgTrial \<and> (case org_trial_ends_at g of None \<Rightarrow> False | Some e \<Rightarrow> now < e)"

definition is_subscription_active :: "datetime \<Rightarrow> organization \<Rightarrow> bool" where
  "is_subscription_active now g \<longleftrightarrow> org_status g \<in> {OrgActive, OrgTrial} \<and>
     (is_trial now g \<or> (case org_subscription_ends_at g of None \<Rightarrow> False | Some e \<Rightarrow> now < e))"

definition require_active_subscription :: "datetime \<Rightarrow> int option \<Rightarrow> user \<Rightarrow> db \<Rightarrow> exn + organization" where
  "require_active_subscription now ctx u d =
     bind_exn (get_current_organization ctx u d) (\<lambda>g. if is_subscription_active now g then Inr g
       else Inl (Exn ''HTTPException'' ''403: Subscription expired. Please renew your subscription.''))"

definition get_organization_by_id :: "int \<Rightarrow> user \<Rightarrow> db \<Rightarrow> exn + organization" where
  "get_organization_by_id i u d =
     (case require_platform_owner u of
        Some e \<Rightarrow> Inl e
      | None \<Rightarrow> (case tbl_get org_id i (organizations d) of None \<Rightarrow> Inl TenantNotFound | Some g \<Rightarrow> Inr g))"

definition get_organization_by_slug :: "string \<Rightarrow> db \<Rightarrow> exn + organization" where
  "get_organization_by_slug slug d =
     (case scalar_one_or_none (filter (\<lambda>g. org_slug g = slug) (organizations d)) of
        Inl e \<Rightarrow> Inl e
      | Inr None \<Rightarrow> Inl TenantNotFound
      | Inr (Some g) \<Rightarrow> not_suspended g)"

definition get_org_from_header :: "http_request \<Rightarrow> db \<Rightarrow> exn + organization option" where
  "get_org_from_header r d =
     (if \<not> truthy (hr_organization_slug r) then Inr None
      else case scalar_one_or_none (filter (\<lambda>g. org_slug g = the (hr_organization_slug r)) (organizations d)) of
        Inl e \<Rightarrow> Inl e
      | Inr None \<Rightarrow> Inl (Exn ''HTTPException'' ''404: Organization not found'')
      | Inr (Some g) \<Rightarrow> Inr (Some g))"

definition get_required_org :: "http_request \<Rightarrow> db \<Rightarrow> exn + organization" where
  "get_required_org r d =
     bind_exn (get_org_from_header r d) (\<lambda>g. case g of
       None \<Rightarrow> Inl (Exn ''HTTPException'' ''400: Organization context required. Please provide X-Organization-Slug header.'')
     | Some x \<Rightarrow> Inr x)"

definition validate_user_org_access :: "http_request \<Rightarrow> user \<Rightarrow> db \<Rightarrow> exn + organization" where
  "validate_user_org_access r u d =
     bind_exn (get_required_org r d) (\<lambda>g.
       if usr_role u = PlatformOwner \<or> usr_organization_id u = Some (org_id g) then Inr g
       else Inl (Exn ''HTTPException'' ''403: Access denied: You do not have permission to access this organization''))"

definition get_org_id_for_query :: "http_request \<Rightarrow> user \<Rightarrow> db \<Rightarrow> exn + int" where
  "get_org_id_for_query r u d =
     bind_exn (get_org_from_header r d) (\<lambda>g.
       if usr_role u = PlatformOwner
       then (case g of Some x \<Rightarrow> Inr (org_id x) | None \<Rightarrow> Inl (Exn ''HTTPException'' ''400: Organization context required for this operation''))
       else if g \<noteq> None \<and> usr_organization_id u \<noteq> Some (org_id (the g))
       then Inl (Exn ''HTTPException'' ''403: Access denied: Organization mismatch'')
       else if \<not> truthy_int (usr_organization_id u) then Inl (Exn ''HTTPException'' ''400: User does not belong to any organization'')
       else Inr (the (usr_organization_id u)))"

section \<open>Gates\<close>

definition is_internal_service_request :: "auth_env \<Rightarrow> http_request \<Rightarrow> bool" where
  "is_internal_service_request env r =
     (let expected = strip (or_str (ae_internal_service_key env) [])
      in expected \<noteq> [] \<and> truthy (hr_api_key r) \<and> the (hr_api_key r) = expected)"

definition verify_service_key :: "auth_env \<Rightarrow> http_request \<Rightarrow> exn option" where
  "verify_service_key env r =
     (let expected = strip (or_str (ae_internal_service_key env) [])
      in if expected = [] then Some (Exn ''HTTPException'' ''503: Internal service key not configured'')
         else if \<not> truthy (hr_api_key r) \<or> the (hr_api_key r) \<noteq> expected then Some (Exn ''HTTPException'' ''401: Invalid service key'')
         else None)"

definition claims_is_exempt :: "request_claims \<Rightarrow> bool" where
  "claims_is_exempt cl \<longleftrightarrow> cl_is_platform_owner cl \<or> cl_is_demo cl \<or>
     map lower (strip (or_str (cl_billing_mode cl) [])) = ''service_charge'' \<or>
     list_ex (\<lambda>x. map lower (strip x) \<in> {''platform_owner'', ''superuser''}) (cl_roles cl) \<or>
     map lower (strip (or_str (cl_tenant_slug cl) [])) \<in> {''codevertex'', ''codevertex-demo''}"

definition upper_case :: "string \<Rightarrow> string" where
  "upper_case t = map (\<lambda>c. let n = of_char c :: nat in if 97 \<le> n \<and> n \<le> 122 then char_of (n - 32) else c) t"

text \<open>
  The claims that \<open>get_current_user\<close> leaves in the state of the request are the ones that the gate would
  read itself.
\<close>

definition enforce_subscription_active :: "auth_env \<Rightarrow> datetime \<Rightarrow> http_request \<Rightarrow> exn option" where
  "enforce_subscription_active env now r =
     (if upper_case (hr_method r) \<in> {''GET'', ''HEAD'', ''OPTIONS''} \<or> is_internal_service_request env r then None
      else case get_optional_sso_claims env now r of
        None \<Rightarrow> None
      | Some cl \<Rightarrow>
          if claims_is_exempt cl then None
          else if upper_case (strip (or_str (cl_sub_status cl) [])) \<noteq> ''ACTIVE'' then Some (Exn ''HTTPException'' ''403: subscription_inactive'')
          else None)"

fun limit_int :: "limit_value \<Rightarrow> int option" where
  "limit_int (LInt i) = Some i"
| "limit_int (LStr t) = parse_int t"
| "limit_int _ = None"

definition resolve_limit :: "auth_env \<Rightarrow> string \<Rightarrow> request_claims \<Rightarrow> exn + limit_value" where
  "resolve_limit env key cl =
     (let v = (case map_of (cl_sub_limits cl) key of None \<Rightarrow> LNone | Some x \<Rightarrow> x)
      in if v \<noteq> LNone \<or> \<not> truthy (cl_tenant_id cl) then Inr v
         else bind_exn (ae_subscription_limits env (the (cl_tenant_id cl))) (\<lambda>limits.
           Inr (case limits of None \<Rightarrow> LNone | Some ls \<Rightarrow> (case map_of ls key of None \<Rightarrow> LNone | Some x \<Rightarrow> x))))"

definition enforce_plan_limit :: "auth_env \<Rightarrow> datetime \<Rightarrow> string \<Rightarrow> (int option \<Rightarrow> db \<Rightarrow> int) \<Rightarrow> http_request \<Rightarrow> user \<Rightarrow> db \<Rightarrow> exn option" where
  "enforce_plan_limit env now key count_fn r u d =
     (if is_internal_service_request env r \<or> usr_role u = PlatformOwner then None
      else case get_optional_sso_claims env now r of
        None \<Rightarrow> None
      | Some cl \<Rightarrow>
          if claims_is_exempt cl then None
          else case resolve_limit env key cl of
            Inl e \<Rightarrow> None
          | Inr v \<Rightarrow>
              (case limit_int v of
                 None \<Rightarrow> None
               | Some n \<Rightarrow> if n \<le> 0 \<or> count_fn (usr_organization_id u) d < n then None
                           else Some (Exn ''HTTPException'' ''403: usage_limit_exceeded'')))"

definition count_routers :: "int option \<Rightarrow> db \<Rightarrow> int" where
  "count_routers org d = int (length (filter (\<lambda>y. org \<noteq> None \<longrightarrow> rt_organization_id y = org) (routers d)))"

definition count_subscriptions :: "int option \<Rightarrow> db \<Rightarrow> int" where
  "count_subscriptions org d = int (length (filter (\<lambda>y. org \<noteq> None \<longrightarrow> sub_organization_id y = org) (subscriptions d)))"

section \<open>Guarded endpoints\<close>

text \<open>A handler runs with the current user once the guards, in the order of the dependencies, let it.\<close>

definition guarded_by ::
    "auth_env \<Rightarrow> datetime \<Rightarrow> http_request \<Rightarrow> (user \<Rightarrow> db \<Rightarrow> exn option) \<Rightarrow> (user \<Rightarrow> dbs \<Rightarrow> (exn + 'a) \<times> dbs) \<Rightarrow> dbs \<Rightarrow> ((exn + 'a) \<times> dbs) option" where
  "guarded_by env now r guard handler s =
     (case get_current_user env now r s of
        None \<Rightarrow> None
      | Some (Inl e, s1) \<Rightarrow> Some (Inl e, s1)
      | Some (Inr u, s1) \<Rightarrow> (case guard u (cur s1) of Some e \<Rightarrow> Some (Inl e, s1) | None \<Rightarrow> Some (handler u s1)))"

definition found_or_404 :: "(exn + 'a option) \<times> dbs \<Rightarrow> (exn + 'a) \<times> dbs" where
  "found_or_404 res =
     (case res of
        (Inl e, s) \<Rightarrow> (Inl e, s)
      | (Inr None, s) \<Rightarrow> (Inl (Exn ''HTTPException'' ''404: User not found''), s)
      | (Inr (Some x), s) \<Rightarrow> (Inr x, s))"

definition update_current_user_request :: "auth_env \<Rightarrow> datetime \<Rightarrow> http_request \<Rightarrow> user_update \<Rightarrow> dbs \<Rightarrow> ((exn + user) \<times> dbs) option" where
  "update_current_user_request env now r q = guarded_by env now r (\<lambda>_ _. None) (\<lambda>u s. found_or_404 (update_user (usr_id u) q s))"

definition get_user_request :: "auth_env \<Rightarrow> datetime \<Rightarrow> http_request \<Rightarrow> int \<Rightarrow> dbs \<Rightarrow> ((exn + user) \<times> dbs) option" where
  "get_user_request env now r i = guarded_by env now r (\<lambda>u _. require_technician_or_admin u) (\<lambda>_ s. found_or_404 (user_by_id i (cur s), s))"

definition update_user_request :: "auth_env \<Rightarrow> datetime \<Rightarrow> http_request \<Rightarrow> int \<Rightarrow> user_update \<Rightarrow> dbs \<Rightarrow> ((exn + user) \<times> dbs) option" where
  "update_user_request env now r i q = guarded_by env now r (\<lambda>u _. require_admin u) (\<lambda>_ s. found_or_404 (update_user i q s))"

definition update_user_status_request :: "auth_env \<Rightarrow> datetime \<Rightarrow> http_request \<Rightarrow> int \<Rightarrow> UserStatus \<Rightarrow> dbs \<Rightarrow> ((exn + user) \<times> dbs) option" where
  "update_user_status_request env now r i status = guarded_by env now r (\<lambda>u _. require_admin u) (\<lambda>_ s. found_or_404 (update_user_status i status s))"

definition update_user_role_request :: "auth_env \<Rightarrow> datetime \<Rightarrow> http_request \<Rightarrow> int \<Rightarrow> UserRole \<Rightarrow> dbs \<Rightarrow> ((exn + user) \<times> dbs) option" where
  "update_user_role_request env now r i role = guarded_by env now r (\<lambda>u _. require_admin u) (\<lambda>_ s. found_or_404 (update_user_role i role s))"

definition activate_user_request :: "auth_env \<Rightarrow> datetime \<Rightarrow> http_request \<Rightarrow> int \<Rightarrow> dbs \<Rightarrow> ((exn + user) \<times> dbs) option" where
  "activate_user_request env now r i = guarded_by env now r (\<lambda>u _. require_admin u) (\<lambda>_ s. found_or_404 (activate_user i s))"

definition deactivate_user_request :: "auth_env \<Rightarrow> datetime \<Rightarrow> http_request \<Rightarrow> int \<Rightarrow> dbs \<Rightarrow> ((exn + user) \<times> dbs) option" where
  "deactivate_user_request env now r i = guarded_by env now r (\<lambda>u _. require_admin u) (\<lambda>_ s. found_or_404 (deactivate_user i s))"

definition delete_user_request :: "auth_env \<Rightarrow> datetime \<Rightarrow> http_request \<Rightarrow> int \<Rightarrow> dbs \<Rightarrow> ((exn + unit) \<times> dbs) option" where
  "delete_user_request env now r i = guarded_by env now r (\<lambda>u _. require_admin u)
     (\<lambda>_ s. case delete_user i s of
        (Inl e, s1) \<Rightarrow> (Inl e, s1)
      | (Inr ok, s1) \<Rightarrow> if ok then (Inr (), s1) else (Inl (Exn ''HTTPException'' ''404: User not found''), s1))"

definition admin_set_password :: "(string \<Rightarrow> string) \<Rightarrow> int \<Rightarrow> string \<Rightarrow> user \<Rightarrow> dbs \<Rightarrow> (exn + unit) \<times> dbs" where
  "admin_set_password get_password_hash i new_password current_user s =
     (case user_by_id i (cur s) of
        Inl e \<Rightarrow> (Inl e, s)
      | Inr None \<Rightarrow> (Inl (Exn ''HTTPException'' ''404: User not found''), s)
      | Inr (Some u) \<Rightarrow>
          if usr_role u = PlatformOwner \<and> usr_role current_user \<noteq> PlatformOwner
          then (Inl (Exn ''HTTPException'' ''403: Cannot change platform owner password''), s)
          else (Inr (), commit (on_db (users_update (tbl_upd usr_id i (usr_hashed_password_update (\<lambda>_. get_password_hash new_password)))) s)))"

definition set_password_request ::
    "(string \<Rightarrow> string) \<Rightarrow> auth_env \<Rightarrow> datetime \<Rightarrow> http_request \<Rightarrow> int \<Rightarrow> string \<Rightarrow> dbs \<Rightarrow> ((exn + unit) \<times> dbs) option" where
  "set_password_request get_password_hash env now r i new_password =
     guarded_by env now r (\<lambda>u _. require_admin u) (admin_set_password get_password_hash i new_password)"

definition api_token_of :: "jwt \<Rightarrow> token_settings \<Rightarrow> datetime \<Rightarrow> user \<Rightarrow> string" where
  "api_token_of j c now u =
     create_access_token j c now (no_payload\<lparr>jp_sub := Some (str_int (usr_id u)), jp_username := Some (usr_username u),
       jp_role := Some (user_role_value (usr_role u)), jp_organization_id := usr_organization_id u\<rparr>) (Some (days 365))"

definition generate_api_token_request ::
    "auth_env \<Rightarrow> token_settings \<Rightarrow> datetime \<Rightarrow> http_request \<Rightarrow> int \<Rightarrow> dbs \<Rightarrow> ((exn + string) \<times> dbs) option" where
  "generate_api_token_request env c now r i = guarded_by env now r (\<lambda>u _. require_admin u)
     (\<lambda>_ s. found_or_404 (case user_by_id i (cur s) of Inl e \<Rightarrow> Inl e | Inr x \<Rightarrow> Inr (map_option (api_token_of (ae_jwt env) c now) x), s))"

text \<open>The dependencies of a route come before those of its parameters.\<close>

definition first_error :: "exn option list \<Rightarrow> exn option" where
  "first_error es = (case filter (\<lambda>e. e \<noteq> None) es of [] \<Rightarrow> None | e # _ \<Rightarrow> e)"

definition bad_request :: "string list \<Rightarrow> (exn + 'a) \<times> 's \<Rightarrow> (exn + 'a) \<times> 's" where
  "bad_request classes res =
     (case res of
        (Inr x, s) \<Rightarrow> (Inr x, s)
      | (Inl e, s) \<Rightarrow> (Inl (if exn_class e \<in> set classes
                            then Exn ''HTTPException'' (''400: '' @ exn_msg e) else e), s))"

definition create_router_request ::
    "auth_env \<Rightarrow> (string \<Rightarrow> bool) \<Rightarrow> string \<times> string \<Rightarrow> datetime \<Rightarrow> http_request \<Rightarrow> router_request \<Rightarrow> dbs \<Rightarrow> ((exn + router) \<times> dbs) option" where
  \<comment> \<open>the credentials are those of the settings\<close>
  "create_router_request env is_ip credentials now r q =
     guarded_by env now r
       (\<lambda>u d. first_error [enforce_plan_limit env now ''max_routers'' count_routers r u d, require_technician_or_admin u])
       (\<lambda>u s. bad_request [''ValidationError'', ''RouterOperationError'', ''ValueError''] (create_router is_ip now (usr_organization_id u)
          (q\<lparr>rq_username := fst credentials, rq_password := snd credentials\<rparr>) s))"

record subscription_create =
  sc_user_id :: int
  sc_plan_id :: int
  sc_router_id :: int
  sc_subscription_type :: SubscriptionType
  sc_username :: string
  sc_password :: string
  sc_start_date :: py_datetime
  sc_end_date :: py_datetime
  sc_is_auto_renewal :: bool
  sc_notes :: "string option"

definition create_subscription_request ::
    "auth_env \<Rightarrow> datetime \<Rightarrow> http_request \<Rightarrow> subscription_create \<Rightarrow> dbs \<Rightarrow> ((exn + subscription) \<times> dbs) option" where
  "create_subscription_request env now r q s =
     (case enforce_subscription_active env now r of
        Some e \<Rightarrow> Some (Inl e, s)
      | None \<Rightarrow>
          guarded_by env now r
            (\<lambda>u d. first_error [enforce_plan_limit env now ''max_customers'' count_subscriptions r u d,
               (case get_org_id_for_query r u d of Inl e \<Rightarrow> Some e | Inr _ \<Rightarrow> None), require_technician_or_admin u])
            (\<lambda>u s1. bad_request [''ValueError''] (create_subscription now (sc_user_id q) (sc_plan_id q) (sc_router_id q) (sc_subscription_type q) (sc_username q)
               (sc_password q) (sc_start_date q) (sc_end_date q) (sc_is_auto_renewal q) (Some (usr_id u)) (sc_notes q) s1)) s)"

end
