(* ===== verification/Pppoe_Portal.thy ===== *)
theory Pppoe_Portal
  imports Portal_Purchase
begin

text \<open>
  The portal of PPPoE customers (\<open>src/app/api/v1/portal/pppoe.py\<close>) and its use of the treasury
  (\<open>src/app/services/treasury_topup.py\<close>): login, the pages of the customer, renewal, and the
  confirmation of a renewal payment.

  The environment is that of the captive portal. Checking a password against its hash and issuing an
  access token are arguments; whether the rate limit lets a login through is the argument \<open>limited\<close>.
\<close>

section \<open>The user on the router\<close>

definition pppoe_limit_bytes :: "service_plan \<Rightarrow> string option" where
  "pppoe_limit_bytes p = (if plan_data_limit p > 0 \<and> \<not> is_unlimited_data p then Some (str_int (plan_data_limit p * 1024 * 1024)) else None)"

definition pppoe_secret :: "string \<Rightarrow> string \<Rightarrow> service_plan \<Rightarrow> string \<Rightarrow> (string \<times> string option) list" where
  "pppoe_secret username password p comment =
     [(''name'', Some username), (''password'', Some password), (''profile'', Some ''default''), (''service'', Some ''pppoe''),
      (''limit-bytes-total'', pppoe_limit_bytes p),
      (''limit-uptime'', if limit_uptime_str p = [] then None else Some (limit_uptime_str p)), (''comment'', Some comment)]"

definition sync_pppoe_user ::
    "'dev portal_env \<Rightarrow> organization \<Rightarrow> string \<Rightarrow> string \<Rightarrow> service_plan \<Rightarrow> string \<Rightarrow> 'dev \<times> dbs \<Rightarrow> 'dev" where
  \<comment> \<open>every failure is caught and logged\<close>
  "sync_pppoe_user env org username password p comment vs =
     (let (v, s) = vs
      in case active_router org (cur s) of
           None \<Rightarrow> v
         | Some r \<Rightarrow>
             (case env_connect (pe_sub env) r v of
                Some e \<Rightarrow> v
              | None \<Rightarrow> snd (env_exec (pe_sub env) ''/ppp/secret'' ''add'' (pppoe_secret username password p comment) v)))"

section \<open>Login\<close>

record pppoe_login_response =
  plr_access_token :: string
  plr_customer :: user

definition active_pppoe_subscription :: "organization \<Rightarrow> int \<Rightarrow> db \<Rightarrow> subscription option" where
  "active_pppoe_subscription org uid d =
     one_of (order_by (\<lambda>q. - sub_created_at q) (filter (\<lambda>q. sub_user_id q = uid \<and> sub_organization_id q = Some (org_id org) \<and>
       sub_status q = SubActive) (subscriptions d)))"

definition customer_login ::
    "'dev portal_env \<Rightarrow> (string \<Rightarrow> string \<Rightarrow> bool) \<Rightarrow> (int \<Rightarrow> int \<Rightarrow> string) \<Rightarrow> datetime \<Rightarrow> bool \<Rightarrow> organization \<Rightarrow> string \<Rightarrow> string
     \<Rightarrow> 'dev \<times> dbs \<Rightarrow> (exn + pppoe_login_response) \<times> 'dev \<times> dbs" where
  "customer_login env verify_password create_access_token now limited org username password vs =
     (let (v, s) = vs
      in if limited then (Inl TooManyRequests, v, s)
         else case scalar_one_or_none (filter (\<lambda>u. usr_organization_id u = Some (org_id org) \<and> usr_role u = Customer \<and>
                usr_username u = username) (users (cur s))) of
           Inl e \<Rightarrow> (Inl e, v, s)
         | Inr None \<Rightarrow> (Inl (Exn ''HTTPException'' ''401: Invalid username or password''), v, s)
         | Inr (Some u) \<Rightarrow>
             if \<not> verify_password password (usr_hashed_password u)
             then (Inl (Exn ''HTTPException'' ''401: Invalid username or password''), v, s)
             else if usr_status u \<noteq> UsrActive then (Inl (Exn ''HTTPException'' ''401: Account is not active''), v, s)
             else
               let s1 = on_db (users_update (tbl_upd usr_id (usr_id u) (usr_last_login_update (\<lambda>_. Some now)))) s;
                   v1 = (case active_pppoe_subscription org (usr_id u) (cur s1) of
                           None \<Rightarrow> v
                         | Some q \<Rightarrow>
                             (case tbl_get plan_id (sub_plan_id q) (plans (cur s1)) of
                                None \<Rightarrow> v
                              | Some p \<Rightarrow> sync_pppoe_user env org (usr_username u) password p
                                  (''PPPoE user - '' @ plan_name p @ '' subscription'') (v, s1)))
               in (Inr \<lparr>plr_access_token = create_access_token (usr_id u) (org_id org), plr_customer = u\<lparr>usr_last_login := Some now\<rparr>\<rparr>,
                   v1, commit s1))"

section \<open>The pages of the customer\<close>

text \<open>
  The usage queries name columns that \<open>SubscriptionUsageLog\<close> does not have (\<open>bytes_in\<close>, \<open>created_at\<close>),
  the list of plans one that \<open>ServicePlan\<close> does not have (\<open>is_active\<close>), the list of payments and the
  webhook one that \<open>Payment\<close> does not have (\<open>payment_reference\<close>): reading them raises.
\<close>

definition get_dashboard :: "organization \<Rightarrow> int \<Rightarrow> db \<Rightarrow> exn + unit" where
  "get_dashboard org uid d =
     (case scalar_one_or_none (filter (\<lambda>u. usr_id u = uid \<and> usr_organization_id u = Some (org_id org) \<and> usr_role u = Customer) (users d)) of
        Inl e \<Rightarrow> Inl e
      | Inr None \<Rightarrow> Inl (Exn ''HTTPException'' ''404: Customer not found'')
      | Inr (Some u) \<Rightarrow> Inl (Exn ''AttributeError'' ''bytes_in''))"

definition latest_pppoe_subscription :: "organization \<Rightarrow> int \<Rightarrow> db \<Rightarrow> subscription option" where
  "latest_pppoe_subscription org uid d =
     one_of (order_by (\<lambda>q. - sub_created_at q) (filter (\<lambda>q. sub_user_id q = uid \<and> sub_organization_id q = Some (org_id org)) (subscriptions d)))"

definition get_usage_history :: "organization \<Rightarrow> int \<Rightarrow> db \<Rightarrow> exn + usage_log list" where
  "get_usage_history org uid d =
     (case latest_pppoe_subscription org uid d of
        None \<Rightarrow> Inr []
      | Some q \<Rightarrow> Inl (Exn ''AttributeError'' ''created_at''))"

definition get_payment_history :: "organization \<Rightarrow> int \<Rightarrow> nat \<Rightarrow> db \<Rightarrow> exn + payment list" where
  "get_payment_history org uid limit d =
     (case take limit (order_by (\<lambda>p. - pay_created_at p)
         (filter (\<lambda>p. pay_user_id p = uid \<and> pay_organization_id p = Some (org_id org)) (payments d))) of
        [] \<Rightarrow> Inr []
      | p # ps \<Rightarrow> Inl (Exn ''AttributeError'' ''payment_reference''))"

definition get_available_plans :: "organization \<Rightarrow> int \<Rightarrow> db \<Rightarrow> exn + service_plan list" where
  "get_available_plans org uid d = Inl (Exn ''AttributeError'' ''is_active'')"

section \<open>Renewal\<close>

record topup_intent =
  ti_intent_id :: string
  ti_checkout_url :: string

definition create_topup_intent ::
    "treasury \<Rightarrow> string \<Rightarrow> string \<Rightarrow> string \<Rightarrow> string \<Rightarrow> string \<Rightarrow> string \<Rightarrow> string \<Rightarrow> string \<Rightarrow> exn + topup_intent option" where
  "create_topup_intent tr tenant amount currency reference reference_type description redirect button =
     (if \<not> tr_configured tr then Inr None
      else case tr_create_payment_intent tr reference of
        Inl e \<Rightarrow> if is_treasury_error e then Inr None else Inl e
      | Inr intent \<Rightarrow>
          let intent_id = (if truthy (dict_get intent ''intent_id'') then dict_get intent ''intent_id'' else dict_get intent ''id'')
          in if \<not> truthy intent_id then Inr None
             else Inr (Some \<lparr>ti_intent_id = the intent_id, ti_checkout_url = build_pay_page_url tr
                   [(''tenant'', tenant), (''intent_id'', the intent_id), (''amount'', amount), (''currency'', currency),
                    (''reference_id'', reference), (''reference_type'', reference_type), (''redirect_url'', redirect)]
                   [(''description'', Some description), (''initiate_url'', dict_get intent ''initiate_url''), (''button_text'', Some button)]\<rparr>))"

definition get_intent_status :: "treasury \<Rightarrow> string \<Rightarrow> exn + string option" where
  "get_intent_status tr intent_id =
     (if \<not> tr_configured tr then Inr None
      else case tr_get_status tr intent_id of
        Inl e \<Rightarrow> if is_treasury_error e then Inr None else Inl e
      | Inr intent \<Rightarrow> Inr (Some (map lower (dict_get_or intent ''status'' []))))"

definition SUCCESS_STATUSES :: "string list" where
  "SUCCESS_STATUSES = [''succeeded'', ''success'', ''completed'', ''paid'']"

definition FAILURE_STATUSES :: "string list" where
  "FAILURE_STATUSES = [''failed'', ''cancelled'', ''canceled'', ''expired'']"

definition pppoe_reference :: "'dev portal_env \<Rightarrow> organization \<Rightarrow> string" where
  "pppoe_reference env org = ''PPP-'' @ map upper (take 6 (org_slug org)) @ ''-'' @ map upper (take 8 (pe_uuid_hex env))"

definition renewal_payment :: "datetime \<Rightarrow> int \<Rightarrow> organization \<Rightarrow> int \<Rightarrow> service_plan \<Rightarrow> string \<Rightarrow> payment" where
  "renewal_payment now i org uid p reference =
     (new_payment now i reference uid (plan_price p) OtherMethod None PayPending)
       \<lparr>pay_organization_id := Some (org_id org), pay_currency := plan_currency p, pay_reference_number := Some reference,
        pay_payment_date := None, pay_notes := Some (''PPPoE Subscription Renewal - '' @ plan_name p)\<rparr>"

definition renewal_redirect :: "string \<Rightarrow> string \<Rightarrow> string \<Rightarrow> string" where
  "renewal_redirect origin slug reference =
     (if origin \<noteq> [] then origin @ ''/payment/callback?payment_type=pppoe_renewal&org='' @ slug @ ''&reference='' @ reference else [])"

record renewal_response =
  rr_reference :: string
  rr_checkout_url :: string

definition renew_pppoe_subscription ::
    "'dev portal_env \<Rightarrow> treasury \<Rightarrow> datetime \<Rightarrow> organization \<Rightarrow> int \<Rightarrow> string \<Rightarrow> int \<Rightarrow> dbs \<Rightarrow> (exn + renewal_response) \<times> dbs" where
  "renew_pppoe_subscription env tr now org pid origin uid s =
     (case scalar_one_or_none (filter (\<lambda>p. plan_id p = pid \<and> plan_organization_id p = Some (org_id org)) (plans (cur s))) of
        Inl e \<Rightarrow> (Inl e, s)
      | Inr None \<Rightarrow> (Inl (Exn ''HTTPException'' ''404: Package not found''), s)
      | Inr (Some p) \<Rightarrow>
          if org_uuid org = [] then (Inl (Exn ''HTTPException'' ''400: Unable to resolve billing tenant for this organization''), s)
          else
            let reference = pppoe_reference env org;
                pay = renewal_payment now (payment_seq (cur s)) org uid p reference
            in if \<not> payment_row_ok pay (cur s)
               then (Inl (IntegrityError ''insert or update on table payments violates a constraint''), rollback s)
               else
                 let s1 = commit (on_db (insert_payment pay) s)
                 in case create_topup_intent tr (org_uuid org) (pe_str_decimal env (plan_price p)) (plan_currency p) reference
                        ''pppoe_renewal'' (''Renewal - '' @ plan_name p) (renewal_redirect origin (org_slug org) reference) ''Renew'' of
                      Inl e \<Rightarrow> (Inl e, s1)
                    | Inr None \<Rightarrow>
                        (Inl (Exn ''HTTPException'' ''502: Payment service is temporarily unavailable. Please try again.''),
                         commit (on_db (upd_payment (pay_id pay) (pay_status_update (\<lambda>_. PayFailed))) s1))
                    | Inr (Some ti) \<Rightarrow>
                        (Inr \<lparr>rr_reference = reference, rr_checkout_url = ti_checkout_url ti\<rparr>,
                         commit (on_db (upd_payment (pay_id pay) (pay_transaction_id_update (\<lambda>_. Some (ti_intent_id ti)))) s1)))"

section \<open>Confirmation\<close>

definition extended :: "datetime \<Rightarrow> service_plan \<Rightarrow> subscription \<Rightarrow> subscription" where
  "extended now p q = q\<lparr>sub_end_date := Some ((case sub_end_date q of Some e \<Rightarrow> e | None \<Rightarrow> now) + days (plan_validity_days p))\<rparr>"

fun payment_method_repr :: "PaymentMethod \<Rightarrow> string" where
  "payment_method_repr Mpesa = ''PaymentMethod.MPESA''"
| "payment_method_repr BankTransfer = ''PaymentMethod.BANK_TRANSFER''"
| "payment_method_repr Cash = ''PaymentMethod.CASH''"
| "payment_method_repr Card = ''PaymentMethod.CARD''"
| "payment_method_repr OtherMethod = ''PaymentMethod.OTHER''"

definition renewal_events ::
    "'dev portal_env \<Rightarrow> datetime \<Rightarrow> organization \<Rightarrow> payment \<Rightarrow> user \<Rightarrow> service_plan \<Rightarrow> subscription \<Rightarrow> dbs \<Rightarrow> dbs" where
  "renewal_events env now org pay u p q s =
     (let tenant = (if org_uuid org \<noteq> [] then Some (org_uuid org) else None);
          (_, s1) = record_event now ''payment.received''
            [(''payment_id'', Some (str_int (pay_id pay))), (''organization_id'', Some (str_int (org_id org))),
             (''organization_slug'', Some (org_slug org)), (''user_id'', Some (str_int (usr_id u))), (''plan_id'', Some (str_int (plan_id p))),
             (''plan_name'', Some (plan_name p)), (''amount'', Some (pe_str_decimal env (pay_amount pay))),
             (''currency'', Some (pay_currency pay)), (''payment_method'', Some (payment_method_repr (pay_payment_method pay))),
             (''payment_reference'', pay_reference_number pay), (''phone_number'', usr_phone u), (''email'', Some (usr_email u))]
            tenant (Some (str_int (pay_id pay))) s
      in snd (record_event now ''subscription.renewed''
           [(''tenant_id'', tenant), (''organization_id'', Some (str_int (org_id org))), (''organization_slug'', Some (org_slug org)),
            (''subscription_id'', Some (str_int (sub_id q))), (''user_id'', Some (str_int (usr_id u))), (''payment_id'', Some (str_int (pay_id pay))),
            (''customer_name'', Some (customer_name u)), (''phone'', usr_phone u), (''email'', Some (usr_email u)),
            (''plan_id'', Some (str_int (plan_id p))), (''package_name'', Some (plan_name p)), (''package_type'', Some ''pppoe''),
            (''subscriber_type'', Some ''pppoe''), (''expiry_at'', map_option (pe_isoformat env) (sub_end_date q)),
            (''amount'', Some (pe_str_decimal env (pay_amount pay))), (''currency'', Some (pay_currency pay))]
           tenant (Some (str_int (sub_id q))) s1))"

definition renewal_comment :: "'dev portal_env \<Rightarrow> service_plan \<Rightarrow> subscription \<Rightarrow> string" where
  \<comment> \<open>the date is the first ten characters of the ISO format\<close>
  "renewal_comment env p q = ''PPPoE subscription - '' @ plan_name p @ '' - Valid until '' @
     take 10 (pe_isoformat env (the (sub_end_date q)))"

text \<open>
  A subscription that is not active is replaced by a new one. Its router is never given, in a column
  that does not allow it to be missing, so that the insertion raises.
\<close>

definition process_pppoe_subscription_renewal ::
    "'dev portal_env \<Rightarrow> datetime \<Rightarrow> organization \<Rightarrow> payment \<Rightarrow> 'dev \<times> dbs \<Rightarrow> (exn + unit) \<times> 'dev \<times> dbs" where
  "process_pppoe_subscription_renewal env now org pay vs =
     (let (v, s) = vs
      in case tbl_get usr_id (pay_user_id pay) (users (cur s)) of
           None \<Rightarrow> (Inr (), v, s)
         | Some u \<Rightarrow>
             (case latest_pppoe_subscription org (usr_id u) (cur s) of
                None \<Rightarrow> (Inr (), v, s)
              | Some q \<Rightarrow>
                  (case tbl_get plan_id (sub_plan_id q) (plans (cur s)) of
                     None \<Rightarrow> (Inr (), v, s)
                   | Some p \<Rightarrow>
                       if sub_status q \<noteq> SubActive
                       then (Inl (IntegrityError ''null value in column router_id violates not-null constraint''), v, rollback s)
                       else
                         let q1 = extended now p q;
                             s1 = on_db (upd_subscription (sub_id q) (\<lambda>_. q1)) s;
                             v1 = sync_pppoe_user env org (usr_username u) (usr_hashed_password u) p (renewal_comment env p q1) (v, s1)
                         in (Inr (), v1, renewal_events env now org pay u p q1 s1))))"

record verify_answer =
  va_success :: bool
  va_status :: string

definition verify_pppoe_payment ::
    "'dev portal_env \<Rightarrow> treasury \<Rightarrow> datetime \<Rightarrow> organization \<Rightarrow> string \<Rightarrow> 'dev \<times> dbs \<Rightarrow> (exn + verify_answer) \<times> 'dev \<times> dbs" where
  "verify_pppoe_payment env tr now org reference vs =
     (let (v, s) = vs;
          refuse = (\<lambda>t s. (Inr \<lparr>va_success = False, va_status = t\<rparr>, v, s));
          accept = \<lparr>va_success = True, va_status = ''success''\<rparr>
      in case scalar_one_or_none (filter (\<lambda>p. pay_reference_number p = Some reference \<and> pay_organization_id p = Some (org_id org)) (payments (cur s))) of
           Inl e \<Rightarrow> (Inl e, v, s)
         | Inr None \<Rightarrow> refuse ''not_found'' s
         | Inr (Some pay) \<Rightarrow>
             if pay_status pay = PayCompleted then (Inr accept, v, s)
             else if \<not> truthy (pay_transaction_id pay) then refuse ''error'' s
             else
               (case (if org_uuid org \<noteq> [] then get_intent_status tr (the (pay_transaction_id pay)) else Inr None) of
                  Inl e \<Rightarrow> (Inl e, v, s)
                | Inr None \<Rightarrow> refuse ''error'' s
                | Inr (Some t) \<Rightarrow>
                    if t \<in> set FAILURE_STATUSES then refuse t (commit (on_db (upd_payment (pay_id pay) (pay_status_update (\<lambda>_. PayFailed))) s))
                    else if t \<notin> set SUCCESS_STATUSES then refuse ''pending'' s
                    else
                      let paid = pay\<lparr>pay_status := PayCompleted, pay_payment_date := Some now\<rparr>;
                          s1 = on_db (upd_payment (pay_id pay) (\<lambda>_. paid)) s
                      in case process_pppoe_subscription_renewal env now org paid (v, s1) of
                           (Inl e, vs1) \<Rightarrow> (Inl e, vs1)
                         | (Inr _, v1, s2) \<Rightarrow> (Inr accept, v1, commit s2)))"

definition pppoe_payment_webhook :: "webhook_payload \<Rightarrow> exn + string" where
  "pppoe_payment_webhook payload =
     (if payload = BadJson then Inl (Exn ''HTTPException'' ''400: Invalid JSON payload'')
      else if \<not> truthy (fst (webhook_fields payload)) then Inr ''No reference found''
      else Inl (Exn ''AttributeError'' ''payment_reference''))"

section \<open>What a confirmed renewal does\<close>

definition renewable :: "organization \<Rightarrow> int \<Rightarrow> user \<Rightarrow> subscription \<Rightarrow> service_plan \<Rightarrow> db \<Rightarrow> bool" where
  \<comment> \<open>the customer, the latest subscription and its plan, as the confirmation looks them up\<close>
  "renewable org uid u q p d \<longleftrightarrow> tbl_get usr_id uid (users d) = Some u \<and> latest_pppoe_subscription org uid d = Some q \<and>
     tbl_get plan_id (sub_plan_id q) (plans d) = Some p"

definition confirmable :: "treasury \<Rightarrow> organization \<Rightarrow> string \<Rightarrow> payment \<Rightarrow> db \<Rightarrow> bool" where
  \<comment> \<open>an open payment that the treasury reports as paid\<close>
  "confirmable tr org reference pay d \<longleftrightarrow>
     filter (\<lambda>p. pay_reference_number p = Some reference \<and> pay_organization_id p = Some (org_id org)) (payments d) = [pay] \<and>
     pay_status pay \<noteq> PayCompleted \<and> truthy (pay_transaction_id pay) \<and> org_uuid org \<noteq> [] \<and>
     (\<exists>t \<in> set SUCCESS_STATUSES. get_intent_status tr (the (pay_transaction_id pay)) = Inr (Some t))"

lemma renewal_events_effects:
  "cur (renewal_events env now org pay u p q s) =
     (cur s)\<lparr>outbox := outbox (cur (renewal_events env now org pay u p q s)), outbox_seq := outbox_seq (cur s) + 2\<rparr>"
  "saved (renewal_events env now org pay u p q s) = saved s"
  "\<exists>e1 e2. outbox (cur (renewal_events env now org pay u p q s)) = outbox (cur s) @ [e1, e2] \<and>
     ob_event_type e1 = ''payment.received'' \<and> ob_event_type e2 = ''subscription.renewed''"
  by (simp_all add: renewal_events_def record_event_def Let_def)

lemma confirmed_status:
  assumes "t \<in> set SUCCESS_STATUSES"
  shows "t \<notin> set FAILURE_STATUSES"
  using assms by (auto simp: SUCCESS_STATUSES_def FAILURE_STATUSES_def)

lemma verify_confirmed:
  assumes "confirmable tr org reference pay (cur s)" "pd = pay\<lparr>pay_status := PayCompleted, pay_payment_date := Some now\<rparr>"
  shows "verify_pppoe_payment env tr now org reference (v, s) =
    (case process_pppoe_subscription_renewal env now org pd (v, on_db (upd_payment (pay_id pay) (\<lambda>_. pd)) s) of
       (Inl e, vs1) \<Rightarrow> (Inl e, vs1)
     | (Inr _, v1, s2) \<Rightarrow> (Inr \<lparr>va_success = True, va_status = ''success''\<rparr>, v1, commit s2))"
  using assms(1) confirmed_status unfolding assms(2) by (auto simp: confirmable_def verify_pppoe_payment_def Let_def)

lemma process_renewal_active:
  assumes "renewable org (pay_user_id pay) u q p (cur s)" "sub_status q = SubActive"
  shows "\<exists>v'. process_pppoe_subscription_renewal env now org pay (v, s) =
    (Inr (), v', renewal_events env now org pay u p (extended now p q) (on_db (upd_subscription (sub_id q) (\<lambda>_. extended now p q)) s))"
  using assms by (auto simp: renewable_def process_pppoe_subscription_renewal_def Let_def)

lemma process_renewal_ended:
  assumes "renewable org (pay_user_id pay) u q p (cur s)" "sub_status q \<noteq> SubActive"
  shows "process_pppoe_subscription_renewal env now org pay (v, s) =
    (Inl (IntegrityError ''null value in column router_id violates not-null constraint''), v, rollback s)"
  using assms by (auto simp: renewable_def process_pppoe_subscription_renewal_def Let_def)

lemma renewable_payments: "renewable org uid u q p (upd_payment i f d) = renewable org uid u q p d"
  by (simp add: renewable_def latest_pppoe_subscription_def row_defs)

definition confirmed_state :: "datetime \<Rightarrow> payment \<Rightarrow> subscription \<Rightarrow> service_plan \<Rightarrow> db \<Rightarrow> db \<Rightarrow> bool" where
  \<comment> \<open>what confirming a payment changes: the payment, the subscription, and two events\<close>
  "confirmed_state now pay q p d d' \<longleftrightarrow>
     (\<exists>e1 e2. ob_event_type e1 = ''payment.received'' \<and> ob_event_type e2 = ''subscription.renewed'' \<and>
       d' = d\<lparr>payments := tbl_upd pay_id (pay_id pay) (\<lambda>_. pay\<lparr>pay_status := PayCompleted, pay_payment_date := Some now\<rparr>) (payments d),
              subscriptions := tbl_upd sub_id (sub_id q) (\<lambda>_. extended now p q) (subscriptions d),
              outbox := outbox d @ [e1, e2], outbox_seq := outbox_seq d + 2\<rparr>)"

lemma verify_active:
  assumes "confirmable tr org reference pay (cur s)" "renewable org (pay_user_id pay) u q p (cur s)" "sub_status q = SubActive"
  shows "\<exists>v' s'. verify_pppoe_payment env tr now org reference (v, s) = (Inr \<lparr>va_success = True, va_status = ''success''\<rparr>, v', s')
    \<and> clean s' \<and> confirmed_state now pay q p (cur s) (saved s')"
proof -
  let ?pd = "pay\<lparr>pay_status := PayCompleted, pay_payment_date := Some now\<rparr>"
  let ?s1 = "on_db (upd_payment (pay_id pay) (\<lambda>_. ?pd)) s"
  let ?s2 = "on_db (upd_subscription (sub_id q) (\<lambda>_. extended now p q)) ?s1"
  let ?s3 = "renewal_events env now org ?pd u p (extended now p q) ?s2"
  have "renewable org (pay_user_id ?pd) u q p (cur ?s1)" using assms(2) by (simp add: renewable_payments)
  from process_renewal_active [OF this assms(3), of env now v] obtain v'
    where "process_pppoe_subscription_renewal env now org ?pd (v, ?s1) = (Inr (), v', ?s3)" by blast
  then have "verify_pppoe_payment env tr now org reference (v, s) = (Inr \<lparr>va_success = True, va_status = ''success''\<rparr>, v', commit ?s3)"
    by (simp add: verify_confirmed [OF assms(1) refl])
  moreover obtain e1 e2 where e: "outbox (cur ?s3) = outbox (cur ?s2) @ [e1, e2]" "ob_event_type e1 = ''payment.received''" "ob_event_type e2 = ''subscription.renewed''"
    using renewal_events_effects(3) by blast
  have "cur ?s3 = (cur ?s2)\<lparr>outbox := outbox (cur ?s2) @ [e1, e2], outbox_seq := outbox_seq (cur ?s2) + 2\<rparr>"
    by (subst renewal_events_effects(1)) (simp only: e(1))
  then have "confirmed_state now pay q p (cur s) (saved (commit ?s3))"
    unfolding confirmed_state_def using e(2,3) by (intro exI [of _ e1] exI [of _ e2]) (simp add: row_defs)
  moreover have "clean (commit ?s3)" by (simp add: clean_def)
  ultimately show ?thesis by blast
qed

lemma confirmed_payment_extends:
  assumes "confirmable tr org reference pay (cur s)" "renewable org (pay_user_id pay) u q p (cur s)" "sub_status q = SubActive"
    "sub_end_date q = Some e" "uniq pay_id (payments (cur s))"
  shows "\<exists>v' s'. verify_pppoe_payment env tr now org reference (v, s) = (Inr \<lparr>va_success = True, va_status = ''success''\<rparr>, v', s')
    \<and> confirmed_state now pay q p (cur s) (saved s') \<and> sub_end_date (extended now p q) = Some (e + days (plan_validity_days p))
    \<and> (\<forall>later. verify_pppoe_payment env tr later org reference (v', s') = (Inr \<lparr>va_success = True, va_status = ''success''\<rparr>, v', s'))"
proof -
  let ?pd = "pay\<lparr>pay_status := PayCompleted, pay_payment_date := Some now\<rparr>"
  let ?P = "\<lambda>p. pay_reference_number p = Some reference \<and> pay_organization_id p = Some (org_id org)"
  obtain v' s' where s': "verify_pppoe_payment env tr now org reference (v, s) = (Inr \<lparr>va_success = True, va_status = ''success''\<rparr>, v', s')"
      "clean s'" "confirmed_state now pay q p (cur s) (saved s')"
    using verify_active [OF assms(1-3), of env now v] by blast
  have f: "filter ?P (payments (cur s)) = [pay]" using assms(1) by (simp add: confirmable_def)
  have "payments (cur s') = tbl_upd pay_id (pay_id pay) (\<lambda>_. ?pd) (payments (cur s))"
    using s'(2,3) by (auto simp: clean_def confirmed_state_def)
  then have "filter ?P (payments (cur s')) = [?pd]"
    using filter_tbl_upd_one [OF f assms(5), of ?pd] filter_single_mem [OF f] by simp
  then have "verify_pppoe_payment env tr later org reference (v', s') = (Inr \<lparr>va_success = True, va_status = ''success''\<rparr>, v', s')" for later
    by (simp add: verify_pppoe_payment_def)
  with s' assms(4) show ?thesis by (auto simp: extended_def)
qed

text \<open>
  C24. A confirmed renewal extends the subscription once. When the answer of the treasury about an open renewal
  payment has the field \<open>status\<close>, as the documentation of its client says, with a value that stands for
  paid, and the customer's latest subscription is active, verifying the reference
  answers with success; the payment is completed, exactly that subscription is extended by
  the days of its plan, counted from its old end, the two events are recorded with it, and
  nothing else changes. Verifying the same reference again, at any later time, answers with
  success and changes neither the database nor the router. When the answer has no field of that name, only
  the capitalised one of which the captive portal warns, the payment stays pending, whatever has been paid, and
  nothing changes.
\<close>

theorem pppoe_payment_extends_once:
  assumes "filter (\<lambda>p. pay_reference_number p = Some reference \<and> pay_organization_id p = Some (org_id org)) (payments (cur s)) = [pay]"
    "pay_status pay \<noteq> PayCompleted" "truthy (pay_transaction_id pay)" "org_uuid org \<noteq> []" "uniq pay_id (payments (cur s))"
    "tr_configured tr" "tr_get_status tr (the (pay_transaction_id pay)) = Inr intent"
    "renewable org (pay_user_id pay) u q p (cur s)" "sub_status q = SubActive" "sub_end_date q = Some e"
  shows "(map lower (dict_get_or intent ''status'' []) \<in> set SUCCESS_STATUSES \<longrightarrow>
      (\<exists>v' s'. verify_pppoe_payment env tr now org reference (v, s) = (Inr \<lparr>va_success = True, va_status = ''success''\<rparr>, v', s')
        \<and> confirmed_state now pay q p (cur s) (saved s') \<and> sub_end_date (extended now p q) = Some (e + days (plan_validity_days p))
        \<and> (\<forall>later. verify_pppoe_payment env tr later org reference (v', s') = (Inr \<lparr>va_success = True, va_status = ''success''\<rparr>, v', s'))))
    \<and> (dict_get intent ''status'' = None \<longrightarrow>
        verify_pppoe_payment env tr now org reference (v, s) = (Inr \<lparr>va_success = False, va_status = ''pending''\<rparr>, v, s))"
proof (intro conjI impI)
  have st: "get_intent_status tr (the (pay_transaction_id pay)) = Inr (Some (map lower (dict_get_or intent ''status'' [])))"
    using assms(6,7) by (simp add: get_intent_status_def)
  {
    assume "map lower (dict_get_or intent ''status'' []) \<in> set SUCCESS_STATUSES"
    with st assms(1-4) have "confirmable tr org reference pay (cur s)" by (auto simp: confirmable_def)
    from confirmed_payment_extends [OF this assms(8,9,10,5)]
    show "\<exists>v' s'. verify_pppoe_payment env tr now org reference (v, s) = (Inr \<lparr>va_success = True, va_status = ''success''\<rparr>, v', s')
        \<and> confirmed_state now pay q p (cur s) (saved s') \<and> sub_end_date (extended now p q) = Some (e + days (plan_validity_days p))
        \<and> (\<forall>later. verify_pppoe_payment env tr later org reference (v', s') = (Inr \<lparr>va_success = True, va_status = ''success''\<rparr>, v', s'))" .
  }
  assume "dict_get intent ''status'' = None"
  then have "get_intent_status tr (the (pay_transaction_id pay)) = Inr (Some [])" using st by (simp add: dict_get_or_def dict_get_def)
  then show "verify_pppoe_payment env tr now org reference (v, s) = (Inr \<lparr>va_success = False, va_status = ''pending''\<rparr>, v, s)"
    using assms(1-4) by (simp add: verify_pppoe_payment_def SUCCESS_STATUSES_def FAILURE_STATUSES_def)
qed

text \<open>
   A customer whose subscription has ended cannot renew it. When the latest subscription is not
  active, confirming a payment that the treasury reports as paid raises: the replacement is
  inserted without a router. The transaction is rolled back, so that the payment stays open
  and no access is given although the customer has paid.
\<close>

theorem ended_subscription_cannot_be_renewed:
  assumes "confirmable tr org reference pay (cur s)" "renewable org (pay_user_id pay) u q p (cur s)" "sub_status q \<noteq> SubActive" "clean s"
  shows "verify_pppoe_payment env tr now org reference (v, s) =
    (Inl (IntegrityError ''null value in column router_id violates not-null constraint''), v, s)"
proof -
  let ?pd = "pay\<lparr>pay_status := PayCompleted, pay_payment_date := Some now\<rparr>"
  have r: "renewable org (pay_user_id ?pd) u q p (cur (on_db (upd_payment (pay_id pay) (\<lambda>_. ?pd)) s))"
    using assms(2) by (simp add: renewable_payments)
  have "rollback (on_db (upd_payment (pay_id pay) (\<lambda>_. ?pd)) s) = s" using assms(4) by (intro session_eqI) (simp_all add: clean_def)
  then show ?thesis by (simp add: verify_confirmed [OF assms(1) refl] process_renewal_ended [OF r assms(3)])
qed

lemma renew_success:
  assumes "renew_pppoe_subscription env tr now org pid origin uid s = (Inr r, s1)"
  shows "\<exists>p i. p \<in> set (plans (cur s)) \<and> plan_id p = pid \<and> org_uuid org \<noteq> [] \<and> rr_reference r = pppoe_reference env org \<and> truthy (Some i) \<and>
    cur s1 = (cur s)\<lparr>payments := tbl_upd pay_id (payment_seq (cur s)) (pay_transaction_id_update (\<lambda>_. Some i))
        (payments (cur s) @ [renewal_payment now (payment_seq (cur s)) org uid p (pppoe_reference env org)]),
      payment_seq := payment_seq (cur s) + 1\<rparr>"
proof -
  obtain p where p: "filter (\<lambda>p. plan_id p = pid \<and> plan_organization_id p = Some (org_id org)) (plans (cur s)) = [p]"
    using assms by (auto simp: renew_pppoe_subscription_def scalar_one_or_none_Some split: sum.splits option.splits)
  let ?pay = "renewal_payment now (payment_seq (cur s)) org uid p (pppoe_reference env org)"
  have pd: "pay_id ?pay = payment_seq (cur s)" by (simp add: renewal_payment_def new_payment_def)
  obtain ti where ti: "create_topup_intent tr (org_uuid org) (pe_str_decimal env (plan_price p)) (plan_currency p) (pppoe_reference env org)
      ''pppoe_renewal'' (''Renewal - '' @ plan_name p) (renewal_redirect origin (org_slug org) (pppoe_reference env org)) ''Renew'' = Inr (Some ti)"
    and r: "rr_reference r = pppoe_reference env org" "org_uuid org \<noteq> []"
    and s1: "s1 = commit (on_db (upd_payment (pay_id ?pay) (pay_transaction_id_update (\<lambda>_. Some (ti_intent_id ti)))) (commit (on_db (insert_payment ?pay) s)))"
    using assms unfolding renew_pppoe_subscription_def p by (auto simp: Let_def split: if_splits sum.splits option.splits)
  have "truthy (Some (ti_intent_id ti))"
    using ti by (auto simp: create_topup_intent_def Let_def truthy_def split: if_splits sum.splits option.splits)
  then show ?thesis using r filter_single_mem [OF p] unfolding s1 pd
    by (intro exI [of _ p] exI [of _ "ti_intent_id ti"]) (simp add: insert_payment_def row_defs)
qed

lemma renewal_confirmable:
  assumes "renew_pppoe_subscription env tr now org (plan_id p) origin uid s = (Inr r, s1)" "p \<in> set (plans (cur s))" "uniq plan_id (plans (cur s))"
    "\<forall>y \<in> set (payments (cur s)). pay_id y < payment_seq (cur s) \<and> pay_reference_number y \<noteq> Some (rr_reference r)"
    "\<forall>i. \<exists>t \<in> set SUCCESS_STATUSES. get_intent_status tr i = Inr (Some t)"
  shows "\<exists>pay. confirmable tr org (rr_reference r) pay (cur s1) \<and> pay_amount pay = plan_price p \<and> pay_user_id pay = uid
    \<and> cur s1 = (cur s)\<lparr>payments := payments (cur s) @ [pay], payment_seq := payment_seq (cur s) + 1\<rparr>"
proof -
  obtain p' i where r: "p' \<in> set (plans (cur s))" "plan_id p' = plan_id p" "org_uuid org \<noteq> []" "rr_reference r = pppoe_reference env org"
      "truthy (Some i)" and c: "cur s1 = (cur s)\<lparr>payments := tbl_upd pay_id (payment_seq (cur s)) (pay_transaction_id_update (\<lambda>_. Some i))
        (payments (cur s) @ [renewal_payment now (payment_seq (cur s)) org uid p' (pppoe_reference env org)]), payment_seq := payment_seq (cur s) + 1\<rparr>"
    using renew_success [OF assms(1)] by blast
  let ?pay = "(renewal_payment now (payment_seq (cur s)) org uid p' (pppoe_reference env org))\<lparr>pay_transaction_id := Some i\<rparr>"
  have p: "p' = p" using r(1,2) assms(2,3) by (auto simp: uniq_def distinct_map inj_on_def)
  have "tbl_upd pay_id (payment_seq (cur s)) (pay_transaction_id_update (\<lambda>_. Some i)) (payments (cur s)) = payments (cur s)"
    using assms(4) by (auto simp: tbl_upd_def intro!: map_idI)
  then have c1: "cur s1 = (cur s)\<lparr>payments := payments (cur s) @ [?pay], payment_seq := payment_seq (cur s) + 1\<rparr>"
    unfolding c by (simp add: tbl_upd_def renewal_payment_def new_payment_def)
  have "filter (\<lambda>y. pay_reference_number y = Some (rr_reference r) \<and> pay_organization_id y = Some (org_id org)) (payments (cur s1)) = [?pay]"
    using assms(4) r(4) by (auto simp: c1 renewal_payment_def new_payment_def filter_empty_conv)
  then have "confirmable tr org (rr_reference r) ?pay (cur s1)"
    using r(3,5) assms(5) by (simp add: confirmable_def renewal_payment_def new_payment_def)
  moreover have "pay_amount ?pay = plan_price p" "pay_user_id ?pay = uid" by (simp_all add: p renewal_payment_def new_payment_def)
  ultimately show ?thesis using c1 by blast
qed

text \<open>
   The plan the customer chooses and pays for is not the plan that is renewed. Renewing with any
  plan of the tenant opens a payment over its price; confirming that payment extends the
  latest subscription by the days of the plan it already has, and leaves its plan as it was.
  So the cheapest plan buys another period of the most expensive one.
\<close>

theorem renewal_ignores_chosen_plan:
  assumes "renew_pppoe_subscription env tr now org (plan_id p) origin uid s = (Inr r, s1)" "p \<in> set (plans (cur s))" "uniq plan_id (plans (cur s))"
    "\<forall>y \<in> set (payments (cur s)). pay_id y < payment_seq (cur s) \<and> pay_reference_number y \<noteq> Some (rr_reference r)"
    "\<forall>i. \<exists>t \<in> set SUCCESS_STATUSES. get_intent_status tr i = Inr (Some t)"
    "renewable org uid u q p0 (cur s)" "sub_status q = SubActive"
  shows "\<exists>v' s' pay. verify_pppoe_payment env tr later org (rr_reference r) (v, s1) = (Inr \<lparr>va_success = True, va_status = ''success''\<rparr>, v', s')
    \<and> pay \<in> set (payments (saved s')) \<and> pay_status pay = PayCompleted \<and> pay_amount pay = plan_price p
    \<and> subscriptions (saved s') = tbl_upd sub_id (sub_id q) (\<lambda>_. extended later p0 q) (subscriptions (cur s)) \<and> sub_plan_id (extended later p0 q) = plan_id p0"
proof -
  obtain pay where pay: "confirmable tr org (rr_reference r) pay (cur s1)" "pay_amount pay = plan_price p" "pay_user_id pay = uid"
      "cur s1 = (cur s)\<lparr>payments := payments (cur s) @ [pay], payment_seq := payment_seq (cur s) + 1\<rparr>"
    using renewal_confirmable [OF assms(1-5)] by blast
  have "renewable org (pay_user_id pay) u q p0 (cur s1)"
    using assms(6) by (simp add: pay(3,4) renewable_def latest_pppoe_subscription_def)
  from verify_active [OF pay(1) this assms(7), of env later v] obtain v' s'
    where v: "verify_pppoe_payment env tr later org (rr_reference r) (v, s1) = (Inr \<lparr>va_success = True, va_status = ''success''\<rparr>, v', s')"
      and c: "confirmed_state later pay q p0 (cur s1) (saved s')" by blast
  let ?pd = "pay\<lparr>pay_status := PayCompleted, pay_payment_date := Some later\<rparr>"
  have "payments (saved s') = tbl_upd pay_id (pay_id pay) (\<lambda>_. ?pd) (payments (cur s) @ [pay])"
      "subscriptions (saved s') = tbl_upd sub_id (sub_id q) (\<lambda>_. extended later p0 q) (subscriptions (cur s))"
    using c by (auto simp: confirmed_state_def pay(4))
  moreover from this(1) have "?pd \<in> set (payments (saved s'))" by (simp add: tbl_upd_def)
  moreover have "sub_plan_id (extended later p0 q) = plan_id p0" using assms(6) by (auto simp: extended_def renewable_def)
  ultimately show ?thesis using v pay(2) by (intro exI [of _ v'] exI [of _ s'] exI [of _ ?pd]) simp
qed

section \<open>The theorems at a concrete input\<close>

definition paying_treasury :: treasury where
  "paying_treasury = \<lparr>tr_configured = True, tr_create_payment_intent = (\<lambda>_. Inr [(''intent_id'', ''i-9'')]),
     tr_get_status = (\<lambda>_. Inr [(''status'', ''PAID'')]), tr_pay_page_url = ''https://pay.example''\<rparr>"

definition open_renewal :: payment where
  "open_renewal = (renewal_payment 0 1 org0 1 plan0 ''PPP-NET-1'')\<lparr>pay_transaction_id := Some ''i-1''\<rparr>"

definition pppoe_db :: db where
  "pppoe_db = empty_db\<lparr>users := [user0], organizations := [org0], plans := [plan0, plan0\<lparr>plan_id := 2, plan_price := 1\<rparr>],
     subscriptions := [sub0], payments := [open_renewal], payment_seq := 2, subscription_seq := 2\<rparr>"

lemma pppoe_db_simps:
  "users pppoe_db = [user0]" "plans pppoe_db = [plan0, plan0\<lparr>plan_id := 2, plan_price := 1\<rparr>]" "subscriptions pppoe_db = [sub0]"
  "payments pppoe_db = [open_renewal]" "payment_seq pppoe_db = 2" "organizations pppoe_db = [org0]"
  by (simp_all add: pppoe_db_def)

lemma paying: "get_intent_status paying_treasury i = Inr (Some ''paid'')"
proof -
  have "map lower (dict_get_or [(''status'', ''PAID'')] ''status'' []) = ''paid''" by code_simp
  then show ?thesis by (simp add: get_intent_status_def paying_treasury_def)
qed

lemma pppoe_confirmable: "payments d = [open_renewal] \<Longrightarrow> confirmable paying_treasury org0 ''PPP-NET-1'' open_renewal d"
  using paying by (simp add: confirmable_def open_renewal_def renewal_payment_def new_payment_def org0_def truthy_def SUCCESS_STATUSES_def)

lemma pppoe_renewable:
  "users d = [user0] \<Longrightarrow> plans d = plans pppoe_db \<Longrightarrow> subscriptions d = [sub0\<lparr>sub_status := t\<rparr>]
   \<Longrightarrow> renewable org0 1 user0 (sub0\<lparr>sub_status := t\<rparr>) plan0 d"
  by (simp add: renewable_def pppoe_db_simps latest_pppoe_subscription_def one_of_def table_simps user0_def sub0_def plan0_def org0_def)

lemma sub0_active: "sub0\<lparr>sub_status := SubActive\<rparr> = sub0" "sub_status sub0 = SubActive" "sub_end_date sub0 = Some 1000000"
  by (simp_all add: sub0_def)

lemma open_renewal_user: "pay_user_id open_renewal = 1"
  by (simp add: open_renewal_def renewal_payment_def new_payment_def)

definition capitalised_treasury :: treasury where
  \<comment> \<open>answers with the field names of the Go structure\<close>
  "capitalised_treasury = paying_treasury\<lparr>tr_get_status := \<lambda>i. Inr [(''Status'', ''succeeded'')]\<rparr>"

theorem pppoe_payment_extends_once_witness:
  "(\<exists>v' s'. verify_pppoe_payment portal_env0 paying_treasury 7 org0 ''PPP-NET-1'' ((), fresh pppoe_db)
      = (Inr \<lparr>va_success = True, va_status = ''success''\<rparr>, v', s')
    \<and> verify_pppoe_payment portal_env0 paying_treasury 8 org0 ''PPP-NET-1'' (v', s') = (Inr \<lparr>va_success = True, va_status = ''success''\<rparr>, v', s'))
   \<and> verify_pppoe_payment portal_env0 capitalised_treasury 7 org0 ''PPP-NET-1'' ((), fresh pppoe_db)
      = (Inr \<lparr>va_success = False, va_status = ''pending''\<rparr>, (), fresh pppoe_db)"
proof -
  have r: "renewable org0 (pay_user_id open_renewal) user0 sub0 plan0 (cur (fresh pppoe_db))"
    using pppoe_renewable [of pppoe_db SubActive] by (simp add: pppoe_db_simps sub0_active open_renewal_user)
  have pay: "filter (\<lambda>p. pay_reference_number p = Some ''PPP-NET-1'' \<and> pay_organization_id p = Some (org_id org0)) (payments (cur (fresh pppoe_db))) = [open_renewal]"
    "pay_status open_renewal \<noteq> PayCompleted" "truthy (pay_transaction_id open_renewal)" "org_uuid org0 \<noteq> []"
    using pppoe_confirmable [of pppoe_db] by (simp_all add: pppoe_db_simps confirmable_def)
  have u: "uniq pay_id (payments (cur (fresh pppoe_db)))" by (simp add: pppoe_db_simps uniq_def)
  have tr: "tr_configured paying_treasury" "tr_get_status paying_treasury i = Inr [(''status'', ''PAID'')]" for i by (simp_all add: paying_treasury_def)
  have paid: "map lower (dict_get_or [(''status'', ''PAID'')] ''status'' []) \<in> set SUCCESS_STATUSES" by code_simp
  have ct: "tr_configured capitalised_treasury" "tr_get_status capitalised_treasury i = Inr [(''Status'', ''succeeded'')]" for i
    using tr(1) by (simp_all add: capitalised_treasury_def)
  have none: "dict_get [(''Status'', ''succeeded'')] ''status'' = None" by code_simp
  show ?thesis
    using pppoe_payment_extends_once [OF pay u tr r sub0_active(2,3), of portal_env0 7 "()"] paid
      pppoe_payment_extends_once [OF pay u ct r sub0_active(2,3), of portal_env0 7 "()"] none by blast
qed

theorem ended_subscription_cannot_be_renewed_witness:
  "fst (verify_pppoe_payment portal_env0 paying_treasury 7 org0 ''PPP-NET-1'' ((), fresh (pppoe_db\<lparr>subscriptions := [sub0\<lparr>sub_status := SubExpired\<rparr>]\<rparr>)))
    = Inl (IntegrityError ''null value in column router_id violates not-null constraint'')"
proof -
  let ?d = "pppoe_db\<lparr>subscriptions := [sub0\<lparr>sub_status := SubExpired\<rparr>]\<rparr>"
  have "renewable org0 (pay_user_id open_renewal) user0 (sub0\<lparr>sub_status := SubExpired\<rparr>) plan0 (cur (fresh ?d))"
    using pppoe_renewable [of ?d SubExpired] by (simp add: pppoe_db_simps open_renewal_user)
  from ended_subscription_cannot_be_renewed [OF pppoe_confirmable this, of portal_env0 7 "()"] show ?thesis
    by (simp add: pppoe_db_simps clean_def)
qed

theorem renewal_ignores_chosen_plan_witness:
  "\<exists>r s1 v' s'. renew_pppoe_subscription portal_env0 paying_treasury 3 org0 2 [] 1 (fresh pppoe_db) = (Inr r, s1)
    \<and> verify_pppoe_payment portal_env0 paying_treasury 7 org0 (rr_reference r) ((), s1) = (Inr \<lparr>va_success = True, va_status = ''success''\<rparr>, v', s')
    \<and> subscriptions (saved s') = [extended 7 plan0 sub0]"
proof -
  let ?p = "plan0\<lparr>plan_id := 2, plan_price := 1\<rparr>"
  obtain r0 s1 where run: "renew_pppoe_subscription portal_env0 paying_treasury 3 org0 2 [] 1 (fresh pppoe_db) = (r0, s1)" by (metis surj_pair)
  have "(case fst (renew_pppoe_subscription portal_env0 paying_treasury 3 org0 2 [] 1 (fresh pppoe_db)) of Inl _ \<Rightarrow> [] | Inr r \<Rightarrow> rr_reference r) = pppoe_reference portal_env0 org0"
    by code_simp
  moreover have ne: "pppoe_reference portal_env0 org0 \<noteq> []" "pppoe_reference portal_env0 org0 \<noteq> ''PPP-NET-1''" by code_simp+
  ultimately obtain r where r: "r0 = Inr r" "rr_reference r = pppoe_reference portal_env0 org0" using run by (cases r0) simp_all
  have run2: "renew_pppoe_subscription portal_env0 paying_treasury 3 org0 (plan_id ?p) [] 1 (fresh pppoe_db) = (Inr r, s1)" using run r(1) by simp
  have "renewable org0 1 user0 sub0 plan0 (cur (fresh pppoe_db))" using pppoe_renewable [of pppoe_db SubActive] by (simp add: pppoe_db_simps sub0_active)
  moreover have "\<forall>y \<in> set (payments (cur (fresh pppoe_db))). pay_id y < payment_seq (cur (fresh pppoe_db)) \<and> pay_reference_number y \<noteq> Some (rr_reference r)"
    using ne(2) r(2) by (auto simp: pppoe_db_simps open_renewal_def renewal_payment_def new_payment_def)
  moreover have "\<forall>i. \<exists>t \<in> set SUCCESS_STATUSES. get_intent_status paying_treasury i = Inr (Some t)" using paying by (simp add: SUCCESS_STATUSES_def)
  moreover have "?p \<in> set (plans (cur (fresh pppoe_db)))" "uniq plan_id (plans (cur (fresh pppoe_db)))" by (simp_all add: pppoe_db_simps uniq_def plan0_def)
  ultimately show ?thesis
    using renewal_ignores_chosen_plan [OF run2 _ _ _ _ _ sub0_active(2), of user0 plan0 7 "()"] run r(1)
    by (auto simp: pppoe_db_simps tbl_upd_def)
qed

end
