(* ===== verification/Plan_Service.thy ===== *)
theory Plan_Service
  imports Pppoe_Portal
begin

text \<open>
  The administration of service plans (\<open>src/app/modules/plans/service.py\<close>): listing, creation, changes,
  withdrawal, features and price tiers; and what the withdrawal of a plan means for its sale in the two
  portals.
\<close>

section \<open>Creating and changing\<close>

record plan_create =
  pc_name :: "string"
  pc_description :: "string option"
  pc_plan_type :: "PlanType"
  pc_price :: "rat"
  pc_currency :: "string"
  pc_billing_cycle :: "BillingCycle"
  pc_download_speed :: "int"
  pc_upload_speed :: "int"
  pc_data_limit :: "int"
  pc_time_limit :: "int"
  pc_validity_days :: "int"
  pc_duration_minutes :: "int option"
  pc_fup_enabled :: "bool"
  pc_fup_threshold :: "int option"
  pc_fup_download_speed :: "int option"
  pc_fup_upload_speed :: "int option"
  pc_concurrent_sessions :: "int"
  pc_auto_renewal :: "bool"
  pc_is_popular :: "bool"
  pc_sort_order :: "int"
  pc_enable_burst :: "bool"
  pc_burst_download :: "int option"
  pc_burst_upload :: "int option"
  pc_burst_threshold :: "int option"
  pc_burst_time :: "int option"
  pc_enable_schedule :: "bool"
  pc_schedule_start_time :: "string option"
  pc_schedule_end_time :: "string option"
  pc_config :: "string option"
  pc_notes :: "string option"

record plan_update =
  pu_name :: "string option"
  pu_description :: "string option"
  pu_plan_type :: "PlanType option"
  pu_price :: "rat option"
  pu_currency :: "string option"
  pu_billing_cycle :: "BillingCycle option"
  pu_download_speed :: "int option"
  pu_upload_speed :: "int option"
  pu_data_limit :: "int option"
  pu_time_limit :: "int option"
  pu_validity_days :: "int option"
  pu_duration_minutes :: "int option"
  pu_fup_enabled :: "bool option"
  pu_fup_threshold :: "int option"
  pu_fup_download_speed :: "int option"
  pu_fup_upload_speed :: "int option"
  pu_concurrent_sessions :: "int option"
  pu_auto_renewal :: "bool option"
  pu_is_popular :: "bool option"
  pu_sort_order :: "int option"
  pu_enable_burst :: "bool option"
  pu_burst_download :: "int option"
  pu_burst_upload :: "int option"
  pu_burst_threshold :: "int option"
  pu_burst_time :: "int option"
  pu_enable_schedule :: "bool option"
  pu_schedule_start_time :: "string option"
  pu_schedule_end_time :: "string option"
  pu_config :: "string option"
  pu_notes :: "string option"

definition keep :: "'a option \<Rightarrow> 'a \<Rightarrow> 'a" where
  "keep x y = (case x of None \<Rightarrow> y | Some z \<Rightarrow> z)"

definition or_else :: "'a option \<Rightarrow> 'a option \<Rightarrow> 'a option" where
  "or_else x y = (if x = None then y else x)"

definition int4_opt :: "int option \<Rightarrow> bool" where
  "int4_opt x \<longleftrightarrow> (case x of None \<Rightarrow> True | Some n \<Rightarrow> int4 n)"

definition plan_row_ok :: "service_plan \<Rightarrow> bool" where
  \<comment> \<open>what the columns can hold\<close>
  "plan_row_ok p \<longleftrightarrow> length (plan_name p) \<le> 100 \<and> length (plan_currency p) \<le> 3 \<and> \<bar>plan_price p\<bar> < 10 ^ 8 \<and>
     list_all int4 [plan_download_speed p, plan_upload_speed p, plan_data_limit p, plan_time_limit p, plan_validity_days p,
       plan_concurrent_sessions p, plan_sort_order p] \<and>
     list_all int4_opt [plan_duration_minutes p, plan_fup_threshold p, plan_fup_download_speed p, plan_fup_upload_speed p,
       plan_burst_download p, plan_burst_upload p, plan_burst_threshold p, plan_burst_time p] \<and>
     length (or_str (plan_schedule_start_time p) []) \<le> 5 \<and> length (or_str (plan_schedule_end_time p) []) \<le> 5"

abbreviation PlanRowError :: exn where
  "PlanRowError \<equiv> Exn ''DBAPIError'' ''value out of range of a column''"

definition new_plan :: "datetime \<Rightarrow> int \<Rightarrow> int option \<Rightarrow> plan_create \<Rightarrow> service_plan" where
  "new_plan now i org q =
     \<lparr>plan_id = i, plan_organization_id = org, plan_name = pc_name q, plan_description = pc_description q, plan_type = pc_plan_type q,
      plan_status = PlanActive, plan_price = numeric2 (pc_price q), plan_currency = pc_currency q, plan_billing_cycle = pc_billing_cycle q,
      plan_download_speed = pc_download_speed q, plan_upload_speed = pc_upload_speed q, plan_data_limit = pc_data_limit q,
      plan_data_limit_type = ''total'', plan_time_limit = pc_time_limit q, plan_time_limit_type = ''total'', plan_validity_days = pc_validity_days q,
      plan_duration_minutes = pc_duration_minutes q, plan_fup_enabled = pc_fup_enabled q, plan_fup_threshold = pc_fup_threshold q,
      plan_fup_download_speed = pc_fup_download_speed q, plan_fup_upload_speed = pc_fup_upload_speed q,
      plan_concurrent_sessions = pc_concurrent_sessions q, plan_auto_renewal = pc_auto_renewal q, plan_is_popular = pc_is_popular q,
      plan_sort_order = pc_sort_order q, plan_is_template = False, plan_template_category = None, plan_enable_burst = pc_enable_burst q,
      plan_burst_download = pc_burst_download q, plan_burst_upload = pc_burst_upload q, plan_burst_threshold = pc_burst_threshold q,
      plan_burst_time = pc_burst_time q, plan_enable_schedule = pc_enable_schedule q, plan_schedule_start_time = pc_schedule_start_time q,
      plan_schedule_end_time = pc_schedule_end_time q, plan_config = pc_config q, plan_notes = pc_notes q, plan_created_at = now\<rparr>"

definition create_plan :: "datetime \<Rightarrow> int option \<Rightarrow> plan_create \<Rightarrow> dbs \<Rightarrow> (exn + service_plan) \<times> dbs" where
  "create_plan now org q s =
     (let p = new_plan now (plan_seq (catalogue (cur s))) org q
      in if \<not> plan_row_ok p then (Inl PlanRowError, rollback s)
         else (Inr p, commit (on_db (\<lambda>d. d\<lparr>plans := plans d @ [p], catalogue := (catalogue d)\<lparr>plan_seq := plan_seq (catalogue d) + 1\<rparr>\<rparr>) s)))"

definition changed_plan :: "plan_update \<Rightarrow> service_plan \<Rightarrow> service_plan" where
  \<comment> \<open>a field that is absent or nothing stays as it is\<close>
  "changed_plan u p =
     p\<lparr>plan_name := keep (pu_name u) (plan_name p), plan_description := or_else (pu_description u) (plan_description p),
       plan_type := keep (pu_plan_type u) (plan_type p), plan_price := keep (map_option numeric2 (pu_price u)) (plan_price p),
       plan_currency := keep (pu_currency u) (plan_currency p), plan_billing_cycle := keep (pu_billing_cycle u) (plan_billing_cycle p),
       plan_download_speed := keep (pu_download_speed u) (plan_download_speed p),
       plan_upload_speed := keep (pu_upload_speed u) (plan_upload_speed p), plan_data_limit := keep (pu_data_limit u) (plan_data_limit p),
       plan_time_limit := keep (pu_time_limit u) (plan_time_limit p), plan_validity_days := keep (pu_validity_days u) (plan_validity_days p),
       plan_duration_minutes := or_else (pu_duration_minutes u) (plan_duration_minutes p),
       plan_fup_enabled := keep (pu_fup_enabled u) (plan_fup_enabled p), plan_fup_threshold := or_else (pu_fup_threshold u) (plan_fup_threshold p),
       plan_fup_download_speed := or_else (pu_fup_download_speed u) (plan_fup_download_speed p),
       plan_fup_upload_speed := or_else (pu_fup_upload_speed u) (plan_fup_upload_speed p),
       plan_concurrent_sessions := keep (pu_concurrent_sessions u) (plan_concurrent_sessions p),
       plan_auto_renewal := keep (pu_auto_renewal u) (plan_auto_renewal p), plan_is_popular := keep (pu_is_popular u) (plan_is_popular p),
       plan_sort_order := keep (pu_sort_order u) (plan_sort_order p), plan_enable_burst := keep (pu_enable_burst u) (plan_enable_burst p),
       plan_burst_download := or_else (pu_burst_download u) (plan_burst_download p),
       plan_burst_upload := or_else (pu_burst_upload u) (plan_burst_upload p),
       plan_burst_threshold := or_else (pu_burst_threshold u) (plan_burst_threshold p),
       plan_burst_time := or_else (pu_burst_time u) (plan_burst_time p),
       plan_enable_schedule := keep (pu_enable_schedule u) (plan_enable_schedule p),
       plan_schedule_start_time := or_else (pu_schedule_start_time u) (plan_schedule_start_time p),
       plan_schedule_end_time := or_else (pu_schedule_end_time u) (plan_schedule_end_time p), plan_config := or_else (pu_config u) (plan_config p),
       plan_notes := or_else (pu_notes u) (plan_notes p)\<rparr>"

definition get_plan :: "int \<Rightarrow> db \<Rightarrow> service_plan option" where
  "get_plan i d = tbl_get plan_id i (plans d)"

definition set_plan :: "service_plan \<Rightarrow> dbs \<Rightarrow> dbs" where
  "set_plan p s = commit (on_db (plans_update (tbl_upd plan_id (plan_id p) (\<lambda>_. p))) s)"

definition update_plan :: "int \<Rightarrow> plan_update \<Rightarrow> dbs \<Rightarrow> (exn + service_plan option) \<times> dbs" where
  "update_plan i u s =
     (case get_plan i (cur s) of
        None \<Rightarrow> (Inr None, s)
      | Some p \<Rightarrow>
          let p1 = changed_plan u p
          in if \<not> plan_row_ok p1 then (Inl PlanRowError, rollback s) else (Inr (Some p1), set_plan p1 s))"

definition activate_plan :: "int \<Rightarrow> dbs \<Rightarrow> service_plan option \<times> dbs" where
  "activate_plan i s =
     (case get_plan i (cur s) of
        None \<Rightarrow> (None, s) | Some p \<Rightarrow> (Some (p\<lparr>plan_status := PlanActive\<rparr>), set_plan (p\<lparr>plan_status := PlanActive\<rparr>) s))"

definition deactivate_plan :: "int \<Rightarrow> dbs \<Rightarrow> service_plan option \<times> dbs" where
  "deactivate_plan i s =
     (case get_plan i (cur s) of
        None \<Rightarrow> (None, s) | Some p \<Rightarrow> (Some (p\<lparr>plan_status := PlanInactive\<rparr>), set_plan (p\<lparr>plan_status := PlanInactive\<rparr>) s))"

text \<open>
  Deleting a plan without subscriptions takes its features and price tiers with it. Vouchers and
  purchases refer to it in columns that may not be empty, so that their rows make the deletion fail.
\<close>

definition delete_plan :: "int \<Rightarrow> dbs \<Rightarrow> (exn + bool) \<times> dbs" where
  "delete_plan i s =
     (case get_plan i (cur s) of
        None \<Rightarrow> (Inr False, s)
      | Some p \<Rightarrow>
          if \<exists>q \<in> set (subscriptions (cur s)). sub_plan_id q = i
          then (Inr True, set_plan (p\<lparr>plan_status := PlanDiscontinued\<rparr>) s)
          else if i \<in> vch_plan_id ` set (vouchers (cur s)) \<or> i \<in> pur_plan_id ` set (purchases (cur s))
          then (Inl (IntegrityError ''null value in column plan_id violates not-null constraint''), rollback s)
          else (Inr True, commit (on_db (\<lambda>d. d\<lparr>plans := filter (\<lambda>y. plan_id y \<noteq> i) (plans d),
                 catalogue := (catalogue d)\<lparr>plan_features := filter (\<lambda>f. pf_plan_id f \<noteq> i) (plan_features (catalogue d)),
                   plan_pricings := filter (\<lambda>f. pp_plan_id f \<noteq> i) (plan_pricings (catalogue d))\<rparr>\<rparr>) s)))"

section \<open>Features and price tiers\<close>

abbreviation on_catalogue :: "(plan_tables \<Rightarrow> plan_tables) \<Rightarrow> dbs \<Rightarrow> dbs" where
  "on_catalogue f \<equiv> on_db (\<lambda>d. d\<lparr>catalogue := f (catalogue d)\<rparr>)"

definition get_plan_features :: "int \<Rightarrow> db \<Rightarrow> plan_feature list" where
  "get_plan_features i d = filter (\<lambda>f. pf_plan_id f = i) (plan_features (catalogue d))"

definition add_plan_feature :: "int \<Rightarrow> string \<Rightarrow> string option \<Rightarrow> bool \<Rightarrow> int \<Rightarrow> dbs \<Rightarrow> (exn + plan_feature) \<times> dbs" where
  "add_plan_feature i feature_name feature_value is_included sort_order s =
     (let f = \<lparr>pf_id = feature_seq (catalogue (cur s)), pf_plan_id = i, pf_feature_name = feature_name, pf_feature_value = feature_value,
            pf_is_included = is_included, pf_sort_order = sort_order\<rparr>
      in if i \<notin> plan_id ` set (plans (cur s)) \<or> length feature_name > 100 \<or> length (or_str feature_value []) > 200 \<or> \<not> int4 sort_order
         then (Inl (IntegrityError ''plan_features''), rollback s)
         else (Inr f, commit (on_catalogue (\<lambda>c. c\<lparr>plan_features := plan_features c @ [f], feature_seq := feature_seq c + 1\<rparr>) s)))"

definition remove_plan_feature :: "int \<Rightarrow> dbs \<Rightarrow> bool \<times> dbs" where
  "remove_plan_feature fid s =
     (if tbl_get pf_id fid (plan_features (catalogue (cur s))) = None then (False, s)
      else (True, commit (on_catalogue (plan_features_update (filter (\<lambda>f. pf_id f \<noteq> fid))) s)))"

definition get_plan_pricing :: "int \<Rightarrow> db \<Rightarrow> plan_pricing list" where
  "get_plan_pricing i d = filter (\<lambda>f. pp_plan_id f = i) (plan_pricings (catalogue d))"

definition add_plan_pricing :: "int \<Rightarrow> int \<Rightarrow> rat \<Rightarrow> rat \<Rightarrow> dbs \<Rightarrow> (exn + plan_pricing) \<times> dbs" where
  "add_plan_pricing i duration_months price discount s =
     (let f = \<lparr>pp_id = pricing_seq (catalogue (cur s)), pp_plan_id = i, pp_duration_months = duration_months, pp_price = numeric2 price,
            pp_discount_percentage = numeric2 discount, pp_is_active = True\<rparr>
      in if i \<notin> plan_id ` set (plans (cur s)) \<or> \<not> int4 duration_months \<or> \<bar>numeric2 price\<bar> \<ge> 10 ^ 8 \<or> \<bar>numeric2 discount\<bar> \<ge> 1000
         then (Inl (IntegrityError ''plan_pricing''), rollback s)
         else (Inr f, commit (on_catalogue (\<lambda>c. c\<lparr>plan_pricings := plan_pricings c @ [f], pricing_seq := pricing_seq c + 1\<rparr>) s)))"

section \<open>Reading\<close>

definition get_all_plans ::
    "PaginationParams \<Rightarrow> PlanType option \<Rightarrow> PlanStatus option \<Rightarrow> string option \<Rightarrow> bool option \<Rightarrow> int option \<Rightarrow> db \<Rightarrow> service_plan listing" where
  "get_all_plans pg ptype status search is_active organization_id d =
     (let rs = filter (\<lambda>p. (organization_id \<noteq> None \<longrightarrow> plan_organization_id p = organization_id) \<and>
            (ptype \<noteq> None \<longrightarrow> Some (plan_type p) = ptype) \<and> (status \<noteq> None \<longrightarrow> Some (plan_status p) = status) \<and>
            (is_active \<noteq> None \<longrightarrow> plan_status p = (if the is_active then PlanActive else PlanInactive)) \<and>
            (truthy search \<longrightarrow> search_matches search (plan_name p) \<or>
               plan_description p \<noteq> None \<and> search_matches search (the (plan_description p)))) (plans d);
          total = int (length rs)
      in \<lparr>li_items = take (nat (pg_size pg)) (drop (nat (pg_offset pg)) (order_by (\<lambda>p. (plan_sort_order p, - plan_created_at p)) rs)),
          li_total = total, li_page = pg_page pg, li_size = pg_size pg, li_pages = (total + pg_size pg - 1) div pg_size pg\<rparr>)"

definition get_popular_plans :: "nat \<Rightarrow> db \<Rightarrow> service_plan list" where
  "get_popular_plans limit d = take limit (order_by plan_sort_order (filter (\<lambda>p. plan_is_popular p \<and> plan_status p = PlanActive) (plans d)))"

definition get_plans_by_type :: "PlanType \<Rightarrow> nat option \<Rightarrow> db \<Rightarrow> service_plan list" where
  "get_plans_by_type t limit d =
     (let rs = order_by plan_sort_order (filter (\<lambda>p. plan_type p = t \<and> plan_status p = PlanActive) (plans d))
      in case limit of None \<Rightarrow> rs | Some n \<Rightarrow> if n = 0 then rs else take n rs)"

record plan_stats =
  pst_total_subscriptions :: nat
  pst_active_subscriptions :: nat
  pst_inactive_subscriptions :: nat
  pst_revenue :: rat

definition get_plan_stats :: "int \<Rightarrow> db \<Rightarrow> plan_stats option" where
  "get_plan_stats i d =
     map_option (\<lambda>p.
       let total = length (filter (\<lambda>q. sub_plan_id q = i) (subscriptions d));
           active = length (filter (\<lambda>q. sub_plan_id q = i \<and> sub_status q = SubActive) (subscriptions d))
       in \<lparr>pst_total_subscriptions = total, pst_active_subscriptions = active, pst_inactive_subscriptions = total - active,
           pst_revenue = plan_price p * of_nat active\<rparr>) (get_plan i d)"

record plan_summary =
  psu_total_plans :: nat
  psu_active_plans :: nat
  psu_plans_by_type :: "(PlanType \<times> nat) list"

definition get_plan_stats_summary :: "db \<Rightarrow> plan_summary" where
  "get_plan_stats_summary d =
     \<lparr>psu_total_plans = length (plans d), psu_active_plans = length (filter (\<lambda>p. plan_status p = PlanActive) (plans d)),
      psu_plans_by_type = map (\<lambda>t. (t, length (filter (\<lambda>p. plan_type p = t) (plans d)))) (remdups (map plan_type (plans d)))\<rparr>"

section \<open>References stay valid\<close>

definition sold_plans :: "db \<Rightarrow> int set" where
  "sold_plans d = sub_plan_id ` set (subscriptions d) \<union> vch_plan_id ` set (vouchers d) \<union> pur_plan_id ` set (purchases d)"

definition catalogue_ok :: "db \<Rightarrow> bool" where
  "catalogue_ok d \<longleftrightarrow> uniq plan_id (plans d) \<and> (\<forall>p \<in> set (plans d). plan_id p < plan_seq (catalogue d)) \<and>
     sold_plans d \<union> pf_plan_id ` set (plan_features (catalogue d)) \<union> pp_plan_id ` set (plan_pricings (catalogue d)) \<subseteq> plan_id ` set (plans d)"

inductive plan_step :: "dbs \<Rightarrow> dbs \<Rightarrow> bool" where
  "plan_step s (snd (create_plan now org q s))"
| "plan_step s (snd (update_plan i u s))"
| "plan_step s (snd (activate_plan i s))"
| "plan_step s (snd (deactivate_plan i s))"
| "plan_step s (snd (delete_plan i s))"
| "plan_step s (snd (add_plan_feature i n v inc so s))"
| "plan_step s (snd (remove_plan_feature f s))"
| "plan_step s (snd (add_plan_pricing i m pr dis s))"

definition keeps_catalogue :: "dbs \<Rightarrow> dbs \<Rightarrow> bool" where
  "keeps_catalogue s s' \<longleftrightarrow> (clean s \<and> catalogue_ok (cur s) \<longrightarrow> clean s' \<and> catalogue_ok (cur s') \<and> sold_plans (cur s') = sold_plans (cur s))"

lemma keeps_same: "keeps_catalogue s s" "keeps_catalogue s (rollback s)"
  by (simp_all add: keeps_catalogue_def clean_def)

lemma keeps_set_plan: "plan_id p1 = plan_id p \<Longrightarrow> get_plan i (cur s) = Some p \<Longrightarrow> keeps_catalogue s (set_plan p1 s)"
proof -
  assume a: "plan_id p1 = plan_id p" "get_plan i (cur s) = Some p"
  let ?t = "tbl_upd plan_id (plan_id p1) (\<lambda>_. p1) (plans (cur s))"
  have "map plan_id ?t = map plan_id (plans (cur s))" by (auto simp: tbl_upd_def)
  then have u: "uniq plan_id ?t = uniq plan_id (plans (cur s))" and i: "plan_id ` set ?t = plan_id ` set (plans (cur s))"
    by (simp_all only: uniq_def set_map [symmetric])
  have b: "(\<forall>p \<in> set t. plan_id p < k) = (\<forall>j \<in> plan_id ` set t. j < k)" for t :: "service_plan list" and k by blast
  have "(\<forall>p \<in> set ?t. plan_id p < k) = (\<forall>p \<in> set (plans (cur s)). plan_id p < k)" for k by (simp only: b i)
  with u i show ?thesis by (simp add: keeps_catalogue_def catalogue_ok_def sold_plans_def set_plan_def clean_def)
qed

lemma image_but: "key ` {x \<in> A. key x \<noteq> i} = key ` A - {i}"
  by auto

lemma plan_step_keeps: "plan_step s s' \<Longrightarrow> keeps_catalogue s s'"
proof (induction rule: plan_step.induct)
  case (1 s now org q)
  have "plan_id (new_plan now i org q) = i" for i by (simp add: new_plan_def)
  then show ?case
    by (auto simp: create_plan_def Let_def keeps_catalogue_def clean_def catalogue_ok_def sold_plans_def uniq_def)
next
  case (2 s i u)
  have "plan_id (changed_plan u p) = plan_id p" for p by (simp add: changed_plan_def)
  then show ?case by (auto simp: update_plan_def Let_def keeps_same intro: keeps_set_plan split: option.split)
next
  case (5 s i)
  show ?case by (auto simp: delete_plan_def keeps_same keeps_set_plan split: option.split)
    (auto simp: keeps_catalogue_def clean_def catalogue_ok_def sold_plans_def uniq_def distinct_map inj_on_def image_but)
next
  case (6 s i n v inc so)
  show ?case by (auto simp: add_plan_feature_def Let_def keeps_same) (auto simp: keeps_catalogue_def clean_def catalogue_ok_def sold_plans_def)
next
  case (7 s f)
  show ?case by (auto simp: remove_plan_feature_def keeps_same) (auto simp: keeps_catalogue_def clean_def catalogue_ok_def sold_plans_def)
next
  case (8 s i m pr dis)
  show ?case by (auto simp: add_plan_pricing_def Let_def keeps_same) (auto simp: keeps_catalogue_def clean_def catalogue_ok_def sold_plans_def)
qed (auto simp: activate_plan_def deactivate_plan_def keeps_same intro: keeps_set_plan split: option.split)

lemma keeps_trans: "keeps_catalogue s t \<Longrightarrow> keeps_catalogue t u \<Longrightarrow> keeps_catalogue s u"
  by (simp add: keeps_catalogue_def)

lemma plan_steps_keep: "plan_step\<^sup>*\<^sup>* s s' \<Longrightarrow> keeps_catalogue s s'"
  by (induction rule: rtranclp_induct) (auto intro: keeps_same keeps_trans plan_step_keeps)

text \<open>
  C25. No operation on plans leaves a dangling reference. However creations, changes, withdrawals,
  deletions, features and price tiers are interleaved, every plan that a subscription, a
  voucher or a purchase refers to is still there, as is the plan of every feature and price
  tier, and the ids of plans stay unique.
\<close>

theorem plan_references_stay_valid:
  assumes "plan_step\<^sup>*\<^sup>* s s'" "catalogue_ok (cur s)" "clean s"
  shows "catalogue_ok (saved s') \<and> (\<forall>i \<in> sold_plans (cur s). get_plan i (saved s') \<noteq> None)"
proof -
  have "clean s' \<and> catalogue_ok (cur s') \<and> sold_plans (cur s') = sold_plans (cur s)"
    using plan_steps_keep [OF assms(1)] assms(2,3) by (simp add: keeps_catalogue_def)
  then have "catalogue_ok (saved s')" "sold_plans (saved s') = sold_plans (cur s)" by (simp_all add: clean_def)
  moreover from this have "sold_plans (cur s) \<subseteq> plan_id ` set (plans (saved s'))" by (simp add: catalogue_ok_def)
  ultimately show ?thesis by (auto simp: get_plan_def tbl_get_None)
qed

section \<open>Withdrawn plans are not sold\<close>

lemma get_plan_id: "get_plan i d = Some p \<Longrightarrow> plan_id p = i"
  by (auto simp: get_plan_def)

lemma withdrawn_status:
  assumes "deactivate_plan i s = (Some p, s') \<or> delete_plan i s = (Inr True, s')" "uniq plan_id (plans (cur s))"
  shows "filter (\<lambda>p. plan_id p = i \<and> plan_status p = PlanActive) (plans (cur s')) = []"
proof -
  obtain x where x: "get_plan i (cur s) = Some x" using assms(1) by (auto simp: deactivate_plan_def delete_plan_def split: option.splits)
  have "\<forall>y \<in> set (plans (cur s')). plan_id y = i \<longrightarrow> plan_status y \<noteq> PlanActive"
    using assms(1) get_plan_id [OF x] by (auto simp: deactivate_plan_def delete_plan_def x set_plan_def in_tbl_upd split: if_splits)
  then show ?thesis by (auto simp: filter_empty_conv)
qed

text \<open>
  C26. A plan that was deactivated or deleted is not sold any more: the captive portal refuses every
  purchase of it, by any customer of any tenant, records no purchase and asks the treasury
  for no payment.
\<close>

theorem withdrawn_plan_is_not_sold:
  assumes "deactivate_plan i s = (Some p, s') \<or> delete_plan i s = (Inr True, s')" "uniq plan_id (plans (cur s))"
    "pq_plan_id data = i" "resolve_provider_access suspended get_subscription org"
  shows "purchase_package env tr frontend_url suspended get_subscription now org data s'
    = (Inl (Exn ''HTTPException'' ''404: Package not found''), s')"
proof -
  have "filter (\<lambda>p. plan_id p = pq_plan_id data \<and> plan_organization_id p = Some (org_id org) \<and> plan_status p = PlanActive) (plans (cur s')) = []"
    using withdrawn_status [OF assms(1,2)] assms(3) by (auto simp: filter_empty_conv)
  then show ?thesis using assms(4) by (simp add: purchase_package_def)
qed

text \<open>A renewal in the PPPoE portal does not look at the status of the plan.\<close>

lemma withdrawn_plan_is_still_renewed:
  "\<exists>r. fst (renew_pppoe_subscription portal_env0 paying_treasury 3 org0 2 [] 1 (snd (deactivate_plan 2 (fresh pppoe_db)))) = Inr r"
proof -
  have "(case fst (renew_pppoe_subscription portal_env0 paying_treasury 3 org0 2 [] 1 (snd (deactivate_plan 2 (fresh pppoe_db)))) of
      Inl _ \<Rightarrow> False | Inr _ \<Rightarrow> True)" by code_simp
  then show ?thesis by (auto split: sum.splits)
qed

section \<open>The theorems at a concrete input\<close>

lemma shop_catalogue_ok: "catalogue_ok (pppoe_db\<lparr>catalogue := empty_catalogue\<lparr>plan_seq := 3\<rparr>\<rparr>)"
  by (simp add: catalogue_ok_def sold_plans_def pppoe_db_def empty_db_def empty_catalogue_def uniq_def plan0_def sub0_def)

theorem plan_references_stay_valid_witness:
  "get_plan 1 (saved (snd (delete_plan 1 (fresh (pppoe_db\<lparr>catalogue := empty_catalogue\<lparr>plan_seq := 3\<rparr>\<rparr>))))) \<noteq> None"
proof -
  let ?s = "fresh (pppoe_db\<lparr>catalogue := empty_catalogue\<lparr>plan_seq := 3\<rparr>\<rparr>)"
  have "plan_step ?s (snd (delete_plan 1 ?s))" by (rule plan_step.intros)
  then have "plan_step\<^sup>*\<^sup>* ?s (snd (delete_plan 1 ?s))" by blast
  moreover have "1 \<in> sold_plans (cur ?s)" by (simp add: sold_plans_def pppoe_db_def sub0_def)
  ultimately show ?thesis using plan_references_stay_valid [of ?s "snd (delete_plan 1 ?s)"] shop_catalogue_ok by (simp add: clean_def)
qed

definition order1 :: purchase_request where
  "order1 = \<lparr>pq_plan_id = 1, pq_phone_number = ''0700'', pq_email = None, pq_client_ip = None, pq_user_agent = [], pq_origin = []\<rparr>"

theorem withdrawn_plan_is_not_sold_witness:
  "fst (purchase_package portal_env0 paying_treasury None False (\<lambda>_. Inr None) 5 org0 order1 (snd (deactivate_plan 1 (fresh pppoe_db))))
    = Inl (Exn ''HTTPException'' ''404: Package not found'')"
proof -
  have "deactivate_plan 1 (fresh pppoe_db) = (Some (plan0\<lparr>plan_status := PlanInactive\<rparr>), set_plan (plan0\<lparr>plan_status := PlanInactive\<rparr>) (fresh pppoe_db))"
    by (simp add: deactivate_plan_def get_plan_def pppoe_db_simps table_simps plan0_def)
  moreover have "uniq plan_id (plans (cur (fresh pppoe_db)))" by (simp add: pppoe_db_simps uniq_def plan0_def)
  moreover have "resolve_provider_access False (\<lambda>_. Inr None) org0" by (simp add: resolve_provider_access_def org0_def truthy_def)
  moreover have "pq_plan_id order1 = 1" by (simp add: order1_def)
  ultimately show ?thesis
    using withdrawn_plan_is_not_sold [of 1 "fresh pppoe_db" "plan0\<lparr>plan_status := PlanInactive\<rparr>" _ order1 False "\<lambda>_. Inr None" org0 portal_env0 paying_treasury None 5]
    by simp
qed

end
