(* ===== verification/Back_Office.thy ===== *)
theory Back_Office
  imports Request_Guards Payment_Management Plan_Service
begin

text \<open>
  The records a provider keeps beside the subscriptions: leads (\<open>src/app/modules/leads/service.py\<close>),
  expenses (\<open>src/app/modules/expenses/service.py\<close>), campaigns (\<open>src/app/modules/campaigns/service.py\<close>)
  and support tickets (\<open>src/app/modules/tickets/service.py\<close>), with their endpoints. Each service is
  created for one organisation and one user and works on the rows of that organisation. The
  answers of the endpoints are the rows; their rendering as JSON is not modelled.
\<close>

section \<open>Rows\<close>

datatype LeadStatus = LeadNew | LeadContacted | LeadQualified | LeadProposal | LeadNegotiation | LeadConverted | LeadLost

datatype LeadSource = Website | Referral | SocialMedia | Advertisement | WalkIn | PhoneCall | OtherSource

record lead =
  ld_id :: int
  ld_organization_id :: int
  ld_name :: string
  ld_email :: "string option"
  ld_phone :: "string option"
  ld_company :: "string option"
  ld_address :: "string option"
  ld_city :: "string option"
  ld_status :: LeadStatus
  ld_source :: "LeadSource option"
  ld_notes :: "string option"
  ld_estimated_value :: "int option"
  ld_assigned_to_user_id :: "int option"
  ld_converted_to_user_id :: "int option"
  ld_converted_at :: "datetime option"
  ld_created_by_user_id :: int
  ld_created_at :: datetime

datatype ExpenseStatus = ExpPending | ExpApproved | ExpRejected

datatype ExpenseCategory = Infrastructure | Equipment | Maintenance | Utilities | Licenses | Marketing | Salaries | OfficeCosts | Travel | OtherCategory

fun category_text :: "ExpenseCategory \<Rightarrow> string" where
  \<comment> \<open>\<open>str\<close> of a member\<close>
  "category_text Infrastructure = ''ExpenseCategory.INFRASTRUCTURE''"
| "category_text Equipment = ''ExpenseCategory.EQUIPMENT''"
| "category_text Maintenance = ''ExpenseCategory.MAINTENANCE''"
| "category_text Utilities = ''ExpenseCategory.UTILITIES''"
| "category_text Licenses = ''ExpenseCategory.LICENSES''"
| "category_text Marketing = ''ExpenseCategory.MARKETING''"
| "category_text Salaries = ''ExpenseCategory.SALARIES''"
| "category_text OfficeCosts = ''ExpenseCategory.OFFICE''"
| "category_text Travel = ''ExpenseCategory.TRAVEL''"
| "category_text OtherCategory = ''ExpenseCategory.OTHER''"

record expense =
  xp_id :: int
  xp_organization_id :: int
  xp_date :: int \<comment> \<open>days since 1970-01-01\<close>
  xp_category :: ExpenseCategory
  xp_description :: string
  xp_amount :: rat
  xp_currency :: string
  xp_receipt_url :: "string option"
  xp_added_by_user_id :: int
  xp_status :: ExpenseStatus
  xp_notes :: "string option"
  xp_approved_by_user_id :: "int option"
  xp_approved_at :: "datetime option"
  xp_rejection_reason :: "string option"
  xp_created_at :: datetime

datatype CampaignType = SmsCampaign | EmailCampaign | WhatsappCampaign | BothChannels

datatype CampaignStatus = CampDraft | CampScheduled | CampActive | CampPaused | CampCompleted | CampCancelled

record campaign =
  cp_id :: int
  cp_organization_id :: int
  cp_name :: string
  cp_campaign_type :: CampaignType
  cp_status :: CampaignStatus
  cp_scheduled_date :: "datetime option"
  cp_recipients_count :: int
  cp_sent_count :: int
  cp_delivered_count :: int
  cp_failed_count :: int
  cp_opened_count :: int
  cp_clicked_count :: int
  cp_message_content :: "string option"
  cp_email_subject :: "string option"
  cp_email_content :: "string option"
  cp_target_filters :: "string option"
  cp_created_by_user_id :: int
  cp_notes :: "string option"
  cp_created_at :: datetime

datatype TicketStatus = TktOpen | TktInProgress | TktResolved | TktClosed | TktCancelled

datatype TicketPriority = LowPriority | MediumPriority | HighPriority | UrgentPriority

record ticket =
  tk_id :: int
  tk_organization_id :: int
  tk_user_id :: int
  tk_assigned_to :: "int option"
  tk_ticket_number :: string
  tk_subject :: string
  tk_description :: string
  tk_status :: TicketStatus
  tk_priority :: TicketPriority
  tk_category :: "string option"
  tk_tags :: "string option"
  tk_resolution :: "string option"
  tk_resolved_at :: "datetime option"
  tk_closed_at :: "datetime option"
  tk_attachments :: "string option"
  tk_created_at :: datetime

record ticket_message =
  tm_id :: int
  tm_ticket_id :: int
  tm_user_id :: int
  tm_message :: string
  tm_is_internal :: bool
  tm_attachments :: "string option"
  tm_created_at :: datetime

text \<open>The tables, beside those of the rest of the program.\<close>

record office_db =
  base :: db
  lead_table :: "lead list"
  expense_table :: "expense list"
  campaign_table :: "campaign list"
  ticket_table :: "ticket list"
  message_table :: "ticket_message list"
  lead_seq :: int
  expense_seq :: int
  campaign_seq :: int
  ticket_seq :: int
  message_seq :: int

type_synonym office = "office_db session"

definition user_exists :: "int \<Rightarrow> office_db \<Rightarrow> bool" where
  "user_exists i d \<longleftrightarrow> tbl_get usr_id i (users (base d)) \<noteq> None"

definition user_ref :: "int option \<Rightarrow> office_db \<Rightarrow> bool" where
  \<comment> \<open>a nullable foreign key\<close>
  "user_ref x d \<longleftrightarrow> (case x of None \<Rightarrow> True | Some i \<Rightarrow> user_exists i d)"

definition tenant_exists :: "int \<Rightarrow> office_db \<Rightarrow> bool" where
  "tenant_exists i d \<longleftrightarrow> tbl_get org_id i (organizations (base d)) \<noteq> None"

definition fits :: "nat \<Rightarrow> string option \<Rightarrow> bool" where
  "fits n x \<longleftrightarrow> length (or_str x []) \<le> n"

abbreviation FieldError :: exn where
  "FieldError \<equiv> Exn ''DBAPIError'' ''value out of range of a column''"

abbreviation ForeignKeyError :: exn where
  "ForeignKeyError \<equiv> IntegrityError ''foreign key''"

section \<open>Rows of a tenant\<close>

text \<open>
  \<open>select(...).where(and_(id == ..., organization_id == ...))\<close>; then a change of the row that was
  found, committed, or refused by the database.
\<close>

definition find_own :: "('r \<Rightarrow> int) \<Rightarrow> ('r \<Rightarrow> int) \<Rightarrow> int \<Rightarrow> int \<Rightarrow> 'r list \<Rightarrow> 'r option" where
  "find_own key owner org i t = one_of (filter (\<lambda>x. key x = i \<and> owner x = org) t)"

definition store :: "('r \<Rightarrow> int) \<Rightarrow> (('r list \<Rightarrow> 'r list) \<Rightarrow> office_db \<Rightarrow> office_db) \<Rightarrow> ('r \<Rightarrow> office_db \<Rightarrow> exn option) \<Rightarrow> 'r \<Rightarrow> office
     \<Rightarrow> (exn + 'r option) \<times> office" where
  "store key tab check x s =
     (case check x (cur s) of
        Some e \<Rightarrow> (Inl e, rollback s)
      | None \<Rightarrow> (Inr (Some x), commit (on_db (tab (tbl_upd key (key x) (\<lambda>_. x))) s)))"

definition remove :: "('r \<Rightarrow> int) \<Rightarrow> (('r list \<Rightarrow> 'r list) \<Rightarrow> office_db \<Rightarrow> office_db) \<Rightarrow> int \<Rightarrow> office \<Rightarrow> office" where
  "remove key tab i s = commit (on_db (tab (filter (\<lambda>y. key y \<noteq> i))) s)"

section \<open>Leads\<close>

record lead_create =
  lc_name :: string
  lc_email :: "string option"
  lc_phone :: "string option"
  lc_company :: "string option"
  lc_address :: "string option"
  lc_city :: "string option"
  lc_source :: "LeadSource option"
  lc_notes :: "string option"
  lc_estimated_value :: "int option"

definition lead_row_error :: "lead \<Rightarrow> office_db \<Rightarrow> exn option" where
  "lead_row_error l d =
     (if length (ld_name l) > 200 \<or> \<not> fits 100 (ld_email l) \<or> \<not> fits 20 (ld_phone l) \<or> \<not> fits 200 (ld_company l) \<or> \<not> fits 100 (ld_city l) \<or>
         \<not> int4_opt (ld_estimated_value l) then Some FieldError
      else if \<not> (tenant_exists (ld_organization_id l) d \<and> user_exists (ld_created_by_user_id l) d \<and> user_ref (ld_assigned_to_user_id l) d \<and>
         user_ref (ld_converted_to_user_id l) d) then Some ForeignKeyError
      else None)"

abbreviation lead_by_id :: "int \<Rightarrow> int \<Rightarrow> office_db \<Rightarrow> lead option" where
  "lead_by_id org i d \<equiv> find_own ld_id ld_organization_id org i (lead_table d)"

definition search_any :: "string option \<Rightarrow> string option list \<Rightarrow> bool" where
  \<comment> \<open>\<open>or_\<close> of \<open>ilike\<close> over columns that may be NULL, when the search string is not empty\<close>
  "search_any search xs \<longleftrightarrow> (truthy search \<longrightarrow> (\<exists>x \<in> set xs. x \<noteq> None \<and> search_matches search (the x)))"

definition get_all_leads ::
    "int \<Rightarrow> PaginationParams \<Rightarrow> LeadStatus option \<Rightarrow> LeadSource option \<Rightarrow> string option \<Rightarrow> office_db \<Rightarrow> lead listing" where
  "get_all_leads org pg status source search d =
     paginate ld_created_at pg (filter (\<lambda>l. ld_organization_id l = org \<and> (status \<noteq> None \<longrightarrow> Some (ld_status l) = status) \<and>
       (source \<noteq> None \<longrightarrow> ld_source l = source) \<and>
       search_any search [Some (ld_name l), ld_email l, ld_phone l, ld_company l, ld_notes l]) (lead_table d))"

definition create_lead :: "datetime \<Rightarrow> int \<Rightarrow> int \<Rightarrow> lead_create \<Rightarrow> office \<Rightarrow> (exn + lead) \<times> office" where
  "create_lead now org uid q s =
     (let l = \<lparr>ld_id = lead_seq (cur s), ld_organization_id = org, ld_name = lc_name q, ld_email = lc_email q, ld_phone = lc_phone q,
               ld_company = lc_company q, ld_address = lc_address q, ld_city = lc_city q, ld_status = LeadNew, ld_source = lc_source q,
               ld_notes = lc_notes q, ld_estimated_value = lc_estimated_value q, ld_assigned_to_user_id = None, ld_converted_to_user_id = None,
               ld_converted_at = None, ld_created_by_user_id = uid, ld_created_at = now\<rparr>
      in case lead_row_error l (cur s) of
           Some e \<Rightarrow> (Inl e, rollback s)
         | None \<Rightarrow> (Inr l, commit (on_db (\<lambda>d. d\<lparr>lead_table := lead_table d @ [l], lead_seq := lead_seq d + 1\<rparr>) s)))"

record lead_update =
  lu_name :: "string option"
  lu_email :: "string option"
  lu_phone :: "string option"
  lu_company :: "string option"
  lu_address :: "string option"
  lu_city :: "string option"
  lu_status :: "LeadStatus option"
  lu_source :: "LeadSource option"
  lu_notes :: "string option"
  lu_estimated_value :: "int option"

definition set_lead :: "lead_update \<Rightarrow> lead \<Rightarrow> lead" where
  "set_lead q l = l\<lparr>ld_name := keep (lu_name q) (ld_name l), ld_email := or_else (lu_email q) (ld_email l), ld_phone := or_else (lu_phone q) (ld_phone l),
     ld_company := or_else (lu_company q) (ld_company l), ld_address := or_else (lu_address q) (ld_address l), ld_city := or_else (lu_city q) (ld_city l),
     ld_status := keep (lu_status q) (ld_status l), ld_source := or_else (lu_source q) (ld_source l), ld_notes := or_else (lu_notes q) (ld_notes l),
     ld_estimated_value := or_else (lu_estimated_value q) (ld_estimated_value l)\<rparr>"

abbreviation store_lead :: "lead \<Rightarrow> office \<Rightarrow> (exn + lead option) \<times> office" where
  "store_lead \<equiv> store ld_id lead_table_update lead_row_error"

definition update_lead :: "int \<Rightarrow> int \<Rightarrow> lead_update \<Rightarrow> office \<Rightarrow> (exn + lead option) \<times> office" where
  "update_lead org i q s =
     (case lead_by_id org i (cur s) of
        None \<Rightarrow> (Inr None, s)
      | Some l \<Rightarrow> if ld_status l = LeadConverted then (Inl (Exn ''ValueError'' ''Cannot update converted leads''), s) else store_lead (set_lead q l) s)"

definition delete_lead :: "int \<Rightarrow> int \<Rightarrow> office \<Rightarrow> (exn + bool) \<times> office" where
  "delete_lead org i s =
     (case lead_by_id org i (cur s) of
        None \<Rightarrow> (Inr False, s)
      | Some l \<Rightarrow> if ld_status l = LeadConverted then (Inl (Exn ''ValueError'' ''Cannot delete converted leads''), s)
                  else (Inr True, remove ld_id lead_table_update i s))"

definition assign_lead :: "int \<Rightarrow> int \<Rightarrow> int \<Rightarrow> office \<Rightarrow> (exn + lead option) \<times> office" where
  "assign_lead org i assigned_to s =
     (case lead_by_id org i (cur s) of None \<Rightarrow> (Inr None, s) | Some l \<Rightarrow> store_lead (l\<lparr>ld_assigned_to_user_id := Some assigned_to\<rparr>) s)"

definition convert_lead :: "datetime \<Rightarrow> int \<Rightarrow> int \<Rightarrow> int option \<Rightarrow> office \<Rightarrow> (exn + lead option) \<times> office" where
  "convert_lead now org i converted_to s =
     (case lead_by_id org i (cur s) of
        None \<Rightarrow> (Inr None, s)
      | Some l \<Rightarrow> if ld_status l = LeadConverted then (Inl (Exn ''ValueError'' ''Lead is already converted''), s)
                  else store_lead (l\<lparr>ld_status := LeadConverted, ld_converted_to_user_id := converted_to, ld_converted_at := Some now\<rparr>) s)"

section \<open>Expenses\<close>

record expense_create =
  xc_date :: int
  xc_category :: ExpenseCategory
  xc_description :: string
  xc_amount :: rat
  xc_currency :: string
  xc_receipt_url :: "string option"
  xc_notes :: "string option"

definition expense_row_error :: "expense \<Rightarrow> office_db \<Rightarrow> exn option" where
  "expense_row_error x d =
     (if \<bar>xp_amount x\<bar> \<ge> 10 ^ 8 \<or> length (xp_currency x) > 3 \<or> \<not> fits 500 (xp_receipt_url x) then Some FieldError
      else if \<not> (tenant_exists (xp_organization_id x) d \<and> user_exists (xp_added_by_user_id x) d \<and> user_ref (xp_approved_by_user_id x) d)
      then Some ForeignKeyError else None)"

abbreviation expense_by_id :: "int \<Rightarrow> int \<Rightarrow> office_db \<Rightarrow> expense option" where
  "expense_by_id org i d \<equiv> find_own xp_id xp_organization_id org i (expense_table d)"

definition get_all_expenses ::
    "int \<Rightarrow> PaginationParams \<Rightarrow> ExpenseStatus option \<Rightarrow> ExpenseCategory option \<Rightarrow> string option \<Rightarrow> int option \<Rightarrow> int option \<Rightarrow> office_db
     \<Rightarrow> expense listing" where
  \<comment> \<open>the newest date first, and among equal dates the newest row\<close>
  "get_all_expenses org pg status category search date_from date_to d =
     paginate (\<lambda>_. 0) pg (order_by (\<lambda>x. - xp_date x) (order_by (\<lambda>x. - xp_created_at x) (filter (\<lambda>x. xp_organization_id x = org \<and>
       (status \<noteq> None \<longrightarrow> Some (xp_status x) = status) \<and> (category \<noteq> None \<longrightarrow> Some (xp_category x) = category) \<and>
       search_any search [Some (xp_description x), xp_notes x] \<and> (date_from \<noteq> None \<longrightarrow> the date_from \<le> xp_date x) \<and>
       (date_to \<noteq> None \<longrightarrow> xp_date x \<le> the date_to)) (expense_table d))))"

definition create_expense :: "datetime \<Rightarrow> int \<Rightarrow> int \<Rightarrow> expense_create \<Rightarrow> office \<Rightarrow> (exn + expense) \<times> office" where
  "create_expense now org uid q s =
     (let x = \<lparr>xp_id = expense_seq (cur s), xp_organization_id = org, xp_date = xc_date q, xp_category = xc_category q,
               xp_description = xc_description q, xp_amount = numeric2 (xc_amount q), xp_currency = xc_currency q, xp_receipt_url = xc_receipt_url q,
               xp_added_by_user_id = uid, xp_status = ExpPending, xp_notes = xc_notes q, xp_approved_by_user_id = None, xp_approved_at = None,
               xp_rejection_reason = None, xp_created_at = now\<rparr>
      in case expense_row_error x (cur s) of
           Some e \<Rightarrow> (Inl e, rollback s)
         | None \<Rightarrow> (Inr x, commit (on_db (\<lambda>d. d\<lparr>expense_table := expense_table d @ [x], expense_seq := expense_seq d + 1\<rparr>) s)))"

record expense_update =
  xu_date :: "int option"
  xu_category :: "ExpenseCategory option"
  xu_description :: "string option"
  xu_amount :: "rat option"
  xu_currency :: "string option"
  xu_receipt_url :: "string option"
  xu_notes :: "string option"

definition set_expense :: "expense_update \<Rightarrow> expense \<Rightarrow> expense" where
  "set_expense q x = x\<lparr>xp_date := keep (xu_date q) (xp_date x), xp_category := keep (xu_category q) (xp_category x),
     xp_description := keep (xu_description q) (xp_description x), xp_amount := keep (map_option numeric2 (xu_amount q)) (xp_amount x),
     xp_currency := keep (xu_currency q) (xp_currency x), xp_receipt_url := or_else (xu_receipt_url q) (xp_receipt_url x),
     xp_notes := or_else (xu_notes q) (xp_notes x)\<rparr>"

definition change_pending :: "string \<Rightarrow> int \<Rightarrow> int \<Rightarrow> (expense \<Rightarrow> expense) \<Rightarrow> office \<Rightarrow> (exn + expense option) \<times> office" where
  \<comment> \<open>an expense that is still pending is changed, any other is refused\<close>
  "change_pending verb org i f s =
     (case expense_by_id org i (cur s) of
        None \<Rightarrow> (Inr None, s)
      | Some x \<Rightarrow> if xp_status x \<noteq> ExpPending then (Inl (Exn ''ValueError'' (''Can only '' @ verb @ '' pending expenses'')), s)
                  else store xp_id expense_table_update expense_row_error (f x) s)"

definition update_expense :: "int \<Rightarrow> int \<Rightarrow> expense_update \<Rightarrow> office \<Rightarrow> (exn + expense option) \<times> office" where
  "update_expense org i q = change_pending ''update'' org i (set_expense q)"

definition delete_expense :: "int \<Rightarrow> int \<Rightarrow> office \<Rightarrow> (exn + bool) \<times> office" where
  "delete_expense org i s =
     (case expense_by_id org i (cur s) of
        None \<Rightarrow> (Inr False, s)
      | Some x \<Rightarrow> if xp_status x \<noteq> ExpPending then (Inl (Exn ''ValueError'' ''Can only delete pending expenses''), s)
                  else (Inr True, remove xp_id expense_table_update i s))"

definition approve_expense :: "datetime \<Rightarrow> int \<Rightarrow> int \<Rightarrow> int \<Rightarrow> office \<Rightarrow> (exn + expense option) \<times> office" where
  "approve_expense now org uid i = change_pending ''approve'' org i
     (\<lambda>x. x\<lparr>xp_status := ExpApproved, xp_approved_by_user_id := Some uid, xp_approved_at := Some now, xp_rejection_reason := None\<rparr>)"

definition reject_expense :: "datetime \<Rightarrow> int \<Rightarrow> int \<Rightarrow> int \<Rightarrow> string \<Rightarrow> office \<Rightarrow> (exn + expense option) \<times> office" where
  "reject_expense now org uid i rejection_reason = change_pending ''reject'' org i
     (\<lambda>x. x\<lparr>xp_status := ExpRejected, xp_approved_by_user_id := Some uid, xp_approved_at := Some now, xp_rejection_reason := Some rejection_reason\<rparr>)"

record expense_statistics =
  xs_total :: nat
  xs_approved :: nat
  xs_pending :: nat
  xs_rejected :: nat
  xs_total_amount :: rat
  xs_daily :: rat
  xs_monthly :: rat
  xs_by_category :: "(string \<times> rat) list"

definition sum_amounts :: "expense list \<Rightarrow> rat" where
  "sum_amounts xs = sum_list (map xp_amount xs)"

definition get_expense_statistics :: "datetime \<Rightarrow> int \<Rightarrow> office_db \<Rightarrow> expense_statistics" where
  "get_expense_statistics now org d =
     (let today = now div 86400000000; month_start = today - (civil_day today - 1);
          own = (\<lambda>st. filter (\<lambda>x. xp_organization_id x = org \<and> xp_status x = st) (expense_table d));
          ok = own ExpApproved
      in \<lparr>xs_total = length ok, xs_approved = length ok, xs_pending = length (own ExpPending), xs_rejected = length (own ExpRejected),
          xs_total_amount = sum_amounts ok, xs_daily = sum_amounts (filter (\<lambda>x. xp_date x = today) ok),
          xs_monthly = sum_amounts (filter (\<lambda>x. month_start \<le> xp_date x) ok),
          xs_by_category = map (\<lambda>c. (category_text c, sum_amounts (filter (\<lambda>x. xp_category x = c) ok))) (remdups (map xp_category ok))\<rparr>)"

section \<open>Campaigns\<close>

record campaign_create =
  cc_name :: string
  cc_campaign_type :: CampaignType
  cc_message_content :: "string option"
  cc_email_subject :: "string option"
  cc_email_content :: "string option"
  cc_target_filters :: "string option"
  cc_scheduled_date :: "datetime option"
  cc_notes :: "string option"

definition campaign_row_error :: "campaign \<Rightarrow> office_db \<Rightarrow> exn option" where
  "campaign_row_error c d =
     (if length (cp_name c) > 200 \<or> \<not> fits 200 (cp_email_subject c) then Some FieldError
      else if \<not> (tenant_exists (cp_organization_id c) d \<and> user_exists (cp_created_by_user_id c) d) then Some ForeignKeyError else None)"

abbreviation campaign_by_id :: "int \<Rightarrow> int \<Rightarrow> office_db \<Rightarrow> campaign option" where
  "campaign_by_id org i d \<equiv> find_own cp_id cp_organization_id org i (campaign_table d)"

definition get_all_campaigns ::
    "int \<Rightarrow> PaginationParams \<Rightarrow> CampaignStatus option \<Rightarrow> CampaignType option \<Rightarrow> string option \<Rightarrow> office_db \<Rightarrow> campaign listing" where
  "get_all_campaigns org pg status campaign_type search d =
     paginate cp_created_at pg (filter (\<lambda>c. cp_organization_id c = org \<and> (status \<noteq> None \<longrightarrow> Some (cp_status c) = status) \<and>
       (campaign_type \<noteq> None \<longrightarrow> Some (cp_campaign_type c) = campaign_type) \<and> search_any search [Some (cp_name c), cp_notes c]) (campaign_table d))"

definition create_campaign :: "datetime \<Rightarrow> int \<Rightarrow> int \<Rightarrow> campaign_create \<Rightarrow> office \<Rightarrow> (exn + campaign) \<times> office" where
  "create_campaign now org uid q s =
     (let c = \<lparr>cp_id = campaign_seq (cur s), cp_organization_id = org, cp_name = cc_name q, cp_campaign_type = cc_campaign_type q,
               cp_status = CampDraft, cp_scheduled_date = cc_scheduled_date q, cp_recipients_count = 0, cp_sent_count = 0, cp_delivered_count = 0,
               cp_failed_count = 0, cp_opened_count = 0, cp_clicked_count = 0, cp_message_content = cc_message_content q,
               cp_email_subject = cc_email_subject q, cp_email_content = cc_email_content q, cp_target_filters = cc_target_filters q,
               cp_created_by_user_id = uid, cp_notes = cc_notes q, cp_created_at = now\<rparr>
      in case campaign_row_error c (cur s) of
           Some e \<Rightarrow> (Inl e, rollback s)
         | None \<Rightarrow> (Inr c, commit (on_db (\<lambda>d. d\<lparr>campaign_table := campaign_table d @ [c], campaign_seq := campaign_seq d + 1\<rparr>) s)))"

record campaign_update =
  cu_name :: "string option"
  cu_campaign_type :: "CampaignType option"
  cu_status :: "CampaignStatus option"
  cu_message_content :: "string option"
  cu_email_subject :: "string option"
  cu_email_content :: "string option"
  cu_target_filters :: "string option"
  cu_scheduled_date :: "datetime option"
  cu_notes :: "string option"

definition set_campaign :: "campaign_update \<Rightarrow> campaign \<Rightarrow> campaign" where
  "set_campaign q c = c\<lparr>cp_name := keep (cu_name q) (cp_name c), cp_campaign_type := keep (cu_campaign_type q) (cp_campaign_type c),
     cp_status := keep (cu_status q) (cp_status c), cp_message_content := or_else (cu_message_content q) (cp_message_content c),
     cp_email_subject := or_else (cu_email_subject q) (cp_email_subject c), cp_email_content := or_else (cu_email_content q) (cp_email_content c),
     cp_target_filters := or_else (cu_target_filters q) (cp_target_filters c), cp_scheduled_date := or_else (cu_scheduled_date q) (cp_scheduled_date c),
     cp_notes := or_else (cu_notes q) (cp_notes c)\<rparr>"

definition change_campaign :: "CampaignStatus list \<Rightarrow> string \<Rightarrow> int \<Rightarrow> int \<Rightarrow> (campaign \<Rightarrow> campaign) \<Rightarrow> office \<Rightarrow> (exn + campaign option) \<times> office" where
  "change_campaign allowed msg org i f s =
     (case campaign_by_id org i (cur s) of
        None \<Rightarrow> (Inr None, s)
      | Some c \<Rightarrow> if cp_status c \<notin> set allowed then (Inl (Exn ''ValueError'' msg), s)
                  else store cp_id campaign_table_update campaign_row_error (f c) s)"

definition update_campaign :: "int \<Rightarrow> int \<Rightarrow> campaign_update \<Rightarrow> office \<Rightarrow> (exn + campaign option) \<times> office" where
  "update_campaign org i q = change_campaign [CampDraft, CampScheduled] ''Can only update draft or scheduled campaigns'' org i (set_campaign q)"

definition delete_campaign :: "int \<Rightarrow> int \<Rightarrow> office \<Rightarrow> (exn + bool) \<times> office" where
  "delete_campaign org i s =
     (case campaign_by_id org i (cur s) of
        None \<Rightarrow> (Inr False, s)
      | Some c \<Rightarrow> if cp_status c \<noteq> CampDraft then (Inl (Exn ''ValueError'' ''Can only delete draft campaigns''), s)
                  else (Inr True, remove cp_id campaign_table_update i s))"

definition pause_campaign :: "int \<Rightarrow> int \<Rightarrow> office \<Rightarrow> (exn + campaign option) \<times> office" where
  "pause_campaign org i = change_campaign [CampActive] ''Can only pause active campaigns'' org i (cp_status_update (\<lambda>_. CampPaused))"

definition resume_campaign :: "int \<Rightarrow> int \<Rightarrow> office \<Rightarrow> (exn + campaign option) \<times> office" where
  "resume_campaign org i = change_campaign [CampPaused] ''Can only resume paused campaigns'' org i (cp_status_update (\<lambda>_. CampActive))"

definition percentage :: "int \<Rightarrow> int \<Rightarrow> rat" where
  \<comment> \<open>before rounding to two places\<close>
  "percentage n whole = (if whole > 0 then of_int n / of_int whole * 100 else 0)"

record campaign_analytics =
  ca_recipients_count :: int
  ca_sent_count :: int
  ca_delivered_count :: int
  ca_failed_count :: int
  ca_opened_count :: int
  ca_clicked_count :: int
  ca_delivery_rate :: rat
  ca_open_rate :: rat
  ca_click_rate :: rat

definition get_campaign_analytics :: "int \<Rightarrow> int \<Rightarrow> office_db \<Rightarrow> campaign_analytics option" where
  "get_campaign_analytics org i d =
     map_option (\<lambda>c. \<lparr>ca_recipients_count = cp_recipients_count c, ca_sent_count = cp_sent_count c, ca_delivered_count = cp_delivered_count c,
       ca_failed_count = cp_failed_count c, ca_opened_count = cp_opened_count c, ca_clicked_count = cp_clicked_count c,
       ca_delivery_rate = percentage (cp_delivered_count c) (cp_sent_count c), ca_open_rate = percentage (cp_opened_count c) (cp_delivered_count c),
       ca_click_rate = percentage (cp_clicked_count c) (cp_opened_count c)\<rparr>) (campaign_by_id org i d)"

section \<open>Support tickets\<close>

record ticket_create =
  tc_user_id :: int
  tc_subject :: string
  tc_description :: string
  tc_priority :: TicketPriority
  tc_category :: "string option"
  tc_tags :: "string option"
  tc_attachments :: "string option"

definition date_text :: "datetime \<Rightarrow> string" where
  \<comment> \<open>\<open>strftime("%Y%m%d")\<close>\<close>
  "date_text now = year_month now @ zfill 2 (str_nat (nat (civil_day (now div 86400000000))))"

definition generate_ticket_number :: "datetime \<Rightarrow> string \<Rightarrow> string" where
  \<comment> \<open>\<open>secrets.token_hex(3)\<close> is an argument\<close>
  "generate_ticket_number now token_hex = ''TKT-'' @ date_text now @ ''-'' @ upper_case token_hex"

definition ticket_row_error :: "ticket \<Rightarrow> office_db \<Rightarrow> exn option" where
  "ticket_row_error t d =
     (if length (tk_ticket_number t) > 50 \<or> length (tk_subject t) > 200 \<or> \<not> fits 50 (tk_category t) \<or> \<not> fits 200 (tk_tags t) then Some FieldError
      else if \<exists>x \<in> set (ticket_table d). tk_id x \<noteq> tk_id t \<and> tk_ticket_number x = tk_ticket_number t then Some (IntegrityError ''ticket_number'')
      else if \<not> (tenant_exists (tk_organization_id t) d \<and> user_exists (tk_user_id t) d \<and> user_ref (tk_assigned_to t) d) then Some ForeignKeyError
      else None)"

abbreviation ticket_by_id :: "int \<Rightarrow> int \<Rightarrow> office_db \<Rightarrow> ticket option" where
  "ticket_by_id org i d \<equiv> find_own tk_id tk_organization_id org i (ticket_table d)"

definition get_all_tickets ::
    "int \<Rightarrow> PaginationParams \<Rightarrow> TicketStatus option \<Rightarrow> TicketPriority option \<Rightarrow> int option \<Rightarrow> int option \<Rightarrow> string option \<Rightarrow> string option \<Rightarrow> office_db
     \<Rightarrow> ticket listing" where
  "get_all_tickets org pg status priority user_id assigned_to category search d =
     paginate tk_created_at pg (filter (\<lambda>t. tk_organization_id t = org \<and> (status \<noteq> None \<longrightarrow> Some (tk_status t) = status) \<and>
       (priority \<noteq> None \<longrightarrow> Some (tk_priority t) = priority) \<and> opt_filter user_id (Some (tk_user_id t)) \<and> opt_filter assigned_to (tk_assigned_to t) \<and>
       search_any category [tk_category t] \<and>
       search_any search [Some (tk_ticket_number t), Some (tk_subject t), Some (tk_description t)]) (ticket_table d))"

definition new_ticket :: "datetime \<Rightarrow> int \<Rightarrow> int \<Rightarrow> string \<Rightarrow> ticket_create \<Rightarrow> ticket" where
  "new_ticket now i org number q =
     \<lparr>tk_id = i, tk_organization_id = org, tk_user_id = tc_user_id q, tk_assigned_to = None, tk_ticket_number = number, tk_subject = tc_subject q,
      tk_description = tc_description q, tk_status = TktOpen, tk_priority = tc_priority q, tk_category = tc_category q, tk_tags = tc_tags q,
      tk_resolution = None, tk_resolved_at = None, tk_closed_at = None, tk_attachments = tc_attachments q, tk_created_at = now\<rparr>"

definition insert_ticket :: "ticket \<Rightarrow> office \<Rightarrow> (exn + ticket) \<times> office" where
  "insert_ticket t s =
     (case ticket_row_error t (cur s) of
        Some e \<Rightarrow> (Inl e, rollback s)
      | None \<Rightarrow> (Inr t, commit (on_db (\<lambda>d. d\<lparr>ticket_table := ticket_table d @ [t], ticket_seq := ticket_seq d + 1\<rparr>) s)))"

definition create_ticket :: "datetime \<Rightarrow> string \<Rightarrow> int \<Rightarrow> ticket_create \<Rightarrow> office \<Rightarrow> (exn + ticket) \<times> office" where
  "create_ticket now token_hex org q s = insert_ticket (new_ticket now (ticket_seq (cur s)) org (generate_ticket_number now token_hex) q) s"

record ticket_update =
  tu_subject :: "string option"
  tu_description :: "string option"
  tu_category :: "string option"
  tu_priority :: "TicketPriority option"
  tu_tags :: "string option"
  tu_attachments :: "string option"

definition set_ticket :: "ticket_update \<Rightarrow> ticket \<Rightarrow> ticket" where
  "set_ticket q t = t\<lparr>tk_subject := keep (tu_subject q) (tk_subject t), tk_description := keep (tu_description q) (tk_description t),
     tk_category := or_else (tu_category q) (tk_category t), tk_priority := keep (tu_priority q) (tk_priority t),
     tk_tags := or_else (tu_tags q) (tk_tags t), tk_attachments := or_else (tu_attachments q) (tk_attachments t)\<rparr>"

abbreviation store_ticket :: "ticket \<Rightarrow> office \<Rightarrow> (exn + ticket option) \<times> office" where
  "store_ticket \<equiv> store tk_id ticket_table_update ticket_row_error"

definition change_ticket :: "int \<Rightarrow> int \<Rightarrow> (ticket \<Rightarrow> ticket) \<Rightarrow> office \<Rightarrow> (exn + ticket option) \<times> office" where
  "change_ticket org i f s = (case ticket_by_id org i (cur s) of None \<Rightarrow> (Inr None, s) | Some t \<Rightarrow> store_ticket (f t) s)"

definition update_ticket :: "int \<Rightarrow> int \<Rightarrow> ticket_update \<Rightarrow> office \<Rightarrow> (exn + ticket option) \<times> office" where
  "update_ticket org i q = change_ticket org i (set_ticket q)"

definition assign_ticket :: "int \<Rightarrow> int \<Rightarrow> int \<Rightarrow> office \<Rightarrow> (exn + ticket option) \<times> office" where
  "assign_ticket org i assigned_to = change_ticket org i
     (\<lambda>t. t\<lparr>tk_assigned_to := Some assigned_to, tk_status := (if tk_status t = TktOpen then TktInProgress else tk_status t)\<rparr>)"

definition insert_message :: "datetime \<Rightarrow> int \<Rightarrow> int \<Rightarrow> string \<Rightarrow> bool \<Rightarrow> string option \<Rightarrow> office \<Rightarrow> (exn + ticket_message) \<times> office" where
  "insert_message now i uid msg is_internal attachments s =
     (let m = \<lparr>tm_id = message_seq (cur s), tm_ticket_id = i, tm_user_id = uid, tm_message = msg, tm_is_internal = is_internal,
               tm_attachments = attachments, tm_created_at = now\<rparr>
      in if \<not> (user_exists uid (cur s) \<and> tbl_get tk_id i (ticket_table (cur s)) \<noteq> None) then (Inl ForeignKeyError, rollback s)
         else (Inr m, commit (on_db (\<lambda>d. d\<lparr>message_table := message_table d @ [m], message_seq := message_seq d + 1\<rparr>) s)))"

definition add_message :: "datetime \<Rightarrow> int \<Rightarrow> int \<Rightarrow> int \<Rightarrow> string \<Rightarrow> bool \<Rightarrow> string option \<Rightarrow> office \<Rightarrow> (exn + ticket_message option) \<times> office" where
  "add_message now org uid i msg is_internal attachments s =
     (case ticket_by_id org i (cur s) of
        None \<Rightarrow> (Inr None, s)
      | Some _ \<Rightarrow> (case insert_message now i uid msg is_internal attachments s of (Inl e, s1) \<Rightarrow> (Inl e, s1) | (Inr m, s1) \<Rightarrow> (Inr (Some m), s1)))"

definition resolve_ticket :: "datetime \<Rightarrow> int \<Rightarrow> int \<Rightarrow> string \<Rightarrow> office \<Rightarrow> (exn + ticket option) \<times> office" where
  "resolve_ticket now org i resolution s =
     (case ticket_by_id org i (cur s) of
        None \<Rightarrow> (Inr None, s)
      | Some t \<Rightarrow> if tk_status t = TktClosed then (Inl (Exn ''ValueError'' ''Cannot resolve a closed ticket''), s)
                  else store_ticket (t\<lparr>tk_status := TktResolved, tk_resolution := Some resolution, tk_resolved_at := Some now\<rparr>) s)"

definition close_ticket :: "datetime \<Rightarrow> int \<Rightarrow> int \<Rightarrow> office \<Rightarrow> (exn + ticket option) \<times> office" where
  "close_ticket now org i = change_ticket org i (\<lambda>t. t\<lparr>tk_status := TktClosed, tk_closed_at := Some now\<rparr>)"

record ticket_statistics =
  ts_total :: nat
  ts_open :: nat
  ts_in_progress :: nat
  ts_resolved :: nat
  ts_closed :: nat
  ts_urgent :: nat

definition get_ticket_statistics :: "int \<Rightarrow> office_db \<Rightarrow> ticket_statistics" where
  "get_ticket_statistics org d =
     (let own = filter (\<lambda>t. tk_organization_id t = org) (ticket_table d); number = (\<lambda>st. length (filter (\<lambda>t. tk_status t = st) own))
      in \<lparr>ts_total = length own, ts_open = number TktOpen, ts_in_progress = number TktInProgress, ts_resolved = number TktResolved,
          ts_closed = number TktClosed,
          ts_urgent = length (filter (\<lambda>t. tk_priority t = UrgentPriority \<and> tk_status t \<in> {TktOpen, TktInProgress}) own)\<rparr>)"

end
