(* ===== verification/Request_Safety.thy ===== *)
theory Request_Safety
  imports Request_Guards
begin

text \<open>
  What the guards of a request achieve, and where they do not: the tenant a user acts in, the token
  of a login, accounts that were switched off, changes of the role, and the limits of a plan.
\<close>

section \<open>The user behind a local token\<close>

definition holds_token :: "auth_env \<Rightarrow> datetime \<Rightarrow> http_request \<Rightarrow> int \<Rightarrow> bool" where
  \<comment> \<open>the request carries a local token of the user \<open>i\<close>\<close>
  "holds_token env now r i \<longleftrightarrow> truthy (hr_bearer r) \<and> 0 < i \<and>
     (case verify_token (ae_jwt env) now (the (hr_bearer r)) ''access'' of Inr (Some td) \<Rightarrow> td_user_id td = i | _ \<Rightarrow> False)"

lemma current_user_of_token:
  assumes "holds_token env now r i" "tbl_get usr_id i (users (cur s)) = Some u"
  shows "get_current_user env now r s = Some (Inr u, s)"
  using assms by (auto simp: holds_token_def get_current_user_def user_of_token_def local_user_def user_by_id_def split: sum.splits option.splits)

lemma admin_request:
  assumes "holds_token env now r i" "tbl_get usr_id i (users (cur s)) = Some u" "require_admin u = None"
  shows "guarded_by env now r (\<lambda>u _. require_admin u) handler s = Some (handler u s)"
  using assms(3) by (simp add: guarded_by_def current_user_of_token [OF assms(1,2)])

lemma change_user_eq:
  assumes "0 < i" "tbl_get usr_id i (users (cur s)) = Some u"
  shows "change_user i f s = (Inr (Some (f u)), commit (on_db (users_update (tbl_upd usr_id i f)) s))"
  using assms by (simp add: change_user_def user_by_id_def)

lemma get_changed_user:
  assumes "tbl_get usr_id i (users (cur s)) = Some u" "\<And>x. usr_id (f x) = usr_id x"
  shows "tbl_get usr_id i (users (cur (commit (on_db (users_update (tbl_upd usr_id i f)) s)))) = Some (f u)"
  using assms by (simp add: tbl_get_tbl_upd)

section \<open>A user acts in its own tenant\<close>

text \<open>
   The guards of the tenant endpoints keep to the organisation of the account. Whatever tenant a request names, in any of
  its headers, its query or its host, each of the four guards that resolve the organisation for a user who is no platform owner
  gives the one of the account or refuses; the guard \<open>get_current_organization\<close> refuses in addition when it is
  suspended. Services that take the tenant of the request without these guards, such as billing and the desk for tickets,
  are not covered.
\<close>

theorem user_acts_in_own_tenant:
  assumes "usr_role u \<noteq> PlatformOwner"
  shows "(\<forall>g. get_current_organization ctx u d = Inr g \<longrightarrow>
      usr_organization_id u = Some (org_id g) \<and> g \<in> set (organizations d) \<and> org_status g \<noteq> OrgSuspended)
    \<and> (\<forall>i. get_org_id_for_query r u d = Inr i \<longrightarrow> usr_organization_id u = Some i)
    \<and> (\<forall>g. validate_user_org_access r u d = Inr g \<longrightarrow> usr_organization_id u = Some (org_id g))
    \<and> (\<forall>g. get_optional_organization u d = Some g \<longrightarrow> usr_organization_id u = Some (org_id g))"
proof -
  have row: "org_id g = i \<and> g \<in> set (organizations d)" if "tbl_get org_id i (organizations d) = Some g" for i g
    using tbl_get_Some [OF that] by simp
  have "usr_organization_id u = Some (org_id g) \<and> g \<in> set (organizations d) \<and> org_status g \<noteq> OrgSuspended"
    if "get_current_organization ctx u d = Inr g" for g
    using that assms row by (auto simp: get_current_organization_def organization_row_def not_suspended_def bind_exn_def truthy_int_def
      split: if_splits sum.splits option.splits)
  moreover have "usr_organization_id u = Some i" if "get_org_id_for_query r u d = Inr i" for i
    using that assms by (auto simp: get_org_id_for_query_def bind_exn_def truthy_int_def split: if_splits sum.splits option.splits)
  moreover have "usr_organization_id u = Some (org_id g)" if "validate_user_org_access r u d = Inr g" for g
    using that assms by (auto simp: validate_user_org_access_def bind_exn_def split: if_splits sum.splits)
  moreover have "usr_organization_id u = Some (org_id g)" if "get_optional_organization u d = Some g" for g
    using that assms row by (auto simp: get_optional_organization_def organization_of_def truthy_int_def split: if_splits option.splits)
  ultimately show ?thesis by blast
qed

section \<open>Tokens of a login\<close>

text \<open>
  C33. The tokens of a login stand for the user, and neither for the other. Until the access token expires, a request that
  carries it is served as the user who logged in, and it is no refresh token; the refresh token, as long as it is valid,
  gives a new pair, and a request that carries it in place of an access token is refused, unless it also has
  claims of the sign-on service; and so is one with an expired access token.
\<close>

theorem login_tokens_identify_user:
  assumes "login j c verify_password now limited name password s = (Inr a, s')" "jwt_documented j" "uniq usr_id (users (cur s))"
    "\<forall>u \<in> set (users (cur s)). 0 < usr_id u" "ae_jwt env = j" "hr_bearer r = Some (la_access_token a)" "la_access_token a \<noteq> []"
  shows "(later + seconds 1 \<le> now + minutes (access_token_expire_minutes c) \<longrightarrow> get_current_user env later r s' = Some (Inr (la_user a), s')
      \<and> refresh_token j c later (la_access_token a) (cur s') = Inl (Exn ''HTTPException'' ''401: Invalid refresh token''))
    \<and> (later + seconds 1 \<le> now + days (refresh_token_expire_days c) \<longrightarrow> (\<exists>ts. refresh_token j c later (la_refresh_token a) (cur s') = Inr ts)
      \<and> (\<forall>r'. hr_bearer r' = Some (la_refresh_token a) \<and> get_optional_sso_claims env later r' = None \<longrightarrow>
           get_current_user env later r' s' = Some (Inl NotAuthenticated, s')))
    \<and> (now + minutes (access_token_expire_minutes c) \<le> later \<and> get_optional_sso_claims env later r = None \<longrightarrow>
        get_current_user env later r s' = Some (Inl NotAuthenticated, s'))"
proof -
  obtain v where v: "v \<in> set (users (cur s))" "usr_is_active v"
    and a: "la_user a = v\<lparr>usr_last_login := Some now\<rparr>" "la_access_token a = fst (create_token_pair j c now (usr_id v) (usr_username v) (user_role_value (usr_role v)) None)"
      "la_refresh_token a = snd (create_token_pair j c now (usr_id v) (usr_username v) (user_role_value (usr_role v)) None)"
    and u: "users (cur s') = tbl_upd usr_id (usr_id v) (usr_last_login_update (\<lambda>_. Some now)) (users (cur s))"
    by (rule login_success [OF assms(1)])
  have p: "0 < usr_id v" using assms(4) v(1) by blast
  have "tbl_get usr_id (usr_id v) (users (cur s)) = Some v" by (rule uniq_tbl_get [OF assms(3) v(1)])
  then have g: "tbl_get usr_id (usr_id v) (users (cur s')) = Some (la_user a)" by (simp add: u a(1) tbl_get_tbl_upd)
  have act: "usr_is_active (la_user a)" using v(2) by (simp add: a(1))
  note acc = access_token_read [OF assms(2), of later now c "usr_id v" "usr_username v" "user_role_value (usr_role v)" None]
  note rfr = refresh_token_read [OF assms(2), of later now c "usr_id v" "usr_username v" "user_role_value (usr_role v)" None]
  have "get_current_user env later r s' = Some (Inr (la_user a), s') \<and>
      refresh_token j c later (la_access_token a) (cur s') = Inl (Exn ''HTTPException'' ''401: Invalid refresh token'')"
    if "later + seconds 1 \<le> now + minutes (access_token_expire_minutes c)"
  proof -
    have "holds_token env later r (usr_id v)" using p assms(5-7) acc [OF that, of "''access''"] by (simp add: holds_token_def a(2) truthy_def)
    from current_user_of_token [OF this g] show ?thesis using acc [OF that, of "''refresh''"] by (simp add: refresh_token_def a(2))
  qed
  moreover have "\<exists>ts. refresh_token j c later (la_refresh_token a) (cur s') = Inr ts" if "later + seconds 1 \<le> now + days (refresh_token_expire_days c)"
    using rfr [OF that, of "''refresh''"] g p act by (simp add: refresh_token_def a(3) user_by_id_def)
  moreover have "get_current_user env later r' s' = Some (Inl NotAuthenticated, s')"
    if "later + seconds 1 \<le> now + days (refresh_token_expire_days c)" "hr_bearer r' = Some (la_refresh_token a)"
      "get_optional_sso_claims env later r' = None" for r'
    using rfr [OF that(1), of "''access''"] that(2,3) assms(5) by (simp add: get_current_user_def user_of_token_def local_user_def a(3))
  moreover have "get_current_user env later r s' = Some (Inl NotAuthenticated, s')"
    if "now + minutes (access_token_expire_minutes c) \<le> later" "get_optional_sso_claims env later r = None"
    using expired_token_refused [OF assms(2) that(1), of "usr_id v" "usr_username v" "user_role_value (usr_role v)" None "''access''"] that(2) assms(5-7)
    by (simp add: get_current_user_def user_of_token_def local_user_def a(2) truthy_def)
  ultimately show ?thesis by blast
qed

section \<open>Accounts that were switched off\<close>

text \<open>
   A user who was deactivated loses the login but not the tenant. After the deactivation nobody
  can log in as the user, and the guards that ask for an active user refuse the token; but
  the guards of the tenant endpoints do not ask: an administrator still passes as the
  administrator of the organisation.
\<close>

theorem deactivated_admin_keeps_tenant_access:
  assumes "deactivate_user i s = (Inr (Some v), s')" "holds_token env now r i" "usr_role v = IspAdmin" "usr_organization_id v = Some (org_id g)"
    "org_id g \<noteq> 0" "g \<in> set (organizations (cur s))" "uniq org_id (organizations (cur s))" "org_status g \<noteq> OrgSuspended" "uniq usr_id (users (cur s))"
  shows "(\<forall>w. fst (authenticate_user verify_password later name password s') = Some w \<longrightarrow> usr_id w \<noteq> i)
    \<and> get_current_user env now r s' = Some (Inr v, s') \<and> require_admin v = Some (Exn ''HTTPException'' ''400: Inactive user'')
    \<and> require_isp_admin ctx v (cur s') = None \<and> get_current_organization ctx v (cur s') = Inr g"
proof -
  let ?f = "\<lambda>u. u\<lparr>usr_is_active := False, usr_status := UsrInactive\<rparr>"
  obtain u where u: "tbl_get usr_id i (users (cur s)) = Some u" "v = ?f u" "s' = commit (on_db (users_update (tbl_upd usr_id i ?f)) s)"
    using assms(1) by (auto simp: deactivate_user_def change_user_def user_by_id_def split: if_splits option.splits)
  have g: "tbl_get usr_id i (users (cur s')) = Some v" unfolding u(3) using get_changed_user [OF u(1), of ?f] by (simp add: u(2))
  have "usr_id w \<noteq> i" if "fst (authenticate_user verify_password later name password s') = Some w" for w
  proof -
    have "authenticate_user verify_password later name password s' = (Some w, snd (authenticate_user verify_password later name password s'))"
      using that by (simp add: prod_eq_iff)
    from authenticate_Some [OF this] obtain x where x: "x \<in> set (users (cur s'))" "usr_is_active x" "w = x\<lparr>usr_last_login := Some later\<rparr>" by blast
    from x(1) obtain y where y: "x = (if usr_id y = i then ?f y else y)" by (auto simp: u(3) in_tbl_upd)
    from x(2) have "usr_id y \<noteq> i" unfolding y by (cases "usr_id y = i") simp_all
    then show ?thesis by (simp add: x(3) y)
  qed
  moreover have "tbl_get org_id (org_id g) (organizations (cur s')) = Some g"
    using uniq_tbl_get [OF assms(7,6)] by (simp add: u(3))
  then have "get_current_organization ctx v (cur s') = Inr g"
    using assms(3-5,8) by (simp add: get_current_organization_def organization_row_def not_suspended_def truthy_int_def)
  moreover have "require_admin v = Some (Exn ''HTTPException'' ''400: Inactive user'')"
    by (simp add: u(2) require_admin_def active_with_role_def get_current_active_user_def)
  ultimately show ?thesis using current_user_of_token [OF assms(2) g] assms(3)
    by (simp add: require_isp_admin_def require_in_tenant_def)
qed

section \<open>Changes of the role\<close>

text \<open>
  C35. An administrator of any provider can become the owner of the platform. The endpoint that
  changes a role asks for an administrator and looks neither at the tenant of the changed
  user nor at the role that is given. The administrator gives it to the own account; the next
  request with the same token passes as a platform owner, in any organisation it names.
\<close>

theorem isp_admin_becomes_platform_owner:
  assumes "holds_token env now r i" "tbl_get usr_id i (users (cur s)) = Some u" "usr_role u = IspAdmin" "usr_is_active u"
    "holds_token env later r2 i" "tenant_context env later r2 (cur s) = Inr (ctx, t)" "ctx = Some (org_id g)" "org_id g \<noteq> 0"
    "g \<in> set (organizations (cur s))" "uniq org_id (organizations (cur s))" "org_status g \<noteq> OrgSuspended"
  shows "\<exists>u' s'. update_user_role_request env now r i PlatformOwner s = Some (Inr u', s') \<and> get_current_user env later r2 s' = Some (Inr u', s')
    \<and> tenant_context env later r2 (cur s') = Inr (ctx, t) \<and> require_platform_owner u' = None \<and> require_isp_admin ctx u' (cur s') = None
    \<and> get_current_organization ctx u' (cur s') = Inr g"
proof -
  let ?f = "usr_role_update (\<lambda>_. PlatformOwner)"
  let ?s = "commit (on_db (users_update (tbl_upd usr_id i ?f)) s)"
  have "0 < i" using assms(1) by (simp add: holds_token_def)
  moreover have "require_admin u = None" using assms(3,4) by (simp add: require_admin_def active_with_role_def get_current_active_user_def)
  ultimately have run: "update_user_role_request env now r i PlatformOwner s = Some (Inr (?f u), ?s)"
    by (simp add: update_user_role_request_def admin_request [OF assms(1,2)] update_user_role_def change_user_eq [OF _ assms(2)] found_or_404_def)
  have orgs: "organizations (cur ?s) = organizations (cur s)" by simp
  then have "tenant_context env later r2 (cur ?s) = tenant_context env later r2 (cur s)"
    by (simp only: tenant_context_def resolve_tenant_def resolve_by_slugs_def resolve_from_uuid_def lookup_by_slug_def lookup_by_domain_def
      resolve_from_subdomain_def resolve_from_custom_domain_def)
  moreover have "tbl_get org_id (org_id g) (organizations (cur ?s)) = Some g" using uniq_tbl_get [OF assms(10,9)] by simp
  then have "get_current_organization ctx (?f u) (cur ?s) = Inr g"
    using assms(7,8,11) by (simp add: get_current_organization_def organization_row_def not_suspended_def truthy_int_def)
  moreover have "get_current_user env later r2 ?s = Some (Inr (?f u), ?s)"
    by (rule current_user_of_token [OF assms(5) get_changed_user [OF assms(2)]]) simp
  ultimately show ?thesis using run assms(6) by (simp add: require_platform_owner_def require_isp_admin_def require_in_tenant_def)
qed

text \<open>Any administrator gets a token of any account, that of a platform owner included, for a year.\<close>

lemma api_token_of_anyone:
  assumes "holds_token env now r i" "tbl_get usr_id i (users (cur s)) = Some u" "usr_role u = IspAdmin" "usr_is_active u"
    "tbl_get usr_id k (users (cur s)) = Some v" "0 < k" "jwt_documented (ae_jwt env)" "later + seconds 1 \<le> now + days 365"
    "api_token_of (ae_jwt env) c now v \<noteq> []"
  shows "\<exists>t. generate_api_token_request env c now r k s = Some (Inr t, s) \<and> holds_token env later (r\<lparr>hr_bearer := Some t\<rparr>) k"
proof -
  have "usr_id v = k" using tbl_get_Some [OF assms(5)] by simp
  have "require_admin u = None" using assms(3,4) by (simp add: require_admin_def active_with_role_def get_current_active_user_def)
  then have "generate_api_token_request env c now r k s = Some (Inr (api_token_of (ae_jwt env) c now v), s)"
    using assms(5,6) by (simp add: generate_api_token_request_def admin_request [OF assms(1,2)] user_by_id_def found_or_404_def)
  moreover have "days 365 \<noteq> 0" by (simp add: days_def seconds_def)
  then have "holds_token env later (r\<lparr>hr_bearer := Some (api_token_of (ae_jwt env) c now v)\<rparr>) k"
    using signed_read [OF assms(7), of "no_payload\<lparr>jp_sub := Some (str_int (usr_id v)), jp_username := Some (usr_username v),
        jp_role := Some (user_role_value (usr_role v)), jp_organization_id := usr_organization_id v, jp_exp := now + days 365,
        jp_type := Some ''access''\<rparr>" later] assms(6,8,9) \<open>usr_id v = k\<close>
    by (auto simp: holds_token_def api_token_of_def create_access_token_def truthy_int_def truthy_def verify_token_def no_payload_def)
  ultimately show ?thesis by blast
qed

section \<open>Limits of a plan\<close>

definition settled :: "dbs \<Rightarrow> bool" where
  "settled s \<longleftrightarrow> routers (cur s) = routers (saved s) \<and> subscriptions (cur s) = subscriptions (saved s)"

definition same_counts :: "dbs \<Rightarrow> dbs \<Rightarrow> bool" where
  "same_counts s s1 \<longleftrightarrow> settled s1 \<and> routers (cur s1) = routers (cur s) \<and> subscriptions (cur s1) = subscriptions (cur s)"

lemma provision_frame: "provision_sso_user du tok now claims s = Some (res, s1) \<Longrightarrow> settled s \<Longrightarrow> same_counts s s1"
  by (auto simp: provision_sso_user_def link_sso_user_def create_sso_user_def Let_def settled_def same_counts_def split: if_splits sum.splits option.splits)

lemma current_user_frame: "get_current_user env now r s = Some (res, s1) \<Longrightarrow> settled s \<Longrightarrow> same_counts s s1"
  using provision_frame by (auto simp: get_current_user_def user_of_token_def same_counts_def split: if_splits option.splits)

lemma guarded_by_cases:
  assumes "guarded_by env now r guard handler s = Some (res, s')" "settled s"
  shows "same_counts s s' \<or> (\<exists>u s1. get_current_user env now r s = Some (Inr u, s1) \<and> same_counts s s1 \<and> guard u (cur s1) = None \<and> handler u s1 = (res, s'))"
proof -
  obtain x s1 where u: "get_current_user env now r s = Some (x, s1)"
    using assms(1) by (cases "get_current_user env now r s") (auto simp: guarded_by_def)
  from current_user_frame [OF this assms(2)] have "same_counts s s1" .
  then show ?thesis using assms(1) u by (cases x) (auto simp: guarded_by_def split: option.splits)
qed

lemma bad_request_state: "bad_request cs (x, t) = (res, s') \<Longrightarrow> s' = t"
  by (auto simp: bad_request_def split: sum.splits)

definition limited_to :: "int \<Rightarrow> auth_env \<Rightarrow> datetime \<Rightarrow> http_request \<Rightarrow> int \<Rightarrow> dbs \<Rightarrow> bool" where
  \<comment> \<open>a request of a user of the tenant \<open>org\<close> carries claims with the limit \<open>n\<close>\<close>
  "limited_to n env now r org s \<longleftrightarrow>
     (\<forall>u s1. get_current_user env now r s = Some (Inr u, s1) \<longrightarrow> usr_organization_id u = Some org \<longrightarrow>
        usr_role u \<noteq> PlatformOwner \<and> \<not> is_internal_service_request env r \<and>
        (\<exists>cl v. get_optional_sso_claims env now r = Some cl \<and> \<not> claims_is_exempt cl \<and> resolve_limit env ''max_routers'' cl = Inr v \<and> limit_int v = Some n))"

inductive router_request_step :: "auth_env \<Rightarrow> int \<Rightarrow> int \<Rightarrow> dbs \<Rightarrow> dbs \<Rightarrow> bool" for env n org where
  "create_router_request env is_ip credentials now r q s = Some (res, s') \<Longrightarrow> limited_to n env now r org s \<Longrightarrow> router_request_step env n org s s'"

lemma create_router_rows:
  assumes "create_router is_ip now org q s = (res, s')" "settled s"
  shows "settled s' \<and> (routers (cur s') = routers (cur s) \<or> (\<exists>y. rt_organization_id y = org \<and> routers (cur s') = routers (cur s) @ [y]))"
  using assms by (auto simp: create_router_def Let_def row_defs new_router_def settled_def split: if_splits sum.splits option.splits)

lemma router_request_keeps:
  assumes "create_router_request env is_ip credentials now r q s = Some (res, s')" "limited_to n env now r org s" "settled s" "0 < n"
    "count_routers (Some org) (cur s) \<le> n"
  shows "settled s' \<and> count_routers (Some org) (cur s') \<le> n"
proof -
  have c: "count_routers (Some org) (cur t) = count_routers (Some org) (cur s)" if "routers (cur t) = routers (cur s)" for t
    using that by (simp add: count_routers_def)
  from guarded_by_cases [OF assms(1) [unfolded create_router_request_def] assms(3)] show ?thesis
  proof (elim disjE exE conjE)
    assume "same_counts s s'"
    then show ?thesis using c [of s'] assms(5) by (simp add: same_counts_def)
  next
    fix u s1
    assume u: "get_current_user env now r s = Some (Inr u, s1)" and s1: "same_counts s s1"
      and g: "first_error [enforce_plan_limit env now ''max_routers'' count_routers r u (cur s1), require_technician_or_admin u] = None"
      and h: "bad_request [''ValidationError'', ''RouterOperationError'', ''ValueError''] (create_router is_ip now (usr_organization_id u)
        (q\<lparr>rq_username := fst credentials, rq_password := snd credentials\<rparr>) s1) = (res, s')"
    obtain x t where x: "create_router is_ip now (usr_organization_id u) (q\<lparr>rq_username := fst credentials, rq_password := snd credentials\<rparr>) s1 = (x, t)"
      by (metis surj_pair)
    have "s' = t" using bad_request_state h unfolding x by metis
    with create_router_rows [OF x] s1 have t: "settled s'" "routers (cur s') = routers (cur s) \<or>
        (\<exists>y. rt_organization_id y = usr_organization_id u \<and> routers (cur s') = routers (cur s) @ [y])" by (auto simp: same_counts_def)
    have "count_routers (Some org) (cur s) < n" if own: "usr_organization_id u = Some org"
    proof -
      obtain cl v where cl: "usr_role u \<noteq> PlatformOwner" "\<not> is_internal_service_request env r" "get_optional_sso_claims env now r = Some cl"
          "\<not> claims_is_exempt cl" "resolve_limit env ''max_routers'' cl = Inr v" "limit_int v = Some n"
        using assms(2) u own unfolding limited_to_def by blast
      have "enforce_plan_limit env now ''max_routers'' count_routers r u (cur s1) = None"
        using g by (auto simp: first_error_def split: if_splits list.splits)
      then have "count_routers (Some org) (cur s1) < n" using cl own assms(4) by (simp add: enforce_plan_limit_def split: if_splits)
      then show ?thesis using s1 c [of s1] by (simp add: same_counts_def)
    qed
    with t assms(5) show ?thesis by (auto simp: count_routers_def)
  qed
qed

text \<open>
  C34. The number of routers of a provider stays within its plan where the limit is enforced. As long as every request of its
  users carries claims of the sign-on service that are not exempt and hold the limit, over every sequence of requests to create a
  router, by users of this and of any other tenant, the routers of the provider in the
  committed database never become more than the limit. Requests without such claims are let through by design.
\<close>

theorem router_limit_is_kept:
  assumes "(router_request_step env n org)\<^sup>*\<^sup>* s s'" "settled s" "0 < n" "count_routers (Some org) (cur s) \<le> n"
  shows "count_routers (Some org) (saved s') \<le> n"
proof -
  have "settled s' \<and> count_routers (Some org) (cur s') \<le> n" using assms
    by (induction rule: rtranclp_induct) (auto elim!: router_request_step.cases dest: router_request_keeps)
  then show ?thesis by (metis settled_def count_routers_def)
qed

section \<open>A limit that is never reached\<close>

lemma create_subscription_rows:
  assumes "create_subscription now uid pid rid ty n pw a b ren cb nt s = (res, s')" "settled s"
  shows "settled s' \<and> (subscriptions (cur s') = subscriptions (cur s) \<or> (\<exists>y. sub_organization_id y = None \<and> subscriptions (cur s') = subscriptions (cur s) @ [y]))"
  using assms by (auto simp: create_subscription_def new_subscription_def log_subscription_action_def Let_def row_defs settled_def
    split: if_splits sum.splits option.splits)

lemma subscription_request_keeps:
  assumes "create_subscription_request env now r q s = Some (res, s')" "settled s"
  shows "settled s' \<and> count_subscriptions (Some org) (cur s') = count_subscriptions (Some org) (cur s)"
proof (cases "enforce_subscription_active env now r")
  case None
  show ?thesis
    using guarded_by_cases [OF assms(1) [unfolded create_subscription_request_def None option.case] assms(2)]
  proof (elim disjE exE conjE)
    assume "same_counts s s'"
    then show ?thesis by (simp add: same_counts_def count_subscriptions_def)
  next
    fix u s1
    assume s1: "same_counts s s1" and h: "bad_request [''ValueError''] (create_subscription now (sc_user_id q) (sc_plan_id q) (sc_router_id q)
      (sc_subscription_type q) (sc_username q) (sc_password q) (sc_start_date q) (sc_end_date q) (sc_is_auto_renewal q) (Some (usr_id u)) (sc_notes q) s1) = (res, s')"
    obtain x t where x: "create_subscription now (sc_user_id q) (sc_plan_id q) (sc_router_id q)
      (sc_subscription_type q) (sc_username q) (sc_password q) (sc_start_date q) (sc_end_date q) (sc_is_auto_renewal q) (Some (usr_id u)) (sc_notes q) s1 = (x, t)"
      by (metis surj_pair)
    have "s' = t" using bad_request_state h unfolding x by metis
    with create_subscription_rows [OF x] s1 show ?thesis by (auto simp: same_counts_def count_subscriptions_def)
  qed
qed (use assms in \<open>simp add: create_subscription_request_def\<close>)

inductive subscription_request_step :: "auth_env \<Rightarrow> dbs \<Rightarrow> dbs \<Rightarrow> bool" for env where
  "create_subscription_request env now r q s = Some (res, s') \<Longrightarrow> subscription_request_step env s s'"

text \<open>
   The limit on customers does not limit anything. The gate counts the subscriptions of the
  tenant by a column that creating a subscription leaves empty: however many subscriptions
  are created through the endpoint, the count of every tenant stays as it was, and a request
  that the gate let through is let through again.
\<close>

theorem customer_limit_never_binds:
  assumes "(subscription_request_step env)\<^sup>*\<^sup>* s s'" "settled s" "usr_organization_id u = Some org"
  shows "count_subscriptions (Some org) (cur s') = count_subscriptions (Some org) (cur s)
    \<and> enforce_plan_limit env now ''max_customers'' count_subscriptions r u (cur s') = enforce_plan_limit env now ''max_customers'' count_subscriptions r u (cur s)"
proof -
  have "settled s' \<and> count_subscriptions (Some org) (cur s') = count_subscriptions (Some org) (cur s)" (is "_ \<and> ?eq") using assms(1,2)
    by (induction rule: rtranclp_induct) (auto elim!: subscription_request_step.cases dest: subscription_request_keeps [where org = org])
  then have eq: ?eq by blast
  show ?thesis unfolding enforce_plan_limit_def assms(3) eq by simp
qed

text \<open>The gate on the subscription of a provider lets reads pass, and other requests with claims only while it is active.\<close>

lemma subscription_gate:
  assumes "get_optional_sso_claims env now r = Some cl" "\<not> claims_is_exempt cl" "\<not> is_internal_service_request env r"
  shows "enforce_subscription_active env now r = None \<longleftrightarrow>
    upper_case (hr_method r) \<in> {''GET'', ''HEAD'', ''OPTIONS''} \<or> upper_case (strip (or_str (cl_sub_status cl) [])) = ''ACTIVE''"
  using assms by (simp add: enforce_subscription_active_def)

section \<open>The theorems at a concrete input\<close>

definition settings1 :: token_settings where
  "settings1 = \<lparr>access_token_expire_minutes = 30, refresh_token_expire_days = 7\<rparr>"

definition claims1 :: request_claims where
  "claims1 = \<lparr>cl_sub = None, cl_email = Some (usr_email user0), cl_full_name = None, cl_roles = [''admin''], cl_tenant_id = None,
     cl_tenant_slug = None, cl_is_platform_owner = False, cl_is_demo = False, cl_billing_mode = None, cl_sub_status = Some ''active'',
     cl_sub_limits = [(''max_routers'', LInt 1)]\<rparr>"

definition auth1 :: auth_env where
  "auth1 = \<lparr>ae_jwt = jwt0, ae_sso_header = (\<lambda>t. t = ''sso''), ae_sso_decode = (\<lambda>_ _. Some claims1), ae_driver_uuid = (\<lambda>_. None),
     ae_uuid = (\<lambda>_. None), ae_random_token = ''x'', ae_internal_service_key = None, ae_subscription_limits = (\<lambda>_. Inr None)\<rparr>"

definition request1 :: "string \<Rightarrow> http_request" where
  "request1 t = \<lparr>hr_method = ''POST'', hr_path = ''/api/v1/x'', hr_bearer = Some t, hr_authorization = Some (''bearer '' @ t), hr_tenant_id = Some ''2'',
     hr_org_slug = None, hr_query_slug = None, hr_organization_slug = None, hr_api_key = None, hr_host = []\<rparr>"

definition guards_db :: db where
  "guards_db = empty_db\<lparr>users := [user0\<lparr>usr_role := IspAdmin\<rparr>], user_seq := 2,
     organizations := [org0, org0\<lparr>org_id := 2, org_slug := ''two''\<rparr>],
     org_settings := [settings0\<lparr>os_winbox_port_end := 51001\<rparr>]\<rparr>"

definition token1 :: string where
  "token1 = fst (create_token_pair jwt0 settings1 0 1 ''joe'' ''isp_admin'' None)"

lemma guards_db_simps:
  "users guards_db = [user0\<lparr>usr_role := IspAdmin\<rparr>]" "organizations guards_db = [org0, org0\<lparr>org_id := 2, org_slug := ''two''\<rparr>]"
  by (simp_all add: guards_db_def)

lemma sign0_nonempty: "jwt_encode jwt0 p \<noteq> []"
  by (simp add: jwt0_def sign0_def put_opt_def split: option.split)

lemma token1_held: "holds_token auth1 0 (request1 token1) 1"
proof -
  have "verify_token jwt0 0 token1 ''access'' = Inr (Some \<lparr>td_user_id = 1, td_username = ''joe'', td_role = Some ''isp_admin'', td_organization_id = None\<rparr>)"
    using access_token_read [OF jwt0_documented, of 0 0 settings1 1 "''joe''" "''isp_admin''" None "''access''"]
    by (simp add: token1_def settings1_def minutes_def seconds_def)
  moreover have "token1 \<noteq> []" by (simp add: token1_def create_token_pair_def create_access_token_def sign0_nonempty Let_def)
  ultimately show ?thesis by (simp add: holds_token_def request1_def auth1_def truthy_def)
qed

theorem user_acts_in_own_tenant_witness:
  "get_current_organization (Some 2) (user0\<lparr>usr_role := IspAdmin\<rparr>) guards_db = Inr org0 \<and> usr_organization_id user0 = Some (org_id org0)"
proof -
  have g: "get_current_organization (Some 2) (user0\<lparr>usr_role := IspAdmin\<rparr>) guards_db = Inr org0"
    by (simp add: get_current_organization_def organization_row_def not_suspended_def guards_db_simps user0_def org0_def truthy_int_def tbl_get_def)
  then show ?thesis using user_acts_in_own_tenant [of "user0\<lparr>usr_role := IspAdmin\<rparr>" "Some 2" guards_db] by simp
qed

theorem login_tokens_identify_user_witness:
  "\<exists>a s'. login jwt0 settings1 (=) 0 False (usr_username user0) (usr_hashed_password user0) (fresh guards_db) = (Inr a, s') \<and>
     get_current_user auth1 0 (request1 (la_access_token a)) s' = Some (Inr (la_user a), s')"
proof -
  let ?l = "login jwt0 settings1 (=) 0 False (usr_username user0) (usr_hashed_password user0) (fresh guards_db)"
  obtain a s' where a: "?l = (Inr a, s')"
    by (simp add: login_def authenticate_user_def guards_db_simps user0_def create_token_pair_def Let_def)
  moreover have "la_access_token a \<noteq> []"
    by (rule login_success [OF a]) (simp add: create_token_pair_def create_access_token_def sign0_nonempty Let_def)
  ultimately show ?thesis
    using login_tokens_identify_user [OF a jwt0_documented, of auth1 "request1 (la_access_token a)" 0]
    by (simp add: guards_db_simps uniq_def user0_def auth1_def request1_def settings1_def minutes_def seconds_def)
qed

theorem deactivated_admin_keeps_tenant_access_witness:
  "\<exists>v s'. deactivate_user 1 (fresh guards_db) = (Inr (Some v), s') \<and> get_current_user auth1 0 (request1 token1) s' = Some (Inr v, s') \<and>
     \<not> usr_is_active v \<and> require_isp_admin None v (cur s') = None"
proof -
  let ?v = "user0\<lparr>usr_role := IspAdmin, usr_is_active := False, usr_status := UsrInactive\<rparr>"
  obtain s' where s': "deactivate_user 1 (fresh guards_db) = (Inr (Some ?v), s')"
    by (simp add: deactivate_user_def change_user_def user_by_id_def guards_db_simps user0_def tbl_get_def)
  then show ?thesis
    using deactivated_admin_keeps_tenant_access [OF s' token1_held, of org0]
    by (simp add: guards_db_simps user0_def org0_def uniq_def)
qed

theorem isp_admin_becomes_platform_owner_witness:
  "\<exists>u' s'. update_user_role_request auth1 0 (request1 token1) 1 PlatformOwner (fresh guards_db) = Some (Inr u', s') \<and>
     require_platform_owner u' = None \<and> (\<exists>g. get_current_organization (Some 2) u' (cur s') = Inr g \<and> org_id g = 2)"
proof -
  have "parse_int ''2'' = Some 2" "\<not> under EXEMPT_PATHS ''/api/v1/x''" "\<not> under PORTAL_PATHS ''/api/v1/x''" by code_simp+
  then have tc: "tenant_context auth1 0 (request1 token1) (cur (fresh guards_db)) = Inr (Some 2, None)"
    by (simp add: tenant_context_def resolve_tenant_def resolve_from_jwt_def or_then_def request1_def truthy_def truthy_int_def)
  let ?g = "org0\<lparr>org_id := 2, org_slug := ''two''\<rparr>" and ?u = "user0\<lparr>usr_role := IspAdmin\<rparr>"
  have u: "tbl_get usr_id 1 (users (cur (fresh guards_db))) = Some ?u" "usr_role ?u = IspAdmin" "usr_is_active ?u"
    by (simp_all add: guards_db_simps tbl_get_def user0_def)
  have g: "Some 2 = Some (org_id ?g)" "org_id ?g \<noteq> 0" "?g \<in> set (organizations (cur (fresh guards_db)))"
      "uniq org_id (organizations (cur (fresh guards_db)))" "org_status ?g \<noteq> OrgSuspended"
    by (simp_all add: guards_db_simps org0_def uniq_def)
  from isp_admin_becomes_platform_owner [OF token1_held u token1_held tc g] obtain u' s'
    where "update_user_role_request auth1 0 (request1 token1) 1 PlatformOwner (fresh guards_db) = Some (Inr u', s')"
      "require_platform_owner u' = None" "get_current_organization (Some 2) u' (cur s') = Inr ?g" by blast
  then show ?thesis by (metis g(1) option.inject)
qed

definition router1 :: router_request where
  "router1 = \<lparr>rq_name = ''edge'', rq_ip_address = ''10.0.0.1'', rq_username = [], rq_password = [], rq_router_type = Mikrotik, rq_port = 8728,
     rq_location = None, rq_description = None\<rparr>"

theorem router_limit_is_kept_witness:
  "count_routers (Some 1) (saved (snd (the (create_router_request auth1 (\<lambda>_. True) (''a'', ''b'') 0 (request1 ''sso'') router1 (fresh guards_db))))) = 1"
proof -
  let ?r = "create_router_request auth1 (\<lambda>_. True) (''a'', ''b'') 0 (request1 ''sso'') router1 (fresh guards_db)"
  have "map_option (\<lambda>(x, t). count_routers (Some 1) (saved t)) ?r = Some 1" by code_simp
  then obtain res s' where r: "?r = Some (res, s')" "count_routers (Some 1) (saved s') = 1" by auto
  have "map_option (\<lambda>(x, t). case x of Inl _ \<Rightarrow> False | Inr u \<Rightarrow> usr_role u \<noteq> PlatformOwner) (get_current_user auth1 0 (request1 ''sso'') (fresh guards_db)) = Some True"
    by code_simp
  moreover have "get_optional_sso_claims auth1 0 (request1 ''sso'') = Some claims1"
    by code_simp
  moreover have "\<not> claims_is_exempt claims1" "resolve_limit auth1 ''max_routers'' claims1 = Inr (LInt 1)" "\<not> is_internal_service_request auth1 (request1 ''sso'')"
    by code_simp+
  ultimately have "limited_to 1 auth1 0 (request1 ''sso'') 1 (fresh guards_db)" by (auto simp: limited_to_def)
  with r(1) have "router_request_step auth1 1 1 (fresh guards_db) s'" by (rule router_request_step.intros)
  from router_limit_is_kept [OF r_into_rtranclp [of "router_request_step auth1 1 1", OF this]] r(2)
  have "count_routers (Some 1) (saved s') \<le> 1" by (simp add: settled_def)
  with r show ?thesis by simp
qed

definition limits_db :: db where
  "limits_db = guards_db\<lparr>plans := [plan0], routers := [router0], subscription_seq := 1\<rparr>"

definition order2 :: subscription_create where
  "order2 = \<lparr>sc_user_id = 1, sc_plan_id = 1, sc_router_id = 1, sc_subscription_type = PPPOE, sc_username = ''joe'', sc_password = ''p'',
     sc_start_date = Naive 0, sc_end_date = Naive 9, sc_is_auto_renewal = False, sc_notes = None\<rparr>"

theorem customer_limit_never_binds_witness:
  "\<exists>res s'. create_subscription_request auth1 0 (request1 ''sso'') order2 (fresh limits_db) = Some (res, s') \<and> length (subscriptions (cur s')) = 1
     \<and> count_subscriptions (Some 1) (cur s') = 0"
proof -
  let ?r = "create_subscription_request auth1 0 (request1 ''sso'') order2 (fresh limits_db)"
  have "map_option (\<lambda>(x, t). length (subscriptions (cur t)) = 1) ?r = Some True" by code_simp
  then obtain res s' where r: "?r = Some (res, s')" "length (subscriptions (cur s')) = 1" by auto
  have "subscription_request_step auth1 (fresh limits_db) s'" using r(1) by (rule subscription_request_step.intros)
  from customer_limit_never_binds [OF r_into_rtranclp [of "subscription_request_step auth1", OF this], of user0 1]
  have "count_subscriptions (Some 1) (cur s') = count_subscriptions (Some 1) (cur (fresh limits_db))"
    by (simp add: settled_def user0_def)
  also have "\<dots> = 0" by (simp add: count_subscriptions_def limits_db_def guards_db_def empty_db_def)
  finally show ?thesis using r by blast
qed

end
