(* ===== verification/Office_Requests.thy ===== *)
theory Office_Requests
  imports Back_Office Request_Safety
begin

text \<open>
  The endpoints of leads and expenses (\<open>src/app/api/v1/business/leads.py\<close>, \<open>expenses.py\<close>),
  campaigns (\<open>src/app/api/v1/communications/campaigns.py\<close>) and tickets
  (\<open>src/app/api/v1/support/tickets.py\<close>) that change rows: the current user, the organisation of the
  request, the role the route asks for, then the service of that organisation. It is shown
  that no user reaches the rows of another tenant, and what of a row is final.
\<close>

section \<open>Endpoints\<close>

definition base_session :: "office \<Rightarrow> dbs" where
  "base_session s = \<lparr>cur = base (cur s), saved = base (saved s)\<rparr>"

definition with_base :: "dbs \<Rightarrow> office \<Rightarrow> office" where
  "with_base t s = \<lparr>cur = (cur s)\<lparr>base := cur t\<rparr>, saved = (saved s)\<lparr>base := saved t\<rparr>\<rparr>"

text \<open>
  The routes of the business section are gated by the subscription of the provider
  (\<open>gated\<close>). The dependencies of a route run in the order of its parameters: the
  organisation, for which the current user is looked up, then the role.
\<close>

definition office_endpoint ::
    "auth_env \<Rightarrow> datetime \<Rightarrow> http_request \<Rightarrow> bool \<Rightarrow> (user \<Rightarrow> exn option) \<Rightarrow> (int \<Rightarrow> user \<Rightarrow> office \<Rightarrow> (exn + 'a) \<times> office) \<Rightarrow> office
     \<Rightarrow> ((exn + 'a) \<times> office) option" where
  "office_endpoint env now r gated guard handler s =
     (case if gated then enforce_subscription_active env now r else None of
        Some e \<Rightarrow> Some (Inl e, s)
      | None \<Rightarrow>
          (case get_current_user env now r (base_session s) of
             None \<Rightarrow> None
           | Some (Inl e, t) \<Rightarrow> Some (Inl e, with_base t s)
           | Some (Inr u, t) \<Rightarrow>
               (case get_org_id_for_query r u (cur t) of
                  Inl e \<Rightarrow> Some (Inl e, with_base t s)
                | Inr org \<Rightarrow> (case guard u of Some e \<Rightarrow> Some (Inl e, with_base t s) | None \<Rightarrow> Some (handler org u (with_base t s))))))"

definition or_404 :: "string \<Rightarrow> (exn + 'a option) \<times> office \<Rightarrow> (exn + 'a) \<times> office" where
  \<comment> \<open>nothing found is a 404, a \<open>ValueError\<close> a 400\<close>
  "or_404 what res = bad_request [''ValueError'']
     (case res of
        (Inl e, s) \<Rightarrow> (Inl e, s)
      | (Inr None, s) \<Rightarrow> (Inl (Exn ''HTTPException'' (''404: '' @ what @ '' not found'')), s)
      | (Inr (Some x), s) \<Rightarrow> (Inr x, s))"

definition deleted_or_404 :: "string \<Rightarrow> (exn + bool) \<times> office \<Rightarrow> (exn + unit) \<times> office" where
  "deleted_or_404 what res = or_404 what (map_prod (map_sum id (\<lambda>ok. if ok then Some () else None)) id res)"

abbreviation anyone :: "user \<Rightarrow> exn option" where
  "anyone \<equiv> \<lambda>_. None"

definition create_lead_request :: "auth_env \<Rightarrow> datetime \<Rightarrow> http_request \<Rightarrow> lead_create \<Rightarrow> office \<Rightarrow> ((exn + lead) \<times> office) option" where
  "create_lead_request env now r q = office_endpoint env now r True anyone (\<lambda>org u s. bad_request [''ValueError''] (create_lead now org (usr_id u) q s))"

definition update_lead_request :: "auth_env \<Rightarrow> datetime \<Rightarrow> http_request \<Rightarrow> int \<Rightarrow> lead_update \<Rightarrow> office \<Rightarrow> ((exn + lead) \<times> office) option" where
  "update_lead_request env now r i q = office_endpoint env now r True anyone (\<lambda>org u s. or_404 ''Lead'' (update_lead org i q s))"

definition delete_lead_request :: "auth_env \<Rightarrow> datetime \<Rightarrow> http_request \<Rightarrow> int \<Rightarrow> office \<Rightarrow> ((exn + unit) \<times> office) option" where
  "delete_lead_request env now r i = office_endpoint env now r True anyone (\<lambda>org u s. deleted_or_404 ''Lead'' (delete_lead org i s))"

definition assign_lead_request :: "auth_env \<Rightarrow> datetime \<Rightarrow> http_request \<Rightarrow> int \<Rightarrow> int \<Rightarrow> office \<Rightarrow> ((exn + lead) \<times> office) option" where
  "assign_lead_request env now r i assigned_to = office_endpoint env now r True anyone (\<lambda>org u s. or_404 ''Lead'' (assign_lead org i assigned_to s))"

definition convert_lead_request :: "auth_env \<Rightarrow> datetime \<Rightarrow> http_request \<Rightarrow> int \<Rightarrow> int option \<Rightarrow> office \<Rightarrow> ((exn + lead) \<times> office) option" where
  "convert_lead_request env now r i converted_to =
     office_endpoint env now r True anyone (\<lambda>org u s. or_404 ''Lead'' (convert_lead now org i converted_to s))"

definition create_expense_request :: "auth_env \<Rightarrow> datetime \<Rightarrow> http_request \<Rightarrow> expense_create \<Rightarrow> office \<Rightarrow> ((exn + expense) \<times> office) option" where
  "create_expense_request env now r q =
     office_endpoint env now r True anyone (\<lambda>org u s. bad_request [''ValueError''] (create_expense now org (usr_id u) q s))"

definition update_expense_request :: "auth_env \<Rightarrow> datetime \<Rightarrow> http_request \<Rightarrow> int \<Rightarrow> expense_update \<Rightarrow> office \<Rightarrow> ((exn + expense) \<times> office) option" where
  "update_expense_request env now r i q = office_endpoint env now r True anyone (\<lambda>org u s. or_404 ''Expense'' (update_expense org i q s))"

definition delete_expense_request :: "auth_env \<Rightarrow> datetime \<Rightarrow> http_request \<Rightarrow> int \<Rightarrow> office \<Rightarrow> ((exn + unit) \<times> office) option" where
  "delete_expense_request env now r i = office_endpoint env now r True anyone (\<lambda>org u s. deleted_or_404 ''Expense'' (delete_expense org i s))"

definition approve_expense_request :: "auth_env \<Rightarrow> datetime \<Rightarrow> http_request \<Rightarrow> int \<Rightarrow> office \<Rightarrow> ((exn + expense) \<times> office) option" where
  "approve_expense_request env now r i =
     office_endpoint env now r True require_admin (\<lambda>org u s. or_404 ''Expense'' (approve_expense now org (usr_id u) i s))"

definition reject_expense_request :: "auth_env \<Rightarrow> datetime \<Rightarrow> http_request \<Rightarrow> int \<Rightarrow> string \<Rightarrow> office \<Rightarrow> ((exn + expense) \<times> office) option" where
  "reject_expense_request env now r i reason =
     office_endpoint env now r True require_admin (\<lambda>org u s. or_404 ''Expense'' (reject_expense now org (usr_id u) i reason s))"

definition create_campaign_request :: "auth_env \<Rightarrow> datetime \<Rightarrow> http_request \<Rightarrow> campaign_create \<Rightarrow> office \<Rightarrow> ((exn + campaign) \<times> office) option" where
  "create_campaign_request env now r q =
     office_endpoint env now r False anyone (\<lambda>org u s. bad_request [''ValueError''] (create_campaign now org (usr_id u) q s))"

definition update_campaign_request :: "auth_env \<Rightarrow> datetime \<Rightarrow> http_request \<Rightarrow> int \<Rightarrow> campaign_update \<Rightarrow> office \<Rightarrow> ((exn + campaign) \<times> office) option" where
  "update_campaign_request env now r i q = office_endpoint env now r False anyone (\<lambda>org u s. or_404 ''Campaign'' (update_campaign org i q s))"

definition delete_campaign_request :: "auth_env \<Rightarrow> datetime \<Rightarrow> http_request \<Rightarrow> int \<Rightarrow> office \<Rightarrow> ((exn + unit) \<times> office) option" where
  "delete_campaign_request env now r i = office_endpoint env now r False anyone (\<lambda>org u s. deleted_or_404 ''Campaign'' (delete_campaign org i s))"

definition pause_campaign_request :: "auth_env \<Rightarrow> datetime \<Rightarrow> http_request \<Rightarrow> int \<Rightarrow> office \<Rightarrow> ((exn + campaign) \<times> office) option" where
  "pause_campaign_request env now r i = office_endpoint env now r False require_admin (\<lambda>org u s. or_404 ''Campaign'' (pause_campaign org i s))"

definition resume_campaign_request :: "auth_env \<Rightarrow> datetime \<Rightarrow> http_request \<Rightarrow> int \<Rightarrow> office \<Rightarrow> ((exn + campaign) \<times> office) option" where
  "resume_campaign_request env now r i = office_endpoint env now r False require_admin (\<lambda>org u s. or_404 ''Campaign'' (resume_campaign org i s))"

definition create_ticket_request :: "auth_env \<Rightarrow> string \<Rightarrow> datetime \<Rightarrow> http_request \<Rightarrow> ticket_create \<Rightarrow> office \<Rightarrow> ((exn + ticket) \<times> office) option" where
  "create_ticket_request env token_hex now r q =
     office_endpoint env now r False anyone (\<lambda>org u s. bad_request [''ValueError''] (create_ticket now token_hex org q s))"

definition update_ticket_request :: "auth_env \<Rightarrow> datetime \<Rightarrow> http_request \<Rightarrow> int \<Rightarrow> ticket_update \<Rightarrow> office \<Rightarrow> ((exn + ticket) \<times> office) option" where
  "update_ticket_request env now r i q = office_endpoint env now r False anyone (\<lambda>org u s. or_404 ''Ticket'' (update_ticket org i q s))"

definition assign_ticket_request :: "auth_env \<Rightarrow> datetime \<Rightarrow> http_request \<Rightarrow> int \<Rightarrow> int \<Rightarrow> office \<Rightarrow> ((exn + ticket) \<times> office) option" where
  "assign_ticket_request env now r i assigned_to =
     office_endpoint env now r False require_admin (\<lambda>org u s. or_404 ''Ticket'' (assign_ticket org i assigned_to s))"

definition add_message_request ::
    "auth_env \<Rightarrow> datetime \<Rightarrow> http_request \<Rightarrow> int \<Rightarrow> string \<Rightarrow> bool \<Rightarrow> string option \<Rightarrow> office \<Rightarrow> ((exn + ticket_message) \<times> office) option" where
  "add_message_request env now r i msg is_internal attachments =
     office_endpoint env now r False anyone (\<lambda>org u s. or_404 ''Ticket'' (add_message now org (usr_id u) i msg is_internal attachments s))"

definition resolve_ticket_request :: "auth_env \<Rightarrow> datetime \<Rightarrow> http_request \<Rightarrow> int \<Rightarrow> string \<Rightarrow> office \<Rightarrow> ((exn + ticket) \<times> office) option" where
  "resolve_ticket_request env now r i resolution =
     office_endpoint env now r False require_admin (\<lambda>org u s. or_404 ''Ticket'' (resolve_ticket now org i resolution s))"

definition close_ticket_request :: "auth_env \<Rightarrow> datetime \<Rightarrow> http_request \<Rightarrow> int \<Rightarrow> office \<Rightarrow> ((exn + ticket) \<times> office) option" where
  "close_ticket_request env now r i = office_endpoint env now r False require_admin (\<lambda>org u s. or_404 ''Ticket'' (close_ticket now org i s))"

section \<open>All requests\<close>

datatype office_request =
    CreateLead lead_create | UpdateLead int lead_update | DeleteLead int | AssignLead int int | ConvertLead int "int option"
  | CreateExpense expense_create | UpdateExpense int expense_update | DeleteExpense int | ApproveExpense int | RejectExpense int string
  | CreateCampaign campaign_create | UpdateCampaign int campaign_update | DeleteCampaign int | PauseCampaign int | ResumeCampaign int
  | CreateTicket string ticket_create | UpdateTicket int ticket_update | AssignTicket int int | AddMessage int string bool "string option"
  | ResolveTicket int string | CloseTicket int

text \<open>What the service of an organisation does for each request, and the endpoint in front of it.\<close>

fun office_service :: "datetime \<Rightarrow> int \<Rightarrow> int \<Rightarrow> office_request \<Rightarrow> office \<Rightarrow> office" where
  "office_service now org uid (CreateLead q) s = snd (create_lead now org uid q s)"
| "office_service now org uid (UpdateLead i q) s = snd (update_lead org i q s)"
| "office_service now org uid (DeleteLead i) s = snd (delete_lead org i s)"
| "office_service now org uid (AssignLead i a) s = snd (assign_lead org i a s)"
| "office_service now org uid (ConvertLead i c) s = snd (convert_lead now org i c s)"
| "office_service now org uid (CreateExpense q) s = snd (create_expense now org uid q s)"
| "office_service now org uid (UpdateExpense i q) s = snd (update_expense org i q s)"
| "office_service now org uid (DeleteExpense i) s = snd (delete_expense org i s)"
| "office_service now org uid (ApproveExpense i) s = snd (approve_expense now org uid i s)"
| "office_service now org uid (RejectExpense i w) s = snd (reject_expense now org uid i w s)"
| "office_service now org uid (CreateCampaign q) s = snd (create_campaign now org uid q s)"
| "office_service now org uid (UpdateCampaign i q) s = snd (update_campaign org i q s)"
| "office_service now org uid (DeleteCampaign i) s = snd (delete_campaign org i s)"
| "office_service now org uid (PauseCampaign i) s = snd (pause_campaign org i s)"
| "office_service now org uid (ResumeCampaign i) s = snd (resume_campaign org i s)"
| "office_service now org uid (CreateTicket h q) s = snd (create_ticket now h org q s)"
| "office_service now org uid (UpdateTicket i q) s = snd (update_ticket org i q s)"
| "office_service now org uid (AssignTicket i a) s = snd (assign_ticket org i a s)"
| "office_service now org uid (AddMessage i m b a) s = snd (add_message now org uid i m b a s)"
| "office_service now org uid (ResolveTicket i w) s = snd (resolve_ticket now org i w s)"
| "office_service now org uid (CloseTicket i) s = snd (close_ticket now org i s)"

fun serve_office :: "auth_env \<Rightarrow> datetime \<Rightarrow> http_request \<Rightarrow> office_request \<Rightarrow> office \<Rightarrow> office option" where
  "serve_office env now r (CreateLead q) s = map_option snd (create_lead_request env now r q s)"
| "serve_office env now r (UpdateLead i q) s = map_option snd (update_lead_request env now r i q s)"
| "serve_office env now r (DeleteLead i) s = map_option snd (delete_lead_request env now r i s)"
| "serve_office env now r (AssignLead i a) s = map_option snd (assign_lead_request env now r i a s)"
| "serve_office env now r (ConvertLead i c) s = map_option snd (convert_lead_request env now r i c s)"
| "serve_office env now r (CreateExpense q) s = map_option snd (create_expense_request env now r q s)"
| "serve_office env now r (UpdateExpense i q) s = map_option snd (update_expense_request env now r i q s)"
| "serve_office env now r (DeleteExpense i) s = map_option snd (delete_expense_request env now r i s)"
| "serve_office env now r (ApproveExpense i) s = map_option snd (approve_expense_request env now r i s)"
| "serve_office env now r (RejectExpense i w) s = map_option snd (reject_expense_request env now r i w s)"
| "serve_office env now r (CreateCampaign q) s = map_option snd (create_campaign_request env now r q s)"
| "serve_office env now r (UpdateCampaign i q) s = map_option snd (update_campaign_request env now r i q s)"
| "serve_office env now r (DeleteCampaign i) s = map_option snd (delete_campaign_request env now r i s)"
| "serve_office env now r (PauseCampaign i) s = map_option snd (pause_campaign_request env now r i s)"
| "serve_office env now r (ResumeCampaign i) s = map_option snd (resume_campaign_request env now r i s)"
| "serve_office env now r (CreateTicket h q) s = map_option snd (create_ticket_request env h now r q s)"
| "serve_office env now r (UpdateTicket i q) s = map_option snd (update_ticket_request env now r i q s)"
| "serve_office env now r (AssignTicket i a) s = map_option snd (assign_ticket_request env now r i a s)"
| "serve_office env now r (AddMessage i m b a) s = map_option snd (add_message_request env now r i m b a s)"
| "serve_office env now r (ResolveTicket i w) s = map_option snd (resolve_ticket_request env now r i w s)"
| "serve_office env now r (CloseTicket i) s = map_option snd (close_ticket_request env now r i s)"

definition route_guard :: "office_request \<Rightarrow> user \<Rightarrow> exn option" where
  "route_guard q = (case q of
     ApproveExpense _ \<Rightarrow> require_admin | RejectExpense _ _ \<Rightarrow> require_admin | PauseCampaign _ \<Rightarrow> require_admin | ResumeCampaign _ \<Rightarrow> require_admin
   | AssignTicket _ _ \<Rightarrow> require_admin | ResolveTicket _ _ \<Rightarrow> require_admin | CloseTicket _ \<Rightarrow> require_admin | _ \<Rightarrow> anyone)"

lemma snd_bad_request [simp]: "snd (bad_request cs x) = snd x"
  by (cases x; cases "fst x") (auto simp: bad_request_def)

lemma snd_or_404 [simp]: "snd (or_404 w x) = snd x"
  by (cases x) (auto simp: or_404_def split: sum.splits option.splits)

lemma snd_deleted_or_404 [simp]: "snd (deleted_or_404 w x) = snd x"
  by (simp add: deleted_or_404_def)

definition answered_by :: "auth_env \<Rightarrow> datetime \<Rightarrow> http_request \<Rightarrow> (user \<Rightarrow> exn option) \<Rightarrow> (int \<Rightarrow> user \<Rightarrow> office \<Rightarrow> office) \<Rightarrow> office \<Rightarrow> office \<Rightarrow> bool" where
  "answered_by env now r guard run s s' \<longleftrightarrow>
     s' = s \<or> (\<exists>x t. get_current_user env now r (base_session s) = Some (x, t) \<and> s' = with_base t s) \<or>
     (\<exists>u t org. get_current_user env now r (base_session s) = Some (Inr u, t) \<and> get_org_id_for_query r u (cur t) = Inr org \<and> guard u = None \<and>
        s' = run org u (with_base t s))"

lemma office_endpoint_cases:
  assumes "map_option snd (office_endpoint env now r gated guard handler s) = Some s'" "\<And>org u t. snd (handler org u t) = run org u t"
  shows "answered_by env now r guard run s s'"
proof (cases "(if gated then enforce_subscription_active env now r else None) = None")
  case gate: True
  obtain x t where u: "get_current_user env now r (base_session s) = Some (x, t)"
    using assms(1) gate by (auto simp: office_endpoint_def split: option.splits)
  show ?thesis
  proof (cases x)
    case (Inl e)
    then show ?thesis using assms(1) u gate by (auto simp: office_endpoint_def answered_by_def)
  next
    case (Inr v)
    note eq = assms(1) [unfolded office_endpoint_def gate u Inr option.case prod.case sum.case]
    show ?thesis
    proof (cases "get_org_id_for_query r v (cur t)")
      case (Inl e)
      then show ?thesis using eq u by (auto simp: answered_by_def)
    next
      case org: (Inr g)
      show ?thesis
      proof (cases "guard v")
        case None
        then have "s' = run g v (with_base t s)" using eq org assms(2) by simp
        then show ?thesis using u org None \<open>x = Inr v\<close> by (auto simp: answered_by_def)
      next
        case (Some e)
        then show ?thesis using eq org u by (auto simp: answered_by_def)
      qed
    qed
  qed
next
  case False
  then show ?thesis using assms(1) by (auto simp: office_endpoint_def answered_by_def)
qed

lemmas office_requests = create_lead_request_def update_lead_request_def delete_lead_request_def assign_lead_request_def convert_lead_request_def
  create_expense_request_def update_expense_request_def delete_expense_request_def approve_expense_request_def reject_expense_request_def
  create_campaign_request_def update_campaign_request_def delete_campaign_request_def pause_campaign_request_def resume_campaign_request_def
  create_ticket_request_def update_ticket_request_def assign_ticket_request_def add_message_request_def resolve_ticket_request_def
  close_ticket_request_def

text \<open>An endpoint looks the user up and then either refuses or runs the service of the organisation.\<close>

lemma serve_office_cases:
  assumes "serve_office env now r q s = Some s'"
  shows "answered_by env now r (route_guard q) (\<lambda>org u. office_service now org (usr_id u) q) s s'"
  using assms
  by (cases q; simp only: serve_office.simps office_requests route_guard_def office_request.case) (erule office_endpoint_cases, simp)+

section \<open>The rows of one tenant\<close>

definition rows_of :: "('r \<Rightarrow> int) \<Rightarrow> int \<Rightarrow> 'r list \<Rightarrow> 'r list" where
  "rows_of owner org t = filter (\<lambda>x. owner x = org) t"

definition table_ok :: "('r \<Rightarrow> int) \<Rightarrow> int \<Rightarrow> 'r list \<Rightarrow> bool" where
  \<comment> \<open>primary keys are unique and below the sequence\<close>
  "table_ok key n t \<longleftrightarrow> uniq key t \<and> (\<forall>x \<in> set t. key x < n)"

definition office_ok :: "office_db \<Rightarrow> bool" where
  "office_ok d \<longleftrightarrow> table_ok ld_id (lead_seq d) (lead_table d) \<and> table_ok xp_id (expense_seq d) (expense_table d) \<and>
     table_ok cp_id (campaign_seq d) (campaign_table d) \<and> table_ok tk_id (ticket_seq d) (ticket_table d) \<and>
     (\<forall>m \<in> set (message_table d). tm_ticket_id m \<in> tk_id ` set (ticket_table d))"

definition messages_of :: "int \<Rightarrow> office_db \<Rightarrow> ticket_message list" where
  "messages_of org d = filter (\<lambda>m. \<exists>t \<in> set (ticket_table d). tk_id t = tm_ticket_id m \<and> tk_organization_id t = org) (message_table d)"

definition tenant_part :: "int \<Rightarrow> office_db \<Rightarrow> lead list \<times> expense list \<times> campaign list \<times> ticket list \<times> ticket_message list" where
  "tenant_part org d = (rows_of ld_organization_id org (lead_table d), rows_of xp_organization_id org (expense_table d),
     rows_of cp_organization_id org (campaign_table d), rows_of tk_organization_id org (ticket_table d), messages_of org d)"

definition at_rest :: "office \<Rightarrow> bool" where
  \<comment> \<open>nothing of these tables is pending\<close>
  "at_rest s \<longleftrightarrow> (saved s)\<lparr>base := base (cur s)\<rparr> = cur s"

lemma find_own_Some: "find_own key owner org i t = Some x \<Longrightarrow> x \<in> set t \<and> key x = i \<and> owner x = org"
proof -
  assume "find_own key owner org i t = Some x"
  then obtain xs where eq: "filter (\<lambda>x. key x = i \<and> owner x = org) t = x # xs" by (auto simp: find_own_def one_of_def split: list.splits)
  have "x \<in> set (filter (\<lambda>x. key x = i \<and> owner x = org) t)" unfolding eq by simp
  then show ?thesis by simp
qed

lemma table_ok_snoc [simp]: "table_ok key n t \<Longrightarrow> key x = n \<Longrightarrow> table_ok key (n + 1) (t @ [x])"
  by (auto simp: table_ok_def uniq_snoc)

lemma keys_upd [simp]: "map key (tbl_upd key (key x) (\<lambda>_. x) t) = map key t" "key ` set (tbl_upd key (key x) (\<lambda>_. x) t) = key ` set t"
proof -
  show "map key (tbl_upd key (key x) (\<lambda>_. x) t) = map key t" by (simp add: tbl_upd_def)
  then show "key ` set (tbl_upd key (key x) (\<lambda>_. x) t) = key ` set t" by (metis list.set_map)
qed

lemma table_ok_upd [simp]: "table_ok key n t \<Longrightarrow> table_ok key n (tbl_upd key (key x) (\<lambda>_. x) t)"
  unfolding table_ok_def uniq_def keys_upd by (metis keys_upd(2) imageE imageI)

lemma table_ok_filter [simp]: "table_ok key n t \<Longrightarrow> table_ok key n (filter P t)"
  by (simp add: table_ok_def uniq_def distinct_map_filter)

lemma rows_of_snoc [simp]: "owner x \<noteq> other \<Longrightarrow> rows_of owner other (t @ [x]) = rows_of owner other t"
  by (simp add: rows_of_def)

text \<open>Replacing or removing a row of one owner leaves the rows of the others alone.\<close>

lemma same_key_same_row: "table_ok key n t \<Longrightarrow> x \<in> set t \<Longrightarrow> z \<in> set t \<Longrightarrow> key z = key x \<Longrightarrow> z = x"
  by (auto simp: table_ok_def uniq_def distinct_map inj_on_def)

lemma rows_of_upd:
  assumes "table_ok key n t" "x \<in> set t" "owner x \<noteq> other" "key y = key x" "owner y \<noteq> other"
  shows "rows_of owner other (tbl_upd key (key y) (\<lambda>_. y) t) = rows_of owner other t"
proof -
  have "rows_of owner other (tbl_upd key (key y) (\<lambda>_. y) u) = rows_of owner other u" if "set u \<subseteq> set t" for u
    using that
  proof (induction u)
    case (Cons a u)
    then show ?case using same_key_same_row [OF assms(1,2), of a] assms(3-5) by (auto simp: rows_of_def tbl_upd_def)
  qed (simp add: rows_of_def tbl_upd_def)
  then show ?thesis by blast
qed

lemma rows_of_remove:
  assumes "table_ok key n t" "x \<in> set t" "owner x \<noteq> other" "key x = i"
  shows "rows_of owner other (filter (\<lambda>y. key y \<noteq> i) t) = rows_of owner other t"
  unfolding rows_of_def filter_filter by (rule filter_cong) (use same_key_same_row [OF assms(1,2)] assms(3,4) in auto)

text \<open>A service of one organisation keeps the tables in order and does not touch the rows of another.\<close>

definition isolated :: "int \<Rightarrow> office \<Rightarrow> office \<Rightarrow> bool" where
  "isolated other s s' \<longleftrightarrow> at_rest s' \<and> office_ok (cur s') \<and> tenant_part other (cur s') = tenant_part other (cur s)"

lemma office_base [simp]: "office_ok (d\<lparr>base := b\<rparr>) = office_ok d" "tenant_part org (d\<lparr>base := b\<rparr>) = tenant_part org d"
  by (simp_all add: office_ok_def tenant_part_def messages_of_def)

lemma at_rest_saved: "at_rest s \<Longrightarrow> office_ok (saved s) = office_ok (cur s) \<and> tenant_part org (saved s) = tenant_part org (cur s)"
  unfolding at_rest_def by (metis office_base)

lemma isolated_refl: "at_rest s \<Longrightarrow> office_ok (cur s) \<Longrightarrow> isolated other s s"
  by (simp add: isolated_def)

lemma isolated_rollback: "at_rest s \<Longrightarrow> office_ok (cur s) \<Longrightarrow> isolated other s (rollback s)"
  using at_rest_saved [of s] by (simp add: isolated_def at_rest_def)

lemma isolated_commit: "office_ok (f (cur s)) \<Longrightarrow> tenant_part other (f (cur s)) = tenant_part other (cur s) \<Longrightarrow> isolated other s (commit (on_db f s))"
  by (simp add: isolated_def at_rest_def)

lemmas isolated_intros = isolated_refl isolated_rollback isolated_commit

lemma isolated_store:
  assumes "at_rest s" "office_ok (cur s)"
    "office_ok (tab (tbl_upd key (key y) (\<lambda>_. y)) (cur s)) \<and> tenant_part other (tab (tbl_upd key (key y) (\<lambda>_. y)) (cur s)) = tenant_part other (cur s)"
  shows "isolated other s (snd (store key tab check y s))"
  using assms by (auto simp: store_def intro: isolated_intros split: option.splits)

lemma store_lead_isolated:
  assumes "at_rest s" "office_ok (cur s)" "lead_by_id org i (cur s) = Some x" "org \<noteq> other" "ld_id y = ld_id x" "ld_organization_id y = ld_organization_id x"
  shows "isolated other s (snd (store_lead y s))"
  using find_own_Some [OF assms(3)] assms rows_of_upd [of ld_id _ "lead_table (cur s)" x ld_organization_id other y] table_ok_upd [of ld_id _ _ y]
  by (intro isolated_store) (auto simp: office_ok_def tenant_part_def messages_of_def)

lemma store_expense_isolated:
  assumes "at_rest s" "office_ok (cur s)" "expense_by_id org i (cur s) = Some x" "org \<noteq> other" "xp_id y = xp_id x" "xp_organization_id y = xp_organization_id x"
  shows "isolated other s (snd (store xp_id expense_table_update expense_row_error y s))"
  using find_own_Some [OF assms(3)] assms rows_of_upd [of xp_id _ "expense_table (cur s)" x xp_organization_id other y] table_ok_upd [of xp_id _ _ y]
  by (intro isolated_store) (auto simp: office_ok_def tenant_part_def messages_of_def)

lemma store_campaign_isolated:
  assumes "at_rest s" "office_ok (cur s)" "campaign_by_id org i (cur s) = Some x" "org \<noteq> other" "cp_id y = cp_id x" "cp_organization_id y = cp_organization_id x"
  shows "isolated other s (snd (store cp_id campaign_table_update campaign_row_error y s))"
  using find_own_Some [OF assms(3)] assms rows_of_upd [of cp_id _ "campaign_table (cur s)" x cp_organization_id other y] table_ok_upd [of cp_id _ _ y]
  by (intro isolated_store) (auto simp: office_ok_def tenant_part_def messages_of_def)

lemma messages_of_upd:
  assumes "table_ok tk_id n (ticket_table d)" "x \<in> set (ticket_table d)" "tk_id y = tk_id x" "tk_organization_id y = tk_organization_id x"
  shows "messages_of org (ticket_table_update (tbl_upd tk_id (tk_id y) (\<lambda>_. y)) d) = messages_of org d"
proof -
  have "(\<exists>t \<in> set (tbl_upd tk_id (tk_id y) (\<lambda>_. y) (ticket_table d)). tk_id t = k \<and> tk_organization_id t = org)
      \<longleftrightarrow> (\<exists>t \<in> set (ticket_table d). tk_id t = k \<and> tk_organization_id t = org)" for k
    using same_key_same_row [OF assms(1,2)] assms(2-4) by (simp add: in_tbl_upd Bex_def) metis
  then show ?thesis by (simp add: messages_of_def)
qed

lemma store_ticket_isolated:
  assumes "at_rest s" "office_ok (cur s)" "ticket_by_id org i (cur s) = Some x" "org \<noteq> other" "tk_id y = tk_id x" "tk_organization_id y = tk_organization_id x"
  shows "isolated other s (snd (store_ticket y s))"
proof (rule isolated_store [OF assms(1,2)])
  note x = find_own_Some [OF assms(3)]
  have t: "table_ok tk_id (ticket_seq (cur s)) (ticket_table (cur s))" using assms(2) by (simp add: office_ok_def)
  show "office_ok (ticket_table_update (tbl_upd tk_id (tk_id y) (\<lambda>_. y)) (cur s)) \<and>
      tenant_part other (ticket_table_update (tbl_upd tk_id (tk_id y) (\<lambda>_. y)) (cur s)) = tenant_part other (cur s)"
    using assms(2) t x assms(4-6) rows_of_upd [OF t, of x tk_organization_id other y] messages_of_upd [OF t, of x y other]
      table_ok_upd [OF t, of y] keys_upd(2) [of tk_id y "ticket_table (cur s)"]
    by (simp add: office_ok_def tenant_part_def)
qed

lemma remove_isolated:
  assumes "at_rest s" "office_ok (cur s)" "org \<noteq> other"
  shows "lead_by_id org i (cur s) = Some l \<Longrightarrow> isolated other s (remove ld_id lead_table_update i s)"
    "expense_by_id org i (cur s) = Some x \<Longrightarrow> isolated other s (remove xp_id expense_table_update i s)"
    "campaign_by_id org i (cur s) = Some c \<Longrightarrow> isolated other s (remove cp_id campaign_table_update i s)"
  using assms unfolding remove_def
  by (auto intro!: isolated_commit rows_of_remove dest!: find_own_Some simp: office_ok_def tenant_part_def messages_of_def)

lemma insert_isolated:
  assumes "at_rest s" "office_ok (cur s)" "org \<noteq> other"
  shows "isolated other s (snd (create_lead now org uid ql s))" "isolated other s (snd (create_expense now org uid qx s))"
    "isolated other s (snd (create_campaign now org uid qc s))"
  using assms by (auto simp: create_lead_def create_expense_def create_campaign_def Let_def office_ok_def tenant_part_def messages_of_def
    intro!: isolated_intros split: option.split)

lemma create_ticket_isolated:
  assumes "at_rest s" "office_ok (cur s)" "org \<noteq> other"
  shows "isolated other s (snd (create_ticket now h org q s))"
proof -
  let ?t = "new_ticket now (ticket_seq (cur s)) org (generate_ticket_number now h) q"
  have t: "tk_id ?t = ticket_seq (cur s)" "tk_organization_id ?t = org" by (simp_all add: new_ticket_def)
  have "messages_of other ((cur s)\<lparr>ticket_table := ticket_table (cur s) @ [?t], ticket_seq := ticket_seq (cur s) + 1\<rparr>) = messages_of other (cur s)"
    using t assms(3) by (auto simp: messages_of_def intro!: filter_cong)
  then show ?thesis using assms t
    by (auto simp: create_ticket_def insert_ticket_def office_ok_def tenant_part_def intro!: isolated_intros split: option.split)
qed

lemma add_message_isolated:
  assumes "at_rest s" "office_ok (cur s)" "org \<noteq> other"
  shows "isolated other s (snd (add_message now org uid i m b a s))"
proof (cases "ticket_by_id org i (cur s)")
  case (Some t)
  note t = find_own_Some [OF Some]
  have "\<not> (\<exists>z \<in> set (ticket_table (cur s)). tk_id z = i \<and> tk_organization_id z = other)"
    using t assms(2,3) same_key_same_row [of tk_id _ "ticket_table (cur s)" t] by (auto simp: office_ok_def)
  then show ?thesis using assms t Some
    by (auto simp: add_message_def insert_message_def Let_def office_ok_def tenant_part_def messages_of_def intro!: isolated_intros)
qed (simp add: add_message_def isolated_refl assms)

text \<open>The contract of a service that works for one organisation at a time, and what it gives over a run.\<close>

locale tenant_service =
  fixes run :: "'q \<Rightarrow> int \<Rightarrow> 's \<Rightarrow> 's" and ok :: "'s \<Rightarrow> bool" and view :: "int \<Rightarrow> 's \<Rightarrow> 'p"
  assumes run_ok: "ok s \<Longrightarrow> ok (run q org s)"
    and run_local: "ok s \<Longrightarrow> org \<noteq> other \<Longrightarrow> view other (run q org s) = view other s"
begin

lemma runs_local: "ok s \<Longrightarrow> other \<notin> snd ` set qs \<Longrightarrow> ok (fold (\<lambda>(q, org). run q org) qs s) \<and> view other (fold (\<lambda>(q, org). run q org) qs s) = view other s"
  by (induction qs arbitrary: s) (auto simp: run_ok run_local)

end

lemma office_service_isolated:
  assumes "at_rest s" "office_ok (cur s)" "org \<noteq> other"
  shows "isolated other s (office_service now org uid q s)"
  using assms
  by (cases q) (auto simp: insert_isolated create_ticket_isolated add_message_isolated update_lead_def delete_lead_def assign_lead_def convert_lead_def
    update_expense_def delete_expense_def approve_expense_def reject_expense_def change_pending_def update_campaign_def delete_campaign_def
    pause_campaign_def resume_campaign_def change_campaign_def update_ticket_def assign_ticket_def resolve_ticket_def close_ticket_def change_ticket_def
    set_lead_def set_expense_def set_campaign_def set_ticket_def
    intro!: isolated_refl store_lead_isolated store_expense_isolated store_campaign_isolated store_ticket_isolated remove_isolated split: option.split)

interpretation office_tenants: tenant_service "\<lambda>(now, uid, q) org. office_service now org uid q"
    "\<lambda>s. at_rest s \<and> office_ok (cur s)" "\<lambda>org s. tenant_part org (cur s)"
proof
  fix s :: office and q :: "datetime \<times> int \<times> office_request" and org :: int
  assume "at_rest s \<and> office_ok (cur s)"
  moreover have "org \<noteq> org + 1" by simp
  ultimately show "at_rest ((case q of (now, uid, q) \<Rightarrow> \<lambda>org. office_service now org uid q) org s) \<and>
      office_ok (cur ((case q of (now, uid, q) \<Rightarrow> \<lambda>org. office_service now org uid q) org s))"
    using office_service_isolated [of s org "org + 1"] by (simp add: isolated_def split: prod.split)
next
  fix s :: office and q :: "datetime \<times> int \<times> office_request" and org other :: int
  assume "at_rest s \<and> office_ok (cur s)" "org \<noteq> other"
  then show "tenant_part other (cur ((case q of (now, uid, q) \<Rightarrow> \<lambda>org. office_service now org uid q) org s)) = tenant_part other (cur s)"
    using office_service_isolated by (auto simp: isolated_def split: prod.split)
qed

section \<open>No user reaches the rows of another tenant\<close>

definition outsider :: "auth_env \<Rightarrow> datetime \<Rightarrow> http_request \<Rightarrow> int \<Rightarrow> office \<Rightarrow> bool" where
  \<comment> \<open>the request is not one of a user of the organisation, nor of a platform owner\<close>
  "outsider env now r org s \<longleftrightarrow> (\<forall>u t. get_current_user env now r (base_session s) = Some (Inr u, t) \<longrightarrow>
     usr_role u \<noteq> PlatformOwner \<and> usr_organization_id u \<noteq> Some org)"

inductive foreign_request :: "auth_env \<Rightarrow> int \<Rightarrow> office \<Rightarrow> office \<Rightarrow> bool" for env org where
  "serve_office env now r q s = Some s' \<Longrightarrow> outsider env now r org s \<Longrightarrow> foreign_request env org s s'"

inductive_cases foreign_requestE [elim!]: "foreign_request env org s s'"

lemma with_base_rest: "at_rest s \<Longrightarrow> at_rest (with_base t s)" "cur (with_base t s) = (cur s)\<lparr>base := cur t\<rparr>"
proof -
  show "cur (with_base t s) = (cur s)\<lparr>base := cur t\<rparr>" by (simp add: with_base_def)
  assume "at_rest s"
  then have "(saved s)\<lparr>base := base (cur s)\<rparr> = cur s" by (simp add: at_rest_def)
  from arg_cong [OF this, of "base_update (\<lambda>_. cur t)"] show "at_rest (with_base t s)" by (simp add: at_rest_def with_base_def)
qed

lemma org_of_query: "get_org_id_for_query r u d = Inr org \<Longrightarrow> usr_role u \<noteq> PlatformOwner \<Longrightarrow> usr_organization_id u = Some org"
  by (auto simp: get_org_id_for_query_def bind_exn_def truthy_int_def split: if_splits sum.splits option.splits)

lemma foreign_request_isolated:
  assumes "foreign_request env other s s'" "at_rest s" "office_ok (cur s)"
  shows "isolated other s s'"
proof -
  obtain now r q where q: "serve_office env now r q s = Some s'" "outsider env now r other s" using assms(1) by blast
  from serve_office_cases [OF q(1)] show ?thesis unfolding answered_by_def
  proof (elim disjE exE conjE)
    fix u t org
    assume u: "get_current_user env now r (base_session s) = Some (Inr u, t)" "get_org_id_for_query r u (cur t) = Inr org"
      and s': "s' = office_service now org (usr_id u) q (with_base t s)"
    have "org \<noteq> other" using q(2) u org_of_query [OF u(2)] by (auto simp: outsider_def)
    then show ?thesis
      using office_service_isolated [of "with_base t s" org other now "usr_id u" q] assms(2,3) by (simp add: s' with_base_rest isolated_def)
  qed (use assms(2,3) in \<open>simp_all add: isolated_def with_base_rest\<close>)
qed

text \<open>
  C37. The endpoints of the back office keep tenants apart. Over every sequence of requests by users of other tenants to the
  endpoints of leads, expenses, campaigns and tickets that \<open>serve_office\<close> dispatches, whatever ids
  and headers they send, the committed leads, expenses, campaigns, tickets and messages of a provider stay as they are. The second set
  of ticket endpoints, in \<open>Support_Desk\<close>, is not among them and does not have the property.
\<close>

theorem office_rows_are_isolated:
  assumes "(foreign_request env org)\<^sup>*\<^sup>* s s'" "at_rest s" "office_ok (cur s)"
  shows "tenant_part org (saved s') = tenant_part org (saved s)"
proof -
  have "at_rest s' \<and> office_ok (cur s') \<and> tenant_part org (cur s') = tenant_part org (cur s)" using assms
  proof (induction rule: rtranclp_induct)
    case (step y z)
    then show ?case using foreign_request_isolated [OF step.hyps(2)] by (simp add: isolated_def)
  qed simp
  then show ?thesis using assms(2) at_rest_saved by metis
qed

section \<open>Decisions on expenses\<close>

inductive office_step :: "auth_env \<Rightarrow> office \<Rightarrow> office \<Rightarrow> bool" for env where
  "serve_office env now r q s = Some s' \<Longrightarrow> office_step env s s'"

definition decided :: "expense \<Rightarrow> bool" where
  "decided x \<longleftrightarrow> xp_status x \<noteq> ExpPending"

definition decision_step :: "datetime \<Rightarrow> int \<Rightarrow> int \<Rightarrow> office_request \<Rightarrow> office \<Rightarrow> office \<Rightarrow> bool" where
  \<comment> \<open>decided expenses stay; one that is newly decided was so by the user of the request\<close>
  "decision_step now org uid q s s' \<longleftrightarrow> (\<forall>x \<in> set (expense_table (cur s)). decided x \<longrightarrow> x \<in> set (expense_table (cur s'))) \<and>
     (\<forall>x \<in> set (expense_table (cur s')). decided x \<longrightarrow> x \<in> set (expense_table (cur s)) \<or>
        xp_organization_id x = org \<and> xp_approved_by_user_id x = Some uid \<and> xp_approved_at x = Some now \<and> (\<exists>i w. q = ApproveExpense i \<or> q = RejectExpense i w))"

lemma at_rest_expenses [simp]: "at_rest s \<Longrightarrow> expense_table (saved s) = expense_table (cur s)"
  unfolding at_rest_def by (metis office_db.ext_inject office_db.surjective office_db.update_convs(1))

lemma decision_step_same: "expense_table (cur s') = expense_table (cur s) \<Longrightarrow> decision_step now org uid q s s'"
  by (simp add: decision_step_def)

lemma decision_store:
  assumes "at_rest s" "office_ok (cur s)" "expense_by_id org i (cur s) = Some x" "xp_status x = ExpPending" "xp_id y = xp_id x"
    "decided y \<Longrightarrow> xp_organization_id y = org \<and> xp_approved_by_user_id y = Some uid \<and> xp_approved_at y = Some now \<and> (\<exists>i w. q = ApproveExpense i \<or> q = RejectExpense i w)"
  shows "decision_step now org uid q s (snd (store xp_id expense_table_update expense_row_error y s))"
proof (cases "expense_row_error y (cur s)")
  case None
  note x = find_own_Some [OF assms(3)]
  have t: "table_ok xp_id (expense_seq (cur s)) (expense_table (cur s))" using assms(2) by (simp add: office_ok_def)
  have "z \<in> set (tbl_upd xp_id (xp_id y) (\<lambda>_. y) (expense_table (cur s)))" if z: "z \<in> set (expense_table (cur s))" "decided z" for z
  proof -
    have "xp_id z \<noteq> xp_id y" using same_key_same_row [OF t, of x z] x z assms(4,5) by (auto simp: decided_def)
    then show ?thesis using z(1) by (auto simp: in_tbl_upd)
  qed
  then show ?thesis using None assms(6) by (auto simp: decision_step_def store_def in_tbl_upd split: if_splits)
qed (use assms(1) in \<open>simp add: store_def decision_step_same\<close>)

lemma decision_remove:
  assumes "at_rest s" "office_ok (cur s)" "expense_by_id org i (cur s) = Some x" "xp_status x = ExpPending"
  shows "decision_step now org uid q s (remove xp_id expense_table_update i s)"
proof -
  have t: "table_ok xp_id (expense_seq (cur s)) (expense_table (cur s))" using assms(2) by (simp add: office_ok_def)
  show ?thesis using find_own_Some [OF assms(3)] same_key_same_row [OF t, of x] assms(4) by (auto simp: decision_step_def remove_def decided_def)
qed

lemma snd_store_other: "at_rest s \<Longrightarrow> (\<And>f d. expense_table (tab f d) = expense_table d) \<Longrightarrow> expense_table (cur (snd (store key tab chk y s))) = expense_table (cur s)"
  by (simp add: store_def split: option.split)

lemma service_decisions:
  assumes "at_rest s" "office_ok (cur s)"
  shows "decision_step now org uid q s (office_service now org uid q s)"
proof -
  note defs = update_expense_def delete_expense_def approve_expense_def reject_expense_def change_pending_def set_expense_def decided_def
  consider (create) c where "q = CreateExpense c" | (change) i u where "q = UpdateExpense i u \<or> q = DeleteExpense i"
    | (decide) i w where "q = ApproveExpense i \<or> q = RejectExpense i w"
    | (other) "expense_table (cur (office_service now org uid q s)) = expense_table (cur s)"
  proof (cases q)
  qed (use assms(1) in \<open>auto simp: create_lead_def update_lead_def delete_lead_def assign_lead_def convert_lead_def create_campaign_def update_campaign_def
      delete_campaign_def pause_campaign_def resume_campaign_def change_campaign_def create_ticket_def insert_ticket_def update_ticket_def assign_ticket_def
      add_message_def insert_message_def resolve_ticket_def close_ticket_def change_ticket_def remove_def Let_def snd_store_other split: option.splits\<close>)
  then show ?thesis
  proof cases
    case create
    then show ?thesis using assms(1) by (auto simp: create_expense_def Let_def decision_step_def decided_def split: option.split)
  next
    case change
    then show ?thesis using assms
      by (auto simp: defs decision_step_same intro!: decision_store decision_remove split: option.split)
  next
    case decide
    show ?thesis
    proof (cases "expense_by_id org i (cur s)")
      case None
      then show ?thesis using decide by (auto simp: defs decision_step_same)
    next
      case (Some x)
      note x = find_own_Some [OF Some] and put = decision_store [OF assms Some]
      show ?thesis
      proof (cases "xp_status x = ExpPending")
        case True
        have "decision_step now org uid q s (snd (store xp_id expense_table_update expense_row_error
            (x\<lparr>xp_status := st, xp_approved_by_user_id := Some uid, xp_approved_at := Some now, xp_rejection_reason := why\<rparr>) s))" for st why
          using decide x True by (intro put) auto
        then show ?thesis using decide Some True by (auto simp: approve_expense_def reject_expense_def change_pending_def)
      qed (use decide Some in \<open>auto simp: defs decision_step_same\<close>)
    qed
  qed (rule decision_step_same)
qed

text \<open>A request that decides on an expense: who sent it, and what it leaves.\<close>

definition decided_by :: "auth_env \<Rightarrow> office \<Rightarrow> expense \<Rightarrow> bool" where
  "decided_by env s x \<longleftrightarrow> (\<exists>now r u t. get_current_user env now r (base_session s) = Some (Inr u, t) \<and> require_admin u = None \<and>
     get_org_id_for_query r u (cur t) = Inr (xp_organization_id x) \<and> xp_approved_by_user_id x = Some (usr_id u) \<and> xp_approved_at x = Some now)"

lemma office_step_decisions:
  assumes "office_step env s s'" "at_rest s" "office_ok (cur s)"
  shows "at_rest s' \<and> office_ok (cur s') \<and> (\<forall>x \<in> set (expense_table (cur s)). decided x \<longrightarrow> x \<in> set (expense_table (cur s'))) \<and>
     (\<forall>x \<in> set (expense_table (cur s')). decided x \<longrightarrow> x \<in> set (expense_table (cur s)) \<or> decided_by env s x)"
proof -
  obtain now r q where q: "serve_office env now r q s = Some s'" using assms(1) by (blast elim: office_step.cases)
  from serve_office_cases [OF q] show ?thesis unfolding answered_by_def
  proof (elim disjE exE conjE)
    fix u t org
    assume u: "get_current_user env now r (base_session s) = Some (Inr u, t)" "get_org_id_for_query r u (cur t) = Inr org" "route_guard q u = None"
      and s': "s' = office_service now org (usr_id u) q (with_base t s)"
    have ok: "at_rest (with_base t s)" "office_ok (cur (with_base t s))" "expense_table (cur (with_base t s)) = expense_table (cur s)"
      using assms(2,3) by (simp_all add: with_base_rest)
    have "at_rest s' \<and> office_ok (cur s')"
      using office_service_isolated [OF ok(1,2), of org "org + 1"] by (simp add: s' isolated_def)
    moreover have "decision_step now org (usr_id u) q (with_base t s) s'" unfolding s' by (rule service_decisions [OF ok(1,2)])
    moreover have "require_admin u = None" if "q = ApproveExpense i \<or> q = RejectExpense i w" for i w
      using u(3) that by (auto simp: route_guard_def)
    then have "decided_by env s x" if "xp_organization_id x = org \<and> xp_approved_by_user_id x = Some (usr_id u) \<and> xp_approved_at x = Some now \<and>
        (\<exists>i w. q = ApproveExpense i \<or> q = RejectExpense i w)" for x
      using that u(1,2) unfolding decided_by_def by blast
    ultimately show ?thesis unfolding decision_step_def ok(3) by blast
  qed (use assms(2,3) in \<open>simp_all add: with_base_rest\<close>)
qed

text \<open>
  C38. A decision on an expense is final and is made by an administrator of its tenant. Over every
  sequence of requests, whoever sends them, an expense that was approved or rejected stays in
  the committed table unchanged; and one that is decided at the end, but was not so at the
  beginning, was decided in a request of the run by an active administrator who acted in the
  organisation of the expense and whose id the expense keeps.
\<close>

theorem expense_decisions_are_final:
  assumes "(office_step env)\<^sup>*\<^sup>* s s'" "at_rest s" "office_ok (cur s)"
  shows "(\<forall>x \<in> set (expense_table (saved s)). decided x \<longrightarrow> x \<in> set (expense_table (saved s')))
    \<and> (\<forall>x \<in> set (expense_table (saved s')). decided x \<longrightarrow> x \<in> set (expense_table (saved s))
        \<or> (\<exists>t. (office_step env)\<^sup>*\<^sup>* s t \<and> (office_step env)\<^sup>*\<^sup>* t s' \<and> decided_by env t x))"
proof -
  have "at_rest s' \<and> office_ok (cur s') \<and> (\<forall>x \<in> set (expense_table (cur s)). decided x \<longrightarrow> x \<in> set (expense_table (cur s'))) \<and>
      (\<forall>x \<in> set (expense_table (cur s')). decided x \<longrightarrow> x \<in> set (expense_table (cur s))
        \<or> (\<exists>t. (office_step env)\<^sup>*\<^sup>* s t \<and> (office_step env)\<^sup>*\<^sup>* t s' \<and> decided_by env t x))"
    using assms
  proof (induction rule: rtranclp_induct)
    case (step y z)
    then have "at_rest y" "office_ok (cur y)" by simp_all
    note z = office_step_decisions [OF step.hyps(2) this]
    have yz: "(office_step env)\<^sup>*\<^sup>* t z" if "(office_step env)\<^sup>*\<^sup>* t y" for t
      using that step.hyps(2) by (rule rtranclp.rtrancl_into_rtrancl)
    show ?case
    proof (intro conjI ballI impI)
      fix x assume "x \<in> set (expense_table (cur z))" "decided x"
      then consider "x \<in> set (expense_table (cur y))" | "decided_by env y x" using z by blast
      then show "x \<in> set (expense_table (cur s)) \<or> (\<exists>t. (office_step env)\<^sup>*\<^sup>* s t \<and> (office_step env)\<^sup>*\<^sup>* t z \<and> decided_by env t x)"
        using step.IH step.prems step.hyps(1) \<open>decided x\<close> yz by cases blast+
    qed (use z step.IH step.prems in blast)+
  qed simp
  then show ?thesis using assms(2) by simp
qed

section \<open>The theorems at a concrete input\<close>

definition lead0 :: lead where
  "lead0 = \<lparr>ld_id = 1, ld_organization_id = 2, ld_name = ''Ann'', ld_email = None, ld_phone = None, ld_company = None, ld_address = None, ld_city = None,
     ld_status = LeadNew, ld_source = None, ld_notes = None, ld_estimated_value = None, ld_assigned_to_user_id = None, ld_converted_to_user_id = None,
     ld_converted_at = None, ld_created_by_user_id = 1, ld_created_at = 0\<rparr>"

definition expense0 :: expense where
  "expense0 = \<lparr>xp_id = 1, xp_organization_id = 1, xp_date = 0, xp_category = Travel, xp_description = ''fuel'', xp_amount = 50, xp_currency = ''KES'',
     xp_receipt_url = None, xp_added_by_user_id = 1, xp_status = ExpPending, xp_notes = None, xp_approved_by_user_id = None, xp_approved_at = None,
     xp_rejection_reason = None, xp_created_at = 0\<rparr>"

definition office0 :: office where
  "office0 = (let d = \<lparr>base = guards_db, lead_table = [lead0], expense_table = [expense0], campaign_table = [], ticket_table = [], message_table = [],
     lead_seq = 2, expense_seq = 2, campaign_seq = 1, ticket_seq = 1, message_seq = 1\<rparr> in \<lparr>cur = d, saved = d\<rparr>)"

lemma office0_ok: "at_rest office0" "office_ok (cur office0)"
  by (simp_all add: office0_def at_rest_def office_ok_def table_ok_def uniq_def lead0_def expense0_def Let_def)

theorem office_rows_are_isolated_witness:
  "serve_office auth1 0 (request1 ''sso'') (DeleteLead 1) office0 \<noteq> None \<and>
   fst (tenant_part 2 (saved (the (serve_office auth1 0 (request1 ''sso'') (DeleteLead 1) office0)))) = [lead0]"
proof -
  have "map_option (\<lambda>_. ()) (serve_office auth1 0 (request1 ''sso'') (DeleteLead 1) office0) = Some ()" by code_simp
  then obtain s' where s': "serve_office auth1 0 (request1 ''sso'') (DeleteLead 1) office0 = Some s'" by blast
  have "map_option (\<lambda>(x, t). case x of Inl _ \<Rightarrow> True | Inr u \<Rightarrow> usr_role u \<noteq> PlatformOwner \<and> usr_organization_id u \<noteq> Some 2)
      (get_current_user auth1 0 (request1 ''sso'') (base_session office0)) = Some True" by code_simp
  then have "outsider auth1 0 (request1 ''sso'') 2 office0" by (auto simp: outsider_def)
  with s' have "(foreign_request auth1 2)\<^sup>*\<^sup>* office0 s'" by (blast intro: foreign_request.intros)
  moreover have "fst (tenant_part 2 (saved office0)) = [lead0]" by code_simp
  ultimately show ?thesis unfolding s' using office_rows_are_isolated [OF _ office0_ok, of auth1 2 s'] by simp
qed

theorem expense_decisions_are_final_witness:
  "\<exists>x \<in> set (expense_table (saved (the (serve_office auth1 0 (request1 ''sso'') (ApproveExpense 1) office0)))).
     xp_status x = ExpApproved \<and> xp_approved_by_user_id x = Some 1 \<and> (\<exists>t. (office_step auth1)\<^sup>*\<^sup>* office0 t \<and> decided_by auth1 t x)"
proof -
  let ?r = "serve_office auth1 0 (request1 ''sso'') (ApproveExpense 1) office0"
  let ?x = "expense0\<lparr>xp_status := ExpApproved, xp_approved_by_user_id := Some 1, xp_approved_at := Some 0\<rparr>"
  have "map_option (\<lambda>s. expense_table (saved s)) ?r = Some [?x]" by code_simp
  then obtain s' where s': "?r = Some s'" "expense_table (saved s') = [?x]" by blast
  then have "(office_step auth1)\<^sup>*\<^sup>* office0 s'" by (blast intro: office_step.intros)
  from expense_decisions_are_final [OF this office0_ok] have "\<exists>t. (office_step auth1)\<^sup>*\<^sup>* office0 t \<and> decided_by auth1 t ?x"
    using s'(2) by (auto simp: decided_def office0_def expense0_def Let_def)
  then show ?thesis unfolding s' option.sel by simp
qed

end
