(* ===== verification/Support_Desk.thy ===== *)
theory Support_Desk
  imports Office_Requests
begin

text \<open>
  The second service for tickets (\<open>src/app/modules/support/service.py\<close>) and the endpoints on it
  (\<open>src/app/api/v1/support/notifications.py\<close>). It works on the tables of \<open>Back_Office\<close>; its
  organisation is the one the middleware found for the request, and a ticket is looked up by
  its id alone.
\<close>

section \<open>Reading\<close>

abbreviation get_ticket_by_id :: "int \<Rightarrow> office_db \<Rightarrow> ticket option" where
  "get_ticket_by_id i d \<equiv> tbl_get tk_id i (ticket_table d)"

definition in_context :: "int option \<Rightarrow> ticket \<Rightarrow> bool" where
  \<comment> \<open>the filter on the tenant, when there is one\<close>
  "in_context ctx t \<longleftrightarrow> opt_filter ctx (Some (tk_organization_id t))"

definition get_ticket_by_number :: "int option \<Rightarrow> string \<Rightarrow> office_db \<Rightarrow> ticket option" where
  \<comment> \<open>the number is unique\<close>
  "get_ticket_by_number ctx number d = one_of (filter (\<lambda>t. tk_ticket_number t = number \<and> in_context ctx t) (ticket_table d))"

definition get_tickets ::
    "int option \<Rightarrow> PaginationParams \<Rightarrow> int option \<Rightarrow> int option \<Rightarrow> TicketStatus option \<Rightarrow> TicketPriority option \<Rightarrow> string option \<Rightarrow> string option
     \<Rightarrow> office_db \<Rightarrow> ticket listing" where
  "get_tickets ctx pg user_id assigned_to status priority category search d =
     paginate tk_created_at pg (filter (\<lambda>t. in_context ctx t \<and> opt_filter user_id (Some (tk_user_id t)) \<and> opt_filter assigned_to (tk_assigned_to t) \<and>
       (status \<noteq> None \<longrightarrow> Some (tk_status t) = status) \<and> (priority \<noteq> None \<longrightarrow> Some (tk_priority t) = priority) \<and>
       (truthy category \<longrightarrow> tk_category t = category) \<and>
       search_any search [Some (tk_subject t), Some (tk_description t), Some (tk_ticket_number t)]) (ticket_table d))"

definition get_ticket_messages :: "int \<Rightarrow> bool \<Rightarrow> office_db \<Rightarrow> ticket_message list" where
  "get_ticket_messages i include_internal d =
     order_by tm_created_at (filter (\<lambda>m. tm_ticket_id m = i \<and> (include_internal \<or> \<not> tm_is_internal m)) (message_table d))"

definition get_user_tickets :: "int \<Rightarrow> TicketStatus option \<Rightarrow> office_db \<Rightarrow> ticket list" where
  "get_user_tickets uid status d =
     order_by (\<lambda>t. - tk_created_at t) (filter (\<lambda>t. tk_user_id t = uid \<and> (status \<noteq> None \<longrightarrow> Some (tk_status t) = status)) (ticket_table d))"

definition get_assigned_tickets :: "int \<Rightarrow> TicketStatus option \<Rightarrow> office_db \<Rightarrow> ticket list" where
  "get_assigned_tickets uid status d =
     order_by (\<lambda>t. - tk_created_at t) (filter (\<lambda>t. tk_assigned_to t = Some uid \<and> (status \<noteq> None \<longrightarrow> Some (tk_status t) = status)) (ticket_table d))"

fun priority_rank :: "TicketPriority \<Rightarrow> int" where
  \<comment> \<open>the order of the values of the enumeration type\<close>
  "priority_rank LowPriority = 0" | "priority_rank MediumPriority = 1" | "priority_rank HighPriority = 2" | "priority_rank UrgentPriority = 3"

definition get_open_tickets :: "int option \<Rightarrow> office_db \<Rightarrow> ticket list" where
  "get_open_tickets ctx d =
     order_by (\<lambda>t. - priority_rank (tk_priority t)) (order_by tk_created_at
       (filter (\<lambda>t. tk_status t \<in> {TktOpen, TktInProgress} \<and> in_context ctx t) (ticket_table d)))"

record desk_statistics =
  ds_total :: nat
  ds_open :: nat
  ds_in_progress :: nat
  ds_resolved :: nat
  ds_closed :: nat
  ds_avg_resolution_hours :: rat \<comment> \<open>before rounding to two places\<close>
  ds_resolution_rate :: rat

definition get_ticket_stats :: "int option \<Rightarrow> office_db \<Rightarrow> desk_statistics" where
  "get_ticket_stats ctx d =
     (let own = filter (in_context ctx) (ticket_table d); number = (\<lambda>st. length (filter (\<lambda>t. tk_status t = st) own));
          ended = filter (\<lambda>t. tk_resolved_at t \<noteq> None) own;
          hours_of = (\<lambda>t. of_int (the (tk_resolved_at t) - tk_created_at t) / 3600000000 :: rat)
      in \<lparr>ds_total = length own, ds_open = number TktOpen, ds_in_progress = number TktInProgress, ds_resolved = number TktResolved,
          ds_closed = number TktClosed,
          ds_avg_resolution_hours = (if ended = [] then 0 else sum_list (map hours_of ended) / of_nat (length ended)),
          ds_resolution_rate = (if own = [] then 0 else of_nat (number TktResolved + number TktClosed) / of_nat (length own) * 100)\<rparr>)"

definition get_ticket_stats_by_priority :: "int option \<Rightarrow> office_db \<Rightarrow> (TicketPriority \<times> nat) list" where
  "get_ticket_stats_by_priority ctx d =
     (let ps = map tk_priority (filter (in_context ctx) (ticket_table d)) in map (\<lambda>p. (p, count_list ps p)) (remdups ps))"

definition get_ticket_stats_by_category :: "int option \<Rightarrow> office_db \<Rightarrow> (string \<times> nat) list" where
  "get_ticket_stats_by_category ctx d =
     (let cs = map (\<lambda>t. the (tk_category t)) (filter (\<lambda>t. tk_category t \<noteq> None \<and> in_context ctx t) (ticket_table d))
      in map (\<lambda>c. (c, count_list cs c)) (remdups cs))"

section \<open>Changing\<close>

definition monthly_ticket_number :: "datetime \<Rightarrow> int option \<Rightarrow> office_db \<Rightarrow> string" where
  "monthly_ticket_number now ctx d =
     numbered ''TKT-'' now
       (length (filter (\<lambda>t. prefix (''TKT-'' @ year_month now) (tk_ticket_number t) \<and> in_context ctx t) (ticket_table d)) + 1)"

definition open_ticket :: "datetime \<Rightarrow> int option \<Rightarrow> int \<Rightarrow> ticket_create \<Rightarrow> office \<Rightarrow> (exn + ticket) \<times> office" where
  "open_ticket now ctx uid q s =
     (case ctx of
        None \<Rightarrow> (Inl (IntegrityError ''organization_id''), rollback s)
      | Some org \<Rightarrow> insert_ticket (new_ticket now (ticket_seq (cur s)) org (monthly_ticket_number now ctx (cur s)) (q\<lparr>tc_user_id := uid\<rparr>)) s)"

definition log_ticket_action :: "datetime \<Rightarrow> int \<Rightarrow> string \<Rightarrow> string \<Rightarrow> int option \<Rightarrow> office \<Rightarrow> (exn + unit) \<times> office" where
  "log_ticket_action now i action details uid s =
     (case uid of
        None \<Rightarrow> (Inl (IntegrityError ''user_id''), rollback s)
      | Some u \<Rightarrow> (case insert_message now i u (''['' @ upper_case action @ ''] '' @ details) True None s of
                    (Inl e, s1) \<Rightarrow> (Inl e, s1) | (Inr _, s1) \<Rightarrow> (Inr (), s1)))"

fun ticket_status_value :: "TicketStatus \<Rightarrow> string" where
  "ticket_status_value TktOpen = ''open''"
| "ticket_status_value TktInProgress = ''in_progress''"
| "ticket_status_value TktResolved = ''resolved''"
| "ticket_status_value TktClosed = ''closed''"
| "ticket_status_value TktCancelled = ''cancelled''"

text \<open>A change of the row is committed first, the message about it after that.\<close>

definition change_and_log ::
    "datetime \<Rightarrow> int \<Rightarrow> (ticket \<Rightarrow> ticket) \<Rightarrow> string \<Rightarrow> string \<Rightarrow> int option \<Rightarrow> office \<Rightarrow> (exn + ticket option) \<times> office" where
  "change_and_log now i f action details uid s =
     (case get_ticket_by_id i (cur s) of
        None \<Rightarrow> (Inr None, s)
      | Some t \<Rightarrow>
          (case store_ticket (f t) s of
             (Inl e, s1) \<Rightarrow> (Inl e, s1)
           | (Inr x, s1) \<Rightarrow> (case log_ticket_action now i action details uid s1 of (Inl e, s2) \<Rightarrow> (Inl e, s2) | (Inr _, s2) \<Rightarrow> (Inr x, s2))))"

definition desk_update_ticket :: "datetime \<Rightarrow> int \<Rightarrow> ticket_update \<Rightarrow> TicketStatus option \<Rightarrow> int option \<Rightarrow> office \<Rightarrow> (exn + ticket option) \<times> office" where
  \<comment> \<open>the status is a field of the update that the schema of the endpoint does not have\<close>
  "desk_update_ticket now i q status uid s =
     (case get_ticket_by_id i (cur s) of
        None \<Rightarrow> (Inr None, s)
      | Some t \<Rightarrow>
          (let f = (\<lambda>t. (set_ticket q t)\<lparr>tk_status := keep status (tk_status t)\<rparr>)
           in if tk_status (f t) = tk_status t then store_ticket (f t) s
              else change_and_log now i f ''status_changed''
                (''Status changed from '' @ ticket_status_value (tk_status t) @ '' to '' @ ticket_status_value (tk_status (f t))) uid s))"

definition desk_assign_ticket :: "datetime \<Rightarrow> int \<Rightarrow> int \<Rightarrow> int option \<Rightarrow> office \<Rightarrow> (exn + ticket option) \<times> office" where
  "desk_assign_ticket now i assigned_to uid s =
     (case (get_ticket_by_id i (cur s), tbl_get usr_id assigned_to (users (base (cur s)))) of
        (None, _) \<Rightarrow> (Inr None, s)
      | (Some _, None) \<Rightarrow> (Inl (Exn ''ValueError'' ''Assignee not found''), s)
      | (Some _, Some a) \<Rightarrow> change_and_log now i (\<lambda>t. t\<lparr>tk_assigned_to := Some assigned_to, tk_status := TktInProgress\<rparr>)
          ''assigned'' (''Ticket assigned to '' @ usr_username a) uid s)"

definition desk_resolve_ticket :: "datetime \<Rightarrow> int \<Rightarrow> string \<Rightarrow> int option \<Rightarrow> office \<Rightarrow> (exn + ticket option) \<times> office" where
  "desk_resolve_ticket now i resolution = change_and_log now i
     (\<lambda>t. t\<lparr>tk_status := TktResolved, tk_resolution := Some resolution, tk_resolved_at := Some now\<rparr>) ''resolved'' (''Ticket resolved: '' @ resolution)"

definition desk_close_ticket :: "datetime \<Rightarrow> int \<Rightarrow> int option \<Rightarrow> office \<Rightarrow> (exn + ticket option) \<times> office" where
  "desk_close_ticket now i = change_and_log now i (\<lambda>t. t\<lparr>tk_status := TktClosed, tk_closed_at := Some now\<rparr>) ''closed'' ''Ticket closed''"

definition desk_cancel_ticket :: "datetime \<Rightarrow> int \<Rightarrow> int option \<Rightarrow> string option \<Rightarrow> office \<Rightarrow> (exn + ticket option) \<times> office" where
  "desk_cancel_ticket now i uid reason = change_and_log now i (\<lambda>t. t\<lparr>tk_status := TktCancelled, tk_closed_at := Some now\<rparr>)
     ''cancelled'' (''Ticket cancelled. Reason: '' @ or_str reason ''No reason provided'') uid"

definition add_ticket_message :: "datetime \<Rightarrow> int \<Rightarrow> int \<Rightarrow> string \<Rightarrow> bool \<Rightarrow> string option \<Rightarrow> office \<Rightarrow> (exn + ticket_message) \<times> office" where
  \<comment> \<open>a message reopens a ticket that was resolved or closed\<close>
  "add_ticket_message now i uid msg is_internal attachments s =
     (case insert_message now i uid msg is_internal attachments s of
        (Inl e, s1) \<Rightarrow> (Inl e, s1)
      | (Inr m, s1) \<Rightarrow>
          (Inr m, (case get_ticket_by_id i (cur s1) of
             Some t \<Rightarrow> if tk_status t \<in> {TktClosed, TktResolved}
                       then commit (on_db (ticket_table_update (tbl_upd tk_id i (tk_status_update (\<lambda>_. TktInProgress)))) s1) else s1
           | None \<Rightarrow> s1)))"

section \<open>Endpoints\<close>

definition desk_endpoint ::
    "auth_env \<Rightarrow> datetime \<Rightarrow> http_request \<Rightarrow> (user \<Rightarrow> exn option) \<Rightarrow> (user \<Rightarrow> office \<Rightarrow> (exn + 'a) \<times> office) \<Rightarrow> office \<Rightarrow> ((exn + 'a) \<times> office) option" where
  "desk_endpoint env now r guard handler s =
     (case get_current_user env now r (base_session s) of
        None \<Rightarrow> None
      | Some (Inl e, t) \<Rightarrow> Some (Inl e, with_base t s)
      | Some (Inr u, t) \<Rightarrow> (case guard u of Some e \<Rightarrow> Some (Inl e, with_base t s) | None \<Rightarrow> Some (handler u (with_base t s))))"

definition found_ticket :: "(exn + 'a option) \<times> office \<Rightarrow> (exn + 'a) \<times> office" where
  "found_ticket res =
     (case res of
        (Inl e, s) \<Rightarrow> (Inl e, s)
      | (Inr None, s) \<Rightarrow> (Inl (Exn ''HTTPException'' ''404: Ticket not found''), s)
      | (Inr (Some x), s) \<Rightarrow> (Inr x, s))"

definition may_see :: "user \<Rightarrow> ticket \<Rightarrow> bool" where
  \<comment> \<open>the words are not those of the roles\<close>
  "may_see u t \<longleftrightarrow> user_role_value (usr_role u) \<in> {''admin'', ''technician''} \<or> tk_user_id t = usr_id u"

definition seen_ticket :: "string \<Rightarrow> int \<Rightarrow> (ticket \<Rightarrow> office \<Rightarrow> (exn + 'a) \<times> office) \<Rightarrow> user \<Rightarrow> office \<Rightarrow> (exn + 'a) \<times> office" where
  "seen_ticket what i f u s =
     (case get_ticket_by_id i (cur s) of
        None \<Rightarrow> (Inl (Exn ''HTTPException'' ''404: Ticket not found''), s)
      | Some t \<Rightarrow> if may_see u t then f t s else (Inl (Exn ''HTTPException'' (''403: Not authorized to '' @ what)), s))"

definition open_desk_request :: "auth_env \<Rightarrow> datetime \<Rightarrow> http_request \<Rightarrow> ticket_create \<Rightarrow> office \<Rightarrow> ((exn + ticket) \<times> office) option" where
  "open_desk_request env now r q s =
     (case tenant_context env now r (base (cur s)) of
        Inl e \<Rightarrow> Some (Inl e, s)
      | Inr (ctx, _) \<Rightarrow> desk_endpoint env now r anyone (\<lambda>u. open_ticket now ctx (usr_id u) q) s)"

definition get_desk_request :: "auth_env \<Rightarrow> datetime \<Rightarrow> http_request \<Rightarrow> int \<Rightarrow> office \<Rightarrow> ((exn + ticket) \<times> office) option" where
  "get_desk_request env now r i = desk_endpoint env now r anyone (seen_ticket ''view this ticket'' i (\<lambda>t s. (Inr t, s)))"

definition update_desk_request :: "auth_env \<Rightarrow> datetime \<Rightarrow> http_request \<Rightarrow> int \<Rightarrow> ticket_update \<Rightarrow> office \<Rightarrow> ((exn + ticket) \<times> office) option" where
  "update_desk_request env now r i q =
     desk_endpoint env now r require_technician_or_admin (\<lambda>u s. found_ticket (desk_update_ticket now i q None (Some (usr_id u)) s))"

definition assign_desk_request :: "auth_env \<Rightarrow> datetime \<Rightarrow> http_request \<Rightarrow> int \<Rightarrow> int \<Rightarrow> office \<Rightarrow> ((exn + ticket) \<times> office) option" where
  "assign_desk_request env now r i assigned_to =
     desk_endpoint env now r require_technician_or_admin (\<lambda>u s. found_ticket (desk_assign_ticket now i assigned_to (Some (usr_id u)) s))"

definition resolve_desk_request :: "auth_env \<Rightarrow> datetime \<Rightarrow> http_request \<Rightarrow> int \<Rightarrow> string \<Rightarrow> office \<Rightarrow> ((exn + ticket) \<times> office) option" where
  "resolve_desk_request env now r i resolution =
     desk_endpoint env now r require_technician_or_admin (\<lambda>u s. found_ticket (desk_resolve_ticket now i resolution (Some (usr_id u)) s))"

definition close_desk_request :: "auth_env \<Rightarrow> datetime \<Rightarrow> http_request \<Rightarrow> int \<Rightarrow> office \<Rightarrow> ((exn + ticket) \<times> office) option" where
  "close_desk_request env now r i =
     desk_endpoint env now r require_technician_or_admin (\<lambda>u s. found_ticket (desk_close_ticket now i (Some (usr_id u)) s))"

definition cancel_desk_request :: "auth_env \<Rightarrow> datetime \<Rightarrow> http_request \<Rightarrow> int \<Rightarrow> string option \<Rightarrow> office \<Rightarrow> ((exn + ticket) \<times> office) option" where
  "cancel_desk_request env now r i reason =
     desk_endpoint env now r require_technician_or_admin (\<lambda>u s. found_ticket (desk_cancel_ticket now i (Some (usr_id u)) reason s))"

definition messages_desk_request :: "auth_env \<Rightarrow> datetime \<Rightarrow> http_request \<Rightarrow> int \<Rightarrow> bool \<Rightarrow> office \<Rightarrow> ((exn + ticket_message list) \<times> office) option" where
  "messages_desk_request env now r i include_internal = desk_endpoint env now r anyone
     (seen_ticket ''view this ticket's messages'' i (\<lambda>_ s. (Inr (get_ticket_messages i include_internal (cur s)), s)))"

definition message_desk_request ::
    "auth_env \<Rightarrow> datetime \<Rightarrow> http_request \<Rightarrow> int \<Rightarrow> string \<Rightarrow> bool \<Rightarrow> string option \<Rightarrow> office \<Rightarrow> ((exn + ticket_message) \<times> office) option" where
  "message_desk_request env now r i msg is_internal attachments = desk_endpoint env now r anyone
     (\<lambda>u. seen_ticket ''add messages to this ticket'' i (\<lambda>_. add_ticket_message now i (usr_id u) msg is_internal attachments) u)"

section \<open>A ticket of another tenant\<close>

lemma with_base_self [simp]: "with_base (base_session s) s = s"
  by (simp add: with_base_def base_session_def session_eqI)

lemma base_session_sel [simp]: "cur (base_session s) = base (cur s)" "saved (base_session s) = base (saved s)"
  by (simp_all add: base_session_def)

lemma desk_endpoint_runs:
  assumes "holds_token env now r i" "tbl_get usr_id i (users (base (cur s))) = Some u" "guard u = None"
  shows "desk_endpoint env now r guard handler s = Some (handler u s)"
  using current_user_of_token [OF assms(1), of "base_session s" u] assms(2,3) by (simp add: desk_endpoint_def)

text \<open>
  C39. The second set of ticket endpoints has no tenants. A technician or administrator of any
  provider closes a ticket of any other through it: the closed ticket and the message about it
  are committed. The first set answers the same request with an error and changes nothing.
\<close>

theorem foreign_staff_closes_ticket:
  assumes "holds_token env now r i" "tbl_get usr_id i (users (base (cur s))) = Some u" "require_technician_or_admin u = None"
    "usr_role u \<noteq> PlatformOwner" "usr_organization_id u \<noteq> Some (tk_organization_id t)" "office_ok (cur s)" "t \<in> set (ticket_table (cur s))"
    "ticket_row_error t (cur s) = None"
  shows "(\<exists>s'. close_desk_request env now r (tk_id t) s = Some (Inr (t\<lparr>tk_status := TktClosed, tk_closed_at := Some now\<rparr>), s')
        \<and> t\<lparr>tk_status := TktClosed, tk_closed_at := Some now\<rparr> \<in> set (ticket_table (saved s'))
        \<and> (\<exists>m \<in> set (message_table (saved s')). tm_ticket_id m = tk_id t \<and> tm_user_id m = i \<and> tm_message m = ''[CLOSED] Ticket closed''))
    \<and> (\<exists>e. close_ticket_request env now r (tk_id t) s = Some (Inl e, s))"
proof -
  let ?t = "t\<lparr>tk_status := TktClosed, tk_closed_at := Some now\<rparr>"
  have ok: "table_ok tk_id (ticket_seq (cur s)) (ticket_table (cur s))" using assms(6) by (simp add: office_ok_def)
  have g: "get_ticket_by_id (tk_id t) (cur s) = Some t" using ok assms(7) by (simp add: table_ok_def uniq_tbl_get)
  have id: "usr_id u = i" using assms(2) by auto
  have "ticket_row_error ?t (cur s) = ticket_row_error t (cur s)" by (auto simp: ticket_row_error_def)
  then have e: "ticket_row_error ?t (cur s) = None" using assms(8) by simp
  have m: "user_exists i (cur s)" using assms(2) by (simp add: user_exists_def)
  let ?s = "commit (on_db (ticket_table_update (tbl_upd tk_id (tk_id t) (\<lambda>_. ?t))) s)"
  have "tk_id t \<in> tk_id ` set (tbl_upd tk_id (tk_id ?t) (\<lambda>_. ?t) (ticket_table (cur s)))" unfolding keys_upd using assms(7) by simp
  then have "get_ticket_by_id (tk_id t) (cur ?s) \<noteq> None" unfolding tbl_get_None by simp
  moreover have "upper_case ''closed'' = ''CLOSED''" by code_simp
  moreover have "?t \<in> set (tbl_upd tk_id (tk_id t) (\<lambda>_. ?t) (ticket_table (cur s)))" using assms(7) by (auto simp: in_tbl_upd)
  ultimately obtain s' where "close_desk_request env now r (tk_id t) s = Some (Inr ?t, s')" "?t \<in> set (ticket_table (saved s'))"
      "\<exists>m \<in> set (message_table (saved s')). tm_ticket_id m = tk_id t \<and> tm_user_id m = i \<and> tm_message m = ''[CLOSED] Ticket closed''"
    using m assms(7) by (auto simp: close_desk_request_def desk_endpoint_runs [where i = i] assms(1-3) desk_close_ticket_def change_and_log_def g store_def e
      log_ticket_action_def insert_message_def id Let_def found_ticket_def user_exists_def)
  moreover have "\<exists>e. close_ticket_request env now r (tk_id t) s = Some (Inl e, s)"
  proof (cases "get_org_id_for_query r u (cur (base_session s))")
    case (Inr org)
    then have "org \<noteq> tk_organization_id t" using org_of_query [OF Inr assms(4)] assms(5) by auto
    then have "ticket_by_id org (tk_id t) (cur s) = None"
      using same_key_same_row [OF ok assms(7)] find_own_Some [of tk_id tk_organization_id org "tk_id t" "ticket_table (cur s)"] by (metis not_None_eq)
    then show ?thesis using current_user_of_token [OF assms(1), of "base_session s" u] assms(2) Inr
      by (auto simp: close_ticket_request_def office_endpoint_def close_ticket_def change_ticket_def or_404_def bad_request_def split: option.split)
  qed (use current_user_of_token [OF assms(1), of "base_session s" u] assms(2) in
    \<open>simp add: close_ticket_request_def office_endpoint_def\<close>)
  ultimately show ?thesis by blast
qed

section \<open>Numbers of tickets\<close>

definition months_tickets :: "datetime \<Rightarrow> int \<Rightarrow> office_db \<Rightarrow> ticket list" where
  "months_tickets now org d = filter (\<lambda>t. prefix (''TKT-'' @ year_month now) (tk_ticket_number t) \<and> tk_organization_id t = org) (ticket_table d)"

text \<open>
  C40. Only one tenant can open its first ticket of a month. The number of a ticket counts the tickets
  of the tenant in the month, but must be unique over all tenants: once a tenant has opened
  its first ticket of the month, every attempt of another tenant that has none yet fails and
  leaves the tables as they are.
\<close>

theorem second_tenant_cannot_open_ticket:
  assumes "open_ticket now (Some a) uid q s = (Inr t, s1)" "months_tickets now a (cur s) = []" "months_tickets now b (cur s) = []"
    "a \<noteq> b" "a \<noteq> 0" "b \<noteq> 0" "year_month later = year_month now" "office_ok (cur s)"
  shows "\<exists>e. open_ticket later (Some b) uid2 q2 s1 = (Inl e, rollback s1) \<and> saved (rollback s1) = saved s1"
proof -
  have none: "monthly_ticket_number now (Some a) (cur s) = numbered ''TKT-'' now 1"
    using assms(2,5) by (simp add: monthly_ticket_number_def months_tickets_def in_context_def opt_filter_def truthy_int_def)
  have t: "t = new_ticket now (ticket_seq (cur s)) a (numbered ''TKT-'' now 1) (q\<lparr>tc_user_id := uid\<rparr>)"
    and s1: "s1 = commit (on_db (\<lambda>d. d\<lparr>ticket_table := ticket_table d @ [t], ticket_seq := ticket_seq d + 1\<rparr>) s)"
    using assms(1) by (auto simp: open_ticket_def insert_ticket_def none split: option.splits)
  have "tk_organization_id t = a" "tk_id t = ticket_seq (cur s)" "tk_ticket_number t = numbered ''TKT-'' now 1" by (simp_all add: t new_ticket_def)
  moreover from this have "monthly_ticket_number later (Some b) (cur s1) = numbered ''TKT-'' now 1"
    using assms(3,4,6,7) by (simp add: monthly_ticket_number_def months_tickets_def in_context_def opt_filter_def truthy_int_def s1 numbered_def)
  ultimately have "ticket_row_error (new_ticket later (ticket_seq (cur s1)) b (monthly_ticket_number later (Some b) (cur s1)) (q2\<lparr>tc_user_id := uid2\<rparr>)) (cur s1) \<noteq> None"
    by (simp add: ticket_row_error_def new_ticket_def s1)
  then show ?thesis by (auto simp: open_ticket_def insert_ticket_def)
qed

section \<open>The theorems at a concrete input\<close>

definition ticket0 :: ticket where
  "ticket0 = \<lparr>tk_id = 1, tk_organization_id = 2, tk_user_id = 1, tk_assigned_to = None, tk_ticket_number = ''TKT-1'', tk_subject = ''no link'',
     tk_description = ''no link'', tk_status = TktOpen, tk_priority = HighPriority, tk_category = None, tk_tags = None, tk_resolution = None,
     tk_resolved_at = None, tk_closed_at = None, tk_attachments = None, tk_created_at = 0\<rparr>"

definition desk0 :: office where
  "desk0 = (let d = (cur office0)\<lparr>ticket_table := [ticket0], ticket_seq := 2\<rparr> in \<lparr>cur = d, saved = d\<rparr>)"

lemma desk0_simps: "ticket_table (cur desk0) = [ticket0]" "ticket_seq (cur desk0) = 2" "base (cur desk0) = guards_db" "office_ok (cur desk0)"
  by (simp_all add: desk0_def office0_def Let_def office_ok_def table_ok_def uniq_def lead0_def expense0_def ticket0_def)

theorem foreign_staff_closes_ticket_witness:
  "\<exists>t s'. close_desk_request auth1 0 (request1 token1) 1 desk0 = Some (Inr t, s') \<and> tk_organization_id t = 2 \<and> tk_status t = TktClosed
     \<and> usr_organization_id user0 = Some 1"
proof -
  let ?u = "user0\<lparr>usr_role := IspAdmin\<rparr>"
  have u: "tbl_get usr_id 1 (users (base (cur desk0))) = Some ?u" "require_technician_or_admin ?u = None" "usr_role ?u \<noteq> PlatformOwner"
      "usr_organization_id ?u \<noteq> Some (tk_organization_id ticket0)" "ticket0 \<in> set (ticket_table (cur desk0))"
    by (simp_all add: desk0_simps guards_db_simps tbl_get_def user0_def ticket0_def require_technician_or_admin_def active_with_role_def
      get_current_active_user_def)
  have e: "ticket_row_error ticket0 (cur desk0) = None" by code_simp
  have t: "tk_id ticket0 = 1" "tk_organization_id ticket0 = 2" "usr_organization_id user0 = Some 1" by (simp_all add: ticket0_def user0_def)
  from foreign_staff_closes_ticket [OF token1_held u(1-4) desk0_simps(4) u(5) e] obtain s'
    where "close_desk_request auth1 0 (request1 token1) 1 desk0 = Some (Inr (ticket0\<lparr>tk_status := TktClosed, tk_closed_at := Some 0\<rparr>), s')"
    unfolding t(1) by blast
  then show ?thesis using t by simp
qed

definition question0 :: ticket_create where
  "question0 = \<lparr>tc_user_id = 1, tc_subject = ''no link'', tc_description = ''no link'', tc_priority = HighPriority, tc_category = None, tc_tags = None,
     tc_attachments = None\<rparr>"

theorem second_tenant_cannot_open_ticket_witness:
  "\<exists>t s1 e. open_ticket 0 (Some 1) 1 question0 office0 = (Inr t, s1) \<and> open_ticket 0 (Some 2) 1 question0 s1 = (Inl e, rollback s1)"
proof -
  have "(case fst (open_ticket 0 (Some 1) 1 question0 office0) of Inl _ \<Rightarrow> False | Inr _ \<Rightarrow> True) = True" by code_simp
  then obtain t s1 where t: "open_ticket 0 (Some 1) 1 question0 office0 = (Inr t, s1)"
    by (cases "open_ticket 0 (Some 1) 1 question0 office0"; cases "fst (open_ticket 0 (Some 1) 1 question0 office0)") auto
  moreover have "months_tickets 0 1 (cur office0) = []" "months_tickets 0 2 (cur office0) = []" by code_simp+
  ultimately show ?thesis
    using second_tenant_cannot_open_ticket [OF t, of 2 0 1 question0] office0_ok by auto
qed

end
