(* ===== verification/Agent_Script.thy ===== *)
theory Agent_Script
  imports Command_Text
begin

text \<open>
  The script that runs on the router and reads the response
  (\<open>_generate_routeros_agent_script\<close> in \<open>src/app/api/v1/router_agent.py\<close>). It is RouterOS code in a Python
  string; modelled is its loop over the lines and how each branch cuts its fields out, up to the point where
  it acts on the device. Of RouterOS it uses \<open>:len\<close>, \<open>:pick\<close>, \<open>:find\<close> with two arguments, the position of the
  first occurrence, and \<open>:find\<close> with a start. The latter is the parameter \<open>find_from\<close>: whether the
  character at the start itself is looked at is left open. A line in which a separator
  is missing makes the script fail, here None.
\<close>

section \<open>Reading\<close>

datatype agent_command =
    Disconnect string string
  | DisableUser string string string
  | EnableUser string string string
  | RemoveUser string string string
  | CreateUser string string string string string string
  | FetchImport string string

definition position :: "char \<Rightarrow> string \<Rightarrow> nat option" where
  "position c s = (if c \<in> set s then Some (length (takeWhile (\<lambda>x. x \<noteq> c) s)) else None)"

definition pick :: "string \<Rightarrow> nat \<Rightarrow> nat \<Rightarrow> string" where
  "pick s a b = take (b - a) (drop a s)"

type_synonym find_function = "char \<Rightarrow> string \<Rightarrow> nat \<Rightarrow> nat option"

definition two_fields :: "string \<Rightarrow> (string \<times> string) option" where
  \<comment> \<open>the cuts of \<open>disconnect\<close> and \<open>fetch_import\<close>\<close>
  "two_fields rest =
     Option.bind (position (CHR ''|'') rest) (\<lambda>sep2.
     Some (pick rest 0 sep2, pick rest (sep2 + 1) (length rest)))"

definition three_fields :: "find_function \<Rightarrow> string \<Rightarrow> (string \<times> string \<times> string) option" where
  \<comment> \<open>the cuts of \<open>disable_user\<close>, \<open>enable_user\<close> and \<open>remove_user\<close>\<close>
  "three_fields find_from rest =
     Option.bind (position (CHR ''|'') rest) (\<lambda>sep2.
     Option.bind (find_from (CHR ''|'') rest (sep2 + 1)) (\<lambda>sep3.
     Some (pick rest 0 sep2, pick rest (sep2 + 1) sep3, pick rest (sep3 + 1) (length rest))))"

definition read_create :: "find_function \<Rightarrow> string \<Rightarrow> agent_command option" where
  "read_create find_from rest =
     Option.bind (position (CHR ''|'') rest) (\<lambda>sep2.
     Option.bind (find_from (CHR ''|'') rest (sep2 + 1)) (\<lambda>sep3.
     Option.bind (find_from (CHR ''|'') rest (sep3 + 1)) (\<lambda>sep4.
     Option.bind (find_from (CHR ''|'') rest (sep4 + 1)) (\<lambda>sep5.
     Option.bind (find_from (CHR ''|'') rest (sep5 + 1)) (\<lambda>sep6.
     Some (CreateUser (pick rest 0 sep2) (pick rest (sep2 + 1) sep3) (pick rest (sep3 + 1) sep4) (pick rest (sep4 + 1) sep5) (pick rest (sep5 + 1) sep6) (pick rest (sep6 + 1) (length rest))))))))"

definition read_action :: "find_function \<Rightarrow> string \<Rightarrow> string \<Rightarrow> agent_command list option" where
  "read_action find_from action rest =
     (if action = ''disconnect'' then map_option (\<lambda>(uname, cid). [Disconnect uname cid]) (two_fields rest)
      else if action = ''disable_user''
        then map_option (\<lambda>(uname, utype, cid). [DisableUser uname utype cid]) (three_fields find_from rest)
      else if action = ''enable_user''
        then map_option (\<lambda>(uname, utype, cid). [EnableUser uname utype cid]) (three_fields find_from rest)
      else if action = ''remove_user''
        then map_option (\<lambda>(uname, utype, cid). [RemoveUser uname utype cid]) (three_fields find_from rest)
      else if action = ''create_user'' then map_option (\<lambda>c. [c]) (read_create find_from rest)
      else if action = ''fetch_import'' then map_option (\<lambda>(furl, cid). [FetchImport furl cid]) (two_fields rest)
      else Some [])"

definition read_line :: "find_function \<Rightarrow> string \<Rightarrow> agent_command list option" where
  "read_line find_from line =
     (if length line > 2
      then (case position (CHR ''|'') line of
              None \<Rightarrow> Some []
            | Some sep1 \<Rightarrow> read_action find_from (pick line 0 sep1) (pick line (sep1 + 1) (length line)))
      else Some [])"

function read_commands :: "find_function \<Rightarrow> string \<Rightarrow> agent_command list option" where
  "read_commands find_from data =
     (if length data > 2
      then let line_end = (case position (CHR 0x0A) data of None \<Rightarrow> length data | Some i \<Rightarrow> i)
           in Option.bind (read_line find_from (pick data 0 line_end)) (\<lambda>now.
     Option.bind (read_commands find_from (pick data (line_end + 1) (length data))) (\<lambda>later.
     Some (now @ later)))
      else Some [])"
  by pat_completeness auto
termination
  by (relation "measure (\<lambda>(find_from, data). length data)") (auto simp: pick_def)

declare read_commands.simps [simp del]

section \<open>What was meant\<close>

text \<open>What a command asks of the router, as the script names it; the other actions are not among its branches.\<close>

definition asked_of_router :: "wire_command \<Rightarrow> agent_command list" where
  "asked_of_router cmd =
     (let (cid, action, ps) = cmd; uname = param ps ''username'' []; utype = param ps ''type'' ''pppoe''
      in if action = ''disconnect'' then [Disconnect uname cid]
         else if action = ''disable_user'' then [DisableUser uname utype cid]
         else if action = ''enable_user'' then [EnableUser uname utype cid]
         else if action = ''remove_user'' then [RemoveUser uname utype cid]
         else if action = ''create_user''
           then [CreateUser uname (param ps ''password'' []) utype (param ps ''profile'' ''default'') (param ps ''rate_limit'' []) cid]
         else if action = ''fetch_import'' then [FetchImport (param ps ''url'' []) cid]
         else [])"

definition find_documented :: "find_function \<Rightarrow> bool" where
  \<comment> \<open>from a start at which the character does not stand, the next occurrence is found\<close>
  "find_documented find_from \<longleftrightarrow>
     (\<forall>c p q. q \<noteq> [] \<longrightarrow> hd q \<noteq> c \<longrightarrow> find_from c (p @ q) (length p) = map_option (\<lambda>n. length p + n) (position c q))"

definition filled :: "wire_command \<Rightarrow> bool" where
  "filled cmd \<longleftrightarrow> (\<forall>f \<in> set (command_fields cmd). f \<noteq> [])"

section \<open>Cutting fields\<close>

lemma position_cut [simp]: "c \<notin> set f \<Longrightarrow> position c (f @ c # r) = Some (length f)"
  by (induction f) (auto simp: position_def)

lemma position_none [simp]: "c \<notin> set f \<Longrightarrow> position c f = None"
  by (simp add: position_def)

lemma next_separator:
  assumes "find_documented find_from" "f \<noteq> []" "c \<notin> set f"
  shows "find_from c (p @ f @ c # r) (length p) = Some (length p + length f)"
proof -
  have "hd (f @ c # r) \<noteq> c" using assms(2,3) by (metis hd_append2 hd_in_set)
  then show ?thesis using assms(1) assms(3) by (simp add: find_documented_def)
qed

lemma pick_parts [simp]: "pick (f @ c # r) 0 (length f) = f" "pick (f @ c # r) (Suc (length f)) (Suc (length f + length r)) = r"
  "pick f 0 (length f) = f" "pick f (Suc (length f)) n = []"
  by (simp_all add: pick_def)

lemma two_fields_read: "CHR ''|'' \<notin> set a \<Longrightarrow> two_fields (a @ CHR ''|'' # b) = Some (a, b)"
  by (simp add: two_fields_def)

lemma three_fields_read:
  assumes "find_documented find_from" "CHR ''|'' \<notin> set a" "CHR ''|'' \<notin> set b" "b \<noteq> []"
  shows "three_fields find_from (a @ CHR ''|'' # b @ CHR ''|'' # c) = Some (a, b, c)"
  using next_separator [OF assms(1,4,3), of "a @ ''|''" c] assms(2) by (simp add: three_fields_def pick_def)

lemma pick_at: "pick (p @ f @ r) (length p) (length p + length f) = f" "pick (p @ f) (length p) (length p + length f) = f"
  by (simp_all add: pick_def)

text \<open>One more field: the separator after it is found, and what lies before it is the field.\<close>

lemma field_cut:
  assumes "find_documented find_from" "CHR ''|'' \<notin> set f" "f \<noteq> []" "rest = p @ f @ CHR ''|'' # r" "k = length p"
  shows "find_from (CHR ''|'') rest k = Some (k + length f)" "pick rest k (k + length f) = f"
  using next_separator [OF assms(1,3,2), of p r] pick_at(1) [of p f "CHR ''|'' # r"] assms(4,5) by simp_all

lemma create_read:
  assumes "find_documented find_from" "\<forall>f \<in> {a, b, c, d, e}. CHR ''|'' \<notin> set f \<and> f \<noteq> []"
  shows "read_create find_from (a @ CHR ''|'' # b @ CHR ''|'' # c @ CHR ''|'' # d @ CHR ''|'' # e @ CHR ''|'' # g) = Some (CreateUser a b c d e g)"
proof -
  let ?p = "CHR ''|''"
  let ?rest = "a @ ?p # b @ ?p # c @ ?p # d @ ?p # e @ ?p # g"
  define k2 k3 k4 k5 k6 where k: "k2 = length a" "k3 = k2 + 1 + length b" "k4 = k3 + 1 + length c" "k5 = k4 + 1 + length d" "k6 = k5 + 1 + length e"
  note cut = field_cut [OF assms(1), where rest = ?rest]
  have 1: "position ?p ?rest = Some k2" "pick ?rest 0 k2 = a" using assms(2) by (simp_all add: k)
  have 2: "find_from ?p ?rest (k2 + 1) = Some k3" "pick ?rest (k2 + 1) k3 = b"
    using cut [of b "a @ [?p]" "c @ ?p # d @ ?p # e @ ?p # g" "k2 + 1"] assms(2) k by simp_all
  have 3: "find_from ?p ?rest (k3 + 1) = Some k4" "pick ?rest (k3 + 1) k4 = c"
    using cut [of c "a @ ?p # b @ [?p]" "d @ ?p # e @ ?p # g" "k3 + 1"] assms(2) k by simp_all
  have 4: "find_from ?p ?rest (k4 + 1) = Some k5" "pick ?rest (k4 + 1) k5 = d"
    using cut [of d "a @ ?p # b @ ?p # c @ [?p]" "e @ ?p # g" "k4 + 1"] assms(2) k by simp_all
  have 5: "find_from ?p ?rest (k5 + 1) = Some k6" "pick ?rest (k5 + 1) k6 = e"
    using cut [of e "a @ ?p # b @ ?p # c @ ?p # d @ [?p]" g "k5 + 1"] assms(2) k by simp_all
  have 6: "pick ?rest (k6 + 1) (length ?rest) = g"
    using pick_at(2) [of "a @ ?p # b @ ?p # c @ ?p # d @ ?p # e @ [?p]" g] k by (simp add: ac_simps)
  show ?thesis unfolding read_create_def 1 bind.bind_lunit 2(1) 3(1) 4(1) 5(1) by (simp only: 1 2 3 4 5 6)
qed

lemma command_fields_three: "\<exists>b d r. command_fields (cid, action, ps) = action # b # d # r"
  by (simp add: command_fields_def)

lemma fields_read:
  assumes "find_documented find_from" "command_fields (cid, action, ps) = action # fs"
    "\<forall>f \<in> set fs. CHR ''|'' \<notin> set f \<and> f \<noteq> []"
  shows "read_action find_from action (join ''|'' fs) = Some (asked_of_router (cid, action, ps))"
proof -
  note three = three_fields_read [OF assms(1)]
  note create = create_read [OF assms(1)]
  consider "action = ''disconnect''" | "action = ''disable_user''" | "action = ''enable_user''" | "action = ''remove_user''"
    | "action = ''create_user''" | "action = ''fetch_import''"
    | "\<not> (action = ''disconnect'' \<or> action = ''disable_user'' \<or> action = ''enable_user'' \<or> action = ''remove_user''
        \<or> action = ''create_user'' \<or> action = ''fetch_import'')" by argo
  then show ?thesis
  proof cases
    case 1
    then have "fs = [param ps ''username'' [], cid]" using assms(2) by (simp add: command_fields_def)
    with 1 assms(3) show ?thesis by (simp add: read_action_def asked_of_router_def two_fields_read)
  next
    case 2
    then have "fs = [param ps ''username'' [], param ps ''type'' ''pppoe'', cid]" using assms(2) by (simp add: command_fields_def)
    with 2 assms(3) show ?thesis by (simp add: read_action_def asked_of_router_def three)
  next
    case 3
    then have "fs = [param ps ''username'' [], param ps ''type'' ''pppoe'', cid]" using assms(2) by (simp add: command_fields_def)
    with 3 assms(3) show ?thesis by (simp add: read_action_def asked_of_router_def three)
  next
    case 4
    then have "fs = [param ps ''username'' [], param ps ''type'' ''pppoe'', cid]" using assms(2) by (simp add: command_fields_def)
    with 4 assms(3) show ?thesis by (simp add: read_action_def asked_of_router_def three)
  next
    case 5
    then have "fs = [param ps ''username'' [], param ps ''password'' [], param ps ''type'' ''pppoe'',
        param ps ''profile'' ''default'', param ps ''rate_limit'' [], cid]" using assms(2) by (simp add: command_fields_def)
    with 5 assms(3) show ?thesis by (simp add: read_action_def asked_of_router_def create)
  next
    case 6
    then have "fs = [param ps ''url'' [], cid]" using assms(2) by (simp add: command_fields_def)
    with 6 assms(3) show ?thesis by (simp add: read_action_def asked_of_router_def two_fields_read)
  next
    case 7
    then show ?thesis by (simp add: read_action_def asked_of_router_def)
  qed
qed

lemma line_read:
  assumes "find_documented find_from" "\<forall>f \<in> set (command_fields cmd). field_ok f" "filled cmd"
  shows "read_line find_from (join ''|'' (command_fields cmd)) = Some (asked_of_router cmd)"
    "length (join ''|'' (command_fields cmd)) > 2"
proof -
  obtain cid action ps where c: "cmd = (cid, action, ps)" by (cases cmd) auto
  obtain b d r where f: "command_fields cmd = action # b # d # r"
    unfolding c using command_fields_three by blast
  have ok: "CHR ''|'' \<notin> set x \<and> x \<noteq> []" if "x \<in> set (command_fields cmd)" for x
    using that assms(2,3) by (auto simp: field_ok_def filled_def)
  have a: "CHR ''|'' \<notin> set action" "action \<noteq> []" "b \<noteq> []" using ok f by auto
  have line: "join ''|'' (command_fields cmd) = action @ CHR ''|'' # join ''|'' (b # d # r)" by (simp add: f)
  show long: "length (join ''|'' (command_fields cmd)) > 2" using a(2,3) by (cases action; cases b; simp add: f)
  then have "read_line find_from (join ''|'' (command_fields cmd)) = read_action find_from action (join ''|'' (b # d # r))"
    unfolding line using a by (simp add: read_line_def del: join.simps)
  also have "\<dots> = Some (asked_of_router cmd)"
    unfolding c by (rule fields_read [OF assms(1)]) (use f ok c in auto)
  finally show "read_line find_from (join ''|'' (command_fields cmd)) = Some (asked_of_router cmd)" .
qed

lemma lines_read:
  assumes "\<forall>l \<in> set ls. length l > 2 \<and> CHR 0x0A \<notin> set l" "\<forall>l \<in> set ls. read_line find_from l = Some (f l)"
  shows "read_commands find_from (join [CHR 0x0A] ls) = Some (concat (map f ls))"
  using assms
proof (induction "[CHR 0x0A]" ls rule: join.induct)
  case 1
  then show ?case by (simp add: read_commands.simps)
next
  case (2 p)
  then show ?case by (simp add: read_commands.simps [of find_from p] read_commands.simps [of find_from "[]"])
next
  case (3 p q ps)
  then show ?case
    by (simp add: read_commands.simps [of find_from "p @ _"] del: join.simps(3)) (simp add: read_commands.simps [of find_from "p @ _"])
qed

text \<open>
  C11. The agent reads what the backend writes. When ids, actions and parameters are free of pipes
  and newlines (a script needs nothing) and no field is empty, the script on the router cuts
  out of the response of a poll, in order, exactly the commands that were sent, each with its
  own user, password, type, profile, rate, address and id; commands whose action is not one of
  its branches, like \<open>set_queue\<close> and \<open>run_script\<close>, are passed over.
\<close>

theorem agent_reads_commands:
  assumes "find_documented find_from" "\<forall>c \<in> set cmds. wire_ok c \<and> filled c"
  shows "read_commands find_from (format_commands_pipe_delimited cmds) = Some (concat (map asked_of_router cmds))"
proof -
  let ?line = "\<lambda>c. join ''|'' (command_fields c)"
  have ok: "\<forall>f \<in> set (command_fields c). field_ok f" "filled c" if "c \<in> set cmds" for c
    using assms(2) command_fields_ok that by blast+
  have nl: "CHR 0x0A \<notin> set (?line c)" if "c \<in> set cmds" for c
    using ok(1) [OF that] set_join [of "''|''" "command_fields c"] by (auto simp: field_ok_def)
  have "read_commands find_from (format_commands_pipe_delimited cmds) = Some (concat (map (\<lambda>l. the (read_line find_from l)) (map ?line cmds)))"
    unfolding format_commands_pipe_delimited_def
    by (rule lines_read) (use line_read [OF assms(1) ok] nl in auto)
  also have "map (\<lambda>l. the (read_line find_from l)) (map ?line cmds) = map asked_of_router cmds"
    using line_read(1) [OF assms(1) ok] by simp
  finally show ?thesis .
qed

definition find_after :: find_function where
  \<comment> \<open>the reading under which the character at the start is not looked at\<close>
  "find_after c s k = map_option (\<lambda>n. k + 1 + n) (position c (drop (k + 1) s))"

lemma find_after_documented: "find_documented find_after"
proof -
  have "position c (x # xs) = map_option Suc (position c xs)" if "x \<noteq> c" for c x xs using that by (simp add: position_def)
  then have "find_after c (p @ q) (length p) = map_option (\<lambda>n. length p + n) (position c q)" if "q \<noteq> []" "hd q \<noteq> c" for c p q
    using that by (cases q) (simp_all add: find_after_def option.map_comp comp_def)
  then show ?thesis by (simp add: find_documented_def)
qed

theorem agent_reads_commands_witness:
  "read_commands find_after (format_commands_pipe_delimited
     [(''c1'', ''create_user'', [(''username'', ''jane''), (''password'', ''pw''), (''rate_limit'', ''10M/5M'')]),
      (''c2'', ''run_script'', [(''script'', ''a|b'')]), (''c3'', ''disconnect'', [(''username'', ''joe'')])])
   = Some [CreateUser ''jane'' ''pw'' ''pppoe'' ''default'' ''10M/5M'' ''c1'', Disconnect ''joe'' ''c3'']"
proof -
  let ?cs = "[(''c1'', ''create_user'', [(''username'', ''jane''), (''password'', ''pw''), (''rate_limit'', ''10M/5M'')]),
      (''c2'', ''run_script'', [(''script'', ''a|b'')]), (''c3'', ''disconnect'', [(''username'', ''joe'')])]"
  have "\<forall>c \<in> set ?cs. wire_ok c \<and> filled c"
    by (simp add: wire_ok_def field_ok_def filled_def command_fields_def param_def dict_get_or_def)
  moreover have "concat (map asked_of_router ?cs) = [CreateUser ''jane'' ''pw'' ''pppoe'' ''default'' ''10M/5M'' ''c1'', Disconnect ''joe'' ''c3'']"
    by (simp add: asked_of_router_def param_def dict_get_or_def)
  ultimately show ?thesis using agent_reads_commands [OF find_after_documented, of ?cs] by simp
qed

end
