(* ===== verification/Voucher_Codes.thy ===== *)
theory Voucher_Codes
  imports Portal_Access
begin

text \<open>
  The codes of vouchers from their generation (\<open>src/app/api/v1/business/vouchers.py\<close>) to the request that
  redeems them (\<open>VoucherRedeemRequest\<close> and \<open>redeem_voucher\<close> in \<open>src/app/api/v1/portal/hotspot.py\<close>).
\<close>

definition redeem_request_valid :: "redeem_request \<Rightarrow> bool" where
  "redeem_request_valid req \<longleftrightarrow> 4 \<le> length (rq_code req) \<and> length (rq_code req) \<le> 50"

definition redeem_endpoint ::
    "'dev portal_env \<Rightarrow> datetime \<Rightarrow> bool \<Rightarrow> organization \<Rightarrow> redeem_request \<Rightarrow> 'dev \<times> dbs \<Rightarrow> (exn + redeem_response) \<times> 'dev \<times> dbs" where
  \<comment> \<open>the body of the request is validated before the handler runs\<close>
  "redeem_endpoint env now limited org req vs =
     (if redeem_request_valid req then redeem_voucher env now limited org req vs
      else (Inl (Exn ''RequestValidationError'' ''code''), vs))"

lemma upper_twice: "upper (upper c) = upper c"
proof (cases "97 \<le> (of_char c :: nat) \<and> (of_char c :: nat) \<le> 122")
  case True
  then have "((of_char c :: nat) - 32) mod 256 = of_char c - 32" by (intro mod_less) arith
  with True have "of_char (upper c) = (of_char c :: nat) - 32" by (simp add: upper_def)
  with True show ?thesis by (auto simp: upper_def [of "upper c"] Let_def)
qed (auto simp: upper_def Let_def)

lemma lstrip_props: "set (lstrip t) \<subseteq> set t" "lstrip (lstrip t) = lstrip t" "t \<noteq> [] \<Longrightarrow> \<not> is_space (last t) \<Longrightarrow> lstrip t \<noteq> [] \<and> last (lstrip t) = last t"
proof -
  show "set (lstrip t) \<subseteq> set t" by (auto simp: lstrip_def dest: set_dropWhileD)
  show "lstrip (lstrip t) = lstrip t" by (simp add: lstrip_def)
  show "t \<noteq> [] \<Longrightarrow> \<not> is_space (last t) \<Longrightarrow> lstrip t \<noteq> [] \<and> last (lstrip t) = last t"
    using dropWhile_last [of "last t" t is_space] last_in_set [of t] unfolding lstrip_def dropWhile_eq_Nil_conv by blast
qed

lemma strip_idem: "strip (strip t) = strip t"
proof (cases "strip t = []")
  case False
  let ?u = "lstrip (rev (lstrip t))"
  have u: "?u \<noteq> []" using False by (simp add: strip_def)
  have "\<not> is_space (hd ?u)" using hd_dropWhile u by (metis lstrip_def)
  moreover have "\<not> is_space (last ?u)"
  proof -
    have "lstrip t \<noteq> []" using u unfolding lstrip_def by (metis dropWhile.simps(1) rev.simps(1))
    then have "\<not> is_space (last (rev (lstrip t)))" using hd_dropWhile [of is_space t] by (simp add: lstrip_def last_rev)
    with \<open>lstrip t \<noteq> []\<close> show ?thesis using lstrip_props(3) [of "rev (lstrip t)"] by simp
  qed
  ultimately show ?thesis by (simp add: strip_fixed strip_def [of t] hd_rev last_rev u)
next
  case True
  have "strip [] = []" by (simp add: strip_def lstrip_def)
  with True show ?thesis by simp
qed

lemma redeem_key_idem: "redeem_key (redeem_key t) = redeem_key t"
proof -
  have "set (redeem_key t) \<subseteq> set (map upper t)"
    using lstrip_props(1) [of "rev (lstrip (map upper t))"] lstrip_props(1) [of "map upper t"] by (auto simp: redeem_key_def strip_def)
  then have "map upper (redeem_key t) = redeem_key t" by (intro map_idI) (auto simp: upper_twice)
  then show ?thesis by (simp add: redeem_key_fixed) (simp add: redeem_key_def strip_idem)
qed

text \<open>
  C20. A voucher code has the shape of its pattern, and the pattern decides whether a customer can
  redeem it. The code is as long as the pattern, with a capital letter
  or digit for X, a digit for N, a capital letter for A and every other character as it is.
  When the pattern has no lower-case letter and no blank at its ends and between 4 and 50
  characters, typing in the code of an active voucher finds that voucher, and the redemption proceeds with it
  and its plan. When the pattern has a lower-case letter or an outer blank, which nothing
  forbids, no request at all finds a voucher whose code has its shape: a tenant whose vouchers were all
  generated from it can redeem none of them.
\<close>

theorem voucher_codes_match_pattern:
  assumes "\<forall>i alphabet. alphabet \<noteq> [] \<longrightarrow> choice i alphabet \<in> set alphabet" "pat \<noteq> []" "code = generate_code choice pat n"
  shows "list_all2 code_class pat code
    \<and> (redeem_key pat = pat \<and> 4 \<le> length pat \<and> length pat \<le> 50 \<and> rq_code req = code \<and> vch_code w = code
        \<and> w \<in> set (vouchers (cur s)) \<and> uniq vch_code (vouchers (cur s)) \<and> vch_organization_id w = org_id org \<and> vch_status w = VchActive
        \<and> \<not> vch_is_used w \<and> \<not> past (vch_expires_at w) now \<and> tbl_get plan_id (vch_plan_id w) (plans (cur s)) = Some p
        \<longrightarrow> redeem_endpoint env now False org req (v, s) = complete_redeem env now org req w p (v, s))
    \<and> (redeem_key pat \<noteq> pat \<and> redeem_request_valid req'
        \<and> (\<forall>w \<in> set (vouchers (cur s)). vch_organization_id w = org_id org \<longrightarrow> list_all2 code_class pat (vch_code w))
        \<longrightarrow> redeem_endpoint env now False org req' (v, s) = (Inr (refused ''Invalid voucher code''), v, s))"
proof (intro conjI impI)
  show shape: "list_all2 code_class pat code" using generated_code_shape [OF assms(1), of pat n] assms(2,3) by simp
  note same = codes_same_shape [OF shape]
  {
    assume a: "redeem_key pat = pat \<and> 4 \<le> length pat \<and> length pat \<le> 50 \<and> rq_code req = code \<and> vch_code w = code
        \<and> w \<in> set (vouchers (cur s)) \<and> uniq vch_code (vouchers (cur s)) \<and> vch_organization_id w = org_id org \<and> vch_status w = VchActive
        \<and> \<not> vch_is_used w \<and> \<not> past (vch_expires_at w) now \<and> tbl_get plan_id (vch_plan_id w) (plans (cur s)) = Some p"
    then have r: "redeemable now org (rq_code req) (cur s) w" using same by (simp add: redeemable_def)
    have "redeem_voucher env now False org req (v, s) = complete_redeem env now org req w p (v, s)"
      by (rule redeem_voucher_eq [OF r]) (use a in simp_all)
    moreover have "length code = length pat" using shape by (simp add: list_all2_lengthD)
    ultimately show "redeem_endpoint env now False org req (v, s) = complete_redeem env now org req w p (v, s)"
      using a by (simp add: redeem_endpoint_def redeem_request_valid_def)
  }
  assume b: "redeem_key pat \<noteq> pat \<and> redeem_request_valid req'
        \<and> (\<forall>w \<in> set (vouchers (cur s)). vch_organization_id w = org_id org \<longrightarrow> list_all2 code_class pat (vch_code w))"
  then have "vch_code w \<noteq> redeem_key (rq_code req')" if "w \<in> set (vouchers (cur s))" "vch_organization_id w = org_id org" for w
    using codes_same_shape redeem_key_idem that by metis
  then have "filter (\<lambda>w. vch_organization_id w = org_id org \<and> vch_code w = redeem_key (rq_code req')) (vouchers (cur s)) = []"
    by (auto simp: filter_empty_conv)
  then show "redeem_endpoint env now False org req' (v, s) = (Inr (refused ''Invalid voucher code''), v, s)"
    using b by (simp add: redeem_endpoint_def redeem_voucher_def scalar_one_or_none_def)
qed

definition pattern_db :: "string \<Rightarrow> db" where
  "pattern_db pat = portal_db\<lparr>vouchers := [voucher0\<lparr>vch_code := generate_code first_choice pat 8\<rparr>]\<rparr>"

theorem voucher_codes_match_pattern_witness:
  "redeem_endpoint portal_env0 5 False org0 (redeem0\<lparr>rq_code := ''0A-B''\<rparr>) ((), fresh (pattern_db ''NX-B''))
     = complete_redeem portal_env0 5 org0 (redeem0\<lparr>rq_code := ''0A-B''\<rparr>) (voucher0\<lparr>vch_code := ''0A-B''\<rparr>) minute_plan ((), fresh (pattern_db ''NX-B''))
   \<and> redeem_endpoint portal_env0 5 False org0 (redeem0\<lparr>rq_code := ''0A-a''\<rparr>) ((), fresh (pattern_db ''NX-a''))
     = (Inr (refused ''Invalid voucher code''), (), fresh (pattern_db ''NX-a''))"
proof
  have c: "\<forall>i alphabet. alphabet \<noteq> [] \<longrightarrow> first_choice i alphabet \<in> set alphabet" by (simp add: first_choice_def)
  have code: "generate_code first_choice ''NX-B'' 8 = ''0A-B''" "generate_code first_choice ''NX-a'' 8 = ''0A-a''" by (code_simp, code_simp)
  have k: "redeem_key ''NX-B'' = ''NX-B''" "redeem_key ''NX-a'' \<noteq> ''NX-a''" by (code_simp, code_simp)
  have w: "vch_status voucher0 = VchActive \<and> \<not> vch_is_used voucher0 \<and> \<not> past (vch_expires_at voucher0) 5 \<and> vch_organization_id voucher0 = org_id org0
      \<and> tbl_get plan_id (vch_plan_id voucher0) [minute_plan] = Some minute_plan"
    by code_simp
  have db: "vouchers (pattern_db pat) = [voucher0\<lparr>vch_code := generate_code first_choice pat 8\<rparr>]" "plans (pattern_db pat) = [minute_plan]" for pat
    by (simp_all add: pattern_db_def portal_db_simps)
  show "redeem_endpoint portal_env0 5 False org0 (redeem0\<lparr>rq_code := ''0A-B''\<rparr>) ((), fresh (pattern_db ''NX-B''))
     = complete_redeem portal_env0 5 org0 (redeem0\<lparr>rq_code := ''0A-B''\<rparr>) (voucher0\<lparr>vch_code := ''0A-B''\<rparr>) minute_plan ((), fresh (pattern_db ''NX-B''))"
    by (rule conjunct1 [OF conjunct2 [OF voucher_codes_match_pattern [OF c _ code(1) [symmetric]]], THEN mp])
      (use w k(1) in \<open>simp_all add: code db uniq_def\<close>)
  have "list_all2 code_class ''NX-a'' ''0A-a''" using generated_code_shape [OF c, of "''NX-a''" 8] by (simp add: code)
  then show "redeem_endpoint portal_env0 5 False org0 (redeem0\<lparr>rq_code := ''0A-a''\<rparr>) ((), fresh (pattern_db ''NX-a''))
     = (Inr (refused ''Invalid voucher code''), (), fresh (pattern_db ''NX-a''))"
    by (intro conjunct2 [OF conjunct2 [OF voucher_codes_match_pattern [OF c _ code(2) [symmetric]]], THEN mp])
      (use k(2) in \<open>simp_all add: code db redeem_request_valid_def\<close>)
qed

end
