(* ===== verification/Device_Client.thy ===== *)
theory Device_Client
  imports Gateway_Filter Network_Config Command_Text
begin

text \<open>
  The client for MikroTik devices: \<open>BaseIntegrationClient\<close> (\<open>src/app/integrations/base.py\<close>) with its
  retries and circuit breaker, and \<open>MikroTikClient\<close> (\<open>src/app/integrations/mikrotik/client.py\<close>).

  The library \<open>routeros_api\<close> and the device behind it are the parameter \<open>lib\<close>, three functions on the
  state of the outside world: \<open>ros_api\<close> opens the connection of a pool and logs in, \<open>ros_call\<close> sends one
  request for a resource, \<open>ros_disconnect\<close> closes it. A reply is a list of rows of strings. A call that
  runs into the time limit is one for which the library raises \<open>TimeoutError\<close> (the image runs Python
  3.11, where \<open>asyncio.TimeoutError\<close> is that class). Waiting times are not modelled.
\<close>

section \<open>The library and the state of the client\<close>

record connection =
  cn_ip :: string
  cn_port :: int
  cn_username :: string
  cn_password :: string

type_synonym device_row = "(string \<times> string) list"
type_synonym reply = "device_row list"

record 'w routeros =
  ros_api :: "connection \<Rightarrow> 'w \<Rightarrow> (exn + unit) \<times> 'w"
  ros_call :: "connection \<Rightarrow> string \<Rightarrow> string \<Rightarrow> params \<Rightarrow> 'w \<Rightarrow> (exn + reply) \<times> 'w"
  ros_disconnect :: "connection \<Rightarrow> 'w \<Rightarrow> (exn + unit) \<times> 'w"

record 'w client =
  cl_breaker :: string \<comment> \<open>\<open>_breaker.current_state\<close>\<close>
  cl_fail_counter :: int \<comment> \<open>\<open>_breaker.fail_counter\<close>\<close>
  cl_last_failure :: "datetime option"
  cl_last_success :: "datetime option"
  cl_connections :: "(string \<times> connection) list"
  cl_world :: 'w

definition new_client :: "'w \<Rightarrow> 'w client" where
  "new_client w = \<lparr>cl_breaker = ''closed'', cl_fail_counter = 0, cl_last_failure = None, cl_last_success = None,
     cl_connections = [], cl_world = w\<rparr>"

definition api :: "'w routeros \<Rightarrow> connection \<Rightarrow> 'w client \<Rightarrow> (exn + unit) \<times> 'w client" where
  "api lib c s = (let (r, w) = ros_api lib c (cl_world s) in (r, s\<lparr>cl_world := w\<rparr>))"

definition call :: "'w routeros \<Rightarrow> connection \<Rightarrow> string \<Rightarrow> string \<Rightarrow> params \<Rightarrow> 'w client \<Rightarrow> (exn + reply) \<times> 'w client" where
  "call lib c path m ps s = (let (r, w) = ros_call lib c path m ps (cl_world s) in (r, s\<lparr>cl_world := w\<rparr>))"

definition hang_up :: "'w routeros \<Rightarrow> connection \<Rightarrow> 'w client \<Rightarrow> 'w client" where
  \<comment> \<open>\<open>disconnect()\<close> of a pool, with every exception swallowed\<close>
  "hang_up lib c s = s\<lparr>cl_world := snd (ros_disconnect lib c (cl_world s))\<rparr>"

abbreviation ExternalServiceError :: "string \<Rightarrow> exn" where
  "ExternalServiceError \<equiv> Exn ''ExternalServiceError''"

abbreviation TypeError :: "string \<Rightarrow> exn" where
  "TypeError \<equiv> Exn ''TypeError''"

abbreviation AttributeError :: "string \<Rightarrow> exn" where
  "AttributeError \<equiv> Exn ''AttributeError''"

section \<open>Retries and the circuit breaker\<close>

record RetryConfig =
  max_attempts :: nat
  min_wait_seconds :: int
  max_wait_seconds :: int
  retry_exceptions :: "string list" \<comment> \<open>classes, with their subclasses\<close>

record CircuitBreakerConfig =
  fail_max :: int
  reset_timeout :: int

text \<open>\<open>ConnectionError\<close>, \<open>TimeoutError\<close> and \<open>IOError\<close> are \<open>OSError\<close> or subclasses of it.\<close>

definition os_error_classes :: "string list" where
  "os_error_classes =
     [''OSError'', ''ConnectionError'', ''BrokenPipeError'', ''ConnectionAbortedError'', ''ConnectionRefusedError'',
      ''ConnectionResetError'', ''TimeoutError'', ''BlockingIOError'', ''ChildProcessError'', ''FileExistsError'',
      ''FileNotFoundError'', ''InterruptedError'', ''IsADirectoryError'', ''NotADirectoryError'', ''PermissionError'',
      ''ProcessLookupError'', ''gaierror'', ''herror'', ''SSLError'']"

definition is_os_error :: "exn \<Rightarrow> bool" where
  "is_os_error e \<longleftrightarrow> exn_class e \<in> set os_error_classes"

definition mikrotik_retry :: RetryConfig where
  "mikrotik_retry = \<lparr>max_attempts = 3, min_wait_seconds = 1, max_wait_seconds = 10, retry_exceptions = os_error_classes\<rparr>"

definition mikrotik_circuit :: CircuitBreakerConfig where
  "mikrotik_circuit = \<lparr>fail_max = 3, reset_timeout = 30\<rparr>"

definition is_circuit_open :: "'w client \<Rightarrow> bool" where
  "is_circuit_open s \<longleftrightarrow> cl_breaker s = ''open''"

text \<open>
  An operation is a closure over variables it may change; \<open>p\<close> is their value, which a repeated
  attempt finds as the last one left it.
\<close>

definition execute_with_circuit_breaker ::
    "datetime \<Rightarrow> ('p \<Rightarrow> 'w client \<Rightarrow> (exn + 'a) \<times> 'p \<times> 'w client) \<Rightarrow> 'p \<Rightarrow> 'w client \<Rightarrow> (exn + 'a) \<times> 'p \<times> 'w client" where
  "execute_with_circuit_breaker now op p s =
     (if is_circuit_open s then (Inl (Exn ''CircuitBreakerError'' []), p, s)
      else case op p s of
             (Inr x, p', s') \<Rightarrow> (Inr x, p', s'\<lparr>cl_last_success := Some now\<rparr>)
           | (Inl e, p', s') \<Rightarrow> (Inl e, p', s'\<lparr>cl_last_failure := Some now\<rparr>))"

fun attempts ::
    "nat \<Rightarrow> (exn \<Rightarrow> bool) \<Rightarrow> datetime \<Rightarrow> ('p \<Rightarrow> 'w client \<Rightarrow> (exn + 'a) \<times> 'p \<times> 'w client) \<Rightarrow> 'p \<Rightarrow> 'w client
     \<Rightarrow> (exn + 'a) \<times> 'w client" where
  "attempts n retry now op p s =
     (case execute_with_circuit_breaker now op p s of
        (Inr x, p', s') \<Rightarrow> (Inr x, s')
      | (Inl e, p', s') \<Rightarrow> if retry e \<and> 1 < n then attempts (n - 1) retry now op p' s' else (Inl e, s'))"

declare attempts.simps [simp del]

definition mikrotik_timeout :: int where
  "mikrotik_timeout = 10"

definition execute_with_resilience ::
    "datetime \<Rightarrow> ('p \<Rightarrow> 'w client \<Rightarrow> (exn + 'a) \<times> 'p \<times> 'w client) \<Rightarrow> 'p \<Rightarrow> 'w client \<Rightarrow> (exn + 'a) \<times> 'w client" where
  "execute_with_resilience now op p s =
     (if is_circuit_open s then (Inl (ExternalServiceError ''Service mikrotik is temporarily unavailable (circuit open)''), s)
      else case attempts (max_attempts mikrotik_retry) is_os_error now op p s of
             (Inr x, s') \<Rightarrow> (Inr x, s')
           | (Inl e, s') \<Rightarrow>
               (Inl (if exn_class e = ''CircuitBreakerError'' then ExternalServiceError ''Service mikrotik is temporarily unavailable''
                     else if exn_class e = ''TimeoutError''
                       then ExternalServiceError (''Service mikrotik timed out after '' @ str_int mikrotik_timeout @ ''s'')
                     else e), s'))"

text \<open>An operation that changes none of its variables.\<close>

definition plain :: "('w client \<Rightarrow> (exn + 'a) \<times> 'w client) \<Rightarrow> unit \<Rightarrow> 'w client \<Rightarrow> (exn + 'a) \<times> unit \<times> 'w client" where
  "plain op p s = (let (r, s') = op s in (r, (), s'))"

definition resilient :: "datetime \<Rightarrow> ('w client \<Rightarrow> (exn + 'a) \<times> 'w client) \<Rightarrow> 'w client \<Rightarrow> (exn + 'a) \<times> 'w client" where
  "resilient now op s = execute_with_resilience now (plain op) () s"

datatype IntegrationStatus = HEALTHY | DEGRADED | UNHEALTHY

definition get_health :: "'w client \<Rightarrow> IntegrationStatus \<times> string" where
  "get_health s =
     (if cl_breaker s = ''open'' then (UNHEALTHY, ''Circuit breaker is open - service unavailable'')
      else if cl_breaker s = ''half-open'' then (DEGRADED, ''Circuit breaker is half-open - testing recovery'')
      else if cl_fail_counter s > 0 then (DEGRADED, ''Service has '' @ str_int (cl_fail_counter s) @ '' recent failures'')
      else (HEALTHY, ''Service is operating normally''))"

definition reset_circuit :: "'w client \<Rightarrow> 'w client" where
  \<comment> \<open>\<open>close()\<close> of the breaker also clears its counter\<close>
  "reset_circuit s = s\<lparr>cl_breaker := ''closed'', cl_fail_counter := 0\<rparr>"

definition health_check :: "'w client \<Rightarrow> bool" where
  "health_check s \<longleftrightarrow> \<not> is_circuit_open s"

section \<open>Connections\<close>

definition get_router_key :: "string \<Rightarrow> int \<Rightarrow> string" where
  "get_router_key ip port = ip @ '':'' @ str_int port"

definition dict_del :: "'k \<Rightarrow> ('k \<times> 'v) list \<Rightarrow> ('k \<times> 'v) list" where
  "dict_del k d = filter (\<lambda>(j, _). j \<noteq> k) d"

definition sync_connect :: "'w routeros \<Rightarrow> connection \<Rightarrow> 'w client \<Rightarrow> (exn + connection) \<times> 'w client" where
  "sync_connect lib c s =
     (case andthen (api lib c s) (\<lambda>_ s1. call lib c ''/system/identity'' ''get'' [] s1) of
        (Inl e, s2) \<Rightarrow> (Inl e, hang_up lib c s2)
      | (Inr _, s2) \<Rightarrow> (Inr c, s2))"

definition connect ::
    "'w routeros \<Rightarrow> datetime \<Rightarrow> string \<Rightarrow> string \<Rightarrow> string \<Rightarrow> int \<Rightarrow> 'w client \<Rightarrow> (exn + connection) \<times> 'w client" where
  "connect lib now ip user pass port s =
     (let key = get_router_key ip port;
          s1 = (case dict_get (cl_connections s) key of
                  None \<Rightarrow> s
                | Some old \<Rightarrow> hang_up lib old (s\<lparr>cl_connections := dict_del key (cl_connections s)\<rparr>));
          c = \<lparr>cn_ip = ip, cn_port = port, cn_username = user, cn_password = pass\<rparr>
      in case resilient now (sync_connect lib c) s1 of
           (Inr c', s2) \<Rightarrow> (Inr c', s2\<lparr>cl_connections := dict_set key c' (cl_connections s2)\<rparr>)
         | (Inl e, s2) \<Rightarrow>
             (Inl (if exn_class e = ''ExternalServiceError'' then e
                   else ExternalServiceError (''Failed to connect to MikroTik router at '' @ ip)), s2))"

definition disconnect :: "'w routeros \<Rightarrow> string \<Rightarrow> int \<Rightarrow> 'w client \<Rightarrow> 'w client" where
  "disconnect lib ip port s =
     (let key = get_router_key ip port;
          s1 = s\<lparr>cl_connections := dict_del key (cl_connections s)\<rparr>
      in case dict_get (cl_connections s) key of None \<Rightarrow> s1 | Some c \<Rightarrow> hang_up lib c s1)"

text \<open>\<open>key.rsplit(":", 1)\<close>: what stands before and after the last colon.\<close>

definition rsplit_colon :: "string \<Rightarrow> string \<times> string" where
  "rsplit_colon key =
     (rev (drop 1 (dropWhile (\<lambda>c. c \<noteq> CHR '':'') (rev key))), rev (takeWhile (\<lambda>c. c \<noteq> CHR '':'') (rev key)))"

fun disconnect_keys :: "'w routeros \<Rightarrow> string list \<Rightarrow> 'w client \<Rightarrow> (exn + unit) \<times> 'w client" where
  "disconnect_keys lib [] s = (Inr (), s)"
| "disconnect_keys lib (key # ks) s =
     (case int_of (snd (rsplit_colon key)) of
        Inl e \<Rightarrow> (Inl e, s)
      | Inr port \<Rightarrow> disconnect_keys lib ks (disconnect lib (fst (rsplit_colon key)) port s))"

definition disconnect_all :: "'w routeros \<Rightarrow> 'w client \<Rightarrow> (exn + unit) \<times> 'w client" where
  "disconnect_all lib s = disconnect_keys lib (map fst (cl_connections s)) s"

section \<open>Reading the device\<close>

definition get_resource :: "'w routeros \<Rightarrow> connection \<Rightarrow> string \<Rightarrow> string \<Rightarrow> params \<Rightarrow> 'w client \<Rightarrow> (exn + reply) \<times> 'w client" where
  \<comment> \<open>\<open>connection.get_api().get_resource(path)\<close> and one call on it\<close>
  "get_resource lib c path m ps s = andthen (api lib c s) (\<lambda>_ s1. call lib c path m ps s1)"

definition rows_or_none :: "(exn + reply) \<times> 'w client \<Rightarrow> reply \<times> 'w client" where
  "rows_or_none m = catching [] m"

definition get_system_info :: "'w routeros \<Rightarrow> datetime \<Rightarrow> connection \<Rightarrow> 'w client \<Rightarrow> device_row option \<times> 'w client" where
  "get_system_info lib now c s =
     (case resilient now (get_resource lib c ''/system/resource'' ''get'' []) s of
        (Inr (r # rs), s') \<Rightarrow> (Some r, s')
      | (_, s') \<Rightarrow> (None, s'))"

definition get_interfaces :: "'w routeros \<Rightarrow> datetime \<Rightarrow> connection \<Rightarrow> 'w client \<Rightarrow> reply \<times> 'w client" where
  "get_interfaces lib now c s = rows_or_none (resilient now (get_resource lib c ''/interface'' ''get'' []) s)"

definition get_hotspot_users :: "'w routeros \<Rightarrow> datetime \<Rightarrow> connection \<Rightarrow> 'w client \<Rightarrow> reply \<times> 'w client" where
  "get_hotspot_users lib now c s = rows_or_none (resilient now (get_resource lib c ''/ip/hotspot/user'' ''get'' []) s)"

definition get_pppoe_users :: "'w routeros \<Rightarrow> datetime \<Rightarrow> connection \<Rightarrow> 'w client \<Rightarrow> reply \<times> 'w client" where
  "get_pppoe_users lib now c s = rows_or_none (resilient now (get_resource lib c ''/ppp/secret'' ''get'' []) s)"

definition get_hotspot_servers :: "'w routeros \<Rightarrow> datetime \<Rightarrow> connection \<Rightarrow> 'w client \<Rightarrow> reply \<times> 'w client" where
  "get_hotspot_servers lib now c s = rows_or_none (resilient now (get_resource lib c ''/ip/hotspot'' ''get'' []) s)"

definition get_hotspot_profiles :: "'w routeros \<Rightarrow> datetime \<Rightarrow> connection \<Rightarrow> 'w client \<Rightarrow> reply \<times> 'w client" where
  "get_hotspot_profiles lib now c s = rows_or_none (resilient now (get_resource lib c ''/ip/hotspot/profile'' ''get'' []) s)"

definition typed_rows :: "string \<Rightarrow> reply \<Rightarrow> reply" where
  "typed_rows t rs = map (dict_set ''type'' t) rs"

definition sync_active_connections :: "'w routeros \<Rightarrow> connection \<Rightarrow> 'w client \<Rightarrow> (exn + reply) \<times> 'w client" where
  "sync_active_connections lib c s =
     andthen (api lib c s) (\<lambda>_ s1.
       let (hotspot, s2) = rows_or_none (call lib c ''/ip/hotspot/active'' ''get'' [] s1);
           (pppoe, s3) = rows_or_none (call lib c ''/ppp/active'' ''get'' [] s2)
       in (Inr (typed_rows ''hotspot'' hotspot @ typed_rows ''pppoe'' pppoe), s3))"

definition get_active_connections :: "'w routeros \<Rightarrow> datetime \<Rightarrow> connection \<Rightarrow> 'w client \<Rightarrow> reply \<times> 'w client" where
  "get_active_connections lib now c s = rows_or_none (resilient now (sync_active_connections lib c) s)"

section \<open>Users\<close>

definition device_user_path :: "string \<Rightarrow> string" where
  "device_user_path utype = (if utype = ''hotspot'' then ''/ip/hotspot/user'' else ''/ppp/secret'')"

definition sync_disable :: "'w routeros \<Rightarrow> connection \<Rightarrow> string \<Rightarrow> string \<Rightarrow> 'w client \<Rightarrow> (exn + bool) \<times> 'w client" where
  "sync_disable lib c username utype s =
     andthen (get_resource lib c (device_user_path utype) ''get'' [(''name'', username)] s) (\<lambda>found s1.
       case found of
         [] \<Rightarrow> (Inr False, s1)
       | u # _ \<Rightarrow>
           (case dict_get u ''id'' of
              Some i \<Rightarrow>
                if i = [] then (Inr False, s1)
                else andthen (call lib c (device_user_path utype) ''set'' [(''id'', i), (''disabled'', ''yes'')] s1) (\<lambda>_ s2. (Inr True, s2))
            | None \<Rightarrow> (Inr False, s1)))"

definition disable_user :: "'w routeros \<Rightarrow> datetime \<Rightarrow> connection \<Rightarrow> string \<Rightarrow> string \<Rightarrow> 'w client \<Rightarrow> bool \<times> 'w client" where
  "disable_user lib now c username utype s = catching False (resilient now (sync_disable lib c username utype) s)"

definition add_row :: "'w routeros \<Rightarrow> connection \<Rightarrow> string \<Rightarrow> params \<Rightarrow> 'w client \<Rightarrow> (exn + bool) \<times> 'w client" where
  "add_row lib c path ps s = andthen (get_resource lib c path ''add'' ps s) (\<lambda>_ s1. (Inr True, s1))"

definition wrap_error :: "string \<Rightarrow> (exn + 'a) \<times> 's \<Rightarrow> (exn + 'a) \<times> 's" where
  "wrap_error msg m = (case m of (Inl e, s) \<Rightarrow> (Inl (ExternalServiceError (msg @ exn_msg e)), s) | (Inr x, s) \<Rightarrow> (Inr x, s))"

definition create_hotspot_user ::
    "'w routeros \<Rightarrow> datetime \<Rightarrow> connection \<Rightarrow> string \<Rightarrow> string \<Rightarrow> string \<Rightarrow> params \<Rightarrow> 'w client \<Rightarrow> (exn + bool) \<times> 'w client" where
  "create_hotspot_user lib now c username password profile kwargs s =
     wrap_error ''Failed to create hotspot user: ''
       (resilient now (add_row lib c ''/ip/hotspot/user''
          (fold (\<lambda>(k, v). dict_set k v) kwargs [(''name'', username), (''password'', password), (''profile'', profile)])) s)"

definition create_pppoe_user ::
    "'w routeros \<Rightarrow> datetime \<Rightarrow> connection \<Rightarrow> string \<Rightarrow> string \<Rightarrow> string \<Rightarrow> string \<Rightarrow> params \<Rightarrow> 'w client \<Rightarrow> (exn + bool) \<times> 'w client" where
  "create_pppoe_user lib now c username password profile service kwargs s =
     wrap_error ''Failed to create PPPoE user: ''
       (resilient now (add_row lib c ''/ppp/secret''
          (fold (\<lambda>(k, v). dict_set k v) kwargs
             [(''name'', username), (''password'', password), (''profile'', profile), (''service'', service)])) s)"

section \<open>Commands as text\<close>

text \<open>
  The pattern \<open>(\S+?)=(?:"([^"]+)"|'([^']+)'|(\S+))\<close>: a shortest key that is followed by an equals sign
  and a value, in quotes or up to the next space.
\<close>

definition quoted :: "char \<Rightarrow> string \<Rightarrow> (string \<times> string) option" where
  "quoted q cs =
     (let v = takeWhile (\<lambda>c. c \<noteq> q) cs; r = dropWhile (\<lambda>c. c \<noteq> q) cs
      in if v = [] \<or> r = [] then None else Some (v, tl r))"

definition value_at :: "string \<Rightarrow> (string \<times> string) option" where
  "value_at s =
     (case s of
        [] \<Rightarrow> None
      | c # cs \<Rightarrow>
          (case (if c = CHR 0x22 \<or> c = CHR 0x27 then quoted c cs else None) of
             Some vr \<Rightarrow> Some vr
           | None \<Rightarrow> if is_space c then None else Some (takeWhile (\<lambda>c. \<not> is_space c) s, dropWhile (\<lambda>c. \<not> is_space c) s)))"

fun key_at :: "string \<Rightarrow> string \<Rightarrow> (string \<times> string \<times> string) option" where
  "key_at k [] = None"
| "key_at k (c # cs) =
     (if is_space c then None
      else if c = CHR ''='' \<and> k \<noteq> []
        then (case value_at cs of Some (v, r) \<Rightarrow> Some (k, v, r) | None \<Rightarrow> key_at (k @ [c]) cs)
      else key_at (k @ [c]) cs)"

lemma quoted_length: "quoted q cs = Some (v, r) \<Longrightarrow> length r < length cs"
proof -
  assume q: "quoted q cs = Some (v, r)"
  then have "dropWhile (\<lambda>c. c \<noteq> q) cs \<noteq> []" "r = tl (dropWhile (\<lambda>c. c \<noteq> q) cs)"
    by (auto simp: quoted_def Let_def split: if_splits)
  then have "length r < length (dropWhile (\<lambda>c. c \<noteq> q) cs)" by (cases "dropWhile (\<lambda>c. c \<noteq> q) cs") auto
  then show ?thesis using length_dropWhile_le [of "\<lambda>c. c \<noteq> q" cs] by linarith
qed

lemma value_at_length: "value_at s = Some (v, r) \<Longrightarrow> length r < length s"
proof -
  assume v: "value_at s = Some (v, r)"
  then obtain c cs where s: "s = c # cs" by (cases s) (auto simp: value_at_def)
  show ?thesis
  proof (cases "if c = CHR 0x22 \<or> c = CHR 0x27 then quoted c cs else None")
    case (Some p)
    with v s have "quoted c cs = Some (v, r)" by (auto simp: value_at_def split: if_splits)
    from quoted_length [OF this] s show ?thesis by simp
  next
    case None
    with v s have "r = dropWhile (\<lambda>c. \<not> is_space c) cs"
      by (auto simp: value_at_def split: if_splits)
    with s length_dropWhile_le [of "\<lambda>c. \<not> is_space c" cs] show ?thesis by simp
  qed
qed

lemma key_at_length: "key_at k s = Some (k', v, r) \<Longrightarrow> length r < length s"
proof (induction k s rule: key_at.induct)
  case (2 k c cs)
  then show ?case
    by (auto split: if_splits option.splits dest: value_at_length)
qed simp

function findall :: "string \<Rightarrow> params" where
  "findall s =
     (case s of
        [] \<Rightarrow> []
      | c # cs \<Rightarrow> (case key_at [] s of Some (k, v, r) \<Rightarrow> (k, v) # findall r | None \<Rightarrow> findall cs))"
  by pat_completeness auto
termination
  by (relation "measure length") (auto simp del: key_at.simps dest: key_at_length)

declare findall.simps [simp del]

definition rstrip_char :: "char \<Rightarrow> string \<Rightarrow> string" where
  "rstrip_char x s = rev (dropWhile (\<lambda>c. c = x) (rev s))"

definition method_keywords :: "string list" where
  "method_keywords = [''add'', ''set'', ''remove'', ''print'', ''get'', ''enable'', ''disable'', ''reset'', ''sign'']"

text \<open>The name of an item may stand before the properties that \<open>set\<close> changes.\<close>

definition item_identifier :: "string \<Rightarrow> string option \<times> string" where
  "item_identifier ps =
     (if CHR '' '' \<in> set ps \<and> hd ps \<noteq> CHR '' ''
      then (let first_part = takeWhile (\<lambda>c. c \<noteq> CHR '' '') ps
            in if CHR ''='' \<in> set first_part then (None, ps) else (Some first_part, tl (dropWhile (\<lambda>c. c \<noteq> CHR '' '') ps)))
      else if CHR ''='' \<in> set ps then (None, ps) else (Some ps, []))"

definition parse_cli_command :: "string \<Rightarrow> string \<times> string \<times> params" where
  "parse_cli_command command =
     (let cmd = strip command;
          path_with_method = takeWhile (\<lambda>c. c \<noteq> CHR '' '') cmd;
          param_string = tl (dropWhile (\<lambda>c. c \<noteq> CHR '' '') cmd);
          path_segments = split_on (CHR ''/'') (rstrip_char (CHR ''/'') path_with_method);
          (method, resource_path) =
            (if last path_segments \<in> set method_keywords then (last path_segments, join ''/'' (butlast path_segments))
             else (''get'', path_with_method));
          (ident, rest) = (if param_string \<noteq> [] \<and> method = ''set'' then item_identifier param_string else (None, param_string));
          ps = fold (\<lambda>(k, v). dict_set k v) (findall rest) []
      in (resource_path, method,
          case ident of None \<Rightarrow> ps | Some i \<Rightarrow> if i = [] then ps else dict_set ''_item_identifier'' i ps))"

text \<open>
  \<open>_execute\<close> takes the item out of the parameters when it runs, so that a repeated attempt finds the
  parameters without it. A keyword that is given twice raises.
\<close>

definition with_keyword :: "string \<Rightarrow> string \<Rightarrow> params \<Rightarrow> exn + params" where
  "with_keyword k v ps =
     (if dict_get ps k = None then Inr ((k, v) # ps)
      else Inl (TypeError (''got multiple values for keyword argument '' @ k)))"

definition call_with ::
    "'w routeros \<Rightarrow> connection \<Rightarrow> string \<Rightarrow> string \<Rightarrow> exn + params \<Rightarrow> 'w client \<Rightarrow> (exn + reply) \<times> 'w client" where
  "call_with lib c path m ps s = (case ps of Inl e \<Rightarrow> (Inl e, s) | Inr kw \<Rightarrow> call lib c path m kw s)"

definition has_id :: "device_row \<Rightarrow> bool" where
  "has_id item \<longleftrightarrow> truthy (dict_get item ''id'')"

definition id_of :: "device_row \<Rightarrow> string" where
  "id_of item = dict_get_or item ''id'' []"

definition set_named ::
    "'w routeros \<Rightarrow> connection \<Rightarrow> string \<Rightarrow> string \<Rightarrow> params \<Rightarrow> 'w client \<Rightarrow> (exn + reply) \<times> 'w client" where
  "set_named lib c path ident ps s =
     andthen (call lib c path ''get'' [(''name'', ident)] s) (\<lambda>items s1.
       if items \<noteq> [] \<and> has_id (hd items) then call_with lib c path ''set'' (with_keyword ''id'' (id_of (hd items)) ps) s1
       else andthen (call lib c path ''get'' [] s1) (\<lambda>every s2.
         case find (\<lambda>i. (dict_get i ''name'' = Some ident \<or> dict_get i ''service'' = Some ident) \<and> has_id i) every of
           Some i \<Rightarrow> call_with lib c path ''set'' (with_keyword ''id'' (id_of i) ps) s2
         | None \<Rightarrow> (Inl (ValueError (''Item '' @ [CHR 0x27] @ ident @ [CHR 0x27] @ '' not found'')), s2)))"

definition remove_named ::
    "'w routeros \<Rightarrow> connection \<Rightarrow> string \<Rightarrow> string \<Rightarrow> params \<Rightarrow> 'w client \<Rightarrow> (exn + reply) \<times> 'w client" where
  "remove_named lib c path ident ps s =
     andthen (call lib c path ''get'' [(''name'', ident)] s) (\<lambda>items s1.
       if items \<noteq> [] \<and> has_id (hd items) then call lib c path ''remove'' [(''id'', id_of (hd items))] s1
       else call lib c path ''remove'' ps s1)"

definition sync_execute ::
    "'w routeros \<Rightarrow> connection \<Rightarrow> string \<Rightarrow> string \<Rightarrow> params \<Rightarrow> 'w client \<Rightarrow> (exn + reply) \<times> params \<times> 'w client" where
  "sync_execute lib c path m params s =
     (case api lib c s of
        (Inl e, s1) \<Rightarrow> (Inl e, params, s1)
      | (Inr _, s1) \<Rightarrow>
          let ident = dict_get params ''_item_identifier'';
              ps = dict_del ''_item_identifier'' params;
              answer = (\<lambda>(r, s2). (r, ps, s2))
          in if m = ''get'' \<or> m = ''print'' then answer (call lib c path ''get'' ps s1)
             else if m = ''add'' then answer (call lib c path ''add'' ps s1)
             else if m = ''set'' then
               answer (if truthy ident then set_named lib c path (the ident) ps s1 else call lib c path ''set'' ps s1)
             else if m = ''remove'' then
               answer (if truthy ident then remove_named lib c path (the ident) ps s1 else call lib c path ''remove'' ps s1)
             else if m = ''enable'' then answer (call_with lib c path ''set'' (with_keyword ''disabled'' ''no'' ps) s1)
             else if m = ''disable'' then answer (call_with lib c path ''set'' (with_keyword ''disabled'' ''yes'' ps) s1)
             else if m = ''sign'' then answer (call lib c path ''sign'' ps s1)
             else if m = ''call'' then
               (let cmd = dict_get_or ps ''cmd'' ''print''; rest = dict_del ''cmd'' ps;
                    (r, s2) = call lib c path cmd rest s1
                in (r, rest, s2))
             else answer (Inl (ValueError (''Unknown method: '' @ m)), s1))"

definition is_cli_command :: "string \<Rightarrow> bool" where
  "is_cli_command t \<longleftrightarrow>
     CHR '' '' \<in> set t \<or>
     (\<exists>m \<in> set [''add'', ''set'', ''remove'', ''print'', ''enable'', ''disable'']. endswith (rstrip_char (CHR ''/'') t) (CHR ''/'' # m))"

definition execute_command ::
    "'w routeros \<Rightarrow> datetime \<Rightarrow> connection \<Rightarrow> string \<Rightarrow> string option \<Rightarrow> params \<Rightarrow> 'w client \<Rightarrow> (exn + reply) \<times> 'w client" where
  "execute_command lib now c command_or_path meth params s =
     (let (path, m, ps) =
            (if meth = None \<and> is_cli_command command_or_path then parse_cli_command command_or_path
             else (command_or_path, or_str meth ''get'', params))
      in case execute_with_resilience now (sync_execute lib c path m) ps s of
           (Inr r, s') \<Rightarrow> (Inr r, s')
         | (Inl e, s') \<Rightarrow>
             (Inl (if exn_class e = ''ExternalServiceError'' then e
                   else ExternalServiceError (''RouterOS command failed: '' @ exn_msg e)), s'))"

text \<open>
  A call \<open>execute_command(connection=..., resource_path=..., method=...)\<close>: the parameter of the function
  is called \<open>command_or_path\<close>, so that the keyword lands in \<open>params\<close> and Python raises before the body runs.
\<close>

definition execute_command_by_keyword ::
    "connection \<Rightarrow> params \<Rightarrow> 'w client \<Rightarrow> (exn + reply) \<times> 'w client" where
  "execute_command_by_keyword c kwargs s =
     (Inl (TypeError ''MikroTikClient.execute_command() missing 1 required positional argument: command_or_path''), s)"

section \<open>Numbers in the device's answers\<close>

text \<open>
  A Python float is a rational number that \<open>fl\<close> has rounded to 53 binary digits, ties to even; exponents
  stay in the normal range.
\<close>

fun bit_length :: "nat \<Rightarrow> nat" where
  "bit_length n = (if n = 0 then 0 else Suc (bit_length (n div 2)))"

declare bit_length.simps [simp del]

definition fl :: "rat \<Rightarrow> rat" where
  "fl x =
     (if x \<le> 0 then 0
      else let k = bit_length (nat \<lfloor>x\<rfloor>); j = bit_length (nat \<lfloor>1 / x\<rfloor>)
           in if 53 < k then of_int (py_round (x / 2 ^ (k - 53))) * 2 ^ (k - 53)
              else if 0 < k then of_int (py_round (x * 2 ^ (53 - k))) / 2 ^ (53 - k)
              else of_int (py_round (x * 2 ^ (52 + j))) / 2 ^ (52 + j))"

definition digits_nat :: "string \<Rightarrow> nat" where
  "digits_nat s = foldl (\<lambda>a c. a * 10 + digit_val c) 0 s"

text \<open>\<open>float(s)\<close> of a string of digits and dots.\<close>

definition float_of :: "string \<Rightarrow> exn + rat" where
  "float_of s =
     (case split_on (CHR ''.'') s of
        [a] \<Rightarrow> if a = [] then Inl (ValueError ''could not convert string to float'') else Inr (fl (of_nat (digits_nat a)))
      | [a, b] \<Rightarrow>
          if a = [] \<and> b = [] then Inl (ValueError ''could not convert string to float'')
          else Inr (fl (of_nat (digits_nat a) + of_nat (digits_nat b) / 10 ^ length b))
      | _ \<Rightarrow> Inl (ValueError ''could not convert string to float''))"

text \<open>\<open>re.search("(\d+)u", s)\<close>: the first run of digits that the letter follows.\<close>

fun search_unit :: "char \<Rightarrow> string \<Rightarrow> string \<Rightarrow> string option" where
  "search_unit u run [] = None"
| "search_unit u run (c # cs) =
     (if isdigit c then search_unit u (run @ [c]) cs
      else if c = u \<and> run \<noteq> [] then Some run
      else search_unit u [] cs)"

definition parse_client_uptime :: "string \<Rightarrow> int" where
  "parse_client_uptime t =
     (\<Sum>(u, k) \<leftarrow> [(CHR ''w'', 7 * 24 * 60 * 60), (CHR ''d'', 24 * 60 * 60), (CHR ''h'', 60 * 60), (CHR ''m'', 60), (CHR ''s'', 1)].
        case search_unit u [] t of None \<Rightarrow> 0 | Some ds \<Rightarrow> int (digits_nat ds) * k)"

definition number_part :: "string \<Rightarrow> string \<times> string" where
  \<comment> \<open>\<open>([\d.]+)\s*\<close> and what follows\<close>
  "number_part t =
     (takeWhile (\<lambda>c. isdigit c \<or> c = CHR ''.'') t, dropWhile is_space (dropWhile (\<lambda>c. isdigit c \<or> c = CHR ''.'') t))"

definition drop_letter :: "char \<Rightarrow> string \<Rightarrow> string \<times> string" where
  "drop_letter x t = (case t of c # cs \<Rightarrow> if lower c = x then ([x], cs) else ([], t) | [] \<Rightarrow> ([], []))"

definition size_unit :: "string \<Rightarrow> string" where
  \<comment> \<open>\<open>([KMGT]i?B?)?\<close>, in lower case\<close>
  "size_unit t =
     (case t of
        [] \<Rightarrow> []
      | c # cs \<Rightarrow>
          if lower c \<in> set ''kmgt''
          then (let (i, r) = drop_letter (CHR ''i'') cs; (b, _) = drop_letter (CHR ''b'') r in lower c # i @ b)
          else [])"

definition unit_multiplier :: "string \<Rightarrow> rat" where
  "unit_multiplier u =
     (if u \<in> {''kib'', ''kb'', ''k''} then 1024 else if u \<in> {''mib'', ''mb'', ''m''} then 1024 ^ 2
      else if u \<in> {''gib'', ''gb'', ''g''} then 1024 ^ 3 else if u \<in> {''tib'', ''tb'', ''t''} then 1024 ^ 4 else 1)"

definition parse_size :: "string \<Rightarrow> exn + int" where
  "parse_size t =
     (let (num, rest) = number_part t
      in if num = [] then Inr 0
         else bind_exn (float_of num) (\<lambda>v. Inr (py_trunc (fl (v * unit_multiplier (size_unit rest))))))"

definition parse_frequency :: "string \<Rightarrow> exn + int" where
  "parse_frequency t =
     (let (num, rest) = number_part t;
          giga = drop_letter (CHR ''g'') rest; mega = drop_letter (CHR ''m'') rest;
          after = (if fst giga \<noteq> [] then snd giga else snd mega)
      in if num = [] \<or> map lower (take 2 after) \<noteq> ''hz'' then Inr 0
         else bind_exn (float_of num) (\<lambda>v. Inr (py_trunc (if fst giga \<noteq> [] then fl (v * 1000) else v))))"

definition parse_percentage :: "string \<Rightarrow> int" where
  "parse_percentage t = int (digits_nat (takeWhile isdigit t))"

section \<open>Status of a router\<close>

text \<open>
  The assignments to the router object, in their order: an exception in one of them leaves the
  object with the earlier ones made.
\<close>

definition status_updates :: "datetime \<Rightarrow> device_row \<Rightarrow> (router \<Rightarrow> exn + router) list" where
  "status_updates now info =
     (let field = (\<lambda>k. dict_get_or info k []);
          size_into = (\<lambda>k upd r. bind_exn (parse_size (field k)) (\<lambda>n. Inr (upd (Some n) r)))
      in [\<lambda>r. Inr (r\<lparr>rt_status := Online, rt_last_seen := Some now,
                     rt_uptime := parse_client_uptime (dict_get_or info ''uptime'' ''0s''),
                     rt_routeros_version := dict_get info ''version'', rt_board_name := dict_get info ''board-name'',
                     rt_architecture := dict_get info ''architecture-name''\<rparr>),
          \<lambda>r. (case dict_get info ''cpu-count'' of
                 None \<Rightarrow> Inr r
               | Some n \<Rightarrow> bind_exn (int_of n) (\<lambda>k. Inr (r\<lparr>rt_cpu_count := Some k\<rparr>))),
          \<lambda>r. bind_exn (parse_frequency (field ''cpu-frequency'')) (\<lambda>n. Inr (r\<lparr>rt_cpu_frequency := Some n\<rparr>)),
          \<lambda>r. Inr (r\<lparr>rt_cpu_load := Some (parse_percentage (field ''cpu-load''))\<rparr>),
          size_into ''total-memory'' (\<lambda>n r. r\<lparr>rt_total_memory := n\<rparr>),
          size_into ''free-memory'' (\<lambda>n r. r\<lparr>rt_free_memory := n\<rparr>),
          size_into ''total-hdd-space'' (\<lambda>n r. r\<lparr>rt_total_hdd_space := n\<rparr>),
          size_into ''free-hdd-space'' (\<lambda>n r. r\<lparr>rt_free_hdd_space := n\<rparr>)])"

fun run_updates :: "(router \<Rightarrow> exn + router) list \<Rightarrow> router \<Rightarrow> bool \<times> router" where
  "run_updates [] r = (True, r)"
| "run_updates (u # us) r = (case u r of Inl e \<Rightarrow> (False, r) | Inr r' \<Rightarrow> run_updates us r')"

definition sync_router_status :: "'w routeros \<Rightarrow> datetime \<Rightarrow> router \<Rightarrow> 'w client \<Rightarrow> (bool \<times> router) \<times> 'w client" where
  "sync_router_status lib now rt s =
     (let offline = (\<lambda>r. r\<lparr>rt_status := Offline\<rparr>)
      in case connect lib now (rt_ip_address rt) (rt_username rt) (rt_password rt) (rt_port rt) s of
           (Inl e, s1) \<Rightarrow> ((False, offline rt), s1)
         | (Inr c, s1) \<Rightarrow>
             let (info, s2) = get_system_info lib now c s1;
                 outcome =
                   (case info of
                      None \<Rightarrow> (False, offline rt)
                    | Some facts \<Rightarrow>
                        if facts = [] then (False, offline rt)
                        else let (fine, rt') = run_updates (status_updates now facts) rt
                             in (fine, if fine then rt' else offline rt'))
             in (outcome, disconnect lib (rt_ip_address rt) (rt_port rt) s2))"

section \<open>Users of subscriptions\<close>

definition connect_router :: "'w routeros \<Rightarrow> datetime \<Rightarrow> router \<Rightarrow> 'w client \<Rightarrow> (exn + connection) \<times> 'w client" where
  "connect_router lib now rt s = connect lib now (rt_ip_address rt) (rt_username rt) (rt_password rt) (rt_port rt) s"

definition create_subscription_user ::
    "'w routeros \<Rightarrow> datetime \<Rightarrow> router \<Rightarrow> SubscriptionType \<Rightarrow> string \<Rightarrow> string \<Rightarrow> 'w client \<Rightarrow> bool \<times> 'w client" where
  "create_subscription_user lib now rt t username password s =
     catching False (andthen (connect_router lib now rt s) (\<lambda>c s1.
       case t of
         HOTSPOT \<Rightarrow> create_hotspot_user lib now c username password ''default'' [] s1
       | PPPOE \<Rightarrow> create_pppoe_user lib now c username password ''default'' ''pppoe'' [] s1))"

definition row_id :: "device_row \<Rightarrow> string" where
  \<comment> \<open>\<open>f.get("id") or f.get(".id")\<close>\<close>
  "row_id r = or_str (dict_get r ''id'') (dict_get_or r ''.id'' [])"

definition subscription_path :: "SubscriptionType \<Rightarrow> string" where
  "subscription_path t = (case t of HOTSPOT \<Rightarrow> ''/ip/hotspot/user'' | PPPOE \<Rightarrow> ''/ppp/secret'')"

definition delete_subscription_user ::
    "'w routeros \<Rightarrow> datetime \<Rightarrow> router \<Rightarrow> SubscriptionType \<Rightarrow> string \<Rightarrow> 'w client \<Rightarrow> bool \<times> 'w client" where
  "delete_subscription_user lib now rt t username s =
     (let path = subscription_path t
      in catching False (andthen (connect_router lib now rt s) (\<lambda>c s1.
           andthen (execute_command_by_keyword c [(''resource_path'', path), (''method'', ''get'')] s1) (\<lambda>found s2.
             case find (\<lambda>u. dict_get u ''name'' = Some username) found of
               None \<Rightarrow> (Inr True, s2)
             | Some u \<Rightarrow>
                 andthen (execute_command_by_keyword c [(''resource_path'', path), (''method'', ''remove''), (''id'', row_id u)] s2)
                   (\<lambda>_ s3. (Inr True, s3))))))"

section \<open>Bootstrap script and clean-up\<close>

record script_check =
  sc_script_exists :: bool
  sc_script_content :: "string option"
  sc_identity_matches :: bool
  sc_identity_in_script :: "string option"
  sc_error :: "string option"

definition no_script :: script_check where
  "no_script = \<lparr>sc_script_exists = False, sc_script_content = None, sc_identity_matches = False,
     sc_identity_in_script = None, sc_error = None\<rparr>"

text \<open>\<open>re.search("/system/identity/set\s+name=([^\s\n]+)", text)\<close>.\<close>

fun identity_in :: "string \<Rightarrow> string option" where
  "identity_in [] = None"
| "identity_in (c # cs) =
     (let h = ''/system/identity/set''; t = c # cs; r = drop (length h) t; n = dropWhile is_space r;
          v = takeWhile (\<lambda>x. \<not> is_space x) (drop 5 n)
      in if take (length h) t = h \<and> n \<noteq> r \<and> take 5 n = ''name='' \<and> v \<noteq> [] then Some v else identity_in cs)"

definition verify_bootstrap_script ::
    "'w routeros \<Rightarrow> datetime \<Rightarrow> router \<Rightarrow> string option \<Rightarrow> 'w client \<Rightarrow> script_check \<times> 'w client" where
  "verify_bootstrap_script lib now rt expected s =
     (case andthen (connect_router lib now rt s) (\<lambda>c s1.
             execute_command_by_keyword c [(''resource_path'', ''/file''), (''method'', ''get'')] s1) of
        (Inl e, s') \<Rightarrow> (no_script\<lparr>sc_error := Some (exn_msg e)\<rparr>, s')
      | (Inr files, s') \<Rightarrow>
          (case find (\<lambda>f. dict_get f ''name'' = Some ''codevertex.rsc'') files of
             None \<Rightarrow> (no_script, s')
           | Some f \<Rightarrow>
               let content = dict_get_or f ''contents'' []; ident = identity_in content
               in (\<lparr>sc_script_exists = True, sc_script_content = Some content,
                    sc_identity_matches = (ident = Some (or_str expected (rt_name rt))),
                    sc_identity_in_script = ident, sc_error = None\<rparr>, s')))"

record cleanup_result =
  cr_script_removed :: bool
  cr_configurations_removed :: bool
  cr_errors :: "string list"

fun remove_rows :: "connection \<Rightarrow> string \<Rightarrow> reply \<Rightarrow> 'w client \<Rightarrow> (exn + unit) \<times> 'w client" where
  "remove_rows c path [] s = (Inr (), s)"
| "remove_rows c path (r # rs) s =
     andthen (execute_command_by_keyword c [(''resource_path'', path), (''method'', ''remove''), (''id'', row_id r)] s)
       (\<lambda>_ s1. remove_rows c path rs s1)"

fun remove_prefixed :: "connection \<Rightarrow> (string \<times> string) list \<Rightarrow> 'w client \<Rightarrow> (exn + unit) \<times> 'w client" where
  "remove_prefixed c [] s = (Inr (), s)"
| "remove_prefixed c ((path, key) # todo) s =
     andthen (execute_command_by_keyword c [(''resource_path'', path), (''method'', ''get'')] s) (\<lambda>rs s1.
       andthen (remove_rows c path (filter (\<lambda>r. take 10 (dict_get_or r key []) = ''codevertex'') rs) s1)
         (\<lambda>_ s2. remove_prefixed c todo s2))"

definition remove_script_file :: "connection \<Rightarrow> 'w client \<Rightarrow> (exn + bool) \<times> 'w client" where
  "remove_script_file c s =
     andthen (execute_command_by_keyword c [(''resource_path'', ''/file''), (''method'', ''get'')] s) (\<lambda>files s1.
       case find (\<lambda>f. dict_get f ''name'' = Some ''codevertex.rsc'') files of
         None \<Rightarrow> (Inr False, s1)
       | Some f \<Rightarrow> andthen (remove_rows c ''/file'' [f] s1) (\<lambda>_ s2. (Inr True, s2)))"

definition cleanup_provisioning ::
    "'w routeros \<Rightarrow> datetime \<Rightarrow> router \<Rightarrow> bool \<Rightarrow> bool \<Rightarrow> 'w client \<Rightarrow> cleanup_result \<times> 'w client" where
  "cleanup_provisioning lib now rt remove_script remove_configurations s =
     (let none = \<lparr>cr_script_removed = False, cr_configurations_removed = False, cr_errors = []\<rparr>
      in case connect_router lib now rt s of
           (Inl e, s1) \<Rightarrow> (none\<lparr>cr_errors := [''Connection failed: '' @ exn_msg e]\<rparr>, s1)
         | (Inr c, s1) \<Rightarrow>
             let (r1, s2) =
                   (if remove_script
                    then (case remove_script_file c s1 of
                            (Inl e, t) \<Rightarrow> (none\<lparr>cr_errors := [''Failed to remove script: '' @ exn_msg e]\<rparr>, t)
                          | (Inr b, t) \<Rightarrow> (none\<lparr>cr_script_removed := b\<rparr>, t))
                    else (none, s1))
             in if remove_configurations
                then (case remove_prefixed c [(''/ip/hotspot'', ''name''), (''/interface/pppoe-server/server'', ''service-name''),
                                              (''/interface/bridge'', ''name''), (''/ip/pool'', ''name'')] s2 of
                        (Inl e, t) \<Rightarrow> (r1\<lparr>cr_errors := cr_errors r1 @ [''Failed to remove configurations: '' @ exn_msg e]\<rparr>, t)
                      | (Inr _, t) \<Rightarrow> (r1\<lparr>cr_configurations_removed := True\<rparr>, t))
                else (r1, s2))"

end
