(* ===== verification/Provision_Commands.thy ===== *)
theory Provision_Commands
  imports Device_Client
begin

text \<open>
  The commands that set a router up: versions of RouterOS, command templates and the generators of
  \<open>src/app/modules/provisioning/commands.py\<close>.

  A configuration is a JSON object, here an association list of JSON values without floating-point
  numbers. An f-string renders a value as \<open>str()\<close> does. The arrow in one of the descriptions is written
  as its three bytes in UTF-8.
\<close>

section \<open>Configuration values\<close>

datatype jval = JNull | JBool bool | JInt int | JText string | JArr "jval list" | JObj "(string \<times> jval) list"

type_synonym config = "(string \<times> jval) list"

definition escape_char :: "char \<Rightarrow> char \<Rightarrow> string" where
  "escape_char q c =
     (let n = of_char c :: nat; hex = ''0123456789abcdef''
      in if c = CHR 0x5C then [CHR 0x5C, CHR 0x5C] else if c = q then [CHR 0x5C, q]
         else if n = 10 then [CHR 0x5C, CHR ''n''] else if n = 13 then [CHR 0x5C, CHR ''r'']
         else if n = 9 then [CHR 0x5C, CHR ''t'']
         else if n < 32 \<or> n = 127 then [CHR 0x5C, CHR ''x'', hex ! (n div 16), hex ! (n mod 16)]
         else [c])"

definition quote_str :: "string \<Rightarrow> string" where
  "quote_str s =
     (let q = (if CHR 0x27 \<in> set s \<and> CHR 0x22 \<notin> set s then CHR 0x22 else CHR 0x27)
      in q # concat (map (escape_char q) s) @ [q])"

fun py_repr :: "jval \<Rightarrow> string" where
  "py_repr JNull = ''None''"
| "py_repr (JBool b) = (if b then ''True'' else ''False'')"
| "py_repr (JInt i) = str_int i"
| "py_repr (JText s) = quote_str s"
| "py_repr (JArr xs) = ''['' @ join '', '' (map py_repr xs) @ '']''"
| "py_repr (JObj kvs) = ''{'' @ join '', '' (map (\<lambda>kv. quote_str (fst kv) @ '': '' @ py_repr (snd kv)) kvs) @ ''}''"

definition py_str :: "jval \<Rightarrow> string" where
  "py_str v = (case v of JText s \<Rightarrow> s | _ \<Rightarrow> py_repr v)"

lemma py_str_text [simp]: "py_str (JText s) = s"
  by (simp add: py_str_def)

fun jtrue :: "jval \<Rightarrow> bool" where
  "jtrue JNull = False"
| "jtrue (JBool b) = b"
| "jtrue (JInt i) = (i \<noteq> 0)"
| "jtrue (JText s) = (s \<noteq> [])"
| "jtrue (JArr xs) = (xs \<noteq> [])"
| "jtrue (JObj kvs) = (kvs \<noteq> [])"

definition jor :: "jval \<Rightarrow> jval \<Rightarrow> jval" where
  "jor a b = (if jtrue a then a else b)"

definition cfg :: "config \<Rightarrow> string \<Rightarrow> jval \<Rightarrow> jval" where
  "cfg config k d = (case map_of config k of None \<Rightarrow> d | Some v \<Rightarrow> v)"

fun type_name :: "jval \<Rightarrow> string" where
  "type_name JNull = ''NoneType''"
| "type_name (JBool b) = ''bool''"
| "type_name (JInt i) = ''int''"
| "type_name (JText s) = ''str''"
| "type_name (JArr xs) = ''list''"
| "type_name (JObj kvs) = ''dict''"

text \<open>A method of strings on a value, \<open>int(v)\<close>, \<open>sep.join(xs)\<close>, \<open>list(v)\<close> and \<open>x in v\<close>.\<close>

definition text_of :: "string \<Rightarrow> jval \<Rightarrow> exn + string" where
  "text_of attr v =
     (case v of JText s \<Rightarrow> Inr s
      | _ \<Rightarrow> Inl (AttributeError ([CHR 0x27] @ type_name v @ [CHR 0x27] @ '' object has no attribute '' @ [CHR 0x27] @ attr @ [CHR 0x27])))"

definition int_value :: "jval \<Rightarrow> exn + int" where
  "int_value v =
     (case v of JInt i \<Rightarrow> Inr i | JBool b \<Rightarrow> Inr (if b then 1 else 0) | JText s \<Rightarrow> int_of s
      | _ \<Rightarrow> Inl (TypeError ''int() argument must be a string, a bytes-like object or a real number''))"

fun all_texts :: "(jval \<Rightarrow> exn + string) \<Rightarrow> jval list \<Rightarrow> exn + string list" where
  "all_texts f [] = Inr []"
| "all_texts f (v # vs) = bind_exn (f v) (\<lambda>s. bind_exn (all_texts f vs) (\<lambda>ss. Inr (s # ss)))"

definition join_texts :: "string \<Rightarrow> jval list \<Rightarrow> exn + string" where
  "join_texts sep vs =
     bind_exn (all_texts (\<lambda>v. case v of JText s \<Rightarrow> Inr s | _ \<Rightarrow> Inl (TypeError (''sequence item: expected str instance, '' @ type_name v @ '' found''))) vs)
       (\<lambda>ss. Inr (join sep ss))"

definition items_of :: "jval \<Rightarrow> exn + jval list" where
  "items_of v =
     (case v of JArr xs \<Rightarrow> Inr xs | JText s \<Rightarrow> Inr (map (\<lambda>c. JText [c]) s) | JObj kvs \<Rightarrow> Inr (map (\<lambda>kv. JText (fst kv)) kvs)
      | _ \<Rightarrow> Inl (TypeError ([CHR 0x27] @ type_name v @ [CHR 0x27] @ '' object is not iterable'')))"

definition member_of :: "string \<Rightarrow> jval \<Rightarrow> exn + bool" where
  "member_of s v =
     (case v of JArr xs \<Rightarrow> Inr (JText s \<in> set xs) | JText t \<Rightarrow> Inr (contains s t) | JObj kvs \<Rightarrow> Inr (s \<in> fst ` set kvs)
      | _ \<Rightarrow> Inl (TypeError (''argument of type '' @ [CHR 0x27] @ type_name v @ [CHR 0x27] @ '' is not iterable'')))"

section \<open>Versions\<close>

text \<open>\<open>re.match("(\d+)\.(\d+)(?:\.(\d+))?", s)\<close>.\<close>

definition after_dot :: "string \<Rightarrow> (string \<times> string) option" where
  \<comment> \<open>a dot, a run of digits and what follows\<close>
  "after_dot t =
     (case t of
        [] \<Rightarrow> None
      | c # cs \<Rightarrow> if c = CHR ''.'' \<and> takeWhile isdigit cs \<noteq> [] then Some (takeWhile isdigit cs, dropWhile isdigit cs) else None)"

definition parse_routeros_version :: "string \<Rightarrow> nat \<times> nat \<times> nat" where
  "parse_routeros_version version_string =
     (let t = strip version_string; major = takeWhile isdigit t
      in if major = [] then (7, 0, 0)
         else case after_dot (dropWhile isdigit t) of
                None \<Rightarrow> (7, 0, 0)
              | Some (minor, r) \<Rightarrow>
                  (digits_nat major, digits_nat minor, case after_dot r of None \<Rightarrow> 0 | Some (patch, _) \<Rightarrow> digits_nat patch))"

definition is_v7_or_later :: "jval \<Rightarrow> exn + bool" where
  "is_v7_or_later v =
     (if jtrue v then bind_exn (text_of ''strip'' v) (\<lambda>s. Inr (fst (parse_routeros_version s) \<ge> 7)) else Inr True)"

section \<open>Templates\<close>

record command_templates =
  ct_connection :: "(string \<times> string) list"
  ct_disable_default_services :: "string list"
  ct_create_firewall_rules :: "string \<Rightarrow> string list" \<comment> \<open>with the value of \<open>management_ip\<close> filled in\<close>

definition load_command_templates :: command_templates where
  "load_command_templates =
     \<lparr>ct_connection =
        [(''system_info'', ''/system/resource/print''), (''identity_check'', ''/system/identity/print''),
         (''interface_list'', ''/interface/print''), (''ip_address_list'', ''/ip/address/print''),
         (''version_check'', ''/system/package/print where name=system'')],
      ct_disable_default_services =
        [''/ip/service/set telnet disabled=yes'', ''/ip/service/set ftp disabled=yes'', ''/ip/service/set www disabled=yes'',
         ''/ip/service/set ssh port=2222''],
      ct_create_firewall_rules = (\<lambda>management_ip.
        [''/ip/firewall/filter/add chain=input action=accept connection-state=established,related comment=codevertex-allow-established'',
         ''/ip/firewall/filter/add chain=input action=accept protocol=icmp comment=codevertex-allow-icmp'',
         ''/ip/firewall/filter/add chain=input action=accept dst-port=8728 protocol=tcp src-address='' @ management_ip @ '' comment=codevertex-allow-api'',
         ''/ip/firewall/filter/add chain=input action=accept dst-port=8291 protocol=tcp comment=codevertex-allow-winbox''])\<rparr>"

section \<open>Basic configuration\<close>

record command_data =
  cd_type :: string
  cd_command :: string
  cd_description :: string
  cd_critical :: bool
  cd_rollback :: "string option"

definition optional :: "string \<Rightarrow> string \<Rightarrow> command_data" where
  "optional command description = \<lparr>cd_type = ''api_call'', cd_command = command, cd_description = description, cd_critical = False, cd_rollback = None\<rparr>"

definition critical :: "string \<Rightarrow> string \<Rightarrow> string option \<Rightarrow> command_data" where
  "critical command description undo = \<lparr>cd_type = ''api_call'', cd_command = command, cd_description = description, cd_critical = True, cd_rollback = undo\<rparr>"

text \<open>The address plan of a configuration.\<close>

definition network_of :: "config \<Rightarrow> exn + jval \<times> int \<times> network_config" where
  "network_of config =
     (let subnet = cfg config ''subnet_address'' (JText ''172.31.0.0'')
      in bind_exn (int_value (cfg config ''cidr'' (JInt 16))) (\<lambda>cidr.
         bind_exn (text_of ''split'' subnet) (\<lambda>s.
         bind_exn (calculate_network_config s cidr) (\<lambda>net. Inr (subnet, cidr, net)))))"

definition identity_commands :: "config \<Rightarrow> command_data list" where
  "identity_commands config =
     (let identity = jor (cfg config ''identity'' JNull) (cfg config ''router_identity'' JNull)
      in if jtrue identity then [optional (''/system/identity/set name='' @ py_str identity) ''Setting system identity''] else [])"

definition ntp_commands :: "config \<Rightarrow> bool \<Rightarrow> exn + command_data list" where
  "ntp_commands config v7 =
     (case cfg config ''ntp_servers'' (JArr [JText ''time.cloudflare.com'', JText ''time.google.com'']) of
        JArr (p # ps) \<Rightarrow>
          if v7 then bind_exn (join_texts '','' (p # ps)) (\<lambda>servers.
            Inr [optional (''/system/ntp/client/set enabled=yes servers='' @ servers) ''Configuring NTP time synchronization (v7)''])
          else Inr [optional (''/system/ntp/client/set enabled=yes primary-ntp='' @ py_str p @ '' secondary-ntp='' @
                       (case ps of [] \<Rightarrow> ''time.google.com'' | q # _ \<Rightarrow> py_str q)) ''Configuring NTP time synchronization (v6)'']
      | _ \<Rightarrow> Inr [])"

definition clock_command :: "config \<Rightarrow> bool \<Rightarrow> command_data" where
  "clock_command config v7 =
     (let timezone = py_str (jor (cfg config ''timezone'' JNull) (JText ''Africa/Nairobi''))
      in if v7 then optional (''/system/clock/set time-zone-name='' @ timezone) (''Setting timezone to '' @ timezone @ '' (v7)'')
         else optional ''/system/clock/set time-zone-autodetect=yes'' ''Enabling timezone auto-detect (v6)'')"

text \<open>The removal of what an earlier run left, each as \<open>:do { ... } on-error={}\<close>.\<close>

definition on_error_guarded :: "string \<Rightarrow> string" where
  "on_error_guarded c = '':do { '' @ c @ '' } on-error={}''"

definition cleanup_commands :: "(string \<times> string) list" where
  "cleanup_commands =
    [(''Clearing active hotspot sessions'', on_error_guarded ''/ip/hotspot/active/remove [find]''),
     (''Clearing stored hotspot MAC cookies'', on_error_guarded ''/ip/hotspot/cookie/remove [find]''),
     (''Clearing tracked hotspot hosts'', on_error_guarded ''/ip/hotspot/host/remove [find]''),
     (''Clearing previous hotspot server'', on_error_guarded ''/ip/hotspot/remove [find interface=codevertex-bridge]''),
     (''Clearing previous hotspot profile'', on_error_guarded ''/ip/hotspot/profile/remove [find name=codevertex-hsprof]''),
     (''Clearing previous hotspot ip-binding'', on_error_guarded ''/ip/hotspot/ip-binding/remove [find comment~\"codevertex-gateway-bypass\"]''),
     (''Clearing previous PPPoE server'', on_error_guarded ''/interface/pppoe-server/server/remove [find service-name~\"codevertex\"]''),
     (''Clearing previous PPP profile'', on_error_guarded ''/ppp/profile/remove [find name~\"codevertex\"]''),
     (''Clearing previous PPP secrets'', on_error_guarded ''/ppp/secret/remove [find comment~\"codevertex\"]''),
     (''Clearing previous walled-garden hosts'', on_error_guarded ''/ip/hotspot/walled-garden/remove [find comment~\"codevertex-portal\"]''),
     (''Clearing previous walled-garden IPs'', on_error_guarded ''/ip/hotspot/walled-garden/ip/remove [find comment~\"codevertex-portal\"]''),
     (''Clearing previous captive login.html'', on_error_guarded ''/file/remove [find name=\"hotspot/login.html\"]''),
     (''Clearing previous captive alogin.html'', on_error_guarded ''/file/remove [find name=\"hotspot/alogin.html\"]''),
     (''Clearing previous DHCP server'', on_error_guarded ''/ip/dhcp-server/remove [find name=codevertex-dhcp]''),
     (''Clearing previous DHCP network'', on_error_guarded ''/ip/dhcp-server/network/remove [find comment~\"codevertex-dhcp-network\"]''),
     (''Clearing previous IP pool'', on_error_guarded ''/ip/pool/remove [find name=codevertex-pool]''),
     (''Clearing previous captive DNS entries'', on_error_guarded ''/ip/dns/static/remove [find comment~\"codevertex-captive-portal-detection\"]''),
     (''Clearing previous DNS-redirect NAT'', on_error_guarded ''/ip/firewall/nat/remove [find comment~\"codevertex-dns-redirect\"]''),
     (''Clearing previous masquerade NAT'', on_error_guarded ''/ip/firewall/nat/remove [find comment~\"codevertex-masquerade\"]''),
     (''Clearing previous DoH-block filter'', on_error_guarded ''/ip/firewall/filter/remove [find comment~\"codevertex-block-doh\"]''),
     (''Clearing previous anti-sharing rules'', on_error_guarded ''/ip/firewall/mangle/remove [find comment~\"codevertex-anti-sharing\"]''),
     (''Clearing previous anti-sharing drop'', on_error_guarded ''/ip/firewall/filter/remove [find comment~\"codevertex-anti-sharing\"]''),
     (''Clearing previous bridge IP'', on_error_guarded ''/ip/address/remove [find interface=codevertex-bridge]''),
     (''Clearing previous bridge'', on_error_guarded ''/interface/bridge/remove [find name=codevertex-bridge]'')]"

definition bridge_port_command :: "string \<Rightarrow> string \<Rightarrow> command_data" where
  "bridge_port_command bridge port =
     critical
       (on_error_guarded (''/interface/bridge/port/remove [find interface='' @ port @ '']'') @ ''; /interface/bridge/port/add interface='' @ port @
          '' bridge='' @ bridge @ '' hw=no'')
       (''Adding port '' @ port @ '' to bridge (hw=no: HW-offload bypasses the CPU, so the hotspot can'' @ [CHR 0x27] @
          ''t register clients as hosts '' @ [CHR 0xE2, CHR 0x86, CHR 0x92] @ '' no captive intercept)'')
       (Some (''/interface/bridge/port/remove [find interface='' @ port @ '']''))"

text \<open>The ports the configuration asks for, without the interface to the internet.\<close>

definition bridge_ports :: "config \<Rightarrow> exn + string list \<times> bool" where
  "bridge_ports config =
     (let ports = (case cfg config ''bridge_ports'' (JArr []) of
                     JArr (p # ps) \<Rightarrow> p # ps
                   | _ \<Rightarrow> [cfg config ''interface'' (JText ''ether2'')])
      in bind_exn (text_of ''lower'' (cfg config ''wan_interface'' (JText ''ether1''))) (\<lambda>wan.
         bind_exn (all_texts (text_of ''lower'') ports) (\<lambda>ps. Inr (filter_wan_from_bridge_ports ps wan))))"

definition dns_list :: "config \<Rightarrow> exn + string" where
  "dns_list config =
     (case cfg config ''dns_servers'' (JArr [JText ''8.8.8.8'', JText ''8.8.4.4'']) of
        JArr xs \<Rightarrow> join_texts '','' xs
      | v \<Rightarrow> Inr (py_str v))"

definition generate_configuration_commands :: "config \<Rightarrow> jval \<Rightarrow> exn + command_data list" where
  "generate_configuration_commands config routeros_version =
     bind_exn (network_of config) (\<lambda>(subnet, cidr, net).
       let gateway = py_str (cfg config ''gateway'' (JText (nc_gateway net)));
           pool_start = py_str (cfg config ''ip_pool_start'' (JText (nc_pool_start net)));
           pool_end = py_str (cfg config ''ip_pool_end'' (JText (nc_pool_end net)));
           pool_name = py_str (cfg config ''pool_name'' (JText ''codevertex-pool''));
           bridge_name = py_str (cfg config ''bridge_name'' (JText ''codevertex-bridge''));
           wan_interface = py_str (cfg config ''wan_interface'' (JText ''ether1''));
           dhcp_server_name = py_str (cfg config ''dhcp_server_name'' (JText ''codevertex-dhcp''))
       in bind_exn (is_v7_or_later routeros_version) (\<lambda>v7.
          bind_exn (ntp_commands config v7) (\<lambda>ntp.
          bind_exn (bridge_ports config) (\<lambda>(ports, wan_was_filtered).
          bind_exn (dns_list config) (\<lambda>dns.
            Inr (identity_commands config @ ntp @ [clock_command config v7]
              @ map (\<lambda>(desc, cmd). optional cmd desc) cleanup_commands
              @ [critical (''/interface/bridge/add name='' @ bridge_name) (''Ensuring bridge '' @ bridge_name @ '' exists'')
                   (Some (''/interface/bridge/remove [find name='' @ bridge_name @ '']''))]
              @ (if wan_was_filtered
                 then [optional ''/system/identity/print'' (''[WARN] WAN interface '' @ [CHR 0x27] @ wan_interface @ [CHR 0x27] @
                         '' was excluded from bridge ports to prevent network lockout'')]
                 else [])
              @ map (bridge_port_command bridge_name) ports
              @ [critical (''/ip/address/add address='' @ gateway @ ''/'' @ str_int cidr @ '' interface='' @ bridge_name)
                   (''Assigning gateway IP '' @ gateway @ ''/'' @ str_int cidr @ '' to bridge'')
                   (Some (''/ip/address/remove [find address='' @ gateway @ ''/'' @ str_int cidr @ '']'')),
                 critical (''/ip/pool/add name='' @ pool_name @ '' ranges='' @ pool_start @ ''-'' @ pool_end)
                   (''Creating IP pool '' @ pool_name) (Some (''/ip/pool/remove [find name='' @ pool_name @ '']'')),
                 optional (''/ip/dns/set servers='' @ dns @ '' allow-remote-requests=yes'') ''Configuring DNS servers'',
                 critical (''/ip/dhcp-server/add name='' @ dhcp_server_name @ '' interface='' @ bridge_name @ '' address-pool='' @ pool_name @ '' disabled=no'')
                   (''Creating DHCP server on '' @ bridge_name) (Some (''/ip/dhcp-server/remove [find name='' @ dhcp_server_name @ '']'')),
                 critical (''/ip/dhcp-server/network/add address='' @ py_str subnet @ ''/'' @ str_int cidr @ '' gateway='' @ gateway @
                     '' dns-server='' @ gateway @ '' comment=codevertex-dhcp-network'')
                   ''Configuring DHCP network parameters'' None,
                 critical (''/ip/firewall/nat/add chain=srcnat action=masquerade out-interface='' @ wan_interface @ '' comment=codevertex-masquerade'')
                   (''Enabling NAT masquerade on '' @ wan_interface) None]))))))"

section \<open>Hotspot\<close>

record portal_settings =
  treasury_status_host :: string
  treasury_pay_page_url :: string

text \<open>
  \<open>re.search("https?://([...]+)", url)\<close>: the first place where a scheme is followed by a character of the
  class, and the longest run of such characters there.
\<close>

definition after_scheme :: "string \<Rightarrow> string option" where
  "after_scheme t =
     (if take 7 t = ''http://'' then Some (drop 7 t) else if take 8 t = ''https://'' then Some (drop 8 t) else None)"

fun url_search :: "(char \<Rightarrow> bool) \<Rightarrow> string \<Rightarrow> string option" where
  "url_search P [] = None"
| "url_search P (c # cs) =
     (case after_scheme (c # cs) of
        Some r \<Rightarrow> if takeWhile P r \<noteq> [] then Some (takeWhile P r) else url_search P cs
      | None \<Rightarrow> url_search P cs)"

definition url_host :: "string \<Rightarrow> string option" where
  "url_host = url_search (\<lambda>c. c \<noteq> CHR '':'' \<and> c \<noteq> CHR ''/'')"

definition url_ip :: "string \<Rightarrow> string option" where
  "url_ip = url_search (\<lambda>c. isdigit c \<or> c = CHR ''.'')"

text \<open>\<open>re.match("^[0-9.]+$", host)\<close>; the dollar also stands before a final newline.\<close>

definition numeric_host :: "string \<Rightarrow> bool" where
  "numeric_host h =
     (let t = (if h \<noteq> [] \<and> last h = CHR 0x0A then butlast h else h)
      in t \<noteq> [] \<and> list_all (\<lambda>c. isdigit c \<or> c = CHR ''.'') t)"

text \<open>The hosts of the walled garden and those pinned by address, as they grow.\<close>

type_synonym garden = "jval list \<times> string list"

definition add_host :: "string \<Rightarrow> garden \<Rightarrow> garden" where
  "add_host h g =
     (let (hosts, cloud) = g
      in (if h \<noteq> [] \<and> JText h \<notin> set hosts then hosts @ [JText h] else hosts,
          if h \<noteq> [] \<and> \<not> numeric_host h \<and> h \<notin> set cloud then cloud @ [h] else cloud))"

definition pattern_argument :: "jval \<Rightarrow> exn + string" where
  "pattern_argument v = (case v of JText s \<Rightarrow> Inr s | _ \<Rightarrow> Inl (TypeError (''expected string or bytes-like object, got '' @ [CHR 0x27] @ type_name v @ [CHR 0x27])))"

definition add_url_host :: "string \<Rightarrow> garden \<Rightarrow> garden" where
  "add_url_host url g = (case url_host url of None \<Rightarrow> g | Some h \<Rightarrow> add_host h g)"

definition payment_hosts :: "string list" where
  "payment_hosts = [''*.paystack.com'', ''*.paystack.co'', ''*.paystackcdn.com'', ''*.flutterwave.com'', ''*.mpesa.in'', ''*.safaricom.co.ke'']"

definition captive_cloud_hosts :: "portal_settings \<Rightarrow> config \<Rightarrow> exn + string list" where
  "captive_cloud_hosts st config =
     (let status_default = (if treasury_status_host st \<noteq> [] then treasury_status_host st else ''booksapi.codevertexafrica.com'');
          ui_default = (case url_host (treasury_pay_page_url st) of None \<Rightarrow> ''books.codevertexafrica.com'' | Some h \<Rightarrow> h)
      in bind_exn (text_of ''strip'' (jor (cfg config ''treasury_status_host'' JNull) (JText status_default))) (\<lambda>a.
         bind_exn (text_of ''strip'' (jor (cfg config ''treasury_ui_host'' JNull) (JText ui_default))) (\<lambda>b.
           let status_host = strip a; ui_host = strip b
           in Inr ((if status_host \<noteq> [] then [status_host] else [])
                @ (if ui_host \<noteq> [] \<and> ui_host \<noteq> status_host then [ui_host] else [])
                @ [''api.qrserver.com'', ''public-files-paystack-prod.s3.eu-west-1.amazonaws.com'', ''cdnjs.cloudflare.com'',
                   ''s3-eu-west-1.amazonaws.com'']))))"

text \<open>
  \<open>import re\<close> stands inside the branch for the billing server and makes \<open>re\<close> a local name of the whole
  function: without a billing server the search in the address of the API server raises.
\<close>

definition walled_garden :: "portal_settings \<Rightarrow> config \<Rightarrow> exn + garden" where
  "walled_garden st config =
     (let billing_server = cfg config ''billing_server_url'' (JText []); api_server = cfg config ''api_server_url'' (JText [])
      in bind_exn (items_of (cfg config ''walled_garden_hosts'' (JArr []))) (\<lambda>hosts.
         bind_exn (if jtrue billing_server then bind_exn (pattern_argument billing_server) (\<lambda>u. Inr (add_url_host u (hosts, [])))
                   else Inr (hosts, [])) (\<lambda>g1.
         bind_exn (if jtrue api_server
                   then (if jtrue billing_server then bind_exn (pattern_argument api_server) (\<lambda>u. Inr (add_url_host u g1))
                         else Inl (UnboundLocalError (''cannot access local variable '' @ quote_str ''re'' @ '' where it is not associated with a value'')))
                   else Inr g1) (\<lambda>g2.
         bind_exn (captive_cloud_hosts st config) (\<lambda>cloud.
           Inr (fold add_host cloud (fst g2 @ map JText payment_hosts, snd g2)))))))"

definition walled_garden_ips :: "config \<Rightarrow> exn + jval list" where
  \<comment> \<open>the address is appended to the list of the configuration itself\<close>
  "walled_garden_ips config =
     (let ips = cfg config ''walled_garden_ips'' (JArr []); billing_server = cfg config ''billing_server_url'' (JText [])
      in if \<not> jtrue billing_server then items_of ips
         else bind_exn (pattern_argument billing_server) (\<lambda>u.
           case url_ip u of
             None \<Rightarrow> items_of ips
           | Some ip \<Rightarrow> bind_exn (member_of ip ips) (\<lambda>there.
               if there then items_of ips
               else case ips of
                      JArr xs \<Rightarrow> Inr (xs @ [JText ip])
                    | _ \<Rightarrow> Inl (AttributeError ([CHR 0x27] @ type_name ips @ [CHR 0x27] @ '' object has no attribute '' @ [CHR 0x27] @ ''append'' @ [CHR 0x27])))))"

definition certificate_commands :: "string \<Rightarrow> string \<Rightarrow> string \<Rightarrow> command_data list" where
  "certificate_commands ca_cert_name cert_name dns_name =
     [optional (''/certificate/add name='' @ ca_cert_name @ '' common-name=codevertex-ca key-usage=key-cert-sign,crl-sign key-size=2048 days-valid=3650'')
        ''Creating CA certificate for hotspot SSL'',
      optional (''/certificate/sign [find name='' @ ca_cert_name @ '']'') ''Self-signing CA certificate'',
      optional (''/certificate/add name='' @ cert_name @ '' common-name='' @ dns_name @ '' key-size=2048 days-valid=3650'')
        ''Creating SSL certificate for hotspot captive portal'',
      optional (''/certificate/sign [find name='' @ cert_name @ ''] ca='' @ ca_cert_name) ''Signing hotspot certificate with CA'']"

definition fetch_command :: "jval \<Rightarrow> string \<Rightarrow> string \<Rightarrow> command_data list" where
  "fetch_command url file description =
     (if jtrue url
      then [optional (on_error_guarded (''/tool/fetch url='' @ [CHR 0x22] @ py_str url @ [CHR 0x22] @ '' dst-path=hotspot/'' @ file @ '' check-certificate=no'')) description]
      else [])"

definition doh_providers :: "(string \<times> string) list" where
  "doh_providers =
     [(''8.8.8.8'', ''google-dns-1''), (''8.8.4.4'', ''google-dns-2''), (''1.1.1.1'', ''cloudflare-dns-1''), (''1.0.0.1'', ''cloudflare-dns-2''),
      (''9.9.9.9'', ''quad9-dns''), (''149.112.112.112'', ''quad9-dns-2''), (''208.67.222.222'', ''opendns-1''), (''208.67.220.220'', ''opendns-2'')]"

definition dns_commands :: "string \<Rightarrow> command_data list" where
  "dns_commands bridge_name =
     map (\<lambda>(proto, name). optional (''/ip/firewall/nat/add chain=dstnat action=redirect to-ports=53 protocol='' @ proto @ '' dst-port=53 in-interface='' @ bridge_name @ '' comment=codevertex-dns-redirect'')
            (''DNS redirect NAT rule ('' @ name @ '') to force DNS through router'')) [(''udp'', ''UDP''), (''tcp'', ''TCP'')]
     @ map (\<lambda>(ip, comment). optional (''/ip/firewall/address-list/add list=codevertex-doh-providers address='' @ ip @ '' comment='' @ comment)
              (''Adding DoH provider '' @ ip @ '' ('' @ comment @ '') to address list'')) doh_providers
     @ [optional (''/ip/firewall/filter/add chain=forward action=reject reject-with=icmp-network-unreachable dst-address-list=codevertex-doh-providers protocol=tcp dst-port=443 in-interface='' @ bridge_name @ '' comment=codevertex-block-doh'')
          ''Blocking DNS-over-HTTPS to prevent captive portal bypass'']"

definition host_command :: "jval \<Rightarrow> command_data" where
  "host_command host =
     optional (''/ip/hotspot/walled-garden/add dst-host='' @ [CHR 0x22] @ py_str host @ [CHR 0x22] @ '' action=allow comment=codevertex-portal'')
       (''Allow unauthenticated access to '' @ py_str host)"

definition ip_command :: "jval \<Rightarrow> command_data" where
  "ip_command ip =
     optional (''/ip/hotspot/walled-garden/ip/add dst-address='' @ py_str ip @ '' action=accept comment=codevertex-portal'')
       (''Allow unauthenticated access to IP '' @ py_str ip)"

definition pin_command :: "string \<Rightarrow> command_data" where
  "pin_command host =
     optional (on_error_guarded (''/ip/hotspot/walled-garden/ip/add dst-address=[:resolve '' @ [CHR 0x22] @ host @ [CHR 0x22] @ ''] action=accept comment=codevertex-portal-ip''))
       (''Pin cloud host '' @ host @ '' to walled-garden by resolved IP (unauth HTTPS passthrough)'')"

definition anti_sharing_commands :: "config \<Rightarrow> string \<Rightarrow> command_data list" where
  "anti_sharing_commands config hotspot_name =
     (if jtrue (jor (cfg config ''enable_anti_sharing'' JNull) (jor (cfg config ''enableAntiSharing'' JNull) (cfg config ''enable_hotspot_anti_sharing'' JNull)))
      then [optional (''/ip/hotspot/set '' @ hotspot_name @ '' idle-timeout=5m'') ''Configure hotspot idle timeout for anti-sharing'',
            optional ''/ip/firewall/mangle/add chain=forward action=change-ttl new-ttl=set:64 passthrough=yes ttl=equal:65 protocol=tcp dst-port=80,443,53 comment=codevertex-anti-sharing''
              ''Anti-sharing TTL rule for TCP (HTTP/HTTPS/DNS)'',
            optional ''/ip/firewall/mangle/add chain=forward action=change-ttl new-ttl=set:64 passthrough=yes ttl=equal:65 protocol=udp dst-port=53,67,68 comment=codevertex-anti-sharing''
              ''Anti-sharing TTL rule for UDP (DNS/DHCP)'',
            optional ''/ip/firewall/filter/add chain=forward action=drop ttl=equal:1 comment=codevertex-anti-sharing'' ''Block suspicious low-TTL packets'']
      else [])"

text \<open>
  The address of the captive portal is put together and then not used by any command: only the exception
  that a billing server other than a string raises is left of it.
\<close>

definition captive_portal_url :: "config \<Rightarrow> exn + string" where
  "captive_portal_url config =
     (let url = cfg config ''captive_portal_url'' (JText []); billing_server = cfg config ''billing_server_url'' (JText [])
      in if jtrue url then Inr (py_str url)
         else if jtrue billing_server
           then bind_exn (text_of ''rstrip'' billing_server) (\<lambda>u.
             Inr (rstrip_char (CHR ''/'') u @ ''/buy/'' @ py_str (cfg config ''organization_slug'' (JText ''default''))))
           else Inr (py_str url))"

definition generate_hotspot_commands :: "portal_settings \<Rightarrow> config \<Rightarrow> exn + command_data list" where
  "generate_hotspot_commands st config =
     (let hotspot_name = py_str (cfg config ''hotspot_name'' (JText ''codevertex-hotspot''));
          bridge_name = py_str (cfg config ''bridge_name'' (JText ''codevertex-bridge''));
          pool_name = py_str (cfg config ''pool_name'' (JText ''codevertex-pool''));
          profile_name = py_str (cfg config ''hotspot_profile'' (JText ''codevertex-hsprof''));
          dns_name = py_str (cfg config ''hotspot_dns_name'' (JText ''hotspot.local''));
          ca_cert_name = py_str (cfg config ''hotspot_ca_cert_name'' (JText ''codevertex-ca''));
          cert_name = py_str (cfg config ''hotspot_cert_name'' (JText ''codevertex-hotspot-cert''))
      in bind_exn (network_of config) (\<lambda>(subnet, cidr, net).
         bind_exn (captive_portal_url config) (\<lambda>_.
         bind_exn (walled_garden st config) (\<lambda>(hosts, cloud_hosts).
         bind_exn (walled_garden_ips config) (\<lambda>ips.
           let gateway = py_str (cfg config ''gateway'' (JText (nc_gateway net)))
           in Inr ([optional ''/ip/service/set ftp disabled=no'' ''Enabling FTP service for template upload'']
             @ certificate_commands ca_cert_name cert_name dns_name
             @ [critical (''/ip/hotspot/profile/add name='' @ profile_name @ '' hotspot-address='' @ gateway @ '' dns-name='' @ dns_name @
                    '' use-radius=no login-by=http-pap,http-chap,mac-cookie http-cookie-lifetime=1d split-user-domain=no'')
                  (''Creating hotspot profile '' @ profile_name) None,
                optional (on_error_guarded (''/ip/hotspot/profile/set [find name='' @ profile_name @ ''] ssl-certificate=none''))
                  ''Ensuring hotspot profile has NO ssl-certificate (HTTP-only captive)'',
                critical (''/ip/hotspot/add name='' @ hotspot_name @ '' interface='' @ bridge_name @ '' address-pool='' @ pool_name @ '' profile='' @ profile_name @
                    '' addresses-per-mac=1 idle-timeout=5m keepalive-timeout=none disabled=no'')
                  (''Creating hotspot '' @ hotspot_name @ '' on '' @ bridge_name) None]
             @ fetch_command (cfg config ''login_template_url'' JNull) ''login.html'' ''Installing captive-portal login.html (external-redirect page)''
             @ fetch_command (cfg config ''alogin_template_url'' JNull) ''alogin.html'' ''Installing captive-portal alogin.html (post-auth page)''
             @ [optional (on_error_guarded (''/ip/hotspot/profile/set [find name='' @ profile_name @ ''] html-directory=hotspot''))
                  ''Activating captive-portal templates (html-directory=hotspot)'',
                optional (''/ip/hotspot/ip-binding/add address='' @ gateway @ '' type=bypassed comment=codevertex-gateway-bypass'')
                  (''Bypassing gateway '' @ gateway @ '' from hotspot authentication'')]
             @ dns_commands bridge_name
             @ map host_command hosts
             @ map ip_command ips
             @ map pin_command cloud_hosts
             @ anti_sharing_commands config hotspot_name))))))"

section \<open>PPPoE\<close>

definition generate_pppoe_commands :: "config \<Rightarrow> exn + command_data list" where
  "generate_pppoe_commands config =
     (let service_name = py_str (cfg config ''service_name'' (JText ''codevertex-pppoe''));
          bridge_name = py_str (cfg config ''bridge_name'' (JText ''codevertex-bridge''));
          profile_name = py_str (cfg config ''ppp_profile_name'' (JText ''codevertex-pppoe-profile''));
          pool_name = py_str (cfg config ''pool_name'' (JText ''codevertex-pool''))
      in bind_exn (network_of config) (\<lambda>(subnet, cidr, net).
           let local_address = py_str (cfg config ''gateway'' (JText (nc_gateway net)))
           in Inr [critical (''/ppp/profile/add name='' @ profile_name @ '' local-address='' @ local_address @ '' remote-address='' @ pool_name @ '' dns-server='' @ local_address)
                     (''Creating PPP profile '' @ profile_name) None,
                   critical (''/interface/pppoe-server/server/add service-name='' @ service_name @ '' interface='' @ bridge_name @ '' default-profile='' @ profile_name @ '' disabled=no'')
                     (''Enabling PPPoE server '' @ service_name @ '' on '' @ bridge_name) None]))"

end
