(* ===== verification/Provisioning.thy ===== *)
theory Provisioning
  imports Provision_Commands Router_Agent
begin

text \<open>
  Provisioning sessions: \<open>ProvisioningService\<close> (\<open>src/app/modules/provisioning/service.py\<close>) with the execution of
  commands (\<open>commands.py\<close>), verification (\<open>verify.py\<close>), rollback (\<open>rollback.py\<close>) and status (\<open>status.py\<close>), and
  \<open>mark_provisioning_complete\<close> (\<open>src/app/services/router_provisioning.py\<close>).

  The tables of this component are the record \<open>prov_db\<close> over the database of the other services. Every
  operation commits what it changes before it returns and errors of the database are not modelled, so that
  there is one database here and not a pair. The workflow runs in the background on the session object it
  loaded: the object is a value of its own next to the rows, and an assignment to it writes the same column of
  the row, whatever others wrote into the row meanwhile. A JSON column that is changed in place is changed in
  the object only, because the ORM does not notice it.

  Parameters are the library for devices (see Device_Client), the upload of the hotspot pages over FTP, the
  test for private addresses, the access token for the script and the rendering of a router's JSON column.
  What is streamed to the browser is left out.
\<close>

section \<open>Rows\<close>

datatype ProvisioningStatus = PvPending | PvInProgress | PvCompleted | PvFailed | PvCancelled | PvTimeout

datatype ProvisioningStep = StepConnection | StepConfiguration | StepServiceSetup

datatype ServiceType = SvcPppoe | SvcHotspot | SvcBoth | SvcBridge

datatype ProvisioningPriority = PrioLow | PrioNormal | PrioHigh | PrioUrgent

fun step_value :: "ProvisioningStep \<Rightarrow> string" where
  "step_value StepConnection = ''connection''"
| "step_value StepConfiguration = ''configuration''"
| "step_value StepServiceSetup = ''service_setup''"

fun service_value :: "ServiceType \<Rightarrow> string" where
  "service_value SvcPppoe = ''pppoe_server''"
| "service_value SvcHotspot = ''hotspot''"
| "service_value SvcBoth = ''both''"
| "service_value SvcBridge = ''bridge''"

fun provisioning_status_value :: "ProvisioningStatus \<Rightarrow> string" where
  "provisioning_status_value PvPending = ''pending''"
| "provisioning_status_value PvInProgress = ''in_progress''"
| "provisioning_status_value PvCompleted = ''completed''"
| "provisioning_status_value PvFailed = ''failed''"
| "provisioning_status_value PvCancelled = ''cancelled''"
| "provisioning_status_value PvTimeout = ''timeout''"

record prov_session =
  ps_id :: int
  ps_session_id :: string
  ps_router_id :: int
  ps_user_id :: int
  ps_status :: ProvisioningStatus
  ps_current_step :: ProvisioningStep
  ps_progress :: rat
  ps_service_type :: ServiceType
  ps_configuration :: config
  ps_priority :: ProvisioningPriority
  ps_scheduled_at :: "datetime option"
  ps_started_at :: "datetime option"
  ps_completed_at :: "datetime option"
  ps_timeout_at :: "datetime option"
  ps_success :: bool
  ps_error_message :: "string option"
  ps_rollback_required :: bool
  ps_rollback_completed :: bool
  ps_created_at :: datetime

record step_output =
  so_operation :: "string option" \<comment> \<open>\<open>current_operation\<close>\<close>
  so_system_info :: "device_row option"

record step_log =
  sl_id :: int
  sl_session_id :: int
  sl_step :: ProvisioningStep
  sl_step_order :: int
  sl_status :: ProvisioningStatus
  sl_started_at :: "datetime option"
  sl_completed_at :: "datetime option"
  sl_duration :: "timedelta option"
  sl_output_data :: "step_output option"
  sl_error_details :: "string option"
  sl_progress :: rat
  sl_sub_steps_completed :: int
  sl_retry_count :: int

datatype command_output = Answer reply \<comment> \<open>before rendering\<close> | Note string

record prov_command =
  pc_id :: int
  pc_session_id :: int
  pc_command_type :: string
  pc_command :: string
  pc_description :: string
  pc_execution_order :: int
  pc_status :: ProvisioningStatus
  pc_executed_at :: "datetime option"
  pc_success :: bool
  pc_output :: "command_output option"
  pc_error_message :: "string option"
  pc_rollback_command :: "string option"
  pc_rollback_executed :: bool
  pc_retry_count :: nat
  pc_max_retries :: nat
  pc_is_critical :: bool

record prov_template =
  pt_id :: int
  pt_name :: string
  pt_description :: "string option"
  pt_version :: string
  pt_service_type :: ServiceType
  pt_router_model :: "string option"
  pt_min_routeros_version :: "string option"
  pt_configuration_schema :: config
  pt_default_configuration :: config
  pt_command_templates :: config
  pt_is_active :: bool
  pt_is_default :: bool
  pt_created_by :: int
  pt_usage_count :: int
  pt_success_rate :: rat
  pt_created_at :: datetime

record router_configuration =
  rc_id :: int
  rc_router_id :: int
  rc_session_id :: "int option"
  rc_configuration_type :: string
  rc_configuration_name :: "string option"
  rc_configuration_data :: jval
  rc_is_active :: bool
  rc_is_backup :: bool
  rc_checksum :: "string option"
  rc_applied_by :: "int option"
  rc_rollback_available :: bool
  rc_created_at :: datetime

text \<open>The columns of \<open>OrganizationSettings\<close> that only provisioning reads.\<close>

record hotspot_settings =
  hs_organization_id :: int
  hs_hotspot_template :: string
  hs_hotspot_redirect_url :: string
  hs_session_timeout_minutes :: int

record prov_db =
  pv_sessions :: "prov_session list"
  pv_steps :: "step_log list"
  pv_commands :: "prov_command list"
  pv_templates :: "prov_template list"
  pv_configurations :: "router_configuration list"
  pv_hotspot :: "hotspot_settings list"
  pv_session_seq :: int
  pv_step_seq :: int
  pv_command_seq :: int
  pv_template_seq :: int
  pv_configuration_seq :: int
  pv_base :: db

text \<open>The state of the process: the database, the check-ins of the ping monitor by address with the identity they carry, and the client.\<close>

record 'w prov =
  pdb :: prov_db
  checkins :: "(string \<times> string option) list"
  dev :: "'w client"

record app_settings =
  frontend_url :: "string option"
  backend_url :: "string option"
  portal :: portal_settings

record 'w environment =
  env_settings :: app_settings
  env_lib :: "'w routeros"
  env_private :: "string \<Rightarrow> bool" \<comment> \<open>\<open>ipaddress.ip_address(ip).is_private\<close>, false when it raises\<close>
  env_token :: "int \<Rightarrow> string" \<comment> \<open>the access token of a user for the script\<close>
  env_upload :: "router \<Rightarrow> config \<Rightarrow> 'w \<Rightarrow> (exn + bool) \<times> 'w" \<comment> \<open>\<open>_upload_hotspot_templates\<close>\<close>
  env_merge :: "string option \<Rightarrow> string \<Rightarrow> datetime \<Rightarrow> string" \<comment> \<open>a router's JSON with the service type put in\<close>
  env_uuid :: "nat \<Rightarrow> string"

definition on_pdb :: "(prov_db \<Rightarrow> prov_db) \<Rightarrow> 'w prov \<Rightarrow> 'w prov" where
  "on_pdb f s = s\<lparr>pdb := f (pdb s)\<rparr>"

definition upd_session :: "int \<Rightarrow> (prov_session \<Rightarrow> prov_session) \<Rightarrow> prov_db \<Rightarrow> prov_db" where
  "upd_session i f d = d\<lparr>pv_sessions := tbl_upd ps_id i f (pv_sessions d)\<rparr>"

definition upd_step :: "int \<Rightarrow> (step_log \<Rightarrow> step_log) \<Rightarrow> prov_db \<Rightarrow> prov_db" where
  "upd_step i f d = d\<lparr>pv_steps := tbl_upd sl_id i f (pv_steps d)\<rparr>"

definition upd_prov_command :: "int \<Rightarrow> (prov_command \<Rightarrow> prov_command) \<Rightarrow> prov_db \<Rightarrow> prov_db" where
  "upd_prov_command i f d = d\<lparr>pv_commands := tbl_upd pc_id i f (pv_commands d)\<rparr>"

section \<open>Lookups\<close>

definition active :: "ProvisioningStatus \<Rightarrow> bool" where
  "active st \<longleftrightarrow> st = PvPending \<or> st = PvInProgress"

definition get_session_by_id :: "string \<Rightarrow> prov_db \<Rightarrow> prov_session option" where
  "get_session_by_id sid d = tbl_get ps_session_id sid (pv_sessions d)"

definition get_active_session :: "int \<Rightarrow> prov_db \<Rightarrow> exn + prov_session option" where
  "get_active_session rid d = scalar_one_or_none (filter (\<lambda>p. ps_router_id p = rid \<and> active (ps_status p)) (pv_sessions d))"

definition get_router_by_id :: "int \<Rightarrow> prov_db \<Rightarrow> exn + router option" where
  \<comment> \<open>\<open>RouterService.get_by_id\<close> without an organization\<close>
  "get_router_by_id rid d =
     (if rid \<le> 0 then Inl (Exn ''RouterOperationError'' ''Unexpected error: Invalid router ID'')
      else Inr (tbl_get rt_id rid (routers (pv_base d))))"

definition get_template :: "int \<Rightarrow> prov_db \<Rightarrow> prov_template option" where
  "get_template i d = tbl_get pt_id i (pv_templates d)"

definition steps_of :: "int \<Rightarrow> prov_db \<Rightarrow> step_log list" where
  "steps_of i d = filter (\<lambda>l. sl_session_id l = i) (pv_steps d)"

definition get_step_log :: "int \<Rightarrow> ProvisioningStep \<Rightarrow> prov_db \<Rightarrow> exn + step_log" where
  "get_step_log i st d =
     (case filter (\<lambda>l. sl_step l = st) (steps_of i d) of
        [l] \<Rightarrow> Inr l
      | [] \<Rightarrow> Inl (Exn ''NoResultFound'' ''No row was found when one was required'')
      | _ \<Rightarrow> Inl MultipleResultsFound)"

section \<open>Configuration of a session\<close>

definition get_organization_slug :: "int option \<Rightarrow> int option \<Rightarrow> prov_db \<Rightarrow> string option" where
  "get_organization_slug rid uid d =
     (let b = pv_base d;
          slug = (\<lambda>oid. case tbl_get org_id oid (organizations b) of None \<Rightarrow> None | Some g \<Rightarrow> if org_slug g = [] then None else Some (org_slug g));
          of_router = (if truthy_int rid then
              Option.bind (tbl_get rt_id (the rid) (routers b)) (\<lambda>r. Option.bind (rt_organization_id r) slug) else None);
          of_user = (if truthy_int uid then
              Option.bind (tbl_get usr_id (the uid) (users b)) (\<lambda>u. Option.bind (usr_organization_id u) slug) else None)
      in case of_router of Some g \<Rightarrow> Some g | None \<Rightarrow> of_user)"

definition get_organization_settings :: "int option \<Rightarrow> int option \<Rightarrow> prov_db \<Rightarrow> hotspot_settings option" where
  "get_organization_settings rid uid d =
     (let b = pv_base d;
          of_router = (if truthy_int rid then Option.bind (tbl_get rt_id (the rid) (routers b)) rt_organization_id else None);
          org = (if \<not> truthy_int of_router \<and> truthy_int uid
                 then Option.bind (tbl_get usr_id (the uid) (users b)) usr_organization_id else of_router)
      in if truthy_int org then tbl_get hs_organization_id (the org) (pv_hotspot d) else None)"

definition set_default :: "string \<Rightarrow> jval \<Rightarrow> config \<Rightarrow> config" where
  \<comment> \<open>\<open>if k not in c: c[k] = v\<close>\<close>
  "set_default k v c = (case map_of c k of None \<Rightarrow> c @ [(k, v)] | Some _ \<Rightarrow> c)"

text \<open>\<open>re.search("(https?://[^:]+):?(\d+)?", url)\<close>: the scheme and everything up to the next colon.\<close>

fun scheme_and_host :: "string \<Rightarrow> string option" where
  "scheme_and_host [] = None"
| "scheme_and_host (c # cs) =
     (case after_scheme (c # cs) of
        Some r \<Rightarrow>
          if takeWhile (\<lambda>x. x \<noteq> CHR '':'') r \<noteq> []
          then Some (take (length (c # cs) - length r) (c # cs) @ takeWhile (\<lambda>x. x \<noteq> CHR '':'') r) else scheme_and_host cs
      | None \<Rightarrow> scheme_and_host cs)"

definition with_urls :: "app_settings \<Rightarrow> config \<Rightarrow> config" where
  "with_urls st c =
     (let c1 = (if map_of c ''billing_server_url'' \<noteq> None then c
                else if truthy (frontend_url st) then c @ [(''billing_server_url'', JText (the (frontend_url st)))]
                else if truthy (backend_url st)
                  then (case scheme_and_host (the (backend_url st)) of
                          None \<Rightarrow> c | Some h \<Rightarrow> c @ [(''billing_server_url'', JText (h @ '':3000''))])
                else c)
      in if truthy (backend_url st) then set_default ''api_server_url'' (JText (the (backend_url st))) c1 else c1)"

definition with_settings :: "hotspot_settings option \<Rightarrow> config \<Rightarrow> config" where
  "with_settings hs c =
     (case hs of
        None \<Rightarrow> c
      | Some h \<Rightarrow>
          let c1 = set_default ''hotspot_template_type'' (JText (if hs_hotspot_template h = [] then ''Aurora'' else hs_hotspot_template h)) c;
              c2 = (if hs_hotspot_redirect_url h = [] then c1 else set_default ''hotspot_redirect_url'' (JText (hs_hotspot_redirect_url h)) c1)
          in set_default ''session_timeout_minutes'' (JInt (hs_session_timeout_minutes h)) c2)"

definition service_defaults :: "ServiceType \<Rightarrow> (string \<times> jval) list" where
  "service_defaults t =
     (case t of
        SvcHotspot \<Rightarrow> [(''hotspot_name'', JText ''ISP-Hotspot''), (''ip_pool_start'', JText ''172.31.1.1''), (''ip_pool_end'', JText ''172.31.1.254''),
                       (''gateway'', JText ''172.31.1.1''), (''walled_garden_hosts'', JArr [])]
      | SvcPppoe \<Rightarrow> [(''service_name'', JText ''ISP-PPPoE''), (''ip_pool_start'', JText ''172.31.1.1''), (''ip_pool_end'', JText ''172.31.1.254'')]
      | _ \<Rightarrow> [])"

definition validate_configuration ::
    "app_settings \<Rightarrow> ServiceType \<Rightarrow> config \<Rightarrow> int option \<Rightarrow> int option \<Rightarrow> prov_db \<Rightarrow> config" where
  "validate_configuration st t c rid uid d =
     (let c1 = set_default ''wan_interface'' (JText ''ether1'')
                 (set_default ''dns_servers'' (JArr [JText ''8.8.8.8'', JText ''8.8.4.4'']) (set_default ''interface'' (JText ''ether2'') c));
          c2 = with_urls st c1;
          c3 = set_default ''organization_slug'' (JText (case get_organization_slug rid uid d of None \<Rightarrow> ''default'' | Some g \<Rightarrow> g)) c2;
          c4 = (if t = SvcHotspot \<or> t = SvcBoth then with_settings (get_organization_settings rid uid d) c3 else c3)
      in fold (\<lambda>(k, v). set_default k v) (service_defaults t) c4)"

definition merge_config :: "config \<Rightarrow> config \<Rightarrow> config" where
  \<comment> \<open>\<open>{**a, **b}\<close>\<close>
  "merge_config a b = fold (\<lambda>(k, v). dict_set k v) b a"

section \<open>Creating a session\<close>

definition ProvisioningError :: "string \<Rightarrow> exn" where
  "ProvisioningError = Exn ''ProvisioningError''"

definition new_step :: "int \<Rightarrow> int \<Rightarrow> ProvisioningStep \<times> int \<Rightarrow> step_log" where
  "new_step i sid st =
     \<lparr>sl_id = i, sl_session_id = sid, sl_step = fst st, sl_step_order = snd st, sl_status = PvPending, sl_started_at = None,
      sl_completed_at = None, sl_duration = None, sl_output_data = None, sl_error_details = None, sl_progress = 0,
      sl_sub_steps_completed = 0, sl_retry_count = 0\<rparr>"

definition create_step_logs :: "int \<Rightarrow> prov_db \<Rightarrow> prov_db" where
  "create_step_logs sid d =
     (let n = pv_step_seq d
      in d\<lparr>pv_steps := pv_steps d @ [new_step n sid (StepConnection, 1), new_step (n + 1) sid (StepConfiguration, 2),
             new_step (n + 2) sid (StepServiceSetup, 3)], pv_step_seq := n + 3\<rparr>)"

definition new_provisioning_session ::
    "'w environment \<Rightarrow> datetime \<Rightarrow> int \<Rightarrow> int \<Rightarrow> ServiceType \<Rightarrow> config \<Rightarrow> ProvisioningPriority \<Rightarrow> datetime option \<Rightarrow> prov_db \<Rightarrow> prov_session" where
  "new_provisioning_session e now rid uid t c prio scheduled d =
     \<lparr>ps_id = pv_session_seq d, ps_session_id = env_uuid e (nat (pv_session_seq d)), ps_router_id = rid, ps_user_id = uid,
      ps_status = PvPending, ps_current_step = StepConnection, ps_progress = 0, ps_service_type = t, ps_configuration = c,
      ps_priority = prio, ps_scheduled_at = scheduled, ps_started_at = None, ps_completed_at = None,
      ps_timeout_at = Some (now + minutes 30), ps_success = False, ps_error_message = None, ps_rollback_required = False,
      ps_rollback_completed = False, ps_created_at = now\<rparr>"

definition create_provisioning_session ::
    "'w environment \<Rightarrow> datetime \<Rightarrow> int \<Rightarrow> int \<Rightarrow> ServiceType \<Rightarrow> config \<Rightarrow> ProvisioningPriority \<Rightarrow> int option \<Rightarrow> datetime option
     \<Rightarrow> prov_db \<Rightarrow> (exn + prov_session) \<times> prov_db" where
  "create_provisioning_session e now rid uid t c prio template_id scheduled d =
     (case get_router_by_id rid d of
        Inl x \<Rightarrow> (Inl x, d)
      | Inr None \<Rightarrow> (Inl (ValidationError (''Router '' @ str_int rid @ '' not found'')), d)
      | Inr (Some _) \<Rightarrow>
          (case get_active_session rid d of
             Inl x \<Rightarrow> (Inl x, d)
           | Inr (Some p) \<Rightarrow>
               (Inl (ProvisioningError (''Router '' @ str_int rid @ '' already has an active provisioning session: '' @ ps_session_id p)), d)
           | Inr None \<Rightarrow>
               let c1 = (if truthy_int template_id
                         then (case get_template (the template_id) d of
                                 Some tp \<Rightarrow> if pt_service_type tp = t then merge_config (pt_default_configuration tp) c else c
                               | None \<Rightarrow> c)
                         else c);
                   p = new_provisioning_session e now rid uid t (validate_configuration (env_settings e) t c1 (Some rid) (Some uid) d) prio scheduled d;
                   d1 = d\<lparr>pv_sessions := pv_sessions d @ [p], pv_session_seq := pv_session_seq d + 1\<rparr>
               in (Inr p, create_step_logs (ps_id p) d1)))"

section \<open>Compatibility of a device\<close>

definition parse_version :: "string \<Rightarrow> nat list" where
  "parse_version version =
     map (\<lambda>part. digits_nat (filter isdigit part))
       (split_on (CHR ''.'') (strip (hd (split_on (CHR ''('') (hd (split_on (CHR '' '') version))))))"

fun compare_parts :: "nat list \<Rightarrow> nat list \<Rightarrow> int" where
  "compare_parts (a # as) (b # bs) = (if a < b then -1 else if b < a then 1 else compare_parts as bs)"
| "compare_parts _ _ = 0"

definition compare_versions :: "string \<Rightarrow> string \<Rightarrow> int" where
  "compare_versions version1 version2 =
     (let v1 = parse_version version1; v2 = parse_version version2; n = max (length v1) (length v2)
      in compare_parts (v1 @ replicate (n - length v1) 0) (v2 @ replicate (n - length v2) 0))"

definition megabytes :: "int \<Rightarrow> string" where
  \<comment> \<open>\<open>f"{n / 1024 / 1024:.1f}"\<close>\<close>
  "megabytes n = (let t = py_round (of_int \<bar>n\<bar> / 1048576 * 10) in (if n < 0 then ''-'' else []) @ str_int (t div 10) @ ''.'' @ str_int (t mod 10))"

definition validate_router_compatibility :: "device_row \<Rightarrow> exn + unit" where
  "validate_router_compatibility info =
     (let version = dict_get_or info ''version'' ''0.0'';
          number = (\<lambda>k d. case dict_get info k of None \<Rightarrow> 0 | Some t \<Rightarrow> (case parse_int t of None \<Rightarrow> d | Some n \<Rightarrow> n));
          cpu_load = number ''cpu-load'' 0; free_memory = number ''free-memory'' (100 * 1024 * 1024)
      in if compare_versions version ''6.40'' < 0
         then Inl (ValidationError (''RouterOS version '' @ version @ '' is not supported. Minimum version: 6.40''))
         else if cpu_load > 90 then Inl (ValidationError (''Router CPU load too high: '' @ str_int cpu_load @ ''%''))
         else if free_memory < 10 * 1024 * 1024
           then Inl (ValidationError (''Insufficient free memory: '' @ megabytes free_memory @ ''MB''))
         else Inr ())"

section \<open>Rollback and errors\<close>

definition on_dev :: "('w client \<Rightarrow> 'a \<times> 'w client) \<Rightarrow> 'w prov \<Rightarrow> 'a \<times> 'w prov" where
  "on_dev f s = (let (r, c) = f (dev s) in (r, s\<lparr>dev := c\<rparr>))"

definition assign :: "(prov_session \<Rightarrow> prov_session) \<Rightarrow> prov_session \<Rightarrow> 'w prov \<Rightarrow> prov_session \<times> 'w prov" where
  \<comment> \<open>a change of the loaded object, written to the row at the next commit\<close>
  "assign f obj s = (f obj, on_pdb (upd_session (ps_id obj) f) s)"

definition no_attribute :: "string \<Rightarrow> string \<Rightarrow> exn" where
  "no_attribute cls attr = AttributeError (quote_str cls @ '' object has no attribute '' @ quote_str attr)"

definition loaded_router :: "int \<Rightarrow> prov_db \<Rightarrow> exn + router" where
  \<comment> \<open>the router of a session, at the first use of one of its attributes\<close>
  "loaded_router rid d =
     bind_exn (get_router_by_id rid d) (\<lambda>r. case r of None \<Rightarrow> Inl (no_attribute ''NoneType'' ''ip_address'') | Some rt \<Rightarrow> Inr rt)"

definition rollback_commands :: "int \<Rightarrow> prov_db \<Rightarrow> prov_command list" where
  "rollback_commands i d =
     rev (order_by pc_execution_order (rev (filter (\<lambda>c. pc_session_id c = i \<and> pc_success c \<and> pc_rollback_command c \<noteq> None) (pv_commands d))))"

fun run_rollback :: "'w environment \<Rightarrow> datetime \<Rightarrow> connection \<Rightarrow> prov_command list \<Rightarrow> 'w prov \<Rightarrow> 'w prov" where
  "run_rollback e now c [] s = s"
| "run_rollback e now c (p # ps) s =
     (case on_dev (execute_command (env_lib e) now c (the (pc_rollback_command p)) None []) s of
        (Inl x, s1) \<Rightarrow> run_rollback e now c ps s1
      | (Inr _, s1) \<Rightarrow> run_rollback e now c ps (on_pdb (upd_prov_command (pc_id p) (\<lambda>r. r\<lparr>pc_rollback_executed := True\<rparr>)) s1))"

text \<open>
  \<open>_execute_rollback\<close> of the service, which a cancelled session runs. The pool is handed to \<open>disconnect\<close>
  in place of an address, under which nothing is registered.
\<close>

definition execute_service_rollback :: "'w environment \<Rightarrow> datetime \<Rightarrow> prov_session \<Rightarrow> 'w prov \<Rightarrow> 'w prov" where
  "execute_service_rollback e now obj s =
     (case loaded_router (ps_router_id obj) (pdb s) of
        Inl x \<Rightarrow> s
      | Inr rt \<Rightarrow>
          (case on_dev (connect_router (env_lib e) now rt) s of
             (Inl x, s1) \<Rightarrow> s1
           | (Inr c, s1) \<Rightarrow>
               on_pdb (upd_session (ps_id obj) (\<lambda>p. p\<lparr>ps_rollback_completed := True\<rparr>))
                 (run_rollback e now c (rollback_commands (ps_id obj) (pdb s)) s1)))"

text \<open>
  \<open>execute_rollback\<close> of \<open>rollback.py\<close>, which a failed session runs: it asks the router service for
  \<open>get_api\<close>, which the service does not have.
\<close>

definition router_service_get_api :: "router option \<Rightarrow> exn + connection" where
  "router_service_get_api rt = Inl (no_attribute ''RouterService'' ''get_api'')"

definition execute_rollback :: "'w environment \<Rightarrow> datetime \<Rightarrow> prov_session \<Rightarrow> 'w prov \<Rightarrow> 'w prov" where
  "execute_rollback e now obj s =
     (case bind_exn (get_router_by_id (ps_router_id obj) (pdb s)) router_service_get_api of
        Inl x \<Rightarrow> s
      | Inr c \<Rightarrow>
          on_pdb (upd_session (ps_id obj) (\<lambda>p. p\<lparr>ps_rollback_completed := True\<rparr>))
            (run_rollback e now c (rollback_commands (ps_id obj) (pdb s)) s))"

definition handle_provisioning_error ::
    "'w environment \<Rightarrow> datetime \<Rightarrow> prov_session \<Rightarrow> string \<Rightarrow> 'w prov \<Rightarrow> prov_session \<times> 'w prov" where
  "handle_provisioning_error e now obj msg s =
     (let (obj1, s1) = assign (\<lambda>p. p\<lparr>ps_status := PvFailed, ps_error_message := Some msg, ps_completed_at := Some now\<rparr>) obj s
      in if jtrue (cfg (ps_configuration obj) ''rollback_on_failure'' (JBool True))
         then (let (obj2, s2) = assign (\<lambda>p. p\<lparr>ps_rollback_required := True\<rparr>) obj1 s1 in (obj2, execute_rollback e now obj2 s2))
         else (obj1, s1))"

definition handle_step_error ::
    "'w environment \<Rightarrow> datetime \<Rightarrow> prov_session \<Rightarrow> step_log \<Rightarrow> string \<Rightarrow> 'w prov \<Rightarrow> prov_session \<times> 'w prov" where
  "handle_step_error e now obj l msg s =
     handle_provisioning_error e now obj (''Step '' @ step_value (sl_step l) @ '' failed: '' @ msg)
       (on_pdb (upd_step (sl_id l) (\<lambda>r. r\<lparr>sl_status := PvFailed, sl_error_details := Some msg, sl_completed_at := Some now, sl_duration := Some 0\<rparr>)) s)"

section \<open>Executing commands\<close>

definition already_exists :: "string \<Rightarrow> bool" where
  "already_exists t \<longleftrightarrow>
     contains ''already'' t \<and> (contains ''exists'' t \<or> contains ''have'' t \<or> contains ''item'' t \<or> contains ''added'' t)
     \<or> contains ''with such name exists'' t \<or> contains ''such name already'' t \<or> contains ''already added'' t"

definition socket_error :: "exn \<Rightarrow> bool" where
  "socket_error x \<longleftrightarrow>
     is_os_error x \<or>
     (\<exists>w \<in> set [''socket'', ''connection'', ''10038'', ''10054'', ''10053'', ''broken pipe'', ''timed out'']. contains w (map lower (exn_msg x)))"

definition run_text :: "'w environment \<Rightarrow> datetime \<Rightarrow> connection \<Rightarrow> command_data \<Rightarrow> 'w client \<Rightarrow> (exn + reply) \<times> 'w client" where
  "run_text e now c cd s =
     (if cd_type cd = ''api_call'' then execute_command (env_lib e) now c (cd_command cd) None [] s
      else (Inl (no_attribute ''MikroTikClient'' ''execute_script''), s))"

definition reconnect :: "'w environment \<Rightarrow> datetime \<Rightarrow> router \<Rightarrow> connection \<Rightarrow> 'w client \<Rightarrow> connection \<times> 'w client" where
  "reconnect e now rt c s =
     (case connect_router (env_lib e) now rt (disconnect (env_lib e) (rt_ip_address rt) (rt_port rt) s) of
        (Inl x, s1) \<Rightarrow> (c, s1)
      | (Inr c', s1) \<Rightarrow> (c', s1))"

fun command_attempts ::
    "'w environment \<Rightarrow> datetime \<Rightarrow> router \<Rightarrow> int \<Rightarrow> command_data \<Rightarrow> nat \<Rightarrow> nat \<Rightarrow> connection \<Rightarrow> 'w prov \<Rightarrow> (bool \<times> connection) \<times> 'w prov" where
  "command_attempts e now rt i cd attempt left c s =
     (let row = (\<lambda>f. on_pdb (upd_prov_command i f));
          (r, s1) = on_dev (run_text e now c cd) (row (\<lambda>p. p\<lparr>pc_executed_at := Some now, pc_status := PvInProgress\<rparr>) s)
      in case r of
           Inr out \<Rightarrow>
             ((True, c), row (\<lambda>p. p\<lparr>pc_output := (if out = [] then None else Some (Answer out)), pc_success := True, pc_status := PvCompleted\<rparr>) s1)
         | Inl x \<Rightarrow>
             if already_exists (map lower (exn_msg x))
             then ((True, c), row (\<lambda>p. p\<lparr>pc_output := Some (Note ''Resource already exists''), pc_success := True, pc_status := PvCompleted\<rparr>) s1)
             else let s2 = row (\<lambda>p. p\<lparr>pc_retry_count := attempt + 1, pc_error_message := Some (exn_msg x), pc_success := False\<rparr>) s1
                  in case left of
                       0 \<Rightarrow> ((False, c), row (\<lambda>p. p\<lparr>pc_status := PvFailed\<rparr>) s2)
                     | Suc k \<Rightarrow>
                         let (c', s3) = (if socket_error x then on_dev (reconnect e now rt c) s2 else (c, s2))
                         in command_attempts e now rt i cd (attempt + 1) k c' (row (\<lambda>p. p\<lparr>pc_status := PvPending\<rparr>) s3))"

declare command_attempts.simps [simp del]

definition new_command :: "prov_session \<Rightarrow> command_data \<Rightarrow> prov_db \<Rightarrow> prov_command" where
  \<comment> \<open>no generated command has the key \<open>order\<close>\<close>
  "new_command obj cd d =
     \<lparr>pc_id = pv_command_seq d, pc_session_id = ps_id obj, pc_command_type = cd_type cd, pc_command = cd_command cd,
      pc_description = cd_description cd, pc_execution_order = 0, pc_status = PvPending, pc_executed_at = None, pc_success = False,
      pc_output = None, pc_error_message = None, pc_rollback_command = cd_rollback cd, pc_rollback_executed = False,
      pc_retry_count = 0, pc_max_retries = 3, pc_is_critical = cd_critical cd\<rparr>"

definition execute_command_with_retry ::
    "'w environment \<Rightarrow> datetime \<Rightarrow> prov_session \<Rightarrow> router \<Rightarrow> connection \<Rightarrow> command_data \<Rightarrow> 'w prov \<Rightarrow> (bool \<times> connection) \<times> 'w prov" where
  "execute_command_with_retry e now obj rt c cd s =
     (let p = new_command obj cd (pdb s);
          s1 = on_pdb (\<lambda>d. d\<lparr>pv_commands := pv_commands d @ [p], pv_command_seq := pv_command_seq d + 1\<rparr>) s
      in command_attempts e now rt (pc_id p) cd 0 (pc_max_retries p) c s1)"

section \<open>Device before and after\<close>

definition cleanup_resources :: "(string \<times> string) list" where
  "cleanup_resources =
     [(''/ip/dns/static'', ''comment''), (''/ip/firewall/nat'', ''comment''), (''/ip/hotspot/walled-garden'', ''comment''),
      (''/ip/hotspot/walled-garden/ip'', ''comment''), (''/ip/firewall/filter'', ''comment''), (''/ip/firewall/mangle'', ''comment''),
      (''/ip/hotspot'', ''name''), (''/ip/hotspot/profile'', ''name''), (''/certificate'', ''name''),
      (''/interface/pppoe-server/server'', ''service-name''), (''/ppp/profile'', ''name''), (''/ip/dhcp-server'', ''name''),
      (''/ip/dhcp-server/network'', ''comment''), (''/ip/pool'', ''name''), (''/interface/bridge/port'', ''bridge''),
      (''/ip/address'', ''interface''), (''/interface/bridge'', ''name'')]"

definition is_artifact :: "string \<Rightarrow> device_row \<Rightarrow> bool" where
  "is_artifact key item \<longleftrightarrow> row_id item \<noteq> [] \<and> contains ''codevertex'' (map lower (dict_get_or item key []))"

fun remove_items :: "'w environment \<Rightarrow> datetime \<Rightarrow> connection \<Rightarrow> string \<Rightarrow> reply \<Rightarrow> 'w client \<Rightarrow> 'w client" where
  "remove_items e now c path [] s = s"
| "remove_items e now c path (i # js) s =
     remove_items e now c path js (snd (execute_command (env_lib e) now c path (Some ''remove'') [(''id'', row_id i)] s))"

definition remove_by_filter :: "'w environment \<Rightarrow> datetime \<Rightarrow> connection \<Rightarrow> string \<times> string \<Rightarrow> 'w client \<Rightarrow> 'w client" where
  "remove_by_filter e now c pk s =
     (case execute_command (env_lib e) now c (fst pk) (Some ''get'') [] s of
        (Inl x, s1) \<Rightarrow> s1
      | (Inr items, s1) \<Rightarrow> remove_items e now c (fst pk) (filter (is_artifact (snd pk)) items) s1)"

definition cleanup_existing_provisioning :: "'w environment \<Rightarrow> datetime \<Rightarrow> connection \<Rightarrow> 'w client \<Rightarrow> 'w client" where
  "cleanup_existing_provisioning e now c s = fold (remove_by_filter e now c) cleanup_resources s"

text \<open>The client has no \<open>export_configuration\<close>: the backup is skipped.\<close>

definition backup_router_configuration :: "prov_db \<Rightarrow> prov_db" where
  "backup_router_configuration d = d"

fun run_quietly :: "'w environment \<Rightarrow> datetime \<Rightarrow> connection \<Rightarrow> string list \<Rightarrow> 'w client \<Rightarrow> 'w client" where
  "run_quietly e now c [] s = s"
| "run_quietly e now c (t # ts) s = run_quietly e now c ts (snd (execute_command (env_lib e) now c t None [] s))"

definition apply_security_configuration :: "'w environment \<Rightarrow> datetime \<Rightarrow> connection \<Rightarrow> config \<Rightarrow> 'w client \<Rightarrow> 'w client" where
  "apply_security_configuration e now c config s =
     run_quietly e now c
       ([''/ip/firewall/filter/remove [find where comment~'' @ [CHR 0x22] @ ''codevertex'' @ [CHR 0x22] @ '']'']
        @ ct_disable_default_services load_command_templates
        @ ct_create_firewall_rules load_command_templates (py_str (cfg config ''management_ip'' (JText ''0.0.0.0/0'')))) s"

text \<open>The client has no \<open>get_system_identity\<close>, \<open>get_ip_pools\<close> or \<open>get_pppoe_servers\<close>.\<close>

definition verify_basic_configuration :: "config \<Rightarrow> exn + unit" where
  "verify_basic_configuration config =
     (if map_of config ''identity'' \<noteq> None then Inl (no_attribute ''MikroTikClient'' ''get_system_identity'')
      else if map_of config ''pool_name'' \<noteq> None then Inl (no_attribute ''MikroTikClient'' ''get_ip_pools'')
      else Inr ())"

definition verify_service_configuration ::
    "'w environment \<Rightarrow> datetime \<Rightarrow> connection \<Rightarrow> ServiceType \<Rightarrow> config \<Rightarrow> 'w client \<Rightarrow> (exn + unit) \<times> 'w client" where
  "verify_service_configuration e now c t config s =
     (case t of
        SvcHotspot \<Rightarrow>
          (let (servers, s1) = get_hotspot_servers (env_lib e) now c s;
               expected = cfg config ''hotspot_name'' (JText ''ISP-Hotspot'')
           in if expected \<in> set (map (\<lambda>h. case dict_get h ''name'' of None \<Rightarrow> JNull | Some n \<Rightarrow> JText n) servers) then (Inr (), s1)
              else (Inl (Exn ''ConfigurationError'' (''Hotspot '' @ py_str expected @ '' not created'')), s1))
      | SvcPppoe \<Rightarrow> (Inl (no_attribute ''MikroTikClient'' ''get_pppoe_servers''), s)
      | _ \<Rightarrow> (Inr (), s))"

section \<open>The three steps\<close>

text \<open>
  An operation that is shown in the status: only the first one of a step reaches the row, since the later
  ones change the JSON object in place.
\<close>

definition update_step_progress :: "int \<Rightarrow> rat \<Rightarrow> string \<Rightarrow> 'w prov \<Rightarrow> 'w prov" where
  "update_step_progress i pct operation s =
     on_pdb (upd_step i (\<lambda>l. l\<lparr>sl_progress := pct,
       sl_output_data := (case sl_output_data l of
                            None \<Rightarrow> Some \<lparr>so_operation = Some operation, so_system_info = None\<rparr>
                          | Some out \<Rightarrow> Some out)\<rparr>)) s"

definition finish_step :: "datetime \<Rightarrow> int \<Rightarrow> 'w prov \<Rightarrow> 'w prov" where
  "finish_step now i s = on_pdb (upd_step i (\<lambda>l. l\<lparr>sl_status := PvCompleted, sl_completed_at := Some now, sl_duration := Some 0\<rparr>)) s"

type_synonym 'w step_result = "(exn + unit) \<times> prov_session \<times> 'w prov"

definition remember_version :: "string \<Rightarrow> prov_session \<Rightarrow> 'w prov \<Rightarrow> prov_session \<times> 'w prov" where
  \<comment> \<open>the dictionary of the configuration is changed in place, so that the row keeps the old one unless there was none\<close>
  "remember_version v obj s =
     (let f = (\<lambda>p. p\<lparr>ps_configuration := dict_set ''routeros_version'' (JText v) (ps_configuration obj)\<rparr>)
      in if v = [] then (obj, s) else if ps_configuration obj = [] then assign f obj s else (f obj, s))"

definition connection_body :: "'w environment \<Rightarrow> datetime \<Rightarrow> prov_session \<Rightarrow> int \<Rightarrow> 'w prov \<Rightarrow> 'w step_result" where
  "connection_body e now obj i s =
     (case get_router_by_id (ps_router_id obj) (pdb s) of
        Inl x \<Rightarrow> (Inl x, obj, s)
      | Inr r \<Rightarrow>
          let s1 = update_step_progress i 25 ''Testing connection...'' s
          in case r of
               None \<Rightarrow> (Inl (no_attribute ''NoneType'' ''ip_address''), obj, s1)
             | Some rt \<Rightarrow>
                 (case on_dev (connect_router (env_lib e) now rt) s1 of
                    (Inl x, s2) \<Rightarrow> (Inl x, obj, s2)
                  | (Inr c, s2) \<Rightarrow>
                      let (info, s3) = on_dev (get_system_info (env_lib e) now c) (update_step_progress i 50 ''Gathering system information...'' s2)
                      in case info of
                           None \<Rightarrow> (Inl (Exn ''RouterConnectionError'' ''Failed to retrieve system information''), obj, s3)
                         | Some [] \<Rightarrow> (Inl (Exn ''RouterConnectionError'' ''Failed to retrieve system information''), obj, s3)
                         | Some facts \<Rightarrow>
                             let (obj1, s4) = remember_version (dict_get_or facts ''version'' []) obj s3;
                                 s5 = on_pdb (upd_step i (\<lambda>l. l\<lparr>sl_progress := 100,
                                        sl_output_data := Some \<lparr>so_operation = Some ''Validating compatibility...'', so_system_info = Some facts\<rparr>\<rparr>)) s4
                             in case validate_router_compatibility facts of
                                  Inl x \<Rightarrow> (Inl x, obj1, s5)
                                | Inr _ \<Rightarrow>
                                    let (obj2, s6) = assign (\<lambda>p. p\<lparr>ps_current_step := StepConfiguration, ps_progress := 333 / 10\<rparr>) obj1 (finish_step now i s5)
                                    in (Inr (), obj2, s6)))"

fun run_commands ::
    "'w environment \<Rightarrow> datetime \<Rightarrow> prov_session \<Rightarrow> router \<Rightarrow> int \<Rightarrow> string \<Rightarrow> string \<Rightarrow> nat \<Rightarrow> nat \<Rightarrow> command_data list \<Rightarrow> connection \<Rightarrow> 'w prov
     \<Rightarrow> (exn + connection) \<times> 'w prov" where
  "run_commands e now obj rt i verb failure n k [] c s = (Inr c, s)"
| "run_commands e now obj rt i verb failure n k (cd # cds) c s =
     (let s1 = update_step_progress i (10 + 80 * of_nat (k + 1) / of_nat n)
                 (verb @ '' '' @ str_nat (k + 1) @ ''/'' @ str_nat n @ '': '' @ cd_description cd) s;
          ((success, c'), s2) = execute_command_with_retry e now obj rt c cd s1
      in if \<not> success \<and> cd_critical cd then (Inl (Exn ''ConfigurationError'' (failure @ cd_description cd)), s2)
         else run_commands e now obj rt i verb failure n (k + 1) cds c' s2)"

definition known_version :: "config \<Rightarrow> router \<Rightarrow> jval" where
  "known_version config rt = jor (cfg config ''routeros_version'' JNull) (case rt_routeros_version rt of None \<Rightarrow> JNull | Some v \<Rightarrow> JText v)"

definition configuration_body :: "'w environment \<Rightarrow> datetime \<Rightarrow> prov_session \<Rightarrow> int \<Rightarrow> 'w prov \<Rightarrow> 'w step_result" where
  "configuration_body e now obj i s =
     (case loaded_router (ps_router_id obj) (pdb s) of
        Inl x \<Rightarrow> (Inl x, obj, s)
      | Inr rt \<Rightarrow>
          (case on_dev (connect_router (env_lib e) now rt) s of
             (Inl x, s1) \<Rightarrow> (Inl x, obj, s1)
           | (Inr c, s1) \<Rightarrow>
               let config = ps_configuration obj;
                   s2 = update_step_progress i 5 ''Cleaning up existing configuration...'' s1;
                   s3 = s2\<lparr>dev := cleanup_existing_provisioning e now c (dev s2)\<rparr>;
                   s4 = on_pdb backup_router_configuration (update_step_progress i 10 ''Creating configuration backup...'' s3)
               in case generate_configuration_commands config (known_version config rt) of
                    Inl x \<Rightarrow> (Inl x, obj, s4)
                  | Inr cmds \<Rightarrow>
                      (case run_commands e now obj rt i ''Executing command'' ''Critical command failed: '' (length cmds) 0 cmds c s4 of
                         (Inl x, s5) \<Rightarrow> (Inl x, obj, s5)
                       | (Inr c', s5) \<Rightarrow>
                           let s6 = update_step_progress i 95 ''Verifying configuration...'' s5
                           in case verify_basic_configuration config of
                                Inl x \<Rightarrow> (Inl x, obj, s6)
                              | Inr _ \<Rightarrow>
                                  let s7 = finish_step now i (update_step_progress i 100 ''Configuration completed'' s6);
                                      (obj1, s8) = assign (\<lambda>p. p\<lparr>ps_current_step := StepServiceSetup, ps_progress := 666 / 10\<rparr>) obj s7
                                  in (Inr (), obj1, s8))))"

definition service_commands :: "portal_settings \<Rightarrow> ServiceType \<Rightarrow> config \<Rightarrow> exn + command_data list" where
  "service_commands st t config =
     (case t of
        SvcHotspot \<Rightarrow> generate_hotspot_commands st config
      | SvcPppoe \<Rightarrow> generate_pppoe_commands config
      | _ \<Rightarrow> bind_exn (generate_hotspot_commands st config) (\<lambda>h. bind_exn (generate_pppoe_commands config) (\<lambda>p. Inr (h @ p))))"

definition upload_templates :: "'w environment \<Rightarrow> datetime \<Rightarrow> router \<Rightarrow> connection \<Rightarrow> config \<Rightarrow> 'w client \<Rightarrow> 'w client" where
  "upload_templates e now rt c config s =
     (let (r, w) = env_upload e rt config (cl_world s); s1 = s\<lparr>cl_world := w\<rparr>
      in case r of
           Inl x \<Rightarrow> s1
         | Inr _ \<Rightarrow>
             snd (execute_command (env_lib e) now c
               (''/ip/hotspot/profile/set '' @ py_str (cfg config ''hotspot_profile'' (JText ''codevertex-hsprof'')) @ '' html-directory=hotspot'') None [] s1))"

definition service_body :: "'w environment \<Rightarrow> datetime \<Rightarrow> prov_session \<Rightarrow> int \<Rightarrow> 'w prov \<Rightarrow> 'w step_result" where
  "service_body e now obj i s =
     (case loaded_router (ps_router_id obj) (pdb s) of
        Inl x \<Rightarrow> (Inl x, obj, s)
      | Inr rt \<Rightarrow>
          (case on_dev (connect_router (env_lib e) now rt) s of
             (Inl x, s1) \<Rightarrow> (Inl x, obj, s1)
           | (Inr c, s1) \<Rightarrow>
               let config = ps_configuration obj; t = ps_service_type obj
               in case service_commands (portal (env_settings e)) t config of
                    Inl x \<Rightarrow> (Inl x, obj, s1)
                  | Inr cmds \<Rightarrow>
                      (case run_commands e now obj rt i ''Configuring service'' ''Service configuration failed: '' (length cmds) 0 cmds c s1 of
                         (Inl x, s2) \<Rightarrow> (Inl x, obj, s2)
                       | (Inr c', s2) \<Rightarrow>
                           let s3 = (if t = SvcHotspot \<or> t = SvcBoth
                                     then (let u = update_step_progress i 90 ''Uploading hotspot templates...'' s2
                                           in u\<lparr>dev := upload_templates e now rt c' config (dev u)\<rparr>)
                                     else s2);
                               s4 = update_step_progress i 93 ''Applying security configurations...'' s3;
                               s5 = s4\<lparr>dev := apply_security_configuration e now c' config (dev s4)\<rparr>;
                               (v, s6) = on_dev (verify_service_configuration e now c' t config) (update_step_progress i 95 ''Performing final verification...'' s5)
                           in case v of
                                Inl x \<Rightarrow> (Inl x, obj, s6)
                              | Inr _ \<Rightarrow>
                                  let s7 = finish_step now i (update_step_progress i 100 ''Service setup completed'' s6);
                                      (obj1, s8) = assign (\<lambda>p. p\<lparr>ps_progress := 100\<rparr>) obj s7
                                  in (Inr (), obj1, s8))))"

text \<open>
  A step: its log is looked up outside of the handler, everything else inside of it. The body is
  \<open>_execute_connection_step\<close>, \<open>_execute_configuration_step\<close> or \<open>_execute_service_setup_step\<close>.
\<close>

definition execute_step ::
    "'w environment \<Rightarrow> datetime \<Rightarrow> ProvisioningStep \<Rightarrow> (prov_session \<Rightarrow> int \<Rightarrow> 'w prov \<Rightarrow> 'w step_result) \<Rightarrow> prov_session \<Rightarrow> 'w prov
     \<Rightarrow> 'w step_result" where
  "execute_step e now st body obj s =
     (case get_step_log (ps_id obj) st (pdb s) of
        Inl x \<Rightarrow> (Inl x, obj, s)
      | Inr l \<Rightarrow>
          let s1 = on_pdb (upd_step (sl_id l) (\<lambda>r. r\<lparr>sl_status := PvInProgress, sl_started_at := Some now\<rparr>)) s
          in case body obj (sl_id l) s1 of
               (Inr _, obj1, s2) \<Rightarrow> (Inr (), obj1, s2)
             | (Inl x, obj1, s2) \<Rightarrow> let (obj2, s3) = handle_step_error e now obj1 l (exn_msg x) s2 in (Inr (), obj2, s3))"

definition execute_connection_step :: "'w environment \<Rightarrow> datetime \<Rightarrow> prov_session \<Rightarrow> 'w prov \<Rightarrow> 'w step_result" where
  "execute_connection_step e now = execute_step e now StepConnection (connection_body e now)"

definition execute_configuration_step :: "'w environment \<Rightarrow> datetime \<Rightarrow> prov_session \<Rightarrow> 'w prov \<Rightarrow> 'w step_result" where
  "execute_configuration_step e now = execute_step e now StepConfiguration (configuration_body e now)"

definition execute_service_setup_step :: "'w environment \<Rightarrow> datetime \<Rightarrow> prov_session \<Rightarrow> 'w prov \<Rightarrow> 'w step_result" where
  "execute_service_setup_step e now = execute_step e now StepServiceSetup (service_body e now)"

section \<open>The workflow\<close>

definition mark_provisioning_complete :: "'w environment \<Rightarrow> datetime \<Rightarrow> int \<Rightarrow> string \<Rightarrow> db \<Rightarrow> exn + db" where
  "mark_provisioning_complete e now rid service_type d =
     (case tbl_get rt_id rid (routers d) of
        None \<Rightarrow> Inl (ValueError (''Router '' @ str_int rid @ '' not found''))
      | Some _ \<Rightarrow>
          Inr (d\<lparr>routers := tbl_upd rt_id rid (\<lambda>r. r\<lparr>rt_provisioning_status := ''provisioned'', rt_bootstrap_completed := True,
                 rt_last_provisioned_at := Some now,
                 rt_config := (if service_type = [] then rt_config r else Some (env_merge e (rt_config r) service_type now))\<rparr>) (routers d)\<rparr>))"

definition mark_router :: "'w environment \<Rightarrow> datetime \<Rightarrow> int \<Rightarrow> ServiceType \<Rightarrow> prov_db \<Rightarrow> prov_db" where
  "mark_router e now rid t d =
     (case mark_provisioning_complete e now rid (service_value t) (pv_base d) of Inl x \<Rightarrow> d | Inr b \<Rightarrow> d\<lparr>pv_base := b\<rparr>)"

definition complete_workflow :: "'w environment \<Rightarrow> datetime \<Rightarrow> prov_session \<Rightarrow> 'w prov \<Rightarrow> prov_session \<times> 'w prov" where
  "complete_workflow e now obj s =
     (if ps_status obj = PvInProgress
      then (let (obj1, s1) = assign (\<lambda>p. p\<lparr>ps_status := PvCompleted, ps_success := True, ps_completed_at := Some now, ps_progress := 100\<rparr>) obj s
            in (obj1, on_pdb (mark_router e now (ps_router_id obj1) (ps_service_type obj1)) s1))
      else (obj, s))"

definition and_step ::
    "'w environment \<Rightarrow> datetime \<Rightarrow> 'w step_result \<Rightarrow> (prov_session \<Rightarrow> 'w prov \<Rightarrow> prov_session \<times> 'w prov) \<Rightarrow> prov_session \<times> 'w prov" where
  \<comment> \<open>an exception that escapes a step ends in \<open>_handle_provisioning_error\<close>, a failed session ends the workflow\<close>
  "and_step e now m f =
     (case m of
        (Inl x, obj, s) \<Rightarrow> handle_provisioning_error e now obj (exn_msg x) s
      | (Inr _, obj, s) \<Rightarrow> if ps_status obj = PvFailed then (obj, s) else f obj s)"

definition execute_provisioning_workflow :: "'w environment \<Rightarrow> datetime \<Rightarrow> prov_session \<Rightarrow> 'w prov \<Rightarrow> prov_session \<times> 'w prov" where
  "execute_provisioning_workflow e now obj s =
     and_step e now (execute_connection_step e now obj s) (\<lambda>obj1 s1.
       and_step e now (execute_configuration_step e now obj1 s1) (\<lambda>obj2 s2.
         and_step e now (execute_service_setup_step e now obj2 s2) (complete_workflow e now)))"

section \<open>Starting a session\<close>

definition script_url :: "'w environment \<Rightarrow> prov_session \<Rightarrow> string" where
  "script_url e p =
     rstrip_char (CHR ''/'') (or_str (backend_url (env_settings e)) []) @ ''/api/v1/provisioning/provision-script/'' @ ps_session_id p @
     ''?token='' @ env_token e (ps_user_id p)"

definition agent_ready :: "router \<Rightarrow> bool" where
  "agent_ready rt \<longleftrightarrow> rt_agent_installed rt \<and> truthy (rt_agent_token rt)"

definition queue_script :: "'w environment \<Rightarrow> datetime \<Rightarrow> router \<Rightarrow> prov_session \<Rightarrow> db \<Rightarrow> db" where
  "queue_script e now rt p b =
     cur (snd (queue_command (env_uuid e) now (rt_id rt) ''fetch_import'' [(''url'', script_url e p)] 1 (Some ''provisioning'')
       (Some (ps_session_id p)) None \<lparr>cur = b, saved = b\<rparr>))"

definition consume_checkin :: "router \<Rightarrow> (string \<times> string option) list \<Rightarrow> (string \<times> string option) list option" where
  \<comment> \<open>the check-in of the router's address, else the first one that carries the router's name\<close>
  "consume_checkin rt cs =
     (if map_of cs (rt_ip_address rt) \<noteq> None then Some (dict_del (rt_ip_address rt) cs)
      else case find (\<lambda>(ip, ident). truthy ident \<and> ident = Some (rt_name rt)) cs of
             None \<Rightarrow> None
           | Some (ip, _) \<Rightarrow> Some (dict_del ip cs))"

text \<open>
  The answer, and the object with which the workflow is started in the background, if it is. The three
  ways around it are tried in handlers that swallow every exception: a router that cannot be loaded
  leads to the workflow.
\<close>

definition start_provisioning ::
    "'w environment \<Rightarrow> datetime \<Rightarrow> string \<Rightarrow> 'w prov \<Rightarrow> bool \<times> prov_session option \<times> 'w prov" where
  "start_provisioning e now sid s =
     (case get_session_by_id sid (pdb s) of
        None \<Rightarrow> (False, None, s)
      | Some p \<Rightarrow>
          if ps_status p \<noteq> PvPending then (False, None, s)
          else
            let (obj, s1) = assign (\<lambda>p. p\<lparr>ps_status := PvInProgress, ps_started_at := Some now, ps_current_step := StepConnection\<rparr>) p s
            in case get_router_by_id (ps_router_id obj) (pdb s1) of
                 Inr (Some rt) \<Rightarrow>
                   if agent_ready rt then (True, None, on_pdb (\<lambda>d. d\<lparr>pv_base := queue_script e now rt obj (pv_base d)\<rparr>) s1)
                   else (case consume_checkin rt (checkins s1) of
                           Some cs \<Rightarrow>
                             (True, None, snd (assign (\<lambda>p. p\<lparr>ps_status := PvCompleted, ps_success := True, ps_completed_at := Some now,
                                ps_progress := 100\<rparr>) obj (s1\<lparr>checkins := cs\<rparr>)))
                         | None \<Rightarrow>
                             if env_private e (rt_ip_address rt)
                             then (False, None, snd (assign (\<lambda>p. p\<lparr>ps_status := PvFailed, ps_success := False, ps_completed_at := Some now,
                                ps_error_message := Some (''Router '' @ rt_ip_address rt @ '' is on a private network (NAT) and the management agent is not installed yet, so the platform cannot reach it directly. Re-run the bootstrap command on the router to install the agent, then start provisioning again.'')\<rparr>) obj s1))
                             else (True, Some obj, s1))
               | _ \<Rightarrow> (True, Some obj, s1))"

definition start_and_run :: "'w environment \<Rightarrow> datetime \<Rightarrow> string \<Rightarrow> 'w prov \<Rightarrow> bool \<times> 'w prov" where
  \<comment> \<open>with the background task run to its end\<close>
  "start_and_run e now sid s =
     (case start_provisioning e now sid s of
        (ok, None, s1) \<Rightarrow> (ok, s1)
      | (ok, Some obj, s1) \<Rightarrow> (ok, snd (execute_provisioning_workflow e now obj s1)))"

section \<open>Changing sessions\<close>

definition cancel_provisioning :: "'w environment \<Rightarrow> datetime \<Rightarrow> string \<Rightarrow> string option \<Rightarrow> bool \<Rightarrow> 'w prov \<Rightarrow> bool \<times> 'w prov" where
  "cancel_provisioning e now sid reason force s =
     (case get_session_by_id sid (pdb s) of
        None \<Rightarrow> (False, s)
      | Some p \<Rightarrow>
          if \<not> active (ps_status p) then (False, s)
          else
            let msg = (if truthy reason then ''Cancelled by user: '' @ the reason else ''Cancelled by user'');
                (obj, s1) = assign (\<lambda>p. p\<lparr>ps_status := PvCancelled, ps_error_message := Some msg, ps_completed_at := Some now\<rparr>) p s;
                s2 = on_pdb (\<lambda>d. d\<lparr>pv_steps := upd_where (\<lambda>l. sl_session_id l = ps_id p \<and> sl_status l = PvPending) (\<lambda>l. l\<lparr>sl_status := PvCancelled\<rparr>) (pv_steps d)\<rparr>) s1
            in (True, if force \<or> jtrue (cfg (ps_configuration obj) ''rollback_on_cancel'' (JBool True)) then execute_service_rollback e now obj s2 else s2))"

definition update_session :: "string \<Rightarrow> (prov_session \<Rightarrow> prov_session) \<Rightarrow> prov_db \<Rightarrow> prov_session option \<times> prov_db" where
  \<comment> \<open>\<open>f\<close> sets the attributes of the given dictionary\<close>
  "update_session sid f d =
     (case get_session_by_id sid d of None \<Rightarrow> (None, d) | Some p \<Rightarrow> (Some (f p), upd_session (ps_id p) f d))"

definition drop_session :: "prov_session \<Rightarrow> prov_db \<Rightarrow> prov_db" where
  \<comment> \<open>steps and commands go with the session, configurations lose their reference to it\<close>
  "drop_session p d =
     d\<lparr>pv_sessions := filter (\<lambda>q. ps_id q \<noteq> ps_id p) (pv_sessions d),
       pv_steps := filter (\<lambda>l. sl_session_id l \<noteq> ps_id p) (pv_steps d),
       pv_commands := filter (\<lambda>c. pc_session_id c \<noteq> ps_id p) (pv_commands d),
       pv_configurations := upd_where (\<lambda>r. rc_session_id r = Some (ps_id p)) (\<lambda>r. r\<lparr>rc_session_id := None\<rparr>) (pv_configurations d)\<rparr>"

definition delete_session :: "string \<Rightarrow> prov_db \<Rightarrow> bool \<times> prov_db" where
  "delete_session sid d =
     (case get_session_by_id sid d of
        None \<Rightarrow> (False, d)
      | Some p \<Rightarrow> if active (ps_status p) then (False, d) else (True, drop_session p d))"

fun step_order :: "ProvisioningStep \<Rightarrow> int" where
  "step_order StepConnection = 1"
| "step_order StepConfiguration = 2"
| "step_order StepServiceSetup = 3"

definition reset_step :: "step_log \<Rightarrow> step_log" where
  "reset_step l =
     l\<lparr>sl_status := PvPending, sl_progress := 0, sl_sub_steps_completed := 0, sl_started_at := None, sl_completed_at := None,
       sl_duration := None, sl_output_data := None, sl_error_details := None, sl_retry_count := 0\<rparr>"

definition retry_provisioning ::
    "'w environment \<Rightarrow> datetime \<Rightarrow> string \<Rightarrow> ProvisioningStep option \<Rightarrow> bool \<Rightarrow> config \<Rightarrow> 'w prov \<Rightarrow> bool \<times> prov_session option \<times> 'w prov" where
  "retry_provisioning e now sid from_step reset_configuration updated s =
     (case get_session_by_id sid (pdb s) of
        None \<Rightarrow> (False, None, s)
      | Some p \<Rightarrow>
          if ps_status p \<noteq> PvFailed then (False, None, s)
          else
            let start_step = (case from_step of None \<Rightarrow> StepConnection | Some st \<Rightarrow> st);
                c = (if updated = [] then ps_configuration p else if reset_configuration then updated else merge_config (ps_configuration p) updated);
                f = (\<lambda>q. q\<lparr>ps_status := PvPending, ps_error_message := None, ps_success := False, ps_rollback_required := False,
                       ps_rollback_completed := False, ps_configuration := c, ps_current_step := start_step,
                       ps_progress := of_int (step_order start_step - 1) * (333 / 10)\<rparr>);
                s1 = on_pdb (\<lambda>d. (upd_session (ps_id p) f d)\<lparr>pv_steps :=
                       upd_where (\<lambda>l. sl_session_id l = ps_id p \<and> sl_step_order l \<ge> step_order start_step) reset_step (pv_steps d)\<rparr>) s
            in start_provisioning e now sid s1)"

section \<open>Reading sessions\<close>

definition get_session_steps :: "string \<Rightarrow> prov_db \<Rightarrow> step_log list option" where
  "get_session_steps sid d =
     map_option (\<lambda>p. order_by sl_step_order (steps_of (ps_id p) d)) (get_session_by_id sid d)"

definition get_session_commands :: "string \<Rightarrow> prov_db \<Rightarrow> prov_command list option" where
  "get_session_commands sid d =
     map_option (\<lambda>p. order_by pc_execution_order (filter (\<lambda>c. pc_session_id c = ps_id p) (pv_commands d))) (get_session_by_id sid d)"

text \<open>The module uses \<open>func\<close> without importing it: the listings with a total and the statistics raise.\<close>

definition func_undefined :: exn where
  "func_undefined = Exn ''NameError'' (''name '' @ quote_str ''func'' @ '' is not defined'')"

definition get_sessions :: "PaginationParams \<Rightarrow> (prov_session \<Rightarrow> bool) \<Rightarrow> prov_db \<Rightarrow> exn + prov_session listing" where
  "get_sessions pp flt d = Inl func_undefined"

definition get_templates :: "PaginationParams \<Rightarrow> (prov_template \<Rightarrow> bool) \<Rightarrow> prov_db \<Rightarrow> exn + prov_template listing" where
  "get_templates pp flt d = Inl func_undefined"

definition get_provisioning_stats :: "datetime \<Rightarrow> int \<Rightarrow> prov_db \<Rightarrow> exn + (ProvisioningStatus \<times> nat) list" where
  "get_provisioning_stats now ds d = Inl func_undefined"

record provisioning_session_status =
  ss_session_id :: string
  ss_status :: string
  ss_current_step :: string
  ss_progress :: rat
  ss_steps_completed :: nat
  ss_steps_total :: nat
  ss_estimated_remaining :: "int option"
  ss_current_operation :: "string option"
  ss_error_message :: "string option"
  ss_can_cancel :: bool
  ss_can_retry :: bool
  ss_steps :: "(string \<times> string \<times> rat \<times> string option) list" \<comment> \<open>step, status, progress, error\<close>

definition build_session_status :: "datetime \<Rightarrow> prov_session \<Rightarrow> prov_db \<Rightarrow> provisioning_session_status" where
  "build_session_status now p d =
     (let steps = order_by sl_step_order (steps_of (ps_id p) d);
          completed = length (filter (\<lambda>l. sl_status l = PvCompleted) steps);
          remaining = (case ps_started_at p of
              Some t \<Rightarrow>
                if ps_status p = PvInProgress \<and> completed > 0
                then (let elapsed = fl (fl (of_int (now - t) / 1000000) / 60); avg = fl (elapsed / of_nat completed)
                      in Some (py_trunc (fl (avg * of_nat (length steps - completed)))))
                else None
            | None \<Rightarrow> None)
      in \<lparr>ss_session_id = ps_session_id p, ss_status = provisioning_status_value (ps_status p), ss_current_step = step_value (ps_current_step p),
          ss_progress = ps_progress p, ss_steps_completed = completed, ss_steps_total = length steps, ss_estimated_remaining = remaining,
          ss_current_operation =
            (case find (\<lambda>l. sl_status l = PvInProgress \<and> sl_output_data l \<noteq> None) steps of
               None \<Rightarrow> None | Some l \<Rightarrow> so_operation (the (sl_output_data l))),
          ss_error_message = ps_error_message p, ss_can_cancel = active (ps_status p), ss_can_retry = (ps_status p = PvFailed),
          ss_steps = map (\<lambda>l. (step_value (sl_step l), provisioning_status_value (sl_status l), sl_progress l, sl_error_details l)) steps\<rparr>)"

definition get_provisioning_status :: "datetime \<Rightarrow> string \<Rightarrow> prov_db \<Rightarrow> provisioning_session_status option" where
  "get_provisioning_status now sid d = map_option (\<lambda>p. build_session_status now p d) (get_session_by_id sid d)"

section \<open>Templates and stored configurations\<close>

text \<open>\<open>uq_template_name_version\<close>: no two templates have the same name and version.\<close>

definition template_clash :: "prov_template \<Rightarrow> prov_db \<Rightarrow> bool" where
  "template_clash t d \<longleftrightarrow> (\<exists>x \<in> set (pv_templates d). pt_id x \<noteq> pt_id t \<and> pt_name x = pt_name t \<and> pt_version x = pt_version t)"

definition insert_template :: "prov_template \<Rightarrow> prov_db \<Rightarrow> (exn + prov_template) \<times> prov_db" where
  "insert_template t d =
     (let row = t\<lparr>pt_id := pv_template_seq d, pt_usage_count := 0, pt_success_rate := 0\<rparr>;
          d1 = d\<lparr>pv_template_seq := pv_template_seq d + 1\<rparr>
      in if template_clash row d then (Inl (IntegrityError ''uq_template_name_version''), d1)
         else (Inr row, d1\<lparr>pv_templates := pv_templates d @ [row]\<rparr>))"

definition create_template :: "datetime \<Rightarrow> prov_template \<Rightarrow> int \<Rightarrow> prov_db \<Rightarrow> (exn + prov_template) \<times> prov_db" where
  "create_template now t created_by d = insert_template (t\<lparr>pt_created_by := created_by, pt_created_at := now\<rparr>) d"

definition update_template :: "int \<Rightarrow> (prov_template \<Rightarrow> prov_template) \<Rightarrow> prov_db \<Rightarrow> (exn + prov_template option) \<times> prov_db" where
  \<comment> \<open>\<open>f\<close> sets the attributes of the given dictionary\<close>
  "update_template i f d =
     (case get_template i d of
        None \<Rightarrow> (Inr None, d)
      | Some t \<Rightarrow>
          if template_clash (f t) d then (Inl (IntegrityError ''uq_template_name_version''), d)
          else (Inr (Some (f t)), d\<lparr>pv_templates := tbl_upd pt_id i f (pv_templates d)\<rparr>))"

definition delete_template :: "int \<Rightarrow> prov_db \<Rightarrow> bool \<times> prov_db" where
  "delete_template i d =
     (case get_template i d of None \<Rightarrow> (False, d) | Some _ \<Rightarrow> (True, d\<lparr>pv_templates := filter (\<lambda>t. pt_id t \<noteq> i) (pv_templates d)\<rparr>))"

definition duplicate_template :: "datetime \<Rightarrow> int \<Rightarrow> string \<Rightarrow> int \<Rightarrow> prov_db \<Rightarrow> (exn + prov_template option) \<times> prov_db" where
  "duplicate_template now i name created_by d =
     (case get_template i d of
        None \<Rightarrow> (Inr None, d)
      | Some t \<Rightarrow>
          (case insert_template (t\<lparr>pt_name := name, pt_version := ''1.0'', pt_is_active := True, pt_is_default := False, pt_created_by := created_by,
                 pt_created_at := now,
                 pt_description := (if truthy (pt_description t) then Some (''Copy of '' @ the (pt_description t)) else None)\<rparr>) d of
             (Inl x, d1) \<Rightarrow> (Inl x, d1)
           | (Inr r, d1) \<Rightarrow> (Inr (Some r), d1)))"

definition get_router_configurations :: "int \<Rightarrow> string option \<Rightarrow> bool option \<Rightarrow> prov_db \<Rightarrow> router_configuration list" where
  "get_router_configurations rid ty act d =
     rev (order_by rc_created_at (filter (\<lambda>r. rc_router_id r = rid \<and> (truthy ty \<longrightarrow> Some (rc_configuration_type r) = ty)
       \<and> (act \<noteq> None \<longrightarrow> Some (rc_is_active r) = act)) (pv_configurations d)))"

definition create_router_configuration ::
    "(jval \<Rightarrow> string) \<Rightarrow> datetime \<Rightarrow> router_configuration \<Rightarrow> int \<Rightarrow> prov_db \<Rightarrow> router_configuration \<times> prov_db" where
  \<comment> \<open>\<open>digest\<close> is the SHA-256 of the rendered JSON\<close>
  "create_router_configuration digest now r applied_by d =
     (let row = r\<lparr>rc_id := pv_configuration_seq d, rc_is_active := True, rc_rollback_available := False, rc_applied_by := Some applied_by,
            rc_checksum := Some (digest (rc_configuration_data r)), rc_created_at := now\<rparr>
      in (row, d\<lparr>pv_configurations := pv_configurations d @ [row], pv_configuration_seq := pv_configuration_seq d + 1\<rparr>))"

definition restore_router_configuration :: "int \<Rightarrow> int \<Rightarrow> int \<Rightarrow> prov_db \<Rightarrow> bool \<times> prov_db" where
  "restore_router_configuration rid cid uid d = (True, d)"

section \<open>Scheduled tasks\<close>

text \<open>
  \<open>src/app/tasks/provisioning_tasks.py\<close>. A task that others start is an entry of the returned list. The
  Celery task that starts a session runs an event loop that ends with it: the workflow it spawned is
  cancelled at once, and \<open>CancelledError\<close> passes every handler of the workflow.
\<close>

definition execute_workflow_task :: "'w environment \<Rightarrow> datetime \<Rightarrow> string \<Rightarrow> 'w prov \<Rightarrow> bool \<times> 'w prov" where
  "execute_workflow_task e now sid s =
     (let failed = (\<lambda>msg t. (False, on_pdb (\<lambda>d. snd (update_session sid (\<lambda>p. p\<lparr>ps_status := PvFailed, ps_error_message := Some msg,
                       ps_completed_at := Some now\<rparr>) d)) t))
      in case get_session_by_id sid (pdb s) of
           None \<Rightarrow> failed (''Provisioning session '' @ sid @ '' not found'') s
         | Some p \<Rightarrow>
             if ps_status p \<noteq> PvPending then failed (''Session '' @ sid @ '' is not in pending status'') s
             else (case start_provisioning e now sid s of
                     (True, _, s1) \<Rightarrow> (True, s1)
                   | (False, _, s1) \<Rightarrow> failed (''Failed to start provisioning for session '' @ sid) s1))"

datatype prov_task = RollbackTask string | WorkflowTask string

fun prio_rank :: "ProvisioningPriority \<Rightarrow> int" where
  "prio_rank PrioLow = 0"
| "prio_rank PrioNormal = 1"
| "prio_rank PrioHigh = 2"
| "prio_rank PrioUrgent = 3"

definition timed_out :: "datetime \<Rightarrow> prov_session \<Rightarrow> bool" where
  "timed_out now p \<longleftrightarrow> ps_status p = PvInProgress \<and> (case ps_timeout_at p of None \<Rightarrow> False | Some t \<Rightarrow> t < now)"

definition due :: "datetime \<Rightarrow> prov_session \<Rightarrow> bool" where
  "due now p \<longleftrightarrow> ps_status p = PvPending \<and> (case ps_scheduled_at p of None \<Rightarrow> False | Some t \<Rightarrow> t \<le> now)"

definition time_out :: "datetime \<Rightarrow> prov_session \<Rightarrow> prov_session" where
  "time_out now p =
     (let q = p\<lparr>ps_status := PvTimeout, ps_error_message := Some ''Provisioning session timed out'', ps_completed_at := Some now\<rparr>
      in if jtrue (cfg (ps_configuration p) ''rollback_on_timeout'' (JBool True)) then q\<lparr>ps_rollback_required := True\<rparr> else q)"

definition monitor_provisioning_sessions :: "datetime \<Rightarrow> prov_db \<Rightarrow> prov_task list \<times> prov_db" where
  "monitor_provisioning_sessions now d =
     (let late = filter (timed_out now) (pv_sessions d);
          d1 = d\<lparr>pv_sessions := upd_where (timed_out now) (time_out now) (pv_sessions d)\<rparr>;
          urgent = take 5 (order_by (\<lambda>p. (- prio_rank (ps_priority p), ps_created_at p))
            (filter (\<lambda>p. due now p \<and> ps_priority p \<in> {PrioHigh, PrioUrgent}) (pv_sessions d1)))
      in (map (\<lambda>p. RollbackTask (ps_session_id p)) (filter (\<lambda>p. jtrue (cfg (ps_configuration p) ''rollback_on_timeout'' (JBool True))) late)
          @ map (\<lambda>p. WorkflowTask (ps_session_id p)) urgent, d1))"

definition rollback_task :: "'w environment \<Rightarrow> datetime \<Rightarrow> string \<Rightarrow> 'w prov \<Rightarrow> 'w prov" where
  "rollback_task e now sid s =
     (case get_session_by_id sid (pdb s) of
        None \<Rightarrow> s
      | Some p \<Rightarrow> if \<not> ps_rollback_required p \<or> ps_rollback_completed p then s else execute_service_rollback e now p s)"

definition cleanup_old_sessions :: "datetime \<Rightarrow> prov_db \<Rightarrow> nat \<times> prov_db" where
  "cleanup_old_sessions now d =
     (let old = filter (\<lambda>p. \<not> active (ps_status p) \<and> (case ps_completed_at p of None \<Rightarrow> False | Some t \<Rightarrow> t < now - days 30)) (pv_sessions d)
      in (length old, fold drop_session old d))"

definition process_scheduled_provisioning :: "datetime \<Rightarrow> prov_db \<Rightarrow> prov_task list" where
  "process_scheduled_provisioning now d =
     map (\<lambda>p. WorkflowTask (ps_session_id p))
       (take 10 (order_by (\<lambda>p. (- prio_rank (ps_priority p), the (ps_scheduled_at p))) (filter (due now) (pv_sessions d))))"

definition update_template_stats :: "prov_db \<Rightarrow> nat \<times> prov_db" where
  "update_template_stats d =
     (let used = (\<lambda>t. length (filter (\<lambda>p. ps_service_type p = pt_service_type t) (pv_sessions d)));
          good = (\<lambda>t. length (filter (\<lambda>p. ps_service_type p = pt_service_type t \<and> ps_status p = PvCompleted) (pv_sessions d)));
          rate = (\<lambda>t. if used t > 0 then of_int (py_round (fl (fl (of_nat (good t) / of_nat (used t)) * 100) * 100)) / 100 else 0)
      in (length (filter pt_is_active (pv_templates d)),
          d\<lparr>pv_templates := upd_where pt_is_active (\<lambda>t. t\<lparr>pt_usage_count := int (used t), pt_success_rate := rate t\<rparr>) (pv_templates d)\<rparr>))"

end
