(* ===== verification/Device_Safety.thy ===== *)
theory Device_Safety
  imports Device_Client
begin

text \<open>
  What the client for MikroTik devices guarantees: its circuit breaker is never opened by a failure, a
  retried \<open>set\<close> loses its item, the calls by a wrong keyword never reach a device, command texts are read
  as they are meant, and a status check closes the connection it opened.
\<close>

section \<open>The breaker\<close>

named_theorems breaker_simps \<open>operations of the client leave its breaker as it is\<close>

definition breaker_of :: "'w client \<Rightarrow> string \<times> int" where
  "breaker_of s = (cl_breaker s, cl_fail_counter s)"

lemma breaker_of_updates [breaker_simps]:
  "breaker_of (s\<lparr>cl_world := w\<rparr>) = breaker_of s" "breaker_of (s\<lparr>cl_connections := cs\<rparr>) = breaker_of s"
  "breaker_of (s\<lparr>cl_last_success := t\<rparr>) = breaker_of s" "breaker_of (s\<lparr>cl_last_failure := t\<rparr>) = breaker_of s"
  by (simp_all add: breaker_of_def)

lemma breaker_primitives [breaker_simps]:
  "breaker_of (snd (api lib c s)) = breaker_of s" "breaker_of (snd (call lib c path m ps s)) = breaker_of s"
  "breaker_of (hang_up lib c s) = breaker_of s"
  by (simp_all add: api_def call_def hang_up_def breaker_simps split: prod.split)

lemma breaker_andthen:
  "breaker_of (snd m) = v \<Longrightarrow> (\<And>a s. breaker_of s = v \<Longrightarrow> breaker_of (snd (f a s)) = v) \<Longrightarrow> breaker_of (snd (andthen m f)) = v"
  by (auto simp: andthen_def split: prod.splits sum.splits)

lemma breaker_catching: "breaker_of (snd (catching d m)) = breaker_of (snd m)"
  by (auto simp: catching_def split: prod.splits sum.splits)

text \<open>
  A view of the client that a single attempt keeps, and that does not read the times of the last failure
  and success, is kept by the retries.
\<close>

definition untimed :: "('w client \<Rightarrow> 'v) \<Rightarrow> bool" where
  "untimed v \<longleftrightarrow> (\<forall>s t. v (s\<lparr>cl_last_success := t\<rparr>) = v s \<and> v (s\<lparr>cl_last_failure := t\<rparr>) = v s)"

lemma circuit_keeps:
  assumes "untimed v" "\<And>p s. v (snd (snd (op p s))) = v s"
  shows "v (snd (snd (execute_with_circuit_breaker now op p s))) = v s"
  using assms(1) assms(2) [of p s]
  by (auto simp: execute_with_circuit_breaker_def untimed_def split: prod.splits sum.splits)

lemma attempts_keep:
  assumes "untimed v" and keep: "\<And>p s. v (snd (snd (op p s))) = v s"
  shows "v (snd (attempts n retry now op p s)) = v s"
proof (induction n arbitrary: p s rule: less_induct)
  case (less n)
  obtain r p' s' where x: "execute_with_circuit_breaker now op p s = (r, p', s')" by (metis surj_pair)
  have "v (snd (snd (execute_with_circuit_breaker now op p s))) = v s" by (rule circuit_keeps [OF assms(1)]) (rule keep)
  with x have b: "v s' = v s" by simp
  have "v (snd (attempts (n - 1) retry now op p' s')) = v s'" if "1 < n"
    by (rule less.IH) (use that in simp)
  with x b show ?case by (auto simp: attempts.simps [of n] split: sum.split)
qed

lemma resilience_keeps:
  assumes "untimed v" and keep: "\<And>p s. v (snd (snd (op p s))) = v s"
  shows "v (snd (execute_with_resilience now op p s)) = v s"
proof -
  have "v (snd (attempts (max_attempts mikrotik_retry) is_os_error now op p s)) = v s"
    by (rule attempts_keep [OF assms(1)]) (rule keep)
  then show ?thesis by (auto simp: execute_with_resilience_def split: prod.splits sum.splits)
qed

lemma resilient_keeps:
  assumes "untimed v" "\<And>s. v (snd (op s)) = v s"
  shows "v (snd (resilient now op s)) = v s"
  unfolding resilient_def
  by (rule resilience_keeps [OF assms(1)]) (simp add: plain_def Let_def case_prod_unfold assms(2))

lemma untimed_views: "untimed breaker_of" "untimed cl_connections"
  by (simp_all add: untimed_def breaker_simps)

lemmas breaker_resilience = resilience_keeps [OF untimed_views(1)]
lemmas breaker_resilient = resilient_keeps [OF untimed_views(1)]

lemma breaker_get_resource [breaker_simps]: "breaker_of (snd (get_resource lib c path m ps s)) = breaker_of s"
  unfolding get_resource_def by (rule breaker_andthen) (simp_all add: breaker_simps)

lemma breaker_sync_connect: "breaker_of (snd (sync_connect lib c s)) = breaker_of s"
proof -
  have "breaker_of (snd (andthen (api lib c s) (\<lambda>_ s1. call lib c ''/system/identity'' ''get'' [] s1))) = breaker_of s"
    by (rule breaker_andthen) (simp_all add: breaker_simps)
  then show ?thesis by (auto simp: sync_connect_def breaker_simps split: prod.splits sum.splits)
qed

lemma breaker_connect [breaker_simps]: "breaker_of (snd (connect lib now ip user pass port s)) = breaker_of s"
proof -
  have "breaker_of (snd (resilient now (sync_connect lib c) t)) = breaker_of t" for c t
    by (rule breaker_resilient) (rule breaker_sync_connect)
  then show ?thesis
    unfolding connect_def Let_def
    by (auto simp: breaker_simps split: prod.split sum.split option.split) (metis snd_conv breaker_simps)+
qed

lemma breaker_disconnect [breaker_simps]: "breaker_of (disconnect lib ip port s) = breaker_of s"
  by (simp add: disconnect_def Let_def breaker_simps split: option.split)

lemma breaker_disconnect_keys: "breaker_of (snd (disconnect_keys lib ks s)) = breaker_of s"
  by (induction lib ks s rule: disconnect_keys.induct) (auto simp: breaker_simps split: sum.split)

lemma breaker_rows [breaker_simps]: "breaker_of (snd (rows_or_none m)) = breaker_of (snd m)"
  by (simp add: rows_or_none_def breaker_catching)

lemma breaker_get [breaker_simps]: "breaker_of (snd (resilient now (get_resource lib c path m ps) s)) = breaker_of s"
  by (rule breaker_resilient) (simp add: breaker_simps)

lemma breaker_reads [breaker_simps]:
  "breaker_of (snd (get_interfaces lib now c s)) = breaker_of s" "breaker_of (snd (get_hotspot_users lib now c s)) = breaker_of s"
  "breaker_of (snd (get_pppoe_users lib now c s)) = breaker_of s" "breaker_of (snd (get_hotspot_servers lib now c s)) = breaker_of s"
  "breaker_of (snd (get_hotspot_profiles lib now c s)) = breaker_of s"
  by (simp_all add: get_interfaces_def get_hotspot_users_def get_pppoe_users_def get_hotspot_servers_def
      get_hotspot_profiles_def breaker_simps)

lemma breaker_system_info [breaker_simps]: "breaker_of (snd (get_system_info lib now c s)) = breaker_of s"
  using breaker_get [of now lib c "''/system/resource''" "''get''" "[]" s]
  by (auto simp: get_system_info_def split: prod.splits sum.splits list.splits)

lemma breaker_active [breaker_simps]: "breaker_of (snd (get_active_connections lib now c s)) = breaker_of s"
proof -
  have "breaker_of (snd (sync_active_connections lib c t)) = breaker_of t" for t
    unfolding sync_active_connections_def
    by (rule breaker_andthen) (simp_all add: Let_def case_prod_unfold breaker_simps)
  then show ?thesis by (simp add: get_active_connections_def breaker_simps breaker_resilient)
qed

lemma breaker_users [breaker_simps]:
  "breaker_of (snd (disable_user lib now c username t s)) = breaker_of s"
  "breaker_of (snd (create_hotspot_user lib now c username password profile kw s)) = breaker_of s"
  "breaker_of (snd (create_pppoe_user lib now c username password profile service kw s)) = breaker_of s"
proof -
  have "breaker_of (snd (sync_disable lib c username t s)) = breaker_of s" for s
    unfolding sync_disable_def
    by (rule breaker_andthen) (auto simp: breaker_simps split: list.split option.split intro!: breaker_andthen)
  then show "breaker_of (snd (disable_user lib now c username t s)) = breaker_of s"
    by (simp add: disable_user_def breaker_catching breaker_resilient)
  have add: "breaker_of (snd (resilient now (add_row lib c path ps) s)) = breaker_of s" for path ps
    by (rule breaker_resilient) (auto simp: add_row_def breaker_simps intro!: breaker_andthen)
  have wrap: "snd (wrap_error msg m) = snd m" for msg and m :: "(exn + bool) \<times> 'a client"
    by (auto simp: wrap_error_def split: prod.split sum.split)
  show "breaker_of (snd (create_hotspot_user lib now c username password profile kw s)) = breaker_of s"
    "breaker_of (snd (create_pppoe_user lib now c username password profile service kw s)) = breaker_of s"
    by (simp_all add: create_hotspot_user_def create_pppoe_user_def wrap add)
qed

lemma breaker_call_with [breaker_simps]: "breaker_of (snd (call_with lib c path m ps s)) = breaker_of s"
  by (auto simp: call_with_def breaker_simps split: sum.split)

lemma breaker_named [breaker_simps]:
  "breaker_of (snd (set_named lib c path ident ps s)) = breaker_of s"
  "breaker_of (snd (remove_named lib c path ident ps s)) = breaker_of s"
  unfolding set_named_def remove_named_def
  by (rule breaker_andthen; auto simp: breaker_simps split: option.split intro!: breaker_andthen)+

lemma breaker_sync_execute: "breaker_of (snd (snd (sync_execute lib c path m ps s))) = breaker_of s"
proof -
  obtain r s1 where a: "api lib c s = (r, s1)" by (metis surj_pair)
  with breaker_primitives(1) [of lib c s] have "breaker_of s1 = breaker_of s" by simp
  with a show ?thesis by (simp add: sync_execute_def Let_def case_prod_unfold breaker_simps split: sum.split)
qed

lemma breaker_execute_command [breaker_simps]:
  "breaker_of (snd (execute_command lib now c cmd m ps s)) = breaker_of s"
proof -
  have "breaker_of (snd (execute_with_resilience now (sync_execute lib c path k) qs s)) = breaker_of s" for path k qs
    by (rule breaker_resilience) (rule breaker_sync_execute)
  then show ?thesis
    by (auto simp: execute_command_def Let_def split: prod.split sum.split) (metis snd_conv)+
qed

lemma breaker_connect_router [breaker_simps]: "breaker_of (snd (connect_router lib now rt s)) = breaker_of s"
  by (simp add: connect_router_def breaker_simps)

lemma breaker_status [breaker_simps]: "breaker_of (snd (sync_router_status lib now rt s)) = breaker_of s"
proof -
  obtain r s1 where c: "connect lib now (rt_ip_address rt) (rt_username rt) (rt_password rt) (rt_port rt) s = (r, s1)"
    by (metis surj_pair)
  with breaker_connect [of lib now "rt_ip_address rt" "rt_username rt" "rt_password rt" "rt_port rt" s]
  have "breaker_of s1 = breaker_of s" by simp
  with c show ?thesis by (simp add: sync_router_status_def Let_def case_prod_unfold breaker_simps split: sum.split)
qed

lemma breaker_subscription_user [breaker_simps]:
  "breaker_of (snd (create_subscription_user lib now rt t username password s)) = breaker_of s"
  unfolding create_subscription_user_def breaker_catching
  by (rule breaker_andthen) (auto simp: breaker_simps split: SubscriptionType.split)

section \<open>Calls by keyword\<close>

text \<open>Everything that asks for a resource by the keyword \<open>resource_path\<close> stops at that call.\<close>

lemma keyword_calls:
  "delete_subscription_user lib now rt t username s = (False, snd (connect_router lib now rt s))"
  "sc_script_exists (fst (verify_bootstrap_script lib now rt expected s)) = False"
  "snd (verify_bootstrap_script lib now rt expected s) = snd (connect_router lib now rt s)"
  "snd (cleanup_provisioning lib now rt a b s) = snd (connect_router lib now rt s)"
  "\<not> cr_script_removed (fst (cleanup_provisioning lib now rt a b s))"
  "\<not> cr_configurations_removed (fst (cleanup_provisioning lib now rt a b s))"
proof -
  obtain r s1 where c: "connect_router lib now rt s = (r, s1)" by (metis surj_pair)
  note d = delete_subscription_user_def verify_bootstrap_script_def cleanup_provisioning_def remove_script_file_def
    execute_command_by_keyword_def no_script_def Let_def
  show "delete_subscription_user lib now rt t username s = (False, snd (connect_router lib now rt s))"
    "sc_script_exists (fst (verify_bootstrap_script lib now rt expected s)) = False"
    "snd (verify_bootstrap_script lib now rt expected s) = snd (connect_router lib now rt s)"
    "snd (cleanup_provisioning lib now rt a b s) = snd (connect_router lib now rt s)"
    "\<not> cr_script_removed (fst (cleanup_provisioning lib now rt a b s))"
    "\<not> cr_configurations_removed (fst (cleanup_provisioning lib now rt a b s))"
    by (cases r; simp add: c d)+
qed

section \<open>The client as a machine\<close>

datatype client_request =
  QConnect string string string int
| QDisconnect string int
| QDisconnectAll
| QSystemInfo connection
| QInterfaces connection
| QHotspotUsers connection
| QPppoeUsers connection
| QActive connection
| QServers connection
| QProfiles connection
| QDisable connection string string
| QCreateHotspot connection string string string params
| QCreatePppoe connection string string string string params
| QExecute connection string "string option" params
| QStatus router
| QCreateUser router SubscriptionType string string
| QDeleteUser router SubscriptionType string
| QVerifyScript router "string option"
| QCleanup router bool bool
| QReset

fun serve_client :: "'w routeros \<Rightarrow> datetime \<Rightarrow> client_request \<Rightarrow> 'w client \<Rightarrow> 'w client" where
  "serve_client lib now (QConnect ip user pass port) s = snd (connect lib now ip user pass port s)"
| "serve_client lib now (QDisconnect ip port) s = disconnect lib ip port s"
| "serve_client lib now QDisconnectAll s = snd (disconnect_all lib s)"
| "serve_client lib now (QSystemInfo c) s = snd (get_system_info lib now c s)"
| "serve_client lib now (QInterfaces c) s = snd (get_interfaces lib now c s)"
| "serve_client lib now (QHotspotUsers c) s = snd (get_hotspot_users lib now c s)"
| "serve_client lib now (QPppoeUsers c) s = snd (get_pppoe_users lib now c s)"
| "serve_client lib now (QActive c) s = snd (get_active_connections lib now c s)"
| "serve_client lib now (QServers c) s = snd (get_hotspot_servers lib now c s)"
| "serve_client lib now (QProfiles c) s = snd (get_hotspot_profiles lib now c s)"
| "serve_client lib now (QDisable c u t) s = snd (disable_user lib now c u t s)"
| "serve_client lib now (QCreateHotspot c u p pr kw) s = snd (create_hotspot_user lib now c u p pr kw s)"
| "serve_client lib now (QCreatePppoe c u p pr sv kw) s = snd (create_pppoe_user lib now c u p pr sv kw s)"
| "serve_client lib now (QExecute c cmd m ps) s = snd (execute_command lib now c cmd m ps s)"
| "serve_client lib now (QStatus rt) s = snd (sync_router_status lib now rt s)"
| "serve_client lib now (QCreateUser rt t u p) s = snd (create_subscription_user lib now rt t u p s)"
| "serve_client lib now (QDeleteUser rt t u) s = snd (delete_subscription_user lib now rt t u s)"
| "serve_client lib now (QVerifyScript rt e) s = snd (verify_bootstrap_script lib now rt e s)"
| "serve_client lib now (QCleanup rt a b) s = snd (cleanup_provisioning lib now rt a b s)"
| "serve_client lib now QReset s = reset_circuit s"

lemma breaker_serve: "breaker_of s = (''closed'', 0) \<Longrightarrow> breaker_of (serve_client lib now q s) = (''closed'', 0)"
  by (cases q) (simp_all add: breaker_simps disconnect_all_def breaker_disconnect_keys keyword_calls reset_circuit_def breaker_of_def [of "s\<lparr>cl_breaker := b, cl_fail_counter := n\<rparr>" for b n])

interpretation breaker: refinement "serve_client lib now" "\<lambda>s. breaker_of s = (''closed'', 0)" breaker_of "\<lambda>x y. y = x" for lib now
  by unfold_locales (simp_all add: breaker_serve)

text \<open>
  A failing device never opens the circuit breaker: the client wraps its calls in a breaker that is
  configured to open after three failures, but only notes the time of a failure and never tells the breaker.
  After any sequence of operations against any device the circuit is closed, the failure counter is zero and
  the health report says that the service is operating normally.
\<close>

theorem breaker_never_opens:
  fixes w :: 'w
  shows "let s = fold (serve_client lib now) qs (new_client w)
         in \<not> is_circuit_open s \<and> health_check s \<and> get_health s = (HEALTHY, ''Service is operating normally'')"
proof -
  have "breaker_of (fold (serve_client lib now) qs (new_client w)) = (''closed'', 0)"
    by (rule breaker.run_ok) (simp add: breaker_of_def new_client_def)
  then show ?thesis by (simp add: Let_def breaker_of_def is_circuit_open_def health_check_def get_health_def)
qed

section \<open>Command texts\<close>

definition render_param :: "string \<times> string \<Rightarrow> string" where
  "render_param = (\<lambda>(k, v). k @ ''='' @ v)"

definition render_command :: "string \<Rightarrow> string \<Rightarrow> params \<Rightarrow> string" where
  "render_command path m ps = path @ ''/'' @ m @ concat (map (\<lambda>p. CHR '' '' # render_param p) ps)"

definition spaceless :: "string \<Rightarrow> bool" where
  "spaceless w \<longleftrightarrow> w \<noteq> [] \<and> (\<forall>c \<in> set w. \<not> is_space c)"

definition param_ok :: "string \<times> string \<Rightarrow> bool" where
  "param_ok = (\<lambda>(k, v). spaceless k \<and> spaceless v \<and> CHR ''='' \<notin> set k \<and> hd v \<notin> {CHR 0x22, CHR 0x27})"

lemma space_facts [simp]: "is_space CHR '' ''" "\<not> is_space CHR ''=''" "\<not> is_space CHR ''/''"
  by (simp_all add: is_space_def)

lemma takeWhile_word:
  assumes "\<forall>c \<in> set w. \<not> is_space c" "r = [] \<or> is_space (hd r)"
  shows "takeWhile (\<lambda>c. \<not> is_space c) (w @ r) = w" "dropWhile (\<lambda>c. \<not> is_space c) (w @ r) = r"
  using assms by (induction w) (cases r; auto)+

lemma value_at_word:
  assumes "spaceless v" "hd v \<notin> {CHR 0x22, CHR 0x27}" "r = [] \<or> is_space (hd r)"
  shows "value_at (v @ r) = Some (v, r)"
proof -
  obtain c cs where v: "v = c # cs" using assms(1) by (cases v) (auto simp: spaceless_def)
  have "\<not> is_space c" using assms(1) v by (simp add: spaceless_def)
  then show ?thesis
    using assms takeWhile_word [of v r] by (auto simp: value_at_def v spaceless_def)
qed

lemma key_at_word:
  assumes "\<forall>c \<in> set k. \<not> is_space c" "CHR ''='' \<notin> set k" "a @ k \<noteq> []" "value_at t = Some (v, r)"
  shows "key_at a (k @ CHR ''='' # t) = Some (a @ k, v, r)"
  using assms by (induction k arbitrary: a) auto

lemma findall_Nil [simp]: "findall [] = []"
  by (simp add: findall.simps)

lemma findall_space: "is_space c \<Longrightarrow> findall (c # cs) = findall cs"
  by (simp add: findall.simps [of "c # cs"])

lemma findall_key: "key_at [] s = Some (k, v, r) \<Longrightarrow> findall s = (k, v) # findall r"
  by (cases s) (simp_all add: findall.simps [of "c # cs" for c cs] del: key_at.simps, simp)

lemma findall_param:
  assumes "param_ok p" "r = [] \<or> is_space (hd r)"
  shows "findall (render_param p @ r) = p # findall r"
proof -
  obtain k v where p: "p = (k, v)" by fastforce
  have "key_at [] (k @ CHR ''='' # (v @ r)) = Some ([] @ k, v, r)"
    using assms p by (intro key_at_word value_at_word) (auto simp: param_ok_def spaceless_def)
  from findall_key [OF this] show ?thesis by (simp add: p render_param_def)
qed

lemma findall_params:
  "\<forall>p \<in> set ps. param_ok p \<Longrightarrow> findall (concat (map (\<lambda>p. CHR '' '' # render_param p) ps)) = ps"
proof (induction ps)
  case (Cons p ps)
  have "findall (render_param p @ concat (map (\<lambda>p. CHR '' '' # render_param p) ps)) =
      p # findall (concat (map (\<lambda>p. CHR '' '' # render_param p) ps))"
    using Cons.prems by (intro findall_param) (cases ps; auto)+
  with Cons show ?case by (simp add: findall_space)
qed simp

lemma fold_dict_set: "distinct (map fst (d @ ps)) \<Longrightarrow> fold (\<lambda>(k, v). dict_set k v) ps d = d @ ps"
proof (induction ps arbitrary: d)
  case (Cons p ps)
  obtain k v where p: "p = (k, v)" by fastforce
  have new: "k \<notin> fst ` set e \<Longrightarrow> dict_set k v e = e @ [(k, v)]" for e
    by (induction e) auto
  have "k \<notin> fst ` set d" using Cons.prems p by auto
  with new have "fold (\<lambda>(k, v). dict_set k v) (p # ps) d = fold (\<lambda>(k, v). dict_set k v) ps (d @ [p])" by (simp add: p)
  also have "\<dots> = (d @ [p]) @ ps" by (rule Cons.IH) (use Cons.prems in simp)
  finally show ?case by simp
qed simp

lemma split_on_snoc: "x \<notin> set m \<Longrightarrow> split_on x (p @ x # m) = split_on x p @ [m]"
  by (induction x p rule: split_on.induct) (auto simp: split_on_no_sep Let_def split: list.split)

lemma join_hd: "join sep ((c # a) # ps) = c # join sep (a # ps)"
  by (cases ps) simp_all

lemma join_split_on: "join [x] (split_on x p) = p"
proof (induction x p rule: split_on.induct)
  case (2 x c s)
  then show ?case
    by (cases "split_on x s") (auto simp: join_hd neq_Nil_conv)
qed simp

lemma method_word: "m \<in> set method_keywords \<Longrightarrow> spaceless m \<and> CHR ''/'' \<notin> set m"
  by (auto simp: method_keywords_def spaceless_def is_space_def)

lemma render_last:
  assumes "\<forall>p \<in> set ps. param_ok p" "ps \<noteq> []"
  shows "\<not> is_space (last (concat (map (\<lambda>p. CHR '' '' # render_param p) ps)))"
proof (cases ps rule: rev_cases)
  case (snoc qs p)
  then obtain k v where "p = (k, v)" "param_ok (k, v)" using assms(1) by (cases p) auto
  with snoc show ?thesis by (auto simp: param_ok_def render_param_def spaceless_def)
qed (use assms(2) in simp)

lemma render_strip:
  assumes "hd path = CHR ''/''" "path \<noteq> []" "m \<in> set method_keywords" "\<forall>p \<in> set ps. param_ok p"
  shows "strip (render_command path m ps) = render_command path m ps"
proof (rule strip_ends)
  have "m \<noteq> []" "\<not> is_space (last m)" using method_word [OF assms(3)] by (auto simp: spaceless_def)
  then show "\<not> is_space (last (render_command path m ps))"
    using render_last [OF assms(4)] by (cases "ps = []") (auto simp: render_command_def last_append)
qed (use assms(1,2) in \<open>auto simp: render_command_def hd_append\<close>)

lemma cut_at:
  assumes "x \<notin> set a" "r = [] \<or> hd r = x"
  shows "takeWhile (\<lambda>c. c \<noteq> x) (a @ r) = a" "dropWhile (\<lambda>c. c \<noteq> x) (a @ r) = r"
  using assms by (induction a) (cases r; auto)+

lemma no_item:
  assumes "param_ok p" "r = [] \<or> hd r = CHR '' ''"
  shows "item_identifier (render_param p @ r) = (None, render_param p @ r)"
proof -
  have p: "CHR '' '' \<notin> set (render_param p)" "CHR ''='' \<in> set (render_param p)" "render_param p \<noteq> []"
    using assms(1) by (auto simp: param_ok_def render_param_def spaceless_def is_space_def split: prod.splits)
  then have "hd (render_param p @ r) \<noteq> CHR '' ''" by (metis hd_append2 hd_in_set)
  with p cut_at(1) [OF p(1) assms(2)] show ?thesis by (simp add: item_identifier_def)
qed

text \<open>
  The command parser reads what is written: a command built from a path, a method and parameters whose
  values contain no space, and that is sent as one line of text, comes back as the same path, method and
  parameters.
\<close>

theorem command_text_roundtrip:
  assumes "hd path = CHR ''/''" "path \<noteq> []" "CHR '' '' \<notin> set path" "m \<in> set method_keywords"
    "\<forall>p \<in> set ps. param_ok p" "distinct (map fst ps)"
  shows "parse_cli_command (render_command path m ps) = (path, m, ps)"
proof -
  let ?tail = "concat (map (\<lambda>p. CHR '' '' # render_param p) ps)"
  have m: "m \<noteq> []" "CHR ''/'' \<notin> set m" "CHR '' '' \<notin> set m"
    using method_word [OF assms(4)] by (auto simp: spaceless_def is_space_def)
  have word: "takeWhile (\<lambda>c. c \<noteq> CHR '' '') (render_command path m ps) = path @ CHR ''/'' # m"
    "dropWhile (\<lambda>c. c \<noteq> CHR '' '') (render_command path m ps) = ?tail"
    using cut_at [of "CHR '' ''" "path @ CHR ''/'' # m" ?tail] assms(3) m(3) by (cases ps; simp add: render_command_def)+
  have rs: "rstrip_char (CHR ''/'') (path @ CHR ''/'' # m) = path @ CHR ''/'' # m"
    using m(1,2) by (cases m rule: rev_cases) (auto simp: rstrip_char_def)
  have segs: "split_on (CHR ''/'') (path @ CHR ''/'' # m) = split_on (CHR ''/'') path @ [m]" using m(2) by (rule split_on_snoc)
  have ident: "(if tl ?tail \<noteq> [] \<and> m = ''set'' then item_identifier (tl ?tail) else (None, tl ?tail)) = (None, tl ?tail)"
  proof (cases ps)
    case (Cons p qs)
    have "item_identifier (render_param p @ concat (map (\<lambda>p. CHR '' '' # render_param p) qs)) =
        (None, render_param p @ concat (map (\<lambda>p. CHR '' '' # render_param p) qs))"
      using assms(5) Cons by (intro no_item) (cases qs; simp)+
    with Cons show ?thesis by simp
  qed simp
  have fa: "findall (tl ?tail) = ps"
    using findall_params [OF assms(5)] by (cases ps) (auto simp: findall_space)
  show ?thesis
    unfolding parse_cli_command_def render_strip [OF assms(1,2,4,5)] word rs segs Let_def
    using assms(4) fold_dict_set [of "[]" ps] assms(6) by (simp add: ident fa join_split_on)
qed
theorem command_text_roundtrip_witness:
  "parse_cli_command (render_command ''/ip/pool'' ''add'' [(''name'', ''codevertex-pool''), (''ranges'', ''172.31.0.2-172.31.255.254'')])
   = (''/ip/pool'', ''add'', [(''name'', ''codevertex-pool''), (''ranges'', ''172.31.0.2-172.31.255.254'')])"
proof (rule command_text_roundtrip)
  show "\<forall>p \<in> set [(''name'', ''codevertex-pool''), (''ranges'', ''172.31.0.2-172.31.255.254'')]. param_ok p"
    by code_simp
qed (simp_all add: method_keywords_def)

section \<open>A retried command\<close>

lemma telnet_command:
  "is_cli_command ''/ip/service/set telnet disabled=yes''"
  "parse_cli_command ''/ip/service/set telnet disabled=yes'' =
     (''/ip/service'', ''set'', [(''disabled'', ''yes''), (''_item_identifier'', ''telnet'')])"
  by (simp add: is_cli_command_def, code_simp)

text \<open>
  A command that is retried may go to the wrong item: the first attempt takes the name of the item out
  of the parameters, and when the connection breaks under it the second attempt sends the properties
  without any item. Switching off telnet then asks the device to disable whatever an unqualified \<open>set\<close> means.
\<close>

theorem retried_set_loses_its_item:
  assumes api: "\<And>w. ros_api lib c w = (Inr (), w)"
    and broken: "ros_call lib c ''/ip/service'' ''get'' [(''name'', ''telnet'')] (cl_world s) = (Inl e, w1)" "is_os_error e"
    and again: "ros_call lib c ''/ip/service'' ''set'' [(''disabled'', ''yes'')] w1 = (Inr r, w2)"
    and closed: "\<not> is_circuit_open s"
  shows "\<exists>s'. execute_command lib now c ''/ip/service/set telnet disabled=yes'' None [] s = (Inr r, s') \<and> cl_world s' = w2"
proof -
  let ?op = "sync_execute lib c ''/ip/service'' ''set''"
  let ?s1 = "s\<lparr>cl_world := w1, cl_last_failure := Some now\<rparr>"
  have same: "s\<lparr>cl_world := cl_world s\<rparr> = s" by simp
  have one: "?op [(''disabled'', ''yes''), (''_item_identifier'', ''telnet'')] s = (Inl e, [(''disabled'', ''yes'')], s\<lparr>cl_world := w1\<rparr>)"
    by (simp add: sync_execute_def api_def api Let_def dict_get_def dict_del_def set_named_def call_def broken)
  have two: "?op [(''disabled'', ''yes'')] ?s1 = (Inr r, [(''disabled'', ''yes'')], ?s1\<lparr>cl_world := w2\<rparr>)"
    by (simp add: sync_execute_def api_def api Let_def dict_get_def dict_del_def call_def again)
  have closed': "\<not> is_circuit_open ?s1" using closed by (simp add: is_circuit_open_def)
  have "attempts 3 is_os_error now ?op [(''disabled'', ''yes''), (''_item_identifier'', ''telnet'')] s =
      (Inr r, ?s1\<lparr>cl_world := w2, cl_last_success := Some now\<rparr>)"
    using closed closed' broken(2)
    by (simp add: attempts.simps [of 3] attempts.simps [of 2] execute_with_circuit_breaker_def one two)
  then show ?thesis
    using closed by (simp add: execute_command_def telnet_command execute_with_resilience_def mikrotik_retry_def)
qed

text \<open>A device whose connection breaks under the first request for a resource.\<close>

definition flaky_device :: "nat routeros" where
  "flaky_device = \<lparr>ros_api = \<lambda>c w. (Inr (), w),
     ros_call = \<lambda>c path m ps w. (if w = 0 then Inl (Exn ''ConnectionResetError'' ''Connection reset by peer'') else Inr [], w + 1),
     ros_disconnect = \<lambda>c w. (Inr (), w)\<rparr>"

definition office_link :: connection where
  "office_link = \<lparr>cn_ip = ''10.0.0.1'', cn_port = 8728, cn_username = ''admin'', cn_password = ''pw''\<rparr>"

theorem retried_set_loses_its_item_witness:
  "\<exists>s'. execute_command flaky_device 5 office_link ''/ip/service/set telnet disabled=yes'' None [] (new_client 0) = (Inr [], s') \<and> cl_world s' = 2"
  by (rule retried_set_loses_its_item [of _ _ _ "Exn ''ConnectionResetError'' ''Connection reset by peer''" 1])
    (simp_all add: flaky_device_def new_client_def is_os_error_def os_error_classes_def is_circuit_open_def)

section \<open>Clean-up of a device\<close>

text \<open>
  Removing things from a router never happens: deleting the user of a subscription, checking the
  bootstrap script and the clean-up before a router is deleted all ask for a resource by a keyword the
  command function does not have. Whatever the device, the user is reported as not deleted, the script as
  absent, nothing as removed, and the only traffic is that of the connection attempt.
\<close>

theorem device_clean_up_never_runs:
  "fst (delete_subscription_user lib now rt t username s) = False
   \<and> sc_script_exists (fst (verify_bootstrap_script lib now rt expected s)) = False
   \<and> cr_script_removed (fst (cleanup_provisioning lib now rt a b s)) = False
   \<and> cr_configurations_removed (fst (cleanup_provisioning lib now rt a b s)) = False
   \<and> {snd (delete_subscription_user lib now rt t username s), snd (verify_bootstrap_script lib now rt expected s),
      snd (cleanup_provisioning lib now rt a b s)} = {snd (connect_router lib now rt s)}"
  by (simp add: keyword_calls)

section \<open>Status of a router\<close>

lemma run_updates_online:
  assumes "\<forall>u \<in> set us. \<forall>r r'. rt_status r = Online \<longrightarrow> u r = Inr r' \<longrightarrow> rt_status r' = Online"
  shows "rt_status r = Online \<Longrightarrow> rt_status (snd (run_updates us r)) = Online"
  using assms
proof (induction us arbitrary: r)
  case (Cons u us)
  have u: "u r = Inr r' \<Longrightarrow> rt_status r' = Online" for r' using Cons.prems by (metis list.set_intros(1))
  have us: "\<forall>u \<in> set us. \<forall>r r'. rt_status r = Online \<longrightarrow> u r = Inr r' \<longrightarrow> rt_status r' = Online"
    using Cons.prems(2) by (meson list.set_intros(2))
  show ?case
  proof (cases "u r")
    case (Inr r')
    from Cons.IH [OF u [OF Inr] us] show ?thesis by (simp add: Inr)
  qed (simp add: Cons.prems(1))
qed simp

lemma status_updates_online:
  "rt_status (snd (run_updates (status_updates now info) rt)) = Online"
proof -
  let ?us = "status_updates now info"
  have rest: "\<forall>u \<in> set (tl ?us). \<forall>r r'. rt_status r = Online \<longrightarrow> u r = Inr r' \<longrightarrow> rt_status r' = Online"
    by (auto simp: status_updates_def Let_def bind_exn_def split: option.splits sum.splits)
  have us: "?us = hd ?us # tl ?us" by (simp add: status_updates_def Let_def)
  have "\<exists>rt'. hd ?us rt = Inr rt' \<and> rt_status rt' = Online" by (simp add: status_updates_def Let_def)
  then obtain rt' where rt': "hd ?us rt = Inr rt'" "rt_status rt' = Online" by blast
  have "run_updates ?us rt = run_updates (tl ?us) rt'" by (subst us) (simp add: rt'(1))
  with run_updates_online [OF rest rt'(2)] show ?thesis by simp
qed

lemma dict_get_del: "dict_get (dict_del k d) k = None"
  by (auto simp: dict_get_def dict_del_def map_of_eq_None_iff)

lemma connections_primitives [simp]:
  "cl_connections (snd (api lib c s)) = cl_connections s" "cl_connections (snd (call lib c path m ps s)) = cl_connections s"
  "cl_connections (hang_up lib c s) = cl_connections s"
  by (simp_all add: api_def call_def hang_up_def split: prod.split)

lemma connections_connect: "cl_connections (snd (resilient now (sync_connect lib c) s)) = cl_connections s"
proof (rule resilient_keeps [OF untimed_views(2)])
  fix s :: "'a client"
  have "cl_connections (snd (andthen (api lib c s) (\<lambda>_ s1. call lib c ''/system/identity'' ''get'' [] s1))) = cl_connections s"
    by (auto simp: andthen_def split: prod.split sum.split) (metis connections_primitives(1) snd_conv)+
  then show "cl_connections (snd (sync_connect lib c s)) = cl_connections s"
    by (auto simp: sync_connect_def split: prod.splits sum.splits)
qed

lemma failed_connect:
  assumes "connect lib now ip user pass port s = (Inl e, s')"
  shows "dict_get (cl_connections s') (get_router_key ip port) = None"
proof -
  let ?key = "get_router_key ip port"
  let ?s1 = "case dict_get (cl_connections s) ?key of None \<Rightarrow> s
    | Some old \<Rightarrow> hang_up lib old (s\<lparr>cl_connections := dict_del ?key (cl_connections s)\<rparr>)"
  let ?c = "\<lparr>cn_ip = ip, cn_port = port, cn_username = user, cn_password = pass\<rparr>"
  obtain r s2 where r: "resilient now (sync_connect lib ?c) ?s1 = (r, s2)" by (metis surj_pair)
  have "dict_get (cl_connections ?s1) ?key = None" by (simp add: dict_get_del split: option.split)
  moreover have "cl_connections s2 = cl_connections ?s1" using connections_connect [of now lib ?c ?s1] r by simp
  moreover have "s' = s2" using assms r by (auto simp: connect_def Let_def split: sum.splits)
  ultimately show ?thesis by simp
qed

lemma after_disconnect: "dict_get (cl_connections (disconnect lib ip port s)) (get_router_key ip port) = None"
  by (simp add: disconnect_def Let_def dict_get_del split: option.split)

text \<open>
  A status check reports what it records: it answers true exactly when it leaves the router online, false
  when it leaves it offline, and it never leaves a connection to the router in the pool.
\<close>

theorem status_check_is_consistent:
  "(let ((fine, rt'), s') = sync_router_status lib now rt s
    in rt_status rt' = (if fine then Online else Offline)
       \<and> dict_get (cl_connections s') (get_router_key (rt_ip_address rt) (rt_port rt)) = None)"
proof -
  obtain r s1 where c: "connect lib now (rt_ip_address rt) (rt_username rt) (rt_password rt) (rt_port rt) s = (r, s1)"
    by (metis surj_pair)
  show ?thesis
  proof (cases r)
    case (Inl e)
    with c failed_connect show ?thesis by (fastforce simp: sync_router_status_def Let_def)
  next
    case (Inr d)
    obtain info s2 where i: "get_system_info lib now d s1 = (info, s2)" by (metis surj_pair)
    show ?thesis using c Inr i status_updates_online [of now _ rt]
      by (auto simp: sync_router_status_def Let_def case_prod_unfold after_disconnect split: option.split)
  qed
qed

section \<open>Uptimes\<close>

text \<open>The client and the polling agent each have a parser for uptimes.\<close>

lemma digits_nat_val:
  assumes "\<forall>c \<in> set ds. isdigit c"
  shows "foldl (\<lambda>a c. a * 10 + digit_val c) a ds = the (digits_val True a ds)"
  using assms by (induction ds arbitrary: a) auto

lemma digits_nat_str: "digits_nat (str_nat n) = n"
proof -
  obtain c cs where c: "str_nat n = c # cs" by (cases "str_nat n") auto
  have d: "\<forall>x \<in> set (str_nat n). isdigit x" by (rule str_nat_digits)
  have "digits_val True 0 (str_nat n) = digits_val False 0 (str_nat n)" using d c by (intro digits_val_flag) auto
  with digits_nat_val [OF d, of 0] show ?thesis by (simp add: digits_nat_def digits_val_str_nat)
qed

lemma search_digits:
  "\<forall>c \<in> set ds. isdigit c \<Longrightarrow> search_unit u buf (ds @ cs) = search_unit u (buf @ ds) cs"
  by (induction ds arbitrary: buf) auto

lemma search_part:
  assumes "unit_seconds c \<noteq> None"
  shows "search_unit u [] (str_nat n @ c # cs) = (if c = u then Some (str_nat n) else search_unit u [] cs)"
  using assms unit_not_digit by (auto simp: search_digits str_nat_digits)

definition in_units :: "char \<Rightarrow> (nat \<times> char) list \<Rightarrow> int" where
  "in_units u ps = (case find (\<lambda>(n, c). c = u) ps of None \<Rightarrow> 0 | Some (n, c) \<Rightarrow> int n)"

lemma search_format:
  "\<forall>(n, c) \<in> set ps. unit_seconds c \<noteq> None \<Longrightarrow>
   search_unit u [] (letter_format ps) = map_option (\<lambda>(n, c). str_nat n) (find (\<lambda>(n, c). c = u) ps)"
  by (induction ps) (auto simp: letter_format_def uptime_part_def search_part)

lemma client_uptime_format:
  assumes "\<forall>(n, c) \<in> set ps. unit_seconds c \<noteq> None"
  shows "parse_client_uptime (letter_format ps) =
    in_units (CHR ''w'') ps * 604800 + in_units (CHR ''d'') ps * 86400 + in_units (CHR ''h'') ps * 3600
    + in_units (CHR ''m'') ps * 60 + in_units (CHR ''s'') ps"
  using search_format [OF assms]
  by (simp add: parse_client_uptime_def in_units_def digits_nat_str split: option.split)

lemma in_units_Cons: "in_units u ((n, c) # ps) = (if c = u then int n else in_units u ps)"
  by (simp add: in_units_def)

lemma in_units_absent: "u \<notin> snd ` set ps \<Longrightarrow> in_units u ps = 0"
  by (induction ps) (auto simp: in_units_def)

lemma letter_value_units:
  assumes "\<forall>(n, c) \<in> set ps. c \<in> set ''wdhms''" "distinct (map snd ps)"
  shows "letter_value ps = in_units (CHR ''w'') ps * 604800 + in_units (CHR ''d'') ps * 86400 + in_units (CHR ''h'') ps * 3600
    + in_units (CHR ''m'') ps * 60 + in_units (CHR ''s'') ps"
  using assms
proof (induction ps)
  case (Cons p ps)
  obtain n c where p: "p = (n, c)" by fastforce
  have "in_units c ps = 0" using Cons.prems(2) p by (intro in_units_absent) (auto simp: image_iff)
  moreover have "c \<in> set ''wdhms''" using Cons.prems(1) p by simp
  moreover have "letter_value (p # ps) = int n * (case unit_seconds c of None \<Rightarrow> 0 | Some u \<Rightarrow> u) + letter_value ps"
    by (simp add: p letter_value_def)
  ultimately show ?case using Cons by (auto simp: p in_units_Cons unit_seconds_def)
qed (simp add: letter_value_def in_units_def)

lemma search_absent: "u \<notin> set t \<Longrightarrow> search_unit u buf t = None"
  by (induction t arbitrary: buf) auto

lemma search_clock:
  assumes "u \<in> set ''wdhms''"
  shows "search_unit u [] (colon_format d h m s) = (if u = CHR ''d'' \<and> d \<noteq> 0 then Some (str_nat d) else None)"
proof -
  have "\<not> isdigit u" using assms by (auto simp: isdigit_def)
  then have z: "u \<notin> set (zfill 2 (str_nat n))" "u \<notin> set (str_nat n)" for n
    using zfill_digits str_nat_digits by blast+
  then have clock: "u \<notin> set (join '':'' [zfill 2 (str_nat h), zfill 2 (str_nat m), zfill 2 (str_nat s)])"
    using assms by auto
  have dd: "search_unit u [] (str_nat d @ CHR ''d'' # CHR '' '' # x) = (if u = CHR ''d'' then Some (str_nat d) else search_unit u [] (CHR '' '' # x))" for x
    by (subst search_part) (auto simp: unit_seconds_def)
  show ?thesis using clock assms dd by (auto simp: colon_format_def intro!: search_absent)
qed

text \<open>
  The client and the polling agent read uptimes with different parsers: they agree on the rendering with
  unit letters, and the client's parser drops the clock part of the other rendering, so that a router that
  has been up for nine days and three hours counts as up for nine days.
\<close>

theorem uptime_parsers_compared:
  assumes "\<forall>(n, c) \<in> set ps. c \<in> set ''wdhms''" "distinct (map snd ps)"
  shows "parse_client_uptime (letter_format ps) = parse_uptime (UptimeText (letter_format ps))
    \<and> parse_client_uptime (colon_format d h m s) = int d * 86400
    \<and> parse_uptime (UptimeText (colon_format d h m s)) = int d * 86400 + int h * 3600 + int m * 60 + int s"
proof (intro conjI)
  have "\<forall>(n, c) \<in> set ps. unit_seconds c \<noteq> None" using assms(1) by (auto simp: unit_seconds_def)
  from client_uptime_format [OF this] show "parse_client_uptime (letter_format ps) = parse_uptime (UptimeText (letter_format ps))"
    using letter_value_units [OF assms] parse_uptime_roundtrip [OF assms(1)] by simp
  show "parse_client_uptime (colon_format d h m s) = int d * 86400"
    by (cases "d = 0") (simp_all add: parse_client_uptime_def search_clock digits_nat_str)
  show "parse_uptime (UptimeText (colon_format d h m s)) = int d * 86400 + int h * 3600 + int m * 60 + int s"
    using parse_uptime_roundtrip [OF assms(1)] by blast
qed

theorem uptime_parsers_compared_witness:
  "parse_client_uptime (letter_format [(9, CHR ''d''), (3, CHR ''h'')]) = parse_uptime (UptimeText (letter_format [(9, CHR ''d''), (3, CHR ''h'')]))
   \<and> parse_client_uptime (colon_format 9 3 4 5) = 777600 \<and> parse_uptime (UptimeText (colon_format 9 3 4 5)) = 788645"
  using uptime_parsers_compared [of "[(9, CHR ''d''), (3, CHR ''h'')]" 9 3 4 5] by simp

end
