(* ===== verification/Command_Safety.thy ===== *)
theory Command_Safety
  imports Provision_Commands Device_Safety
begin

text \<open>
  What the generated commands guarantee: the interface to the internet never becomes a port of the bridge,
  the pages a customer needs before logging in are let through, versions are read back, and which commands
  the client for devices cannot execute.
\<close>

section \<open>Bridge ports\<close>

definition port_prefix :: string where
  "port_prefix = '':do { /interface/bridge/port/''"

definition is_port_command :: "command_data \<Rightarrow> bool" where
  "is_port_command c \<longleftrightarrow> take (length port_prefix) (cd_command c) = port_prefix"

lemma port_command [simp]: "is_port_command (bridge_port_command b p)"
  by (simp add: is_port_command_def port_prefix_def bridge_port_command_def critical_def on_error_guarded_def)


lemma bind_exn_Inr: "bind_exn r f = Inr y \<longleftrightarrow> (\<exists>x. r = Inr x \<and> f x = Inr y)"
  by (auto simp: bind_exn_def split: sum.splits)


definition lan_config :: config where
  \<comment> \<open>a configuration with three ports, the second one leading to the internet\<close>
  "lan_config = [(''wan_interface'', JText ''ether2''), (''bridge_ports'', JArr (map JText [''ether3'', ''Ether2'', ''ether4'']))]"


section \<open>Pages before the login\<close>

lemma add_host_adds:
  assumes "h \<noteq> []"
  shows "JText h \<in> set (fst (add_host h g))" "\<not> numeric_host h \<Longrightarrow> h \<in> set (snd (add_host h g))"
  using assms by (auto simp: add_host_def split: prod.split)

lemma add_host_keeps: "set (fst g) \<subseteq> set (fst (add_host h g))" "set (snd g) \<subseteq> set (snd (add_host h g))"
  by (auto simp: add_host_def split: prod.split)

lemma fold_add_host_keeps:
  "set (fst g) \<subseteq> set (fst (fold add_host hs g))" "set (snd g) \<subseteq> set (snd (fold add_host hs g))"
proof (induction hs arbitrary: g)
  case (Cons h hs)
  { case 1 from Cons(1) [of "add_host h g"] add_host_keeps(1) [of g h] show ?case by simp }
  { case 2 from Cons(2) [of "add_host h g"] add_host_keeps(2) [of g h] show ?case by simp }
qed simp_all

lemma fold_add_host_adds:
  assumes "h \<in> set hs" "h \<noteq> []"
  shows "JText h \<in> set (fst (fold add_host hs g)) \<and> (\<not> numeric_host h \<longrightarrow> h \<in> set (snd (fold add_host hs g)))"
  using assms
proof (induction hs arbitrary: g)
  case (Cons x xs)
  then show ?case
    using add_host_adds [of h g] fold_add_host_keeps [of "add_host x g" xs] by (cases "x = h") auto
qed simp

text \<open>
  A customer who has not paid can reach every page that a payment needs: whatever the configuration, the
  commands of a hotspot let through every host of the payment providers and every host of the payment
  pages, and the latter are also let through by the address they resolve to.
\<close>

theorem payment_pages_reachable:
  assumes "generate_hotspot_commands st config = Inr cmds"
  shows "(\<forall>h \<in> set payment_hosts. host_command (JText h) \<in> set cmds)
    \<and> (\<exists>cloud. captive_cloud_hosts st config = Inr cloud
         \<and> (\<forall>h \<in> set cloud. host_command (JText h) \<in> set cmds \<and> (numeric_host h \<or> pin_command h \<in> set cmds))
         \<and> (\<not> jtrue (cfg config ''treasury_status_host'' JNull) \<and> strip (treasury_status_host st) \<noteq> []
              \<longrightarrow> strip (treasury_status_host st) \<in> set cloud))"
proof -
  obtain subnet cidr net u hosts pins ips where r: "network_of config = Inr (subnet, cidr, net)" "captive_portal_url config = Inr u"
    "walled_garden st config = Inr (hosts, pins)" "walled_garden_ips config = Inr ips"
    using assms by (auto simp: generate_hotspot_commands_def bind_exn_Inr Let_def)
  have cmds: "host_command ` set hosts \<subseteq> set cmds" "pin_command ` set pins \<subseteq> set cmds"
    using assms by (auto simp: generate_hotspot_commands_def r Let_def)
  obtain cloud g where c: "captive_cloud_hosts st config = Inr cloud" "fold add_host cloud (fst g @ map JText payment_hosts, snd g) = (hosts, pins)"
    using r(3) by (auto simp: walled_garden_def bind_exn_Inr Let_def)
  have "JText h \<in> set hosts" if "h \<in> set payment_hosts" for h
    using fold_add_host_keeps(1) [of "(fst g @ map JText payment_hosts, snd g)" cloud] that by (auto simp: c(2))
  moreover have "h \<noteq> []" if "h \<in> set cloud" for h
    using c(1) that by (auto simp: captive_cloud_hosts_def bind_exn_Inr Let_def split: if_splits)
  then have "JText h \<in> set hosts \<and> (numeric_host h \<or> h \<in> set pins)" if "h \<in> set cloud" for h
    using fold_add_host_adds [OF that, of "(fst g @ map JText payment_hosts, snd g)"] that by (auto simp: c(2))
  moreover have "strip (treasury_status_host st) \<in> set cloud"
    if "\<not> jtrue (cfg config ''treasury_status_host'' JNull)" "strip (treasury_status_host st) \<noteq> []"
  proof -
    have "treasury_status_host st \<noteq> []" using that(2) by (auto simp: strip_def lstrip_def)
    with c(1) that show ?thesis by (auto simp: captive_cloud_hosts_def bind_exn_Inr Let_def jor_def text_of_def)
  qed
  ultimately show ?thesis using cmds c(1) by blast
qed

definition cloud_settings :: portal_settings where
  "cloud_settings = \<lparr>treasury_status_host = ''booksapi.codevertexafrica.com'', treasury_pay_page_url = ''https://books.codevertexafrica.com/pay''\<rparr>"

theorem payment_pages_reachable_witness:
  "\<exists>cmds. generate_hotspot_commands cloud_settings lan_config = Inr cmds
     \<and> host_command (JText ''*.safaricom.co.ke'') \<in> set cmds \<and> pin_command ''booksapi.codevertexafrica.com'' \<in> set cmds"
proof -
  have "case generate_hotspot_commands cloud_settings lan_config of Inr _ \<Rightarrow> True | Inl _ \<Rightarrow> False" by code_simp
  then obtain cmds where cmds: "generate_hotspot_commands cloud_settings lan_config = Inr cmds" by (auto split: sum.splits)
  have st: "strip (treasury_status_host cloud_settings) = ''booksapi.codevertexafrica.com''" by code_simp
  have v: "\<not> jtrue (cfg lan_config ''treasury_status_host'' JNull)" "\<not> numeric_host ''booksapi.codevertexafrica.com''" by code_simp+
  from payment_pages_reachable [OF cmds] v st cmds show ?thesis by (auto simp: payment_hosts_def)
qed

text \<open>
  A configuration with the address of an API server and without that of a billing server gets no hotspot:
  the function raises for a local name that is bound only in the branch of the billing server.
\<close>

theorem hotspot_needs_billing_server:
  assumes "\<not> jtrue (cfg config ''billing_server_url'' (JText []))" "jtrue (cfg config ''api_server_url'' (JText []))"
  shows "\<exists>x. generate_hotspot_commands st config = Inl x"
  using assms by (auto simp: generate_hotspot_commands_def walled_garden_def bind_exn_def Let_def split: sum.splits prod.splits)

section \<open>Versions\<close>

lemma digits_prefix:
  assumes "r = [] \<or> \<not> isdigit (hd r)"
  shows "takeWhile isdigit (str_nat n @ r) = str_nat n" "dropWhile isdigit (str_nat n @ r) = r"
  using assms str_nat_digits [of n] by (cases r; simp add: takeWhile_append2 dropWhile_append2)+

text \<open>
  A version is read back from its text, with or without the third number and whatever follows it, as in
  \<open>7.14.3 (stable)\<close>; and commands are generated in the newer syntax exactly from major version 7 on.
\<close>

theorem version_is_read_back:
  assumes rest: "rest = [] \<or> \<not> isdigit (hd rest) \<and> hd rest \<noteq> CHR ''.'' \<and> \<not> is_space (last rest)"
  shows "parse_routeros_version (str_nat a @ ''.'' @ str_nat b @ rest) = (a, b, 0)
    \<and> parse_routeros_version (str_nat a @ ''.'' @ str_nat b @ ''.'' @ str_nat c @ rest) = (a, b, c)
    \<and> is_v7_or_later (JText (str_nat a @ ''.'' @ str_nat b @ rest)) = Inr (7 \<le> a)"
proof -
  have ends: "\<not> is_space (hd (str_nat n @ t))" "\<not> is_space (last (t @ str_nat n @ rest))" for n t
    using isdigit_hd_last [OF str_nat_digits, of n] isdigit_not_space rest by (auto simp: hd_append last_append)
  have st: "strip (str_nat a @ ''.'' @ str_nat b @ rest) = str_nat a @ ''.'' @ str_nat b @ rest"
    "strip (str_nat a @ ''.'' @ str_nat b @ ''.'' @ str_nat c @ rest) = str_nat a @ ''.'' @ str_nat b @ ''.'' @ str_nat c @ rest"
    using ends(1) [of a] ends(2) [of "str_nat a @ ''.''" b] ends(2) [of "str_nat a @ ''.'' @ str_nat b @ ''.''" c]
    by (intro strip_ends; simp)+
  have no_dot: "after_dot rest = None" using rest by (cases rest) (auto simp: after_dot_def)
  have dot: "after_dot (CHR ''.'' # str_nat n @ r) = Some (str_nat n, r)" if "r = [] \<or> \<not> isdigit (hd r)" for n r
    using digits_prefix [OF that] by (simp add: after_dot_def)
  have r: "rest = [] \<or> \<not> isdigit (hd rest)" using rest by blast
  have nd: "\<not> isdigit (CHR ''.'')" by (simp add: isdigit_def)
  have v: "parse_routeros_version (str_nat a @ ''.'' @ str_nat b @ rest) = (a, b, 0)"
    "parse_routeros_version (str_nat a @ ''.'' @ str_nat b @ ''.'' @ str_nat c @ rest) = (a, b, c)"
    unfolding parse_routeros_version_def st Let_def
    using r nd by (simp_all add: digits_prefix dot no_dot digits_nat_str)
  then show ?thesis by (simp add: is_v7_or_later_def text_of_def)
qed

theorem version_is_read_back_witness:
  "parse_routeros_version ''6.49.10 (long-term)'' = (6, 49, 10)"
proof -
  have "str_nat 6 = ''6''" "str_nat 49 = ''49''" "str_nat 10 = ''10''" by code_simp+
  then show ?thesis using version_is_read_back [of "'' (long-term)''" 6 49 10] by (simp add: isdigit_def is_space_def)
qed

section \<open>Commands in script syntax\<close>

lemma script_text:
  assumes "t \<noteq> []" "\<not> is_space (last t)"
  shows "is_cli_command ('':do '' @ t)" "\<exists>ps. parse_cli_command ('':do '' @ t) = ('':do'', ''get'', ps)"
proof -
  show "is_cli_command ('':do '' @ t)" by (simp add: is_cli_command_def)
  have s: "strip ('':do '' @ t) = '':do '' @ t" using assms by (intro strip_ends) (auto simp: is_space_def)
  show "\<exists>ps. parse_cli_command ('':do '' @ t) = ('':do'', ''get'', ps)"
    unfolding parse_cli_command_def s
    by (simp add: Let_def rstrip_char_def split_on_no_sep method_keywords_def)
qed

lemma script_only_reads:
  assumes "t \<noteq> []" "\<not> is_space (last t)"
  shows "\<exists>ps. execute_command lib now c ('':do '' @ t) None [] s = execute_command lib now c '':do'' (Some ''get'') ps s"
proof -
  obtain ps where "parse_cli_command ('':do '' @ t) = ('':do'', ''get'', ps)" using script_text(2) [OF assms] by blast
  then have "execute_command lib now c ('':do '' @ t) None [] s = execute_command lib now c '':do'' (Some ''get'') ps s"
    using script_text(1) [OF assms] by (simp add: execute_command_def or_str_def)
  then show ?thesis by blast
qed

text \<open>
  The client cannot execute a command in script syntax: it takes the first word for the path of a resource
  and reads that resource. So a port is never added to the bridge over the direct connection, and nothing
  an earlier run left is removed, whatever the device answers.
\<close>

theorem script_commands_only_read:
  "(\<exists>ps. execute_command lib now c (cd_command (bridge_port_command bridge port)) None [] s = execute_command lib now c '':do'' (Some ''get'') ps s)
   \<and> (\<exists>ps. execute_command lib now c (on_error_guarded cmd) None [] s = execute_command lib now c '':do'' (Some ''get'') ps s)"
proof
  let ?t = "''{ '' @ ''/interface/bridge/port/remove [find interface='' @ port @ '']'' @ '' } on-error={}'' @ ''; /interface/bridge/port/add interface='' @ port @ '' bridge='' @ bridge @ '' hw=no''"
  have "\<not> is_space (last ?t)" by (simp add: is_space_def)
  from script_only_reads [of ?t, OF _ this]
  show "\<exists>ps. execute_command lib now c (cd_command (bridge_port_command bridge port)) None [] s = execute_command lib now c '':do'' (Some ''get'') ps s"
    by (simp add: bridge_port_command_def on_error_guarded_def critical_def)
  let ?u = "''{ '' @ cmd @ '' } on-error={}''"
  have "\<not> is_space (last ?u)" by (simp add: is_space_def)
  from script_only_reads [of ?u, OF _ this]
  show "\<exists>ps. execute_command lib now c (on_error_guarded cmd) None [] s = execute_command lib now c '':do'' (Some ''get'') ps s"
    by (simp add: on_error_guarded_def)
qed

end
