(* ===== verification/Provision_Safety.thy ===== *)
theory Provision_Safety
  imports Provisioning Command_Safety
begin

text \<open>
  What provisioning guarantees: a workflow always ends in a completed or a failed session, which
  configurations can never complete, what a failed or cancelled session leaves behind, and how sessions of
  the same router interfere.
\<close>

section \<open>Frames\<close>

named_theorems prov_simps \<open>which tables an operation of provisioning leaves alone\<close>

lemma on_pdb_simps [simp]:
  "pdb (on_pdb f s) = f (pdb s)" "dev (on_pdb f s) = dev s" "checkins (on_pdb f s) = checkins s"
  by (simp_all add: on_pdb_def)

lemma upd_simps [simp]:
  "pv_sessions (upd_step i f d) = pv_sessions d" "pv_sessions (upd_prov_command i g d) = pv_sessions d"
  "pv_steps (upd_session i h d) = pv_steps d" "pv_steps (upd_prov_command i g d) = pv_steps d"
  "pv_commands (upd_session i h d) = pv_commands d" "pv_commands (upd_step i f d) = pv_commands d"
  "pv_base (upd_session i h d) = pv_base d" "pv_base (upd_step i f d) = pv_base d" "pv_base (upd_prov_command i g d) = pv_base d"
  "pv_sessions (upd_session i h d) = tbl_upd ps_id i h (pv_sessions d)"
  by (simp_all add: upd_session_def upd_step_def upd_prov_command_def)

lemma on_dev_pdb [simp]: "pdb (snd (on_dev f s)) = pdb s" "on_dev f s = (r, s') \<Longrightarrow> pdb s' = pdb s"
  by (auto simp: on_dev_def split: prod.splits)

lemma progress_pdb [simp]:
  "pv_sessions (pdb (update_step_progress i p t s)) = pv_sessions (pdb s)" "pv_base (pdb (update_step_progress i p t s)) = pv_base (pdb s)"
  "pv_sessions (pdb (finish_step now i s)) = pv_sessions (pdb s)" "pv_base (pdb (finish_step now i s)) = pv_base (pdb s)"
  by (simp_all add: update_step_progress_def finish_step_def)

text \<open>What executing commands leaves alone: everything but the table of commands and the device.\<close>

definition rest_of :: "'w prov \<Rightarrow> prov_session list \<times> db" where
  "rest_of s = (pv_sessions (pdb s), pv_base (pdb s))"

lemma rest_of_simps [simp]:
  "rest_of (on_pdb (upd_prov_command i g) s) = rest_of s" "rest_of (update_step_progress i p t s) = rest_of s"
  "rest_of (snd (on_dev f s)) = rest_of s" "rest_of (s\<lparr>dev := c\<rparr>) = rest_of s" "rest_of (finish_step now i s) = rest_of s"
  "rest_of (on_pdb (upd_step i h) s) = rest_of s"
  by (simp_all add: rest_of_def)

lemma rest_of_attempts [simp]: "rest_of (snd (command_attempts e now rt i cd a n c s)) = rest_of s"
proof (induction n arbitrary: a c s)
  case 0
  show ?case by (simp add: command_attempts.simps [of e now rt i cd a 0] Let_def case_prod_unfold split: sum.split)
next
  case (Suc n)
  show ?case
    by (simp add: command_attempts.simps [of e now rt i cd a "Suc n"] Let_def case_prod_unfold Suc split: sum.split)
qed

lemma rest_of_retry [simp]: "rest_of (snd (execute_command_with_retry e now obj rt c cd s)) = rest_of s"
  by (simp add: execute_command_with_retry_def Let_def) (simp add: rest_of_def)

lemma rest_of_commands [simp]: "rest_of (snd (run_commands e now obj rt i verb failure n k cds c s)) = rest_of s"
  by (induction cds arbitrary: k c s) (simp_all add: Let_def case_prod_unfold)

section \<open>Steps\<close>

text \<open>
  What a step keeps of the object and of the rows, whatever happens in it: the status, the service and the
  rows that exist.
\<close>

definition kept :: "prov_session \<times> 'w prov \<Rightarrow> prov_session \<times> 'w prov \<Rightarrow> bool" where
  "kept a b \<longleftrightarrow>
     ps_id (fst b) = ps_id (fst a) \<and> ps_status (fst b) = ps_status (fst a) \<and> ps_service_type (fst b) = ps_service_type (fst a)
     \<and> ps_router_id (fst b) = ps_router_id (fst a)
     \<and> (\<forall>k. k \<noteq> ''routeros_version'' \<longrightarrow> map_of (ps_configuration (fst b)) k = map_of (ps_configuration (fst a)) k)
     \<and> map ps_id (pv_sessions (pdb (snd b))) = map ps_id (pv_sessions (pdb (snd a)))"

lemma kept_refl [simp]: "kept a a"
  by (simp add: kept_def)

lemma kept_trans: "kept a b \<Longrightarrow> kept b c \<Longrightarrow> kept a c"
  by (simp add: kept_def)

lemma kept_rest: "rest_of s' = rest_of s \<Longrightarrow> kept (obj, s) (obj, s')"
  by (simp add: kept_def rest_of_def)

lemma kept_assign:
  assumes "\<And>p. ps_id (f p) = ps_id p" "ps_status (f obj) = ps_status obj" "ps_service_type (f obj) = ps_service_type obj"
    "ps_router_id (f obj) = ps_router_id obj"
    "\<And>k. k \<noteq> ''routeros_version'' \<Longrightarrow> map_of (ps_configuration (f obj)) k = map_of (ps_configuration obj) k"
  shows "kept (obj, s) (assign f obj s)"
  using assms by (simp add: kept_def assign_def map_key_tbl_upd)

lemma kept_version: "kept (obj, s) (remember_version v obj s)"
proof -
  let ?f = "\<lambda>p. p\<lparr>ps_configuration := dict_set ''routeros_version'' (JText v) (ps_configuration obj)\<rparr>"
  have "kept (obj, s) (assign ?f obj s)" by (rule kept_assign) (simp_all add: map_of_dict_set)
  moreover have "kept (obj, s) (?f obj, s)" by (simp add: kept_def map_of_dict_set)
  moreover have "remember_version v obj s \<in> {(obj, s), assign ?f obj s, (?f obj, s)}"
    unfolding remember_version_def Let_def by (simp split: if_split)
  ultimately show ?thesis by (elim insertE emptyE) (simp_all only: kept_refl)
qed

lemma kept_after: "rest_of s1 = rest_of s \<Longrightarrow> kept (obj, s1) b \<Longrightarrow> kept (obj, s) b"
  by (rule kept_trans [OF kept_rest])

lemma connection_body_kept:
  assumes "connection_body e now obj i s = (r, obj', s')"
  shows "kept (obj, s) (obj', s')"
proof -
  have step: "kept (obj, s) (assign (\<lambda>p. p\<lparr>ps_current_step := StepConfiguration, ps_progress := 333 / 10\<rparr>) o1 s2)"
    if "kept (obj, s) (o1, s1)" "rest_of s2 = rest_of s1" for o1 s1 s2
    by (rule kept_trans [OF that(1) kept_after [OF that(2) kept_assign]]) simp_all
  obtain q where q: "get_router_by_id (ps_router_id obj) (pdb s) = q" by simp
  let ?s1 = "update_step_progress i 25 ''Testing connection...'' s"
  show ?thesis
  proof (cases q)
    case (Inl x)
    then show ?thesis using assms q by (simp add: connection_body_def)
  next
    case (Inr ort)
    show ?thesis
    proof (cases ort)
      case None
      then show ?thesis using assms q Inr by (auto simp: connection_body_def Let_def intro!: kept_rest)
    next
      case (Some rt)
      obtain c s2 where c: "on_dev (connect_router (env_lib e) now rt) ?s1 = (c, s2)" by (metis surj_pair)
      have r2: "rest_of s2 = rest_of s" using rest_of_simps(3) [of "connect_router (env_lib e) now rt" ?s1] c by simp
      show ?thesis
      proof (cases c)
        case (Inl x)
        then show ?thesis using assms q Inr Some c r2 by (auto simp: connection_body_def Let_def intro!: kept_rest)
      next
        case (Inr cn)
        let ?u = "update_step_progress i 50 ''Gathering system information...'' s2"
        obtain info s3 where g: "on_dev (get_system_info (env_lib e) now cn) ?u = (info, s3)" by (metis surj_pair)
        have r3: "rest_of s3 = rest_of s" using rest_of_simps(3) [of "get_system_info (env_lib e) now cn" ?u] g r2 by simp
        show ?thesis
        proof (cases "info = None \<or> info = Some []")
          case True
          then show ?thesis using assms q \<open>q = Inr ort\<close> Some c Inr g r3
            by (auto simp: connection_body_def Let_def intro!: kept_rest)
        next
          case False
          then obtain f fs where info: "info = Some (f # fs)" by (metis list.exhaust option.exhaust)
          obtain o1 s4 where v: "remember_version (dict_get_or (f # fs) ''version'' []) obj s3 = (o1, s4)" by (metis surj_pair)
          have k4: "kept (obj, s) (o1, s4)" using kept_after [OF r3 kept_version] v by metis
          define s5 where "s5 = on_pdb (upd_step i (\<lambda>l. l\<lparr>sl_progress := 100,
            sl_output_data := Some \<lparr>so_operation = Some ''Validating compatibility...'', so_system_info = Some (f # fs)\<rparr>\<rparr>)) s4"
          have k5: "kept (obj, s) (o1, s5)" by (rule kept_trans [OF k4 kept_rest]) (simp add: s5_def)
          show ?thesis using assms q \<open>q = Inr ort\<close> Some c Inr g info v k5 step [OF k5, of "finish_step now i s5"]
            by (cases "validate_router_compatibility (f # fs)") (auto simp: connection_body_def Let_def case_prod_unfold s5_def [symmetric])
        qed
      qed
    qed
  qed
qed

lemma loop_rest: "run_commands e now obj rt i verb failure n k cds c s = (r, s') \<Longrightarrow> rest_of s' = rest_of s"
  using rest_of_commands [of e now obj rt i verb failure n k cds c s] by simp

lemma rest_of_backup [simp]: "rest_of (on_pdb backup_router_configuration s) = rest_of s"
  by (simp add: rest_of_def backup_router_configuration_def)

lemma dev_rest: "on_dev f s = (r, s') \<Longrightarrow> rest_of s' = rest_of s"
  using rest_of_simps(3) [of f s] by simp

lemma configuration_body_kept:
  assumes "configuration_body e now obj i s = (r, obj', s')"
  shows "kept (obj, s) (obj', s')"
proof -
  have step: "kept (obj, s) (a, b)"
    if "assign (\<lambda>p. p\<lparr>ps_current_step := StepServiceSetup, ps_progress := 333 / 5\<rparr>) obj s2 = (a, b)" "rest_of s2 = rest_of s" for s2 a b
    unfolding that(1) [symmetric] by (rule kept_after [OF that(2) kept_assign]) simp_all
  show ?thesis
    using assms
    by (auto simp: configuration_body_def Let_def case_prod_unfold split: sum.splits intro!: kept_rest) (erule step, simp)
qed

lemma service_body_kept:
  assumes "service_body e now obj i s = (r, obj', s')"
  shows "kept (obj, s) (obj', s')"
proof -
  have step: "kept (obj, s) (a, b)"
    if "assign (\<lambda>p. p\<lparr>ps_progress := 100\<rparr>) obj s2 = (a, b)" "rest_of s2 = rest_of s" for s2 a b
    unfolding that(1) [symmetric] by (rule kept_after [OF that(2) kept_assign]) simp_all
  show ?thesis
    using assms
    by (auto simp: service_body_def Let_def case_prod_unfold split: sum.splits if_splits intro!: kept_rest) (erule step, simp)+
qed

section \<open>How a workflow ends\<close>

lemma execute_rollback_id [simp]: "execute_rollback e now obj s = s"
  by (simp add: execute_rollback_def router_service_get_api_def bind_exn_def split: sum.split)

definition row_of :: "int \<Rightarrow> 'w prov \<Rightarrow> prov_session option" where
  "row_of i s = tbl_get ps_id i (pv_sessions (pdb s))"

definition failed_row :: "prov_session \<Rightarrow> bool" where
  "failed_row p \<longleftrightarrow> ps_status p = PvFailed \<and> ps_error_message p \<noteq> None \<and> ps_completed_at p \<noteq> None"

definition completed_row :: "prov_session \<Rightarrow> bool" where
  "completed_row p \<longleftrightarrow> ps_status p = PvCompleted \<and> ps_success p \<and> ps_progress p = 100 \<and> ps_completed_at p \<noteq> None"

definition failed_at :: "int \<Rightarrow> prov_session \<times> 'w prov \<Rightarrow> bool" where
  "failed_at i a \<longleftrightarrow> ps_id (fst a) = i \<and> ps_status (fst a) = PvFailed \<and> (\<exists>p. row_of i (snd a) = Some p \<and> failed_row p)"

lemma row_exists: "row_of i s \<noteq> None \<longleftrightarrow> i \<in> set (map ps_id (pv_sessions (pdb s)))"
  by (auto simp: row_of_def tbl_get_None)

lemma kept_row: "kept (obj, s) (obj', s') \<Longrightarrow> row_of i s \<noteq> None \<Longrightarrow> row_of i s' \<noteq> None"
  unfolding row_exists by (simp add: kept_def)

lemma row_assign:
  assumes "row_of (ps_id obj) s = Some p" "\<And>q. ps_id (f q) = ps_id q"
  shows "row_of (ps_id obj) (snd (assign f obj s)) = Some (f p)"
  using assms by (simp add: row_of_def assign_def tbl_get_tbl_upd)

lemma error_fails:
  assumes "row_of (ps_id obj) s \<noteq> None"
  shows "failed_at (ps_id obj) (handle_provisioning_error e now obj msg s)"
proof -
  obtain p where p: "row_of (ps_id obj) s = Some p" using assms by blast
  let ?f = "\<lambda>p. p\<lparr>ps_status := PvFailed, ps_error_message := Some msg, ps_completed_at := Some now\<rparr>"
  have a: "row_of (ps_id obj) (snd (assign ?f obj s)) = Some (?f p)" by (rule row_assign [OF p]) simp
  have b: "row_of (ps_id obj) (snd (assign (\<lambda>p. p\<lparr>ps_rollback_required := True\<rparr>) (?f obj) (snd (assign ?f obj s)))) =
      Some ((?f p)\<lparr>ps_rollback_required := True\<rparr>)"
    using row_assign [of "?f obj" "snd (assign ?f obj s)" "?f p" "\<lambda>p. p\<lparr>ps_rollback_required := True\<rparr>"] a by simp
  show ?thesis
    using a b by (simp add: handle_provisioning_error_def Let_def case_prod_unfold failed_at_def failed_row_def) (simp add: assign_def)
qed

lemma step_result:
  assumes body: "\<And>i s r obj' s'. body obj i s = (r, obj', s') \<Longrightarrow> kept (obj, s) (obj', s')"
    and row: "row_of (ps_id obj) s \<noteq> None"
    and x: "execute_step e now st body obj s = (r, obj', s')"
  shows "kept (obj, s) (obj', s') \<or> failed_at (ps_id obj) (obj', s')"
proof (cases "get_step_log (ps_id obj) st (pdb s)")
  case (Inr l)
  let ?s1 = "on_pdb (upd_step (sl_id l) (\<lambda>r. r\<lparr>sl_status := PvInProgress, sl_started_at := Some now\<rparr>)) s"
  obtain q o1 s2 where b: "body obj (sl_id l) ?s1 = (q, o1, s2)" by (metis surj_pair)
  have k: "kept (obj, s) (o1, s2)" by (rule kept_after [OF _ body [OF b]]) simp
  show ?thesis
  proof (cases q)
    case (Inl y)
    let ?g = "upd_step (sl_id l) (\<lambda>r. r\<lparr>sl_status := PvFailed, sl_error_details := Some (exn_msg y), sl_completed_at := Some now, sl_duration := Some 0\<rparr>)"
    have "row_of (ps_id o1) (on_pdb ?g s2) \<noteq> None" using kept_row [OF k row] k by (simp add: row_of_def kept_def)
    from error_fails [OF this] have "failed_at (ps_id obj) (handle_step_error e now o1 l (exn_msg y) s2)"
      using k by (simp add: handle_step_error_def kept_def)
    moreover have "handle_step_error e now o1 l (exn_msg y) s2 = (obj', s')"
      using x Inr b Inl by (simp add: execute_step_def Let_def split: prod.splits)
    ultimately show ?thesis by simp
  qed (use x Inr b k in \<open>auto simp: execute_step_def Let_def\<close>)
qed (use x in \<open>auto simp: execute_step_def\<close>)

lemma and_step_result:
  assumes m: "m = (r, obj', s')" "kept (obj, s) (obj', s') \<or> failed_at (ps_id obj) (obj', s')" "row_of (ps_id obj) s \<noteq> None"
    and live: "ps_status obj = PvInProgress"
    and go: "kept (obj, s) (obj', s') \<Longrightarrow> r = Inr () \<Longrightarrow> P (f obj' s')"
    and stop: "\<And>a. failed_at (ps_id obj) a \<Longrightarrow> P a"
  shows "P (and_step e now m f)"
proof (cases r)
  case (Inl x)
  have "row_of (ps_id obj') s' \<noteq> None \<and> ps_id obj' = ps_id obj"
    using m(2) kept_row [OF _ m(3)] by (auto simp: failed_at_def kept_def)
  then have "failed_at (ps_id obj) (handle_provisioning_error e now obj' (exn_msg x) s')" using error_fails by metis
  then show ?thesis using m(1) Inl stop by (simp add: and_step_def)
next
  case (Inr u)
  show ?thesis
  proof (cases "ps_status obj' = PvFailed")
    case True
    then have "failed_at (ps_id obj) (obj', s')" using m(2) live by (auto simp: kept_def)
    then show ?thesis using True Inr m(1) stop by (simp add: and_step_def)
  next
    case False
    then have "kept (obj, s) (obj', s')" using m(2) by (auto simp: failed_at_def)
    then show ?thesis using False Inr m(1) go by (simp add: and_step_def)
  qed
qed

definition ended_at :: "int \<Rightarrow> prov_session \<times> 'w prov \<Rightarrow> bool" where
  "ended_at i a \<longleftrightarrow> (\<exists>p. row_of i (snd a) = Some p \<and> (completed_row p \<or> failed_row p))"

lemma failed_ended: "failed_at i a \<Longrightarrow> ended_at i a"
  by (auto simp: failed_at_def ended_at_def)

lemma row_mark [simp]: "row_of i (on_pdb (mark_router e now rid t) s) = row_of i s"
  by (simp add: row_of_def mark_router_def split: sum.split)

lemma complete_ended:
  assumes "ps_status obj = PvInProgress" "row_of (ps_id obj) s \<noteq> None"
  shows "ended_at (ps_id obj) (complete_workflow e now obj s)"
proof -
  obtain p where p: "row_of (ps_id obj) s = Some p" using assms(2) by blast
  let ?f = "\<lambda>p. p\<lparr>ps_status := PvCompleted, ps_success := True, ps_completed_at := Some now, ps_progress := 100\<rparr>"
  have "row_of (ps_id obj) (snd (assign ?f obj s)) = Some (?f p)" by (rule row_assign [OF p]) simp
  then show ?thesis using assms(1) by (simp add: complete_workflow_def Let_def case_prod_unfold ended_at_def completed_row_def)
qed

text \<open>
  The three steps one after the other: a property of the end that holds after a failure holds of the whole
  workflow if it holds of the last step whenever the earlier ones kept the session going.
\<close>

lemma workflow_rule:
  assumes live: "ps_status obj = PvInProgress" and row: "row_of (ps_id obj) s \<noteq> None"
    and stop: "\<And>a. failed_at (ps_id obj) a \<Longrightarrow> P a"
    and last: "\<And>o1 s1 o2 s2 o3 s3.
      kept (obj, s) (o1, s1) \<Longrightarrow> execute_configuration_step e now o1 s1 = (Inr (), o2, s2) \<Longrightarrow> kept (o1, s1) (o2, s2) \<Longrightarrow>
      execute_service_setup_step e now o2 s2 = (Inr (), o3, s3) \<Longrightarrow> kept (o2, s2) (o3, s3) \<Longrightarrow> P (complete_workflow e now o3 s3)"
  shows "P (execute_provisioning_workflow e now obj s)"
proof -
  obtain r1 o1 s1 where 1: "execute_connection_step e now obj s = (r1, o1, s1)" by (metis surj_pair)
  have k1: "kept (obj, s) (o1, s1) \<or> failed_at (ps_id obj) (o1, s1)"
    by (rule step_result [OF connection_body_kept row 1 [unfolded execute_connection_step_def]])
  have "P (and_step e now (execute_configuration_step e now o1 s1) (\<lambda>obj2 s2. and_step e now (execute_service_setup_step e now obj2 s2) (complete_workflow e now)))"
    if k: "kept (obj, s) (o1, s1)"
  proof -
    have i1: "ps_id o1 = ps_id obj" "ps_status o1 = PvInProgress" and row1: "row_of (ps_id o1) s1 \<noteq> None"
      using k live kept_row [OF k row] by (simp_all add: kept_def)
    obtain r2 o2 s2 where 2: "execute_configuration_step e now o1 s1 = (r2, o2, s2)" by (metis surj_pair)
    have k2: "kept (o1, s1) (o2, s2) \<or> failed_at (ps_id o1) (o2, s2)"
      by (rule step_result [OF configuration_body_kept row1 2 [unfolded execute_configuration_step_def]])
    have "P (and_step e now (execute_service_setup_step e now o2 s2) (complete_workflow e now))" if q: "kept (o1, s1) (o2, s2)" "r2 = Inr ()"
    proof -
      have i2: "ps_id o2 = ps_id obj" "ps_status o2 = PvInProgress" and row2: "row_of (ps_id o2) s2 \<noteq> None"
        using q(1) i1 kept_row [OF q(1) row1] by (simp_all add: kept_def)
      obtain r3 o3 s3 where 3: "execute_service_setup_step e now o2 s2 = (r3, o3, s3)" by (metis surj_pair)
      have k3: "kept (o2, s2) (o3, s3) \<or> failed_at (ps_id o2) (o3, s3)"
        by (rule step_result [OF service_body_kept row2 3 [unfolded execute_service_setup_step_def]])
      show ?thesis
      proof (rule and_step_result [where P = P, OF 3 k3 row2 i2(2)])
        assume "kept (o2, s2) (o3, s3)" "r3 = Inr ()"
        then show "P (complete_workflow e now o3 s3)" using last [OF k _ q(1)] 2 3 q(2) by blast
      qed (rule stop, simp only: i2)
    qed
    note go = this
    show ?thesis by (rule and_step_result [where P = P, OF 2 k2 row1 i1(2)]) (rule go, assumption+, rule stop, simp only: i1)
  qed
  note go = this
  show ?thesis unfolding execute_provisioning_workflow_def
    by (rule and_step_result [where P = P, OF 1 k1 row live]) (rule go, assumption, rule stop)
qed

lemma workflow_ends:
  assumes "ps_status obj = PvInProgress" "row_of (ps_id obj) s \<noteq> None"
  shows "ended_at (ps_id obj) (execute_provisioning_workflow e now obj s)"
proof (rule workflow_rule [OF assms, where P = "ended_at (ps_id obj)"])
  fix o1 s1 o2 s2 o3 s3
  assume k: "kept (obj, s) (o1, s1)" "kept (o1, s1) (o2, s2)" "kept (o2, s2) (o3, s3)"
  then have "kept (obj, s) (o3, s3)" using kept_trans by blast
  then have "ps_id o3 = ps_id obj" "ps_status o3 = PvInProgress" "row_of (ps_id o3) s3 \<noteq> None"
    using kept_row [OF _ assms(2)] assms(1) by (metis fst_conv kept_def)+
  then show "ended_at (ps_id obj) (complete_workflow e now o3 s3)" using complete_ended by metis
qed (rule failed_ended)

text \<open>
  A started session comes to an end: unless the router's agent takes the work over, the session of a
  started workflow is completed or failed when the background task is over, whatever the device does,
  whatever the configuration holds and whether or not the router or the step logs exist. A completed
  session is successful and at one hundred percent, a failed one has an error message.
\<close>

theorem started_session_comes_to_an_end:
  assumes p: "get_session_by_id sid (pdb s) = Some p" "ps_status p = PvPending"
    and direct: "\<And>rt. tbl_get rt_id (ps_router_id p) (routers (pv_base (pdb s))) = Some rt \<Longrightarrow> \<not> agent_ready rt"
  shows "\<exists>row. row_of (ps_id p) (snd (start_and_run e now sid s)) = Some row \<and> (completed_row row \<or> failed_row row)"
proof -
  let ?f = "\<lambda>p. p\<lparr>ps_status := PvInProgress, ps_started_at := Some now, ps_current_step := StepConnection\<rparr>"
  obtain q where q: "row_of (ps_id p) s = Some q"
    using p(1) by (auto simp: get_session_by_id_def row_of_def dest!: tbl_get_Some) (metis option.exhaust tbl_get_None image_eqI)
  define s1 where "s1 = snd (assign ?f p s)"
  have r1: "row_of (ps_id (?f p)) s1 = Some (?f q)" using row_assign [OF q, of ?f] by (simp add: s1_def)
  have b: "pv_base (pdb s1) = pv_base (pdb s)" by (simp add: s1_def assign_def)
  have go: "\<exists>row. row_of (ps_id p) (snd (execute_provisioning_workflow e now (?f p) s1)) = Some row \<and> (completed_row row \<or> failed_row row)"
    using workflow_ends [of "?f p" s1 e now] r1 by (simp add: ended_at_def)
  have set: "row_of (ps_id p) (snd (assign g (?f p) t)) = Some (g (?f q))"
    if "\<And>q. ps_id (g q) = ps_id q" "pdb t = pdb s1" for g and t :: "'a prov"
    using row_assign [of "?f p" t "?f q" g] r1 that by (simp add: row_of_def)
  have a: "assign ?f p s = (?f p, s1)" by (simp add: s1_def assign_def)
  note start = start_and_run_def start_provisioning_def p a Let_def get_router_by_id_def b
  show ?thesis
  proof (cases "if ps_router_id p \<le> 0 then None else tbl_get rt_id (ps_router_id p) (routers (pv_base (pdb s)))")
    case None
    then show ?thesis using go by (simp add: start split: if_splits)
  next
    case (Some rt)
    then have rt: "\<not> ps_router_id p \<le> 0" "tbl_get rt_id (ps_router_id p) (routers (pv_base (pdb s))) = Some rt" "\<not> agent_ready rt"
      using direct by (auto split: if_splits)
    show ?thesis
    proof (cases "consume_checkin rt (checkins s1)")
      case None
      show ?thesis
      proof (cases "env_private e (rt_ip_address rt)")
        case True
        then show ?thesis using rt None by (simp add: start set failed_row_def)
      qed (use go rt None in \<open>simp add: start\<close>)
    qed (use rt in \<open>simp add: start set completed_row_def\<close>)
  qed
qed

section \<open>Sessions that never complete\<close>

lemma step_success:
  assumes body: "\<And>i s r obj' s'. body obj i s = (r, obj', s') \<Longrightarrow> kept (obj, s) (obj', s')"
    and row: "row_of (ps_id obj) s \<noteq> None" and live: "ps_status obj = PvInProgress"
    and x: "execute_step e now st body obj s = (Inr (), obj', s')" "kept (obj, s) (obj', s')"
  shows "\<exists>i t. body obj i t = (Inr (), obj', s')"
proof -
  obtain l where l: "get_step_log (ps_id obj) st (pdb s) = Inr l" using x(1) by (auto simp: execute_step_def split: sum.splits)
  let ?s1 = "on_pdb (upd_step (sl_id l) (\<lambda>r. r\<lparr>sl_status := PvInProgress, sl_started_at := Some now\<rparr>)) s"
  obtain q o1 s2 where b: "body obj (sl_id l) ?s1 = (q, o1, s2)" by (metis surj_pair)
  have k: "kept (obj, s) (o1, s2)" by (rule kept_after [OF _ body [OF b]]) simp
  show ?thesis
  proof (cases q)
    case (Inl y)
    let ?g = "upd_step (sl_id l) (\<lambda>r. r\<lparr>sl_status := PvFailed, sl_error_details := Some (exn_msg y), sl_completed_at := Some now, sl_duration := Some 0\<rparr>)"
    have "row_of (ps_id o1) (on_pdb ?g s2) \<noteq> None" using kept_row [OF k row] k by (simp add: row_of_def kept_def)
    from error_fails [OF this] have "ps_status (fst (handle_step_error e now o1 l (exn_msg y) s2)) = PvFailed"
      by (simp add: handle_step_error_def failed_at_def)
    then have "ps_status obj' = PvFailed" using x(1) l b Inl by (auto simp: execute_step_def Let_def split: prod.splits)
    with x(2) live show ?thesis by (simp add: kept_def)
  next
    case (Inr u)
    then show ?thesis using x(1) l b by (auto simp: execute_step_def Let_def)
  qed
qed

lemma configuration_success:
  "configuration_body e now obj i s = (Inr (), obj', s') \<Longrightarrow> verify_basic_configuration (ps_configuration obj) = Inr ()"
  by (auto simp: configuration_body_def Let_def case_prod_unfold split: sum.splits)

lemma service_success:
  assumes "service_body e now obj i s = (Inr (), obj', s')"
  shows "ps_service_type obj \<noteq> SvcPppoe"
proof
  assume t: "ps_service_type obj = SvcPppoe"
  have v: "fst (on_dev (verify_service_configuration e now c SvcPppoe config) u) = Inl (no_attribute ''MikroTikClient'' ''get_pppoe_servers'')"
    for c config and u :: "'a prov"
    by (simp add: on_dev_def verify_service_configuration_def)
  show False using assms by (simp add: service_body_def Let_def case_prod_unfold t v split: sum.splits)
qed

text \<open>
  Some sessions can never complete over a direct connection: the checks at the end of a step call
  methods that the client for devices does not have. A PPPoE service, a configuration that sets the
  identity of the router and one that names its address pool always end as failed, even on a device that
  accepts every command.
\<close>

theorem unverifiable_sessions_fail:
  assumes live: "ps_status obj = PvInProgress" and row: "row_of (ps_id obj) s \<noteq> None"
    and what: "ps_service_type obj = SvcPppoe \<or> map_of (ps_configuration obj) ''identity'' \<noteq> None \<or> map_of (ps_configuration obj) ''pool_name'' \<noteq> None"
  shows "\<exists>p. row_of (ps_id obj) (snd (execute_provisioning_workflow e now obj s)) = Some p \<and> failed_row p"
proof (rule workflow_rule [OF live row, where P = "\<lambda>a. \<exists>p. row_of (ps_id obj) (snd a) = Some p \<and> failed_row p"])
  fix o1 s1 o2 s2 o3 s3
  assume k: "kept (obj, s) (o1, s1)" "kept (o1, s1) (o2, s2)" "kept (o2, s2) (o3, s3)"
    and c: "execute_configuration_step e now o1 s1 = (Inr (), o2, s2)"
    and v: "execute_service_setup_step e now o2 s2 = (Inr (), o3, s3)"
  have r1: "row_of (ps_id o1) s1 \<noteq> None" "ps_status o1 = PvInProgress" using kept_row [OF k(1) row] k(1) live by (simp_all add: kept_def)
  have r2: "row_of (ps_id o2) s2 \<noteq> None" "ps_status o2 = PvInProgress" using kept_row [OF k(2) r1(1)] k(2) r1(2) by (simp_all add: kept_def)
  have "\<exists>i t. configuration_body e now o1 i t = (Inr (), o2, s2)"
    by (rule step_success [OF _ r1 c [unfolded execute_configuration_step_def] k(2)]) (rule configuration_body_kept)
  then have "verify_basic_configuration (ps_configuration o1) = Inr ()" using configuration_success by blast
  moreover have "\<exists>i t. service_body e now o2 i t = (Inr (), o3, s3)"
    by (rule step_success [OF _ r2 v [unfolded execute_service_setup_step_def] k(3)]) (rule service_body_kept)
  then have "ps_service_type o2 \<noteq> SvcPppoe" using service_success by blast
  ultimately have False using what k(1,2) by (auto simp: kept_def verify_basic_configuration_def split: if_splits)
  then show "\<exists>p. row_of (ps_id obj) (snd (complete_workflow e now o3 s3)) = Some p \<and> failed_row p" by simp
qed (auto simp: failed_at_def)

section \<open>Rollback\<close>

text \<open>
  A failed session is not rolled back: the automatic rollback asks the router service for a method it
  does not have and swallows the exception. The device and the log of commands stay as the failure left
  them; the row says that a rollback is required and never that one was completed.
\<close>

theorem failed_session_is_not_rolled_back:
  assumes "row_of (ps_id obj) s = Some p"
  shows "let s' = snd (handle_provisioning_error e now obj msg s)
         in dev s' = dev s \<and> pv_commands (pdb s') = pv_commands (pdb s)
            \<and> (\<exists>p'. row_of (ps_id obj) s' = Some p' \<and> ps_status p' = PvFailed \<and> ps_rollback_completed p' = ps_rollback_completed p
                  \<and> ps_rollback_required p' = (jtrue (cfg (ps_configuration obj) ''rollback_on_failure'' (JBool True)) \<or> ps_rollback_required p))"
  using assms
  by (simp add: handle_provisioning_error_def Let_def case_prod_unfold assign_def row_of_def tbl_get_tbl_upd)

section \<open>Sessions of one router\<close>

lemma two_found: "a \<in> set xs \<Longrightarrow> b \<in> set xs \<Longrightarrow> a \<noteq> b \<Longrightarrow> scalar_one_or_none xs = Inl MultipleResultsFound"
  by (cases xs rule: remdups_adj.cases) (auto simp: scalar_one_or_none_def)

lemma session_lookup_upd:
  assumes "\<And>q. ps_session_id (f q) = ps_session_id q"
  shows "get_session_by_id sid (upd_session i f d) = map_option (\<lambda>q. if ps_id q = i then f q else q) (get_session_by_id sid d)"
proof -
  have "find (\<lambda>r. ps_session_id r = sid) (map (\<lambda>r. if ps_id r = i then f r else r) t) =
      map_option (\<lambda>q. if ps_id q = i then f q else q) (find (\<lambda>r. ps_session_id r = sid) t)" for t
    using assms by (induction t) auto
  then show ?thesis by (simp add: get_session_by_id_def tbl_get_def tbl_upd_def)
qed

lemma queue_script_routers [simp]: "routers (queue_script e now rt p b) = routers b"
  by (simp add: queue_script_def queue_command_def Let_def add_command_def)

text \<open>
  A retry can lock a router out of provisioning: it makes a failed session active again without looking
  for another one. When the router's agent takes the work over, both sessions stay active, and from
  then on creating a session for the router raises because the search for the active one finds two.
\<close>

theorem retry_locks_router:
  assumes p: "get_session_by_id sid (pdb s) = Some p" "ps_status p = PvFailed"
    and q: "q \<in> set (pv_sessions (pdb s))" "ps_id q \<noteq> ps_id p" "ps_router_id q = ps_router_id p" "active (ps_status q)"
    and rt: "ps_router_id p > 0" "tbl_get rt_id (ps_router_id p) (routers (pv_base (pdb s))) = Some rt" "agent_ready rt"
  shows "let s' = snd (snd (retry_provisioning e now sid from_step reset upd s))
         in create_provisioning_session e later (ps_router_id p) uid t c prio tid sched (pdb s') = (Inl MultipleResultsFound, pdb s')"
proof -
  let ?st = "case from_step of None \<Rightarrow> StepConnection | Some st \<Rightarrow> st"
  let ?c = "if upd = [] then ps_configuration p else if reset then upd else merge_config (ps_configuration p) upd"
  define f :: "prov_session \<Rightarrow> prov_session" where "f = (\<lambda>q. q\<lparr>ps_status := PvPending, ps_error_message := None, ps_success := False, ps_rollback_required := False,
     ps_rollback_completed := False, ps_configuration := ?c, ps_current_step := ?st, ps_progress := of_int (step_order ?st - 1) * (333 / 10)\<rparr>)"
  define g :: "prov_session \<Rightarrow> prov_session" where "g = (\<lambda>p. p\<lparr>ps_status := PvInProgress, ps_started_at := Some now, ps_current_step := StepConnection\<rparr>)"
  define d1 where "d1 = (upd_session (ps_id p) f (pdb s))\<lparr>pv_steps :=
     upd_where (\<lambda>l. sl_session_id l = ps_id p \<and> sl_step_order l \<ge> step_order ?st) reset_step (pv_steps (pdb s))\<rparr>"
  have f: "ps_id (f x) = ps_id x" "ps_session_id (f x) = ps_session_id x" "ps_router_id (f x) = ps_router_id x" "ps_status (f x) = PvPending" for x
    by (simp_all add: f_def)
  have "get_session_by_id sid d1 = get_session_by_id sid (upd_session (ps_id p) f (pdb s))" by (simp add: d1_def get_session_by_id_def)
  then have look: "get_session_by_id sid d1 = Some (f p)" by (simp add: session_lookup_upd f p)
  let ?s1 = "s\<lparr>pdb := d1\<rparr>"
  let ?s' = "snd (snd (retry_provisioning e now sid from_step reset upd s))"
  have "retry_provisioning e now sid from_step reset upd s = start_provisioning e now sid ?s1"
    by (simp add: retry_provisioning_def p Let_def on_pdb_def d1_def f_def)
  also have "snd (snd \<dots>) = on_pdb (\<lambda>d. d\<lparr>pv_base := queue_script e now rt (g (f p)) (pv_base d)\<rparr>) (snd (assign g (f p) ?s1))"
    using rt by (simp add: start_provisioning_def look f Let_def assign_def g_def [symmetric] get_router_by_id_def)
      (simp add: g_def f d1_def get_router_by_id_def)
  finally have s': "?s' = on_pdb (\<lambda>d. d\<lparr>pv_base := queue_script e now rt (g (f p)) (pv_base d)\<rparr>) (snd (assign g (f p) ?s1))" .
  have mem: "(if ps_id x = i then h x else x) \<in> set (tbl_upd ps_id i h xs)" if "x \<in> set xs" for x xs i h
    using that by (auto simp: tbl_upd_def)
  have rows: "pv_sessions (pdb ?s') = tbl_upd ps_id (ps_id p) g (tbl_upd ps_id (ps_id p) f (pv_sessions (pdb s)))"
    "routers (pv_base (pdb ?s')) = routers (pv_base (pdb s))"
    by (simp_all add: s' assign_def f d1_def)
  have "p \<in> set (pv_sessions (pdb s))" using p(1) by (auto simp: get_session_by_id_def)
  then have "g (f p) \<in> set (pv_sessions (pdb ?s'))" "q \<in> set (pv_sessions (pdb ?s'))"
    using mem [OF mem, of p "pv_sessions (pdb s)" "ps_id p" f "ps_id p" g] mem [OF mem, of q "pv_sessions (pdb s)" "ps_id p" f "ps_id p" g] q(1,2)
    by (simp_all add: rows f)
  moreover have "g (f p) \<noteq> q" using q(2) by (auto simp: g_def f)
  ultimately have "get_active_session (ps_router_id p) (pdb ?s') = Inl MultipleResultsFound"
    unfolding get_active_session_def using q(3,4)
    by (intro two_found [of "g (f p)" _ q]) (auto simp: g_def f active_def)
  then show ?thesis using rt by (simp add: Let_def create_provisioning_session_def get_router_by_id_def rows(2))
qed

section \<open>Cancelling\<close>

lemma rollback_rows:
  "map ps_id (pv_sessions (pdb (run_rollback e now c ps s))) = map ps_id (pv_sessions (pdb s))"
  "pv_sessions (pdb (run_rollback e now c ps s)) = pv_sessions (pdb s)"
proof -
  show "pv_sessions (pdb (run_rollback e now c ps s)) = pv_sessions (pdb s)"
    by (induction ps arbitrary: s) (auto split: prod.split sum.split)
  then show "map ps_id (pv_sessions (pdb (run_rollback e now c ps s))) = map ps_id (pv_sessions (pdb s))" by simp
qed

lemma service_rollback_row:
  assumes "row_of i s = Some p"
  shows "\<exists>p'. row_of i (execute_service_rollback e now obj s) = Some p' \<and> ps_status p' = ps_status p"
  using assms
  by (auto simp: execute_service_rollback_def row_of_def tbl_get_tbl_upd rollback_rows(2) split: sum.split prod.split)

text \<open>
  A cancelled session can still complete: the workflow goes on with the object it loaded, whose status
  the cancellation does not touch, and at its end writes the status of the object over the row. The
  cancellation is accepted and the row is cancelled, and afterwards the same row is completed and
  successful.
\<close>

theorem cancelled_session_completes:
  assumes p: "get_session_by_id sid (pdb s) = Some p" "active (ps_status p)"
    and obj: "ps_id obj = ps_id p" "ps_status obj = PvInProgress"
  shows "let (ok, s1) = cancel_provisioning e now sid reason force s; s2 = snd (complete_workflow e later obj s1)
         in ok \<and> (\<exists>q. row_of (ps_id p) s1 = Some q \<and> ps_status q = PvCancelled)
            \<and> (\<exists>q. row_of (ps_id p) s2 = Some q \<and> completed_row q)"
proof -
  let ?m = "if truthy reason then ''Cancelled by user: '' @ the reason else ''Cancelled by user''"
  let ?f = "\<lambda>p. p\<lparr>ps_status := PvCancelled, ps_error_message := Some ?m, ps_completed_at := Some now\<rparr>"
  let ?g = "\<lambda>d. d\<lparr>pv_steps := upd_where (\<lambda>l. sl_session_id l = ps_id p \<and> sl_status l = PvPending) (\<lambda>l. l\<lparr>sl_status := PvCancelled\<rparr>) (pv_steps d)\<rparr>"
  obtain q where q: "row_of (ps_id p) s = Some q"
    using p(1) by (auto simp: get_session_by_id_def row_of_def dest!: tbl_get_Some) (metis option.exhaust tbl_get_None image_eqI)
  have r: "row_of (ps_id p) (on_pdb ?g (snd (assign ?f p s))) = Some (?f q)"
    using row_assign [OF q, of ?f] by (simp add: row_of_def)
  obtain s1 where s1: "cancel_provisioning e now sid reason force s = (True, s1)"
    using p by (simp add: cancel_provisioning_def Let_def assign_def)
  have "\<exists>q'. row_of (ps_id p) s1 = Some q' \<and> ps_status q' = PvCancelled"
    using s1 p r service_rollback_row [OF r, of e now "?f p"]
    by (auto simp: cancel_provisioning_def Let_def case_prod_unfold assign_def [of ?f p s] split: if_splits)
  then obtain q' where q': "row_of (ps_id p) s1 = Some q'" "ps_status q' = PvCancelled" by blast
  let ?h = "\<lambda>p. p\<lparr>ps_status := PvCompleted, ps_success := True, ps_completed_at := Some later, ps_progress := 100\<rparr>"
  have "row_of (ps_id obj) (snd (assign ?h obj s1)) = Some (?h q')" by (rule row_assign) (simp_all add: obj q')
  then have "row_of (ps_id p) (snd (complete_workflow e later obj s1)) = Some (?h q')"
    by (simp add: complete_workflow_def Let_def case_prod_unfold obj)
  then show ?thesis using s1 q' by (simp add: completed_row_def)
qed

section \<open>Tasks\<close>

text \<open>
  Starting a session a second time destroys it: the task that starts a session marks every session that is
  not waiting as failed, also one that is running or has completed. The two schedulers may both queue
  the same session, and then the second task fails the one that the first has started.
\<close>

theorem second_start_fails_session:
  assumes "get_session_by_id sid (pdb s) = Some p" "ps_status p \<noteq> PvPending"
  shows "let (ok, s') = execute_workflow_task e now sid s
         in \<not> ok \<and> (\<exists>q. get_session_by_id sid (pdb s') = Some q \<and> failed_row q \<and> ps_id q = ps_id p)"
  using assms by (simp add: execute_workflow_task_def Let_def update_session_def session_lookup_upd failed_row_def)

section \<open>Commands of a session\<close>

definition last_command :: "prov_command list \<Rightarrow> int \<Rightarrow> prov_command \<Rightarrow> 'w prov \<Rightarrow> bool" where
  \<comment> \<open>the row of the command that is being executed is the last one\<close>
  "last_command old i row s \<longleftrightarrow> pv_commands (pdb s) = old @ [row] \<and> pc_id row = i \<and> i \<notin> pc_id ` set old"

lemma last_command_upd:
  "last_command old i row s \<Longrightarrow> (\<And>r. pc_id (f r) = pc_id r) \<Longrightarrow> last_command old i (f row) (on_pdb (upd_prov_command i f) s)"
proof -
  assume a: "last_command old i row s" and f: "\<And>r. pc_id (f r) = pc_id r"
  have "tbl_upd pc_id i f old = old" using a by (intro tbl_upd_absent) (auto simp: last_command_def tbl_get_None)
  with a f show ?thesis by (simp add: last_command_def upd_prov_command_def tbl_upd_def)
qed

lemma last_command_dev: "on_dev f s = (r, s') \<Longrightarrow> last_command old i row s' \<longleftrightarrow> last_command old i row s"
  by (simp add: last_command_def)

definition verdict :: "bool \<Rightarrow> nat \<Rightarrow> prov_command \<Rightarrow> prov_command \<Rightarrow> bool" where
  "verdict ok n row row' \<longleftrightarrow>
     pc_success row' = ok \<and> pc_status row' = (if ok then PvCompleted else PvFailed)
     \<and> pc_retry_count row' \<le> max (pc_retry_count row) n \<and> (\<not> ok \<longrightarrow> pc_retry_count row' = n \<and> pc_error_message row' \<noteq> None)
     \<and> pc_command row' = pc_command row \<and> pc_execution_order row' = pc_execution_order row"

abbreviation started :: "datetime \<Rightarrow> prov_command \<Rightarrow> prov_command" where
  "started now p \<equiv> p\<lparr>pc_executed_at := Some now, pc_status := PvInProgress\<rparr>"

abbreviation attempt_refused :: "nat \<Rightarrow> exn \<Rightarrow> prov_command \<Rightarrow> prov_command" where
  "attempt_refused a x p \<equiv> p\<lparr>pc_retry_count := a + 1, pc_error_message := Some (exn_msg x), pc_success := False\<rparr>"

lemma attempt_starts:
  assumes "last_command old i row s" "on_dev (run_text e now c cd) (on_pdb (upd_prov_command i (started now)) s) = (r, s1)"
  shows "last_command old i (started now row) s1"
  unfolding last_command_dev [OF assms(2)] by (rule last_command_upd [where f = "started now", OF assms(1)]) simp

lemma attempt_accepted:
  assumes r: "on_dev (run_text e now c cd) (on_pdb (upd_prov_command i (started now)) s) = (r, s1)"
    and l: "last_command old i (started now row) s1" and row: "pc_retry_count row \<le> a"
    and ok: "\<And>x. r = Inl x \<Longrightarrow> already_exists (map lower (exn_msg x))"
  shows "\<exists>row'. last_command old i row' (snd (command_attempts e now rt i cd a n c s))
    \<and> verdict (fst (fst (command_attempts e now rt i cd a n c s))) (a + n + 1) row row'"
proof -
  define out where "out = (case r of Inr out \<Rightarrow> if out = [] then None else Some (Answer out) | Inl x \<Rightarrow> Some (Note ''Resource already exists''))"
  let ?f = "\<lambda>p. p\<lparr>pc_output := out, pc_success := True, pc_status := PvCompleted\<rparr>"
  have "last_command old i (?f (started now row)) (on_pdb (upd_prov_command i ?f) s1)" by (rule last_command_upd [where f = ?f, OF l]) simp
  with ok row show ?thesis
    by (intro exI [of _ "?f (started now row)"], cases r)
      (simp_all add: command_attempts.simps [of e now rt i cd a n c s] r Let_def verdict_def out_def)
qed

lemma attempts_verdict:
  assumes "last_command old i row s" "pc_retry_count row \<le> a"
  shows "\<exists>row'. last_command old i row' (snd (command_attempts e now rt i cd a n c s))
    \<and> verdict (fst (fst (command_attempts e now rt i cd a n c s))) (a + n + 1) row row'"
  using assms
proof (induction n arbitrary: a c s row)
  case (Suc n)
  obtain r s1 where r: "on_dev (run_text e now c cd) (on_pdb (upd_prov_command i (started now)) s) = (r, s1)" by (metis surj_pair)
  note l1 = attempt_starts [OF Suc.prems(1) r]
  show ?case
  proof (cases "\<exists>x. r = Inl x \<and> \<not> already_exists (map lower (exn_msg x))")
    case True
    then obtain x where x: "r = Inl x" "\<not> already_exists (map lower (exn_msg x))" by blast
    let ?s2 = "on_pdb (upd_prov_command i (attempt_refused a x)) s1" and ?again = "\<lambda>p. p\<lparr>pc_status := PvPending\<rparr>"
    have l2: "last_command old i (attempt_refused a x (started now row)) ?s2" by (rule last_command_upd [where f = "attempt_refused a x", OF l1]) simp
    obtain c' s3 where c: "(if socket_error x then on_dev (reconnect e now rt c) ?s2 else (c, ?s2)) = (c', s3)" by (metis surj_pair)
    have l3: "last_command old i (attempt_refused a x (started now row)) s3" using c l2 last_command_dev by (metis prod.inject)
    let ?s4 = "on_pdb (upd_prov_command i ?again) s3"
    have "last_command old i (?again (attempt_refused a x (started now row))) ?s4" by (rule last_command_upd [where f = ?again, OF l3]) simp
    from Suc.IH [OF this, of "a + 1" c'] obtain row' where
      "last_command old i row' (snd (command_attempts e now rt i cd (a + 1) n c' ?s4))"
      "verdict (fst (fst (command_attempts e now rt i cd (a + 1) n c' ?s4))) (a + 1 + n + 1) (?again (attempt_refused a x (started now row))) row'"
      by auto
    moreover have "command_attempts e now rt i cd a (Suc n) c s = command_attempts e now rt i cd (a + 1) n c' ?s4"
    proof (cases "socket_error x")
      case True
      with c x show ?thesis by (simp add: command_attempts.simps [of e now rt i cd a] r Let_def)
    next
      case no: False
      with c have "c' = c" "s3 = ?s2" by simp_all
      with no x show ?thesis by (simp add: command_attempts.simps [of e now rt i cd a] r Let_def)
    qed
    ultimately show ?thesis by (auto simp: verdict_def)
  qed (blast intro: attempt_accepted [OF r l1 Suc.prems(2)])
next
  case 0
  obtain r s1 where r: "on_dev (run_text e now c cd) (on_pdb (upd_prov_command i (started now)) s) = (r, s1)" by (metis surj_pair)
  note l1 = attempt_starts [OF "0.prems"(1) r]
  show ?case
  proof (cases "\<exists>x. r = Inl x \<and> \<not> already_exists (map lower (exn_msg x))")
    case True
    then obtain x where x: "r = Inl x" "\<not> already_exists (map lower (exn_msg x))" by blast
    let ?h = "\<lambda>p. p\<lparr>pc_status := PvFailed\<rparr>"
    have "last_command old i (?h (attempt_refused a x (started now row))) (on_pdb (upd_prov_command i ?h) (on_pdb (upd_prov_command i (attempt_refused a x)) s1))"
      by (rule last_command_upd [where f = ?h, OF last_command_upd [where f = "attempt_refused a x", OF l1]]) simp_all
    with x show ?thesis
      by (intro exI [of _ "?h (attempt_refused a x (started now row))"]) (simp add: command_attempts.simps r Let_def verdict_def)
  qed (blast intro: attempt_accepted [OF r l1 "0.prems"(2)])
qed

text \<open>
  Executing a command leaves one trace: exactly one row is added, it carries the text of the command, its
  status and its mark of success are the answer the workflow gets, and a command is given up only after
  four attempts, with the last error noted. The order of execution is never filled in.
\<close>

theorem command_is_recorded:
  assumes "\<forall>r \<in> set (pv_commands (pdb s)). pc_id r < pv_command_seq (pdb s)"
  shows "let ((ok, c'), s') = execute_command_with_retry e now obj rt c cd s
         in \<exists>row. pv_commands (pdb s') = pv_commands (pdb s) @ [row] \<and> pc_command row = cd_command cd
              \<and> pc_success row = ok \<and> pc_status row = (if ok then PvCompleted else PvFailed)
              \<and> pc_retry_count row \<le> 4 \<and> (\<not> ok \<longrightarrow> pc_retry_count row = 4 \<and> pc_error_message row \<noteq> None)
              \<and> pc_execution_order row = 0"
proof -
  let ?p = "new_command obj cd (pdb s)"
  let ?s = "on_pdb (\<lambda>d. d\<lparr>pv_commands := pv_commands d @ [?p], pv_command_seq := pv_command_seq d + 1\<rparr>) s"
  have "last_command (pv_commands (pdb s)) (pc_id ?p) ?p ?s"
    using assms by (auto simp: last_command_def new_command_def)
  from attempts_verdict [OF this, of 0 e now rt cd 3 c] show ?thesis
    by (auto simp: execute_command_with_retry_def last_command_def verdict_def new_command_def Let_def case_prod_unfold)
qed

section \<open>Examples\<close>

definition silent_device :: "unit routeros" where
  \<comment> \<open>a device that accepts every request and has nothing to show\<close>
  "silent_device = \<lparr>ros_api = \<lambda>c w. (Inr (), w), ros_call = \<lambda>c path m ps w. (Inr [], w), ros_disconnect = \<lambda>c w. (Inr (), w)\<rparr>"

definition quiet_environment :: "unit environment" where
  "quiet_environment = \<lparr>env_settings = \<lparr>frontend_url = None, backend_url = None, portal = cloud_settings\<rparr>, env_lib = silent_device,
     env_private = \<lambda>ip. True, env_token = str_int, env_upload = \<lambda>rt c w. (Inr True, w), env_merge = \<lambda>j t now. t, env_uuid = str_nat\<rparr>"

definition waiting_session :: prov_session where
  "waiting_session = \<lparr>ps_id = 1, ps_session_id = ''one'', ps_router_id = 1, ps_user_id = 1, ps_status = PvPending,
     ps_current_step = StepConnection, ps_progress = 0, ps_service_type = SvcPppoe, ps_configuration = lan_config,
     ps_priority = PrioNormal, ps_scheduled_at = None, ps_started_at = None, ps_completed_at = None, ps_timeout_at = None,
     ps_success = False, ps_error_message = None, ps_rollback_required = False, ps_rollback_completed = False, ps_created_at = 0\<rparr>"

definition session_state :: "ProvisioningStatus \<Rightarrow> unit prov" where
  \<comment> \<open>one session of a router without an agent\<close>
  "session_state st = \<lparr>pdb = create_step_logs 1 \<lparr>pv_sessions = [waiting_session\<lparr>ps_status := st\<rparr>], pv_steps = [], pv_commands = [],
       pv_templates = [], pv_configurations = [], pv_hotspot = [], pv_session_seq = 2, pv_step_seq = 1, pv_command_seq = 1,
       pv_template_seq = 1, pv_configuration_seq = 1, pv_base = empty_db\<lparr>routers := [router0\<lparr>rt_agent_installed := False\<rparr>]\<rparr>\<rparr>,
     checkins = [], dev = new_client ()\<rparr>"

lemma session_state_lookups:
  "get_session_by_id ''one'' (pdb (session_state st)) = Some (waiting_session\<lparr>ps_status := st\<rparr>)"
  "row_of 1 (session_state st) = Some (waiting_session\<lparr>ps_status := st\<rparr>)"
  "pv_commands (pdb (session_state st)) = []"
  "routers (pv_base (pdb (session_state st))) = [router0\<lparr>rt_agent_installed := False\<rparr>]"
  by (simp_all add: session_state_def waiting_session_def create_step_logs_def Let_def get_session_by_id_def row_of_def tbl_get_def)

theorem started_session_comes_to_an_end_witness:
  "\<exists>row. row_of 1 (snd (start_and_run quiet_environment 5 ''one'' (session_state PvPending))) = Some row \<and> (completed_row row \<or> failed_row row)"
  using started_session_comes_to_an_end [OF session_state_lookups(1) [of PvPending], of quiet_environment 5]
  by (simp add: session_state_lookups waiting_session_def tbl_get_def agent_ready_def router0_def)

theorem unverifiable_sessions_fail_witness:
  "\<exists>p. row_of 1 (snd (execute_provisioning_workflow quiet_environment 5 (waiting_session\<lparr>ps_status := PvInProgress\<rparr>) (session_state PvInProgress))) = Some p
     \<and> failed_row p"
  using unverifiable_sessions_fail [of "waiting_session\<lparr>ps_status := PvInProgress\<rparr>" "session_state PvInProgress" quiet_environment 5]
  by (simp add: session_state_lookups [unfolded waiting_session_def] waiting_session_def)

theorem command_is_recorded_witness:
  "let ((ok, c'), s') = execute_command_with_retry quiet_environment 5 waiting_session router0
       \<lparr>cn_ip = ''10.0.0.1'', cn_port = 8728, cn_username = ''admin'', cn_password = []\<rparr>
       (optional ''/system/identity/set name=edge'' ''Setting system identity'') (session_state PvInProgress)
   in \<exists>row. pv_commands (pdb s') = [row] \<and> pc_success row = ok"
  using command_is_recorded [of "session_state PvInProgress" quiet_environment 5 waiting_session router0
      "\<lparr>cn_ip = ''10.0.0.1'', cn_port = 8728, cn_username = ''admin'', cn_password = []\<rparr>"
      "optional ''/system/identity/set name=edge'' ''Setting system identity''"]
  by (auto simp: session_state_lookups Let_def case_prod_unfold)

end
