(* ===== verification/Spec2Isabelle.thy ===== *)
theory Spec2Isabelle
  imports Plan Agent_Queue Payment_Management Churn Rate_Limit Voucher_Ledger Support_Desk Agent_Script Voucher_Codes Provision_Safety
begin

text \<open>
  A verification development for the ISP billing backend: an application that sells internet
  access over MikroTik routers. Customers subscribe to service plans or buy packages in a
  captive portal; invoices, payments and vouchers settle what they owe; a paid subscription
  becomes a user on a router, an ended one is disabled there. Routers behind NAT are served by
  an agent that polls the backend for commands and reports their results, or reached through
  a tunnel; other routers are driven over a direct connection.

  \<^bold>\<open>The parts of the program and their theories.\<close> Paths are under \<open>src/app/\<close>.
  \<^item> \<open>Prelude\<close>: Python values (exceptions, \<open>int(str)\<close>, rounding, truth tests), tables as lists of
    rows, the SQLAlchemy session as a pair of a working and a committed database (\<open>cur\<close>,
    \<open>saved\<close>), batches. Locales: \<open>keyed_table\<close>, the contract of a table with a primary key, and
    \<open>sweep\<close>, the contract of the step of a batch.
  \<^item> \<open>Data_Model\<close>: the rows (\<open>models/*.py\<close>) and the database record; \<open>keyed_table\<close> is interpreted
    for the tables of the services. \<open>Samples\<close>: one concrete row per table.
  \<^item> \<open>Plan\<close>: the access window of a plan (\<open>models/plan.py\<close>) and the rate limits derived from it
    (\<open>modules/subscriptions/bandwidth_manager.py\<close>, \<open>api/v1/portal/hotspot.py\<close>). \<open>Plan_Service\<close>:
    the administration of plans (\<open>modules/plans/service.py\<close>), as the step relation \<open>plan_step\<close>.
  \<^item> \<open>Command_Text\<close>: the texts exchanged with the agent (\<open>services/router_agent.py\<close>,
    \<open>api/v1/router_agent.py\<close>): pipe-delimited commands, uptimes, telemetry. \<open>Agent_Script\<close>: how the
    script on the router reads the commands.
  \<^item> \<open>Router_Agent\<close> and \<open>Agent_Queue\<close>: \<open>RouterAgentService\<close> (queueing, polls, reports, clean-up,
    tokens, backups) and its endpoints; then the theory of the queue. The operations are one
    step relation \<open>agent_step\<close>; the locale \<open>dispatch_queue\<close> is what a poll promises, interpreted
    on \<open>handle_poll\<close>.
  \<^item> \<open>Router_Sync\<close>: \<open>SubscriptionRouterSyncService\<close> (\<open>modules/subscriptions/router_sync.py\<close>), over
    the agent queue and over a direct connection; its pass over unsynced subscriptions is an
    interpretation of \<open>sweep\<close>.
  \<^item> \<open>Subscription_Service\<close>: \<open>SubscriptionService\<close> (\<open>modules/subscriptions/service.py\<close>) with the
    constraints of its table; its requests are the step relation \<open>sub_step\<close>.
  \<^item> \<open>Expiry\<close> and \<open>Churn\<close>: the passes that end subscriptions and hotspot vouchers
    (\<open>expiry_manager.py\<close>), and that mark and purge the ones long gone (\<open>churn_manager.py\<close>); the
    passes are further interpretations of \<open>sweep\<close>.
  \<^item> \<open>Billing\<close>: \<open>BillingService\<close> (\<open>modules/billing/service.py\<close>): invoices, items, payments, gateway
    callbacks, numbering, statistics. The locale \<open>invoice_ledger\<close> is the contract of an
    operation that credits an invoice, interpreted on applying a payment.
  \<^item> \<open>Listing\<close>: pagination (\<open>api/deps.py\<close>), ILIKE searches and the paginated listings.
  \<^item> \<open>Payment_Management\<close>: \<open>PaymentManagementService\<close> (\<open>modules/billing/payments.py\<close>); \<open>invoice_ledger\<close>
    is interpreted once more, on the verification of payments.
  \<^item> \<open>Outbox\<close>: events and their publication (\<open>events/outbox.py\<close>), a second interpretation of
    \<open>dispatch_queue\<close>.
  \<^item> \<open>Credentials\<close> and \<open>Vouchers\<close>: the names, passwords and codes of hotspot customers
    (\<open>utils/hotspot_username.py\<close>) and the administration of vouchers
    (\<open>api/v1/business/vouchers.py\<close>). \<open>Voucher_Codes\<close>: which codes a redemption can find.
  \<^item> \<open>Dashboard_Bridge\<close>: the mirror of portal purchases in accounts, subscriptions and payments
    (\<open>services/hotspot_dashboard_bridge.py\<close>).
  \<^item> \<open>Portal_Access\<close> and \<open>Portal_Purchase\<close>: the captive portal (\<open>api/v1/portal/hotspot.py\<close>): packages,
    login, redemption, purchase and the three ways in which a payment is confirmed.
    \<open>Voucher_Ledger\<close>: all requests on vouchers as one relation that refines an abstract ledger.
  \<^item> \<open>Pppoe_Portal\<close>: the portal of PPPoE customers (\<open>api/v1/portal/pppoe.py\<close>,
    \<open>services/treasury_topup.py\<close>).
  \<^item> \<open>Rate_Limit\<close>: the counters of login attempts (\<open>core/rate_limit.py\<close>).
  \<^item> \<open>Identity\<close>: tenants and users from the events and claims of the sign-on service
    (\<open>events/consumer.py\<close>, \<open>core/sso.py\<close>) and the slug of a new tenant (\<open>api/v1/onboarding.py\<close>). The
    locale \<open>name_search\<close> is the contract of a loop that looks for a free name, interpreted for
    the three searches of the code.
  \<^item> \<open>Access_Control\<close>: roles, permissions, overrides and licences (\<open>modules/auth/rbac.py\<close>,
    \<open>core/rbac_decorators.py\<close>). \<open>Tokens\<close>: access and refresh tokens (\<open>core/security.py\<close>).
    \<open>Accounts\<close>: users, registration and login (\<open>modules/auth/users.py\<close>, \<open>modules/auth/service.py\<close>,
    \<open>api/v1/auth/auth.py\<close>).
  \<^item> \<open>Request_Guards\<close>: the dependencies in front of the endpoints (\<open>api/deps.py\<close>, \<open>api/deps_tenant.py\<close>,
    \<open>api/deps_org.py\<close>), the tenant of a request (\<open>core/tenant_middleware.py\<close>), and the guarded
    endpoints for users, new routers and new subscriptions. \<open>Request_Safety\<close>: what they allow.
  \<^item> \<open>Back_Office\<close>: leads, expenses, campaigns and tickets (\<open>modules/leads\<close>, \<open>modules/expenses\<close>,
    \<open>modules/campaigns\<close>, \<open>modules/tickets\<close>); \<open>Office_Requests\<close>: their endpoints, and the locale
    \<open>tenant_service\<close>, the contract of a service that works for one tenant at a time;
    \<open>Support_Desk\<close>: the second service for tickets (\<open>modules/support\<close>,
    \<open>api/v1/support/notifications.py\<close>).
  \<^item> \<open>Network_Config\<close> and \<open>Tunnel\<close>: the address plan of a router (\<open>modules/provisioning\<close>), and the
    addresses, peers and ports of the tunnel with the creation of routers
    (\<open>services/wireguard.py\<close>, \<open>api/v1/vpn.py\<close>, \<open>api/v1/provisioning/bootstrap.py\<close>,
    \<open>modules/routers/service.py\<close>).
  \<^item> \<open>Gateway_Filter\<close>: the payment gateways a customer is offered
    (\<open>modules/payments/gateway_filter.py\<close>).
  \<^item> \<open>Device_Client\<close>: the client for devices with its retries and circuit breaker (\<open>integrations/base.py\<close>,
    \<open>integrations/mikrotik/client.py\<close>); \<open>Device_Safety\<close>: what is true of it, with an interpretation of the locale
    \<open>refinement\<close> on the state of the breaker.
  \<^item> \<open>Provision_Commands\<close>: the commands a configuration is turned into
    (\<open>modules/provisioning/commands.py\<close>); \<open>Command_Safety\<close>: what they guarantee. \<open>Provisioning\<close>: sessions, their
    workflow, retries, rollback, templates and tasks (\<open>modules/provisioning/service.py\<close> and beside it
    \<open>verify.py\<close>, \<open>rollback.py\<close>, \<open>status.py\<close>, \<open>models/provisioning.py\<close>, \<open>tasks/provisioning_tasks.py\<close>);
    \<open>Provision_Safety\<close>: how sessions end and what is recorded of their commands.

  \<^bold>\<open>How the parts interact.\<close> A payment that settles an invoice calls
  \<open>activate_subscription_on_payment\<close>, which changes the subscription and synchronises it; so do
  the status changes of \<open>SubscriptionService\<close> and the expiry pass. The synchronisation queues a
  command for the agent, which a poll delivers and whose report sets the sync flag of the
  subscription, or calls the device at once. A redemption or a confirmed purchase takes
  credentials, queues a hotspot user, records events in the outbox and mirrors itself through
  the bridge. All of them share the database; the definitions call each other as the methods
  do.

  \<^bold>\<open>What is shown.\<close> For the queue: an invariant of the life cycle of commands over every
  interleaving, that polls deliver every due command once in order of urgency, what a report
  and the clean-up do, that only the token opens the endpoints, and round trips of the
  texts. For synchronisation: which command is queued, the round trip from queueing to the
  sync flag, that the pass reaches every unsynced user. For subscriptions: uniqueness,
  references and usage accounts over every sequence of the operations of the service, the exact effect of
  creation and of status changes, and that the passes end what is due and nothing else. For
  money: payments add up on their invoice in any order and through each way of crediting,
  settling activates the subscription, invoice numbers do not collide, the bounds of fees. For
  plans: the cap on the router and the expiry in the database are the same window, no
  operation leaves a dangling reference, a withdrawn plan is not sold. For vouchers: the
  refinement of the ledger, so that none is redeemed twice; fresh names and codes; what a
  redemption, a payment event and its repetition do. For events: the outbox drains in order,
  tenant events are idempotent. For names: the searches for a free one end. For the tunnel:
  addresses and ports stay unique, registration succeeds while there is room. For access: the
  check of a permission against the listing, the limit of attempts on an account, that the
  tokens of a login stand for its user, that the four guards for the organisation of a request keep a
  user in the own one (services that do without them, such as billing and the second service for tickets, are
  not covered), and
  that the routers of a provider stay within its plan as long as requests carry claims with the limit. For the back
  office: the rows of a
  tenant are out of reach of the requests of others to its endpoints, decisions on expenses are final. For
  provisioning: the interface to the internet never becomes a port of the bridge, the pages for a payment are let
  through before the login, versions are read back, a started session comes to an end, every command leaves one
  record; the client sends the commands it is given, and its breaker never opens. Several
  theorems state behaviour that the code has and presumably should not have; their texts say
  so.

  \<^bold>\<open>Parameters.\<close> The clock reading, random draws, tokens and UUIDs, the password hash and its
  check, and the texts of decimals and dates are arguments. The device behind a direct
  connection is a pair of functions on an arbitrary device state \<open>'dev\<close>: opening a connection
  and executing a command, each of which may fail; theorems hold for every device unless they
  say otherwise. Device_Client replaces that pair by the library \<open>routeros_api\<close>, three functions on the state of the
  outside world. The upload of pages over FTP, the test for private addresses and the change of a router's JSON column are
  parameters of provisioning. The treasury, the message broker and Redis are records of functions; what is
  relied on of them is a named hypothesis. So is the library that signs and reads tokens
  (\<open>jwt_documented\<close>: what was signed is read back until it expires); the claims of the sign-on
  service and the limits of the subscription service are functions of the request. Whether a text is an IP address is an argument.

  \<^bold>\<open>Bounds.\<close> There is no fuel: every recursion is structural or has a measure, but for the search
  for a free name, which is a \<open>partial_function (option)\<close>; it is shown to return as long as there
  are fewer than \<open>10 ^ 80\<close> tenants or \<open>10 ^ 8\<close> users, for the bases that leave room for the
  number. A subnet of prefix length \<open>n\<close> serves \<open>2 ^ (32 - n) - 3\<close> routers. Integer columns keep
  their 32 bits where the services add to them or take them from a request, with these exceptions: the telemetry of
  a poll is taken to fit its columns (\<open>apply_telemetry\<close>), and the counter of user names
  (\<open>generate_hotspot_credentials\<close>) and dates far in the future (\<open>access_expiry_from\<close>) are unbounded; amounts are exact
  rationals, rounded to two places where the code multiplies, and the upper bound of the
  NUMERIC(10,2) columns is modelled for plans only.

  \<^bold>\<open>Simplifications.\<close> Letters are ASCII, also where the code changes their case. Foreign keys are
  checked where the code relies on the error and not where it has looked the row up before: queueing a command and
  creating the settings of an organisation do not check theirs. An invoice for the subscription with id 0, which the
  schema rules out, skips the check of the subscription. The decorator of a permission is modelled with a session at hand.
  Where a failed flush leads to a second error of the session the class of the exception is that of the first.

  \<^bold>\<open>Not modelled.\<close> Concurrency inside one request (each operation runs as a transaction of its
  own, interleaved at operation boundaries); log output; the calls to external services (mail,
  SMS, payment gateways); the RouterOS scripts for bootstrap and the other parts of the agent's script, and the protocols of the device;
  analytics and reports, which only read; notifications and the settings of
  the user interface; the other Celery wrappers, which open a session and call the services.
\<close>

end
